(* ===== verification/Prelude.thy ===== *)
theory Prelude
  imports Main "HOL-Library.AList"
begin

text \<open>
  Shared material of the development: fallible results as sums, operations that change a
  state and may fail, and hash maps as association lists with the interface that the
  components rely on.

  Four collections carry the proofs of the components: \<open>result_simps\<close> (case analysis of
  fallible results), \<open>st_simps\<close> (unfolding of stateful operations), \<open>hmap_simps\<close> (lookups after hash map operations) and \<open>text_simps\<close>
  (printing and parsing).
\<close>

named_theorems result_simps
named_theorems st_simps
named_theorems hmap_simps
named_theorems text_simps

lemma inj_on_disjoint_union:
  "inj_on f A \<Longrightarrow> inj_on f B \<Longrightarrow> f ` A \<inter> f ` B = {} \<Longrightarrow> inj_on f (A \<union> B)"
  by (simp add: inj_on_Un) blast

section \<open>Results\<close>

text \<open>\<open>Result<A, E>\<close> is \<open>'e + 'a\<close>; \<open>rbind\<close> is the \<^verbatim>\<open>?\<close> operator and \<open>ok_or\<close> is
  \<^verbatim>\<open>Option::ok_or_else\<close>.\<close>

definition rbind :: "'e + 'a \<Rightarrow> ('a \<Rightarrow> 'e + 'b) \<Rightarrow> 'e + 'b" where
  "rbind r f = (case r of Inl e \<Rightarrow> Inl e | Inr a \<Rightarrow> f a)"

definition ok_or :: "'a option \<Rightarrow> 'e \<Rightarrow> 'e + 'a" where
  "ok_or x e = (case x of None \<Rightarrow> Inl e | Some a \<Rightarrow> Inr a)"

definition map_err :: "('e \<Rightarrow> 'f) \<Rightarrow> 'e + 'a \<Rightarrow> 'f + 'a" where
  "map_err f r = (case r of Inl e \<Rightarrow> Inl (f e) | Inr a \<Rightarrow> Inr a)"

text \<open>A loop over a list whose body may fail: it stops at the first error.\<close>

fun rfold :: "('x \<Rightarrow> 's \<Rightarrow> 'e + 's) \<Rightarrow> 'x list \<Rightarrow> 's \<Rightarrow> 'e + 's" where
  "rfold f [] s = Inr s"
| "rfold f (x # xs) s = (case f x s of Inl e \<Rightarrow> Inl e | Inr s' \<Rightarrow> rfold f xs s')"

text \<open>
  An operation on a state that may fail returns its result together with the state it leaves
  behind, also on failure: what had been written before an error stays written. \<open>st_bind\<close> is
  sequencing with \<^verbatim>\<open>?\<close>, \<open>st_err\<close> converts the error, \<open>st_zoom\<close> runs an operation on a part of
  the state and \<open>st_for\<close> is a loop that stops at the first error.
\<close>

type_synonym ('s, 'e, 'a) st = "'s \<Rightarrow> ('e + 'a) \<times> 's"

definition st_ok :: "'a \<Rightarrow> ('s, 'e, 'a) st" where
  "st_ok a s = (Inr a, s)"

definition st_fail :: "'e \<Rightarrow> ('s, 'e, 'a) st" where
  "st_fail e s = (Inl e, s)"

definition st_bind :: "('s, 'e, 'a) st \<Rightarrow> ('a \<Rightarrow> ('s, 'e, 'b) st) \<Rightarrow> ('s, 'e, 'b) st" where
  "st_bind m f s = (case m s of (Inl e, s') \<Rightarrow> (Inl e, s') | (Inr a, s') \<Rightarrow> f a s')"

definition st_lift :: "('s \<Rightarrow> 'e + 'a) \<Rightarrow> ('s, 'e, 'a) st" where
  "st_lift f s = (f s, s)"

definition st_err :: "('e \<Rightarrow> 'f) \<Rightarrow> ('s, 'e, 'a) st \<Rightarrow> ('s, 'f, 'a) st" where
  "st_err f m s = (case m s of (r, s') \<Rightarrow> (map_err f r, s'))"

definition st_zoom :: "('t \<Rightarrow> 's) \<Rightarrow> ('s \<Rightarrow> 't \<Rightarrow> 't) \<Rightarrow> ('s, 'e, 'a) st \<Rightarrow> ('t, 'e, 'a) st" where
  "st_zoom view put m t = (case m (view t) of (r, s') \<Rightarrow> (r, put s' t))"

fun st_for :: "('x \<Rightarrow> ('s, 'e, unit) st) \<Rightarrow> 'x list \<Rightarrow> ('s, 'e, unit) st" where
  "st_for f [] s = (Inr (), s)"
| "st_for f (x # xs) s = (case f x s of (Inl e, s') \<Rightarrow> (Inl e, s') | (Inr u, s') \<Rightarrow> st_for f xs s')"

lemma st_for_append:
  "st_for f (xs @ ys) s = (case st_for f xs s of (Inl e, s') \<Rightarrow> (Inl e, s') | (Inr u, s') \<Rightarrow> st_for f ys s')"
  by (induction xs arbitrary: s) (auto split: prod.splits sum.splits)

section \<open>Hash maps\<close>

text \<open>
  A \<^verbatim>\<open>HashMap\<close> is an association list with distinct keys. The order of the list stands for
  the iteration order of the map, which the standard library leaves open: no theorem about
  a component assumes anything of it.
\<close>

type_synonym ('k, 'v) hmap = "('k \<times> 'v) list"

abbreviation hm_get :: "('k, 'v) hmap \<Rightarrow> 'k \<Rightarrow> 'v option" where
  "hm_get m k \<equiv> map_of m k"

abbreviation hm_insert :: "'k \<Rightarrow> 'v \<Rightarrow> ('k, 'v) hmap \<Rightarrow> ('k, 'v) hmap" where
  "hm_insert k v m \<equiv> AList.update k v m"

abbreviation hm_remove :: "'k \<Rightarrow> ('k, 'v) hmap \<Rightarrow> ('k, 'v) hmap" where
  "hm_remove k m \<equiv> AList.delete k m"

definition hm_ok :: "('k, 'v) hmap \<Rightarrow> bool" where
  "hm_ok m \<longleftrightarrow> distinct (map fst m)"

text \<open>The interface the components use: what a lookup returns after each operation.\<close>

locale hash_map =
  fixes empty :: 'm
    and get :: "'m \<Rightarrow> 'k \<Rightarrow> 'v option"
    and insert :: "'k \<Rightarrow> 'v \<Rightarrow> 'm \<Rightarrow> 'm"
    and remove :: "'k \<Rightarrow> 'm \<Rightarrow> 'm"
    and ok :: "'m \<Rightarrow> bool"
  assumes get_empty: "get empty k = None"
    and get_insert: "get (insert k v m) k' = (if k' = k then Some v else get m k')"
    and get_remove: "get (remove k m) k' = (if k' = k then None else get m k')"
    and ok_empty: "ok empty"
    and ok_insert: "ok m \<Longrightarrow> ok (insert k v m)"
    and ok_remove: "ok m \<Longrightarrow> ok (remove k m)"
begin

lemma get_insert_same: "get (insert k v m) k = Some v"
  by (simp add: get_insert)

lemma ok_fold_insert: "ok m \<Longrightarrow> ok (fold (\<lambda>x. insert (key x) (val x)) xs m)"
  by (induction xs arbitrary: m) (auto simp: ok_insert)

lemma ok_fold_remove: "ok m \<Longrightarrow> ok (fold (\<lambda>x. remove (key x)) xs m)"
  by (induction xs arbitrary: m) (auto simp: ok_remove)

lemma get_fold_remove:
  "get (fold (\<lambda>x. remove (key x)) xs m) k = (if k \<in> key ` set xs then None else get m k)"
  by (induction xs arbitrary: m) (auto simp: get_remove)

lemma get_fold_insert_other:
  "k \<notin> key ` set xs \<Longrightarrow> get (fold (\<lambda>x. insert (key x) (val x)) xs m) k = get m k"
  by (induction xs arbitrary: m) (auto simp: get_insert)

lemma get_fold_insert_cases:
  "get (fold (\<lambda>x. insert (key x) (val x)) xs m) k = Some v \<Longrightarrow>
     (\<exists>x\<in>set xs. key x = k \<and> val x = v) \<or> get m k = Some v"
  by (induction xs arbitrary: m) (fastforce simp: get_insert split: if_splits)+

lemma get_fold_insert_mem:
  "k \<in> key ` set xs \<Longrightarrow>
     \<exists>x\<in>set xs. key x = k \<and> get (fold (\<lambda>x. insert (key x) (val x)) xs m) k = Some (val x)"
proof (induction xs arbitrary: m)
  case Nil
  then show ?case by simp
next
  case (Cons y ys)
  show ?case
  proof (cases "k \<in> key ` set ys")
    case True
    with Cons.IH [of "insert (key y) (val y) m"] show ?thesis by auto
  next
    case False
    with Cons.prems show ?thesis by (auto simp: get_fold_insert_other get_insert)
  qed
qed

end

lemmas [st_simps] = st_ok_def st_fail_def st_bind_def st_lift_def st_err_def st_zoom_def
  map_err_def rbind_def ok_or_def

interpretation hm: hash_map "[]" map_of AList.update AList.delete hm_ok
  by unfold_locales (auto simp: hm_ok_def update_conv' delete_conv' distinct_update distinct_delete)

lemma set_hm_insert:
  "hm_ok m \<Longrightarrow> set (hm_insert k v m) = Set.insert (k, v) {x \<in> set m. fst x \<noteq> k}"
  unfolding hm_ok_def by (induction m) force+

lemma set_hm_remove: "set (hm_remove k m) = {x \<in> set m. fst x \<noteq> k}"
  by (auto simp: AList.delete_eq)

lemma hm_get_iff: "hm_ok m \<Longrightarrow> hm_get m k = Some v \<longleftrightarrow> (k, v) \<in> set m"
  by (simp add: hm_ok_def map_of_eq_Some_iff)

lemmas [hmap_simps] = update_conv' delete_conv' hm.get_insert hm.get_remove
lemmas hm_ok_intros [intro] = hm.ok_empty hm.ok_insert hm.ok_remove

end
