(* ===== verification/Rrdp.thy ===== *)
theory Rrdp
  imports Prelude
begin

text \<open>
  The publication data model of \<^verbatim>\<open>src/src/commons/api/rrdp.rs\<close>: publish, update and withdraw
  elements, the object set of a publisher (\<open>CurrentObjects\<close>, a map from the hash of an object
  to the object), the verification and the application of a publication delta, and the
  snapshot and delta data of an RRDP session.

  The types of the external crate \<^verbatim>\<open>rpki\<close> (\<open>Base64\<close>, \<open>Hash\<close>, \<open>uri::Rsync\<close>) are type variables
  \<open>'b\<close>, \<open>'h\<close>, \<open>'u\<close>; what the code calls of them is the record \<open>rpki_api\<close>, an argument of
  every definition that uses it. Times are seconds; \<^verbatim>\<open>Time::now()\<close> is an argument.
\<close>

section \<open>Definitions\<close>

record ('b, 'u, 'h) rpki_api =
  to_hash :: "'b \<Rightarrow> 'h"
  size_approx :: "'b \<Rightarrow> nat"
  is_parent_of :: "'u \<Rightarrow> 'u \<Rightarrow> bool"

record ('b, 'u) publish_element =
  pe_base64 :: 'b
  pe_uri :: 'u

record ('b, 'u, 'h) update_element =
  ue_uri :: 'u
  ue_hash :: 'h
  ue_base64 :: 'b

record ('u, 'h) withdraw_element =
  we_uri :: 'u
  we_hash :: 'h

type_synonym ('b, 'u, 'h) current_objects = "('h, ('b, 'u) publish_element) hmap"

record ('b, 'u, 'h) delta_elements =
  de_publishes :: "('b, 'u) publish_element list"
  de_updates :: "('b, 'u, 'h) update_element list"
  de_withdraws :: "('u, 'h) withdraw_element list"

definition as_withdraw ::
  "('b, 'u, 'h) rpki_api \<Rightarrow> ('b, 'u) publish_element \<Rightarrow> ('u, 'h) withdraw_element" where
  "as_withdraw api p = \<lparr>we_uri = pe_uri p, we_hash = to_hash api (pe_base64 p)\<rparr>"

definition into_publish :: "('b, 'u, 'h) update_element \<Rightarrow> ('b, 'u) publish_element" where
  "into_publish u = \<lparr>pe_base64 = ue_base64 u, pe_uri = ue_uri u\<rparr>"

definition updates_staged ::
  "('b, 'u, 'h) update_element \<Rightarrow> ('b, 'u, 'h) update_element \<Rightarrow> ('b, 'u, 'h) update_element" where
  "updates_staged u staged = u\<lparr>ue_hash := ue_hash staged\<rparr>"

datatype 'u publication_delta_error =
    UriOutsideJail 'u 'u
  | ObjectAlreadyPresent 'u
  | NoObjectForHashAndOrUri 'u

definition co_elements :: "('b, 'u, 'h) current_objects \<Rightarrow> ('b, 'u) publish_element list" where
  "co_elements co = map snd co"

definition has_match :: "('b, 'u, 'h) current_objects \<Rightarrow> 'h \<Rightarrow> 'u \<Rightarrow> bool" where
  "has_match co h u = (case hm_get co h of Some el \<Rightarrow> pe_uri el = u | None \<Rightarrow> False)"

fun verify_publishes ::
  "('b, 'u, 'h) rpki_api \<Rightarrow> ('b, 'u, 'h) current_objects \<Rightarrow> 'u \<Rightarrow> ('b, 'u) publish_element list
   \<Rightarrow> 'u publication_delta_error + unit" where
  "verify_publishes api co jail [] = Inr ()"
| "verify_publishes api co jail (p # ps) =
     (if \<not> is_parent_of api jail (pe_uri p) then Inl (UriOutsideJail (pe_uri p) jail)
      else if hm_get co (to_hash api (pe_base64 p)) \<noteq> None then Inl (ObjectAlreadyPresent (pe_uri p))
      else verify_publishes api co jail ps)"

fun verify_updates ::
  "('b, 'u, 'h) rpki_api \<Rightarrow> ('b, 'u, 'h) current_objects \<Rightarrow> 'u \<Rightarrow> ('b, 'u, 'h) update_element list
   \<Rightarrow> 'u publication_delta_error + unit" where
  "verify_updates api co jail [] = Inr ()"
| "verify_updates api co jail (u # us) =
     (if \<not> is_parent_of api jail (ue_uri u) then Inl (UriOutsideJail (ue_uri u) jail)
      else if \<not> has_match co (ue_hash u) (ue_uri u) then Inl (NoObjectForHashAndOrUri (ue_uri u))
      else verify_updates api co jail us)"

fun verify_withdraws ::
  "('b, 'u, 'h) rpki_api \<Rightarrow> ('b, 'u, 'h) current_objects \<Rightarrow> 'u \<Rightarrow> ('u, 'h) withdraw_element list
   \<Rightarrow> 'u publication_delta_error + unit" where
  "verify_withdraws api co jail [] = Inr ()"
| "verify_withdraws api co jail (w # ws) =
     (if \<not> is_parent_of api jail (we_uri w) then Inl (UriOutsideJail (we_uri w) jail)
      else if \<not> has_match co (we_hash w) (we_uri w) then Inl (NoObjectForHashAndOrUri (we_uri w))
      else verify_withdraws api co jail ws)"

definition verify_delta ::
  "('b, 'u, 'h) rpki_api \<Rightarrow> ('b, 'u, 'h) current_objects \<Rightarrow> ('b, 'u, 'h) delta_elements \<Rightarrow> 'u
   \<Rightarrow> 'u publication_delta_error + unit" where
  "verify_delta api co delta jail =
     rbind (verify_publishes api co jail (de_publishes delta)) (\<lambda>_.
     rbind (verify_updates api co jail (de_updates delta)) (\<lambda>_.
     verify_withdraws api co jail (de_withdraws delta)))"

definition apply_publish ::
  "('b, 'u, 'h) rpki_api \<Rightarrow> ('b, 'u) publish_element \<Rightarrow> ('b, 'u, 'h) current_objects
   \<Rightarrow> ('b, 'u, 'h) current_objects" where
  "apply_publish api p co = hm_insert (to_hash api (pe_base64 p)) p co"

definition apply_update ::
  "('b, 'u, 'h) rpki_api \<Rightarrow> ('b, 'u, 'h) update_element \<Rightarrow> ('b, 'u, 'h) current_objects
   \<Rightarrow> ('b, 'u, 'h) current_objects" where
  "apply_update api u co =
     (let p = into_publish u
      in hm_insert (to_hash api (pe_base64 p)) p (hm_remove (ue_hash u) co))"

definition apply_withdraw ::
  "('u, 'h) withdraw_element \<Rightarrow> ('b, 'u, 'h) current_objects \<Rightarrow> ('b, 'u, 'h) current_objects" where
  "apply_withdraw w co = hm_remove (we_hash w) co"

definition apply_delta ::
  "('b, 'u, 'h) rpki_api \<Rightarrow> ('b, 'u, 'h) delta_elements \<Rightarrow> ('b, 'u, 'h) current_objects
   \<Rightarrow> ('b, 'u, 'h) current_objects" where
  "apply_delta api delta co =
     fold apply_withdraw (de_withdraws delta)
       (fold (apply_update api) (de_updates delta)
         (fold (apply_publish api) (de_publishes delta) co))"

definition co_size :: "('b, 'u, 'h) rpki_api \<Rightarrow> ('b, 'u, 'h) current_objects \<Rightarrow> nat" where
  "co_size api co = fold (\<lambda>el tot. tot + size_approx api (pe_base64 el)) (map snd co) 0"

definition to_list_reply :: "('b, 'u, 'h) current_objects \<Rightarrow> ('u \<times> 'h) list" where
  "to_list_reply co = map (\<lambda>(h, el). (pe_uri el, h)) co"

definition delta_len :: "('b, 'u, 'h) delta_elements \<Rightarrow> nat" where
  "delta_len d = length (de_publishes d) + length (de_updates d) + length (de_withdraws d)"

definition delta_size :: "('b, 'u, 'h) rpki_api \<Rightarrow> ('b, 'u, 'h) delta_elements \<Rightarrow> nat" where
  "delta_size api d =
     fold (\<lambda>p s. s + size_approx api (pe_base64 p)) (de_publishes d) 0
     + fold (\<lambda>u s. s + size_approx api (ue_base64 u)) (de_updates d) 0"

text \<open>The elements of an RFC 8181 delta as they are received, and their partition.\<close>

datatype ('b, 'u, 'h) publish_delta_element =
    PdPublish "('b, 'u) publish_element"
  | PdUpdate "('b, 'u, 'h) update_element"
  | PdWithdraw "('u, 'h) withdraw_element"

fun delta_elements_from ::
  "('b, 'u, 'h) publish_delta_element list \<Rightarrow> ('b, 'u, 'h) delta_elements" where
  "delta_elements_from [] = \<lparr>de_publishes = [], de_updates = [], de_withdraws = []\<rparr>"
| "delta_elements_from (el # els) =
     (let d = delta_elements_from els in
      case el of
        PdPublish p \<Rightarrow> d\<lparr>de_publishes := p # de_publishes d\<rparr>
      | PdUpdate u \<Rightarrow> d\<lparr>de_updates := u # de_updates d\<rparr>
      | PdWithdraw w \<Rightarrow> d\<lparr>de_withdraws := w # de_withdraws d\<rparr>)"

text \<open>Snapshot and delta data of an RRDP session. \<open>'r\<close> is the random part of the file names.\<close>

record ('b, 'u, 'h, 'r) snapshot_data =
  sd_random :: 'r
  sd_objects :: "('b, 'u, 'h) current_objects"

definition snapshot_create :: "'r \<Rightarrow> ('b, 'u, 'h, 'r) snapshot_data" where
  "snapshot_create rnd = \<lparr>sd_random = rnd, sd_objects = []\<rparr>"

definition with_new_random ::
  "'r \<Rightarrow> ('b, 'u, 'h, 'r) snapshot_data \<Rightarrow> ('b, 'u, 'h, 'r) snapshot_data" where
  "with_new_random rnd sd = \<lparr>sd_random = rnd, sd_objects = sd_objects sd\<rparr>"

definition with_delta ::
  "('b, 'u, 'h) rpki_api \<Rightarrow> 'r \<Rightarrow> ('b, 'u, 'h) delta_elements \<Rightarrow> ('b, 'u, 'h, 'r) snapshot_data
   \<Rightarrow> ('b, 'u, 'h, 'r) snapshot_data" where
  "with_delta api rnd els sd = \<lparr>sd_random = rnd, sd_objects = apply_delta api els (sd_objects sd)\<rparr>"

definition snapshot_size :: "('b, 'u, 'h) rpki_api \<Rightarrow> ('b, 'u, 'h, 'r) snapshot_data \<Rightarrow> nat" where
  "snapshot_size api sd =
     fold (\<lambda>p s. s + size_approx api (pe_base64 p)) (co_elements (sd_objects sd)) 0"

record ('b, 'u, 'h, 'r) delta_data =
  dd_random :: 'r
  dd_serial :: nat
  dd_time :: int
  dd_elements :: "('b, 'u, 'h) delta_elements"

definition older_than_seconds :: "int \<Rightarrow> ('b, 'u, 'h, 'r) delta_data \<Rightarrow> int \<Rightarrow> bool" where
  "older_than_seconds now d seconds = (dd_time d < now - seconds)"

definition younger_than_seconds :: "int \<Rightarrow> ('b, 'u, 'h, 'r) delta_data \<Rightarrow> int \<Rightarrow> bool" where
  "younger_than_seconds now d seconds = (dd_time d > now - seconds)"

section \<open>Object sets\<close>

text \<open>The content hash of an element, and the set of elements a map holds.\<close>

definition pe_hash :: "('b, 'u, 'h) rpki_api \<Rightarrow> ('b, 'u) publish_element \<Rightarrow> 'h" where
  "pe_hash api e = to_hash api (pe_base64 e)"

definition elems :: "('b, 'u, 'h) current_objects \<Rightarrow> ('b, 'u) publish_element set" where
  "elems co = set (co_elements co)"

text \<open>
  The index invariant of \<open>CurrentObjects\<close>: keys are distinct and every object is stored under
  its own content hash. \<open>uris_unique\<close>: no two objects share a URI. \<open>co_in_jail\<close>: every object
  lies under the publisher's base URI.
\<close>

definition co_wf :: "('b, 'u, 'h) rpki_api \<Rightarrow> ('b, 'u, 'h) current_objects \<Rightarrow> bool" where
  "co_wf api co \<longleftrightarrow> hm_ok co \<and> list_all (\<lambda>(h, el). h = pe_hash api el) co"

definition uris_unique :: "('b, 'u, 'h) current_objects \<Rightarrow> bool" where
  "uris_unique co \<longleftrightarrow> distinct (map pe_uri (co_elements co))"

definition co_in_jail :: "('b, 'u, 'h) rpki_api \<Rightarrow> 'u \<Rightarrow> ('b, 'u, 'h) current_objects \<Rightarrow> bool" where
  "co_in_jail api jail co \<longleftrightarrow> list_all (\<lambda>el. is_parent_of api jail (pe_uri el)) (co_elements co)"

text \<open>What RFC 8181 asks of a delta beyond what \<open>verify_delta\<close> checks: one element per URI, no
  publish on a URI in use, and new contents that are new.\<close>

definition delta_uris :: "('b, 'u, 'h) delta_elements \<Rightarrow> 'u list" where
  "delta_uris d = map pe_uri (de_publishes d) @ map ue_uri (de_updates d) @ map we_uri (de_withdraws d)"

definition delta_new_elements :: "('b, 'u, 'h) delta_elements \<Rightarrow> ('b, 'u) publish_element list" where
  "delta_new_elements d = de_publishes d @ map into_publish (de_updates d)"

definition delta_clean ::
  "('b, 'u, 'h) rpki_api \<Rightarrow> ('b, 'u, 'h) current_objects \<Rightarrow> ('b, 'u, 'h) delta_elements \<Rightarrow> bool" where
  "delta_clean api co d \<longleftrightarrow>
     distinct (delta_uris d)
     \<and> distinct (map (pe_hash api) (delta_new_elements d))
     \<and> list_all (\<lambda>e. hm_get co (pe_hash api e) = None) (delta_new_elements d)
     \<and> list_all (\<lambda>p. list_all (\<lambda>x. pe_uri x \<noteq> pe_uri p) (co_elements co)) (de_publishes d)"

text \<open>A concrete instance of the external functions, for the witnesses: contents are numbers, the
  hash of a content is its successor, URIs are paths and a jail is a proper prefix.\<close>

definition demo_api :: "(nat, nat list, nat) rpki_api" where
  "demo_api = \<lparr>to_hash = Suc, size_approx = (\<lambda>b. b),
     is_parent_of = (\<lambda>jail u. length jail < length u \<and> take (length jail) u = jail)\<rparr>"

definition demo_co :: "(nat, nat list, nat) current_objects" where
  "demo_co = [(11, \<lparr>pe_base64 = 10, pe_uri = [1, 1]\<rparr>), (21, \<lparr>pe_base64 = 20, pe_uri = [1, 2]\<rparr>)]"

definition demo_delta :: "(nat, nat list, nat) delta_elements" where
  "demo_delta =
     \<lparr>de_publishes = [\<lparr>pe_base64 = 30, pe_uri = [1, 3]\<rparr>],
      de_updates = [\<lparr>ue_uri = [1, 1], ue_hash = 11, ue_base64 = 40\<rparr>],
      de_withdraws = [\<lparr>we_uri = [1, 2], we_hash = 21\<rparr>]\<rparr>"

lemmas demo_defs = demo_api_def demo_co_def demo_delta_def

lemma elems_snd: "elems co = snd ` set co"
  by (simp add: elems_def co_elements_def)

lemma co_wf_set: "co_wf api co \<Longrightarrow> (h, e) \<in> set co \<longleftrightarrow> e \<in> elems co \<and> h = pe_hash api e"
  by (force simp: co_wf_def elems_snd list_all_iff)

lemma co_wf_get: "co_wf api co \<Longrightarrow> hm_get co h = Some e \<longleftrightarrow> e \<in> elems co \<and> h = pe_hash api e"
  using co_wf_set [of api co h e] by (auto simp: co_wf_def hm_get_iff)

lemma co_wf_get_None:
  "co_wf api co \<Longrightarrow> hm_get co h = None \<longleftrightarrow> (\<forall>e\<in>elems co. pe_hash api e \<noteq> h)"
  using co_wf_get [of api co h] by (metis not_Some_eq)

lemma co_wf_inj: "co_wf api co \<Longrightarrow> inj_on (pe_hash api) (elems co)"
  by (rule inj_onI) (metis co_wf_get option.inject)

lemma co_wf_Nil [simp]: "co_wf api []"
  by (simp add: co_wf_def hm.ok_empty)

lemma co_wf_insert:
  "co_wf api co \<Longrightarrow> h = pe_hash api e \<Longrightarrow> co_wf api (hm_insert h e co)"
  by (auto simp: co_wf_def list_all_iff set_hm_insert hm.ok_insert)

lemma co_wf_remove: "co_wf api co \<Longrightarrow> co_wf api (hm_remove h co)"
  by (auto simp: co_wf_def list_all_iff set_hm_remove hm.ok_remove)

lemma elems_insert:
  "co_wf api co \<Longrightarrow>
   elems (hm_insert (pe_hash api e) e co) = insert e {x \<in> elems co. pe_hash api x \<noteq> pe_hash api e}"
  by (force simp: elems_snd co_wf_def set_hm_insert list_all_iff)

lemma elems_remove: "co_wf api co \<Longrightarrow> elems (hm_remove h co) = {x \<in> elems co. pe_hash api x \<noteq> h}"
  by (force simp: elems_snd co_wf_def set_hm_remove list_all_iff)

lemma length_elems: "co_wf api co \<Longrightarrow> length co = card (elems co)"
proof -
  assume wf: "co_wf api co"
  have "distinct (map snd co)"
    using wf by (auto simp: co_wf_def hm_ok_def distinct_map list_all_iff inj_on_def) fastforce+
  then show ?thesis
    by (simp add: elems_snd distinct_card flip: set_map)
qed

lemma uris_unique_inj: "co_wf api co \<Longrightarrow> uris_unique co \<longleftrightarrow> inj_on pe_uri (elems co)"
proof -
  assume wf: "co_wf api co"
  have "card (pe_uri ` elems co) = length (map pe_uri (co_elements co)) \<longleftrightarrow> inj_on pe_uri (elems co)"
    using length_elems [OF wf] by (auto simp: co_elements_def elems_def intro: eq_card_imp_inj_on card_image)
  then show ?thesis
    by (auto simp: uris_unique_def elems_def card_distinct distinct_card simp flip: set_map)
qed

section \<open>Operations on object sets\<close>

text \<open>Each operation, read on the set of elements.\<close>

lemma apply_publish_wf: "co_wf api co \<Longrightarrow> co_wf api (apply_publish api p co)"
  by (simp add: apply_publish_def co_wf_insert pe_hash_def)

lemma apply_update_wf: "co_wf api co \<Longrightarrow> co_wf api (apply_update api u co)"
  by (simp add: apply_update_def Let_def co_wf_insert co_wf_remove pe_hash_def)

lemma apply_withdraw_wf: "co_wf api co \<Longrightarrow> co_wf api (apply_withdraw w co)"
  by (simp add: apply_withdraw_def co_wf_remove)

lemma elems_apply_publish:
  "co_wf api co \<Longrightarrow>
   elems (apply_publish api p co) = insert p {x \<in> elems co. pe_hash api x \<noteq> pe_hash api p}"
  using elems_insert [of api co p] by (simp add: apply_publish_def pe_hash_def)

lemma elems_apply_update:
  "co_wf api co \<Longrightarrow>
   elems (apply_update api u co) =
     insert (into_publish u)
       {x \<in> elems co. pe_hash api x \<noteq> ue_hash u \<and> pe_hash api x \<noteq> pe_hash api (into_publish u)}"
  using elems_insert [of api "hm_remove (ue_hash u) co" "into_publish u"]
  by (auto simp: apply_update_def Let_def pe_hash_def elems_remove [of api] co_wf_remove)

lemma elems_apply_withdraw:
  "co_wf api co \<Longrightarrow> elems (apply_withdraw w co) = {x \<in> elems co. pe_hash api x \<noteq> we_hash w}"
  by (simp add: apply_withdraw_def elems_remove)

lemma fold_publish_wf: "co_wf api co \<Longrightarrow> co_wf api (fold (apply_publish api) ps co)"
  by (induction ps arbitrary: co) (auto simp: apply_publish_wf)

lemma fold_update_wf: "co_wf api co \<Longrightarrow> co_wf api (fold (apply_update api) us co)"
  by (induction us arbitrary: co) (auto simp: apply_update_wf)

lemma fold_withdraw_wf: "co_wf api co \<Longrightarrow> co_wf api (fold apply_withdraw ws co)"
  by (induction ws arbitrary: co) (auto simp: apply_withdraw_wf)

lemma apply_delta_wf: "co_wf api co \<Longrightarrow> co_wf api (apply_delta api d co)"
  by (simp add: apply_delta_def fold_publish_wf fold_update_wf fold_withdraw_wf)

lemmas apply_wf = apply_publish_wf apply_update_wf apply_withdraw_wf
  fold_publish_wf fold_update_wf fold_withdraw_wf apply_delta_wf

text \<open>No operation brings in an element the delta does not carry.\<close>

lemma elems_fold_publish_subset:
  "co_wf api co \<Longrightarrow> elems (fold (apply_publish api) ps co) \<subseteq> set ps \<union> elems co"
proof (induction ps arbitrary: co)
  case (Cons p ps)
  then have "elems (fold (apply_publish api) ps (apply_publish api p co))
             \<subseteq> set ps \<union> elems (apply_publish api p co)"
    by (simp add: apply_wf)
  with Cons.prems show ?case by (auto simp: elems_apply_publish)
qed simp

lemma elems_fold_update_subset:
  "co_wf api co \<Longrightarrow> elems (fold (apply_update api) us co) \<subseteq> into_publish ` set us \<union> elems co"
proof (induction us arbitrary: co)
  case (Cons u us)
  then have "elems (fold (apply_update api) us (apply_update api u co))
             \<subseteq> into_publish ` set us \<union> elems (apply_update api u co)"
    by (simp add: apply_wf)
  with Cons.prems show ?case by (auto simp: elems_apply_update)
qed simp

lemma elems_fold_withdraw:
  "co_wf api co \<Longrightarrow>
   elems (fold apply_withdraw ws co) = {x \<in> elems co. pe_hash api x \<notin> we_hash ` set ws}"
  by (induction ws arbitrary: co) (auto simp: apply_wf elems_apply_withdraw)

lemma elems_apply_delta_subset:
  assumes "co_wf api co"
  shows "elems (apply_delta api d co) \<subseteq> set (delta_new_elements d) \<union> elems co"
proof -
  let ?p = "fold (apply_publish api) (de_publishes d) co"
  let ?u = "fold (apply_update api) (de_updates d) ?p"
  have "elems ?u \<subseteq> into_publish ` set (de_updates d) \<union> elems ?p"
    by (rule elems_fold_update_subset) (simp add: apply_wf assms)
  moreover have "elems ?p \<subseteq> set (de_publishes d) \<union> elems co"
    by (rule elems_fold_publish_subset [OF assms])
  ultimately show ?thesis
    by (auto simp: apply_delta_def delta_new_elements_def elems_fold_withdraw [where api = api] apply_wf assms)
qed

text \<open>When the new contents are new, nothing is overwritten by accident.\<close>

lemma elems_fold_publish:
  assumes "co_wf api co" and "distinct (map (pe_hash api) ps)"
    and "\<forall>p\<in>set ps. \<forall>x\<in>elems co. pe_hash api x \<noteq> pe_hash api p"
  shows "elems (fold (apply_publish api) ps co) = set ps \<union> elems co"
  using assms
proof (induction ps arbitrary: co)
  case Nil
  then show ?case by simp
next
  case (Cons p ps)
  have e: "elems (apply_publish api p co) = insert p (elems co)"
    using Cons.prems(1,3) by (auto simp: elems_apply_publish)
  have "elems (fold (apply_publish api) ps (apply_publish api p co))
        = set ps \<union> elems (apply_publish api p co)"
    using Cons.prems by (intro Cons.IH) (force simp: apply_wf e)+
  then show ?case by (simp add: e)
qed

lemma elems_fold_update:
  assumes "co_wf api co" and "distinct (map (pe_hash api \<circ> into_publish) us)"
    and "\<forall>u\<in>set us. \<forall>x\<in>elems co. pe_hash api x \<noteq> pe_hash api (into_publish u)"
    and "\<forall>u\<in>set us. \<forall>v\<in>set us. pe_hash api (into_publish u) \<noteq> ue_hash v"
  shows "elems (fold (apply_update api) us co) =
           into_publish ` set us \<union> {x \<in> elems co. pe_hash api x \<notin> ue_hash ` set us}"
  using assms
proof (induction us arbitrary: co)
  case Nil
  then show ?case by simp
next
  case (Cons u us)
  have e: "elems (apply_update api u co) =
             insert (into_publish u) {x \<in> elems co. pe_hash api x \<noteq> ue_hash u}"
    using Cons.prems(1,3) by (auto simp: elems_apply_update)
  have "elems (fold (apply_update api) us (apply_update api u co)) =
        into_publish ` set us \<union> {x \<in> elems (apply_update api u co). pe_hash api x \<notin> ue_hash ` set us}"
    using Cons.prems by (intro Cons.IH) (force simp: apply_wf e)+
  then show ?case using Cons.prems(4) by (auto simp: e)
qed

section \<open>Verification of deltas\<close>

lemma verify_publishes_ok:
  "verify_publishes api co jail ps = Inr () \<longleftrightarrow>
     (\<forall>p\<in>set ps. is_parent_of api jail (pe_uri p) \<and> hm_get co (pe_hash api p) = None)"
  by (induction ps) (auto simp: pe_hash_def)

lemma verify_updates_ok:
  "verify_updates api co jail us = Inr () \<longleftrightarrow>
     (\<forall>u\<in>set us. is_parent_of api jail (ue_uri u) \<and> has_match co (ue_hash u) (ue_uri u))"
  by (induction us) auto

lemma verify_withdraws_ok:
  "verify_withdraws api co jail ws = Inr () \<longleftrightarrow>
     (\<forall>w\<in>set ws. is_parent_of api jail (we_uri w) \<and> has_match co (we_hash w) (we_uri w))"
  by (induction ws) auto

lemma rbind_unit_ok [result_simps]: "rbind r f = Inr y \<longleftrightarrow> (\<exists>x. r = Inr x \<and> f x = Inr y)"
  by (simp add: rbind_def split: sum.split)

lemmas verify_ok = verify_publishes_ok verify_updates_ok verify_withdraws_ok

lemma has_match_elems:
  "co_wf api co \<Longrightarrow> has_match co h u \<longleftrightarrow> (\<exists>e\<in>elems co. pe_hash api e = h \<and> pe_uri e = u)"
  by (auto simp: has_match_def co_wf_get co_wf_get_None split: option.split dest: co_wf_inj [THEN inj_onD])

text \<open>In a well-formed object set with unique URIs, matched hashes and matched URIs pick the same
  elements.\<close>

lemma match_hash_uri:
  assumes "co_wf api co" and "inj_on pe_uri (elems co)" and "x \<in> elems co"
    and m: "\<forall>a\<in>A. \<exists>e\<in>elems co. pe_hash api e = fh a \<and> pe_uri e = fu a"
  shows "pe_hash api x \<in> fh ` A \<longleftrightarrow> pe_uri x \<in> fu ` A"
proof -
  have "pe_hash api x = fh a \<longleftrightarrow> pe_uri x = fu a" if "a \<in> A" for a
  proof -
    obtain e where e: "e \<in> elems co" "pe_hash api e = fh a" "pe_uri e = fu a"
      using m \<open>a \<in> A\<close> by blast
    have "pe_hash api x = pe_hash api e \<longleftrightarrow> x = e"
      using co_wf_inj [OF assms(1)] assms(3) e(1) by (auto dest: inj_onD)
    moreover have "pe_uri x = pe_uri e \<longleftrightarrow> x = e"
      using assms(2,3) e(1) by (auto dest: inj_onD)
    ultimately show ?thesis using e by simp
  qed
  then show ?thesis by auto
qed

text \<open>A delta whose new contents are new, and are none that it removes, removes exactly the objects it
  names by their hash.\<close>

lemma elems_new_delta:
  assumes wf: "co_wf api co"
    and new: "\<forall>e\<in>set (delta_new_elements d). \<forall>x\<in>elems co. pe_hash api x \<noteq> pe_hash api e"
    and dist: "distinct (map (pe_hash api) (delta_new_elements d))"
    and gone: "\<forall>e\<in>set (delta_new_elements d). pe_hash api e \<notin> ue_hash ` set (de_updates d)
      \<and> pe_hash api e \<notin> we_hash ` set (de_withdraws d)"
  shows "elems (apply_delta api d co) = set (delta_new_elements d)
    \<union> {x \<in> elems co. pe_hash api x \<notin> ue_hash ` set (de_updates d)
                        \<and> pe_hash api x \<notin> we_hash ` set (de_withdraws d)}"
proof -
  let ?P = "de_publishes d" and ?U = "de_updates d" and ?W = "de_withdraws d"
  let ?p = "fold (apply_publish api) ?P co"
  have ep: "elems ?p = set ?P \<union> elems co"
    using new dist by (intro elems_fold_publish wf) (auto simp: delta_new_elements_def)
  have "elems (fold (apply_update api) ?U ?p) =
      into_publish ` set ?U \<union> {x \<in> elems ?p. pe_hash api x \<notin> ue_hash ` set ?U}"
  proof (rule elems_fold_update)
    show "co_wf api ?p" by (simp add: apply_wf wf)
    show "distinct (map (pe_hash api \<circ> into_publish) ?U)"
      using dist by (simp add: delta_new_elements_def)
    show "\<forall>u\<in>set ?U. \<forall>x\<in>elems ?p. pe_hash api x \<noteq> pe_hash api (into_publish u)"
      using new dist by (force simp: ep delta_new_elements_def)
    show "\<forall>u\<in>set ?U. \<forall>v\<in>set ?U. pe_hash api (into_publish u) \<noteq> ue_hash v"
      using gone by (auto simp: delta_new_elements_def)
  qed
  then have "elems (apply_delta api d co) =
      {x \<in> into_publish ` set ?U \<union> {x \<in> set ?P \<union> elems co. pe_hash api x \<notin> ue_hash ` set ?U}.
         pe_hash api x \<notin> we_hash ` set ?W}"
    by (simp only: apply_delta_def elems_fold_withdraw [where api = api] apply_wf wf ep)
  then show ?thesis
    using gone unfolding delta_new_elements_def set_append set_map by blast
qed

text \<open>The content of a publisher after an accepted delta with one element per URI and new contents.\<close>

lemma accepted_delta_elems:
  assumes wf: "co_wf api co" and inj: "inj_on pe_uri (elems co)"
    and mu: "\<forall>u\<in>set (de_updates d). \<exists>e\<in>elems co. pe_hash api e = ue_hash u \<and> pe_uri e = ue_uri u"
    and mw: "\<forall>w\<in>set (de_withdraws d). \<exists>e\<in>elems co. pe_hash api e = we_hash w \<and> pe_uri e = we_uri w"
    and new: "\<forall>e\<in>set (delta_new_elements d). \<forall>x\<in>elems co. pe_hash api x \<noteq> pe_hash api e"
    and dist: "distinct (map (pe_hash api) (delta_new_elements d))"
    and free: "\<forall>p\<in>set (de_publishes d). \<forall>x\<in>elems co. pe_uri x \<noteq> pe_uri p"
  shows "elems (apply_delta api d co) =
    {e \<in> elems co. pe_uri e \<notin> set (delta_uris d)} \<union> set (delta_new_elements d)"
proof -
  let ?U = "de_updates d" and ?W = "de_withdraws d"
  have "\<forall>e\<in>set (delta_new_elements d). pe_hash api e \<notin> ue_hash ` set ?U \<and> pe_hash api e \<notin> we_hash ` set ?W"
    using new mu mw by (metis imageE)
  then have "elems (apply_delta api d co) = set (delta_new_elements d)
    \<union> {x \<in> elems co. pe_hash api x \<notin> ue_hash ` set ?U \<and> pe_hash api x \<notin> we_hash ` set ?W}"
    by (rule elems_new_delta [OF wf new dist])
  also have "\<dots> = set (delta_new_elements d)
    \<union> {x \<in> elems co. pe_uri x \<notin> ue_uri ` set ?U \<and> pe_uri x \<notin> we_uri ` set ?W}"
    by (simp add: match_hash_uri [OF wf inj _ mu] match_hash_uri [OF wf inj _ mw] cong: conj_cong)
  also have "\<dots> = {e \<in> elems co. pe_uri e \<notin> set (delta_uris d)} \<union> set (delta_new_elements d)"
    using free by (auto simp: delta_uris_def)
  finally show ?thesis .
qed

lemma verify_delta_match:
  assumes "co_wf api co" and "verify_delta api co d jail = Inr ()"
  shows "\<forall>u\<in>set (de_updates d). \<exists>e\<in>elems co. pe_hash api e = ue_hash u \<and> pe_uri e = ue_uri u"
    and "\<forall>w\<in>set (de_withdraws d). \<exists>e\<in>elems co. pe_hash api e = we_hash w \<and> pe_uri e = we_uri w"
  using assms by (auto simp: verify_delta_def result_simps verify_ok has_match_elems)

section \<open>Properties\<close>

text \<open>
  C12: \<open>verify_delta\<close> accepts a delta exactly when every element lies under the publisher's
  base URI, no published content is already held, and every update and withdraw names the
  hash of the object held at its URI.\<close>

theorem verify_delta_iff:
  "verify_delta api co d jail = Inr () \<longleftrightarrow>
     (\<forall>u\<in>set (delta_uris d). is_parent_of api jail u)
     \<and> (\<forall>p\<in>set (de_publishes d). hm_get co (to_hash api (pe_base64 p)) = None)
     \<and> (\<forall>u\<in>set (de_updates d). \<exists>e. hm_get co (ue_hash u) = Some e \<and> pe_uri e = ue_uri u)
     \<and> (\<forall>w\<in>set (de_withdraws d). \<exists>e. hm_get co (we_hash w) = Some e \<and> pe_uri e = we_uri w)"
proof -
  have m: "has_match co h u \<longleftrightarrow> (\<exists>e. hm_get co h = Some e \<and> pe_uri e = u)" for h u
    by (auto simp: has_match_def split: option.split)
  show ?thesis
    by (simp add: verify_delta_def result_simps verify_ok m pe_hash_def delta_uris_def) blast
qed

theorem verify_delta_iff_witness:
  "verify_delta demo_api demo_co demo_delta [1] = Inr ()"
  using verify_delta_iff [of demo_api demo_co demo_delta "[1]"]
  by (simp add: demo_defs delta_uris_def)

text \<open>
  C11: Applying an accepted delta keeps every object of a publisher under its base URI and
  keeps the index right: keys distinct and every object stored under its own content hash.\<close>

theorem publish_stays_in_jail:
  assumes "co_wf api co" and "co_in_jail api jail co" and "verify_delta api co d jail = Inr ()"
  shows "co_wf api (apply_delta api d co) \<and> co_in_jail api jail (apply_delta api d co)"
proof -
  have "\<forall>e\<in>set (delta_new_elements d). is_parent_of api jail (pe_uri e)"
    using assms(3) by (auto simp: verify_delta_def result_simps verify_ok delta_new_elements_def into_publish_def)
  moreover have "\<forall>e\<in>elems co. is_parent_of api jail (pe_uri e)"
    using assms(2) by (simp add: co_in_jail_def elems_def list_all_iff)
  ultimately have "\<forall>e\<in>elems (apply_delta api d co). is_parent_of api jail (pe_uri e)"
    using elems_apply_delta_subset [OF assms(1), of d] by blast
  then show ?thesis
    using assms(1) by (simp add: apply_wf co_in_jail_def elems_def list_all_iff)
qed

theorem publish_stays_in_jail_witness:
  "co_wf demo_api demo_co \<and> co_in_jail demo_api [1] demo_co
   \<and> verify_delta demo_api demo_co demo_delta [1] = Inr ()
   \<and> co_in_jail demo_api [1] (apply_delta demo_api demo_delta demo_co)"
proof -
  have h: "co_wf demo_api demo_co" "co_in_jail demo_api [1] demo_co"
    "verify_delta demo_api demo_co demo_delta [1] = Inr ()"
    by (simp_all add: demo_defs co_wf_def hm_ok_def pe_hash_def co_in_jail_def co_elements_def
        verify_delta_def rbind_def has_match_def)
  show ?thesis using h publish_stays_in_jail [OF h] by simp
qed

text \<open>
  C10: The content after an accepted delta that has one element per URI, publishes only on free
  URIs and carries only new contents is what the delta says: untouched objects stay, withdrawn
  ones go, published and updated ones appear with their new content, and URIs stay unique.\<close>

theorem verified_delta_content:
  assumes wf: "co_wf api co" and uu: "uris_unique co"
    and ok: "verify_delta api co d jail = Inr ()" and clean: "delta_clean api co d"
  shows "elems (apply_delta api d co) =
           {e \<in> elems co. pe_uri e \<notin> set (delta_uris d)} \<union> set (delta_new_elements d)
         \<and> uris_unique (apply_delta api d co)"
proof -
  have inj: "inj_on pe_uri (elems co)" using uris_unique_inj [OF wf] uu by simp
  have new: "\<forall>e\<in>set (delta_new_elements d). \<forall>x\<in>elems co. pe_hash api x \<noteq> pe_hash api e"
    and dist: "distinct (map (pe_hash api) (delta_new_elements d))"
    and free: "\<forall>p\<in>set (de_publishes d). \<forall>x\<in>elems co. pe_uri x \<noteq> pe_uri p"
    using clean by (simp_all add: delta_clean_def list_all_iff co_wf_get_None [OF wf] elems_def)
  note res = accepted_delta_elems [OF wf inj verify_delta_match [OF wf ok] new dist free]
  have "distinct (map pe_uri (delta_new_elements d))"
    using clean by (simp add: delta_clean_def delta_uris_def delta_new_elements_def comp_def into_publish_def
        Int_Un_distrib)
  moreover have "pe_uri ` set (delta_new_elements d) \<subseteq> set (delta_uris d)"
    by (auto simp: delta_new_elements_def delta_uris_def into_publish_def)
  ultimately have "inj_on pe_uri (elems (apply_delta api d co))"
    unfolding res using inj by (intro inj_on_disjoint_union) (auto simp: distinct_map intro: inj_on_subset)
  then show ?thesis
    using res uris_unique_inj [of api "apply_delta api d co"] by (simp add: apply_wf wf)
qed

theorem verified_delta_content_witness:
  "elems (apply_delta demo_api demo_delta demo_co) =
     {\<lparr>pe_base64 = 30, pe_uri = [1, 3]\<rparr>, \<lparr>pe_base64 = 40, pe_uri = [1, 1]\<rparr>}"
proof -
  have h: "co_wf demo_api demo_co" "uris_unique demo_co"
    "verify_delta demo_api demo_co demo_delta [1] = Inr ()" "delta_clean demo_api demo_co demo_delta"
    by (simp_all add: demo_defs co_wf_def hm_ok_def pe_hash_def uris_unique_def co_elements_def
        verify_delta_def rbind_def has_match_def delta_clean_def delta_uris_def
        delta_new_elements_def into_publish_def)
  show ?thesis
    unfolding verified_delta_content [OF h, THEN conjunct1]
    by (simp add: elems_def demo_defs co_elements_def delta_uris_def delta_new_elements_def into_publish_def
        Collect_conv_if insert_commute cong: conj_cong) auto
qed

text \<open>
  C13: The check of publish elements looks at contents only: a publish of new content on a URI
  that is already in use is accepted, and the publisher then holds two objects at one URI.\<close>

theorem publish_on_used_uri_accepted:
  assumes "co_wf api co" and "e \<in> elems co" and "pe_uri p = pe_uri e"
    and "is_parent_of api jail (pe_uri p)" and "hm_get co (to_hash api (pe_base64 p)) = None"
    and "d = \<lparr>de_publishes = [p], de_updates = [], de_withdraws = []\<rparr>"
  shows "verify_delta api co d jail = Inr () \<and> \<not> uris_unique (apply_delta api d co)"
proof -
  have n: "pe_hash api e \<noteq> pe_hash api p"
    using assms(1,2,5) by (auto simp: co_wf_get_None pe_hash_def)
  have "e \<in> elems (apply_delta api d co)" "p \<in> elems (apply_delta api d co)"
    using assms n by (simp_all add: apply_delta_def elems_apply_publish)
  moreover have "e \<noteq> p" using n by auto
  ultimately have "\<not> inj_on pe_uri (elems (apply_delta api d co))"
    using assms(3) by (auto simp: inj_on_def)
  then show ?thesis
    using assms uris_unique_inj [of api "apply_delta api d co"]
    by (simp add: apply_wf verify_delta_def rbind_def)
qed

theorem publish_on_used_uri_accepted_witness:
  "verify_delta demo_api demo_co
     \<lparr>de_publishes = [\<lparr>pe_base64 = 50, pe_uri = [1, 1]\<rparr>], de_updates = [], de_withdraws = []\<rparr> [1] = Inr ()"
proof -
  have h: "co_wf demo_api demo_co" "\<lparr>pe_base64 = 10, pe_uri = [1, 1]\<rparr> \<in> elems demo_co"
    by (simp_all add: demo_defs co_wf_def hm_ok_def pe_hash_def elems_def co_elements_def)
  show ?thesis
    using publish_on_used_uri_accepted [OF h, of "\<lparr>pe_base64 = 50, pe_uri = [1, 1]\<rparr>" "[1]"]
    by (simp add: demo_defs)
qed

end
