(* ===== verification/Rust_Text.thy ===== *)
theory Rust_Text
  imports Prelude
begin

text \<open>
  The string functions of the Rust standard library that the modelled sources call, on ASCII
  text: decimal printing and parsing of integers (\<^verbatim>\<open>to_string\<close>, \<^verbatim>\<open>u64::from_str\<close>,
  \<^verbatim>\<open>i64::from_str\<close>), \<^verbatim>\<open>strip_prefix\<close>, \<^verbatim>\<open>strip_suffix\<close>, \<^verbatim>\<open>contains\<close>, \<^verbatim>\<open>split\<close>, \<^verbatim>\<open>splitn\<close>,
  \<^verbatim>\<open>lines\<close> and \<^verbatim>\<open>trim\<close>, with the round trips that the key formats of the stores rest on.
\<close>

section \<open>Definitions\<close>

definition digit_char :: "nat \<Rightarrow> char" where
  "digit_char d = char_of (48 + d)"

definition is_digit :: "char \<Rightarrow> bool" where
  "is_digit c \<longleftrightarrow> 48 \<le> (of_char c :: nat) \<and> (of_char c :: nat) \<le> 57"

definition digit_val :: "char \<Rightarrow> nat" where
  "digit_val c = of_char c - 48"

fun show_nat :: "nat \<Rightarrow> string" where
  "show_nat n = (if n < 10 then [digit_char n] else show_nat (n div 10) @ [digit_char (n mod 10)])"

declare show_nat.simps [simp del]

definition show_int :: "int \<Rightarrow> string" where
  "show_int i = (if i < 0 then CHR ''-'' # show_nat (nat (- i)) else show_nat (nat i))"

definition digits_val :: "string \<Rightarrow> nat" where
  "digits_val s = foldl (\<lambda>n c. 10 * n + digit_val c) 0 s"

definition parse_digits :: "string \<Rightarrow> nat option" where
  "parse_digits s = (if s = [] \<or> \<not> list_all is_digit s then None else Some (digits_val s))"

definition strip_prefix :: "string \<Rightarrow> string \<Rightarrow> string option" where
  "strip_prefix p s = (if take (length p) s = p then Some (drop (length p) s) else None)"

text \<open>\<open>from_str\<close> for an unsigned type of the given width: an optional plus sign, at least one
  digit, no overflow; for a signed type also a minus sign.\<close>

definition drop_plus :: "string \<Rightarrow> string" where
  "drop_plus s = (case strip_prefix ''+'' s of None \<Rightarrow> s | Some cs \<Rightarrow> cs)"

definition parse_uint :: "nat \<Rightarrow> string \<Rightarrow> nat option" where
  "parse_uint w s =
     (case parse_digits (drop_plus s) of
        None \<Rightarrow> None
      | Some n \<Rightarrow> if n < 2 ^ w then Some n else None)"

definition parse_sint :: "nat \<Rightarrow> string \<Rightarrow> int option" where
  "parse_sint w s =
     (case strip_prefix ''-'' s of
        Some cs \<Rightarrow>
          (case parse_digits cs of
             None \<Rightarrow> None
           | Some n \<Rightarrow> if n \<le> 2 ^ (w - 1) then Some (- int n) else None)
      | None \<Rightarrow>
          (case parse_digits (drop_plus s) of
             None \<Rightarrow> None
           | Some n \<Rightarrow> if n < 2 ^ (w - 1) then Some (int n) else None))"

definition strip_suffix :: "string \<Rightarrow> string \<Rightarrow> string option" where
  "strip_suffix p s =
     (if length p \<le> length s \<and> drop (length s - length p) s = p
      then Some (take (length s - length p) s) else None)"

definition starts_with :: "string \<Rightarrow> string \<Rightarrow> bool" where
  "starts_with p s \<longleftrightarrow> take (length p) s = p"

definition ends_with :: "string \<Rightarrow> string \<Rightarrow> bool" where
  "ends_with p s \<longleftrightarrow> length p \<le> length s \<and> drop (length s - length p) s = p"

fun contains_str :: "string \<Rightarrow> string \<Rightarrow> bool" where
  "contains_str p [] \<longleftrightarrow> p = []"
| "contains_str p (c # cs) \<longleftrightarrow> starts_with p (c # cs) \<or> contains_str p cs"

text \<open>\<open>split_once\<close> cuts at the leftmost occurrence of a separator; \<open>split_str\<close> keeps cutting.\<close>

fun split_once :: "string \<Rightarrow> string \<Rightarrow> (string \<times> string) option" where
  "split_once sep [] = (if sep = [] then Some ([], []) else None)"
| "split_once sep (c # cs) =
     (if starts_with sep (c # cs) then Some ([], drop (length sep) (c # cs))
      else map_option (\<lambda>(a, b). (c # a, b)) (split_once sep cs))"

lemma split_once_length:
  "split_once sep s = Some (a, b) \<Longrightarrow> length b + length sep \<le> length s"
  by (induction s arbitrary: a b)
    (auto simp: starts_with_def split: if_splits dest!: arg_cong [where f = length])

function split_str :: "string \<Rightarrow> string \<Rightarrow> string list" where
  "split_str sep s =
     (if sep = [] then [s] else
      case split_once sep s of None \<Rightarrow> [s] | Some (a, b) \<Rightarrow> a # split_str sep b)"
  by pat_completeness auto
termination
  by (relation "measure (\<lambda>(sep, s). length s)")
    (auto dest!: split_once_length simp: less_le_trans [OF _ split_once_length] neq_Nil_conv)

declare split_str.simps [simp del]

definition splitn2 :: "string \<Rightarrow> string \<Rightarrow> string list" where
  "splitn2 sep s = (case split_once sep s of None \<Rightarrow> [s] | Some (a, b) \<Rightarrow> [a, b])"

definition is_space :: "char \<Rightarrow> bool" where
  "is_space c \<longleftrightarrow> (of_char c :: nat) = 32 \<or> (9 \<le> (of_char c :: nat) \<and> (of_char c :: nat) \<le> 13)"

definition trim :: "string \<Rightarrow> string" where
  "trim s = rev (dropWhile is_space (rev (dropWhile is_space s)))"

section \<open>Decimal round trips\<close>

lemma digit_char_props:
  assumes "d < 10"
  shows "is_digit (digit_char d)" and "digit_val (digit_char d) = d"
proof -
  have "(of_char (digit_char d) :: nat) = 48 + d"
    using assms by (simp add: digit_char_def)
  then show "is_digit (digit_char d)" and "digit_val (digit_char d) = d"
    using assms by (simp_all add: is_digit_def digit_val_def)
qed

lemma show_nat_digits: "list_all is_digit (show_nat n)"
proof (induction n rule: show_nat.induct)
  case (1 n)
  show ?case
  proof (cases "n < 10")
    case True
    then show ?thesis by (subst show_nat.simps) (simp add: digit_char_props)
  next
    case False
    with 1 show ?thesis by (subst show_nat.simps) (simp add: digit_char_props)
  qed
qed

lemma show_nat_nonempty [simp]: "show_nat n \<noteq> []"
  by (subst show_nat.simps) simp

lemma digits_val_snoc: "digits_val (s @ [c]) = 10 * digits_val s + digit_val c"
  by (simp add: digits_val_def)

lemma digits_val_show: "digits_val (show_nat n) = n"
proof (induction n rule: show_nat.induct)
  case (1 n)
  show ?case
  proof (cases "n < 10")
    case True
    then show ?thesis by (subst show_nat.simps) (simp add: digits_val_def digit_char_props)
  next
    case False
    with 1 show ?thesis by (subst show_nat.simps) (simp add: digits_val_snoc digit_char_props)
  qed
qed

lemma parse_digits_show [text_simps]: "parse_digits (show_nat n) = Some n"
  by (simp add: parse_digits_def show_nat_digits digits_val_show)

lemma show_nat_inject [simp]: "show_nat m = show_nat n \<longleftrightarrow> m = n"
  by (metis digits_val_show)

lemma not_digit_plus_minus: "\<not> is_digit (CHR ''+'')" "\<not> is_digit (CHR ''-'')"
  by (simp_all add: is_digit_def)

lemma strip_prefix_append [text_simps]: "strip_prefix p (p @ s) = Some s"
  by (simp add: strip_prefix_def)

lemma show_nat_hd: "is_digit (hd (show_nat n))"
  using show_nat_digits [of n] show_nat_nonempty [of n] by (cases "show_nat n") auto

lemma show_nat_no_sign [text_simps]:
  "strip_prefix ''+'' (show_nat n) = None" "strip_prefix ''-'' (show_nat n) = None"
  "drop_plus (show_nat n) = show_nat n"
  using show_nat_hd [of n] not_digit_plus_minus show_nat_nonempty [of n]
  by (cases "show_nat n"; auto simp: strip_prefix_def drop_plus_def)+

lemma parse_uint_show [text_simps]: "n < 2 ^ w \<Longrightarrow> parse_uint w (show_nat n) = Some n"
  by (simp add: parse_uint_def text_simps)

lemma parse_sint_show [text_simps]:
  "- (2 ^ (w - 1)) \<le> i \<Longrightarrow> i < 2 ^ (w - 1) \<Longrightarrow> parse_sint w (show_int i) = Some i"
  using strip_prefix_append [of "''-''"]
  by (auto simp: parse_sint_def show_int_def text_simps nat_le_iff nat_less_iff)

lemma parse_uint_bound: "parse_uint w s = Some n \<Longrightarrow> n < 2 ^ w"
  by (auto simp: parse_uint_def split: option.splits if_splits)

text \<open>Evaluation of the parsers on literals.\<close>

lemmas parse_simps = parse_uint_def parse_sint_def parse_digits_def drop_plus_def strip_prefix_def
  is_digit_def digits_val_def digit_val_def

section \<open>Splitting\<close>

text \<open>Splitting at a one-character separator that does not occur in the first part.\<close>

lemma split_once_char [text_simps]:
  "c \<notin> set a \<Longrightarrow> split_once [c] (a @ c # b) = Some (a, b)"
  by (induction a) (auto simp: starts_with_def)

lemma split_once_char_none [text_simps]: "c \<notin> set a \<Longrightarrow> split_once [c] a = None"
  by (induction a) (auto simp: starts_with_def)

lemma split_str_char:
  "c \<notin> set a \<Longrightarrow> split_str [c] (a @ c # b) = a # split_str [c] b"
  "c \<notin> set a \<Longrightarrow> split_str [c] a = [a]"
  by (subst split_str.simps, simp add: text_simps)+

lemma strip_suffix_append [text_simps]: "strip_suffix p (s @ p) = Some s"
  by (simp add: strip_suffix_def)

lemma strip_prefix_SomeD: "strip_prefix p s = Some r \<Longrightarrow> s = p @ r"
  by (metis append_take_drop_id option.discI option.inject strip_prefix_def)

lemma show_nat_notin: "\<not> is_digit c \<Longrightarrow> c \<notin> set (show_nat n)"
  using show_nat_digits [of n] by (auto simp: list_all_iff)

end
