(* ===== verification/Version.thy ===== *)
theory Version
  imports Rust_Text
begin

text \<open>
  Krill versions, \<^verbatim>\<open>commons/util/mod.rs\<close>: the version number that every key-value store records,
  its order, which decides what upgrade steps run, and its text format.
\<close>

datatype ordering = Less | Equal | Greater

datatype release_type = Release | Candidate nat | Dev string

record krill_version =
  major :: nat
  minor :: nat
  patch :: nat
  release_type :: release_type

definition mk_release :: "nat \<Rightarrow> nat \<Rightarrow> nat \<Rightarrow> krill_version" where
  "mk_release a b c = \<lparr> major = a, minor = b, patch = c, release_type = Release \<rparr>"

definition mk_candidate :: "nat \<Rightarrow> nat \<Rightarrow> nat \<Rightarrow> nat \<Rightarrow> krill_version" where
  "mk_candidate a b c n = \<lparr> major = a, minor = b, patch = c, release_type = Candidate n \<rparr>"

definition mk_dev :: "nat \<Rightarrow> nat \<Rightarrow> nat \<Rightarrow> string \<Rightarrow> krill_version" where
  "mk_dev a b c s = \<lparr> major = a, minor = b, patch = c, release_type = Dev s \<rparr>"

definition v0_5_0_or_before :: krill_version where
  "v0_5_0_or_before = mk_dev 0 5 0 ''or-before''"

definition parse_release_type :: "string list \<Rightarrow> release_type option" where
  "parse_release_type rest =
     (case rest of
        [] \<Rightarrow> Some Release
      | addition # _ \<Rightarrow>
          if 2 < length addition \<and> starts_with ''rc'' addition
          then map_option Candidate (parse_uint 64 (drop 2 addition))
          else Some (Dev addition))"

definition parse_legacy :: "string \<Rightarrow> krill_version option" where
  "parse_legacy s = map_of
     [(''V0_6'', mk_release 0 6 0), (''V0_7'', mk_release 0 7 0),
      (''V0_8_0_RC1'', mk_candidate 0 8 0 1), (''V0_8'', mk_release 0 8 0),
      (''V0_8_1_RC1'', mk_candidate 0 8 1 1), (''V0_8_1'', mk_release 0 8 1),
      (''V0_8_2'', mk_release 0 8 2), (''V0_9_0_RC1'', mk_candidate 0 9 0 1),
      (''V0_9_0'', mk_release 0 9 0)] s"

definition version_from_str :: "string \<Rightarrow> krill_version option" where
  "version_from_str s =
     (case split_str ''.'' s of
        [p0, p1, p2] \<Rightarrow>
          (case parse_uint 64 p0 of
             None \<Rightarrow> None
           | Some a \<Rightarrow>
               (case parse_uint 64 p1 of
                  None \<Rightarrow> None
                | Some b \<Rightarrow>
                    (let patch_parts = split_str ''-'' p2 in
                     case parse_uint 64 (hd patch_parts) of
                       None \<Rightarrow> None
                     | Some c \<Rightarrow>
                         map_option
                           (\<lambda>rt. \<lparr> major = a, minor = b, patch = c, release_type = rt \<rparr>)
                           (parse_release_type (tl patch_parts)))))
      | _ \<Rightarrow> parse_legacy s)"

definition show_release_type :: "release_type \<Rightarrow> string" where
  "show_release_type rt =
     (case rt of
        Release \<Rightarrow> []
      | Candidate n \<Rightarrow> ''-rc'' @ show_nat n
      | Dev s \<Rightarrow> ''-'' @ s)"

definition version_show :: "krill_version \<Rightarrow> string" where
  "version_show v =
     show_nat (major v) @ ''.'' @ show_nat (minor v) @ ''.'' @ show_nat (patch v)
       @ show_release_type (release_type v)"

definition nat_cmp :: "nat \<Rightarrow> nat \<Rightarrow> ordering" where
  "nat_cmp a b = (if a < b then Less else if a = b then Equal else Greater)"

definition release_type_cmp :: "release_type \<Rightarrow> release_type \<Rightarrow> ordering" where
  "release_type_cmp x y =
     (case x of
        Release \<Rightarrow> (case y of Release \<Rightarrow> Equal | _ \<Rightarrow> Greater)
      | Candidate n \<Rightarrow>
          (case y of Release \<Rightarrow> Less | Candidate m \<Rightarrow> nat_cmp n m | Dev _ \<Rightarrow> Greater)
      | Dev _ \<Rightarrow> (case y of Dev _ \<Rightarrow> Equal | _ \<Rightarrow> Less))"

definition version_cmp :: "krill_version \<Rightarrow> krill_version \<Rightarrow> ordering" where
  "version_cmp v w =
     (let res = nat_cmp (major v) (major w);
          res = (if res = Equal then nat_cmp (minor v) (minor w) else res);
          res = (if res = Equal then nat_cmp (patch v) (patch w) else res)
      in if res = Equal then release_type_cmp (release_type v) (release_type w) else res)"

text \<open>The release types whose text \<open>version_from_str\<close> reads back as they are.\<close>

definition plain_release_type :: "release_type \<Rightarrow> bool" where
  "plain_release_type rt =
     (case rt of
        Release \<Rightarrow> True
      | Candidate n \<Rightarrow> n < 2 ^ 64
      | Dev s \<Rightarrow> CHR ''-'' \<notin> set s \<and> CHR ''.'' \<notin> set s \<and>
               \<not> (2 < length s \<and> starts_with ''rc'' s))"

section \<open>Round trip\<close>

lemma not_digit_punct [simp]: "\<not> is_digit (CHR ''.'')" "\<not> is_digit (CHR ''-'')"
  by (simp_all add: is_digit_def)

lemma show_nat_dotless [simp]: "CHR ''.'' \<notin> set (show_nat n)" "CHR ''-'' \<notin> set (show_nat n)"
  by (simp_all add: show_nat_notin)

lemma show_release_type_dotless:
  "plain_release_type rt \<Longrightarrow> CHR ''.'' \<notin> set (show_release_type rt)"
  by (cases rt) (auto simp: show_release_type_def plain_release_type_def)

lemma split_version_show:
  "plain_release_type (release_type v) \<Longrightarrow>
   split_str ''.'' (version_show v) =
     [show_nat (major v), show_nat (minor v),
      show_nat (patch v) @ show_release_type (release_type v)]"
  using show_release_type_dotless [of "release_type v"]
  by (simp add: version_show_def split_str_char)

lemma split_patch_show:
  "plain_release_type rt \<Longrightarrow>
   split_str ''-'' (show_nat n @ show_release_type rt) =
     show_nat n # (case rt of Release \<Rightarrow> [] | Candidate m \<Rightarrow> [''rc'' @ show_nat m] | Dev s \<Rightarrow> [s])"
  by (cases rt) (auto simp: show_release_type_def plain_release_type_def split_str_char)

lemma parse_release_type_show:
  "plain_release_type rt \<Longrightarrow>
   parse_release_type (case rt of Release \<Rightarrow> [] | Candidate m \<Rightarrow> [''rc'' @ show_nat m] | Dev s \<Rightarrow> [s])
     = Some rt"
  by (cases rt)
    (auto simp: parse_release_type_def plain_release_type_def starts_with_def parse_uint_show)

text \<open>
  C14: A version whose numbers are 64-bit and whose development suffix, if any, has no dot, no
  dash and does not look like a release candidate is read back from its text unchanged.
\<close>

theorem version_round_trip:
  assumes "major v < 2 ^ 64" "minor v < 2 ^ 64" "patch v < 2 ^ 64"
    and "plain_release_type (release_type v)"
  shows "version_from_str (version_show v) = Some v"
  using assms
  by (simp add: version_from_str_def split_version_show split_patch_show parse_release_type_show
      parse_uint_show)

theorem version_round_trip_witness:
  "version_from_str (version_show (mk_candidate 0 9 5 2)) = Some (mk_candidate 0 9 5 2)"
  by (rule version_round_trip) (simp_all add: mk_candidate_def plain_release_type_def)

lemma nat_cmp_simps [simp]:
  "nat_cmp a b = Equal \<longleftrightarrow> a = b" "nat_cmp a b = Less \<longleftrightarrow> a < b" "nat_cmp a b = Greater \<longleftrightarrow> b < a"
  by (auto simp: nat_cmp_def)

lemma release_type_cmp_trans:
  "release_type_cmp x y = Less \<Longrightarrow> release_type_cmp y z \<noteq> Greater \<Longrightarrow> release_type_cmp x z = Less"
  "release_type_cmp x y = Equal \<Longrightarrow> release_type_cmp y z = Less \<Longrightarrow> release_type_cmp x z = Less"
  "release_type_cmp x y = Greater \<longleftrightarrow> release_type_cmp y x = Less"
  "release_type_cmp x y = Equal \<longleftrightarrow> release_type_cmp y x = Equal"
  by (cases x; cases y; cases z; auto simp: release_type_cmp_def nat_cmp_def split: if_splits)+

text \<open>
  The store version recorded for data that predates version numbers does not survive its own
  text format (the suffix after the second dash is dropped), and the order treats it as equal
  to what is read back although the two values differ.
\<close>

lemma pre_version_text_lossy:
  "version_from_str (version_show v0_5_0_or_before) = Some (mk_dev 0 5 0 ''or'') \<and>
   version_cmp v0_5_0_or_before (mk_dev 0 5 0 ''or'') = Equal \<and>
   v0_5_0_or_before \<noteq> mk_dev 0 5 0 ''or''"
proof -
  have "version_show v0_5_0_or_before = ''0.5.0-or-before''"
    by code_simp
  moreover have "version_from_str ''0.5.0-or-before'' = Some (mk_dev 0 5 0 ''or'')"
    by (simp add: version_from_str_def split_str.simps parse_simps parse_release_type_def
        starts_with_def mk_dev_def)
  ultimately show ?thesis
    by (simp add: v0_5_0_or_before_def version_cmp_def mk_dev_def nat_cmp_def release_type_cmp_def)
qed

text \<open>The order of versions is a total preorder: antisymmetric up to \<open>Equal\<close> and transitive.\<close>

lemma version_cmp_cases:
  "version_cmp v w = Less \<longleftrightarrow>
     (major v, minor v, patch v) \<noteq> (major w, minor w, patch w) \<and>
       (major v < major w \<or> major v = major w \<and>
         (minor v < minor w \<or> minor v = minor w \<and> patch v < patch w)) \<or>
     (major v, minor v, patch v) = (major w, minor w, patch w) \<and>
       release_type_cmp (release_type v) (release_type w) = Less"
  by (auto simp: version_cmp_def Let_def nat_cmp_def split: if_splits)

lemma version_cmp_flip: "version_cmp v w = Greater \<longleftrightarrow> version_cmp w v = Less"
  by (auto simp: version_cmp_def Let_def nat_cmp_def release_type_cmp_trans(3) split: if_splits)

lemma version_cmp_less_trans:
  assumes "version_cmp u v = Less" and "version_cmp v w = Less"
  shows "version_cmp u w = Less"
proof -
  have t: "release_type_cmp (release_type u) (release_type w) = Less"
    if "release_type_cmp (release_type u) (release_type v) = Less"
      and "release_type_cmp (release_type v) (release_type w) = Less"
    using release_type_cmp_trans(1) [OF that(1), of "release_type w"] that(2) by simp
  show ?thesis
    using assms t unfolding version_cmp_cases by (elim disjE conjE) auto
qed

end
