(* ===== verification/KeyValue.thy ===== *)
theory KeyValue
  imports Version
begin

text \<open>
  The key-value store of \<^verbatim>\<open>commons/eventsourcing/kv.rs\<close> on its disk implementation. The state is
  the directory tree below the base directory of the store: the scope directories that exist
  and the files with their content. Values are JSON documents of an abstract type \<open>'j\<close>; how a
  value of a type is written and read back is a \<open>codec\<close>, the serializer of the JSON library.

  A file whose write was cut off has the content \<open>Truncated\<close>. Failures of the operating system
  are injected by \<open>kv_faults\<close>, which says what fails on a path, so that every \<^verbatim>\<open>?\<close> of the source
  is a branch of the model. A directory never has the path of the file of a key.
\<close>

section \<open>Keys\<close>

record key_store_key =
  ks_scope :: "string option"
  ks_name :: string

definition ks_simple :: "string \<Rightarrow> key_store_key" where
  "ks_simple name = \<lparr> ks_scope = None, ks_name = name \<rparr>"

definition ks_scoped :: "string \<Rightarrow> string \<Rightarrow> key_store_key" where
  "ks_scoped scope name = \<lparr> ks_scope = Some scope, ks_name = name \<rparr>"

definition sub_scope :: "key_store_key \<Rightarrow> string \<Rightarrow> key_store_key" where
  "sub_scope k new =
     (if new = [] then k
      else let scope = (case ks_scope k of Some existing \<Rightarrow> existing @ ''/'' @ new | None \<Rightarrow> new)
           in \<lparr> ks_scope = Some scope, ks_name = ks_name k \<rparr>)"

definition ks_archived :: "key_store_key \<Rightarrow> key_store_key" where
  "ks_archived k = sub_scope k ''archived''"

definition ks_corrupt :: "key_store_key \<Rightarrow> key_store_key" where
  "ks_corrupt k = sub_scope k ''corrupt''"

definition ks_surplus :: "key_store_key \<Rightarrow> key_store_key" where
  "ks_surplus k = sub_scope k ''surplus''"

definition ks_show :: "key_store_key \<Rightarrow> string" where
  "ks_show k = (case ks_scope k of Some scope \<Rightarrow> scope @ ''/'' @ ks_name k | None \<Rightarrow> ks_name k)"

section \<open>The disk\<close>

datatype 'j content = Complete 'j | Truncated

datatype fault = CreateFails | WriteFails | RenameFails | ReadFails | RemoveFails

record 'j kv_store =
  kv_dirs :: "string list"
  kv_files :: "(string, 'j content) hmap"
  kv_faults :: "string \<Rightarrow> fault option"

datatype kv_error = IoError | JsonError | UnknownKey key_store_key | DuplicateKey key_store_key

record ('a, 'j) codec =
  enc :: "'a \<Rightarrow> 'j"
  dec :: "'j \<Rightarrow> 'a option"

text \<open>Paths are relative to the base directory of the store.\<close>

definition file_path :: "key_store_key \<Rightarrow> string" where
  "file_path k =
     (case ks_scope k of None \<Rightarrow> ks_name k | Some scope \<Rightarrow> scope @ ''/'' @ ks_name k)"

definition swap_file_path :: "string \<Rightarrow> key_store_key \<Rightarrow> string" where
  "swap_file_path rnd k = file_path (k\<lparr> ks_name := ks_name k @ ''-tmp-'' @ rnd \<rparr>)"

definition split_path :: "string \<Rightarrow> string option \<times> string" where
  "split_path p =
     (case dropWhile (\<lambda>c. c \<noteq> CHR ''/'') (rev p) of
        [] \<Rightarrow> (None, p)
      | _ # ps \<Rightarrow> (Some (rev ps), rev (takeWhile (\<lambda>c. c \<noteq> CHR ''/'') (rev p))))"

fun dir_prefixes :: "string \<Rightarrow> string \<Rightarrow> string list" where
  "dir_prefixes acc [] = [acc]"
| "dir_prefixes acc (c # cs) =
     (if c = CHR ''/'' then acc # dir_prefixes (acc @ [c]) cs else dir_prefixes (acc @ [c]) cs)"

text \<open>\<open>create_dir_all\<close> creates a directory and all its parents; \<open>parent_exists\<close> holds for a
  path whose parent directory is the base or has been created.\<close>

definition create_dir_all :: "string option \<Rightarrow> 'j kv_store \<Rightarrow> 'j kv_store" where
  "create_dir_all scope kv =
     (case scope of
        None \<Rightarrow> kv
      | Some s \<Rightarrow> kv\<lparr> kv_dirs := kv_dirs kv @ filter (\<lambda>d. d \<notin> set (kv_dirs kv)) (dir_prefixes [] s) \<rparr>)"

definition parent_exists :: "string \<Rightarrow> 'j kv_store \<Rightarrow> bool" where
  "parent_exists p kv =
     (case fst (split_path p) of None \<Rightarrow> True | Some d \<Rightarrow> d \<in> set (kv_dirs kv))"

definition path_exists :: "string \<Rightarrow> 'j kv_store \<Rightarrow> bool" where
  "path_exists p kv \<longleftrightarrow> p \<in> fst ` set (kv_files kv)"

definition write_file :: "string \<Rightarrow> 'j content \<Rightarrow> 'j kv_store \<Rightarrow> 'j kv_store" where
  "write_file p c kv = kv\<lparr> kv_files := hm_insert p c (kv_files kv) \<rparr>"

definition remove_file :: "string \<Rightarrow> 'j kv_store \<Rightarrow> 'j kv_store" where
  "remove_file p kv = kv\<lparr> kv_files := hm_remove p (kv_files kv) \<rparr>"

definition rename_file :: "string \<Rightarrow> string \<Rightarrow> 'j kv_store \<Rightarrow> 'j kv_store" where
  "rename_file p q kv =
     (case hm_get (kv_files kv) p of
        None \<Rightarrow> kv
      | Some c \<Rightarrow> write_file q c (remove_file p kv))"

definition below :: "string \<Rightarrow> string \<Rightarrow> bool" where
  "below d p \<longleftrightarrow> starts_with (d @ ''/'') p"

definition move_below :: "string \<Rightarrow> string \<Rightarrow> string \<Rightarrow> string" where
  "move_below d e p = (if p = d \<or> below d p then e @ drop (length d) p else p)"

definition rename_dir :: "string \<Rightarrow> string \<Rightarrow> ('j kv_store, kv_error, unit) st" where
  "rename_dir d e kv =
     (if d \<notin> set (kv_dirs kv) \<or> kv_faults kv d = Some RenameFails \<or> \<not> parent_exists e kv \<or>
         (\<exists>p \<in> set (kv_dirs kv) \<union> fst ` set (kv_files kv). below e p)
      then (Inl IoError, kv)
      else (Inr (), kv\<lparr> kv_dirs := map (move_below d e) (kv_dirs kv),
                        kv_files := map (\<lambda>(p, c). (move_below d e p, c)) (kv_files kv) \<rparr>))"

section \<open>Operations\<close>

definition kv_store_val ::
  "string \<Rightarrow> ('a, 'j) codec \<Rightarrow> key_store_key \<Rightarrow> 'a \<Rightarrow> ('j kv_store, kv_error, unit) st" where
  "kv_store_val rnd cd k v kv =
     (let swap = swap_file_path rnd k; p = file_path k; kv1 = create_dir_all (ks_scope k) kv in
      case kv_faults kv p of
        Some CreateFails \<Rightarrow> (Inl IoError, kv1)
      | Some WriteFails \<Rightarrow> (Inl IoError, write_file swap Truncated kv1)
      | Some RenameFails \<Rightarrow> (Inl IoError, write_file swap (Complete (enc cd v)) kv1)
      | _ \<Rightarrow> (Inr (), rename_file swap p (write_file swap (Complete (enc cd v)) kv1)))"

definition kv_store_new ::
  "('a, 'j) codec \<Rightarrow> key_store_key \<Rightarrow> 'a \<Rightarrow> ('j kv_store, kv_error, unit) st" where
  "kv_store_new cd k v kv =
     (let p = file_path k in
      if path_exists p kv then (Inl (DuplicateKey k), kv)
      else let kv1 = create_dir_all (ks_scope k) kv in
        case kv_faults kv p of
          Some CreateFails \<Rightarrow> (Inl IoError, kv1)
        | Some WriteFails \<Rightarrow> (Inl IoError, write_file p Truncated kv1)
        | _ \<Rightarrow> (Inr (), write_file p (Complete (enc cd v)) kv1))"

definition kv_get :: "('a, 'j) codec \<Rightarrow> 'j kv_store \<Rightarrow> key_store_key \<Rightarrow> kv_error + 'a option" where
  "kv_get cd kv k =
     (case hm_get (kv_files kv) (file_path k) of
        None \<Rightarrow> Inr None
      | Some c \<Rightarrow>
          if kv_faults kv (file_path k) = Some ReadFails then Inl IoError
          else case c of
                 Truncated \<Rightarrow> Inl JsonError
               | Complete j \<Rightarrow> (case dec cd j of None \<Rightarrow> Inl JsonError | Some v \<Rightarrow> Inr (Some v)))"

definition kv_has :: "'j kv_store \<Rightarrow> key_store_key \<Rightarrow> bool" where
  "kv_has kv k = path_exists (file_path k) kv"

definition drop_key :: "key_store_key \<Rightarrow> ('j kv_store, kv_error, unit) st" where
  "drop_key k kv =
     (let p = file_path k in
      if path_exists p kv then
        if kv_faults kv p = Some RemoveFails then (Inl IoError, kv) else (Inr (), remove_file p kv)
      else (Inr (), kv))"

definition drop_scope :: "string \<Rightarrow> ('j kv_store, kv_error, unit) st" where
  "drop_scope scope kv =
     (if scope \<in> set (kv_dirs kv) then
        if kv_faults kv scope = Some RemoveFails then (Inl IoError, kv)
        else (Inr (), kv\<lparr> kv_dirs := filter (\<lambda>d. d \<noteq> scope \<and> \<not> below scope d) (kv_dirs kv),
                           kv_files := filter (\<lambda>(p, c). \<not> below scope p) (kv_files kv) \<rparr>)
      else if path_exists scope kv then (Inl IoError, kv)
      else (Inr (), kv))"

definition wipe :: "('j kv_store, kv_error, unit) st" where
  "wipe kv =
     (if kv_faults kv [] = Some RemoveFails then (Inl IoError, kv)
      else (Inr (), kv\<lparr> kv_dirs := [], kv_files := [] \<rparr>))"

definition move_key :: "key_store_key \<Rightarrow> key_store_key \<Rightarrow> ('j kv_store, kv_error, unit) st" where
  "move_key from to kv =
     (let p = file_path from; q = file_path to in
      if \<not> path_exists p kv then (Inl (UnknownKey from), kv)
      else
        let dir =
          (case ks_scope to of
             None \<Rightarrow> Some kv
           | Some d \<Rightarrow>
               if d \<in> set (kv_dirs kv) then Some kv
               else if parent_exists d kv \<and> kv_faults kv d \<noteq> Some CreateFails
                    then Some (kv\<lparr> kv_dirs := kv_dirs kv @ [d] \<rparr>)
                    else None)
        in case dir of
             None \<Rightarrow> (Inl IoError, kv)
           | Some kv1 \<Rightarrow>
               if kv_faults kv p = Some RenameFails then (Inl IoError, kv1)
               else (Inr (), rename_file p q kv1))"

definition archive :: "key_store_key \<Rightarrow> ('j kv_store, kv_error, unit) st" where
  "archive k = move_key k (ks_archived k)"

definition archive_to :: "key_store_key \<Rightarrow> string \<Rightarrow> ('j kv_store, kv_error, unit) st" where
  "archive_to k scope = move_key k (sub_scope k scope)"

definition archive_corrupt :: "key_store_key \<Rightarrow> ('j kv_store, kv_error, unit) st" where
  "archive_corrupt k = move_key k (ks_corrupt k)"

definition archive_surplus :: "key_store_key \<Rightarrow> ('j kv_store, kv_error, unit) st" where
  "archive_surplus k = move_key k (ks_surplus k)"

definition has_scope :: "'j kv_store \<Rightarrow> string \<Rightarrow> bool" where
  "has_scope kv scope \<longleftrightarrow> scope \<in> set (kv_dirs kv) \<or> path_exists scope kv"

definition scopes :: "'j kv_store \<Rightarrow> string list" where
  "scopes kv = filter (\<lambda>d. fst (split_path d) = None) (kv_dirs kv)"

definition scope_archive :: "string \<Rightarrow> string \<Rightarrow> ('j kv_store, kv_error, unit) st" where
  "scope_archive scope sub =
     st_bind (rename_dir scope (''.'' @ scope)) (\<lambda>_.
     st_bind (\<lambda>kv. (Inr (), create_dir_all (Some scope) kv)) (\<lambda>_.
     rename_dir (''.'' @ scope) (scope @ ''/'' @ sub)))"

definition read_dir_files :: "'j kv_store \<Rightarrow> string option \<Rightarrow> kv_error + string list" where
  "read_dir_files kv scope =
     (if (case scope of None \<Rightarrow> True | Some d \<Rightarrow> d \<in> set (kv_dirs kv))
      then Inr (map (snd \<circ> split_path) (filter (\<lambda>p. fst (split_path p) = scope) (map fst (kv_files kv))))
      else Inl IoError)"

definition kv_keys :: "'j kv_store \<Rightarrow> string option \<Rightarrow> string \<Rightarrow> kv_error + key_store_key list" where
  "kv_keys kv scope matching =
     (case read_dir_files kv scope of
        Inl e \<Rightarrow> Inl e
      | Inr names \<Rightarrow>
          Inr (map (\<lambda>n. case scope of None \<Rightarrow> ks_simple n | Some s \<Rightarrow> ks_scoped s n)
                 (filter (\<lambda>n. matching = [] \<or> contains_str matching n) names)))"

definition version_key :: key_store_key where
  "version_key = ks_simple ''version''"

definition kv_version :: "(krill_version, 'j) codec \<Rightarrow> 'j kv_store \<Rightarrow> kv_error + krill_version" where
  "kv_version cd kv =
     (case kv_get cd kv version_key of
        Inl e \<Rightarrow> Inl e
      | Inr v \<Rightarrow> Inr (case v of None \<Rightarrow> v0_5_0_or_before | Some v \<Rightarrow> v))"

definition version_is_before ::
  "(krill_version, 'j) codec \<Rightarrow> 'j kv_store \<Rightarrow> krill_version \<Rightarrow> kv_error + bool" where
  "version_is_before cd kv later = rbind (kv_version cd kv) (\<lambda>v. Inr (version_cmp v later = Less))"

definition version_is_after ::
  "(krill_version, 'j) codec \<Rightarrow> 'j kv_store \<Rightarrow> krill_version \<Rightarrow> kv_error + bool" where
  "version_is_after cd kv earlier = rbind (kv_version cd kv) (\<lambda>v. Inr (version_cmp v earlier = Greater))"

definition version_is_current ::
  "(krill_version, 'j) codec \<Rightarrow> krill_version \<Rightarrow> 'j kv_store \<Rightarrow> kv_error + bool" where
  "version_is_current cd code kv = rbind (kv_version cd kv) (\<lambda>deployed. Inr (deployed = code))"

definition version_set_current ::
  "string \<Rightarrow> (krill_version, 'j) codec \<Rightarrow> krill_version \<Rightarrow> ('j kv_store, kv_error, unit) st" where
  "version_set_current rnd cd code = kv_store_val rnd cd version_key code"

text \<open>The store is opened on what is below the base directory, \<open>None\<close> when it does not exist.\<close>

definition kv_disk ::
  "string \<Rightarrow> (krill_version, 'j) codec \<Rightarrow> krill_version \<Rightarrow> (string \<Rightarrow> fault option) \<Rightarrow>
   'j kv_store option \<Rightarrow> (kv_error + unit) \<times> 'j kv_store" where
  "kv_disk rnd cd code faults base =
     (case base of
        Some kv \<Rightarrow> (Inr (), kv)
      | None \<Rightarrow>
          version_set_current rnd cd code \<lparr> kv_dirs = [], kv_files = [], kv_faults = faults \<rparr>)"

section \<open>Specification\<close>

text \<open>\<open>kv_at\<close> is the content of a path, \<open>kv_ok\<close> the shape of a store, \<open>kv_reliable\<close> the absence of
  failures and \<open>codec_ok\<close> what the serializer promises: what was written is read back.\<close>

definition kv_at :: "'j kv_store \<Rightarrow> string \<Rightarrow> 'j content option" where
  "kv_at kv p = hm_get (kv_files kv) p"

definition kv_ok :: "'j kv_store \<Rightarrow> bool" where
  "kv_ok kv \<longleftrightarrow> hm_ok (kv_files kv)"

definition kv_reliable :: "'j kv_store \<Rightarrow> bool" where
  "kv_reliable kv \<longleftrightarrow> kv_faults kv = (\<lambda>_. None)"

definition codec_ok :: "('a, 'j) codec \<Rightarrow> bool" where
  "codec_ok cd \<longleftrightarrow> (\<forall>v. dec cd (enc cd v) = Some v)"

text \<open>A concrete store whose disk is full.\<close>

definition full_disk :: "nat kv_store" where
  "full_disk =
     \<lparr> kv_dirs = [''ca''], kv_files = [(''ca/info.json'', Complete 1)],
       kv_faults = (\<lambda>_. Some WriteFails) \<rparr>"

definition nat_codec :: "(nat, nat) codec" where
  "nat_codec = \<lparr> enc = (\<lambda>v. v), dec = Some \<rparr>"

named_theorems kv_simps

section \<open>Paths\<close>

lemma split_path_append:
  assumes "CHR ''/'' \<notin> set name"
  shows "split_path (scope @ CHR ''/'' # name) = (Some scope, name)"
proof -
  have "dropWhile (\<lambda>c. c \<noteq> CHR ''/'') (rev name @ CHR ''/'' # rev scope) = CHR ''/'' # rev scope"
    using assms by (subst dropWhile_append2) auto
  moreover have "takeWhile (\<lambda>c. c \<noteq> CHR ''/'') (rev name @ CHR ''/'' # rev scope) = rev name"
    using assms by (subst takeWhile_append2) auto
  ultimately show ?thesis by (simp add: split_path_def)
qed

lemma split_path_simple:
  assumes "CHR ''/'' \<notin> set name"
  shows "split_path name = (None, name)"
proof -
  have d: "dropWhile (\<lambda>c. c \<noteq> CHR ''/'') (rev name) = []"
    unfolding dropWhile_eq_Nil_conv using assms by auto
  show ?thesis unfolding split_path_def d by simp
qed

lemma split_file_path:
  "CHR ''/'' \<notin> set (ks_name k) \<Longrightarrow> split_path (file_path k) = (ks_scope k, ks_name k)"
  by (auto simp: file_path_def split_path_append split_path_simple split: option.splits)

lemma file_path_inject:
  assumes "CHR ''/'' \<notin> set (ks_name k)" "CHR ''/'' \<notin> set (ks_name l)"
  shows "file_path k = file_path l \<longleftrightarrow> k = l"
  using split_file_path [OF assms(1)] split_file_path [OF assms(2)] by auto

lemma file_path_scoped [kv_simps]: "file_path (ks_scoped s n) = s @ CHR ''/'' # n"
  by (simp add: file_path_def ks_scoped_def)

lemma split_path_slash_free: "CHR ''/'' \<notin> set (snd (split_path p))"
proof (cases "dropWhile (\<lambda>c. c \<noteq> CHR ''/'') (rev p)")
  case Nil
  then have "\<forall>c\<in>set (rev p). c \<noteq> CHR ''/''"
    unfolding dropWhile_eq_Nil_conv by simp
  with Nil show ?thesis by (auto simp: split_path_def simp del: dropWhile_eq_Nil_conv)
next
  case (Cons c ps)
  then show ?thesis by (auto simp: split_path_def dest: set_takeWhileD)
qed

lemma split_path_SomeD:
  assumes "split_path p = (Some d, n)"
  shows "p = d @ CHR ''/'' # n"
proof -
  obtain c ps where c: "dropWhile (\<lambda>c. c \<noteq> CHR ''/'') (rev p) = c # ps"
      and d: "d = rev ps" "n = rev (takeWhile (\<lambda>c. c \<noteq> CHR ''/'') (rev p))"
    using assms by (auto simp: split_path_def split: list.splits)
  have "c = CHR ''/''" using hd_dropWhile [of "\<lambda>c. c \<noteq> CHR ''/''" "rev p"] c by auto
  then have "rev p = rev n @ CHR ''/'' # rev d"
    using takeWhile_dropWhile_id [of "\<lambda>c. c \<noteq> CHR ''/''" "rev p"] c d by simp
  then have "rev (rev p) = rev (rev n @ CHR ''/'' # rev d)" by simp
  then show ?thesis by simp
qed

lemma ks_scoped_inject [simp]: "ks_scoped s m = ks_scoped t n \<longleftrightarrow> s = t \<and> m = n"
  by (simp add: ks_scoped_def)

lemma kv_keys_scoped:
  assumes "kv_keys kv (Some h) m = Inr ks" and "k \<in> set ks"
  shows "\<exists>n. k = ks_scoped h n \<and> CHR ''/'' \<notin> set n"
  using assms
  by (auto simp: kv_keys_def read_dir_files_def split_path_slash_free split: if_splits)

lemma kv_keys_present:
  assumes "kv_keys kv (Some h) m = Inr ks" and "k \<in> set ks"
  shows "file_path k \<in> fst ` set (kv_files kv)"
proof -
  have "ks = map (ks_scoped h) (filter (\<lambda>n. m = [] \<or> contains_str m n)
      (map (snd \<circ> split_path) (filter (\<lambda>p. fst (split_path p) = Some h) (map fst (kv_files kv)))))"
    using assms(1) by (auto simp: kv_keys_def read_dir_files_def split: if_splits)
  then obtain p where p: "p \<in> fst ` set (kv_files kv)" "fst (split_path p) = Some h"
      "k = ks_scoped h (snd (split_path p))"
    using assms(2) unfolding comp_def by (simp only: set_map set_filter) blast
  then have "p = h @ CHR ''/'' # snd (split_path p)"
    by (metis prod.collapse split_path_SomeD)
  with p show ?thesis by (simp add: file_path_scoped)
qed

lemma kv_keys_distinct:
  assumes "kv_keys kv (Some h) m = Inr ks" and "kv_ok kv"
  shows "distinct ks"
proof -
  have "inj_on (snd \<circ> split_path) {p. fst (split_path p) = Some h}"
    by (auto simp: inj_on_def) (metis prod.collapse split_path_SomeD)
  then have "distinct (map (snd \<circ> split_path) (filter (\<lambda>p. fst (split_path p) = Some h) (map fst (kv_files kv))))"
    using assms(2) by (auto simp: distinct_map kv_ok_def hm_ok_def intro: inj_on_subset)
  then show ?thesis
    using assms(1) by (auto simp: kv_keys_def read_dir_files_def distinct_map inj_on_def split: if_splits)
qed

lemma scoped_path_inject:
  assumes "CHR ''/'' \<notin> set m" "CHR ''/'' \<notin> set n"
  shows "s @ CHR ''/'' # m = t @ CHR ''/'' # n \<longleftrightarrow> s = t \<and> m = n"
  by (metis assms split_path_append option.inject prod.inject)

lemma swap_not_target: "swap_file_path rnd k \<noteq> file_path k"
  by (auto simp: swap_file_path_def file_path_def split: option.splits)

section \<open>What each operation leaves at a path\<close>

lemma path_exists_iff [kv_simps]: "path_exists p kv \<longleftrightarrow> kv_at kv p \<noteq> None"
  by (auto simp: path_exists_def kv_at_def map_of_eq_None_iff)

text \<open>There are at least as many files as paths that exist.\<close>

lemma files_bound:
  assumes "inj_on p {..<n}" and "\<And>k. k < n \<Longrightarrow> kv_at kv (p k) \<noteq> None"
  shows "n \<le> length (kv_files kv)"
proof -
  have "p ` {..<n} \<subseteq> fst ` set (kv_files kv)"
  proof clarify
    fix k assume "k < n"
    then have "path_exists (p k) kv" using assms(2) by (simp add: path_exists_iff)
    then show "p k \<in> fst ` set (kv_files kv)" by (simp add: path_exists_def)
  qed
  then have "card (p ` {..<n}) \<le> card (fst ` set (kv_files kv))"
    by (intro card_mono) auto
  also have "\<dots> \<le> length (kv_files kv)"
    by (metis card_length length_map list.set_map)
  finally show ?thesis
    by (simp add: card_image assms(1))
qed

lemma kv_at_prims [kv_simps]:
  "kv_at (write_file p c kv) q = (if q = p then Some c else kv_at kv q)"
  "kv_at (remove_file p kv) q = (if q = p then None else kv_at kv q)"
  "kv_at (create_dir_all d kv) q = kv_at kv q"
  "kv_at (kv\<lparr> kv_dirs := ds \<rparr>) q = kv_at kv q"
  by (simp_all add: kv_at_def write_file_def remove_file_def create_dir_all_def hmap_simps
      split: option.splits)

lemma kv_at_rename [kv_simps]:
  "kv_at (rename_file p q kv) r =
     (if kv_at kv p = None then kv_at kv r
      else if r = q then kv_at kv p else if r = p then None else kv_at kv r)"
  unfolding rename_file_def
  by (cases "hm_get (kv_files kv) p") (auto simp: kv_simps kv_at_def [of kv p])

lemma kv_faults_prims [kv_simps]:
  "kv_faults (write_file p c kv) = kv_faults kv"
  "kv_faults (remove_file p kv) = kv_faults kv"
  "kv_faults (create_dir_all d kv) = kv_faults kv"
  "kv_faults (rename_file p q kv) = kv_faults kv"
  by (simp_all add: write_file_def remove_file_def create_dir_all_def rename_file_def
      split: option.splits)

lemma kv_ok_prims [kv_simps]:
  "kv_ok kv \<Longrightarrow> kv_ok (write_file p c kv)"
  "kv_ok kv \<Longrightarrow> kv_ok (remove_file p kv)"
  "kv_ok (create_dir_all d kv) = kv_ok kv"
  "kv_ok (kv\<lparr> kv_dirs := ds \<rparr>) = kv_ok kv"
  by (auto simp: kv_ok_def write_file_def remove_file_def create_dir_all_def split: option.splits)

lemma kv_ok_rename [kv_simps]: "kv_ok kv \<Longrightarrow> kv_ok (rename_file p q kv)"
  by (simp add: rename_file_def kv_simps split: option.splits)

lemma kv_keys_listed:
  assumes "kv_keys kv (Some h) m = Inr ks" and "CHR ''/'' \<notin> set n" and "kv_at kv (h @ CHR ''/'' # n) \<noteq> None"
    and "contains_str m n"
  shows "ks_scoped h n \<in> set ks"
proof -
  have ks: "ks = map (ks_scoped h) (filter (\<lambda>n. m = [] \<or> contains_str m n)
      (map (snd \<circ> split_path) (filter (\<lambda>p. fst (split_path p) = Some h) (map fst (kv_files kv)))))"
    using assms(1) by (auto simp: kv_keys_def read_dir_files_def split: if_splits)
  have p: "split_path (h @ CHR ''/'' # n) = (Some h, n)" by (rule split_path_append [OF assms(2)])
  have "h @ CHR ''/'' # n \<in> set (filter (\<lambda>p. fst (split_path p) = Some h) (map fst (kv_files kv)))"
    using assms(3) path_exists_iff [of "h @ CHR ''/'' # n" kv] by (simp add: p path_exists_def)
  then have "n \<in> set (map (snd \<circ> split_path) (filter (\<lambda>p. fst (split_path p) = Some h) (map fst (kv_files kv))))"
    unfolding set_map by (rule rev_image_eqI) (simp add: p)
  then show ?thesis unfolding ks using assms(4) by simp
qed

lemma kv_has_iff [kv_simps]: "kv_has kv k \<longleftrightarrow> kv_at kv (file_path k) \<noteq> None"
  by (simp add: kv_has_def kv_simps)

lemma kv_get_alt [kv_simps]:
  "kv_reliable kv \<Longrightarrow> kv_get cd kv k =
     (case kv_at kv (file_path k) of
        None \<Rightarrow> Inr None
      | Some Truncated \<Rightarrow> Inl JsonError
      | Some (Complete j) \<Rightarrow> (case dec cd j of None \<Rightarrow> Inl JsonError | Some v \<Rightarrow> Inr (Some v)))"
  by (simp add: kv_get_def kv_at_def kv_reliable_def split: option.splits content.splits)

section \<open>The interface for the stores\<close>

text \<open>What the stores rely on of a tree of files: lookups after a write, a removal and a rename,
  alone and in loops.\<close>

locale file_tree =
  fixes at :: "'f \<Rightarrow> 'p \<Rightarrow> 'c option"
    and put :: "'p \<Rightarrow> 'c \<Rightarrow> 'f \<Rightarrow> 'f"
    and del :: "'p \<Rightarrow> 'f \<Rightarrow> 'f"
    and ren :: "'p \<Rightarrow> 'p \<Rightarrow> 'f \<Rightarrow> 'f"
  assumes at_put: "at (put p c f) q = (if q = p then Some c else at f q)"
    and at_del: "at (del p f) q = (if q = p then None else at f q)"
    and at_ren: "at (ren p r f) q =
      (if at f p = None then at f q
       else if q = r then at f p else if q = p then None else at f q)"
begin

lemma put_twice: "at (put p c (put p d f)) q = at (put p c f) q"
  by (simp add: at_put)

lemma at_fold_del: "at (fold del ps f) q = (if q \<in> set ps then None else at f q)"
  by (induction ps arbitrary: f) (auto simp: at_del)

lemma at_fold_ren_other:
  "q \<notin> set ps \<Longrightarrow> q \<notin> t ` set ps \<Longrightarrow> at (fold (\<lambda>p. ren p (t p)) ps f) q = at f q"
  by (induction ps arbitrary: f) (auto simp: at_ren)

text \<open>The update pattern of the snapshots: write beside, drop the backup, make the current value
  the backup, and move the new value into place.\<close>

lemma at_rotate:
  assumes "n \<noteq> c" "n \<noteq> b" "c \<noteq> b"
  shows "at (ren n c (ren c b (del b (put n v f)))) c = Some v"
    and "at (ren n c (ren c b (del b (put n v f)))) b = at f c"
    and "at (ren n c (ren c b (del b (put n v f)))) n = None"
  using assms by (auto simp: at_put at_del at_ren)

end

interpretation fs: file_tree kv_at write_file remove_file rename_file
  by unfold_locales (auto simp: kv_simps)

lemma kv_reliable_prims [kv_simps]:
  "kv_reliable (write_file p c kv) = kv_reliable kv"
  "kv_reliable (remove_file p kv) = kv_reliable kv"
  "kv_reliable (create_dir_all d kv) = kv_reliable kv"
  "kv_reliable (rename_file p q kv) = kv_reliable kv"
  "kv_reliable (kv\<lparr> kv_dirs := ds \<rparr>) = kv_reliable kv"
  by (simp_all add: kv_reliable_def kv_simps)

lemma store_reliable [kv_simps]:
  "kv_reliable kv \<Longrightarrow> kv_store_val rnd cd k v kv =
     (Inr (), rename_file (swap_file_path rnd k) (file_path k)
        (write_file (swap_file_path rnd k) (Complete (enc cd v)) (create_dir_all (ks_scope k) kv)))"
  by (simp add: kv_store_val_def kv_reliable_def Let_def)

lemma store_new_reliable [kv_simps]:
  "kv_reliable kv \<Longrightarrow> kv_store_new cd k v kv =
     (if kv_at kv (file_path k) \<noteq> None then (Inl (DuplicateKey k), kv)
      else (Inr (), write_file (file_path k) (Complete (enc cd v)) (create_dir_all (ks_scope k) kv)))"
  by (simp add: kv_store_new_def kv_reliable_def Let_def kv_simps)

lemma drop_key_reliable [kv_simps]:
  "kv_reliable kv \<Longrightarrow> drop_key k kv =
     (Inr (), if kv_at kv (file_path k) \<noteq> None then remove_file (file_path k) kv else kv)"
  by (simp add: drop_key_def kv_reliable_def Let_def kv_simps)

text \<open>A successful move between different keys is a rename; nothing else changes.\<close>

lemma move_key_at:
  assumes "kv_reliable kv" and "move_key from to kv = (r, kv')"
  shows "kv_reliable kv'"
    and "r = Inr () \<Longrightarrow> kv_at kv (file_path from) \<noteq> None \<and>
           kv_at kv' q = (if q = file_path to then kv_at kv (file_path from)
                          else if q = file_path from then None else kv_at kv q)"
    and "r \<noteq> Inr () \<Longrightarrow> kv_at kv' q = kv_at kv q"
  using assms
  by (auto simp: move_key_def Let_def kv_simps split: if_splits option.splits)

lemma kv_ok_ops [kv_simps]:
  "kv_ok kv \<Longrightarrow> kv_ok (snd (move_key from to kv))"
  "kv_ok kv \<Longrightarrow> kv_ok (snd (drop_key k kv))"
  by (auto simp: move_key_def drop_key_def Let_def kv_simps split: option.splits)

lemma kv_dirs_ops [kv_simps]:
  "set (kv_dirs kv) \<subseteq> set (kv_dirs (snd (move_key from to kv)))"
  "kv_dirs (snd (drop_key k kv)) = kv_dirs kv"
  by (auto simp: move_key_def drop_key_def Let_def rename_file_def write_file_def remove_file_def
      split: option.splits)

lemma move_key_succeeds:
  assumes "kv_reliable kv" and "kv_at kv (file_path from) \<noteq> None"
    and "case ks_scope to of None \<Rightarrow> True
         | Some d \<Rightarrow> d \<in> set (kv_dirs kv) \<or> parent_exists d kv"
  shows "fst (move_key from to kv) = Inr ()"
  using assms by (auto simp: move_key_def Let_def kv_simps kv_reliable_def split: option.splits)

text \<open>
  C15: Storing a value is atomic whatever fails: the key holds the new value if the operation
  succeeds and what it held before if it does not, no other key changes, and on success the
  temporary file is gone.
\<close>

theorem store_atomic:
  assumes "kv_store_val rnd cd k v kv = (r, kv')"
  shows "kv_at kv' (file_path k) =
           (if r = Inr () then Some (Complete (enc cd v)) else kv_at kv (file_path k)) \<and>
         (\<forall>p. p \<noteq> file_path k \<and> p \<noteq> swap_file_path rnd k \<longrightarrow> kv_at kv' p = kv_at kv p) \<and>
         (r = Inr () \<longrightarrow> kv_at kv' (swap_file_path rnd k) = None)"
proof (cases "kv_faults kv (file_path k)")
  case None
  then show ?thesis
    using assms swap_not_target [of rnd k]
    by (auto simp: kv_store_val_def Let_def kv_simps)
next
  case (Some f)
  then show ?thesis
    using assms swap_not_target [of rnd k]
    by (cases f) (auto simp: kv_store_val_def Let_def kv_simps)
qed

theorem store_atomic_witness:
  "\<exists>kv'. kv_store_val ''ab'' nat_codec (ks_scoped ''ca'' ''info.json'') 2 full_disk = (Inl IoError, kv')
     \<and> kv_at kv' ''ca/info.json'' = Some (Complete 1)"
proof -
  let ?k = "ks_scoped ''ca'' ''info.json''"
  have e: "kv_store_val ''ab'' nat_codec ?k 2 full_disk =
      (Inl IoError, snd (kv_store_val ''ab'' nat_codec ?k 2 full_disk))"
    by (simp add: kv_store_val_def full_disk_def Let_def)
  have p: "file_path ?k = ''ca/info.json''"
    by (simp add: kv_simps)
  have "kv_at (snd (kv_store_val ''ab'' nat_codec ?k 2 full_disk)) ''ca/info.json'' = Some (Complete 1)"
    using store_atomic [OF e, THEN conjunct1] unfolding p
    by (simp add: kv_at_def full_disk_def)
  with e show ?thesis by blast
qed

end
