(* ===== verification/Wal.thy ===== *)
theory Wal
  imports KeyValue
begin

text \<open>
  The write-ahead log store of \<^verbatim>\<open>commons/eventsourcing/wal.rs\<close>. A type with write-ahead support is
  a record of its functions, \<open>wal_support\<close>; the store is the key-value store and the cache of
  instances. Every operation that holds the lock of its handle is one step. Taking a snapshot
  does not hold the lock: its phases are also given one by one and interleaved with commands.

  The loop that applies the logged changes stops when no further log entry exists. It is
  modelled with fuel, one more than there are files, and yields \<open>Diverges\<close> when the fuel runs
  out, which never happens for types that obey the contract of the trait.
\<close>

section \<open>The trait and the store\<close>

record 'c wal_set =
  ws_revision :: nat
  ws_summary :: string
  ws_changes :: "'c list"

datatype wal_store_error =
  KeyStoreError kv_error | UnknownEntity string | WarmupFailed string wal_store_error | Diverges

record ('s, 'cmd, 'c, 'e, 'j) wal_support =
  wal_revision :: "'s \<Rightarrow> nat"
  wal_apply :: "'c wal_set \<Rightarrow> 's \<Rightarrow> 's"
  wal_process :: "'cmd \<Rightarrow> 's \<Rightarrow> 'e + 'c list"
  wal_cmd_handle :: "'cmd \<Rightarrow> string"
  wal_cmd_show :: "'cmd \<Rightarrow> string"
  wal_from_err :: "wal_store_error \<Rightarrow> 'e"
  wal_state_codec :: "('s, 'j) codec"
  wal_set_codec :: "('c wal_set, 'j) codec"
  wal_is_handle :: "string \<Rightarrow> bool"

record ('s, 'j) wal_store =
  ws_kv :: "'j kv_store"
  ws_cache :: "(string, 's) hmap"

definition wal_snapshot_key :: "string \<Rightarrow> key_store_key" where
  "wal_snapshot_key h = ks_scoped h ''snapshot.json''"

definition wal_set_key :: "string \<Rightarrow> nat \<Rightarrow> key_store_key" where
  "wal_set_key h r = ks_scoped h (''wal-'' @ show_nat r @ ''.json'')"

section \<open>Operations\<close>

definition wal_add ::
  "('s, 'cmd, 'c, 'e, 'j) wal_support \<Rightarrow> string \<Rightarrow> 's \<Rightarrow>
   (('s, 'j) wal_store, wal_store_error, unit) st" where
  "wal_add T h inst st =
     (case kv_store_new (wal_state_codec T) (wal_snapshot_key h) inst (ws_kv st) of
        (Inl e, kv) \<Rightarrow> (Inl (KeyStoreError e), st\<lparr> ws_kv := kv \<rparr>)
      | (Inr u, kv) \<Rightarrow>
          (Inr (), st\<lparr> ws_kv := kv, ws_cache := hm_insert h inst (ws_cache st) \<rparr>))"

definition wal_has :: "('s, 'j) wal_store \<Rightarrow> string \<Rightarrow> bool" where
  "wal_has st h = kv_has (ws_kv st) (wal_snapshot_key h)"

definition wal_get_snapshot ::
  "('s, 'cmd, 'c, 'e, 'j) wal_support \<Rightarrow> 'j kv_store \<Rightarrow> string \<Rightarrow> wal_store_error + 's" where
  "wal_get_snapshot T kv h =
     (case kv_get (wal_state_codec T) kv (wal_snapshot_key h) of
        Inl e \<Rightarrow> Inl (KeyStoreError e)
      | Inr None \<Rightarrow> Inl (UnknownEntity h)
      | Inr (Some s) \<Rightarrow> Inr s)"

fun wal_replay ::
  "nat \<Rightarrow> ('s, 'cmd, 'c, 'e, 'j) wal_support \<Rightarrow> 'j kv_store \<Rightarrow> string \<Rightarrow> 's \<Rightarrow>
   wal_store_error + 's" where
  "wal_replay 0 T kv h inst = Inl Diverges"
| "wal_replay (Suc n) T kv h inst =
     (case kv_get (wal_set_codec T) kv (wal_set_key h (wal_revision T inst)) of
        Inl e \<Rightarrow> Inl (KeyStoreError e)
      | Inr None \<Rightarrow> Inr inst
      | Inr (Some w) \<Rightarrow> wal_replay n T kv h (wal_apply T w inst))"

definition wal_get_latest ::
  "('s, 'cmd, 'c, 'e, 'j) wal_support \<Rightarrow> string \<Rightarrow> (('s, 'j) wal_store, wal_store_error, 's) st" where
  "wal_get_latest T h st =
     (case (case hm_get (ws_cache st) h of
              None \<Rightarrow> wal_get_snapshot T (ws_kv st) h
            | Some inst \<Rightarrow> Inr inst) of
        Inl e \<Rightarrow> (Inl e, st)
      | Inr inst \<Rightarrow>
          if \<not> kv_has (ws_kv st) (wal_set_key h (wal_revision T inst)) then (Inr inst, st)
          else
            (case wal_replay (Suc (length (kv_files (ws_kv st)))) T (ws_kv st) h inst of
               Inl e \<Rightarrow> (Inl e, st)
             | Inr inst' \<Rightarrow> (Inr inst', st\<lparr> ws_cache := hm_insert h inst' (ws_cache st) \<rparr>)))"

definition wal_remove :: "string \<Rightarrow> (('s, 'j) wal_store, wal_store_error, unit) st" where
  "wal_remove h st =
     (if \<not> wal_has st h then (Inl (UnknownEntity h), st)
      else let st1 = st\<lparr> ws_cache := hm_remove h (ws_cache st) \<rparr> in
        case drop_scope h (ws_kv st1) of
          (Inl e, kv) \<Rightarrow> (Inl (KeyStoreError e), st1\<lparr> ws_kv := kv \<rparr>)
        | (Inr u, kv) \<Rightarrow> (Inr (), st1\<lparr> ws_kv := kv \<rparr>))"

definition wal_list :: "('s, 'cmd, 'c, 'e, 'j) wal_support \<Rightarrow> ('s, 'j) wal_store \<Rightarrow> string list" where
  "wal_list T st = filter (wal_is_handle T) (scopes (ws_kv st))"

definition wal_warm_one ::
  "('s, 'cmd, 'c, 'e, 'j) wal_support \<Rightarrow> string \<Rightarrow> (('s, 'j) wal_store, wal_store_error, unit) st" where
  "wal_warm_one T h =
     st_bind (st_err (WarmupFailed h) (wal_get_latest T h)) (\<lambda>latest st.
       (Inr (), st\<lparr> ws_cache := hm_insert h latest (ws_cache st) \<rparr>))"

definition wal_warm ::
  "('s, 'cmd, 'c, 'e, 'j) wal_support \<Rightarrow> (('s, 'j) wal_store, wal_store_error, unit) st" where
  "wal_warm T st = st_for (wal_warm_one T) (wal_list T st) st"

definition wal_send_command ::
  "('s, 'cmd, 'c, 'e, 'j) wal_support \<Rightarrow> 'cmd \<Rightarrow> (('s, 'j) wal_store, 'e, 's) st" where
  "wal_send_command T cmd st =
     (let h = wal_cmd_handle T cmd in
      case wal_get_latest T h st of
        (Inl e, st1) \<Rightarrow> (Inl (wal_from_err T e), st1)
      | (Inr latest, st1) \<Rightarrow>
          (case wal_process T cmd latest of
             Inl e \<Rightarrow> (Inl e, st1)
           | Inr changes \<Rightarrow>
               if changes = [] then (Inr latest, st1)
               else
                 let w = \<lparr> ws_revision = wal_revision T latest, ws_summary = wal_cmd_show T cmd,
                             ws_changes = changes \<rparr>
                 in case kv_store_new (wal_set_codec T) (wal_set_key h (wal_revision T latest)) w
                           (ws_kv st1) of
                      (Inl e, kv) \<Rightarrow> (Inl (wal_from_err T (KeyStoreError e)), st1\<lparr> ws_kv := kv \<rparr>)
                    | (Inr u, kv) \<Rightarrow>
                        let latest' = wal_apply T w latest in
                        (Inr latest',
                         st1\<lparr> ws_kv := kv, ws_cache := hm_insert h latest' (ws_cache st1) \<rparr>)))"

definition wal_key_revision :: "string \<Rightarrow> nat option" where
  "wal_key_revision name =
     (case strip_prefix ''wal-'' name of
        None \<Rightarrow> None
      | Some remaining \<Rightarrow>
          (case strip_suffix ''.json'' remaining of
             None \<Rightarrow> None
           | Some number \<Rightarrow> parse_uint 64 number))"

text \<open>The cleaning of one key: archived or dropped when it is a log entry before the snapshot.\<close>

definition wal_clean_key :: "bool \<Rightarrow> nat \<Rightarrow> key_store_key \<Rightarrow> ('j kv_store, kv_error, unit) st" where
  "wal_clean_key arch n k kv =
     (case wal_key_revision (ks_name k) of
        None \<Rightarrow> (Inr (), kv)
      | Some r \<Rightarrow> if r < n then (if arch then archive k kv else drop_key k kv) else (Inr (), kv))"

definition wal_clean :: "bool \<Rightarrow> string \<Rightarrow> nat \<Rightarrow> ('j kv_store, kv_error, unit) st" where
  "wal_clean arch h n kv =
     (case kv_keys kv (Some h) ''wal-'' of
        Inl e \<Rightarrow> (Inl e, kv)
      | Inr ks \<Rightarrow> st_for (wal_clean_key arch n) ks kv)"

definition wal_update_snapshot ::
  "('s, 'cmd, 'c, 'e, 'j) wal_support \<Rightarrow> string \<Rightarrow> string \<Rightarrow> bool \<Rightarrow>
   (('s, 'j) wal_store, wal_store_error, unit) st" where
  "wal_update_snapshot T rnd h arch =
     st_bind (wal_get_latest T h) (\<lambda>latest.
     st_err KeyStoreError (st_zoom ws_kv (\<lambda>kv st. st\<lparr> ws_kv := kv \<rparr>)
       (st_bind (kv_store_val rnd (wal_state_codec T) (wal_snapshot_key h) latest) (\<lambda>_.
        wal_clean arch h (wal_revision T latest)))))"

section \<open>Specification\<close>

text \<open>
  The contract of the trait: applying a set of changes raises the revision by one. The
  serializer reads back what it wrote.
\<close>

definition wal_lawful :: "('s, 'cmd, 'c, 'e, 'j) wal_support \<Rightarrow> bool" where
  "wal_lawful T \<longleftrightarrow>
     (\<forall>w s. wal_revision T (wal_apply T w s) = Suc (wal_revision T s)) \<and>
     codec_ok (wal_state_codec T) \<and> codec_ok (wal_set_codec T)"

definition wal_path :: "string \<Rightarrow> nat \<Rightarrow> string" where
  "wal_path h r = file_path (wal_set_key h r)"

definition snap_path :: "string \<Rightarrow> string" where
  "snap_path h = file_path (wal_snapshot_key h)"

text \<open>\<open>wal_disk\<close>: the disk holds the snapshot \<open>s0\<close> and after it exactly the log \<open>ws\<close>.\<close>

definition wal_disk ::
  "('s, 'cmd, 'c, 'e, 'j) wal_support \<Rightarrow> 'j kv_store \<Rightarrow> string \<Rightarrow> 's \<Rightarrow> 'c wal_set list \<Rightarrow> bool" where
  "wal_disk T kv h s0 ws \<longleftrightarrow>
     kv_at kv (snap_path h) = Some (Complete (enc (wal_state_codec T) s0)) \<and>
     (\<forall>i < length ws. kv_at kv (wal_path h (wal_revision T s0 + i)) =
        Some (Complete (enc (wal_set_codec T) (ws ! i)))) \<and>
     (\<forall>r. wal_revision T s0 + length ws \<le> r \<longrightarrow> kv_at kv (wal_path h r) = None)"

text \<open>\<open>wal_holds\<close>: the store holds the state \<open>s\<close> for the handle, on disk and, if it is there, in
  the cache.\<close>

definition wal_holds ::
  "('s, 'cmd, 'c, 'e, 'j) wal_support \<Rightarrow> ('s, 'j) wal_store \<Rightarrow> string \<Rightarrow> 's \<Rightarrow> bool" where
  "wal_holds T st h s \<longleftrightarrow>
     kv_reliable (ws_kv st) \<and> kv_ok (ws_kv st) \<and>
     (\<exists>s0 ws. wal_disk T (ws_kv st) h s0 ws \<and> s = fold (wal_apply T) ws s0) \<and>
     (\<forall>c. hm_get (ws_cache st) h = Some c \<longrightarrow> c = s)"

text \<open>What a command does to the state, independent of any store.\<close>

definition wal_spec :: "('s, 'cmd, 'c, 'e, 'j) wal_support \<Rightarrow> 'cmd \<Rightarrow> 's \<Rightarrow> ('e + unit) \<times> 's" where
  "wal_spec T cmd s =
     (case wal_process T cmd s of
        Inl e \<Rightarrow> (Inl e, s)
      | Inr changes \<Rightarrow>
          if changes = [] then (Inr (), s)
          else (Inr (), wal_apply T \<lparr> ws_revision = wal_revision T s, ws_summary = wal_cmd_show T cmd,
                                      ws_changes = changes \<rparr> s))"

text \<open>
  The background task that takes snapshots, as phases between which other operations run:
  idle, holding an instance it is about to write, and cleaning the log before a revision.
\<close>

datatype 's snap_job = Idle | Writing 's | Cleaning nat

inductive wal_step ::
  "('s, 'cmd, 'c, 'e, 'j) wal_support \<Rightarrow> string \<Rightarrow>
   ('s, 'j) wal_store \<times> 's snap_job \<times> 's \<Rightarrow> ('s, 'j) wal_store \<times> 's snap_job \<times> 's \<Rightarrow> bool"
  for T h where
  command: "wal_cmd_handle T cmd = h \<Longrightarrow> wal_send_command T cmd st = (r, st') \<Longrightarrow>
     wal_step T h (st, job, s) (st', job, snd (wal_spec T cmd s))"
| other: "wal_cmd_handle T cmd \<noteq> h \<Longrightarrow> wal_send_command T cmd st = (r, st') \<Longrightarrow>
     wal_step T h (st, job, s) (st', job, s)"
| begin_job: "wal_get_latest T h st = (Inr l, st') \<Longrightarrow>
     wal_step T h (st, Idle, s) (st', Writing l, s)"
| write_job: "CHR ''/'' \<notin> set rnd \<Longrightarrow>
     kv_store_val rnd (wal_state_codec T) (wal_snapshot_key h) l (ws_kv st) = (Inr (), kv) \<Longrightarrow>
     wal_step T h (st, Writing l, s) (st\<lparr> ws_kv := kv \<rparr>, Cleaning (wal_revision T l), s)"
| clean_job: "kv_keys (ws_kv st) (Some h) ''wal-'' = Inr ks \<Longrightarrow> k \<in> set ks \<Longrightarrow>
     wal_clean_key arch n k (ws_kv st) = (r, kv) \<Longrightarrow>
     wal_step T h (st, Cleaning n, s) (st\<lparr> ws_kv := kv \<rparr>, Cleaning n, s)"
| end_job: "wal_step T h (st, job, s) (st, Idle, s)"
| crash: "wal_step T h (st, job, s) (st\<lparr> ws_cache := [] \<rparr>, Idle, s)"

text \<open>The invariant of interleaved runs.\<close>

definition job_ok ::
  "('s, 'cmd, 'c, 'e, 'j) wal_support \<Rightarrow> 's \<Rightarrow> 'c wal_set list \<Rightarrow> 's snap_job \<Rightarrow> bool" where
  "job_ok T s0 ws job =
     (case job of
        Idle \<Rightarrow> True
      | Writing l \<Rightarrow> \<exists>i \<le> length ws. l = fold (wal_apply T) (take i ws) s0
      | Cleaning n \<Rightarrow> n \<le> wal_revision T s0)"

definition wal_cfg_ok ::
  "('s, 'cmd, 'c, 'e, 'j) wal_support \<Rightarrow> string \<Rightarrow> ('s, 'j) wal_store \<times> 's snap_job \<times> 's \<Rightarrow> bool" where
  "wal_cfg_ok T h = (\<lambda>(st, job, s).
     wal_holds T st h s \<and>
     (\<exists>s0 ws. wal_disk T (ws_kv st) h s0 ws \<and> s = fold (wal_apply T) ws s0 \<and> job_ok T s0 ws job))"

text \<open>A counter with write-ahead support, and its store.\<close>

definition ctr_wal :: "(nat \<times> nat, nat, nat, string, nat list) wal_support" where
  "ctr_wal = \<lparr>
     wal_revision = fst,
     wal_apply = (\<lambda>w (r, n). (Suc r, fold (+) (ws_changes w) n)),
     wal_process = (\<lambda>k s. if k = 0 then Inl ''zero'' else Inr (if k = 1 then [] else [k])),
     wal_cmd_handle = (\<lambda>_. ''ctr''), wal_cmd_show = (\<lambda>_. []), wal_from_err = (\<lambda>_. ''store''),
     wal_state_codec = \<lparr> enc = (\<lambda>(r, n). [r, n]), dec = (\<lambda>xs. case xs of [r, n] \<Rightarrow> Some (r, n) | _ \<Rightarrow> None) \<rparr>,
     wal_set_codec = \<lparr> enc = (\<lambda>w. ws_revision w # length (ws_summary w) # map of_char (ws_summary w) @ ws_changes w),
       dec = (\<lambda>xs. case xs of r # l # ys \<Rightarrow>
          Some \<lparr> ws_revision = r, ws_summary = map char_of (take l ys), ws_changes = drop l ys \<rparr> | _ \<Rightarrow> None) \<rparr>,
     wal_is_handle = (\<lambda>_. True) \<rparr>"

definition ctr_store :: "(nat \<times> nat, nat list) wal_store" where
  "ctr_store = \<lparr> ws_kv = \<lparr> kv_dirs = [''ctr''], kv_files = [(''ctr/snapshot.json'', Complete [0, 5])],
                           kv_faults = (\<lambda>_. None) \<rparr>, ws_cache = [] \<rparr>"

section \<open>The contract of the trait\<close>

locale wal_contract =
  fixes rev :: "'s \<Rightarrow> nat" and app :: "'w \<Rightarrow> 's \<Rightarrow> 's"
  assumes rev_app: "rev (app w s) = Suc (rev s)"
begin

lemma rev_fold: "rev (fold app ws s) = rev s + length ws"
  by (induction ws arbitrary: s) (simp_all add: rev_app)

text \<open>A state is identified by its revision among the states that a log passes through.\<close>

lemma fold_take_inj:
  "i \<le> length ws \<Longrightarrow> j \<le> length ws \<Longrightarrow>
   rev (fold app (take i ws) s) = rev (fold app (take j ws) s) \<longleftrightarrow> i = j"
  by (simp add: rev_fold)

lemma fold_split:
  "i \<le> length ws \<Longrightarrow> fold app (drop i ws) (fold app (take i ws) s) = fold app ws s"
  by (metis append_take_drop_id comp_apply fold_append)

end

lemma wal_lawfulD:
  assumes "wal_lawful T"
  shows "wal_contract (wal_revision T) (wal_apply T)"
    and "dec (wal_state_codec T) (enc (wal_state_codec T) s) = Some s"
    and "dec (wal_set_codec T) (enc (wal_set_codec T) w) = Some w"
  using assms by (auto simp: wal_lawful_def codec_ok_def wal_contract_def)

section \<open>Keys\<close>

lemma not_digit_slash [simp]: "\<not> is_digit (CHR ''/'')"
  by (simp add: is_digit_def)

lemma slash_free:
  "CHR ''/'' \<notin> set (''wal-'' @ show_nat r @ ''.json'')" "CHR ''/'' \<notin> set ''snapshot.json''"
  by (auto simp: show_nat_notin)

lemma wal_path_alt: "wal_path h r = h @ CHR ''/'' # (''wal-'' @ show_nat r @ ''.json'')"
  by (simp add: wal_path_def wal_set_key_def kv_simps)

lemma snap_path_alt: "snap_path h = h @ CHR ''/'' # ''snapshot.json''"
  by (simp add: snap_path_def wal_snapshot_key_def kv_simps)

lemma split_wal_path: "split_path (wal_path h r) = (Some h, ''wal-'' @ show_nat r @ ''.json'')"
  unfolding wal_path_alt by (rule split_path_append [OF slash_free(1)])

lemma split_snap_path: "split_path (snap_path h) = (Some h, ''snapshot.json'')"
  unfolding snap_path_alt by (rule split_path_append [OF slash_free(2)])

lemma wal_path_inject [simp]: "wal_path h r = wal_path g q \<longleftrightarrow> h = g \<and> r = q"
proof
  assume "wal_path h r = wal_path g q"
  then have "(Some h, ''wal-'' @ show_nat r @ ''.json'') = (Some g, ''wal-'' @ show_nat q @ ''.json'')"
    by (simp only: split_wal_path [symmetric])
  then show "h = g \<and> r = q" by simp
qed simp

lemma wal_key_names_differ: "''wal-'' @ n \<noteq> ''snapshot.json''"
  by simp

lemma snap_wal_distinct [simp]: "snap_path h \<noteq> wal_path g r" "wal_path g r \<noteq> snap_path h"
  using wal_key_names_differ by (metis prod.inject split_snap_path split_wal_path)+

lemma snap_path_inject [simp]: "snap_path h = snap_path g \<longleftrightarrow> h = g"
  by (simp add: snap_path_alt)

lemma wal_key_revision_name: "r < 2 ^ 64 \<Longrightarrow> wal_key_revision (''wal-'' @ show_nat r @ ''.json'') = Some r"
  by (simp only: wal_key_revision_def strip_prefix_append strip_suffix_append option.case parse_uint_show)

lemma wal_key_revision_SomeD:
  assumes "wal_key_revision (''wal-'' @ show_nat r @ ''.json'') = Some q"
  shows "q = r"
  using assms
  by (simp only: wal_key_revision_def strip_prefix_append strip_suffix_append option.case)
    (auto simp: parse_uint_def text_simps split: if_splits)

lemma wal_key_revision_snapshot: "wal_key_revision ''snapshot.json'' = None"
  by (simp add: wal_key_revision_def strip_prefix_def)

section \<open>Reading\<close>

lemma wal_replay_from:
  assumes L: "wal_lawful T" and R: "kv_reliable kv" and D: "wal_disk T kv h s0 ws"
  shows "i \<le> length ws \<Longrightarrow> length ws - i < fuel \<Longrightarrow>
    wal_replay fuel T kv h (fold (wal_apply T) (take i ws) s0) = Inr (fold (wal_apply T) ws s0)"
proof (induction "length ws - i" arbitrary: i fuel)
  case 0
  then have i: "i = length ws" and "fuel \<noteq> 0" by auto
  then obtain n where n: "fuel = Suc n" by (cases fuel) auto
  have "kv_at kv (wal_path h (wal_revision T s0 + length ws)) = None"
    using D by (simp add: wal_disk_def)
  then show ?case
    using R i n by (simp add: kv_simps wal_contract.rev_fold [OF wal_lawfulD(1) [OF L]] wal_path_def)
next
  case (Suc x)
  then have lt: "i < length ws" by simp
  obtain n where n: "fuel = Suc n" using Suc.prems by (cases fuel) auto
  have at: "kv_at kv (wal_path h (wal_revision T s0 + i)) =
      Some (Complete (enc (wal_set_codec T) (ws ! i)))"
    using D lt by (simp add: wal_disk_def)
  have r: "wal_revision T (fold (wal_apply T) (take i ws) s0) = wal_revision T s0 + i"
    using lt by (simp add: wal_contract.rev_fold [OF wal_lawfulD(1) [OF L]])
  have "wal_replay n T kv h (fold (wal_apply T) (take (Suc i) ws) s0) = Inr (fold (wal_apply T) ws s0)"
    using Suc.hyps Suc.prems lt n by (intro Suc.hyps(1)) linarith+
  moreover have "fold (wal_apply T) (take (Suc i) ws) s0 =
      wal_apply T (ws ! i) (fold (wal_apply T) (take i ws) s0)"
    using lt by (simp add: take_Suc_conv_app_nth)
  ultimately show ?case
    using R n at by (simp add: kv_get_alt r wal_path_def [symmetric] wal_lawfulD(3) [OF L])
qed

lemma wal_log_bounded:
  assumes "wal_disk T kv h s0 ws"
  shows "length ws \<le> length (kv_files kv)"
proof (rule files_bound)
  show "inj_on (\<lambda>i. wal_path h (wal_revision T s0 + i)) {..<length ws}" by (simp add: inj_on_def)
  show "kv_at kv (wal_path h (wal_revision T s0 + i)) \<noteq> None" if "i < length ws" for i
    using assms that by (simp add: wal_disk_def)
qed

lemma wal_get_latest_holds:
  assumes L: "wal_lawful T" and H: "wal_holds T st h s"
  shows "\<exists>st'. wal_get_latest T h st = (Inr s, st') \<and> ws_kv st' = ws_kv st \<and> wal_holds T st' h s
    \<and> (\<forall>g. g \<noteq> h \<longrightarrow> hm_get (ws_cache st') g = hm_get (ws_cache st) g)"
proof -
  obtain s0 ws where D: "wal_disk T (ws_kv st) h s0 ws" and s: "s = fold (wal_apply T) ws s0"
    and R: "kv_reliable (ws_kv st)" and C: "\<And>c. hm_get (ws_cache st) h = Some c \<Longrightarrow> c = s"
    using H by (auto simp: wal_holds_def)
  note rv = wal_contract.rev_fold [OF wal_lawfulD(1) [OF L]]
  have none: "kv_at (ws_kv st) (wal_path h (wal_revision T s)) = None"
    using D by (simp add: wal_disk_def s rv)
  show ?thesis
  proof (cases "hm_get (ws_cache st) h")
    case (Some c)
    with C none have "wal_get_latest T h st = (Inr s, st)"
      by (simp add: wal_get_latest_def kv_simps wal_path_def)
    with H show ?thesis by auto
  next
    case None
    have g: "wal_get_snapshot T (ws_kv st) h = Inr s0"
      using D R by (simp add: wal_get_snapshot_def kv_simps wal_disk_def snap_path_def wal_lawfulD(2) [OF L])
    have e: "s0 = s" if "kv_at (ws_kv st) (wal_path h (wal_revision T s0)) = None"
    proof -
      have "\<not> 0 < length ws"
        using D that unfolding wal_disk_def by (metis add_0_right option.distinct(1))
      with s show ?thesis by simp
    qed
    have f: "wal_replay (Suc (length (kv_files (ws_kv st)))) T (ws_kv st) h s0 = Inr s"
      using wal_replay_from [OF L R D, of 0 "Suc (length (kv_files (ws_kv st)))"]
        wal_log_bounded [OF D] s by (simp del: wal_replay.simps)
    show ?thesis
    proof (cases "kv_at (ws_kv st) (wal_path h (wal_revision T s0)) = None")
      case True
      then have "wal_get_latest T h st = (Inr s, st)"
        using None g e by (simp add: wal_get_latest_def kv_has_iff wal_path_def)
      with H show ?thesis by auto
    next
      case False
      then have "wal_get_latest T h st = (Inr s, st\<lparr> ws_cache := hm_insert h s (ws_cache st) \<rparr>)"
        using None g f by (simp add: wal_get_latest_def kv_has_iff wal_path_def del: wal_replay.simps)
      with H show ?thesis by (simp add: wal_holds_def hmap_simps)
    qed
  qed
qed

section \<open>Commands\<close>

lemma wal_disk_append:
  assumes "wal_disk T kv h s0 ws" and "r = wal_revision T s0 + length ws"
  shows "wal_disk T (write_file (wal_path h r) (Complete (enc (wal_set_codec T) w)) kv) h s0 (ws @ [w])"
  using assms by (auto simp: wal_disk_def kv_at_prims nth_append less_Suc_eq)

lemma wal_disk_mkdir: "wal_disk T (create_dir_all d kv) h s0 ws = wal_disk T kv h s0 ws"
  by (simp add: wal_disk_def kv_at_prims)

lemma wal_holdsI:
  assumes "kv_reliable (ws_kv st)" "kv_ok (ws_kv st)" "wal_disk T (ws_kv st) h s0 ws"
    and "s = fold (wal_apply T) ws s0" and "\<And>c. hm_get (ws_cache st) h = Some c \<Longrightarrow> c = s"
  shows "wal_holds T st h s"
  using assms by (auto simp: wal_holds_def)

lemma wal_send_extends:
  assumes L: "wal_lawful T" and H: "wal_holds T st h s" and h: "wal_cmd_handle T cmd = h"
    and D0: "wal_disk T (ws_kv st) h s0 ws" and s: "s = fold (wal_apply T) ws s0"
  shows "\<exists>st' vs. wal_send_command T cmd st =
      (case fst (wal_spec T cmd s) of Inl e \<Rightarrow> Inl e | Inr u \<Rightarrow> Inr (snd (wal_spec T cmd s)), st') \<and>
    wal_holds T st' h (snd (wal_spec T cmd s)) \<and> wal_disk T (ws_kv st') h s0 (ws @ vs) \<and>
    snd (wal_spec T cmd s) = fold (wal_apply T) (ws @ vs) s0"
proof -
  obtain st1 where g: "wal_get_latest T h st = (Inr s, st1)" and H1: "wal_holds T st1 h s"
    and kv: "ws_kv st1 = ws_kv st"
    using wal_get_latest_holds [OF L H] by blast
  have D: "wal_disk T (ws_kv st1) h s0 ws" using D0 kv by simp
  have R: "kv_reliable (ws_kv st1)" "kv_ok (ws_kv st1)"
    using H1 by (auto simp: wal_holds_def)
  have r: "wal_revision T s = wal_revision T s0 + length ws"
    by (simp add: s wal_contract.rev_fold [OF wal_lawfulD(1) [OF L]])
  show ?thesis
  proof (cases "\<exists>c cs. wal_process T cmd s = Inr (c # cs)")
    case False
    then have "wal_process T cmd s = Inr [] \<or> (\<exists>e. wal_process T cmd s = Inl e)"
      by (metis neq_Nil_conv sum.exhaust)
    then show ?thesis
      using g H1 h D s
      by (auto simp: wal_send_command_def wal_spec_def Let_def intro!: exI [of _ "[]"])
  next
    case True
    then obtain cs where c: "wal_process T cmd s = Inr cs" "cs \<noteq> []" by blast
    define w where "w = \<lparr> ws_revision = wal_revision T s, ws_summary = wal_cmd_show T cmd, ws_changes = cs \<rparr>"
    have none: "kv_at (ws_kv st1) (wal_path h (wal_revision T s)) = None"
      using D by (simp add: wal_disk_def r)
    let ?kv = "write_file (wal_path h (wal_revision T s)) (Complete (enc (wal_set_codec T) w))
      (create_dir_all (Some h) (ws_kv st1))"
    let ?st = "st1\<lparr> ws_kv := ?kv, ws_cache := hm_insert h (wal_apply T w s) (ws_cache st1) \<rparr>"
    have "kv_store_new (wal_set_codec T) (wal_set_key h (wal_revision T s)) w (ws_kv st1) = (Inr (), ?kv)"
      using R none by (simp add: store_new_reliable wal_path_def wal_set_key_def ks_scoped_def)
    then have 1: "wal_send_command T cmd st = (Inr (wal_apply T w s), ?st)"
      using g h c by (simp add: wal_send_command_def Let_def w_def)
    have 2: "wal_disk T (ws_kv ?st) h s0 (ws @ [w])"
      using D r by simp (intro wal_disk_append, simp_all add: wal_disk_mkdir)
    then have 3: "wal_holds T ?st h (wal_apply T w s)"
      using R by (intro wal_holdsI [where ?s0.0 = s0 and ws = "ws @ [w]"])
        (simp_all add: kv_simps hmap_simps s)
    have "wal_spec T cmd s = (Inr (), wal_apply T w s)"
      using c by (simp add: wal_spec_def w_def)
    with 1 2 3 show ?thesis by (intro exI [of _ ?st] exI [of _ "[w]"]) (simp add: s)
  qed
qed

section \<open>Frames\<close>

lemma wal_get_latest_frame:
  assumes "wal_get_latest T g st = (r, st')"
  shows "ws_kv st' = ws_kv st" and "g \<noteq> h \<Longrightarrow> hm_get (ws_cache st') h = hm_get (ws_cache st) h"
  using assms by (auto simp: wal_get_latest_def hmap_simps simp del: wal_replay.simps
      split: sum.splits if_splits)

lemma wal_disk_cong:
  assumes "kv_at kv' (snap_path h) = kv_at kv (snap_path h)"
    and "\<And>r. wal_revision T s0 \<le> r \<Longrightarrow> kv_at kv' (wal_path h r) = kv_at kv (wal_path h r)"
  shows "wal_disk T kv' h s0 ws = wal_disk T kv h s0 ws"
  using assms by (simp add: wal_disk_def)

lemma wal_holds_cong:
  assumes "wal_holds T st h s"
    and "kv_reliable (ws_kv st')" "kv_ok (ws_kv st')"
    and "hm_get (ws_cache st') h = hm_get (ws_cache st) h"
    and "kv_at (ws_kv st') (snap_path h) = kv_at (ws_kv st) (snap_path h)"
    and "\<And>r. kv_at (ws_kv st') (wal_path h r) = kv_at (ws_kv st) (wal_path h r)"
  shows "wal_holds T st' h s"
  using assms wal_disk_cong [of "ws_kv st'" h "ws_kv st" T] by (simp add: wal_holds_def)

lemma wal_send_frame:
  assumes R: "kv_reliable (ws_kv st)" "kv_ok (ws_kv st)" and h: "wal_cmd_handle T cmd \<noteq> h"
    and S: "wal_send_command T cmd st = (r, st')"
  shows "kv_reliable (ws_kv st')" "kv_ok (ws_kv st')"
    and "hm_get (ws_cache st') h = hm_get (ws_cache st) h"
    and "kv_at (ws_kv st') (snap_path h) = kv_at (ws_kv st) (snap_path h)"
    and "kv_at (ws_kv st') (wal_path h q) = kv_at (ws_kv st) (wal_path h q)"
proof -
  obtain l st1 where g: "wal_get_latest T (wal_cmd_handle T cmd) st = (l, st1)" by fastforce
  note F = wal_get_latest_frame [OF g]
  show "kv_reliable (ws_kv st')" "kv_ok (ws_kv st')"
    "hm_get (ws_cache st') h = hm_get (ws_cache st) h"
    "kv_at (ws_kv st') (snap_path h) = kv_at (ws_kv st) (snap_path h)"
    "kv_at (ws_kv st') (wal_path h q) = kv_at (ws_kv st) (wal_path h q)"
    using S g F(1) F(2) [OF h] h R
    by (auto simp: wal_send_command_def Let_def store_new_reliable wal_path_def [symmetric]
        kv_simps hmap_simps split: sum.splits if_splits)
qed

lemma wal_send_other:
  assumes H: "wal_holds T st h s" and h: "wal_cmd_handle T cmd \<noteq> h"
    and S: "wal_send_command T cmd st = (r, st')"
  shows "wal_holds T st' h s"
proof -
  have R: "kv_reliable (ws_kv st)" "kv_ok (ws_kv st)" using H by (simp_all add: wal_holds_def)
  show ?thesis
    using wal_send_frame [OF R h S] by (intro wal_holds_cong [OF H]) auto
qed

section \<open>Snapshots\<close>

lemma file_path_archived:
  "CHR ''/'' \<notin> set n \<Longrightarrow> split_path (file_path (ks_archived (ks_scoped h n))) = (Some (h @ ''/archived''), n)"
  by (subst split_file_path) (simp_all add: ks_archived_def sub_scope_def ks_scoped_def Let_def)

lemma path_neq_by_split: "split_path p \<noteq> split_path q \<Longrightarrow> p \<noteq> q"
  by auto

lemma split_scoped: "CHR ''/'' \<notin> set m \<Longrightarrow> split_path (file_path (ks_scoped h m)) = (Some h, m)"
  by (subst split_file_path) (simp_all add: ks_scoped_def)

text \<open>Cleaning the log before revision \<open>n\<close> touches neither the snapshot nor later log entries.\<close>

lemma wal_clean_key_at:
  assumes R: "kv_reliable kv" and n: "CHR ''/'' \<notin> set m"
    and c: "wal_clean_key arch n (ks_scoped h m) kv = (r, kv')"
    and q: "q = snap_path h \<or> (\<exists>i \<ge> n. q = wal_path h i)"
  shows "kv_reliable kv'" and "kv_at kv' q = kv_at kv q"
proof -
  let ?k = "ks_scoped h m"
  have qs: "fst (split_path q) = Some h"
    using q by (auto simp: split_snap_path split_wal_path)
  have ne: "q \<noteq> file_path ?k" if "wal_key_revision m = Some i" "i < n" for i
  proof (rule path_neq_by_split)
    show "split_path q \<noteq> split_path (file_path ?k)"
      using q that
      by (auto simp: split_scoped [OF n] split_wal_path split_snap_path wal_key_revision_snapshot
          dest!: wal_key_revision_SomeD [simplified])
  qed
  have na: "q \<noteq> file_path (ks_archived ?k)"
    by (rule path_neq_by_split) (use qs in \<open>auto simp: file_path_archived [OF n] prod_eq_iff\<close>)
  show "kv_reliable kv'"
    using c R move_key_at(1) [OF R, of ?k "ks_archived ?k" r kv']
    by (auto simp: wal_clean_key_def archive_def drop_key_reliable kv_simps
        split: option.splits if_splits)
  show "kv_at kv' q = kv_at kv q"
    using c R ne na move_key_at(2,3) [OF R, of ?k "ks_archived ?k" r kv' q]
    by (cases "r = Inr ()")
      (auto simp: wal_clean_key_def archive_def drop_key_reliable kv_at_prims ks_scoped_def
        split: option.splits if_splits)
qed

lemma wal_clean_key_ok:
  assumes "kv_ok kv" and "wal_clean_key arch n k kv = (r, kv')"
  shows "kv_ok kv'"
  using assms kv_ok_ops(1) [OF assms(1), of k "ks_archived k"] kv_ok_ops(2) [OF assms(1), of k]
  by (auto simp: wal_clean_key_def archive_def split: option.splits if_splits)

lemma wal_write_snapshot:
  assumes R: "kv_reliable kv" "kv_ok kv" and D: "wal_disk T kv h s0 ws" and i: "i \<le> length ws"
    and rv: "\<And>s vs. wal_revision T (fold (wal_apply T) vs s) = wal_revision T s + length vs"
    and rnd: "CHR ''/'' \<notin> set rnd"
    and st: "kv_store_val rnd (wal_state_codec T) (wal_snapshot_key h)
      (fold (wal_apply T) (take i ws) s0) kv = (r, kv')"
  shows "r = Inr ()" and "kv_reliable kv'" and "kv_ok kv'" and "h \<in> set (kv_dirs kv')"
    and "wal_disk T kv' h (fold (wal_apply T) (take i ws) s0) (drop i ws)"
proof -
  let ?s = "fold (wal_apply T) (take i ws) s0"
  let ?swap = "swap_file_path rnd (wal_snapshot_key h)"
  have sp: "split_path ?swap = (Some h, ''snapshot.json-tmp-'' @ rnd)"
    unfolding swap_file_path_def
    by (subst split_file_path) (use rnd in \<open>simp_all add: wal_snapshot_key_def ks_scoped_def\<close>)
  have sw: "?swap \<noteq> wal_path h q" for q
    by (rule path_neq_by_split) (simp add: sp split_wal_path)
  have ss: "?swap \<noteq> snap_path h"
    using swap_not_target by (simp add: snap_path_def)
  have kv': "r = Inr ()" "kv' = rename_file ?swap (snap_path h)
      (write_file ?swap (Complete (enc (wal_state_codec T) ?s)) (create_dir_all (Some h) kv))"
    using st R by (simp_all add: store_reliable snap_path_def wal_snapshot_key_def ks_scoped_def)
  show "r = Inr ()" "kv_reliable kv'" "kv_ok kv'"
    using kv' R by (simp_all add: kv_simps)
  have "h \<in> set (dir_prefixes acc t)" if "acc @ t = h" for acc t
    using that by (induction t arbitrary: acc) auto
  then have "h \<in> set (kv_dirs (create_dir_all (Some h) kv))"
    by (auto simp: create_dir_all_def)
  then show "h \<in> set (kv_dirs kv')"
    by (simp add: kv'(2) rename_file_def write_file_def remove_file_def split: option.splits)
  have at: "kv_at kv' (snap_path h) = Some (Complete (enc (wal_state_codec T) ?s))"
    "\<And>q. kv_at kv' (wal_path h q) = kv_at kv (wal_path h q)"
    using sw sw [symmetric] ss by (simp_all add: kv'(2) kv_at_prims kv_at_rename)
  have "wal_revision T ?s = wal_revision T s0 + i"
    using i by (simp add: rv)
  then show "wal_disk T kv' h ?s (drop i ws)"
    using D i at by (auto simp: wal_disk_def add.assoc)
qed

section \<open>Interleaved runs\<close>

lemma job_ok_append: "job_ok T s0 ws job \<Longrightarrow> job_ok T s0 (ws @ vs) job"
proof (cases job)
  case (Writing l)
  assume "job_ok T s0 ws job"
  then obtain i where "i \<le> length ws" "l = fold (wal_apply T) (take i ws) s0"
    by (auto simp: job_ok_def Writing)
  then show ?thesis by (auto simp: job_ok_def Writing intro!: exI [of _ i])
qed (auto simp: job_ok_def)

lemma wal_clean_cfg:
  assumes I: "wal_cfg_ok T h (st, Cleaning n, s)" and m: "CHR ''/'' \<notin> set m"
    and c: "wal_clean_key arch n (ks_scoped h m) (ws_kv st) = (r, kv)"
  shows "wal_cfg_ok T h (st\<lparr> ws_kv := kv \<rparr>, Cleaning n, s)"
proof -
  from I obtain s0 ws where i: "wal_holds T st h s" "wal_disk T (ws_kv st) h s0 ws"
      "s = fold (wal_apply T) ws s0" "n \<le> wal_revision T s0"
    by (auto simp: wal_cfg_ok_def job_ok_def)
  have R: "kv_reliable (ws_kv st)" "kv_ok (ws_kv st)" using i(1) by (auto simp: wal_holds_def)
  note A = wal_clean_key_at [OF R(1) m c]
  have D: "wal_disk T kv h s0 ws"
    using i(2,4) A(2) by (subst wal_disk_cong) auto
  have "wal_holds T (st\<lparr> ws_kv := kv \<rparr>) h s"
    using A(1) [of "snap_path h"] wal_clean_key_ok [OF R(2) c] D i(1,3)
    by (intro wal_holdsI [where ?s0.0 = s0 and ws = ws]) (auto simp: wal_holds_def)
  then show ?thesis
    using D i(3,4) by (auto simp: wal_cfg_ok_def job_ok_def)
qed

lemma wal_step_ok:
  assumes L: "wal_lawful T" and S: "wal_step T h c c'" and I: "wal_cfg_ok T h c"
  shows "wal_cfg_ok T h c'"
  using S I
proof (cases rule: wal_step.cases)
  case (command cmd st r st' job s)
  from I obtain s0 ws where i: "wal_holds T st h s" "wal_disk T (ws_kv st) h s0 ws"
      "s = fold (wal_apply T) ws s0" "job_ok T s0 ws job"
    by (auto simp: wal_cfg_ok_def command)
  obtain vs where "wal_holds T st' h (snd (wal_spec T cmd s))"
      "wal_disk T (ws_kv st') h s0 (ws @ vs)" "snd (wal_spec T cmd s) = fold (wal_apply T) (ws @ vs) s0"
    using wal_send_extends [OF L i(1) command(3) i(2,3)] command(4) by auto
  then show ?thesis
    using job_ok_append [OF i(4), of vs] unfolding wal_cfg_ok_def command by blast
next
  case (other cmd st r st' job s)
  from I have i: "wal_holds T st h s" by (simp add: wal_cfg_ok_def other)
  have R: "kv_reliable (ws_kv st)" "kv_ok (ws_kv st)" using i by (simp_all add: wal_holds_def)
  note F = wal_send_frame [OF R other(3,4)]
  show ?thesis
    using I wal_send_other [OF i other(3,4)] wal_disk_cong [of "ws_kv st'" h "ws_kv st" T, OF F(4,5)]
    by (simp add: wal_cfg_ok_def other)
next
  case (begin_job st l st' s)
  from I obtain s0 ws where i: "wal_holds T st h s" "wal_disk T (ws_kv st) h s0 ws"
      "s = fold (wal_apply T) ws s0"
    by (auto simp: wal_cfg_ok_def begin_job)
  then have "l = s" "ws_kv st' = ws_kv st" "wal_holds T st' h s"
    using wal_get_latest_holds [OF L i(1)] begin_job(3) by auto
  then show ?thesis
    using i by (auto simp: wal_cfg_ok_def begin_job job_ok_def intro!: exI [of _ s0] exI [of _ ws]
        exI [of _ "length ws"])
next
  case (write_job rnd l st kv s)
  from I obtain s0 ws i where i: "wal_holds T st h s" "wal_disk T (ws_kv st) h s0 ws"
      "s = fold (wal_apply T) ws s0" "i \<le> length ws" "l = fold (wal_apply T) (take i ws) s0"
    by (auto simp: wal_cfg_ok_def write_job job_ok_def)
  note rv = wal_contract.rev_fold [OF wal_lawfulD(1) [OF L]]
  have R: "kv_reliable (ws_kv st)" "kv_ok (ws_kv st)" using i(1) by (auto simp: wal_holds_def)
  note W = wal_write_snapshot [OF R i(2,4) rv write_job(3) write_job(4) [unfolded i(5)]]
  have s: "s = fold (wal_apply T) (drop i ws) l"
    using wal_contract.fold_split [OF wal_lawfulD(1) [OF L] i(4)] i(3,5) by simp
  have "wal_holds T (st\<lparr> ws_kv := kv \<rparr>) h s"
    using W s i(1,5) by (intro wal_holdsI [where ?s0.0 = l and ws = "drop i ws"]) (auto simp: wal_holds_def)
  then show ?thesis
    using W s i(5) by (auto simp: wal_cfg_ok_def write_job job_ok_def)
next
  case (clean_job st ks k arch n r kv s)
  then obtain m where "k = ks_scoped h m" "CHR ''/'' \<notin> set m"
    using kv_keys_scoped by blast
  then show ?thesis
    using I wal_clean_cfg [of T h st n s m arch r kv] clean_job by simp
next
  case (end_job st job s)
  then show ?thesis using I by (auto simp: wal_cfg_ok_def job_ok_def)
next
  case (crash st job s)
  then show ?thesis using I by (auto simp: wal_cfg_ok_def job_ok_def wal_holds_def)
qed

text \<open>The snapshot operation as one sequence of the phases.\<close>

lemma wal_clean_steps:
  assumes L: "wal_lawful T" and I: "wal_cfg_ok T h (st, Cleaning n, s)"
    and D: "h \<in> set (kv_dirs (ws_kv st))"
    and K: "distinct ks" "\<And>k. k \<in> set ks \<Longrightarrow>
      \<exists>m. k = ks_scoped h m \<and> CHR ''/'' \<notin> set m \<and> kv_at (ws_kv st) (file_path k) \<noteq> None"
  shows "\<exists>kv. st_for (wal_clean_key arch n) ks (ws_kv st) = (Inr (), kv) \<and>
    wal_cfg_ok T h (st\<lparr> ws_kv := kv \<rparr>, Cleaning n, s)"
  using I D K
proof (induction ks arbitrary: st)
  case Nil
  then show ?case by simp
next
  case (Cons k ks)
  obtain m where m: "k = ks_scoped h m" "CHR ''/'' \<notin> set m" "kv_at (ws_kv st) (file_path k) \<noteq> None"
    using Cons.prems(4) [of k] by auto
  obtain r kv where e: "wal_clean_key arch n k (ws_kv st) = (r, kv)" by fastforce
  have R: "kv_reliable (ws_kv st)" using Cons.prems by (auto simp: wal_cfg_ok_def wal_holds_def)
  have sc: "ks_scope (ks_archived k) = Some (h @ ''/archived'')"
    by (simp add: m(1) ks_archived_def sub_scope_def ks_scoped_def Let_def)
  have "parent_exists (h @ ''/archived'') (ws_kv st)"
    using Cons.prems(2) split_path_append [of "''archived''" h] by (simp add: parent_exists_def)
  then have mv: "fst (move_key k (ks_archived k) (ws_kv st)) = Inr ()"
    using R m(3) by (intro move_key_succeeds) (simp_all add: sc)
  have r: "r = Inr ()"
    using e mv R by (auto simp: wal_clean_key_def archive_def drop_key_reliable
        split: option.splits if_splits)
  have ne: "file_path (ks_scoped h q) \<noteq> file_path k \<and>
      file_path (ks_scoped h q) \<noteq> file_path (ks_archived k)"
    if "CHR ''/'' \<notin> set q" "ks_scoped h q \<noteq> k" for q
    using that m(1,2) file_path_archived [OF m(2), of h] split_scoped [OF that(1), of h]
      split_scoped [OF m(2), of h] by (auto intro!: path_neq_by_split)
  have at: "kv_at kv (file_path (ks_scoped h q)) = kv_at (ws_kv st) (file_path (ks_scoped h q))"
    if "CHR ''/'' \<notin> set q" "ks_scoped h q \<noteq> k" for q
    using e R r ne [OF that] move_key_at(2) [OF R, of k "ks_archived k" r kv "file_path (ks_scoped h q)"]
    by (auto simp: wal_clean_key_def archive_def drop_key_reliable kv_at_prims
        split: option.splits if_splits)
  have "wal_cfg_ok T h (st\<lparr> ws_kv := kv \<rparr>, Cleaning n, s)"
    by (rule wal_clean_cfg [OF Cons.prems(1) m(2) e [unfolded m(1)]])
  moreover have "h \<in> set (kv_dirs kv)"
    using Cons.prems(2) e kv_dirs_ops(1) [of "ws_kv st" k "ks_archived k"]
      kv_dirs_ops(2) [of k "ws_kv st"]
    by (auto simp: wal_clean_key_def archive_def split: option.splits if_splits)
  moreover have "distinct ks" using Cons.prems(3) by simp
  moreover have "\<exists>q. k' = ks_scoped h q \<and> CHR ''/'' \<notin> set q \<and> kv_at kv (file_path k') \<noteq> None"
    if "k' \<in> set ks" for k'
    using Cons.prems(3) Cons.prems(4) [of k'] that at by force
  ultimately show ?case
    using Cons.IH [of "st\<lparr> ws_kv := kv \<rparr>"] e r by simp
qed

lemma wal_steps_ok:
  assumes L: "wal_lawful T" and S: "(wal_step T h)\<^sup>*\<^sup>* c c'" and I: "wal_cfg_ok T h c"
  shows "wal_cfg_ok T h c'"
  using S I by (induction rule: rtranclp_induct) (auto intro: wal_step_ok [OF L])

text \<open>Taking a snapshot succeeds: afterwards the snapshot on disk is the current state, no log entry
  follows it, and the store still holds the same state.\<close>

lemma wal_snapshot_taken:
  assumes L: "wal_lawful T" and H: "wal_holds T st h s" and rnd: "CHR ''/'' \<notin> set rnd"
  shows "fst (wal_update_snapshot T rnd h arch st) = Inr () \<and>
    wal_holds T (snd (wal_update_snapshot T rnd h arch st)) h s \<and>
    wal_disk T (ws_kv (snd (wal_update_snapshot T rnd h arch st))) h s []"
proof -
  obtain st1 where g: "wal_get_latest T h st = (Inr s, st1)" and H1: "wal_holds T st1 h s"
    using wal_get_latest_holds [OF L H] by blast
  obtain s0 ws where D: "wal_disk T (ws_kv st1) h s0 ws" and s: "s = fold (wal_apply T) ws s0"
    and R: "kv_reliable (ws_kv st1)" "kv_ok (ws_kv st1)"
    using H1 by (auto simp: wal_holds_def)
  note rv = wal_contract.rev_fold [OF wal_lawfulD(1) [OF L]]
  obtain r kv where w: "kv_store_val rnd (wal_state_codec T) (wal_snapshot_key h) s (ws_kv st1) = (r, kv)"
    by fastforce
  note W = wal_write_snapshot [OF R D le_refl rv rnd, of r kv, simplified, OF w [unfolded s]]
  let ?n = "wal_revision T s" and ?st = "st1\<lparr> ws_kv := kv \<rparr>"
  have 1: "wal_holds T ?st h s"
    using W s H1 by (intro wal_holdsI [where ?s0.0 = s and ws = "[]"]) (auto simp: wal_holds_def)
  then have 2: "wal_cfg_ok T h (?st, Cleaning ?n, s)"
    using W s by (auto simp: wal_cfg_ok_def job_ok_def intro!: exI [of _ s] exI [of _ "[]"])
  obtain ks where ks: "kv_keys kv (Some h) ''wal-'' = Inr ks"
    using W(4) by (simp add: kv_keys_def read_dir_files_def)
  have "\<exists>m. k = ks_scoped h m \<and> CHR ''/'' \<notin> set m \<and> kv_at kv (file_path k) \<noteq> None"
    if "k \<in> set ks" for k
    using kv_keys_scoped [OF ks that] kv_keys_present [OF ks that]
    by (auto simp: kv_at_def map_of_eq_None_iff)
  then obtain kv2 where c: "st_for (wal_clean_key arch ?n) ks kv = (Inr (), kv2)"
      and 3: "wal_cfg_ok T h (?st\<lparr> ws_kv := kv2 \<rparr>, Cleaning ?n, s)"
    using wal_clean_steps [OF L 2, of ks arch] W(4) kv_keys_distinct [OF ks W(3)] by auto
  have e: "wal_update_snapshot T rnd h arch st = (Inr (), st1\<lparr> ws_kv := kv2 \<rparr>)"
    using g w W(1) ks c by (simp add: wal_update_snapshot_def st_simps wal_clean_def)
  from 3 obtain s1 vs where d: "wal_disk T kv2 h s1 vs" "s = fold (wal_apply T) vs s1" "?n \<le> wal_revision T s1"
    by (auto simp: wal_cfg_ok_def job_ok_def)
  then have "vs = []" using rv [of vs s1] by simp
  with d e 3 show ?thesis by (simp add: wal_cfg_ok_def)
qed

text \<open>
  C16: The write-ahead log store is durable under interleaving: starting from a store that
  holds a state, after any sequence of commands for this and other handles, snapshot tasks
  whose reading, writing and cleaning phases run between the commands, and crashes that lose
  the cache, reading the instance returns exactly the state that the commands give, and it
  still does when the process restarts with an empty cache.
\<close>

theorem wal_store_durable:
  assumes "wal_lawful T" and "wal_holds T st h s"
    and "(wal_step T h)\<^sup>*\<^sup>* (st, Idle, s) (st', job, s')"
  shows "fst (wal_get_latest T h st') = Inr s' \<and>
    fst (wal_get_latest T h (st'\<lparr> ws_cache := [] \<rparr>)) = Inr s'"
proof -
  have "wal_cfg_ok T h (st, Idle, s)"
    using assms(2) by (auto simp: wal_cfg_ok_def job_ok_def wal_holds_def)
  then have "wal_cfg_ok T h (st', job, s')"
    using wal_steps_ok [OF assms(1,3)] by simp
  then have "wal_holds T st' h s'" "wal_holds T (st'\<lparr> ws_cache := [] \<rparr>) h s'"
    by (auto simp: wal_cfg_ok_def wal_holds_def)
  then show ?thesis
    using wal_get_latest_holds [OF assms(1)] by (metis fst_conv)
qed

lemma ctr_lawful: "wal_lawful ctr_wal"
  by (auto simp: wal_lawful_def ctr_wal_def codec_ok_def)

lemma ctr_holds: "wal_holds ctr_wal ctr_store ''ctr'' (0, 5)"
  by (rule wal_holdsI [where ?s0.0 = "(0, 5)" and ws = "[]"])
    (auto simp: ctr_store_def kv_reliable_def kv_ok_def hm_ok_def wal_disk_def kv_at_def
      ctr_wal_def snap_path_alt wal_path_alt)

theorem wal_store_durable_witness:
  "fst (wal_get_latest ctr_wal ''ctr'' (snd (wal_send_command ctr_wal 7 ctr_store))) = Inr (1, 12)"
proof -
  obtain r st' where e: "wal_send_command ctr_wal 7 ctr_store = (r, st')" by fastforce
  have "wal_step ctr_wal ''ctr'' (ctr_store, Idle, (0, 5)) (st', Idle, snd (wal_spec ctr_wal 7 (0, 5)))"
    by (rule wal_step.command [OF _ e]) (simp add: ctr_wal_def)
  moreover have "snd (wal_spec ctr_wal 7 (0, 5)) = (1, 12)"
    by (simp add: wal_spec_def ctr_wal_def)
  ultimately have "(wal_step ctr_wal ''ctr'')\<^sup>*\<^sup>* (ctr_store, Idle, (0, 5)) (st', Idle, (1, 12))"
    by auto
  from wal_store_durable [OF ctr_lawful ctr_holds this] e show ?thesis by simp
qed

text \<open>
  C17: A log entry is not written atomically. When its write is cut off, the command reports an
  error but the truncated entry stays, and from then on every read and every command for the
  handle fails, also when the disk works again.
\<close>

theorem failed_log_write_blocks:
  assumes C: "hm_get (ws_cache st) h = Some s"
    and n: "kv_at (ws_kv st) (wal_path h (wal_revision T s)) = None"
    and f: "kv_faults (ws_kv st) (wal_path h (wal_revision T s)) = Some WriteFails"
    and p: "wal_process T cmd s = Inr (c # cs)" and h: "wal_cmd_handle T cmd = h"
    and S: "wal_send_command T cmd st = (r, st')"
    and R: "repaired = st'\<lparr> ws_kv := (ws_kv st')\<lparr> kv_faults := (\<lambda>_. None) \<rparr> \<rparr>"
  shows "r = Inl (wal_from_err T (KeyStoreError IoError)) \<and>
    wal_get_latest T h repaired = (Inl (KeyStoreError JsonError), repaired) \<and>
    (\<forall>cmd'. wal_cmd_handle T cmd' = h \<longrightarrow>
       wal_send_command T cmd' repaired = (Inl (wal_from_err T (KeyStoreError JsonError)), repaired))"
proof -
  let ?k = "wal_set_key h (wal_revision T s)"
  have g: "wal_get_latest T h st = (Inr s, st)"
    using C n by (simp add: wal_get_latest_def kv_has_iff wal_path_def)
  define kv where "kv = write_file (wal_path h (wal_revision T s)) Truncated
      (create_dir_all (ks_scope ?k) (ws_kv st))"
  have "kv_store_new (wal_set_codec T) ?k w (ws_kv st) = (Inl IoError, kv)" for w
    using n f by (simp add: kv_store_new_def path_exists_iff wal_path_def kv_def Let_def)
  then have e: "r = Inl (wal_from_err T (KeyStoreError IoError))" "st' = st\<lparr> ws_kv := kv \<rparr>"
    using S g p h by (auto simp: wal_send_command_def Let_def)
  have at: "kv_at (kv\<lparr> kv_faults := (\<lambda>_. None) \<rparr>) (file_path ?k) = Some Truncated"
    by (simp add: kv_at_def kv_def write_file_def wal_path_def hmap_simps)
  have "kv_get (wal_set_codec T) (kv\<lparr> kv_faults := (\<lambda>_. None) \<rparr>) ?k = Inl JsonError"
    using at by (simp add: kv_get_alt kv_reliable_def)
  then have l: "wal_get_latest T h repaired = (Inl (KeyStoreError JsonError), repaired)"
    using C at by (simp add: wal_get_latest_def kv_has_iff R e(2))
  then show ?thesis
    using e by (auto simp: wal_send_command_def Let_def)
qed

theorem failed_log_write_blocks_witness:
  "\<exists>st'. fst (wal_get_latest ctr_wal ''ctr'' st') = Inl (KeyStoreError JsonError)"
proof -
  define st where "st = \<lparr> ws_kv = (ws_kv ctr_store)\<lparr> kv_faults := (\<lambda>_. Some WriteFails) \<rparr>,
      ws_cache = [(''ctr'', (0, 5) :: nat \<times> nat)] \<rparr>"
  obtain r st' where S: "wal_send_command ctr_wal 7 st = (r, st')" by fastforce
  have "hm_get (ws_cache st) ''ctr'' = Some (0, 5)"
    and "kv_at (ws_kv st) (wal_path ''ctr'' (wal_revision ctr_wal (0, 5))) = None"
    and "kv_faults (ws_kv st) (wal_path ''ctr'' (wal_revision ctr_wal (0, 5))) = Some WriteFails"
    and "wal_process ctr_wal 7 (0, 5) = Inr [7]" and "wal_cmd_handle ctr_wal 7 = ''ctr''"
    by (simp_all add: st_def ctr_store_def kv_at_def wal_path_alt ctr_wal_def)
  from failed_log_write_blocks [OF this S refl] show ?thesis by (metis fst_conv)
qed

end
