(* ===== verification/Repository.thy ===== *)
theory Repository
  imports Rrdp Wal
begin

text \<open>
  The content of the publication server (\<^verbatim>\<open>src/src/pubd/repository.rs\<close>): the objects of every publisher and
  the RRDP server, which collects the changes of all publishers as staged elements, one per URI, and
  turns them into the next delta and snapshot.  \<^verbatim>\<open>RepositoryContent\<close> is kept in the write-ahead log
  store: a command is processed to a list of changes, and the changes are applied.

  What a command reads from its environment (the time, random names and session identifiers) is an
  argument of the command; the readings of the clock within the processing of one command are one
  reading.  Serials and revisions are natural numbers.  The base URIs and directories, which no
  command changes, and the files that are written for RRDP and rsync are left out.
\<close>

section \<open>The RRDP server\<close>

datatype ('b, 'u, 'h) delta_element =
    Publish "('b, 'u) publish_element"
  | Update "('b, 'u, 'h) update_element"
  | Withdraw "('u, 'h) withdraw_element"

type_synonym ('b, 'u, 'h) staged_elements = "('u, ('b, 'u, 'h) delta_element) hmap"

record ('b, 'u, 'h, 'r) rrdp_server =
  rs_session :: 'r
  rs_serial :: nat
  rs_last_update :: int
  rs_snapshot :: "('b, 'u, 'h, 'r) snapshot_data"
  rs_deltas :: "('b, 'u, 'h, 'r) delta_data list"
  rs_staged :: "('b, 'u, 'h) staged_elements"

record rrdp_updates_config =
  delta_files_min_nr :: nat
  delta_files_min_seconds :: nat
  delta_files_max_nr :: nat
  delta_files_max_seconds :: nat
  delta_interval_min_seconds :: nat

definition rrdp_first_serial :: nat where "rrdp_first_serial = 1"

definition rrdp_create :: "'r \<Rightarrow> int \<Rightarrow> 'r \<Rightarrow> ('b, 'u, 'h, 'r) rrdp_server" where
  "rrdp_create session now rnd =
     \<lparr>rs_session = session, rs_serial = rrdp_first_serial, rs_last_update = now,
      rs_snapshot = snapshot_create rnd, rs_deltas = [], rs_staged = []\<rparr>"

record ('b, 'u, 'h, 'r) rrdp_session_reset =
  sr_last_update :: int
  sr_session :: 'r
  sr_snapshot :: "('b, 'u, 'h, 'r) snapshot_data"

record 'r rrdp_updated =
  ru_time :: int
  ru_random :: 'r
  ru_deltas_truncate :: nat

definition rrdp_reset_session ::
  "int \<Rightarrow> 'r \<Rightarrow> 'r \<Rightarrow> ('b, 'u, 'h, 'r) rrdp_server \<Rightarrow> ('b, 'u, 'h, 'r) rrdp_session_reset" where
  "rrdp_reset_session now session rnd rs =
     \<lparr>sr_last_update = now, sr_session = session, sr_snapshot = with_new_random rnd (rs_snapshot rs)\<rparr>"

definition apply_session_reset ::
  "('b, 'u, 'h, 'r) rrdp_session_reset \<Rightarrow> ('b, 'u, 'h, 'r) rrdp_server \<Rightarrow> ('b, 'u, 'h, 'r) rrdp_server" where
  "apply_session_reset reset rs =
     rs\<lparr>rs_snapshot := sr_snapshot reset, rs_session := sr_session reset, rs_last_update := sr_last_update reset,
        rs_serial := rrdp_first_serial, rs_deltas := []\<rparr>"

text \<open>The three loops of \<^verbatim>\<open>apply_rrdp_staged\<close>.\<close>

definition stage_publish ::
  "('b, 'u) publish_element \<Rightarrow> ('b, 'u, 'h) staged_elements \<Rightarrow> ('b, 'u, 'h) staged_elements" where
  "stage_publish p st =
     hm_insert (pe_uri p)
       (case hm_get st (pe_uri p) of
          Some (Withdraw w) \<Rightarrow> Update \<lparr>ue_uri = pe_uri p, ue_hash = we_hash w, ue_base64 = pe_base64 p\<rparr>
        | _ \<Rightarrow> Publish p) st"

definition stage_update ::
  "('b, 'u, 'h) update_element \<Rightarrow> ('b, 'u, 'h) staged_elements \<Rightarrow> ('b, 'u, 'h) staged_elements" where
  "stage_update x st =
     hm_insert (ue_uri x)
       (case hm_get st (ue_uri x) of
          Some (Publish _) \<Rightarrow> Publish (into_publish x)
        | Some (Update y) \<Rightarrow> Update (updates_staged x y)
        | _ \<Rightarrow> Update x) st"

definition stage_withdraw ::
  "('u, 'h) withdraw_element \<Rightarrow> ('b, 'u, 'h) staged_elements \<Rightarrow> ('b, 'u, 'h) staged_elements" where
  "stage_withdraw w st = hm_insert (we_uri w) (Withdraw w) st"

definition stage_elements ::
  "('b, 'u, 'h) delta_elements \<Rightarrow> ('b, 'u, 'h) staged_elements \<Rightarrow> ('b, 'u, 'h) staged_elements" where
  "stage_elements d st =
     fold stage_withdraw (de_withdraws d) (fold stage_update (de_updates d) (fold stage_publish (de_publishes d) st))"

definition apply_rrdp_staged ::
  "('b, 'u, 'h) delta_elements \<Rightarrow> ('b, 'u, 'h, 'r) rrdp_server \<Rightarrow> ('b, 'u, 'h, 'r) rrdp_server" where
  "apply_rrdp_staged d rs = rs\<lparr>rs_staged := stage_elements d (rs_staged rs)\<rparr>"

definition staged_delta :: "('b, 'u, 'h) staged_elements \<Rightarrow> ('b, 'u, 'h) delta_elements" where
  "staged_delta st =
     delta_elements_from
       (map (\<lambda>el. case snd el of Publish p \<Rightarrow> PdPublish p | Update x \<Rightarrow> PdUpdate x | Withdraw w \<Rightarrow> PdWithdraw w) st)"

fun keep_deltas :: "('b, 'u, 'h) rpki_api \<Rightarrow> nat \<Rightarrow> nat \<Rightarrow> ('b, 'u, 'h, 'r) delta_data list \<Rightarrow> nat" where
  "keep_deltas api limit acc [] = 0"
| "keep_deltas api limit acc (d # ds) =
     (let acc' = acc + delta_size api (dd_elements d)
      in if acc' > limit then 0 else Suc (keep_deltas api limit acc' ds))"

definition deltas_truncate_size ::
  "('b, 'u, 'h) rpki_api \<Rightarrow> ('b, 'u, 'h, 'r) rrdp_server \<Rightarrow> ('b, 'u, 'h, 'r) rrdp_server" where
  "deltas_truncate_size api rs =
     rs\<lparr>rs_deltas := take (keep_deltas api (snapshot_size api (rs_snapshot rs)) 0 (rs_deltas rs)) (rs_deltas rs)\<rparr>"

definition apply_rrdp_updated ::
  "('b, 'u, 'h) rpki_api \<Rightarrow> 'r rrdp_updated \<Rightarrow> ('b, 'u, 'h, 'r) rrdp_server \<Rightarrow> ('b, 'u, 'h, 'r) rrdp_server" where
  "apply_rrdp_updated api update rs =
     (let serial = Suc (rs_serial rs);
          els = staged_delta (rs_staged rs);
          delta = \<lparr>dd_random = ru_random update, dd_serial = serial, dd_time = ru_time update, dd_elements = els\<rparr>
      in (deltas_truncate_size api
           (rs\<lparr>rs_serial := serial, rs_staged := [],
               rs_snapshot := with_delta api (dd_random delta) (dd_elements delta) (rs_snapshot rs),
               rs_deltas := delta # take (ru_deltas_truncate update) (rs_deltas rs)\<rparr>))
         \<lparr>rs_last_update := ru_time update\<rparr>)"

datatype rrdp_update_needed = Yes | No | Later int

definition update_rrdp_needed ::
  "rrdp_updates_config \<Rightarrow> int \<Rightarrow> ('b, 'u, 'h, 'r) rrdp_server \<Rightarrow> rrdp_update_needed" where
  "update_rrdp_needed config now rs =
     (if rs_staged rs = [] then No
      else let next = rs_last_update rs + int (delta_interval_min_seconds config)
           in if next > now then Later next else Yes)"

text \<open>\<^verbatim>\<open>max_nr - 1\<close> is unsigned and wraps at zero.\<close>

fun find_truncate :: "rrdp_updates_config \<Rightarrow> int \<Rightarrow> nat \<Rightarrow> ('b, 'u, 'h, 'r) delta_data list \<Rightarrow> nat" where
  "find_truncate config now keep [] = keep"
| "find_truncate config now keep (d # ds) =
     (if keep < delta_files_min_nr config \<or> younger_than_seconds now d (int (delta_files_min_seconds config))
      then find_truncate config now (Suc keep) ds
      else if keep = (delta_files_max_nr config + (2 ^ 64 - 1)) mod 2 ^ 64
        \<or> older_than_seconds now d (int (delta_files_max_seconds config)) then keep
      else find_truncate config now (Suc keep) ds)"

definition find_deltas_truncate_age ::
  "rrdp_updates_config \<Rightarrow> int \<Rightarrow> ('b, 'u, 'h, 'r) rrdp_server \<Rightarrow> nat" where
  "find_deltas_truncate_age config now rs = find_truncate config now 0 (rs_deltas rs)"

definition update_rrdp ::
  "rrdp_updates_config \<Rightarrow> int \<Rightarrow> 'r \<Rightarrow> ('b, 'u, 'h, 'r) rrdp_server \<Rightarrow> 'r rrdp_updated" where
  "update_rrdp config now rnd rs =
     \<lparr>ru_time = now, ru_random = rnd, ru_deltas_truncate = find_deltas_truncate_age config now rs\<rparr>"

section \<open>The content of the repository\<close>

record ('b, 'u, 'h, 'r) repository_content =
  rc_revision :: nat
  rc_publishers :: "(string, ('b, 'u, 'h) current_objects) hmap"
  rc_rrdp :: "('b, 'u, 'h, 'r) rrdp_server"

datatype ('b, 'u, 'h, 'r) content_change =
    SessionReset "('b, 'u, 'h, 'r) rrdp_session_reset"
  | PublisherAdded string
  | PublisherRemoved string
  | PublishedObjects string "('b, 'u, 'h) current_objects"
  | RrdpDeltaStaged "('b, 'u, 'h) delta_elements"
  | RrdpUpdated "'r rrdp_updated"

datatype ('b, 'u, 'h, 'r) content_command =
    ResetSession string int 'r 'r
  | AddPublisher string string
  | RemovePublisher string string
  | PublishDelta string string "('b, 'u, 'h) delta_elements"
  | CreateRrdpDelta string rrdp_updates_config int 'r

datatype content_error = PublisherUnknown string | WalError wal_store_error

definition content_init :: "'r \<Rightarrow> int \<Rightarrow> 'r \<Rightarrow> ('b, 'u, 'h, 'r) repository_content" where
  "content_init session now rnd = \<lparr>rc_revision = 0, rc_publishers = [], rc_rrdp = rrdp_create session now rnd\<rparr>"

fun apply_change ::
  "('b, 'u, 'h) rpki_api \<Rightarrow> ('b, 'u, 'h, 'r) content_change \<Rightarrow> ('b, 'u, 'h, 'r) repository_content
   \<Rightarrow> ('b, 'u, 'h, 'r) repository_content" where
  "apply_change api (SessionReset reset) rc = rc\<lparr>rc_rrdp := apply_session_reset reset (rc_rrdp rc)\<rparr>"
| "apply_change api (RrdpUpdated update) rc = rc\<lparr>rc_rrdp := apply_rrdp_updated api update (rc_rrdp rc)\<rparr>"
| "apply_change api (RrdpDeltaStaged d) rc = rc\<lparr>rc_rrdp := apply_rrdp_staged d (rc_rrdp rc)\<rparr>"
| "apply_change api (PublisherAdded p) rc = rc\<lparr>rc_publishers := hm_insert p [] (rc_publishers rc)\<rparr>"
| "apply_change api (PublisherRemoved p) rc = rc\<lparr>rc_publishers := hm_remove p (rc_publishers rc)\<rparr>"
| "apply_change api (PublishedObjects p co) rc = rc\<lparr>rc_publishers := hm_insert p co (rc_publishers rc)\<rparr>"

definition content_apply ::
  "('b, 'u, 'h) rpki_api \<Rightarrow> ('b, 'u, 'h, 'r) content_change wal_set \<Rightarrow> ('b, 'u, 'h, 'r) repository_content
   \<Rightarrow> ('b, 'u, 'h, 'r) repository_content" where
  "content_apply api w rc =
     (let rc' = fold (apply_change api) (ws_changes w) rc in rc'\<lparr>rc_revision := Suc (rc_revision rc')\<rparr>)"

definition objects_for_publisher ::
  "string \<Rightarrow> ('b, 'u, 'h, 'r) repository_content \<Rightarrow> content_error + ('b, 'u, 'h) current_objects" where
  "objects_for_publisher p rc = ok_or (hm_get (rc_publishers rc) p) (PublisherUnknown p)"

definition list_reply ::
  "string \<Rightarrow> ('b, 'u, 'h, 'r) repository_content \<Rightarrow> content_error + ('u \<times> 'h) list" where
  "list_reply p rc = rbind (objects_for_publisher p rc) (\<lambda>co. Inr (to_list_reply co))"

definition remove_publisher ::
  "('b, 'u, 'h) rpki_api \<Rightarrow> string \<Rightarrow> ('b, 'u, 'h, 'r) repository_content \<Rightarrow> ('b, 'u, 'h, 'r) content_change list" where
  "remove_publisher api p rc =
     (case objects_for_publisher p rc of
        Inl _ \<Rightarrow> []
      | Inr co \<Rightarrow>
          [RrdpDeltaStaged \<lparr>de_publishes = [], de_updates = [], de_withdraws = map (as_withdraw api) (co_elements co)\<rparr>]) @
     (if hm_get (rc_publishers rc) p \<noteq> None then [PublisherRemoved p] else [])"

definition publish ::
  "('b, 'u, 'h) rpki_api \<Rightarrow> string \<Rightarrow> ('b, 'u, 'h) delta_elements \<Rightarrow> ('b, 'u, 'h, 'r) repository_content
   \<Rightarrow> content_error + ('b, 'u, 'h, 'r) content_change list" where
  "publish api p d rc =
     rbind (ok_or (hm_get (rc_publishers rc) p) (PublisherUnknown p))
       (\<lambda>co. Inr [PublishedObjects p (apply_delta api d co), RrdpDeltaStaged d])"

definition create_rrdp_delta ::
  "rrdp_updates_config \<Rightarrow> int \<Rightarrow> 'r \<Rightarrow> ('b, 'u, 'h, 'r) repository_content \<Rightarrow> ('b, 'u, 'h, 'r) content_change list" where
  "create_rrdp_delta config now rnd rc =
     (if update_rrdp_needed config now (rc_rrdp rc) = Yes
      then [RrdpUpdated (update_rrdp config now rnd (rc_rrdp rc))] else [])"

fun content_process ::
  "('b, 'u, 'h) rpki_api \<Rightarrow> ('b, 'u, 'h, 'r) content_command \<Rightarrow> ('b, 'u, 'h, 'r) repository_content
   \<Rightarrow> content_error + ('b, 'u, 'h, 'r) content_change list" where
  "content_process api (ResetSession _ now session rnd) rc =
     Inr [SessionReset (rrdp_reset_session now session rnd (rc_rrdp rc))]"
| "content_process api (CreateRrdpDelta _ config now rnd) rc = Inr (create_rrdp_delta config now rnd rc)"
| "content_process api (AddPublisher _ p) rc = Inr [PublisherAdded p]"
| "content_process api (RemovePublisher _ p) rc = Inr (remove_publisher api p rc)"
| "content_process api (PublishDelta _ p d) rc = publish api p d rc"

fun command_handle :: "('b, 'u, 'h, 'r) content_command \<Rightarrow> string" where
  "command_handle (ResetSession h _ _ _) = h"
| "command_handle (CreateRrdpDelta h _ _ _) = h"
| "command_handle (AddPublisher h _) = h"
| "command_handle (RemovePublisher h _) = h"
| "command_handle (PublishDelta h _ _) = h"

fun command_show :: "('b, 'u, 'h, 'r) content_command \<Rightarrow> string" where
  "command_show (ResetSession h _ _ _) = ''reset session for repository '' @ h"
| "command_show (CreateRrdpDelta h _ _ _) = ''create next RRDP delta for repository '' @ h"
| "command_show (AddPublisher h p) = ''add publisher '' @ [CHR 0x27] @ p @ [CHR 0x27] @ '' to repository '' @ h"
| "command_show (RemovePublisher h p) =
     ''remove publisher '' @ [CHR 0x27] @ p @ [CHR 0x27] @ '' from repository '' @ h"
| "command_show (PublishDelta h p _) =
     ''publish for publisher '' @ [CHR 0x27] @ p @ [CHR 0x27] @ '' under repository '' @ h"

text \<open>\<^verbatim>\<open>impl WalSupport for RepositoryContent\<close>; the serialisation to JSON is a parameter.\<close>

definition content_wal ::
  "('b, 'u, 'h) rpki_api \<Rightarrow> (('b, 'u, 'h, 'r) repository_content, 'j) codec \<Rightarrow>
   (('b, 'u, 'h, 'r) content_change wal_set, 'j) codec \<Rightarrow> (string \<Rightarrow> bool) \<Rightarrow>
   (('b, 'u, 'h, 'r) repository_content, ('b, 'u, 'h, 'r) content_command, ('b, 'u, 'h, 'r) content_change,
    content_error, 'j) wal_support" where
  "content_wal api state_codec set_codec is_handle =
     \<lparr>wal_revision = rc_revision, wal_apply = content_apply api, wal_process = content_process api,
      wal_cmd_handle = command_handle, wal_cmd_show = command_show, wal_from_err = WalError,
      wal_state_codec = state_codec, wal_set_codec = set_codec, wal_is_handle = is_handle\<rparr>"

text \<open>The check that \<^verbatim>\<open>RepositoryContentProxy::publish\<close> makes before it sends the command.\<close>

definition publish_checked ::
  "('b, 'u, 'h) rpki_api \<Rightarrow> 'u \<Rightarrow> string \<Rightarrow> ('b, 'u, 'h) delta_elements \<Rightarrow> ('b, 'u, 'h, 'r) repository_content \<Rightarrow> bool" where
  "publish_checked api jail p d rc =
     (case objects_for_publisher p rc of Inl _ \<Rightarrow> False | Inr co \<Rightarrow> verify_delta api co d jail = Inr ())"

section \<open>Specification\<close>

text \<open>
  What the staged elements stand for.  \<open>S\<close> is the set of objects in the snapshot, \<open>G\<close> the set of the
  objects that all publishers have.  A staged element puts one object in place (\<open>el_new\<close>) or takes one
  out (\<open>el_removed\<close>, by its hash), or both.
\<close>

fun el_new :: "('b, 'u, 'h) delta_element \<Rightarrow> ('b, 'u) publish_element option" where
  "el_new (Publish p) = Some p"
| "el_new (Update x) = Some (into_publish x)"
| "el_new (Withdraw w) = None"

fun el_removed :: "('b, 'u, 'h) delta_element \<Rightarrow> 'h option" where
  "el_removed (Publish p) = None"
| "el_removed (Update x) = Some (ue_hash x)"
| "el_removed (Withdraw w) = Some (we_hash w)"

definition el_ok ::
  "('b, 'u, 'h) rpki_api \<Rightarrow> ('b, 'u) publish_element set \<Rightarrow> ('b, 'u) publish_element set \<Rightarrow> 'u
   \<Rightarrow> ('b, 'u, 'h) delta_element \<Rightarrow> bool" where
  "el_ok api S G u el \<longleftrightarrow>
     (case el_new el of
        Some n \<Rightarrow> pe_uri n = u \<and> n \<in> G \<and> pe_hash api n \<notin> pe_hash api ` S
      | None \<Rightarrow> u \<notin> pe_uri ` G) \<and>
     (case el_removed el of
        Some r \<Rightarrow> r \<notin> pe_hash api ` G \<and> (\<forall>e \<in> S. pe_uri e = u \<longleftrightarrow> pe_hash api e = r)
      | None \<Rightarrow> u \<notin> pe_uri ` S)"

definition staging_ok ::
  "('b, 'u, 'h) rpki_api \<Rightarrow> ('b, 'u) publish_element set \<Rightarrow> ('b, 'u) publish_element set
   \<Rightarrow> ('b, 'u, 'h) staged_elements \<Rightarrow> bool" where
  "staging_ok api S G st \<longleftrightarrow>
     hm_ok st \<and> inj_on pe_uri S \<and> inj_on (pe_hash api) S \<and> inj_on pe_uri G \<and> inj_on (pe_hash api) G \<and>
     (\<forall>u. case hm_get st u of
            None \<Rightarrow> \<forall>e. pe_uri e = u \<longrightarrow> (e \<in> S \<longleftrightarrow> e \<in> G)
          | Some el \<Rightarrow> el_ok api S G u el)"

definition used_hashes ::
  "('b, 'u, 'h) rpki_api \<Rightarrow> ('b, 'u) publish_element set \<Rightarrow> ('b, 'u) publish_element set
   \<Rightarrow> ('b, 'u, 'h) staged_elements \<Rightarrow> 'h set" where
  "used_hashes api S G st =
     pe_hash api ` S \<union> pe_hash api ` G \<union> {r. \<exists>(u, el) \<in> set st. el_removed el = Some r}"

definition is_update :: "('b, 'u, 'h) delta_element option \<Rightarrow> bool" where
  "is_update el \<longleftrightarrow> (case el of Some (Update _) \<Rightarrow> True | _ \<Rightarrow> False)"

text \<open>A delta as a sequence of single operations, and what each does to the objects of the
  publishers.\<close>

definition ops_of :: "('b, 'u, 'h) delta_elements \<Rightarrow> ('b, 'u, 'h) publish_delta_element list" where
  "ops_of d = map PdPublish (de_publishes d) @ map PdUpdate (de_updates d) @ map PdWithdraw (de_withdraws d)"

fun stage_op ::
  "('b, 'u, 'h) publish_delta_element \<Rightarrow> ('b, 'u, 'h) staged_elements \<Rightarrow> ('b, 'u, 'h) staged_elements" where
  "stage_op (PdPublish p) = stage_publish p"
| "stage_op (PdUpdate x) = stage_update x"
| "stage_op (PdWithdraw w) = stage_withdraw w"

fun op_uri :: "('b, 'u, 'h) publish_delta_element \<Rightarrow> 'u" where
  "op_uri (PdPublish p) = pe_uri p"
| "op_uri (PdUpdate x) = ue_uri x"
| "op_uri (PdWithdraw w) = we_uri w"

fun op_new :: "('b, 'u, 'h) publish_delta_element \<Rightarrow> ('b, 'u) publish_element list" where
  "op_new (PdPublish p) = [p]"
| "op_new (PdUpdate x) = [into_publish x]"
| "op_new (PdWithdraw w) = []"

definition object_op ::
  "('b, 'u, 'h) publish_delta_element \<Rightarrow> ('b, 'u) publish_element set \<Rightarrow> ('b, 'u) publish_element set" where
  "object_op op G = {e \<in> G. pe_uri e \<noteq> op_uri op} \<union> set (op_new op)"

definition matches_object ::
  "('b, 'u, 'h) rpki_api \<Rightarrow> ('b, 'u) publish_element set \<Rightarrow> ('b, 'u, 'h) publish_delta_element \<Rightarrow> bool" where
  "matches_object api G op \<longleftrightarrow>
     (case op of
        PdPublish p \<Rightarrow> pe_uri p \<notin> pe_uri ` G
      | PdUpdate x \<Rightarrow> \<exists>e \<in> G. pe_uri e = ue_uri x \<and> pe_hash api e = ue_hash x
      | PdWithdraw w \<Rightarrow> \<exists>e \<in> G. pe_uri e = we_uri w \<and> pe_hash api e = we_hash w)"

definition op_ok ::
  "('b, 'u, 'h) rpki_api \<Rightarrow> ('b, 'u) publish_element set \<Rightarrow> ('b, 'u) publish_element set
   \<Rightarrow> ('b, 'u, 'h) staged_elements \<Rightarrow> ('b, 'u, 'h) publish_delta_element \<Rightarrow> bool" where
  "op_ok api S G st op \<longleftrightarrow>
     matches_object api G op \<and>
     (\<forall>n \<in> set (op_new op). pe_hash api n \<notin> used_hashes api S G st) \<and>
     (op_new op = [] \<longrightarrow> \<not> is_update (hm_get st (op_uri op)))"

section \<open>Staging\<close>

lemma used_get: "hm_ok st \<Longrightarrow> used_hashes api S G st =
   pe_hash api ` S \<union> pe_hash api ` G \<union> {r. \<exists>u el. hm_get st u = Some el \<and> el_removed el = Some r}"
  by (auto simp: used_hashes_def hm_get_iff)

lemma into_publish_uri [simp]: "pe_uri (into_publish x) = ue_uri x"
  by (simp add: into_publish_def)

lemma into_publish_publish [simp]: "into_publish \<lparr>ue_uri = pe_uri p, ue_hash = h, ue_base64 = pe_base64 p\<rparr> = p"
  by (simp add: into_publish_def)

lemma op_new_uri [simp]: "n \<in> set (op_new op) \<Longrightarrow> pe_uri n = op_uri op"
  by (cases op) auto

lemma stage_op_other: "u \<noteq> op_uri op \<Longrightarrow> hm_get (stage_op op st) u = hm_get st u"
  by (cases op) (simp_all add: stage_publish_def stage_update_def stage_withdraw_def hmap_simps)

lemma stage_op_hm_ok: "hm_ok st \<Longrightarrow> hm_ok (stage_op op st)"
  by (cases op) (simp_all add: stage_publish_def stage_update_def stage_withdraw_def hm.ok_insert)

text \<open>The elements at other URIs stay right.\<close>

lemma object_op_images:
  shows "u \<noteq> op_uri op \<Longrightarrow> u \<in> pe_uri ` object_op op G \<longleftrightarrow> u \<in> pe_uri ` G"
    and "r \<in> pe_hash api ` object_op op G \<Longrightarrow> r \<in> pe_hash api ` G \<or> r \<in> pe_hash api ` set (op_new op)"
    and "n \<in> G \<Longrightarrow> pe_uri n \<noteq> op_uri op \<Longrightarrow> n \<in> object_op op G"
  unfolding object_op_def image_Un Un_iff by (force, blast, simp)

lemma el_ok_other:
  assumes ok: "el_ok api S G u el" and u: "u \<noteq> op_uri op"
    and r: "\<And>n r. n \<in> set (op_new op) \<Longrightarrow> el_removed el = Some r \<Longrightarrow> pe_hash api n \<noteq> r"
  shows "el_ok api S (object_op op G) u el"
proof -
  have "el_removed el = Some r \<Longrightarrow> r \<notin> pe_hash api ` G \<Longrightarrow> r \<notin> pe_hash api ` object_op op G" for r
    using object_op_images(2) [where r = r and api = api and op = op and G = G] r [of _ r] by (metis imageE)
  then show ?thesis
    using ok u object_op_images(1,3) [where op = op] unfolding el_ok_def by (auto split: option.splits)
qed

lemma object_op_inj:
  assumes "inj_on pe_uri G" "inj_on (pe_hash api) G"
    and "\<And>n. n \<in> set (op_new op) \<Longrightarrow> pe_hash api n \<notin> pe_hash api ` G"
  shows "inj_on pe_uri (object_op op G)" "inj_on (pe_hash api) (object_op op G)"
proof -
  have one: "inj_on pe_uri (set (op_new op))" "inj_on (pe_hash api) (set (op_new op))"
    by (cases op; simp)+
  have sub: "{e \<in> G. pe_uri e \<noteq> op_uri op} \<subseteq> G" by blast
  show "inj_on pe_uri (object_op op G)"
    unfolding object_op_def
    by (rule inj_on_disjoint_union [OF inj_on_subset [OF assms(1) sub] one(1)]) auto
  show "inj_on (pe_hash api) (object_op op G)"
    unfolding object_op_def
    by (rule inj_on_disjoint_union [OF inj_on_subset [OF assms(2) sub] one(2)]) (use assms(3) in \<open>force simp: image_iff\<close>)
qed

text \<open>The element at the URI of the operation: what was staged there before decides.\<close>

lemma staging_at:
  assumes "staging_ok api S G st"
  shows "hm_get st u = None \<Longrightarrow> pe_uri e = u \<Longrightarrow> e \<in> S \<longleftrightarrow> e \<in> G"
    and "hm_get st u = Some el \<Longrightarrow> el_ok api S G u el"
proof -
  have "case hm_get st u of None \<Rightarrow> \<forall>e. pe_uri e = u \<longrightarrow> (e \<in> S \<longleftrightarrow> e \<in> G) | Some el \<Rightarrow> el_ok api S G u el"
    using assms by (simp add: staging_ok_def)
  then show "hm_get st u = None \<Longrightarrow> pe_uri e = u \<Longrightarrow> e \<in> S \<longleftrightarrow> e \<in> G"
    and "hm_get st u = Some el \<Longrightarrow> el_ok api S G u el"
    by simp_all
qed

lemma staging_at_cases:
  assumes "staging_ok api S G st"
  shows "hm_get st u = None \<Longrightarrow> u \<notin> pe_uri ` G \<Longrightarrow> u \<notin> pe_uri ` S"
    and "hm_get st u = Some (Publish p) \<Longrightarrow> pe_uri p = u \<and> p \<in> G \<and> pe_hash api p \<notin> pe_hash api ` S \<and> u \<notin> pe_uri ` S"
    and "hm_get st u = Some (Update x) \<Longrightarrow> u \<in> pe_uri ` G \<and> ue_hash x \<notin> pe_hash api ` G \<and>
      (\<forall>e \<in> S. pe_uri e = u \<longleftrightarrow> pe_hash api e = ue_hash x)"
    and "hm_get st u = Some (Withdraw w) \<Longrightarrow> u \<notin> pe_uri ` G \<and> we_hash w \<notin> pe_hash api ` G \<and>
      (\<forall>e \<in> S. pe_uri e = u \<longleftrightarrow> pe_hash api e = we_hash w)"
proof -
  show "hm_get st u = None \<Longrightarrow> u \<notin> pe_uri ` G \<Longrightarrow> u \<notin> pe_uri ` S"
    using staging_at(1) [OF assms, of u] by blast
  show "hm_get st u = Some (Publish p) \<Longrightarrow> pe_uri p = u \<and> p \<in> G \<and> pe_hash api p \<notin> pe_hash api ` S \<and> u \<notin> pe_uri ` S"
    using staging_at(2) [OF assms, of u "Publish p"] by (simp add: el_ok_def)
  show "hm_get st u = Some (Update x) \<Longrightarrow> u \<in> pe_uri ` G \<and> ue_hash x \<notin> pe_hash api ` G \<and>
      (\<forall>e \<in> S. pe_uri e = u \<longleftrightarrow> pe_hash api e = ue_hash x)"
    using staging_at(2) [OF assms, of u "Update x"] by (simp add: el_ok_def) (metis image_eqI into_publish_uri)
  show "hm_get st u = Some (Withdraw w) \<Longrightarrow> u \<notin> pe_uri ` G \<and> we_hash w \<notin> pe_hash api ` G \<and>
      (\<forall>e \<in> S. pe_uri e = u \<longleftrightarrow> pe_hash api e = we_hash w)"
    using staging_at(2) [OF assms, of u "Withdraw w"] by (simp add: el_ok_def)
qed

lemma staging_matched:
  assumes ok: "staging_ok api S G st" and e: "e \<in> G" "pe_uri e = u" "pe_hash api e = h"
  shows "h \<notin> pe_hash api ` {f \<in> G. pe_uri f \<noteq> u}"
    and "e \<in> S \<Longrightarrow> \<forall>f \<in> S. pe_uri f = u \<longleftrightarrow> pe_hash api f = h"
proof -
  have inj: "inj_on pe_uri S" "inj_on (pe_hash api) S" "inj_on (pe_hash api) G"
    using ok by (simp_all add: staging_ok_def)
  have "f = e" if "f \<in> G" "pe_hash api f = h" for f
    using inj_onD [OF inj(3)] e that by simp
  then show "h \<notin> pe_hash api ` {f \<in> G. pe_uri f \<noteq> u}" using e by blast
  show "\<forall>f \<in> S. pe_uri f = u \<longleftrightarrow> pe_hash api f = h" if "e \<in> S"
    using inj_onD [OF inj(1)] inj_onD [OF inj(2)] that e by metis
qed

lemma op_ok_new:
  assumes "staging_ok api S G st" "op_ok api S G st op" "n \<in> set (op_new op)"
  shows "pe_hash api n \<notin> pe_hash api ` S" "pe_hash api n \<notin> pe_hash api ` G"
    and "hm_get st u = Some el \<Longrightarrow> el_removed el = Some r \<Longrightarrow> pe_hash api n \<noteq> r"
  using assms unfolding op_ok_def staging_ok_def by (auto simp: used_get)

lemma stage_publish_same:
  assumes ok: "staging_ok api S G st" and op: "op_ok api S G st (PdPublish p)"
  shows "\<exists>el. hm_get (stage_publish p st) (pe_uri p) = Some el \<and> el_ok api S (object_op (PdPublish p) G) (pe_uri p) el"
proof -
  note at = staging_at_cases [OF ok, of "pe_uri p"]
  have free: "pe_uri p \<notin> pe_uri ` G" using op by (simp add: op_ok_def matches_object_def)
  have new: "pe_hash api p \<notin> pe_hash api ` S" "pe_hash api p \<notin> pe_hash api ` G"
    using op_ok_new(1,2) [OF ok op] by simp_all
  consider "hm_get st (pe_uri p) = None" | w where "hm_get st (pe_uri p) = Some (Withdraw w)"
    using at(2,3) free by (metis delta_element.exhaust image_eqI option.exhaust)
  then show ?thesis
  proof cases
    case 1
    then show ?thesis using new at(1) free by (simp add: stage_publish_def hmap_simps el_ok_def object_op_def)
  next
    case (2 w)
    have "pe_hash api p \<noteq> we_hash w" using op_ok_new(3) [OF ok op, of p] 2 by simp
    then show ?thesis using new at(4) [OF 2] 2
      by (auto simp: stage_publish_def hmap_simps el_ok_def object_op_def)
  qed
qed

lemma stage_update_same:
  assumes ok: "staging_ok api S G st" and op: "op_ok api S G st (PdUpdate x)"
  shows "\<exists>el. hm_get (stage_update x st) (ue_uri x) = Some el \<and> el_ok api S (object_op (PdUpdate x) G) (ue_uri x) el"
proof -
  note at = staging_at_cases [OF ok, of "ue_uri x"]
  let ?n = "into_publish x"
  obtain e where e: "e \<in> G" "pe_uri e = ue_uri x" "pe_hash api e = ue_hash x"
    using op by (auto simp: op_ok_def matches_object_def)
  have new: "pe_hash api ?n \<notin> pe_hash api ` S" "pe_hash api ?n \<notin> pe_hash api ` G"
    using op_ok_new(1,2) [OF ok op] by simp_all
  note m = staging_matched [OF ok e]
  consider "hm_get st (ue_uri x) = None" | p where "hm_get st (ue_uri x) = Some (Publish p)"
    | y where "hm_get st (ue_uri x) = Some (Update y)"
    using at(4) e by (metis delta_element.exhaust image_eqI option.exhaust)
  then show ?thesis
  proof cases
    case 1
    then have "e \<in> S" using staging_at(1) [OF ok 1 e(2)] e(1) by simp
    moreover have "ue_hash x \<noteq> pe_hash api ?n" using new(2) e by (metis image_eqI)
    ultimately show ?thesis using 1 new m
      by (auto simp: stage_update_def hmap_simps el_ok_def object_op_def)
  next
    case (2 p)
    then show ?thesis using new at(2) [OF 2] by (simp add: stage_update_def hmap_simps el_ok_def object_op_def)
  next
    case (3 y)
    have "pe_hash api ?n \<noteq> ue_hash y" using op_ok_new(3) [OF ok op, of ?n] 3 by simp
    then show ?thesis using new at(3) [OF 3] 3
      by (auto simp: stage_update_def hmap_simps el_ok_def object_op_def updates_staged_def into_publish_def)
  qed
qed

lemma stage_withdraw_same:
  assumes ok: "staging_ok api S G st" and op: "op_ok api S G st (PdWithdraw w)"
  shows "\<exists>el. hm_get (stage_withdraw w st) (we_uri w) = Some el \<and> el_ok api S (object_op (PdWithdraw w) G) (we_uri w) el"
proof -
  note at = staging_at_cases [OF ok, of "we_uri w"]
  obtain e where e: "e \<in> G" "pe_uri e = we_uri w" "pe_hash api e = we_hash w"
    using op by (auto simp: op_ok_def matches_object_def)
  note m = staging_matched [OF ok e]
  have "we_uri w \<in> pe_uri ` G" using e by (metis image_eqI)
  then consider "hm_get st (we_uri w) = None" | p where "hm_get st (we_uri w) = Some (Publish p)"
    using at(4) op by (auto simp: op_ok_def is_update_def split: option.splits delta_element.splits)
  then have "\<forall>f \<in> S. pe_uri f = we_uri w \<longleftrightarrow> pe_hash api f = we_hash w"
  proof cases
    case 1
    then show ?thesis using staging_at(1) [OF ok 1 e(2)] e(1) m(2) by simp
  next
    case (2 p)
    have "inj_on pe_uri G" using ok by (simp add: staging_ok_def)
    then have "p = e" using e at(2) [OF 2] by (metis inj_onD)
    then show ?thesis using at(2) [OF 2] e by (metis image_eqI)
  qed
  then show ?thesis using m(1)
    by (auto simp: stage_withdraw_def hmap_simps el_ok_def object_op_def)
qed

lemma stage_op_same:
  assumes "staging_ok api S G st" "op_ok api S G st op"
  shows "\<exists>el. hm_get (stage_op op st) (op_uri op) = Some el \<and> el_ok api S (object_op op G) (op_uri op) el"
  using assms by (cases op) (simp_all add: stage_publish_same stage_update_same stage_withdraw_same)

lemma stage_op_ok:
  assumes ok: "staging_ok api S G st" and op: "op_ok api S G st op"
  shows "staging_ok api S (object_op op G) (stage_op op st)"
proof -
  have "case hm_get (stage_op op st) u of
      None \<Rightarrow> \<forall>e. pe_uri e = u \<longrightarrow> (e \<in> S \<longleftrightarrow> e \<in> object_op op G)
    | Some el \<Rightarrow> el_ok api S (object_op op G) u el" for u
  proof (cases "u = op_uri op")
    case True
    then show ?thesis using stage_op_same [OF ok op] by auto
  next
    case False
    then have g: "hm_get (stage_op op st) u = hm_get st u" by (rule stage_op_other)
    show ?thesis
    proof (cases "hm_get st u")
      case None
      then show ?thesis using False staging_at(1) [OF ok None] by (auto simp: g object_op_def)
    next
      case (Some el)
      then have "el_ok api S (object_op op G) u el"
        using op_ok_new(3) [OF ok op _ Some] by (intro el_ok_other [OF staging_at(2) [OF ok Some] False])
      then show ?thesis by (simp add: g Some)
    qed
  qed
  then show ?thesis
    using ok object_op_inj [of G api op] op_ok_new(2) [OF ok op] by (simp add: staging_ok_def stage_op_hm_ok)
qed

text \<open>A whole delta is its operations one after the other.\<close>

lemma used_after:
  assumes ok: "hm_ok st" and m: "matches_object api G op"
  shows "used_hashes api S (object_op op G) (stage_op op st) \<subseteq> used_hashes api S G st \<union> pe_hash api ` set (op_new op)"
proof -
  have "r \<in> used_hashes api S G st"
    if "hm_get (stage_op op st) u = Some el" "el_removed el = Some r" for u el r
  proof (cases "u = op_uri op")
    case False
    then show ?thesis using that ok by (auto simp: stage_op_other used_get)
  next
    case True
    have g: "pe_hash api e = r \<Longrightarrow> e \<in> G \<Longrightarrow> r \<in> used_hashes api S G st" for e
      by (auto simp: used_hashes_def)
    have o: "hm_get st u = Some el' \<Longrightarrow> el_removed el' = Some r \<Longrightarrow> r \<in> used_hashes api S G st" for el'
      using ok by (auto simp: used_get)
    show ?thesis
      using that True m g o
      by (cases op)
        (auto simp: stage_publish_def stage_update_def stage_withdraw_def hmap_simps matches_object_def
          updates_staged_def split: option.splits delta_element.splits)
  qed
  moreover have "pe_hash api ` object_op op G \<subseteq> pe_hash api ` G \<union> pe_hash api ` set (op_new op)"
    by (auto simp: object_op_def)
  ultimately show ?thesis
    using ok by (auto simp: used_get [OF stage_op_hm_ok [OF ok]]) (auto simp: used_hashes_def)
qed

lemma op_ok_after:
  assumes st: "hm_ok st" and op: "matches_object api G op" and q: "op_ok api S G st q"
    and u: "op_uri q \<noteq> op_uri op" and h: "pe_hash api ` set (op_new q) \<inter> pe_hash api ` set (op_new op) = {}"
  shows "op_ok api S (object_op op G) (stage_op op st) q"
proof -
  have "matches_object api (object_op op G) q"
    using q u object_op_images(1,3) [where op = op and G = G]
    by (cases q) (force simp: op_ok_def matches_object_def)+
  moreover have "pe_hash api n \<notin> used_hashes api S (object_op op G) (stage_op op st)" if "n \<in> set (op_new q)" for n
    using that q h used_after [OF st op, of S] by (fastforce simp: op_ok_def)
  ultimately show ?thesis using q u by (simp add: op_ok_def stage_op_other)
qed

lemma stage_ops_ok:
  assumes "staging_ok api S G st" "distinct (map op_uri ops)"
    and "distinct (map (pe_hash api) (concat (map op_new ops)))" "\<forall>op \<in> set ops. op_ok api S G st op"
  shows "staging_ok api S (fold object_op ops G) (fold stage_op ops st)"
  using assms
proof (induction ops arbitrary: G st)
  case (Cons op ops)
  have op: "op_ok api S G st op" "matches_object api G op" "hm_ok st"
    using Cons.prems by (auto simp: op_ok_def staging_ok_def)
  have "op_ok api S (object_op op G) (stage_op op st) q" if "q \<in> set ops" for q
  proof (rule op_ok_after [OF op(3,2)])
    show "op_ok api S G st q" using Cons.prems(4) that by simp
    show "op_uri q \<noteq> op_uri op" using Cons.prems(2) that by (metis distinct.simps(2) image_eqI list.set_map list.simps(9))
    show "pe_hash api ` set (op_new q) \<inter> pe_hash api ` set (op_new op) = {}"
      using Cons.prems(3) that by auto
  qed
  then show ?case using Cons.IH [OF stage_op_ok [OF Cons.prems(1) op(1)]] Cons.prems by simp
qed simp

lemma fold_object_op:
  "distinct (map op_uri ops) \<Longrightarrow>
   fold object_op ops G = {e \<in> G. pe_uri e \<notin> op_uri ` set ops} \<union> set (concat (map op_new ops))"
proof (induction ops arbitrary: G)
  case (Cons op ops)
  then have "n \<in> set (op_new op) \<Longrightarrow> pe_uri n \<notin> op_uri ` set ops" for n by simp
  then show ?case using Cons by (auto simp: object_op_def)
qed simp

lemma ops_of_simps:
  "stage_elements d st = fold stage_op (ops_of d) st"
  "map op_uri (ops_of d) = delta_uris d" "concat (map op_new (ops_of d)) = delta_new_elements d"
  by (simp_all add: stage_elements_def ops_of_def fold_map comp_def delta_uris_def delta_new_elements_def
      concat_map_singleton)

lemma stage_elements_ok:
  assumes "staging_ok api S G st" "distinct (delta_uris d)" "distinct (map (pe_hash api) (delta_new_elements d))"
    and "\<forall>op \<in> set (ops_of d). op_ok api S G st op"
  shows "staging_ok api S ({e \<in> G. pe_uri e \<notin> set (delta_uris d)} \<union> set (delta_new_elements d)) (stage_elements d st)"
  using stage_ops_ok [OF assms(1), of "ops_of d"] fold_object_op [of "ops_of d" G] assms(2-4)
  by (simp add: ops_of_simps flip: set_map)

section \<open>The next snapshot\<close>

lemma staged_delta_Cons:
  "staged_delta ((u, Publish p) # st) = (staged_delta st)\<lparr>de_publishes := p # de_publishes (staged_delta st)\<rparr>"
  "staged_delta ((u, Update x) # st) = (staged_delta st)\<lparr>de_updates := x # de_updates (staged_delta st)\<rparr>"
  "staged_delta ((u, Withdraw w) # st) = (staged_delta st)\<lparr>de_withdraws := w # de_withdraws (staged_delta st)\<rparr>"
  by (simp_all add: staged_delta_def Let_def)

lemma staged_delta_Nil [simp]: "staged_delta [] = \<lparr>de_publishes = [], de_updates = [], de_withdraws = []\<rparr>"
  by (simp add: staged_delta_def)

lemma staged_delta_new:
  "set (delta_new_elements (staged_delta st)) = {n. \<exists>(u, el) \<in> set st. el_new el = Some n}"
proof (induction st)
  case (Cons a st)
  obtain u el where a: "a = (u, el)" by fastforce
  show ?case using Cons by (cases el) (auto simp: a staged_delta_Cons delta_new_elements_def)
qed (simp add: delta_new_elements_def)

lemma staged_delta_removed:
  "ue_hash ` set (de_updates (staged_delta st)) \<union> we_hash ` set (de_withdraws (staged_delta st)) =
   {r. \<exists>(u, el) \<in> set st. el_removed el = Some r}"
proof (induction st)
  case (Cons a st)
  obtain u el where a: "a = (u, el)" by fastforce
  show ?case using Cons by (cases el) (auto simp: a staged_delta_Cons)
qed simp

lemma staged_delta_distinct:
  assumes "hm_ok st" "\<forall>(u, el) \<in> set st. \<forall>n. el_new el = Some n \<longrightarrow> pe_uri n = u"
  shows "distinct (map pe_uri (delta_new_elements (staged_delta st)))"
  using assms
proof (induction st)
  case (Cons a st)
  obtain u el where a: "a = (u, el)" by fastforce
  have "u \<notin> fst ` set st" "hm_ok st" using Cons.prems by (simp_all add: a hm_ok_def)
  moreover have "pe_uri ` set (delta_new_elements (staged_delta st)) \<subseteq> fst ` set st"
    using Cons.prems(2) by (force simp: staged_delta_new a)
  ultimately have "u \<notin> pe_uri ` set (delta_new_elements (staged_delta st))" by blast
  then show ?case using Cons
    by (cases el) (auto simp: a staged_delta_Cons delta_new_elements_def hm_ok_def image_Un image_image)
qed (simp add: delta_new_elements_def)

text \<open>The delta that is made of the staged elements turns the snapshot into the objects of the
  publishers.\<close>

lemma next_snapshot:
  assumes wf: "co_wf api co" and ok: "staging_ok api (elems co) G st"
  shows "elems (apply_delta api (staged_delta st) co) = G"
proof -
  let ?d = "staged_delta st" and ?S = "elems co"
  have hm: "hm_ok st" and inj: "inj_on pe_uri G" "inj_on (pe_hash api) G"
    using ok by (simp_all add: staging_ok_def)
  have el: "el_ok api ?S G u el" if "(u, el) \<in> set st" for u el
    using staging_at(2) [OF ok] that by (simp add: hm_get_iff [OF hm])
  have new: "n \<in> G \<and> pe_hash api n \<notin> pe_hash api ` ?S" if "n \<in> set (delta_new_elements ?d)" for n
    using that el by (fastforce simp: staged_delta_new el_ok_def)
  have removed: "r \<notin> pe_hash api ` G"
    if "r \<in> ue_hash ` set (de_updates ?d) \<union> we_hash ` set (de_withdraws ?d)" for r
    using that el unfolding staged_delta_removed by (fastforce simp: el_ok_def)
  have uris: "\<forall>(u, el) \<in> set st. \<forall>n. el_new el = Some n \<longrightarrow> pe_uri n = u"
    using el by (fastforce simp: el_ok_def)
  have "distinct (delta_new_elements ?d)"
    using staged_delta_distinct [OF hm uris] by (simp add: distinct_map)
  then have dist: "distinct (map (pe_hash api) (delta_new_elements ?d))"
    using new inj(2) by (auto simp: distinct_map intro: inj_on_subset)
  have "elems (apply_delta api ?d co) = set (delta_new_elements ?d)
      \<union> {x \<in> ?S. pe_hash api x \<notin> ue_hash ` set (de_updates ?d) \<union> we_hash ` set (de_withdraws ?d)}"
    using new removed by (subst elems_new_delta [OF wf _ dist]) (force simp: image_iff)+
  also have "\<dots> = {n. \<exists>(u, el) \<in> set st. el_new el = Some n}
      \<union> {x \<in> ?S. \<not> (\<exists>(u, el) \<in> set st. el_removed el = Some (pe_hash api x))}"
    by (simp add: staged_delta_new staged_delta_removed)
  also have "\<dots> = G"
  proof (intro set_eqI iffI)
    fix x assume "x \<in> {n. \<exists>(u, el) \<in> set st. el_new el = Some n}
        \<union> {x \<in> ?S. \<not> (\<exists>(u, el) \<in> set st. el_removed el = Some (pe_hash api x))}"
    then show "x \<in> G"
    proof
      assume "x \<in> {n. \<exists>(u, el) \<in> set st. el_new el = Some n}"
      then show ?thesis using new by (simp add: staged_delta_new)
    next
      assume x: "x \<in> {x \<in> ?S. \<not> (\<exists>(u, el) \<in> set st. el_removed el = Some (pe_hash api x))}"
      have "hm_get st (pe_uri x) = None"
      proof (rule ccontr)
        assume "hm_get st (pe_uri x) \<noteq> None"
        then obtain y where y: "(pe_uri x, y) \<in> set st" using hm_get_iff [OF hm] by blast
        then show False using el [OF y] x by (fastforce simp: el_ok_def split: option.splits)
      qed
      then show ?thesis using staging_at(1) [OF ok] x by blast
    qed
  next
    fix x assume x: "x \<in> G"
    show "x \<in> {n. \<exists>(u, el) \<in> set st. el_new el = Some n}
        \<union> {x \<in> ?S. \<not> (\<exists>(u, el) \<in> set st. el_removed el = Some (pe_hash api x))}"
    proof (cases "hm_get st (pe_uri x)")
      case None
      have "el_removed el \<noteq> Some (pe_hash api x)" if "(u, el) \<in> set st" for u el
        using removed [of "pe_hash api x"] x that unfolding staged_delta_removed by blast
      then show ?thesis using staging_at(1) [OF ok None refl] x by blast
    next
      case (Some y)
      then have y: "(pe_uri x, y) \<in> set st" using hm_get_iff [OF hm] by simp
      obtain n where n: "el_new y = Some n" "pe_uri n = pe_uri x" "n \<in> G"
        using el [OF y] x by (force simp: el_ok_def split: option.splits)
      then have "n = x" using inj(1) x by (auto dest: inj_onD)
      then show ?thesis using y n by blast
    qed
  qed
  finally show ?thesis .
qed

end
