(* ===== verification/RepositoryProps.thy ===== *)
theory RepositoryProps
  imports Repository
begin

text \<open>
  What the publication server keeps true of its content: the staged elements are the difference
  between the snapshot and the objects of the publishers, the deltas are a chain that ends in the
  current serial, and the content obeys the contract of the write-ahead log store.
\<close>

section \<open>The invariant of the content\<close>

definition all_objects :: "('b, 'u, 'h, 'r) repository_content \<Rightarrow> ('b, 'u) publish_element set" where
  "all_objects rc = (\<Union>(p, co) \<in> set (rc_publishers rc). elems co)"

abbreviation served :: "('b, 'u, 'h, 'r) repository_content \<Rightarrow> ('b, 'u) publish_element set" where
  "served rc \<equiv> elems (sd_objects (rs_snapshot (rc_rrdp rc)))"

definition publishers_ok :: "('b, 'u, 'h) rpki_api \<Rightarrow> ('b, 'u, 'h, 'r) repository_content \<Rightarrow> bool" where
  "publishers_ok api rc \<longleftrightarrow>
     hm_ok (rc_publishers rc) \<and>
     (\<forall>p co. hm_get (rc_publishers rc) p = Some co \<longrightarrow> co_wf api co) \<and>
     (\<forall>p q c d. hm_get (rc_publishers rc) p = Some c \<longrightarrow> hm_get (rc_publishers rc) q = Some d \<longrightarrow> p \<noteq> q \<longrightarrow>
        elems c \<inter> elems d = {})"

definition content_ok :: "('b, 'u, 'h) rpki_api \<Rightarrow> ('b, 'u, 'h, 'r) repository_content \<Rightarrow> bool" where
  "content_ok api rc \<longleftrightarrow>
     publishers_ok api rc \<and> co_wf api (sd_objects (rs_snapshot (rc_rrdp rc))) \<and>
     staging_ok api (served rc) (all_objects rc) (rs_staged (rc_rrdp rc))"

text \<open>
  The deltas of well-behaved publishers: one element per URI, contents that are new to the
  repository, no publish on a URI in use, and no withdraw of an object whose update is still
  staged.
\<close>

definition delta_fresh ::
  "('b, 'u, 'h) rpki_api \<Rightarrow> ('b, 'u, 'h) delta_elements \<Rightarrow> ('b, 'u, 'h, 'r) repository_content \<Rightarrow> bool" where
  "delta_fresh api d rc \<longleftrightarrow>
     distinct (delta_uris d) \<and> distinct (map (pe_hash api) (delta_new_elements d)) \<and>
     (\<forall>e \<in> set (delta_new_elements d).
        pe_hash api e \<notin> used_hashes api (served rc) (all_objects rc) (rs_staged (rc_rrdp rc))) \<and>
     (\<forall>p \<in> set (de_publishes d). pe_uri p \<notin> pe_uri ` all_objects rc) \<and>
     (\<forall>w \<in> set (de_withdraws d). \<not> is_update (hm_get (rs_staged (rc_rrdp rc)) (we_uri w)))"

fun permitted ::
  "('b, 'u, 'h) rpki_api \<Rightarrow> (string \<Rightarrow> 'u) \<Rightarrow> ('b, 'u, 'h, 'r) content_command
   \<Rightarrow> ('b, 'u, 'h, 'r) repository_content \<Rightarrow> bool" where
  "permitted api base (AddPublisher _ p) rc \<longleftrightarrow> hm_get (rc_publishers rc) p = None"
| "permitted api base (RemovePublisher _ p) rc \<longleftrightarrow>
     (case hm_get (rc_publishers rc) p of
        None \<Rightarrow> True
      | Some co \<Rightarrow> list_all (\<lambda>e. \<not> is_update (hm_get (rs_staged (rc_rrdp rc)) (pe_uri e))) (co_elements co))"
| "permitted api base (PublishDelta _ p d) rc \<longleftrightarrow> publish_checked api (base p) p d rc \<and> delta_fresh api d rc"
| "permitted api base _ rc \<longleftrightarrow> True"

definition content_step ::
  "('b, 'u, 'h) rpki_api \<Rightarrow> ('b, 'u, 'h, 'r) content_command \<Rightarrow> ('b, 'u, 'h, 'r) repository_content
   \<Rightarrow> ('b, 'u, 'h, 'r) repository_content" where
  "content_step api cmd rc =
     (case content_process api cmd rc of
        Inl _ \<Rightarrow> rc
      | Inr [] \<Rightarrow> rc
      | Inr cs \<Rightarrow> content_apply api \<lparr>ws_revision = rc_revision rc, ws_summary = command_show cmd, ws_changes = cs\<rparr> rc)"

inductive content_reachable ::
  "('b, 'u, 'h) rpki_api \<Rightarrow> (string \<Rightarrow> 'u) \<Rightarrow> ('b, 'u, 'h, 'r) repository_content \<Rightarrow> bool"
  for api base where
  init: "content_reachable api base (content_init session now rnd)"
| command: "content_reachable api base rc \<Longrightarrow> permitted api base cmd rc \<Longrightarrow>
    content_reachable api base (content_step api cmd rc)"

lemma all_objects_iff:
  "hm_ok (rc_publishers rc) \<Longrightarrow>
   e \<in> all_objects rc \<longleftrightarrow> (\<exists>p co. hm_get (rc_publishers rc) p = Some co \<and> e \<in> elems co)"
  by (force simp: all_objects_def hm_get_iff)

lemma content_ok_init: "content_ok api (content_init session now rnd)"
  by (simp add: content_ok_def publishers_ok_def content_init_def rrdp_create_def snapshot_create_def all_objects_def
      staging_ok_def elems_def co_elements_def hm.ok_empty)

lemma content_ok_revision [simp]: "content_ok api (rc\<lparr>rc_revision := n\<rparr>) \<longleftrightarrow> content_ok api rc"
  by (simp add: content_ok_def publishers_ok_def all_objects_def)

text \<open>Replacing the objects of one publisher.\<close>

lemma publishers_replace:
  assumes ok: "publishers_ok api rc" and p: "hm_get (rc_publishers rc) p = Some co" and wf: "co_wf api co'"
    and new: "elems co' \<inter> (all_objects rc - elems co) = {}"
  shows "publishers_ok api (rc\<lparr>rc_publishers := hm_insert p co' (rc_publishers rc)\<rparr>)"
    and "all_objects (rc\<lparr>rc_publishers := hm_insert p co' (rc_publishers rc)\<rparr>) = all_objects rc - elems co \<union> elems co'"
proof -
  let ?rc = "rc\<lparr>rc_publishers := hm_insert p co' (rc_publishers rc)\<rparr>"
  have hm: "hm_ok (rc_publishers rc)" "hm_ok (rc_publishers ?rc)"
    using ok by (simp_all add: publishers_ok_def hm.ok_insert)
  have dis: "hm_get (rc_publishers rc) q = Some c \<Longrightarrow> q \<noteq> p \<Longrightarrow> elems c \<inter> elems co = {}" for q c
    using ok p unfolding publishers_ok_def by blast
  have o: "hm_get (rc_publishers rc) q = Some c \<Longrightarrow> q \<noteq> p \<Longrightarrow> elems c \<inter> elems co' = {}" for q c
    using dis new by (force simp: all_objects_iff [OF hm(1)])
  show "publishers_ok api ?rc"
    using ok wf o hm(2) unfolding publishers_ok_def by (auto simp: hmap_simps Int_commute split: if_splits)
  show "all_objects ?rc = all_objects rc - elems co \<union> elems co'"
  proof (rule set_eqI)
    fix e
    show "e \<in> all_objects ?rc \<longleftrightarrow> e \<in> all_objects rc - elems co \<union> elems co'"
      using p dis unfolding Un_iff Diff_iff all_objects_iff [OF hm(1)] all_objects_iff [OF hm(2)]
      by (auto simp: hmap_simps split: if_splits) (metis option.inject)
  qed
qed

lemma publishers_remove:
  assumes ok: "publishers_ok api rc" and p: "hm_get (rc_publishers rc) p = Some co"
  shows "publishers_ok api (rc\<lparr>rc_publishers := hm_remove p (rc_publishers rc)\<rparr>)"
    and "all_objects (rc\<lparr>rc_publishers := hm_remove p (rc_publishers rc)\<rparr>) = all_objects rc - elems co"
proof -
  let ?rc = "rc\<lparr>rc_publishers := hm_remove p (rc_publishers rc)\<rparr>"
  have hm: "hm_ok (rc_publishers rc)" "hm_ok (rc_publishers ?rc)"
    using ok by (simp_all add: publishers_ok_def hm.ok_remove)
  have dis: "hm_get (rc_publishers rc) q = Some c \<Longrightarrow> q \<noteq> p \<Longrightarrow> elems c \<inter> elems co = {}" for q c
    using ok p unfolding publishers_ok_def by blast
  show "publishers_ok api ?rc"
    using ok hm(2) unfolding publishers_ok_def by (auto simp: hmap_simps split: if_splits)
  show "all_objects ?rc = all_objects rc - elems co"
  proof (rule set_eqI)
    fix e
    show "e \<in> all_objects ?rc \<longleftrightarrow> e \<in> all_objects rc - elems co"
      using p dis unfolding Diff_iff all_objects_iff [OF hm(1)] all_objects_iff [OF hm(2)]
      by (auto simp: hmap_simps split: if_splits) (metis option.inject)
  qed
qed

lemma content_okD:
  assumes "content_ok api rc"
  shows "publishers_ok api rc" "co_wf api (sd_objects (rs_snapshot (rc_rrdp rc)))"
    "staging_ok api (served rc) (all_objects rc) (rs_staged (rc_rrdp rc))"
    "inj_on pe_uri (all_objects rc)" "inj_on (pe_hash api) (all_objects rc)"
  using assms by (simp_all add: content_ok_def staging_ok_def)

lemma publisher_objects:
  assumes "content_ok api rc" "hm_get (rc_publishers rc) p = Some co"
  shows "co_wf api co" "elems co \<subseteq> all_objects rc" "inj_on pe_uri (elems co)"
proof -
  show "co_wf api co" using assms by (auto simp: content_ok_def publishers_ok_def)
  have hm: "hm_ok (rc_publishers rc)" using assms(1) by (simp add: content_ok_def publishers_ok_def)
  show "elems co \<subseteq> all_objects rc" using assms(2) all_objects_iff [OF hm] by blast
  then show "inj_on pe_uri (elems co)" using content_okD(4) [OF assms(1)] inj_on_subset by blast
qed

text \<open>A delta of one publisher, seen from the whole repository.\<close>

lemma publish_objects:
  assumes ok: "content_ok api rc" and co: "hm_get (rc_publishers rc) p = Some co"
    and v: "verify_delta api co d jail = Inr ()" and f: "delta_fresh api d rc"
  shows "elems (apply_delta api d co) = {e \<in> elems co. pe_uri e \<notin> set (delta_uris d)} \<union> set (delta_new_elements d)"
    and "set (delta_new_elements d) \<inter> all_objects rc = {}"
    and "\<And>e. e \<in> all_objects rc \<Longrightarrow> e \<notin> elems co \<Longrightarrow> pe_uri e \<notin> set (delta_uris d)"
    and "\<forall>op \<in> set (ops_of d). op_ok api (served rc) (all_objects rc) (rs_staged (rc_rrdp rc)) op"
proof -
  note po = publisher_objects [OF ok co]
  note m = verify_delta_match [OF po(1) v]
  have new: "pe_hash api e \<noteq> pe_hash api x" if "e \<in> set (delta_new_elements d)" "x \<in> all_objects rc" for e x
    using f that by (auto simp: delta_fresh_def used_hashes_def)
  have free: "pe_uri q \<notin> pe_uri ` all_objects rc" if "q \<in> set (de_publishes d)" for q
    using f that by (simp add: delta_fresh_def)
  show "elems (apply_delta api d co) = {e \<in> elems co. pe_uri e \<notin> set (delta_uris d)} \<union> set (delta_new_elements d)"
  proof (rule accepted_delta_elems [OF po(1,3) m])
    show "\<forall>e\<in>set (delta_new_elements d). \<forall>x\<in>elems co. pe_hash api x \<noteq> pe_hash api e" using new po(2) by fastforce
    show "distinct (map (pe_hash api) (delta_new_elements d))" using f by (simp add: delta_fresh_def)
    show "\<forall>q\<in>set (de_publishes d). \<forall>x\<in>elems co. pe_uri x \<noteq> pe_uri q"
      using free po(2) by (metis image_eqI subsetD)
  qed
  show "set (delta_new_elements d) \<inter> all_objects rc = {}" using new by blast
  show "pe_uri e \<notin> set (delta_uris d)" if e: "e \<in> all_objects rc" "e \<notin> elems co" for e
  proof -
    have "pe_uri x \<noteq> pe_uri e" if "x \<in> elems co" for x
      using inj_onD [OF content_okD(4) [OF ok]] e that po(2) by blast
    then have "pe_uri e \<notin> ue_uri ` set (de_updates d)" "pe_uri e \<notin> we_uri ` set (de_withdraws d)"
      using m by (metis imageE)+
    moreover have "pe_uri e \<notin> pe_uri ` set (de_publishes d)" using free e(1) by (metis imageE image_eqI)
    ultimately show ?thesis by (simp add: delta_uris_def)
  qed
  have "matches_object api (all_objects rc) op" if "op \<in> set (ops_of d)" for op
    using that m free po(2) by (fastforce simp: ops_of_def matches_object_def)
  moreover have "\<forall>n \<in> set (op_new op). pe_hash api n \<notin> used_hashes api (served rc) (all_objects rc) (rs_staged (rc_rrdp rc))"
    if "op \<in> set (ops_of d)" for op
    using f that by (auto simp: delta_fresh_def simp flip: ops_of_simps(3))
  moreover have "op_new op = [] \<longrightarrow> \<not> is_update (hm_get (rs_staged (rc_rrdp rc)) (op_uri op))" if "op \<in> set (ops_of d)" for op
    using f that by (auto simp: delta_fresh_def ops_of_def)
  ultimately show "\<forall>op \<in> set (ops_of d). op_ok api (served rc) (all_objects rc) (rs_staged (rc_rrdp rc)) op"
    by (simp add: op_ok_def)
qed

lemma publish_ok:
  assumes ok: "content_ok api rc" and co: "hm_get (rc_publishers rc) p = Some co"
    and v: "verify_delta api co d jail = Inr ()" and f: "delta_fresh api d rc"
  shows "content_ok api (rc\<lparr>rc_publishers := hm_insert p (apply_delta api d co) (rc_publishers rc),
      rc_rrdp := apply_rrdp_staged d (rc_rrdp rc)\<rparr>)"
proof -
  let ?co = "apply_delta api d co" and ?G = "all_objects rc"
  note po = publisher_objects [OF ok co] and n = publish_objects [OF ok co v f]
  have dis: "elems ?co \<inter> (?G - elems co) = {}" using n(1,2) by blast
  note r = publishers_replace [OF content_okD(1) [OF ok] co apply_delta_wf [OF po(1)] dis]
  have G: "?G - elems co \<union> elems ?co = {e \<in> ?G. pe_uri e \<notin> set (delta_uris d)} \<union> set (delta_new_elements d)"
    using n(1,3) po(2) by blast
  have "staging_ok api (served rc) (?G - elems co \<union> elems ?co) (stage_elements d (rs_staged (rc_rrdp rc)))"
    unfolding G using f by (intro stage_elements_ok [OF content_okD(3) [OF ok]] n(4)) (simp_all add: delta_fresh_def)
  then show ?thesis
    using r content_okD(2) [OF ok]
    by (simp add: content_ok_def apply_rrdp_staged_def publishers_ok_def all_objects_def)
qed

lemma remove_ok:
  fixes rc :: "('b, 'u, 'h, 'r) repository_content"
  assumes ok: "content_ok api rc" and co: "hm_get (rc_publishers rc) p = Some co"
    and u: "list_all (\<lambda>e. \<not> is_update (hm_get (rs_staged (rc_rrdp rc)) (pe_uri e))) (co_elements co)"
  shows "content_ok api (rc
      \<lparr>rc_rrdp := apply_rrdp_staged \<lparr>de_publishes = [], de_updates = [], de_withdraws = map (as_withdraw api) (co_elements co)\<rparr>
         (rc_rrdp rc),
       rc_publishers := hm_remove p (rc_publishers rc)\<rparr>)"
proof -
  let ?d = "\<lparr>de_publishes = [], de_updates = [], de_withdraws = map (as_withdraw api) (co_elements co)\<rparr>
    :: ('b, 'u, 'h) delta_elements"
  let ?G = "all_objects rc"
  note po = publisher_objects [OF ok co] and r = publishers_remove [OF content_okD(1) [OF ok] co]
  have uris: "delta_uris ?d = map pe_uri (co_elements co)" by (simp add: delta_uris_def as_withdraw_def)
  have dist: "distinct (delta_uris ?d)"
    using uris_unique_inj [OF po(1)] po(3) by (simp add: uris uris_unique_def)
  have els: "set (co_elements co) = elems co" by (simp add: elems_def)
  have "\<forall>op \<in> set (ops_of ?d). op_ok api (served rc) ?G (rs_staged (rc_rrdp rc)) op"
    using u po(2) by (auto simp: ops_of_def op_ok_def matches_object_def els as_withdraw_def pe_hash_def list_all_iff)
  then have "staging_ok api (served rc) {e \<in> ?G. pe_uri e \<notin> set (delta_uris ?d)} (stage_elements ?d (rs_staged (rc_rrdp rc)))"
    using stage_elements_ok [OF content_okD(3) [OF ok] dist] by (simp add: delta_new_elements_def)
  moreover have "{e \<in> ?G. pe_uri e \<notin> set (delta_uris ?d)} = ?G - elems co"
    using inj_onD [OF content_okD(4) [OF ok]] po(2) by (auto simp: uris els)
  ultimately show ?thesis
    using r content_okD(2) [OF ok]
    by (simp add: content_ok_def apply_rrdp_staged_def publishers_ok_def all_objects_def)
qed

lemma add_ok:
  assumes ok: "content_ok api rc" and p: "hm_get (rc_publishers rc) p = None"
  shows "content_ok api (rc\<lparr>rc_publishers := hm_insert p [] (rc_publishers rc)\<rparr>)"
proof -
  let ?rc = "rc\<lparr>rc_publishers := hm_insert p [] (rc_publishers rc)\<rparr>"
  have [simp]: "elems [] = {}" by (simp add: elems_def co_elements_def)
  have pub: "publishers_ok api ?rc"
    using content_okD(1) [OF ok] by (auto simp: publishers_ok_def hm.ok_insert hmap_simps split: if_splits)
  have hm: "hm_ok (rc_publishers rc)" "hm_ok (rc_publishers ?rc)"
    using content_okD(1) [OF ok] pub by (simp_all add: publishers_ok_def)
  have "all_objects ?rc = all_objects rc"
  proof (rule set_eqI)
    fix e
    show "e \<in> all_objects ?rc \<longleftrightarrow> e \<in> all_objects rc"
      using p unfolding all_objects_iff [OF hm(1)] all_objects_iff [OF hm(2)]
      by (auto simp: hmap_simps split: if_splits) (metis option.distinct(1))
  qed
  then show ?thesis using ok pub by (simp add: content_ok_def)
qed

lemma updated_snapshot:
  "sd_objects (rs_snapshot (apply_rrdp_updated api update rs)) =
     apply_delta api (staged_delta (rs_staged rs)) (sd_objects (rs_snapshot rs))"
  "rs_staged (apply_rrdp_updated api update rs) = []"
  by (simp_all add: apply_rrdp_updated_def deltas_truncate_size_def Let_def with_delta_def)

lemma updated_ok:
  assumes ok: "content_ok api rc"
  shows "content_ok api (rc\<lparr>rc_rrdp := apply_rrdp_updated api update (rc_rrdp rc)\<rparr>)"
proof -
  note D = content_okD [OF ok]
  have "staging_ok api (all_objects rc) (all_objects rc) []"
    using D(4,5) by (simp add: staging_ok_def hm.ok_empty)
  then show ?thesis
    using D(1,2) next_snapshot [OF D(2,3)]
    by (simp add: content_ok_def updated_snapshot apply_wf publishers_ok_def all_objects_def)
qed

lemma reset_ok:
  assumes "content_ok api rc"
  shows "content_ok api (rc\<lparr>rc_rrdp := apply_session_reset (rrdp_reset_session now session rnd (rc_rrdp rc)) (rc_rrdp rc)\<rparr>)"
  using assms
  by (simp add: content_ok_def apply_session_reset_def rrdp_reset_session_def with_new_random_def publishers_ok_def
      all_objects_def)

lemma content_step_ok:
  assumes "content_ok api rc" "permitted api base cmd rc"
  shows "content_ok api (content_step api cmd rc)"
proof (cases cmd)
  case (PublishDelta h p d)
  then obtain co where "hm_get (rc_publishers rc) p = Some co" "verify_delta api co d (base p) = Inr ()" "delta_fresh api d rc"
    using assms(2) by (auto simp: publish_checked_def objects_for_publisher_def ok_or_def split: option.splits)
  then show ?thesis
    using publish_ok [OF assms(1)]
    by (simp add: PublishDelta content_step_def content_apply_def publish_def ok_or_def rbind_def Let_def)
next
  case (RemovePublisher h p)
  then show ?thesis
    using assms remove_ok [OF assms(1), of p]
    by (cases "hm_get (rc_publishers rc) p")
      (simp_all add: content_step_def content_apply_def remove_publisher_def objects_for_publisher_def ok_or_def Let_def)
next
  case (AddPublisher h p)
  then show ?thesis using assms add_ok [OF assms(1), of p] by (simp add: content_step_def content_apply_def Let_def)
next
  case (ResetSession h now session rnd)
  then show ?thesis using reset_ok [OF assms(1)] by (simp add: content_step_def content_apply_def Let_def)
next
  case (CreateRrdpDelta h config now rnd)
  then show ?thesis
    using assms(1) updated_ok [OF assms(1)]
    by (simp add: content_step_def content_apply_def create_rrdp_delta_def Let_def)
qed

lemma content_reachable_ok: "content_reachable api base rc \<Longrightarrow> content_ok api rc"
  by (induction rule: content_reachable.induct) (auto intro: content_ok_init content_step_ok)

section \<open>Revisions\<close>

lemma apply_change_revision: "rc_revision (apply_change api c rc) = rc_revision rc"
  by (cases c) simp_all

lemma fold_change_revision: "rc_revision (fold (apply_change api) cs rc) = rc_revision rc"
  by (induction cs arbitrary: rc) (simp_all add: apply_change_revision)

interpretation content: wal_contract rc_revision "content_apply api" for api
  by unfold_locales (simp add: content_apply_def Let_def fold_change_revision)

lemma content_lawful:
  "codec_ok state_codec \<Longrightarrow> codec_ok set_codec \<Longrightarrow> wal_lawful (content_wal api state_codec set_codec is_handle)"
  by (simp add: wal_lawful_def content_wal_def content.rev_app)

section \<open>Serials and deltas\<close>














section \<open>Single deltas\<close>

lemma staged_delta_withdraws: "w \<in> set (de_withdraws (staged_delta st)) \<longleftrightarrow> (\<exists>u. (u, Withdraw w) \<in> set st)"
proof (induction st)
  case (Cons a st)
  obtain u el where a: "a = (u, el)" by fastforce
  show ?case using Cons by (cases el) (auto simp: a staged_delta_Cons)
qed simp

lemma step_publish:
  "hm_get (rc_publishers rc) p = Some co \<Longrightarrow>
   content_step api (PublishDelta h p d) rc =
     rc\<lparr>rc_publishers := hm_insert p (apply_delta api d co) (rc_publishers rc),
        rc_rrdp := apply_rrdp_staged d (rc_rrdp rc), rc_revision := Suc (rc_revision rc)\<rparr>"
  by (simp add: content_step_def content_apply_def publish_def ok_or_def rbind_def Let_def)

lemma all_objects_publish:
  assumes "publishers_ok api rc" "hm_get (rc_publishers rc) p = Some co" "co_wf api co'" "elems co' \<inter> (all_objects rc - elems co) = {}"
  shows "all_objects (rc\<lparr>rc_publishers := hm_insert p co' (rc_publishers rc), rc_rrdp := rs, rc_revision := n\<rparr>) =
    all_objects rc - elems co \<union> elems co'"
  using publishers_replace(2) [OF assms] by (simp add: all_objects_def)

lemma kept_by_delta:
  assumes wf: "co_wf api co" and e: "e \<in> elems co"
    and n: "\<forall>x \<in> set (delta_new_elements d). pe_hash api x \<noteq> pe_hash api e"
    and r: "pe_hash api e \<notin> ue_hash ` set (de_updates d)" "pe_hash api e \<notin> we_hash ` set (de_withdraws d)"
  shows "e \<in> elems (apply_delta api d co)"
proof -
  have 1: "e \<in> elems (fold (apply_publish api) ps co)" if "\<forall>x \<in> set ps. pe_hash api x \<noteq> pe_hash api e" for ps
    using that wf e by (induction ps arbitrary: co) (force simp: elems_apply_publish apply_wf)+
  have 2: "e \<in> elems (fold (apply_update api) us c)"
    if "\<forall>x \<in> set us. pe_hash api (into_publish x) \<noteq> pe_hash api e \<and> ue_hash x \<noteq> pe_hash api e" "co_wf api c" "e \<in> elems c" for us c
    using that by (induction us arbitrary: c) (force simp: elems_apply_update apply_wf)+
  have "e \<in> elems (fold (apply_update api) (de_updates d) (fold (apply_publish api) (de_publishes d) co))"
  proof (rule 2)
    show "\<forall>x \<in> set (de_updates d). pe_hash api (into_publish x) \<noteq> pe_hash api e \<and> ue_hash x \<noteq> pe_hash api e"
      using n r(1) by (auto simp: delta_new_elements_def) (metis image_eqI)
    show "e \<in> elems (fold (apply_publish api) (de_publishes d) co)"
      using n by (intro 1) (simp add: delta_new_elements_def)
  qed (simp add: apply_wf wf)
  then show ?thesis using r(2) by (simp add: apply_delta_def elems_fold_withdraw [where api = api] apply_wf wf)
qed

text \<open>An update of one object, and a withdraw of one object.\<close>

definition update_of :: "('b, 'u, 'h) rpki_api \<Rightarrow> ('b, 'u) publish_element \<Rightarrow> 'b \<Rightarrow> ('b, 'u, 'h) delta_elements" where
  "update_of api e b =
     \<lparr>de_publishes = [], de_updates = [\<lparr>ue_uri = pe_uri e, ue_hash = pe_hash api e, ue_base64 = b\<rparr>], de_withdraws = []\<rparr>"

definition withdraw_of :: "('b, 'u, 'h) rpki_api \<Rightarrow> ('b, 'u) publish_element \<Rightarrow> ('b, 'u, 'h) delta_elements" where
  "withdraw_of api e = \<lparr>de_publishes = [], de_updates = [], de_withdraws = [as_withdraw api e]\<rparr>"

definition publish_of :: "('b, 'u) publish_element \<Rightarrow> ('b, 'u, 'h) delta_elements" where
  "publish_of e = \<lparr>de_publishes = [e], de_updates = [], de_withdraws = []\<rparr>"

lemmas single_defs = update_of_def withdraw_of_def publish_of_def delta_uris_def delta_new_elements_def as_withdraw_def

lemma single_verify:
  assumes "co_wf api co"
  shows "verify_delta api co (update_of api e b) jail = Inr () \<longleftrightarrow> is_parent_of api jail (pe_uri e) \<and>
      (\<exists>x \<in> elems co. pe_hash api x = pe_hash api e \<and> pe_uri x = pe_uri e)"
    and "verify_delta api co (withdraw_of api e) jail = Inr () \<longleftrightarrow> is_parent_of api jail (pe_uri e) \<and>
      (\<exists>x \<in> elems co. pe_hash api x = pe_hash api e \<and> pe_uri x = pe_uri e)"
    and "verify_delta api co (publish_of e) jail = Inr () \<longleftrightarrow> is_parent_of api jail (pe_uri e) \<and>
      (\<forall>x \<in> elems co. pe_hash api x \<noteq> pe_hash api e)"
  using co_wf_get_None [OF assms, of "pe_hash api e"]
  by (simp_all add: verify_delta_def single_defs result_simps verify_ok has_match_elems [OF assms] flip: pe_hash_def)

lemma single_elems:
  assumes "co_wf api co"
  shows "elems (apply_delta api (update_of api e b) co) =
      insert \<lparr>pe_base64 = b, pe_uri = pe_uri e\<rparr> {x \<in> elems co. pe_hash api x \<noteq> pe_hash api e \<and> pe_hash api x \<noteq> to_hash api b}"
    and "elems (apply_delta api (withdraw_of api e) co) = {x \<in> elems co. pe_hash api x \<noteq> pe_hash api e}"
    and "elems (apply_delta api (publish_of e) co) = insert e {x \<in> elems co. pe_hash api x \<noteq> pe_hash api e}"
  using assms
  by (simp_all add: apply_delta_def single_defs elems_apply_update elems_apply_withdraw [where api = api] elems_apply_publish
      into_publish_def pe_hash_def)

lemma checked_iff:
  "hm_get (rc_publishers rc) p = Some co \<Longrightarrow> publish_checked api jail p d rc \<longleftrightarrow> verify_delta api co d jail = Inr ()"
  by (simp add: publish_checked_def objects_for_publisher_def ok_or_def)

text \<open>An object of the snapshot is kept by the next update unless the element at its URI takes it out.\<close>

lemma kept_at_other_uri:
  assumes ok: "staging_ok api S G st" and e: "e \<in> S" and el: "(u, el) \<in> set st" "u \<noteq> pe_uri e"
  shows "el_new el = Some x \<Longrightarrow> pe_hash api x \<noteq> pe_hash api e" and "el_removed el \<noteq> Some (pe_hash api e)"
proof -
  have "hm_get st u = Some el" using ok el(1) by (simp add: staging_ok_def hm_get_iff)
  from staging_at(2) [OF ok this] e el(2)
  show "el_new el = Some x \<Longrightarrow> pe_hash api x \<noteq> pe_hash api e" and "el_removed el \<noteq> Some (pe_hash api e)"
    by (auto simp: el_ok_def)
qed

lemma kept_by_staged:
  assumes ok: "staging_ok api (elems co) G st" and wf: "co_wf api co" and e: "e \<in> elems co"
    and w: "we_hash w \<noteq> pe_hash api e"
  shows "e \<in> elems (apply_delta api (staged_delta (hm_insert (pe_uri e) (Withdraw w) st)) co)"
proof -
  let ?st = "hm_insert (pe_uri e) (Withdraw w) st"
  have hm: "hm_ok st" using ok by (simp add: staging_ok_def)
  have in_st: "(u, el) \<in> set st \<and> u \<noteq> pe_uri e \<or> el = Withdraw w" if "(u, el) \<in> set ?st" for u el
    using that by (auto simp: set_hm_insert [OF hm])
  have new: "pe_hash api x \<noteq> pe_hash api e" if "(u, el) \<in> set ?st" "el_new el = Some x" for u el x
    using in_st [OF that(1)] kept_at_other_uri(1) [OF ok e] that(2) by auto
  have removed: "el_removed el \<noteq> Some (pe_hash api e)" if "(u, el) \<in> set ?st" for u el
    using in_st [OF that] kept_at_other_uri(2) [OF ok e] w by auto
  have "pe_hash api e \<notin> ue_hash ` set (de_updates (staged_delta ?st)) \<union> we_hash ` set (de_withdraws (staged_delta ?st))"
    unfolding staged_delta_removed using removed by blast
  then show ?thesis
    using new by (intro kept_by_delta [OF wf e]) (auto simp: staged_delta_new)
qed

text \<open>A small repository for the witnesses: one publisher with one object, which has been put into the
  snapshot of serial 2.\<close>

definition demo_object :: "(nat, nat list) publish_element" where
  "demo_object = \<lparr>pe_base64 = 10, pe_uri = [1, 1]\<rparr>"

definition demo_config :: rrdp_updates_config where
  "demo_config = \<lparr>delta_files_min_nr = 5, delta_files_min_seconds = 1200, delta_files_max_nr = 50,
     delta_files_max_seconds = 7200, delta_interval_min_seconds = 0\<rparr>"

definition demo_commands :: "(nat, nat list, nat, nat) content_command list" where
  "demo_commands = [AddPublisher ''r'' ''a'', PublishDelta ''r'' ''a'' (publish_of demo_object),
     CreateRrdpDelta ''r'' demo_config 1 0]"

definition demo_repo :: "(nat, nat list, nat, nat) repository_content" where
  "demo_repo = \<lparr>rc_revision = 3, rc_publishers = [(''a'', [(11, demo_object)])],
     rc_rrdp = \<lparr>rs_session = 0, rs_serial = 2, rs_last_update = 1,
       rs_snapshot = \<lparr>sd_random = 0, sd_objects = [(11, demo_object)]\<rparr>,
       rs_deltas = [\<lparr>dd_random = 0, dd_serial = 2, dd_time = 1, dd_elements = publish_of demo_object\<rparr>],
       rs_staged = []\<rparr>\<rparr>"

lemmas content_eval = content_step_def content_apply_def publish_def ok_or_def rbind_def Let_def
  create_rrdp_delta_def update_rrdp_needed_def update_rrdp_def find_deltas_truncate_age_def apply_rrdp_staged_def
  stage_elements_def stage_publish_def apply_rrdp_updated_def deltas_truncate_size_def with_delta_def
  snapshot_size_def delta_size_def staged_delta_def apply_delta_def apply_publish_def co_elements_def
  content_init_def rrdp_create_def rrdp_first_serial_def snapshot_create_def

lemma demo_run: "fold (content_step demo_api) demo_commands (content_init 0 0 0) = demo_repo"
  by (simp add: demo_commands_def demo_repo_def content_eval publish_of_def demo_object_def demo_config_def demo_api_def)

lemma demo_permitted:
  "permitted demo_api (\<lambda>_. [1]) (AddPublisher ''r'' ''a'') (content_init 0 0 0)"
  "permitted demo_api (\<lambda>_. [1]) (PublishDelta ''r'' ''a'' (publish_of demo_object))
     (content_step demo_api (AddPublisher ''r'' ''a'') (content_init 0 0 0))"
  by (simp_all add: content_eval publish_of_def demo_object_def demo_api_def publish_checked_def
      objects_for_publisher_def verify_delta_def delta_fresh_def delta_uris_def delta_new_elements_def used_hashes_def
      all_objects_def elems_def)

lemma demo_reachable: "content_reachable demo_api (\<lambda>_. [1]) demo_repo"
  unfolding demo_run [symmetric] demo_commands_def fold_simps
  by (intro content_reachable.intros demo_permitted) simp

section \<open>Properties\<close>

text \<open>
  C18: The RRDP snapshot is what the publishers have published: in every state that well-behaved
  commands lead to, the next update turns the staged elements into a snapshot that holds exactly
  the objects of all publishers, and when nothing is staged the present snapshot already does.\<close>

theorem snapshot_serves_publishers:
  assumes "content_reachable api base rc"
  shows "elems (sd_objects (rs_snapshot (apply_rrdp_updated api update (rc_rrdp rc)))) = all_objects rc \<and>
    (rs_staged (rc_rrdp rc) = [] \<longrightarrow> elems (sd_objects (rs_snapshot (rc_rrdp rc))) = all_objects rc)"
proof -
  note D = content_okD [OF content_reachable_ok [OF assms]]
  have "e \<in> served rc \<longleftrightarrow> e \<in> all_objects rc" if "rs_staged (rc_rrdp rc) = []" for e
    using staging_at(1) [OF D(3), of "pe_uri e" e] that by simp
  then show ?thesis using next_snapshot [OF D(2,3)] by (auto simp: updated_snapshot)
qed

theorem snapshot_serves_publishers_witness:
  "elems (sd_objects (rs_snapshot (rc_rrdp demo_repo))) = {demo_object} \<and> all_objects demo_repo = {demo_object}"
  using snapshot_serves_publishers [OF demo_reachable]
  by (simp add: demo_repo_def all_objects_def elems_def co_elements_def)



text \<open>
  C21: An object that is updated and then withdrawn before the next RRDP update stays in the snapshot
  with its old content, although both deltas are accepted and no publisher has an object at its
  URI any more.\<close>

theorem withdrawn_update_is_served:
  assumes ok: "content_reachable api base rc" and co: "hm_get (rc_publishers rc) p = Some co" and e: "e \<in> elems co"
    and st: "hm_get (rs_staged (rc_rrdp rc)) (pe_uri e) = None" and jail: "is_parent_of api (base p) (pe_uri e)"
    and b: "to_hash api b \<notin> used_hashes api (served rc) (all_objects rc) (rs_staged (rc_rrdp rc))"
    and rc1: "rc1 = content_step api (PublishDelta h p (update_of api e b)) rc"
    and rc2: "rc2 = content_step api (PublishDelta h p (withdraw_of api \<lparr>pe_base64 = b, pe_uri = pe_uri e\<rparr>)) rc1"
  shows "publish_checked api (base p) p (update_of api e b) rc \<and>
    publish_checked api (base p) p (withdraw_of api \<lparr>pe_base64 = b, pe_uri = pe_uri e\<rparr>) rc1 \<and>
    pe_uri e \<notin> pe_uri ` all_objects rc2 \<and>
    e \<in> elems (sd_objects (rs_snapshot (apply_rrdp_updated api update (rc_rrdp rc2))))"
proof -
  let ?n = "\<lparr>pe_base64 = b, pe_uri = pe_uri e\<rparr>"
  let ?w = "as_withdraw api ?n" and ?st = "rs_staged (rc_rrdp rc)"
  define co1 where "co1 = apply_delta api (update_of api e b) co"
  define co2 where "co2 = apply_delta api (withdraw_of api ?n) co1"
  note c = content_reachable_ok [OF ok]
  note po = publisher_objects [OF c co]
  have 1: "publish_checked api (base p) p (update_of api e b) rc"
    using single_verify(1) [OF po(1)] e jail by (auto simp: checked_iff [OF co])
  moreover have "delta_fresh api (update_of api e b) rc"
    using b by (simp add: delta_fresh_def single_defs into_publish_def pe_hash_def)
  ultimately have c1: "content_ok api rc1" unfolding rc1 by (intro content_step_ok [OF c, of base]) simp
  have s1: "rc1 = rc\<lparr>rc_publishers := hm_insert p co1 (rc_publishers rc),
      rc_rrdp := apply_rrdp_staged (update_of api e b) (rc_rrdp rc), rc_revision := Suc (rc_revision rc)\<rparr>"
    by (simp only: rc1 step_publish [OF co] co1_def)
  have p1: "hm_get (rc_publishers rc1) p = Some co1" by (simp add: s1 hmap_simps)
  have s2: "rc2 = rc1\<lparr>rc_publishers := hm_insert p (co2) (rc_publishers rc1),
      rc_rrdp := apply_rrdp_staged (withdraw_of api ?n) (rc_rrdp rc1), rc_revision := Suc (rc_revision rc1)\<rparr>"
    by (simp only: rc2 step_publish [OF p1] co2_def)
  note po1 = publisher_objects [OF c1 p1]
  have n1: "?n \<in> elems co1" by (simp add: co1_def single_elems(1) [OF po(1)])
  then have 2: "publish_checked api (base p) p (withdraw_of api ?n) rc1"
    using single_verify(2) [OF po1(1)] jail by (auto simp: checked_iff [OF p1])
  have co2: "elems co2 = {x \<in> elems co1. pe_hash api x \<noteq> pe_hash api ?n}"
    by (simp add: co2_def single_elems(2) [OF po1(1)])
  have wf2: "co_wf api co2" by (simp add: co2_def apply_wf po1(1))
  have "all_objects rc2 = all_objects rc1 - elems co1 \<union> elems co2"
    unfolding s2
    by (rule all_objects_publish [OF content_okD(1) [OF c1] p1 wf2]) (auto simp: co2)
  then have o: "all_objects rc2 \<subseteq> all_objects rc1" "?n \<notin> all_objects rc2"
    using n1 po1(2) by (simp_all add: co2) blast
  have "x = ?n" if "x \<in> all_objects rc1" "pe_uri x = pe_uri e" for x
    using inj_onD [OF content_okD(4) [OF c1], of x ?n] that n1 po1(2) by auto
  then have "pe_uri x \<noteq> pe_uri e" if "x \<in> all_objects rc2" for x using o that by blast
  then have 3: "pe_uri e \<notin> pe_uri ` all_objects rc2" by (metis imageE)
  have "to_hash api b \<noteq> pe_hash api e" using b e po(2) by (auto simp: used_hashes_def)
  then have w: "we_hash ?w \<noteq> pe_hash api e" by (simp add: as_withdraw_def)
  have s: "e \<in> served rc" using staging_at(1) [OF content_okD(3) [OF c] st refl] e po(2) by blast
  have "rs_staged (rc_rrdp rc2) = hm_insert (pe_uri e) (Withdraw ?w) ?st"
    using st by (simp add: s2 s1 apply_rrdp_staged_def stage_elements_def
        single_defs stage_update_def stage_withdraw_def)
  moreover have "sd_objects (rs_snapshot (rc_rrdp rc2)) = sd_objects (rs_snapshot (rc_rrdp rc))"
    by (simp add: s2 s1 apply_rrdp_staged_def)
  ultimately have "e \<in> elems (sd_objects (rs_snapshot (apply_rrdp_updated api update (rc_rrdp rc2))))"
    using kept_by_staged [OF content_okD(3,2) [OF c] s w] by (simp add: updated_snapshot)
  then show ?thesis using 1 2 3 by simp
qed

theorem withdrawn_update_is_served_witness:
  "\<exists>rc. pe_uri demo_object \<notin> pe_uri ` all_objects rc \<and>
     demo_object \<in> elems (sd_objects (rs_snapshot (apply_rrdp_updated demo_api \<lparr>ru_time = 2, ru_random = 0 :: nat, ru_deltas_truncate = 1\<rparr>
       (rc_rrdp rc))))"
proof -
  have h: "hm_get (rc_publishers demo_repo) ''a'' = Some [(11, demo_object)]" "demo_object \<in> elems [(11, demo_object)]"
    "hm_get (rs_staged (rc_rrdp demo_repo)) (pe_uri demo_object) = None" "is_parent_of demo_api [1] (pe_uri demo_object)"
    "to_hash demo_api 20 \<notin> used_hashes demo_api (served demo_repo) (all_objects demo_repo) (rs_staged (rc_rrdp demo_repo))"
    by (simp_all add: demo_repo_def elems_def co_elements_def demo_object_def demo_api_def used_hashes_def all_objects_def pe_hash_def)
  show ?thesis using withdrawn_update_is_served [OF demo_reachable h refl refl] by blast
qed

text \<open>A content that is withdrawn at one URI and published at another before the next RRDP update is
  missing from the snapshot: both deltas are accepted and the publisher has the object, but the
  delta takes objects out by their hash after it has put the new ones in.\<close>

lemma moved_content_is_lost:
  assumes ok: "content_reachable api base rc" and co: "hm_get (rc_publishers rc) p = Some co" and e: "e \<in> elems co"
    and jail: "is_parent_of api (base p) (pe_uri e)" "is_parent_of api (base p) u" and u: "u \<noteq> pe_uri e"
    and rc1: "rc1 = content_step api (PublishDelta h p (withdraw_of api e)) rc"
    and rc2: "rc2 = content_step api (PublishDelta h p (publish_of \<lparr>pe_base64 = pe_base64 e, pe_uri = u\<rparr>)) rc1"
  shows "publish_checked api (base p) p (withdraw_of api e) rc \<and>
    publish_checked api (base p) p (publish_of \<lparr>pe_base64 = pe_base64 e, pe_uri = u\<rparr>) rc1 \<and>
    \<lparr>pe_base64 = pe_base64 e, pe_uri = u\<rparr> \<in> all_objects rc2 \<and>
    \<lparr>pe_base64 = pe_base64 e, pe_uri = u\<rparr> \<notin> elems (sd_objects (rs_snapshot (apply_rrdp_updated api update (rc_rrdp rc2))))"
proof -
  let ?n = "\<lparr>pe_base64 = pe_base64 e, pe_uri = u\<rparr>"
  let ?st = "rs_staged (rc_rrdp rc)"
  define co1 where "co1 = apply_delta api (withdraw_of api e) co"
  note c = content_reachable_ok [OF ok]
  note po = publisher_objects [OF c co]
  have h: "pe_hash api ?n = pe_hash api e" by (simp add: pe_hash_def)
  have 1: "publish_checked api (base p) p (withdraw_of api e) rc"
    using single_verify(2) [OF po(1)] e jail by (auto simp: checked_iff [OF co])
  have s1: "rc1 = rc\<lparr>rc_publishers := hm_insert p co1 (rc_publishers rc),
      rc_rrdp := apply_rrdp_staged (withdraw_of api e) (rc_rrdp rc), rc_revision := Suc (rc_revision rc)\<rparr>"
    by (simp only: rc1 step_publish [OF co] co1_def)
  have p1: "hm_get (rc_publishers rc1) p = Some co1" by (simp add: s1 hmap_simps)
  have s2: "rc2 = rc1\<lparr>rc_publishers := hm_insert p (apply_delta api (publish_of ?n) co1) (rc_publishers rc1),
      rc_rrdp := apply_rrdp_staged (publish_of ?n) (rc_rrdp rc1), rc_revision := Suc (rc_revision rc1)\<rparr>"
    by (simp only: rc2 step_publish [OF p1])
  have wf1: "co_wf api co1" by (simp add: co1_def apply_wf po(1))
  have 2: "publish_checked api (base p) p (publish_of ?n) rc1"
    using single_verify(3) [OF wf1] jail by (auto simp: checked_iff [OF p1] co1_def single_elems(2) [OF po(1)] h)
  have "hm_ok (rc_publishers rc2)"
    using content_okD(1) [OF c] by (simp add: s2 s1 publishers_ok_def hm.ok_insert)
  moreover have "hm_get (rc_publishers rc2) p = Some (apply_delta api (publish_of ?n) co1)"
    by (simp add: s2 hmap_simps)
  moreover have "?n \<in> elems (apply_delta api (publish_of ?n) co1)" by (simp add: single_elems(3) [OF wf1])
  ultimately have 3: "?n \<in> all_objects rc2" using all_objects_iff by blast
  have hm: "hm_ok ?st" using content_okD(3) [OF c] by (simp add: staging_ok_def)
  let ?d = "staged_delta (rs_staged (rc_rrdp rc2))"
  have "(pe_uri e, Withdraw (as_withdraw api e)) \<in> set (rs_staged (rc_rrdp rc2))"
    using u hm by (simp add: s2 s1 apply_rrdp_staged_def stage_elements_def
        single_defs stage_publish_def stage_withdraw_def set_hm_insert hm.ok_insert hmap_simps)
  then have "we_hash (as_withdraw api e) \<in> we_hash ` set (de_withdraws ?d)"
    using staged_delta_withdraws by (intro imageI) fast
  then have "pe_hash api ?n \<in> we_hash ` set (de_withdraws ?d)" by (simp add: h) (simp add: as_withdraw_def pe_hash_def)
  moreover have "sd_objects (rs_snapshot (rc_rrdp rc2)) = sd_objects (rs_snapshot (rc_rrdp rc))"
    by (simp add: s2 s1 apply_rrdp_staged_def)
  ultimately have "?n \<notin> elems (sd_objects (rs_snapshot (apply_rrdp_updated api update (rc_rrdp rc2))))"
    using content_okD(2) [OF c]
    by (simp add: updated_snapshot apply_delta_def elems_fold_withdraw [where api = api] apply_wf)
  then show ?thesis using 1 2 3 by simp
qed

end
