(* ===== verification/AggStore.thy ===== *)
theory AggStore
  imports KeyValue
begin

text \<open>
  The store of event-sourced aggregates, \<^verbatim>\<open>commons/eventsourcing/store.rs\<close> with the commands and
  events of \<^verbatim>\<open>cmd.rs\<close>, \<^verbatim>\<open>evt.rs\<close> and the history criteria of \<^verbatim>\<open>api/history.rs\<close>. A type that
  implements the trait of an aggregate is a record of its functions, \<open>agg_trait\<close>. The store is the
  key-value store, the cache of instances, and the log of what was sent to the listeners that are
  informed after events have been saved. Every operation holds the lock of its handle and is one
  step. The readings of the clock and the random part of temporary file names are arguments; the
  files that one operation replaces differ, and so do their temporary names.

  The loop that replays events reads a new event file in every round. It is modelled with fuel,
  one more than there are files; \<open>Diverged\<close> stands for running out of it and is excluded by the
  lemmas on replaying.
\<close>

section \<open>Command keys and history criteria\<close>

record command_key =
  ck_sequence :: nat
  ck_timestamp_secs :: int
  ck_label :: string

definition ck_show :: "command_key \<Rightarrow> string" where
  "ck_show k = ''command--'' @ show_int (ck_timestamp_secs k) @ ''--'' @ show_nat (ck_sequence k)
     @ ''--'' @ ck_label k"

definition ck_from_str :: "string \<Rightarrow> command_key option" where
  "ck_from_str s =
     (case split_str ''--'' s of
        [p0, p1, p2, p3] \<Rightarrow>
          if p0 \<noteq> ''command'' then None
          else (case parse_sint 64 p1 of
                  None \<Rightarrow> None
                | Some t \<Rightarrow>
                    (case parse_uint 64 p2 of
                       None \<Rightarrow> None
                     | Some n \<Rightarrow>
                         let last = (if ends_with ''.json'' p3 then length p3 - 5 else length p3)
                         in Some \<lparr> ck_sequence = n, ck_timestamp_secs = t, ck_label = take last p3 \<rparr>))
      | _ \<Rightarrow> None)"

record criteria =
  cr_before :: "int option"
  cr_after :: "int option"
  cr_after_sequence :: "nat option"
  cr_includes :: "string list option"
  cr_excludes :: "string list option"
  cr_offset :: nat
  cr_rows_limit :: "nat option"

definition criteria_default :: criteria where
  "criteria_default = \<lparr> cr_before = None, cr_after = None, cr_after_sequence = None,
     cr_includes = None, cr_excludes = None, cr_offset = 0, cr_rows_limit = Some 100 \<rparr>"

definition matches_timestamp_secs :: "criteria \<Rightarrow> int \<Rightarrow> bool" where
  "matches_timestamp_secs crit stamp \<longleftrightarrow>
     (case cr_before crit of None \<Rightarrow> True | Some b \<Rightarrow> \<not> stamp > b) \<and>
     (case cr_after crit of None \<Rightarrow> True | Some a \<Rightarrow> \<not> stamp < a)"

definition matches_sequence :: "criteria \<Rightarrow> nat \<Rightarrow> bool" where
  "matches_sequence crit sequence =
     (case cr_after_sequence crit of None \<Rightarrow> True | Some s \<Rightarrow> sequence > s)"

definition matches_label :: "criteria \<Rightarrow> string \<Rightarrow> bool" where
  "matches_label crit label \<longleftrightarrow>
     (case cr_includes crit of None \<Rightarrow> True | Some ls \<Rightarrow> label \<in> set ls) \<and>
     (case cr_excludes crit of None \<Rightarrow> True | Some ls \<Rightarrow> label \<notin> set ls)"

definition matches_crit :: "criteria \<Rightarrow> command_key \<Rightarrow> bool" where
  "matches_crit crit k \<longleftrightarrow>
     matches_timestamp_secs crit (ck_timestamp_secs k) \<and> matches_label crit (ck_label k) \<and>
     matches_sequence crit (ck_sequence k)"

section \<open>The trait and the stored values\<close>

datatype stored_effect = EffectError string | EffectSuccess "nat list"

record 'd stored_command =
  sc_actor :: string
  sc_time :: int
  sc_handle :: string
  sc_version :: nat
  sc_sequence :: nat
  sc_details :: 'd
  sc_effect :: stored_effect

record stored_value_info =
  snapshot_version :: nat
  last_event :: nat
  last_command :: nat
  last_update :: int

definition info_default :: "int \<Rightarrow> stored_value_info" where
  "info_default now = \<lparr> snapshot_version = 0, last_event = 0, last_command = 0, last_update = now \<rparr>"

datatype agg_error =
    KeyStore kv_error
  | UnknownAggregate string
  | InitError string
  | ReplayError string nat nat
  | InfoMissing string
  | InfoCorrupt string
  | WrongEventForAggregate string string nat nat
  | ConcurrentModification string
  | WarmupFailed string agg_error
  | CouldNotRecover string
  | CommandCorrupt string command_key
  | CommandNotFound string command_key
  | EventCorrupt string nat
  | Diverged

text \<open>\<open>'a\<close> is the aggregate, \<open>'i\<close> its init event, \<open>'v\<close> its events, \<open>'c\<close> its commands, \<open>'d\<close> their
  storable details, \<open>'e\<close> its errors and \<open>'j\<close> the documents of the JSON library.\<close>

record ('a, 'i, 'v, 'c, 'd, 'e, 'j) agg_trait =
  ag_init :: "'i \<Rightarrow> 'e + 'a"
  ag_version :: "'a \<Rightarrow> nat"
  ag_apply :: "'v \<Rightarrow> 'a \<Rightarrow> 'a"
  ag_process :: "'c \<Rightarrow> 'a \<Rightarrow> 'e + 'v list"
  ev_handle :: "'v \<Rightarrow> string"
  ev_version :: "'v \<Rightarrow> nat"
  init_handle :: "'i \<Rightarrow> string"
  init_version :: "'i \<Rightarrow> nat"
  cmd_handle :: "'c \<Rightarrow> string"
  cmd_version :: "'c \<Rightarrow> nat option"
  cmd_actor :: "'c \<Rightarrow> string"
  cmd_store :: "'c \<Rightarrow> 'd"
  details_label :: "'d \<Rightarrow> string"
  err_show :: "'e \<Rightarrow> string"
  from_store_err :: "agg_error \<Rightarrow> 'e"
  agg_is_handle :: "string \<Rightarrow> bool"
  pre_save :: "('a \<Rightarrow> 'v list \<Rightarrow> 'e option) list"
  agg_codec :: "('a, 'j) codec"
  init_codec :: "('i, 'j) codec"
  ev_codec :: "('v, 'j) codec"
  cmd_codec :: "('d stored_command, 'j) codec"
  info_codec :: "(stored_value_info, 'j) codec"

record ('a, 'v, 'j) agg_store =
  as_kv :: "'j kv_store"
  as_cache :: "(string, 'a) hmap"
  as_posted :: "('a \<times> 'v list) list"

text \<open>A command fails with an error of the aggregate, or the process exits.\<close>

datatype 'e command_failure = Failed 'e | Exited

definition u64_pred :: "nat \<Rightarrow> nat" where
  "u64_pred n = (if n = 0 then 2 ^ 64 - 1 else n - 1)"

section \<open>Keys\<close>

definition key_for_info :: "string \<Rightarrow> key_store_key" where
  "key_for_info h = ks_scoped h ''info.json''"

definition key_for_snapshot :: "string \<Rightarrow> key_store_key" where
  "key_for_snapshot h = ks_scoped h ''snapshot.json''"

definition key_for_backup_snapshot :: "string \<Rightarrow> key_store_key" where
  "key_for_backup_snapshot h = ks_scoped h ''snapshot-bk.json''"

definition key_for_new_snapshot :: "string \<Rightarrow> key_store_key" where
  "key_for_new_snapshot h = ks_scoped h ''snapshot-new.json''"

definition key_for_event :: "string \<Rightarrow> nat \<Rightarrow> key_store_key" where
  "key_for_event h v = ks_scoped h (''delta-'' @ show_nat v @ ''.json'')"

definition key_for_command :: "string \<Rightarrow> command_key \<Rightarrow> key_store_key" where
  "key_for_command h k = ks_scoped h (ck_show k @ ''.json'')"

definition key_for_stored ::
  "('a, 'i, 'v, 'c, 'd, 'e, 'j) agg_trait \<Rightarrow> 'd stored_command \<Rightarrow> command_key" where
  "key_for_stored A c =
     \<lparr> ck_sequence = sc_sequence c, ck_timestamp_secs = sc_time c,
       ck_label = details_label A (sc_details c) \<rparr>"

section \<open>Values in the key-value store\<close>

definition command_keys_ascending ::
  "'j kv_store \<Rightarrow> string \<Rightarrow> criteria \<Rightarrow> agg_error + command_key list" where
  "command_keys_ascending kv h crit =
     (case kv_keys kv (Some h) ''command--'' of
        Inl e \<Rightarrow> Inl (KeyStore e)
      | Inr ks \<Rightarrow>
          Inr (sort_key ck_sequence
                (filter (matches_crit crit) (List.map_filter (ck_from_str \<circ> ks_name) ks))))"

definition event_name_version :: "string \<Rightarrow> nat option" where
  "event_name_version name =
     (if starts_with ''delta-'' name \<and> ends_with ''.json'' name \<and> length name - 5 > 6
      then parse_uint 64 (take (length name - 5 - 6) (drop 6 name)) else None)"

definition archive_surplus_event ::
  "string \<Rightarrow> nat \<Rightarrow> key_store_key \<Rightarrow> ('j kv_store, agg_error, unit) st" where
  "archive_surplus_event h from k kv =
     (case event_name_version (ks_name k) of
        None \<Rightarrow> (Inr (), kv)
      | Some v \<Rightarrow>
          if v \<ge> from then st_err KeyStore (archive_surplus (key_for_event h v)) kv
          else (Inr (), kv))"

definition archive_surplus_events :: "string \<Rightarrow> nat \<Rightarrow> ('j kv_store, agg_error, unit) st" where
  "archive_surplus_events h from kv =
     (case kv_keys kv (Some h) ''delta-'' of
        Inl e \<Rightarrow> (Inl (KeyStore e), kv)
      | Inr ks \<Rightarrow> st_for (archive_surplus_event h from) ks kv)"

definition archive_surplus_command ::
  "string \<Rightarrow> command_key \<Rightarrow> ('j kv_store, agg_error, unit) st" where
  "archive_surplus_command h k = st_err KeyStore (archive_surplus (key_for_command h k))"

definition store_event ::
  "('a, 'i, 'v, 'c, 'd, 'e, 'j) agg_trait \<Rightarrow> 'v \<Rightarrow> ('j kv_store, agg_error, unit) st" where
  "store_event A e =
     st_err KeyStore (kv_store_new (ev_codec A) (key_for_event (ev_handle A e) (ev_version A e)) e)"

definition store_init_event ::
  "('a, 'i, 'v, 'c, 'd, 'e, 'j) agg_trait \<Rightarrow> 'i \<Rightarrow> ('j kv_store, agg_error, unit) st" where
  "store_init_event A i =
     st_err KeyStore
       (kv_store_new (init_codec A) (key_for_event (init_handle A i) (init_version A i)) i)"

definition store_command ::
  "('a, 'i, 'v, 'c, 'd, 'e, 'j) agg_trait \<Rightarrow> 'd stored_command \<Rightarrow>
   ('j kv_store, agg_error, unit) st" where
  "store_command A c =
     st_err KeyStore
       (kv_store_new (cmd_codec A) (key_for_command (sc_handle c) (key_for_stored A c)) c)"

definition get_info ::
  "('a, 'i, 'v, 'c, 'd, 'e, 'j) agg_trait \<Rightarrow> 'j kv_store \<Rightarrow> string \<Rightarrow>
   agg_error + stored_value_info" where
  "get_info A kv h =
     (case kv_get (info_codec A) kv (key_for_info h) of
        Inl e \<Rightarrow> Inl (InfoCorrupt h)
      | Inr None \<Rightarrow> Inl (InfoMissing h)
      | Inr (Some i) \<Rightarrow> Inr i)"

definition save_info ::
  "('a, 'i, 'v, 'c, 'd, 'e, 'j) agg_trait \<Rightarrow> string \<Rightarrow> string \<Rightarrow> stored_value_info \<Rightarrow>
   ('j kv_store, agg_error, unit) st" where
  "save_info A rnd h i = st_err KeyStore (kv_store_val rnd (info_codec A) (key_for_info h) i)"

definition get_command ::
  "('a, 'i, 'v, 'c, 'd, 'e, 'j) agg_trait \<Rightarrow> string \<Rightarrow> command_key \<Rightarrow>
   ('j kv_store, agg_error, 'd stored_command) st" where
  "get_command A h k kv =
     (let key = key_for_command h k in
      case kv_get (cmd_codec A) kv key of
        Inr (Some c) \<Rightarrow> (Inr c, kv)
      | Inr None \<Rightarrow> (Inl (CommandNotFound h k), kv)
      | Inl e \<Rightarrow>
          st_bind (st_err KeyStore (archive_corrupt key)) (\<lambda>_. st_fail (CommandCorrupt h k)) kv)"

definition get_event ::
  "('a, 'i, 'v, 'c, 'd, 'e, 'j) agg_trait \<Rightarrow> string \<Rightarrow> nat \<Rightarrow> ('j kv_store, agg_error, 'v option) st" where
  "get_event A h v kv =
     (let key = key_for_event h v in
      case kv_get (ev_codec A) kv key of
        Inr r \<Rightarrow> (Inr r, kv)
      | Inl e \<Rightarrow>
          st_bind (st_err KeyStore (archive_corrupt key)) (\<lambda>_. st_fail (EventCorrupt h v)) kv)"

section \<open>Loading an aggregate\<close>

fun update_aggregate ::
  "nat \<Rightarrow> ('a, 'i, 'v, 'c, 'd, 'e, 'j) agg_trait \<Rightarrow> string \<Rightarrow> nat option \<Rightarrow> 'a \<Rightarrow> ('j kv_store, agg_error, 'a) st" where
  "update_aggregate 0 A h limit a kv = (Inl Diverged, kv)"
| "update_aggregate (Suc n) A h limit a kv =
     (let version = ag_version A a in
      if limit = Some (u64_pred version) then (Inr a, kv)
      else case get_event A h version kv of
             (Inl e, kv') \<Rightarrow> (Inl e, kv')
           | (Inr None, kv') \<Rightarrow> (Inr a, kv')
           | (Inr (Some e), kv') \<Rightarrow>
               if version \<noteq> ev_version A e then (Inl (ReplayError h version (ev_version A e)), kv')
               else update_aggregate n A h limit (ag_apply A e a) kv')"

text \<open>The two blocks of \<^verbatim>\<open>get_aggregate\<close> that try a snapshot, and the one that starts from the init event.\<close>

definition try_snapshot ::
  "('a, 'i, 'v, 'c, 'd, 'e, 'j) agg_trait \<Rightarrow> key_store_key \<Rightarrow> nat option \<Rightarrow> ('j kv_store, agg_error, 'a option) st" where
  "try_snapshot A k limit kv =
     (case kv_get (agg_codec A) kv k of
        Inl _ \<Rightarrow> st_bind (st_err KeyStore (archive_corrupt k)) (\<lambda>_. st_ok None) kv
      | Inr None \<Rightarrow> (Inr None, kv)
      | Inr (Some a) \<Rightarrow>
          (case limit of
             None \<Rightarrow> (Inr (Some a), kv)
           | Some l \<Rightarrow>
               if l \<ge> u64_pred (ag_version A a) then (Inr (Some a), kv)
               else st_bind (st_err KeyStore (archive_surplus k)) (\<lambda>_. st_ok None) kv))"

definition from_init ::
  "('a, 'i, 'v, 'c, 'd, 'e, 'j) agg_trait \<Rightarrow> string \<Rightarrow> ('j kv_store, agg_error, 'a option) st" where
  "from_init A h kv =
     (case kv_get (init_codec A) kv (key_for_event h 0) of
        Inl e \<Rightarrow> (Inl (KeyStore e), kv)
      | Inr None \<Rightarrow> (Inr None, kv)
      | Inr (Some i) \<Rightarrow> (case ag_init A i of Inl _ \<Rightarrow> (Inl (InitError h), kv) | Inr a \<Rightarrow> (Inr (Some a), kv)))"

definition get_aggregate ::
  "('a, 'i, 'v, 'c, 'd, 'e, 'j) agg_trait \<Rightarrow> string \<Rightarrow> nat option \<Rightarrow> ('j kv_store, agg_error, 'a option) st" where
  "get_aggregate A h limit =
     st_bind (try_snapshot A (key_for_snapshot h) limit) (\<lambda>x.
     st_bind (if x = None then try_snapshot A (key_for_backup_snapshot h) limit else st_ok x) (\<lambda>x.
     st_bind (if x = None then from_init A h else st_ok x) (\<lambda>x kv.
       case x of
         None \<Rightarrow> (Inr None, kv)
       | Some a \<Rightarrow>
           st_bind (update_aggregate (Suc (length (kv_files kv))) A h limit a) (\<lambda>a. st_ok (Some a)) kv)))"

definition store_snapshot ::
  "('a, 'i, 'v, 'c, 'd, 'e, 'j) agg_trait \<Rightarrow> string \<Rightarrow> string \<Rightarrow> 'a \<Rightarrow> ('j kv_store, agg_error, unit) st" where
  "store_snapshot A rnd h a =
     (let new = key_for_new_snapshot h; current = key_for_snapshot h; backup = key_for_backup_snapshot h in
      st_err KeyStore
        (st_bind (kv_store_val rnd (agg_codec A) new a) (\<lambda>_.
         st_bind (\<lambda>kv. if kv_has kv backup then drop_key backup kv else (Inr (), kv)) (\<lambda>_.
         st_bind (\<lambda>kv. if kv_has kv current then move_key current backup kv else (Inr (), kv)) (\<lambda>_.
         move_key new current)))))"

section \<open>Operations of the store\<close>

definition on_kv :: "('j kv_store, agg_error, 'x) st \<Rightarrow> (('a, 'v, 'j) agg_store, agg_error, 'x) st" where
  "on_kv = st_zoom as_kv (\<lambda>kv st. st\<lparr>as_kv := kv\<rparr>)"

definition cache_update :: "string \<Rightarrow> 'a \<Rightarrow> ('a, 'v, 'j) agg_store \<Rightarrow> ('a, 'v, 'j) agg_store" where
  "cache_update h a st = st\<lparr>as_cache := hm_insert h a (as_cache st)\<rparr>"

definition get_latest ::
  "('a, 'i, 'v, 'c, 'd, 'e, 'j) agg_trait \<Rightarrow> string \<Rightarrow> (('a, 'v, 'j) agg_store, agg_error, 'a) st" where
  "get_latest A h st =
     (case hm_get (as_cache st) h of
        None \<Rightarrow>
          (case on_kv (get_aggregate A h None) st of
             (Inl e, st') \<Rightarrow> (Inl e, st')
           | (Inr None, st') \<Rightarrow> (Inl (UnknownAggregate h), st')
           | (Inr (Some a), st') \<Rightarrow> (Inr a, cache_update h a st'))
      | Some a \<Rightarrow>
          (case on_kv (get_event A h (ag_version A a)) st of
             (Inl e, st') \<Rightarrow> (Inl e, st')
           | (Inr None, st') \<Rightarrow> (Inr a, st')
           | (Inr (Some _), st') \<Rightarrow>
               on_kv (update_aggregate (Suc (length (kv_files (as_kv st')))) A h None a) st'))"

definition agg_add ::
  "('a, 'i, 'v, 'c, 'd, 'e, 'j) agg_trait \<Rightarrow> int \<Rightarrow> string \<Rightarrow> 'i \<Rightarrow> (('a, 'v, 'j) agg_store, agg_error, 'a) st" where
  "agg_add A now rnd i =
     (let h = init_handle A i in
      st_bind (on_kv (store_init_event A i)) (\<lambda>_.
        case ag_init A i of
          Inl _ \<Rightarrow> st_fail (InitError h)
        | Inr a \<Rightarrow>
            st_bind (on_kv (store_snapshot A rnd h a)) (\<lambda>_.
            st_bind (on_kv (save_info A rnd h (info_default now))) (\<lambda>_ st.
              (Inr a, cache_update h a st)))))"

definition wrong_event ::
  "('a, 'i, 'v, 'c, 'd, 'e, 'j) agg_trait \<Rightarrow> string \<Rightarrow> nat \<Rightarrow> 'v list \<Rightarrow> agg_error option" where
  "wrong_event A h before events =
     map_option (\<lambda>(v, e). WrongEventForAggregate h (ev_handle A e) v (ev_version A e))
       (find (\<lambda>(v, e). ev_version A e \<noteq> v \<or> ev_handle A e \<noteq> h) (zip [before..<before + length events] events))"

definition pre_save_error ::
  "('a, 'i, 'v, 'c, 'd, 'e, 'j) agg_trait \<Rightarrow> 'a \<Rightarrow> 'v list \<Rightarrow> 'e option" where
  "pre_save_error A a events =
     (case List.map_filter (\<lambda>l. l a events) (pre_save A) of [] \<Rightarrow> None | e # _ \<Rightarrow> Some e)"

text \<open>The part of \<^verbatim>\<open>command\<close> that saves events.  When the command cannot be stored the process exits.\<close>

definition save_events ::
  "('a, 'i, 'v, 'c, 'd, 'e, 'j) agg_trait \<Rightarrow> string \<Rightarrow> string \<Rightarrow> stored_value_info \<Rightarrow>
   (stored_effect \<Rightarrow> 'd stored_command) \<Rightarrow> 'a \<Rightarrow> 'v list \<Rightarrow> (('a, 'v, 'j) agg_store, 'e command_failure, 'a) st" where
  "save_events A rnd h info stored latest events st =
     (let before = ag_version A latest in
      case wrong_event A h before events of
        Some e \<Rightarrow> (Inl (Failed (from_store_err A e)), st)
      | None \<Rightarrow>
          (case on_kv (store_command A (stored (EffectSuccess (map (ev_version A) events)))) st of
             (Inl _, st1) \<Rightarrow> (Inl Exited, st1)
           | (Inr _, st1) \<Rightarrow>
               let agg = fold (ag_apply A) events latest in
               case pre_save_error A agg events of
                 Some e \<Rightarrow> (Inl (Failed e), st1)
               | None \<Rightarrow>
                   (case on_kv (st_bind (st_for (store_event A) events) (\<lambda>_. store_snapshot A rnd h agg)) st1 of
                      (Inl e, st2) \<Rightarrow> (Inl (Failed (from_store_err A e)), st2)
                    | (Inr _, st2) \<Rightarrow>
                        (case on_kv (save_info A rnd h (info\<lparr>last_event := before + length events - 1,
                                snapshot_version := ag_version A agg\<rparr>)) (cache_update h agg st2) of
                           (Inl e, st3) \<Rightarrow> (Inl (Failed (from_store_err A e)), st3)
                         | (Inr _, st3) \<Rightarrow> (Inr agg, st3\<lparr>as_posted := as_posted st3 @ [(agg, events)]\<rparr>)))))"

definition agg_command ::
  "('a, 'i, 'v, 'c, 'd, 'e, 'j) agg_trait \<Rightarrow> int \<Rightarrow> int \<Rightarrow> string \<Rightarrow> 'c \<Rightarrow>
   (('a, 'v, 'j) agg_store, 'e command_failure, 'a) st" where
  "agg_command A now made rnd cmd st =
     (let h = cmd_handle A cmd; store_error = (\<lambda>e. Failed (from_store_err A e)) in
      case get_info A (as_kv st) h of
        Inl e \<Rightarrow> (Inl (store_error e), st)
      | Inr info0 \<Rightarrow>
          let info = info0\<lparr>last_update := now, last_command := Suc (last_command info0)\<rparr> in
          case get_latest A h st of
            (Inl e, st1) \<Rightarrow> (Inl (store_error e), st1)
          | (Inr latest, st1) \<Rightarrow>
              if (case cmd_version A cmd of None \<Rightarrow> False | Some v \<Rightarrow> v \<noteq> ag_version A latest)
              then (Inl (store_error (ConcurrentModification h)), st1)
              else
                let stored = (\<lambda>effect. \<lparr>sc_actor = cmd_actor A cmd, sc_time = made, sc_handle = h,
                      sc_version = ag_version A latest, sc_sequence = last_command info,
                      sc_details = cmd_store A cmd, sc_effect = effect\<rparr>)
                in case ag_process A cmd latest of
                     Inl e \<Rightarrow>
                       (case on_kv (st_bind (store_command A (stored (EffectError (err_show A e))))
                               (\<lambda>_. save_info A rnd h info)) st1 of
                          (Inl x, st2) \<Rightarrow> (Inl (store_error x), st2)
                        | (Inr _, st2) \<Rightarrow> (Inl (Failed e), st2))
                   | Inr [] \<Rightarrow> (Inr latest, st1)
                   | Inr (v # vs) \<Rightarrow> save_events A rnd h info stored latest (v # vs) st1)"

definition agg_has :: "('a, 'v, 'j) agg_store \<Rightarrow> string \<Rightarrow> bool" where
  "agg_has st h = has_scope (as_kv st) h"

definition agg_list ::
  "('a, 'i, 'v, 'c, 'd, 'e, 'j) agg_trait \<Rightarrow> ('a, 'v, 'j) agg_store \<Rightarrow> string list" where
  "agg_list A st = filter (agg_is_handle A) (scopes (as_kv st))"

definition drop_aggregate :: "string \<Rightarrow> (('a, 'v, 'j) agg_store, agg_error, unit) st" where
  "drop_aggregate h st =
     on_kv (st_err KeyStore (drop_scope h)) (st\<lparr>as_cache := hm_remove h (as_cache st)\<rparr>)"

text \<open>\<^verbatim>\<open>command_history\<close>: the offset, the number of all commands that match, and the commands of the
  page.\<close>

fun read_commands ::
  "('a, 'i, 'v, 'c, 'd, 'e, 'j) agg_trait \<Rightarrow> 'j kv_store \<Rightarrow> string \<Rightarrow> command_key list \<Rightarrow> agg_error + 'd stored_command list" where
  "read_commands A kv h [] = Inr []"
| "read_commands A kv h (k # ks) =
     (case kv_get (cmd_codec A) kv (key_for_command h k) of
        Inl e \<Rightarrow> Inl (KeyStore e)
      | Inr None \<Rightarrow> Inl (CommandNotFound h k)
      | Inr (Some c) \<Rightarrow> rbind (read_commands A kv h ks) (\<lambda>cs. Inr (c # cs)))"

definition command_history ::
  "('a, 'i, 'v, 'c, 'd, 'e, 'j) agg_trait \<Rightarrow> 'j kv_store \<Rightarrow> string \<Rightarrow> criteria
   \<Rightarrow> agg_error + nat \<times> nat \<times> 'd stored_command list" where
  "command_history A kv h crit =
     rbind (command_keys_ascending kv h crit) (\<lambda>ks.
       let rows = (case cr_rows_limit crit of None \<Rightarrow> length ks | Some l \<Rightarrow> l)
       in rbind (read_commands A kv h (take rows (drop (cr_offset crit) ks)))
            (\<lambda>cs. Inr (cr_offset crit, length ks, cs)))"

section \<open>Starting up\<close>

definition warm_aggregate ::
  "('a, 'i, 'v, 'c, 'd, 'e, 'j) agg_trait \<Rightarrow> string \<Rightarrow> string \<Rightarrow> (('a, 'v, 'j) agg_store, agg_error, unit) st" where
  "warm_aggregate A rnd h =
     st_bind (st_err (WarmupFailed h) (get_latest A h)) (\<lambda>agg.
     st_bind (\<lambda>st. (get_info A (as_kv st) h, st)) (\<lambda>info.
     st_bind (on_kv (get_event A h (Suc (last_event info)))) (\<lambda>surplus.
     st_bind (if surplus = None then st_ok () else on_kv (archive_surplus_events h (Suc (last_event info)))) (\<lambda>_.
     st_bind (\<lambda>st. (command_keys_ascending (as_kv st) h (criteria_default\<lparr>cr_after_sequence := Some (last_command info)\<rparr>), st)) (\<lambda>ks.
     st_bind (on_kv (st_for (archive_surplus_command h) ks)) (\<lambda>_.
       if snapshot_version info \<noteq> ag_version A agg then on_kv (store_snapshot A rnd h agg) else st_ok ()))))))"

definition agg_warm ::
  "('a, 'i, 'v, 'c, 'd, 'e, 'j) agg_trait \<Rightarrow> string \<Rightarrow> (('a, 'v, 'j) agg_store, agg_error, unit) st" where
  "agg_warm A rnd st = st_for (warm_aggregate A rnd) (agg_list A st) st"

text \<open>\<^verbatim>\<open>recover\<close>: the progress of the check of all commands and their events.\<close>

record progress =
  pr_ok :: bool
  pr_cmd :: nat
  pr_evt :: nat
  pr_update :: int

fun check_events ::
  "('a, 'i, 'v, 'c, 'd, 'e, 'j) agg_trait \<Rightarrow> string \<Rightarrow> nat list \<Rightarrow> progress \<Rightarrow> 'j kv_store \<Rightarrow> progress \<times> 'j kv_store" where
  "check_events A h [] p kv = (p, kv)"
| "check_events A h (v # vs) p kv =
     (case get_event A h v kv of
        (Inr (Some _), kv') \<Rightarrow> check_events A h vs (p\<lparr>pr_evt := v\<rparr>) kv'
      | (_, kv') \<Rightarrow> check_events A h vs (p\<lparr>pr_ok := False\<rparr>) kv')"

fun check_commands ::
  "('a, 'i, 'v, 'c, 'd, 'e, 'j) agg_trait \<Rightarrow> string \<Rightarrow> command_key list \<Rightarrow> progress \<Rightarrow> ('j kv_store, agg_error, progress) st" where
  "check_commands A h [] p kv = (Inr p, kv)"
| "check_commands A h (k # ks) p kv =
     (let (p1, kv1) =
        (if \<not> pr_ok p then (p, kv)
         else case get_command A h k kv of
                (Inl _, kv') \<Rightarrow> (p\<lparr>pr_ok := False\<rparr>, kv')
              | (Inr c, kv') \<Rightarrow>
                  let (q, kv'') = (case sc_effect c of
                        EffectError _ \<Rightarrow> (p, kv') | EffectSuccess vs \<Rightarrow> check_events A h vs p kv')
                  in (q\<lparr>pr_cmd := sc_sequence c, pr_update := sc_time c\<rparr>, kv''))
      in if pr_ok p1 then check_commands A h ks p1 kv1
         else (case archive_surplus_command h k kv1 of
                 (Inl e, kv2) \<Rightarrow> (Inl e, kv2)
               | (Inr _, kv2) \<Rightarrow> check_commands A h ks p1 kv2))"

definition recover_aggregate ::
  "('a, 'i, 'v, 'c, 'd, 'e, 'j) agg_trait \<Rightarrow> int \<Rightarrow> string \<Rightarrow> string \<Rightarrow> (('a, 'v, 'j) agg_store, agg_error, unit) st" where
  "recover_aggregate A now rnd h =
     st_bind (\<lambda>st. (command_keys_ascending (as_kv st) h criteria_default, st)) (\<lambda>ks.
     st_bind (on_kv (check_commands A h ks \<lparr>pr_ok = True, pr_cmd = 0, pr_evt = 0, pr_update = now\<rparr>)) (\<lambda>p.
     st_bind (on_kv (archive_surplus_events h (Suc (pr_evt p)))) (\<lambda>_.
     st_bind (on_kv (get_aggregate A h (Some (pr_evt p)))) (\<lambda>x.
       case x of
         None \<Rightarrow> st_fail (CouldNotRecover h)
       | Some agg \<Rightarrow>
           st_bind (on_kv (store_snapshot A rnd h agg)) (\<lambda>_.
           st_bind (\<lambda>st. (Inr (), cache_update h agg st)) (\<lambda>_.
             on_kv (save_info A rnd h \<lparr>snapshot_version = ag_version A agg, last_event = pr_evt p,
               last_command = pr_cmd p, last_update = pr_update p\<rparr>)))))))"

definition agg_recover ::
  "('a, 'i, 'v, 'c, 'd, 'e, 'j) agg_trait \<Rightarrow> (string \<Rightarrow> int) \<Rightarrow> string \<Rightarrow> (('a, 'v, 'j) agg_store, agg_error, unit) st" where
  "agg_recover A now rnd st = st_for (\<lambda>h. recover_aggregate A (now h) rnd h) (agg_list A st) st"

end
