(* ===== verification/AggStoreProps.thy ===== *)
theory AggStoreProps
  imports AggStore
begin

text \<open>
  Correctness of the store of aggregates. \<open>dir_of\<close> is what the directory of one handle holds, as a
  map from file names; every operation of the key-value store is an update of that map. The
  invariant \<open>agg_ok\<close> relates the directory and the cache to the list of events that were accepted.
\<close>

section \<open>The directory of a handle\<close>

definition dir_of :: "'j kv_store \<Rightarrow> string \<Rightarrow> string \<Rightarrow> 'j content option" where
  "dir_of kv h n = kv_at kv (h @ CHR ''/'' # n)"

definition kv_good :: "'j kv_store \<Rightarrow> string \<Rightarrow> bool" where
  "kv_good kv h \<longleftrightarrow> kv_reliable kv \<and> h \<in> set (kv_dirs kv)"

lemma dirs_prims [simp]:
  "kv_dirs (write_file p c kv) = kv_dirs kv"
  "kv_dirs (remove_file p kv) = kv_dirs kv"
  "kv_dirs (rename_file p q kv) = kv_dirs kv"
  by (simp_all add: write_file_def remove_file_def rename_file_def split: option.split)

lemma dirs_create [simp]: "d \<in> set (kv_dirs kv) \<Longrightarrow> d \<in> set (kv_dirs (create_dir_all s kv))"
  by (simp add: create_dir_all_def split: option.split)

lemma dirs_created: "h \<in> set (kv_dirs (create_dir_all (Some h) kv))"
proof -
  have "h \<in> set (dir_prefixes acc t)" if "acc @ t = h" for acc t
    using that by (induction acc t rule: dir_prefixes.induct) auto
  then show ?thesis by (auto simp: create_dir_all_def)
qed

lemma ks_scoped_sel [simp]: "ks_scope (ks_scoped h n) = Some h" "ks_name (ks_scoped h n) = n"
  by (simp_all add: ks_scoped_def)

lemma swap_scoped: "swap_file_path rnd (ks_scoped h n) = h @ CHR ''/'' # n @ ''-tmp-'' @ rnd"
  by (simp add: swap_file_path_def file_path_def ks_scoped_def)

lemma kv_goodD: "kv_good kv h \<Longrightarrow> kv_reliable kv"
  by (simp add: kv_good_def)

lemmas dir_simps = dir_of_def kv_good_def kv_simps swap_scoped fun_eq_iff

lemma get_dir:
  "kv_good kv h \<Longrightarrow> kv_get cd kv (ks_scoped h n) =
     (case dir_of kv h n of
        None \<Rightarrow> Inr None
      | Some Truncated \<Rightarrow> Inl JsonError
      | Some (Complete j) \<Rightarrow> (case dec cd j of None \<Rightarrow> Inl JsonError | Some v \<Rightarrow> Inr (Some v)))"
  by (simp add: kv_get_alt [OF kv_goodD] dir_of_def file_path_scoped)

lemma store_val_dir:
  assumes "kv_good kv h"
  shows "\<exists>kv'. kv_store_val rnd cd (ks_scoped h n) v kv = (Inr (), kv') \<and> kv_good kv' h \<and>
    dir_of kv' h = (dir_of kv h)(n @ ''-tmp-'' @ rnd := None, n \<mapsto> Complete (enc cd v))"
  using assms by (simp add: dir_simps)

lemma store_new_dir:
  assumes "kv_reliable kv" "dir_of kv h n = None"
  shows "\<exists>kv'. kv_store_new cd (ks_scoped h n) v kv = (Inr (), kv') \<and> kv_good kv' h \<and>
    dir_of kv' h = (dir_of kv h)(n \<mapsto> Complete (enc cd v))"
  using assms dirs_created [of h kv] by (simp add: dir_simps)

lemma store_new_duplicate:
  "kv_good kv h \<Longrightarrow> dir_of kv h n \<noteq> None \<Longrightarrow>
     kv_store_new cd (ks_scoped h n) v kv = (Inl (DuplicateKey (ks_scoped h n)), kv)"
  by (simp add: dir_simps)

lemma drop_dir:
  assumes "kv_good kv h"
  shows "\<exists>kv'. drop_key (ks_scoped h n) kv = (Inr (), kv') \<and> kv_good kv' h \<and> dir_of kv' h = (dir_of kv h)(n := None)"
  using assms by (simp add: dir_simps)

lemma move_dir:
  assumes "kv_good kv h" "dir_of kv h n \<noteq> None" "m \<noteq> n"
  shows "\<exists>kv'. move_key (ks_scoped h n) (ks_scoped h m) kv = (Inr (), kv') \<and> kv_good kv' h \<and>
    dir_of kv' h = (dir_of kv h)(m := dir_of kv h n, n := None)"
  using assms by (auto simp: dir_simps move_key_def Let_def kv_reliable_def)

text \<open>A file that is archived leaves the directory for a directory below it.\<close>

lemma sub_scope_scoped:
  assumes "sub \<noteq> []"
  shows "ks_scope (sub_scope (ks_scoped h n) sub) = Some (h @ CHR ''/'' # sub)"
    "file_path (sub_scope (ks_scoped h n) sub) = h @ CHR ''/'' # sub @ CHR ''/'' # n"
  using assms by (simp_all add: sub_scope_def ks_scoped_def file_path_def)

lemma archive_dir:
  assumes "kv_good kv h" "sub \<noteq> []" "CHR ''/'' \<notin> set sub"
  shows "dir_of kv h n \<noteq> None \<Longrightarrow> \<exists>kv'. archive_to (ks_scoped h n) sub kv = (Inr (), kv')"
    and "archive_to (ks_scoped h n) sub kv = (Inr (), kv') \<Longrightarrow> kv_good kv' h \<and>
      dir_of kv' h = (dir_of kv h)(sub @ CHR ''/'' # n := dir_of kv h n, n := None)"
  using assms split_path_append [OF assms(3), of h]
  by (auto simp: dir_simps archive_to_def move_key_def Let_def kv_reliable_def parent_exists_def sub_scope_scoped split: if_splits)

lemma archive_alt: "archive_corrupt k = archive_to k ''corrupt''" "archive_surplus k = archive_to k ''surplus''"
  by (simp_all add: fun_eq_iff archive_corrupt_def archive_surplus_def archive_to_def ks_corrupt_def ks_surplus_def)

lemma corrupt_dir:
  assumes "kv_good kv h" "dir_of kv h n \<noteq> None"
  shows "\<exists>kv'. archive_corrupt (ks_scoped h n) kv = (Inr (), kv') \<and> kv_good kv' h \<and>
    dir_of kv' h = (dir_of kv h)(''corrupt/'' @ n := dir_of kv h n, n := None)"
proof -
  have sub: "''corrupt'' \<noteq> []" "CHR ''/'' \<notin> set ''corrupt''" by simp_all
  show ?thesis
    unfolding archive_alt using archive_dir(1) [OF assms(1) sub assms(2)] archive_dir(2) [OF assms(1) sub, of n] by auto
qed

lemma surplus_dir:
  assumes "kv_good kv h" "archive_surplus (ks_scoped h n) kv = (Inr (), kv')"
  shows "kv_good kv' h \<and> dir_of kv' h = (dir_of kv h)(''surplus/'' @ n := dir_of kv h n, n := None)"
proof -
  have sub: "''surplus'' \<noteq> []" "CHR ''/'' \<notin> set ''surplus''" by simp_all
  show ?thesis using archive_dir(2) [OF assms(1) sub, of n kv'] assms(2) unfolding archive_alt by simp
qed

lemma store_snapshot_dir:
  assumes "kv_good kv h"
  shows "\<exists>kv'. store_snapshot A rnd h a kv = (Inr (), kv') \<and> kv_good kv' h \<and>
    dir_of kv' h = (dir_of kv h)(''snapshot-new.json-tmp-'' @ rnd := None, ''snapshot-bk.json'' := dir_of kv h ''snapshot.json'',
      ''snapshot.json'' \<mapsto> Complete (enc (agg_codec A) a), ''snapshot-new.json'' := None)"
proof -
  obtain kv1 where 1: "kv_store_val rnd (agg_codec A) (ks_scoped h ''snapshot-new.json'') a kv = (Inr (), kv1)" "kv_good kv1 h"
    "dir_of kv1 h = (dir_of kv h)(''snapshot-new.json-tmp-'' @ rnd := None, ''snapshot-new.json'' \<mapsto> Complete (enc (agg_codec A) a))"
    using store_val_dir [OF assms, of rnd "agg_codec A" "''snapshot-new.json''" a] by auto
  let ?drop = "\<lambda>kv. if kv_has kv (ks_scoped h ''snapshot-bk.json'') then drop_key (ks_scoped h ''snapshot-bk.json'') kv else (Inr (), kv)"
  obtain kv2 where 2: "?drop kv1 = (Inr (), kv2)" "kv_good kv2 h" "dir_of kv2 h = (dir_of kv1 h)(''snapshot-bk.json'' := None)"
    using drop_dir [OF 1(2), of "''snapshot-bk.json''"] 1(2)
    by (cases "kv_has kv1 (ks_scoped h ''snapshot-bk.json'')") (auto simp: kv_has_iff dir_of_def file_path_scoped fun_eq_iff)
  let ?move = "\<lambda>kv. if kv_has kv (ks_scoped h ''snapshot.json'')
    then move_key (ks_scoped h ''snapshot.json'') (ks_scoped h ''snapshot-bk.json'') kv else (Inr (), kv)"
  obtain kv3 where 3: "?move kv2 = (Inr (), kv3)" "kv_good kv3 h"
    "dir_of kv3 h = (dir_of kv2 h)(''snapshot-bk.json'' := dir_of kv2 h ''snapshot.json'', ''snapshot.json'' := None)"
    using move_dir [OF 2(2), of "''snapshot.json''" "''snapshot-bk.json''"] 2(2,3)
    by (cases "kv_has kv2 (ks_scoped h ''snapshot.json'')") (auto simp: kv_has_iff dir_of_def file_path_scoped fun_eq_iff)
  have "dir_of kv3 h ''snapshot-new.json'' \<noteq> None" by (simp add: 1(3) 2(3) 3(3))
  from move_dir [OF 3(2) this, of "''snapshot.json''"] show ?thesis
    using 1(1) 2(1) 3(1)
    by (auto simp: store_snapshot_def Let_def key_for_new_snapshot_def key_for_snapshot_def key_for_backup_snapshot_def
        st_err_def st_bind_def map_err_def 1(3) 2(3) 3(3) fun_upd_def fun_eq_iff)
qed

section \<open>Command keys\<close>

text \<open>The name of a command file is read back as the key it was made from, as long as the label has no
  double dash.\<close>

definition dash_free :: "string \<Rightarrow> bool" where
  "dash_free s \<longleftrightarrow> split_once ''--'' s = None"

definition command_name :: "command_key \<Rightarrow> string" where
  "command_name k = ck_show k @ ''.json''"

lemma split_dashes: "CHR ''-'' \<notin> set a \<Longrightarrow> split_once ''--'' (a @ ''--'' @ b) = Some (a, b)"
  by (induction a) (auto simp: starts_with_def)

lemma split_dashes_minus:
  "CHR ''-'' \<notin> set a \<Longrightarrow> a \<noteq> [] \<Longrightarrow> split_once ''--'' (CHR ''-'' # a @ ''--'' @ b) = Some (CHR ''-'' # a, b)"
  using split_dashes [of a b] by (cases a) (auto simp: starts_with_def)

lemma split_once_json: "dash_free s \<Longrightarrow> split_once ''--'' (s @ ''.json'') = None"
  unfolding dash_free_def
proof (induction s)
  case (Cons c s)
  then show ?case by (cases s) (auto simp: starts_with_def split: if_splits)
qed (simp add: starts_with_def)

lemma split_str_step:
  "split_once ''--'' s = Some (a, b) \<Longrightarrow> split_str ''--'' s = a # split_str ''--'' b"
  "split_once ''--'' s = None \<Longrightarrow> split_str ''--'' s = [s]"
  by (subst split_str.simps, simp)+

lemma no_dash: "CHR ''-'' \<notin> set (show_nat n)"
  by (rule show_nat_notin) (simp add: not_digit_plus_minus)

lemma split_time: "split_once ''--'' (show_int t @ ''--'' @ b) = Some (show_int t, b)"
  using split_dashes [OF no_dash] split_dashes_minus [OF no_dash show_nat_nonempty] by (simp add: show_int_def)

lemma command_name_parsed:
  assumes "- (2 ^ 63) \<le> ck_timestamp_secs k" "ck_timestamp_secs k < 2 ^ 63" "ck_sequence k < 2 ^ 64" "dash_free (ck_label k)"
  shows "ck_from_str (command_name k) = Some k"
proof -
  have "split_str ''--'' (command_name k) =
      [''command'', show_int (ck_timestamp_secs k), show_nat (ck_sequence k), ck_label k @ ''.json'']"
    using split_dashes [of "''command''"] split_time split_dashes [OF no_dash] split_once_json [OF assms(4)]
    by (simp add: command_name_def ck_show_def split_str_step)
  moreover have "parse_sint 64 (show_int (ck_timestamp_secs k)) = Some (ck_timestamp_secs k)"
    by (rule parse_sint_show) (use assms in simp_all)
  moreover have "parse_uint 64 (show_nat (ck_sequence k)) = Some (ck_sequence k)"
    by (rule parse_uint_show) (use assms in simp)
  ultimately show ?thesis by (simp add: ck_from_str_def ends_with_def)
qed

section \<open>What the store holds\<close>

text \<open>What an aggregate promises: it begins at version 1 and an event takes it to the next version. What is
  written can be read back, and the labels of commands have no double dash.\<close>

definition agg_lawful :: "('a, 'i, 'v, 'c, 'd, 'e, 'j) agg_trait \<Rightarrow> bool" where
  "agg_lawful A \<longleftrightarrow> (\<forall>i a. ag_init A i = Inr a \<longrightarrow> ag_version A a = 1) \<and>
     (\<forall>e a. ag_version A (ag_apply A e a) = Suc (ag_version A a)) \<and>
     codec_ok (agg_codec A) \<and> codec_ok (init_codec A) \<and> codec_ok (ev_codec A) \<and> codec_ok (cmd_codec A) \<and>
     codec_ok (info_codec A) \<and> (\<forall>d. dash_free (details_label A d))"

definition event_name :: "nat \<Rightarrow> string" where
  "event_name v = ''delta-'' @ show_nat v @ ''.json''"

abbreviation replay :: "('a, 'i, 'v, 'c, 'd, 'e, 'j) agg_trait \<Rightarrow> 'v list \<Rightarrow> 'a \<Rightarrow> 'a" where
  "replay A es a \<equiv> fold (ag_apply A) es a"

text \<open>A snapshot file is missing, damaged, or a state of the past.\<close>

definition snap_ok ::
  "('a, 'i, 'v, 'c, 'd, 'e, 'j) agg_trait \<Rightarrow> 'a \<Rightarrow> 'v list \<Rightarrow> 'j content option \<Rightarrow> bool" where
  "snap_ok A a0 es c \<longleftrightarrow>
     (\<forall>j a. c = Some (Complete j) \<and> dec (agg_codec A) j = Some a \<longrightarrow> (\<exists>n\<le>length es. a = replay A (take n es) a0))"

definition dir_ok ::
  "('a, 'i, 'v, 'c, 'd, 'e, 'j) agg_trait \<Rightarrow> (string \<Rightarrow> 'j content option) \<Rightarrow> 'i \<Rightarrow> 'a \<Rightarrow> 'v list \<Rightarrow> bool" where
  "dir_ok A d i a0 es \<longleftrightarrow> ag_init A i = Inr a0 \<and> d (event_name 0) = Some (Complete (enc (init_codec A) i)) \<and>
     (\<forall>k<length es. d (event_name (Suc k)) = Some (Complete (enc (ev_codec A) (es ! k))) \<and> ev_version A (es ! k) = Suc k) \<and>
     (\<forall>k\<ge>length es. d (event_name (Suc k)) = None) \<and>
     snap_ok A a0 es (d ''snapshot.json'') \<and> snap_ok A a0 es (d ''snapshot-bk.json'')"

text \<open>The info file counts the events and the commands.\<close>

definition commands_ok :: "(string \<Rightarrow> 'j content option) \<Rightarrow> nat \<Rightarrow> bool" where
  "commands_ok d c \<longleftrightarrow> (\<forall>n k. d n \<noteq> None \<and> ck_from_str n = Some k \<longrightarrow> ck_sequence k \<le> c)"

definition info_ok ::
  "('a, 'i, 'v, 'c, 'd, 'e, 'j) agg_trait \<Rightarrow> (string \<Rightarrow> 'j content option) \<Rightarrow> nat \<Rightarrow> nat \<Rightarrow> stored_value_info \<Rightarrow> bool" where
  "info_ok A d events c info \<longleftrightarrow> d ''info.json'' = Some (Complete (enc (info_codec A) info)) \<and> last_event info = events \<and>
     commands_ok d c"

definition agg_state ::
  "('a, 'i, 'v, 'c, 'd, 'e, 'j) agg_trait \<Rightarrow> ('a, 'v, 'j) agg_store \<Rightarrow> string \<Rightarrow> 'i \<Rightarrow> 'a \<Rightarrow> 'v list \<Rightarrow> stored_value_info \<Rightarrow> bool" where
  "agg_state A st h i a0 es info \<longleftrightarrow> kv_good (as_kv st) h \<and> dir_ok A (dir_of (as_kv st) h) i a0 es \<and>
     info_ok A (dir_of (as_kv st) h) (length es) (last_command info) info \<and>
     (\<forall>a. hm_get (as_cache st) h = Some a \<longrightarrow> (\<exists>n\<le>length es. a = replay A (take n es) a0))"

definition agg_holds ::
  "('a, 'i, 'v, 'c, 'd, 'e, 'j) agg_trait \<Rightarrow> ('a, 'v, 'j) agg_store \<Rightarrow> string \<Rightarrow> nat \<Rightarrow> 'a \<Rightarrow> bool" where
  "agg_holds A st h c a \<longleftrightarrow>
     (\<exists>i a0 es info. agg_state A st h i a0 es info \<and> last_command info \<le> c \<and> a = replay A es a0)"

lemma agg_lawfulD:
  assumes "agg_lawful A"
  shows "ag_init A i = Inr a \<Longrightarrow> ag_version A a = 1" "ag_version A (ag_apply A e a) = Suc (ag_version A a)"
    "dec (agg_codec A) (enc (agg_codec A) a) = Some a" "dec (init_codec A) (enc (init_codec A) i) = Some i"
    "dec (ev_codec A) (enc (ev_codec A) e) = Some e" "dec (cmd_codec A) (enc (cmd_codec A) c) = Some c"
    "dec (info_codec A) (enc (info_codec A) f) = Some f" "dash_free (details_label A d)"
  using assms by (simp_all add: agg_lawful_def codec_ok_def)

lemma key_for_event_name: "key_for_event h v = ks_scoped h (event_name v)"
  by (simp add: key_for_event_def event_name_def)

lemma key_for_command_name: "key_for_command h k = ks_scoped h (command_name k)"
  by (simp add: key_for_command_def command_name_def)

lemma event_name_inject [simp]: "event_name v = event_name w \<longleftrightarrow> v = w"
  by (simp add: event_name_def)

lemma version_replay: "agg_lawful A \<Longrightarrow> ag_version A (replay A es a) = ag_version A a + length es"
  by (induction es arbitrary: a) (simp_all add: agg_lawfulD)

lemma version_prefix:
  "agg_lawful A \<Longrightarrow> dir_ok A d i a0 es \<Longrightarrow> n \<le> length es \<Longrightarrow> ag_version A (replay A (take n es) a0) = Suc n"
  using agg_lawfulD(1) [of A i a0] by (simp add: version_replay dir_ok_def)

section \<open>Loading\<close>

lemma get_event_dir:
  assumes "kv_good kv h" "agg_lawful A"
  shows "dir_of kv h (event_name v) = Some (Complete (enc (ev_codec A) e)) \<Longrightarrow> get_event A h v kv = (Inr (Some e), kv)"
    and "dir_of kv h (event_name v) = None \<Longrightarrow> get_event A h v kv = (Inr None, kv)"
  using assms by (simp_all add: get_event_def Let_def key_for_event_name get_dir agg_lawfulD)

lemma update_from:
  assumes L: "agg_lawful A" and G: "kv_good kv h" and D: "dir_ok A (dir_of kv h) i a0 es"
  shows "n \<le> length es \<Longrightarrow> length es - n < f \<Longrightarrow>
    update_aggregate f A h None (replay A (take n es) a0) kv = (Inr (replay A es a0), kv)"
proof (induction f arbitrary: n)
  case (Suc f)
  note v = version_prefix [OF L D Suc.prems(1)]
  show ?case
  proof (cases "n = length es")
    case True
    then have "get_event A h (Suc n) kv = (Inr None, kv)"
      using D by (intro get_event_dir(2) [OF G L]) (simp add: dir_ok_def)
    then show ?thesis using v True by (simp add: Let_def)
  next
    case False
    then have n: "n < length es" using Suc.prems by simp
    then have "get_event A h (Suc n) kv = (Inr (Some (es ! n)), kv)" and "ev_version A (es ! n) = Suc n"
      using D by (auto intro!: get_event_dir(1) [OF G L] simp: dir_ok_def)
    moreover have "ag_apply A (es ! n) (replay A (take n es) a0) = replay A (take (Suc n) es) a0"
      using n by (simp add: take_Suc_conv_app_nth)
    ultimately show ?thesis using v Suc.IH [of "Suc n"] n Suc.prems(2) by (simp add: Let_def)
  qed
qed simp

lemma events_bounded:
  assumes "dir_ok A (dir_of kv h) i a0 es"
  shows "length es \<le> length (kv_files kv)"
proof (rule files_bound)
  show "inj_on (\<lambda>k. h @ CHR ''/'' # event_name (Suc k)) {..<length es}" by (simp add: inj_on_def)
  show "kv_at kv (h @ CHR ''/'' # event_name (Suc k)) \<noteq> None" if "k < length es" for k
    using assms that by (simp add: dir_ok_def dir_of_def)
qed

lemma split_once_SomeD: "split_once sep s = Some (a, b) \<Longrightarrow> s = a @ sep @ b"
proof (induction s arbitrary: a)
  case (Cons c s)
  show ?case
  proof (cases "starts_with sep (c # s)")
    case True
    then show ?thesis
      using Cons.prems append_take_drop_id [of "length sep" "c # s"] by (auto simp: starts_with_def)
  next
    case False
    then show ?thesis using Cons by auto
  qed
qed (simp split: if_splits)

lemma command_prefix:
  assumes "ck_from_str n = Some k"
  shows "take 7 n = ''command''"
proof -
  obtain p1 p2 p3 where s: "split_str ''--'' n = [''command'', p1, p2, p3]"
    using assms by (auto simp: ck_from_str_def split: list.splits if_splits)
  then obtain b where "split_once ''--'' n = Some (''command'', b)"
    by (subst (asm) split_str.simps) (auto split: option.splits prod.splits)
  then show ?thesis by (auto dest: split_once_SomeD)
qed

lemma dir_ok_frame:
  assumes "dir_ok A d i a0 es" "\<And>v. d' (event_name v) = d (event_name v)"
    "snap_ok A a0 es (d' ''snapshot.json'')" "snap_ok A a0 es (d' ''snapshot-bk.json'')"
  shows "dir_ok A d' i a0 es"
  using assms unfolding dir_ok_def by simp

lemma commands_ok_frame:
  assumes "commands_ok d c" "\<And>n. d' n \<noteq> None \<Longrightarrow> d n \<noteq> None \<or> take 7 n \<noteq> ''command''" "c \<le> c'"
  shows "commands_ok d' c'"
  unfolding commands_ok_def
proof (intro allI impI)
  fix n k
  assume n: "d' n \<noteq> None \<and> ck_from_str n = Some k"
  then have "d n \<noteq> None" using assms(2) [of n] command_prefix [of n k] by simp
  then have "ck_sequence k \<le> c" using assms(1) n unfolding commands_ok_def by blast
  then show "ck_sequence k \<le> c'" using assms(3) by simp
qed

lemma info_ok_frame:
  assumes "info_ok A d v c info" "d' ''info.json'' = d ''info.json''"
    "\<And>n. d' n \<noteq> None \<Longrightarrow> d n \<noteq> None \<or> take 7 n \<noteq> ''command''"
  shows "info_ok A d' v c info"
  using assms(1,2) commands_ok_frame [of d c d', OF _ assms(3) order_refl] unfolding info_ok_def by simp

lemma snap_ok_None [simp]: "snap_ok A a0 es None" "snap_ok A a0 es (Some Truncated)"
  by (simp_all add: snap_ok_def)

lemma dir_okD:
  assumes "dir_ok A d i a0 es"
  shows "ag_init A i = Inr a0" "d (event_name 0) = Some (Complete (enc (init_codec A) i))"
    "snap_ok A a0 es (d ''snapshot.json'')" "snap_ok A a0 es (d ''snapshot-bk.json'')"
    "length es \<le> k \<Longrightarrow> d (event_name (Suc k)) = None"
  using assms unfolding dir_ok_def by simp_all

lemma event_name_other [simp]:
  "event_name v \<noteq> ''snapshot.json''" "event_name v \<noteq> ''snapshot-bk.json''" "event_name v \<noteq> ''snapshot-new.json''"
  "event_name v \<noteq> ''info.json''" "event_name v \<noteq> CHR ''c'' # r" "event_name v \<noteq> CHR ''s'' # r" "event_name v \<noteq> CHR ''i'' # r"
  "CHR ''s'' # r \<noteq> event_name v" "CHR ''i'' # r \<noteq> event_name v"
  "take 7 (event_name v) \<noteq> ''command''"
  by (simp_all add: event_name_def)

lemma try_snapshot_dir:
  assumes G: "kv_good kv h" and D: "dir_ok A (dir_of kv h) i a0 es" and I: "info_ok A (dir_of kv h) v c info"
    and n: "n = ''snapshot.json'' \<or> n = ''snapshot-bk.json''"
  shows "\<exists>x kv'. try_snapshot A (ks_scoped h n) None kv = (Inr x, kv') \<and> kv_good kv' h \<and>
    dir_ok A (dir_of kv' h) i a0 es \<and> info_ok A (dir_of kv' h) v c info \<and>
    (\<forall>a. x = Some a \<longrightarrow> (\<exists>m\<le>length es. a = replay A (take m es) a0))"
proof -
  let ?d = "dir_of kv h"
  have s: "snap_ok A a0 es (?d n)" using n dir_okD(3,4) [OF D] by auto
  show ?thesis
  proof (cases "kv_get (agg_codec A) kv (ks_scoped h n)")
    case (Inl e)
    then have "?d n \<noteq> None" by (cases "?d n") (simp_all add: get_dir [OF G])
    then obtain kv' where kv': "archive_corrupt (ks_scoped h n) kv = (Inr (), kv')" "kv_good kv' h"
      "dir_of kv' h = ?d(''corrupt/'' @ n := ?d n, n := None)"
      using corrupt_dir [OF G] by blast
    have "dir_ok A (dir_of kv' h) i a0 es"
      using n dir_okD(3,4) [OF D] by (intro dir_ok_frame [OF D]) (auto simp: kv'(3))
    moreover have "info_ok A (dir_of kv' h) v c info"
      using n by (intro info_ok_frame [OF I]) (auto simp: kv'(3) split: if_splits)
    ultimately show ?thesis
      using kv' Inl by (simp add: try_snapshot_def st_bind_def st_err_def st_ok_def map_err_def)
  next
    case (Inr x)
    then have "try_snapshot A (ks_scoped h n) None kv = (Inr x, kv)"
      by (simp add: try_snapshot_def split: option.split)
    moreover have "\<forall>a. x = Some a \<longrightarrow> (\<exists>m\<le>length es. a = replay A (take m es) a0)"
      using Inr s by (auto simp: get_dir [OF G] snap_ok_def split: option.splits content.splits)
    ultimately show ?thesis using G D I by blast
  qed
qed

lemma get_aggregate_dir:
  assumes L: "agg_lawful A" and G: "kv_good kv h" and D: "dir_ok A (dir_of kv h) i a0 es"
    and I: "info_ok A (dir_of kv h) v c info"
  shows "\<exists>kv'. get_aggregate A h None kv = (Inr (Some (replay A es a0)), kv') \<and> kv_good kv' h \<and>
    dir_ok A (dir_of kv' h) i a0 es \<and> info_ok A (dir_of kv' h) v c info"
proof -
  let ?past = "\<lambda>x. \<forall>a. x = Some a \<longrightarrow> (\<exists>m\<le>length es. a = replay A (take m es) a0)"
  let ?ok = "\<lambda>kv. kv_good kv h \<and> dir_ok A (dir_of kv h) i a0 es \<and> info_ok A (dir_of kv h) v c info"
  obtain x kv1 where 1: "try_snapshot A (key_for_snapshot h) None kv = (Inr x, kv1)" "?ok kv1" "?past x"
    using try_snapshot_dir [OF G D I] unfolding key_for_snapshot_def by blast
  obtain y kv2 where 2: "(if x = None then try_snapshot A (key_for_backup_snapshot h) None else st_ok x) kv1 = (Inr y, kv2)"
    "?ok kv2" "?past y"
  proof (cases x)
    case None
    then show ?thesis
      using that try_snapshot_dir [of kv1 h A i a0 es v c info "''snapshot-bk.json''"] 1(2)
      unfolding key_for_backup_snapshot_def by auto
  next
    case (Some a)
    then show ?thesis using 1 by (intro that [of x kv1]) (simp_all add: st_ok_def)
  qed
  have i: "from_init A h kv2 = (Inr (Some a0), kv2)"
    using 2(2) dir_okD(1,2) [of A "dir_of kv2 h" i a0 es]
    by (simp add: from_init_def key_for_event_name get_dir agg_lawfulD [OF L])
  obtain m where m: "m \<le> length es"
    "(if y = None then from_init A h else st_ok y) kv2 = (Inr (Some (replay A (take m es) a0)), kv2)"
  proof (cases y)
    case None
    then show ?thesis using that [of 0] i by simp
  next
    case (Some a)
    then show ?thesis using that 2(3) by (auto simp: st_ok_def)
  qed
  have "update_aggregate (Suc (length (kv_files kv2))) A h None (replay A (take m es) a0) kv2 = (Inr (replay A es a0), kv2)"
    using 2(2) events_bounded [of A kv2 h i a0 es] by (intro update_from [OF L _ _ m(1)]) auto
  then have "get_aggregate A h None kv = (Inr (Some (replay A es a0)), kv2)"
    unfolding get_aggregate_def st_bind_def using 1(1) 2(1) m(2) by (simp add: st_ok_def)
  then show ?thesis using 2(2) by blast
qed

lemma on_kv_eq: "on_kv m st = (case m (as_kv st) of (r, kv) \<Rightarrow> (r, st\<lparr>as_kv := kv\<rparr>))"
  by (simp add: on_kv_def st_zoom_def)

lemma get_latest_cached:
  assumes L: "agg_lawful A" and G: "kv_good (as_kv st) h" and D: "dir_ok A (dir_of (as_kv st) h) i a0 es"
    and c: "hm_get (as_cache st) h = Some a" and n: "n \<le> length es" "a = replay A (take n es) a0"
  shows "get_latest A h st = (Inr (replay A es a0), st)"
proof -
  note v = version_prefix [OF L D n(1), folded n(2)]
  have u: "update_aggregate (Suc (length (kv_files (as_kv st)))) A h None a (as_kv st) = (Inr (replay A es a0), as_kv st)"
    unfolding n(2) using events_bounded [OF D] by (intro update_from [OF L G D n(1)]) simp
  have e: "get_event A h (ag_version A a) (as_kv st) = (Inr (if n = length es then None else Some (es ! n)), as_kv st)"
    unfolding v using n(1) D get_event_dir [OF G L] by (auto simp: dir_ok_def)
  show ?thesis
  proof (cases "n = length es")
    case True
    then have "get_latest A h st = (Inr a, st)" by (simp add: get_latest_def on_kv_eq c e)
    then show ?thesis by (simp add: n(2) True)
  next
    case False
    then show ?thesis by (simp add: get_latest_def on_kv_eq c e u del: update_aggregate.simps)
  qed
qed

lemma get_latest_loaded:
  assumes L: "agg_lawful A" and G: "kv_good (as_kv st) h" and D: "dir_ok A (dir_of (as_kv st) h) i a0 es"
    and I: "info_ok A (dir_of (as_kv st) h) v c info" and c: "hm_get (as_cache st) h = None"
  shows "\<exists>kv'. get_latest A h st = (Inr (replay A es a0), cache_update h (replay A es a0) (st\<lparr>as_kv := kv'\<rparr>)) \<and>
    kv_good kv' h \<and> dir_ok A (dir_of kv' h) i a0 es \<and> info_ok A (dir_of kv' h) v c info"
  using get_aggregate_dir [OF L G D I] by (auto simp: get_latest_def on_kv_eq c)

lemma get_latest_state:
  assumes L: "agg_lawful A" and S: "agg_state A st h i a0 es info"
  shows "\<exists>st'. get_latest A h st = (Inr (replay A es a0), st') \<and> agg_state A st' h i a0 es info \<and>
    hm_get (as_cache st') h \<noteq> None"
proof (cases "hm_get (as_cache st) h")
  case None
  have "\<exists>n\<le>length es. replay A es a0 = replay A (take n es) a0" by (rule exI [of _ "length es"]) simp
  with None show ?thesis
    using get_latest_loaded [OF L, of st h i a0 es "length es" "last_command info" info] S
    by (auto simp: agg_state_def cache_update_def hmap_simps)
next
  case (Some a)
  then obtain n where "n \<le> length es" "a = replay A (take n es) a0"
    using S unfolding agg_state_def by blast
  then have "get_latest A h st = (Inr (replay A es a0), st)"
    using S Some by (intro get_latest_cached [OF L]) (auto simp: agg_state_def)
  then show ?thesis using S Some by simp
qed

section \<open>Commands\<close>




lemma command_name_other [simp]:
  "command_name k \<noteq> event_name v" "event_name v \<noteq> command_name k" "command_name k \<noteq> CHR ''s'' # r" "command_name k \<noteq> CHR ''i'' # r"
  "CHR ''s'' # r \<noteq> command_name k" "CHR ''i'' # r \<noteq> command_name k"
  by (simp_all add: command_name_def ck_show_def event_name_def)




lemma store_command_dir:
  assumes L: "agg_lawful A" and G: "kv_good kv h" and D: "dir_ok A (dir_of kv h) i a0 es"
    and I: "info_ok A (dir_of kv h) v (last_command info) info"
    and c: "sc_handle c = h" "sc_sequence c = Suc (last_command info)" "Suc (last_command info) < 2 ^ 64"
    and t: "- (2 ^ 63) \<le> sc_time c" "sc_time c < 2 ^ 63"
  shows "\<exists>kv'. store_command A c kv = (Inr (), kv') \<and> kv_good kv' h \<and> dir_ok A (dir_of kv' h) i a0 es \<and>
    commands_ok (dir_of kv' h) (Suc (last_command info)) \<and>
    dir_of kv' h = (dir_of kv h)(command_name (key_for_stored A c) \<mapsto> Complete (enc (cmd_codec A) c))"
proof -
  define k where "k = key_for_stored A c"
  have k: "ck_from_str (command_name k) = Some k" "ck_sequence k = Suc (last_command info)"
    using c t agg_lawfulD(8) [OF L] by (auto intro!: command_name_parsed simp: k_def key_for_stored_def)
  have "dir_of kv h (command_name k) = None"
  proof (rule ccontr)
    assume "dir_of kv h (command_name k) \<noteq> None"
    then have "ck_sequence k \<le> last_command info" using I k(1) unfolding info_ok_def commands_ok_def by blast
    then show False by (simp add: k(2))
  qed
  then obtain kv' where kv': "kv_store_new (cmd_codec A) (ks_scoped h (command_name k)) c kv = (Inr (), kv')" "kv_good kv' h"
    "dir_of kv' h = (dir_of kv h)(command_name k \<mapsto> Complete (enc (cmd_codec A) c))"
    using store_new_dir [OF kv_goodD [OF G], of h "command_name k" "cmd_codec A" c] by blast
  have "dir_ok A (dir_of kv' h) i a0 es"
    using dir_okD(3,4) [OF D] by (intro dir_ok_frame [OF D]) (simp_all add: kv'(3))
  moreover have "commands_ok (dir_of kv' h) (Suc (last_command info))"
    using I k by (auto simp: kv'(3) info_ok_def commands_ok_def le_Suc_eq)
  moreover have "store_command A c kv = (Inr (), kv')"
    using kv'(1) by (simp add: store_command_def st_err_def map_err_def key_for_command_name c flip: k_def)
  ultimately show ?thesis using kv'(2,3) unfolding k_def by blast
qed

lemma save_info_dir:
  assumes G: "kv_good kv h" and D: "dir_ok A (dir_of kv h) i a0 es" and C: "commands_ok (dir_of kv h) (last_command info)"
    and v: "last_event info = length es"
  shows "\<exists>kv'. save_info A rnd h info kv = (Inr (), kv') \<and> kv_good kv' h \<and> dir_ok A (dir_of kv' h) i a0 es \<and>
    info_ok A (dir_of kv' h) (length es) (last_command info) info"
proof -
  obtain kv' where kv': "kv_store_val rnd (info_codec A) (ks_scoped h ''info.json'') info kv = (Inr (), kv')" "kv_good kv' h"
    "dir_of kv' h = (dir_of kv h)(''info.json'' @ ''-tmp-'' @ rnd := None, ''info.json'' \<mapsto> Complete (enc (info_codec A) info))"
    using store_val_dir [OF G, of rnd "info_codec A" "''info.json''" info] by blast
  have "dir_ok A (dir_of kv' h) i a0 es"
    using dir_okD(3,4) [OF D] by (intro dir_ok_frame [OF D]) (simp_all add: kv'(3))
  moreover have "commands_ok (dir_of kv' h) (last_command info)"
    by (rule commands_ok_frame [OF C]) (auto simp: kv'(3) split: if_splits)
  ultimately show ?thesis
    using kv' v by (simp add: save_info_def st_err_def map_err_def key_for_info_def info_ok_def)
qed

lemma agg_stateD:
  assumes "agg_state A st h i a0 es info"
  shows "kv_good (as_kv st) h" "dir_ok A (dir_of (as_kv st) h) i a0 es" "info_ok A (dir_of (as_kv st) h) (length es) (last_command info) info"
  using assms unfolding agg_state_def by blast+

lemma get_info_state:
  assumes "agg_lawful A" "agg_state A st h i a0 es info"
  shows "get_info A (as_kv st) h = Inr info"
  using agg_stateD [OF assms(2)]
  by (simp add: get_info_def key_for_info_def get_dir info_ok_def agg_lawfulD [OF assms(1)])



lemma agg_command_eq:
  assumes S: "get_info A (as_kv st) h = Inr info" and h: "cmd_handle A cmd = h"
    and 1: "get_latest A h st = (Inr a, st1)"
    and f: "f = info\<lparr>last_update := now, last_command := Suc (last_command info)\<rparr>"
    and stored: "stored = (\<lambda>effect. \<lparr>sc_actor = cmd_actor A cmd, sc_time = made, sc_handle = h, sc_version = ag_version A a,
      sc_sequence = Suc (last_command info), sc_details = cmd_store A cmd, sc_effect = effect\<rparr>)"
  shows "agg_command A now made rnd cmd st =
    (if cmd_version A cmd \<notin> {None, Some (ag_version A a)} then (Inl (Failed (from_store_err A (ConcurrentModification h))), st1)
     else case ag_process A cmd a of
         Inl e \<Rightarrow> (case on_kv (st_bind (store_command A (stored (EffectError (err_show A e)))) (\<lambda>_. save_info A rnd h f)) st1 of
             (Inl x, st2) \<Rightarrow> (Inl (Failed (from_store_err A x)), st2) | (Inr _, st2) \<Rightarrow> (Inl (Failed e), st2))
       | Inr [] \<Rightarrow> (Inr a, st1)
       | Inr (v # vs) \<Rightarrow> save_events A rnd h f stored a (v # vs) st1)"
  unfolding f stored
  by (auto simp: agg_command_def Let_def h S 1 split: option.split)

lemma save_events_stored:
  assumes "wrong_event A h (ag_version A a) vs = None" "store_command A (stored (EffectSuccess (map (ev_version A) vs))) (as_kv st) = (r, kv)"
  shows "r = Inl x \<Longrightarrow> fst (save_events A rnd h f stored a vs st) = Inl Exited"
    and "r = Inr () \<Longrightarrow> pre_save_error A (replay A vs a) vs = Some e \<Longrightarrow>
      save_events A rnd h f stored a vs st = (Inl (Failed e), st\<lparr>as_kv := kv\<rparr>)"
  using assms by (simp_all add: save_events_def Let_def on_kv_eq)


section \<open>Adding an aggregate\<close>

lemma agg_add_state:
  assumes L: "agg_lawful A" and kv: "kv_reliable (as_kv st)" "\<And>n. dir_of (as_kv st) h n = None"
    and i: "init_handle A i = h" "init_version A i = 0" "ag_init A i = Inr a0"
  shows "\<exists>st'. agg_add A now rnd i st = (Inr a0, st') \<and> agg_state A st' h i a0 [] (info_default now)"
proof -
  obtain kv1 where 1: "kv_store_new (init_codec A) (ks_scoped h (event_name 0)) i (as_kv st) = (Inr (), kv1)" "kv_good kv1 h"
    "dir_of kv1 h = (dir_of (as_kv st) h)(event_name 0 \<mapsto> Complete (enc (init_codec A) i))"
    using store_new_dir [OF kv(1), of h "event_name 0" "init_codec A" i, OF kv(2)] by blast
  obtain kv2 where 2: "store_snapshot A rnd h a0 kv1 = (Inr (), kv2)" "kv_good kv2 h"
    "dir_of kv2 h = (dir_of kv1 h)(''snapshot-new.json-tmp-'' @ rnd := None, ''snapshot-bk.json'' := dir_of kv1 h ''snapshot.json'',
      ''snapshot.json'' \<mapsto> Complete (enc (agg_codec A) a0), ''snapshot-new.json'' := None)"
    using store_snapshot_dir [OF 1(2), of A rnd a0] by blast
  have d: "dir_ok A (dir_of kv2 h) i a0 []"
    by (simp add: dir_ok_def 2(3) 1(3) kv(2) i(3) snap_ok_def agg_lawfulD [OF L])
  have "commands_ok (dir_of kv2 h) 0"
    by (rule commands_ok_frame [of "\<lambda>_. None" 0]) (auto simp: 2(3) 1(3) kv(2) commands_ok_def split: if_splits)
  then obtain kv3 where 3: "save_info A rnd h (info_default now) kv2 = (Inr (), kv3)" "kv_good kv3 h"
    "dir_ok A (dir_of kv3 h) i a0 []" "info_ok A (dir_of kv3 h) 0 (last_command (info_default now)) (info_default now)"
    using save_info_dir [OF 2(2) d, of "info_default now" rnd] by (auto simp: info_default_def)
  have "agg_add A now rnd i st = (Inr a0, cache_update h a0 (st\<lparr>as_kv := kv3\<rparr>))"
    using 1(1) 2(1) 3(1)
    by (simp add: agg_add_def Let_def st_bind_def on_kv_eq store_init_event_def st_err_def map_err_def key_for_event_name i)
  moreover have "agg_state A (cache_update h a0 (st\<lparr>as_kv := kv3\<rparr>)) h i a0 [] (info_default now)"
    using 3 by (simp add: agg_state_def cache_update_def hmap_simps)
  ultimately show ?thesis by blast
qed

section \<open>Warming up\<close>



section \<open>Runs\<close>











text \<open>For the witnesses: a counter as an aggregate, with documents that hold their values.\<close>

datatype demo_doc =
    Doc_agg "nat \<times> nat" | Doc_init nat | Doc_event "nat \<times> nat" | Doc_command "nat stored_command" | Doc_info stored_value_info

definition counter :: "(nat \<times> nat \<Rightarrow> (nat \<times> nat) list \<Rightarrow> string option) list \<Rightarrow>
  (nat \<times> nat, nat, nat \<times> nat, nat, nat, string, demo_doc) agg_trait" where
  "counter ls = \<lparr>ag_init = (\<lambda>i. Inr (1, i)), ag_version = fst, ag_apply = (\<lambda>e a. (Suc (fst a), snd a + snd e)),
     ag_process = (\<lambda>c a. if c = 0 then Inl ''zero'' else Inr [(fst a, c)]),
     ev_handle = (\<lambda>_. ''ctr''), ev_version = fst, init_handle = (\<lambda>_. ''ctr''), init_version = (\<lambda>_. 0),
     cmd_handle = (\<lambda>_. ''ctr''), cmd_version = (\<lambda>_. None), cmd_actor = (\<lambda>_. ''admin''), cmd_store = (\<lambda>c. c),
     details_label = (\<lambda>_. ''cmd-add''), err_show = (\<lambda>e. e), from_store_err = (\<lambda>_. ''store''), agg_is_handle = (\<lambda>_. True),
     pre_save = ls,
     agg_codec = \<lparr>enc = Doc_agg, dec = (\<lambda>j. case j of Doc_agg x \<Rightarrow> Some x | _ \<Rightarrow> None)\<rparr>,
     init_codec = \<lparr>enc = Doc_init, dec = (\<lambda>j. case j of Doc_init x \<Rightarrow> Some x | _ \<Rightarrow> None)\<rparr>,
     ev_codec = \<lparr>enc = Doc_event, dec = (\<lambda>j. case j of Doc_event x \<Rightarrow> Some x | _ \<Rightarrow> None)\<rparr>,
     cmd_codec = \<lparr>enc = Doc_command, dec = (\<lambda>j. case j of Doc_command x \<Rightarrow> Some x | _ \<Rightarrow> None)\<rparr>,
     info_codec = \<lparr>enc = Doc_info, dec = (\<lambda>j. case j of Doc_info x \<Rightarrow> Some x | _ \<Rightarrow> None)\<rparr>\<rparr>"

definition no_store :: "(nat \<times> nat, nat \<times> nat, demo_doc) agg_store" where
  "no_store = \<lparr>as_kv = \<lparr>kv_dirs = [], kv_files = [], kv_faults = (\<lambda>_. None)\<rparr>, as_cache = [], as_posted = []\<rparr>"

lemma counter_lawful: "agg_lawful (counter ls)"
  by (simp add: agg_lawful_def counter_def codec_ok_def dash_free_def starts_with_def)



section \<open>Three flaws\<close>

text \<open>
  C24: A listener that rejects events leaves the command behind, although its number is used again: when
  the same command is sent again in the same second the store finds the file and the process exits.\<close>

theorem rejected_command_blocks_retry:
  assumes L: "agg_lawful A" and H: "agg_holds A st h c a" "Suc c < 2 ^ 64"
    and cmd: "cmd_handle A cmd = h" "cmd_version A cmd \<in> {None, Some (ag_version A a)}" "ag_process A cmd a = Inr vs" "vs \<noteq> []"
      "wrong_event A h (ag_version A a) vs = None" "pre_save_error A (replay A vs a) vs = Some e"
    and t: "- (2 ^ 63) \<le> made" "made < 2 ^ 63"
  shows "\<exists>st'. agg_command A now made rnd cmd st = (Inl (Failed e), st') \<and>
    fst (agg_command A now' made rnd' cmd st') = Inl Exited"
proof -
  obtain i a0 es info where S: "agg_state A st h i a0 es info" and n: "last_command info \<le> c" and a: "a = replay A es a0"
    using H(1) unfolding agg_holds_def by blast
  obtain st1 where 1: "get_latest A h st = (Inr a, st1)" "agg_state A st1 h i a0 es info" "hm_get (as_cache st1) h \<noteq> None"
    using get_latest_state [OF L S] a by blast
  define stored where "stored = (\<lambda>effect. \<lparr>sc_actor = cmd_actor A cmd, sc_time = made, sc_handle = h, sc_version = ag_version A a,
      sc_sequence = Suc (last_command info), sc_details = cmd_store A cmd, sc_effect = effect\<rparr>)"
  define sc where "sc = stored (EffectSuccess (map (ev_version A) vs))"
  have sc: "sc_handle sc = h" "sc_sequence sc = Suc (last_command info)" "sc_time sc = made" "Suc (last_command info) < 2 ^ 64"
    using n H(2) by (simp_all add: sc_def stored_def)
  obtain kv2 where 2: "store_command A sc (as_kv st1) = (Inr (), kv2)" "kv_good kv2 h" "dir_ok A (dir_of kv2 h) i a0 es"
    "dir_of kv2 h = (dir_of (as_kv st1) h)(command_name (key_for_stored A sc) \<mapsto> Complete (enc (cmd_codec A) sc))"
    using store_command_dir [OF L agg_stateD [OF 1(2)], of sc] sc t by auto
  let ?st2 = "st1\<lparr>as_kv := kv2\<rparr>"
  have first: "agg_command A now made rnd cmd st = (Inl (Failed e), ?st2)"
    using cmd(2-4) save_events_stored(2) [where stored = stored, OF cmd(5) 2(1) [unfolded sc_def] refl cmd(6)]
    by (auto simp: agg_command_eq [OF get_info_state [OF L S] cmd(1) 1(1) refl stored_def] neq_Nil_conv)
  have l: "get_latest A h ?st2 = (Inr a, ?st2)"
    using 1(2,3) 2(2,3) get_latest_cached [OF L, of ?st2 h i a0 es] a unfolding agg_state_def by auto
  have g: "get_info A (as_kv ?st2) h = Inr info"
    using 2(2,4) agg_stateD(3) [OF 1(2)]
    by (simp add: get_info_def key_for_info_def get_dir info_ok_def agg_lawfulD [OF L])
  have "store_command A sc (as_kv ?st2) = (Inl (KeyStore (DuplicateKey (key_for_command h (key_for_stored A sc)))), kv2)"
    using store_new_duplicate [OF 2(2), of "command_name (key_for_stored A sc)" "cmd_codec A" sc] 2(4)
    by (simp add: store_command_def st_err_def map_err_def key_for_command_name sc)
  then have "fst (agg_command A now' made rnd' cmd ?st2) = Inl Exited"
    using cmd(2-4) save_events_stored(1) [OF cmd(5), of stored ?st2]
    by (auto simp: agg_command_eq [OF g cmd(1) l refl stored_def] neq_Nil_conv sc_def)
  with first show ?thesis by blast
qed

theorem rejected_command_blocks_retry_witness:
  "\<exists>st'. agg_command (counter [\<lambda>_ _. Some ''no'']) 7 7 ''a'' 5 (snd (agg_add (counter [\<lambda>_ _. Some ''no'']) 6 ''e'' 10 no_store)) =
       (Inl (Failed ''no''), st') \<and>
     fst (agg_command (counter [\<lambda>_ _. Some ''no'']) 7 7 ''b'' 5 st') = Inl Exited"
proof -
  let ?A = "counter [\<lambda>_ _. Some ''no'']"
  have k: "kv_reliable (as_kv no_store)" "dir_of (as_kv no_store) ''ctr'' n = None" for n
    by (simp_all add: no_store_def kv_reliable_def dir_of_def kv_at_def)
  have i: "init_handle ?A 10 = ''ctr''" "init_version ?A 10 = 0" "ag_init ?A 10 = Inr (1, 10)"
    by (simp_all add: counter_def)
  have "agg_holds ?A (snd (agg_add ?A 6 ''e'' 10 no_store)) ''ctr'' 0 (1, 10)"
    using agg_add_state [OF counter_lawful k i, of 6 "''e''"] by (fastforce simp: agg_holds_def info_default_def)
  from rejected_command_blocks_retry [OF counter_lawful this, of 5 "[(1, 5)]" "''no''" 7 7 "''a''" 7 "''b''"] show ?thesis
    by (simp add: counter_def wrong_event_def pre_save_error_def List.map_filter_simps)
qed

text \<open>Loops that archive files never bring a file back into the directory.\<close>

definition only_less :: "string \<Rightarrow> 'j kv_store \<Rightarrow> 'j kv_store \<Rightarrow> bool" where
  "only_less h kv kv' \<longleftrightarrow> kv_good kv' h \<and> (\<forall>n. CHR ''/'' \<notin> set n \<and> dir_of kv h n = None \<longrightarrow> dir_of kv' h n = None)"

lemma only_less_refl: "kv_good kv h \<Longrightarrow> only_less h kv kv"
  by (simp add: only_less_def)

lemma only_less_trans: "only_less h kv kv1 \<Longrightarrow> only_less h kv1 kv2 \<Longrightarrow> only_less h kv kv2"
  unfolding only_less_def by blast

lemma surplus_only_less:
  assumes "kv_good kv h" "archive_surplus (ks_scoped h n) kv = (Inr (), kv')"
  shows "only_less h kv kv'" "dir_of kv' h n = None"
  using surplus_dir [OF assms] by (auto simp: only_less_def)

lemma for_only_less:
  assumes "\<And>x kv kv'. kv_good kv h \<Longrightarrow> f x kv = (Inr (), kv') \<Longrightarrow> only_less h kv kv'"
  shows "kv_good kv h \<Longrightarrow> st_for f xs kv = (Inr (), kv') \<Longrightarrow> only_less h kv kv'"
  using assms
proof (induction xs arbitrary: kv)
  case Nil
  then show ?case by (simp add: only_less_refl)
next
  case (Cons x xs)
  obtain kv1 where 1: "f x kv = (Inr (), kv1)" "st_for f xs kv1 = (Inr (), kv')"
    using Cons.prems(2) by (auto split: prod.splits sum.splits)
  have l: "only_less h kv kv1" by (rule Cons.prems(3) [OF Cons.prems(1) 1(1)])
  then have "only_less h kv1 kv'" using Cons.IH [of kv1] Cons.prems(3) 1(2) by (simp add: only_less_def)
  with l show ?case by (rule only_less_trans)
qed

lemma st_err_Inr: "st_err g m s = (Inr x, s') \<longleftrightarrow> m s = (Inr x, s')"
  by (auto simp: st_err_def map_err_def split: prod.splits sum.splits)

lemma archive_event_only_less:
  assumes "kv_good kv h" "archive_surplus_event h from k kv = (Inr (), kv')"
  shows "only_less h kv kv'"
    and "event_name_version (ks_name k) = Some v \<Longrightarrow> from \<le> v \<Longrightarrow> dir_of kv' h (event_name v) = None"
  using assms surplus_only_less [OF assms(1)] only_less_refl
  by (auto simp: archive_surplus_event_def st_err_Inr key_for_event_name split: option.splits if_splits)

lemma events_only_less:
  "kv_good kv h \<Longrightarrow> st_for (archive_surplus_event h from) ks kv = (Inr (), kv') \<Longrightarrow> only_less h kv kv'"
  by (erule (1) for_only_less [rotated]) (erule (1) archive_event_only_less(1))

lemma commands_only_less:
  "kv_good kv h \<Longrightarrow> st_for (archive_surplus_command h) ks kv = (Inr (), kv') \<Longrightarrow> only_less h kv kv'"
  by (erule (1) for_only_less [rotated])
    (simp add: archive_surplus_command_def key_for_command_name st_err_Inr surplus_only_less(1))

lemma event_name_slash: "CHR ''/'' \<notin> set (event_name v)"
  by (auto simp: event_name_def show_nat_notin is_digit_def)

lemma event_name_version_name: "v < 2 ^ 64 \<Longrightarrow> event_name_version (event_name v) = Some v"
  by (simp add: event_name_version_def event_name_def starts_with_def ends_with_def parse_uint_show)

lemma archive_events_gone:
  assumes G: "kv_good kv h" and r: "archive_surplus_events h from kv = (Inr (), kv')" and v: "from \<le> v" "v < 2 ^ 64"
  shows "only_less h kv kv' \<and> dir_of kv' h (event_name v) = None"
proof -
  obtain ks where ks: "kv_keys kv (Some h) ''delta-'' = Inr ks" "st_for (archive_surplus_event h from) ks kv = (Inr (), kv')"
    using r by (auto simp: archive_surplus_events_def split: sum.splits)
  have less: "only_less h kv kv'"
    by (rule events_only_less [OF G ks(2)])
  show ?thesis
  proof (cases "dir_of kv h (event_name v)")
    case None
    then show ?thesis using less event_name_slash [of v] by (simp add: only_less_def)
  next
    case (Some x)
    then have "ks_scoped h (event_name v) \<in> set ks"
      using kv_keys_listed [OF ks(1) event_name_slash] by (simp add: dir_of_def event_name_def starts_with_def)
    then obtain xs ys where s: "ks = xs @ ks_scoped h (event_name v) # ys" by (auto simp: in_set_conv_decomp)
    obtain kv1 kv2 where 1: "st_for (archive_surplus_event h from) xs kv = (Inr (), kv1)"
      "archive_surplus_event h from (ks_scoped h (event_name v)) kv1 = (Inr (), kv2)"
      "st_for (archive_surplus_event h from) ys kv2 = (Inr (), kv')"
      using ks(2) unfolding s by (auto simp: st_for_append split: prod.splits sum.splits)
    have g1: "kv_good kv1 h" using events_only_less [OF G 1(1)] by (simp add: only_less_def)
    have g2: "kv_good kv2 h" "dir_of kv2 h (event_name v) = None"
      using archive_event_only_less [OF g1 1(2)] event_name_version_name [OF v(2)] v(1) by (auto simp: only_less_def)
    have "only_less h kv2 kv'" by (rule events_only_less [OF g2(1) 1(3)])
    then show ?thesis using less g2(2) event_name_slash [of v] by (simp add: only_less_def)
  qed
qed

lemma commands_ok_all: "commands_ok d (2 ^ 64)"
proof -
  have "ck_sequence k < 2 ^ 64" if "ck_from_str n = Some k" for n k
    using that parse_uint_bound [of 64] by (auto simp: ck_from_str_def Let_def split: list.splits if_splits option.splits)
  then show ?thesis by (auto simp: commands_ok_def intro: less_imp_le)
qed

text \<open>
  C25: When events were stored and the info file was not, a successful warm-up archives the surplus
  events and yet keeps their effect: the cached aggregate has all of them applied, and no file is
  left for the first of them, from which the aggregate could be rebuilt.\<close>

theorem warm_up_keeps_surplus:
  assumes L: "agg_lawful A" and G: "kv_good (as_kv st) h" and D: "dir_ok A (dir_of (as_kv st) h) i a0 es"
    and I: "dir_of (as_kv st) h ''info.json'' = Some (Complete (enc (info_codec A) info))"
    and e: "last_event info < length es" "length es < 2 ^ 64" and c: "hm_get (as_cache st) h = None"
    and w: "warm_aggregate A rnd h st = (Inr (), st')"
  shows "hm_get (as_cache st') h = Some (replay A es a0) \<and> dir_of (as_kv st') h (event_name (Suc (last_event info))) = None"
proof -
  let ?a = "replay A es a0" and ?n = "Suc (last_event info)"
  have "info_ok A (dir_of (as_kv st) h) (last_event info) (2 ^ 64) info" using I commands_ok_all by (simp add: info_ok_def)
  then obtain kv1 where 1: "get_latest A h st = (Inr ?a, cache_update h ?a (st\<lparr>as_kv := kv1\<rparr>))" "kv_good kv1 h"
    "dir_ok A (dir_of kv1 h) i a0 es" "info_ok A (dir_of kv1 h) (last_event info) (2 ^ 64) info"
    using get_latest_loaded [OF L G D _ c] by blast
  let ?st1 = "cache_update h ?a (st\<lparr>as_kv := kv1\<rparr>)"
  have kv: "as_kv ?st1 = kv1" and cache: "hm_get (as_cache ?st1) h = Some ?a" by (simp_all add: cache_update_def hmap_simps)
  have g: "get_info A kv1 h = Inr info"
    using 1(2,4) by (simp add: get_info_def key_for_info_def get_dir info_ok_def agg_lawfulD [OF L])
  have v: "get_event A h ?n kv1 = (Inr (Some (es ! last_event info)), kv1)"
    using 1(3) e(1) by (intro get_event_dir(1) [OF 1(2) L]) (simp add: dir_ok_def)
  note w' = w [unfolded warm_aggregate_def st_bind_def st_err_def map_err_def 1(1)]
  obtain kv2 where 2: "archive_surplus_events h ?n kv1 = (Inr (), kv2)"
    using w' by (auto simp: on_kv_eq kv g v split: prod.splits sum.splits)
  obtain ks kv3 where 3: "st_for (archive_surplus_command h) ks kv2 = (Inr (), kv3)"
    "(if snapshot_version info \<noteq> ag_version A ?a then on_kv (store_snapshot A rnd h ?a) else st_ok ()) (?st1\<lparr>as_kv := kv3\<rparr>) = (Inr (), st')"
    using w' by (auto simp: on_kv_eq kv g v 2 split: prod.splits sum.splits)
  have "kv_good kv2 h" and n2: "dir_of kv2 h (event_name ?n) = None"
    using archive_events_gone [OF 1(2) 2, of ?n] e by (simp_all add: only_less_def)
  then have "only_less h kv2 kv3"
    by (intro commands_only_less [OF _ 3(1)])
  then have n3: "kv_good kv3 h" "dir_of kv3 h (event_name ?n) = None"
    using n2 event_name_slash [of ?n] by (simp_all add: only_less_def)
  show ?thesis
    using 3(2) store_snapshot_dir [OF n3(1), of A rnd ?a] n3(2) cache
    by (auto simp: on_kv_eq st_ok_def split: if_splits)
qed

text \<open>For the witness: the process stopped after the first event had been stored.\<close>

definition surplus_store :: "(nat \<times> nat, nat \<times> nat, demo_doc) agg_store" where
  "surplus_store = \<lparr>as_kv = \<lparr>kv_dirs = [''ctr''],
       kv_files = [(''ctr/delta-0.json'', Complete (Doc_init 10)), (''ctr/delta-1.json'', Complete (Doc_event (1, 5))),
         (''ctr/info.json'', Complete (Doc_info (info_default 6)))],
       kv_faults = (\<lambda>_. None)\<rparr>, as_cache = [], as_posted = []\<rparr>"

lemma show_digit: "show_nat 0 = ''0''" "show_nat 1 = ''1''" "show_nat (Suc 0) = ''1''" "show_nat 2 = ''2''" "show_nat (Suc (Suc 0)) = ''2''"
  by code_simp+

lemma surplus_names:
  "event_name_version ''delta-0.json'' = Some 0" "event_name_version ''delta-1.json'' = Some 1"
  by (simp_all add: event_name_version_def starts_with_def ends_with_def parse_simps)

lemma surplus_keys:
  "kv_keys (as_kv surplus_store) (Some ''ctr'') ''delta-'' = Inr [ks_scoped ''ctr'' ''delta-0.json'', ks_scoped ''ctr'' ''delta-1.json'']"
  by (simp add: kv_keys_def read_dir_files_def surplus_store_def split_path_def starts_with_def)

lemma surplus_latest:
  "get_latest (counter []) ''ctr'' surplus_store = (Inr (2, 15), surplus_store\<lparr>as_cache := [(''ctr'', (2, 15))]\<rparr>)"
  by (simp add: get_latest_def surplus_store_def on_kv_eq get_aggregate_def try_snapshot_def from_init_def st_bind_def st_ok_def
      kv_get_def counter_def key_for_snapshot_def key_for_backup_snapshot_def key_for_event_def file_path_scoped show_digit
      get_event_def Let_def cache_update_def)

lemma surplus_archived:
  "\<exists>kv'. archive_surplus_events ''ctr'' 1 (as_kv surplus_store) = (Inr (), kv') \<and> kv_good kv' ''ctr'' \<and>
     command_keys_ascending kv' ''ctr'' crit = Inr []"
  by (simp add: archive_surplus_events_def surplus_keys archive_surplus_event_def surplus_names st_err_def map_err_def
      archive_surplus_def ks_surplus_def move_key_def Let_def surplus_store_def sub_scope_scoped file_path_scoped key_for_event_def show_digit
      path_exists_def parent_exists_def split_path_def rename_file_def remove_file_def write_file_def kv_good_def kv_reliable_def
      command_keys_ascending_def kv_keys_def read_dir_files_def starts_with_def List.map_filter_simps)

theorem warm_up_keeps_surplus_witness:
  "\<exists>st'. warm_aggregate (counter []) ''a'' ''ctr'' surplus_store = (Inr (), st') \<and>
     hm_get (as_cache st') ''ctr'' = Some (2, 15) \<and> dir_of (as_kv st') ''ctr'' ''delta-1.json'' = None"
proof -
  let ?A = "counter []" and ?h = "''ctr''"
  have G: "kv_good (as_kv surplus_store) ?h" and I: "dir_of (as_kv surplus_store) ?h ''info.json'' = Some (Complete (enc (info_codec ?A) (info_default 6)))"
    and c: "hm_get (as_cache surplus_store) ?h = None"
    by (simp_all add: kv_good_def kv_reliable_def surplus_store_def dir_of_def kv_at_def counter_def)
  have none: "dir_of (as_kv surplus_store) ?h (event_name (Suc k)) = None" if "1 \<le> k" for k
  proof -
    have n: "''delta-0.json'' = event_name 0" "''delta-1.json'' = event_name 1"
      by (simp_all add: event_name_def show_digit)
    have "event_name (Suc k) \<noteq> ''delta-0.json''" "event_name (Suc k) \<noteq> ''delta-1.json''"
      unfolding n using that by simp_all
    then show ?thesis by (simp add: surplus_store_def dir_of_def kv_at_def)
  qed
  have D: "dir_ok ?A (dir_of (as_kv surplus_store) ?h) 10 (1, 10) [(1, 5)]"
    using none by (simp add: dir_ok_def) (simp add: event_name_def show_digit surplus_store_def dir_of_def kv_at_def counter_def)
  obtain kv2 where 2: "archive_surplus_events ?h 1 (as_kv surplus_store) = (Inr (), kv2)" "kv_good kv2 ?h"
    "command_keys_ascending kv2 ?h (criteria_default\<lparr>cr_after_sequence := Some 0\<rparr>) = Inr []"
    using surplus_archived by blast
  obtain kv3 where 3: "store_snapshot ?A ''a'' ?h (2, 15) kv2 = (Inr (), kv3)"
    using store_snapshot_dir [OF 2(2), of ?A "''a''" "(2, 15)"] by blast
  have e: "get_event ?A ?h (Suc 0) (as_kv surplus_store) = (Inr (Some (1, 5)), as_kv surplus_store)"
    using D by (intro get_event_dir(1) [OF G counter_lawful]) (simp add: dir_ok_def)
  have i: "get_info ?A (as_kv surplus_store) ?h = Inr (info_default 6)"
    using I by (simp add: get_info_def key_for_info_def get_dir [OF G] agg_lawfulD [OF counter_lawful])
  have v: "ag_version ?A (2, 15) = 2" by (simp add: counter_def)
  obtain st' where w: "warm_aggregate ?A ''a'' ?h surplus_store = (Inr (), st')"
    using 2(1,3) 3 by (simp add: warm_aggregate_def st_bind_def st_err_def map_err_def surplus_latest i e v on_kv_eq info_default_def)
  from warm_up_keeps_surplus [OF counter_lawful G D I _ _ c w] w show ?thesis
    by (auto simp: info_default_def event_name_def show_digit counter_def)
qed

text \<open>Recovery stops at a command that cannot be read: reading it has moved the file away, and archiving it
  as surplus fails.\<close>

lemma recovery_stops_at_corrupt_command:
  assumes G: "kv_good kv h" and d: "dir_of kv h (command_name k) = Some Truncated" and p: "pr_ok p"
  shows "fst (check_commands A h (k # ks) p kv) = Inl (KeyStore (UnknownKey (key_for_command h k)))"
proof -
  obtain kv' where kv': "archive_corrupt (ks_scoped h (command_name k)) kv = (Inr (), kv')" "kv_good kv' h"
    "dir_of kv' h = (dir_of kv h)(''corrupt/'' @ command_name k := dir_of kv h (command_name k), command_name k := None)"
    using corrupt_dir [OF G, of "command_name k"] d by auto
  have "get_command A h k kv = (Inl (CommandCorrupt h k), kv')"
    using kv'(1) d by (simp add: get_command_def key_for_command_name get_dir [OF G] st_bind_def st_err_def map_err_def st_fail_def)
  moreover have "archive_surplus_command h k kv' = (Inl (KeyStore (UnknownKey (key_for_command h k))), kv')"
    using kv'(3) by (simp add: archive_surplus_command_def archive_surplus_def st_err_def map_err_def move_key_def Let_def
        key_for_command_name file_path_scoped path_exists_iff dir_of_def fun_eq_iff)
  ultimately show ?thesis using p by simp
qed

end
