(* ===== verification/JsText.thy ===== *)
theory JsText
  imports Rust_Text
begin

text \<open>
  The JavaScript of the user interface bundle (\<^verbatim>\<open>src/lagosta/js/app.js\<close>) works on strings of
  UTF-16 code units, on arrays read out of range, and on regular expressions.  This theory holds
  the part of the language that the translated code uses:

    \<^item> strings as lists of code units, with literals \<^term>\<open>js ''...''\<close> for printable ASCII text and
      explicit code units for everything else;
    \<^item> array reads that give \<^term>\<open>None\<close> where JavaScript gives \<^verbatim>\<open>undefined\<close>;
    \<^item> \<^verbatim>\<open>String.prototype.replace\<close>, \<^verbatim>\<open>split\<close>, \<^verbatim>\<open>charAt\<close>, \<^verbatim>\<open>toLowerCase\<close> and \<^verbatim>\<open>Math.round\<close>;
    \<^item> regular expressions as a datatype with the backtracking matcher of the language: the
      results of a match attempt are listed in the order in which JavaScript tries them.

  Case conversion covers the bicameral alphabets that occur in the bundle (Latin up to
  U+017F, Greek, Cyrillic); the units with a multi-unit lower case (such as U+0130) stay as
  they are.
\<close>

type_synonym js = "int list"

named_theorems js_simps

definition js :: "string \<Rightarrow> js" where
  "js s = map of_char s"

definition jnum :: "nat \<Rightarrow> js" where
  "jnum n = js (show_nat n)"

text \<open>Array reads, truthiness and the value of \<^verbatim>\<open>a || b\<close> on possibly undefined texts.\<close>

definition js_nth :: "'a list \<Rightarrow> nat \<Rightarrow> 'a option" where
  "js_nth xs i = (if i < length xs then Some (xs ! i) else None)"

definition js_truthy :: "js option \<Rightarrow> bool" where
  "js_truthy x \<longleftrightarrow> x \<noteq> None \<and> x \<noteq> Some []"

definition js_or :: "js option \<Rightarrow> js option \<Rightarrow> js option" where
  "js_or a b = (if js_truthy a then a else b)"

definition js_char_at :: "js \<Rightarrow> nat \<Rightarrow> js" where
  "js_char_at s i = (if i < length s then [s ! i] else [])"

text \<open>\<^verbatim>\<open>s.split(u)\<close> for a separator of one unit, and the part of \<^verbatim>\<open>s\<close> before the first \<^verbatim>\<open>u\<close>
  (empty when \<^verbatim>\<open>u\<close> does not occur).\<close>

fun js_split :: "int \<Rightarrow> js \<Rightarrow> js list" where
  "js_split u [] = [[]]"
| "js_split u (c # cs) =
     (if c = u then [] # js_split u cs
      else (case js_split u cs of [] \<Rightarrow> [[c]] | w # ws \<Rightarrow> (c # w) # ws))"

definition js_before :: "int \<Rightarrow> js \<Rightarrow> js" where
  "js_before u s = (if u \<in> set s then takeWhile (\<lambda>c. c \<noteq> u) s else [])"

definition js_starts_with :: "js \<Rightarrow> js \<Rightarrow> bool" where
  "js_starts_with p s \<longleftrightarrow> take (length p) s = p"

definition js_ends_with :: "js \<Rightarrow> js \<Rightarrow> bool" where
  "js_ends_with p s \<longleftrightarrow> length p \<le> length s \<and> drop (length s - length p) s = p"

fun js_contains :: "js \<Rightarrow> js \<Rightarrow> bool" where
  "js_contains p [] \<longleftrightarrow> p = []"
| "js_contains p (c # cs) \<longleftrightarrow> js_starts_with p (c # cs) \<or> js_contains p cs"

text \<open>\<^verbatim>\<open>s.substring(0, s.indexOf(p))\<close>; an absent \<^verbatim>\<open>p\<close> gives the index -1 and the empty text.\<close>

fun js_index_of :: "js \<Rightarrow> js \<Rightarrow> nat option" where
  "js_index_of p [] = (if p = [] then Some 0 else None)"
| "js_index_of p (c # cs) =
     (if js_starts_with p (c # cs) then Some 0 else map_option Suc (js_index_of p cs))"

definition js_until :: "js \<Rightarrow> js \<Rightarrow> js" where
  "js_until p s = (case js_index_of p s of None \<Rightarrow> [] | Some i \<Rightarrow> take i s)"

text \<open>\<^verbatim>\<open>s.replace('%d', n)\<close>, \<^verbatim>\<open>s.replace(/%d/i, n)\<close>, \<^verbatim>\<open>s.replace(/%s/i, t)\<close> and \<^verbatim>\<open>s.replace('{}', t)\<close>:
  the first occurrence of a two-unit pattern is replaced.\<close>

fun js_replace_pair :: "int list \<Rightarrow> int list \<Rightarrow> js \<Rightarrow> js \<Rightarrow> js" where
  "js_replace_pair us vs t (a # b # cs) =
     (if a \<in> set us \<and> b \<in> set vs then t @ cs else a # js_replace_pair us vs t (b # cs))"
| "js_replace_pair us vs t [a] = [a]"
| "js_replace_pair us vs t [] = []"

definition js_subst_num :: "nat \<Rightarrow> js \<Rightarrow> js" where
  "js_subst_num n s = js_replace_pair [0x25] [0x64, 0x44] (jnum n) s"

definition js_subst_str :: "js \<Rightarrow> js \<Rightarrow> js" where
  "js_subst_str t s = js_replace_pair [0x25] [0x73, 0x53] t s"

definition js_subst_braces :: "js \<Rightarrow> js \<Rightarrow> js" where
  "js_subst_braces t s = js_replace_pair [0x7B] [0x7D] t s"

text \<open>\<^verbatim>\<open>s.replace(/u/g, v)\<close> for single units, and \<^verbatim>\<open>s.replace(/[...]/g, f)\<close> with the function given
  by a table.\<close>

definition js_replace_unit :: "int \<Rightarrow> int \<Rightarrow> js \<Rightarrow> js" where
  "js_replace_unit a b s = map (\<lambda>c. if c = a then b else c) s"

definition js_replace_units :: "(int \<times> js) list \<Rightarrow> js \<Rightarrow> js" where
  "js_replace_units tab s =
     concat (map (\<lambda>c. case map_of tab c of None \<Rightarrow> [c] | Some t \<Rightarrow> t) s)"

text \<open>Case conversion of one unit.\<close>

definition unit_lower :: "int \<Rightarrow> int" where
  "unit_lower c =
     (if 0x41 \<le> c \<and> c \<le> 0x5A then c + 0x20
      else if c < 0xC0 then c
      else if c \<le> 0xDE \<and> c \<noteq> 0xD7 then c + 0x20
      else if 0x100 \<le> c \<and> c \<le> 0x137 \<and> c \<noteq> 0x130 \<and> even c then c + 1
      else if 0x139 \<le> c \<and> c \<le> 0x148 \<and> odd c then c + 1
      else if 0x14A \<le> c \<and> c \<le> 0x177 \<and> even c then c + 1
      else if c = 0x178 then 0xFF
      else if 0x179 \<le> c \<and> c \<le> 0x17D \<and> odd c then c + 1
      else if c = 0x386 then 0x3AC
      else if 0x388 \<le> c \<and> c \<le> 0x38A then c + 0x25
      else if c = 0x38C then 0x3CC
      else if c = 0x38E \<or> c = 0x38F then c + 0x3F
      else if 0x391 \<le> c \<and> c \<le> 0x3AB \<and> c \<noteq> 0x3A2 then c + 0x20
      else if 0x400 \<le> c \<and> c \<le> 0x40F then c + 0x50
      else if 0x410 \<le> c \<and> c \<le> 0x42F then c + 0x20
      else if 0x48A \<le> c \<and> c \<le> 0x4BF \<and> even c then c + 1
      else if 0x4D0 \<le> c \<and> c \<le> 0x52F \<and> even c then c + 1
      else c)"

definition unit_upper :: "int \<Rightarrow> int" where
  "unit_upper c =
     (if 0x61 \<le> c \<and> c \<le> 0x7A then c - 0x20
      else if c < 0xE0 then c
      else if c \<le> 0xFE \<and> c \<noteq> 0xF7 then c - 0x20
      else if c = 0xFF then 0x178
      else if 0x100 \<le> c \<and> c \<le> 0x137 \<and> c \<noteq> 0x131 \<and> odd c then c - 1
      else if 0x139 \<le> c \<and> c \<le> 0x148 \<and> even c then c - 1
      else if 0x14A \<le> c \<and> c \<le> 0x177 \<and> odd c then c - 1
      else if 0x179 \<le> c \<and> c \<le> 0x17E \<and> even c then c - 1
      else if c = 0x3AC then 0x386
      else if 0x3AD \<le> c \<and> c \<le> 0x3AF then c - 0x25
      else if c = 0x3C2 then 0x3A3
      else if 0x3B1 \<le> c \<and> c \<le> 0x3CB then c - 0x20
      else if c = 0x3CC then 0x38C
      else if c = 0x3CD \<or> c = 0x3CE then c - 0x3F
      else if 0x450 \<le> c \<and> c \<le> 0x45F then c - 0x50
      else if 0x430 \<le> c \<and> c \<le> 0x44F then c - 0x20
      else if 0x48A \<le> c \<and> c \<le> 0x4BF \<and> odd c then c - 1
      else if 0x4D0 \<le> c \<and> c \<le> 0x52F \<and> odd c then c - 1
      else c)"

definition js_lower :: "js \<Rightarrow> js" where
  "js_lower s = map unit_lower s"

text \<open>\<^verbatim>\<open>trim\<close> on the white space and line terminators of the language, \<^verbatim>\<open>parseInt(s, 10)\<close> on a text of digits, and \<^verbatim>\<open>Math.round(p / q)\<close>
  in exact arithmetic.\<close>

definition js_blank :: "int \<Rightarrow> bool" where
  "js_blank c \<longleftrightarrow>
     c = 0x20 \<or> (9 \<le> c \<and> c \<le> 13) \<or> c = 0xA0 \<or> c = 0x1680 \<or> (0x2000 \<le> c \<and> c \<le> 0x200A) \<or>
     c = 0x2028 \<or> c = 0x2029 \<or> c = 0x202F \<or> c = 0x205F \<or> c = 0x3000 \<or> c = 0xFEFF"

definition js_trim :: "js \<Rightarrow> js" where
  "js_trim s = rev (dropWhile js_blank (rev (dropWhile js_blank s)))"

definition js_digit :: "int \<Rightarrow> bool" where
  "js_digit c \<longleftrightarrow> 0x30 \<le> c \<and> c \<le> 0x39"

definition js_digits_value :: "js \<Rightarrow> nat" where
  "js_digits_value s = foldl (\<lambda>v c. 10 * v + nat (c - 0x30)) 0 s"

definition js_int_prefix :: "js \<Rightarrow> nat option" where
  "js_int_prefix s =
     (case takeWhile js_digit s of [] \<Rightarrow> None | ds \<Rightarrow> Some (js_digits_value ds))"

definition js_round :: "int \<Rightarrow> int \<Rightarrow> int" where
  "js_round p q = (2 * p + q) div (2 * q)"

section \<open>Regular expressions\<close>

text \<open>
  \<^term>\<open>Lit\<close> is a literal text, \<^term>\<open>Cls\<close> a character class given by its ranges, \<^term>\<open>NotCls\<close> a negated
  class, \<^term>\<open>Plus\<close> the greedy \<^verbatim>\<open>+\<close>, \<^term>\<open>Opt\<close> the greedy \<^verbatim>\<open>?\<close>, \<^term>\<open>AnyUnit\<close> the dot, \<^term>\<open>Start\<close> and \<^term>\<open>End\<close> the anchors.
  A bounded repetition \<^verbatim>\<open>r{m,n}\<close> is \<^verbatim>\<open>m\<close> copies followed by nested optional ones.
\<close>

datatype rx =
    Lit js
  | Cls "(int \<times> int) list"
  | NotCls "(int \<times> int) list"
  | AnyUnit
  | Start
  | End
  | Opt rx
  | Plus rx
  | Seq "rx list"
  | Alt "rx list"

text \<open>The pattern and whether the flag \<^verbatim>\<open>i\<close> is set.\<close>

datatype regex = Regex (rx_ignore_case: bool) (rx_pattern: rx)

definition in_class :: "bool \<Rightarrow> (int \<times> int) list \<Rightarrow> int \<Rightarrow> bool" where
  "in_class i rs c \<longleftrightarrow>
     list_ex (\<lambda>(a, b). a \<le> c \<and> c \<le> b) rs \<or>
     i \<and> (list_ex (\<lambda>(a, b). a \<le> unit_lower c \<and> unit_lower c \<le> b) rs \<or>
          list_ex (\<lambda>(a, b). a \<le> unit_upper c \<and> unit_upper c \<le> b) rs)"

definition unit_matches :: "bool \<Rightarrow> int \<Rightarrow> int \<Rightarrow> bool" where
  "unit_matches i a c \<longleftrightarrow> a = c \<or> i \<and> unit_upper a = unit_upper c"

fun lit_run :: "bool \<Rightarrow> js \<Rightarrow> js \<Rightarrow> js option" where
  "lit_run i [] s = Some s"
| "lit_run i (a # p) [] = None"
| "lit_run i (a # p) (c # s) = (if unit_matches i a c then lit_run i p s else None)"

text \<open>The states are pairs: whether the position is the beginning of the subject, and the text
  that is left.  A repetition goes on only after an iteration that consumed something, so the
  length of the text bounds the number of iterations.\<close>

fun plus_run :: "(bool \<times> js \<Rightarrow> (bool \<times> js) list) \<Rightarrow> nat \<Rightarrow> bool \<times> js \<Rightarrow> (bool \<times> js) list" where
  "plus_run f 0 x = []"
| "plus_run f (Suc n) x =
     concat (map (\<lambda>y. (if length (snd y) < length (snd x) then plus_run f n y else []) @ [y]) (f x))"

fun rx_run :: "bool \<Rightarrow> rx \<Rightarrow> bool \<times> js \<Rightarrow> (bool \<times> js) list"
  and rx_seq :: "bool \<Rightarrow> rx list \<Rightarrow> bool \<times> js \<Rightarrow> (bool \<times> js) list"
  and rx_alt :: "bool \<Rightarrow> rx list \<Rightarrow> bool \<times> js \<Rightarrow> (bool \<times> js) list" where
  "rx_run i (Lit p) (b, s) =
     (case lit_run i p s of None \<Rightarrow> [] | Some t \<Rightarrow> [(b \<and> p = [], t)])"
| "rx_run i (Cls rs) (b, s) =
     (case s of [] \<Rightarrow> [] | c # t \<Rightarrow> if in_class i rs c then [(False, t)] else [])"
| "rx_run i (NotCls rs) (b, s) =
     (case s of [] \<Rightarrow> [] | c # t \<Rightarrow> if in_class i rs c then [] else [(False, t)])"
| "rx_run i AnyUnit (b, s) =
     (case s of [] \<Rightarrow> [] | c # t \<Rightarrow> if c \<in> set [0xA, 0xD, 0x2028, 0x2029] then [] else [(False, t)])"
| "rx_run i Start (b, s) = (if b then [(b, s)] else [])"
| "rx_run i End (b, s) = (if s = [] then [(b, s)] else [])"
| "rx_run i (Opt r) (b, s) = rx_run i r (b, s) @ [(b, s)]"
| "rx_run i (Plus r) (b, s) = plus_run (rx_run i r) (Suc (length s)) (b, s)"
| "rx_run i (Seq rs) (b, s) = rx_seq i rs (b, s)"
| "rx_run i (Alt rs) (b, s) = rx_alt i rs (b, s)"
| "rx_seq i [] x = [x]"
| "rx_seq i (r # rs) x = concat (map (rx_seq i rs) (rx_run i r x))"
| "rx_alt i [] x = []"
| "rx_alt i (r # rs) x = rx_run i r x @ rx_alt i rs x"

text \<open>\<^verbatim>\<open>s.match(r)[0]\<close>: the first attempt, from the leftmost position, that succeeds; and \<^verbatim>\<open>r.test(s)\<close>.\<close>

fun rx_search :: "bool \<Rightarrow> rx \<Rightarrow> bool \<Rightarrow> js \<Rightarrow> js option" where
  "rx_search i r b [] = (case rx_run i r (b, []) of [] \<Rightarrow> None | _ \<Rightarrow> Some [])"
| "rx_search i r b (c # s) =
     (case rx_run i r (b, c # s) of
        [] \<Rightarrow> rx_search i r False s
      | (_, t) # _ \<Rightarrow> Some (take (length (c # s) - length t) (c # s)))"

definition rx_match :: "regex \<Rightarrow> js \<Rightarrow> js option" where
  "rx_match r s = rx_search (rx_ignore_case r) (rx_pattern r) True s"

definition rx_test :: "regex \<Rightarrow> js \<Rightarrow> bool" where
  "rx_test r s \<longleftrightarrow> rx_match r s \<noteq> None"

definition digits_1_2 :: rx where
  "digits_1_2 = Seq [Cls [(0x30, 0x39)], Opt (Cls [(0x30, 0x39)])]"

text \<open>Decimal numbers, digit by digit; this is also how they are evaluated.\<close>

lemma of_digit_char: "n < 10 \<Longrightarrow> of_char (digit_char n) = 0x30 + int n"
proof -
  assume "n < 10"
  then have "(of_char (digit_char n) :: nat) = 48 + n" by (simp add: digit_char_def)
  then have "int (of_char (digit_char n)) = 48 + int n" by simp
  then show ?thesis by (simp only: of_nat_of_char)
qed

lemma jnum_digits [code]:
  "jnum n = (if n < 10 then [0x30 + int n] else jnum (n div 10) @ [0x30 + int (n mod 10)])"
proof (cases "n < 10")
  case True
  then show ?thesis by (simp add: jnum_def js_def show_nat.simps [of n] of_digit_char)
next
  case False
  have "show_nat n = show_nat (n div 10) @ [digit_char (n mod 10)]"
    using False by (subst show_nat.simps) simp
  then show ?thesis using False by (simp add: jnum_def js_def of_digit_char)
qed

text \<open>Every text that a match gives is a part of the subject.\<close>

lemma plus_run_suffix:
  assumes "(b', t) \<in> set (plus_run f n (b, s))"
    and step: "\<And>b s b' t. (b', t) \<in> set (f (b, s)) \<Longrightarrow> \<exists>p. s = p @ t"
  shows "\<exists>p. s = p @ t"
  using assms(1)
proof (induction n arbitrary: b s)
  case (Suc n)
  then obtain c u where u: "(c, u) \<in> set (f (b, s))"
    and d: "(b', t) \<in> set (plus_run f n (c, u)) \<or> (b', t) = (c, u)"
    by (auto split: if_splits)
  obtain p where p: "s = p @ u" using step [OF u] by blast
  show ?case
  proof (cases "(b', t) = (c, u)")
    case True
    then show ?thesis using p by blast
  next
    case False
    then obtain q where "u = q @ t" using d Suc.IH by blast
    then show ?thesis using p by simp
  qed
qed simp

lemma lit_run_suffix: "lit_run i p s = Some t \<Longrightarrow> \<exists>q. s = q @ t"
  by (induction i p s rule: lit_run.induct) (auto split: if_splits)

lemma rx_run_suffix:
  shows "(b', t) \<in> set (rx_run i r (b, s)) \<Longrightarrow> \<exists>p. s = p @ t"
    and "(b', t) \<in> set (rx_seq i rs (b, s)) \<Longrightarrow> \<exists>p. s = p @ t"
    and "(b', t) \<in> set (rx_alt i rs (b, s)) \<Longrightarrow> \<exists>p. s = p @ t"
proof (induction i r "(b, s)" and i rs "(b, s)" and i rs "(b, s)" arbitrary: b s b' t and b s b' t and b s b' t
    rule: rx_run_rx_seq_rx_alt.induct)
  case (1 i p b s)
  then show ?case by (auto split: option.splits dest: lit_run_suffix [OF sym])
next
  case (2 i rs b s)
  then show ?case by (auto split: list.splits if_splits)
next
  case (3 i rs b s)
  then show ?case by (auto split: list.splits if_splits)
next
  case (4 i b s)
  then show ?case by (auto split: list.splits if_splits)
next
  case (8 i r b s)
  have "(b', t) \<in> set (plus_run (rx_run i r) (Suc (length s)) (b, s))" using 8(2) by simp
  then show ?case by (rule plus_run_suffix) (rule 8(1))
next
  case (12 i r rs b s)
  then obtain b1 u where u: "(b1, u) \<in> set (rx_run i r (b, s))" and v: "(b', t) \<in> set (rx_seq i rs (b1, u))"
    by auto
  obtain p where "s = p @ u" using 12(1) [OF u] by blast
  moreover obtain q where "u = q @ t" using 12(2) [OF u v] by blast
  ultimately show ?case by auto
qed (auto split: if_splits)

end
