(* ===== verification/MomentCore.thy ===== *)
theory MomentCore
  imports JsText
begin

text \<open>
  The date library inside the user interface bundle (\<^verbatim>\<open>src/lagosta/js/app.js\<close>, lines 301 and 303; the
  bundle carries version 2.29.1 of it).  Times in the interface are shown as \<open>5 minutes ago\<close> in the
  language of the user, so the parts modelled here are the ones behind that text and behind the
  calendar arithmetic they share:

    \<^item> the configuration of a language as a record (\<^verbatim>\<open>moment_locale\<close>, one field per property of the
      objects the bundle registers), the base configuration and \<^verbatim>\<open>mergeConfigs\<close>;
    \<^item> the methods of a registered language: \<^verbatim>\<open>calendar\<close>, \<^verbatim>\<open>relativeTime\<close>, \<^verbatim>\<open>pastFuture\<close>, \<^verbatim>\<open>ordinal\<close>,
      \<^verbatim>\<open>months\<close>, \<^verbatim>\<open>weekdays\<close>, \<^verbatim>\<open>meridiem\<close>, \<^verbatim>\<open>isPM\<close> and the repair of twelve-hour times \<^verbatim>\<open>meridiemFixWrap\<close>;
    \<^item> week numbering: \<^verbatim>\<open>firstWeekOffset\<close>, \<^verbatim>\<open>weekOfYear\<close>, \<^verbatim>\<open>weeksInYear\<close>, \<^verbatim>\<open>dayOfYearFromWeeks\<close>;
    \<^item> durations: \<^verbatim>\<open>as\<close>, \<^verbatim>\<open>valueOf\<close> and \<^verbatim>\<open>humanize\<close> with its thresholds.

  A value \<^verbatim>\<open>undefined\<close> that would reach a text, and a read of a property of \<^verbatim>\<open>undefined\<close>, is \<^term>\<open>None\<close>.
  Numbers are integers; the divisions inside \<^verbatim>\<open>Math.round\<close> and \<^verbatim>\<open>Math.floor\<close> are exact where the
  program computes with doubles.
\<close>

section \<open>The configuration of a language\<close>

text \<open>Names of months and weekdays: one list; a form that stands alone, a form used in a date and
  the test on the format that selects the second; or a function of the format.\<close>

datatype names =
    Names "js list"
  | NamesAlt (standalone: "js list") (in_format: "js list") (is_format: "regex option")
  | NamesFun "js list" "js \<Rightarrow> js list"

text \<open>A calendar entry is a format or a function of the moment (its weekday, its hour, and whether
  it lies in the week of the reference time).\<close>

datatype cal = CalText js | CalFun "nat \<Rightarrow> nat \<Rightarrow> bool \<Rightarrow> js option"

text \<open>An entry of \<^verbatim>\<open>relativeTime\<close>: a text, a function of number, \<^verbatim>\<open>withoutSuffix\<close>, key and \<^verbatim>\<open>isFuture\<close>, or
  (for \<^verbatim>\<open>past\<close> and \<^verbatim>\<open>future\<close>) a function of the text.\<close>

datatype rel =
    RelText js
  | RelNum "nat \<Rightarrow> bool \<Rightarrow> string \<Rightarrow> bool \<Rightarrow> js option"
  | RelStr "js \<Rightarrow> js option"

datatype ord = OrdText js | OrdFun "nat \<Rightarrow> string \<Rightarrow> js option"

datatype era_bound = UntilDate js | UntilInfinity | UntilMinusInfinity

record era =
  era_since :: js
  era_until :: "era_bound option"
  era_offset :: nat
  era_name :: js
  era_narrow :: js
  era_abbr :: js

record moment_locale =
  l_abbr :: string
  l_months :: names
  l_months_short :: names
  l_weekdays :: names
  l_weekdays_short :: "js list"
  l_weekdays_min :: "js list"
  l_long_date_format :: "(string \<times> js) list"
  l_calendar :: "(string \<times> cal) list"
  l_relative_time :: "(string \<times> rel) list"
  l_ordinal :: "ord option"
  l_meridiem :: "(nat \<Rightarrow> nat \<Rightarrow> bool \<Rightarrow> js) option"
  l_is_pm :: "(js \<Rightarrow> bool) option"
  l_meridiem_hour :: "(nat \<Rightarrow> js \<Rightarrow> nat option) option"
  l_preparse :: "(js \<Rightarrow> js) option"
  l_postformat :: "(js \<Rightarrow> js) option"
  l_week :: "(nat \<times> nat) option"
  l_meridiem_parse :: "regex option"
  l_ordinal_parse :: "regex option"
  l_parse :: "(string \<times> regex list) list"
  l_months_parse_exact :: bool
  l_weekdays_parse_exact :: bool
  l_invalid_date :: "js option"
  l_eras :: "era list"
  l_era_year :: "(regex \<times> (js \<Rightarrow> js option \<Rightarrow> nat option)) option"

text \<open>The base configuration, and the English one that the library registers itself.  A list that
  a configuration leaves out is the empty list.\<close>

definition default_months :: "js list" where
  "default_months = [js ''January'', js ''February'', js ''March'', js ''April'', js ''May'', js ''June'',
     js ''July'', js ''August'', js ''September'', js ''October'', js ''November'', js ''December'']"

definition default_months_short :: "js list" where
  "default_months_short = [js ''Jan'', js ''Feb'', js ''Mar'', js ''Apr'', js ''May'', js ''Jun'',
     js ''Jul'', js ''Aug'', js ''Sep'', js ''Oct'', js ''Nov'', js ''Dec'']"

definition default_weekdays :: "js list" where
  "default_weekdays = [js ''Sunday'', js ''Monday'', js ''Tuesday'', js ''Wednesday'', js ''Thursday'',
     js ''Friday'', js ''Saturday'']"

definition default_calendar :: "(string \<times> cal) list" where
  "default_calendar = [
     (''sameDay'', CalText (js ''[Today at] LT'')),
     (''nextDay'', CalText (js ''[Tomorrow at] LT'')),
     (''nextWeek'', CalText (js ''dddd [at] LT'')),
     (''lastDay'', CalText (js ''[Yesterday at] LT'')),
     (''lastWeek'', CalText (js ''[Last] dddd [at] LT'')),
     (''sameElse'', CalText (js ''L''))]"

definition default_long_date_format :: "(string \<times> js) list" where
  "default_long_date_format = [
     (''LTS'', js ''h:mm:ss A''),
     (''LT'', js ''h:mm A''),
     (''L'', js ''MM/DD/YYYY''),
     (''LL'', js ''MMMM D, YYYY''),
     (''LLL'', js ''MMMM D, YYYY h:mm A''),
     (''LLLL'', js ''dddd, MMMM D, YYYY h:mm A'')]"

definition default_relative_time :: "(string \<times> rel) list" where
  "default_relative_time = [
     (''future'', RelText (js ''in %s'')),
     (''past'', RelText (js ''%s ago'')),
     (''s'', RelText (js ''a few seconds'')),
     (''ss'', RelText (js ''%d seconds'')),
     (''m'', RelText (js ''a minute'')),
     (''mm'', RelText (js ''%d minutes'')),
     (''h'', RelText (js ''an hour'')),
     (''hh'', RelText (js ''%d hours'')),
     (''d'', RelText (js ''a day'')),
     (''dd'', RelText (js ''%d days'')),
     (''w'', RelText (js ''a week'')),
     (''ww'', RelText (js ''%d weeks'')),
     (''M'', RelText (js ''a month'')),
     (''MM'', RelText (js ''%d months'')),
     (''y'', RelText (js ''a year'')),
     (''yy'', RelText (js ''%d years''))]"

definition default_meridiem_parse :: regex where
  "default_meridiem_parse =
     Regex True (Seq [Cls [(0x61, 0x61), (0x70, 0x70)], Opt (Lit (js ''.'')), Opt (Lit (js ''m'')),
       Opt (Lit (js ''.''))])"

definition base_config :: moment_locale where
  "base_config = \<lparr>
     l_abbr = [],
     l_months = Names default_months,
     l_months_short = Names default_months_short,
     l_weekdays = Names default_weekdays,
     l_weekdays_short = [js ''Sun'', js ''Mon'', js ''Tue'', js ''Wed'', js ''Thu'', js ''Fri'', js ''Sat''],
     l_weekdays_min = [js ''Su'', js ''Mo'', js ''Tu'', js ''We'', js ''Th'', js ''Fr'', js ''Sa''],
     l_long_date_format = default_long_date_format,
     l_calendar = default_calendar,
     l_relative_time = default_relative_time,
     l_ordinal = Some (OrdText (js ''%d'')),
     l_meridiem = None,
     l_is_pm = None,
     l_meridiem_hour = None,
     l_preparse = None,
     l_postformat = None,
     l_week = Some (0, 6),
     l_meridiem_parse = Some default_meridiem_parse,
     l_ordinal_parse = Some (Regex False digits_1_2),
     l_parse = [],
     l_months_parse_exact = False,
     l_weekdays_parse_exact = False,
     l_invalid_date = Some (js ''Invalid date''),
     l_eras = [],
     l_era_year = None \<rparr>"

definition en_ordinal :: "nat \<Rightarrow> string \<Rightarrow> js option" where
  "en_ordinal n period =
     Some (jnum n @ (if n mod 100 div 10 = 1 then js ''th''
        else if n mod 10 = 1 then js ''st''
        else if n mod 10 = 2 then js ''nd''
        else if n mod 10 = 3 then js ''rd''
        else js ''th''))"

definition en_eras :: "era list" where
  "en_eras = [
     \<lparr>era_since = js ''0001-01-01'', era_until = Some UntilInfinity, era_offset = 1,
      era_name = js ''Anno Domini'', era_narrow = js ''AD'', era_abbr = js ''AD''\<rparr>,
     \<lparr>era_since = js ''0000-12-31'', era_until = Some UntilMinusInfinity, era_offset = 1,
      era_name = js ''Before Christ'', era_narrow = js ''BC'', era_abbr = js ''BC''\<rparr>]"

definition locale_en :: moment_locale where
  "locale_en = base_config\<lparr>
     l_abbr := ''en'',
     l_ordinal := Some (OrdFun en_ordinal),
     l_ordinal_parse := Some (Regex False (Seq [digits_1_2,
       Alt [Lit (js ''th''), Lit (js ''st''), Lit (js ''nd''), Lit (js ''rd'')]])),
     l_eras := en_eras\<rparr>"

text \<open>\<^verbatim>\<open>mergeConfigs\<close>: objects are merged property by property, everything else is replaced when the
  new configuration has it.\<close>

definition or_default :: "'a option \<Rightarrow> 'a option \<Rightarrow> 'a option" where
  "or_default child parent = (case child of None \<Rightarrow> parent | Some x \<Rightarrow> Some x)"

definition mergeConfigs :: "moment_locale \<Rightarrow> moment_locale \<Rightarrow> moment_locale" where
  "mergeConfigs parent child = child\<lparr>
     l_long_date_format := l_long_date_format child @ l_long_date_format parent,
     l_calendar := l_calendar child @ l_calendar parent,
     l_relative_time := l_relative_time child @ l_relative_time parent,
     l_ordinal := or_default (l_ordinal child) (l_ordinal parent),
     l_meridiem := or_default (l_meridiem child) (l_meridiem parent),
     l_is_pm := or_default (l_is_pm child) (l_is_pm parent),
     l_meridiem_hour := or_default (l_meridiem_hour child) (l_meridiem_hour parent),
     l_preparse := or_default (l_preparse child) (l_preparse parent),
     l_postformat := or_default (l_postformat child) (l_postformat parent),
     l_week := or_default (l_week child) (l_week parent),
     l_meridiem_parse := or_default (l_meridiem_parse child) (l_meridiem_parse parent),
     l_ordinal_parse := or_default (l_ordinal_parse child) (l_ordinal_parse parent),
     l_parse := l_parse child @ l_parse parent,
     l_months_parse_exact := l_months_parse_exact child \<or> l_months_parse_exact parent,
     l_weekdays_parse_exact := l_weekdays_parse_exact child \<or> l_weekdays_parse_exact parent,
     l_invalid_date := or_default (l_invalid_date child) (l_invalid_date parent),
     l_eras := (if l_eras child = [] then l_eras parent else l_eras child),
     l_era_year := or_default (l_era_year child) (l_era_year parent)\<rparr>"

definition define_locale :: "moment_locale \<Rightarrow> moment_locale" where
  "define_locale config = mergeConfigs base_config config"

section \<open>The methods of a language\<close>

text \<open>Month and weekday names: \<^verbatim>\<open>localeMonths\<close>, \<^verbatim>\<open>localeMonthsShort\<close> and \<^verbatim>\<open>localeWeekdays\<close> with a moment,
  given by its month or weekday, and the format.\<close>

definition months_in_format :: regex where
  "months_in_format =
     (let gap = Plus (Alt [Seq [Lit (js ''[''), Opt (Plus (NotCls [(0x5B, 0x5B), (0x5D, 0x5D)])), Lit (js '']'')],
                           Cls [(9, 13), (0x20, 0x20), (0xA0, 0xA0), (0x1680, 0x1680), (0x2000, 0x200A),
                                (0x2028, 0x2029), (0x202F, 0x202F), (0x205F, 0x205F), (0x3000, 0x3000),
                                (0xFEFF, 0xFEFF)]])
      in Regex False (Seq [Lit (js ''D''), Opt (Cls [(0x6F, 0x6F), (0x44, 0x44)]), gap,
           Lit (js ''MMM''), Opt (Lit (js ''M''))]))"

definition names_for :: "regex \<Rightarrow> names \<Rightarrow> js \<Rightarrow> js list" where
  "names_for dflt ns format =
     (case ns of
        Names xs \<Rightarrow> xs
      | NamesAlt alone inside r \<Rightarrow>
          if rx_test (case r of None \<Rightarrow> dflt | Some r \<Rightarrow> r) format then inside else alone
      | NamesFun alone f \<Rightarrow> f format)"

definition standalone_names :: "names \<Rightarrow> js list" where
  "standalone_names ns =
     (case ns of Names xs \<Rightarrow> xs | NamesAlt alone inside r \<Rightarrow> alone | NamesFun alone f \<Rightarrow> alone)"

definition locale_months :: "moment_locale \<Rightarrow> nat \<Rightarrow> js \<Rightarrow> js option" where
  "locale_months l month format = js_nth (names_for months_in_format (l_months l) format) month"

definition locale_months_short :: "moment_locale \<Rightarrow> nat \<Rightarrow> js \<Rightarrow> js option" where
  "locale_months_short l month format =
     js_nth (names_for months_in_format (l_months_short l) format) month"

definition locale_weekdays :: "moment_locale \<Rightarrow> nat \<Rightarrow> js \<Rightarrow> js option" where
  "locale_weekdays l day format = js_nth (names_for months_in_format (l_weekdays l) format) day"

text \<open>The names for every format: as many as there are months or weekdays.\<close>

definition names_length :: "nat \<Rightarrow> names \<Rightarrow> bool" where
  "names_length n ns \<longleftrightarrow>
     (case ns of
        Names xs \<Rightarrow> length xs = n
      | NamesAlt alone inside r \<Rightarrow> length alone = n \<and> length inside = n
      | NamesFun alone f \<Rightarrow> \<forall>format. length (f format) = n)"

definition shiftWeekdays :: "'a list \<Rightarrow> nat \<Rightarrow> 'a list" where
  "shiftWeekdays ws n = drop n (take 7 ws) @ take n ws"

text \<open>\<^verbatim>\<open>handleStrictParse\<close>: the month of a name, for the languages that ask for exact parsing.  The
  tables hold the names for the empty format in lower case; \<^term>\<open>True\<close> for \<^verbatim>\<open>MMM\<close>, \<^term>\<open>False\<close> for \<^verbatim>\<open>MMMM\<close>.\<close>

fun index_of :: "'a \<Rightarrow> 'a list \<Rightarrow> nat option" where
  "index_of x [] = None"
| "index_of x (y # ys) = (if y = x then Some 0 else map_option Suc (index_of x ys))"

definition months_table :: "names \<Rightarrow> js list" where
  "months_table ns = map js_lower (names_for months_in_format ns [])"

definition handleStrictParse :: "moment_locale \<Rightarrow> js \<Rightarrow> bool \<Rightarrow> bool \<Rightarrow> nat option" where
  "handleStrictParse l monthName short strict =
     (let llc = js_lower monthName;
          long_ii = index_of llc (months_table (l_months l));
          short_ii = index_of llc (months_table (l_months_short l))
      in if strict then (if short then short_ii else long_ii)
         else if short then (if short_ii \<noteq> None then short_ii else long_ii)
         else (if long_ii \<noteq> None then long_ii else short_ii))"

text \<open>\<^verbatim>\<open>calendar\<close>, \<^verbatim>\<open>relativeTime\<close>, \<^verbatim>\<open>pastFuture\<close> and \<^verbatim>\<open>ordinal\<close>.\<close>

definition calendar_of :: "(string \<times> cal) list \<Rightarrow> string \<Rightarrow> nat \<Rightarrow> nat \<Rightarrow> bool \<Rightarrow> js option" where
  "calendar_of cs key day hours sameWeek =
     (case (case map_of cs key of
              None \<Rightarrow> map_of cs ''sameElse''
            | Some (CalText []) \<Rightarrow> map_of cs ''sameElse''
            | Some c \<Rightarrow> Some c) of
        None \<Rightarrow> None
      | Some (CalText s) \<Rightarrow> Some s
      | Some (CalFun f) \<Rightarrow> f day hours sameWeek)"

definition locale_calendar :: "moment_locale \<Rightarrow> string \<Rightarrow> nat \<Rightarrow> nat \<Rightarrow> bool \<Rightarrow> js option" where
  "locale_calendar l key day hours sameWeek = calendar_of (l_calendar l) key day hours sameWeek"

definition relative_time ::
    "moment_locale \<Rightarrow> nat \<Rightarrow> bool \<Rightarrow> string \<Rightarrow> bool \<Rightarrow> js option" where
  "relative_time l number withoutSuffix key isFuture =
     (case map_of (l_relative_time l) key of
        None \<Rightarrow> None
      | Some (RelText s) \<Rightarrow> Some (js_subst_num number s)
      | Some (RelNum f) \<Rightarrow> f number withoutSuffix key isFuture
      | Some (RelStr f) \<Rightarrow> f (jnum number))"

definition pastFuture :: "moment_locale \<Rightarrow> int \<Rightarrow> js \<Rightarrow> js option" where
  "pastFuture l diff output =
     (case map_of (l_relative_time l) (if diff > 0 then ''future'' else ''past'') of
        None \<Rightarrow> None
      | Some (RelText s) \<Rightarrow> Some (js_subst_str output s)
      | Some (RelStr f) \<Rightarrow> f output
      | Some (RelNum f) \<Rightarrow> None)"

definition locale_ordinal :: "moment_locale \<Rightarrow> nat \<Rightarrow> string \<Rightarrow> js option" where
  "locale_ordinal l number token =
     (case l_ordinal l of
        None \<Rightarrow> None
      | Some (OrdText s) \<Rightarrow> Some (js_replace_pair [0x25] [0x64] (jnum number) s)
      | Some (OrdFun f) \<Rightarrow> f number token)"

definition locale_preparse :: "moment_locale \<Rightarrow> js \<Rightarrow> js" where
  "locale_preparse l s = (case l_preparse l of None \<Rightarrow> s | Some f \<Rightarrow> f s)"

definition locale_postformat :: "moment_locale \<Rightarrow> js \<Rightarrow> js" where
  "locale_postformat l s = (case l_postformat l of None \<Rightarrow> s | Some f \<Rightarrow> f s)"

text \<open>The day of the month behind the token \<^verbatim>\<open>Do\<close>: the strict pattern is the one of the language, the
  lenient one also takes one or two digits; the number is the first one or two digits of the
  text that matched.\<close>

definition ordinal_parse :: "moment_locale \<Rightarrow> bool \<Rightarrow> regex option" where
  "ordinal_parse l strict =
     (case l_ordinal_parse l of
        None \<Rightarrow> None
      | Some r \<Rightarrow> Some (if strict then r else Regex False (Alt [rx_pattern r, digits_1_2])))"

definition parse_day_of_month :: "moment_locale \<Rightarrow> bool \<Rightarrow> js \<Rightarrow> nat option" where
  "parse_day_of_month l strict input =
     Option.bind (ordinal_parse l strict) (\<lambda>r.
     Option.bind (rx_match r input) (\<lambda>t.
     map_option js_digits_value (rx_match (Regex False digits_1_2) t)))"

text \<open>Twelve-hour clock.\<close>

definition localeIsPM :: "js \<Rightarrow> bool" where
  "localeIsPM input \<longleftrightarrow> js_char_at (js_lower input) 0 = js ''p''"

definition localeMeridiem :: "nat \<Rightarrow> nat \<Rightarrow> bool \<Rightarrow> js" where
  "localeMeridiem hours minutes isLower =
     (if hours > 11 then (if isLower then js ''pm'' else js ''PM'')
      else if isLower then js ''am'' else js ''AM'')"

definition locale_meridiem :: "moment_locale \<Rightarrow> nat \<Rightarrow> nat \<Rightarrow> bool \<Rightarrow> js" where
  "locale_meridiem l = (case l_meridiem l of None \<Rightarrow> localeMeridiem | Some f \<Rightarrow> f)"

definition locale_is_pm :: "moment_locale \<Rightarrow> js \<Rightarrow> bool" where
  "locale_is_pm l = (case l_is_pm l of None \<Rightarrow> localeIsPM | Some f \<Rightarrow> f)"

definition hFormat :: "nat \<Rightarrow> nat" where
  "hFormat hours = (if hours mod 12 = 0 then 12 else hours mod 12)"

definition kFormat :: "nat \<Rightarrow> nat" where
  "kFormat hours = (if hours = 0 then 24 else hours)"

definition meridiemFixWrap :: "moment_locale \<Rightarrow> nat \<Rightarrow> js option \<Rightarrow> nat option" where
  "meridiemFixWrap l hour meridiem =
     (case meridiem of
        None \<Rightarrow> Some hour
      | Some m \<Rightarrow>
          (case l_meridiem_hour l of
             Some f \<Rightarrow> f hour m
           | None \<Rightarrow>
               (let isPm = locale_is_pm l m;
                    hour1 = (if isPm \<and> hour < 12 then hour + 12 else hour)
                in Some (if \<not> isPm \<and> hour1 = 12 then 0 else hour1))))"

text \<open>The twelve-hour part of a formatted time, \<^verbatim>\<open>h a\<close> or \<^verbatim>\<open>h A\<close>, and its way back: the part of the text
  that the pattern of the language matches decides the half of the day.\<close>

definition format_meridiem :: "moment_locale \<Rightarrow> nat \<Rightarrow> nat \<Rightarrow> bool \<Rightarrow> js" where
  "format_meridiem l hours minutes lowercase =
     locale_postformat l (locale_meridiem l hours minutes lowercase)"

definition parse_twelve_hour :: "moment_locale \<Rightarrow> nat \<Rightarrow> js \<Rightarrow> nat option" where
  "parse_twelve_hour l hour input =
     Option.bind (l_meridiem_parse l) (\<lambda>r.
     Option.bind (rx_match r (locale_preparse l input)) (\<lambda>t. meridiemFixWrap l hour (Some t)))"

text \<open>The table of relative times gives a text for every number from 1 on; the exact seconds are
  only asked for from 2 on.  The two wrappers give a text for every text, a calendar entry gives a
  format, and the conversion of digits goes unit by unit.\<close>

definition rel_defined :: "nat \<Rightarrow> bool \<Rightarrow> bool \<Rightarrow> (string \<times> rel) list \<Rightarrow> bool" where
  "rel_defined number withoutSuffix isFuture rs \<longleftrightarrow>
     list_all (\<lambda>(k, r). case r of
         RelText s \<Rightarrow> True
       | RelStr f \<Rightarrow> k = ''past'' \<or> k = ''future''
       | RelNum f \<Rightarrow> (k = ''ss'' \<longrightarrow> 2 \<le> number) \<longrightarrow> f number withoutSuffix k isFuture \<noteq> None) rs"

definition cal_defined :: "nat \<Rightarrow> bool \<Rightarrow> nat \<Rightarrow> (string \<times> cal) list \<Rightarrow> bool" where
  "cal_defined hours sameWeek day cs \<longleftrightarrow>
     list_all (\<lambda>(k, c). case c of CalText s \<Rightarrow> True | CalFun f \<Rightarrow> f day hours sameWeek \<noteq> None) cs"

definition apply_option :: "('a \<Rightarrow> 'a) option \<Rightarrow> 'a \<Rightarrow> 'a" where
  "apply_option f x = (case f of None \<Rightarrow> x | Some g \<Rightarrow> g x)"

definition unitwise :: "(js \<Rightarrow> js) \<Rightarrow> bool" where
  "unitwise f \<longleftrightarrow> f [] = [] \<and> (\<forall>s t. f (s @ t) = f s @ f t)"

definition wrapper_defined :: "js \<Rightarrow> (string \<times> rel) list \<Rightarrow> bool" where
  "wrapper_defined s rs \<longleftrightarrow>
     list_all (\<lambda>k. case map_of rs k of
         Some (RelText t) \<Rightarrow> True
       | Some (RelStr f) \<Rightarrow> f s \<noteq> None
       | _ \<Rightarrow> False) [''future'', ''past'']"

section \<open>Calendar arithmetic\<close>

text \<open>The remainder of JavaScript takes the sign of the dividend.\<close>

definition js_rem :: "int \<Rightarrow> int \<Rightarrow> int" where
  "js_rem a b = (if a < 0 then - ((- a) mod b) else a mod b)"

definition js_mod :: "int \<Rightarrow> int \<Rightarrow> int" where
  "js_mod n x = js_rem (js_rem n x + x) x"

definition isLeapYear :: "int \<Rightarrow> bool" where
  "isLeapYear year \<longleftrightarrow> js_rem year 4 = 0 \<and> js_rem year 100 \<noteq> 0 \<or> js_rem year 400 = 0"

definition daysInYear :: "int \<Rightarrow> int" where
  "daysInYear year = (if isLeapYear year then 366 else 365)"

definition daysInMonth :: "int \<Rightarrow> int \<Rightarrow> int" where
  "daysInMonth year month =
     (let modMonth = js_mod month 12; year = year + (month - modMonth) div 12
      in if modMonth = 1 then (if isLeapYear year then 29 else 28)
         else 31 - js_rem (js_rem modMonth 7) 2)"

text \<open>\<^verbatim>\<open>Date.UTC(year, 0, 1)\<close> in days, as the language defines it, and the weekday of a day.\<close>

definition day_from_year :: "int \<Rightarrow> int" where
  "day_from_year y =
     365 * (y - 1970) + (y - 1969) div 4 - (y - 1901) div 100 + (y - 1601) div 400"

definition getUTCDay :: "int \<Rightarrow> int" where
  "getUTCDay day = (day + 4) mod 7"

text \<open>\<^verbatim>\<open>createUTCDate(year, 0, d)\<close> for a \<^verbatim>\<open>d\<close> in January or, when it is not positive, in the December
  before.  For the years 0 to 99 the date is made 400 years later and its year is then set to
  \<^verbatim>\<open>year\<close>: a date in December stays in the December of that year.\<close>

definition createUTCDate :: "int \<Rightarrow> int \<Rightarrow> int" where
  "createUTCDate year d =
     (if 0 \<le> year \<and> year < 100 \<and> d < 1 then day_from_year (year + 1) + d - 1
      else day_from_year year + d - 1)"

definition firstWeekOffset :: "int \<Rightarrow> int \<Rightarrow> int \<Rightarrow> int" where
  "firstWeekOffset year dow doy =
     (let fwd = 7 + dow - doy;
          fwdlw = js_rem (7 + getUTCDay (createUTCDate year fwd) - dow) 7
      in - fwdlw + fwd - 1)"

definition dayOfYearFromWeeks :: "int \<Rightarrow> int \<Rightarrow> int \<Rightarrow> int \<Rightarrow> int \<Rightarrow> int \<times> int" where
  "dayOfYearFromWeeks year week weekday dow doy =
     (let localWeekday = js_rem (7 + weekday - dow) 7;
          weekOffset = firstWeekOffset year dow doy;
          dayOfYear = 1 + 7 * (week - 1) + localWeekday + weekOffset
      in if dayOfYear \<le> 0 then (year - 1, daysInYear (year - 1) + dayOfYear)
         else if dayOfYear > daysInYear year then (year + 1, dayOfYear - daysInYear year)
         else (year, dayOfYear))"

definition weeksInYear :: "int \<Rightarrow> int \<Rightarrow> int \<Rightarrow> int" where
  "weeksInYear year dow doy =
     (daysInYear year - firstWeekOffset year dow doy + firstWeekOffset (year + 1) dow doy) div 7"

definition weekOfYear :: "int \<Rightarrow> int \<Rightarrow> int \<Rightarrow> int \<Rightarrow> int \<times> int" where
  "weekOfYear year dayOfYear dow doy =
     (let week = (dayOfYear - firstWeekOffset year dow doy - 1) div 7 + 1
      in if week < 1 then (week + weeksInYear (year - 1) dow doy, year - 1)
         else if week > weeksInYear year dow doy
         then (week - weeksInYear year dow doy, year + 1)
         else (week, year))"

section \<open>Durations\<close>

record duration =
  d_milliseconds :: int
  d_days :: int
  d_months :: int

definition duration_abs :: "duration \<Rightarrow> duration" where
  "duration_abs d = \<lparr>d_milliseconds = \<bar>d_milliseconds d\<bar>, d_days = \<bar>d_days d\<bar>, d_months = \<bar>d_months d\<bar>\<rparr>"

text \<open>\<^verbatim>\<open>as\<close> as a fraction: numerator and denominator.\<close>

definition duration_as :: "duration \<Rightarrow> string \<Rightarrow> (int \<times> int) option" where
  "duration_as d units =
     (let ms = d_milliseconds d;
          days = d_days d + js_round (146097 * d_months d) 4800;
          q = 86400000 * 146097;
          months = d_months d * q + 4800 * (d_days d * 86400000 + ms)
      in if units = ''month'' then Some (months, q)
         else if units = ''quarter'' then Some (months, 3 * q)
         else if units = ''year'' then Some (months, 12 * q)
         else if units = ''week'' then Some (days * 86400000 + ms, 604800000)
         else if units = ''day'' then Some (days * 86400000 + ms, 86400000)
         else if units = ''hour'' then Some (days * 86400000 + ms, 3600000)
         else if units = ''minute'' then Some (days * 86400000 + ms, 60000)
         else if units = ''second'' then Some (days * 86400000 + ms, 1000)
         else if units = ''millisecond'' then Some (days * 86400000 + ms, 1)
         else None)"

definition rounded_as :: "duration \<Rightarrow> string \<Rightarrow> int" where
  "rounded_as d units = (case duration_as d units of None \<Rightarrow> 0 | Some (p, q) \<Rightarrow> js_round p q)"

text \<open>\<^verbatim>\<open>toInt(p / 12)\<close> cuts towards zero.\<close>

definition duration_value :: "duration \<Rightarrow> int" where
  "duration_value d =
     d_milliseconds d + 86400000 * d_days d + js_rem (d_months d) 12 * 2592000000 +
     31536000000 * (sgn (d_months d) * (\<bar>d_months d\<bar> div 12))"

record thresholds =
  t_ss :: int
  t_s :: int
  t_m :: int
  t_h :: int
  t_d :: int
  t_w :: "int option"
  t_M :: int

definition default_thresholds :: thresholds where
  "default_thresholds = \<lparr>t_ss = 44, t_s = 45, t_m = 45, t_h = 22, t_d = 26, t_w = None, t_M = 11\<rparr>"

text \<open>The choice of unit: the key and the number; a missing number is 0, which \<^verbatim>\<open>substituteTimeAgo\<close>
  turns into 1.\<close>

definition choose_unit :: "thresholds \<Rightarrow> duration \<Rightarrow> string \<times> int" where
  "choose_unit th d =
     (let seconds = rounded_as d ''second''; minutes = rounded_as d ''minute'';
          hours = rounded_as d ''hour''; days = rounded_as d ''day'';
          months = rounded_as d ''month''; weeks = rounded_as d ''week'';
          years = rounded_as d ''year'';
          long = (if months \<le> 1 then (''M'', 0)
                  else if months < t_M th then (''MM'', months)
                  else if years \<le> 1 then (''y'', 0)
                  else (''yy'', years))
      in if seconds \<le> t_ss th then (''s'', seconds)
         else if seconds < t_s th then (''ss'', seconds)
         else if minutes \<le> 1 then (''m'', 0)
         else if minutes < t_m th then (''mm'', minutes)
         else if hours \<le> 1 then (''h'', 0)
         else if hours < t_h th then (''hh'', hours)
         else if days \<le> 1 then (''d'', 0)
         else if days < t_d th then (''dd'', days)
         else (case t_w th of
                 None \<Rightarrow> long
               | Some w \<Rightarrow> if weeks \<le> 1 then (''w'', 0) else if weeks < w then (''ww'', weeks) else long))"

definition substituteTimeAgo ::
    "moment_locale \<Rightarrow> string \<Rightarrow> int \<Rightarrow> bool \<Rightarrow> bool \<Rightarrow> js option" where
  "substituteTimeAgo l key number withoutSuffix isFuture =
     relative_time l (nat (if number = 0 then 1 else number)) withoutSuffix key isFuture"

definition duration_relative_time ::
    "moment_locale \<Rightarrow> thresholds \<Rightarrow> bool \<Rightarrow> duration \<Rightarrow> js option" where
  "duration_relative_time l th withoutSuffix d =
     (let (key, number) = choose_unit th (duration_abs d)
      in substituteTimeAgo l key number withoutSuffix (duration_value d > 0))"

text \<open>\<^verbatim>\<open>humanize(withSuffix)\<close> on a valid duration, with the thresholds in force.\<close>

definition humanize :: "moment_locale \<Rightarrow> bool \<Rightarrow> thresholds \<Rightarrow> duration \<Rightarrow> js option" where
  "humanize l withSuffix th d =
     map_option (locale_postformat l)
       (case duration_relative_time l th (\<not> withSuffix) d of
          None \<Rightarrow> None
        | Some output \<Rightarrow> if withSuffix then pastFuture l (duration_value d) output else Some output)"

section \<open>Fields of a registered language\<close>

lemma js_replace_unit_append [simp]:
  "js_replace_unit a b (s @ t) = js_replace_unit a b s @ js_replace_unit a b t"
  "js_replace_unit a b [] = []"
  by (simp_all add: js_replace_unit_def)

lemma js_replace_units_append [simp]:
  "js_replace_units tab (s @ t) = js_replace_units tab s @ js_replace_units tab t"
  "js_replace_units tab [] = []"
  by (simp_all add: js_replace_units_def)

lemma or_default_None [simp]: "or_default x None = x"
  by (simp add: or_default_def split: option.splits)

lemma or_default_Some [simp]: "or_default (Some x) y = Some x"
  by (simp add: or_default_def)

lemma names_length_for: "names_length n ns \<Longrightarrow> length (names_for r ns format) = n"
  by (cases ns) (simp_all add: names_length_def names_for_def)

text \<open>Registration keeps the fields that hold functions and fills the gaps of the others.\<close>

lemma define_locale_sel [simp]:
  "l_abbr (define_locale c) = l_abbr c"
  "l_months (define_locale c) = l_months c"
  "l_months_short (define_locale c) = l_months_short c"
  "l_weekdays (define_locale c) = l_weekdays c"
  "l_weekdays_short (define_locale c) = l_weekdays_short c"
  "l_weekdays_min (define_locale c) = l_weekdays_min c"
  "l_long_date_format (define_locale c) = l_long_date_format c @ default_long_date_format"
  "l_calendar (define_locale c) = l_calendar c @ default_calendar"
  "l_relative_time (define_locale c) = l_relative_time c @ default_relative_time"
  "l_ordinal (define_locale c) = or_default (l_ordinal c) (Some (OrdText (js ''%d'')))"
  "l_meridiem (define_locale c) = l_meridiem c"
  "l_is_pm (define_locale c) = l_is_pm c"
  "l_meridiem_hour (define_locale c) = l_meridiem_hour c"
  "l_preparse (define_locale c) = l_preparse c"
  "l_postformat (define_locale c) = l_postformat c"
  "l_week (define_locale c) = or_default (l_week c) (Some (0, 6))"
  "l_meridiem_parse (define_locale c) = or_default (l_meridiem_parse c) (Some default_meridiem_parse)"
  "l_ordinal_parse (define_locale c) = or_default (l_ordinal_parse c) (Some (Regex False digits_1_2))"
  "l_months_parse_exact (define_locale c) = l_months_parse_exact c"
  by (simp_all add: define_locale_def mergeConfigs_def base_config_def)

end
