(* ===== verification/MomentWeeks.thy ===== *)
theory MomentWeeks
  imports MomentCore
begin

text \<open>
  Week numbering.  A rule for weeks is the first day of the week \<^verbatim>\<open>dow\<close> and the number \<^verbatim>\<open>doy\<close> that fixes
  the first week of a year; the contract \<^verbatim>\<open>week_rule\<close> states what the arithmetic of the library needs of
  the two, and the lemmas inside it hold for every rule that a language configures.  The rules that
  occur in the bundle are interpreted at the end.
\<close>

text \<open>The years for which \<^verbatim>\<open>firstWeekOffset\<close> looks at a date of the right year.\<close>

definition sound_year :: "int \<Rightarrow> int \<Rightarrow> int \<Rightarrow> bool" where
  "sound_year dow doy y \<longleftrightarrow> 1 \<le> 7 + dow - doy \<or> y < 0 \<or> 100 \<le> y"

section \<open>Years and days\<close>

lemma js_rem_zero_iff: "js_rem a b = 0 \<longleftrightarrow> b dvd a"
  by (simp add: js_rem_def dvd_eq_mod_eq_0 [symmetric])

lemma js_rem_nonneg: "0 \<le> a \<Longrightarrow> js_rem a b = a mod b"
  by (simp add: js_rem_def)

lemma isLeapYear_iff: "isLeapYear y \<longleftrightarrow> 4 dvd y \<and> \<not> 100 dvd y \<or> 400 dvd y"
  by (simp add: isLeapYear_def js_rem_zero_iff)

lemma daysInYear_cases: "daysInYear y = 365 \<or> daysInYear y = 366"
  by (simp add: daysInYear_def)

lemma div_add_one:
  fixes a n :: int
  assumes "0 < n"
  shows "(a + 1) div n = a div n + (if n dvd a + 1 then 1 else 0)"
proof (cases "n dvd a + 1")
  case True
  then obtain k where k: "a + 1 = n * k" by (rule dvdE)
  have "a div n = k - 1"
    by (rule int_div_pos_eq [where r = "n - 1"]) (use k assms in \<open>auto simp: algebra_simps\<close>)
  moreover have "(a + 1) div n = k" using k assms by simp
  ultimately show ?thesis using True by simp
next
  case False
  let ?r = "a mod n"
  have r: "a = n * (a div n) + ?r" "0 \<le> ?r" "?r < n" using assms by simp_all
  have "?r + 1 \<noteq> n"
  proof
    assume "?r + 1 = n"
    then have "a + 1 = n * (a div n) + n" using r(1) by linarith
    then have "n dvd a + 1" by simp
    then show False using False by simp
  qed
  then have "(a + 1) div n = a div n"
    by (intro int_div_pos_eq [where r = "?r + 1"]) (use r in auto)
  then show ?thesis using False by simp
qed

lemma dvd_shift:
  fixes n m y :: int
  assumes "n dvd m"
  shows "n dvd y - m \<longleftrightarrow> n dvd y"
  using assms by (metis diff_add_cancel dvd_add dvd_diff)

text \<open>One year later is as many days later as the year has.\<close>

lemma day_from_year_step: "day_from_year (y + 1) = day_from_year y + daysInYear y"
proof -
  have a: "(y - 1968) div 4 = (y - 1969) div 4 + (if 4 dvd y then 1 else 0)"
    using div_add_one [of 4 "y - 1969"] dvd_shift [of 4 1968 y] by (simp add: algebra_simps)
  have b: "(y - 1900) div 100 = (y - 1901) div 100 + (if 100 dvd y then 1 else 0)"
    using div_add_one [of 100 "y - 1901"] dvd_shift [of 100 1900 y] by (simp add: algebra_simps)
  have c: "(y - 1600) div 400 = (y - 1601) div 400 + (if 400 dvd y then 1 else 0)"
    using div_add_one [of 400 "y - 1601"] dvd_shift [of 400 1600 y] by (simp add: algebra_simps)
  have d: "400 dvd y \<Longrightarrow> 100 dvd y" "100 dvd y \<Longrightarrow> 4 dvd y"
    by (auto elim: dvd_trans [rotated])
  have "day_from_year (y + 1)
      = 365 * (y - 1970) + 365 + (y - 1968) div 4 - (y - 1900) div 100 + (y - 1600) div 400"
    by (simp add: day_from_year_def algebra_simps)
  also have "\<dots> = day_from_year y + 365 + (if 4 dvd y then 1 else 0) - (if 100 dvd y then 1 else 0)
      + (if 400 dvd y then 1 else 0)"
    unfolding a b c by (simp add: day_from_year_def)
  also have "\<dots> = day_from_year y + daysInYear y"
    using d by (auto simp: daysInYear_def isLeapYear_iff)
  finally show ?thesis .
qed

lemma mod_seven_shift: "(7 + x mod 7 - d) mod 7 = (x - d) mod (7 :: int)"
proof -
  have "7 + x mod 7 - d = (x - d) + 7 * (1 - x div 7)"
    by (simp add: minus_mult_div_eq_mod [symmetric] algebra_simps)
  then show ?thesis by (simp only: mod_mult_self2)
qed

lemma mod_seven_drop: "b mod 7 = 0 \<Longrightarrow> (a + b) mod 7 = a mod (7 :: int)"
  by (metis add.right_neutral mod_add_right_eq)

text \<open>The three branches of \<^verbatim>\<open>weekOfYear\<close>.\<close>

lemma weekOfYear_cases:
  assumes "weekOfYear y d dow doy = (week, year)"
    and k: "k = (d - firstWeekOffset y dow doy - 1) div 7 + 1"
  obtains "k < 1" "week = k + weeksInYear (y - 1) dow doy" "year = y - 1"
  | "\<not> k < 1" "k > weeksInYear y dow doy" "week = k - weeksInYear y dow doy" "year = y + 1"
  | "\<not> k < 1" "\<not> k > weeksInYear y dow doy" "week = k" "year = y"
proof -
  have eq: "(if k < 1 then (k + weeksInYear (y - 1) dow doy, y - 1)
         else if k > weeksInYear y dow doy then (k - weeksInYear y dow doy, y + 1)
         else (k, y)) = (week, year)"
    using assms(1) by (simp only: weekOfYear_def Let_def k)
  show ?thesis
  proof (cases "k < 1")
    case True
    then have "(week, year) = (k + weeksInYear (y - 1) dow doy, y - 1)" using eq by (simp only: if_True)
    then show ?thesis using True that(1) by blast
  next
    case low: False
    show ?thesis
    proof (cases "k > weeksInYear y dow doy")
      case True
      then have "(week, year) = (k - weeksInYear y dow doy, y + 1)"
        using eq low by (simp only: if_True if_False)
      then show ?thesis using low True that(2) by blast
    next
      case False
      then have "(week, year) = (k, y)" using eq low by (simp only: if_False)
      then show ?thesis using low False that(3) by blast
    qed
  qed
qed

section \<open>The contract of a rule for weeks\<close>

text \<open>The January day \<^verbatim>\<open>7 + dow - doy\<close> that always lies in the first week may even be a day of the December
  before (one language has -5), but not more than six days into January.\<close>

locale week_rule =
  fixes dow doy :: int
  assumes dow_range: "0 \<le> dow" "dow \<le> 7"
    and first_week_day: "- 5 \<le> 7 + dow - doy" "7 + dow - doy \<le> 7"
begin

lemma offset_bounds: "dow - doy \<le> firstWeekOffset y dow doy" "firstWeekOffset y dow doy \<le> 6 + dow - doy"
proof -
  let ?w = "getUTCDay (createUTCDate y (7 + dow - doy))"
  have "0 \<le> ?w" by (simp add: getUTCDay_def)
  then have "js_rem (7 + ?w - dow) 7 = (7 + ?w - dow) mod 7"
    using dow_range by (simp add: js_rem_nonneg)
  moreover have "0 \<le> (7 + ?w - dow) mod 7" "(7 + ?w - dow) mod 7 < 7" by simp_all
  ultimately show "dow - doy \<le> firstWeekOffset y dow doy" "firstWeekOffset y dow doy \<le> 6 + dow - doy"
    by (simp_all add: firstWeekOffset_def Let_def)
qed

text \<open>The first day of the first week falls on the first day of the week.\<close>

lemma offset_aligned:
  assumes "sound_year dow doy y"
  shows "(day_from_year y + firstWeekOffset y dow doy + 4 - dow) mod 7 = 0"
proof -
  let ?f = "7 + dow - doy"
  let ?w = "(day_from_year y + ?f + 3) mod 7"
  have "createUTCDate y ?f = day_from_year y + ?f - 1"
    using assms by (auto simp: createUTCDate_def sound_year_def)
  then have "getUTCDay (createUTCDate y ?f) = (day_from_year y + ?f - 1 + 4) mod 7"
    by (simp only: getUTCDay_def)
  then have "getUTCDay (createUTCDate y ?f) = ?w" by (simp only: diff_add_eq add_diff_eq [symmetric]) simp
  moreover have "js_rem (7 + ?w - dow) 7 = (7 + ?w - dow) mod 7"
    by (rule js_rem_nonneg) (use dow_range in \<open>simp add: add_nonneg_nonneg\<close>)
  moreover have "(7 + ?w - dow) mod 7 = (day_from_year y + ?f + 3 - dow) mod 7"
    by (rule mod_seven_shift)
  ultimately have "firstWeekOffset y dow doy = ?f - 1 - (day_from_year y + ?f + 3 - dow) mod 7"
    by (simp add: firstWeekOffset_def Let_def)
  then have "day_from_year y + firstWeekOffset y dow doy + 4 - dow
      = (day_from_year y + ?f + 3 - dow) - (day_from_year y + ?f + 3 - dow) mod 7"
    by simp
  then show ?thesis by (simp add: minus_mod_eq_mult_div)
qed

lemma weeksInYear_exact:
  assumes "sound_year dow doy y" "sound_year dow doy (y + 1)"
  shows "7 * weeksInYear y dow doy
    = daysInYear y - firstWeekOffset y dow doy + firstWeekOffset (y + 1) dow doy"
proof -
  let ?a = "day_from_year y + firstWeekOffset y dow doy + 4 - dow"
  let ?b = "day_from_year (y + 1) + firstWeekOffset (y + 1) dow doy + 4 - dow"
  have "7 dvd ?a" "7 dvd ?b"
    using offset_aligned [OF assms(1)] offset_aligned [OF assms(2)] by (simp_all only: dvd_eq_mod_eq_0)
  then have "7 dvd ?b - ?a" by (rule dvd_diff [rotated])
  moreover have "?b - ?a = daysInYear y - firstWeekOffset y dow doy + firstWeekOffset (y + 1) dow doy"
    by (simp add: day_from_year_step)
  ultimately show ?thesis by (simp add: weeksInYear_def)
qed

lemma weeksInYear_cases:
  assumes "sound_year dow doy y" "sound_year dow doy (y + 1)"
  shows "weeksInYear y dow doy = 52 \<or> weeksInYear y dow doy = 53"
proof -
  have "359 \<le> 7 * weeksInYear y dow doy" "7 * weeksInYear y dow doy \<le> 372"
    using weeksInYear_exact [OF assms] offset_bounds [of y] offset_bounds [of "y + 1"]
      daysInYear_cases [of y] by auto
  then have "51 < weeksInYear y dow doy" "weeksInYear y dow doy < 54" by linarith+
  then show ?thesis by arith
qed

text \<open>The week of a day splits the days since the first week into full weeks and the position in
  the week.\<close>

lemma week_split:
  assumes "sound_year dow doy y"
  defines "off \<equiv> firstWeekOffset y dow doy"
  shows "7 * ((d - off - 1) div 7) + js_rem (7 + getUTCDay (day_from_year y + d - 1) - dow) 7
    = d - off - 1"
proof -
  let ?w = "(day_from_year y + d + 3) mod 7"
  have "js_rem (7 + ?w - dow) 7 = (7 + ?w - dow) mod 7"
    by (rule js_rem_nonneg) (use dow_range in \<open>simp add: add_nonneg_nonneg\<close>)
  also have "\<dots> = (day_from_year y + d + 3 - dow) mod 7"
    by (rule mod_seven_shift)
  also have "day_from_year y + d + 3 - dow = (d - off - 1) + (day_from_year y + off + 4 - dow)"
    by simp
  also have "((d - off - 1) + (day_from_year y + off + 4 - dow)) mod 7 = (d - off - 1) mod 7"
    using offset_aligned [OF assms(1)] unfolding off_def by (rule mod_seven_drop)
  finally have "js_rem (7 + ?w - dow) 7 = (d - off - 1) mod 7" .
  moreover have "getUTCDay (day_from_year y + d - 1) = ?w" by (simp add: getUTCDay_def algebra_simps)
  ultimately show ?thesis by simp
qed

lemma week_round_trip:
  assumes sound: "sound_year dow doy (y - 1)" "sound_year dow doy y" "sound_year dow doy (y + 1)"
    and d: "1 \<le> d" "d \<le> daysInYear y"
    and w: "weekOfYear y d dow doy = (week, year)"
  shows "dayOfYearFromWeeks year week (getUTCDay (day_from_year y + d - 1)) dow doy = (y, d)"
proof -
  let ?off = "firstWeekOffset y dow doy"
  let ?k = "(d - ?off - 1) div 7 + 1"
  let ?lw = "js_rem (7 + getUTCDay (day_from_year y + d - 1) - dow) 7"
  have split: "7 * (?k - 1) + ?lw = d - ?off - 1"
    using week_split [OF sound(2), of d] by simp
  have prev: "7 * weeksInYear (y - 1) dow doy
      = daysInYear (y - 1) - firstWeekOffset (y - 1) dow doy + ?off"
    using weeksInYear_exact [of "y - 1"] sound by simp
  have this_year: "7 * weeksInYear y dow doy
      = daysInYear y - ?off + firstWeekOffset (y + 1) dow doy"
    using weeksInYear_exact [of y] sound by simp
  from w refl show ?thesis
  proof (cases rule: weekOfYear_cases)
    case 1
    have e: "1 + 7 * (week - 1) + ?lw + firstWeekOffset (y - 1) dow doy = d + daysInYear (y - 1)"
      using 1(2) split prev by (simp add: algebra_simps)
    have "0 < daysInYear (y - 1)" using daysInYear_cases [of "y - 1"] by auto
    then show ?thesis
      using d unfolding dayOfYearFromWeeks_def Let_def 1(3) e by simp
  next
    case 2
    have e: "1 + 7 * (week - 1) + ?lw + firstWeekOffset (y + 1) dow doy = d - daysInYear y"
      using 2(3) split this_year by (simp add: algebra_simps)
    then show ?thesis
      using d unfolding dayOfYearFromWeeks_def Let_def 2(4) e by simp
  next
    case 3
    have e: "1 + 7 * (week - 1) + ?lw + ?off = d"
      using 3(3) split by (simp add: algebra_simps)
    then show ?thesis
      using d unfolding dayOfYearFromWeeks_def Let_def 3(4) e by simp
  qed
qed

lemma week_bounds:
  assumes sound: "sound_year dow doy (y - 1)" "sound_year dow doy y" "sound_year dow doy (y + 1)" "sound_year dow doy (y + 2)"
    and d: "1 \<le> d" "d \<le> daysInYear y"
    and w: "weekOfYear y d dow doy = (week, year)"
  shows "1 \<le> week" "week \<le> weeksInYear year dow doy"
proof -
  let ?off = "firstWeekOffset y dow doy"
  let ?k = "(d - ?off - 1) div 7 + 1"
  have prev: "weeksInYear (y - 1) dow doy = 52 \<or> weeksInYear (y - 1) dow doy = 53"
    using weeksInYear_cases [of "y - 1"] sound by simp
  have cur: "7 * weeksInYear y dow doy
      = daysInYear y - ?off + firstWeekOffset (y + 1) dow doy"
    using weeksInYear_exact [of y] sound by simp
  have nxt: "weeksInYear (y + 1) dow doy = 52 \<or> weeksInYear (y + 1) dow doy = 53"
    using weeksInYear_cases [of "y + 1"] sound by (simp add: algebra_simps)
  have "- 6 \<le> d - ?off - 1" using offset_bounds(2) [of y] first_week_day d by linarith
  then have "(- 6) div 7 \<le> (d - ?off - 1) div 7" by (rule zdiv_mono1) simp
  then have low: "0 \<le> ?k" by simp
  have "d - ?off - 1 \<le> 7 * weeksInYear y dow doy + 11"
    using cur offset_bounds(1) [of "y + 1"] first_week_day d by linarith
  then have "(d - ?off - 1) div 7 \<le> (7 * weeksInYear y dow doy + 11) div 7" by (rule zdiv_mono1) simp
  then have high: "?k \<le> weeksInYear y dow doy + 2" by simp
  from w refl have "1 \<le> week \<and> week \<le> weeksInYear year dow doy"
  proof (cases rule: weekOfYear_cases)
    case 1
    then show ?thesis using prev low by auto
  next
    case 2
    then show ?thesis using nxt high by auto
  next
    case 3
    then show ?thesis by auto
  qed
  then show "1 \<le> week" "week \<le> weeksInYear year dow doy" by simp_all
qed

end

text \<open>The rules that occur: the one of ISO 8601 and the ones the languages configure.\<close>

interpretation iso: week_rule 1 4 by unfold_locales simp_all
interpretation monday_first: week_rule 1 7 by unfold_locales simp_all
interpretation sunday_first: week_rule 0 6 by unfold_locales simp_all
interpretation saturday_first: week_rule 6 12 by unfold_locales simp_all
interpretation sunday_fourth: week_rule 0 4 by unfold_locales simp_all
interpretation sunday_iso: week_rule 0 3 by unfold_locales simp_all
interpretation sunday_december: week_rule 0 12 by unfold_locales simp_all
interpretation seventh_day: week_rule 7 12 by unfold_locales simp_all

end
