(* ===== verification/LocalesA.thy ===== *)
theory LocalesA
  imports MomentCore
begin

text \<open>
  The language configurations af to br of the date library, as the bundle
  \<^verbatim>\<open>src/lagosta/js/app.js\<close> registers them, one per line.  Each configuration is the record
  \<^verbatim>\<open>locale_x\<close>; the functions inside it are the definitions before it, named after the language and
  the property (or the local function) that holds them.
\<close>

text \<open>\<^verbatim>\<open>af\<close> (line 71).\<close>

definition af_ordinal :: "nat \<Rightarrow> string \<Rightarrow> js option" where
  "af_ordinal number period = Some (jnum number @ (if (number = 1 \<or> number = 8) \<or> number
      \<ge> 20 then js ''ste''
      else js ''de''))"

definition af_meridiem :: "nat \<Rightarrow> nat \<Rightarrow> bool \<Rightarrow> js" where
  "af_meridiem hour minute isLower = (if hour < 12 then (if isLower then js ''vm''
      else js ''VM'')
      else if isLower then js ''nm''
      else js ''NM'')"

definition af_isPM :: "js \<Rightarrow> bool" where
  "af_isPM input \<longleftrightarrow> js_lower input \<in> set [js ''nm'']"

definition locale_af :: moment_locale where
  "locale_af = \<lparr>
     l_abbr = ''af'',
     l_months = Names [js ''Januarie'', js ''Februarie'', js ''Maart'', js ''April'', js ''Mei'', js
         ''Junie'', js ''Julie'', js ''Augustus'', js ''September'', js ''Oktober'', js
         ''November'', js ''Desember''],
     l_months_short = Names [js ''Jan'', js ''Feb'', js ''Mrt'', js ''Apr'', js ''Mei'', js ''Jun'',
         js ''Jul'', js ''Aug'', js ''Sep'', js ''Okt'', js ''Nov'', js ''Des''],
     l_weekdays = Names [js ''Sondag'', js ''Maandag'', js ''Dinsdag'', js ''Woensdag'', js
         ''Donderdag'', js ''Vrydag'', js ''Saterdag''],
     l_weekdays_short = [js ''Son'', js ''Maa'', js ''Din'', js ''Woe'', js ''Don'', js ''Vry'', js
         ''Sat''],
     l_weekdays_min = [js ''So'', js ''Ma'', js ''Di'', js ''Wo'', js ''Do'', js ''Vr'', js ''Sa''],
     l_long_date_format = [(''LT'', js ''HH:mm''),
       (''LTS'', js ''HH:mm:ss''),
       (''L'', js ''DD/MM/YYYY''),
       (''LL'', js ''D MMMM YYYY''),
       (''LLL'', js ''D MMMM YYYY HH:mm''),
       (''LLLL'', js ''dddd, D MMMM YYYY HH:mm'')],
     l_calendar = [(''sameDay'', CalText (js ''[Vandag om] LT'')),
       (''nextDay'', CalText ([0x5B, 0x4D, 0xF4] @ js ''re om] LT'')),
       (''nextWeek'', CalText (js ''dddd [om] LT'')),
       (''lastDay'', CalText (js ''[Gister om] LT'')),
       (''lastWeek'', CalText (js ''[Laas] dddd [om] LT'')),
       (''sameElse'', CalText (js ''L''))],
     l_relative_time = [(''future'', RelText (js ''oor %s'')),
       (''past'', RelText (js ''%s gelede'')),
       (''s'', RelText ([0x27] @ js ''n paar sekondes'')),
       (''ss'', RelText (js ''%d sekondes'')),
       (''m'', RelText ([0x27] @ js ''n minuut'')),
       (''mm'', RelText (js ''%d minute'')),
       (''h'', RelText ([0x27] @ js ''n uur'')),
       (''hh'', RelText (js ''%d ure'')),
       (''d'', RelText ([0x27] @ js ''n dag'')),
       (''dd'', RelText (js ''%d dae'')),
       (''M'', RelText ([0x27] @ js ''n maand'')),
       (''MM'', RelText (js ''%d maande'')),
       (''y'', RelText ([0x27] @ js ''n jaar'')),
       (''yy'', RelText (js ''%d jaar''))],
     l_ordinal = Some (OrdFun af_ordinal),
     l_meridiem = Some af_meridiem,
     l_is_pm = Some af_isPM,
     l_meridiem_hour = None,
     l_preparse = None,
     l_postformat = None,
     l_week = Some (1, 4),
     l_meridiem_parse = Some (Regex True (Alt [Lit (js ''vm''), Lit (js ''nm'')])),
     l_ordinal_parse = Some (Regex False (Seq [digits_1_2, Alt [Lit (js ''ste''), Lit (js
         ''de'')]])),
     l_parse = [],
     l_months_parse_exact = False,
     l_weekdays_parse_exact = False,
     l_invalid_date = None,
     l_eras = [],
     l_era_year = None \<rparr>"

text \<open>\<^verbatim>\<open>ar\<close> (line 231).\<close>

definition ar_pluralForm :: "nat \<Rightarrow> nat" where
  "ar_pluralForm n = (if n = 0 then 0
      else if n = 1 then 1
      else if n = 2 then 2
      else if n mod 100 \<ge> 3 \<and> n mod 100 \<le> 10 then 3
      else if n mod 100 \<ge> 11 then 4
      else 5)"

definition ar_plurals :: "(string \<times> js list list) list" where
  "ar_plurals = [(''s'', [[[0x623, 0x642, 0x644, 0x20, 0x645, 0x646, 0x20, 0x62B, 0x627, 0x646,
      0x64A, 0x629]], [[0x62B, 0x627, 0x646, 0x64A, 0x629, 0x20, 0x648, 0x627, 0x62D, 0x62F,
      0x629]], [[0x62B, 0x627, 0x646, 0x64A, 0x62A, 0x627, 0x646], [0x62B, 0x627, 0x646, 0x64A,
      0x62A, 0x64A, 0x646]], [[0x25, 0x64, 0x20, 0x62B, 0x648, 0x627, 0x646]], [[0x25, 0x64, 0x20,
      0x62B, 0x627, 0x646, 0x64A, 0x629]], [[0x25, 0x64, 0x20, 0x62B, 0x627, 0x646, 0x64A,
      0x629]]]),
     (''m'', [[[0x623, 0x642, 0x644, 0x20, 0x645, 0x646, 0x20, 0x62F, 0x642, 0x64A, 0x642, 0x629]],
         [[0x62F, 0x642, 0x64A, 0x642, 0x629, 0x20, 0x648, 0x627, 0x62D, 0x62F, 0x629]], [[0x62F,
         0x642, 0x64A, 0x642, 0x62A, 0x627, 0x646], [0x62F, 0x642, 0x64A, 0x642, 0x62A, 0x64A,
         0x646]], [[0x25, 0x64, 0x20, 0x62F, 0x642, 0x627, 0x626, 0x642]], [[0x25, 0x64, 0x20,
         0x62F, 0x642, 0x64A, 0x642, 0x629]], [[0x25, 0x64, 0x20, 0x62F, 0x642, 0x64A, 0x642,
         0x629]]]),
     (''h'', [[[0x623, 0x642, 0x644, 0x20, 0x645, 0x646, 0x20, 0x633, 0x627, 0x639, 0x629]],
         [[0x633, 0x627, 0x639, 0x629, 0x20, 0x648, 0x627, 0x62D, 0x62F, 0x629]], [[0x633, 0x627,
         0x639, 0x62A, 0x627, 0x646], [0x633, 0x627, 0x639, 0x62A, 0x64A, 0x646]], [[0x25, 0x64,
         0x20, 0x633, 0x627, 0x639, 0x627, 0x62A]], [[0x25, 0x64, 0x20, 0x633, 0x627, 0x639,
         0x629]], [[0x25, 0x64, 0x20, 0x633, 0x627, 0x639, 0x629]]]),
     (''d'', [[[0x623, 0x642, 0x644, 0x20, 0x645, 0x646, 0x20, 0x64A, 0x648, 0x645]], [[0x64A,
         0x648, 0x645, 0x20, 0x648, 0x627, 0x62D, 0x62F]], [[0x64A, 0x648, 0x645, 0x627, 0x646],
         [0x64A, 0x648, 0x645, 0x64A, 0x646]], [[0x25, 0x64, 0x20, 0x623, 0x64A, 0x627, 0x645]],
         [[0x25, 0x64, 0x20, 0x64A, 0x648, 0x645, 0x64B, 0x627]], [[0x25, 0x64, 0x20, 0x64A, 0x648,
         0x645]]]),
     (''M'', [[[0x623, 0x642, 0x644, 0x20, 0x645, 0x646, 0x20, 0x634, 0x647, 0x631]], [[0x634,
         0x647, 0x631, 0x20, 0x648, 0x627, 0x62D, 0x62F]], [[0x634, 0x647, 0x631, 0x627, 0x646],
         [0x634, 0x647, 0x631, 0x64A, 0x646]], [[0x25, 0x64, 0x20, 0x623, 0x634, 0x647, 0x631]],
         [[0x25, 0x64, 0x20, 0x634, 0x647, 0x631, 0x627]], [[0x25, 0x64, 0x20, 0x634, 0x647,
         0x631]]]),
     (''y'', [[[0x623, 0x642, 0x644, 0x20, 0x645, 0x646, 0x20, 0x639, 0x627, 0x645]], [[0x639,
         0x627, 0x645, 0x20, 0x648, 0x627, 0x62D, 0x62F]], [[0x639, 0x627, 0x645, 0x627, 0x646],
         [0x639, 0x627, 0x645, 0x64A, 0x646]], [[0x25, 0x64, 0x20, 0x623, 0x639, 0x648, 0x627,
         0x645]], [[0x25, 0x64, 0x20, 0x639, 0x627, 0x645, 0x64B, 0x627]], [[0x25, 0x64, 0x20,
         0x639, 0x627, 0x645]]])]"

definition ar_plural :: "string \<Rightarrow> nat \<Rightarrow> bool \<Rightarrow> string
    \<Rightarrow> bool \<Rightarrow> js option" where
  "ar_plural u number withoutSuffix key isFuture = 
     Option.bind (map_of ar_plurals u) (\<lambda>forms.
     Option.bind (js_nth forms (ar_pluralForm number)) (\<lambda>f.
     map_option (js_subst_num number)
       (js_nth f (if ar_pluralForm number = 2 then (if withoutSuffix then 0 else 1) else 0))))"

definition ar_meridiem :: "nat \<Rightarrow> nat \<Rightarrow> bool \<Rightarrow> js" where
  "ar_meridiem hour minute isLower = (if hour < 12 then [0x635] else [0x645])"

definition ar_isPM :: "js \<Rightarrow> bool" where
  "ar_isPM input \<longleftrightarrow> input = [0x645]"

definition ar_preparse :: "js \<Rightarrow> js" where
  "ar_preparse s = js_replace_unit 0x60C 0x2C (js_replace_units [(0x661, [0x31]), (0x662, [0x32]),
      (0x663, [0x33]), (0x664, [0x34]), (0x665, [0x35]), (0x666, [0x36]), (0x667, [0x37]), (0x668,
      [0x38]), (0x669, [0x39]), (0x660, [0x30])] s)"

definition ar_postformat :: "js \<Rightarrow> js" where
  "ar_postformat s = js_replace_unit 0x2C 0x60C (js_replace_units [(0x30, [0x660]), (0x31, [0x661]),
      (0x32, [0x662]), (0x33, [0x663]), (0x34, [0x664]), (0x35, [0x665]), (0x36, [0x666]), (0x37,
      [0x667]), (0x38, [0x668]), (0x39, [0x669])] s)"

definition locale_ar :: moment_locale where
  "locale_ar = \<lparr>
     l_abbr = ''ar'',
     l_months = Names [[0x64A, 0x646, 0x627, 0x64A, 0x631], [0x641, 0x628, 0x631, 0x627, 0x64A,
         0x631], [0x645, 0x627, 0x631, 0x633], [0x623, 0x628, 0x631, 0x64A, 0x644], [0x645, 0x627,
         0x64A, 0x648], [0x64A, 0x648, 0x646, 0x64A, 0x648], [0x64A, 0x648, 0x644, 0x64A, 0x648],
         [0x623, 0x63A, 0x633, 0x637, 0x633], [0x633, 0x628, 0x62A, 0x645, 0x628, 0x631], [0x623,
         0x643, 0x62A, 0x648, 0x628, 0x631], [0x646, 0x648, 0x641, 0x645, 0x628, 0x631], [0x62F,
         0x64A, 0x633, 0x645, 0x628, 0x631]],
     l_months_short = Names [[0x64A, 0x646, 0x627, 0x64A, 0x631], [0x641, 0x628, 0x631, 0x627,
         0x64A, 0x631], [0x645, 0x627, 0x631, 0x633], [0x623, 0x628, 0x631, 0x64A, 0x644], [0x645,
         0x627, 0x64A, 0x648], [0x64A, 0x648, 0x646, 0x64A, 0x648], [0x64A, 0x648, 0x644, 0x64A,
         0x648], [0x623, 0x63A, 0x633, 0x637, 0x633], [0x633, 0x628, 0x62A, 0x645, 0x628, 0x631],
         [0x623, 0x643, 0x62A, 0x648, 0x628, 0x631], [0x646, 0x648, 0x641, 0x645, 0x628, 0x631],
         [0x62F, 0x64A, 0x633, 0x645, 0x628, 0x631]],
     l_weekdays = Names [[0x627, 0x644, 0x623, 0x62D, 0x62F], [0x627, 0x644, 0x625, 0x62B, 0x646,
         0x64A, 0x646], [0x627, 0x644, 0x62B, 0x644, 0x627, 0x62B, 0x627, 0x621], [0x627, 0x644,
         0x623, 0x631, 0x628, 0x639, 0x627, 0x621], [0x627, 0x644, 0x62E, 0x645, 0x64A, 0x633],
         [0x627, 0x644, 0x62C, 0x645, 0x639, 0x629], [0x627, 0x644, 0x633, 0x628, 0x62A]],
     l_weekdays_short = [[0x623, 0x62D, 0x62F], [0x625, 0x62B, 0x646, 0x64A, 0x646], [0x62B, 0x644,
         0x627, 0x62B, 0x627, 0x621], [0x623, 0x631, 0x628, 0x639, 0x627, 0x621], [0x62E, 0x645,
         0x64A, 0x633], [0x62C, 0x645, 0x639, 0x629], [0x633, 0x628, 0x62A]],
     l_weekdays_min = [[0x62D], [0x646], [0x62B], [0x631], [0x62E], [0x62C], [0x633]],
     l_long_date_format = [(''LT'', js ''HH:mm''),
       (''LTS'', js ''HH:mm:ss''),
       (''L'', [0x44, 0x2F, 0x200F, 0x4D, 0x2F, 0x200F] @ js ''YYYY''),
       (''LL'', js ''D MMMM YYYY''),
       (''LLL'', js ''D MMMM YYYY HH:mm''),
       (''LLLL'', js ''dddd D MMMM YYYY HH:mm'')],
     l_calendar = [(''sameDay'', CalText ([0x5B, 0x627, 0x644, 0x64A, 0x648, 0x645, 0x20, 0x639,
         0x646, 0x62F, 0x20, 0x627, 0x644, 0x633, 0x627, 0x639, 0x629] @ js ''] LT'')),
       (''nextDay'', CalText ([0x5B, 0x63A, 0x62F, 0x64B, 0x627, 0x20, 0x639, 0x646, 0x62F, 0x20,
           0x627, 0x644, 0x633, 0x627, 0x639, 0x629] @ js ''] LT'')),
       (''nextWeek'', CalText (js ''dddd ['' @ [0x639, 0x646, 0x62F, 0x20, 0x627, 0x644, 0x633,
           0x627, 0x639, 0x629] @ js ''] LT'')),
       (''lastDay'', CalText ([0x5B, 0x623, 0x645, 0x633, 0x20, 0x639, 0x646, 0x62F, 0x20, 0x627,
           0x644, 0x633, 0x627, 0x639, 0x629] @ js ''] LT'')),
       (''lastWeek'', CalText (js ''dddd ['' @ [0x639, 0x646, 0x62F, 0x20, 0x627, 0x644, 0x633,
           0x627, 0x639, 0x629] @ js ''] LT'')),
       (''sameElse'', CalText (js ''L''))],
     l_relative_time = [(''future'', RelText [0x628, 0x639, 0x62F, 0x20, 0x25, 0x73]),
       (''past'', RelText [0x645, 0x646, 0x630, 0x20, 0x25, 0x73]),
       (''s'', RelNum (ar_plural ''s'')),
       (''ss'', RelNum (ar_plural ''s'')),
       (''m'', RelNum (ar_plural ''m'')),
       (''mm'', RelNum (ar_plural ''m'')),
       (''h'', RelNum (ar_plural ''h'')),
       (''hh'', RelNum (ar_plural ''h'')),
       (''d'', RelNum (ar_plural ''d'')),
       (''dd'', RelNum (ar_plural ''d'')),
       (''M'', RelNum (ar_plural ''M'')),
       (''MM'', RelNum (ar_plural ''M'')),
       (''y'', RelNum (ar_plural ''y'')),
       (''yy'', RelNum (ar_plural ''y''))],
     l_ordinal = None,
     l_meridiem = Some ar_meridiem,
     l_is_pm = Some ar_isPM,
     l_meridiem_hour = None,
     l_preparse = Some ar_preparse,
     l_postformat = Some ar_postformat,
     l_week = Some (6, 12),
     l_meridiem_parse = Some (Regex False (Alt [Lit [0x635], Lit [0x645]])),
     l_ordinal_parse = None,
     l_parse = [],
     l_months_parse_exact = False,
     l_weekdays_parse_exact = True,
     l_invalid_date = None,
     l_eras = [],
     l_era_year = None \<rparr>"

text \<open>\<^verbatim>\<open>ar-dz\<close> (line 253).\<close>

definition ar_dz_pluralForm :: "nat \<Rightarrow> nat" where
  "ar_dz_pluralForm n = (if n = 0 then 0
      else if n = 1 then 1
      else if n = 2 then 2
      else if n mod 100 \<ge> 3 \<and> n mod 100 \<le> 10 then 3
      else if n mod 100 \<ge> 11 then 4
      else 5)"

definition ar_dz_plurals :: "(string \<times> js list list) list" where
  "ar_dz_plurals = [(''s'', [[[0x623, 0x642, 0x644, 0x20, 0x645, 0x646, 0x20, 0x62B, 0x627, 0x646,
      0x64A, 0x629]], [[0x62B, 0x627, 0x646, 0x64A, 0x629, 0x20, 0x648, 0x627, 0x62D, 0x62F,
      0x629]], [[0x62B, 0x627, 0x646, 0x64A, 0x62A, 0x627, 0x646], [0x62B, 0x627, 0x646, 0x64A,
      0x62A, 0x64A, 0x646]], [[0x25, 0x64, 0x20, 0x62B, 0x648, 0x627, 0x646]], [[0x25, 0x64, 0x20,
      0x62B, 0x627, 0x646, 0x64A, 0x629]], [[0x25, 0x64, 0x20, 0x62B, 0x627, 0x646, 0x64A,
      0x629]]]),
     (''m'', [[[0x623, 0x642, 0x644, 0x20, 0x645, 0x646, 0x20, 0x62F, 0x642, 0x64A, 0x642, 0x629]],
         [[0x62F, 0x642, 0x64A, 0x642, 0x629, 0x20, 0x648, 0x627, 0x62D, 0x62F, 0x629]], [[0x62F,
         0x642, 0x64A, 0x642, 0x62A, 0x627, 0x646], [0x62F, 0x642, 0x64A, 0x642, 0x62A, 0x64A,
         0x646]], [[0x25, 0x64, 0x20, 0x62F, 0x642, 0x627, 0x626, 0x642]], [[0x25, 0x64, 0x20,
         0x62F, 0x642, 0x64A, 0x642, 0x629]], [[0x25, 0x64, 0x20, 0x62F, 0x642, 0x64A, 0x642,
         0x629]]]),
     (''h'', [[[0x623, 0x642, 0x644, 0x20, 0x645, 0x646, 0x20, 0x633, 0x627, 0x639, 0x629]],
         [[0x633, 0x627, 0x639, 0x629, 0x20, 0x648, 0x627, 0x62D, 0x62F, 0x629]], [[0x633, 0x627,
         0x639, 0x62A, 0x627, 0x646], [0x633, 0x627, 0x639, 0x62A, 0x64A, 0x646]], [[0x25, 0x64,
         0x20, 0x633, 0x627, 0x639, 0x627, 0x62A]], [[0x25, 0x64, 0x20, 0x633, 0x627, 0x639,
         0x629]], [[0x25, 0x64, 0x20, 0x633, 0x627, 0x639, 0x629]]]),
     (''d'', [[[0x623, 0x642, 0x644, 0x20, 0x645, 0x646, 0x20, 0x64A, 0x648, 0x645]], [[0x64A,
         0x648, 0x645, 0x20, 0x648, 0x627, 0x62D, 0x62F]], [[0x64A, 0x648, 0x645, 0x627, 0x646],
         [0x64A, 0x648, 0x645, 0x64A, 0x646]], [[0x25, 0x64, 0x20, 0x623, 0x64A, 0x627, 0x645]],
         [[0x25, 0x64, 0x20, 0x64A, 0x648, 0x645, 0x64B, 0x627]], [[0x25, 0x64, 0x20, 0x64A, 0x648,
         0x645]]]),
     (''M'', [[[0x623, 0x642, 0x644, 0x20, 0x645, 0x646, 0x20, 0x634, 0x647, 0x631]], [[0x634,
         0x647, 0x631, 0x20, 0x648, 0x627, 0x62D, 0x62F]], [[0x634, 0x647, 0x631, 0x627, 0x646],
         [0x634, 0x647, 0x631, 0x64A, 0x646]], [[0x25, 0x64, 0x20, 0x623, 0x634, 0x647, 0x631]],
         [[0x25, 0x64, 0x20, 0x634, 0x647, 0x631, 0x627]], [[0x25, 0x64, 0x20, 0x634, 0x647,
         0x631]]]),
     (''y'', [[[0x623, 0x642, 0x644, 0x20, 0x645, 0x646, 0x20, 0x639, 0x627, 0x645]], [[0x639,
         0x627, 0x645, 0x20, 0x648, 0x627, 0x62D, 0x62F]], [[0x639, 0x627, 0x645, 0x627, 0x646],
         [0x639, 0x627, 0x645, 0x64A, 0x646]], [[0x25, 0x64, 0x20, 0x623, 0x639, 0x648, 0x627,
         0x645]], [[0x25, 0x64, 0x20, 0x639, 0x627, 0x645, 0x64B, 0x627]], [[0x25, 0x64, 0x20,
         0x639, 0x627, 0x645]]])]"

definition ar_dz_plural :: "string \<Rightarrow> nat \<Rightarrow> bool \<Rightarrow> string
    \<Rightarrow> bool \<Rightarrow> js option" where
  "ar_dz_plural u number withoutSuffix key isFuture = 
     Option.bind (map_of ar_dz_plurals u) (\<lambda>forms.
     Option.bind (js_nth forms (ar_dz_pluralForm number)) (\<lambda>f.
     map_option (js_subst_num number)
       (js_nth f (if ar_dz_pluralForm number = 2 then (if withoutSuffix then 0 else 1) else 0))))"

definition ar_dz_meridiem :: "nat \<Rightarrow> nat \<Rightarrow> bool \<Rightarrow> js" where
  "ar_dz_meridiem hour minute isLower = (if hour < 12 then [0x635] else [0x645])"

definition ar_dz_isPM :: "js \<Rightarrow> bool" where
  "ar_dz_isPM input \<longleftrightarrow> input = [0x645]"

definition ar_dz_postformat :: "js \<Rightarrow> js" where
  "ar_dz_postformat s = js_replace_unit 0x2C 0x60C s"

definition locale_ar_dz :: moment_locale where
  "locale_ar_dz = \<lparr>
     l_abbr = ''ar-dz'',
     l_months = Names [[0x62C, 0x627, 0x646, 0x641, 0x64A], [0x641, 0x64A, 0x641, 0x631, 0x64A],
         [0x645, 0x627, 0x631, 0x633], [0x623, 0x641, 0x631, 0x64A, 0x644], [0x645, 0x627, 0x64A],
         [0x62C, 0x648, 0x627, 0x646], [0x62C, 0x648, 0x64A, 0x644, 0x64A, 0x629], [0x623, 0x648,
         0x62A], [0x633, 0x628, 0x62A, 0x645, 0x628, 0x631], [0x623, 0x643, 0x62A, 0x648, 0x628,
         0x631], [0x646, 0x648, 0x641, 0x645, 0x628, 0x631], [0x62F, 0x64A, 0x633, 0x645, 0x628,
         0x631]],
     l_months_short = Names [[0x62C, 0x627, 0x646, 0x641, 0x64A], [0x641, 0x64A, 0x641, 0x631,
         0x64A], [0x645, 0x627, 0x631, 0x633], [0x623, 0x641, 0x631, 0x64A, 0x644], [0x645, 0x627,
         0x64A], [0x62C, 0x648, 0x627, 0x646], [0x62C, 0x648, 0x64A, 0x644, 0x64A, 0x629], [0x623,
         0x648, 0x62A], [0x633, 0x628, 0x62A, 0x645, 0x628, 0x631], [0x623, 0x643, 0x62A, 0x648,
         0x628, 0x631], [0x646, 0x648, 0x641, 0x645, 0x628, 0x631], [0x62F, 0x64A, 0x633, 0x645,
         0x628, 0x631]],
     l_weekdays = Names [[0x627, 0x644, 0x623, 0x62D, 0x62F], [0x627, 0x644, 0x625, 0x62B, 0x646,
         0x64A, 0x646], [0x627, 0x644, 0x62B, 0x644, 0x627, 0x62B, 0x627, 0x621], [0x627, 0x644,
         0x623, 0x631, 0x628, 0x639, 0x627, 0x621], [0x627, 0x644, 0x62E, 0x645, 0x64A, 0x633],
         [0x627, 0x644, 0x62C, 0x645, 0x639, 0x629], [0x627, 0x644, 0x633, 0x628, 0x62A]],
     l_weekdays_short = [[0x623, 0x62D, 0x62F], [0x625, 0x62B, 0x646, 0x64A, 0x646], [0x62B, 0x644,
         0x627, 0x62B, 0x627, 0x621], [0x623, 0x631, 0x628, 0x639, 0x627, 0x621], [0x62E, 0x645,
         0x64A, 0x633], [0x62C, 0x645, 0x639, 0x629], [0x633, 0x628, 0x62A]],
     l_weekdays_min = [[0x62D], [0x646], [0x62B], [0x631], [0x62E], [0x62C], [0x633]],
     l_long_date_format = [(''LT'', js ''HH:mm''),
       (''LTS'', js ''HH:mm:ss''),
       (''L'', [0x44, 0x2F, 0x200F, 0x4D, 0x2F, 0x200F] @ js ''YYYY''),
       (''LL'', js ''D MMMM YYYY''),
       (''LLL'', js ''D MMMM YYYY HH:mm''),
       (''LLLL'', js ''dddd D MMMM YYYY HH:mm'')],
     l_calendar = [(''sameDay'', CalText ([0x5B, 0x627, 0x644, 0x64A, 0x648, 0x645, 0x20, 0x639,
         0x646, 0x62F, 0x20, 0x627, 0x644, 0x633, 0x627, 0x639, 0x629] @ js ''] LT'')),
       (''nextDay'', CalText ([0x5B, 0x63A, 0x62F, 0x64B, 0x627, 0x20, 0x639, 0x646, 0x62F, 0x20,
           0x627, 0x644, 0x633, 0x627, 0x639, 0x629] @ js ''] LT'')),
       (''nextWeek'', CalText (js ''dddd ['' @ [0x639, 0x646, 0x62F, 0x20, 0x627, 0x644, 0x633,
           0x627, 0x639, 0x629] @ js ''] LT'')),
       (''lastDay'', CalText ([0x5B, 0x623, 0x645, 0x633, 0x20, 0x639, 0x646, 0x62F, 0x20, 0x627,
           0x644, 0x633, 0x627, 0x639, 0x629] @ js ''] LT'')),
       (''lastWeek'', CalText (js ''dddd ['' @ [0x639, 0x646, 0x62F, 0x20, 0x627, 0x644, 0x633,
           0x627, 0x639, 0x629] @ js ''] LT'')),
       (''sameElse'', CalText (js ''L''))],
     l_relative_time = [(''future'', RelText [0x628, 0x639, 0x62F, 0x20, 0x25, 0x73]),
       (''past'', RelText [0x645, 0x646, 0x630, 0x20, 0x25, 0x73]),
       (''s'', RelNum (ar_dz_plural ''s'')),
       (''ss'', RelNum (ar_dz_plural ''s'')),
       (''m'', RelNum (ar_dz_plural ''m'')),
       (''mm'', RelNum (ar_dz_plural ''m'')),
       (''h'', RelNum (ar_dz_plural ''h'')),
       (''hh'', RelNum (ar_dz_plural ''h'')),
       (''d'', RelNum (ar_dz_plural ''d'')),
       (''dd'', RelNum (ar_dz_plural ''d'')),
       (''M'', RelNum (ar_dz_plural ''M'')),
       (''MM'', RelNum (ar_dz_plural ''M'')),
       (''y'', RelNum (ar_dz_plural ''y'')),
       (''yy'', RelNum (ar_dz_plural ''y''))],
     l_ordinal = None,
     l_meridiem = Some ar_dz_meridiem,
     l_is_pm = Some ar_dz_isPM,
     l_meridiem_hour = None,
     l_preparse = None,
     l_postformat = Some ar_dz_postformat,
     l_week = Some (0, 4),
     l_meridiem_parse = Some (Regex False (Alt [Lit [0x635], Lit [0x645]])),
     l_ordinal_parse = None,
     l_parse = [],
     l_months_parse_exact = False,
     l_weekdays_parse_exact = True,
     l_invalid_date = None,
     l_eras = [],
     l_era_year = None \<rparr>"

text \<open>\<^verbatim>\<open>ar-kw\<close> (line 99).\<close>

definition locale_ar_kw :: moment_locale where
  "locale_ar_kw = \<lparr>
     l_abbr = ''ar-kw'',
     l_months = Names [[0x64A, 0x646, 0x627, 0x64A, 0x631], [0x641, 0x628, 0x631, 0x627, 0x64A,
         0x631], [0x645, 0x627, 0x631, 0x633], [0x623, 0x628, 0x631, 0x64A, 0x644], [0x645, 0x627,
         0x64A], [0x64A, 0x648, 0x646, 0x64A, 0x648], [0x64A, 0x648, 0x644, 0x64A, 0x648, 0x632],
         [0x63A, 0x634, 0x62A], [0x634, 0x62A, 0x646, 0x628, 0x631], [0x623, 0x643, 0x62A, 0x648,
         0x628, 0x631], [0x646, 0x648, 0x646, 0x628, 0x631], [0x62F, 0x62C, 0x646, 0x628, 0x631]],
     l_months_short = Names [[0x64A, 0x646, 0x627, 0x64A, 0x631], [0x641, 0x628, 0x631, 0x627,
         0x64A, 0x631], [0x645, 0x627, 0x631, 0x633], [0x623, 0x628, 0x631, 0x64A, 0x644], [0x645,
         0x627, 0x64A], [0x64A, 0x648, 0x646, 0x64A, 0x648], [0x64A, 0x648, 0x644, 0x64A, 0x648,
         0x632], [0x63A, 0x634, 0x62A], [0x634, 0x62A, 0x646, 0x628, 0x631], [0x623, 0x643, 0x62A,
         0x648, 0x628, 0x631], [0x646, 0x648, 0x646, 0x628, 0x631], [0x62F, 0x62C, 0x646, 0x628,
         0x631]],
     l_weekdays = Names [[0x627, 0x644, 0x623, 0x62D, 0x62F], [0x627, 0x644, 0x625, 0x62A, 0x646,
         0x64A, 0x646], [0x627, 0x644, 0x62B, 0x644, 0x627, 0x62B, 0x627, 0x621], [0x627, 0x644,
         0x623, 0x631, 0x628, 0x639, 0x627, 0x621], [0x627, 0x644, 0x62E, 0x645, 0x64A, 0x633],
         [0x627, 0x644, 0x62C, 0x645, 0x639, 0x629], [0x627, 0x644, 0x633, 0x628, 0x62A]],
     l_weekdays_short = [[0x627, 0x62D, 0x62F], [0x627, 0x62A, 0x646, 0x64A, 0x646], [0x62B, 0x644,
         0x627, 0x62B, 0x627, 0x621], [0x627, 0x631, 0x628, 0x639, 0x627, 0x621], [0x62E, 0x645,
         0x64A, 0x633], [0x62C, 0x645, 0x639, 0x629], [0x633, 0x628, 0x62A]],
     l_weekdays_min = [[0x62D], [0x646], [0x62B], [0x631], [0x62E], [0x62C], [0x633]],
     l_long_date_format = [(''LT'', js ''HH:mm''),
       (''LTS'', js ''HH:mm:ss''),
       (''L'', js ''DD/MM/YYYY''),
       (''LL'', js ''D MMMM YYYY''),
       (''LLL'', js ''D MMMM YYYY HH:mm''),
       (''LLLL'', js ''dddd D MMMM YYYY HH:mm'')],
     l_calendar = [(''sameDay'', CalText ([0x5B, 0x627, 0x644, 0x64A, 0x648, 0x645, 0x20, 0x639,
         0x644, 0x649, 0x20, 0x627, 0x644, 0x633, 0x627, 0x639, 0x629] @ js ''] LT'')),
       (''nextDay'', CalText ([0x5B, 0x63A, 0x62F, 0x627, 0x20, 0x639, 0x644, 0x649, 0x20, 0x627,
           0x644, 0x633, 0x627, 0x639, 0x629] @ js ''] LT'')),
       (''nextWeek'', CalText (js ''dddd ['' @ [0x639, 0x644, 0x649, 0x20, 0x627, 0x644, 0x633,
           0x627, 0x639, 0x629] @ js ''] LT'')),
       (''lastDay'', CalText ([0x5B, 0x623, 0x645, 0x633, 0x20, 0x639, 0x644, 0x649, 0x20, 0x627,
           0x644, 0x633, 0x627, 0x639, 0x629] @ js ''] LT'')),
       (''lastWeek'', CalText (js ''dddd ['' @ [0x639, 0x644, 0x649, 0x20, 0x627, 0x644, 0x633,
           0x627, 0x639, 0x629] @ js ''] LT'')),
       (''sameElse'', CalText (js ''L''))],
     l_relative_time = [(''future'', RelText [0x641, 0x64A, 0x20, 0x25, 0x73]),
       (''past'', RelText [0x645, 0x646, 0x630, 0x20, 0x25, 0x73]),
       (''s'', RelText [0x62B, 0x648, 0x627, 0x646]),
       (''ss'', RelText [0x25, 0x64, 0x20, 0x62B, 0x627, 0x646, 0x64A, 0x629]),
       (''m'', RelText [0x62F, 0x642, 0x64A, 0x642, 0x629]),
       (''mm'', RelText [0x25, 0x64, 0x20, 0x62F, 0x642, 0x627, 0x626, 0x642]),
       (''h'', RelText [0x633, 0x627, 0x639, 0x629]),
       (''hh'', RelText [0x25, 0x64, 0x20, 0x633, 0x627, 0x639, 0x627, 0x62A]),
       (''d'', RelText [0x64A, 0x648, 0x645]),
       (''dd'', RelText [0x25, 0x64, 0x20, 0x623, 0x64A, 0x627, 0x645]),
       (''M'', RelText [0x634, 0x647, 0x631]),
       (''MM'', RelText [0x25, 0x64, 0x20, 0x623, 0x634, 0x647, 0x631]),
       (''y'', RelText [0x633, 0x646, 0x629]),
       (''yy'', RelText [0x25, 0x64, 0x20, 0x633, 0x646, 0x648, 0x627, 0x62A])],
     l_ordinal = None,
     l_meridiem = None,
     l_is_pm = None,
     l_meridiem_hour = None,
     l_preparse = None,
     l_postformat = None,
     l_week = Some (0, 12),
     l_meridiem_parse = None,
     l_ordinal_parse = None,
     l_parse = [],
     l_months_parse_exact = False,
     l_weekdays_parse_exact = True,
     l_invalid_date = None,
     l_eras = [],
     l_era_year = None \<rparr>"

text \<open>\<^verbatim>\<open>ar-ly\<close> (line 41).\<close>

definition ar_ly_pluralForm :: "nat \<Rightarrow> nat" where
  "ar_ly_pluralForm n = (if n = 0 then 0
      else if n = 1 then 1
      else if n = 2 then 2
      else if n mod 100 \<ge> 3 \<and> n mod 100 \<le> 10 then 3
      else if n mod 100 \<ge> 11 then 4
      else 5)"

definition ar_ly_plurals :: "(string \<times> js list list) list" where
  "ar_ly_plurals = [(''s'', [[[0x623, 0x642, 0x644, 0x20, 0x645, 0x646, 0x20, 0x62B, 0x627, 0x646,
      0x64A, 0x629]], [[0x62B, 0x627, 0x646, 0x64A, 0x629, 0x20, 0x648, 0x627, 0x62D, 0x62F,
      0x629]], [[0x62B, 0x627, 0x646, 0x64A, 0x62A, 0x627, 0x646], [0x62B, 0x627, 0x646, 0x64A,
      0x62A, 0x64A, 0x646]], [[0x25, 0x64, 0x20, 0x62B, 0x648, 0x627, 0x646]], [[0x25, 0x64, 0x20,
      0x62B, 0x627, 0x646, 0x64A, 0x629]], [[0x25, 0x64, 0x20, 0x62B, 0x627, 0x646, 0x64A,
      0x629]]]),
     (''m'', [[[0x623, 0x642, 0x644, 0x20, 0x645, 0x646, 0x20, 0x62F, 0x642, 0x64A, 0x642, 0x629]],
         [[0x62F, 0x642, 0x64A, 0x642, 0x629, 0x20, 0x648, 0x627, 0x62D, 0x62F, 0x629]], [[0x62F,
         0x642, 0x64A, 0x642, 0x62A, 0x627, 0x646], [0x62F, 0x642, 0x64A, 0x642, 0x62A, 0x64A,
         0x646]], [[0x25, 0x64, 0x20, 0x62F, 0x642, 0x627, 0x626, 0x642]], [[0x25, 0x64, 0x20,
         0x62F, 0x642, 0x64A, 0x642, 0x629]], [[0x25, 0x64, 0x20, 0x62F, 0x642, 0x64A, 0x642,
         0x629]]]),
     (''h'', [[[0x623, 0x642, 0x644, 0x20, 0x645, 0x646, 0x20, 0x633, 0x627, 0x639, 0x629]],
         [[0x633, 0x627, 0x639, 0x629, 0x20, 0x648, 0x627, 0x62D, 0x62F, 0x629]], [[0x633, 0x627,
         0x639, 0x62A, 0x627, 0x646], [0x633, 0x627, 0x639, 0x62A, 0x64A, 0x646]], [[0x25, 0x64,
         0x20, 0x633, 0x627, 0x639, 0x627, 0x62A]], [[0x25, 0x64, 0x20, 0x633, 0x627, 0x639,
         0x629]], [[0x25, 0x64, 0x20, 0x633, 0x627, 0x639, 0x629]]]),
     (''d'', [[[0x623, 0x642, 0x644, 0x20, 0x645, 0x646, 0x20, 0x64A, 0x648, 0x645]], [[0x64A,
         0x648, 0x645, 0x20, 0x648, 0x627, 0x62D, 0x62F]], [[0x64A, 0x648, 0x645, 0x627, 0x646],
         [0x64A, 0x648, 0x645, 0x64A, 0x646]], [[0x25, 0x64, 0x20, 0x623, 0x64A, 0x627, 0x645]],
         [[0x25, 0x64, 0x20, 0x64A, 0x648, 0x645, 0x64B, 0x627]], [[0x25, 0x64, 0x20, 0x64A, 0x648,
         0x645]]]),
     (''M'', [[[0x623, 0x642, 0x644, 0x20, 0x645, 0x646, 0x20, 0x634, 0x647, 0x631]], [[0x634,
         0x647, 0x631, 0x20, 0x648, 0x627, 0x62D, 0x62F]], [[0x634, 0x647, 0x631, 0x627, 0x646],
         [0x634, 0x647, 0x631, 0x64A, 0x646]], [[0x25, 0x64, 0x20, 0x623, 0x634, 0x647, 0x631]],
         [[0x25, 0x64, 0x20, 0x634, 0x647, 0x631, 0x627]], [[0x25, 0x64, 0x20, 0x634, 0x647,
         0x631]]]),
     (''y'', [[[0x623, 0x642, 0x644, 0x20, 0x645, 0x646, 0x20, 0x639, 0x627, 0x645]], [[0x639,
         0x627, 0x645, 0x20, 0x648, 0x627, 0x62D, 0x62F]], [[0x639, 0x627, 0x645, 0x627, 0x646],
         [0x639, 0x627, 0x645, 0x64A, 0x646]], [[0x25, 0x64, 0x20, 0x623, 0x639, 0x648, 0x627,
         0x645]], [[0x25, 0x64, 0x20, 0x639, 0x627, 0x645, 0x64B, 0x627]], [[0x25, 0x64, 0x20,
         0x639, 0x627, 0x645]]])]"

definition ar_ly_plural :: "string \<Rightarrow> nat \<Rightarrow> bool \<Rightarrow> string
    \<Rightarrow> bool \<Rightarrow> js option" where
  "ar_ly_plural u number withoutSuffix key isFuture = 
     Option.bind (map_of ar_ly_plurals u) (\<lambda>forms.
     Option.bind (js_nth forms (ar_ly_pluralForm number)) (\<lambda>f.
     map_option (js_subst_num number)
       (js_nth f (if ar_ly_pluralForm number = 2 then (if withoutSuffix then 0 else 1) else 0))))"

definition ar_ly_meridiem :: "nat \<Rightarrow> nat \<Rightarrow> bool \<Rightarrow> js" where
  "ar_ly_meridiem hour minute isLower = (if hour < 12 then [0x635] else [0x645])"

definition ar_ly_isPM :: "js \<Rightarrow> bool" where
  "ar_ly_isPM input \<longleftrightarrow> input = [0x645]"

definition ar_ly_preparse :: "js \<Rightarrow> js" where
  "ar_ly_preparse s = js_replace_unit 0x60C 0x2C s"

definition ar_ly_postformat :: "js \<Rightarrow> js" where
  "ar_ly_postformat s = js_replace_unit 0x2C 0x60C (js_replace_units [(0x30, [0x30]), (0x31,
      [0x31]), (0x32, [0x32]), (0x33, [0x33]), (0x34, [0x34]), (0x35, [0x35]), (0x36, [0x36]),
      (0x37, [0x37]), (0x38, [0x38]), (0x39, [0x39])] s)"

definition locale_ar_ly :: moment_locale where
  "locale_ar_ly = \<lparr>
     l_abbr = ''ar-ly'',
     l_months = Names [[0x64A, 0x646, 0x627, 0x64A, 0x631], [0x641, 0x628, 0x631, 0x627, 0x64A,
         0x631], [0x645, 0x627, 0x631, 0x633], [0x623, 0x628, 0x631, 0x64A, 0x644], [0x645, 0x627,
         0x64A, 0x648], [0x64A, 0x648, 0x646, 0x64A, 0x648], [0x64A, 0x648, 0x644, 0x64A, 0x648],
         [0x623, 0x63A, 0x633, 0x637, 0x633], [0x633, 0x628, 0x62A, 0x645, 0x628, 0x631], [0x623,
         0x643, 0x62A, 0x648, 0x628, 0x631], [0x646, 0x648, 0x641, 0x645, 0x628, 0x631], [0x62F,
         0x64A, 0x633, 0x645, 0x628, 0x631]],
     l_months_short = Names [[0x64A, 0x646, 0x627, 0x64A, 0x631], [0x641, 0x628, 0x631, 0x627,
         0x64A, 0x631], [0x645, 0x627, 0x631, 0x633], [0x623, 0x628, 0x631, 0x64A, 0x644], [0x645,
         0x627, 0x64A, 0x648], [0x64A, 0x648, 0x646, 0x64A, 0x648], [0x64A, 0x648, 0x644, 0x64A,
         0x648], [0x623, 0x63A, 0x633, 0x637, 0x633], [0x633, 0x628, 0x62A, 0x645, 0x628, 0x631],
         [0x623, 0x643, 0x62A, 0x648, 0x628, 0x631], [0x646, 0x648, 0x641, 0x645, 0x628, 0x631],
         [0x62F, 0x64A, 0x633, 0x645, 0x628, 0x631]],
     l_weekdays = Names [[0x627, 0x644, 0x623, 0x62D, 0x62F], [0x627, 0x644, 0x625, 0x62B, 0x646,
         0x64A, 0x646], [0x627, 0x644, 0x62B, 0x644, 0x627, 0x62B, 0x627, 0x621], [0x627, 0x644,
         0x623, 0x631, 0x628, 0x639, 0x627, 0x621], [0x627, 0x644, 0x62E, 0x645, 0x64A, 0x633],
         [0x627, 0x644, 0x62C, 0x645, 0x639, 0x629], [0x627, 0x644, 0x633, 0x628, 0x62A]],
     l_weekdays_short = [[0x623, 0x62D, 0x62F], [0x625, 0x62B, 0x646, 0x64A, 0x646], [0x62B, 0x644,
         0x627, 0x62B, 0x627, 0x621], [0x623, 0x631, 0x628, 0x639, 0x627, 0x621], [0x62E, 0x645,
         0x64A, 0x633], [0x62C, 0x645, 0x639, 0x629], [0x633, 0x628, 0x62A]],
     l_weekdays_min = [[0x62D], [0x646], [0x62B], [0x631], [0x62E], [0x62C], [0x633]],
     l_long_date_format = [(''LT'', js ''HH:mm''),
       (''LTS'', js ''HH:mm:ss''),
       (''L'', [0x44, 0x2F, 0x200F, 0x4D, 0x2F, 0x200F] @ js ''YYYY''),
       (''LL'', js ''D MMMM YYYY''),
       (''LLL'', js ''D MMMM YYYY HH:mm''),
       (''LLLL'', js ''dddd D MMMM YYYY HH:mm'')],
     l_calendar = [(''sameDay'', CalText ([0x5B, 0x627, 0x644, 0x64A, 0x648, 0x645, 0x20, 0x639,
         0x646, 0x62F, 0x20, 0x627, 0x644, 0x633, 0x627, 0x639, 0x629] @ js ''] LT'')),
       (''nextDay'', CalText ([0x5B, 0x63A, 0x62F, 0x64B, 0x627, 0x20, 0x639, 0x646, 0x62F, 0x20,
           0x627, 0x644, 0x633, 0x627, 0x639, 0x629] @ js ''] LT'')),
       (''nextWeek'', CalText (js ''dddd ['' @ [0x639, 0x646, 0x62F, 0x20, 0x627, 0x644, 0x633,
           0x627, 0x639, 0x629] @ js ''] LT'')),
       (''lastDay'', CalText ([0x5B, 0x623, 0x645, 0x633, 0x20, 0x639, 0x646, 0x62F, 0x20, 0x627,
           0x644, 0x633, 0x627, 0x639, 0x629] @ js ''] LT'')),
       (''lastWeek'', CalText (js ''dddd ['' @ [0x639, 0x646, 0x62F, 0x20, 0x627, 0x644, 0x633,
           0x627, 0x639, 0x629] @ js ''] LT'')),
       (''sameElse'', CalText (js ''L''))],
     l_relative_time = [(''future'', RelText [0x628, 0x639, 0x62F, 0x20, 0x25, 0x73]),
       (''past'', RelText [0x645, 0x646, 0x630, 0x20, 0x25, 0x73]),
       (''s'', RelNum (ar_ly_plural ''s'')),
       (''ss'', RelNum (ar_ly_plural ''s'')),
       (''m'', RelNum (ar_ly_plural ''m'')),
       (''mm'', RelNum (ar_ly_plural ''m'')),
       (''h'', RelNum (ar_ly_plural ''h'')),
       (''hh'', RelNum (ar_ly_plural ''h'')),
       (''d'', RelNum (ar_ly_plural ''d'')),
       (''dd'', RelNum (ar_ly_plural ''d'')),
       (''M'', RelNum (ar_ly_plural ''M'')),
       (''MM'', RelNum (ar_ly_plural ''M'')),
       (''y'', RelNum (ar_ly_plural ''y'')),
       (''yy'', RelNum (ar_ly_plural ''y''))],
     l_ordinal = None,
     l_meridiem = Some ar_ly_meridiem,
     l_is_pm = Some ar_ly_isPM,
     l_meridiem_hour = None,
     l_preparse = Some ar_ly_preparse,
     l_postformat = Some ar_ly_postformat,
     l_week = Some (6, 12),
     l_meridiem_parse = Some (Regex False (Alt [Lit [0x635], Lit [0x645]])),
     l_ordinal_parse = None,
     l_parse = [],
     l_months_parse_exact = False,
     l_weekdays_parse_exact = True,
     l_invalid_date = None,
     l_eras = [],
     l_era_year = None \<rparr>"

text \<open>\<^verbatim>\<open>ar-ma\<close> (line 17).\<close>

definition locale_ar_ma :: moment_locale where
  "locale_ar_ma = \<lparr>
     l_abbr = ''ar-ma'',
     l_months = Names [[0x64A, 0x646, 0x627, 0x64A, 0x631], [0x641, 0x628, 0x631, 0x627, 0x64A,
         0x631], [0x645, 0x627, 0x631, 0x633], [0x623, 0x628, 0x631, 0x64A, 0x644], [0x645, 0x627,
         0x64A], [0x64A, 0x648, 0x646, 0x64A, 0x648], [0x64A, 0x648, 0x644, 0x64A, 0x648, 0x632],
         [0x63A, 0x634, 0x62A], [0x634, 0x62A, 0x646, 0x628, 0x631], [0x623, 0x643, 0x62A, 0x648,
         0x628, 0x631], [0x646, 0x648, 0x646, 0x628, 0x631], [0x62F, 0x62C, 0x646, 0x628, 0x631]],
     l_months_short = Names [[0x64A, 0x646, 0x627, 0x64A, 0x631], [0x641, 0x628, 0x631, 0x627,
         0x64A, 0x631], [0x645, 0x627, 0x631, 0x633], [0x623, 0x628, 0x631, 0x64A, 0x644], [0x645,
         0x627, 0x64A], [0x64A, 0x648, 0x646, 0x64A, 0x648], [0x64A, 0x648, 0x644, 0x64A, 0x648,
         0x632], [0x63A, 0x634, 0x62A], [0x634, 0x62A, 0x646, 0x628, 0x631], [0x623, 0x643, 0x62A,
         0x648, 0x628, 0x631], [0x646, 0x648, 0x646, 0x628, 0x631], [0x62F, 0x62C, 0x646, 0x628,
         0x631]],
     l_weekdays = Names [[0x627, 0x644, 0x623, 0x62D, 0x62F], [0x627, 0x644, 0x625, 0x62B, 0x646,
         0x64A, 0x646], [0x627, 0x644, 0x62B, 0x644, 0x627, 0x62B, 0x627, 0x621], [0x627, 0x644,
         0x623, 0x631, 0x628, 0x639, 0x627, 0x621], [0x627, 0x644, 0x62E, 0x645, 0x64A, 0x633],
         [0x627, 0x644, 0x62C, 0x645, 0x639, 0x629], [0x627, 0x644, 0x633, 0x628, 0x62A]],
     l_weekdays_short = [[0x627, 0x62D, 0x62F], [0x627, 0x62B, 0x646, 0x64A, 0x646], [0x62B, 0x644,
         0x627, 0x62B, 0x627, 0x621], [0x627, 0x631, 0x628, 0x639, 0x627, 0x621], [0x62E, 0x645,
         0x64A, 0x633], [0x62C, 0x645, 0x639, 0x629], [0x633, 0x628, 0x62A]],
     l_weekdays_min = [[0x62D], [0x646], [0x62B], [0x631], [0x62E], [0x62C], [0x633]],
     l_long_date_format = [(''LT'', js ''HH:mm''),
       (''LTS'', js ''HH:mm:ss''),
       (''L'', js ''DD/MM/YYYY''),
       (''LL'', js ''D MMMM YYYY''),
       (''LLL'', js ''D MMMM YYYY HH:mm''),
       (''LLLL'', js ''dddd D MMMM YYYY HH:mm'')],
     l_calendar = [(''sameDay'', CalText ([0x5B, 0x627, 0x644, 0x64A, 0x648, 0x645, 0x20, 0x639,
         0x644, 0x649, 0x20, 0x627, 0x644, 0x633, 0x627, 0x639, 0x629] @ js ''] LT'')),
       (''nextDay'', CalText ([0x5B, 0x63A, 0x62F, 0x627, 0x20, 0x639, 0x644, 0x649, 0x20, 0x627,
           0x644, 0x633, 0x627, 0x639, 0x629] @ js ''] LT'')),
       (''nextWeek'', CalText (js ''dddd ['' @ [0x639, 0x644, 0x649, 0x20, 0x627, 0x644, 0x633,
           0x627, 0x639, 0x629] @ js ''] LT'')),
       (''lastDay'', CalText ([0x5B, 0x623, 0x645, 0x633, 0x20, 0x639, 0x644, 0x649, 0x20, 0x627,
           0x644, 0x633, 0x627, 0x639, 0x629] @ js ''] LT'')),
       (''lastWeek'', CalText (js ''dddd ['' @ [0x639, 0x644, 0x649, 0x20, 0x627, 0x644, 0x633,
           0x627, 0x639, 0x629] @ js ''] LT'')),
       (''sameElse'', CalText (js ''L''))],
     l_relative_time = [(''future'', RelText [0x641, 0x64A, 0x20, 0x25, 0x73]),
       (''past'', RelText [0x645, 0x646, 0x630, 0x20, 0x25, 0x73]),
       (''s'', RelText [0x62B, 0x648, 0x627, 0x646]),
       (''ss'', RelText [0x25, 0x64, 0x20, 0x62B, 0x627, 0x646, 0x64A, 0x629]),
       (''m'', RelText [0x62F, 0x642, 0x64A, 0x642, 0x629]),
       (''mm'', RelText [0x25, 0x64, 0x20, 0x62F, 0x642, 0x627, 0x626, 0x642]),
       (''h'', RelText [0x633, 0x627, 0x639, 0x629]),
       (''hh'', RelText [0x25, 0x64, 0x20, 0x633, 0x627, 0x639, 0x627, 0x62A]),
       (''d'', RelText [0x64A, 0x648, 0x645]),
       (''dd'', RelText [0x25, 0x64, 0x20, 0x623, 0x64A, 0x627, 0x645]),
       (''M'', RelText [0x634, 0x647, 0x631]),
       (''MM'', RelText [0x25, 0x64, 0x20, 0x623, 0x634, 0x647, 0x631]),
       (''y'', RelText [0x633, 0x646, 0x629]),
       (''yy'', RelText [0x25, 0x64, 0x20, 0x633, 0x646, 0x648, 0x627, 0x62A])],
     l_ordinal = None,
     l_meridiem = None,
     l_is_pm = None,
     l_meridiem_hour = None,
     l_preparse = None,
     l_postformat = None,
     l_week = Some (1, 4),
     l_meridiem_parse = None,
     l_ordinal_parse = None,
     l_parse = [],
     l_months_parse_exact = False,
     l_weekdays_parse_exact = True,
     l_invalid_date = None,
     l_eras = [],
     l_era_year = None \<rparr>"

text \<open>\<^verbatim>\<open>ar-sa\<close> (line 213).\<close>

definition ar_sa_meridiem :: "nat \<Rightarrow> nat \<Rightarrow> bool \<Rightarrow> js" where
  "ar_sa_meridiem hour minute isLower = (if hour < 12 then [0x635] else [0x645])"

definition ar_sa_isPM :: "js \<Rightarrow> bool" where
  "ar_sa_isPM input \<longleftrightarrow> input = [0x645]"

definition ar_sa_preparse :: "js \<Rightarrow> js" where
  "ar_sa_preparse s = js_replace_unit 0x60C 0x2C (js_replace_units [(0x661, [0x31]), (0x662,
      [0x32]), (0x663, [0x33]), (0x664, [0x34]), (0x665, [0x35]), (0x666, [0x36]), (0x667, [0x37]),
      (0x668, [0x38]), (0x669, [0x39]), (0x660, [0x30])] s)"

definition ar_sa_postformat :: "js \<Rightarrow> js" where
  "ar_sa_postformat s = js_replace_unit 0x2C 0x60C (js_replace_units [(0x30, [0x660]), (0x31,
      [0x661]), (0x32, [0x662]), (0x33, [0x663]), (0x34, [0x664]), (0x35, [0x665]), (0x36, [0x666]),
      (0x37, [0x667]), (0x38, [0x668]), (0x39, [0x669])] s)"

definition locale_ar_sa :: moment_locale where
  "locale_ar_sa = \<lparr>
     l_abbr = ''ar-sa'',
     l_months = Names [[0x64A, 0x646, 0x627, 0x64A, 0x631], [0x641, 0x628, 0x631, 0x627, 0x64A,
         0x631], [0x645, 0x627, 0x631, 0x633], [0x623, 0x628, 0x631, 0x64A, 0x644], [0x645, 0x627,
         0x64A, 0x648], [0x64A, 0x648, 0x646, 0x64A, 0x648], [0x64A, 0x648, 0x644, 0x64A, 0x648],
         [0x623, 0x63A, 0x633, 0x637, 0x633], [0x633, 0x628, 0x62A, 0x645, 0x628, 0x631], [0x623,
         0x643, 0x62A, 0x648, 0x628, 0x631], [0x646, 0x648, 0x641, 0x645, 0x628, 0x631], [0x62F,
         0x64A, 0x633, 0x645, 0x628, 0x631]],
     l_months_short = Names [[0x64A, 0x646, 0x627, 0x64A, 0x631], [0x641, 0x628, 0x631, 0x627,
         0x64A, 0x631], [0x645, 0x627, 0x631, 0x633], [0x623, 0x628, 0x631, 0x64A, 0x644], [0x645,
         0x627, 0x64A, 0x648], [0x64A, 0x648, 0x646, 0x64A, 0x648], [0x64A, 0x648, 0x644, 0x64A,
         0x648], [0x623, 0x63A, 0x633, 0x637, 0x633], [0x633, 0x628, 0x62A, 0x645, 0x628, 0x631],
         [0x623, 0x643, 0x62A, 0x648, 0x628, 0x631], [0x646, 0x648, 0x641, 0x645, 0x628, 0x631],
         [0x62F, 0x64A, 0x633, 0x645, 0x628, 0x631]],
     l_weekdays = Names [[0x627, 0x644, 0x623, 0x62D, 0x62F], [0x627, 0x644, 0x625, 0x62B, 0x646,
         0x64A, 0x646], [0x627, 0x644, 0x62B, 0x644, 0x627, 0x62B, 0x627, 0x621], [0x627, 0x644,
         0x623, 0x631, 0x628, 0x639, 0x627, 0x621], [0x627, 0x644, 0x62E, 0x645, 0x64A, 0x633],
         [0x627, 0x644, 0x62C, 0x645, 0x639, 0x629], [0x627, 0x644, 0x633, 0x628, 0x62A]],
     l_weekdays_short = [[0x623, 0x62D, 0x62F], [0x625, 0x62B, 0x646, 0x64A, 0x646], [0x62B, 0x644,
         0x627, 0x62B, 0x627, 0x621], [0x623, 0x631, 0x628, 0x639, 0x627, 0x621], [0x62E, 0x645,
         0x64A, 0x633], [0x62C, 0x645, 0x639, 0x629], [0x633, 0x628, 0x62A]],
     l_weekdays_min = [[0x62D], [0x646], [0x62B], [0x631], [0x62E], [0x62C], [0x633]],
     l_long_date_format = [(''LT'', js ''HH:mm''),
       (''LTS'', js ''HH:mm:ss''),
       (''L'', js ''DD/MM/YYYY''),
       (''LL'', js ''D MMMM YYYY''),
       (''LLL'', js ''D MMMM YYYY HH:mm''),
       (''LLLL'', js ''dddd D MMMM YYYY HH:mm'')],
     l_calendar = [(''sameDay'', CalText ([0x5B, 0x627, 0x644, 0x64A, 0x648, 0x645, 0x20, 0x639,
         0x644, 0x649, 0x20, 0x627, 0x644, 0x633, 0x627, 0x639, 0x629] @ js ''] LT'')),
       (''nextDay'', CalText ([0x5B, 0x63A, 0x62F, 0x627, 0x20, 0x639, 0x644, 0x649, 0x20, 0x627,
           0x644, 0x633, 0x627, 0x639, 0x629] @ js ''] LT'')),
       (''nextWeek'', CalText (js ''dddd ['' @ [0x639, 0x644, 0x649, 0x20, 0x627, 0x644, 0x633,
           0x627, 0x639, 0x629] @ js ''] LT'')),
       (''lastDay'', CalText ([0x5B, 0x623, 0x645, 0x633, 0x20, 0x639, 0x644, 0x649, 0x20, 0x627,
           0x644, 0x633, 0x627, 0x639, 0x629] @ js ''] LT'')),
       (''lastWeek'', CalText (js ''dddd ['' @ [0x639, 0x644, 0x649, 0x20, 0x627, 0x644, 0x633,
           0x627, 0x639, 0x629] @ js ''] LT'')),
       (''sameElse'', CalText (js ''L''))],
     l_relative_time = [(''future'', RelText [0x641, 0x64A, 0x20, 0x25, 0x73]),
       (''past'', RelText [0x645, 0x646, 0x630, 0x20, 0x25, 0x73]),
       (''s'', RelText [0x62B, 0x648, 0x627, 0x646]),
       (''ss'', RelText [0x25, 0x64, 0x20, 0x62B, 0x627, 0x646, 0x64A, 0x629]),
       (''m'', RelText [0x62F, 0x642, 0x64A, 0x642, 0x629]),
       (''mm'', RelText [0x25, 0x64, 0x20, 0x62F, 0x642, 0x627, 0x626, 0x642]),
       (''h'', RelText [0x633, 0x627, 0x639, 0x629]),
       (''hh'', RelText [0x25, 0x64, 0x20, 0x633, 0x627, 0x639, 0x627, 0x62A]),
       (''d'', RelText [0x64A, 0x648, 0x645]),
       (''dd'', RelText [0x25, 0x64, 0x20, 0x623, 0x64A, 0x627, 0x645]),
       (''M'', RelText [0x634, 0x647, 0x631]),
       (''MM'', RelText [0x25, 0x64, 0x20, 0x623, 0x634, 0x647, 0x631]),
       (''y'', RelText [0x633, 0x646, 0x629]),
       (''yy'', RelText [0x25, 0x64, 0x20, 0x633, 0x646, 0x648, 0x627, 0x62A])],
     l_ordinal = None,
     l_meridiem = Some ar_sa_meridiem,
     l_is_pm = Some ar_sa_isPM,
     l_meridiem_hour = None,
     l_preparse = Some ar_sa_preparse,
     l_postformat = Some ar_sa_postformat,
     l_week = Some (0, 6),
     l_meridiem_parse = Some (Regex False (Alt [Lit [0x635], Lit [0x645]])),
     l_ordinal_parse = None,
     l_parse = [],
     l_months_parse_exact = False,
     l_weekdays_parse_exact = True,
     l_invalid_date = None,
     l_eras = [],
     l_era_year = None \<rparr>"

text \<open>\<^verbatim>\<open>ar-tn\<close> (line 176).\<close>

definition locale_ar_tn :: moment_locale where
  "locale_ar_tn = \<lparr>
     l_abbr = ''ar-tn'',
     l_months = Names [[0x62C, 0x627, 0x646, 0x641, 0x64A], [0x641, 0x64A, 0x641, 0x631, 0x64A],
         [0x645, 0x627, 0x631, 0x633], [0x623, 0x641, 0x631, 0x64A, 0x644], [0x645, 0x627, 0x64A],
         [0x62C, 0x648, 0x627, 0x646], [0x62C, 0x648, 0x64A, 0x644, 0x64A, 0x629], [0x623, 0x648,
         0x62A], [0x633, 0x628, 0x62A, 0x645, 0x628, 0x631], [0x623, 0x643, 0x62A, 0x648, 0x628,
         0x631], [0x646, 0x648, 0x641, 0x645, 0x628, 0x631], [0x62F, 0x64A, 0x633, 0x645, 0x628,
         0x631]],
     l_months_short = Names [[0x62C, 0x627, 0x646, 0x641, 0x64A], [0x641, 0x64A, 0x641, 0x631,
         0x64A], [0x645, 0x627, 0x631, 0x633], [0x623, 0x641, 0x631, 0x64A, 0x644], [0x645, 0x627,
         0x64A], [0x62C, 0x648, 0x627, 0x646], [0x62C, 0x648, 0x64A, 0x644, 0x64A, 0x629], [0x623,
         0x648, 0x62A], [0x633, 0x628, 0x62A, 0x645, 0x628, 0x631], [0x623, 0x643, 0x62A, 0x648,
         0x628, 0x631], [0x646, 0x648, 0x641, 0x645, 0x628, 0x631], [0x62F, 0x64A, 0x633, 0x645,
         0x628, 0x631]],
     l_weekdays = Names [[0x627, 0x644, 0x623, 0x62D, 0x62F], [0x627, 0x644, 0x625, 0x62B, 0x646,
         0x64A, 0x646], [0x627, 0x644, 0x62B, 0x644, 0x627, 0x62B, 0x627, 0x621], [0x627, 0x644,
         0x623, 0x631, 0x628, 0x639, 0x627, 0x621], [0x627, 0x644, 0x62E, 0x645, 0x64A, 0x633],
         [0x627, 0x644, 0x62C, 0x645, 0x639, 0x629], [0x627, 0x644, 0x633, 0x628, 0x62A]],
     l_weekdays_short = [[0x623, 0x62D, 0x62F], [0x625, 0x62B, 0x646, 0x64A, 0x646], [0x62B, 0x644,
         0x627, 0x62B, 0x627, 0x621], [0x623, 0x631, 0x628, 0x639, 0x627, 0x621], [0x62E, 0x645,
         0x64A, 0x633], [0x62C, 0x645, 0x639, 0x629], [0x633, 0x628, 0x62A]],
     l_weekdays_min = [[0x62D], [0x646], [0x62B], [0x631], [0x62E], [0x62C], [0x633]],
     l_long_date_format = [(''LT'', js ''HH:mm''),
       (''LTS'', js ''HH:mm:ss''),
       (''L'', js ''DD/MM/YYYY''),
       (''LL'', js ''D MMMM YYYY''),
       (''LLL'', js ''D MMMM YYYY HH:mm''),
       (''LLLL'', js ''dddd D MMMM YYYY HH:mm'')],
     l_calendar = [(''sameDay'', CalText ([0x5B, 0x627, 0x644, 0x64A, 0x648, 0x645, 0x20, 0x639,
         0x644, 0x649, 0x20, 0x627, 0x644, 0x633, 0x627, 0x639, 0x629] @ js ''] LT'')),
       (''nextDay'', CalText ([0x5B, 0x63A, 0x62F, 0x627, 0x20, 0x639, 0x644, 0x649, 0x20, 0x627,
           0x644, 0x633, 0x627, 0x639, 0x629] @ js ''] LT'')),
       (''nextWeek'', CalText (js ''dddd ['' @ [0x639, 0x644, 0x649, 0x20, 0x627, 0x644, 0x633,
           0x627, 0x639, 0x629] @ js ''] LT'')),
       (''lastDay'', CalText ([0x5B, 0x623, 0x645, 0x633, 0x20, 0x639, 0x644, 0x649, 0x20, 0x627,
           0x644, 0x633, 0x627, 0x639, 0x629] @ js ''] LT'')),
       (''lastWeek'', CalText (js ''dddd ['' @ [0x639, 0x644, 0x649, 0x20, 0x627, 0x644, 0x633,
           0x627, 0x639, 0x629] @ js ''] LT'')),
       (''sameElse'', CalText (js ''L''))],
     l_relative_time = [(''future'', RelText [0x641, 0x64A, 0x20, 0x25, 0x73]),
       (''past'', RelText [0x645, 0x646, 0x630, 0x20, 0x25, 0x73]),
       (''s'', RelText [0x62B, 0x648, 0x627, 0x646]),
       (''ss'', RelText [0x25, 0x64, 0x20, 0x62B, 0x627, 0x646, 0x64A, 0x629]),
       (''m'', RelText [0x62F, 0x642, 0x64A, 0x642, 0x629]),
       (''mm'', RelText [0x25, 0x64, 0x20, 0x62F, 0x642, 0x627, 0x626, 0x642]),
       (''h'', RelText [0x633, 0x627, 0x639, 0x629]),
       (''hh'', RelText [0x25, 0x64, 0x20, 0x633, 0x627, 0x639, 0x627, 0x62A]),
       (''d'', RelText [0x64A, 0x648, 0x645]),
       (''dd'', RelText [0x25, 0x64, 0x20, 0x623, 0x64A, 0x627, 0x645]),
       (''M'', RelText [0x634, 0x647, 0x631]),
       (''MM'', RelText [0x25, 0x64, 0x20, 0x623, 0x634, 0x647, 0x631]),
       (''y'', RelText [0x633, 0x646, 0x629]),
       (''yy'', RelText [0x25, 0x64, 0x20, 0x633, 0x646, 0x648, 0x627, 0x62A])],
     l_ordinal = None,
     l_meridiem = None,
     l_is_pm = None,
     l_meridiem_hour = None,
     l_preparse = None,
     l_postformat = None,
     l_week = Some (1, 4),
     l_meridiem_parse = None,
     l_ordinal_parse = None,
     l_parse = [],
     l_months_parse_exact = False,
     l_weekdays_parse_exact = True,
     l_invalid_date = None,
     l_eras = [],
     l_era_year = None \<rparr>"

text \<open>\<^verbatim>\<open>az\<close> (line 116).\<close>

definition az_suffixes :: "nat \<Rightarrow> js option" where
  "az_suffixes = map_of [(1, js ''-inci''), (5, js ''-inci''), (8, js ''-inci''), (70, js
      ''-inci''), (80, js ''-inci''), (2, js ''-nci''), (7, js ''-nci''), (20, js ''-nci''), (50, js
      ''-nci''), (3, [0x2D, 0xFC, 0x6E, 0x63, 0xFC]), (4, [0x2D, 0xFC, 0x6E, 0x63, 0xFC]), (100,
      [0x2D, 0xFC, 0x6E, 0x63, 0xFC]), (6, [0x2D, 0x6E, 0x63, 0x131]), (9, js ''-uncu''), (10, js
      ''-uncu''), (30, js ''-uncu''), (60, [0x2D, 0x131, 0x6E, 0x63, 0x131]), (90, [0x2D, 0x131,
      0x6E, 0x63, 0x131])]"

definition az_ordinal :: "nat \<Rightarrow> string \<Rightarrow> js option" where
  "az_ordinal number period = (if number = 0 then Some (jnum number @ [0x2D, 0x131, 0x6E, 0x63,
      0x131])
      else map_option (\<lambda>x. jnum number @ x) (js_or (js_or (az_suffixes (number mod 10))
          (az_suffixes ((number mod 100) - (number mod 10)))) (Option.bind (if number \<ge> 100 then
          Some 100
      else None) az_suffixes)))"

definition az_meridiem :: "nat \<Rightarrow> nat \<Rightarrow> bool \<Rightarrow> js" where
  "az_meridiem hour minute isLower = (if hour < 4 then [0x67, 0x65, 0x63, 0x259]
      else if hour < 12 then [0x73, 0x259, 0x68, 0x259, 0x72]
      else if hour < 17 then [0x67, 0xFC, 0x6E, 0x64, 0xFC, 0x7A]
      else [0x61, 0x78, 0x15F, 0x61, 0x6D])"

definition az_isPM :: "js \<Rightarrow> bool" where
  "az_isPM input \<longleftrightarrow> input \<in> set [[0x67, 0xFC, 0x6E, 0x64, 0xFC, 0x7A], [0x61,
      0x78, 0x15F, 0x61, 0x6D]]"

definition locale_az :: moment_locale where
  "locale_az = \<lparr>
     l_abbr = ''az'',
     l_months = Names [js ''yanvar'', js ''fevral'', js ''mart'', js ''aprel'', js ''may'', js
         ''iyun'', js ''iyul'', js ''avqust'', js ''sentyabr'', js ''oktyabr'', js ''noyabr'', js
         ''dekabr''],
     l_months_short = Names [js ''yan'', js ''fev'', js ''mar'', js ''apr'', js ''may'', js ''iyn'',
         js ''iyl'', js ''avq'', js ''sen'', js ''okt'', js ''noy'', js ''dek''],
     l_weekdays = Names [js ''Bazar'', js ''Bazar ert'' @ [0x259, 0x73, 0x69], [0xC7, 0x259, 0x72,
         0x15F, 0x259, 0x6E, 0x62, 0x259, 0x20, 0x61, 0x78, 0x15F, 0x61, 0x6D, 0x131], [0xC7, 0x259,
         0x72, 0x15F, 0x259, 0x6E, 0x62, 0x259], [0x43, 0xFC, 0x6D, 0x259, 0x20, 0x61, 0x78, 0x15F,
         0x61, 0x6D, 0x131], [0x43, 0xFC, 0x6D, 0x259], [0x15E, 0x259, 0x6E, 0x62, 0x259]],
     l_weekdays_short = [js ''Baz'', js ''BzE'', [0xC7, 0x41, 0x78], [0xC7, 0x259, 0x72], js
         ''CAx'', [0x43, 0xFC, 0x6D], [0x15E, 0x259, 0x6E]],
     l_weekdays_min = [js ''Bz'', js ''BE'', [0xC7, 0x41], [0xC7, 0x259], js ''CA'', [0x43, 0xFC],
         [0x15E, 0x259]],
     l_long_date_format = [(''LT'', js ''HH:mm''),
       (''LTS'', js ''HH:mm:ss''),
       (''L'', js ''DD.MM.YYYY''),
       (''LL'', js ''D MMMM YYYY''),
       (''LLL'', js ''D MMMM YYYY HH:mm''),
       (''LLLL'', js ''dddd, D MMMM YYYY HH:mm'')],
     l_calendar = [(''sameDay'', CalText (js ''[bug'' @ [0xFC] @ js ''n saat] LT'')),
       (''nextDay'', CalText (js ''[sabah saat] LT'')),
       (''nextWeek'', CalText ([0x5B, 0x67, 0x259, 0x6C, 0x259, 0x6E, 0x20, 0x68, 0x259, 0x66, 0x74,
           0x259] @ js ''] dddd [saat] LT'')),
       (''lastDay'', CalText ([0x5B, 0x64, 0xFC, 0x6E, 0x259] @ js ''n] LT'')),
       (''lastWeek'', CalText ([0x5B, 0x6B, 0x65, 0xE7, 0x259, 0x6E, 0x20, 0x68, 0x259, 0x66, 0x74,
           0x259] @ js ''] dddd [saat] LT'')),
       (''sameElse'', CalText (js ''L''))],
     l_relative_time = [(''future'', RelText (js ''%s sonra'')),
       (''past'', RelText [0x25, 0x73, 0x20, 0x259, 0x76, 0x76, 0x259, 0x6C]),
       (''s'', RelText (js ''bir ne'' @ [0xE7, 0x259] @ js '' saniy'' @ [0x259])),
       (''ss'', RelText (js ''%d saniy'' @ [0x259])),
       (''m'', RelText (js ''bir d'' @ [0x259, 0x71, 0x69, 0x71, 0x259])),
       (''mm'', RelText (js ''%d d'' @ [0x259, 0x71, 0x69, 0x71, 0x259])),
       (''h'', RelText (js ''bir saat'')),
       (''hh'', RelText (js ''%d saat'')),
       (''d'', RelText (js ''bir g'' @ [0xFC, 0x6E])),
       (''dd'', RelText (js ''%d g'' @ [0xFC, 0x6E])),
       (''M'', RelText (js ''bir ay'')),
       (''MM'', RelText (js ''%d ay'')),
       (''y'', RelText (js ''bir il'')),
       (''yy'', RelText (js ''%d il''))],
     l_ordinal = Some (OrdFun az_ordinal),
     l_meridiem = Some az_meridiem,
     l_is_pm = Some az_isPM,
     l_meridiem_hour = None,
     l_preparse = None,
     l_postformat = None,
     l_week = Some (1, 7),
     l_meridiem_parse = Some (Regex False (Alt [Lit [0x67, 0x65, 0x63, 0x259], Lit [0x73, 0x259,
         0x68, 0x259, 0x72], Lit [0x67, 0xFC, 0x6E, 0x64, 0xFC, 0x7A], Lit [0x61, 0x78, 0x15F, 0x61,
         0x6D]])),
     l_ordinal_parse = Some (Regex False (Seq [digits_1_2, Lit (js ''-''), Alt [Lit [0x131, 0x6E,
         0x63, 0x131], Lit (js ''inci''), Lit (js ''nci''), Lit [0xFC, 0x6E, 0x63, 0xFC], Lit [0x6E,
         0x63, 0x131], Lit (js ''uncu'')]])),
     l_parse = [],
     l_months_parse_exact = False,
     l_weekdays_parse_exact = True,
     l_invalid_date = None,
     l_eras = [],
     l_era_year = None \<rparr>"

text \<open>\<^verbatim>\<open>be\<close> (line 43).\<close>

definition be_t :: "js \<Rightarrow> nat \<Rightarrow> js option" where
  "be_t word num = (let n = js_split 0x5F word in (if num mod 10 = 1 \<and> num mod 100 \<noteq> 11
      then js_nth n 0
      else if (num mod 10 \<ge> 2 \<and> num mod 10 \<le> 4) \<and> (num mod 100 < 10 \<or> num mod
          100 \<ge> 20) then js_nth n 1
      else js_nth n 2))"

definition be_nextWeek :: "nat \<Rightarrow> nat \<Rightarrow> bool \<Rightarrow> js option" where
  "be_nextWeek day hours sameWeek = Some ([0x5B, 0x423] @ js ''] dddd ['' @ [0x45E] @ js ''] LT'')"

definition be_lastWeek :: "nat \<Rightarrow> nat \<Rightarrow> bool \<Rightarrow> js option" where
  "be_lastWeek day hours sameWeek = (if day = 0 \<or> day = 3 \<or> day = 5 \<or> day = 6 then Some
      ([0x5B, 0x423, 0x20, 0x43C, 0x456, 0x43D, 0x443, 0x43B, 0x443, 0x44E] @ js ''] dddd ['' @
      [0x45E] @ js ''] LT'')
      else if day = 1 \<or> day = 2 \<or> day = 4 then Some ([0x5B, 0x423, 0x20, 0x43C, 0x456,
          0x43D, 0x443, 0x43B, 0x44B] @ js ''] dddd ['' @ [0x45E] @ js ''] LT'')
      else None)"

definition be_rel_n :: "nat \<Rightarrow> bool \<Rightarrow> string \<Rightarrow> bool \<Rightarrow>
    js option" where
  "be_rel_n number withoutSuffix key isFuture = (if key = ''m'' then Some (if withoutSuffix then
      [0x445, 0x432, 0x456, 0x43B, 0x456, 0x43D, 0x430]
      else [0x445, 0x432, 0x456, 0x43B, 0x456, 0x43D, 0x443])
      else if key = ''h'' then Some (if withoutSuffix then [0x433, 0x430, 0x434, 0x437, 0x456,
          0x43D, 0x430]
      else [0x433, 0x430, 0x434, 0x437, 0x456, 0x43D, 0x443])
      else map_option (\<lambda>x. jnum number @ js '' '' @ x) (Option.bind (map_of [(''ss'', (if
          withoutSuffix then [0x441, 0x435, 0x43A, 0x443, 0x43D, 0x434, 0x430, 0x5F, 0x441, 0x435,
          0x43A, 0x443, 0x43D, 0x434, 0x44B, 0x5F, 0x441, 0x435, 0x43A, 0x443, 0x43D, 0x434]
      else [0x441, 0x435, 0x43A, 0x443, 0x43D, 0x434, 0x443, 0x5F, 0x441, 0x435, 0x43A, 0x443,
          0x43D, 0x434, 0x44B, 0x5F, 0x441, 0x435, 0x43A, 0x443, 0x43D, 0x434])), (''mm'', (if
          withoutSuffix then [0x445, 0x432, 0x456, 0x43B, 0x456, 0x43D, 0x430, 0x5F, 0x445, 0x432,
          0x456, 0x43B, 0x456, 0x43D, 0x44B, 0x5F, 0x445, 0x432, 0x456, 0x43B, 0x456, 0x43D]
      else [0x445, 0x432, 0x456, 0x43B, 0x456, 0x43D, 0x443, 0x5F, 0x445, 0x432, 0x456, 0x43B,
          0x456, 0x43D, 0x44B, 0x5F, 0x445, 0x432, 0x456, 0x43B, 0x456, 0x43D])), (''hh'', (if
          withoutSuffix then [0x433, 0x430, 0x434, 0x437, 0x456, 0x43D, 0x430, 0x5F, 0x433, 0x430,
          0x434, 0x437, 0x456, 0x43D, 0x44B, 0x5F, 0x433, 0x430, 0x434, 0x437, 0x456, 0x43D]
      else [0x433, 0x430, 0x434, 0x437, 0x456, 0x43D, 0x443, 0x5F, 0x433, 0x430, 0x434, 0x437,
          0x456, 0x43D, 0x44B, 0x5F, 0x433, 0x430, 0x434, 0x437, 0x456, 0x43D])), (''dd'', [0x434,
          0x437, 0x435, 0x43D, 0x44C, 0x5F, 0x434, 0x43D, 0x456, 0x5F, 0x434, 0x437, 0x451, 0x43D]),
          (''MM'', [0x43C, 0x435, 0x441, 0x44F, 0x446, 0x5F, 0x43C, 0x435, 0x441, 0x44F, 0x446,
          0x44B, 0x5F, 0x43C, 0x435, 0x441, 0x44F, 0x446, 0x430, 0x45E]), (''yy'', [0x433, 0x43E,
          0x434, 0x5F, 0x433, 0x430, 0x434, 0x44B, 0x5F, 0x433, 0x430, 0x434, 0x43E, 0x45E])] key)
          (\<lambda>x. be_t x number)))"

definition be_ordinal :: "nat \<Rightarrow> string \<Rightarrow> js option" where
  "be_ordinal number period = Some (if period = ''M'' \<or> period = ''d'' \<or> period = ''DDD''
      \<or> period = ''w'' \<or> period = ''W'' then (if ((number mod 10 \<noteq> 2 \<and> number
      mod 10 \<noteq> 3) \<or> number mod 100 = 12) \<or> number mod 100 = 13 then jnum number @
      [0x2D, 0x44B]
      else jnum number @ [0x2D, 0x456])
      else if period = ''D'' then jnum number @ [0x2D, 0x433, 0x430]
      else jnum number)"

definition be_meridiem :: "nat \<Rightarrow> nat \<Rightarrow> bool \<Rightarrow> js" where
  "be_meridiem hour minute isLower = (if hour < 4 then [0x43D, 0x43E, 0x447, 0x44B]
      else if hour < 12 then [0x440, 0x430, 0x43D, 0x456, 0x446, 0x44B]
      else if hour < 17 then [0x434, 0x43D, 0x44F]
      else [0x432, 0x435, 0x447, 0x430, 0x440, 0x430])"

definition be_isPM :: "js \<Rightarrow> bool" where
  "be_isPM input \<longleftrightarrow> input \<in> set [[0x434, 0x43D, 0x44F], [0x432, 0x435, 0x447,
      0x430, 0x440, 0x430]]"

definition locale_be :: moment_locale where
  "locale_be = \<lparr>
     l_abbr = ''be'',
     l_months = NamesAlt [[0x441, 0x442, 0x443, 0x434, 0x437, 0x435, 0x43D, 0x44C], [0x43B, 0x44E,
         0x442, 0x44B], [0x441, 0x430, 0x43A, 0x430, 0x432, 0x456, 0x43A], [0x43A, 0x440, 0x430,
         0x441, 0x430, 0x432, 0x456, 0x43A], [0x442, 0x440, 0x430, 0x432, 0x435, 0x43D, 0x44C],
         [0x447, 0x44D, 0x440, 0x432, 0x435, 0x43D, 0x44C], [0x43B, 0x456, 0x43F, 0x435, 0x43D,
         0x44C], [0x436, 0x43D, 0x456, 0x432, 0x435, 0x43D, 0x44C], [0x432, 0x435, 0x440, 0x430,
         0x441, 0x435, 0x43D, 0x44C], [0x43A, 0x430, 0x441, 0x442, 0x440, 0x44B, 0x447, 0x43D,
         0x456, 0x43A], [0x43B, 0x456, 0x441, 0x442, 0x430, 0x43F, 0x430, 0x434], [0x441, 0x43D,
         0x435, 0x436, 0x430, 0x43D, 0x44C]] [[0x441, 0x442, 0x443, 0x434, 0x437, 0x435, 0x43D,
         0x44F], [0x43B, 0x44E, 0x442, 0x430, 0x433, 0x430], [0x441, 0x430, 0x43A, 0x430, 0x432,
         0x456, 0x43A, 0x430], [0x43A, 0x440, 0x430, 0x441, 0x430, 0x432, 0x456, 0x43A, 0x430],
         [0x442, 0x440, 0x430, 0x45E, 0x43D, 0x44F], [0x447, 0x44D, 0x440, 0x432, 0x435, 0x43D,
         0x44F], [0x43B, 0x456, 0x43F, 0x435, 0x43D, 0x44F], [0x436, 0x43D, 0x456, 0x45E, 0x43D,
         0x44F], [0x432, 0x435, 0x440, 0x430, 0x441, 0x43D, 0x44F], [0x43A, 0x430, 0x441, 0x442,
         0x440, 0x44B, 0x447, 0x43D, 0x456, 0x43A, 0x430], [0x43B, 0x456, 0x441, 0x442, 0x430,
         0x43F, 0x430, 0x434, 0x430], [0x441, 0x43D, 0x435, 0x436, 0x43D, 0x44F]] None,
     l_months_short = Names [[0x441, 0x442, 0x443, 0x434], [0x43B, 0x44E, 0x442], [0x441, 0x430,
         0x43A], [0x43A, 0x440, 0x430, 0x441], [0x442, 0x440, 0x430, 0x432], [0x447, 0x44D, 0x440,
         0x432], [0x43B, 0x456, 0x43F], [0x436, 0x43D, 0x456, 0x432], [0x432, 0x435, 0x440], [0x43A,
         0x430, 0x441, 0x442], [0x43B, 0x456, 0x441, 0x442], [0x441, 0x43D, 0x435, 0x436]],
     l_weekdays = NamesAlt [[0x43D, 0x44F, 0x434, 0x437, 0x435, 0x43B, 0x44F], [0x43F, 0x430, 0x43D,
         0x44F, 0x434, 0x437, 0x435, 0x43B, 0x430, 0x43A], [0x430, 0x45E, 0x442, 0x43E, 0x440,
         0x430, 0x43A], [0x441, 0x435, 0x440, 0x430, 0x434, 0x430], [0x447, 0x430, 0x446, 0x432,
         0x435, 0x440], [0x43F, 0x44F, 0x442, 0x43D, 0x456, 0x446, 0x430], [0x441, 0x443, 0x431,
         0x43E, 0x442, 0x430]] [[0x43D, 0x44F, 0x434, 0x437, 0x435, 0x43B, 0x44E], [0x43F, 0x430,
         0x43D, 0x44F, 0x434, 0x437, 0x435, 0x43B, 0x430, 0x43A], [0x430, 0x45E, 0x442, 0x43E,
         0x440, 0x430, 0x43A], [0x441, 0x435, 0x440, 0x430, 0x434, 0x443], [0x447, 0x430, 0x446,
         0x432, 0x435, 0x440], [0x43F, 0x44F, 0x442, 0x43D, 0x456, 0x446, 0x443], [0x441, 0x443,
         0x431, 0x43E, 0x442, 0x443]]
       (Some (Regex False (Seq [Lit (js ''[''), Opt (Lit (js '' '')), Cls [(0x423, 0x423), (0x443,
           0x443), (0x45E, 0x45E)], Opt (Lit (js '' '')), Opt (Alt [Lit [0x43C, 0x456, 0x43D, 0x443,
           0x43B, 0x443, 0x44E], Lit [0x43D, 0x430, 0x441, 0x442, 0x443, 0x43F, 0x43D, 0x443,
           0x44E]]), Opt (Lit (js '' '')), Lit (js '']''), Opt (Lit (js '' '')), Lit (js
           ''dddd'')]))),
     l_weekdays_short = [[0x43D, 0x434], [0x43F, 0x43D], [0x430, 0x442], [0x441, 0x440], [0x447,
         0x446], [0x43F, 0x442], [0x441, 0x431]],
     l_weekdays_min = [[0x43D, 0x434], [0x43F, 0x43D], [0x430, 0x442], [0x441, 0x440], [0x447,
         0x446], [0x43F, 0x442], [0x441, 0x431]],
     l_long_date_format = [(''LT'', js ''HH:mm''),
       (''LTS'', js ''HH:mm:ss''),
       (''L'', js ''DD.MM.YYYY''),
       (''LL'', js ''D MMMM YYYY '' @ [0x433, 0x2E]),
       (''LLL'', js ''D MMMM YYYY '' @ [0x433] @ js ''., HH:mm''),
       (''LLLL'', js ''dddd, D MMMM YYYY '' @ [0x433] @ js ''., HH:mm'')],
     l_calendar = [(''sameDay'', CalText ([0x5B, 0x421, 0x451, 0x43D, 0x43D, 0x44F, 0x20, 0x45E] @
         js ''] LT'')),
       (''nextDay'', CalText ([0x5B, 0x417, 0x430, 0x45E, 0x442, 0x440, 0x430, 0x20, 0x45E] @ js
           ''] LT'')),
       (''lastDay'', CalText ([0x5B, 0x423, 0x447, 0x43E, 0x440, 0x430, 0x20, 0x45E] @ js
           ''] LT'')),
       (''nextWeek'', CalFun be_nextWeek),
       (''lastWeek'', CalFun be_lastWeek),
       (''sameElse'', CalText (js ''L''))],
     l_relative_time = [(''future'', RelText [0x43F, 0x440, 0x430, 0x437, 0x20, 0x25, 0x73]),
       (''past'', RelText [0x25, 0x73, 0x20, 0x442, 0x430, 0x43C, 0x443]),
       (''s'', RelText [0x43D, 0x435, 0x43A, 0x430, 0x43B, 0x44C, 0x43A, 0x456, 0x20, 0x441, 0x435,
           0x43A, 0x443, 0x43D, 0x434]),
       (''m'', RelNum be_rel_n),
       (''mm'', RelNum be_rel_n),
       (''h'', RelNum be_rel_n),
       (''hh'', RelNum be_rel_n),
       (''d'', RelText [0x434, 0x437, 0x435, 0x43D, 0x44C]),
       (''dd'', RelNum be_rel_n),
       (''M'', RelText [0x43C, 0x435, 0x441, 0x44F, 0x446]),
       (''MM'', RelNum be_rel_n),
       (''y'', RelText [0x433, 0x43E, 0x434]),
       (''yy'', RelNum be_rel_n)],
     l_ordinal = Some (OrdFun be_ordinal),
     l_meridiem = Some be_meridiem,
     l_is_pm = Some be_isPM,
     l_meridiem_hour = None,
     l_preparse = None,
     l_postformat = None,
     l_week = Some (1, 7),
     l_meridiem_parse = Some (Regex False (Alt [Lit [0x43D, 0x43E, 0x447, 0x44B], Lit [0x440, 0x430,
         0x43D, 0x456, 0x446, 0x44B], Lit [0x434, 0x43D, 0x44F], Lit [0x432, 0x435, 0x447, 0x430,
         0x440, 0x430]])),
     l_ordinal_parse = Some (Regex False (Seq [digits_1_2, Lit (js ''-''), Alt [Lit [0x456], Lit
         [0x44B], Lit [0x433, 0x430]]])),
     l_parse = [],
     l_months_parse_exact = False,
     l_weekdays_parse_exact = False,
     l_invalid_date = None,
     l_eras = [],
     l_era_year = None \<rparr>"

text \<open>\<^verbatim>\<open>bg\<close> (line 215).\<close>

definition bg_lastWeek :: "nat \<Rightarrow> nat \<Rightarrow> bool \<Rightarrow> js option" where
  "bg_lastWeek day hours sameWeek = (if day = 0 \<or> day = 3 \<or> day = 6 then Some ([0x5B, 0x41C,
      0x438, 0x43D, 0x430, 0x43B, 0x430, 0x442, 0x430] @ js ''] dddd ['' @ [0x432] @ js ''] LT'')
      else if day = 1 \<or> day = 2 \<or> day = 4 \<or> day = 5 then Some ([0x5B, 0x41C, 0x438,
          0x43D, 0x430, 0x43B, 0x438, 0x44F] @ js ''] dddd ['' @ [0x432] @ js ''] LT'')
      else None)"

definition bg_ordinal :: "nat \<Rightarrow> string \<Rightarrow> js option" where
  "bg_ordinal number period = Some (if number = 0 then jnum number @ [0x2D, 0x435, 0x432]
      else if (number mod 100) = 0 then jnum number @ [0x2D, 0x435, 0x43D]
      else if (number mod 100) > 10 \<and> (number mod 100) < 20 then jnum number @ [0x2D, 0x442,
          0x438]
      else if (number mod 10) = 1 then jnum number @ [0x2D, 0x432, 0x438]
      else if (number mod 10) = 2 then jnum number @ [0x2D, 0x440, 0x438]
      else if (number mod 10) = 7 \<or> (number mod 10) = 8 then jnum number @ [0x2D, 0x43C, 0x438]
      else jnum number @ [0x2D, 0x442, 0x438])"

definition locale_bg :: moment_locale where
  "locale_bg = \<lparr>
     l_abbr = ''bg'',
     l_months = Names [[0x44F, 0x43D, 0x443, 0x430, 0x440, 0x438], [0x444, 0x435, 0x432, 0x440,
         0x443, 0x430, 0x440, 0x438], [0x43C, 0x430, 0x440, 0x442], [0x430, 0x43F, 0x440, 0x438,
         0x43B], [0x43C, 0x430, 0x439], [0x44E, 0x43D, 0x438], [0x44E, 0x43B, 0x438], [0x430, 0x432,
         0x433, 0x443, 0x441, 0x442], [0x441, 0x435, 0x43F, 0x442, 0x435, 0x43C, 0x432, 0x440,
         0x438], [0x43E, 0x43A, 0x442, 0x43E, 0x43C, 0x432, 0x440, 0x438], [0x43D, 0x43E, 0x435,
         0x43C, 0x432, 0x440, 0x438], [0x434, 0x435, 0x43A, 0x435, 0x43C, 0x432, 0x440, 0x438]],
     l_months_short = Names [[0x44F, 0x43D, 0x443], [0x444, 0x435, 0x432], [0x43C, 0x430, 0x440],
         [0x430, 0x43F, 0x440], [0x43C, 0x430, 0x439], [0x44E, 0x43D, 0x438], [0x44E, 0x43B, 0x438],
         [0x430, 0x432, 0x433], [0x441, 0x435, 0x43F], [0x43E, 0x43A, 0x442], [0x43D, 0x43E, 0x435],
         [0x434, 0x435, 0x43A]],
     l_weekdays = Names [[0x43D, 0x435, 0x434, 0x435, 0x43B, 0x44F], [0x43F, 0x43E, 0x43D, 0x435,
         0x434, 0x435, 0x43B, 0x43D, 0x438, 0x43A], [0x432, 0x442, 0x43E, 0x440, 0x43D, 0x438,
         0x43A], [0x441, 0x440, 0x44F, 0x434, 0x430], [0x447, 0x435, 0x442, 0x432, 0x44A, 0x440,
         0x442, 0x44A, 0x43A], [0x43F, 0x435, 0x442, 0x44A, 0x43A], [0x441, 0x44A, 0x431, 0x43E,
         0x442, 0x430]],
     l_weekdays_short = [[0x43D, 0x435, 0x434], [0x43F, 0x43E, 0x43D], [0x432, 0x442, 0x43E],
         [0x441, 0x440, 0x44F], [0x447, 0x435, 0x442], [0x43F, 0x435, 0x442], [0x441, 0x44A,
         0x431]],
     l_weekdays_min = [[0x43D, 0x434], [0x43F, 0x43D], [0x432, 0x442], [0x441, 0x440], [0x447,
         0x442], [0x43F, 0x442], [0x441, 0x431]],
     l_long_date_format = [(''LT'', js ''H:mm''),
       (''LTS'', js ''H:mm:ss''),
       (''L'', js ''D.MM.YYYY''),
       (''LL'', js ''D MMMM YYYY''),
       (''LLL'', js ''D MMMM YYYY H:mm''),
       (''LLLL'', js ''dddd, D MMMM YYYY H:mm'')],
     l_calendar = [(''sameDay'', CalText ([0x5B, 0x414, 0x43D, 0x435, 0x441, 0x20, 0x432] @ js
         ''] LT'')),
       (''nextDay'', CalText ([0x5B, 0x423, 0x442, 0x440, 0x435, 0x20, 0x432] @ js ''] LT'')),
       (''nextWeek'', CalText (js ''dddd ['' @ [0x432] @ js ''] LT'')),
       (''lastDay'', CalText ([0x5B, 0x412, 0x447, 0x435, 0x440, 0x430, 0x20, 0x432] @ js
           ''] LT'')),
       (''lastWeek'', CalFun bg_lastWeek),
       (''sameElse'', CalText (js ''L''))],
     l_relative_time = [(''future'', RelText [0x441, 0x43B, 0x435, 0x434, 0x20, 0x25, 0x73]),
       (''past'', RelText [0x43F, 0x440, 0x435, 0x434, 0x438, 0x20, 0x25, 0x73]),
       (''s'', RelText [0x43D, 0x44F, 0x43A, 0x43E, 0x43B, 0x43A, 0x43E, 0x20, 0x441, 0x435, 0x43A,
           0x443, 0x43D, 0x434, 0x438]),
       (''ss'', RelText [0x25, 0x64, 0x20, 0x441, 0x435, 0x43A, 0x443, 0x43D, 0x434, 0x438]),
       (''m'', RelText [0x43C, 0x438, 0x43D, 0x443, 0x442, 0x430]),
       (''mm'', RelText [0x25, 0x64, 0x20, 0x43C, 0x438, 0x43D, 0x443, 0x442, 0x438]),
       (''h'', RelText [0x447, 0x430, 0x441]),
       (''hh'', RelText [0x25, 0x64, 0x20, 0x447, 0x430, 0x441, 0x430]),
       (''d'', RelText [0x434, 0x435, 0x43D]),
       (''dd'', RelText [0x25, 0x64, 0x20, 0x434, 0x435, 0x43D, 0x430]),
       (''w'', RelText [0x441, 0x435, 0x434, 0x43C, 0x438, 0x446, 0x430]),
       (''ww'', RelText [0x25, 0x64, 0x20, 0x441, 0x435, 0x434, 0x43C, 0x438, 0x446, 0x438]),
       (''M'', RelText [0x43C, 0x435, 0x441, 0x435, 0x446]),
       (''MM'', RelText [0x25, 0x64, 0x20, 0x43C, 0x435, 0x441, 0x435, 0x446, 0x430]),
       (''y'', RelText [0x433, 0x43E, 0x434, 0x438, 0x43D, 0x430]),
       (''yy'', RelText [0x25, 0x64, 0x20, 0x433, 0x43E, 0x434, 0x438, 0x43D, 0x438])],
     l_ordinal = Some (OrdFun bg_ordinal),
     l_meridiem = None,
     l_is_pm = None,
     l_meridiem_hour = None,
     l_preparse = None,
     l_postformat = None,
     l_week = Some (1, 7),
     l_meridiem_parse = None,
     l_ordinal_parse = Some (Regex False (Seq [digits_1_2, Lit (js ''-''), Alt [Lit [0x435, 0x432],
         Lit [0x435, 0x43D], Lit [0x442, 0x438], Lit [0x432, 0x438], Lit [0x440, 0x438], Lit [0x43C,
         0x438]]])),
     l_parse = [],
     l_months_parse_exact = False,
     l_weekdays_parse_exact = False,
     l_invalid_date = None,
     l_eras = [],
     l_era_year = None \<rparr>"

text \<open>\<^verbatim>\<open>bm\<close> (line 255).\<close>

definition locale_bm :: moment_locale where
  "locale_bm = \<lparr>
     l_abbr = ''bm'',
     l_months = Names [js ''Zanwuyekalo'', js ''Fewuruyekalo'', js ''Marisikalo'', js
         ''Awirilikalo'', [0x4D, 0x25B] @ js ''kalo'', [0x5A, 0x75, 0x77, 0x25B] @ js ''nkalo'', js
         ''Zuluyekalo'', js ''Utikalo'', [0x53, 0x25B] @ js ''tanburukalo'', [0x254, 0x6B, 0x75,
         0x74, 0x254] @ js ''burukalo'', js ''Nowanburukalo'', js ''Desanburukalo''],
     l_months_short = Names [js ''Zan'', js ''Few'', js ''Mar'', js ''Awi'', [0x4D, 0x25B], js
         ''Zuw'', js ''Zul'', js ''Uti'', [0x53, 0x25B, 0x74], [0x254, 0x6B, 0x75], js ''Now'', js
         ''Des''],
     l_weekdays = Names [js ''Kari'', [0x4E, 0x74, 0x25B, 0x6E, 0x25B, 0x6E], js ''Tarata'', js
         ''Araba'', js ''Alamisa'', js ''Juma'', js ''Sibiri''],
     l_weekdays_short = [js ''Kar'', [0x4E, 0x74, 0x25B], js ''Tar'', js ''Ara'', js ''Ala'', js
         ''Jum'', js ''Sib''],
     l_weekdays_min = [js ''Ka'', js ''Nt'', js ''Ta'', js ''Ar'', js ''Al'', js ''Ju'', js ''Si''],
     l_long_date_format = [(''LT'', js ''HH:mm''),
       (''LTS'', js ''HH:mm:ss''),
       (''L'', js ''DD/MM/YYYY''),
       (''LL'', js ''MMMM [tile] D [san] YYYY''),
       (''LLL'', js ''MMMM [tile] D [san] YYYY [l'' @ [0x25B, 0x72, 0x25B] @ js ''] HH:mm''),
       (''LLLL'', js ''dddd MMMM [tile] D [san] YYYY [l'' @ [0x25B, 0x72, 0x25B] @ js ''] HH:mm'')],
     l_calendar = [(''sameDay'', CalText (js ''[Bi l'' @ [0x25B, 0x72, 0x25B] @ js ''] LT'')),
       (''nextDay'', CalText (js ''[Sini l'' @ [0x25B, 0x72, 0x25B] @ js ''] LT'')),
       (''nextWeek'', CalText (js ''dddd [don l'' @ [0x25B, 0x72, 0x25B] @ js ''] LT'')),
       (''lastDay'', CalText (js ''[Kunu l'' @ [0x25B, 0x72, 0x25B] @ js ''] LT'')),
       (''lastWeek'', CalText (js ''dddd [t'' @ [0x25B, 0x6D, 0x25B] @ js ''nen l'' @ [0x25B, 0x72,
           0x25B] @ js ''] LT'')),
       (''sameElse'', CalText (js ''L''))],
     l_relative_time = [(''future'', RelText (js ''%s k'' @ [0x254, 0x6E, 0x254])),
       (''past'', RelText ([0x61, 0x20, 0x62, 0x25B] @ js '' %s b'' @ [0x254])),
       (''s'', RelText (js ''sanga dama dama'')),
       (''ss'', RelText (js ''sekondi %d'')),
       (''m'', RelText (js ''miniti kelen'')),
       (''mm'', RelText (js ''miniti %d'')),
       (''h'', RelText ([0x6C, 0x25B, 0x72, 0x25B] @ js '' kelen'')),
       (''hh'', RelText [0x6C, 0x25B, 0x72, 0x25B, 0x20, 0x25, 0x64]),
       (''d'', RelText (js ''tile kelen'')),
       (''dd'', RelText (js ''tile %d'')),
       (''M'', RelText (js ''kalo kelen'')),
       (''MM'', RelText (js ''kalo %d'')),
       (''y'', RelText (js ''san kelen'')),
       (''yy'', RelText (js ''san %d''))],
     l_ordinal = None,
     l_meridiem = None,
     l_is_pm = None,
     l_meridiem_hour = None,
     l_preparse = None,
     l_postformat = None,
     l_week = Some (1, 4),
     l_meridiem_parse = None,
     l_ordinal_parse = None,
     l_parse = [],
     l_months_parse_exact = False,
     l_weekdays_parse_exact = False,
     l_invalid_date = None,
     l_eras = [],
     l_era_year = None \<rparr>"

text \<open>\<^verbatim>\<open>bn\<close> (line 233).\<close>

definition bn_meridiem :: "nat \<Rightarrow> nat \<Rightarrow> bool \<Rightarrow> js" where
  "bn_meridiem hour minute isLower = (if hour < 4 then [0x9B0, 0x9BE, 0x9A4]
      else if hour < 10 then [0x9B8, 0x995, 0x9BE, 0x9B2]
      else if hour < 17 then [0x9A6, 0x9C1, 0x9AA, 0x9C1, 0x9B0]
      else if hour < 20 then [0x9AC, 0x9BF, 0x995, 0x9BE, 0x9B2]
      else [0x9B0, 0x9BE, 0x9A4])"

definition bn_meridiemHour :: "nat \<Rightarrow> js \<Rightarrow> nat option" where
  "bn_meridiemHour hour meridiem = Some (let hour = (if hour = 12 then 0
      else hour) in (if ((meridiem = [0x9B0, 0x9BE, 0x9A4] \<and> hour \<ge> 4) \<or> (meridiem =
          [0x9A6, 0x9C1, 0x9AA, 0x9C1, 0x9B0] \<and> hour < 5)) \<or> meridiem = [0x9AC, 0x9BF,
          0x995, 0x9BE, 0x9B2] then hour + 12
      else hour))"

definition bn_preparse :: "js \<Rightarrow> js" where
  "bn_preparse s = js_replace_units [(0x9E7, [0x31]), (0x9E8, [0x32]), (0x9E9, [0x33]), (0x9EA,
      [0x34]), (0x9EB, [0x35]), (0x9EC, [0x36]), (0x9ED, [0x37]), (0x9EE, [0x38]), (0x9EF, [0x39]),
      (0x9E6, [0x30])] s"

definition bn_postformat :: "js \<Rightarrow> js" where
  "bn_postformat s = js_replace_units [(0x30, [0x9E6]), (0x31, [0x9E7]), (0x32, [0x9E8]), (0x33,
      [0x9E9]), (0x34, [0x9EA]), (0x35, [0x9EB]), (0x36, [0x9EC]), (0x37, [0x9ED]), (0x38, [0x9EE]),
      (0x39, [0x9EF])] s"

definition locale_bn :: moment_locale where
  "locale_bn = \<lparr>
     l_abbr = ''bn'',
     l_months = Names [[0x99C, 0x9BE, 0x9A8, 0x9C1, 0x9DF, 0x9BE, 0x9B0, 0x9BF], [0x9AB, 0x9C7,
         0x9AC, 0x9CD, 0x9B0, 0x9C1, 0x9DF, 0x9BE, 0x9B0, 0x9BF], [0x9AE, 0x9BE, 0x9B0, 0x9CD,
         0x99A], [0x98F, 0x9AA, 0x9CD, 0x9B0, 0x9BF, 0x9B2], [0x9AE, 0x9C7], [0x99C, 0x9C1, 0x9A8],
         [0x99C, 0x9C1, 0x9B2, 0x9BE, 0x987], [0x986, 0x997, 0x9B8, 0x9CD, 0x99F], [0x9B8, 0x9C7,
         0x9AA, 0x9CD, 0x99F, 0x9C7, 0x9AE, 0x9CD, 0x9AC, 0x9B0], [0x985, 0x995, 0x9CD, 0x99F,
         0x9CB, 0x9AC, 0x9B0], [0x9A8, 0x9AD, 0x9C7, 0x9AE, 0x9CD, 0x9AC, 0x9B0], [0x9A1, 0x9BF,
         0x9B8, 0x9C7, 0x9AE, 0x9CD, 0x9AC, 0x9B0]],
     l_months_short = Names [[0x99C, 0x9BE, 0x9A8, 0x9C1], [0x9AB, 0x9C7, 0x9AC, 0x9CD, 0x9B0,
         0x9C1], [0x9AE, 0x9BE, 0x9B0, 0x9CD, 0x99A], [0x98F, 0x9AA, 0x9CD, 0x9B0, 0x9BF, 0x9B2],
         [0x9AE, 0x9C7], [0x99C, 0x9C1, 0x9A8], [0x99C, 0x9C1, 0x9B2, 0x9BE, 0x987], [0x986, 0x997,
         0x9B8, 0x9CD, 0x99F], [0x9B8, 0x9C7, 0x9AA, 0x9CD, 0x99F], [0x985, 0x995, 0x9CD, 0x99F,
         0x9CB], [0x9A8, 0x9AD, 0x9C7], [0x9A1, 0x9BF, 0x9B8, 0x9C7]],
     l_weekdays = Names [[0x9B0, 0x9AC, 0x9BF, 0x9AC, 0x9BE, 0x9B0], [0x9B8, 0x9CB, 0x9AE, 0x9AC,
         0x9BE, 0x9B0], [0x9AE, 0x999, 0x9CD, 0x997, 0x9B2, 0x9AC, 0x9BE, 0x9B0], [0x9AC, 0x9C1,
         0x9A7, 0x9AC, 0x9BE, 0x9B0], [0x9AC, 0x9C3, 0x9B9, 0x9B8, 0x9CD, 0x9AA, 0x9A4, 0x9BF,
         0x9AC, 0x9BE, 0x9B0], [0x9B6, 0x9C1, 0x995, 0x9CD, 0x9B0, 0x9AC, 0x9BE, 0x9B0], [0x9B6,
         0x9A8, 0x9BF, 0x9AC, 0x9BE, 0x9B0]],
     l_weekdays_short = [[0x9B0, 0x9AC, 0x9BF], [0x9B8, 0x9CB, 0x9AE], [0x9AE, 0x999, 0x9CD, 0x997,
         0x9B2], [0x9AC, 0x9C1, 0x9A7], [0x9AC, 0x9C3, 0x9B9, 0x9B8, 0x9CD, 0x9AA, 0x9A4, 0x9BF],
         [0x9B6, 0x9C1, 0x995, 0x9CD, 0x9B0], [0x9B6, 0x9A8, 0x9BF]],
     l_weekdays_min = [[0x9B0, 0x9AC, 0x9BF], [0x9B8, 0x9CB, 0x9AE], [0x9AE, 0x999, 0x9CD, 0x997,
         0x9B2], [0x9AC, 0x9C1, 0x9A7], [0x9AC, 0x9C3, 0x9B9], [0x9B6, 0x9C1, 0x995, 0x9CD, 0x9B0],
         [0x9B6, 0x9A8, 0x9BF]],
     l_long_date_format = [(''LT'', js ''A h:mm '' @ [0x9B8, 0x9AE, 0x9DF]),
       (''LTS'', js ''A h:mm:ss '' @ [0x9B8, 0x9AE, 0x9DF]),
       (''L'', js ''DD/MM/YYYY''),
       (''LL'', js ''D MMMM YYYY''),
       (''LLL'', js ''D MMMM YYYY, A h:mm '' @ [0x9B8, 0x9AE, 0x9DF]),
       (''LLLL'', js ''dddd, D MMMM YYYY, A h:mm '' @ [0x9B8, 0x9AE, 0x9DF])],
     l_calendar = [(''sameDay'', CalText ([0x5B, 0x986, 0x99C] @ js ''] LT'')),
       (''nextDay'', CalText ([0x5B, 0x986, 0x997, 0x9BE, 0x9AE, 0x9C0, 0x995, 0x9BE, 0x9B2] @ js
           ''] LT'')),
       (''nextWeek'', CalText (js ''dddd, LT'')),
       (''lastDay'', CalText ([0x5B, 0x997, 0x9A4, 0x995, 0x9BE, 0x9B2] @ js ''] LT'')),
       (''lastWeek'', CalText ([0x5B, 0x997, 0x9A4] @ js ''] dddd, LT'')),
       (''sameElse'', CalText (js ''L''))],
     l_relative_time = [(''future'', RelText [0x25, 0x73, 0x20, 0x9AA, 0x9B0, 0x9C7]),
       (''past'', RelText [0x25, 0x73, 0x20, 0x986, 0x997, 0x9C7]),
       (''s'', RelText [0x995, 0x9DF, 0x9C7, 0x995, 0x20, 0x9B8, 0x9C7, 0x995, 0x9C7, 0x9A8, 0x9CD,
           0x9A1]),
       (''ss'', RelText [0x25, 0x64, 0x20, 0x9B8, 0x9C7, 0x995, 0x9C7, 0x9A8, 0x9CD, 0x9A1]),
       (''m'', RelText [0x98F, 0x995, 0x20, 0x9AE, 0x9BF, 0x9A8, 0x9BF, 0x99F]),
       (''mm'', RelText [0x25, 0x64, 0x20, 0x9AE, 0x9BF, 0x9A8, 0x9BF, 0x99F]),
       (''h'', RelText [0x98F, 0x995, 0x20, 0x998, 0x9A8, 0x9CD, 0x99F, 0x9BE]),
       (''hh'', RelText [0x25, 0x64, 0x20, 0x998, 0x9A8, 0x9CD, 0x99F, 0x9BE]),
       (''d'', RelText [0x98F, 0x995, 0x20, 0x9A6, 0x9BF, 0x9A8]),
       (''dd'', RelText [0x25, 0x64, 0x20, 0x9A6, 0x9BF, 0x9A8]),
       (''M'', RelText [0x98F, 0x995, 0x20, 0x9AE, 0x9BE, 0x9B8]),
       (''MM'', RelText [0x25, 0x64, 0x20, 0x9AE, 0x9BE, 0x9B8]),
       (''y'', RelText [0x98F, 0x995, 0x20, 0x9AC, 0x99B, 0x9B0]),
       (''yy'', RelText [0x25, 0x64, 0x20, 0x9AC, 0x99B, 0x9B0])],
     l_ordinal = None,
     l_meridiem = Some bn_meridiem,
     l_is_pm = None,
     l_meridiem_hour = Some bn_meridiemHour,
     l_preparse = Some bn_preparse,
     l_postformat = Some bn_postformat,
     l_week = Some (0, 6),
     l_meridiem_parse = Some (Regex False (Alt [Lit [0x9B0, 0x9BE, 0x9A4], Lit [0x9B8, 0x995, 0x9BE,
         0x9B2], Lit [0x9A6, 0x9C1, 0x9AA, 0x9C1, 0x9B0], Lit [0x9AC, 0x9BF, 0x995, 0x9BE, 0x9B2],
         Lit [0x9B0, 0x9BE, 0x9A4]])),
     l_ordinal_parse = None,
     l_parse = [],
     l_months_parse_exact = False,
     l_weekdays_parse_exact = False,
     l_invalid_date = None,
     l_eras = [],
     l_era_year = None \<rparr>"

text \<open>\<^verbatim>\<open>bn-bd\<close> (line 245).\<close>

definition bn_bd_meridiem :: "nat \<Rightarrow> nat \<Rightarrow> bool \<Rightarrow> js" where
  "bn_bd_meridiem hour minute isLower = (if hour < 4 then [0x9B0, 0x9BE, 0x9A4]
      else if hour < 6 then [0x9AD, 0x9CB, 0x9B0]
      else if hour < 12 then [0x9B8, 0x995, 0x9BE, 0x9B2]
      else if hour < 15 then [0x9A6, 0x9C1, 0x9AA, 0x9C1, 0x9B0]
      else if hour < 18 then [0x9AC, 0x9BF, 0x995, 0x9BE, 0x9B2]
      else if hour < 20 then [0x9B8, 0x9A8, 0x9CD, 0x9A7, 0x9CD, 0x9AF, 0x9BE]
      else [0x9B0, 0x9BE, 0x9A4])"

definition bn_bd_meridiemHour :: "nat \<Rightarrow> js \<Rightarrow> nat option" where
  "bn_bd_meridiemHour hour meridiem = (let hour = (if hour = 12 then 0
      else hour) in (if meridiem = [0x9B0, 0x9BE, 0x9A4] then Some (if hour < 4 then hour
      else hour + 12)
      else if meridiem = [0x9AD, 0x9CB, 0x9B0] \<or> meridiem = [0x9B8, 0x995, 0x9BE, 0x9B2] then
          Some hour
      else if meridiem = [0x9A6, 0x9C1, 0x9AA, 0x9C1, 0x9B0] then Some (if hour \<ge> 3 then hour
      else hour + 12)
      else if meridiem = [0x9AC, 0x9BF, 0x995, 0x9BE, 0x9B2] \<or> meridiem = [0x9B8, 0x9A8, 0x9CD,
          0x9A7, 0x9CD, 0x9AF, 0x9BE] then Some (hour + 12)
      else None))"

definition bn_bd_preparse :: "js \<Rightarrow> js" where
  "bn_bd_preparse s = js_replace_units [(0x9E7, [0x31]), (0x9E8, [0x32]), (0x9E9, [0x33]), (0x9EA,
      [0x34]), (0x9EB, [0x35]), (0x9EC, [0x36]), (0x9ED, [0x37]), (0x9EE, [0x38]), (0x9EF, [0x39]),
      (0x9E6, [0x30])] s"

definition bn_bd_postformat :: "js \<Rightarrow> js" where
  "bn_bd_postformat s = js_replace_units [(0x30, [0x9E6]), (0x31, [0x9E7]), (0x32, [0x9E8]), (0x33,
      [0x9E9]), (0x34, [0x9EA]), (0x35, [0x9EB]), (0x36, [0x9EC]), (0x37, [0x9ED]), (0x38, [0x9EE]),
      (0x39, [0x9EF])] s"

definition locale_bn_bd :: moment_locale where
  "locale_bn_bd = \<lparr>
     l_abbr = ''bn-bd'',
     l_months = Names [[0x99C, 0x9BE, 0x9A8, 0x9C1, 0x9DF, 0x9BE, 0x9B0, 0x9BF], [0x9AB, 0x9C7,
         0x9AC, 0x9CD, 0x9B0, 0x9C1, 0x9DF, 0x9BE, 0x9B0, 0x9BF], [0x9AE, 0x9BE, 0x9B0, 0x9CD,
         0x99A], [0x98F, 0x9AA, 0x9CD, 0x9B0, 0x9BF, 0x9B2], [0x9AE, 0x9C7], [0x99C, 0x9C1, 0x9A8],
         [0x99C, 0x9C1, 0x9B2, 0x9BE, 0x987], [0x986, 0x997, 0x9B8, 0x9CD, 0x99F], [0x9B8, 0x9C7,
         0x9AA, 0x9CD, 0x99F, 0x9C7, 0x9AE, 0x9CD, 0x9AC, 0x9B0], [0x985, 0x995, 0x9CD, 0x99F,
         0x9CB, 0x9AC, 0x9B0], [0x9A8, 0x9AD, 0x9C7, 0x9AE, 0x9CD, 0x9AC, 0x9B0], [0x9A1, 0x9BF,
         0x9B8, 0x9C7, 0x9AE, 0x9CD, 0x9AC, 0x9B0]],
     l_months_short = Names [[0x99C, 0x9BE, 0x9A8, 0x9C1], [0x9AB, 0x9C7, 0x9AC, 0x9CD, 0x9B0,
         0x9C1], [0x9AE, 0x9BE, 0x9B0, 0x9CD, 0x99A], [0x98F, 0x9AA, 0x9CD, 0x9B0, 0x9BF, 0x9B2],
         [0x9AE, 0x9C7], [0x99C, 0x9C1, 0x9A8], [0x99C, 0x9C1, 0x9B2, 0x9BE, 0x987], [0x986, 0x997,
         0x9B8, 0x9CD, 0x99F], [0x9B8, 0x9C7, 0x9AA, 0x9CD, 0x99F], [0x985, 0x995, 0x9CD, 0x99F,
         0x9CB], [0x9A8, 0x9AD, 0x9C7], [0x9A1, 0x9BF, 0x9B8, 0x9C7]],
     l_weekdays = Names [[0x9B0, 0x9AC, 0x9BF, 0x9AC, 0x9BE, 0x9B0], [0x9B8, 0x9CB, 0x9AE, 0x9AC,
         0x9BE, 0x9B0], [0x9AE, 0x999, 0x9CD, 0x997, 0x9B2, 0x9AC, 0x9BE, 0x9B0], [0x9AC, 0x9C1,
         0x9A7, 0x9AC, 0x9BE, 0x9B0], [0x9AC, 0x9C3, 0x9B9, 0x9B8, 0x9CD, 0x9AA, 0x9A4, 0x9BF,
         0x9AC, 0x9BE, 0x9B0], [0x9B6, 0x9C1, 0x995, 0x9CD, 0x9B0, 0x9AC, 0x9BE, 0x9B0], [0x9B6,
         0x9A8, 0x9BF, 0x9AC, 0x9BE, 0x9B0]],
     l_weekdays_short = [[0x9B0, 0x9AC, 0x9BF], [0x9B8, 0x9CB, 0x9AE], [0x9AE, 0x999, 0x9CD, 0x997,
         0x9B2], [0x9AC, 0x9C1, 0x9A7], [0x9AC, 0x9C3, 0x9B9, 0x9B8, 0x9CD, 0x9AA, 0x9A4, 0x9BF],
         [0x9B6, 0x9C1, 0x995, 0x9CD, 0x9B0], [0x9B6, 0x9A8, 0x9BF]],
     l_weekdays_min = [[0x9B0, 0x9AC, 0x9BF], [0x9B8, 0x9CB, 0x9AE], [0x9AE, 0x999, 0x9CD, 0x997,
         0x9B2], [0x9AC, 0x9C1, 0x9A7], [0x9AC, 0x9C3, 0x9B9], [0x9B6, 0x9C1, 0x995, 0x9CD, 0x9B0],
         [0x9B6, 0x9A8, 0x9BF]],
     l_long_date_format = [(''LT'', js ''A h:mm '' @ [0x9B8, 0x9AE, 0x9DF]),
       (''LTS'', js ''A h:mm:ss '' @ [0x9B8, 0x9AE, 0x9DF]),
       (''L'', js ''DD/MM/YYYY''),
       (''LL'', js ''D MMMM YYYY''),
       (''LLL'', js ''D MMMM YYYY, A h:mm '' @ [0x9B8, 0x9AE, 0x9DF]),
       (''LLLL'', js ''dddd, D MMMM YYYY, A h:mm '' @ [0x9B8, 0x9AE, 0x9DF])],
     l_calendar = [(''sameDay'', CalText ([0x5B, 0x986, 0x99C] @ js ''] LT'')),
       (''nextDay'', CalText ([0x5B, 0x986, 0x997, 0x9BE, 0x9AE, 0x9C0, 0x995, 0x9BE, 0x9B2] @ js
           ''] LT'')),
       (''nextWeek'', CalText (js ''dddd, LT'')),
       (''lastDay'', CalText ([0x5B, 0x997, 0x9A4, 0x995, 0x9BE, 0x9B2] @ js ''] LT'')),
       (''lastWeek'', CalText ([0x5B, 0x997, 0x9A4] @ js ''] dddd, LT'')),
       (''sameElse'', CalText (js ''L''))],
     l_relative_time = [(''future'', RelText [0x25, 0x73, 0x20, 0x9AA, 0x9B0, 0x9C7]),
       (''past'', RelText [0x25, 0x73, 0x20, 0x986, 0x997, 0x9C7]),
       (''s'', RelText [0x995, 0x9DF, 0x9C7, 0x995, 0x20, 0x9B8, 0x9C7, 0x995, 0x9C7, 0x9A8, 0x9CD,
           0x9A1]),
       (''ss'', RelText [0x25, 0x64, 0x20, 0x9B8, 0x9C7, 0x995, 0x9C7, 0x9A8, 0x9CD, 0x9A1]),
       (''m'', RelText [0x98F, 0x995, 0x20, 0x9AE, 0x9BF, 0x9A8, 0x9BF, 0x99F]),
       (''mm'', RelText [0x25, 0x64, 0x20, 0x9AE, 0x9BF, 0x9A8, 0x9BF, 0x99F]),
       (''h'', RelText [0x98F, 0x995, 0x20, 0x998, 0x9A8, 0x9CD, 0x99F, 0x9BE]),
       (''hh'', RelText [0x25, 0x64, 0x20, 0x998, 0x9A8, 0x9CD, 0x99F, 0x9BE]),
       (''d'', RelText [0x98F, 0x995, 0x20, 0x9A6, 0x9BF, 0x9A8]),
       (''dd'', RelText [0x25, 0x64, 0x20, 0x9A6, 0x9BF, 0x9A8]),
       (''M'', RelText [0x98F, 0x995, 0x20, 0x9AE, 0x9BE, 0x9B8]),
       (''MM'', RelText [0x25, 0x64, 0x20, 0x9AE, 0x9BE, 0x9B8]),
       (''y'', RelText [0x98F, 0x995, 0x20, 0x9AC, 0x99B, 0x9B0]),
       (''yy'', RelText [0x25, 0x64, 0x20, 0x9AC, 0x99B, 0x9B0])],
     l_ordinal = None,
     l_meridiem = Some bn_bd_meridiem,
     l_is_pm = None,
     l_meridiem_hour = Some bn_bd_meridiemHour,
     l_preparse = Some bn_bd_preparse,
     l_postformat = Some bn_bd_postformat,
     l_week = Some (0, 6),
     l_meridiem_parse = Some (Regex False (Alt [Lit [0x9B0, 0x9BE, 0x9A4], Lit [0x9AD, 0x9CB,
         0x9B0], Lit [0x9B8, 0x995, 0x9BE, 0x9B2], Lit [0x9A6, 0x9C1, 0x9AA, 0x9C1, 0x9B0], Lit
         [0x9AC, 0x9BF, 0x995, 0x9BE, 0x9B2], Lit [0x9B8, 0x9A8, 0x9CD, 0x9A7, 0x9CD, 0x9AF, 0x9BE],
         Lit [0x9B0, 0x9BE, 0x9A4]])),
     l_ordinal_parse = None,
     l_parse = [],
     l_months_parse_exact = False,
     l_weekdays_parse_exact = False,
     l_invalid_date = None,
     l_eras = [],
     l_era_year = None \<rparr>"

text \<open>\<^verbatim>\<open>bo\<close> (line 315).\<close>

definition bo_meridiem :: "nat \<Rightarrow> nat \<Rightarrow> bool \<Rightarrow> js" where
  "bo_meridiem hour minute isLower = (if hour < 4 then [0xF58, 0xF5A, 0xF53, 0xF0B, 0xF58, 0xF7C]
      else if hour < 10 then [0xF5E, 0xF7C, 0xF42, 0xF66, 0xF0B, 0xF40, 0xF66]
      else if hour < 17 then [0xF49, 0xF72, 0xF53, 0xF0B, 0xF42, 0xF74, 0xF44]
      else if hour < 20 then [0xF51, 0xF42, 0xF7C, 0xF44, 0xF0B, 0xF51, 0xF42]
      else [0xF58, 0xF5A, 0xF53, 0xF0B, 0xF58, 0xF7C])"

definition bo_meridiemHour :: "nat \<Rightarrow> js \<Rightarrow> nat option" where
  "bo_meridiemHour hour meridiem = Some (let hour = (if hour = 12 then 0
      else hour) in (if ((meridiem = [0xF58, 0xF5A, 0xF53, 0xF0B, 0xF58, 0xF7C] \<and> hour \<ge> 4)
          \<or> (meridiem = [0xF49, 0xF72, 0xF53, 0xF0B, 0xF42, 0xF74, 0xF44] \<and> hour < 5))
          \<or> meridiem = [0xF51, 0xF42, 0xF7C, 0xF44, 0xF0B, 0xF51, 0xF42] then hour + 12
      else hour))"

definition bo_preparse :: "js \<Rightarrow> js" where
  "bo_preparse s = js_replace_units [(0xF21, [0x31]), (0xF22, [0x32]), (0xF23, [0x33]), (0xF24,
      [0x34]), (0xF25, [0x35]), (0xF26, [0x36]), (0xF27, [0x37]), (0xF28, [0x38]), (0xF29, [0x39]),
      (0xF20, [0x30])] s"

definition bo_postformat :: "js \<Rightarrow> js" where
  "bo_postformat s = js_replace_units [(0x30, [0xF20]), (0x31, [0xF21]), (0x32, [0xF22]), (0x33,
      [0xF23]), (0x34, [0xF24]), (0x35, [0xF25]), (0x36, [0xF26]), (0x37, [0xF27]), (0x38, [0xF28]),
      (0x39, [0xF29])] s"

definition locale_bo :: moment_locale where
  "locale_bo = \<lparr>
     l_abbr = ''bo'',
     l_months = Names [[0xF5F, 0xFB3, 0xF0B, 0xF56, 0xF0B, 0xF51, 0xF44, 0xF0B, 0xF54, 0xF7C],
         [0xF5F, 0xFB3, 0xF0B, 0xF56, 0xF0B, 0xF42, 0xF49, 0xF72, 0xF66, 0xF0B, 0xF54], [0xF5F,
         0xFB3, 0xF0B, 0xF56, 0xF0B, 0xF42, 0xF66, 0xF74, 0xF58, 0xF0B, 0xF54], [0xF5F, 0xFB3,
         0xF0B, 0xF56, 0xF0B, 0xF56, 0xF5E, 0xF72, 0xF0B, 0xF54], [0xF5F, 0xFB3, 0xF0B, 0xF56,
         0xF0B, 0xF63, 0xF94, 0xF0B, 0xF54], [0xF5F, 0xFB3, 0xF0B, 0xF56, 0xF0B, 0xF51, 0xFB2,
         0xF74, 0xF42, 0xF0B, 0xF54], [0xF5F, 0xFB3, 0xF0B, 0xF56, 0xF0B, 0xF56, 0xF51, 0xF74,
         0xF53, 0xF0B, 0xF54], [0xF5F, 0xFB3, 0xF0B, 0xF56, 0xF0B, 0xF56, 0xF62, 0xF92, 0xFB1,
         0xF51, 0xF0B, 0xF54], [0xF5F, 0xFB3, 0xF0B, 0xF56, 0xF0B, 0xF51, 0xF42, 0xF74, 0xF0B,
         0xF54], [0xF5F, 0xFB3, 0xF0B, 0xF56, 0xF0B, 0xF56, 0xF45, 0xF74, 0xF0B, 0xF54], [0xF5F,
         0xFB3, 0xF0B, 0xF56, 0xF0B, 0xF56, 0xF45, 0xF74, 0xF0B, 0xF42, 0xF45, 0xF72, 0xF42, 0xF0B,
         0xF54], [0xF5F, 0xFB3, 0xF0B, 0xF56, 0xF0B, 0xF56, 0xF45, 0xF74, 0xF0B, 0xF42, 0xF49,
         0xF72, 0xF66, 0xF0B, 0xF54]],
     l_months_short = Names [[0xF5F, 0xFB3, 0xF0B, 0x31], [0xF5F, 0xFB3, 0xF0B, 0x32], [0xF5F,
         0xFB3, 0xF0B, 0x33], [0xF5F, 0xFB3, 0xF0B, 0x34], [0xF5F, 0xFB3, 0xF0B, 0x35], [0xF5F,
         0xFB3, 0xF0B, 0x36], [0xF5F, 0xFB3, 0xF0B, 0x37], [0xF5F, 0xFB3, 0xF0B, 0x38], [0xF5F,
         0xFB3, 0xF0B, 0x39], [0xF5F, 0xFB3, 0xF0B, 0x31, 0x30], [0xF5F, 0xFB3, 0xF0B, 0x31, 0x31],
         [0xF5F, 0xFB3, 0xF0B, 0x31, 0x32]],
     l_weekdays = Names [[0xF42, 0xF5F, 0xF60, 0xF0B, 0xF49, 0xF72, 0xF0B, 0xF58, 0xF0B], [0xF42,
         0xF5F, 0xF60, 0xF0B, 0xF5F, 0xFB3, 0xF0B, 0xF56, 0xF0B], [0xF42, 0xF5F, 0xF60, 0xF0B,
         0xF58, 0xF72, 0xF42, 0xF0B, 0xF51, 0xF58, 0xF62, 0xF0B], [0xF42, 0xF5F, 0xF60, 0xF0B,
         0xF63, 0xFB7, 0xF42, 0xF0B, 0xF54, 0xF0B], [0xF42, 0xF5F, 0xF60, 0xF0B, 0xF55, 0xF74,
         0xF62, 0xF0B, 0xF56, 0xF74], [0xF42, 0xF5F, 0xF60, 0xF0B, 0xF54, 0xF0B, 0xF66, 0xF44,
         0xF66, 0xF0B], [0xF42, 0xF5F, 0xF60, 0xF0B, 0xF66, 0xFA4, 0xF7A, 0xF53, 0xF0B, 0xF54,
         0xF0B]],
     l_weekdays_short = [[0xF49, 0xF72, 0xF0B, 0xF58, 0xF0B], [0xF5F, 0xFB3, 0xF0B, 0xF56, 0xF0B],
         [0xF58, 0xF72, 0xF42, 0xF0B, 0xF51, 0xF58, 0xF62, 0xF0B], [0xF63, 0xFB7, 0xF42, 0xF0B,
         0xF54, 0xF0B], [0xF55, 0xF74, 0xF62, 0xF0B, 0xF56, 0xF74], [0xF54, 0xF0B, 0xF66, 0xF44,
         0xF66, 0xF0B], [0xF66, 0xFA4, 0xF7A, 0xF53, 0xF0B, 0xF54, 0xF0B]],
     l_weekdays_min = [[0xF49, 0xF72], [0xF5F, 0xFB3], [0xF58, 0xF72, 0xF42], [0xF63, 0xFB7, 0xF42],
         [0xF55, 0xF74, 0xF62], [0xF66, 0xF44, 0xF66], [0xF66, 0xFA4, 0xF7A, 0xF53]],
     l_long_date_format = [(''LT'', js ''A h:mm''),
       (''LTS'', js ''A h:mm:ss''),
       (''L'', js ''DD/MM/YYYY''),
       (''LL'', js ''D MMMM YYYY''),
       (''LLL'', js ''D MMMM YYYY, A h:mm''),
       (''LLLL'', js ''dddd, D MMMM YYYY, A h:mm'')],
     l_calendar = [(''sameDay'', CalText ([0x5B, 0xF51, 0xF72, 0xF0B, 0xF62, 0xF72, 0xF44] @ js
         ''] LT'')),
       (''nextDay'', CalText ([0x5B, 0xF66, 0xF44, 0xF0B, 0xF49, 0xF72, 0xF53] @ js ''] LT'')),
       (''nextWeek'', CalText ([0x5B, 0xF56, 0xF51, 0xF74, 0xF53, 0xF0B, 0xF55, 0xFB2, 0xF42, 0xF0B,
           0xF62, 0xF97, 0xF7A, 0xF66, 0xF0B, 0xF58] @ js ''], LT'')),
       (''lastDay'', CalText ([0x5B, 0xF41, 0xF0B, 0xF66, 0xF44] @ js ''] LT'')),
       (''lastWeek'', CalText ([0x5B, 0xF56, 0xF51, 0xF74, 0xF53, 0xF0B, 0xF55, 0xFB2, 0xF42, 0xF0B,
           0xF58, 0xF50, 0xF60, 0xF0B, 0xF58] @ js ''] dddd, LT'')),
       (''sameElse'', CalText (js ''L''))],
     l_relative_time = [(''future'', RelText [0x25, 0x73, 0x20, 0xF63, 0xF0B]),
       (''past'', RelText [0x25, 0x73, 0x20, 0xF66, 0xF94, 0xF53, 0xF0B, 0xF63]),
       (''s'', RelText [0xF63, 0xF58, 0xF0B, 0xF66, 0xF44]),
       (''ss'', RelText [0x25, 0x64, 0x20, 0xF66, 0xF90, 0xF62, 0xF0B, 0xF46, 0xF0D]),
       (''m'', RelText [0xF66, 0xF90, 0xF62, 0xF0B, 0xF58, 0xF0B, 0xF42, 0xF45, 0xF72, 0xF42]),
       (''mm'', RelText [0x25, 0x64, 0x20, 0xF66, 0xF90, 0xF62, 0xF0B, 0xF58]),
       (''h'', RelText [0xF46, 0xF74, 0xF0B, 0xF5A, 0xF7C, 0xF51, 0xF0B, 0xF42, 0xF45, 0xF72,
           0xF42]),
       (''hh'', RelText [0x25, 0x64, 0x20, 0xF46, 0xF74, 0xF0B, 0xF5A, 0xF7C, 0xF51]),
       (''d'', RelText [0xF49, 0xF72, 0xF53, 0xF0B, 0xF42, 0xF45, 0xF72, 0xF42]),
       (''dd'', RelText [0x25, 0x64, 0x20, 0xF49, 0xF72, 0xF53, 0xF0B]),
       (''M'', RelText [0xF5F, 0xFB3, 0xF0B, 0xF56, 0xF0B, 0xF42, 0xF45, 0xF72, 0xF42]),
       (''MM'', RelText [0x25, 0x64, 0x20, 0xF5F, 0xFB3, 0xF0B, 0xF56]),
       (''y'', RelText [0xF63, 0xF7C, 0xF0B, 0xF42, 0xF45, 0xF72, 0xF42]),
       (''yy'', RelText [0x25, 0x64, 0x20, 0xF63, 0xF7C])],
     l_ordinal = None,
     l_meridiem = Some bo_meridiem,
     l_is_pm = None,
     l_meridiem_hour = Some bo_meridiemHour,
     l_preparse = Some bo_preparse,
     l_postformat = Some bo_postformat,
     l_week = Some (0, 6),
     l_meridiem_parse = Some (Regex False (Alt [Lit [0xF58, 0xF5A, 0xF53, 0xF0B, 0xF58, 0xF7C], Lit
         [0xF5E, 0xF7C, 0xF42, 0xF66, 0xF0B, 0xF40, 0xF66], Lit [0xF49, 0xF72, 0xF53, 0xF0B, 0xF42,
         0xF74, 0xF44], Lit [0xF51, 0xF42, 0xF7C, 0xF44, 0xF0B, 0xF51, 0xF42], Lit [0xF58, 0xF5A,
         0xF53, 0xF0B, 0xF58, 0xF7C]])),
     l_ordinal_parse = None,
     l_parse = [(''monthsShortRegex'', [Regex False (Seq [Start, Seq [Lit [0xF5F, 0xFB3, 0xF0B],
         digits_1_2]])])],
     l_months_parse_exact = True,
     l_weekdays_parse_exact = False,
     l_invalid_date = None,
     l_eras = [],
     l_era_year = None \<rparr>"

text \<open>\<^verbatim>\<open>br\<close> (line 159).\<close>

definition br_softMutation :: "js \<Rightarrow> js" where
  "br_softMutation text = (case text of [] \<Rightarrow> [] | c # cs \<Rightarrow>
       (case map_of [(0x6D, 0x76), (0x62, 0x76), (0x64, 0x7A)] c of None \<Rightarrow> text | Some d
           \<Rightarrow> d # cs))"

definition br_mutation :: "js \<Rightarrow> nat \<Rightarrow> js" where
  "br_mutation text number = (if number = 2 then br_softMutation text else text)"

definition br_rel_t :: "nat \<Rightarrow> bool \<Rightarrow> string \<Rightarrow> bool \<Rightarrow>
    js option" where
  "br_rel_t number withoutSuffix key isFuture = 
     map_option (\<lambda>x. jnum number @ [0x20] @ br_mutation x number)
       (map_of [(''mm'', (js ''munutenn'')), (''MM'', (js ''miz'')), (''dd'', (js ''devezh''))]
           key)"

fun br_lastNumber :: "nat \<Rightarrow> nat" where
  "br_lastNumber n = (if n > 9 then br_lastNumber (n mod 10) else n)"

declare br_lastNumber.simps [simp del]

definition br_rel_n :: "nat \<Rightarrow> bool \<Rightarrow> string \<Rightarrow> bool \<Rightarrow>
    js option" where
  "br_rel_n number withoutSuffix key isFuture = 
     Some (jnum number @ (if br_lastNumber number \<in> set [1, 3, 4, 5, 9] then (js '' bloaz'')
      else (js '' vloaz'')))"

definition br_ordinal :: "nat \<Rightarrow> string \<Rightarrow> js option" where
  "br_ordinal number period = Some (let t = (if number = 1 then [0x61, 0xF1]
      else js ''vet'') in jnum number @ t)"

definition br_meridiem :: "nat \<Rightarrow> nat \<Rightarrow> bool \<Rightarrow> js" where
  "br_meridiem hour minute isLower = (if hour < 12 then js ''a.m.'' else js ''g.m.'')"

definition br_isPM :: "js \<Rightarrow> bool" where
  "br_isPM input \<longleftrightarrow> input = js ''g.m.''"

definition br_rx_s :: "regex list" where
  "br_rx_s = [Regex True (Seq [Start, Alt [Lit (js ''genver''), Seq [Lit (js ''c''), Cls [(0x2BC,
      0x2BC), (0x27, 0x27)], Lit (js ''hwevrer'')], Lit (js ''meurzh''), Lit (js ''ebrel''), Lit (js
      ''mae''), Lit (js ''mezheven''), Lit (js ''gouere''), Lit (js ''eost''), Lit (js
      ''gwengolo''), Lit (js ''here''), Lit (js ''du''), Lit (js ''kerzu''), Lit (js ''gen''), Seq
      [Lit (js ''c''), Cls [(0x2BC, 0x2BC), (0x27, 0x27)], Lit (js ''hwe'')], Lit (js ''meu''), Lit
      (js ''ebr''), Lit (js ''mae''), Lit (js ''eve''), Lit (js ''gou''), Lit (js ''eos''), Lit (js
      ''gwe''), Lit (js ''her''), Lit (js ''du''), Lit (js ''ker'')]])]"

definition br_rx_o :: "regex list" where
  "br_rx_o = [Regex True (Seq [Start, Lit (js ''gen'')]), Regex True (Seq [Start, Lit (js ''c''),
      Cls [(0x2BC, 0x2BC), (0x27, 0x27)], Lit (js ''hwe'')]), Regex True (Seq [Start, Lit (js
      ''meu'')]), Regex True (Seq [Start, Lit (js ''ebr'')]), Regex True (Seq [Start, Lit (js
      ''mae'')]), Regex True (Seq [Start, Alt [Lit (js ''mez''), Lit (js ''eve'')]]), Regex True
      (Seq [Start, Lit (js ''gou'')]), Regex True (Seq [Start, Lit (js ''eos'')]), Regex True (Seq
      [Start, Lit (js ''gwe'')]), Regex True (Seq [Start, Lit (js ''her'')]), Regex True (Seq
      [Start, Lit (js ''du'')]), Regex True (Seq [Start, Lit (js ''ker'')])]"

definition br_rx_h :: "regex list" where
  "br_rx_h = [Regex True (Seq [Start, Lit (js ''Su'')]), Regex True (Seq [Start, Lit (js ''Lu'')]),
      Regex True (Seq [Start, Lit (js ''Me''), Alt [NotCls [(0x72, 0x72)], End]]), Regex True (Seq
      [Start, Lit (js ''Mer'')]), Regex True (Seq [Start, Lit (js ''Ya'')]), Regex True (Seq [Start,
      Lit (js ''Gw'')]), Regex True (Seq [Start, Lit (js ''Sa'')])]"

definition locale_br :: moment_locale where
  "locale_br = \<lparr>
     l_abbr = ''br'',
     l_months = Names [js ''Genver'', [0x43, 0x2BC] @ js ''hwevrer'', js ''Meurzh'', js ''Ebrel'',
         js ''Mae'', js ''Mezheven'', js ''Gouere'', js ''Eost'', js ''Gwengolo'', js ''Here'', js
         ''Du'', js ''Kerzu''],
     l_months_short = Names [js ''Gen'', [0x43, 0x2BC, 0x68, 0x77, 0x65], js ''Meu'', js ''Ebr'', js
         ''Mae'', js ''Eve'', js ''Gou'', js ''Eos'', js ''Gwe'', js ''Her'', js ''Du'', js
         ''Ker''],
     l_weekdays = Names [js ''Sul'', js ''Lun'', js ''Meurzh'', js ''Merc'' @ [0x2BC, 0x68, 0x65,
         0x72], js ''Yaou'', js ''Gwener'', js ''Sadorn''],
     l_weekdays_short = [js ''Sul'', js ''Lun'', js ''Meu'', js ''Mer'', js ''Yao'', js ''Gwe'', js
         ''Sad''],
     l_weekdays_min = [js ''Su'', js ''Lu'', js ''Me'', js ''Mer'', js ''Ya'', js ''Gw'', js
         ''Sa''],
     l_long_date_format = [(''LT'', js ''HH:mm''),
       (''LTS'', js ''HH:mm:ss''),
       (''L'', js ''DD/MM/YYYY''),
       (''LL'', js ''D [a viz] MMMM YYYY''),
       (''LLL'', js ''D [a viz] MMMM YYYY HH:mm''),
       (''LLLL'', js ''dddd, D [a viz] MMMM YYYY HH:mm'')],
     l_calendar = [(''sameDay'', CalText (js ''[Hiziv da] LT'')),
       (''nextDay'', CalText (js ''[Warc'' @ [0x2BC] @ js ''hoazh da] LT'')),
       (''nextWeek'', CalText (js ''dddd [da] LT'')),
       (''lastDay'', CalText (js ''[Dec'' @ [0x2BC] @ js ''h da] LT'')),
       (''lastWeek'', CalText (js ''dddd [paset da] LT'')),
       (''sameElse'', CalText (js ''L''))],
     l_relative_time = [(''future'', RelText (js ''a-benn %s'')),
       (''past'', RelText [0x25, 0x73, 0x20, 0x2BC, 0x7A, 0x6F]),
       (''s'', RelText (js ''un nebeud segondenno'' @ [0xF9])),
       (''ss'', RelText (js ''%d eilenn'')),
       (''m'', RelText (js ''ur vunutenn'')),
       (''mm'', RelNum br_rel_t),
       (''h'', RelText (js ''un eur'')),
       (''hh'', RelText (js ''%d eur'')),
       (''d'', RelText (js ''un devezh'')),
       (''dd'', RelNum br_rel_t),
       (''M'', RelText (js ''ur miz'')),
       (''MM'', RelNum br_rel_t),
       (''y'', RelText (js ''ur bloaz'')),
       (''yy'', RelNum br_rel_n)],
     l_ordinal = Some (OrdFun br_ordinal),
     l_meridiem = Some br_meridiem,
     l_is_pm = Some br_isPM,
     l_meridiem_hour = None,
     l_preparse = None,
     l_postformat = None,
     l_week = Some (1, 4),
     l_meridiem_parse = Some (Regex False (Alt [Seq [Lit (js ''a''), AnyUnit, Lit (js ''m''),
         AnyUnit], Seq [Lit (js ''g''), AnyUnit, Lit (js ''m''), AnyUnit]])),
     l_ordinal_parse = Some (Regex False (Seq [digits_1_2, Alt [Lit [0x61, 0xF1], Lit (js
         ''vet'')]])),
     l_parse = [(''monthsRegex'', br_rx_s), (''monthsShortRegex'', br_rx_s), (''monthsStrictRegex'',
         [Regex True (Seq [Start, Alt [Lit (js ''genver''), Seq [Lit (js ''c''), Cls [(0x2BC,
         0x2BC), (0x27, 0x27)], Lit (js ''hwevrer'')], Lit (js ''meurzh''), Lit (js ''ebrel''), Lit
         (js ''mae''), Lit (js ''mezheven''), Lit (js ''gouere''), Lit (js ''eost''), Lit (js
         ''gwengolo''), Lit (js ''here''), Lit (js ''du''), Lit (js ''kerzu'')]])]),
         (''monthsShortStrictRegex'', [Regex True (Seq [Start, Alt [Lit (js ''gen''), Seq [Lit (js
         ''c''), Cls [(0x2BC, 0x2BC), (0x27, 0x27)], Lit (js ''hwe'')], Lit (js ''meu''), Lit (js
         ''ebr''), Lit (js ''mae''), Lit (js ''eve''), Lit (js ''gou''), Lit (js ''eos''), Lit (js
         ''gwe''), Lit (js ''her''), Lit (js ''du''), Lit (js ''ker'')]])]), (''monthsParse'',
         br_rx_o), (''longMonthsParse'', br_rx_o), (''shortMonthsParse'', br_rx_o),
         (''weekdaysParse'', br_rx_h), (''fullWeekdaysParse'', [Regex True (Seq [Start, Lit (js
         ''sul'')]), Regex True (Seq [Start, Lit (js ''lun'')]), Regex True (Seq [Start, Lit (js
         ''meurzh'')]), Regex True (Seq [Start, Lit (js ''merc''), Cls [(0x2BC, 0x2BC), (0x27,
         0x27)], Lit (js ''her'')]), Regex True (Seq [Start, Lit (js ''yaou'')]), Regex True (Seq
         [Start, Lit (js ''gwener'')]), Regex True (Seq [Start, Lit (js ''sadorn'')])]),
         (''shortWeekdaysParse'', [Regex True (Seq [Start, Lit (js ''Sul'')]), Regex True (Seq
         [Start, Lit (js ''Lun'')]), Regex True (Seq [Start, Lit (js ''Meu'')]), Regex True (Seq
         [Start, Lit (js ''Mer'')]), Regex True (Seq [Start, Lit (js ''Yao'')]), Regex True (Seq
         [Start, Lit (js ''Gwe'')]), Regex True (Seq [Start, Lit (js ''Sad'')])]),
         (''minWeekdaysParse'', br_rx_h)],
     l_months_parse_exact = False,
     l_weekdays_parse_exact = False,
     l_invalid_date = None,
     l_eras = [],
     l_era_year = None \<rparr>"

definition locales_a :: "moment_locale list" where
  "locales_a = [locale_af, locale_ar, locale_ar_dz, locale_ar_kw, locale_ar_ly, locale_ar_ma, locale_ar_sa,
         locale_ar_tn, locale_az, locale_be, locale_bg, locale_bm, locale_bn, locale_bn_bd, locale_bo,
         locale_br]"

lemmas locales_a_defs = locales_a_def locale_af_def locale_ar_def locale_ar_dz_def locale_ar_kw_def locale_ar_ly_def
      locale_ar_ma_def locale_ar_sa_def locale_ar_tn_def locale_az_def locale_be_def locale_bg_def
      locale_bm_def locale_bn_def locale_bn_bd_def locale_bo_def locale_br_def

text \<open>The relative times of these languages.\<close>

lemma ar_plural_defined:
  assumes "1 \<le> number"
  shows "(ar_plural ''s'') number withoutSuffix ''s'' isFuture \<noteq> None"
    and "(ar_plural ''s'') number withoutSuffix ''ss'' isFuture \<noteq> None"
    and "(ar_plural ''m'') number withoutSuffix ''m'' isFuture \<noteq> None"
    and "(ar_plural ''m'') number withoutSuffix ''mm'' isFuture \<noteq> None"
    and "(ar_plural ''h'') number withoutSuffix ''h'' isFuture \<noteq> None"
    and "(ar_plural ''h'') number withoutSuffix ''hh'' isFuture \<noteq> None"
    and "(ar_plural ''d'') number withoutSuffix ''d'' isFuture \<noteq> None"
    and "(ar_plural ''d'') number withoutSuffix ''dd'' isFuture \<noteq> None"
    and "(ar_plural ''M'') number withoutSuffix ''M'' isFuture \<noteq> None"
    and "(ar_plural ''M'') number withoutSuffix ''MM'' isFuture \<noteq> None"
    and "(ar_plural ''y'') number withoutSuffix ''y'' isFuture \<noteq> None"
    and "(ar_plural ''y'') number withoutSuffix ''yy'' isFuture \<noteq> None"
  using assms
  by (auto simp: ar_plural_def ar_plurals_def ar_pluralForm_def js_nth_def Let_def split: if_splits)

lemma ar_dz_plural_defined:
  assumes "1 \<le> number"
  shows "(ar_dz_plural ''s'') number withoutSuffix ''s'' isFuture \<noteq> None"
    and "(ar_dz_plural ''s'') number withoutSuffix ''ss'' isFuture \<noteq> None"
    and "(ar_dz_plural ''m'') number withoutSuffix ''m'' isFuture \<noteq> None"
    and "(ar_dz_plural ''m'') number withoutSuffix ''mm'' isFuture \<noteq> None"
    and "(ar_dz_plural ''h'') number withoutSuffix ''h'' isFuture \<noteq> None"
    and "(ar_dz_plural ''h'') number withoutSuffix ''hh'' isFuture \<noteq> None"
    and "(ar_dz_plural ''d'') number withoutSuffix ''d'' isFuture \<noteq> None"
    and "(ar_dz_plural ''d'') number withoutSuffix ''dd'' isFuture \<noteq> None"
    and "(ar_dz_plural ''M'') number withoutSuffix ''M'' isFuture \<noteq> None"
    and "(ar_dz_plural ''M'') number withoutSuffix ''MM'' isFuture \<noteq> None"
    and "(ar_dz_plural ''y'') number withoutSuffix ''y'' isFuture \<noteq> None"
    and "(ar_dz_plural ''y'') number withoutSuffix ''yy'' isFuture \<noteq> None"
  using assms
  by (auto simp: ar_dz_plural_def ar_dz_plurals_def ar_dz_pluralForm_def js_nth_def Let_def split: if_splits)

lemma ar_ly_plural_defined:
  assumes "1 \<le> number"
  shows "(ar_ly_plural ''s'') number withoutSuffix ''s'' isFuture \<noteq> None"
    and "(ar_ly_plural ''s'') number withoutSuffix ''ss'' isFuture \<noteq> None"
    and "(ar_ly_plural ''m'') number withoutSuffix ''m'' isFuture \<noteq> None"
    and "(ar_ly_plural ''m'') number withoutSuffix ''mm'' isFuture \<noteq> None"
    and "(ar_ly_plural ''h'') number withoutSuffix ''h'' isFuture \<noteq> None"
    and "(ar_ly_plural ''h'') number withoutSuffix ''hh'' isFuture \<noteq> None"
    and "(ar_ly_plural ''d'') number withoutSuffix ''d'' isFuture \<noteq> None"
    and "(ar_ly_plural ''d'') number withoutSuffix ''dd'' isFuture \<noteq> None"
    and "(ar_ly_plural ''M'') number withoutSuffix ''M'' isFuture \<noteq> None"
    and "(ar_ly_plural ''M'') number withoutSuffix ''MM'' isFuture \<noteq> None"
    and "(ar_ly_plural ''y'') number withoutSuffix ''y'' isFuture \<noteq> None"
    and "(ar_ly_plural ''y'') number withoutSuffix ''yy'' isFuture \<noteq> None"
  using assms
  by (auto simp: ar_ly_plural_def ar_ly_plurals_def ar_ly_pluralForm_def js_nth_def Let_def split: if_splits)

lemma be_rel_n_defined:
  assumes "1 \<le> number"
  shows "be_rel_n number withoutSuffix ''m'' isFuture \<noteq> None"
    and "be_rel_n number withoutSuffix ''mm'' isFuture \<noteq> None"
    and "be_rel_n number withoutSuffix ''h'' isFuture \<noteq> None"
    and "be_rel_n number withoutSuffix ''hh'' isFuture \<noteq> None"
    and "be_rel_n number withoutSuffix ''dd'' isFuture \<noteq> None"
    and "be_rel_n number withoutSuffix ''MM'' isFuture \<noteq> None"
    and "be_rel_n number withoutSuffix ''yy'' isFuture \<noteq> None"
  using assms
  by (auto simp: be_rel_n_def be_t_def js_nth_def Let_def split: if_splits)

lemma br_rel_t_defined:
  assumes "1 \<le> number"
  shows "br_rel_t number withoutSuffix ''mm'' isFuture \<noteq> None"
    and "br_rel_t number withoutSuffix ''dd'' isFuture \<noteq> None"
    and "br_rel_t number withoutSuffix ''MM'' isFuture \<noteq> None"
  using assms
  by (auto simp: br_rel_t_def br_mutation_def br_softMutation_def js_nth_def Let_def split: if_splits)

lemma br_rel_n_defined:
  assumes "1 \<le> number"
  shows "br_rel_n number withoutSuffix ''yy'' isFuture \<noteq> None"
  using assms
  by (auto simp: br_rel_n_def js_nth_def Let_def split: if_splits)

lemma locales_a_relative:
  assumes "1 \<le> number"
  shows "list_all (\<lambda>c. rel_defined number withoutSuffix isFuture (l_relative_time c)) locales_a"
  unfolding locales_a_defs list.pred_inject moment_locale.select_convs rel_defined_def
  using assms by (simp add: ar_plural_defined ar_dz_plural_defined ar_ly_plural_defined be_rel_n_defined br_rel_t_defined br_rel_n_defined del: not_None_eq)

lemma locales_a_wrappers:
  "list_all (\<lambda>c. wrapper_defined s (l_relative_time c)) locales_a"
  unfolding locales_a_defs list.pred_inject moment_locale.select_convs wrapper_defined_def
  by (simp)

lemma locales_a_unitwise:
  "list_all (\<lambda>c. unitwise (apply_option (l_preparse c)) \<and> unitwise (apply_option (l_postformat c))) locales_a"
  unfolding locales_a_defs list.pred_inject moment_locale.select_convs
  by (simp add: unitwise_def apply_option_def
      ar_preparse_def ar_postformat_def ar_dz_postformat_def ar_ly_preparse_def
      ar_ly_postformat_def ar_sa_preparse_def ar_sa_postformat_def bn_preparse_def
      bn_postformat_def bn_bd_preparse_def bn_bd_postformat_def bo_preparse_def
      bo_postformat_def)

lemma locales_a_names:
  "list_all (\<lambda>c. names_length 12 (l_months c) \<and> names_length 12 (l_months_short c) \<and>
     names_length 7 (l_weekdays c) \<and> length (l_weekdays_short c) = 7 \<and> length (l_weekdays_min c) = 7) locales_a"
  unfolding locales_a_defs list.pred_inject moment_locale.select_convs
  by (simp add: names_length_def)

end
