(* ===== verification/LocalesB.thy ===== *)
theory LocalesB
  imports MomentCore
begin

text \<open>
  The language configurations bs to es-us of the date library, as the bundle
  \<^verbatim>\<open>src/lagosta/js/app.js\<close> registers them, one per line.  Each configuration is the record
  \<^verbatim>\<open>locale_x\<close>; the functions inside it are the definitions before it, named after the language and
  the property (or the local function) that holds them.
\<close>

text \<open>\<^verbatim>\<open>bs\<close> (line 57).\<close>

definition bs_nextWeek :: "nat \<Rightarrow> nat \<Rightarrow> bool \<Rightarrow> js option" where
  "bs_nextWeek day hours sameWeek = (if day = 0 then Some (js ''[u] [nedjelju] [u] LT'')
      else if day = 3 then Some (js ''[u] [srijedu] [u] LT'')
      else if day = 6 then Some (js ''[u] [subotu] [u] LT'')
      else if day = 1 \<or> day = 2 \<or> day = 4 \<or> day = 5 then Some (js ''[u] dddd [u] LT'')
      else None)"

definition bs_lastWeek :: "nat \<Rightarrow> nat \<Rightarrow> bool \<Rightarrow> js option" where
  "bs_lastWeek day hours sameWeek = (if day = 0 \<or> day = 3 then Some (js ''[pro'' @ [0x161] @ js
      ''lu] dddd [u] LT'')
      else if day = 6 then Some (js ''[pro'' @ [0x161] @ js ''le] [subote] [u] LT'')
      else if day = 1 \<or> day = 2 \<or> day = 4 \<or> day = 5 then Some (js ''[pro'' @ [0x161] @
          js ''li] dddd [u] LT'')
      else None)"

definition bs_rel_t :: "nat \<Rightarrow> bool \<Rightarrow> string \<Rightarrow> bool \<Rightarrow>
    js option" where
  "bs_rel_t number withoutSuffix key isFuture = (let i = jnum number @ js '' '' in (if key = ''ss''
      then Some (let i = i @ (if number = 1 then js ''sekunda''
      else if (number = 2 \<or> number = 3) \<or> number = 4 then js ''sekunde''
      else js ''sekundi'') in i)
      else if key = ''m'' then Some (if withoutSuffix then js ''jedna minuta''
      else js ''jedne minute'')
      else if key = ''mm'' then Some (let i = i @ (if number = 1 then js ''minuta''
      else if (number = 2 \<or> number = 3) \<or> number = 4 then js ''minute''
      else js ''minuta'') in i)
      else if key = ''h'' then Some (if withoutSuffix then js ''jedan sat''
      else js ''jednog sata'')
      else if key = ''hh'' then Some (let i = i @ (if number = 1 then js ''sat''
      else if (number = 2 \<or> number = 3) \<or> number = 4 then js ''sata''
      else js ''sati'') in i)
      else if key = ''dd'' then Some (let i = i @ (if number = 1 then js ''dan''
      else js ''dana'') in i)
      else if key = ''MM'' then Some (let i = i @ (if number = 1 then js ''mjesec''
      else if (number = 2 \<or> number = 3) \<or> number = 4 then js ''mjeseca''
      else js ''mjeseci'') in i)
      else if key = ''yy'' then Some (let i = i @ (if number = 1 then js ''godina''
      else if (number = 2 \<or> number = 3) \<or> number = 4 then js ''godine''
      else js ''godina'') in i)
      else None))"

definition locale_bs :: moment_locale where
  "locale_bs = \<lparr>
     l_abbr = ''bs'',
     l_months = Names [js ''januar'', js ''februar'', js ''mart'', js ''april'', js ''maj'', js
         ''juni'', js ''juli'', js ''august'', js ''septembar'', js ''oktobar'', js ''novembar'', js
         ''decembar''],
     l_months_short = Names [js ''jan.'', js ''feb.'', js ''mar.'', js ''apr.'', js ''maj.'', js
         ''jun.'', js ''jul.'', js ''aug.'', js ''sep.'', js ''okt.'', js ''nov.'', js ''dec.''],
     l_weekdays = Names [js ''nedjelja'', js ''ponedjeljak'', js ''utorak'', js ''srijeda'', [0x10D]
         @ js ''etvrtak'', js ''petak'', js ''subota''],
     l_weekdays_short = [js ''ned.'', js ''pon.'', js ''uto.'', js ''sri.'', [0x10D, 0x65, 0x74,
         0x2E], js ''pet.'', js ''sub.''],
     l_weekdays_min = [js ''ne'', js ''po'', js ''ut'', js ''sr'', [0x10D, 0x65], js ''pe'', js
         ''su''],
     l_long_date_format = [(''LT'', js ''H:mm''),
       (''LTS'', js ''H:mm:ss''),
       (''L'', js ''DD.MM.YYYY''),
       (''LL'', js ''D. MMMM YYYY''),
       (''LLL'', js ''D. MMMM YYYY H:mm''),
       (''LLLL'', js ''dddd, D. MMMM YYYY H:mm'')],
     l_calendar = [(''sameDay'', CalText (js ''[danas u] LT'')),
       (''nextDay'', CalText (js ''[sutra u] LT'')),
       (''nextWeek'', CalFun bs_nextWeek),
       (''lastDay'', CalText ([0x5B, 0x6A, 0x75, 0x10D] @ js ''er u] LT'')),
       (''lastWeek'', CalFun bs_lastWeek),
       (''sameElse'', CalText (js ''L''))],
     l_relative_time = [(''future'', RelText (js ''za %s'')),
       (''past'', RelText (js ''prije %s'')),
       (''s'', RelText (js ''par sekundi'')),
       (''ss'', RelNum bs_rel_t),
       (''m'', RelNum bs_rel_t),
       (''mm'', RelNum bs_rel_t),
       (''h'', RelNum bs_rel_t),
       (''hh'', RelNum bs_rel_t),
       (''d'', RelText (js ''dan'')),
       (''dd'', RelNum bs_rel_t),
       (''M'', RelText (js ''mjesec'')),
       (''MM'', RelNum bs_rel_t),
       (''y'', RelText (js ''godinu'')),
       (''yy'', RelNum bs_rel_t)],
     l_ordinal = Some (OrdText (js ''%d.'')),
     l_meridiem = None,
     l_is_pm = None,
     l_meridiem_hour = None,
     l_preparse = None,
     l_postformat = None,
     l_week = Some (1, 7),
     l_meridiem_parse = None,
     l_ordinal_parse = Some (Regex False (Seq [digits_1_2, Lit (js ''.'')])),
     l_parse = [],
     l_months_parse_exact = True,
     l_weekdays_parse_exact = True,
     l_invalid_date = None,
     l_eras = [],
     l_era_year = None \<rparr>"

text \<open>\<^verbatim>\<open>ca\<close> (line 323).\<close>

definition ca_sameDay :: "nat \<Rightarrow> nat \<Rightarrow> bool \<Rightarrow> js option" where
  "ca_sameDay day hours sameWeek = Some (js ''[avui a '' @ (if hours \<noteq> 1 then js ''les''
      else js ''la'') @ js ''] LT'')"

definition ca_nextDay :: "nat \<Rightarrow> nat \<Rightarrow> bool \<Rightarrow> js option" where
  "ca_nextDay day hours sameWeek = Some (js ''[dem'' @ [0xE0, 0x20, 0x61, 0x20] @ (if hours \<noteq>
      1 then js ''les''
      else js ''la'') @ js ''] LT'')"

definition ca_nextWeek :: "nat \<Rightarrow> nat \<Rightarrow> bool \<Rightarrow> js option" where
  "ca_nextWeek day hours sameWeek = Some (js ''dddd [a '' @ (if hours \<noteq> 1 then js ''les''
      else js ''la'') @ js ''] LT'')"

definition ca_lastDay :: "nat \<Rightarrow> nat \<Rightarrow> bool \<Rightarrow> js option" where
  "ca_lastDay day hours sameWeek = Some (js ''[ahir a '' @ (if hours \<noteq> 1 then js ''les''
      else js ''la'') @ js ''] LT'')"

definition ca_lastWeek :: "nat \<Rightarrow> nat \<Rightarrow> bool \<Rightarrow> js option" where
  "ca_lastWeek day hours sameWeek = Some (js ''[el] dddd [passat a '' @ (if hours \<noteq> 1 then js
      ''les''
      else js ''la'') @ js ''] LT'')"

definition ca_ordinal :: "nat \<Rightarrow> string \<Rightarrow> js option" where
  "ca_ordinal number period = Some (let n = (if number = 1 then js ''r''
      else if number = 2 then js ''n''
      else if number = 3 then js ''r''
      else if number = 4 then js ''t''
      else [0xE8]) in (let n = (if period \<noteq> ''w'' \<and> period \<noteq> ''W'' then n
      else js ''a'') in jnum number @ n))"

definition locale_ca :: moment_locale where
  "locale_ca = \<lparr>
     l_abbr = ''ca'',
     l_months = NamesAlt [js ''gener'', js ''febrer'', [0x6D, 0x61, 0x72, 0xE7], js ''abril'', js
         ''maig'', js ''juny'', js ''juliol'', js ''agost'', js ''setembre'', js ''octubre'', js
         ''novembre'', js ''desembre''] [js ''de gener'', js ''de febrer'', js ''de mar'' @ [0xE7],
         [0x64, 0x27] @ js ''abril'', js ''de maig'', js ''de juny'', js ''de juliol'', [0x64, 0x27]
         @ js ''agost'', js ''de setembre'', [0x64, 0x27] @ js ''octubre'', js ''de novembre'', js
         ''de desembre'']
       (Some (Regex False (Seq [Lit (js ''D''), Opt (Cls [(0x6F, 0x6F), (0x44, 0x44)]), Plus (Cls
           [(0x9, 0xD), (0x20, 0x20), (0xA0, 0xA0), (0x1680, 0x1680), (0x2000, 0x200A), (0x2028,
           0x2029), (0x202F, 0x202F), (0x205F, 0x205F), (0x3000, 0x3000), (0xFEFF, 0xFEFF)]), Lit
           (js ''MMMM'')]))),
     l_months_short = Names [js ''gen.'', js ''febr.'', [0x6D, 0x61, 0x72, 0xE7], js ''abr.'', js
         ''maig'', js ''juny'', js ''jul.'', js ''ag.'', js ''set.'', js ''oct.'', js ''nov.'', js
         ''des.''],
     l_weekdays = Names [js ''diumenge'', js ''dilluns'', js ''dimarts'', js ''dimecres'', js
         ''dijous'', js ''divendres'', js ''dissabte''],
     l_weekdays_short = [js ''dg.'', js ''dl.'', js ''dt.'', js ''dc.'', js ''dj.'', js ''dv.'', js
         ''ds.''],
     l_weekdays_min = [js ''dg'', js ''dl'', js ''dt'', js ''dc'', js ''dj'', js ''dv'', js ''ds''],
     l_long_date_format = [(''LT'', js ''H:mm''),
       (''LTS'', js ''H:mm:ss''),
       (''L'', js ''DD/MM/YYYY''),
       (''LL'', js ''D MMMM [de] YYYY''),
       (''ll'', js ''D MMM YYYY''),
       (''LLL'', js ''D MMMM [de] YYYY [a les] H:mm''),
       (''lll'', js ''D MMM YYYY, H:mm''),
       (''LLLL'', js ''dddd D MMMM [de] YYYY [a les] H:mm''),
       (''llll'', js ''ddd D MMM YYYY, H:mm'')],
     l_calendar = [(''sameDay'', CalFun ca_sameDay),
       (''nextDay'', CalFun ca_nextDay),
       (''nextWeek'', CalFun ca_nextWeek),
       (''lastDay'', CalFun ca_lastDay),
       (''lastWeek'', CalFun ca_lastWeek),
       (''sameElse'', CalText (js ''L''))],
     l_relative_time = [(''future'', RelText [0x64, 0x27, 0x61, 0x71, 0x75, 0xED, 0x20, 0x25,
         0x73]),
       (''past'', RelText (js ''fa %s'')),
       (''s'', RelText (js ''uns segons'')),
       (''ss'', RelText (js ''%d segons'')),
       (''m'', RelText (js ''un minut'')),
       (''mm'', RelText (js ''%d minuts'')),
       (''h'', RelText (js ''una hora'')),
       (''hh'', RelText (js ''%d hores'')),
       (''d'', RelText (js ''un dia'')),
       (''dd'', RelText (js ''%d dies'')),
       (''M'', RelText (js ''un mes'')),
       (''MM'', RelText (js ''%d mesos'')),
       (''y'', RelText (js ''un any'')),
       (''yy'', RelText (js ''%d anys''))],
     l_ordinal = Some (OrdFun ca_ordinal),
     l_meridiem = None,
     l_is_pm = None,
     l_meridiem_hour = None,
     l_preparse = None,
     l_postformat = None,
     l_week = Some (1, 4),
     l_meridiem_parse = None,
     l_ordinal_parse = Some (Regex False (Seq [digits_1_2, Alt [Lit (js ''r''), Lit (js ''n''), Lit
         (js ''t''), Lit [0xE8], Lit (js ''a'')]])),
     l_parse = [],
     l_months_parse_exact = True,
     l_weekdays_parse_exact = True,
     l_invalid_date = None,
     l_eras = [],
     l_era_year = None \<rparr>"

text \<open>\<^verbatim>\<open>cs\<close> (line 93).\<close>

definition cs_a :: "nat \<Rightarrow> bool" where
  "cs_a number \<longleftrightarrow> (number > 1 \<and> number < 5) \<and> (number) div 10 \<noteq>
      1"

definition cs_nextWeek :: "nat \<Rightarrow> nat \<Rightarrow> bool \<Rightarrow> js option" where
  "cs_nextWeek day hours sameWeek = (if day = 0 then Some (js ''[v ned'' @ [0x11B] @ js
      ''li v] LT'')
      else if day = 1 \<or> day = 2 then Some (js ''[v] dddd [v] LT'')
      else if day = 3 then Some (js ''[ve st'' @ [0x159] @ js ''edu v] LT'')
      else if day = 4 then Some (js ''[ve '' @ [0x10D] @ js ''tvrtek v] LT'')
      else if day = 5 then Some (js ''[v p'' @ [0xE1] @ js ''tek v] LT'')
      else if day = 6 then Some (js ''[v sobotu v] LT'')
      else None)"

definition cs_lastWeek :: "nat \<Rightarrow> nat \<Rightarrow> bool \<Rightarrow> js option" where
  "cs_lastWeek day hours sameWeek = (if day = 0 then Some (js ''[minulou ned'' @ [0x11B] @ js
      ''li v] LT'')
      else if day = 1 \<or> day = 2 then Some (js ''[minul'' @ [0xE9] @ js ''] dddd [v] LT'')
      else if day = 3 then Some (js ''[minulou st'' @ [0x159] @ js ''edu v] LT'')
      else if day = 4 \<or> day = 5 then Some (js ''[minul'' @ [0xFD] @ js ''] dddd [v] LT'')
      else if day = 6 then Some (js ''[minulou sobotu v] LT'')
      else None)"

definition cs_rel_o :: "nat \<Rightarrow> bool \<Rightarrow> string \<Rightarrow> bool \<Rightarrow>
    js option" where
  "cs_rel_o number withoutSuffix key isFuture = (let r = jnum number @ js '' '' in (if key = ''s''
      then Some (if withoutSuffix \<or> isFuture then [0x70, 0xE1] @ js ''r sekund''
      else [0x70, 0xE1] @ js ''r sekundami'')
      else if key = ''ss'' then Some (if withoutSuffix \<or> isFuture then r @ (if cs_a number then
          js ''sekundy''
      else js ''sekund'')
      else r @ js ''sekundami'')
      else if key = ''m'' then Some (if withoutSuffix then js ''minuta''
      else if isFuture then js ''minutu''
      else js ''minutou'')
      else if key = ''mm'' then Some (if withoutSuffix \<or> isFuture then r @ (if cs_a number then
          js ''minuty''
      else js ''minut'')
      else r @ js ''minutami'')
      else if key = ''h'' then Some (if withoutSuffix then js ''hodina''
      else if isFuture then js ''hodinu''
      else js ''hodinou'')
      else if key = ''hh'' then Some (if withoutSuffix \<or> isFuture then r @ (if cs_a number then
          js ''hodiny''
      else js ''hodin'')
      else r @ js ''hodinami'')
      else if key = ''d'' then Some (if withoutSuffix \<or> isFuture then js ''den''
      else js ''dnem'')
      else if key = ''dd'' then Some (if withoutSuffix \<or> isFuture then r @ (if cs_a number then
          js ''dny''
      else [0x64, 0x6E, 0xED])
      else r @ js ''dny'')
      else if key = ''M'' then Some (if withoutSuffix \<or> isFuture then [0x6D, 0x11B, 0x73, 0xED,
          0x63]
      else [0x6D, 0x11B, 0x73, 0xED, 0x63, 0x65, 0x6D])
      else if key = ''MM'' then Some (if withoutSuffix \<or> isFuture then r @ (if cs_a number then
          [0x6D, 0x11B, 0x73, 0xED, 0x63, 0x65]
      else [0x6D, 0x11B, 0x73, 0xED, 0x63, 0x16F])
      else r @ [0x6D, 0x11B, 0x73, 0xED, 0x63, 0x69])
      else if key = ''y'' then Some (if withoutSuffix \<or> isFuture then js ''rok''
      else js ''rokem'')
      else if key = ''yy'' then Some (if withoutSuffix \<or> isFuture then r @ (if cs_a number then
          js ''roky''
      else js ''let'')
      else r @ js ''lety'')
      else None))"

definition cs_rx_r :: "regex list" where
  "cs_rx_r = [Regex True (Seq [Start, Alt [Lit (js ''leden''), Lit [0xFA, 0x6E, 0x6F, 0x72], Lit
      ([0x62, 0x159] @ js ''ezen''), Lit (js ''duben''), Lit [0x6B, 0x76, 0x11B, 0x74, 0x65, 0x6E],
      Lit ([0x10D] @ js ''ervenec''), Lit ([0x10D] @ js ''ervence''), Lit ([0x10D] @ js ''erven''),
      Lit ([0x10D] @ js ''ervna''), Lit (js ''srpen''), Lit [0x7A, 0xE1, 0x159, 0xED], Lit [0x159,
      0xED, 0x6A, 0x65, 0x6E], Lit (js ''listopad''), Lit (js ''prosinec''), Lit (js ''led''), Lit
      [0xFA, 0x6E, 0x6F], Lit [0x62, 0x159, 0x65], Lit (js ''dub''), Lit [0x6B, 0x76, 0x11B], Lit
      [0x10D, 0x76, 0x6E], Lit [0x10D, 0x76, 0x63], Lit (js ''srp''), Lit [0x7A, 0xE1, 0x159], Lit
      [0x159, 0xED, 0x6A], Lit (js ''lis''), Lit (js ''pro'')]])]"

definition cs_rx_i :: "regex list" where
  "cs_rx_i = [Regex True (Seq [Start, Lit (js ''led'')]), Regex True (Seq [Start, Lit [0xFA, 0x6E,
      0x6F]]), Regex True (Seq [Start, Lit [0x62, 0x159, 0x65]]), Regex True (Seq [Start, Lit (js
      ''dub'')]), Regex True (Seq [Start, Lit [0x6B, 0x76, 0x11B]]), Regex True (Seq [Start, Alt
      [Lit [0x10D, 0x76, 0x6E], Seq [Lit ([0x10D] @ js ''erven''), End], Lit ([0x10D] @ js
      ''ervna'')]]), Regex True (Seq [Start, Alt [Lit [0x10D, 0x76, 0x63], Lit ([0x10D] @ js
      ''ervenec''), Lit ([0x10D] @ js ''ervence'')]]), Regex True (Seq [Start, Lit (js ''srp'')]),
      Regex True (Seq [Start, Lit [0x7A, 0xE1, 0x159]]), Regex True (Seq [Start, Lit [0x159, 0xED,
      0x6A]]), Regex True (Seq [Start, Lit (js ''lis'')]), Regex True (Seq [Start, Lit (js
      ''pro'')])]"

definition locale_cs :: moment_locale where
  "locale_cs = \<lparr>
     l_abbr = ''cs'',
     l_months = Names [js ''leden'', [0xFA, 0x6E, 0x6F, 0x72], [0x62, 0x159] @ js ''ezen'', js
         ''duben'', [0x6B, 0x76, 0x11B, 0x74, 0x65, 0x6E], [0x10D] @ js ''erven'', [0x10D] @ js
         ''ervenec'', js ''srpen'', [0x7A, 0xE1, 0x159, 0xED], [0x159, 0xED, 0x6A, 0x65, 0x6E], js
         ''listopad'', js ''prosinec''],
     l_months_short = Names [js ''led'', [0xFA, 0x6E, 0x6F], [0x62, 0x159, 0x65], js ''dub'', [0x6B,
         0x76, 0x11B], [0x10D, 0x76, 0x6E], [0x10D, 0x76, 0x63], js ''srp'', [0x7A, 0xE1, 0x159],
         [0x159, 0xED, 0x6A], js ''lis'', js ''pro''],
     l_weekdays = Names [[0x6E, 0x65, 0x64, 0x11B, 0x6C, 0x65], js ''pond'' @ [0x11B, 0x6C, 0xED],
         [0xFA, 0x74, 0x65, 0x72, 0xFD], [0x73, 0x74, 0x159, 0x65, 0x64, 0x61], [0x10D] @ js
         ''tvrtek'', [0x70, 0xE1, 0x74, 0x65, 0x6B], js ''sobota''],
     l_weekdays_short = [js ''ne'', js ''po'', [0xFA, 0x74], js ''st'', [0x10D, 0x74], [0x70, 0xE1],
         js ''so''],
     l_weekdays_min = [js ''ne'', js ''po'', [0xFA, 0x74], js ''st'', [0x10D, 0x74], [0x70, 0xE1],
         js ''so''],
     l_long_date_format = [(''LT'', js ''H:mm''),
       (''LTS'', js ''H:mm:ss''),
       (''L'', js ''DD.MM.YYYY''),
       (''LL'', js ''D. MMMM YYYY''),
       (''LLL'', js ''D. MMMM YYYY H:mm''),
       (''LLLL'', js ''dddd D. MMMM YYYY H:mm''),
       (''l'', js ''D. M. YYYY'')],
     l_calendar = [(''sameDay'', CalText (js ''[dnes v] LT'')),
       (''nextDay'', CalText ([0x5B, 0x7A, 0xED] @ js ''tra v] LT'')),
       (''nextWeek'', CalFun cs_nextWeek),
       (''lastDay'', CalText ([0x5B, 0x76, 0x10D] @ js ''era v] LT'')),
       (''lastWeek'', CalFun cs_lastWeek),
       (''sameElse'', CalText (js ''L''))],
     l_relative_time = [(''future'', RelText (js ''za %s'')),
       (''past'', RelText ([0x70, 0x159] @ js ''ed %s'')),
       (''s'', RelNum cs_rel_o),
       (''ss'', RelNum cs_rel_o),
       (''m'', RelNum cs_rel_o),
       (''mm'', RelNum cs_rel_o),
       (''h'', RelNum cs_rel_o),
       (''hh'', RelNum cs_rel_o),
       (''d'', RelNum cs_rel_o),
       (''dd'', RelNum cs_rel_o),
       (''M'', RelNum cs_rel_o),
       (''MM'', RelNum cs_rel_o),
       (''y'', RelNum cs_rel_o),
       (''yy'', RelNum cs_rel_o)],
     l_ordinal = Some (OrdText (js ''%d.'')),
     l_meridiem = None,
     l_is_pm = None,
     l_meridiem_hour = None,
     l_preparse = None,
     l_postformat = None,
     l_week = Some (1, 4),
     l_meridiem_parse = None,
     l_ordinal_parse = Some (Regex False (Seq [digits_1_2, Lit (js ''.'')])),
     l_parse = [(''monthsRegex'', cs_rx_r), (''monthsShortRegex'', cs_rx_r), (''monthsStrictRegex'',
         [Regex True (Seq [Start, Alt [Lit (js ''leden''), Lit (js ''ledna''), Lit ([0xFA] @ js
         ''nora''), Lit [0xFA, 0x6E, 0x6F, 0x72], Lit ([0x62, 0x159] @ js ''ezen''), Lit ([0x62,
         0x159] @ js ''ezna''), Lit (js ''duben''), Lit (js ''dubna''), Lit [0x6B, 0x76, 0x11B,
         0x74, 0x65, 0x6E], Lit [0x6B, 0x76, 0x11B, 0x74, 0x6E, 0x61], Lit ([0x10D] @ js
         ''ervenec''), Lit ([0x10D] @ js ''ervence''), Lit ([0x10D] @ js ''erven''), Lit ([0x10D] @
         js ''ervna''), Lit (js ''srpen''), Lit (js ''srpna''), Lit [0x7A, 0xE1, 0x159, 0xED], Lit
         [0x159, 0xED, 0x6A, 0x65, 0x6E], Lit [0x159, 0xED, 0x6A, 0x6E, 0x61], Lit (js
         ''listopadu''), Lit (js ''listopad''), Lit (js ''prosinec''), Lit (js ''prosince'')]])]),
         (''monthsShortStrictRegex'', [Regex True (Seq [Start, Alt [Lit (js ''led''), Lit [0xFA,
         0x6E, 0x6F], Lit [0x62, 0x159, 0x65], Lit (js ''dub''), Lit [0x6B, 0x76, 0x11B], Lit
         [0x10D, 0x76, 0x6E], Lit [0x10D, 0x76, 0x63], Lit (js ''srp''), Lit [0x7A, 0xE1, 0x159],
         Lit [0x159, 0xED, 0x6A], Lit (js ''lis''), Lit (js ''pro'')]])]), (''monthsParse'',
         cs_rx_i), (''longMonthsParse'', cs_rx_i), (''shortMonthsParse'', cs_rx_i)],
     l_months_parse_exact = False,
     l_weekdays_parse_exact = False,
     l_invalid_date = None,
     l_eras = [],
     l_era_year = None \<rparr>"

text \<open>\<^verbatim>\<open>cv\<close> (line 7).\<close>

definition cv_rel_future :: "js \<Rightarrow> js option" where
  "cv_rel_future s = 
     Some (s @ (if js_ends_with [0x441, 0x435, 0x445, 0x435, 0x442] (js_lower s) then [0x440, 0x435,
         0x43D]
               
      else if js_ends_with [0x4AB, 0x443, 0x43B] (js_lower s) then [0x442, 0x430, 0x43D]
      else [0x440, 0x430, 0x43D]))"

definition locale_cv :: moment_locale where
  "locale_cv = \<lparr>
     l_abbr = ''cv'',
     l_months = Names [[0x43A, 0x4D1, 0x440, 0x43B, 0x430, 0x447], [0x43D, 0x430, 0x440, 0x4D1,
         0x441], [0x43F, 0x443, 0x448], [0x430, 0x43A, 0x430], [0x43C, 0x430, 0x439], [0x4AB, 0x4D7,
         0x440, 0x442, 0x43C, 0x435], [0x443, 0x442, 0x4D1], [0x4AB, 0x443, 0x440, 0x43B, 0x430],
         [0x430, 0x432, 0x4D1, 0x43D], [0x44E, 0x43F, 0x430], [0x447, 0x4F3, 0x43A], [0x440, 0x430,
         0x448, 0x442, 0x430, 0x432]],
     l_months_short = Names [[0x43A, 0x4D1, 0x440], [0x43D, 0x430, 0x440], [0x43F, 0x443, 0x448],
         [0x430, 0x43A, 0x430], [0x43C, 0x430, 0x439], [0x4AB, 0x4D7, 0x440], [0x443, 0x442, 0x4D1],
         [0x4AB, 0x443, 0x440], [0x430, 0x432, 0x43D], [0x44E, 0x43F, 0x430], [0x447, 0x4F3, 0x43A],
         [0x440, 0x430, 0x448]],
     l_weekdays = Names [[0x432, 0x44B, 0x440, 0x441, 0x430, 0x440, 0x43D, 0x438, 0x43A, 0x443,
         0x43D], [0x442, 0x443, 0x43D, 0x442, 0x438, 0x43A, 0x443, 0x43D], [0x44B, 0x442, 0x43B,
         0x430, 0x440, 0x438, 0x43A, 0x443, 0x43D], [0x44E, 0x43D, 0x43A, 0x443, 0x43D], [0x43A,
         0x4D7, 0x4AB, 0x43D, 0x435, 0x440, 0x43D, 0x438, 0x43A, 0x443, 0x43D], [0x44D, 0x440,
         0x43D, 0x435, 0x43A, 0x443, 0x43D], [0x448, 0x4D1, 0x43C, 0x430, 0x442, 0x43A, 0x443,
         0x43D]],
     l_weekdays_short = [[0x432, 0x44B, 0x440], [0x442, 0x443, 0x43D], [0x44B, 0x442, 0x43B],
         [0x44E, 0x43D], [0x43A, 0x4D7, 0x4AB], [0x44D, 0x440, 0x43D], [0x448, 0x4D1, 0x43C]],
     l_weekdays_min = [[0x432, 0x440], [0x442, 0x43D], [0x44B, 0x442], [0x44E, 0x43D], [0x43A,
         0x4AB], [0x44D, 0x440], [0x448, 0x43C]],
     l_long_date_format = [(''LT'', js ''HH:mm''),
       (''LTS'', js ''HH:mm:ss''),
       (''L'', js ''DD-MM-YYYY''),
       (''LL'', js ''YYYY ['' @ [0x4AB, 0x443, 0x43B, 0x445, 0x438] @ js ''] MMMM ['' @ [0x443,
           0x439, 0x4D1, 0x445, 0x4D7, 0x43D] @ js ''] D[-'' @ [0x43C, 0x4D7, 0x448, 0x4D7, 0x5D]),
       (''LLL'', js ''YYYY ['' @ [0x4AB, 0x443, 0x43B, 0x445, 0x438] @ js ''] MMMM ['' @ [0x443,
           0x439, 0x4D1, 0x445, 0x4D7, 0x43D] @ js ''] D[-'' @ [0x43C, 0x4D7, 0x448, 0x4D7] @ js
           ''], HH:mm''),
       (''LLLL'', js ''dddd, YYYY ['' @ [0x4AB, 0x443, 0x43B, 0x445, 0x438] @ js ''] MMMM ['' @
           [0x443, 0x439, 0x4D1, 0x445, 0x4D7, 0x43D] @ js ''] D[-'' @ [0x43C, 0x4D7, 0x448, 0x4D7]
           @ js ''], HH:mm'')],
     l_calendar = [(''sameDay'', CalText ([0x5B, 0x41F, 0x430, 0x44F, 0x43D] @ js ''] LT ['' @
         [0x441, 0x435, 0x445, 0x435, 0x442, 0x440, 0x435, 0x5D])),
       (''nextDay'', CalText ([0x5B, 0x42B, 0x440, 0x430, 0x43D] @ js ''] LT ['' @ [0x441, 0x435,
           0x445, 0x435, 0x442, 0x440, 0x435, 0x5D])),
       (''lastDay'', CalText ([0x5B, 0x4D6, 0x43D, 0x435, 0x440] @ js ''] LT ['' @ [0x441, 0x435,
           0x445, 0x435, 0x442, 0x440, 0x435, 0x5D])),
       (''nextWeek'', CalText ([0x5B, 0x4AA, 0x438, 0x442, 0x435, 0x441] @ js ''] dddd LT ['' @
           [0x441, 0x435, 0x445, 0x435, 0x442, 0x440, 0x435, 0x5D])),
       (''lastWeek'', CalText ([0x5B, 0x418, 0x440, 0x442, 0x43D, 0x4D7] @ js ''] dddd LT ['' @
           [0x441, 0x435, 0x445, 0x435, 0x442, 0x440, 0x435, 0x5D])),
       (''sameElse'', CalText (js ''L''))],
     l_relative_time = [(''future'', RelStr cv_rel_future),
       (''past'', RelText [0x25, 0x73, 0x20, 0x43A, 0x430, 0x44F, 0x43B, 0x43B, 0x430]),
       (''s'', RelText [0x43F, 0x4D7, 0x440, 0x2D, 0x438, 0x43A, 0x20, 0x4AB, 0x435, 0x43A, 0x43A,
           0x443, 0x43D, 0x442]),
       (''ss'', RelText [0x25, 0x64, 0x20, 0x4AB, 0x435, 0x43A, 0x43A, 0x443, 0x43D, 0x442]),
       (''m'', RelText [0x43F, 0x4D7, 0x440, 0x20, 0x43C, 0x438, 0x43D, 0x443, 0x442]),
       (''mm'', RelText [0x25, 0x64, 0x20, 0x43C, 0x438, 0x43D, 0x443, 0x442]),
       (''h'', RelText [0x43F, 0x4D7, 0x440, 0x20, 0x441, 0x435, 0x445, 0x435, 0x442]),
       (''hh'', RelText [0x25, 0x64, 0x20, 0x441, 0x435, 0x445, 0x435, 0x442]),
       (''d'', RelText [0x43F, 0x4D7, 0x440, 0x20, 0x43A, 0x443, 0x43D]),
       (''dd'', RelText [0x25, 0x64, 0x20, 0x43A, 0x443, 0x43D]),
       (''M'', RelText [0x43F, 0x4D7, 0x440, 0x20, 0x443, 0x439, 0x4D1, 0x445]),
       (''MM'', RelText [0x25, 0x64, 0x20, 0x443, 0x439, 0x4D1, 0x445]),
       (''y'', RelText [0x43F, 0x4D7, 0x440, 0x20, 0x4AB, 0x443, 0x43B]),
       (''yy'', RelText [0x25, 0x64, 0x20, 0x4AB, 0x443, 0x43B])],
     l_ordinal = Some (OrdText [0x25, 0x64, 0x2D, 0x43C, 0x4D7, 0x448]),
     l_meridiem = None,
     l_is_pm = None,
     l_meridiem_hour = None,
     l_preparse = None,
     l_postformat = None,
     l_week = Some (1, 7),
     l_meridiem_parse = None,
     l_ordinal_parse = Some (Regex False (Seq [digits_1_2, Lit [0x2D, 0x43C, 0x4D7, 0x448]])),
     l_parse = [],
     l_months_parse_exact = False,
     l_weekdays_parse_exact = False,
     l_invalid_date = None,
     l_eras = [],
     l_era_year = None \<rparr>"

text \<open>\<^verbatim>\<open>cy\<close> (line 249).\<close>

definition cy_ordinal :: "nat \<Rightarrow> string \<Rightarrow> js option" where
  "cy_ordinal n period = 
     map_option (\<lambda>x. jnum n @ x)
       (if n > 20 then Some (if n = 40 \<or> n = 50 \<or> n = 60 \<or> n = 80 \<or> n = 100 then (js
           ''fed'')
      else (js ''ain''))
       
      else if n > 0 then js_nth [[], (js ''af''), (js ''il''), (js ''ydd''), (js ''ydd''), (js
          ''ed''), (js ''ed''), (js ''ed''), (js ''fed''), (js ''fed''), (js ''fed''), (js ''eg''),
          (js ''fed''), (js ''eg''), (js ''eg''), (js ''fed''), (js ''eg''), (js ''eg''), (js
              ''fed''), (js ''eg''), (js ''fed'')] n
      else Some [])"

definition locale_cy :: moment_locale where
  "locale_cy = \<lparr>
     l_abbr = ''cy'',
     l_months = Names [js ''Ionawr'', js ''Chwefror'', js ''Mawrth'', js ''Ebrill'', js ''Mai'', js
         ''Mehefin'', js ''Gorffennaf'', js ''Awst'', js ''Medi'', js ''Hydref'', js ''Tachwedd'',
         js ''Rhagfyr''],
     l_months_short = Names [js ''Ion'', js ''Chwe'', js ''Maw'', js ''Ebr'', js ''Mai'', js
         ''Meh'', js ''Gor'', js ''Aws'', js ''Med'', js ''Hyd'', js ''Tach'', js ''Rhag''],
     l_weekdays = Names [js ''Dydd Sul'', js ''Dydd Llun'', js ''Dydd Mawrth'', js ''Dydd Mercher'',
         js ''Dydd Iau'', js ''Dydd Gwener'', js ''Dydd Sadwrn''],
     l_weekdays_short = [js ''Sul'', js ''Llun'', js ''Maw'', js ''Mer'', js ''Iau'', js ''Gwe'', js
         ''Sad''],
     l_weekdays_min = [js ''Su'', js ''Ll'', js ''Ma'', js ''Me'', js ''Ia'', js ''Gw'', js ''Sa''],
     l_long_date_format = [(''LT'', js ''HH:mm''),
       (''LTS'', js ''HH:mm:ss''),
       (''L'', js ''DD/MM/YYYY''),
       (''LL'', js ''D MMMM YYYY''),
       (''LLL'', js ''D MMMM YYYY HH:mm''),
       (''LLLL'', js ''dddd, D MMMM YYYY HH:mm'')],
     l_calendar = [(''sameDay'', CalText (js ''[Heddiw am] LT'')),
       (''nextDay'', CalText (js ''[Yfory am] LT'')),
       (''nextWeek'', CalText (js ''dddd [am] LT'')),
       (''lastDay'', CalText (js ''[Ddoe am] LT'')),
       (''lastWeek'', CalText (js ''dddd [diwethaf am] LT'')),
       (''sameElse'', CalText (js ''L''))],
     l_relative_time = [(''future'', RelText (js ''mewn %s'')),
       (''past'', RelText (js ''%s yn '' @ [0xF4, 0x6C])),
       (''s'', RelText (js ''ychydig eiliadau'')),
       (''ss'', RelText (js ''%d eiliad'')),
       (''m'', RelText (js ''munud'')),
       (''mm'', RelText (js ''%d munud'')),
       (''h'', RelText (js ''awr'')),
       (''hh'', RelText (js ''%d awr'')),
       (''d'', RelText (js ''diwrnod'')),
       (''dd'', RelText (js ''%d diwrnod'')),
       (''M'', RelText (js ''mis'')),
       (''MM'', RelText (js ''%d mis'')),
       (''y'', RelText (js ''blwyddyn'')),
       (''yy'', RelText (js ''%d flynedd''))],
     l_ordinal = Some (OrdFun cy_ordinal),
     l_meridiem = None,
     l_is_pm = None,
     l_meridiem_hour = None,
     l_preparse = None,
     l_postformat = None,
     l_week = Some (1, 4),
     l_meridiem_parse = None,
     l_ordinal_parse = Some (Regex False (Seq [digits_1_2, Alt [Lit (js ''fed''), Lit (js ''ain''),
         Lit (js ''af''), Lit (js ''il''), Lit (js ''ydd''), Lit (js ''ed''), Lit (js ''eg'')]])),
     l_parse = [],
     l_months_parse_exact = False,
     l_weekdays_parse_exact = True,
     l_invalid_date = None,
     l_eras = [],
     l_era_year = None \<rparr>"

text \<open>\<^verbatim>\<open>da\<close> (line 27).\<close>

definition locale_da :: moment_locale where
  "locale_da = \<lparr>
     l_abbr = ''da'',
     l_months = Names [js ''januar'', js ''februar'', js ''marts'', js ''april'', js ''maj'', js
         ''juni'', js ''juli'', js ''august'', js ''september'', js ''oktober'', js ''november'', js
         ''december''],
     l_months_short = Names [js ''jan'', js ''feb'', js ''mar'', js ''apr'', js ''maj'', js ''jun'',
         js ''jul'', js ''aug'', js ''sep'', js ''okt'', js ''nov'', js ''dec''],
     l_weekdays = Names [[0x73, 0xF8] @ js ''ndag'', js ''mandag'', js ''tirsdag'', js ''onsdag'',
         js ''torsdag'', js ''fredag'', [0x6C, 0xF8] @ js ''rdag''],
     l_weekdays_short = [[0x73, 0xF8, 0x6E], js ''man'', js ''tir'', js ''ons'', js ''tor'', js
         ''fre'', [0x6C, 0xF8, 0x72]],
     l_weekdays_min = [[0x73, 0xF8], js ''ma'', js ''ti'', js ''on'', js ''to'', js ''fr'', [0x6C,
         0xF8]],
     l_long_date_format = [(''LT'', js ''HH:mm''),
       (''LTS'', js ''HH:mm:ss''),
       (''L'', js ''DD.MM.YYYY''),
       (''LL'', js ''D. MMMM YYYY''),
       (''LLL'', js ''D. MMMM YYYY HH:mm''),
       (''LLLL'', js ''dddd [d.] D. MMMM YYYY [kl.] HH:mm'')],
     l_calendar = [(''sameDay'', CalText (js ''[i dag kl.] LT'')),
       (''nextDay'', CalText (js ''[i morgen kl.] LT'')),
       (''nextWeek'', CalText ([0x70, 0xE5] @ js '' dddd [kl.] LT'')),
       (''lastDay'', CalText (js ''[i g'' @ [0xE5] @ js ''r kl.] LT'')),
       (''lastWeek'', CalText (js ''[i] dddd[s kl.] LT'')),
       (''sameElse'', CalText (js ''L''))],
     l_relative_time = [(''future'', RelText (js ''om %s'')),
       (''past'', RelText (js ''%s siden'')),
       (''s'', RelText ([0x66, 0xE5] @ js '' sekunder'')),
       (''ss'', RelText (js ''%d sekunder'')),
       (''m'', RelText (js ''et minut'')),
       (''mm'', RelText (js ''%d minutter'')),
       (''h'', RelText (js ''en time'')),
       (''hh'', RelText (js ''%d timer'')),
       (''d'', RelText (js ''en dag'')),
       (''dd'', RelText (js ''%d dage'')),
       (''M'', RelText (js ''en m'' @ [0xE5, 0x6E, 0x65, 0x64])),
       (''MM'', RelText (js ''%d m'' @ [0xE5] @ js ''neder'')),
       (''y'', RelText [0x65, 0x74, 0x20, 0xE5, 0x72]),
       (''yy'', RelText [0x25, 0x64, 0x20, 0xE5, 0x72])],
     l_ordinal = Some (OrdText (js ''%d.'')),
     l_meridiem = None,
     l_is_pm = None,
     l_meridiem_hour = None,
     l_preparse = None,
     l_postformat = None,
     l_week = Some (1, 4),
     l_meridiem_parse = None,
     l_ordinal_parse = Some (Regex False (Seq [digits_1_2, Lit (js ''.'')])),
     l_parse = [],
     l_months_parse_exact = False,
     l_weekdays_parse_exact = False,
     l_invalid_date = None,
     l_eras = [],
     l_era_year = None \<rparr>"

text \<open>\<^verbatim>\<open>de\<close> (line 265).\<close>

definition de_rel_t :: "nat \<Rightarrow> bool \<Rightarrow> string \<Rightarrow> bool \<Rightarrow>
    js option" where
  "de_rel_t number withoutSuffix key isFuture = (if withoutSuffix then Option.bind (map_of [(''m'',
      [js ''eine Minute'', js ''einer Minute'']), (''h'', [js ''eine Stunde'', js
      ''einer Stunde'']), (''d'', [js ''ein Tag'', js ''einem Tag'']), (''dd'', [jnum number @ js
      '' Tage'', jnum number @ js '' Tagen'']), (''w'', [js ''eine Woche'', js ''einer Woche'']),
      (''M'', [js ''ein Monat'', js ''einem Monat'']), (''MM'', [jnum number @ js '' Monate'', jnum
      number @ js '' Monaten'']), (''y'', [js ''ein Jahr'', js ''einem Jahr'']), (''yy'', [jnum
      number @ js '' Jahre'', jnum number @ js '' Jahren''])] key) (\<lambda>xs. js_nth xs 0)
      else Option.bind (map_of [(''m'', [js ''eine Minute'', js ''einer Minute'']), (''h'', [js
          ''eine Stunde'', js ''einer Stunde'']), (''d'', [js ''ein Tag'', js ''einem Tag'']),
          (''dd'', [jnum number @ js '' Tage'', jnum number @ js '' Tagen'']), (''w'', [js
          ''eine Woche'', js ''einer Woche'']), (''M'', [js ''ein Monat'', js ''einem Monat'']),
          (''MM'', [jnum number @ js '' Monate'', jnum number @ js '' Monaten'']), (''y'', [js
          ''ein Jahr'', js ''einem Jahr'']), (''yy'', [jnum number @ js '' Jahre'', jnum number @ js
          '' Jahren''])] key) (\<lambda>xs. js_nth xs 1))"

definition locale_de :: moment_locale where
  "locale_de = \<lparr>
     l_abbr = ''de'',
     l_months = Names [js ''Januar'', js ''Februar'', [0x4D, 0xE4, 0x72, 0x7A], js ''April'', js
         ''Mai'', js ''Juni'', js ''Juli'', js ''August'', js ''September'', js ''Oktober'', js
         ''November'', js ''Dezember''],
     l_months_short = Names [js ''Jan.'', js ''Feb.'', [0x4D, 0xE4, 0x72, 0x7A], js ''Apr.'', js
         ''Mai'', js ''Juni'', js ''Juli'', js ''Aug.'', js ''Sep.'', js ''Okt.'', js ''Nov.'', js
         ''Dez.''],
     l_weekdays = Names [js ''Sonntag'', js ''Montag'', js ''Dienstag'', js ''Mittwoch'', js
         ''Donnerstag'', js ''Freitag'', js ''Samstag''],
     l_weekdays_short = [js ''So.'', js ''Mo.'', js ''Di.'', js ''Mi.'', js ''Do.'', js ''Fr.'', js
         ''Sa.''],
     l_weekdays_min = [js ''So'', js ''Mo'', js ''Di'', js ''Mi'', js ''Do'', js ''Fr'', js ''Sa''],
     l_long_date_format = [(''LT'', js ''HH:mm''),
       (''LTS'', js ''HH:mm:ss''),
       (''L'', js ''DD.MM.YYYY''),
       (''LL'', js ''D. MMMM YYYY''),
       (''LLL'', js ''D. MMMM YYYY HH:mm''),
       (''LLLL'', js ''dddd, D. MMMM YYYY HH:mm'')],
     l_calendar = [(''sameDay'', CalText (js ''[heute um] LT [Uhr]'')),
       (''sameElse'', CalText (js ''L'')),
       (''nextDay'', CalText (js ''[morgen um] LT [Uhr]'')),
       (''nextWeek'', CalText (js ''dddd [um] LT [Uhr]'')),
       (''lastDay'', CalText (js ''[gestern um] LT [Uhr]'')),
       (''lastWeek'', CalText (js ''[letzten] dddd [um] LT [Uhr]''))],
     l_relative_time = [(''future'', RelText (js ''in %s'')),
       (''past'', RelText (js ''vor %s'')),
       (''s'', RelText (js ''ein paar Sekunden'')),
       (''ss'', RelText (js ''%d Sekunden'')),
       (''m'', RelNum de_rel_t),
       (''mm'', RelText (js ''%d Minuten'')),
       (''h'', RelNum de_rel_t),
       (''hh'', RelText (js ''%d Stunden'')),
       (''d'', RelNum de_rel_t),
       (''dd'', RelNum de_rel_t),
       (''w'', RelNum de_rel_t),
       (''ww'', RelText (js ''%d Wochen'')),
       (''M'', RelNum de_rel_t),
       (''MM'', RelNum de_rel_t),
       (''y'', RelNum de_rel_t),
       (''yy'', RelNum de_rel_t)],
     l_ordinal = Some (OrdText (js ''%d.'')),
     l_meridiem = None,
     l_is_pm = None,
     l_meridiem_hour = None,
     l_preparse = None,
     l_postformat = None,
     l_week = Some (1, 4),
     l_meridiem_parse = None,
     l_ordinal_parse = Some (Regex False (Seq [digits_1_2, Lit (js ''.'')])),
     l_parse = [],
     l_months_parse_exact = True,
     l_weekdays_parse_exact = True,
     l_invalid_date = None,
     l_eras = [],
     l_era_year = None \<rparr>"

text \<open>\<^verbatim>\<open>de-at\<close> (line 263).\<close>

definition de_at_rel_t :: "nat \<Rightarrow> bool \<Rightarrow> string \<Rightarrow> bool
    \<Rightarrow> js option" where
  "de_at_rel_t number withoutSuffix key isFuture = (if withoutSuffix then Option.bind (map_of
      [(''m'', [js ''eine Minute'', js ''einer Minute'']), (''h'', [js ''eine Stunde'', js
      ''einer Stunde'']), (''d'', [js ''ein Tag'', js ''einem Tag'']), (''dd'', [jnum number @ js
      '' Tage'', jnum number @ js '' Tagen'']), (''w'', [js ''eine Woche'', js ''einer Woche'']),
      (''M'', [js ''ein Monat'', js ''einem Monat'']), (''MM'', [jnum number @ js '' Monate'', jnum
      number @ js '' Monaten'']), (''y'', [js ''ein Jahr'', js ''einem Jahr'']), (''yy'', [jnum
      number @ js '' Jahre'', jnum number @ js '' Jahren''])] key) (\<lambda>xs. js_nth xs 0)
      else Option.bind (map_of [(''m'', [js ''eine Minute'', js ''einer Minute'']), (''h'', [js
          ''eine Stunde'', js ''einer Stunde'']), (''d'', [js ''ein Tag'', js ''einem Tag'']),
          (''dd'', [jnum number @ js '' Tage'', jnum number @ js '' Tagen'']), (''w'', [js
          ''eine Woche'', js ''einer Woche'']), (''M'', [js ''ein Monat'', js ''einem Monat'']),
          (''MM'', [jnum number @ js '' Monate'', jnum number @ js '' Monaten'']), (''y'', [js
          ''ein Jahr'', js ''einem Jahr'']), (''yy'', [jnum number @ js '' Jahre'', jnum number @ js
          '' Jahren''])] key) (\<lambda>xs. js_nth xs 1))"

definition locale_de_at :: moment_locale where
  "locale_de_at = \<lparr>
     l_abbr = ''de-at'',
     l_months = Names [[0x4A, 0xE4] @ js ''nner'', js ''Februar'', [0x4D, 0xE4, 0x72, 0x7A], js
         ''April'', js ''Mai'', js ''Juni'', js ''Juli'', js ''August'', js ''September'', js
         ''Oktober'', js ''November'', js ''Dezember''],
     l_months_short = Names [[0x4A, 0xE4, 0x6E, 0x2E], js ''Feb.'', [0x4D, 0xE4, 0x72, 0x7A], js
         ''Apr.'', js ''Mai'', js ''Juni'', js ''Juli'', js ''Aug.'', js ''Sep.'', js ''Okt.'', js
         ''Nov.'', js ''Dez.''],
     l_weekdays = Names [js ''Sonntag'', js ''Montag'', js ''Dienstag'', js ''Mittwoch'', js
         ''Donnerstag'', js ''Freitag'', js ''Samstag''],
     l_weekdays_short = [js ''So.'', js ''Mo.'', js ''Di.'', js ''Mi.'', js ''Do.'', js ''Fr.'', js
         ''Sa.''],
     l_weekdays_min = [js ''So'', js ''Mo'', js ''Di'', js ''Mi'', js ''Do'', js ''Fr'', js ''Sa''],
     l_long_date_format = [(''LT'', js ''HH:mm''),
       (''LTS'', js ''HH:mm:ss''),
       (''L'', js ''DD.MM.YYYY''),
       (''LL'', js ''D. MMMM YYYY''),
       (''LLL'', js ''D. MMMM YYYY HH:mm''),
       (''LLLL'', js ''dddd, D. MMMM YYYY HH:mm'')],
     l_calendar = [(''sameDay'', CalText (js ''[heute um] LT [Uhr]'')),
       (''sameElse'', CalText (js ''L'')),
       (''nextDay'', CalText (js ''[morgen um] LT [Uhr]'')),
       (''nextWeek'', CalText (js ''dddd [um] LT [Uhr]'')),
       (''lastDay'', CalText (js ''[gestern um] LT [Uhr]'')),
       (''lastWeek'', CalText (js ''[letzten] dddd [um] LT [Uhr]''))],
     l_relative_time = [(''future'', RelText (js ''in %s'')),
       (''past'', RelText (js ''vor %s'')),
       (''s'', RelText (js ''ein paar Sekunden'')),
       (''ss'', RelText (js ''%d Sekunden'')),
       (''m'', RelNum de_at_rel_t),
       (''mm'', RelText (js ''%d Minuten'')),
       (''h'', RelNum de_at_rel_t),
       (''hh'', RelText (js ''%d Stunden'')),
       (''d'', RelNum de_at_rel_t),
       (''dd'', RelNum de_at_rel_t),
       (''w'', RelNum de_at_rel_t),
       (''ww'', RelText (js ''%d Wochen'')),
       (''M'', RelNum de_at_rel_t),
       (''MM'', RelNum de_at_rel_t),
       (''y'', RelNum de_at_rel_t),
       (''yy'', RelNum de_at_rel_t)],
     l_ordinal = Some (OrdText (js ''%d.'')),
     l_meridiem = None,
     l_is_pm = None,
     l_meridiem_hour = None,
     l_preparse = None,
     l_postformat = None,
     l_week = Some (1, 4),
     l_meridiem_parse = None,
     l_ordinal_parse = Some (Regex False (Seq [digits_1_2, Lit (js ''.'')])),
     l_parse = [],
     l_months_parse_exact = True,
     l_weekdays_parse_exact = True,
     l_invalid_date = None,
     l_eras = [],
     l_era_year = None \<rparr>"

text \<open>\<^verbatim>\<open>de-ch\<close> (line 286).\<close>

definition de_ch_rel_t :: "nat \<Rightarrow> bool \<Rightarrow> string \<Rightarrow> bool
    \<Rightarrow> js option" where
  "de_ch_rel_t number withoutSuffix key isFuture = (if withoutSuffix then Option.bind (map_of
      [(''m'', [js ''eine Minute'', js ''einer Minute'']), (''h'', [js ''eine Stunde'', js
      ''einer Stunde'']), (''d'', [js ''ein Tag'', js ''einem Tag'']), (''dd'', [jnum number @ js
      '' Tage'', jnum number @ js '' Tagen'']), (''w'', [js ''eine Woche'', js ''einer Woche'']),
      (''M'', [js ''ein Monat'', js ''einem Monat'']), (''MM'', [jnum number @ js '' Monate'', jnum
      number @ js '' Monaten'']), (''y'', [js ''ein Jahr'', js ''einem Jahr'']), (''yy'', [jnum
      number @ js '' Jahre'', jnum number @ js '' Jahren''])] key) (\<lambda>xs. js_nth xs 0)
      else Option.bind (map_of [(''m'', [js ''eine Minute'', js ''einer Minute'']), (''h'', [js
          ''eine Stunde'', js ''einer Stunde'']), (''d'', [js ''ein Tag'', js ''einem Tag'']),
          (''dd'', [jnum number @ js '' Tage'', jnum number @ js '' Tagen'']), (''w'', [js
          ''eine Woche'', js ''einer Woche'']), (''M'', [js ''ein Monat'', js ''einem Monat'']),
          (''MM'', [jnum number @ js '' Monate'', jnum number @ js '' Monaten'']), (''y'', [js
          ''ein Jahr'', js ''einem Jahr'']), (''yy'', [jnum number @ js '' Jahre'', jnum number @ js
          '' Jahren''])] key) (\<lambda>xs. js_nth xs 1))"

definition locale_de_ch :: moment_locale where
  "locale_de_ch = \<lparr>
     l_abbr = ''de-ch'',
     l_months = Names [js ''Januar'', js ''Februar'', [0x4D, 0xE4, 0x72, 0x7A], js ''April'', js
         ''Mai'', js ''Juni'', js ''Juli'', js ''August'', js ''September'', js ''Oktober'', js
         ''November'', js ''Dezember''],
     l_months_short = Names [js ''Jan.'', js ''Feb.'', [0x4D, 0xE4, 0x72, 0x7A], js ''Apr.'', js
         ''Mai'', js ''Juni'', js ''Juli'', js ''Aug.'', js ''Sep.'', js ''Okt.'', js ''Nov.'', js
         ''Dez.''],
     l_weekdays = Names [js ''Sonntag'', js ''Montag'', js ''Dienstag'', js ''Mittwoch'', js
         ''Donnerstag'', js ''Freitag'', js ''Samstag''],
     l_weekdays_short = [js ''So'', js ''Mo'', js ''Di'', js ''Mi'', js ''Do'', js ''Fr'', js
         ''Sa''],
     l_weekdays_min = [js ''So'', js ''Mo'', js ''Di'', js ''Mi'', js ''Do'', js ''Fr'', js ''Sa''],
     l_long_date_format = [(''LT'', js ''HH:mm''),
       (''LTS'', js ''HH:mm:ss''),
       (''L'', js ''DD.MM.YYYY''),
       (''LL'', js ''D. MMMM YYYY''),
       (''LLL'', js ''D. MMMM YYYY HH:mm''),
       (''LLLL'', js ''dddd, D. MMMM YYYY HH:mm'')],
     l_calendar = [(''sameDay'', CalText (js ''[heute um] LT [Uhr]'')),
       (''sameElse'', CalText (js ''L'')),
       (''nextDay'', CalText (js ''[morgen um] LT [Uhr]'')),
       (''nextWeek'', CalText (js ''dddd [um] LT [Uhr]'')),
       (''lastDay'', CalText (js ''[gestern um] LT [Uhr]'')),
       (''lastWeek'', CalText (js ''[letzten] dddd [um] LT [Uhr]''))],
     l_relative_time = [(''future'', RelText (js ''in %s'')),
       (''past'', RelText (js ''vor %s'')),
       (''s'', RelText (js ''ein paar Sekunden'')),
       (''ss'', RelText (js ''%d Sekunden'')),
       (''m'', RelNum de_ch_rel_t),
       (''mm'', RelText (js ''%d Minuten'')),
       (''h'', RelNum de_ch_rel_t),
       (''hh'', RelText (js ''%d Stunden'')),
       (''d'', RelNum de_ch_rel_t),
       (''dd'', RelNum de_ch_rel_t),
       (''w'', RelNum de_ch_rel_t),
       (''ww'', RelText (js ''%d Wochen'')),
       (''M'', RelNum de_ch_rel_t),
       (''MM'', RelNum de_ch_rel_t),
       (''y'', RelNum de_ch_rel_t),
       (''yy'', RelNum de_ch_rel_t)],
     l_ordinal = Some (OrdText (js ''%d.'')),
     l_meridiem = None,
     l_is_pm = None,
     l_meridiem_hour = None,
     l_preparse = None,
     l_postformat = None,
     l_week = Some (1, 4),
     l_meridiem_parse = None,
     l_ordinal_parse = Some (Regex False (Seq [digits_1_2, Lit (js ''.'')])),
     l_parse = [],
     l_months_parse_exact = True,
     l_weekdays_parse_exact = True,
     l_invalid_date = None,
     l_eras = [],
     l_era_year = None \<rparr>"

text \<open>\<^verbatim>\<open>dv\<close> (line 139).\<close>

definition dv_meridiem :: "nat \<Rightarrow> nat \<Rightarrow> bool \<Rightarrow> js" where
  "dv_meridiem hour minute isLower = (if hour < 12 then [0x789, 0x786] else [0x789, 0x78A])"

definition dv_isPM :: "js \<Rightarrow> bool" where
  "dv_isPM input \<longleftrightarrow> input = [0x789, 0x78A]"

definition dv_preparse :: "js \<Rightarrow> js" where
  "dv_preparse s = js_replace_unit 0x60C 0x2C s"

definition dv_postformat :: "js \<Rightarrow> js" where
  "dv_postformat s = js_replace_unit 0x2C 0x60C s"

definition locale_dv :: moment_locale where
  "locale_dv = \<lparr>
     l_abbr = ''dv'',
     l_months = Names [[0x796, 0x7AC, 0x782, 0x7AA, 0x787, 0x7A6, 0x783, 0x7A9], [0x78A, 0x7AC,
         0x784, 0x7B0, 0x783, 0x7AA, 0x787, 0x7A6, 0x783, 0x7A9], [0x789, 0x7A7, 0x783, 0x7A8,
         0x797, 0x7AA], [0x787, 0x7AD, 0x795, 0x7B0, 0x783, 0x7A9, 0x78D, 0x7AA], [0x789, 0x7AD],
         [0x796, 0x7AB, 0x782, 0x7B0], [0x796, 0x7AA, 0x78D, 0x7A6, 0x787, 0x7A8], [0x787, 0x7AF,
         0x78E, 0x7A6, 0x790, 0x7B0, 0x793, 0x7AA], [0x790, 0x7AC, 0x795, 0x7B0, 0x793, 0x7AC,
         0x789, 0x7B0, 0x784, 0x7A6, 0x783, 0x7AA], [0x787, 0x7AE, 0x786, 0x7B0, 0x793, 0x7AF,
         0x784, 0x7A6, 0x783, 0x7AA], [0x782, 0x7AE, 0x788, 0x7AC, 0x789, 0x7B0, 0x784, 0x7A6,
         0x783, 0x7AA], [0x791, 0x7A8, 0x790, 0x7AC, 0x789, 0x7B0, 0x784, 0x7A6, 0x783, 0x7AA]],
     l_months_short = Names [[0x796, 0x7AC, 0x782, 0x7AA, 0x787, 0x7A6, 0x783, 0x7A9], [0x78A,
         0x7AC, 0x784, 0x7B0, 0x783, 0x7AA, 0x787, 0x7A6, 0x783, 0x7A9], [0x789, 0x7A7, 0x783,
         0x7A8, 0x797, 0x7AA], [0x787, 0x7AD, 0x795, 0x7B0, 0x783, 0x7A9, 0x78D, 0x7AA], [0x789,
         0x7AD], [0x796, 0x7AB, 0x782, 0x7B0], [0x796, 0x7AA, 0x78D, 0x7A6, 0x787, 0x7A8], [0x787,
         0x7AF, 0x78E, 0x7A6, 0x790, 0x7B0, 0x793, 0x7AA], [0x790, 0x7AC, 0x795, 0x7B0, 0x793,
         0x7AC, 0x789, 0x7B0, 0x784, 0x7A6, 0x783, 0x7AA], [0x787, 0x7AE, 0x786, 0x7B0, 0x793,
         0x7AF, 0x784, 0x7A6, 0x783, 0x7AA], [0x782, 0x7AE, 0x788, 0x7AC, 0x789, 0x7B0, 0x784,
         0x7A6, 0x783, 0x7AA], [0x791, 0x7A8, 0x790, 0x7AC, 0x789, 0x7B0, 0x784, 0x7A6, 0x783,
         0x7AA]],
     l_weekdays = Names [[0x787, 0x7A7, 0x78B, 0x7A8, 0x787, 0x7B0, 0x78C, 0x7A6], [0x780, 0x7AF,
         0x789, 0x7A6], [0x787, 0x7A6, 0x782, 0x7B0, 0x78E, 0x7A7, 0x783, 0x7A6], [0x784, 0x7AA,
         0x78B, 0x7A6], [0x784, 0x7AA, 0x783, 0x7A7, 0x790, 0x7B0, 0x78A, 0x7A6, 0x78C, 0x7A8],
         [0x780, 0x7AA, 0x786, 0x7AA, 0x783, 0x7AA], [0x780, 0x7AE, 0x782, 0x7A8, 0x780, 0x7A8,
         0x783, 0x7AA]],
     l_weekdays_short = [[0x787, 0x7A7, 0x78B, 0x7A8, 0x787, 0x7B0, 0x78C, 0x7A6], [0x780, 0x7AF,
         0x789, 0x7A6], [0x787, 0x7A6, 0x782, 0x7B0, 0x78E, 0x7A7, 0x783, 0x7A6], [0x784, 0x7AA,
         0x78B, 0x7A6], [0x784, 0x7AA, 0x783, 0x7A7, 0x790, 0x7B0, 0x78A, 0x7A6, 0x78C, 0x7A8],
         [0x780, 0x7AA, 0x786, 0x7AA, 0x783, 0x7AA], [0x780, 0x7AE, 0x782, 0x7A8, 0x780, 0x7A8,
         0x783, 0x7AA]],
     l_weekdays_min = [[0x787, 0x7A7, 0x78B, 0x7A8], [0x780, 0x7AF, 0x789, 0x7A6], [0x787, 0x7A6,
         0x782, 0x7B0], [0x784, 0x7AA, 0x78B, 0x7A6], [0x784, 0x7AA, 0x783, 0x7A7], [0x780, 0x7AA,
         0x786, 0x7AA], [0x780, 0x7AE, 0x782, 0x7A8]],
     l_long_date_format = [(''LT'', js ''HH:mm''),
       (''LTS'', js ''HH:mm:ss''),
       (''L'', js ''D/M/YYYY''),
       (''LL'', js ''D MMMM YYYY''),
       (''LLL'', js ''D MMMM YYYY HH:mm''),
       (''LLLL'', js ''dddd D MMMM YYYY HH:mm'')],
     l_calendar = [(''sameDay'', CalText ([0x5B, 0x789, 0x7A8, 0x787, 0x7A6, 0x78B, 0x7AA] @ js
         ''] LT'')),
       (''nextDay'', CalText ([0x5B, 0x789, 0x7A7, 0x78B, 0x7A6, 0x789, 0x7A7] @ js ''] LT'')),
       (''nextWeek'', CalText (js ''dddd LT'')),
       (''lastDay'', CalText ([0x5B, 0x787, 0x7A8, 0x787, 0x7B0, 0x794, 0x7AC] @ js ''] LT'')),
       (''lastWeek'', CalText ([0x5B, 0x78A, 0x7A7, 0x787, 0x7A8, 0x78C, 0x7AA, 0x788, 0x7A8] @ js
           ''] dddd LT'')),
       (''sameElse'', CalText (js ''L''))],
     l_relative_time = [(''future'', RelText [0x78C, 0x7AC, 0x783, 0x7AD, 0x78E, 0x7A6, 0x787,
         0x7A8, 0x20, 0x25, 0x73]),
       (''past'', RelText [0x786, 0x7AA, 0x783, 0x7A8, 0x782, 0x7B0, 0x20, 0x25, 0x73]),
       (''s'', RelText [0x790, 0x7A8, 0x786, 0x7AA, 0x782, 0x7B0, 0x78C, 0x7AA, 0x786, 0x7AE, 0x785,
           0x7AC, 0x787, 0x7B0]),
       (''ss'', RelText [0x64, 0x25, 0x20, 0x790, 0x7A8, 0x786, 0x7AA, 0x782, 0x7B0, 0x78C, 0x7AA]),
       (''m'', RelText [0x789, 0x7A8, 0x782, 0x7A8, 0x793, 0x7AC, 0x787, 0x7B0]),
       (''mm'', RelText [0x789, 0x7A8, 0x782, 0x7A8, 0x793, 0x7AA, 0x20, 0x25, 0x64]),
       (''h'', RelText [0x78E, 0x7A6, 0x791, 0x7A8, 0x787, 0x7A8, 0x783, 0x7AC, 0x787, 0x7B0]),
       (''hh'', RelText [0x78E, 0x7A6, 0x791, 0x7A8, 0x787, 0x7A8, 0x783, 0x7AA, 0x20, 0x25, 0x64]),
       (''d'', RelText [0x78B, 0x7AA, 0x788, 0x7A6, 0x780, 0x7AC, 0x787, 0x7B0]),
       (''dd'', RelText [0x78B, 0x7AA, 0x788, 0x7A6, 0x790, 0x7B0, 0x20, 0x25, 0x64]),
       (''M'', RelText [0x789, 0x7A6, 0x780, 0x7AC, 0x787, 0x7B0]),
       (''MM'', RelText [0x789, 0x7A6, 0x790, 0x7B0, 0x20, 0x25, 0x64]),
       (''y'', RelText [0x787, 0x7A6, 0x780, 0x7A6, 0x783, 0x7AC, 0x787, 0x7B0]),
       (''yy'', RelText [0x787, 0x7A6, 0x780, 0x7A6, 0x783, 0x7AA, 0x20, 0x25, 0x64])],
     l_ordinal = None,
     l_meridiem = Some dv_meridiem,
     l_is_pm = Some dv_isPM,
     l_meridiem_hour = None,
     l_preparse = Some dv_preparse,
     l_postformat = Some dv_postformat,
     l_week = Some (7, 12),
     l_meridiem_parse = Some (Regex False (Alt [Lit [0x789, 0x786], Lit [0x789, 0x78A]])),
     l_ordinal_parse = None,
     l_parse = [],
     l_months_parse_exact = False,
     l_weekdays_parse_exact = False,
     l_invalid_date = None,
     l_eras = [],
     l_era_year = None \<rparr>"

text \<open>\<^verbatim>\<open>el\<close> (line 225).\<close>

definition el_pick :: "js \<Rightarrow> nat \<Rightarrow> nat \<Rightarrow> bool \<Rightarrow> js
    option" where
  "el_pick s day hours sameWeek = Some (js_subst_braces (if hours mod 12 = 1 then [0x3C3, 0x3C4,
      0x3B7]
      else [0x3C3, 0x3C4, 0x3B9, 0x3C2]) s)"

definition el_lastWeek :: "nat \<Rightarrow> nat \<Rightarrow> bool \<Rightarrow> js option" where
  "el_lastWeek day hours sameWeek = 
     el_pick (if day = 6 then ([0x5B, 0x3C4, 0x3BF, 0x20, 0x3C0, 0x3C1, 0x3BF, 0x3B7, 0x3B3, 0x3BF,
         0x3CD, 0x3BC, 0x3B5, 0x3BD, 0x3BF] @ js ''] dddd [{}] LT'')
      else ([0x5B, 0x3C4, 0x3B7, 0x3BD, 0x20, 0x3C0, 0x3C1, 0x3BF, 0x3B7, 0x3B3, 0x3BF, 0x3CD,
          0x3BC, 0x3B5, 0x3BD, 0x3B7] @ js ''] dddd [{}] LT'')) day hours sameWeek"

definition el_monthsNominative :: "js list" where
  "el_monthsNominative = [[0x399, 0x3B1, 0x3BD, 0x3BF, 0x3C5, 0x3AC, 0x3C1, 0x3B9, 0x3BF, 0x3C2],
      [0x3A6, 0x3B5, 0x3B2, 0x3C1, 0x3BF, 0x3C5, 0x3AC, 0x3C1, 0x3B9, 0x3BF, 0x3C2], [0x39C, 0x3AC,
      0x3C1, 0x3C4, 0x3B9, 0x3BF, 0x3C2], [0x391, 0x3C0, 0x3C1, 0x3AF, 0x3BB, 0x3B9, 0x3BF, 0x3C2],
      [0x39C, 0x3AC, 0x3B9, 0x3BF, 0x3C2], [0x399, 0x3BF, 0x3CD, 0x3BD, 0x3B9, 0x3BF, 0x3C2],
      [0x399, 0x3BF, 0x3CD, 0x3BB, 0x3B9, 0x3BF, 0x3C2], [0x391, 0x3CD, 0x3B3, 0x3BF, 0x3C5, 0x3C3,
      0x3C4, 0x3BF, 0x3C2], [0x3A3, 0x3B5, 0x3C0, 0x3C4, 0x3AD, 0x3BC, 0x3B2, 0x3C1, 0x3B9, 0x3BF,
      0x3C2], [0x39F, 0x3BA, 0x3C4, 0x3CE, 0x3B2, 0x3C1, 0x3B9, 0x3BF, 0x3C2], [0x39D, 0x3BF, 0x3AD,
      0x3BC, 0x3B2, 0x3C1, 0x3B9, 0x3BF, 0x3C2], [0x394, 0x3B5, 0x3BA, 0x3AD, 0x3BC, 0x3B2, 0x3C1,
      0x3B9, 0x3BF, 0x3C2]]"

definition el_monthsGenitive :: "js list" where
  "el_monthsGenitive = [[0x399, 0x3B1, 0x3BD, 0x3BF, 0x3C5, 0x3B1, 0x3C1, 0x3AF, 0x3BF, 0x3C5],
      [0x3A6, 0x3B5, 0x3B2, 0x3C1, 0x3BF, 0x3C5, 0x3B1, 0x3C1, 0x3AF, 0x3BF, 0x3C5], [0x39C, 0x3B1,
      0x3C1, 0x3C4, 0x3AF, 0x3BF, 0x3C5], [0x391, 0x3C0, 0x3C1, 0x3B9, 0x3BB, 0x3AF, 0x3BF, 0x3C5],
      [0x39C, 0x3B1, 0x390, 0x3BF, 0x3C5], [0x399, 0x3BF, 0x3C5, 0x3BD, 0x3AF, 0x3BF, 0x3C5],
      [0x399, 0x3BF, 0x3C5, 0x3BB, 0x3AF, 0x3BF, 0x3C5], [0x391, 0x3C5, 0x3B3, 0x3BF, 0x3CD, 0x3C3,
      0x3C4, 0x3BF, 0x3C5], [0x3A3, 0x3B5, 0x3C0, 0x3C4, 0x3B5, 0x3BC, 0x3B2, 0x3C1, 0x3AF, 0x3BF,
      0x3C5], [0x39F, 0x3BA, 0x3C4, 0x3C9, 0x3B2, 0x3C1, 0x3AF, 0x3BF, 0x3C5], [0x39D, 0x3BF, 0x3B5,
      0x3BC, 0x3B2, 0x3C1, 0x3AF, 0x3BF, 0x3C5], [0x394, 0x3B5, 0x3BA, 0x3B5, 0x3BC, 0x3B2, 0x3C1,
      0x3AF, 0x3BF, 0x3C5]]"

definition el_months :: "js \<Rightarrow> js list" where
  "el_months format =
     (if 0x44 \<in> set (js_until (js ''MMMM'') format) then el_monthsGenitive
      else el_monthsNominative)"

definition el_meridiem :: "nat \<Rightarrow> nat \<Rightarrow> bool \<Rightarrow> js" where
  "el_meridiem hour minute isLower = (if hour > 11 then (if isLower then [0x3BC, 0x3BC]
      else [0x39C, 0x39C])
      else if isLower then [0x3C0, 0x3BC]
      else [0x3A0, 0x39C])"

definition el_isPM :: "js \<Rightarrow> bool" where
  "el_isPM input \<longleftrightarrow> (js_char_at (js_lower (input @ [])) 0) = [0x3BC]"

definition locale_el :: moment_locale where
  "locale_el = \<lparr>
     l_abbr = ''el'',
     l_months = NamesFun el_monthsNominative el_months,
     l_months_short = Names [[0x399, 0x3B1, 0x3BD], [0x3A6, 0x3B5, 0x3B2], [0x39C, 0x3B1, 0x3C1],
         [0x391, 0x3C0, 0x3C1], [0x39C, 0x3B1, 0x3CA], [0x399, 0x3BF, 0x3C5, 0x3BD], [0x399, 0x3BF,
         0x3C5, 0x3BB], [0x391, 0x3C5, 0x3B3], [0x3A3, 0x3B5, 0x3C0], [0x39F, 0x3BA, 0x3C4], [0x39D,
         0x3BF, 0x3B5], [0x394, 0x3B5, 0x3BA]],
     l_weekdays = Names [[0x39A, 0x3C5, 0x3C1, 0x3B9, 0x3B1, 0x3BA, 0x3AE], [0x394, 0x3B5, 0x3C5,
         0x3C4, 0x3AD, 0x3C1, 0x3B1], [0x3A4, 0x3C1, 0x3AF, 0x3C4, 0x3B7], [0x3A4, 0x3B5, 0x3C4,
         0x3AC, 0x3C1, 0x3C4, 0x3B7], [0x3A0, 0x3AD, 0x3BC, 0x3C0, 0x3C4, 0x3B7], [0x3A0, 0x3B1,
         0x3C1, 0x3B1, 0x3C3, 0x3BA, 0x3B5, 0x3C5, 0x3AE], [0x3A3, 0x3AC, 0x3B2, 0x3B2, 0x3B1,
         0x3C4, 0x3BF]],
     l_weekdays_short = [[0x39A, 0x3C5, 0x3C1], [0x394, 0x3B5, 0x3C5], [0x3A4, 0x3C1, 0x3B9],
         [0x3A4, 0x3B5, 0x3C4], [0x3A0, 0x3B5, 0x3BC], [0x3A0, 0x3B1, 0x3C1], [0x3A3, 0x3B1,
         0x3B2]],
     l_weekdays_min = [[0x39A, 0x3C5], [0x394, 0x3B5], [0x3A4, 0x3C1], [0x3A4, 0x3B5], [0x3A0,
         0x3B5], [0x3A0, 0x3B1], [0x3A3, 0x3B1]],
     l_long_date_format = [(''LT'', js ''h:mm A''),
       (''LTS'', js ''h:mm:ss A''),
       (''L'', js ''DD/MM/YYYY''),
       (''LL'', js ''D MMMM YYYY''),
       (''LLL'', js ''D MMMM YYYY h:mm A''),
       (''LLLL'', js ''dddd, D MMMM YYYY h:mm A'')],
     l_calendar = [(''sameDay'', CalFun (el_pick ([0x5B, 0x3A3, 0x3AE, 0x3BC, 0x3B5, 0x3C1, 0x3B1] @
         js '' {}] LT''))), (''nextDay'', CalFun (el_pick ([0x5B, 0x391, 0x3CD, 0x3C1, 0x3B9, 0x3BF]
         @ js '' {}] LT''))),
       (''nextWeek'', CalFun (el_pick (js ''dddd [{}] LT''))), (''lastDay'', CalFun (el_pick ([0x5B,
           0x3A7, 0x3B8, 0x3B5, 0x3C2] @ js '' {}] LT''))),
       (''lastWeek'', CalFun el_lastWeek), (''sameElse'', CalFun (el_pick (js ''L'')))],
     l_relative_time = [(''future'', RelText [0x3C3, 0x3B5, 0x20, 0x25, 0x73]),
       (''past'', RelText [0x25, 0x73, 0x20, 0x3C0, 0x3C1, 0x3B9, 0x3BD]),
       (''s'', RelText [0x3BB, 0x3AF, 0x3B3, 0x3B1, 0x20, 0x3B4, 0x3B5, 0x3C5, 0x3C4, 0x3B5, 0x3C1,
           0x3CC, 0x3BB, 0x3B5, 0x3C0, 0x3C4, 0x3B1]),
       (''ss'', RelText [0x25, 0x64, 0x20, 0x3B4, 0x3B5, 0x3C5, 0x3C4, 0x3B5, 0x3C1, 0x3CC, 0x3BB,
           0x3B5, 0x3C0, 0x3C4, 0x3B1]),
       (''m'', RelText [0x3AD, 0x3BD, 0x3B1, 0x20, 0x3BB, 0x3B5, 0x3C0, 0x3C4, 0x3CC]),
       (''mm'', RelText [0x25, 0x64, 0x20, 0x3BB, 0x3B5, 0x3C0, 0x3C4, 0x3AC]),
       (''h'', RelText [0x3BC, 0x3AF, 0x3B1, 0x20, 0x3CE, 0x3C1, 0x3B1]),
       (''hh'', RelText [0x25, 0x64, 0x20, 0x3CE, 0x3C1, 0x3B5, 0x3C2]),
       (''d'', RelText [0x3BC, 0x3AF, 0x3B1, 0x20, 0x3BC, 0x3AD, 0x3C1, 0x3B1]),
       (''dd'', RelText [0x25, 0x64, 0x20, 0x3BC, 0x3AD, 0x3C1, 0x3B5, 0x3C2]),
       (''M'', RelText [0x3AD, 0x3BD, 0x3B1, 0x3C2, 0x20, 0x3BC, 0x3AE, 0x3BD, 0x3B1, 0x3C2]),
       (''MM'', RelText [0x25, 0x64, 0x20, 0x3BC, 0x3AE, 0x3BD, 0x3B5, 0x3C2]),
       (''y'', RelText [0x3AD, 0x3BD, 0x3B1, 0x3C2, 0x20, 0x3C7, 0x3C1, 0x3CC, 0x3BD, 0x3BF,
           0x3C2]),
       (''yy'', RelText [0x25, 0x64, 0x20, 0x3C7, 0x3C1, 0x3CC, 0x3BD, 0x3B9, 0x3B1])],
     l_ordinal = Some (OrdText [0x25, 0x64, 0x3B7]),
     l_meridiem = Some el_meridiem,
     l_is_pm = Some el_isPM,
     l_meridiem_hour = None,
     l_preparse = None,
     l_postformat = None,
     l_week = Some (1, 4),
     l_meridiem_parse = Some (Regex True (Seq [Cls [(0x3A0, 0x3A0), (0x39C, 0x39C)], Opt (Lit (js
         ''.'')), Opt (Lit [0x39C]), Opt (Lit (js ''.''))])),
     l_ordinal_parse = Some (Regex False (Seq [digits_1_2, Lit [0x3B7]])),
     l_parse = [],
     l_months_parse_exact = False,
     l_weekdays_parse_exact = False,
     l_invalid_date = None,
     l_eras = [],
     l_era_year = None \<rparr>"

text \<open>\<^verbatim>\<open>en-au\<close> (line 23).\<close>

definition en_au_ordinal :: "nat \<Rightarrow> string \<Rightarrow> js option" where
  "en_au_ordinal number period = Some (let n = (if (number mod 100) div 10 = 1 then js ''th''
      else if (number mod 10) = 1 then js ''st''
      else if (number mod 10) = 2 then js ''nd''
      else if (number mod 10) = 3 then js ''rd''
      else js ''th'') in jnum number @ n)"

definition locale_en_au :: moment_locale where
  "locale_en_au = \<lparr>
     l_abbr = ''en-au'',
     l_months = Names [js ''January'', js ''February'', js ''March'', js ''April'', js ''May'', js
         ''June'', js ''July'', js ''August'', js ''September'', js ''October'', js ''November'', js
         ''December''],
     l_months_short = Names [js ''Jan'', js ''Feb'', js ''Mar'', js ''Apr'', js ''May'', js ''Jun'',
         js ''Jul'', js ''Aug'', js ''Sep'', js ''Oct'', js ''Nov'', js ''Dec''],
     l_weekdays = Names [js ''Sunday'', js ''Monday'', js ''Tuesday'', js ''Wednesday'', js
         ''Thursday'', js ''Friday'', js ''Saturday''],
     l_weekdays_short = [js ''Sun'', js ''Mon'', js ''Tue'', js ''Wed'', js ''Thu'', js ''Fri'', js
         ''Sat''],
     l_weekdays_min = [js ''Su'', js ''Mo'', js ''Tu'', js ''We'', js ''Th'', js ''Fr'', js ''Sa''],
     l_long_date_format = [(''LT'', js ''h:mm A''),
       (''LTS'', js ''h:mm:ss A''),
       (''L'', js ''DD/MM/YYYY''),
       (''LL'', js ''D MMMM YYYY''),
       (''LLL'', js ''D MMMM YYYY h:mm A''),
       (''LLLL'', js ''dddd, D MMMM YYYY h:mm A'')],
     l_calendar = [(''sameDay'', CalText (js ''[Today at] LT'')),
       (''nextDay'', CalText (js ''[Tomorrow at] LT'')),
       (''nextWeek'', CalText (js ''dddd [at] LT'')),
       (''lastDay'', CalText (js ''[Yesterday at] LT'')),
       (''lastWeek'', CalText (js ''[Last] dddd [at] LT'')),
       (''sameElse'', CalText (js ''L''))],
     l_relative_time = [(''future'', RelText (js ''in %s'')),
       (''past'', RelText (js ''%s ago'')),
       (''s'', RelText (js ''a few seconds'')),
       (''ss'', RelText (js ''%d seconds'')),
       (''m'', RelText (js ''a minute'')),
       (''mm'', RelText (js ''%d minutes'')),
       (''h'', RelText (js ''an hour'')),
       (''hh'', RelText (js ''%d hours'')),
       (''d'', RelText (js ''a day'')),
       (''dd'', RelText (js ''%d days'')),
       (''M'', RelText (js ''a month'')),
       (''MM'', RelText (js ''%d months'')),
       (''y'', RelText (js ''a year'')),
       (''yy'', RelText (js ''%d years''))],
     l_ordinal = Some (OrdFun en_au_ordinal),
     l_meridiem = None,
     l_is_pm = None,
     l_meridiem_hour = None,
     l_preparse = None,
     l_postformat = None,
     l_week = Some (0, 4),
     l_meridiem_parse = None,
     l_ordinal_parse = Some (Regex False (Seq [digits_1_2, Alt [Lit (js ''st''), Lit (js ''nd''),
         Lit (js ''rd''), Lit (js ''th'')]])),
     l_parse = [],
     l_months_parse_exact = False,
     l_weekdays_parse_exact = False,
     l_invalid_date = None,
     l_eras = [],
     l_era_year = None \<rparr>"

text \<open>\<^verbatim>\<open>en-ca\<close> (line 81).\<close>

definition en_ca_ordinal :: "nat \<Rightarrow> string \<Rightarrow> js option" where
  "en_ca_ordinal number period = Some (let n = (if (number mod 100) div 10 = 1 then js ''th''
      else if (number mod 10) = 1 then js ''st''
      else if (number mod 10) = 2 then js ''nd''
      else if (number mod 10) = 3 then js ''rd''
      else js ''th'') in jnum number @ n)"

definition locale_en_ca :: moment_locale where
  "locale_en_ca = \<lparr>
     l_abbr = ''en-ca'',
     l_months = Names [js ''January'', js ''February'', js ''March'', js ''April'', js ''May'', js
         ''June'', js ''July'', js ''August'', js ''September'', js ''October'', js ''November'', js
         ''December''],
     l_months_short = Names [js ''Jan'', js ''Feb'', js ''Mar'', js ''Apr'', js ''May'', js ''Jun'',
         js ''Jul'', js ''Aug'', js ''Sep'', js ''Oct'', js ''Nov'', js ''Dec''],
     l_weekdays = Names [js ''Sunday'', js ''Monday'', js ''Tuesday'', js ''Wednesday'', js
         ''Thursday'', js ''Friday'', js ''Saturday''],
     l_weekdays_short = [js ''Sun'', js ''Mon'', js ''Tue'', js ''Wed'', js ''Thu'', js ''Fri'', js
         ''Sat''],
     l_weekdays_min = [js ''Su'', js ''Mo'', js ''Tu'', js ''We'', js ''Th'', js ''Fr'', js ''Sa''],
     l_long_date_format = [(''LT'', js ''h:mm A''),
       (''LTS'', js ''h:mm:ss A''),
       (''L'', js ''YYYY-MM-DD''),
       (''LL'', js ''MMMM D, YYYY''),
       (''LLL'', js ''MMMM D, YYYY h:mm A''),
       (''LLLL'', js ''dddd, MMMM D, YYYY h:mm A'')],
     l_calendar = [(''sameDay'', CalText (js ''[Today at] LT'')),
       (''nextDay'', CalText (js ''[Tomorrow at] LT'')),
       (''nextWeek'', CalText (js ''dddd [at] LT'')),
       (''lastDay'', CalText (js ''[Yesterday at] LT'')),
       (''lastWeek'', CalText (js ''[Last] dddd [at] LT'')),
       (''sameElse'', CalText (js ''L''))],
     l_relative_time = [(''future'', RelText (js ''in %s'')),
       (''past'', RelText (js ''%s ago'')),
       (''s'', RelText (js ''a few seconds'')),
       (''ss'', RelText (js ''%d seconds'')),
       (''m'', RelText (js ''a minute'')),
       (''mm'', RelText (js ''%d minutes'')),
       (''h'', RelText (js ''an hour'')),
       (''hh'', RelText (js ''%d hours'')),
       (''d'', RelText (js ''a day'')),
       (''dd'', RelText (js ''%d days'')),
       (''M'', RelText (js ''a month'')),
       (''MM'', RelText (js ''%d months'')),
       (''y'', RelText (js ''a year'')),
       (''yy'', RelText (js ''%d years''))],
     l_ordinal = Some (OrdFun en_ca_ordinal),
     l_meridiem = None,
     l_is_pm = None,
     l_meridiem_hour = None,
     l_preparse = None,
     l_postformat = None,
     l_week = None,
     l_meridiem_parse = None,
     l_ordinal_parse = Some (Regex False (Seq [digits_1_2, Alt [Lit (js ''st''), Lit (js ''nd''),
         Lit (js ''rd''), Lit (js ''th'')]])),
     l_parse = [],
     l_months_parse_exact = False,
     l_weekdays_parse_exact = False,
     l_invalid_date = None,
     l_eras = [],
     l_era_year = None \<rparr>"

text \<open>\<^verbatim>\<open>en-gb\<close> (line 83).\<close>

definition en_gb_ordinal :: "nat \<Rightarrow> string \<Rightarrow> js option" where
  "en_gb_ordinal number period = Some (let n = (if (number mod 100) div 10 = 1 then js ''th''
      else if (number mod 10) = 1 then js ''st''
      else if (number mod 10) = 2 then js ''nd''
      else if (number mod 10) = 3 then js ''rd''
      else js ''th'') in jnum number @ n)"

definition locale_en_gb :: moment_locale where
  "locale_en_gb = \<lparr>
     l_abbr = ''en-gb'',
     l_months = Names [js ''January'', js ''February'', js ''March'', js ''April'', js ''May'', js
         ''June'', js ''July'', js ''August'', js ''September'', js ''October'', js ''November'', js
         ''December''],
     l_months_short = Names [js ''Jan'', js ''Feb'', js ''Mar'', js ''Apr'', js ''May'', js ''Jun'',
         js ''Jul'', js ''Aug'', js ''Sep'', js ''Oct'', js ''Nov'', js ''Dec''],
     l_weekdays = Names [js ''Sunday'', js ''Monday'', js ''Tuesday'', js ''Wednesday'', js
         ''Thursday'', js ''Friday'', js ''Saturday''],
     l_weekdays_short = [js ''Sun'', js ''Mon'', js ''Tue'', js ''Wed'', js ''Thu'', js ''Fri'', js
         ''Sat''],
     l_weekdays_min = [js ''Su'', js ''Mo'', js ''Tu'', js ''We'', js ''Th'', js ''Fr'', js ''Sa''],
     l_long_date_format = [(''LT'', js ''HH:mm''),
       (''LTS'', js ''HH:mm:ss''),
       (''L'', js ''DD/MM/YYYY''),
       (''LL'', js ''D MMMM YYYY''),
       (''LLL'', js ''D MMMM YYYY HH:mm''),
       (''LLLL'', js ''dddd, D MMMM YYYY HH:mm'')],
     l_calendar = [(''sameDay'', CalText (js ''[Today at] LT'')),
       (''nextDay'', CalText (js ''[Tomorrow at] LT'')),
       (''nextWeek'', CalText (js ''dddd [at] LT'')),
       (''lastDay'', CalText (js ''[Yesterday at] LT'')),
       (''lastWeek'', CalText (js ''[Last] dddd [at] LT'')),
       (''sameElse'', CalText (js ''L''))],
     l_relative_time = [(''future'', RelText (js ''in %s'')),
       (''past'', RelText (js ''%s ago'')),
       (''s'', RelText (js ''a few seconds'')),
       (''ss'', RelText (js ''%d seconds'')),
       (''m'', RelText (js ''a minute'')),
       (''mm'', RelText (js ''%d minutes'')),
       (''h'', RelText (js ''an hour'')),
       (''hh'', RelText (js ''%d hours'')),
       (''d'', RelText (js ''a day'')),
       (''dd'', RelText (js ''%d days'')),
       (''M'', RelText (js ''a month'')),
       (''MM'', RelText (js ''%d months'')),
       (''y'', RelText (js ''a year'')),
       (''yy'', RelText (js ''%d years''))],
     l_ordinal = Some (OrdFun en_gb_ordinal),
     l_meridiem = None,
     l_is_pm = None,
     l_meridiem_hour = None,
     l_preparse = None,
     l_postformat = None,
     l_week = Some (1, 4),
     l_meridiem_parse = None,
     l_ordinal_parse = Some (Regex False (Seq [digits_1_2, Alt [Lit (js ''st''), Lit (js ''nd''),
         Lit (js ''rd''), Lit (js ''th'')]])),
     l_parse = [],
     l_months_parse_exact = False,
     l_weekdays_parse_exact = False,
     l_invalid_date = None,
     l_eras = [],
     l_era_year = None \<rparr>"

text \<open>\<^verbatim>\<open>en-ie\<close> (line 333).\<close>

definition en_ie_ordinal :: "nat \<Rightarrow> string \<Rightarrow> js option" where
  "en_ie_ordinal number period = Some (let n = (if (number mod 100) div 10 = 1 then js ''th''
      else if (number mod 10) = 1 then js ''st''
      else if (number mod 10) = 2 then js ''nd''
      else if (number mod 10) = 3 then js ''rd''
      else js ''th'') in jnum number @ n)"

definition locale_en_ie :: moment_locale where
  "locale_en_ie = \<lparr>
     l_abbr = ''en-ie'',
     l_months = Names [js ''January'', js ''February'', js ''March'', js ''April'', js ''May'', js
         ''June'', js ''July'', js ''August'', js ''September'', js ''October'', js ''November'', js
         ''December''],
     l_months_short = Names [js ''Jan'', js ''Feb'', js ''Mar'', js ''Apr'', js ''May'', js ''Jun'',
         js ''Jul'', js ''Aug'', js ''Sep'', js ''Oct'', js ''Nov'', js ''Dec''],
     l_weekdays = Names [js ''Sunday'', js ''Monday'', js ''Tuesday'', js ''Wednesday'', js
         ''Thursday'', js ''Friday'', js ''Saturday''],
     l_weekdays_short = [js ''Sun'', js ''Mon'', js ''Tue'', js ''Wed'', js ''Thu'', js ''Fri'', js
         ''Sat''],
     l_weekdays_min = [js ''Su'', js ''Mo'', js ''Tu'', js ''We'', js ''Th'', js ''Fr'', js ''Sa''],
     l_long_date_format = [(''LT'', js ''HH:mm''),
       (''LTS'', js ''HH:mm:ss''),
       (''L'', js ''DD/MM/YYYY''),
       (''LL'', js ''D MMMM YYYY''),
       (''LLL'', js ''D MMMM YYYY HH:mm''),
       (''LLLL'', js ''dddd D MMMM YYYY HH:mm'')],
     l_calendar = [(''sameDay'', CalText (js ''[Today at] LT'')),
       (''nextDay'', CalText (js ''[Tomorrow at] LT'')),
       (''nextWeek'', CalText (js ''dddd [at] LT'')),
       (''lastDay'', CalText (js ''[Yesterday at] LT'')),
       (''lastWeek'', CalText (js ''[Last] dddd [at] LT'')),
       (''sameElse'', CalText (js ''L''))],
     l_relative_time = [(''future'', RelText (js ''in %s'')),
       (''past'', RelText (js ''%s ago'')),
       (''s'', RelText (js ''a few seconds'')),
       (''ss'', RelText (js ''%d seconds'')),
       (''m'', RelText (js ''a minute'')),
       (''mm'', RelText (js ''%d minutes'')),
       (''h'', RelText (js ''an hour'')),
       (''hh'', RelText (js ''%d hours'')),
       (''d'', RelText (js ''a day'')),
       (''dd'', RelText (js ''%d days'')),
       (''M'', RelText (js ''a month'')),
       (''MM'', RelText (js ''%d months'')),
       (''y'', RelText (js ''a year'')),
       (''yy'', RelText (js ''%d years''))],
     l_ordinal = Some (OrdFun en_ie_ordinal),
     l_meridiem = None,
     l_is_pm = None,
     l_meridiem_hour = None,
     l_preparse = None,
     l_postformat = None,
     l_week = Some (1, 4),
     l_meridiem_parse = None,
     l_ordinal_parse = Some (Regex False (Seq [digits_1_2, Alt [Lit (js ''st''), Lit (js ''nd''),
         Lit (js ''rd''), Lit (js ''th'')]])),
     l_parse = [],
     l_months_parse_exact = False,
     l_weekdays_parse_exact = False,
     l_invalid_date = None,
     l_eras = [],
     l_era_year = None \<rparr>"

text \<open>\<^verbatim>\<open>en-il\<close> (line 186).\<close>

definition en_il_ordinal :: "nat \<Rightarrow> string \<Rightarrow> js option" where
  "en_il_ordinal number period = Some (let n = (if (number mod 100) div 10 = 1 then js ''th''
      else if (number mod 10) = 1 then js ''st''
      else if (number mod 10) = 2 then js ''nd''
      else if (number mod 10) = 3 then js ''rd''
      else js ''th'') in jnum number @ n)"

definition locale_en_il :: moment_locale where
  "locale_en_il = \<lparr>
     l_abbr = ''en-il'',
     l_months = Names [js ''January'', js ''February'', js ''March'', js ''April'', js ''May'', js
         ''June'', js ''July'', js ''August'', js ''September'', js ''October'', js ''November'', js
         ''December''],
     l_months_short = Names [js ''Jan'', js ''Feb'', js ''Mar'', js ''Apr'', js ''May'', js ''Jun'',
         js ''Jul'', js ''Aug'', js ''Sep'', js ''Oct'', js ''Nov'', js ''Dec''],
     l_weekdays = Names [js ''Sunday'', js ''Monday'', js ''Tuesday'', js ''Wednesday'', js
         ''Thursday'', js ''Friday'', js ''Saturday''],
     l_weekdays_short = [js ''Sun'', js ''Mon'', js ''Tue'', js ''Wed'', js ''Thu'', js ''Fri'', js
         ''Sat''],
     l_weekdays_min = [js ''Su'', js ''Mo'', js ''Tu'', js ''We'', js ''Th'', js ''Fr'', js ''Sa''],
     l_long_date_format = [(''LT'', js ''HH:mm''),
       (''LTS'', js ''HH:mm:ss''),
       (''L'', js ''DD/MM/YYYY''),
       (''LL'', js ''D MMMM YYYY''),
       (''LLL'', js ''D MMMM YYYY HH:mm''),
       (''LLLL'', js ''dddd, D MMMM YYYY HH:mm'')],
     l_calendar = [(''sameDay'', CalText (js ''[Today at] LT'')),
       (''nextDay'', CalText (js ''[Tomorrow at] LT'')),
       (''nextWeek'', CalText (js ''dddd [at] LT'')),
       (''lastDay'', CalText (js ''[Yesterday at] LT'')),
       (''lastWeek'', CalText (js ''[Last] dddd [at] LT'')),
       (''sameElse'', CalText (js ''L''))],
     l_relative_time = [(''future'', RelText (js ''in %s'')),
       (''past'', RelText (js ''%s ago'')),
       (''s'', RelText (js ''a few seconds'')),
       (''ss'', RelText (js ''%d seconds'')),
       (''m'', RelText (js ''a minute'')),
       (''mm'', RelText (js ''%d minutes'')),
       (''h'', RelText (js ''an hour'')),
       (''hh'', RelText (js ''%d hours'')),
       (''d'', RelText (js ''a day'')),
       (''dd'', RelText (js ''%d days'')),
       (''M'', RelText (js ''a month'')),
       (''MM'', RelText (js ''%d months'')),
       (''y'', RelText (js ''a year'')),
       (''yy'', RelText (js ''%d years''))],
     l_ordinal = Some (OrdFun en_il_ordinal),
     l_meridiem = None,
     l_is_pm = None,
     l_meridiem_hour = None,
     l_preparse = None,
     l_postformat = None,
     l_week = None,
     l_meridiem_parse = None,
     l_ordinal_parse = Some (Regex False (Seq [digits_1_2, Alt [Lit (js ''st''), Lit (js ''nd''),
         Lit (js ''rd''), Lit (js ''th'')]])),
     l_parse = [],
     l_months_parse_exact = False,
     l_weekdays_parse_exact = False,
     l_invalid_date = None,
     l_eras = [],
     l_era_year = None \<rparr>"

text \<open>\<^verbatim>\<open>en-in\<close> (line 341).\<close>

definition en_in_ordinal :: "nat \<Rightarrow> string \<Rightarrow> js option" where
  "en_in_ordinal number period = Some (let n = (if (number mod 100) div 10 = 1 then js ''th''
      else if (number mod 10) = 1 then js ''st''
      else if (number mod 10) = 2 then js ''nd''
      else if (number mod 10) = 3 then js ''rd''
      else js ''th'') in jnum number @ n)"

definition locale_en_in :: moment_locale where
  "locale_en_in = \<lparr>
     l_abbr = ''en-in'',
     l_months = Names [js ''January'', js ''February'', js ''March'', js ''April'', js ''May'', js
         ''June'', js ''July'', js ''August'', js ''September'', js ''October'', js ''November'', js
         ''December''],
     l_months_short = Names [js ''Jan'', js ''Feb'', js ''Mar'', js ''Apr'', js ''May'', js ''Jun'',
         js ''Jul'', js ''Aug'', js ''Sep'', js ''Oct'', js ''Nov'', js ''Dec''],
     l_weekdays = Names [js ''Sunday'', js ''Monday'', js ''Tuesday'', js ''Wednesday'', js
         ''Thursday'', js ''Friday'', js ''Saturday''],
     l_weekdays_short = [js ''Sun'', js ''Mon'', js ''Tue'', js ''Wed'', js ''Thu'', js ''Fri'', js
         ''Sat''],
     l_weekdays_min = [js ''Su'', js ''Mo'', js ''Tu'', js ''We'', js ''Th'', js ''Fr'', js ''Sa''],
     l_long_date_format = [(''LT'', js ''h:mm A''),
       (''LTS'', js ''h:mm:ss A''),
       (''L'', js ''DD/MM/YYYY''),
       (''LL'', js ''D MMMM YYYY''),
       (''LLL'', js ''D MMMM YYYY h:mm A''),
       (''LLLL'', js ''dddd, D MMMM YYYY h:mm A'')],
     l_calendar = [(''sameDay'', CalText (js ''[Today at] LT'')),
       (''nextDay'', CalText (js ''[Tomorrow at] LT'')),
       (''nextWeek'', CalText (js ''dddd [at] LT'')),
       (''lastDay'', CalText (js ''[Yesterday at] LT'')),
       (''lastWeek'', CalText (js ''[Last] dddd [at] LT'')),
       (''sameElse'', CalText (js ''L''))],
     l_relative_time = [(''future'', RelText (js ''in %s'')),
       (''past'', RelText (js ''%s ago'')),
       (''s'', RelText (js ''a few seconds'')),
       (''ss'', RelText (js ''%d seconds'')),
       (''m'', RelText (js ''a minute'')),
       (''mm'', RelText (js ''%d minutes'')),
       (''h'', RelText (js ''an hour'')),
       (''hh'', RelText (js ''%d hours'')),
       (''d'', RelText (js ''a day'')),
       (''dd'', RelText (js ''%d days'')),
       (''M'', RelText (js ''a month'')),
       (''MM'', RelText (js ''%d months'')),
       (''y'', RelText (js ''a year'')),
       (''yy'', RelText (js ''%d years''))],
     l_ordinal = Some (OrdFun en_in_ordinal),
     l_meridiem = None,
     l_is_pm = None,
     l_meridiem_hour = None,
     l_preparse = None,
     l_postformat = None,
     l_week = Some (0, 6),
     l_meridiem_parse = None,
     l_ordinal_parse = Some (Regex False (Seq [digits_1_2, Alt [Lit (js ''st''), Lit (js ''nd''),
         Lit (js ''rd''), Lit (js ''th'')]])),
     l_parse = [],
     l_months_parse_exact = False,
     l_weekdays_parse_exact = False,
     l_invalid_date = None,
     l_eras = [],
     l_era_year = None \<rparr>"

text \<open>\<^verbatim>\<open>en-nz\<close> (line 182).\<close>

definition en_nz_ordinal :: "nat \<Rightarrow> string \<Rightarrow> js option" where
  "en_nz_ordinal number period = Some (let n = (if (number mod 100) div 10 = 1 then js ''th''
      else if (number mod 10) = 1 then js ''st''
      else if (number mod 10) = 2 then js ''nd''
      else if (number mod 10) = 3 then js ''rd''
      else js ''th'') in jnum number @ n)"

definition locale_en_nz :: moment_locale where
  "locale_en_nz = \<lparr>
     l_abbr = ''en-nz'',
     l_months = Names [js ''January'', js ''February'', js ''March'', js ''April'', js ''May'', js
         ''June'', js ''July'', js ''August'', js ''September'', js ''October'', js ''November'', js
         ''December''],
     l_months_short = Names [js ''Jan'', js ''Feb'', js ''Mar'', js ''Apr'', js ''May'', js ''Jun'',
         js ''Jul'', js ''Aug'', js ''Sep'', js ''Oct'', js ''Nov'', js ''Dec''],
     l_weekdays = Names [js ''Sunday'', js ''Monday'', js ''Tuesday'', js ''Wednesday'', js
         ''Thursday'', js ''Friday'', js ''Saturday''],
     l_weekdays_short = [js ''Sun'', js ''Mon'', js ''Tue'', js ''Wed'', js ''Thu'', js ''Fri'', js
         ''Sat''],
     l_weekdays_min = [js ''Su'', js ''Mo'', js ''Tu'', js ''We'', js ''Th'', js ''Fr'', js ''Sa''],
     l_long_date_format = [(''LT'', js ''h:mm A''),
       (''LTS'', js ''h:mm:ss A''),
       (''L'', js ''DD/MM/YYYY''),
       (''LL'', js ''D MMMM YYYY''),
       (''LLL'', js ''D MMMM YYYY h:mm A''),
       (''LLLL'', js ''dddd, D MMMM YYYY h:mm A'')],
     l_calendar = [(''sameDay'', CalText (js ''[Today at] LT'')),
       (''nextDay'', CalText (js ''[Tomorrow at] LT'')),
       (''nextWeek'', CalText (js ''dddd [at] LT'')),
       (''lastDay'', CalText (js ''[Yesterday at] LT'')),
       (''lastWeek'', CalText (js ''[Last] dddd [at] LT'')),
       (''sameElse'', CalText (js ''L''))],
     l_relative_time = [(''future'', RelText (js ''in %s'')),
       (''past'', RelText (js ''%s ago'')),
       (''s'', RelText (js ''a few seconds'')),
       (''ss'', RelText (js ''%d seconds'')),
       (''m'', RelText (js ''a minute'')),
       (''mm'', RelText (js ''%d minutes'')),
       (''h'', RelText (js ''an hour'')),
       (''hh'', RelText (js ''%d hours'')),
       (''d'', RelText (js ''a day'')),
       (''dd'', RelText (js ''%d days'')),
       (''M'', RelText (js ''a month'')),
       (''MM'', RelText (js ''%d months'')),
       (''y'', RelText (js ''a year'')),
       (''yy'', RelText (js ''%d years''))],
     l_ordinal = Some (OrdFun en_nz_ordinal),
     l_meridiem = None,
     l_is_pm = None,
     l_meridiem_hour = None,
     l_preparse = None,
     l_postformat = None,
     l_week = Some (1, 4),
     l_meridiem_parse = None,
     l_ordinal_parse = Some (Regex False (Seq [digits_1_2, Alt [Lit (js ''st''), Lit (js ''nd''),
         Lit (js ''rd''), Lit (js ''th'')]])),
     l_parse = [],
     l_months_parse_exact = False,
     l_weekdays_parse_exact = False,
     l_invalid_date = None,
     l_eras = [],
     l_era_year = None \<rparr>"

text \<open>\<^verbatim>\<open>en-sg\<close> (line 280).\<close>

definition en_sg_ordinal :: "nat \<Rightarrow> string \<Rightarrow> js option" where
  "en_sg_ordinal number period = Some (let n = (if (number mod 100) div 10 = 1 then js ''th''
      else if (number mod 10) = 1 then js ''st''
      else if (number mod 10) = 2 then js ''nd''
      else if (number mod 10) = 3 then js ''rd''
      else js ''th'') in jnum number @ n)"

definition locale_en_sg :: moment_locale where
  "locale_en_sg = \<lparr>
     l_abbr = ''en-sg'',
     l_months = Names [js ''January'', js ''February'', js ''March'', js ''April'', js ''May'', js
         ''June'', js ''July'', js ''August'', js ''September'', js ''October'', js ''November'', js
         ''December''],
     l_months_short = Names [js ''Jan'', js ''Feb'', js ''Mar'', js ''Apr'', js ''May'', js ''Jun'',
         js ''Jul'', js ''Aug'', js ''Sep'', js ''Oct'', js ''Nov'', js ''Dec''],
     l_weekdays = Names [js ''Sunday'', js ''Monday'', js ''Tuesday'', js ''Wednesday'', js
         ''Thursday'', js ''Friday'', js ''Saturday''],
     l_weekdays_short = [js ''Sun'', js ''Mon'', js ''Tue'', js ''Wed'', js ''Thu'', js ''Fri'', js
         ''Sat''],
     l_weekdays_min = [js ''Su'', js ''Mo'', js ''Tu'', js ''We'', js ''Th'', js ''Fr'', js ''Sa''],
     l_long_date_format = [(''LT'', js ''HH:mm''),
       (''LTS'', js ''HH:mm:ss''),
       (''L'', js ''DD/MM/YYYY''),
       (''LL'', js ''D MMMM YYYY''),
       (''LLL'', js ''D MMMM YYYY HH:mm''),
       (''LLLL'', js ''dddd, D MMMM YYYY HH:mm'')],
     l_calendar = [(''sameDay'', CalText (js ''[Today at] LT'')),
       (''nextDay'', CalText (js ''[Tomorrow at] LT'')),
       (''nextWeek'', CalText (js ''dddd [at] LT'')),
       (''lastDay'', CalText (js ''[Yesterday at] LT'')),
       (''lastWeek'', CalText (js ''[Last] dddd [at] LT'')),
       (''sameElse'', CalText (js ''L''))],
     l_relative_time = [(''future'', RelText (js ''in %s'')),
       (''past'', RelText (js ''%s ago'')),
       (''s'', RelText (js ''a few seconds'')),
       (''ss'', RelText (js ''%d seconds'')),
       (''m'', RelText (js ''a minute'')),
       (''mm'', RelText (js ''%d minutes'')),
       (''h'', RelText (js ''an hour'')),
       (''hh'', RelText (js ''%d hours'')),
       (''d'', RelText (js ''a day'')),
       (''dd'', RelText (js ''%d days'')),
       (''M'', RelText (js ''a month'')),
       (''MM'', RelText (js ''%d months'')),
       (''y'', RelText (js ''a year'')),
       (''yy'', RelText (js ''%d years''))],
     l_ordinal = Some (OrdFun en_sg_ordinal),
     l_meridiem = None,
     l_is_pm = None,
     l_meridiem_hour = None,
     l_preparse = None,
     l_postformat = None,
     l_week = Some (1, 4),
     l_meridiem_parse = None,
     l_ordinal_parse = Some (Regex False (Seq [digits_1_2, Alt [Lit (js ''st''), Lit (js ''nd''),
         Lit (js ''rd''), Lit (js ''th'')]])),
     l_parse = [],
     l_months_parse_exact = False,
     l_weekdays_parse_exact = False,
     l_invalid_date = None,
     l_eras = [],
     l_era_year = None \<rparr>"

text \<open>\<^verbatim>\<open>eo\<close> (line 155).\<close>

definition eo_meridiem :: "nat \<Rightarrow> nat \<Rightarrow> bool \<Rightarrow> js" where
  "eo_meridiem hour minute isLower = (if hour > 11 then (if isLower then js ''p.t.m.''
      else js ''P.T.M.'')
      else if isLower then js ''a.t.m.''
      else js ''A.T.M.'')"

definition eo_isPM :: "js \<Rightarrow> bool" where
  "eo_isPM input \<longleftrightarrow> js_lower (js_char_at input 0) = js ''p''"

definition locale_eo :: moment_locale where
  "locale_eo = \<lparr>
     l_abbr = ''eo'',
     l_months = Names [js ''januaro'', js ''februaro'', js ''marto'', js ''aprilo'', js ''majo'', js
         ''junio'', js ''julio'', [0x61, 0x16D] @ js ''gusto'', js ''septembro'', js ''oktobro'', js
         ''novembro'', js ''decembro''],
     l_months_short = Names [js ''jan'', js ''feb'', js ''mart'', js ''apr'', js ''maj'', js
         ''jun'', js ''jul'', [0x61, 0x16D, 0x67], js ''sept'', js ''okt'', js ''nov'', js ''dec''],
     l_weekdays = Names [js ''diman'' @ [0x109, 0x6F], js ''lundo'', js ''mardo'', js ''merkredo'',
         [0x135, 0x61, 0x16D, 0x64, 0x6F], js ''vendredo'', js ''sabato''],
     l_weekdays_short = [js ''dim'', js ''lun'', js ''mard'', js ''merk'', [0x135, 0x61, 0x16D], js
         ''ven'', js ''sab''],
     l_weekdays_min = [js ''di'', js ''lu'', js ''ma'', js ''me'', [0x135, 0x61], js ''ve'', js
         ''sa''],
     l_long_date_format = [(''LT'', js ''HH:mm''),
       (''LTS'', js ''HH:mm:ss''),
       (''L'', js ''YYYY-MM-DD''),
       (''LL'', js ''[la] D[-an de] MMMM, YYYY''),
       (''LLL'', js ''[la] D[-an de] MMMM, YYYY HH:mm''),
       (''LLLL'', js ''dddd[n], [la] D[-an de] MMMM, YYYY HH:mm''),
       (''llll'', js ''ddd, [la] D[-an de] MMM, YYYY HH:mm'')],
     l_calendar = [(''sameDay'', CalText (js ''[Hodia'' @ [0x16D] @ js '' je] LT'')),
       (''nextDay'', CalText (js ''[Morga'' @ [0x16D] @ js '' je] LT'')),
       (''nextWeek'', CalText (js ''dddd[n je] LT'')),
       (''lastDay'', CalText (js ''[Hiera'' @ [0x16D] @ js '' je] LT'')),
       (''lastWeek'', CalText (js ''[pasintan] dddd[n je] LT'')),
       (''sameElse'', CalText (js ''L''))],
     l_relative_time = [(''future'', RelText (js ''post %s'')),
       (''past'', RelText (js ''anta'' @ [0x16D, 0x20, 0x25, 0x73])),
       (''s'', RelText (js ''kelkaj sekundoj'')),
       (''ss'', RelText (js ''%d sekundoj'')),
       (''m'', RelText (js ''unu minuto'')),
       (''mm'', RelText (js ''%d minutoj'')),
       (''h'', RelText (js ''unu horo'')),
       (''hh'', RelText (js ''%d horoj'')),
       (''d'', RelText (js ''unu tago'')),
       (''dd'', RelText (js ''%d tagoj'')),
       (''M'', RelText (js ''unu monato'')),
       (''MM'', RelText (js ''%d monatoj'')),
       (''y'', RelText (js ''unu jaro'')),
       (''yy'', RelText (js ''%d jaroj''))],
     l_ordinal = Some (OrdText (js ''%da'')),
     l_meridiem = Some eo_meridiem,
     l_is_pm = Some eo_isPM,
     l_meridiem_hour = None,
     l_preparse = None,
     l_postformat = None,
     l_week = Some (1, 7),
     l_meridiem_parse = Some (Regex True (Seq [Cls [(0x61, 0x61), (0x70, 0x70)], Lit (js
         ''.t.m'')])),
     l_ordinal_parse = Some (Regex False (Seq [digits_1_2, Lit (js ''a'')])),
     l_parse = [],
     l_months_parse_exact = False,
     l_weekdays_parse_exact = False,
     l_invalid_date = None,
     l_eras = [],
     l_era_year = None \<rparr>"

text \<open>\<^verbatim>\<open>es\<close> (line 223).\<close>

definition es_sameDay :: "nat \<Rightarrow> nat \<Rightarrow> bool \<Rightarrow> js option" where
  "es_sameDay day hours sameWeek = Some (js ''[hoy a la'' @ (if hours \<noteq> 1 then js ''s''
      else []) @ js ''] LT'')"

definition es_nextDay :: "nat \<Rightarrow> nat \<Rightarrow> bool \<Rightarrow> js option" where
  "es_nextDay day hours sameWeek = Some ([0x5B, 0x6D, 0x61, 0xF1] @ js ''ana a la'' @ (if hours
      \<noteq> 1 then js ''s''
      else []) @ js ''] LT'')"

definition es_nextWeek :: "nat \<Rightarrow> nat \<Rightarrow> bool \<Rightarrow> js option" where
  "es_nextWeek day hours sameWeek = Some (js ''dddd [a la'' @ (if hours \<noteq> 1 then js ''s''
      else []) @ js ''] LT'')"

definition es_lastDay :: "nat \<Rightarrow> nat \<Rightarrow> bool \<Rightarrow> js option" where
  "es_lastDay day hours sameWeek = Some (js ''[ayer a la'' @ (if hours \<noteq> 1 then js ''s''
      else []) @ js ''] LT'')"

definition es_lastWeek :: "nat \<Rightarrow> nat \<Rightarrow> bool \<Rightarrow> js option" where
  "es_lastWeek day hours sameWeek = Some (js ''[el] dddd [pasado a la'' @ (if hours \<noteq> 1 then
      js ''s''
      else []) @ js ''] LT'')"

definition es_rx_r :: "regex list" where
  "es_rx_r = [Regex True (Seq [Start, Alt [Lit (js ''enero''), Lit (js ''febrero''), Lit (js
      ''marzo''), Lit (js ''abril''), Lit (js ''mayo''), Lit (js ''junio''), Lit (js ''julio''), Lit
      (js ''agosto''), Lit (js ''septiembre''), Lit (js ''octubre''), Lit (js ''noviembre''), Lit
      (js ''diciembre''), Seq [Lit (js ''ene''), Opt (Lit (js ''.''))], Seq [Lit (js ''feb''), Opt
      (Lit (js ''.''))], Seq [Lit (js ''mar''), Opt (Lit (js ''.''))], Seq [Lit (js ''abr''), Opt
      (Lit (js ''.''))], Seq [Lit (js ''may''), Opt (Lit (js ''.''))], Seq [Lit (js ''jun''), Opt
      (Lit (js ''.''))], Seq [Lit (js ''jul''), Opt (Lit (js ''.''))], Seq [Lit (js ''ago''), Opt
      (Lit (js ''.''))], Seq [Lit (js ''sep''), Opt (Lit (js ''.''))], Seq [Lit (js ''oct''), Opt
      (Lit (js ''.''))], Seq [Lit (js ''nov''), Opt (Lit (js ''.''))], Seq [Lit (js ''dic''), Opt
      (Lit (js ''.''))]]])]"

definition es_rx_i :: "regex list" where
  "es_rx_i = [Regex True (Seq [Start, Lit (js ''ene'')]), Regex True (Seq [Start, Lit (js
      ''feb'')]), Regex True (Seq [Start, Lit (js ''mar'')]), Regex True (Seq [Start, Lit (js
      ''abr'')]), Regex True (Seq [Start, Lit (js ''may'')]), Regex True (Seq [Start, Lit (js
      ''jun'')]), Regex True (Seq [Start, Lit (js ''jul'')]), Regex True (Seq [Start, Lit (js
      ''ago'')]), Regex True (Seq [Start, Lit (js ''sep'')]), Regex True (Seq [Start, Lit (js
      ''oct'')]), Regex True (Seq [Start, Lit (js ''nov'')]), Regex True (Seq [Start, Lit (js
      ''dic'')])]"

definition locale_es :: moment_locale where
  "locale_es = \<lparr>
     l_abbr = ''es'',
     l_months = Names [js ''enero'', js ''febrero'', js ''marzo'', js ''abril'', js ''mayo'', js
         ''junio'', js ''julio'', js ''agosto'', js ''septiembre'', js ''octubre'', js
         ''noviembre'', js ''diciembre''],
     l_months_short = NamesAlt [js ''ene.'', js ''feb.'', js ''mar.'', js ''abr.'', js ''may.'', js
         ''jun.'', js ''jul.'', js ''ago.'', js ''sep.'', js ''oct.'', js ''nov.'', js ''dic.''] [js
         ''ene'', js ''feb'', js ''mar'', js ''abr'', js ''may'', js ''jun'', js ''jul'', js
         ''ago'', js ''sep'', js ''oct'', js ''nov'', js ''dic'']
       (Some (Regex False (Lit (js ''-MMM-'')))),
     l_weekdays = Names [js ''domingo'', js ''lunes'', js ''martes'', [0x6D, 0x69, 0xE9] @ js
         ''rcoles'', js ''jueves'', js ''viernes'', [0x73, 0xE1] @ js ''bado''],
     l_weekdays_short = [js ''dom.'', js ''lun.'', js ''mar.'', [0x6D, 0x69, 0xE9, 0x2E], js
         ''jue.'', js ''vie.'', [0x73, 0xE1, 0x62, 0x2E]],
     l_weekdays_min = [js ''do'', js ''lu'', js ''ma'', js ''mi'', js ''ju'', js ''vi'', [0x73,
         0xE1]],
     l_long_date_format = [(''LT'', js ''H:mm''),
       (''LTS'', js ''H:mm:ss''),
       (''L'', js ''DD/MM/YYYY''),
       (''LL'', js ''D [de] MMMM [de] YYYY''),
       (''LLL'', js ''D [de] MMMM [de] YYYY H:mm''),
       (''LLLL'', js ''dddd, D [de] MMMM [de] YYYY H:mm'')],
     l_calendar = [(''sameDay'', CalFun es_sameDay),
       (''nextDay'', CalFun es_nextDay),
       (''nextWeek'', CalFun es_nextWeek),
       (''lastDay'', CalFun es_lastDay),
       (''lastWeek'', CalFun es_lastWeek),
       (''sameElse'', CalText (js ''L''))],
     l_relative_time = [(''future'', RelText (js ''en %s'')),
       (''past'', RelText (js ''hace %s'')),
       (''s'', RelText (js ''unos segundos'')),
       (''ss'', RelText (js ''%d segundos'')),
       (''m'', RelText (js ''un minuto'')),
       (''mm'', RelText (js ''%d minutos'')),
       (''h'', RelText (js ''una hora'')),
       (''hh'', RelText (js ''%d horas'')),
       (''d'', RelText (js ''un d'' @ [0xED, 0x61])),
       (''dd'', RelText (js ''%d d'' @ [0xED, 0x61, 0x73])),
       (''w'', RelText (js ''una semana'')),
       (''ww'', RelText (js ''%d semanas'')),
       (''M'', RelText (js ''un mes'')),
       (''MM'', RelText (js ''%d meses'')),
       (''y'', RelText (js ''un a'' @ [0xF1, 0x6F])),
       (''yy'', RelText (js ''%d a'' @ [0xF1, 0x6F, 0x73]))],
     l_ordinal = Some (OrdText [0x25, 0x64, 0xBA]),
     l_meridiem = None,
     l_is_pm = None,
     l_meridiem_hour = None,
     l_preparse = None,
     l_postformat = None,
     l_week = Some (1, 4),
     l_meridiem_parse = None,
     l_ordinal_parse = Some (Regex False (Seq [digits_1_2, Lit [0xBA]])),
     l_parse = [(''monthsRegex'', es_rx_r), (''monthsShortRegex'', es_rx_r), (''monthsStrictRegex'',
         [Regex True (Seq [Start, Alt [Lit (js ''enero''), Lit (js ''febrero''), Lit (js ''marzo''),
         Lit (js ''abril''), Lit (js ''mayo''), Lit (js ''junio''), Lit (js ''julio''), Lit (js
         ''agosto''), Lit (js ''septiembre''), Lit (js ''octubre''), Lit (js ''noviembre''), Lit (js
         ''diciembre'')]])]), (''monthsShortStrictRegex'', [Regex True (Seq [Start, Alt [Seq [Lit
         (js ''ene''), Opt (Lit (js ''.''))], Seq [Lit (js ''feb''), Opt (Lit (js ''.''))], Seq [Lit
         (js ''mar''), Opt (Lit (js ''.''))], Seq [Lit (js ''abr''), Opt (Lit (js ''.''))], Seq [Lit
         (js ''may''), Opt (Lit (js ''.''))], Seq [Lit (js ''jun''), Opt (Lit (js ''.''))], Seq [Lit
         (js ''jul''), Opt (Lit (js ''.''))], Seq [Lit (js ''ago''), Opt (Lit (js ''.''))], Seq [Lit
         (js ''sep''), Opt (Lit (js ''.''))], Seq [Lit (js ''oct''), Opt (Lit (js ''.''))], Seq [Lit
         (js ''nov''), Opt (Lit (js ''.''))], Seq [Lit (js ''dic''), Opt (Lit (js ''.''))]]])]),
         (''monthsParse'', es_rx_i), (''longMonthsParse'', es_rx_i), (''shortMonthsParse'',
         es_rx_i)],
     l_months_parse_exact = False,
     l_weekdays_parse_exact = True,
     l_invalid_date = Some (js ''Fecha inv'' @ [0xE1] @ js ''lida''),
     l_eras = [],
     l_era_year = None \<rparr>"

text \<open>\<^verbatim>\<open>es-do\<close> (line 15).\<close>

definition es_do_sameDay :: "nat \<Rightarrow> nat \<Rightarrow> bool \<Rightarrow> js option" where
  "es_do_sameDay day hours sameWeek = Some (js ''[hoy a la'' @ (if hours \<noteq> 1 then js ''s''
      else []) @ js ''] LT'')"

definition es_do_nextDay :: "nat \<Rightarrow> nat \<Rightarrow> bool \<Rightarrow> js option" where
  "es_do_nextDay day hours sameWeek = Some ([0x5B, 0x6D, 0x61, 0xF1] @ js ''ana a la'' @ (if hours
      \<noteq> 1 then js ''s''
      else []) @ js ''] LT'')"

definition es_do_nextWeek :: "nat \<Rightarrow> nat \<Rightarrow> bool \<Rightarrow> js option"
    where
  "es_do_nextWeek day hours sameWeek = Some (js ''dddd [a la'' @ (if hours \<noteq> 1 then js ''s''
      else []) @ js ''] LT'')"

definition es_do_lastDay :: "nat \<Rightarrow> nat \<Rightarrow> bool \<Rightarrow> js option" where
  "es_do_lastDay day hours sameWeek = Some (js ''[ayer a la'' @ (if hours \<noteq> 1 then js ''s''
      else []) @ js ''] LT'')"

definition es_do_lastWeek :: "nat \<Rightarrow> nat \<Rightarrow> bool \<Rightarrow> js option"
    where
  "es_do_lastWeek day hours sameWeek = Some (js ''[el] dddd [pasado a la'' @ (if hours \<noteq> 1
      then js ''s''
      else []) @ js ''] LT'')"

definition es_do_rx_r :: "regex list" where
  "es_do_rx_r = [Regex True (Seq [Start, Alt [Lit (js ''enero''), Lit (js ''febrero''), Lit (js
      ''marzo''), Lit (js ''abril''), Lit (js ''mayo''), Lit (js ''junio''), Lit (js ''julio''), Lit
      (js ''agosto''), Lit (js ''septiembre''), Lit (js ''octubre''), Lit (js ''noviembre''), Lit
      (js ''diciembre''), Seq [Lit (js ''ene''), Opt (Lit (js ''.''))], Seq [Lit (js ''feb''), Opt
      (Lit (js ''.''))], Seq [Lit (js ''mar''), Opt (Lit (js ''.''))], Seq [Lit (js ''abr''), Opt
      (Lit (js ''.''))], Seq [Lit (js ''may''), Opt (Lit (js ''.''))], Seq [Lit (js ''jun''), Opt
      (Lit (js ''.''))], Seq [Lit (js ''jul''), Opt (Lit (js ''.''))], Seq [Lit (js ''ago''), Opt
      (Lit (js ''.''))], Seq [Lit (js ''sep''), Opt (Lit (js ''.''))], Seq [Lit (js ''oct''), Opt
      (Lit (js ''.''))], Seq [Lit (js ''nov''), Opt (Lit (js ''.''))], Seq [Lit (js ''dic''), Opt
      (Lit (js ''.''))]]])]"

definition es_do_rx_i :: "regex list" where
  "es_do_rx_i = [Regex True (Seq [Start, Lit (js ''ene'')]), Regex True (Seq [Start, Lit (js
      ''feb'')]), Regex True (Seq [Start, Lit (js ''mar'')]), Regex True (Seq [Start, Lit (js
      ''abr'')]), Regex True (Seq [Start, Lit (js ''may'')]), Regex True (Seq [Start, Lit (js
      ''jun'')]), Regex True (Seq [Start, Lit (js ''jul'')]), Regex True (Seq [Start, Lit (js
      ''ago'')]), Regex True (Seq [Start, Lit (js ''sep'')]), Regex True (Seq [Start, Lit (js
      ''oct'')]), Regex True (Seq [Start, Lit (js ''nov'')]), Regex True (Seq [Start, Lit (js
      ''dic'')])]"

definition locale_es_do :: moment_locale where
  "locale_es_do = \<lparr>
     l_abbr = ''es-do'',
     l_months = Names [js ''enero'', js ''febrero'', js ''marzo'', js ''abril'', js ''mayo'', js
         ''junio'', js ''julio'', js ''agosto'', js ''septiembre'', js ''octubre'', js
         ''noviembre'', js ''diciembre''],
     l_months_short = NamesAlt [js ''ene.'', js ''feb.'', js ''mar.'', js ''abr.'', js ''may.'', js
         ''jun.'', js ''jul.'', js ''ago.'', js ''sep.'', js ''oct.'', js ''nov.'', js ''dic.''] [js
         ''ene'', js ''feb'', js ''mar'', js ''abr'', js ''may'', js ''jun'', js ''jul'', js
         ''ago'', js ''sep'', js ''oct'', js ''nov'', js ''dic'']
       (Some (Regex False (Lit (js ''-MMM-'')))),
     l_weekdays = Names [js ''domingo'', js ''lunes'', js ''martes'', [0x6D, 0x69, 0xE9] @ js
         ''rcoles'', js ''jueves'', js ''viernes'', [0x73, 0xE1] @ js ''bado''],
     l_weekdays_short = [js ''dom.'', js ''lun.'', js ''mar.'', [0x6D, 0x69, 0xE9, 0x2E], js
         ''jue.'', js ''vie.'', [0x73, 0xE1, 0x62, 0x2E]],
     l_weekdays_min = [js ''do'', js ''lu'', js ''ma'', js ''mi'', js ''ju'', js ''vi'', [0x73,
         0xE1]],
     l_long_date_format = [(''LT'', js ''h:mm A''),
       (''LTS'', js ''h:mm:ss A''),
       (''L'', js ''DD/MM/YYYY''),
       (''LL'', js ''D [de] MMMM [de] YYYY''),
       (''LLL'', js ''D [de] MMMM [de] YYYY h:mm A''),
       (''LLLL'', js ''dddd, D [de] MMMM [de] YYYY h:mm A'')],
     l_calendar = [(''sameDay'', CalFun es_do_sameDay),
       (''nextDay'', CalFun es_do_nextDay),
       (''nextWeek'', CalFun es_do_nextWeek),
       (''lastDay'', CalFun es_do_lastDay),
       (''lastWeek'', CalFun es_do_lastWeek),
       (''sameElse'', CalText (js ''L''))],
     l_relative_time = [(''future'', RelText (js ''en %s'')),
       (''past'', RelText (js ''hace %s'')),
       (''s'', RelText (js ''unos segundos'')),
       (''ss'', RelText (js ''%d segundos'')),
       (''m'', RelText (js ''un minuto'')),
       (''mm'', RelText (js ''%d minutos'')),
       (''h'', RelText (js ''una hora'')),
       (''hh'', RelText (js ''%d horas'')),
       (''d'', RelText (js ''un d'' @ [0xED, 0x61])),
       (''dd'', RelText (js ''%d d'' @ [0xED, 0x61, 0x73])),
       (''w'', RelText (js ''una semana'')),
       (''ww'', RelText (js ''%d semanas'')),
       (''M'', RelText (js ''un mes'')),
       (''MM'', RelText (js ''%d meses'')),
       (''y'', RelText (js ''un a'' @ [0xF1, 0x6F])),
       (''yy'', RelText (js ''%d a'' @ [0xF1, 0x6F, 0x73]))],
     l_ordinal = Some (OrdText [0x25, 0x64, 0xBA]),
     l_meridiem = None,
     l_is_pm = None,
     l_meridiem_hour = None,
     l_preparse = None,
     l_postformat = None,
     l_week = Some (1, 4),
     l_meridiem_parse = None,
     l_ordinal_parse = Some (Regex False (Seq [digits_1_2, Lit [0xBA]])),
     l_parse = [(''monthsRegex'', es_do_rx_r), (''monthsShortRegex'', es_do_rx_r),
         (''monthsStrictRegex'', [Regex True (Seq [Start, Alt [Lit (js ''enero''), Lit (js
         ''febrero''), Lit (js ''marzo''), Lit (js ''abril''), Lit (js ''mayo''), Lit (js
         ''junio''), Lit (js ''julio''), Lit (js ''agosto''), Lit (js ''septiembre''), Lit (js
         ''octubre''), Lit (js ''noviembre''), Lit (js ''diciembre'')]])]),
         (''monthsShortStrictRegex'', [Regex True (Seq [Start, Alt [Seq [Lit (js ''ene''), Opt (Lit
         (js ''.''))], Seq [Lit (js ''feb''), Opt (Lit (js ''.''))], Seq [Lit (js ''mar''), Opt (Lit
         (js ''.''))], Seq [Lit (js ''abr''), Opt (Lit (js ''.''))], Seq [Lit (js ''may''), Opt (Lit
         (js ''.''))], Seq [Lit (js ''jun''), Opt (Lit (js ''.''))], Seq [Lit (js ''jul''), Opt (Lit
         (js ''.''))], Seq [Lit (js ''ago''), Opt (Lit (js ''.''))], Seq [Lit (js ''sep''), Opt (Lit
         (js ''.''))], Seq [Lit (js ''oct''), Opt (Lit (js ''.''))], Seq [Lit (js ''nov''), Opt (Lit
         (js ''.''))], Seq [Lit (js ''dic''), Opt (Lit (js ''.''))]]])]), (''monthsParse'',
         es_do_rx_i), (''longMonthsParse'', es_do_rx_i), (''shortMonthsParse'', es_do_rx_i)],
     l_months_parse_exact = False,
     l_weekdays_parse_exact = True,
     l_invalid_date = None,
     l_eras = [],
     l_era_year = None \<rparr>"

text \<open>\<^verbatim>\<open>es-mx\<close> (line 271).\<close>

definition es_mx_sameDay :: "nat \<Rightarrow> nat \<Rightarrow> bool \<Rightarrow> js option" where
  "es_mx_sameDay day hours sameWeek = Some (js ''[hoy a la'' @ (if hours \<noteq> 1 then js ''s''
      else []) @ js ''] LT'')"

definition es_mx_nextDay :: "nat \<Rightarrow> nat \<Rightarrow> bool \<Rightarrow> js option" where
  "es_mx_nextDay day hours sameWeek = Some ([0x5B, 0x6D, 0x61, 0xF1] @ js ''ana a la'' @ (if hours
      \<noteq> 1 then js ''s''
      else []) @ js ''] LT'')"

definition es_mx_nextWeek :: "nat \<Rightarrow> nat \<Rightarrow> bool \<Rightarrow> js option"
    where
  "es_mx_nextWeek day hours sameWeek = Some (js ''dddd [a la'' @ (if hours \<noteq> 1 then js ''s''
      else []) @ js ''] LT'')"

definition es_mx_lastDay :: "nat \<Rightarrow> nat \<Rightarrow> bool \<Rightarrow> js option" where
  "es_mx_lastDay day hours sameWeek = Some (js ''[ayer a la'' @ (if hours \<noteq> 1 then js ''s''
      else []) @ js ''] LT'')"

definition es_mx_lastWeek :: "nat \<Rightarrow> nat \<Rightarrow> bool \<Rightarrow> js option"
    where
  "es_mx_lastWeek day hours sameWeek = Some (js ''[el] dddd [pasado a la'' @ (if hours \<noteq> 1
      then js ''s''
      else []) @ js ''] LT'')"

definition es_mx_rx_r :: "regex list" where
  "es_mx_rx_r = [Regex True (Seq [Start, Alt [Lit (js ''enero''), Lit (js ''febrero''), Lit (js
      ''marzo''), Lit (js ''abril''), Lit (js ''mayo''), Lit (js ''junio''), Lit (js ''julio''), Lit
      (js ''agosto''), Lit (js ''septiembre''), Lit (js ''octubre''), Lit (js ''noviembre''), Lit
      (js ''diciembre''), Seq [Lit (js ''ene''), Opt (Lit (js ''.''))], Seq [Lit (js ''feb''), Opt
      (Lit (js ''.''))], Seq [Lit (js ''mar''), Opt (Lit (js ''.''))], Seq [Lit (js ''abr''), Opt
      (Lit (js ''.''))], Seq [Lit (js ''may''), Opt (Lit (js ''.''))], Seq [Lit (js ''jun''), Opt
      (Lit (js ''.''))], Seq [Lit (js ''jul''), Opt (Lit (js ''.''))], Seq [Lit (js ''ago''), Opt
      (Lit (js ''.''))], Seq [Lit (js ''sep''), Opt (Lit (js ''.''))], Seq [Lit (js ''oct''), Opt
      (Lit (js ''.''))], Seq [Lit (js ''nov''), Opt (Lit (js ''.''))], Seq [Lit (js ''dic''), Opt
      (Lit (js ''.''))]]])]"

definition es_mx_rx_i :: "regex list" where
  "es_mx_rx_i = [Regex True (Seq [Start, Lit (js ''ene'')]), Regex True (Seq [Start, Lit (js
      ''feb'')]), Regex True (Seq [Start, Lit (js ''mar'')]), Regex True (Seq [Start, Lit (js
      ''abr'')]), Regex True (Seq [Start, Lit (js ''may'')]), Regex True (Seq [Start, Lit (js
      ''jun'')]), Regex True (Seq [Start, Lit (js ''jul'')]), Regex True (Seq [Start, Lit (js
      ''ago'')]), Regex True (Seq [Start, Lit (js ''sep'')]), Regex True (Seq [Start, Lit (js
      ''oct'')]), Regex True (Seq [Start, Lit (js ''nov'')]), Regex True (Seq [Start, Lit (js
      ''dic'')])]"

definition locale_es_mx :: moment_locale where
  "locale_es_mx = \<lparr>
     l_abbr = ''es-mx'',
     l_months = Names [js ''enero'', js ''febrero'', js ''marzo'', js ''abril'', js ''mayo'', js
         ''junio'', js ''julio'', js ''agosto'', js ''septiembre'', js ''octubre'', js
         ''noviembre'', js ''diciembre''],
     l_months_short = NamesAlt [js ''ene.'', js ''feb.'', js ''mar.'', js ''abr.'', js ''may.'', js
         ''jun.'', js ''jul.'', js ''ago.'', js ''sep.'', js ''oct.'', js ''nov.'', js ''dic.''] [js
         ''ene'', js ''feb'', js ''mar'', js ''abr'', js ''may'', js ''jun'', js ''jul'', js
         ''ago'', js ''sep'', js ''oct'', js ''nov'', js ''dic'']
       (Some (Regex False (Lit (js ''-MMM-'')))),
     l_weekdays = Names [js ''domingo'', js ''lunes'', js ''martes'', [0x6D, 0x69, 0xE9] @ js
         ''rcoles'', js ''jueves'', js ''viernes'', [0x73, 0xE1] @ js ''bado''],
     l_weekdays_short = [js ''dom.'', js ''lun.'', js ''mar.'', [0x6D, 0x69, 0xE9, 0x2E], js
         ''jue.'', js ''vie.'', [0x73, 0xE1, 0x62, 0x2E]],
     l_weekdays_min = [js ''do'', js ''lu'', js ''ma'', js ''mi'', js ''ju'', js ''vi'', [0x73,
         0xE1]],
     l_long_date_format = [(''LT'', js ''H:mm''),
       (''LTS'', js ''H:mm:ss''),
       (''L'', js ''DD/MM/YYYY''),
       (''LL'', js ''D [de] MMMM [de] YYYY''),
       (''LLL'', js ''D [de] MMMM [de] YYYY H:mm''),
       (''LLLL'', js ''dddd, D [de] MMMM [de] YYYY H:mm'')],
     l_calendar = [(''sameDay'', CalFun es_mx_sameDay),
       (''nextDay'', CalFun es_mx_nextDay),
       (''nextWeek'', CalFun es_mx_nextWeek),
       (''lastDay'', CalFun es_mx_lastDay),
       (''lastWeek'', CalFun es_mx_lastWeek),
       (''sameElse'', CalText (js ''L''))],
     l_relative_time = [(''future'', RelText (js ''en %s'')),
       (''past'', RelText (js ''hace %s'')),
       (''s'', RelText (js ''unos segundos'')),
       (''ss'', RelText (js ''%d segundos'')),
       (''m'', RelText (js ''un minuto'')),
       (''mm'', RelText (js ''%d minutos'')),
       (''h'', RelText (js ''una hora'')),
       (''hh'', RelText (js ''%d horas'')),
       (''d'', RelText (js ''un d'' @ [0xED, 0x61])),
       (''dd'', RelText (js ''%d d'' @ [0xED, 0x61, 0x73])),
       (''w'', RelText (js ''una semana'')),
       (''ww'', RelText (js ''%d semanas'')),
       (''M'', RelText (js ''un mes'')),
       (''MM'', RelText (js ''%d meses'')),
       (''y'', RelText (js ''un a'' @ [0xF1, 0x6F])),
       (''yy'', RelText (js ''%d a'' @ [0xF1, 0x6F, 0x73]))],
     l_ordinal = Some (OrdText [0x25, 0x64, 0xBA]),
     l_meridiem = None,
     l_is_pm = None,
     l_meridiem_hour = None,
     l_preparse = None,
     l_postformat = None,
     l_week = Some (0, 4),
     l_meridiem_parse = None,
     l_ordinal_parse = Some (Regex False (Seq [digits_1_2, Lit [0xBA]])),
     l_parse = [(''monthsRegex'', es_mx_rx_r), (''monthsShortRegex'', es_mx_rx_r),
         (''monthsStrictRegex'', [Regex True (Seq [Start, Alt [Lit (js ''enero''), Lit (js
         ''febrero''), Lit (js ''marzo''), Lit (js ''abril''), Lit (js ''mayo''), Lit (js
         ''junio''), Lit (js ''julio''), Lit (js ''agosto''), Lit (js ''septiembre''), Lit (js
         ''octubre''), Lit (js ''noviembre''), Lit (js ''diciembre'')]])]),
         (''monthsShortStrictRegex'', [Regex True (Seq [Start, Alt [Seq [Lit (js ''ene''), Opt (Lit
         (js ''.''))], Seq [Lit (js ''feb''), Opt (Lit (js ''.''))], Seq [Lit (js ''mar''), Opt (Lit
         (js ''.''))], Seq [Lit (js ''abr''), Opt (Lit (js ''.''))], Seq [Lit (js ''may''), Opt (Lit
         (js ''.''))], Seq [Lit (js ''jun''), Opt (Lit (js ''.''))], Seq [Lit (js ''jul''), Opt (Lit
         (js ''.''))], Seq [Lit (js ''ago''), Opt (Lit (js ''.''))], Seq [Lit (js ''sep''), Opt (Lit
         (js ''.''))], Seq [Lit (js ''oct''), Opt (Lit (js ''.''))], Seq [Lit (js ''nov''), Opt (Lit
         (js ''.''))], Seq [Lit (js ''dic''), Opt (Lit (js ''.''))]]])]), (''monthsParse'',
         es_mx_rx_i), (''longMonthsParse'', es_mx_rx_i), (''shortMonthsParse'', es_mx_rx_i)],
     l_months_parse_exact = False,
     l_weekdays_parse_exact = True,
     l_invalid_date = Some (js ''Fecha inv'' @ [0xE1] @ js ''lida''),
     l_eras = [],
     l_era_year = None \<rparr>"

text \<open>\<^verbatim>\<open>es-us\<close> (line 130).\<close>

definition es_us_sameDay :: "nat \<Rightarrow> nat \<Rightarrow> bool \<Rightarrow> js option" where
  "es_us_sameDay day hours sameWeek = Some (js ''[hoy a la'' @ (if hours \<noteq> 1 then js ''s''
      else []) @ js ''] LT'')"

definition es_us_nextDay :: "nat \<Rightarrow> nat \<Rightarrow> bool \<Rightarrow> js option" where
  "es_us_nextDay day hours sameWeek = Some ([0x5B, 0x6D, 0x61, 0xF1] @ js ''ana a la'' @ (if hours
      \<noteq> 1 then js ''s''
      else []) @ js ''] LT'')"

definition es_us_nextWeek :: "nat \<Rightarrow> nat \<Rightarrow> bool \<Rightarrow> js option"
    where
  "es_us_nextWeek day hours sameWeek = Some (js ''dddd [a la'' @ (if hours \<noteq> 1 then js ''s''
      else []) @ js ''] LT'')"

definition es_us_lastDay :: "nat \<Rightarrow> nat \<Rightarrow> bool \<Rightarrow> js option" where
  "es_us_lastDay day hours sameWeek = Some (js ''[ayer a la'' @ (if hours \<noteq> 1 then js ''s''
      else []) @ js ''] LT'')"

definition es_us_lastWeek :: "nat \<Rightarrow> nat \<Rightarrow> bool \<Rightarrow> js option"
    where
  "es_us_lastWeek day hours sameWeek = Some (js ''[el] dddd [pasado a la'' @ (if hours \<noteq> 1
      then js ''s''
      else []) @ js ''] LT'')"

definition es_us_rx_r :: "regex list" where
  "es_us_rx_r = [Regex True (Seq [Start, Alt [Lit (js ''enero''), Lit (js ''febrero''), Lit (js
      ''marzo''), Lit (js ''abril''), Lit (js ''mayo''), Lit (js ''junio''), Lit (js ''julio''), Lit
      (js ''agosto''), Lit (js ''septiembre''), Lit (js ''octubre''), Lit (js ''noviembre''), Lit
      (js ''diciembre''), Seq [Lit (js ''ene''), Opt (Lit (js ''.''))], Seq [Lit (js ''feb''), Opt
      (Lit (js ''.''))], Seq [Lit (js ''mar''), Opt (Lit (js ''.''))], Seq [Lit (js ''abr''), Opt
      (Lit (js ''.''))], Seq [Lit (js ''may''), Opt (Lit (js ''.''))], Seq [Lit (js ''jun''), Opt
      (Lit (js ''.''))], Seq [Lit (js ''jul''), Opt (Lit (js ''.''))], Seq [Lit (js ''ago''), Opt
      (Lit (js ''.''))], Seq [Lit (js ''sep''), Opt (Lit (js ''.''))], Seq [Lit (js ''oct''), Opt
      (Lit (js ''.''))], Seq [Lit (js ''nov''), Opt (Lit (js ''.''))], Seq [Lit (js ''dic''), Opt
      (Lit (js ''.''))]]])]"

definition es_us_rx_i :: "regex list" where
  "es_us_rx_i = [Regex True (Seq [Start, Lit (js ''ene'')]), Regex True (Seq [Start, Lit (js
      ''feb'')]), Regex True (Seq [Start, Lit (js ''mar'')]), Regex True (Seq [Start, Lit (js
      ''abr'')]), Regex True (Seq [Start, Lit (js ''may'')]), Regex True (Seq [Start, Lit (js
      ''jun'')]), Regex True (Seq [Start, Lit (js ''jul'')]), Regex True (Seq [Start, Lit (js
      ''ago'')]), Regex True (Seq [Start, Lit (js ''sep'')]), Regex True (Seq [Start, Lit (js
      ''oct'')]), Regex True (Seq [Start, Lit (js ''nov'')]), Regex True (Seq [Start, Lit (js
      ''dic'')])]"

definition locale_es_us :: moment_locale where
  "locale_es_us = \<lparr>
     l_abbr = ''es-us'',
     l_months = Names [js ''enero'', js ''febrero'', js ''marzo'', js ''abril'', js ''mayo'', js
         ''junio'', js ''julio'', js ''agosto'', js ''septiembre'', js ''octubre'', js
         ''noviembre'', js ''diciembre''],
     l_months_short = NamesAlt [js ''ene.'', js ''feb.'', js ''mar.'', js ''abr.'', js ''may.'', js
         ''jun.'', js ''jul.'', js ''ago.'', js ''sep.'', js ''oct.'', js ''nov.'', js ''dic.''] [js
         ''ene'', js ''feb'', js ''mar'', js ''abr'', js ''may'', js ''jun'', js ''jul'', js
         ''ago'', js ''sep'', js ''oct'', js ''nov'', js ''dic'']
       (Some (Regex False (Lit (js ''-MMM-'')))),
     l_weekdays = Names [js ''domingo'', js ''lunes'', js ''martes'', [0x6D, 0x69, 0xE9] @ js
         ''rcoles'', js ''jueves'', js ''viernes'', [0x73, 0xE1] @ js ''bado''],
     l_weekdays_short = [js ''dom.'', js ''lun.'', js ''mar.'', [0x6D, 0x69, 0xE9, 0x2E], js
         ''jue.'', js ''vie.'', [0x73, 0xE1, 0x62, 0x2E]],
     l_weekdays_min = [js ''do'', js ''lu'', js ''ma'', js ''mi'', js ''ju'', js ''vi'', [0x73,
         0xE1]],
     l_long_date_format = [(''LT'', js ''h:mm A''),
       (''LTS'', js ''h:mm:ss A''),
       (''L'', js ''MM/DD/YYYY''),
       (''LL'', js ''D [de] MMMM [de] YYYY''),
       (''LLL'', js ''D [de] MMMM [de] YYYY h:mm A''),
       (''LLLL'', js ''dddd, D [de] MMMM [de] YYYY h:mm A'')],
     l_calendar = [(''sameDay'', CalFun es_us_sameDay),
       (''nextDay'', CalFun es_us_nextDay),
       (''nextWeek'', CalFun es_us_nextWeek),
       (''lastDay'', CalFun es_us_lastDay),
       (''lastWeek'', CalFun es_us_lastWeek),
       (''sameElse'', CalText (js ''L''))],
     l_relative_time = [(''future'', RelText (js ''en %s'')),
       (''past'', RelText (js ''hace %s'')),
       (''s'', RelText (js ''unos segundos'')),
       (''ss'', RelText (js ''%d segundos'')),
       (''m'', RelText (js ''un minuto'')),
       (''mm'', RelText (js ''%d minutos'')),
       (''h'', RelText (js ''una hora'')),
       (''hh'', RelText (js ''%d horas'')),
       (''d'', RelText (js ''un d'' @ [0xED, 0x61])),
       (''dd'', RelText (js ''%d d'' @ [0xED, 0x61, 0x73])),
       (''w'', RelText (js ''una semana'')),
       (''ww'', RelText (js ''%d semanas'')),
       (''M'', RelText (js ''un mes'')),
       (''MM'', RelText (js ''%d meses'')),
       (''y'', RelText (js ''un a'' @ [0xF1, 0x6F])),
       (''yy'', RelText (js ''%d a'' @ [0xF1, 0x6F, 0x73]))],
     l_ordinal = Some (OrdText [0x25, 0x64, 0xBA]),
     l_meridiem = None,
     l_is_pm = None,
     l_meridiem_hour = None,
     l_preparse = None,
     l_postformat = None,
     l_week = Some (0, 6),
     l_meridiem_parse = None,
     l_ordinal_parse = Some (Regex False (Seq [digits_1_2, Lit [0xBA]])),
     l_parse = [(''monthsRegex'', es_us_rx_r), (''monthsShortRegex'', es_us_rx_r),
         (''monthsStrictRegex'', [Regex True (Seq [Start, Alt [Lit (js ''enero''), Lit (js
         ''febrero''), Lit (js ''marzo''), Lit (js ''abril''), Lit (js ''mayo''), Lit (js
         ''junio''), Lit (js ''julio''), Lit (js ''agosto''), Lit (js ''septiembre''), Lit (js
         ''octubre''), Lit (js ''noviembre''), Lit (js ''diciembre'')]])]),
         (''monthsShortStrictRegex'', [Regex True (Seq [Start, Alt [Seq [Lit (js ''ene''), Opt (Lit
         (js ''.''))], Seq [Lit (js ''feb''), Opt (Lit (js ''.''))], Seq [Lit (js ''mar''), Opt (Lit
         (js ''.''))], Seq [Lit (js ''abr''), Opt (Lit (js ''.''))], Seq [Lit (js ''may''), Opt (Lit
         (js ''.''))], Seq [Lit (js ''jun''), Opt (Lit (js ''.''))], Seq [Lit (js ''jul''), Opt (Lit
         (js ''.''))], Seq [Lit (js ''ago''), Opt (Lit (js ''.''))], Seq [Lit (js ''sep''), Opt (Lit
         (js ''.''))], Seq [Lit (js ''oct''), Opt (Lit (js ''.''))], Seq [Lit (js ''nov''), Opt (Lit
         (js ''.''))], Seq [Lit (js ''dic''), Opt (Lit (js ''.''))]]])]), (''monthsParse'',
         es_us_rx_i), (''longMonthsParse'', es_us_rx_i), (''shortMonthsParse'', es_us_rx_i)],
     l_months_parse_exact = False,
     l_weekdays_parse_exact = True,
     l_invalid_date = None,
     l_eras = [],
     l_era_year = None \<rparr>"

definition locales_b :: "moment_locale list" where
  "locales_b = [locale_bs, locale_ca, locale_cs, locale_cv, locale_cy, locale_da, locale_de, locale_de_at,
         locale_de_ch, locale_dv, locale_el, locale_en_au, locale_en_ca, locale_en_gb, locale_en_ie,
         locale_en_il, locale_en_in, locale_en_nz, locale_en_sg, locale_eo, locale_es, locale_es_do,
         locale_es_mx, locale_es_us]"

lemmas locales_b_defs = locales_b_def locale_bs_def locale_ca_def locale_cs_def locale_cv_def locale_cy_def locale_da_def
      locale_de_def locale_de_at_def locale_de_ch_def locale_dv_def locale_el_def locale_en_au_def
      locale_en_ca_def locale_en_gb_def locale_en_ie_def locale_en_il_def locale_en_in_def
      locale_en_nz_def locale_en_sg_def locale_eo_def locale_es_def locale_es_do_def
      locale_es_mx_def locale_es_us_def

text \<open>The relative times of these languages.\<close>

lemma bs_rel_t_defined:
  assumes "1 \<le> number"
  shows "bs_rel_t number withoutSuffix ''ss'' isFuture \<noteq> None"
    and "bs_rel_t number withoutSuffix ''m'' isFuture \<noteq> None"
    and "bs_rel_t number withoutSuffix ''mm'' isFuture \<noteq> None"
    and "bs_rel_t number withoutSuffix ''h'' isFuture \<noteq> None"
    and "bs_rel_t number withoutSuffix ''hh'' isFuture \<noteq> None"
    and "bs_rel_t number withoutSuffix ''dd'' isFuture \<noteq> None"
    and "bs_rel_t number withoutSuffix ''MM'' isFuture \<noteq> None"
    and "bs_rel_t number withoutSuffix ''yy'' isFuture \<noteq> None"
  using assms
  by (auto simp: bs_rel_t_def js_nth_def Let_def split: if_splits)

lemma cs_rel_o_defined:
  assumes "1 \<le> number"
  shows "cs_rel_o number withoutSuffix ''s'' isFuture \<noteq> None"
    and "cs_rel_o number withoutSuffix ''ss'' isFuture \<noteq> None"
    and "cs_rel_o number withoutSuffix ''m'' isFuture \<noteq> None"
    and "cs_rel_o number withoutSuffix ''mm'' isFuture \<noteq> None"
    and "cs_rel_o number withoutSuffix ''h'' isFuture \<noteq> None"
    and "cs_rel_o number withoutSuffix ''hh'' isFuture \<noteq> None"
    and "cs_rel_o number withoutSuffix ''d'' isFuture \<noteq> None"
    and "cs_rel_o number withoutSuffix ''dd'' isFuture \<noteq> None"
    and "cs_rel_o number withoutSuffix ''M'' isFuture \<noteq> None"
    and "cs_rel_o number withoutSuffix ''MM'' isFuture \<noteq> None"
    and "cs_rel_o number withoutSuffix ''y'' isFuture \<noteq> None"
    and "cs_rel_o number withoutSuffix ''yy'' isFuture \<noteq> None"
  using assms
  by (auto simp: cs_rel_o_def cs_a_def js_nth_def Let_def split: if_splits)

lemma de_rel_t_defined:
  assumes "1 \<le> number"
  shows "de_rel_t number withoutSuffix ''m'' isFuture \<noteq> None"
    and "de_rel_t number withoutSuffix ''h'' isFuture \<noteq> None"
    and "de_rel_t number withoutSuffix ''d'' isFuture \<noteq> None"
    and "de_rel_t number withoutSuffix ''dd'' isFuture \<noteq> None"
    and "de_rel_t number withoutSuffix ''w'' isFuture \<noteq> None"
    and "de_rel_t number withoutSuffix ''M'' isFuture \<noteq> None"
    and "de_rel_t number withoutSuffix ''MM'' isFuture \<noteq> None"
    and "de_rel_t number withoutSuffix ''y'' isFuture \<noteq> None"
    and "de_rel_t number withoutSuffix ''yy'' isFuture \<noteq> None"
  using assms
  by (auto simp: de_rel_t_def js_nth_def Let_def split: if_splits)

lemma de_at_rel_t_defined:
  assumes "1 \<le> number"
  shows "de_at_rel_t number withoutSuffix ''m'' isFuture \<noteq> None"
    and "de_at_rel_t number withoutSuffix ''h'' isFuture \<noteq> None"
    and "de_at_rel_t number withoutSuffix ''d'' isFuture \<noteq> None"
    and "de_at_rel_t number withoutSuffix ''dd'' isFuture \<noteq> None"
    and "de_at_rel_t number withoutSuffix ''w'' isFuture \<noteq> None"
    and "de_at_rel_t number withoutSuffix ''M'' isFuture \<noteq> None"
    and "de_at_rel_t number withoutSuffix ''MM'' isFuture \<noteq> None"
    and "de_at_rel_t number withoutSuffix ''y'' isFuture \<noteq> None"
    and "de_at_rel_t number withoutSuffix ''yy'' isFuture \<noteq> None"
  using assms
  by (auto simp: de_at_rel_t_def js_nth_def Let_def split: if_splits)

lemma de_ch_rel_t_defined:
  assumes "1 \<le> number"
  shows "de_ch_rel_t number withoutSuffix ''m'' isFuture \<noteq> None"
    and "de_ch_rel_t number withoutSuffix ''h'' isFuture \<noteq> None"
    and "de_ch_rel_t number withoutSuffix ''d'' isFuture \<noteq> None"
    and "de_ch_rel_t number withoutSuffix ''dd'' isFuture \<noteq> None"
    and "de_ch_rel_t number withoutSuffix ''w'' isFuture \<noteq> None"
    and "de_ch_rel_t number withoutSuffix ''M'' isFuture \<noteq> None"
    and "de_ch_rel_t number withoutSuffix ''MM'' isFuture \<noteq> None"
    and "de_ch_rel_t number withoutSuffix ''y'' isFuture \<noteq> None"
    and "de_ch_rel_t number withoutSuffix ''yy'' isFuture \<noteq> None"
  using assms
  by (auto simp: de_ch_rel_t_def js_nth_def Let_def split: if_splits)

lemma locales_b_relative:
  assumes "1 \<le> number"
  shows "list_all (\<lambda>c. rel_defined number withoutSuffix isFuture (l_relative_time c)) locales_b"
  unfolding locales_b_defs list.pred_inject moment_locale.select_convs rel_defined_def
  using assms by (simp add: bs_rel_t_defined cs_rel_o_defined de_rel_t_defined de_at_rel_t_defined de_ch_rel_t_defined del: not_None_eq)

lemma locales_b_wrappers:
  "list_all (\<lambda>c. wrapper_defined s (l_relative_time c)) locales_b"
  unfolding locales_b_defs list.pred_inject moment_locale.select_convs wrapper_defined_def
  by (simp add: cv_rel_future_def)

lemma locales_b_unitwise:
  "list_all (\<lambda>c. unitwise (apply_option (l_preparse c)) \<and> unitwise (apply_option (l_postformat c))) locales_b"
  unfolding locales_b_defs list.pred_inject moment_locale.select_convs
  by (simp add: unitwise_def apply_option_def
      dv_preparse_def dv_postformat_def)

lemma locales_b_names:
  "list_all (\<lambda>c. names_length 12 (l_months c) \<and> names_length 12 (l_months_short c) \<and>
     names_length 7 (l_weekdays c) \<and> length (l_weekdays_short c) = 7 \<and> length (l_weekdays_min c) = 7) locales_b"
  unfolding locales_b_defs list.pred_inject moment_locale.select_convs
  by (simp add: names_length_def el_monthsNominative_def el_monthsGenitive_def el_months_def)

end
