(* ===== verification/LocalesE.thy ===== *)
theory LocalesE
  imports MomentCore
begin

text \<open>
  The language configurations et to hi of the date library, as the bundle
  \<^verbatim>\<open>src/lagosta/js/app.js\<close> registers them, one per line.  Each configuration is the record
  \<^verbatim>\<open>locale_x\<close>; the functions inside it are the definitions before it, named after the language and
  the property (or the local function) that holds them.
\<close>

text \<open>\<^verbatim>\<open>et\<close> (line 339).\<close>

definition et_rel_t :: "nat \<Rightarrow> bool \<Rightarrow> string \<Rightarrow> bool \<Rightarrow>
    js option" where
  "et_rel_t number withoutSuffix key isFuture = (if withoutSuffix then (if js_truthy (Option.bind
      (map_of [(''s'', [[0x6D, 0xF5] @ js ''ne sekundi'', [0x6D, 0xF5] @ js ''ni sekund'', js
      ''paar sekundit'']), (''ss'', [jnum number @ js ''sekundi'', jnum number @ js ''sekundit'']),
      (''m'', [[0xFC] @ js ''he minuti'', [0xFC] @ js ''ks minut'']), (''mm'', [jnum number @ js
      '' minuti'', jnum number @ js '' minutit'']), (''h'', [[0xFC] @ js ''he tunni'', js
      ''tund aega'', [0xFC] @ js ''ks tund'']), (''hh'', [jnum number @ js '' tunni'', jnum number @
      js '' tundi'']), (''d'', [[0xFC] @ js ''he p'' @ [0xE4, 0x65, 0x76, 0x61], [0xFC] @ js
      ''ks p'' @ [0xE4, 0x65, 0x76]]), (''M'', [js ''kuu aja'', js ''kuu aega'', [0xFC] @ js
      ''ks kuu'']), (''MM'', [jnum number @ js '' kuu'', jnum number @ js '' kuud'']), (''y'',
      [[0xFC] @ js ''he aasta'', js ''aasta'', [0xFC] @ js ''ks aasta'']), (''yy'', [jnum number @
      js '' aasta'', jnum number @ js '' aastat''])] key) (\<lambda>xs. js_nth xs 2)) then
      Option.bind (map_of [(''s'', [[0x6D, 0xF5] @ js ''ne sekundi'', [0x6D, 0xF5] @ js
      ''ni sekund'', js ''paar sekundit'']), (''ss'', [jnum number @ js ''sekundi'', jnum number @
      js ''sekundit'']), (''m'', [[0xFC] @ js ''he minuti'', [0xFC] @ js ''ks minut'']), (''mm'',
      [jnum number @ js '' minuti'', jnum number @ js '' minutit'']), (''h'', [[0xFC] @ js
      ''he tunni'', js ''tund aega'', [0xFC] @ js ''ks tund'']), (''hh'', [jnum number @ js
      '' tunni'', jnum number @ js '' tundi'']), (''d'', [[0xFC] @ js ''he p'' @ [0xE4, 0x65, 0x76,
      0x61], [0xFC] @ js ''ks p'' @ [0xE4, 0x65, 0x76]]), (''M'', [js ''kuu aja'', js ''kuu aega'',
      [0xFC] @ js ''ks kuu'']), (''MM'', [jnum number @ js '' kuu'', jnum number @ js '' kuud'']),
      (''y'', [[0xFC] @ js ''he aasta'', js ''aasta'', [0xFC] @ js ''ks aasta'']), (''yy'', [jnum
      number @ js '' aasta'', jnum number @ js '' aastat''])] key) (\<lambda>xs. js_nth xs 2)
      else Option.bind (map_of [(''s'', [[0x6D, 0xF5] @ js ''ne sekundi'', [0x6D, 0xF5] @ js
          ''ni sekund'', js ''paar sekundit'']), (''ss'', [jnum number @ js ''sekundi'', jnum number
          @ js ''sekundit'']), (''m'', [[0xFC] @ js ''he minuti'', [0xFC] @ js ''ks minut'']),
          (''mm'', [jnum number @ js '' minuti'', jnum number @ js '' minutit'']), (''h'', [[0xFC] @
          js ''he tunni'', js ''tund aega'', [0xFC] @ js ''ks tund'']), (''hh'', [jnum number @ js
          '' tunni'', jnum number @ js '' tundi'']), (''d'', [[0xFC] @ js ''he p'' @ [0xE4, 0x65,
          0x76, 0x61], [0xFC] @ js ''ks p'' @ [0xE4, 0x65, 0x76]]), (''M'', [js ''kuu aja'', js
          ''kuu aega'', [0xFC] @ js ''ks kuu'']), (''MM'', [jnum number @ js '' kuu'', jnum number @
          js '' kuud'']), (''y'', [[0xFC] @ js ''he aasta'', js ''aasta'', [0xFC] @ js
          ''ks aasta'']), (''yy'', [jnum number @ js '' aasta'', jnum number @ js '' aastat''])]
          key) (\<lambda>xs. js_nth xs 1))
      else if isFuture then Option.bind (map_of [(''s'', [[0x6D, 0xF5] @ js ''ne sekundi'', [0x6D,
          0xF5] @ js ''ni sekund'', js ''paar sekundit'']), (''ss'', [jnum number @ js ''sekundi'',
          jnum number @ js ''sekundit'']), (''m'', [[0xFC] @ js ''he minuti'', [0xFC] @ js
          ''ks minut'']), (''mm'', [jnum number @ js '' minuti'', jnum number @ js '' minutit'']),
          (''h'', [[0xFC] @ js ''he tunni'', js ''tund aega'', [0xFC] @ js ''ks tund'']), (''hh'',
          [jnum number @ js '' tunni'', jnum number @ js '' tundi'']), (''d'', [[0xFC] @ js ''he p''
          @ [0xE4, 0x65, 0x76, 0x61], [0xFC] @ js ''ks p'' @ [0xE4, 0x65, 0x76]]), (''M'', [js
          ''kuu aja'', js ''kuu aega'', [0xFC] @ js ''ks kuu'']), (''MM'', [jnum number @ js
          '' kuu'', jnum number @ js '' kuud'']), (''y'', [[0xFC] @ js ''he aasta'', js ''aasta'',
          [0xFC] @ js ''ks aasta'']), (''yy'', [jnum number @ js '' aasta'', jnum number @ js
          '' aastat''])] key) (\<lambda>xs. js_nth xs 0)
      else Option.bind (map_of [(''s'', [[0x6D, 0xF5] @ js ''ne sekundi'', [0x6D, 0xF5] @ js
          ''ni sekund'', js ''paar sekundit'']), (''ss'', [jnum number @ js ''sekundi'', jnum number
          @ js ''sekundit'']), (''m'', [[0xFC] @ js ''he minuti'', [0xFC] @ js ''ks minut'']),
          (''mm'', [jnum number @ js '' minuti'', jnum number @ js '' minutit'']), (''h'', [[0xFC] @
          js ''he tunni'', js ''tund aega'', [0xFC] @ js ''ks tund'']), (''hh'', [jnum number @ js
          '' tunni'', jnum number @ js '' tundi'']), (''d'', [[0xFC] @ js ''he p'' @ [0xE4, 0x65,
          0x76, 0x61], [0xFC] @ js ''ks p'' @ [0xE4, 0x65, 0x76]]), (''M'', [js ''kuu aja'', js
          ''kuu aega'', [0xFC] @ js ''ks kuu'']), (''MM'', [jnum number @ js '' kuu'', jnum number @
          js '' kuud'']), (''y'', [[0xFC] @ js ''he aasta'', js ''aasta'', [0xFC] @ js
          ''ks aasta'']), (''yy'', [jnum number @ js '' aasta'', jnum number @ js '' aastat''])]
          key) (\<lambda>xs. js_nth xs 1))"

definition locale_et :: moment_locale where
  "locale_et = \<lparr>
     l_abbr = ''et'',
     l_months = Names [js ''jaanuar'', js ''veebruar'', [0x6D, 0xE4, 0x72, 0x74, 0x73], js
         ''aprill'', js ''mai'', js ''juuni'', js ''juuli'', js ''august'', js ''september'', js
         ''oktoober'', js ''november'', js ''detsember''],
     l_months_short = Names [js ''jaan'', js ''veebr'', [0x6D, 0xE4, 0x72, 0x74, 0x73], js ''apr'',
         js ''mai'', js ''juuni'', js ''juuli'', js ''aug'', js ''sept'', js ''okt'', js ''nov'', js
         ''dets''],
     l_weekdays = Names [[0x70, 0xFC, 0x68, 0x61, 0x70, 0xE4, 0x65, 0x76], js ''esmasp'' @ [0xE4,
         0x65, 0x76], js ''teisip'' @ [0xE4, 0x65, 0x76], js ''kolmap'' @ [0xE4, 0x65, 0x76], js
         ''neljap'' @ [0xE4, 0x65, 0x76], js ''reede'', js ''laup'' @ [0xE4, 0x65, 0x76]],
     l_weekdays_short = [js ''P'', js ''E'', js ''T'', js ''K'', js ''N'', js ''R'', js ''L''],
     l_weekdays_min = [js ''P'', js ''E'', js ''T'', js ''K'', js ''N'', js ''R'', js ''L''],
     l_long_date_format = [(''LT'', js ''H:mm''),
       (''LTS'', js ''H:mm:ss''),
       (''L'', js ''DD.MM.YYYY''),
       (''LL'', js ''D. MMMM YYYY''),
       (''LLL'', js ''D. MMMM YYYY H:mm''),
       (''LLLL'', js ''dddd, D. MMMM YYYY H:mm'')],
     l_calendar = [(''sameDay'', CalText ([0x5B, 0x54, 0xE4] @ js ''na,] LT'')),
       (''nextDay'', CalText (js ''[Homme,] LT'')),
       (''nextWeek'', CalText ([0x5B, 0x4A, 0xE4] @ js ''rgmine] dddd LT'')),
       (''lastDay'', CalText (js ''[Eile,] LT'')),
       (''lastWeek'', CalText (js ''[Eelmine] dddd LT'')),
       (''sameElse'', CalText (js ''L''))],
     l_relative_time = [(''future'', RelText (js ''%s p'' @ [0xE4] @ js ''rast'')),
       (''past'', RelText (js ''%s tagasi'')),
       (''s'', RelNum et_rel_t),
       (''ss'', RelNum et_rel_t),
       (''m'', RelNum et_rel_t),
       (''mm'', RelNum et_rel_t),
       (''h'', RelNum et_rel_t),
       (''hh'', RelNum et_rel_t),
       (''d'', RelNum et_rel_t),
       (''dd'', RelText (js ''%d p'' @ [0xE4, 0x65, 0x76, 0x61])),
       (''M'', RelNum et_rel_t),
       (''MM'', RelNum et_rel_t),
       (''y'', RelNum et_rel_t),
       (''yy'', RelNum et_rel_t)],
     l_ordinal = Some (OrdText (js ''%d.'')),
     l_meridiem = None,
     l_is_pm = None,
     l_meridiem_hour = None,
     l_preparse = None,
     l_postformat = None,
     l_week = Some (1, 4),
     l_meridiem_parse = None,
     l_ordinal_parse = Some (Regex False (Seq [digits_1_2, Lit (js ''.'')])),
     l_parse = [],
     l_months_parse_exact = False,
     l_weekdays_parse_exact = False,
     l_invalid_date = None,
     l_eras = [],
     l_era_year = None \<rparr>"

text \<open>\<^verbatim>\<open>eu\<close> (line 31).\<close>

definition locale_eu :: moment_locale where
  "locale_eu = \<lparr>
     l_abbr = ''eu'',
     l_months = Names [js ''urtarrila'', js ''otsaila'', js ''martxoa'', js ''apirila'', js
         ''maiatza'', js ''ekaina'', js ''uztaila'', js ''abuztua'', js ''iraila'', js ''urria'', js
         ''azaroa'', js ''abendua''],
     l_months_short = Names [js ''urt.'', js ''ots.'', js ''mar.'', js ''api.'', js ''mai.'', js
         ''eka.'', js ''uzt.'', js ''abu.'', js ''ira.'', js ''urr.'', js ''aza.'', js ''abe.''],
     l_weekdays = Names [js ''igandea'', js ''astelehena'', js ''asteartea'', js ''asteazkena'', js
         ''osteguna'', js ''ostirala'', js ''larunbata''],
     l_weekdays_short = [js ''ig.'', js ''al.'', js ''ar.'', js ''az.'', js ''og.'', js ''ol.'', js
         ''lr.''],
     l_weekdays_min = [js ''ig'', js ''al'', js ''ar'', js ''az'', js ''og'', js ''ol'', js ''lr''],
     l_long_date_format = [(''LT'', js ''HH:mm''),
       (''LTS'', js ''HH:mm:ss''),
       (''L'', js ''YYYY-MM-DD''),
       (''LL'', js ''YYYY[ko] MMMM[ren] D[a]''),
       (''LLL'', js ''YYYY[ko] MMMM[ren] D[a] HH:mm''),
       (''LLLL'', js ''dddd, YYYY[ko] MMMM[ren] D[a] HH:mm''),
       (''l'', js ''YYYY-M-D''),
       (''ll'', js ''YYYY[ko] MMM D[a]''),
       (''lll'', js ''YYYY[ko] MMM D[a] HH:mm''),
       (''llll'', js ''ddd, YYYY[ko] MMM D[a] HH:mm'')],
     l_calendar = [(''sameDay'', CalText (js ''[gaur] LT[etan]'')),
       (''nextDay'', CalText (js ''[bihar] LT[etan]'')),
       (''nextWeek'', CalText (js ''dddd LT[etan]'')),
       (''lastDay'', CalText (js ''[atzo] LT[etan]'')),
       (''lastWeek'', CalText (js ''[aurreko] dddd LT[etan]'')),
       (''sameElse'', CalText (js ''L''))],
     l_relative_time = [(''future'', RelText (js ''%s barru'')),
       (''past'', RelText (js ''duela %s'')),
       (''s'', RelText (js ''segundo batzuk'')),
       (''ss'', RelText (js ''%d segundo'')),
       (''m'', RelText (js ''minutu bat'')),
       (''mm'', RelText (js ''%d minutu'')),
       (''h'', RelText (js ''ordu bat'')),
       (''hh'', RelText (js ''%d ordu'')),
       (''d'', RelText (js ''egun bat'')),
       (''dd'', RelText (js ''%d egun'')),
       (''M'', RelText (js ''hilabete bat'')),
       (''MM'', RelText (js ''%d hilabete'')),
       (''y'', RelText (js ''urte bat'')),
       (''yy'', RelText (js ''%d urte''))],
     l_ordinal = Some (OrdText (js ''%d.'')),
     l_meridiem = None,
     l_is_pm = None,
     l_meridiem_hour = None,
     l_preparse = None,
     l_postformat = None,
     l_week = Some (1, 7),
     l_meridiem_parse = None,
     l_ordinal_parse = Some (Regex False (Seq [digits_1_2, Lit (js ''.'')])),
     l_parse = [],
     l_months_parse_exact = True,
     l_weekdays_parse_exact = True,
     l_invalid_date = None,
     l_eras = [],
     l_era_year = None \<rparr>"

text \<open>\<^verbatim>\<open>fa\<close> (line 229).\<close>

definition fa_meridiem :: "nat \<Rightarrow> nat \<Rightarrow> bool \<Rightarrow> js" where
  "fa_meridiem hour minute isLower = (if hour < 12 then [0x642, 0x628, 0x644, 0x20, 0x627, 0x632,
      0x20, 0x638, 0x647, 0x631]
      else [0x628, 0x639, 0x62F, 0x20, 0x627, 0x632, 0x20, 0x638, 0x647, 0x631])"

definition fa_isPM :: "js \<Rightarrow> bool" where
  "fa_isPM input \<longleftrightarrow> js_contains [0x628, 0x639, 0x62F, 0x20, 0x627, 0x632, 0x20,
      0x638, 0x647, 0x631] input"

definition fa_preparse :: "js \<Rightarrow> js" where
  "fa_preparse s = js_replace_unit 0x60C 0x2C (js_replace_units [(0x6F0, [0x30]), (0x6F1, [0x31]),
      (0x6F2, [0x32]), (0x6F3, [0x33]), (0x6F4, [0x34]), (0x6F5, [0x35]), (0x6F6, [0x36]), (0x6F7,
      [0x37]), (0x6F8, [0x38]), (0x6F9, [0x39])] s)"

definition fa_postformat :: "js \<Rightarrow> js" where
  "fa_postformat s = js_replace_unit 0x2C 0x60C (js_replace_units [(0x30, [0x6F0]), (0x31, [0x6F1]),
      (0x32, [0x6F2]), (0x33, [0x6F3]), (0x34, [0x6F4]), (0x35, [0x6F5]), (0x36, [0x6F6]), (0x37,
      [0x6F7]), (0x38, [0x6F8]), (0x39, [0x6F9])] s)"

definition locale_fa :: moment_locale where
  "locale_fa = \<lparr>
     l_abbr = ''fa'',
     l_months = Names [[0x698, 0x627, 0x646, 0x648, 0x6CC, 0x647], [0x641, 0x648, 0x631, 0x6CC,
         0x647], [0x645, 0x627, 0x631, 0x633], [0x622, 0x648, 0x631, 0x6CC, 0x644], [0x645, 0x647],
         [0x698, 0x648, 0x626, 0x646], [0x698, 0x648, 0x626, 0x6CC, 0x647], [0x627, 0x648, 0x62A],
         [0x633, 0x67E, 0x62A, 0x627, 0x645, 0x628, 0x631], [0x627, 0x6A9, 0x62A, 0x628, 0x631],
         [0x646, 0x648, 0x627, 0x645, 0x628, 0x631], [0x62F, 0x633, 0x627, 0x645, 0x628, 0x631]],
     l_months_short = Names [[0x698, 0x627, 0x646, 0x648, 0x6CC, 0x647], [0x641, 0x648, 0x631,
         0x6CC, 0x647], [0x645, 0x627, 0x631, 0x633], [0x622, 0x648, 0x631, 0x6CC, 0x644], [0x645,
         0x647], [0x698, 0x648, 0x626, 0x646], [0x698, 0x648, 0x626, 0x6CC, 0x647], [0x627, 0x648,
         0x62A], [0x633, 0x67E, 0x62A, 0x627, 0x645, 0x628, 0x631], [0x627, 0x6A9, 0x62A, 0x628,
         0x631], [0x646, 0x648, 0x627, 0x645, 0x628, 0x631], [0x62F, 0x633, 0x627, 0x645, 0x628,
         0x631]],
     l_weekdays = Names [[0x6CC, 0x6A9, 0x200C, 0x634, 0x646, 0x628, 0x647], [0x62F, 0x648, 0x634,
         0x646, 0x628, 0x647], [0x633, 0x647, 0x200C, 0x634, 0x646, 0x628, 0x647], [0x686, 0x647,
         0x627, 0x631, 0x634, 0x646, 0x628, 0x647], [0x67E, 0x646, 0x62C, 0x200C, 0x634, 0x646,
         0x628, 0x647], [0x62C, 0x645, 0x639, 0x647], [0x634, 0x646, 0x628, 0x647]],
     l_weekdays_short = [[0x6CC, 0x6A9, 0x200C, 0x634, 0x646, 0x628, 0x647], [0x62F, 0x648, 0x634,
         0x646, 0x628, 0x647], [0x633, 0x647, 0x200C, 0x634, 0x646, 0x628, 0x647], [0x686, 0x647,
         0x627, 0x631, 0x634, 0x646, 0x628, 0x647], [0x67E, 0x646, 0x62C, 0x200C, 0x634, 0x646,
         0x628, 0x647], [0x62C, 0x645, 0x639, 0x647], [0x634, 0x646, 0x628, 0x647]],
     l_weekdays_min = [[0x6CC], [0x62F], [0x633], [0x686], [0x67E], [0x62C], [0x634]],
     l_long_date_format = [(''LT'', js ''HH:mm''),
       (''LTS'', js ''HH:mm:ss''),
       (''L'', js ''DD/MM/YYYY''),
       (''LL'', js ''D MMMM YYYY''),
       (''LLL'', js ''D MMMM YYYY HH:mm''),
       (''LLLL'', js ''dddd, D MMMM YYYY HH:mm'')],
     l_calendar = [(''sameDay'', CalText ([0x5B, 0x627, 0x645, 0x631, 0x648, 0x632, 0x20, 0x633,
         0x627, 0x639, 0x62A] @ js ''] LT'')),
       (''nextDay'', CalText ([0x5B, 0x641, 0x631, 0x62F, 0x627, 0x20, 0x633, 0x627, 0x639, 0x62A] @
           js ''] LT'')),
       (''nextWeek'', CalText (js ''dddd ['' @ [0x633, 0x627, 0x639, 0x62A] @ js ''] LT'')),
       (''lastDay'', CalText ([0x5B, 0x62F, 0x6CC, 0x631, 0x648, 0x632, 0x20, 0x633, 0x627, 0x639,
           0x62A] @ js ''] LT'')),
       (''lastWeek'', CalText (js ''dddd ['' @ [0x67E, 0x6CC, 0x634, 0x5D, 0x20, 0x5B, 0x633, 0x627,
           0x639, 0x62A] @ js ''] LT'')),
       (''sameElse'', CalText (js ''L''))],
     l_relative_time = [(''future'', RelText [0x62F, 0x631, 0x20, 0x25, 0x73]),
       (''past'', RelText [0x25, 0x73, 0x20, 0x67E, 0x6CC, 0x634]),
       (''s'', RelText [0x686, 0x646, 0x62F, 0x20, 0x62B, 0x627, 0x646, 0x6CC, 0x647]),
       (''ss'', RelText [0x25, 0x64, 0x20, 0x62B, 0x627, 0x646, 0x6CC, 0x647]),
       (''m'', RelText [0x6CC, 0x6A9, 0x20, 0x62F, 0x642, 0x6CC, 0x642, 0x647]),
       (''mm'', RelText [0x25, 0x64, 0x20, 0x62F, 0x642, 0x6CC, 0x642, 0x647]),
       (''h'', RelText [0x6CC, 0x6A9, 0x20, 0x633, 0x627, 0x639, 0x62A]),
       (''hh'', RelText [0x25, 0x64, 0x20, 0x633, 0x627, 0x639, 0x62A]),
       (''d'', RelText [0x6CC, 0x6A9, 0x20, 0x631, 0x648, 0x632]),
       (''dd'', RelText [0x25, 0x64, 0x20, 0x631, 0x648, 0x632]),
       (''M'', RelText [0x6CC, 0x6A9, 0x20, 0x645, 0x627, 0x647]),
       (''MM'', RelText [0x25, 0x64, 0x20, 0x645, 0x627, 0x647]),
       (''y'', RelText [0x6CC, 0x6A9, 0x20, 0x633, 0x627, 0x644]),
       (''yy'', RelText [0x25, 0x64, 0x20, 0x633, 0x627, 0x644])],
     l_ordinal = Some (OrdText [0x25, 0x64, 0x645]),
     l_meridiem = Some fa_meridiem,
     l_is_pm = Some fa_isPM,
     l_meridiem_hour = None,
     l_preparse = Some fa_preparse,
     l_postformat = Some fa_postformat,
     l_week = Some (6, 12),
     l_meridiem_parse = Some (Regex False (Alt [Lit [0x642, 0x628, 0x644, 0x20, 0x627, 0x632, 0x20,
         0x638, 0x647, 0x631], Lit [0x628, 0x639, 0x62F, 0x20, 0x627, 0x632, 0x20, 0x638, 0x647,
         0x631]])),
     l_ordinal_parse = Some (Regex False (Seq [digits_1_2, Lit [0x645]])),
     l_parse = [],
     l_months_parse_exact = False,
     l_weekdays_parse_exact = True,
     l_invalid_date = None,
     l_eras = [],
     l_era_year = None \<rparr>"

text \<open>\<^verbatim>\<open>fi\<close> (line 211).\<close>

definition fi_r :: "nat \<Rightarrow> bool \<Rightarrow> js option" where
  "fi_r number isFuture = (if number < 10 then (if isFuture then js_nth [js ''nolla'', js ''yhden'',
      js ''kahden'', js ''kolmen'', js ''nelj'' @ [0xE4, 0x6E], js ''viiden'', js ''kuuden'', js
      ''seitsem'' @ [0xE4, 0x6E], js ''kahdeksan'', js ''yhdeks'' @ [0xE4, 0x6E]] number
      else js_nth [js ''nolla'', js ''yksi'', js ''kaksi'', js ''kolme'', js ''nelj'' @ [0xE4], js
          ''viisi'', js ''kuusi'', js ''seitsem'' @ [0xE4, 0x6E], js ''kahdeksan'', js ''yhdeks'' @
          [0xE4, 0x6E]] number)
      else Some (jnum number))"

definition fi_rel_i :: "nat \<Rightarrow> bool \<Rightarrow> string \<Rightarrow> bool \<Rightarrow>
    js option" where
  "fi_rel_i number withoutSuffix key isFuture = (if key = ''s'' then Some (if isFuture then js
      ''muutaman sekunnin''
      else js ''muutama sekunti'')
      else if key = ''ss'' then (let a = (if isFuture then js ''sekunnin''
      else js ''sekuntia'') in (let a = map_option (\<lambda>x. x @ a) (map_option (\<lambda>x. x @
          js '' '') (fi_r number isFuture)) in a))
      else if key = ''m'' then Some (if isFuture then js ''minuutin''
      else js ''minuutti'')
      else if key = ''mm'' then (let a = (if isFuture then js ''minuutin''
      else js ''minuuttia'') in (let a = map_option (\<lambda>x. x @ a) (map_option (\<lambda>x. x @
          js '' '') (fi_r number isFuture)) in a))
      else if key = ''h'' then Some (if isFuture then js ''tunnin''
      else js ''tunti'')
      else if key = ''hh'' then (let a = (if isFuture then js ''tunnin''
      else js ''tuntia'') in (let a = map_option (\<lambda>x. x @ a) (map_option (\<lambda>x. x @ js
          '' '') (fi_r number isFuture)) in a))
      else if key = ''d'' then Some (if isFuture then [0x70, 0xE4, 0x69, 0x76, 0xE4, 0x6E]
      else [0x70, 0xE4, 0x69, 0x76, 0xE4])
      else if key = ''dd'' then (let a = (if isFuture then [0x70, 0xE4, 0x69, 0x76, 0xE4, 0x6E]
      else [0x70, 0xE4, 0x69, 0x76, 0xE4, 0xE4]) in (let a = map_option (\<lambda>x. x @ a)
          (map_option (\<lambda>x. x @ js '' '') (fi_r number isFuture)) in a))
      else if key = ''M'' then Some (if isFuture then js ''kuukauden''
      else js ''kuukausi'')
      else if key = ''MM'' then (let a = (if isFuture then js ''kuukauden''
      else js ''kuukautta'') in (let a = map_option (\<lambda>x. x @ a) (map_option (\<lambda>x. x @
          js '' '') (fi_r number isFuture)) in a))
      else if key = ''y'' then Some (if isFuture then js ''vuoden''
      else js ''vuosi'')
      else if key = ''yy'' then (let a = (if isFuture then js ''vuoden''
      else js ''vuotta'') in (let a = map_option (\<lambda>x. x @ a) (map_option (\<lambda>x. x @ js
          '' '') (fi_r number isFuture)) in a))
      else (let a1 = map_option (\<lambda>x. x @ []) (map_option (\<lambda>x. x @ js '' '') (fi_r
          number isFuture)) in a1))"

definition locale_fi :: moment_locale where
  "locale_fi = \<lparr>
     l_abbr = ''fi'',
     l_months = Names [js ''tammikuu'', js ''helmikuu'', js ''maaliskuu'', js ''huhtikuu'', js
         ''toukokuu'', [0x6B, 0x65, 0x73, 0xE4, 0x6B, 0x75, 0x75], js ''hein'' @ [0xE4, 0x6B, 0x75,
         0x75], js ''elokuu'', js ''syyskuu'', js ''lokakuu'', js ''marraskuu'', js ''joulukuu''],
     l_months_short = Names [js ''tammi'', js ''helmi'', js ''maalis'', js ''huhti'', js ''touko'',
         [0x6B, 0x65, 0x73, 0xE4], js ''hein'' @ [0xE4], js ''elo'', js ''syys'', js ''loka'', js
         ''marras'', js ''joulu''],
     l_weekdays = Names [js ''sunnuntai'', js ''maanantai'', js ''tiistai'', js ''keskiviikko'', js
         ''torstai'', js ''perjantai'', js ''lauantai''],
     l_weekdays_short = [js ''su'', js ''ma'', js ''ti'', js ''ke'', js ''to'', js ''pe'', js
         ''la''],
     l_weekdays_min = [js ''su'', js ''ma'', js ''ti'', js ''ke'', js ''to'', js ''pe'', js ''la''],
     l_long_date_format = [(''LT'', js ''HH.mm''),
       (''LTS'', js ''HH.mm.ss''),
       (''L'', js ''DD.MM.YYYY''),
       (''LL'', js ''Do MMMM[ta] YYYY''),
       (''LLL'', js ''Do MMMM[ta] YYYY, [klo] HH.mm''),
       (''LLLL'', js ''dddd, Do MMMM[ta] YYYY, [klo] HH.mm''),
       (''l'', js ''D.M.YYYY''),
       (''ll'', js ''Do MMM YYYY''),
       (''lll'', js ''Do MMM YYYY, [klo] HH.mm''),
       (''llll'', js ''ddd, Do MMM YYYY, [klo] HH.mm'')],
     l_calendar = [(''sameDay'', CalText ([0x5B, 0x74, 0xE4, 0x6E, 0xE4, 0xE4] @ js
         ''n] [klo] LT'')),
       (''nextDay'', CalText (js ''[huomenna] [klo] LT'')),
       (''nextWeek'', CalText (js ''dddd [klo] LT'')),
       (''lastDay'', CalText (js ''[eilen] [klo] LT'')),
       (''lastWeek'', CalText (js ''[viime] dddd[na] [klo] LT'')),
       (''sameElse'', CalText (js ''L''))],
     l_relative_time = [(''future'', RelText (js ''%s p'' @ [0xE4, 0xE4, 0x73, 0x74, 0xE4])),
       (''past'', RelText (js ''%s sitten'')),
       (''s'', RelNum fi_rel_i),
       (''ss'', RelNum fi_rel_i),
       (''m'', RelNum fi_rel_i),
       (''mm'', RelNum fi_rel_i),
       (''h'', RelNum fi_rel_i),
       (''hh'', RelNum fi_rel_i),
       (''d'', RelNum fi_rel_i),
       (''dd'', RelNum fi_rel_i),
       (''M'', RelNum fi_rel_i),
       (''MM'', RelNum fi_rel_i),
       (''y'', RelNum fi_rel_i),
       (''yy'', RelNum fi_rel_i)],
     l_ordinal = Some (OrdText (js ''%d.'')),
     l_meridiem = None,
     l_is_pm = None,
     l_meridiem_hour = None,
     l_preparse = None,
     l_postformat = None,
     l_week = Some (1, 4),
     l_meridiem_parse = None,
     l_ordinal_parse = Some (Regex False (Seq [digits_1_2, Lit (js ''.'')])),
     l_parse = [],
     l_months_parse_exact = False,
     l_weekdays_parse_exact = False,
     l_invalid_date = None,
     l_eras = [],
     l_era_year = None \<rparr>"

text \<open>\<^verbatim>\<open>fil\<close> (line 319).\<close>

definition fil_ordinal :: "nat \<Rightarrow> string \<Rightarrow> js option" where
  "fil_ordinal number period = Some (jnum number)"

definition locale_fil :: moment_locale where
  "locale_fil = \<lparr>
     l_abbr = ''fil'',
     l_months = Names [js ''Enero'', js ''Pebrero'', js ''Marso'', js ''Abril'', js ''Mayo'', js
         ''Hunyo'', js ''Hulyo'', js ''Agosto'', js ''Setyembre'', js ''Oktubre'', js ''Nobyembre'',
         js ''Disyembre''],
     l_months_short = Names [js ''Ene'', js ''Peb'', js ''Mar'', js ''Abr'', js ''May'', js ''Hun'',
         js ''Hul'', js ''Ago'', js ''Set'', js ''Okt'', js ''Nob'', js ''Dis''],
     l_weekdays = Names [js ''Linggo'', js ''Lunes'', js ''Martes'', js ''Miyerkules'', js
         ''Huwebes'', js ''Biyernes'', js ''Sabado''],
     l_weekdays_short = [js ''Lin'', js ''Lun'', js ''Mar'', js ''Miy'', js ''Huw'', js ''Biy'', js
         ''Sab''],
     l_weekdays_min = [js ''Li'', js ''Lu'', js ''Ma'', js ''Mi'', js ''Hu'', js ''Bi'', js
         ''Sab''],
     l_long_date_format = [(''LT'', js ''HH:mm''),
       (''LTS'', js ''HH:mm:ss''),
       (''L'', js ''MM/D/YYYY''),
       (''LL'', js ''MMMM D, YYYY''),
       (''LLL'', js ''MMMM D, YYYY HH:mm''),
       (''LLLL'', js ''dddd, MMMM DD, YYYY HH:mm'')],
     l_calendar = [(''sameDay'', CalText (js ''LT [ngayong araw]'')),
       (''nextDay'', CalText (js ''[Bukas ng] LT'')),
       (''nextWeek'', CalText (js ''LT [sa susunod na] dddd'')),
       (''lastDay'', CalText (js ''LT [kahapon]'')),
       (''lastWeek'', CalText (js ''LT [noong nakaraang] dddd'')),
       (''sameElse'', CalText (js ''L''))],
     l_relative_time = [(''future'', RelText (js ''sa loob ng %s'')),
       (''past'', RelText (js ''%s ang nakalipas'')),
       (''s'', RelText (js ''ilang segundo'')),
       (''ss'', RelText (js ''%d segundo'')),
       (''m'', RelText (js ''isang minuto'')),
       (''mm'', RelText (js ''%d minuto'')),
       (''h'', RelText (js ''isang oras'')),
       (''hh'', RelText (js ''%d oras'')),
       (''d'', RelText (js ''isang araw'')),
       (''dd'', RelText (js ''%d araw'')),
       (''M'', RelText (js ''isang buwan'')),
       (''MM'', RelText (js ''%d buwan'')),
       (''y'', RelText (js ''isang taon'')),
       (''yy'', RelText (js ''%d taon''))],
     l_ordinal = Some (OrdFun fil_ordinal),
     l_meridiem = None,
     l_is_pm = None,
     l_meridiem_hour = None,
     l_preparse = None,
     l_postformat = None,
     l_week = Some (1, 4),
     l_meridiem_parse = None,
     l_ordinal_parse = Some (Regex False (digits_1_2)),
     l_parse = [],
     l_months_parse_exact = False,
     l_weekdays_parse_exact = False,
     l_invalid_date = None,
     l_eras = [],
     l_era_year = None \<rparr>"

text \<open>\<^verbatim>\<open>fo\<close> (line 11).\<close>

definition locale_fo :: moment_locale where
  "locale_fo = \<lparr>
     l_abbr = ''fo'',
     l_months = Names [js ''januar'', js ''februar'', js ''mars'', [0x61, 0x70, 0x72, 0xED, 0x6C],
         js ''mai'', js ''juni'', js ''juli'', js ''august'', js ''september'', js ''oktober'', js
         ''november'', js ''desember''],
     l_months_short = Names [js ''jan'', js ''feb'', js ''mar'', js ''apr'', js ''mai'', js ''jun'',
         js ''jul'', js ''aug'', js ''sep'', js ''okt'', js ''nov'', js ''des''],
     l_weekdays = Names [js ''sunnudagur'', [0x6D, 0xE1] @ js ''nadagur'', [0x74, 0xFD] @ js
         ''sdagur'', js ''mikudagur'', [0x68, 0xF3] @ js ''sdagur'', [0x66, 0x72, 0xED] @ js
         ''ggjadagur'', js ''leygardagur''],
     l_weekdays_short = [js ''sun'', [0x6D, 0xE1, 0x6E], [0x74, 0xFD, 0x73], js ''mik'', [0x68,
         0xF3, 0x73], [0x66, 0x72, 0xED], js ''ley''],
     l_weekdays_min = [js ''su'', [0x6D, 0xE1], [0x74, 0xFD], js ''mi'', [0x68, 0xF3], js ''fr'', js
         ''le''],
     l_long_date_format = [(''LT'', js ''HH:mm''),
       (''LTS'', js ''HH:mm:ss''),
       (''L'', js ''DD/MM/YYYY''),
       (''LL'', js ''D MMMM YYYY''),
       (''LLL'', js ''D MMMM YYYY HH:mm''),
       (''LLLL'', js ''dddd D. MMMM, YYYY HH:mm'')],
     l_calendar = [(''sameDay'', CalText ([0x5B, 0xCD] @ js '' dag kl.] LT'')),
       (''nextDay'', CalText ([0x5B, 0xCD] @ js '' morgin kl.] LT'')),
       (''nextWeek'', CalText (js ''dddd [kl.] LT'')),
       (''lastDay'', CalText ([0x5B, 0xCD, 0x20, 0x67, 0x6A, 0xE1] @ js ''r kl.] LT'')),
       (''lastWeek'', CalText ([0x5B, 0x73, 0xED, 0xF0] @ js ''stu] dddd [kl] LT'')),
       (''sameElse'', CalText (js ''L''))],
     l_relative_time = [(''future'', RelText (js ''um %s'')),
       (''past'', RelText (js ''%s s'' @ [0xED, 0xF0, 0x61, 0x6E, 0x69])),
       (''s'', RelText ([0x66, 0xE1] @ js '' sekund'')),
       (''ss'', RelText (js ''%d sekundir'')),
       (''m'', RelText (js ''ein minuttur'')),
       (''mm'', RelText (js ''%d minuttir'')),
       (''h'', RelText (js ''ein t'' @ [0xED, 0x6D, 0x69])),
       (''hh'', RelText (js ''%d t'' @ [0xED, 0x6D, 0x61, 0x72])),
       (''d'', RelText (js ''ein dagur'')),
       (''dd'', RelText (js ''%d dagar'')),
       (''M'', RelText (js ''ein m'' @ [0xE1, 0x6E, 0x61, 0xF0, 0x75, 0x72])),
       (''MM'', RelText (js ''%d m'' @ [0xE1, 0x6E, 0x61, 0xF0, 0x69, 0x72])),
       (''y'', RelText (js ''eitt '' @ [0xE1, 0x72])),
       (''yy'', RelText [0x25, 0x64, 0x20, 0xE1, 0x72])],
     l_ordinal = Some (OrdText (js ''%d.'')),
     l_meridiem = None,
     l_is_pm = None,
     l_meridiem_hour = None,
     l_preparse = None,
     l_postformat = None,
     l_week = Some (1, 4),
     l_meridiem_parse = None,
     l_ordinal_parse = Some (Regex False (Seq [digits_1_2, Lit (js ''.'')])),
     l_parse = [],
     l_months_parse_exact = False,
     l_weekdays_parse_exact = False,
     l_invalid_date = None,
     l_eras = [],
     l_era_year = None \<rparr>"

text \<open>\<^verbatim>\<open>fr\<close> (line 251).\<close>

definition fr_ordinal :: "nat \<Rightarrow> string \<Rightarrow> js option" where
  "fr_ordinal number period = Some (if period = ''D'' then jnum number @ (if number = 1 then js
      ''er''
      else [])
      else if period = ''w'' \<or> period = ''W'' then jnum number @ (if number = 1 then js ''re''
      else js ''e'')
      else jnum number @ (if number = 1 then js ''er''
      else js ''e''))"

definition fr_rx_i :: "regex list" where
  "fr_rx_i = [Regex True (Alt [Seq [Lit (js ''janv''), Opt (Lit (js ''.''))], Seq [Lit [0x66, 0xE9,
      0x76, 0x72], Opt (Lit (js ''.''))], Lit (js ''mars''), Seq [Lit (js ''avr''), Opt (Lit (js
      ''.''))], Lit (js ''mai''), Lit (js ''juin''), Seq [Lit (js ''juil''), Opt (Lit (js ''.''))],
      Lit [0x61, 0x6F, 0xFB, 0x74], Seq [Lit (js ''sept''), Opt (Lit (js ''.''))], Seq [Lit (js
      ''oct''), Opt (Lit (js ''.''))], Seq [Lit (js ''nov''), Opt (Lit (js ''.''))], Seq [Lit [0x64,
      0xE9, 0x63], Opt (Lit (js ''.''))], Lit (js ''janvier''), Lit ([0x66, 0xE9] @ js ''vrier''),
      Lit (js ''mars''), Lit (js ''avril''), Lit (js ''mai''), Lit (js ''juin''), Lit (js
      ''juillet''), Lit [0x61, 0x6F, 0xFB, 0x74], Lit (js ''septembre''), Lit (js ''octobre''), Lit
      (js ''novembre''), Lit ([0x64, 0xE9] @ js ''cembre'')])]"

definition fr_rx_r :: "regex list" where
  "fr_rx_r = [Regex True (Seq [Start, Lit (js ''janv'')]), Regex True (Seq [Start, Lit [0x66, 0xE9,
      0x76, 0x72]]), Regex True (Seq [Start, Lit (js ''mars'')]), Regex True (Seq [Start, Lit (js
      ''avr'')]), Regex True (Seq [Start, Lit (js ''mai'')]), Regex True (Seq [Start, Lit (js
      ''juin'')]), Regex True (Seq [Start, Lit (js ''juil'')]), Regex True (Seq [Start, Lit [0x61,
      0x6F, 0xFB, 0x74]]), Regex True (Seq [Start, Lit (js ''sept'')]), Regex True (Seq [Start, Lit
      (js ''oct'')]), Regex True (Seq [Start, Lit (js ''nov'')]), Regex True (Seq [Start, Lit [0x64,
      0xE9, 0x63]])]"

definition locale_fr :: moment_locale where
  "locale_fr = \<lparr>
     l_abbr = ''fr'',
     l_months = Names [js ''janvier'', [0x66, 0xE9] @ js ''vrier'', js ''mars'', js ''avril'', js
         ''mai'', js ''juin'', js ''juillet'', [0x61, 0x6F, 0xFB, 0x74], js ''septembre'', js
         ''octobre'', js ''novembre'', [0x64, 0xE9] @ js ''cembre''],
     l_months_short = Names [js ''janv.'', [0x66, 0xE9, 0x76, 0x72, 0x2E], js ''mars'', js ''avr.'',
         js ''mai'', js ''juin'', js ''juil.'', [0x61, 0x6F, 0xFB, 0x74], js ''sept.'', js ''oct.'',
         js ''nov.'', [0x64, 0xE9, 0x63, 0x2E]],
     l_weekdays = Names [js ''dimanche'', js ''lundi'', js ''mardi'', js ''mercredi'', js ''jeudi'',
         js ''vendredi'', js ''samedi''],
     l_weekdays_short = [js ''dim.'', js ''lun.'', js ''mar.'', js ''mer.'', js ''jeu.'', js
         ''ven.'', js ''sam.''],
     l_weekdays_min = [js ''di'', js ''lu'', js ''ma'', js ''me'', js ''je'', js ''ve'', js ''sa''],
     l_long_date_format = [(''LT'', js ''HH:mm''),
       (''LTS'', js ''HH:mm:ss''),
       (''L'', js ''DD/MM/YYYY''),
       (''LL'', js ''D MMMM YYYY''),
       (''LLL'', js ''D MMMM YYYY HH:mm''),
       (''LLLL'', js ''dddd D MMMM YYYY HH:mm'')],
     l_calendar = [(''sameDay'', CalText (js ''[Aujourd'' @ [0x2019] @ js ''hui '' @ [0xE0] @ js
         ''] LT'')),
       (''nextDay'', CalText (js ''[Demain '' @ [0xE0] @ js ''] LT'')),
       (''nextWeek'', CalText (js ''dddd ['' @ [0xE0] @ js ''] LT'')),
       (''lastDay'', CalText (js ''[Hier '' @ [0xE0] @ js ''] LT'')),
       (''lastWeek'', CalText (js ''dddd [dernier '' @ [0xE0] @ js ''] LT'')),
       (''sameElse'', CalText (js ''L''))],
     l_relative_time = [(''future'', RelText (js ''dans %s'')),
       (''past'', RelText (js ''il y a %s'')),
       (''s'', RelText (js ''quelques secondes'')),
       (''ss'', RelText (js ''%d secondes'')),
       (''m'', RelText (js ''une minute'')),
       (''mm'', RelText (js ''%d minutes'')),
       (''h'', RelText (js ''une heure'')),
       (''hh'', RelText (js ''%d heures'')),
       (''d'', RelText (js ''un jour'')),
       (''dd'', RelText (js ''%d jours'')),
       (''w'', RelText (js ''une semaine'')),
       (''ww'', RelText (js ''%d semaines'')),
       (''M'', RelText (js ''un mois'')),
       (''MM'', RelText (js ''%d mois'')),
       (''y'', RelText (js ''un an'')),
       (''yy'', RelText (js ''%d ans''))],
     l_ordinal = Some (OrdFun fr_ordinal),
     l_meridiem = None,
     l_is_pm = None,
     l_meridiem_hour = None,
     l_preparse = None,
     l_postformat = None,
     l_week = Some (1, 4),
     l_meridiem_parse = None,
     l_ordinal_parse = Some (Regex False (Seq [digits_1_2, Alt [Lit (js ''er''), Seq []]])),
     l_parse = [(''monthsRegex'', fr_rx_i), (''monthsShortRegex'', fr_rx_i), (''monthsStrictRegex'',
         [Regex True (Seq [Start, Alt [Lit (js ''janvier''), Lit ([0x66, 0xE9] @ js ''vrier''), Lit
         (js ''mars''), Lit (js ''avril''), Lit (js ''mai''), Lit (js ''juin''), Lit (js
         ''juillet''), Lit [0x61, 0x6F, 0xFB, 0x74], Lit (js ''septembre''), Lit (js ''octobre''),
         Lit (js ''novembre''), Lit ([0x64, 0xE9] @ js ''cembre'')]])]),
         (''monthsShortStrictRegex'', [Regex True (Alt [Seq [Lit (js ''janv''), Opt (Lit (js
         ''.''))], Seq [Lit [0x66, 0xE9, 0x76, 0x72], Opt (Lit (js ''.''))], Lit (js ''mars''), Seq
         [Lit (js ''avr''), Opt (Lit (js ''.''))], Lit (js ''mai''), Lit (js ''juin''), Seq [Lit (js
         ''juil''), Opt (Lit (js ''.''))], Lit [0x61, 0x6F, 0xFB, 0x74], Seq [Lit (js ''sept''), Opt
         (Lit (js ''.''))], Seq [Lit (js ''oct''), Opt (Lit (js ''.''))], Seq [Lit (js ''nov''), Opt
         (Lit (js ''.''))], Seq [Lit [0x64, 0xE9, 0x63], Opt (Lit (js ''.''))]])]),
         (''monthsParse'', fr_rx_r), (''longMonthsParse'', fr_rx_r), (''shortMonthsParse'',
         fr_rx_r)],
     l_months_parse_exact = False,
     l_weekdays_parse_exact = True,
     l_invalid_date = None,
     l_eras = [],
     l_era_year = None \<rparr>"

text \<open>\<^verbatim>\<open>fr-ca\<close> (line 325).\<close>

definition fr_ca_ordinal :: "nat \<Rightarrow> string \<Rightarrow> js option" where
  "fr_ca_ordinal number period = Some (if period = ''w'' \<or> period = ''W'' then jnum number @ (if
      number = 1 then js ''re''
      else js ''e'')
      else jnum number @ (if number = 1 then js ''er''
      else js ''e''))"

definition locale_fr_ca :: moment_locale where
  "locale_fr_ca = \<lparr>
     l_abbr = ''fr-ca'',
     l_months = Names [js ''janvier'', [0x66, 0xE9] @ js ''vrier'', js ''mars'', js ''avril'', js
         ''mai'', js ''juin'', js ''juillet'', [0x61, 0x6F, 0xFB, 0x74], js ''septembre'', js
         ''octobre'', js ''novembre'', [0x64, 0xE9] @ js ''cembre''],
     l_months_short = Names [js ''janv.'', [0x66, 0xE9, 0x76, 0x72, 0x2E], js ''mars'', js ''avr.'',
         js ''mai'', js ''juin'', js ''juil.'', [0x61, 0x6F, 0xFB, 0x74], js ''sept.'', js ''oct.'',
         js ''nov.'', [0x64, 0xE9, 0x63, 0x2E]],
     l_weekdays = Names [js ''dimanche'', js ''lundi'', js ''mardi'', js ''mercredi'', js ''jeudi'',
         js ''vendredi'', js ''samedi''],
     l_weekdays_short = [js ''dim.'', js ''lun.'', js ''mar.'', js ''mer.'', js ''jeu.'', js
         ''ven.'', js ''sam.''],
     l_weekdays_min = [js ''di'', js ''lu'', js ''ma'', js ''me'', js ''je'', js ''ve'', js ''sa''],
     l_long_date_format = [(''LT'', js ''HH:mm''),
       (''LTS'', js ''HH:mm:ss''),
       (''L'', js ''YYYY-MM-DD''),
       (''LL'', js ''D MMMM YYYY''),
       (''LLL'', js ''D MMMM YYYY HH:mm''),
       (''LLLL'', js ''dddd D MMMM YYYY HH:mm'')],
     l_calendar = [(''sameDay'', CalText (js ''[Aujourd'' @ [0x2019] @ js ''hui '' @ [0xE0] @ js
         ''] LT'')),
       (''nextDay'', CalText (js ''[Demain '' @ [0xE0] @ js ''] LT'')),
       (''nextWeek'', CalText (js ''dddd ['' @ [0xE0] @ js ''] LT'')),
       (''lastDay'', CalText (js ''[Hier '' @ [0xE0] @ js ''] LT'')),
       (''lastWeek'', CalText (js ''dddd [dernier '' @ [0xE0] @ js ''] LT'')),
       (''sameElse'', CalText (js ''L''))],
     l_relative_time = [(''future'', RelText (js ''dans %s'')),
       (''past'', RelText (js ''il y a %s'')),
       (''s'', RelText (js ''quelques secondes'')),
       (''ss'', RelText (js ''%d secondes'')),
       (''m'', RelText (js ''une minute'')),
       (''mm'', RelText (js ''%d minutes'')),
       (''h'', RelText (js ''une heure'')),
       (''hh'', RelText (js ''%d heures'')),
       (''d'', RelText (js ''un jour'')),
       (''dd'', RelText (js ''%d jours'')),
       (''M'', RelText (js ''un mois'')),
       (''MM'', RelText (js ''%d mois'')),
       (''y'', RelText (js ''un an'')),
       (''yy'', RelText (js ''%d ans''))],
     l_ordinal = Some (OrdFun fr_ca_ordinal),
     l_meridiem = None,
     l_is_pm = None,
     l_meridiem_hour = None,
     l_preparse = None,
     l_postformat = None,
     l_week = None,
     l_meridiem_parse = None,
     l_ordinal_parse = Some (Regex False (Seq [digits_1_2, Alt [Lit (js ''er''), Lit (js ''e'')]])),
     l_parse = [],
     l_months_parse_exact = True,
     l_weekdays_parse_exact = True,
     l_invalid_date = None,
     l_eras = [],
     l_era_year = None \<rparr>"

text \<open>\<^verbatim>\<open>fr-ch\<close> (line 21).\<close>

definition fr_ch_ordinal :: "nat \<Rightarrow> string \<Rightarrow> js option" where
  "fr_ch_ordinal number period = Some (if period = ''w'' \<or> period = ''W'' then jnum number @ (if
      number = 1 then js ''re''
      else js ''e'')
      else jnum number @ (if number = 1 then js ''er''
      else js ''e''))"

definition locale_fr_ch :: moment_locale where
  "locale_fr_ch = \<lparr>
     l_abbr = ''fr-ch'',
     l_months = Names [js ''janvier'', [0x66, 0xE9] @ js ''vrier'', js ''mars'', js ''avril'', js
         ''mai'', js ''juin'', js ''juillet'', [0x61, 0x6F, 0xFB, 0x74], js ''septembre'', js
         ''octobre'', js ''novembre'', [0x64, 0xE9] @ js ''cembre''],
     l_months_short = Names [js ''janv.'', [0x66, 0xE9, 0x76, 0x72, 0x2E], js ''mars'', js ''avr.'',
         js ''mai'', js ''juin'', js ''juil.'', [0x61, 0x6F, 0xFB, 0x74], js ''sept.'', js ''oct.'',
         js ''nov.'', [0x64, 0xE9, 0x63, 0x2E]],
     l_weekdays = Names [js ''dimanche'', js ''lundi'', js ''mardi'', js ''mercredi'', js ''jeudi'',
         js ''vendredi'', js ''samedi''],
     l_weekdays_short = [js ''dim.'', js ''lun.'', js ''mar.'', js ''mer.'', js ''jeu.'', js
         ''ven.'', js ''sam.''],
     l_weekdays_min = [js ''di'', js ''lu'', js ''ma'', js ''me'', js ''je'', js ''ve'', js ''sa''],
     l_long_date_format = [(''LT'', js ''HH:mm''),
       (''LTS'', js ''HH:mm:ss''),
       (''L'', js ''DD.MM.YYYY''),
       (''LL'', js ''D MMMM YYYY''),
       (''LLL'', js ''D MMMM YYYY HH:mm''),
       (''LLLL'', js ''dddd D MMMM YYYY HH:mm'')],
     l_calendar = [(''sameDay'', CalText (js ''[Aujourd'' @ [0x2019] @ js ''hui '' @ [0xE0] @ js
         ''] LT'')),
       (''nextDay'', CalText (js ''[Demain '' @ [0xE0] @ js ''] LT'')),
       (''nextWeek'', CalText (js ''dddd ['' @ [0xE0] @ js ''] LT'')),
       (''lastDay'', CalText (js ''[Hier '' @ [0xE0] @ js ''] LT'')),
       (''lastWeek'', CalText (js ''dddd [dernier '' @ [0xE0] @ js ''] LT'')),
       (''sameElse'', CalText (js ''L''))],
     l_relative_time = [(''future'', RelText (js ''dans %s'')),
       (''past'', RelText (js ''il y a %s'')),
       (''s'', RelText (js ''quelques secondes'')),
       (''ss'', RelText (js ''%d secondes'')),
       (''m'', RelText (js ''une minute'')),
       (''mm'', RelText (js ''%d minutes'')),
       (''h'', RelText (js ''une heure'')),
       (''hh'', RelText (js ''%d heures'')),
       (''d'', RelText (js ''un jour'')),
       (''dd'', RelText (js ''%d jours'')),
       (''M'', RelText (js ''un mois'')),
       (''MM'', RelText (js ''%d mois'')),
       (''y'', RelText (js ''un an'')),
       (''yy'', RelText (js ''%d ans''))],
     l_ordinal = Some (OrdFun fr_ch_ordinal),
     l_meridiem = None,
     l_is_pm = None,
     l_meridiem_hour = None,
     l_preparse = None,
     l_postformat = None,
     l_week = Some (1, 4),
     l_meridiem_parse = None,
     l_ordinal_parse = Some (Regex False (Seq [digits_1_2, Alt [Lit (js ''er''), Lit (js ''e'')]])),
     l_parse = [],
     l_months_parse_exact = True,
     l_weekdays_parse_exact = True,
     l_invalid_date = None,
     l_eras = [],
     l_era_year = None \<rparr>"

text \<open>\<^verbatim>\<open>fy\<close> (line 184).\<close>

definition fy_ordinal :: "nat \<Rightarrow> string \<Rightarrow> js option" where
  "fy_ordinal number period = Some (jnum number @ (if (number = 1 \<or> number = 8) \<or> number
      \<ge> 20 then js ''ste''
      else js ''de''))"

definition locale_fy :: moment_locale where
  "locale_fy = \<lparr>
     l_abbr = ''fy'',
     l_months = Names [js ''jannewaris'', js ''febrewaris'', js ''maart'', js ''april'', js
         ''maaie'', js ''juny'', js ''july'', js ''augustus'', js ''septimber'', js ''oktober'', js
         ''novimber'', js ''desimber''],
     l_months_short = NamesAlt [js ''jan.'', js ''feb.'', js ''mrt.'', js ''apr.'', js ''mai'', js
         ''jun.'', js ''jul.'', js ''aug.'', js ''sep.'', js ''okt.'', js ''nov.'', js ''des.''] [js
         ''jan'', js ''feb'', js ''mrt'', js ''apr'', js ''mai'', js ''jun'', js ''jul'', js
         ''aug'', js ''sep'', js ''okt'', js ''nov'', js ''des'']
       (Some (Regex False (Lit (js ''-MMM-'')))),
     l_weekdays = Names [js ''snein'', js ''moandei'', js ''tiisdei'', js ''woansdei'', js
         ''tongersdei'', js ''freed'', js ''sneon''],
     l_weekdays_short = [js ''si.'', js ''mo.'', js ''ti.'', js ''wo.'', js ''to.'', js ''fr.'', js
         ''so.''],
     l_weekdays_min = [js ''Si'', js ''Mo'', js ''Ti'', js ''Wo'', js ''To'', js ''Fr'', js ''So''],
     l_long_date_format = [(''LT'', js ''HH:mm''),
       (''LTS'', js ''HH:mm:ss''),
       (''L'', js ''DD-MM-YYYY''),
       (''LL'', js ''D MMMM YYYY''),
       (''LLL'', js ''D MMMM YYYY HH:mm''),
       (''LLLL'', js ''dddd D MMMM YYYY HH:mm'')],
     l_calendar = [(''sameDay'', CalText (js ''[hjoed om] LT'')),
       (''nextDay'', CalText (js ''[moarn om] LT'')),
       (''nextWeek'', CalText (js ''dddd [om] LT'')),
       (''lastDay'', CalText (js ''[juster om] LT'')),
       (''lastWeek'', CalText ([0x5B, 0xF4, 0x66, 0x72, 0xFB] @ js ''ne] dddd [om] LT'')),
       (''sameElse'', CalText (js ''L''))],
     l_relative_time = [(''future'', RelText (js ''oer %s'')),
       (''past'', RelText (js ''%s lyn'')),
       (''s'', RelText (js ''in pear sekonden'')),
       (''ss'', RelText (js ''%d sekonden'')),
       (''m'', RelText (js ''ien min'' @ [0xFA, 0x74])),
       (''mm'', RelText (js ''%d minuten'')),
       (''h'', RelText (js ''ien oere'')),
       (''hh'', RelText (js ''%d oeren'')),
       (''d'', RelText (js ''ien dei'')),
       (''dd'', RelText (js ''%d dagen'')),
       (''M'', RelText (js ''ien moanne'')),
       (''MM'', RelText (js ''%d moannen'')),
       (''y'', RelText (js ''ien jier'')),
       (''yy'', RelText (js ''%d jierren''))],
     l_ordinal = Some (OrdFun fy_ordinal),
     l_meridiem = None,
     l_is_pm = None,
     l_meridiem_hour = None,
     l_preparse = None,
     l_postformat = None,
     l_week = Some (1, 4),
     l_meridiem_parse = None,
     l_ordinal_parse = Some (Regex False (Seq [digits_1_2, Alt [Lit (js ''ste''), Lit (js
         ''de'')]])),
     l_parse = [],
     l_months_parse_exact = True,
     l_weekdays_parse_exact = True,
     l_invalid_date = None,
     l_eras = [],
     l_era_year = None \<rparr>"

text \<open>\<^verbatim>\<open>ga\<close> (line 124).\<close>

definition ga_ordinal :: "nat \<Rightarrow> string \<Rightarrow> js option" where
  "ga_ordinal number period = Some (let t = (if number = 1 then js ''d''
      else if number mod 10 = 2 then js ''na''
      else js ''mh'') in jnum number @ t)"

definition locale_ga :: moment_locale where
  "locale_ga = \<lparr>
     l_abbr = ''ga'',
     l_months = Names [[0x45, 0x61, 0x6E, 0xE1, 0x69, 0x72], js ''Feabhra'', [0x4D, 0xE1, 0x72,
         0x74, 0x61], js ''Aibre'' @ [0xE1, 0x6E], js ''Bealtaine'', js ''Meitheamh'', [0x49, 0xFA,
         0x69, 0x6C], [0x4C, 0xFA] @ js ''nasa'', [0x4D, 0x65, 0xE1, 0x6E, 0x20, 0x46, 0xF3] @ js
         ''mhair'', js ''Deireadh F'' @ [0xF3] @ js ''mhair'', js ''Samhain'', js ''Nollaig''],
     l_months_short = Names [js ''Ean'', js ''Feabh'', [0x4D, 0xE1, 0x72, 0x74], js ''Aib'', js
         ''Beal'', js ''Meith'', [0x49, 0xFA, 0x69, 0x6C], [0x4C, 0xFA, 0x6E], js ''M.F.'', js
         ''D.F.'', js ''Samh'', js ''Noll''],
     l_weekdays = Names [[0x44, 0xE9] @ js '' Domhnaigh'', [0x44, 0xE9] @ js '' Luain'', [0x44,
         0xE9, 0x20, 0x4D, 0xE1, 0x69, 0x72, 0x74], [0x44, 0xE9, 0x20, 0x43, 0xE9] @ js ''adaoin'',
         [0x44, 0xE9] @ js ''ardaoin'', [0x44, 0xE9] @ js '' hAoine'', [0x44, 0xE9] @ js
         '' Sathairn''],
     l_weekdays_short = [js ''Domh'', js ''Luan'', [0x4D, 0xE1, 0x69, 0x72, 0x74], [0x43, 0xE9,
         0x61, 0x64], [0x44, 0xE9, 0x61, 0x72], js ''Aoine'', js ''Sath''],
     l_weekdays_min = [js ''Do'', js ''Lu'', [0x4D, 0xE1], [0x43, 0xE9], [0x44, 0xE9], js ''A'', js
         ''Sa''],
     l_long_date_format = [(''LT'', js ''HH:mm''),
       (''LTS'', js ''HH:mm:ss''),
       (''L'', js ''DD/MM/YYYY''),
       (''LL'', js ''D MMMM YYYY''),
       (''LLL'', js ''D MMMM YYYY HH:mm''),
       (''LLLL'', js ''dddd, D MMMM YYYY HH:mm'')],
     l_calendar = [(''sameDay'', CalText (js ''[Inniu ag] LT'')),
       (''nextDay'', CalText ([0x5B, 0x41, 0x6D, 0xE1] @ js ''rach ag] LT'')),
       (''nextWeek'', CalText (js ''dddd [ag] LT'')),
       (''lastDay'', CalText (js ''[Inn'' @ [0xE9] @ js '' ag] LT'')),
       (''lastWeek'', CalText (js ''dddd [seo caite] [ag] LT'')),
       (''sameElse'', CalText (js ''L''))],
     l_relative_time = [(''future'', RelText (js ''i %s'')),
       (''past'', RelText ([0x25, 0x73, 0x20, 0xF3] @ js '' shin'')),
       (''s'', RelText ([0x63, 0xFA] @ js ''pla soicind'')),
       (''ss'', RelText (js ''%d soicind'')),
       (''m'', RelText [0x6E, 0xF3, 0x69, 0x6D, 0xE9, 0x61, 0x64]),
       (''mm'', RelText (js ''%d n'' @ [0xF3, 0x69, 0x6D, 0xE9, 0x61, 0x64])),
       (''h'', RelText (js ''uair an chloig'')),
       (''hh'', RelText (js ''%d uair an chloig'')),
       (''d'', RelText [0x6C, 0xE1]),
       (''dd'', RelText (js ''%d l'' @ [0xE1])),
       (''M'', RelText [0x6D, 0xED]),
       (''MM'', RelText (js ''%d m'' @ [0xED] @ js ''onna'')),
       (''y'', RelText (js ''bliain'')),
       (''yy'', RelText (js ''%d bliain''))],
     l_ordinal = Some (OrdFun ga_ordinal),
     l_meridiem = None,
     l_is_pm = None,
     l_meridiem_hour = None,
     l_preparse = None,
     l_postformat = None,
     l_week = Some (1, 4),
     l_meridiem_parse = None,
     l_ordinal_parse = Some (Regex False (Seq [digits_1_2, Alt [Lit (js ''d''), Lit (js ''na''), Lit
         (js ''mh'')]])),
     l_parse = [],
     l_months_parse_exact = True,
     l_weekdays_parse_exact = False,
     l_invalid_date = None,
     l_eras = [],
     l_era_year = None \<rparr>"

text \<open>\<^verbatim>\<open>gd\<close> (line 360).\<close>

definition gd_ordinal :: "nat \<Rightarrow> string \<Rightarrow> js option" where
  "gd_ordinal number period = Some (let t = (if number = 1 then js ''d''
      else if number mod 10 = 2 then js ''na''
      else js ''mh'') in jnum number @ t)"

definition locale_gd :: moment_locale where
  "locale_gd = \<lparr>
     l_abbr = ''gd'',
     l_months = Names [js ''Am Faoilleach'', js ''An Gearran'', js ''Am M'' @ [0xE0, 0x72, 0x74], js
         ''An Giblean'', js ''An C'' @ [0xE8] @ js ''itean'', js ''An t-'' @ [0xD2] @ js ''gmhios'',
         js ''An t-Iuchar'', js ''An L'' @ [0xF9] @ js ''nastal'', js ''An t-Sultain'', js ''An D''
         @ [0xE0] @ js ''mhair'', js ''An t-Samhain'', js ''An D'' @ [0xF9] @ js ''bhlachd''],
     l_months_short = Names [js ''Faoi'', js ''Gear'', [0x4D, 0xE0, 0x72, 0x74], js ''Gibl'', [0x43,
         0xE8, 0x69, 0x74], [0xD2, 0x67, 0x6D, 0x68], js ''Iuch'', [0x4C, 0xF9, 0x6E], js ''Sult'',
         [0x44, 0xE0, 0x6D, 0x68], js ''Samh'', [0x44, 0xF9, 0x62, 0x68]],
     l_weekdays = Names [[0x44, 0x69, 0x64, 0xF2] @ js ''mhnaich'', js ''Diluain'', [0x44, 0x69,
         0x6D, 0xE0, 0x69, 0x72, 0x74], js ''Diciadain'', js ''Diardaoin'', js ''Dihaoine'', js
         ''Disathairne''],
     l_weekdays_short = [js ''Did'', js ''Dil'', js ''Dim'', js ''Dic'', js ''Dia'', js ''Dih'', js
         ''Dis''],
     l_weekdays_min = [[0x44, 0xF2], js ''Lu'', [0x4D, 0xE0], js ''Ci'', js ''Ar'', js ''Ha'', js
         ''Sa''],
     l_long_date_format = [(''LT'', js ''HH:mm''),
       (''LTS'', js ''HH:mm:ss''),
       (''L'', js ''DD/MM/YYYY''),
       (''LL'', js ''D MMMM YYYY''),
       (''LLL'', js ''D MMMM YYYY HH:mm''),
       (''LLLL'', js ''dddd, D MMMM YYYY HH:mm'')],
     l_calendar = [(''sameDay'', CalText (js ''[An-diugh aig] LT'')),
       (''nextDay'', CalText (js ''[A-m'' @ [0xE0] @ js ''ireach aig] LT'')),
       (''nextWeek'', CalText (js ''dddd [aig] LT'')),
       (''lastDay'', CalText (js ''[An-d'' @ [0xE8] @ js '' aig] LT'')),
       (''lastWeek'', CalText (js ''dddd [seo chaidh] [aig] LT'')),
       (''sameElse'', CalText (js ''L''))],
     l_relative_time = [(''future'', RelText (js ''ann an %s'')),
       (''past'', RelText (js ''bho chionn %s'')),
       (''s'', RelText (js ''beagan diogan'')),
       (''ss'', RelText (js ''%d diogan'')),
       (''m'', RelText (js ''mionaid'')),
       (''mm'', RelText (js ''%d mionaidean'')),
       (''h'', RelText (js ''uair'')),
       (''hh'', RelText (js ''%d uairean'')),
       (''d'', RelText (js ''latha'')),
       (''dd'', RelText (js ''%d latha'')),
       (''M'', RelText [0x6D, 0xEC, 0x6F, 0x73]),
       (''MM'', RelText (js ''%d m'' @ [0xEC] @ js ''osan'')),
       (''y'', RelText (js ''bliadhna'')),
       (''yy'', RelText (js ''%d bliadhna''))],
     l_ordinal = Some (OrdFun gd_ordinal),
     l_meridiem = None,
     l_is_pm = None,
     l_meridiem_hour = None,
     l_preparse = None,
     l_postformat = None,
     l_week = Some (1, 4),
     l_meridiem_parse = None,
     l_ordinal_parse = Some (Regex False (Seq [digits_1_2, Alt [Lit (js ''d''), Lit (js ''na''), Lit
         (js ''mh'')]])),
     l_parse = [],
     l_months_parse_exact = True,
     l_weekdays_parse_exact = False,
     l_invalid_date = None,
     l_eras = [],
     l_era_year = None \<rparr>"

text \<open>\<^verbatim>\<open>gl\<close> (line 221).\<close>

definition gl_rel_future :: "js \<Rightarrow> js option" where
  "gl_rel_future s = Some (if js_starts_with (js ''un'') s then (js ''n'') @ s
      else (js ''en '') @ s)"

definition gl_sameDay :: "nat \<Rightarrow> nat \<Rightarrow> bool \<Rightarrow> js option" where
  "gl_sameDay day hours sameWeek = Some (js ''[hoxe '' @ (if hours \<noteq> 1 then [0xE1, 0x73]
      else [0xE1]) @ js ''] LT'')"

definition gl_nextDay :: "nat \<Rightarrow> nat \<Rightarrow> bool \<Rightarrow> js option" where
  "gl_nextDay day hours sameWeek = Some ([0x5B, 0x6D, 0x61, 0xF1, 0xE1, 0x20] @ (if hours \<noteq> 1
      then [0xE1, 0x73]
      else [0xE1]) @ js ''] LT'')"

definition gl_nextWeek :: "nat \<Rightarrow> nat \<Rightarrow> bool \<Rightarrow> js option" where
  "gl_nextWeek day hours sameWeek = Some (js ''dddd ['' @ (if hours \<noteq> 1 then [0xE1, 0x73]
      else js ''a'') @ js ''] LT'')"

definition gl_lastDay :: "nat \<Rightarrow> nat \<Rightarrow> bool \<Rightarrow> js option" where
  "gl_lastDay day hours sameWeek = Some (js ''[onte '' @ (if hours \<noteq> 1 then [0xE1]
      else js ''a'') @ js ''] LT'')"

definition gl_lastWeek :: "nat \<Rightarrow> nat \<Rightarrow> bool \<Rightarrow> js option" where
  "gl_lastWeek day hours sameWeek = Some (js ''[o] dddd [pasado '' @ (if hours \<noteq> 1 then
      [0xE1, 0x73]
      else js ''a'') @ js ''] LT'')"

definition locale_gl :: moment_locale where
  "locale_gl = \<lparr>
     l_abbr = ''gl'',
     l_months = Names [js ''xaneiro'', js ''febreiro'', js ''marzo'', js ''abril'', js ''maio'',
         [0x78, 0x75, 0xF1, 0x6F], js ''xullo'', js ''agosto'', js ''setembro'', js ''outubro'', js
         ''novembro'', js ''decembro''],
     l_months_short = Names [js ''xan.'', js ''feb.'', js ''mar.'', js ''abr.'', js ''mai.'', [0x78,
         0x75, 0xF1, 0x2E], js ''xul.'', js ''ago.'', js ''set.'', js ''out.'', js ''nov.'', js
         ''dec.''],
     l_weekdays = Names [js ''domingo'', js ''luns'', js ''martes'', [0x6D, 0xE9] @ js ''rcores'',
         js ''xoves'', js ''venres'', [0x73, 0xE1] @ js ''bado''],
     l_weekdays_short = [js ''dom.'', js ''lun.'', js ''mar.'', [0x6D, 0xE9, 0x72, 0x2E], js
         ''xov.'', js ''ven.'', [0x73, 0xE1, 0x62, 0x2E]],
     l_weekdays_min = [js ''do'', js ''lu'', js ''ma'', [0x6D, 0xE9], js ''xo'', js ''ve'', [0x73,
         0xE1]],
     l_long_date_format = [(''LT'', js ''H:mm''),
       (''LTS'', js ''H:mm:ss''),
       (''L'', js ''DD/MM/YYYY''),
       (''LL'', js ''D [de] MMMM [de] YYYY''),
       (''LLL'', js ''D [de] MMMM [de] YYYY H:mm''),
       (''LLLL'', js ''dddd, D [de] MMMM [de] YYYY H:mm'')],
     l_calendar = [(''sameDay'', CalFun gl_sameDay),
       (''nextDay'', CalFun gl_nextDay),
       (''nextWeek'', CalFun gl_nextWeek),
       (''lastDay'', CalFun gl_lastDay),
       (''lastWeek'', CalFun gl_lastWeek),
       (''sameElse'', CalText (js ''L''))],
     l_relative_time = [(''future'', RelStr gl_rel_future),
       (''past'', RelText (js ''hai %s'')),
       (''s'', RelText (js ''uns segundos'')),
       (''ss'', RelText (js ''%d segundos'')),
       (''m'', RelText (js ''un minuto'')),
       (''mm'', RelText (js ''%d minutos'')),
       (''h'', RelText (js ''unha hora'')),
       (''hh'', RelText (js ''%d horas'')),
       (''d'', RelText (js ''un d'' @ [0xED, 0x61])),
       (''dd'', RelText (js ''%d d'' @ [0xED, 0x61, 0x73])),
       (''M'', RelText (js ''un mes'')),
       (''MM'', RelText (js ''%d meses'')),
       (''y'', RelText (js ''un ano'')),
       (''yy'', RelText (js ''%d anos''))],
     l_ordinal = Some (OrdText [0x25, 0x64, 0xBA]),
     l_meridiem = None,
     l_is_pm = None,
     l_meridiem_hour = None,
     l_preparse = None,
     l_postformat = None,
     l_week = Some (1, 4),
     l_meridiem_parse = None,
     l_ordinal_parse = Some (Regex False (Seq [digits_1_2, Lit [0xBA]])),
     l_parse = [],
     l_months_parse_exact = True,
     l_weekdays_parse_exact = True,
     l_invalid_date = None,
     l_eras = [],
     l_era_year = None \<rparr>"

text \<open>\<^verbatim>\<open>gom-deva\<close> (line 257).\<close>

definition gom_deva_rel_t :: "nat \<Rightarrow> bool \<Rightarrow> string \<Rightarrow> bool
    \<Rightarrow> js option" where
  "gom_deva_rel_t number withoutSuffix key isFuture = (if isFuture then Option.bind (map_of [(''s'',
      [[0x925, 0x94B, 0x921, 0x92F, 0x93E, 0x20, 0x938, 0x945, 0x915, 0x902, 0x921, 0x93E, 0x902,
      0x928, 0x940], [0x925, 0x94B, 0x921, 0x947, 0x20, 0x938, 0x945, 0x915, 0x902, 0x921]]),
      (''ss'', [jnum number @ [0x20, 0x938, 0x945, 0x915, 0x902, 0x921, 0x93E, 0x902, 0x928, 0x940],
      jnum number @ [0x20, 0x938, 0x945, 0x915, 0x902, 0x921]]), (''m'', [[0x90F, 0x915, 0x93E,
      0x20, 0x92E, 0x93F, 0x923, 0x91F, 0x93E, 0x928], [0x90F, 0x915, 0x20, 0x92E, 0x93F, 0x928,
      0x942, 0x91F]]), (''mm'', [jnum number @ [0x20, 0x92E, 0x93F, 0x923, 0x91F, 0x93E, 0x902,
      0x928, 0x940], jnum number @ [0x20, 0x92E, 0x93F, 0x923, 0x91F, 0x93E, 0x902]]), (''h'',
      [[0x90F, 0x915, 0x93E, 0x20, 0x935, 0x930, 0x93E, 0x928], [0x90F, 0x915, 0x20, 0x935,
      0x930]]), (''hh'', [jnum number @ [0x20, 0x935, 0x930, 0x93E, 0x902, 0x928, 0x940], jnum
      number @ [0x20, 0x935, 0x930, 0x93E, 0x902]]), (''d'', [[0x90F, 0x915, 0x93E, 0x20, 0x926,
      0x93F, 0x938, 0x93E, 0x928], [0x90F, 0x915, 0x20, 0x926, 0x940, 0x938]]), (''dd'', [jnum
      number @ [0x20, 0x926, 0x93F, 0x938, 0x93E, 0x902, 0x928, 0x940], jnum number @ [0x20, 0x926,
      0x940, 0x938]]), (''M'', [[0x90F, 0x915, 0x93E, 0x20, 0x92E, 0x94D, 0x939, 0x92F, 0x928,
      0x94D, 0x92F, 0x93E, 0x928], [0x90F, 0x915, 0x20, 0x92E, 0x94D, 0x939, 0x92F, 0x928, 0x94B]]),
      (''MM'', [jnum number @ [0x20, 0x92E, 0x94D, 0x939, 0x92F, 0x928, 0x94D, 0x92F, 0x93E, 0x928,
      0x940], jnum number @ [0x20, 0x92E, 0x94D, 0x939, 0x92F, 0x928, 0x947]]), (''y'', [[0x90F,
      0x915, 0x93E, 0x20, 0x935, 0x930, 0x94D, 0x938, 0x93E, 0x928], [0x90F, 0x915, 0x20, 0x935,
      0x930, 0x94D, 0x938]]), (''yy'', [jnum number @ [0x20, 0x935, 0x930, 0x94D, 0x938, 0x93E,
      0x902, 0x928, 0x940], jnum number @ [0x20, 0x935, 0x930, 0x94D, 0x938, 0x93E, 0x902]])] key)
      (\<lambda>xs. js_nth xs 0)
      else Option.bind (map_of [(''s'', [[0x925, 0x94B, 0x921, 0x92F, 0x93E, 0x20, 0x938, 0x945,
          0x915, 0x902, 0x921, 0x93E, 0x902, 0x928, 0x940], [0x925, 0x94B, 0x921, 0x947, 0x20,
          0x938, 0x945, 0x915, 0x902, 0x921]]), (''ss'', [jnum number @ [0x20, 0x938, 0x945, 0x915,
          0x902, 0x921, 0x93E, 0x902, 0x928, 0x940], jnum number @ [0x20, 0x938, 0x945, 0x915,
          0x902, 0x921]]), (''m'', [[0x90F, 0x915, 0x93E, 0x20, 0x92E, 0x93F, 0x923, 0x91F, 0x93E,
          0x928], [0x90F, 0x915, 0x20, 0x92E, 0x93F, 0x928, 0x942, 0x91F]]), (''mm'', [jnum number @
          [0x20, 0x92E, 0x93F, 0x923, 0x91F, 0x93E, 0x902, 0x928, 0x940], jnum number @ [0x20,
          0x92E, 0x93F, 0x923, 0x91F, 0x93E, 0x902]]), (''h'', [[0x90F, 0x915, 0x93E, 0x20, 0x935,
          0x930, 0x93E, 0x928], [0x90F, 0x915, 0x20, 0x935, 0x930]]), (''hh'', [jnum number @ [0x20,
          0x935, 0x930, 0x93E, 0x902, 0x928, 0x940], jnum number @ [0x20, 0x935, 0x930, 0x93E,
          0x902]]), (''d'', [[0x90F, 0x915, 0x93E, 0x20, 0x926, 0x93F, 0x938, 0x93E, 0x928], [0x90F,
          0x915, 0x20, 0x926, 0x940, 0x938]]), (''dd'', [jnum number @ [0x20, 0x926, 0x93F, 0x938,
          0x93E, 0x902, 0x928, 0x940], jnum number @ [0x20, 0x926, 0x940, 0x938]]), (''M'', [[0x90F,
          0x915, 0x93E, 0x20, 0x92E, 0x94D, 0x939, 0x92F, 0x928, 0x94D, 0x92F, 0x93E, 0x928],
          [0x90F, 0x915, 0x20, 0x92E, 0x94D, 0x939, 0x92F, 0x928, 0x94B]]), (''MM'', [jnum number @
          [0x20, 0x92E, 0x94D, 0x939, 0x92F, 0x928, 0x94D, 0x92F, 0x93E, 0x928, 0x940], jnum number
          @ [0x20, 0x92E, 0x94D, 0x939, 0x92F, 0x928, 0x947]]), (''y'', [[0x90F, 0x915, 0x93E, 0x20,
          0x935, 0x930, 0x94D, 0x938, 0x93E, 0x928], [0x90F, 0x915, 0x20, 0x935, 0x930, 0x94D,
          0x938]]), (''yy'', [jnum number @ [0x20, 0x935, 0x930, 0x94D, 0x938, 0x93E, 0x902, 0x928,
          0x940], jnum number @ [0x20, 0x935, 0x930, 0x94D, 0x938, 0x93E, 0x902]])] key)
          (\<lambda>xs. js_nth xs 1))"

definition gom_deva_ordinal :: "nat \<Rightarrow> string \<Rightarrow> js option" where
  "gom_deva_ordinal number period = Some (if period = ''D'' then jnum number @ [0x935, 0x947, 0x930]
      else jnum number)"

definition gom_deva_meridiem :: "nat \<Rightarrow> nat \<Rightarrow> bool \<Rightarrow> js" where
  "gom_deva_meridiem hour minute isLower = (if hour < 4 then [0x930, 0x93E, 0x924, 0x940]
      else if hour < 12 then [0x938, 0x915, 0x93E, 0x933, 0x940, 0x902]
      else if hour < 16 then [0x926, 0x928, 0x92A, 0x93E, 0x930, 0x93E, 0x902]
      else if hour < 20 then [0x938, 0x93E, 0x902, 0x91C, 0x947]
      else [0x930, 0x93E, 0x924, 0x940])"

definition gom_deva_meridiemHour :: "nat \<Rightarrow> js \<Rightarrow> nat option" where
  "gom_deva_meridiemHour hour meridiem = (let hour = (if hour = 12 then 0
      else hour) in (if meridiem = [0x930, 0x93E, 0x924, 0x940] then Some (if hour < 4 then hour
      else hour + 12)
      else if meridiem = [0x938, 0x915, 0x93E, 0x933, 0x940, 0x902] then Some hour
      else if meridiem = [0x926, 0x928, 0x92A, 0x93E, 0x930, 0x93E, 0x902] then Some (if hour > 12
          then hour
      else hour + 12)
      else if meridiem = [0x938, 0x93E, 0x902, 0x91C, 0x947] then Some (hour + 12)
      else None))"

definition locale_gom_deva :: moment_locale where
  "locale_gom_deva = \<lparr>
     l_abbr = ''gom-deva'',
     l_months = NamesAlt [[0x91C, 0x93E, 0x928, 0x947, 0x935, 0x93E, 0x930, 0x940], [0x92B, 0x947,
         0x92C, 0x94D, 0x930, 0x941, 0x935, 0x93E, 0x930, 0x940], [0x92E, 0x93E, 0x930, 0x94D,
         0x91A], [0x90F, 0x92A, 0x94D, 0x930, 0x940, 0x932], [0x92E, 0x947], [0x91C, 0x942, 0x928],
         [0x91C, 0x941, 0x932, 0x92F], [0x911, 0x917, 0x938, 0x94D, 0x91F], [0x938, 0x92A, 0x94D,
         0x91F, 0x947, 0x902, 0x92C, 0x930], [0x911, 0x915, 0x94D, 0x91F, 0x94B, 0x92C, 0x930],
         [0x928, 0x94B, 0x935, 0x94D, 0x939, 0x947, 0x902, 0x92C, 0x930], [0x921, 0x93F, 0x938,
         0x947, 0x902, 0x92C, 0x930]] [[0x91C, 0x93E, 0x928, 0x947, 0x935, 0x93E, 0x930, 0x940,
         0x91A, 0x94D, 0x92F, 0x93E], [0x92B, 0x947, 0x92C, 0x94D, 0x930, 0x941, 0x935, 0x93E,
         0x930, 0x940, 0x91A, 0x94D, 0x92F, 0x93E], [0x92E, 0x93E, 0x930, 0x94D, 0x91A, 0x93E,
         0x91A, 0x94D, 0x92F, 0x93E], [0x90F, 0x92A, 0x94D, 0x930, 0x940, 0x932, 0x93E, 0x91A,
         0x94D, 0x92F, 0x93E], [0x92E, 0x947, 0x92F, 0x93E, 0x91A, 0x94D, 0x92F, 0x93E], [0x91C,
         0x942, 0x928, 0x93E, 0x91A, 0x94D, 0x92F, 0x93E], [0x91C, 0x941, 0x932, 0x92F, 0x93E,
         0x91A, 0x94D, 0x92F, 0x93E], [0x911, 0x917, 0x938, 0x94D, 0x91F, 0x93E, 0x91A, 0x94D,
         0x92F, 0x93E], [0x938, 0x92A, 0x94D, 0x91F, 0x947, 0x902, 0x92C, 0x930, 0x93E, 0x91A,
         0x94D, 0x92F, 0x93E], [0x911, 0x915, 0x94D, 0x91F, 0x94B, 0x92C, 0x930, 0x93E, 0x91A,
         0x94D, 0x92F, 0x93E], [0x928, 0x94B, 0x935, 0x94D, 0x939, 0x947, 0x902, 0x92C, 0x930,
         0x93E, 0x91A, 0x94D, 0x92F, 0x93E], [0x921, 0x93F, 0x938, 0x947, 0x902, 0x92C, 0x930,
         0x93E, 0x91A, 0x94D, 0x92F, 0x93E]]
       (Some (Regex False (Seq [Lit (js ''MMMM''), Plus (Cls [(0x9, 0xD), (0x20, 0x20), (0xA0,
           0xA0), (0x1680, 0x1680), (0x2000, 0x200A), (0x2028, 0x2029), (0x202F, 0x202F), (0x205F,
           0x205F), (0x3000, 0x3000), (0xFEFF, 0xFEFF)]), Lit (js ''D''), Opt (Cls [(0x6F, 0x6F),
           (0x44, 0x44)])]))),
     l_months_short = Names [[0x91C, 0x93E, 0x928, 0x947, 0x2E], [0x92B, 0x947, 0x92C, 0x94D, 0x930,
         0x941, 0x2E], [0x92E, 0x93E, 0x930, 0x94D, 0x91A], [0x90F, 0x92A, 0x94D, 0x930, 0x940,
         0x2E], [0x92E, 0x947], [0x91C, 0x942, 0x928], [0x91C, 0x941, 0x932, 0x2E], [0x911, 0x917,
         0x2E], [0x938, 0x92A, 0x94D, 0x91F, 0x947, 0x902, 0x2E], [0x911, 0x915, 0x94D, 0x91F,
         0x94B, 0x2E], [0x928, 0x94B, 0x935, 0x94D, 0x939, 0x947, 0x902, 0x2E], [0x921, 0x93F,
         0x938, 0x947, 0x902, 0x2E]],
     l_weekdays = Names [[0x906, 0x92F, 0x924, 0x93E, 0x930], [0x938, 0x94B, 0x92E, 0x93E, 0x930],
         [0x92E, 0x902, 0x917, 0x933, 0x93E, 0x930], [0x92C, 0x941, 0x927, 0x935, 0x93E, 0x930],
         [0x92C, 0x93F, 0x930, 0x947, 0x938, 0x94D, 0x924, 0x93E, 0x930], [0x938, 0x941, 0x915,
         0x94D, 0x930, 0x93E, 0x930], [0x936, 0x947, 0x928, 0x935, 0x93E, 0x930]],
     l_weekdays_short = [[0x906, 0x92F, 0x924, 0x2E], [0x938, 0x94B, 0x92E, 0x2E], [0x92E, 0x902,
         0x917, 0x933, 0x2E], [0x92C, 0x941, 0x927, 0x2E], [0x92C, 0x94D, 0x930, 0x947, 0x938,
         0x94D, 0x924, 0x2E], [0x938, 0x941, 0x915, 0x94D, 0x930, 0x2E], [0x936, 0x947, 0x928,
         0x2E]],
     l_weekdays_min = [[0x906], [0x938, 0x94B], [0x92E, 0x902], [0x92C, 0x941], [0x92C, 0x94D,
         0x930, 0x947], [0x938, 0x941], [0x936, 0x947]],
     l_long_date_format = [(''LT'', js ''A h:mm ['' @ [0x935, 0x93E, 0x91C, 0x924, 0x93E, 0x902,
         0x5D]),
       (''LTS'', js ''A h:mm:ss ['' @ [0x935, 0x93E, 0x91C, 0x924, 0x93E, 0x902, 0x5D]),
       (''L'', js ''DD-MM-YYYY''),
       (''LL'', js ''D MMMM YYYY''),
       (''LLL'', js ''D MMMM YYYY A h:mm ['' @ [0x935, 0x93E, 0x91C, 0x924, 0x93E, 0x902, 0x5D]),
       (''LLLL'', js ''dddd, MMMM Do, YYYY, A h:mm ['' @ [0x935, 0x93E, 0x91C, 0x924, 0x93E, 0x902,
           0x5D]),
       (''llll'', js ''ddd, D MMM YYYY, A h:mm ['' @ [0x935, 0x93E, 0x91C, 0x924, 0x93E, 0x902,
           0x5D])],
     l_calendar = [(''sameDay'', CalText ([0x5B, 0x906, 0x92F, 0x91C] @ js ''] LT'')),
       (''nextDay'', CalText ([0x5B, 0x92B, 0x93E, 0x932, 0x94D, 0x92F, 0x93E, 0x902] @ js
           ''] LT'')),
       (''nextWeek'', CalText ([0x5B, 0x92B, 0x941, 0x921, 0x932, 0x94B] @ js ''] dddd[,] LT'')),
       (''lastDay'', CalText ([0x5B, 0x915, 0x93E, 0x932] @ js ''] LT'')),
       (''lastWeek'', CalText ([0x5B, 0x92B, 0x93E, 0x91F, 0x932, 0x94B] @ js ''] dddd[,] LT'')),
       (''sameElse'', CalText (js ''L''))],
     l_relative_time = [(''future'', RelText (js ''%s'')),
       (''past'', RelText [0x25, 0x73, 0x20, 0x906, 0x926, 0x940, 0x902]),
       (''s'', RelNum gom_deva_rel_t),
       (''ss'', RelNum gom_deva_rel_t),
       (''m'', RelNum gom_deva_rel_t),
       (''mm'', RelNum gom_deva_rel_t),
       (''h'', RelNum gom_deva_rel_t),
       (''hh'', RelNum gom_deva_rel_t),
       (''d'', RelNum gom_deva_rel_t),
       (''dd'', RelNum gom_deva_rel_t),
       (''M'', RelNum gom_deva_rel_t),
       (''MM'', RelNum gom_deva_rel_t),
       (''y'', RelNum gom_deva_rel_t),
       (''yy'', RelNum gom_deva_rel_t)],
     l_ordinal = Some (OrdFun gom_deva_ordinal),
     l_meridiem = Some gom_deva_meridiem,
     l_is_pm = None,
     l_meridiem_hour = Some gom_deva_meridiemHour,
     l_preparse = None,
     l_postformat = None,
     l_week = Some (0, 3),
     l_meridiem_parse = Some (Regex False (Alt [Lit [0x930, 0x93E, 0x924, 0x940], Lit [0x938, 0x915,
         0x93E, 0x933, 0x940, 0x902], Lit [0x926, 0x928, 0x92A, 0x93E, 0x930, 0x93E, 0x902], Lit
         [0x938, 0x93E, 0x902, 0x91C, 0x947]])),
     l_ordinal_parse = Some (Regex False (Seq [digits_1_2, Lit [0x935, 0x947, 0x930]])),
     l_parse = [],
     l_months_parse_exact = True,
     l_weekdays_parse_exact = True,
     l_invalid_date = None,
     l_eras = [],
     l_era_year = None \<rparr>"

text \<open>\<^verbatim>\<open>gom-latn\<close> (line 19).\<close>

definition gom_latn_rel_t :: "nat \<Rightarrow> bool \<Rightarrow> string \<Rightarrow> bool
    \<Rightarrow> js option" where
  "gom_latn_rel_t number withoutSuffix key isFuture = (if isFuture then Option.bind (map_of [(''s'',
      [js ''thoddea sekondamni'', js ''thodde sekond'']), (''ss'', [jnum number @ js
      '' sekondamni'', jnum number @ js '' sekond'']), (''m'', [js ''eka mintan'', js
      ''ek minut'']), (''mm'', [jnum number @ js '' mintamni'', jnum number @ js '' mintam'']),
      (''h'', [js ''eka voran'', js ''ek vor'']), (''hh'', [jnum number @ js '' voramni'', jnum
      number @ js '' voram'']), (''d'', [js ''eka disan'', js ''ek dis'']), (''dd'', [jnum number @
      js '' disamni'', jnum number @ js '' dis'']), (''M'', [js ''eka mhoinean'', js
      ''ek mhoino'']), (''MM'', [jnum number @ js '' mhoineamni'', jnum number @ js '' mhoine'']),
      (''y'', [js ''eka vorsan'', js ''ek voros'']), (''yy'', [jnum number @ js '' vorsamni'', jnum
      number @ js '' vorsam''])] key) (\<lambda>xs. js_nth xs 0)
      else Option.bind (map_of [(''s'', [js ''thoddea sekondamni'', js ''thodde sekond'']), (''ss'',
          [jnum number @ js '' sekondamni'', jnum number @ js '' sekond'']), (''m'', [js
          ''eka mintan'', js ''ek minut'']), (''mm'', [jnum number @ js '' mintamni'', jnum number @
          js '' mintam'']), (''h'', [js ''eka voran'', js ''ek vor'']), (''hh'', [jnum number @ js
          '' voramni'', jnum number @ js '' voram'']), (''d'', [js ''eka disan'', js ''ek dis'']),
          (''dd'', [jnum number @ js '' disamni'', jnum number @ js '' dis'']), (''M'', [js
          ''eka mhoinean'', js ''ek mhoino'']), (''MM'', [jnum number @ js '' mhoineamni'', jnum
          number @ js '' mhoine'']), (''y'', [js ''eka vorsan'', js ''ek voros'']), (''yy'', [jnum
          number @ js '' vorsamni'', jnum number @ js '' vorsam''])] key) (\<lambda>xs. js_nth xs
          1))"

definition gom_latn_ordinal :: "nat \<Rightarrow> string \<Rightarrow> js option" where
  "gom_latn_ordinal number period = Some (if period = ''D'' then jnum number @ js ''er''
      else jnum number)"

definition gom_latn_meridiem :: "nat \<Rightarrow> nat \<Rightarrow> bool \<Rightarrow> js" where
  "gom_latn_meridiem hour minute isLower = (if hour < 4 then js ''rati''
      else if hour < 12 then js ''sokallim''
      else if hour < 16 then js ''donparam''
      else if hour < 20 then js ''sanje''
      else js ''rati'')"

definition gom_latn_meridiemHour :: "nat \<Rightarrow> js \<Rightarrow> nat option" where
  "gom_latn_meridiemHour hour meridiem = (let hour = (if hour = 12 then 0
      else hour) in (if meridiem = js ''rati'' then Some (if hour < 4 then hour
      else hour + 12)
      else if meridiem = js ''sokallim'' then Some hour
      else if meridiem = js ''donparam'' then Some (if hour > 12 then hour
      else hour + 12)
      else if meridiem = js ''sanje'' then Some (hour + 12)
      else None))"

definition locale_gom_latn :: moment_locale where
  "locale_gom_latn = \<lparr>
     l_abbr = ''gom-latn'',
     l_months = NamesAlt [js ''Janer'', js ''Febrer'', js ''Mars'', js ''Abril'', js ''Mai'', js
         ''Jun'', js ''Julai'', js ''Agost'', js ''Setembr'', js ''Otubr'', js ''Novembr'', js
         ''Dezembr''] [js ''Janerachea'', js ''Febrerachea'', js ''Marsachea'', js ''Abrilachea'',
         js ''Maiachea'', js ''Junachea'', js ''Julaiachea'', js ''Agostachea'', js
         ''Setembrachea'', js ''Otubrachea'', js ''Novembrachea'', js ''Dezembrachea'']
       (Some (Regex False (Seq [Lit (js ''MMMM''), Plus (Cls [(0x9, 0xD), (0x20, 0x20), (0xA0,
           0xA0), (0x1680, 0x1680), (0x2000, 0x200A), (0x2028, 0x2029), (0x202F, 0x202F), (0x205F,
           0x205F), (0x3000, 0x3000), (0xFEFF, 0xFEFF)]), Lit (js ''D''), Opt (Cls [(0x6F, 0x6F),
           (0x44, 0x44)])]))),
     l_months_short = Names [js ''Jan.'', js ''Feb.'', js ''Mars'', js ''Abr.'', js ''Mai'', js
         ''Jun'', js ''Jul.'', js ''Ago.'', js ''Set.'', js ''Otu.'', js ''Nov.'', js ''Dez.''],
     l_weekdays = Names [js ''Aitar'', js ''Somar'', js ''Mongllar'', js ''Budhvar'', js
         ''Birestar'', js ''Sukrar'', [0x53, 0x6F, 0x6E, 0x27, 0x76, 0x61, 0x72]],
     l_weekdays_short = [js ''Ait.'', js ''Som.'', js ''Mon.'', js ''Bud.'', js ''Bre.'', js
         ''Suk.'', js ''Son.''],
     l_weekdays_min = [js ''Ai'', js ''Sm'', js ''Mo'', js ''Bu'', js ''Br'', js ''Su'', js ''Sn''],
     l_long_date_format = [(''LT'', js ''A h:mm [vazta]''),
       (''LTS'', js ''A h:mm:ss [vazta]''),
       (''L'', js ''DD-MM-YYYY''),
       (''LL'', js ''D MMMM YYYY''),
       (''LLL'', js ''D MMMM YYYY A h:mm [vazta]''),
       (''LLLL'', js ''dddd, MMMM Do, YYYY, A h:mm [vazta]''),
       (''llll'', js ''ddd, D MMM YYYY, A h:mm [vazta]'')],
     l_calendar = [(''sameDay'', CalText (js ''[Aiz] LT'')),
       (''nextDay'', CalText (js ''[Faleam] LT'')),
       (''nextWeek'', CalText (js ''[Fuddlo] dddd[,] LT'')),
       (''lastDay'', CalText (js ''[Kal] LT'')),
       (''lastWeek'', CalText (js ''[Fattlo] dddd[,] LT'')),
       (''sameElse'', CalText (js ''L''))],
     l_relative_time = [(''future'', RelText (js ''%s'')),
       (''past'', RelText (js ''%s adim'')),
       (''s'', RelNum gom_latn_rel_t),
       (''ss'', RelNum gom_latn_rel_t),
       (''m'', RelNum gom_latn_rel_t),
       (''mm'', RelNum gom_latn_rel_t),
       (''h'', RelNum gom_latn_rel_t),
       (''hh'', RelNum gom_latn_rel_t),
       (''d'', RelNum gom_latn_rel_t),
       (''dd'', RelNum gom_latn_rel_t),
       (''M'', RelNum gom_latn_rel_t),
       (''MM'', RelNum gom_latn_rel_t),
       (''y'', RelNum gom_latn_rel_t),
       (''yy'', RelNum gom_latn_rel_t)],
     l_ordinal = Some (OrdFun gom_latn_ordinal),
     l_meridiem = Some gom_latn_meridiem,
     l_is_pm = None,
     l_meridiem_hour = Some gom_latn_meridiemHour,
     l_preparse = None,
     l_postformat = None,
     l_week = Some (0, 3),
     l_meridiem_parse = Some (Regex False (Alt [Lit (js ''rati''), Lit (js ''sokallim''), Lit (js
         ''donparam''), Lit (js ''sanje'')])),
     l_ordinal_parse = Some (Regex False (Seq [digits_1_2, Lit (js ''er'')])),
     l_parse = [],
     l_months_parse_exact = True,
     l_weekdays_parse_exact = True,
     l_invalid_date = None,
     l_eras = [],
     l_era_year = None \<rparr>"

text \<open>\<^verbatim>\<open>gu\<close> (line 331).\<close>

definition gu_meridiem :: "nat \<Rightarrow> nat \<Rightarrow> bool \<Rightarrow> js" where
  "gu_meridiem hour minute isLower = (if hour < 4 then [0xAB0, 0xABE, 0xAA4]
      else if hour < 10 then [0xAB8, 0xAB5, 0xABE, 0xAB0]
      else if hour < 17 then [0xAAC, 0xAAA, 0xACB, 0xAB0]
      else if hour < 20 then [0xAB8, 0xABE, 0xA82, 0xA9C]
      else [0xAB0, 0xABE, 0xAA4])"

definition gu_meridiemHour :: "nat \<Rightarrow> js \<Rightarrow> nat option" where
  "gu_meridiemHour hour meridiem = (let hour = (if hour = 12 then 0
      else hour) in (if meridiem = [0xAB0, 0xABE, 0xAA4] then Some (if hour < 4 then hour
      else hour + 12)
      else if meridiem = [0xAB8, 0xAB5, 0xABE, 0xAB0] then Some hour
      else if meridiem = [0xAAC, 0xAAA, 0xACB, 0xAB0] then Some (if hour \<ge> 10 then hour
      else hour + 12)
      else if meridiem = [0xAB8, 0xABE, 0xA82, 0xA9C] then Some (hour + 12)
      else None))"

definition gu_preparse :: "js \<Rightarrow> js" where
  "gu_preparse s = js_replace_units [(0xAE7, [0x31]), (0xAE8, [0x32]), (0xAE9, [0x33]), (0xAEA,
      [0x34]), (0xAEB, [0x35]), (0xAEC, [0x36]), (0xAED, [0x37]), (0xAEE, [0x38]), (0xAEF, [0x39]),
      (0xAE6, [0x30])] s"

definition gu_postformat :: "js \<Rightarrow> js" where
  "gu_postformat s = js_replace_units [(0x30, [0xAE6]), (0x31, [0xAE7]), (0x32, [0xAE8]), (0x33,
      [0xAE9]), (0x34, [0xAEA]), (0x35, [0xAEB]), (0x36, [0xAEC]), (0x37, [0xAED]), (0x38, [0xAEE]),
      (0x39, [0xAEF])] s"

definition locale_gu :: moment_locale where
  "locale_gu = \<lparr>
     l_abbr = ''gu'',
     l_months = Names [[0xA9C, 0xABE, 0xAA8, 0xACD, 0xAAF, 0xAC1, 0xA86, 0xAB0, 0xAC0], [0xAAB,
         0xAC7, 0xAAC, 0xACD, 0xAB0, 0xAC1, 0xA86, 0xAB0, 0xAC0], [0xAAE, 0xABE, 0xAB0, 0xACD,
         0xA9A], [0xA8F, 0xAAA, 0xACD, 0xAB0, 0xABF, 0xAB2], [0xAAE, 0xAC7], [0xA9C, 0xAC2, 0xAA8],
         [0xA9C, 0xAC1, 0xAB2, 0xABE, 0xA88], [0xA91, 0xA97, 0xAB8, 0xACD, 0xA9F], [0xAB8, 0xAAA,
         0xACD, 0xA9F, 0xAC7, 0xAAE, 0xACD, 0xAAC, 0xAB0], [0xA91, 0xA95, 0xACD, 0xA9F, 0xACD,
         0xAAC, 0xAB0], [0xAA8, 0xAB5, 0xAC7, 0xAAE, 0xACD, 0xAAC, 0xAB0], [0xAA1, 0xABF, 0xAB8,
         0xAC7, 0xAAE, 0xACD, 0xAAC, 0xAB0]],
     l_months_short = Names [[0xA9C, 0xABE, 0xAA8, 0xACD, 0xAAF, 0xAC1, 0x2E], [0xAAB, 0xAC7, 0xAAC,
         0xACD, 0xAB0, 0xAC1, 0x2E], [0xAAE, 0xABE, 0xAB0, 0xACD, 0xA9A], [0xA8F, 0xAAA, 0xACD,
         0xAB0, 0xABF, 0x2E], [0xAAE, 0xAC7], [0xA9C, 0xAC2, 0xAA8], [0xA9C, 0xAC1, 0xAB2, 0xABE,
         0x2E], [0xA91, 0xA97, 0x2E], [0xAB8, 0xAAA, 0xACD, 0xA9F, 0xAC7, 0x2E], [0xA91, 0xA95,
         0xACD, 0xA9F, 0xACD, 0x2E], [0xAA8, 0xAB5, 0xAC7, 0x2E], [0xAA1, 0xABF, 0xAB8, 0xAC7,
         0x2E]],
     l_weekdays = Names [[0xAB0, 0xAB5, 0xABF, 0xAB5, 0xABE, 0xAB0], [0xAB8, 0xACB, 0xAAE, 0xAB5,
         0xABE, 0xAB0], [0xAAE, 0xA82, 0xA97, 0xAB3, 0xAB5, 0xABE, 0xAB0], [0xAAC, 0xAC1, 0xAA7,
         0xACD, 0xAB5, 0xABE, 0xAB0], [0xA97, 0xAC1, 0xAB0, 0xAC1, 0xAB5, 0xABE, 0xAB0], [0xAB6,
         0xAC1, 0xA95, 0xACD, 0xAB0, 0xAB5, 0xABE, 0xAB0], [0xAB6, 0xAA8, 0xABF, 0xAB5, 0xABE,
         0xAB0]],
     l_weekdays_short = [[0xAB0, 0xAB5, 0xABF], [0xAB8, 0xACB, 0xAAE], [0xAAE, 0xA82, 0xA97, 0xAB3],
         [0xAAC, 0xAC1, 0xAA7, 0xACD], [0xA97, 0xAC1, 0xAB0, 0xAC1], [0xAB6, 0xAC1, 0xA95, 0xACD,
         0xAB0], [0xAB6, 0xAA8, 0xABF]],
     l_weekdays_min = [[0xAB0], [0xAB8, 0xACB], [0xAAE, 0xA82], [0xAAC, 0xAC1], [0xA97, 0xAC1],
         [0xAB6, 0xAC1], [0xAB6]],
     l_long_date_format = [(''LT'', js ''A h:mm '' @ [0xAB5, 0xABE, 0xA97, 0xACD, 0xAAF, 0xAC7]),
       (''LTS'', js ''A h:mm:ss '' @ [0xAB5, 0xABE, 0xA97, 0xACD, 0xAAF, 0xAC7]),
       (''L'', js ''DD/MM/YYYY''),
       (''LL'', js ''D MMMM YYYY''),
       (''LLL'', js ''D MMMM YYYY, A h:mm '' @ [0xAB5, 0xABE, 0xA97, 0xACD, 0xAAF, 0xAC7]),
       (''LLLL'', js ''dddd, D MMMM YYYY, A h:mm '' @ [0xAB5, 0xABE, 0xA97, 0xACD, 0xAAF, 0xAC7])],
     l_calendar = [(''sameDay'', CalText ([0x5B, 0xA86, 0xA9C] @ js ''] LT'')),
       (''nextDay'', CalText ([0x5B, 0xA95, 0xABE, 0xAB2, 0xAC7] @ js ''] LT'')),
       (''nextWeek'', CalText (js ''dddd, LT'')),
       (''lastDay'', CalText ([0x5B, 0xA97, 0xA87, 0xA95, 0xABE, 0xAB2, 0xAC7] @ js ''] LT'')),
       (''lastWeek'', CalText ([0x5B, 0xAAA, 0xABE, 0xA9B, 0xAB2, 0xABE] @ js ''] dddd, LT'')),
       (''sameElse'', CalText (js ''L''))],
     l_relative_time = [(''future'', RelText [0x25, 0x73, 0x20, 0xAAE, 0xABE]),
       (''past'', RelText [0x25, 0x73, 0x20, 0xAAA, 0xAB9, 0xAC7, 0xAB2, 0xABE]),
       (''s'', RelText [0xA85, 0xAAE, 0xAC1, 0xA95, 0x20, 0xAAA, 0xAB3, 0xACB]),
       (''ss'', RelText [0x25, 0x64, 0x20, 0xAB8, 0xAC7, 0xA95, 0xA82, 0xAA1]),
       (''m'', RelText [0xA8F, 0xA95, 0x20, 0xAAE, 0xABF, 0xAA8, 0xABF, 0xA9F]),
       (''mm'', RelText [0x25, 0x64, 0x20, 0xAAE, 0xABF, 0xAA8, 0xABF, 0xA9F]),
       (''h'', RelText [0xA8F, 0xA95, 0x20, 0xA95, 0xAB2, 0xABE, 0xA95]),
       (''hh'', RelText [0x25, 0x64, 0x20, 0xA95, 0xAB2, 0xABE, 0xA95]),
       (''d'', RelText [0xA8F, 0xA95, 0x20, 0xAA6, 0xABF, 0xAB5, 0xAB8]),
       (''dd'', RelText [0x25, 0x64, 0x20, 0xAA6, 0xABF, 0xAB5, 0xAB8]),
       (''M'', RelText [0xA8F, 0xA95, 0x20, 0xAAE, 0xAB9, 0xABF, 0xAA8, 0xACB]),
       (''MM'', RelText [0x25, 0x64, 0x20, 0xAAE, 0xAB9, 0xABF, 0xAA8, 0xACB]),
       (''y'', RelText [0xA8F, 0xA95, 0x20, 0xAB5, 0xAB0, 0xACD, 0xAB7]),
       (''yy'', RelText [0x25, 0x64, 0x20, 0xAB5, 0xAB0, 0xACD, 0xAB7])],
     l_ordinal = None,
     l_meridiem = Some gu_meridiem,
     l_is_pm = None,
     l_meridiem_hour = Some gu_meridiemHour,
     l_preparse = Some gu_preparse,
     l_postformat = Some gu_postformat,
     l_week = Some (0, 6),
     l_meridiem_parse = Some (Regex False (Alt [Lit [0xAB0, 0xABE, 0xAA4], Lit [0xAAC, 0xAAA, 0xACB,
         0xAB0], Lit [0xAB8, 0xAB5, 0xABE, 0xAB0], Lit [0xAB8, 0xABE, 0xA82, 0xA9C]])),
     l_ordinal_parse = None,
     l_parse = [],
     l_months_parse_exact = True,
     l_weekdays_parse_exact = False,
     l_invalid_date = None,
     l_eras = [],
     l_era_year = None \<rparr>"

text \<open>\<^verbatim>\<open>he\<close> (line 305).\<close>

definition he_rel_hh :: "nat \<Rightarrow> bool \<Rightarrow> string \<Rightarrow> bool
    \<Rightarrow> js option" where
  "he_rel_hh number withoutSuffix key isFuture = Some (if number = 2 then [0x5E9, 0x5E2, 0x5EA,
      0x5D9, 0x5D9, 0x5DD]
      else jnum number @ [0x20, 0x5E9, 0x5E2, 0x5D5, 0x5EA])"

definition he_rel_dd :: "nat \<Rightarrow> bool \<Rightarrow> string \<Rightarrow> bool
    \<Rightarrow> js option" where
  "he_rel_dd number withoutSuffix key isFuture = Some (if number = 2 then [0x5D9, 0x5D5, 0x5DE,
      0x5D9, 0x5D9, 0x5DD]
      else jnum number @ [0x20, 0x5D9, 0x5DE, 0x5D9, 0x5DD])"

definition he_rel_MM :: "nat \<Rightarrow> bool \<Rightarrow> string \<Rightarrow> bool
    \<Rightarrow> js option" where
  "he_rel_MM number withoutSuffix key isFuture = Some (if number = 2 then [0x5D7, 0x5D5, 0x5D3,
      0x5E9, 0x5D9, 0x5D9, 0x5DD]
      else jnum number @ [0x20, 0x5D7, 0x5D5, 0x5D3, 0x5E9, 0x5D9, 0x5DD])"

definition he_rel_yy :: "nat \<Rightarrow> bool \<Rightarrow> string \<Rightarrow> bool
    \<Rightarrow> js option" where
  "he_rel_yy number withoutSuffix key isFuture = Some (if number = 2 then [0x5E9, 0x5E0, 0x5EA,
      0x5D9, 0x5D9, 0x5DD]
      else if number mod 10 = 0 \<and> number \<noteq> 10 then jnum number @ [0x20, 0x5E9, 0x5E0,
          0x5D4]
      else jnum number @ [0x20, 0x5E9, 0x5E0, 0x5D9, 0x5DD])"

definition he_meridiem :: "nat \<Rightarrow> nat \<Rightarrow> bool \<Rightarrow> js" where
  "he_meridiem hour minute isLower = (if hour < 5 then [0x5DC, 0x5E4, 0x5E0, 0x5D5, 0x5EA, 0x20,
      0x5D1, 0x5D5, 0x5E7, 0x5E8]
      else if hour < 10 then [0x5D1, 0x5D1, 0x5D5, 0x5E7, 0x5E8]
      else if hour < 12 then (if isLower then [0x5DC, 0x5E4, 0x5E0, 0x5D4, 0x22, 0x5E6]
      else [0x5DC, 0x5E4, 0x5E0, 0x5D9, 0x20, 0x5D4, 0x5E6, 0x5D4, 0x5E8, 0x5D9, 0x5D9, 0x5DD])
      else if hour < 18 then (if isLower then [0x5D0, 0x5D7, 0x5D4, 0x22, 0x5E6]
      else [0x5D0, 0x5D7, 0x5E8, 0x5D9, 0x20, 0x5D4, 0x5E6, 0x5D4, 0x5E8, 0x5D9, 0x5D9, 0x5DD])
      else [0x5D1, 0x5E2, 0x5E8, 0x5D1])"

definition he_isPM :: "js \<Rightarrow> bool" where
  "he_isPM input \<longleftrightarrow> input \<in> set [[0x5D0, 0x5D7, 0x5D4, 0x22, 0x5E6], [0x5D0,
      0x5D7, 0x5E8, 0x5D9, 0x20, 0x5D4, 0x5E6, 0x5D4, 0x5E8, 0x5D9, 0x5D9, 0x5DD], [0x5D1, 0x5E2,
      0x5E8, 0x5D1]]"

definition locale_he :: moment_locale where
  "locale_he = \<lparr>
     l_abbr = ''he'',
     l_months = Names [[0x5D9, 0x5E0, 0x5D5, 0x5D0, 0x5E8], [0x5E4, 0x5D1, 0x5E8, 0x5D5, 0x5D0,
         0x5E8], [0x5DE, 0x5E8, 0x5E5], [0x5D0, 0x5E4, 0x5E8, 0x5D9, 0x5DC], [0x5DE, 0x5D0, 0x5D9],
         [0x5D9, 0x5D5, 0x5E0, 0x5D9], [0x5D9, 0x5D5, 0x5DC, 0x5D9], [0x5D0, 0x5D5, 0x5D2, 0x5D5,
         0x5E1, 0x5D8], [0x5E1, 0x5E4, 0x5D8, 0x5DE, 0x5D1, 0x5E8], [0x5D0, 0x5D5, 0x5E7, 0x5D8,
         0x5D5, 0x5D1, 0x5E8], [0x5E0, 0x5D5, 0x5D1, 0x5DE, 0x5D1, 0x5E8], [0x5D3, 0x5E6, 0x5DE,
         0x5D1, 0x5E8]],
     l_months_short = Names [[0x5D9, 0x5E0, 0x5D5, 0x5F3], [0x5E4, 0x5D1, 0x5E8, 0x5F3], [0x5DE,
         0x5E8, 0x5E5], [0x5D0, 0x5E4, 0x5E8, 0x5F3], [0x5DE, 0x5D0, 0x5D9], [0x5D9, 0x5D5, 0x5E0,
         0x5D9], [0x5D9, 0x5D5, 0x5DC, 0x5D9], [0x5D0, 0x5D5, 0x5D2, 0x5F3], [0x5E1, 0x5E4, 0x5D8,
         0x5F3], [0x5D0, 0x5D5, 0x5E7, 0x5F3], [0x5E0, 0x5D5, 0x5D1, 0x5F3], [0x5D3, 0x5E6, 0x5DE,
         0x5F3]],
     l_weekdays = Names [[0x5E8, 0x5D0, 0x5E9, 0x5D5, 0x5DF], [0x5E9, 0x5E0, 0x5D9], [0x5E9, 0x5DC,
         0x5D9, 0x5E9, 0x5D9], [0x5E8, 0x5D1, 0x5D9, 0x5E2, 0x5D9], [0x5D7, 0x5DE, 0x5D9, 0x5E9,
         0x5D9], [0x5E9, 0x5D9, 0x5E9, 0x5D9], [0x5E9, 0x5D1, 0x5EA]],
     l_weekdays_short = [[0x5D0, 0x5F3], [0x5D1, 0x5F3], [0x5D2, 0x5F3], [0x5D3, 0x5F3], [0x5D4,
         0x5F3], [0x5D5, 0x5F3], [0x5E9, 0x5F3]],
     l_weekdays_min = [[0x5D0], [0x5D1], [0x5D2], [0x5D3], [0x5D4], [0x5D5], [0x5E9]],
     l_long_date_format = [(''LT'', js ''HH:mm''),
       (''LTS'', js ''HH:mm:ss''),
       (''L'', js ''DD/MM/YYYY''),
       (''LL'', [0x44, 0x20, 0x5B, 0x5D1] @ js '']MMMM YYYY''),
       (''LLL'', [0x44, 0x20, 0x5B, 0x5D1] @ js '']MMMM YYYY HH:mm''),
       (''LLLL'', js ''dddd, D ['' @ [0x5D1] @ js '']MMMM YYYY HH:mm''),
       (''l'', js ''D/M/YYYY''),
       (''ll'', js ''D MMM YYYY''),
       (''lll'', js ''D MMM YYYY HH:mm''),
       (''llll'', js ''ddd, D MMM YYYY HH:mm'')],
     l_calendar = [(''sameDay'', CalText [0x5B, 0x5D4, 0x5D9, 0x5D5, 0x5DD, 0x20, 0x5D1, 0x5BE,
         0x5D, 0x4C, 0x54]),
       (''nextDay'', CalText [0x5B, 0x5DE, 0x5D7, 0x5E8, 0x20, 0x5D1, 0x5BE, 0x5D, 0x4C, 0x54]),
       (''nextWeek'', CalText (js ''dddd ['' @ [0x5D1, 0x5E9, 0x5E2, 0x5D4] @ js ''] LT'')),
       (''lastDay'', CalText [0x5B, 0x5D0, 0x5EA, 0x5DE, 0x5D5, 0x5DC, 0x20, 0x5D1, 0x5BE, 0x5D,
           0x4C, 0x54]),
       (''lastWeek'', CalText ([0x5B, 0x5D1, 0x5D9, 0x5D5, 0x5DD] @ js ''] dddd ['' @ [0x5D4, 0x5D0,
           0x5D7, 0x5E8, 0x5D5, 0x5DF, 0x20, 0x5D1, 0x5E9, 0x5E2, 0x5D4] @ js ''] LT'')),
       (''sameElse'', CalText (js ''L''))],
     l_relative_time = [(''future'', RelText [0x5D1, 0x5E2, 0x5D5, 0x5D3, 0x20, 0x25, 0x73]),
       (''past'', RelText [0x5DC, 0x5E4, 0x5E0, 0x5D9, 0x20, 0x25, 0x73]),
       (''s'', RelText [0x5DE, 0x5E1, 0x5E4, 0x5E8, 0x20, 0x5E9, 0x5E0, 0x5D9, 0x5D5, 0x5EA]),
       (''ss'', RelText [0x25, 0x64, 0x20, 0x5E9, 0x5E0, 0x5D9, 0x5D5, 0x5EA]),
       (''m'', RelText [0x5D3, 0x5E7, 0x5D4]),
       (''mm'', RelText [0x25, 0x64, 0x20, 0x5D3, 0x5E7, 0x5D5, 0x5EA]),
       (''h'', RelText [0x5E9, 0x5E2, 0x5D4]),
       (''hh'', RelNum he_rel_hh),
       (''d'', RelText [0x5D9, 0x5D5, 0x5DD]),
       (''dd'', RelNum he_rel_dd),
       (''M'', RelText [0x5D7, 0x5D5, 0x5D3, 0x5E9]),
       (''MM'', RelNum he_rel_MM),
       (''y'', RelText [0x5E9, 0x5E0, 0x5D4]),
       (''yy'', RelNum he_rel_yy)],
     l_ordinal = None,
     l_meridiem = Some he_meridiem,
     l_is_pm = Some he_isPM,
     l_meridiem_hour = None,
     l_preparse = None,
     l_postformat = None,
     l_week = None,
     l_meridiem_parse = Some (Regex True (Alt [Lit [0x5D0, 0x5D7, 0x5D4, 0x22, 0x5E6], Lit [0x5DC,
         0x5E4, 0x5E0, 0x5D4, 0x22, 0x5E6], Lit [0x5D0, 0x5D7, 0x5E8, 0x5D9, 0x20, 0x5D4, 0x5E6,
         0x5D4, 0x5E8, 0x5D9, 0x5D9, 0x5DD], Lit [0x5DC, 0x5E4, 0x5E0, 0x5D9, 0x20, 0x5D4, 0x5E6,
         0x5D4, 0x5E8, 0x5D9, 0x5D9, 0x5DD], Lit [0x5DC, 0x5E4, 0x5E0, 0x5D5, 0x5EA, 0x20, 0x5D1,
         0x5D5, 0x5E7, 0x5E8], Lit [0x5D1, 0x5D1, 0x5D5, 0x5E7, 0x5E8], Lit [0x5D1, 0x5E2, 0x5E8,
         0x5D1]])),
     l_ordinal_parse = None,
     l_parse = [],
     l_months_parse_exact = False,
     l_weekdays_parse_exact = False,
     l_invalid_date = None,
     l_eras = [],
     l_era_year = None \<rparr>"

text \<open>\<^verbatim>\<open>hi\<close> (line 329).\<close>

definition hi_meridiem :: "nat \<Rightarrow> nat \<Rightarrow> bool \<Rightarrow> js" where
  "hi_meridiem hour minute isLower = (if hour < 4 then [0x930, 0x93E, 0x924]
      else if hour < 10 then [0x938, 0x941, 0x92C, 0x939]
      else if hour < 17 then [0x926, 0x94B, 0x92A, 0x939, 0x930]
      else if hour < 20 then [0x936, 0x93E, 0x92E]
      else [0x930, 0x93E, 0x924])"

definition hi_meridiemHour :: "nat \<Rightarrow> js \<Rightarrow> nat option" where
  "hi_meridiemHour hour meridiem = (let hour = (if hour = 12 then 0
      else hour) in (if meridiem = [0x930, 0x93E, 0x924] then Some (if hour < 4 then hour
      else hour + 12)
      else if meridiem = [0x938, 0x941, 0x92C, 0x939] then Some hour
      else if meridiem = [0x926, 0x94B, 0x92A, 0x939, 0x930] then Some (if hour \<ge> 10 then hour
      else hour + 12)
      else if meridiem = [0x936, 0x93E, 0x92E] then Some (hour + 12)
      else None))"

definition hi_preparse :: "js \<Rightarrow> js" where
  "hi_preparse s = js_replace_units [(0x967, [0x31]), (0x968, [0x32]), (0x969, [0x33]), (0x96A,
      [0x34]), (0x96B, [0x35]), (0x96C, [0x36]), (0x96D, [0x37]), (0x96E, [0x38]), (0x96F, [0x39]),
      (0x966, [0x30])] s"

definition hi_postformat :: "js \<Rightarrow> js" where
  "hi_postformat s = js_replace_units [(0x30, [0x966]), (0x31, [0x967]), (0x32, [0x968]), (0x33,
      [0x969]), (0x34, [0x96A]), (0x35, [0x96B]), (0x36, [0x96C]), (0x37, [0x96D]), (0x38, [0x96E]),
      (0x39, [0x96F])] s"

definition hi_rx_i :: "regex list" where
  "hi_rx_i = [Regex True (Seq [Start, Lit [0x91C, 0x928]]), Regex True (Alt [Seq [Start, Lit [0x92B,
      0x93C, 0x930]], Lit [0x92B, 0x930]]), Regex True (Seq [Start, Lit [0x92E, 0x93E, 0x930, 0x94D,
      0x91A]]), Regex True (Seq [Start, Lit [0x905, 0x92A, 0x94D, 0x930, 0x948]]), Regex True (Seq
      [Start, Lit [0x92E, 0x908]]), Regex True (Seq [Start, Lit [0x91C, 0x942, 0x928]]), Regex True
      (Seq [Start, Lit [0x91C, 0x941, 0x932]]), Regex True (Seq [Start, Lit [0x905, 0x917]]), Regex
      True (Alt [Seq [Start, Lit [0x938, 0x93F, 0x924, 0x902]], Lit [0x938, 0x93F, 0x924]]), Regex
      True (Seq [Start, Lit [0x905, 0x915, 0x94D, 0x91F, 0x942]]), Regex True (Alt [Seq [Start, Lit
      [0x928, 0x935]], Lit [0x928, 0x935, 0x902]]), Regex True (Alt [Seq [Start, Lit [0x926, 0x93F,
      0x938, 0x902]], Lit [0x926, 0x93F, 0x938]])]"

definition locale_hi :: moment_locale where
  "locale_hi = \<lparr>
     l_abbr = ''hi'',
     l_months = NamesAlt [[0x91C, 0x928, 0x935, 0x930, 0x940], [0x92B, 0x930, 0x935, 0x930, 0x940],
         [0x92E, 0x93E, 0x930, 0x94D, 0x91A], [0x905, 0x92A, 0x94D, 0x930, 0x948, 0x932], [0x92E,
         0x908], [0x91C, 0x942, 0x928], [0x91C, 0x941, 0x932, 0x93E, 0x908], [0x905, 0x917, 0x938,
         0x94D, 0x924], [0x938, 0x93F, 0x924, 0x902, 0x92C, 0x930], [0x905, 0x915, 0x94D, 0x91F,
         0x942, 0x92C, 0x930], [0x928, 0x935, 0x902, 0x92C, 0x930], [0x926, 0x93F, 0x938, 0x902,
         0x92C, 0x930]] [[0x91C, 0x928, 0x935, 0x930, 0x940], [0x92B, 0x93C, 0x930, 0x935, 0x930,
         0x940], [0x92E, 0x93E, 0x930, 0x94D, 0x91A], [0x905, 0x92A, 0x94D, 0x930, 0x948, 0x932],
         [0x92E, 0x908], [0x91C, 0x942, 0x928], [0x91C, 0x941, 0x932, 0x93E, 0x908], [0x905, 0x917,
         0x938, 0x94D, 0x924], [0x938, 0x93F, 0x924, 0x92E, 0x94D, 0x92C, 0x930], [0x905, 0x915,
         0x94D, 0x91F, 0x942, 0x92C, 0x930], [0x928, 0x935, 0x92E, 0x94D, 0x92C, 0x930], [0x926,
         0x93F, 0x938, 0x92E, 0x94D, 0x92C, 0x930]] None,
     l_months_short = Names [[0x91C, 0x928, 0x2E], [0x92B, 0x93C, 0x930, 0x2E], [0x92E, 0x93E,
         0x930, 0x94D, 0x91A], [0x905, 0x92A, 0x94D, 0x930, 0x948, 0x2E], [0x92E, 0x908], [0x91C,
         0x942, 0x928], [0x91C, 0x941, 0x932, 0x2E], [0x905, 0x917, 0x2E], [0x938, 0x93F, 0x924,
         0x2E], [0x905, 0x915, 0x94D, 0x91F, 0x942, 0x2E], [0x928, 0x935, 0x2E], [0x926, 0x93F,
         0x938, 0x2E]],
     l_weekdays = Names [[0x930, 0x935, 0x93F, 0x935, 0x93E, 0x930], [0x938, 0x94B, 0x92E, 0x935,
         0x93E, 0x930], [0x92E, 0x902, 0x917, 0x932, 0x935, 0x93E, 0x930], [0x92C, 0x941, 0x927,
         0x935, 0x93E, 0x930], [0x917, 0x941, 0x930, 0x942, 0x935, 0x93E, 0x930], [0x936, 0x941,
         0x915, 0x94D, 0x930, 0x935, 0x93E, 0x930], [0x936, 0x928, 0x93F, 0x935, 0x93E, 0x930]],
     l_weekdays_short = [[0x930, 0x935, 0x93F], [0x938, 0x94B, 0x92E], [0x92E, 0x902, 0x917, 0x932],
         [0x92C, 0x941, 0x927], [0x917, 0x941, 0x930, 0x942], [0x936, 0x941, 0x915, 0x94D, 0x930],
         [0x936, 0x928, 0x93F]],
     l_weekdays_min = [[0x930], [0x938, 0x94B], [0x92E, 0x902], [0x92C, 0x941], [0x917, 0x941],
         [0x936, 0x941], [0x936]],
     l_long_date_format = [(''LT'', js ''A h:mm '' @ [0x92C, 0x91C, 0x947]),
       (''LTS'', js ''A h:mm:ss '' @ [0x92C, 0x91C, 0x947]),
       (''L'', js ''DD/MM/YYYY''),
       (''LL'', js ''D MMMM YYYY''),
       (''LLL'', js ''D MMMM YYYY, A h:mm '' @ [0x92C, 0x91C, 0x947]),
       (''LLLL'', js ''dddd, D MMMM YYYY, A h:mm '' @ [0x92C, 0x91C, 0x947])],
     l_calendar = [(''sameDay'', CalText ([0x5B, 0x906, 0x91C] @ js ''] LT'')),
       (''nextDay'', CalText ([0x5B, 0x915, 0x932] @ js ''] LT'')),
       (''nextWeek'', CalText (js ''dddd, LT'')),
       (''lastDay'', CalText ([0x5B, 0x915, 0x932] @ js ''] LT'')),
       (''lastWeek'', CalText ([0x5B, 0x92A, 0x93F, 0x91B, 0x932, 0x947] @ js ''] dddd, LT'')),
       (''sameElse'', CalText (js ''L''))],
     l_relative_time = [(''future'', RelText [0x25, 0x73, 0x20, 0x92E, 0x947, 0x902]),
       (''past'', RelText [0x25, 0x73, 0x20, 0x92A, 0x939, 0x932, 0x947]),
       (''s'', RelText [0x915, 0x941, 0x91B, 0x20, 0x939, 0x940, 0x20, 0x915, 0x94D, 0x937, 0x923]),
       (''ss'', RelText [0x25, 0x64, 0x20, 0x938, 0x947, 0x915, 0x902, 0x921]),
       (''m'', RelText [0x90F, 0x915, 0x20, 0x92E, 0x93F, 0x928, 0x91F]),
       (''mm'', RelText [0x25, 0x64, 0x20, 0x92E, 0x93F, 0x928, 0x91F]),
       (''h'', RelText [0x90F, 0x915, 0x20, 0x918, 0x902, 0x91F, 0x93E]),
       (''hh'', RelText [0x25, 0x64, 0x20, 0x918, 0x902, 0x91F, 0x947]),
       (''d'', RelText [0x90F, 0x915, 0x20, 0x926, 0x93F, 0x928]),
       (''dd'', RelText [0x25, 0x64, 0x20, 0x926, 0x93F, 0x928]),
       (''M'', RelText [0x90F, 0x915, 0x20, 0x92E, 0x939, 0x940, 0x928, 0x947]),
       (''MM'', RelText [0x25, 0x64, 0x20, 0x92E, 0x939, 0x940, 0x928, 0x947]),
       (''y'', RelText [0x90F, 0x915, 0x20, 0x935, 0x930, 0x94D, 0x937]),
       (''yy'', RelText [0x25, 0x64, 0x20, 0x935, 0x930, 0x94D, 0x937])],
     l_ordinal = None,
     l_meridiem = Some hi_meridiem,
     l_is_pm = None,
     l_meridiem_hour = Some hi_meridiemHour,
     l_preparse = Some hi_preparse,
     l_postformat = Some hi_postformat,
     l_week = Some (0, 6),
     l_meridiem_parse = Some (Regex False (Alt [Lit [0x930, 0x93E, 0x924], Lit [0x938, 0x941, 0x92C,
         0x939], Lit [0x926, 0x94B, 0x92A, 0x939, 0x930], Lit [0x936, 0x93E, 0x92E]])),
     l_ordinal_parse = None,
     l_parse = [(''monthsRegex'', [Regex True (Seq [Start, Alt [Lit [0x91C, 0x928, 0x935, 0x930,
         0x940], Seq [Lit [0x91C, 0x928], Opt (Lit (js ''.''))], Lit [0x92B, 0x93C, 0x930, 0x935,
         0x930, 0x940], Lit [0x92B, 0x930, 0x935, 0x930, 0x940], Seq [Lit [0x92B, 0x93C, 0x930], Opt
         (Lit (js ''.''))], Seq [Lit [0x92E, 0x93E, 0x930, 0x94D], Opt (Lit [0x91A])], Lit [0x905,
         0x92A, 0x94D, 0x930, 0x948, 0x932], Seq [Lit [0x905, 0x92A, 0x94D, 0x930, 0x948], Opt (Lit
         (js ''.''))], Seq [Lit [0x92E], Opt (Lit [0x908])], Seq [Lit [0x91C, 0x942], Opt (Lit
         [0x928])], Lit [0x91C, 0x941, 0x932, 0x93E, 0x908], Seq [Lit [0x91C, 0x941, 0x932], Opt
         (Lit (js ''.''))], Lit [0x905, 0x917, 0x938, 0x94D, 0x924], Seq [Lit [0x905, 0x917], Opt
         (Lit (js ''.''))], Lit [0x938, 0x93F, 0x924, 0x92E, 0x94D, 0x92C, 0x930], Lit [0x938,
         0x93F, 0x924, 0x902, 0x92C, 0x930], Seq [Lit [0x938, 0x93F, 0x924], Opt (Lit (js ''.''))],
         Lit [0x905, 0x915, 0x94D, 0x91F, 0x942, 0x92C, 0x930], Seq [Lit [0x905, 0x915, 0x94D,
         0x91F, 0x942], Opt (Lit (js ''.''))], Lit [0x928, 0x935, 0x92E, 0x94D, 0x92C, 0x930], Lit
         [0x928, 0x935, 0x902, 0x92C, 0x930], Seq [Lit [0x928, 0x935], Opt (Lit (js ''.''))], Lit
         [0x926, 0x93F, 0x938, 0x92E, 0x94D, 0x92C, 0x930], Lit [0x926, 0x93F, 0x938, 0x902, 0x92C,
         0x930], Seq [Lit [0x926, 0x93F, 0x938], Opt (Lit (js ''.''))]]])]), (''monthsShortRegex'',
         [Regex True (Seq [Start, Alt [Lit [0x91C, 0x928, 0x935, 0x930, 0x940], Seq [Lit [0x91C,
         0x928], Opt (Lit (js ''.''))], Lit [0x92B, 0x93C, 0x930, 0x935, 0x930, 0x940], Lit [0x92B,
         0x930, 0x935, 0x930, 0x940], Seq [Lit [0x92B, 0x93C, 0x930], Opt (Lit (js ''.''))], Seq
         [Lit [0x92E, 0x93E, 0x930, 0x94D], Opt (Lit [0x91A])], Lit [0x905, 0x92A, 0x94D, 0x930,
         0x948, 0x932], Seq [Lit [0x905, 0x92A, 0x94D, 0x930, 0x948], Opt (Lit (js ''.''))], Seq
         [Lit [0x92E], Opt (Lit [0x908])], Seq [Lit [0x91C, 0x942], Opt (Lit [0x928])], Lit [0x91C,
         0x941, 0x932, 0x93E, 0x908], Seq [Lit [0x91C, 0x941, 0x932], Opt (Lit (js ''.''))], Lit
         [0x905, 0x917, 0x938, 0x94D, 0x924], Seq [Lit [0x905, 0x917], Opt (Lit (js ''.''))], Lit
         [0x938, 0x93F, 0x924, 0x92E, 0x94D, 0x92C, 0x930], Lit [0x938, 0x93F, 0x924, 0x902, 0x92C,
         0x930], Seq [Lit [0x938, 0x93F, 0x924], Opt (Lit (js ''.''))], Lit [0x905, 0x915, 0x94D,
         0x91F, 0x942, 0x92C, 0x930], Seq [Lit [0x905, 0x915, 0x94D, 0x91F, 0x942], Opt (Lit (js
         ''.''))], Lit [0x928, 0x935, 0x92E, 0x94D, 0x92C, 0x930], Lit [0x928, 0x935, 0x902, 0x92C,
         0x930], Seq [Lit [0x928, 0x935], Opt (Lit (js ''.''))], Lit [0x926, 0x93F, 0x938, 0x92E,
         0x94D, 0x92C, 0x930], Lit [0x926, 0x93F, 0x938, 0x902, 0x92C, 0x930], Seq [Lit [0x926,
         0x93F, 0x938], Opt (Lit (js ''.''))]]])]), (''monthsStrictRegex'', [Regex True (Seq [Start,
         Alt [Seq [Lit [0x91C, 0x928, 0x935, 0x930], Opt (Lit [0x940])], Lit [0x92B, 0x93C, 0x930,
         0x935, 0x930, 0x940], Seq [Lit [0x92B, 0x930, 0x935, 0x930], Opt (Lit [0x940])], Seq [Lit
         [0x92E, 0x93E, 0x930, 0x94D], Opt (Lit [0x91A])], Seq [Lit [0x905, 0x92A, 0x94D, 0x930,
         0x948], Opt (Lit [0x932])], Seq [Lit [0x92E], Opt (Lit [0x908])], Seq [Lit [0x91C, 0x942],
         Opt (Lit [0x928])], Seq [Lit [0x91C, 0x941, 0x932, 0x93E], Opt (Lit [0x908])], Seq [Lit
         [0x905, 0x917, 0x938, 0x94D], Opt (Lit [0x924])], Lit [0x938, 0x93F, 0x924, 0x92E, 0x94D,
         0x92C, 0x930], Lit [0x938, 0x93F, 0x924, 0x902, 0x92C, 0x930], Seq [Lit [0x938, 0x93F], Opt
         (Lit [0x924]), Opt (Lit (js ''.''))], Lit [0x905, 0x915, 0x94D, 0x91F, 0x942, 0x92C,
         0x930], Seq [Lit [0x905, 0x915, 0x94D, 0x91F, 0x942], Opt (Lit (js ''.''))], Lit [0x928,
         0x935, 0x92E, 0x94D, 0x92C, 0x930], Seq [Lit [0x928, 0x935, 0x902, 0x92C], Opt (Lit
         [0x930])], Lit [0x926, 0x93F, 0x938, 0x92E, 0x94D, 0x92C, 0x930], Seq [Lit [0x926, 0x93F,
         0x938, 0x902, 0x92C], Opt (Lit [0x930])]]])]), (''monthsShortStrictRegex'', [Regex True
         (Seq [Start, Alt [Seq [Lit [0x91C, 0x928], Opt (Lit (js ''.''))], Seq [Lit [0x92B, 0x93C,
         0x930], Opt (Lit (js ''.''))], Seq [Lit [0x92E, 0x93E, 0x930, 0x94D], Opt (Lit [0x91A])],
         Seq [Lit [0x905, 0x92A, 0x94D, 0x930, 0x948], Opt (Lit (js ''.''))], Seq [Lit [0x92E], Opt
         (Lit [0x908])], Seq [Lit [0x91C, 0x942], Opt (Lit [0x928])], Seq [Lit [0x91C, 0x941,
         0x932], Opt (Lit (js ''.''))], Seq [Lit [0x905, 0x917], Opt (Lit (js ''.''))], Seq [Lit
         [0x938, 0x93F, 0x924], Opt (Lit (js ''.''))], Seq [Lit [0x905, 0x915, 0x94D, 0x91F, 0x942],
         Opt (Lit (js ''.''))], Seq [Lit [0x928, 0x935], Opt (Lit (js ''.''))], Seq [Lit [0x926,
         0x93F, 0x938], Opt (Lit (js ''.''))]]])]), (''monthsParse'', hi_rx_i),
         (''longMonthsParse'', hi_rx_i), (''shortMonthsParse'', [Regex True (Seq [Start, Lit [0x91C,
         0x928]]), Regex True (Seq [Start, Lit [0x92B, 0x93C, 0x930]]), Regex True (Seq [Start, Lit
         [0x92E, 0x93E, 0x930, 0x94D, 0x91A]]), Regex True (Seq [Start, Lit [0x905, 0x92A, 0x94D,
         0x930, 0x948]]), Regex True (Seq [Start, Lit [0x92E, 0x908]]), Regex True (Seq [Start, Lit
         [0x91C, 0x942, 0x928]]), Regex True (Seq [Start, Lit [0x91C, 0x941, 0x932]]), Regex True
         (Seq [Start, Lit [0x905, 0x917]]), Regex True (Seq [Start, Lit [0x938, 0x93F, 0x924]]),
         Regex True (Seq [Start, Lit [0x905, 0x915, 0x94D, 0x91F, 0x942]]), Regex True (Seq [Start,
         Lit [0x928, 0x935]]), Regex True (Seq [Start, Lit [0x926, 0x93F, 0x938]])])],
     l_months_parse_exact = False,
     l_weekdays_parse_exact = False,
     l_invalid_date = None,
     l_eras = [],
     l_era_year = None \<rparr>"

definition locales_e :: "moment_locale list" where
  "locales_e = [locale_et, locale_eu, locale_fa, locale_fi, locale_fil, locale_fo, locale_fr, locale_fr_ca,
         locale_fr_ch, locale_fy, locale_ga, locale_gd, locale_gl, locale_gom_deva, locale_gom_latn,
         locale_gu, locale_he, locale_hi]"

lemmas locales_e_defs = locales_e_def locale_et_def locale_eu_def locale_fa_def locale_fi_def locale_fil_def locale_fo_def
      locale_fr_def locale_fr_ca_def locale_fr_ch_def locale_fy_def locale_ga_def locale_gd_def
      locale_gl_def locale_gom_deva_def locale_gom_latn_def locale_gu_def locale_he_def
      locale_hi_def

text \<open>The relative times of these languages.\<close>

lemma et_rel_t_defined:
  assumes "1 \<le> number"
  shows "et_rel_t number withoutSuffix ''s'' isFuture \<noteq> None"
    and "et_rel_t number withoutSuffix ''ss'' isFuture \<noteq> None"
    and "et_rel_t number withoutSuffix ''m'' isFuture \<noteq> None"
    and "et_rel_t number withoutSuffix ''mm'' isFuture \<noteq> None"
    and "et_rel_t number withoutSuffix ''h'' isFuture \<noteq> None"
    and "et_rel_t number withoutSuffix ''hh'' isFuture \<noteq> None"
    and "et_rel_t number withoutSuffix ''d'' isFuture \<noteq> None"
    and "et_rel_t number withoutSuffix ''M'' isFuture \<noteq> None"
    and "et_rel_t number withoutSuffix ''MM'' isFuture \<noteq> None"
    and "et_rel_t number withoutSuffix ''y'' isFuture \<noteq> None"
    and "et_rel_t number withoutSuffix ''yy'' isFuture \<noteq> None"
  using assms
  by (auto simp: et_rel_t_def js_nth_def js_truthy_def js_or_def Let_def split: if_splits)

lemma fi_rel_i_defined:
  assumes "1 \<le> number"
  shows "fi_rel_i number withoutSuffix ''s'' isFuture \<noteq> None"
    and "fi_rel_i number withoutSuffix ''ss'' isFuture \<noteq> None"
    and "fi_rel_i number withoutSuffix ''m'' isFuture \<noteq> None"
    and "fi_rel_i number withoutSuffix ''mm'' isFuture \<noteq> None"
    and "fi_rel_i number withoutSuffix ''h'' isFuture \<noteq> None"
    and "fi_rel_i number withoutSuffix ''hh'' isFuture \<noteq> None"
    and "fi_rel_i number withoutSuffix ''d'' isFuture \<noteq> None"
    and "fi_rel_i number withoutSuffix ''dd'' isFuture \<noteq> None"
    and "fi_rel_i number withoutSuffix ''M'' isFuture \<noteq> None"
    and "fi_rel_i number withoutSuffix ''MM'' isFuture \<noteq> None"
    and "fi_rel_i number withoutSuffix ''y'' isFuture \<noteq> None"
    and "fi_rel_i number withoutSuffix ''yy'' isFuture \<noteq> None"
  using assms
  by (auto simp: fi_rel_i_def fi_r_def js_nth_def Let_def split: if_splits)

lemma gom_deva_rel_t_defined:
  assumes "1 \<le> number"
  shows "gom_deva_rel_t number withoutSuffix ''s'' isFuture \<noteq> None"
    and "gom_deva_rel_t number withoutSuffix ''ss'' isFuture \<noteq> None"
    and "gom_deva_rel_t number withoutSuffix ''m'' isFuture \<noteq> None"
    and "gom_deva_rel_t number withoutSuffix ''mm'' isFuture \<noteq> None"
    and "gom_deva_rel_t number withoutSuffix ''h'' isFuture \<noteq> None"
    and "gom_deva_rel_t number withoutSuffix ''hh'' isFuture \<noteq> None"
    and "gom_deva_rel_t number withoutSuffix ''d'' isFuture \<noteq> None"
    and "gom_deva_rel_t number withoutSuffix ''dd'' isFuture \<noteq> None"
    and "gom_deva_rel_t number withoutSuffix ''M'' isFuture \<noteq> None"
    and "gom_deva_rel_t number withoutSuffix ''MM'' isFuture \<noteq> None"
    and "gom_deva_rel_t number withoutSuffix ''y'' isFuture \<noteq> None"
    and "gom_deva_rel_t number withoutSuffix ''yy'' isFuture \<noteq> None"
  using assms
  by (auto simp: gom_deva_rel_t_def js_nth_def Let_def split: if_splits)

lemma gom_latn_rel_t_defined:
  assumes "1 \<le> number"
  shows "gom_latn_rel_t number withoutSuffix ''s'' isFuture \<noteq> None"
    and "gom_latn_rel_t number withoutSuffix ''ss'' isFuture \<noteq> None"
    and "gom_latn_rel_t number withoutSuffix ''m'' isFuture \<noteq> None"
    and "gom_latn_rel_t number withoutSuffix ''mm'' isFuture \<noteq> None"
    and "gom_latn_rel_t number withoutSuffix ''h'' isFuture \<noteq> None"
    and "gom_latn_rel_t number withoutSuffix ''hh'' isFuture \<noteq> None"
    and "gom_latn_rel_t number withoutSuffix ''d'' isFuture \<noteq> None"
    and "gom_latn_rel_t number withoutSuffix ''dd'' isFuture \<noteq> None"
    and "gom_latn_rel_t number withoutSuffix ''M'' isFuture \<noteq> None"
    and "gom_latn_rel_t number withoutSuffix ''MM'' isFuture \<noteq> None"
    and "gom_latn_rel_t number withoutSuffix ''y'' isFuture \<noteq> None"
    and "gom_latn_rel_t number withoutSuffix ''yy'' isFuture \<noteq> None"
  using assms
  by (auto simp: gom_latn_rel_t_def js_nth_def Let_def split: if_splits)

lemma he_rel_hh_defined:
  assumes "1 \<le> number"
  shows "he_rel_hh number withoutSuffix ''hh'' isFuture \<noteq> None"
  using assms
  by (auto simp: he_rel_hh_def js_nth_def Let_def split: if_splits)

lemma he_rel_dd_defined:
  assumes "1 \<le> number"
  shows "he_rel_dd number withoutSuffix ''dd'' isFuture \<noteq> None"
  using assms
  by (auto simp: he_rel_dd_def js_nth_def Let_def split: if_splits)

lemma he_rel_MM_defined:
  assumes "1 \<le> number"
  shows "he_rel_MM number withoutSuffix ''MM'' isFuture \<noteq> None"
  using assms
  by (auto simp: he_rel_MM_def js_nth_def Let_def split: if_splits)

lemma he_rel_yy_defined:
  assumes "1 \<le> number"
  shows "he_rel_yy number withoutSuffix ''yy'' isFuture \<noteq> None"
  using assms
  by (auto simp: he_rel_yy_def js_nth_def Let_def split: if_splits)

lemma locales_e_relative:
  assumes "1 \<le> number"
  shows "list_all (\<lambda>c. rel_defined number withoutSuffix isFuture (l_relative_time c)) locales_e"
  unfolding locales_e_defs list.pred_inject moment_locale.select_convs rel_defined_def
  using assms by (simp add: et_rel_t_defined fi_rel_i_defined gom_deva_rel_t_defined gom_latn_rel_t_defined he_rel_hh_defined he_rel_dd_defined he_rel_MM_defined he_rel_yy_defined del: not_None_eq)

lemma locales_e_wrappers:
  "list_all (\<lambda>c. wrapper_defined s (l_relative_time c)) locales_e"
  unfolding locales_e_defs list.pred_inject moment_locale.select_convs wrapper_defined_def
  by (simp add: gl_rel_future_def)

lemma locales_e_unitwise:
  "list_all (\<lambda>c. unitwise (apply_option (l_preparse c)) \<and> unitwise (apply_option (l_postformat c))) locales_e"
  unfolding locales_e_defs list.pred_inject moment_locale.select_convs
  by (simp add: unitwise_def apply_option_def
      fa_preparse_def fa_postformat_def gu_preparse_def gu_postformat_def
      hi_preparse_def hi_postformat_def)

lemma locales_e_names:
  "list_all (\<lambda>c. names_length 12 (l_months c) \<and> names_length 12 (l_months_short c) \<and>
     names_length 7 (l_weekdays c) \<and> length (l_weekdays_short c) = 7 \<and> length (l_weekdays_min c) = 7) locales_e"
  unfolding locales_e_defs list.pred_inject moment_locale.select_convs
  by (simp add: names_length_def)

end
