(* ===== verification/LocalesH.thy ===== *)
theory LocalesH
  imports MomentCore
begin

text \<open>
  The language configurations hr to lb of the date library, as the bundle
  \<^verbatim>\<open>src/lagosta/js/app.js\<close> registers them, one per line.  Each configuration is the record
  \<^verbatim>\<open>locale_x\<close>; the functions inside it are the definitions before it, named after the language and
  the property (or the local function) that holds them.
\<close>

text \<open>\<^verbatim>\<open>hr\<close> (line 120).\<close>

definition hr_nextWeek :: "nat \<Rightarrow> nat \<Rightarrow> bool \<Rightarrow> js option" where
  "hr_nextWeek day hours sameWeek = (if day = 0 then Some (js ''[u] [nedjelju] [u] LT'')
      else if day = 3 then Some (js ''[u] [srijedu] [u] LT'')
      else if day = 6 then Some (js ''[u] [subotu] [u] LT'')
      else if day = 1 \<or> day = 2 \<or> day = 4 \<or> day = 5 then Some (js ''[u] dddd [u] LT'')
      else None)"

definition hr_lastWeek :: "nat \<Rightarrow> nat \<Rightarrow> bool \<Rightarrow> js option" where
  "hr_lastWeek day hours sameWeek = (if day = 0 then Some (js ''[pro'' @ [0x161] @ js
      ''lu] [nedjelju] [u] LT'')
      else if day = 3 then Some (js ''[pro'' @ [0x161] @ js ''lu] [srijedu] [u] LT'')
      else if day = 6 then Some (js ''[pro'' @ [0x161] @ js ''le] [subote] [u] LT'')
      else if day = 1 \<or> day = 2 \<or> day = 4 \<or> day = 5 then Some (js ''[pro'' @ [0x161] @
          js ''li] dddd [u] LT'')
      else None)"

definition hr_rel_t :: "nat \<Rightarrow> bool \<Rightarrow> string \<Rightarrow> bool \<Rightarrow>
    js option" where
  "hr_rel_t number withoutSuffix key isFuture = (let i = jnum number @ js '' '' in (if key = ''ss''
      then Some (let i = i @ (if number = 1 then js ''sekunda''
      else if (number = 2 \<or> number = 3) \<or> number = 4 then js ''sekunde''
      else js ''sekundi'') in i)
      else if key = ''m'' then Some (if withoutSuffix then js ''jedna minuta''
      else js ''jedne minute'')
      else if key = ''mm'' then Some (let i = i @ (if number = 1 then js ''minuta''
      else if (number = 2 \<or> number = 3) \<or> number = 4 then js ''minute''
      else js ''minuta'') in i)
      else if key = ''h'' then Some (if withoutSuffix then js ''jedan sat''
      else js ''jednog sata'')
      else if key = ''hh'' then Some (let i = i @ (if number = 1 then js ''sat''
      else if (number = 2 \<or> number = 3) \<or> number = 4 then js ''sata''
      else js ''sati'') in i)
      else if key = ''dd'' then Some (let i = i @ (if number = 1 then js ''dan''
      else js ''dana'') in i)
      else if key = ''MM'' then Some (let i = i @ (if number = 1 then js ''mjesec''
      else if (number = 2 \<or> number = 3) \<or> number = 4 then js ''mjeseca''
      else js ''mjeseci'') in i)
      else if key = ''yy'' then Some (let i = i @ (if number = 1 then js ''godina''
      else if (number = 2 \<or> number = 3) \<or> number = 4 then js ''godine''
      else js ''godina'') in i)
      else None))"

definition locale_hr :: moment_locale where
  "locale_hr = \<lparr>
     l_abbr = ''hr'',
     l_months = NamesAlt [js ''sije'' @ [0x10D, 0x61, 0x6E, 0x6A], js ''velja'' @ [0x10D, 0x61],
         [0x6F, 0x17E] @ js ''ujak'', js ''travanj'', js ''svibanj'', js ''lipanj'', js ''srpanj'',
         js ''kolovoz'', js ''rujan'', js ''listopad'', js ''studeni'', js ''prosinac''] [js
         ''sije'' @ [0x10D, 0x6E, 0x6A, 0x61], js ''velja'' @ [0x10D, 0x65], [0x6F, 0x17E] @ js
         ''ujka'', js ''travnja'', js ''svibnja'', js ''lipnja'', js ''srpnja'', js ''kolovoza'', js
         ''rujna'', js ''listopada'', js ''studenoga'', js ''prosinca''] None,
     l_months_short = Names [js ''sij.'', js ''velj.'', [0x6F, 0x17E, 0x75, 0x2E], js ''tra.'', js
         ''svi.'', js ''lip.'', js ''srp.'', js ''kol.'', js ''ruj.'', js ''lis.'', js ''stu.'', js
         ''pro.''],
     l_weekdays = Names [js ''nedjelja'', js ''ponedjeljak'', js ''utorak'', js ''srijeda'', [0x10D]
         @ js ''etvrtak'', js ''petak'', js ''subota''],
     l_weekdays_short = [js ''ned.'', js ''pon.'', js ''uto.'', js ''sri.'', [0x10D, 0x65, 0x74,
         0x2E], js ''pet.'', js ''sub.''],
     l_weekdays_min = [js ''ne'', js ''po'', js ''ut'', js ''sr'', [0x10D, 0x65], js ''pe'', js
         ''su''],
     l_long_date_format = [(''LT'', js ''H:mm''),
       (''LTS'', js ''H:mm:ss''),
       (''L'', js ''DD.MM.YYYY''),
       (''LL'', js ''Do MMMM YYYY''),
       (''LLL'', js ''Do MMMM YYYY H:mm''),
       (''LLLL'', js ''dddd, Do MMMM YYYY H:mm'')],
     l_calendar = [(''sameDay'', CalText (js ''[danas u] LT'')),
       (''nextDay'', CalText (js ''[sutra u] LT'')),
       (''nextWeek'', CalFun hr_nextWeek),
       (''lastDay'', CalText ([0x5B, 0x6A, 0x75, 0x10D] @ js ''er u] LT'')),
       (''lastWeek'', CalFun hr_lastWeek),
       (''sameElse'', CalText (js ''L''))],
     l_relative_time = [(''future'', RelText (js ''za %s'')),
       (''past'', RelText (js ''prije %s'')),
       (''s'', RelText (js ''par sekundi'')),
       (''ss'', RelNum hr_rel_t),
       (''m'', RelNum hr_rel_t),
       (''mm'', RelNum hr_rel_t),
       (''h'', RelNum hr_rel_t),
       (''hh'', RelNum hr_rel_t),
       (''d'', RelText (js ''dan'')),
       (''dd'', RelNum hr_rel_t),
       (''M'', RelText (js ''mjesec'')),
       (''MM'', RelNum hr_rel_t),
       (''y'', RelText (js ''godinu'')),
       (''yy'', RelNum hr_rel_t)],
     l_ordinal = Some (OrdText (js ''%d.'')),
     l_meridiem = None,
     l_is_pm = None,
     l_meridiem_hour = None,
     l_preparse = None,
     l_postformat = None,
     l_week = Some (1, 7),
     l_meridiem_parse = None,
     l_ordinal_parse = Some (Regex False (Seq [digits_1_2, Lit (js ''.'')])),
     l_parse = [],
     l_months_parse_exact = True,
     l_weekdays_parse_exact = True,
     l_invalid_date = None,
     l_eras = [],
     l_era_year = None \<rparr>"

text \<open>\<^verbatim>\<open>hu\<close> (line 143).\<close>

definition hu_week :: "bool \<Rightarrow> nat \<Rightarrow> nat \<Rightarrow> bool \<Rightarrow> js
    option" where
  "hu_week isFuture day hours sameWeek = 
     map_option (\<lambda>x. (if isFuture then []
      else ([0x5B, 0x6D, 0xFA] @ js ''lt] '')) @ (js ''['') @ x @ (js ''] LT[-kor]''))
       (js_nth [[0x76, 0x61, 0x73, 0xE1] @ js ''rnap'', [0x68, 0xE9, 0x74, 0x66, 0x151, 0x6E], js
           ''kedden'', js ''szerd'' @ [0xE1, 0x6E], [0x63, 0x73, 0xFC, 0x74, 0xF6, 0x72, 0x74, 0xF6,
           0x6B, 0xF6, 0x6E], [0x70, 0xE9] @ js ''nteken'', js ''szombaton''] day)"

definition hu_nextWeek :: "nat \<Rightarrow> nat \<Rightarrow> bool \<Rightarrow> js option" where
  "hu_nextWeek day hours sameWeek = hu_week True day hours sameWeek"

definition hu_lastWeek :: "nat \<Rightarrow> nat \<Rightarrow> bool \<Rightarrow> js option" where
  "hu_lastWeek day hours sameWeek = hu_week False day hours sameWeek"

definition hu_rel_n :: "nat \<Rightarrow> bool \<Rightarrow> string \<Rightarrow> bool \<Rightarrow>
    js option" where
  "hu_rel_n number withoutSuffix key isFuture = Some (if key = ''s'' then (if isFuture \<or>
      withoutSuffix then [0x6E, 0xE9, 0x68, 0xE1] @ js ''ny m'' @ [0xE1] @ js ''sodperc''
      else [0x6E, 0xE9, 0x68, 0xE1] @ js ''ny m'' @ [0xE1] @ js ''sodperce'')
      else if key = ''ss'' then (if number + of_bool (isFuture \<or> withoutSuffix) \<noteq> 0 then
          [0x20, 0x6D, 0xE1] @ js ''sodperc''
      else [0x20, 0x6D, 0xE1] @ js ''sodperce'')
      else if key = ''m'' then js ''egy'' @ (if isFuture \<or> withoutSuffix then js '' perc''
      else js '' perce'')
      else if key = ''mm'' then jnum number @ (if isFuture \<or> withoutSuffix then js '' perc''
      else js '' perce'')
      else if key = ''h'' then js ''egy'' @ (if isFuture \<or> withoutSuffix then [0x20, 0xF3, 0x72,
          0x61]
      else [0x20, 0xF3, 0x72, 0xE1, 0x6A, 0x61])
      else if key = ''hh'' then jnum number @ (if isFuture \<or> withoutSuffix then [0x20, 0xF3,
          0x72, 0x61]
      else [0x20, 0xF3, 0x72, 0xE1, 0x6A, 0x61])
      else if key = ''d'' then js ''egy'' @ (if isFuture \<or> withoutSuffix then js '' nap''
      else js '' napja'')
      else if key = ''dd'' then jnum number @ (if isFuture \<or> withoutSuffix then js '' nap''
      else js '' napja'')
      else if key = ''M'' then js ''egy'' @ (if isFuture \<or> withoutSuffix then [0x20, 0x68, 0xF3,
          0x6E, 0x61, 0x70]
      else [0x20, 0x68, 0xF3] @ js ''napja'')
      else if key = ''MM'' then jnum number @ (if isFuture \<or> withoutSuffix then [0x20, 0x68,
          0xF3, 0x6E, 0x61, 0x70]
      else [0x20, 0x68, 0xF3] @ js ''napja'')
      else if key = ''y'' then js ''egy'' @ (if isFuture \<or> withoutSuffix then [0x20, 0xE9, 0x76]
      else [0x20, 0xE9, 0x76, 0x65])
      else if key = ''yy'' then jnum number @ (if isFuture \<or> withoutSuffix then [0x20, 0xE9,
          0x76]
      else [0x20, 0xE9, 0x76, 0x65])
      else [])"

definition hu_meridiem :: "nat \<Rightarrow> nat \<Rightarrow> bool \<Rightarrow> js" where
  "hu_meridiem hour minute isLower = (if hour < 12 then (if isLower then js ''de''
      else js ''DE'')
      else if isLower then js ''du''
      else js ''DU'')"

definition hu_isPM :: "js \<Rightarrow> bool" where
  "hu_isPM input \<longleftrightarrow> js_lower (js_char_at input 1) = js ''u''"

definition locale_hu :: moment_locale where
  "locale_hu = \<lparr>
     l_abbr = ''hu'',
     l_months = Names [js ''janu'' @ [0xE1, 0x72], js ''febru'' @ [0xE1, 0x72], [0x6D, 0xE1] @ js
         ''rcius'', [0xE1] @ js ''prilis'', [0x6D, 0xE1, 0x6A, 0x75, 0x73], [0x6A, 0xFA] @ js
         ''nius'', [0x6A, 0xFA] @ js ''lius'', js ''augusztus'', js ''szeptember'', [0x6F, 0x6B,
         0x74, 0xF3, 0x62, 0x65, 0x72], js ''november'', js ''december''],
     l_months_short = Names [js ''jan.'', js ''feb.'', [0x6D, 0xE1, 0x72, 0x63, 0x2E], [0xE1, 0x70,
         0x72, 0x2E], [0x6D, 0xE1, 0x6A, 0x2E], [0x6A, 0xFA, 0x6E, 0x2E], [0x6A, 0xFA, 0x6C, 0x2E],
         js ''aug.'', js ''szept.'', js ''okt.'', js ''nov.'', js ''dec.''],
     l_weekdays = Names [[0x76, 0x61, 0x73, 0xE1] @ js ''rnap'', [0x68, 0xE9, 0x74, 0x66, 0x151], js
         ''kedd'', js ''szerda'', [0x63, 0x73, 0xFC, 0x74, 0xF6, 0x72, 0x74, 0xF6, 0x6B], [0x70,
         0xE9] @ js ''ntek'', js ''szombat''],
     l_weekdays_short = [js ''vas'', [0x68, 0xE9, 0x74], js ''kedd'', js ''sze'', [0x63, 0x73, 0xFC,
         0x74], [0x70, 0xE9, 0x6E], js ''szo''],
     l_weekdays_min = [js ''v'', js ''h'', js ''k'', js ''sze'', js ''cs'', js ''p'', js ''szo''],
     l_long_date_format = [(''LT'', js ''H:mm''),
       (''LTS'', js ''H:mm:ss''),
       (''L'', js ''YYYY.MM.DD.''),
       (''LL'', js ''YYYY. MMMM D.''),
       (''LLL'', js ''YYYY. MMMM D. H:mm''),
       (''LLLL'', js ''YYYY. MMMM D., dddd H:mm'')],
     l_calendar = [(''sameDay'', CalText (js ''[ma] LT[-kor]'')),
       (''nextDay'', CalText (js ''[holnap] LT[-kor]'')),
       (''nextWeek'', CalFun hu_nextWeek),
       (''lastDay'', CalText (js ''[tegnap] LT[-kor]'')),
       (''lastWeek'', CalFun hu_lastWeek),
       (''sameElse'', CalText (js ''L''))],
     l_relative_time = [(''future'', RelText (js ''%s m'' @ [0xFA, 0x6C, 0x76, 0x61])),
       (''past'', RelText (js ''%s'')),
       (''s'', RelNum hu_rel_n),
       (''ss'', RelNum hu_rel_n),
       (''m'', RelNum hu_rel_n),
       (''mm'', RelNum hu_rel_n),
       (''h'', RelNum hu_rel_n),
       (''hh'', RelNum hu_rel_n),
       (''d'', RelNum hu_rel_n),
       (''dd'', RelNum hu_rel_n),
       (''M'', RelNum hu_rel_n),
       (''MM'', RelNum hu_rel_n),
       (''y'', RelNum hu_rel_n),
       (''yy'', RelNum hu_rel_n)],
     l_ordinal = Some (OrdText (js ''%d.'')),
     l_meridiem = Some hu_meridiem,
     l_is_pm = Some hu_isPM,
     l_meridiem_hour = None,
     l_preparse = None,
     l_postformat = None,
     l_week = Some (1, 4),
     l_meridiem_parse = Some (Regex True (Alt [Lit (js ''de''), Lit (js ''du'')])),
     l_ordinal_parse = Some (Regex False (Seq [digits_1_2, Lit (js ''.'')])),
     l_parse = [],
     l_months_parse_exact = True,
     l_weekdays_parse_exact = False,
     l_invalid_date = None,
     l_eras = [],
     l_era_year = None \<rparr>"

text \<open>\<^verbatim>\<open>hy-am\<close> (line 321).\<close>

definition hy_am_nextWeek :: "nat \<Rightarrow> nat \<Rightarrow> bool \<Rightarrow> js option"
    where
  "hy_am_nextWeek day hours sameWeek = Some (js ''dddd ['' @ [0x585, 0x580, 0x568, 0x20, 0x56A,
      0x561, 0x574, 0x568] @ js ''] LT'')"

definition hy_am_lastWeek :: "nat \<Rightarrow> nat \<Rightarrow> bool \<Rightarrow> js option"
    where
  "hy_am_lastWeek day hours sameWeek = Some ([0x5B, 0x561, 0x576, 0x581, 0x561, 0x56E] @ js
      ''] dddd ['' @ [0x585, 0x580, 0x568, 0x20, 0x56A, 0x561, 0x574, 0x568] @ js ''] LT'')"

definition hy_am_ordinal :: "nat \<Rightarrow> string \<Rightarrow> js option" where
  "hy_am_ordinal number period = Some (if period = ''DDD'' \<or> period = ''w'' \<or> period = ''W''
      \<or> period = ''DDDo'' then (if number = 1 then jnum number @ [0x2D, 0x56B, 0x576]
      else jnum number @ [0x2D, 0x580, 0x564])
      else jnum number)"

definition hy_am_meridiem :: "nat \<Rightarrow> nat \<Rightarrow> bool \<Rightarrow> js" where
  "hy_am_meridiem hour minute isLower = (if hour < 4 then [0x563, 0x56B, 0x577, 0x565, 0x580, 0x57E,
      0x561]
      else if hour < 12 then [0x561, 0x57C, 0x561, 0x57E, 0x578, 0x57F, 0x57E, 0x561]
      else if hour < 17 then [0x581, 0x565, 0x580, 0x565, 0x56F, 0x57E, 0x561]
      else [0x565, 0x580, 0x565, 0x56F, 0x578, 0x575, 0x561, 0x576])"

definition hy_am_isPM :: "js \<Rightarrow> bool" where
  "hy_am_isPM input \<longleftrightarrow> input \<in> set [[0x581, 0x565, 0x580, 0x565, 0x56F,
      0x57E, 0x561], [0x565, 0x580, 0x565, 0x56F, 0x578, 0x575, 0x561, 0x576]]"

definition locale_hy_am :: moment_locale where
  "locale_hy_am = \<lparr>
     l_abbr = ''hy-am'',
     l_months = NamesAlt [[0x570, 0x578, 0x582, 0x576, 0x57E, 0x561, 0x580], [0x583, 0x565, 0x57F,
         0x580, 0x57E, 0x561, 0x580], [0x574, 0x561, 0x580, 0x57F], [0x561, 0x57A, 0x580, 0x56B,
         0x56C], [0x574, 0x561, 0x575, 0x56B, 0x57D], [0x570, 0x578, 0x582, 0x576, 0x56B, 0x57D],
         [0x570, 0x578, 0x582, 0x56C, 0x56B, 0x57D], [0x585, 0x563, 0x578, 0x57D, 0x57F, 0x578,
         0x57D], [0x57D, 0x565, 0x57A, 0x57F, 0x565, 0x574, 0x562, 0x565, 0x580], [0x570, 0x578,
         0x56F, 0x57F, 0x565, 0x574, 0x562, 0x565, 0x580], [0x576, 0x578, 0x575, 0x565, 0x574,
         0x562, 0x565, 0x580], [0x564, 0x565, 0x56F, 0x57F, 0x565, 0x574, 0x562, 0x565, 0x580]]
         [[0x570, 0x578, 0x582, 0x576, 0x57E, 0x561, 0x580, 0x56B], [0x583, 0x565, 0x57F, 0x580,
         0x57E, 0x561, 0x580, 0x56B], [0x574, 0x561, 0x580, 0x57F, 0x56B], [0x561, 0x57A, 0x580,
         0x56B, 0x56C, 0x56B], [0x574, 0x561, 0x575, 0x56B, 0x57D, 0x56B], [0x570, 0x578, 0x582,
         0x576, 0x56B, 0x57D, 0x56B], [0x570, 0x578, 0x582, 0x56C, 0x56B, 0x57D, 0x56B], [0x585,
         0x563, 0x578, 0x57D, 0x57F, 0x578, 0x57D, 0x56B], [0x57D, 0x565, 0x57A, 0x57F, 0x565,
         0x574, 0x562, 0x565, 0x580, 0x56B], [0x570, 0x578, 0x56F, 0x57F, 0x565, 0x574, 0x562,
         0x565, 0x580, 0x56B], [0x576, 0x578, 0x575, 0x565, 0x574, 0x562, 0x565, 0x580, 0x56B],
         [0x564, 0x565, 0x56F, 0x57F, 0x565, 0x574, 0x562, 0x565, 0x580, 0x56B]] None,
     l_months_short = Names [[0x570, 0x576, 0x57E], [0x583, 0x57F, 0x580], [0x574, 0x580, 0x57F],
         [0x561, 0x57A, 0x580], [0x574, 0x575, 0x57D], [0x570, 0x576, 0x57D], [0x570, 0x56C, 0x57D],
         [0x585, 0x563, 0x57D], [0x57D, 0x57A, 0x57F], [0x570, 0x56F, 0x57F], [0x576, 0x574, 0x562],
         [0x564, 0x56F, 0x57F]],
     l_weekdays = Names [[0x56F, 0x56B, 0x580, 0x561, 0x56F, 0x56B], [0x565, 0x580, 0x56F, 0x578,
         0x582, 0x577, 0x561, 0x562, 0x569, 0x56B], [0x565, 0x580, 0x565, 0x584, 0x577, 0x561,
         0x562, 0x569, 0x56B], [0x579, 0x578, 0x580, 0x565, 0x584, 0x577, 0x561, 0x562, 0x569,
         0x56B], [0x570, 0x56B, 0x576, 0x563, 0x577, 0x561, 0x562, 0x569, 0x56B], [0x578, 0x582,
         0x580, 0x562, 0x561, 0x569], [0x577, 0x561, 0x562, 0x561, 0x569]],
     l_weekdays_short = [[0x56F, 0x580, 0x56F], [0x565, 0x580, 0x56F], [0x565, 0x580, 0x584],
         [0x579, 0x580, 0x584], [0x570, 0x576, 0x563], [0x578, 0x582, 0x580, 0x562], [0x577, 0x562,
         0x569]],
     l_weekdays_min = [[0x56F, 0x580, 0x56F], [0x565, 0x580, 0x56F], [0x565, 0x580, 0x584], [0x579,
         0x580, 0x584], [0x570, 0x576, 0x563], [0x578, 0x582, 0x580, 0x562], [0x577, 0x562, 0x569]],
     l_long_date_format = [(''LT'', js ''HH:mm''),
       (''LTS'', js ''HH:mm:ss''),
       (''L'', js ''DD.MM.YYYY''),
       (''LL'', js ''D MMMM YYYY '' @ [0x569, 0x2E]),
       (''LLL'', js ''D MMMM YYYY '' @ [0x569] @ js ''., HH:mm''),
       (''LLLL'', js ''dddd, D MMMM YYYY '' @ [0x569] @ js ''., HH:mm'')],
     l_calendar = [(''sameDay'', CalText ([0x5B, 0x561, 0x575, 0x57D, 0x585, 0x580] @ js ''] LT'')),
       (''nextDay'', CalText ([0x5B, 0x57E, 0x561, 0x572, 0x568] @ js ''] LT'')),
       (''lastDay'', CalText ([0x5B, 0x565, 0x580, 0x565, 0x56F] @ js ''] LT'')),
       (''nextWeek'', CalFun hy_am_nextWeek),
       (''lastWeek'', CalFun hy_am_lastWeek),
       (''sameElse'', CalText (js ''L''))],
     l_relative_time = [(''future'', RelText [0x25, 0x73, 0x20, 0x570, 0x565, 0x57F, 0x578]),
       (''past'', RelText [0x25, 0x73, 0x20, 0x561, 0x57C, 0x561, 0x57B]),
       (''s'', RelText [0x574, 0x56B, 0x20, 0x584, 0x561, 0x576, 0x56B, 0x20, 0x57E, 0x561, 0x575,
           0x580, 0x56F, 0x575, 0x561, 0x576]),
       (''ss'', RelText [0x25, 0x64, 0x20, 0x57E, 0x561, 0x575, 0x580, 0x56F, 0x575, 0x561, 0x576]),
       (''m'', RelText [0x580, 0x578, 0x57A, 0x565]),
       (''mm'', RelText [0x25, 0x64, 0x20, 0x580, 0x578, 0x57A, 0x565]),
       (''h'', RelText [0x56A, 0x561, 0x574]),
       (''hh'', RelText [0x25, 0x64, 0x20, 0x56A, 0x561, 0x574]),
       (''d'', RelText [0x585, 0x580]),
       (''dd'', RelText [0x25, 0x64, 0x20, 0x585, 0x580]),
       (''M'', RelText [0x561, 0x574, 0x56B, 0x57D]),
       (''MM'', RelText [0x25, 0x64, 0x20, 0x561, 0x574, 0x56B, 0x57D]),
       (''y'', RelText [0x57F, 0x561, 0x580, 0x56B]),
       (''yy'', RelText [0x25, 0x64, 0x20, 0x57F, 0x561, 0x580, 0x56B])],
     l_ordinal = Some (OrdFun hy_am_ordinal),
     l_meridiem = Some hy_am_meridiem,
     l_is_pm = Some hy_am_isPM,
     l_meridiem_hour = None,
     l_preparse = None,
     l_postformat = None,
     l_week = Some (1, 7),
     l_meridiem_parse = Some (Regex False (Alt [Lit [0x563, 0x56B, 0x577, 0x565, 0x580, 0x57E,
         0x561], Lit [0x561, 0x57C, 0x561, 0x57E, 0x578, 0x57F, 0x57E, 0x561], Lit [0x581, 0x565,
         0x580, 0x565, 0x56F, 0x57E, 0x561], Lit [0x565, 0x580, 0x565, 0x56F, 0x578, 0x575, 0x561,
         0x576]])),
     l_ordinal_parse = Some (Regex False (Alt [digits_1_2, Seq [digits_1_2, Lit (js ''-''), Alt [Lit
         [0x56B, 0x576], Lit [0x580, 0x564]]]])),
     l_parse = [],
     l_months_parse_exact = False,
     l_weekdays_parse_exact = False,
     l_invalid_date = None,
     l_eras = [],
     l_era_year = None \<rparr>"

text \<open>\<^verbatim>\<open>id\<close> (line 122).\<close>

definition id_meridiem :: "nat \<Rightarrow> nat \<Rightarrow> bool \<Rightarrow> js" where
  "id_meridiem hour minute isLower = (if hour < 11 then js ''pagi''
      else if hour < 15 then js ''siang''
      else if hour < 19 then js ''sore''
      else js ''malam'')"

definition id_meridiemHour :: "nat \<Rightarrow> js \<Rightarrow> nat option" where
  "id_meridiemHour hour meridiem = (let hour = (if hour = 12 then 0
      else hour) in (if meridiem = js ''pagi'' then Some hour
      else if meridiem = js ''siang'' then Some (if hour \<ge> 11 then hour
      else hour + 12)
      else if meridiem = js ''sore'' \<or> meridiem = js ''malam'' then Some (hour + 12)
      else None))"

definition locale_id :: moment_locale where
  "locale_id = \<lparr>
     l_abbr = ''id'',
     l_months = Names [js ''Januari'', js ''Februari'', js ''Maret'', js ''April'', js ''Mei'', js
         ''Juni'', js ''Juli'', js ''Agustus'', js ''September'', js ''Oktober'', js ''November'',
         js ''Desember''],
     l_months_short = Names [js ''Jan'', js ''Feb'', js ''Mar'', js ''Apr'', js ''Mei'', js ''Jun'',
         js ''Jul'', js ''Agt'', js ''Sep'', js ''Okt'', js ''Nov'', js ''Des''],
     l_weekdays = Names [js ''Minggu'', js ''Senin'', js ''Selasa'', js ''Rabu'', js ''Kamis'', js
         ''Jumat'', js ''Sabtu''],
     l_weekdays_short = [js ''Min'', js ''Sen'', js ''Sel'', js ''Rab'', js ''Kam'', js ''Jum'', js
         ''Sab''],
     l_weekdays_min = [js ''Mg'', js ''Sn'', js ''Sl'', js ''Rb'', js ''Km'', js ''Jm'', js ''Sb''],
     l_long_date_format = [(''LT'', js ''HH.mm''),
       (''LTS'', js ''HH.mm.ss''),
       (''L'', js ''DD/MM/YYYY''),
       (''LL'', js ''D MMMM YYYY''),
       (''LLL'', js ''D MMMM YYYY [pukul] HH.mm''),
       (''LLLL'', js ''dddd, D MMMM YYYY [pukul] HH.mm'')],
     l_calendar = [(''sameDay'', CalText (js ''[Hari ini pukul] LT'')),
       (''nextDay'', CalText (js ''[Besok pukul] LT'')),
       (''nextWeek'', CalText (js ''dddd [pukul] LT'')),
       (''lastDay'', CalText (js ''[Kemarin pukul] LT'')),
       (''lastWeek'', CalText (js ''dddd [lalu pukul] LT'')),
       (''sameElse'', CalText (js ''L''))],
     l_relative_time = [(''future'', RelText (js ''dalam %s'')),
       (''past'', RelText (js ''%s yang lalu'')),
       (''s'', RelText (js ''beberapa detik'')),
       (''ss'', RelText (js ''%d detik'')),
       (''m'', RelText (js ''semenit'')),
       (''mm'', RelText (js ''%d menit'')),
       (''h'', RelText (js ''sejam'')),
       (''hh'', RelText (js ''%d jam'')),
       (''d'', RelText (js ''sehari'')),
       (''dd'', RelText (js ''%d hari'')),
       (''M'', RelText (js ''sebulan'')),
       (''MM'', RelText (js ''%d bulan'')),
       (''y'', RelText (js ''setahun'')),
       (''yy'', RelText (js ''%d tahun''))],
     l_ordinal = None,
     l_meridiem = Some id_meridiem,
     l_is_pm = None,
     l_meridiem_hour = Some id_meridiemHour,
     l_preparse = None,
     l_postformat = None,
     l_week = Some (0, 6),
     l_meridiem_parse = Some (Regex False (Alt [Lit (js ''pagi''), Lit (js ''siang''), Lit (js
         ''sore''), Lit (js ''malam'')])),
     l_ordinal_parse = None,
     l_parse = [],
     l_months_parse_exact = False,
     l_weekdays_parse_exact = False,
     l_invalid_date = None,
     l_eras = [],
     l_era_year = None \<rparr>"

text \<open>\<^verbatim>\<open>is\<close> (line 9).\<close>

definition is_t :: "nat \<Rightarrow> bool" where
  "is_t number \<longleftrightarrow> number mod 100 = 11 \<or> number mod 10 \<noteq> 1"

definition is_rel_n :: "nat \<Rightarrow> bool \<Rightarrow> string \<Rightarrow> bool \<Rightarrow>
    js option" where
  "is_rel_n number withoutSuffix key isFuture = (let a = jnum number @ js '' '' in (if key = ''s''
      then Some (if withoutSuffix \<or> isFuture then js ''nokkrar sek'' @ [0xFA] @ js ''ndur''
      else js ''nokkrum sek'' @ [0xFA] @ js ''ndum'')
      else if key = ''ss'' then Some (if is_t number then a @ (if withoutSuffix \<or> isFuture then
          [0x73, 0x65, 0x6B, 0xFA] @ js ''ndur''
      else [0x73, 0x65, 0x6B, 0xFA] @ js ''ndum'')
      else a @ [0x73, 0x65, 0x6B, 0xFA, 0x6E, 0x64, 0x61])
      else if key = ''m'' then Some (if withoutSuffix then [0x6D, 0xED, 0x6E, 0xFA, 0x74, 0x61]
      else [0x6D, 0xED, 0x6E, 0xFA, 0x74, 0x75])
      else if key = ''mm'' then Some (if is_t number then a @ (if withoutSuffix \<or> isFuture then
          [0x6D, 0xED, 0x6E, 0xFA, 0x74, 0x75, 0x72]
      else [0x6D, 0xED, 0x6E, 0xFA, 0x74, 0x75, 0x6D])
      else if withoutSuffix then a @ [0x6D, 0xED, 0x6E, 0xFA, 0x74, 0x61]
      else a @ [0x6D, 0xED, 0x6E, 0xFA, 0x74, 0x75])
      else if key = ''hh'' then Some (if is_t number then a @ (if withoutSuffix \<or> isFuture then
          js ''klukkustundir''
      else js ''klukkustundum'')
      else a @ js ''klukkustund'')
      else if key = ''d'' then Some (if withoutSuffix then js ''dagur''
      else if isFuture then js ''dag''
      else js ''degi'')
      else if key = ''dd'' then Some (if is_t number then (if withoutSuffix then a @ js ''dagar''
      else a @ (if isFuture then js ''daga''
      else [0x64, 0xF6, 0x67, 0x75, 0x6D]))
      else if withoutSuffix then a @ js ''dagur''
      else a @ (if isFuture then js ''dag''
      else js ''degi''))
      else if key = ''M'' then Some (if withoutSuffix then [0x6D, 0xE1, 0x6E, 0x75, 0xF0, 0x75,
          0x72]
      else if isFuture then [0x6D, 0xE1, 0x6E, 0x75, 0xF0]
      else [0x6D, 0xE1, 0x6E, 0x75, 0xF0, 0x69])
      else if key = ''MM'' then Some (if is_t number then (if withoutSuffix then a @ [0x6D, 0xE1,
          0x6E, 0x75, 0xF0, 0x69, 0x72]
      else a @ (if isFuture then [0x6D, 0xE1, 0x6E, 0x75, 0xF0, 0x69]
      else [0x6D, 0xE1, 0x6E, 0x75, 0xF0, 0x75, 0x6D]))
      else if withoutSuffix then a @ [0x6D, 0xE1, 0x6E, 0x75, 0xF0, 0x75, 0x72]
      else a @ (if isFuture then [0x6D, 0xE1, 0x6E, 0x75, 0xF0]
      else [0x6D, 0xE1, 0x6E, 0x75, 0xF0, 0x69]))
      else if key = ''y'' then Some (if withoutSuffix \<or> isFuture then [0xE1, 0x72]
      else [0xE1, 0x72, 0x69])
      else if key = ''yy'' then Some (if is_t number then a @ (if withoutSuffix \<or> isFuture then
          [0xE1, 0x72]
      else [0xE1, 0x72, 0x75, 0x6D])
      else a @ (if withoutSuffix \<or> isFuture then [0xE1, 0x72]
      else [0xE1, 0x72, 0x69]))
      else None))"

definition locale_is :: moment_locale where
  "locale_is = \<lparr>
     l_abbr = ''is'',
     l_months = Names [[0x6A, 0x61, 0x6E, 0xFA, 0x61, 0x72], js ''febr'' @ [0xFA, 0x61, 0x72], js
         ''mars'', [0x61, 0x70, 0x72, 0xED, 0x6C], [0x6D, 0x61, 0xED], [0x6A, 0xFA, 0x6E, 0xED],
         [0x6A, 0xFA, 0x6C, 0xED], [0xE1, 0x67, 0xFA, 0x73, 0x74], js ''september'', [0x6F, 0x6B,
         0x74, 0xF3, 0x62, 0x65, 0x72], [0x6E, 0xF3] @ js ''vember'', js ''desember''],
     l_months_short = Names [js ''jan'', js ''feb'', js ''mar'', js ''apr'', [0x6D, 0x61, 0xED],
         [0x6A, 0xFA, 0x6E], [0x6A, 0xFA, 0x6C], [0xE1, 0x67, 0xFA], js ''sep'', js ''okt'', [0x6E,
         0xF3, 0x76], js ''des''],
     l_weekdays = Names [js ''sunnudagur'', [0x6D, 0xE1] @ js ''nudagur'', [0xFE, 0x72, 0x69, 0xF0]
         @ js ''judagur'', [0x6D, 0x69, 0xF0] @ js ''vikudagur'', js ''fimmtudagur'', [0x66, 0xF6] @
         js ''studagur'', js ''laugardagur''],
     l_weekdays_short = [js ''sun'', [0x6D, 0xE1, 0x6E], [0xFE, 0x72, 0x69], [0x6D, 0x69, 0xF0], js
         ''fim'', [0x66, 0xF6, 0x73], js ''lau''],
     l_weekdays_min = [js ''Su'', [0x4D, 0xE1], [0xDE, 0x72], js ''Mi'', js ''Fi'', [0x46, 0xF6], js
         ''La''],
     l_long_date_format = [(''LT'', js ''H:mm''),
       (''LTS'', js ''H:mm:ss''),
       (''L'', js ''DD.MM.YYYY''),
       (''LL'', js ''D. MMMM YYYY''),
       (''LLL'', js ''D. MMMM YYYY [kl.] H:mm''),
       (''LLLL'', js ''dddd, D. MMMM YYYY [kl.] H:mm'')],
     l_calendar = [(''sameDay'', CalText ([0x5B, 0xED] @ js '' dag kl.] LT'')),
       (''nextDay'', CalText ([0x5B, 0xE1] @ js '' morgun kl.] LT'')),
       (''nextWeek'', CalText (js ''dddd [kl.] LT'')),
       (''lastDay'', CalText ([0x5B, 0xED, 0x20, 0x67, 0xE6] @ js ''r kl.] LT'')),
       (''lastWeek'', CalText ([0x5B, 0x73, 0xED, 0xF0] @ js ''asta] dddd [kl.] LT'')),
       (''sameElse'', CalText (js ''L''))],
     l_relative_time = [(''future'', RelText (js ''eftir %s'')),
       (''past'', RelText (js ''fyrir %s s'' @ [0xED, 0xF0, 0x61, 0x6E])),
       (''s'', RelNum is_rel_n),
       (''ss'', RelNum is_rel_n),
       (''m'', RelNum is_rel_n),
       (''mm'', RelNum is_rel_n),
       (''h'', RelText (js ''klukkustund'')),
       (''hh'', RelNum is_rel_n),
       (''d'', RelNum is_rel_n),
       (''dd'', RelNum is_rel_n),
       (''M'', RelNum is_rel_n),
       (''MM'', RelNum is_rel_n),
       (''y'', RelNum is_rel_n),
       (''yy'', RelNum is_rel_n)],
     l_ordinal = Some (OrdText (js ''%d.'')),
     l_meridiem = None,
     l_is_pm = None,
     l_meridiem_hour = None,
     l_preparse = None,
     l_postformat = None,
     l_week = Some (1, 4),
     l_meridiem_parse = None,
     l_ordinal_parse = Some (Regex False (Seq [digits_1_2, Lit (js ''.'')])),
     l_parse = [],
     l_months_parse_exact = False,
     l_weekdays_parse_exact = False,
     l_invalid_date = None,
     l_eras = [],
     l_era_year = None \<rparr>"

text \<open>\<^verbatim>\<open>it\<close> (line 178).\<close>

definition it_sameDay :: "nat \<Rightarrow> nat \<Rightarrow> bool \<Rightarrow> js option" where
  "it_sameDay day hours sameWeek = Some (js ''[Oggi a'' @ (if hours > 1 then js ''lle ''
      else if hours = 0 then js '' ''
      else [0x6C, 0x6C, 0x27]) @ js '']LT'')"

definition it_nextDay :: "nat \<Rightarrow> nat \<Rightarrow> bool \<Rightarrow> js option" where
  "it_nextDay day hours sameWeek = Some (js ''[Domani a'' @ (if hours > 1 then js ''lle ''
      else if hours = 0 then js '' ''
      else [0x6C, 0x6C, 0x27]) @ js '']LT'')"

definition it_nextWeek :: "nat \<Rightarrow> nat \<Rightarrow> bool \<Rightarrow> js option" where
  "it_nextWeek day hours sameWeek = Some (js ''dddd [a'' @ (if hours > 1 then js ''lle ''
      else if hours = 0 then js '' ''
      else [0x6C, 0x6C, 0x27]) @ js '']LT'')"

definition it_lastDay :: "nat \<Rightarrow> nat \<Rightarrow> bool \<Rightarrow> js option" where
  "it_lastDay day hours sameWeek = Some (js ''[Ieri a'' @ (if hours > 1 then js ''lle ''
      else if hours = 0 then js '' ''
      else [0x6C, 0x6C, 0x27]) @ js '']LT'')"

definition it_lastWeek :: "nat \<Rightarrow> nat \<Rightarrow> bool \<Rightarrow> js option" where
  "it_lastWeek day hours sameWeek = Some (if day = 0 then js ''[La scorsa] dddd [a'' @ (if hours > 1
      then js ''lle ''
      else if hours = 0 then js '' ''
      else [0x6C, 0x6C, 0x27]) @ js '']LT''
      else js ''[Lo scorso] dddd [a'' @ (if hours > 1 then js ''lle ''
      else if hours = 0 then js '' ''
      else [0x6C, 0x6C, 0x27]) @ js '']LT'')"

definition locale_it :: moment_locale where
  "locale_it = \<lparr>
     l_abbr = ''it'',
     l_months = Names [js ''gennaio'', js ''febbraio'', js ''marzo'', js ''aprile'', js ''maggio'',
         js ''giugno'', js ''luglio'', js ''agosto'', js ''settembre'', js ''ottobre'', js
         ''novembre'', js ''dicembre''],
     l_months_short = Names [js ''gen'', js ''feb'', js ''mar'', js ''apr'', js ''mag'', js ''giu'',
         js ''lug'', js ''ago'', js ''set'', js ''ott'', js ''nov'', js ''dic''],
     l_weekdays = Names [js ''domenica'', js ''luned'' @ [0xEC], js ''marted'' @ [0xEC], js
         ''mercoled'' @ [0xEC], js ''gioved'' @ [0xEC], js ''venerd'' @ [0xEC], js ''sabato''],
     l_weekdays_short = [js ''dom'', js ''lun'', js ''mar'', js ''mer'', js ''gio'', js ''ven'', js
         ''sab''],
     l_weekdays_min = [js ''do'', js ''lu'', js ''ma'', js ''me'', js ''gi'', js ''ve'', js ''sa''],
     l_long_date_format = [(''LT'', js ''HH:mm''),
       (''LTS'', js ''HH:mm:ss''),
       (''L'', js ''DD/MM/YYYY''),
       (''LL'', js ''D MMMM YYYY''),
       (''LLL'', js ''D MMMM YYYY HH:mm''),
       (''LLLL'', js ''dddd D MMMM YYYY HH:mm'')],
     l_calendar = [(''sameDay'', CalFun it_sameDay),
       (''nextDay'', CalFun it_nextDay),
       (''nextWeek'', CalFun it_nextWeek),
       (''lastDay'', CalFun it_lastDay),
       (''lastWeek'', CalFun it_lastWeek),
       (''sameElse'', CalText (js ''L''))],
     l_relative_time = [(''future'', RelText (js ''tra %s'')),
       (''past'', RelText (js ''%s fa'')),
       (''s'', RelText (js ''alcuni secondi'')),
       (''ss'', RelText (js ''%d secondi'')),
       (''m'', RelText (js ''un minuto'')),
       (''mm'', RelText (js ''%d minuti'')),
       (''h'', RelText [0x75, 0x6E, 0x27, 0x6F, 0x72, 0x61]),
       (''hh'', RelText (js ''%d ore'')),
       (''d'', RelText (js ''un giorno'')),
       (''dd'', RelText (js ''%d giorni'')),
       (''w'', RelText (js ''una settimana'')),
       (''ww'', RelText (js ''%d settimane'')),
       (''M'', RelText (js ''un mese'')),
       (''MM'', RelText (js ''%d mesi'')),
       (''y'', RelText (js ''un anno'')),
       (''yy'', RelText (js ''%d anni''))],
     l_ordinal = Some (OrdText [0x25, 0x64, 0xBA]),
     l_meridiem = None,
     l_is_pm = None,
     l_meridiem_hour = None,
     l_preparse = None,
     l_postformat = None,
     l_week = Some (1, 4),
     l_meridiem_parse = None,
     l_ordinal_parse = Some (Regex False (Seq [digits_1_2, Lit [0xBA]])),
     l_parse = [],
     l_months_parse_exact = False,
     l_weekdays_parse_exact = False,
     l_invalid_date = None,
     l_eras = [],
     l_era_year = None \<rparr>"

text \<open>\<^verbatim>\<open>it-ch\<close> (line 180).\<close>

definition it_ch_rel_future :: "js \<Rightarrow> js option" where
  "it_ch_rel_future s = 
     Some ((case s of c # d # cs \<Rightarrow> if 0x30 \<le> c \<and> c \<le> 0x39 then (js ''tra'')
      else (js ''in'') | _ \<Rightarrow> (js ''in'')) @ [0x20] @ s)"

definition it_ch_lastWeek :: "nat \<Rightarrow> nat \<Rightarrow> bool \<Rightarrow> js option"
    where
  "it_ch_lastWeek day hours sameWeek = Some (if day = 0 then js ''[la scorsa] dddd [alle] LT''
      else js ''[lo scorso] dddd [alle] LT'')"

definition locale_it_ch :: moment_locale where
  "locale_it_ch = \<lparr>
     l_abbr = ''it-ch'',
     l_months = Names [js ''gennaio'', js ''febbraio'', js ''marzo'', js ''aprile'', js ''maggio'',
         js ''giugno'', js ''luglio'', js ''agosto'', js ''settembre'', js ''ottobre'', js
         ''novembre'', js ''dicembre''],
     l_months_short = Names [js ''gen'', js ''feb'', js ''mar'', js ''apr'', js ''mag'', js ''giu'',
         js ''lug'', js ''ago'', js ''set'', js ''ott'', js ''nov'', js ''dic''],
     l_weekdays = Names [js ''domenica'', js ''luned'' @ [0xEC], js ''marted'' @ [0xEC], js
         ''mercoled'' @ [0xEC], js ''gioved'' @ [0xEC], js ''venerd'' @ [0xEC], js ''sabato''],
     l_weekdays_short = [js ''dom'', js ''lun'', js ''mar'', js ''mer'', js ''gio'', js ''ven'', js
         ''sab''],
     l_weekdays_min = [js ''do'', js ''lu'', js ''ma'', js ''me'', js ''gi'', js ''ve'', js ''sa''],
     l_long_date_format = [(''LT'', js ''HH:mm''),
       (''LTS'', js ''HH:mm:ss''),
       (''L'', js ''DD.MM.YYYY''),
       (''LL'', js ''D MMMM YYYY''),
       (''LLL'', js ''D MMMM YYYY HH:mm''),
       (''LLLL'', js ''dddd D MMMM YYYY HH:mm'')],
     l_calendar = [(''sameDay'', CalText (js ''[Oggi alle] LT'')),
       (''nextDay'', CalText (js ''[Domani alle] LT'')),
       (''nextWeek'', CalText (js ''dddd [alle] LT'')),
       (''lastDay'', CalText (js ''[Ieri alle] LT'')),
       (''lastWeek'', CalFun it_ch_lastWeek),
       (''sameElse'', CalText (js ''L''))],
     l_relative_time = [(''future'', RelStr it_ch_rel_future),
       (''past'', RelText (js ''%s fa'')),
       (''s'', RelText (js ''alcuni secondi'')),
       (''ss'', RelText (js ''%d secondi'')),
       (''m'', RelText (js ''un minuto'')),
       (''mm'', RelText (js ''%d minuti'')),
       (''h'', RelText [0x75, 0x6E, 0x27, 0x6F, 0x72, 0x61]),
       (''hh'', RelText (js ''%d ore'')),
       (''d'', RelText (js ''un giorno'')),
       (''dd'', RelText (js ''%d giorni'')),
       (''M'', RelText (js ''un mese'')),
       (''MM'', RelText (js ''%d mesi'')),
       (''y'', RelText (js ''un anno'')),
       (''yy'', RelText (js ''%d anni''))],
     l_ordinal = Some (OrdText [0x25, 0x64, 0xBA]),
     l_meridiem = None,
     l_is_pm = None,
     l_meridiem_hour = None,
     l_preparse = None,
     l_postformat = None,
     l_week = Some (1, 4),
     l_meridiem_parse = None,
     l_ordinal_parse = Some (Regex False (Seq [digits_1_2, Lit [0xBA]])),
     l_parse = [],
     l_months_parse_exact = False,
     l_weekdays_parse_exact = False,
     l_invalid_date = None,
     l_eras = [],
     l_era_year = None \<rparr>"

text \<open>\<^verbatim>\<open>ja\<close> (line 13).\<close>

definition ja_nextWeek :: "nat \<Rightarrow> nat \<Rightarrow> bool \<Rightarrow> js option" where
  "ja_nextWeek day hours sameWeek = Some (if \<not> sameWeek then [0x5B, 0x6765, 0x9031] @ js
      '']dddd LT''
      else js ''dddd LT'')"

definition ja_lastWeek :: "nat \<Rightarrow> nat \<Rightarrow> bool \<Rightarrow> js option" where
  "ja_lastWeek day hours sameWeek = Some (if \<not> sameWeek then [0x5B, 0x5148, 0x9031] @ js
      '']dddd LT''
      else js ''dddd LT'')"

definition ja_ordinal :: "nat \<Rightarrow> string \<Rightarrow> js option" where
  "ja_ordinal number period = Some (if period = ''y'' then (if number = 1 then [0x5143, 0x5E74]
      else jnum number @ [0x5E74])
      else if period = ''d'' \<or> period = ''D'' \<or> period = ''DDD'' then jnum number @ [0x65E5]
      else jnum number)"

definition ja_meridiem :: "nat \<Rightarrow> nat \<Rightarrow> bool \<Rightarrow> js" where
  "ja_meridiem hour minute isLower = (if hour < 12 then [0x5348, 0x524D] else [0x5348, 0x5F8C])"

definition ja_isPM :: "js \<Rightarrow> bool" where
  "ja_isPM input \<longleftrightarrow> input = [0x5348, 0x5F8C]"

definition ja_eras :: "era list" where
  "ja_eras = [
     \<lparr>era_since = js ''2019-05-01'', era_until = None, era_offset = 1,
     era_name = [0x4EE4, 0x548C], era_narrow = [0x32FF], era_abbr = js ''R''\<rparr>,
     \<lparr>era_since = js ''1989-01-08'', era_until = Some (UntilDate (js ''2019-04-30'')),
         era_offset = 1,
     era_name = [0x5E73, 0x6210], era_narrow = [0x337B], era_abbr = js ''H''\<rparr>,
     \<lparr>era_since = js ''1926-12-25'', era_until = Some (UntilDate (js ''1989-01-07'')),
         era_offset = 1,
     era_name = [0x662D, 0x548C], era_narrow = [0x337C], era_abbr = js ''S''\<rparr>,
     \<lparr>era_since = js ''1912-07-30'', era_until = Some (UntilDate (js ''1926-12-24'')),
         era_offset = 1,
     era_name = [0x5927, 0x6B63], era_narrow = [0x337D], era_abbr = js ''T''\<rparr>,
     \<lparr>era_since = js ''1873-01-01'', era_until = Some (UntilDate (js ''1912-07-29'')),
         era_offset = 6,
     era_name = [0x660E, 0x6CBB], era_narrow = [0x337E], era_abbr = js ''M''\<rparr>,
     \<lparr>era_since = js ''0001-01-01'', era_until = Some (UntilDate (js ''1873-12-31'')),
         era_offset = 1,
     era_name = [0x897F, 0x66A6], era_narrow = js ''AD'', era_abbr = js ''AD''\<rparr>,
     \<lparr>era_since = js ''0000-12-31'', era_until = Some UntilMinusInfinity, era_offset = 1,
     era_name = [0x7D00, 0x5143, 0x524D], era_narrow = js ''BC'', era_abbr = js ''BC''\<rparr>]"

definition ja_eraYearOrdinalParse :: "js \<Rightarrow> js option \<Rightarrow> nat option" where
  "ja_eraYearOrdinalParse input match1 =
     (if match1 = Some [0x5143] then Some 1
     
      else case js_or match1 (Some input) of None \<Rightarrow> None | Some t \<Rightarrow>
          js_int_prefix t)"

definition locale_ja :: moment_locale where
  "locale_ja = \<lparr>
     l_abbr = ''ja'',
     l_months = Names [[0x31, 0x6708], [0x32, 0x6708], [0x33, 0x6708], [0x34, 0x6708], [0x35,
         0x6708], [0x36, 0x6708], [0x37, 0x6708], [0x38, 0x6708], [0x39, 0x6708], [0x31, 0x30,
         0x6708], [0x31, 0x31, 0x6708], [0x31, 0x32, 0x6708]],
     l_months_short = Names [[0x31, 0x6708], [0x32, 0x6708], [0x33, 0x6708], [0x34, 0x6708], [0x35,
         0x6708], [0x36, 0x6708], [0x37, 0x6708], [0x38, 0x6708], [0x39, 0x6708], [0x31, 0x30,
         0x6708], [0x31, 0x31, 0x6708], [0x31, 0x32, 0x6708]],
     l_weekdays = Names [[0x65E5, 0x66DC, 0x65E5], [0x6708, 0x66DC, 0x65E5], [0x706B, 0x66DC,
         0x65E5], [0x6C34, 0x66DC, 0x65E5], [0x6728, 0x66DC, 0x65E5], [0x91D1, 0x66DC, 0x65E5],
         [0x571F, 0x66DC, 0x65E5]],
     l_weekdays_short = [[0x65E5], [0x6708], [0x706B], [0x6C34], [0x6728], [0x91D1], [0x571F]],
     l_weekdays_min = [[0x65E5], [0x6708], [0x706B], [0x6C34], [0x6728], [0x91D1], [0x571F]],
     l_long_date_format = [(''LT'', js ''HH:mm''),
       (''LTS'', js ''HH:mm:ss''),
       (''L'', js ''YYYY/MM/DD''),
       (''LL'', js ''YYYY'' @ [0x5E74, 0x4D, 0x6708, 0x44, 0x65E5]),
       (''LLL'', js ''YYYY'' @ [0x5E74, 0x4D, 0x6708, 0x44, 0x65E5] @ js '' HH:mm''),
       (''LLLL'', js ''YYYY'' @ [0x5E74, 0x4D, 0x6708, 0x44, 0x65E5] @ js '' dddd HH:mm''),
       (''l'', js ''YYYY/MM/DD''),
       (''ll'', js ''YYYY'' @ [0x5E74, 0x4D, 0x6708, 0x44, 0x65E5]),
       (''lll'', js ''YYYY'' @ [0x5E74, 0x4D, 0x6708, 0x44, 0x65E5] @ js '' HH:mm''),
       (''llll'', js ''YYYY'' @ [0x5E74, 0x4D, 0x6708, 0x44, 0x65E5] @ js ''(ddd) HH:mm'')],
     l_calendar = [(''sameDay'', CalText ([0x5B, 0x4ECA, 0x65E5] @ js ''] LT'')),
       (''nextDay'', CalText ([0x5B, 0x660E, 0x65E5] @ js ''] LT'')),
       (''nextWeek'', CalFun ja_nextWeek),
       (''lastDay'', CalText ([0x5B, 0x6628, 0x65E5] @ js ''] LT'')),
       (''lastWeek'', CalFun ja_lastWeek),
       (''sameElse'', CalText (js ''L''))],
     l_relative_time = [(''future'', RelText [0x25, 0x73, 0x5F8C]),
       (''past'', RelText [0x25, 0x73, 0x524D]),
       (''s'', RelText [0x6570, 0x79D2]),
       (''ss'', RelText [0x25, 0x64, 0x79D2]),
       (''m'', RelText [0x31, 0x5206]),
       (''mm'', RelText [0x25, 0x64, 0x5206]),
       (''h'', RelText [0x31, 0x6642, 0x9593]),
       (''hh'', RelText [0x25, 0x64, 0x6642, 0x9593]),
       (''d'', RelText [0x31, 0x65E5]),
       (''dd'', RelText [0x25, 0x64, 0x65E5]),
       (''M'', RelText [0x31, 0x30F6, 0x6708]),
       (''MM'', RelText [0x25, 0x64, 0x30F6, 0x6708]),
       (''y'', RelText [0x31, 0x5E74]),
       (''yy'', RelText [0x25, 0x64, 0x5E74])],
     l_ordinal = Some (OrdFun ja_ordinal),
     l_meridiem = Some ja_meridiem,
     l_is_pm = Some ja_isPM,
     l_meridiem_hour = None,
     l_preparse = None,
     l_postformat = None,
     l_week = None,
     l_meridiem_parse = Some (Regex True (Alt [Lit [0x5348, 0x524D], Lit [0x5348, 0x5F8C]])),
     l_ordinal_parse = Some (Regex False (Seq [digits_1_2, Lit [0x65E5]])),
     l_parse = [],
     l_months_parse_exact = False,
     l_weekdays_parse_exact = False,
     l_invalid_date = None,
     l_eras = ja_eras,
     l_era_year = Some (Regex False (Seq [Alt [Lit [0x5143], Plus (Cls [(0x30, 0x39)])], Lit
         [0x5E74]]), ja_eraYearOrdinalParse) \<rparr>"

text \<open>\<^verbatim>\<open>jv\<close> (line 269).\<close>

definition jv_meridiem :: "nat \<Rightarrow> nat \<Rightarrow> bool \<Rightarrow> js" where
  "jv_meridiem hour minute isLower = (if hour < 11 then js ''enjing''
      else if hour < 15 then js ''siyang''
      else if hour < 19 then js ''sonten''
      else js ''ndalu'')"

definition jv_meridiemHour :: "nat \<Rightarrow> js \<Rightarrow> nat option" where
  "jv_meridiemHour hour meridiem = (let hour = (if hour = 12 then 0
      else hour) in (if meridiem = js ''enjing'' then Some hour
      else if meridiem = js ''siyang'' then Some (if hour \<ge> 11 then hour
      else hour + 12)
      else if meridiem = js ''sonten'' \<or> meridiem = js ''ndalu'' then Some (hour + 12)
      else None))"

definition locale_jv :: moment_locale where
  "locale_jv = \<lparr>
     l_abbr = ''jv'',
     l_months = Names [js ''Januari'', js ''Februari'', js ''Maret'', js ''April'', js ''Mei'', js
         ''Juni'', js ''Juli'', js ''Agustus'', js ''September'', js ''Oktober'', js ''Nopember'',
         js ''Desember''],
     l_months_short = Names [js ''Jan'', js ''Feb'', js ''Mar'', js ''Apr'', js ''Mei'', js ''Jun'',
         js ''Jul'', js ''Ags'', js ''Sep'', js ''Okt'', js ''Nop'', js ''Des''],
     l_weekdays = Names [js ''Minggu'', js ''Senen'', js ''Seloso'', js ''Rebu'', js ''Kemis'', js
         ''Jemuwah'', js ''Septu''],
     l_weekdays_short = [js ''Min'', js ''Sen'', js ''Sel'', js ''Reb'', js ''Kem'', js ''Jem'', js
         ''Sep''],
     l_weekdays_min = [js ''Mg'', js ''Sn'', js ''Sl'', js ''Rb'', js ''Km'', js ''Jm'', js ''Sp''],
     l_long_date_format = [(''LT'', js ''HH.mm''),
       (''LTS'', js ''HH.mm.ss''),
       (''L'', js ''DD/MM/YYYY''),
       (''LL'', js ''D MMMM YYYY''),
       (''LLL'', js ''D MMMM YYYY [pukul] HH.mm''),
       (''LLLL'', js ''dddd, D MMMM YYYY [pukul] HH.mm'')],
     l_calendar = [(''sameDay'', CalText (js ''[Dinten puniko pukul] LT'')),
       (''nextDay'', CalText (js ''[Mbenjang pukul] LT'')),
       (''nextWeek'', CalText (js ''dddd [pukul] LT'')),
       (''lastDay'', CalText (js ''[Kala wingi pukul] LT'')),
       (''lastWeek'', CalText (js ''dddd [kepengker pukul] LT'')),
       (''sameElse'', CalText (js ''L''))],
     l_relative_time = [(''future'', RelText (js ''wonten ing %s'')),
       (''past'', RelText (js ''%s ingkang kepengker'')),
       (''s'', RelText (js ''sawetawis detik'')),
       (''ss'', RelText (js ''%d detik'')),
       (''m'', RelText (js ''setunggal menit'')),
       (''mm'', RelText (js ''%d menit'')),
       (''h'', RelText (js ''setunggal jam'')),
       (''hh'', RelText (js ''%d jam'')),
       (''d'', RelText (js ''sedinten'')),
       (''dd'', RelText (js ''%d dinten'')),
       (''M'', RelText (js ''sewulan'')),
       (''MM'', RelText (js ''%d wulan'')),
       (''y'', RelText (js ''setaun'')),
       (''yy'', RelText (js ''%d taun''))],
     l_ordinal = None,
     l_meridiem = Some jv_meridiem,
     l_is_pm = None,
     l_meridiem_hour = Some jv_meridiemHour,
     l_preparse = None,
     l_postformat = None,
     l_week = Some (1, 7),
     l_meridiem_parse = Some (Regex False (Alt [Lit (js ''enjing''), Lit (js ''siyang''), Lit (js
         ''sonten''), Lit (js ''ndalu'')])),
     l_ordinal_parse = None,
     l_parse = [],
     l_months_parse_exact = False,
     l_weekdays_parse_exact = False,
     l_invalid_date = None,
     l_eras = [],
     l_era_year = None \<rparr>"

text \<open>\<^verbatim>\<open>ka\<close> (line 45).\<close>

definition ka_stems :: "js list" where
  "ka_stems = [[0x10EC, 0x10D0, 0x10DB], [0x10EC, 0x10E3, 0x10D7], [0x10E1, 0x10D0, 0x10D0, 0x10D7],
      [0x10EC, 0x10D4, 0x10DA], [0x10D3, 0x10E6], [0x10D7, 0x10D5]]"

definition ka_match :: "js \<Rightarrow> (js \<times> int \<times> js) option" where
  "ka_match s =
     (case filter (\<lambda>t. js_starts_with (t @ [0x10D8]) s \<or> js_starts_with (t @ [0x10D4])
         s) ka_stems of
        [] \<Rightarrow> None
      | t # ts \<Rightarrow> Some (t, s ! length t, drop (Suc (length t)) s))"

fun ka_replace :: "js \<Rightarrow> js" where
  "ka_replace [] = []"
| "ka_replace (c # cs) =
     (case ka_match (c # cs) of
        None \<Rightarrow> c # ka_replace cs
      | Some (t, v, rest) \<Rightarrow> (if [v] = [0x10D8] then t @ [0x10E8, 0x10D8]
      else t @ [v] @ [0x10E8, 0x10D8]) @ rest)"

definition ka_rel_future :: "js \<Rightarrow> js option" where
  "ka_rel_future s = Some (ka_replace s)"

definition ka_rel_past :: "js \<Rightarrow> js option" where
  "ka_rel_past s = 
     Some (if js_contains [0x10EC, 0x10D0, 0x10DB, 0x10D8] s \<or> js_contains [0x10EC, 0x10E3,
         0x10D7, 0x10D8] s \<or> js_contains [0x10E1, 0x10D0, 0x10D0, 0x10D7, 0x10D8] s \<or>
         js_contains [0x10D3, 0x10E6, 0x10D4] s \<or>
              js_contains [0x10D7, 0x10D5, 0x10D4] s
           then if js_ends_with [0x10D8] s \<or> js_ends_with [0x10D4] s then butlast s @ [0x10D8,
               0x10E1, 0x20, 0x10EC, 0x10D8, 0x10DC]
      else s
           else if js_contains [0x10EC, 0x10D4, 0x10DA, 0x10D8] s
           then if js_ends_with [0x10EC, 0x10D4, 0x10DA, 0x10D8] s then take (length s - 4) s @
               [0x10EC, 0x10DA, 0x10D8, 0x10E1, 0x20, 0x10EC, 0x10D8, 0x10DC]
      else s
           else s)"

definition ka_ordinal :: "nat \<Rightarrow> string \<Rightarrow> js option" where
  "ka_ordinal number period = Some (if number = 0 then jnum number
      else if number = 1 then jnum number @ [0x2D, 0x10DA, 0x10D8]
      else if (number < 20 \<or> (number \<le> 100 \<and> number mod 20 = 0)) \<or> number mod 100 =
          0 then [0x10DB, 0x10D4, 0x2D] @ jnum number
      else jnum number @ [0x2D, 0x10D4])"

definition locale_ka :: moment_locale where
  "locale_ka = \<lparr>
     l_abbr = ''ka'',
     l_months = Names [[0x10D8, 0x10D0, 0x10DC, 0x10D5, 0x10D0, 0x10E0, 0x10D8], [0x10D7, 0x10D4,
         0x10D1, 0x10D4, 0x10E0, 0x10D5, 0x10D0, 0x10DA, 0x10D8], [0x10DB, 0x10D0, 0x10E0, 0x10E2,
         0x10D8], [0x10D0, 0x10DE, 0x10E0, 0x10D8, 0x10DA, 0x10D8], [0x10DB, 0x10D0, 0x10D8, 0x10E1,
         0x10D8], [0x10D8, 0x10D5, 0x10DC, 0x10D8, 0x10E1, 0x10D8], [0x10D8, 0x10D5, 0x10DA, 0x10D8,
         0x10E1, 0x10D8], [0x10D0, 0x10D2, 0x10D5, 0x10D8, 0x10E1, 0x10E2, 0x10DD], [0x10E1, 0x10D4,
         0x10E5, 0x10E2, 0x10D4, 0x10DB, 0x10D1, 0x10D4, 0x10E0, 0x10D8], [0x10DD, 0x10E5, 0x10E2,
         0x10DD, 0x10DB, 0x10D1, 0x10D4, 0x10E0, 0x10D8], [0x10DC, 0x10DD, 0x10D4, 0x10DB, 0x10D1,
         0x10D4, 0x10E0, 0x10D8], [0x10D3, 0x10D4, 0x10D9, 0x10D4, 0x10DB, 0x10D1, 0x10D4, 0x10E0,
         0x10D8]],
     l_months_short = Names [[0x10D8, 0x10D0, 0x10DC], [0x10D7, 0x10D4, 0x10D1], [0x10DB, 0x10D0,
         0x10E0], [0x10D0, 0x10DE, 0x10E0], [0x10DB, 0x10D0, 0x10D8], [0x10D8, 0x10D5, 0x10DC],
         [0x10D8, 0x10D5, 0x10DA], [0x10D0, 0x10D2, 0x10D5], [0x10E1, 0x10D4, 0x10E5], [0x10DD,
         0x10E5, 0x10E2], [0x10DC, 0x10DD, 0x10D4], [0x10D3, 0x10D4, 0x10D9]],
     l_weekdays = NamesAlt [[0x10D9, 0x10D5, 0x10D8, 0x10E0, 0x10D0], [0x10DD, 0x10E0, 0x10E8,
         0x10D0, 0x10D1, 0x10D0, 0x10D7, 0x10D8], [0x10E1, 0x10D0, 0x10DB, 0x10E8, 0x10D0, 0x10D1,
         0x10D0, 0x10D7, 0x10D8], [0x10DD, 0x10D7, 0x10EE, 0x10E8, 0x10D0, 0x10D1, 0x10D0, 0x10D7,
         0x10D8], [0x10EE, 0x10E3, 0x10D7, 0x10E8, 0x10D0, 0x10D1, 0x10D0, 0x10D7, 0x10D8], [0x10DE,
         0x10D0, 0x10E0, 0x10D0, 0x10E1, 0x10D9, 0x10D4, 0x10D5, 0x10D8], [0x10E8, 0x10D0, 0x10D1,
         0x10D0, 0x10D7, 0x10D8]] [[0x10D9, 0x10D5, 0x10D8, 0x10E0, 0x10D0, 0x10E1], [0x10DD,
         0x10E0, 0x10E8, 0x10D0, 0x10D1, 0x10D0, 0x10D7, 0x10E1], [0x10E1, 0x10D0, 0x10DB, 0x10E8,
         0x10D0, 0x10D1, 0x10D0, 0x10D7, 0x10E1], [0x10DD, 0x10D7, 0x10EE, 0x10E8, 0x10D0, 0x10D1,
         0x10D0, 0x10D7, 0x10E1], [0x10EE, 0x10E3, 0x10D7, 0x10E8, 0x10D0, 0x10D1, 0x10D0, 0x10D7,
         0x10E1], [0x10DE, 0x10D0, 0x10E0, 0x10D0, 0x10E1, 0x10D9, 0x10D4, 0x10D5, 0x10E1], [0x10E8,
         0x10D0, 0x10D1, 0x10D0, 0x10D7, 0x10E1]]
       (Some (Regex False (Alt [Lit [0x10EC, 0x10D8, 0x10DC, 0x10D0], Lit [0x10E8, 0x10D4, 0x10DB,
           0x10D3, 0x10D4, 0x10D2]]))),
     l_weekdays_short = [[0x10D9, 0x10D5, 0x10D8], [0x10DD, 0x10E0, 0x10E8], [0x10E1, 0x10D0,
         0x10DB], [0x10DD, 0x10D7, 0x10EE], [0x10EE, 0x10E3, 0x10D7], [0x10DE, 0x10D0, 0x10E0],
         [0x10E8, 0x10D0, 0x10D1]],
     l_weekdays_min = [[0x10D9, 0x10D5], [0x10DD, 0x10E0], [0x10E1, 0x10D0], [0x10DD, 0x10D7],
         [0x10EE, 0x10E3], [0x10DE, 0x10D0], [0x10E8, 0x10D0]],
     l_long_date_format = [(''LT'', js ''HH:mm''),
       (''LTS'', js ''HH:mm:ss''),
       (''L'', js ''DD/MM/YYYY''),
       (''LL'', js ''D MMMM YYYY''),
       (''LLL'', js ''D MMMM YYYY HH:mm''),
       (''LLLL'', js ''dddd, D MMMM YYYY HH:mm'')],
     l_calendar = [(''sameDay'', CalText ([0x5B, 0x10D3, 0x10E6, 0x10D4, 0x10E1] @ js ''] LT[-'' @
         [0x10D6, 0x10D4, 0x5D])),
       (''nextDay'', CalText ([0x5B, 0x10EE, 0x10D5, 0x10D0, 0x10DA] @ js ''] LT[-'' @ [0x10D6,
           0x10D4, 0x5D])),
       (''lastDay'', CalText ([0x5B, 0x10D2, 0x10E3, 0x10E8, 0x10D8, 0x10DC] @ js ''] LT[-'' @
           [0x10D6, 0x10D4, 0x5D])),
       (''nextWeek'', CalText ([0x5B, 0x10E8, 0x10D4, 0x10DB, 0x10D3, 0x10D4, 0x10D2] @ js
           ''] dddd LT[-'' @ [0x10D6, 0x10D4, 0x5D])),
       (''lastWeek'', CalText ([0x5B, 0x10EC, 0x10D8, 0x10DC, 0x10D0] @ js ''] dddd LT-'' @ [0x10D6,
           0x10D4])),
       (''sameElse'', CalText (js ''L''))],
     l_relative_time = [(''future'', RelStr ka_rel_future),
       (''past'', RelStr ka_rel_past),
       (''s'', RelText [0x10E0, 0x10D0, 0x10DB, 0x10D3, 0x10D4, 0x10DC, 0x10D8, 0x10DB, 0x10D4,
           0x20, 0x10EC, 0x10D0, 0x10DB, 0x10D8]),
       (''ss'', RelText [0x25, 0x64, 0x20, 0x10EC, 0x10D0, 0x10DB, 0x10D8]),
       (''m'', RelText [0x10EC, 0x10E3, 0x10D7, 0x10D8]),
       (''mm'', RelText [0x25, 0x64, 0x20, 0x10EC, 0x10E3, 0x10D7, 0x10D8]),
       (''h'', RelText [0x10E1, 0x10D0, 0x10D0, 0x10D7, 0x10D8]),
       (''hh'', RelText [0x25, 0x64, 0x20, 0x10E1, 0x10D0, 0x10D0, 0x10D7, 0x10D8]),
       (''d'', RelText [0x10D3, 0x10E6, 0x10D4]),
       (''dd'', RelText [0x25, 0x64, 0x20, 0x10D3, 0x10E6, 0x10D4]),
       (''M'', RelText [0x10D7, 0x10D5, 0x10D4]),
       (''MM'', RelText [0x25, 0x64, 0x20, 0x10D7, 0x10D5, 0x10D4]),
       (''y'', RelText [0x10EC, 0x10D4, 0x10DA, 0x10D8]),
       (''yy'', RelText [0x25, 0x64, 0x20, 0x10EC, 0x10D4, 0x10DA, 0x10D8])],
     l_ordinal = Some (OrdFun ka_ordinal),
     l_meridiem = None,
     l_is_pm = None,
     l_meridiem_hour = None,
     l_preparse = None,
     l_postformat = None,
     l_week = Some (1, 7),
     l_meridiem_parse = None,
     l_ordinal_parse = Some (Regex False (Alt [Lit (js ''0''), Lit [0x31, 0x2D, 0x10DA, 0x10D8], Seq
         [Lit [0x10DB, 0x10D4, 0x2D], digits_1_2], Seq [digits_1_2, Lit [0x2D, 0x10D4]]])),
     l_parse = [],
     l_months_parse_exact = False,
     l_weekdays_parse_exact = False,
     l_invalid_date = None,
     l_eras = [],
     l_era_year = None \<rparr>"

text \<open>\<^verbatim>\<open>kk\<close> (line 174).\<close>

definition kk_suffixes :: "nat \<Rightarrow> js option" where
  "kk_suffixes = map_of [(0, [0x2D, 0x448, 0x456]), (1, [0x2D, 0x448, 0x456]), (2, [0x2D, 0x448,
      0x456]), (3, [0x2D, 0x448, 0x456]), (4, [0x2D, 0x448, 0x456]), (5, [0x2D, 0x448, 0x456]), (6,
      [0x2D, 0x448, 0x44B]), (7, [0x2D, 0x448, 0x456]), (8, [0x2D, 0x448, 0x456]), (9, [0x2D, 0x448,
      0x44B]), (10, [0x2D, 0x448, 0x44B]), (20, [0x2D, 0x448, 0x44B]), (30, [0x2D, 0x448, 0x44B]),
      (40, [0x2D, 0x448, 0x44B]), (50, [0x2D, 0x448, 0x456]), (60, [0x2D, 0x448, 0x44B]), (70,
      [0x2D, 0x448, 0x456]), (80, [0x2D, 0x448, 0x456]), (90, [0x2D, 0x448, 0x44B]), (100, [0x2D,
      0x448, 0x456])]"

definition kk_ordinal :: "nat \<Rightarrow> string \<Rightarrow> js option" where
  "kk_ordinal number period = map_option (\<lambda>x. jnum number @ x) (js_or (js_or (kk_suffixes
      number) (kk_suffixes (number mod 10))) (Option.bind (if number \<ge> 100 then Some 100
      else None) kk_suffixes))"

definition locale_kk :: moment_locale where
  "locale_kk = \<lparr>
     l_abbr = ''kk'',
     l_months = Names [[0x49B, 0x430, 0x4A3, 0x442, 0x430, 0x440], [0x430, 0x49B, 0x43F, 0x430,
         0x43D], [0x43D, 0x430, 0x443, 0x440, 0x44B, 0x437], [0x441, 0x4D9, 0x443, 0x456, 0x440],
         [0x43C, 0x430, 0x43C, 0x44B, 0x440], [0x43C, 0x430, 0x443, 0x441, 0x44B, 0x43C], [0x448,
         0x456, 0x43B, 0x434, 0x435], [0x442, 0x430, 0x43C, 0x44B, 0x437], [0x49B, 0x44B, 0x440,
         0x43A, 0x4AF, 0x439, 0x435, 0x43A], [0x49B, 0x430, 0x437, 0x430, 0x43D], [0x49B, 0x430,
         0x440, 0x430, 0x448, 0x430], [0x436, 0x435, 0x43B, 0x442, 0x43E, 0x49B, 0x441, 0x430,
         0x43D]],
     l_months_short = Names [[0x49B, 0x430, 0x4A3], [0x430, 0x49B, 0x43F], [0x43D, 0x430, 0x443],
         [0x441, 0x4D9, 0x443], [0x43C, 0x430, 0x43C], [0x43C, 0x430, 0x443], [0x448, 0x456, 0x43B],
         [0x442, 0x430, 0x43C], [0x49B, 0x44B, 0x440], [0x49B, 0x430, 0x437], [0x49B, 0x430, 0x440],
         [0x436, 0x435, 0x43B]],
     l_weekdays = Names [[0x436, 0x435, 0x43A, 0x441, 0x435, 0x43D, 0x431, 0x456], [0x434, 0x4AF,
         0x439, 0x441, 0x435, 0x43D, 0x431, 0x456], [0x441, 0x435, 0x439, 0x441, 0x435, 0x43D,
         0x431, 0x456], [0x441, 0x4D9, 0x440, 0x441, 0x435, 0x43D, 0x431, 0x456], [0x431, 0x435,
         0x439, 0x441, 0x435, 0x43D, 0x431, 0x456], [0x436, 0x4B1, 0x43C, 0x430], [0x441, 0x435,
         0x43D, 0x431, 0x456]],
     l_weekdays_short = [[0x436, 0x435, 0x43A], [0x434, 0x4AF, 0x439], [0x441, 0x435, 0x439],
         [0x441, 0x4D9, 0x440], [0x431, 0x435, 0x439], [0x436, 0x4B1, 0x43C], [0x441, 0x435,
         0x43D]],
     l_weekdays_min = [[0x436, 0x43A], [0x434, 0x439], [0x441, 0x439], [0x441, 0x440], [0x431,
         0x439], [0x436, 0x43C], [0x441, 0x43D]],
     l_long_date_format = [(''LT'', js ''HH:mm''),
       (''LTS'', js ''HH:mm:ss''),
       (''L'', js ''DD.MM.YYYY''),
       (''LL'', js ''D MMMM YYYY''),
       (''LLL'', js ''D MMMM YYYY HH:mm''),
       (''LLLL'', js ''dddd, D MMMM YYYY HH:mm'')],
     l_calendar = [(''sameDay'', CalText ([0x5B, 0x411, 0x4AF, 0x433, 0x456, 0x43D, 0x20, 0x441,
         0x430, 0x493, 0x430, 0x442] @ js ''] LT'')),
       (''nextDay'', CalText ([0x5B, 0x415, 0x440, 0x442, 0x435, 0x4A3, 0x20, 0x441, 0x430, 0x493,
           0x430, 0x442] @ js ''] LT'')),
       (''nextWeek'', CalText (js ''dddd ['' @ [0x441, 0x430, 0x493, 0x430, 0x442] @ js ''] LT'')),
       (''lastDay'', CalText ([0x5B, 0x41A, 0x435, 0x448, 0x435, 0x20, 0x441, 0x430, 0x493, 0x430,
           0x442] @ js ''] LT'')),
       (''lastWeek'', CalText ([0x5B, 0x4E8, 0x442, 0x43A, 0x435, 0x43D, 0x20, 0x430, 0x43F, 0x442,
           0x430, 0x43D, 0x44B, 0x4A3] @ js ''] dddd ['' @ [0x441, 0x430, 0x493, 0x430, 0x442] @ js
           ''] LT'')),
       (''sameElse'', CalText (js ''L''))],
     l_relative_time = [(''future'', RelText [0x25, 0x73, 0x20, 0x456, 0x448, 0x456, 0x43D, 0x434,
         0x435]),
       (''past'', RelText [0x25, 0x73, 0x20, 0x431, 0x4B1, 0x440, 0x44B, 0x43D]),
       (''s'', RelText [0x431, 0x456, 0x440, 0x43D, 0x435, 0x448, 0x435, 0x20, 0x441, 0x435, 0x43A,
           0x443, 0x43D, 0x434]),
       (''ss'', RelText [0x25, 0x64, 0x20, 0x441, 0x435, 0x43A, 0x443, 0x43D, 0x434]),
       (''m'', RelText [0x431, 0x456, 0x440, 0x20, 0x43C, 0x438, 0x43D, 0x443, 0x442]),
       (''mm'', RelText [0x25, 0x64, 0x20, 0x43C, 0x438, 0x43D, 0x443, 0x442]),
       (''h'', RelText [0x431, 0x456, 0x440, 0x20, 0x441, 0x430, 0x493, 0x430, 0x442]),
       (''hh'', RelText [0x25, 0x64, 0x20, 0x441, 0x430, 0x493, 0x430, 0x442]),
       (''d'', RelText [0x431, 0x456, 0x440, 0x20, 0x43A, 0x4AF, 0x43D]),
       (''dd'', RelText [0x25, 0x64, 0x20, 0x43A, 0x4AF, 0x43D]),
       (''M'', RelText [0x431, 0x456, 0x440, 0x20, 0x430, 0x439]),
       (''MM'', RelText [0x25, 0x64, 0x20, 0x430, 0x439]),
       (''y'', RelText [0x431, 0x456, 0x440, 0x20, 0x436, 0x44B, 0x43B]),
       (''yy'', RelText [0x25, 0x64, 0x20, 0x436, 0x44B, 0x43B])],
     l_ordinal = Some (OrdFun kk_ordinal),
     l_meridiem = None,
     l_is_pm = None,
     l_meridiem_hour = None,
     l_preparse = None,
     l_postformat = None,
     l_week = Some (1, 7),
     l_meridiem_parse = None,
     l_ordinal_parse = Some (Regex False (Seq [digits_1_2, Lit (js ''-''), Alt [Lit [0x448, 0x456],
         Lit [0x448, 0x44B]]])),
     l_parse = [],
     l_months_parse_exact = False,
     l_weekdays_parse_exact = False,
     l_invalid_date = None,
     l_eras = [],
     l_era_year = None \<rparr>"

text \<open>\<^verbatim>\<open>km\<close> (line 335).\<close>

definition km_meridiem :: "nat \<Rightarrow> nat \<Rightarrow> bool \<Rightarrow> js" where
  "km_meridiem hour minute isLower = (if hour < 12 then [0x1796, 0x17D2, 0x179A, 0x17B9, 0x1780]
      else [0x179B, 0x17D2, 0x1784, 0x17B6, 0x1785])"

definition km_isPM :: "js \<Rightarrow> bool" where
  "km_isPM input \<longleftrightarrow> input = [0x179B, 0x17D2, 0x1784, 0x17B6, 0x1785]"

definition km_preparse :: "js \<Rightarrow> js" where
  "km_preparse s = js_replace_units [(0x17E1, [0x31]), (0x17E2, [0x32]), (0x17E3, [0x33]), (0x17E4,
      [0x34]), (0x17E5, [0x35]), (0x17E6, [0x36]), (0x17E7, [0x37]), (0x17E8, [0x38]), (0x17E9,
      [0x39]), (0x17E0, [0x30])] s"

definition km_postformat :: "js \<Rightarrow> js" where
  "km_postformat s = js_replace_units [(0x30, [0x17E0]), (0x31, [0x17E1]), (0x32, [0x17E2]), (0x33,
      [0x17E3]), (0x34, [0x17E4]), (0x35, [0x17E5]), (0x36, [0x17E6]), (0x37, [0x17E7]), (0x38,
      [0x17E8]), (0x39, [0x17E9])] s"

definition locale_km :: moment_locale where
  "locale_km = \<lparr>
     l_abbr = ''km'',
     l_months = Names [[0x1798, 0x1780, 0x179A, 0x17B6], [0x1780, 0x17BB, 0x1798, 0x17D2, 0x1797,
         0x17C8], [0x1798, 0x17B8, 0x1793, 0x17B6], [0x1798, 0x17C1, 0x179F, 0x17B6], [0x17A7,
         0x179F, 0x1797, 0x17B6], [0x1798, 0x17B7, 0x1790, 0x17BB, 0x1793, 0x17B6], [0x1780, 0x1780,
         0x17D2, 0x1780, 0x178A, 0x17B6], [0x179F, 0x17B8, 0x17A0, 0x17B6], [0x1780, 0x1789, 0x17D2,
         0x1789, 0x17B6], [0x178F, 0x17BB, 0x179B, 0x17B6], [0x179C, 0x17B7, 0x1785, 0x17D2, 0x1786,
         0x17B7, 0x1780, 0x17B6], [0x1792, 0x17D2, 0x1793, 0x17BC]],
     l_months_short = Names [[0x1798, 0x1780, 0x179A, 0x17B6], [0x1780, 0x17BB, 0x1798, 0x17D2,
         0x1797, 0x17C8], [0x1798, 0x17B8, 0x1793, 0x17B6], [0x1798, 0x17C1, 0x179F, 0x17B6],
         [0x17A7, 0x179F, 0x1797, 0x17B6], [0x1798, 0x17B7, 0x1790, 0x17BB, 0x1793, 0x17B6],
         [0x1780, 0x1780, 0x17D2, 0x1780, 0x178A, 0x17B6], [0x179F, 0x17B8, 0x17A0, 0x17B6],
         [0x1780, 0x1789, 0x17D2, 0x1789, 0x17B6], [0x178F, 0x17BB, 0x179B, 0x17B6], [0x179C,
         0x17B7, 0x1785, 0x17D2, 0x1786, 0x17B7, 0x1780, 0x17B6], [0x1792, 0x17D2, 0x1793, 0x17BC]],
     l_weekdays = Names [[0x17A2, 0x17B6, 0x1791, 0x17B7, 0x178F, 0x17D2, 0x1799], [0x1785, 0x17D0,
         0x1793, 0x17D2, 0x1791], [0x17A2, 0x1784, 0x17D2, 0x1782, 0x17B6, 0x179A], [0x1796, 0x17BB,
         0x1792], [0x1796, 0x17D2, 0x179A, 0x17A0, 0x179F, 0x17D2, 0x1794, 0x178F, 0x17B7, 0x17CD],
         [0x179F, 0x17BB, 0x1780, 0x17D2, 0x179A], [0x179F, 0x17C5, 0x179A, 0x17CD]],
     l_weekdays_short = [[0x17A2, 0x17B6], [0x1785], [0x17A2], [0x1796], [0x1796, 0x17D2, 0x179A],
         [0x179F, 0x17BB], [0x179F]],
     l_weekdays_min = [[0x17A2, 0x17B6], [0x1785], [0x17A2], [0x1796], [0x1796, 0x17D2, 0x179A],
         [0x179F, 0x17BB], [0x179F]],
     l_long_date_format = [(''LT'', js ''HH:mm''),
       (''LTS'', js ''HH:mm:ss''),
       (''L'', js ''DD/MM/YYYY''),
       (''LL'', js ''D MMMM YYYY''),
       (''LLL'', js ''D MMMM YYYY HH:mm''),
       (''LLLL'', js ''dddd, D MMMM YYYY HH:mm'')],
     l_calendar = [(''sameDay'', CalText ([0x5B, 0x1790, 0x17D2, 0x1784, 0x17C3, 0x1793, 0x17C1,
         0x17C7, 0x20, 0x1798, 0x17C9, 0x17C4, 0x1784] @ js ''] LT'')),
       (''nextDay'', CalText ([0x5B, 0x179F, 0x17D2, 0x17A2, 0x17C2, 0x1780, 0x20, 0x1798, 0x17C9,
           0x17C4, 0x1784] @ js ''] LT'')),
       (''nextWeek'', CalText (js ''dddd ['' @ [0x1798, 0x17C9, 0x17C4, 0x1784] @ js ''] LT'')),
       (''lastDay'', CalText ([0x5B, 0x1798, 0x17D2, 0x179F, 0x17B7, 0x179B, 0x1798, 0x17B7, 0x1789,
           0x20, 0x1798, 0x17C9, 0x17C4, 0x1784] @ js ''] LT'')),
       (''lastWeek'', CalText (js ''dddd ['' @ [0x179F, 0x1794, 0x17D2, 0x178F, 0x17B6, 0x17A0,
           0x17CD, 0x1798, 0x17BB, 0x1793, 0x5D, 0x20, 0x5B, 0x1798, 0x17C9, 0x17C4, 0x1784] @ js
           ''] LT'')),
       (''sameElse'', CalText (js ''L''))],
     l_relative_time = [(''future'', RelText [0x25, 0x73, 0x1791, 0x17C0, 0x178F]),
       (''past'', RelText [0x25, 0x73, 0x1798, 0x17BB, 0x1793]),
       (''s'', RelText [0x1794, 0x17C9, 0x17BB, 0x1793, 0x17D2, 0x1798, 0x17B6, 0x1793, 0x179C,
           0x17B7, 0x1793, 0x17B6, 0x1791, 0x17B8]),
       (''ss'', RelText [0x25, 0x64, 0x20, 0x179C, 0x17B7, 0x1793, 0x17B6, 0x1791, 0x17B8]),
       (''m'', RelText [0x1798, 0x17BD, 0x1799, 0x1793, 0x17B6, 0x1791, 0x17B8]),
       (''mm'', RelText [0x25, 0x64, 0x20, 0x1793, 0x17B6, 0x1791, 0x17B8]),
       (''h'', RelText [0x1798, 0x17BD, 0x1799, 0x1798, 0x17C9, 0x17C4, 0x1784]),
       (''hh'', RelText [0x25, 0x64, 0x20, 0x1798, 0x17C9, 0x17C4, 0x1784]),
       (''d'', RelText [0x1798, 0x17BD, 0x1799, 0x1790, 0x17D2, 0x1784, 0x17C3]),
       (''dd'', RelText [0x25, 0x64, 0x20, 0x1790, 0x17D2, 0x1784, 0x17C3]),
       (''M'', RelText [0x1798, 0x17BD, 0x1799, 0x1781, 0x17C2]),
       (''MM'', RelText [0x25, 0x64, 0x20, 0x1781, 0x17C2]),
       (''y'', RelText [0x1798, 0x17BD, 0x1799, 0x1786, 0x17D2, 0x1793, 0x17B6, 0x17C6]),
       (''yy'', RelText [0x25, 0x64, 0x20, 0x1786, 0x17D2, 0x1793, 0x17B6, 0x17C6])],
     l_ordinal = Some (OrdText [0x1791, 0x17B8, 0x25, 0x64]),
     l_meridiem = Some km_meridiem,
     l_is_pm = Some km_isPM,
     l_meridiem_hour = None,
     l_preparse = Some km_preparse,
     l_postformat = Some km_postformat,
     l_week = Some (1, 4),
     l_meridiem_parse = Some (Regex False (Alt [Lit [0x1796, 0x17D2, 0x179A, 0x17B9, 0x1780], Lit
         [0x179B, 0x17D2, 0x1784, 0x17B6, 0x1785]])),
     l_ordinal_parse = Some (Regex False (Seq [Lit [0x1791, 0x17B8], digits_1_2])),
     l_parse = [],
     l_months_parse_exact = False,
     l_weekdays_parse_exact = True,
     l_invalid_date = None,
     l_eras = [],
     l_era_year = None \<rparr>"

text \<open>\<^verbatim>\<open>kn\<close> (line 97).\<close>

definition kn_ordinal :: "nat \<Rightarrow> string \<Rightarrow> js option" where
  "kn_ordinal number period = Some (jnum number @ [0xCA8, 0xCC6, 0xCD5])"

definition kn_meridiem :: "nat \<Rightarrow> nat \<Rightarrow> bool \<Rightarrow> js" where
  "kn_meridiem hour minute isLower = (if hour < 4 then [0xCB0, 0xCBE, 0xCA4, 0xCCD, 0xCB0, 0xCBF]
      else if hour < 10 then [0xCAC, 0xCC6, 0xCB3, 0xCBF, 0xC97, 0xCCD, 0xC97, 0xCC6]
      else if hour < 17 then [0xCAE, 0xCA7, 0xCCD, 0xCAF, 0xCBE, 0xCB9, 0xCCD, 0xCA8]
      else if hour < 20 then [0xCB8, 0xC82, 0xC9C, 0xCC6]
      else [0xCB0, 0xCBE, 0xCA4, 0xCCD, 0xCB0, 0xCBF])"

definition kn_meridiemHour :: "nat \<Rightarrow> js \<Rightarrow> nat option" where
  "kn_meridiemHour hour meridiem = (let hour = (if hour = 12 then 0
      else hour) in (if meridiem = [0xCB0, 0xCBE, 0xCA4, 0xCCD, 0xCB0, 0xCBF] then Some (if hour < 4
          then hour
      else hour + 12)
      else if meridiem = [0xCAC, 0xCC6, 0xCB3, 0xCBF, 0xC97, 0xCCD, 0xC97, 0xCC6] then Some hour
      else if meridiem = [0xCAE, 0xCA7, 0xCCD, 0xCAF, 0xCBE, 0xCB9, 0xCCD, 0xCA8] then Some (if hour
          \<ge> 10 then hour
      else hour + 12)
      else if meridiem = [0xCB8, 0xC82, 0xC9C, 0xCC6] then Some (hour + 12)
      else None))"

definition kn_preparse :: "js \<Rightarrow> js" where
  "kn_preparse s = js_replace_units [(0xCE7, [0x31]), (0xCE8, [0x32]), (0xCE9, [0x33]), (0xCEA,
      [0x34]), (0xCEB, [0x35]), (0xCEC, [0x36]), (0xCED, [0x37]), (0xCEE, [0x38]), (0xCEF, [0x39]),
      (0xCE6, [0x30])] s"

definition kn_postformat :: "js \<Rightarrow> js" where
  "kn_postformat s = js_replace_units [(0x30, [0xCE6]), (0x31, [0xCE7]), (0x32, [0xCE8]), (0x33,
      [0xCE9]), (0x34, [0xCEA]), (0x35, [0xCEB]), (0x36, [0xCEC]), (0x37, [0xCED]), (0x38, [0xCEE]),
      (0x39, [0xCEF])] s"

definition locale_kn :: moment_locale where
  "locale_kn = \<lparr>
     l_abbr = ''kn'',
     l_months = Names [[0xC9C, 0xCA8, 0xCB5, 0xCB0, 0xCBF], [0xCAB, 0xCC6, 0xCAC, 0xCCD, 0xCB0,
         0xCB5, 0xCB0, 0xCBF], [0xCAE, 0xCBE, 0xCB0, 0xCCD, 0xC9A, 0xCCD], [0xC8F, 0xCAA, 0xCCD,
         0xCB0, 0xCBF, 0xCB2, 0xCCD], [0xCAE, 0xCC6, 0xCD5], [0xC9C, 0xCC2, 0xCA8, 0xCCD], [0xC9C,
         0xCC1, 0xCB2, 0xCC6, 0xCD6], [0xC86, 0xC97, 0xCB8, 0xCCD, 0xC9F, 0xCCD], [0xCB8, 0xCC6,
         0xCAA, 0xCCD, 0xC9F, 0xCC6, 0xC82, 0xCAC, 0xCB0, 0xCCD], [0xC85, 0xC95, 0xCCD, 0xC9F,
         0xCC6, 0xCC2, 0xCD5, 0xCAC, 0xCB0, 0xCCD], [0xCA8, 0xCB5, 0xCC6, 0xC82, 0xCAC, 0xCB0,
         0xCCD], [0xCA1, 0xCBF, 0xCB8, 0xCC6, 0xC82, 0xCAC, 0xCB0, 0xCCD]],
     l_months_short = Names [[0xC9C, 0xCA8], [0xCAB, 0xCC6, 0xCAC, 0xCCD, 0xCB0], [0xCAE, 0xCBE,
         0xCB0, 0xCCD, 0xC9A, 0xCCD], [0xC8F, 0xCAA, 0xCCD, 0xCB0, 0xCBF, 0xCB2, 0xCCD], [0xCAE,
         0xCC6, 0xCD5], [0xC9C, 0xCC2, 0xCA8, 0xCCD], [0xC9C, 0xCC1, 0xCB2, 0xCC6, 0xCD6], [0xC86,
         0xC97, 0xCB8, 0xCCD, 0xC9F, 0xCCD], [0xCB8, 0xCC6, 0xCAA, 0xCCD, 0xC9F, 0xCC6, 0xC82],
         [0xC85, 0xC95, 0xCCD, 0xC9F, 0xCC6, 0xCC2, 0xCD5], [0xCA8, 0xCB5, 0xCC6, 0xC82], [0xCA1,
         0xCBF, 0xCB8, 0xCC6, 0xC82]],
     l_weekdays = Names [[0xCAD, 0xCBE, 0xCA8, 0xCC1, 0xCB5, 0xCBE, 0xCB0], [0xCB8, 0xCC6, 0xCC2,
         0xCD5, 0xCAE, 0xCB5, 0xCBE, 0xCB0], [0xCAE, 0xC82, 0xC97, 0xCB3, 0xCB5, 0xCBE, 0xCB0],
         [0xCAC, 0xCC1, 0xCA7, 0xCB5, 0xCBE, 0xCB0], [0xC97, 0xCC1, 0xCB0, 0xCC1, 0xCB5, 0xCBE,
         0xCB0], [0xCB6, 0xCC1, 0xC95, 0xCCD, 0xCB0, 0xCB5, 0xCBE, 0xCB0], [0xCB6, 0xCA8, 0xCBF,
         0xCB5, 0xCBE, 0xCB0]],
     l_weekdays_short = [[0xCAD, 0xCBE, 0xCA8, 0xCC1], [0xCB8, 0xCC6, 0xCC2, 0xCD5, 0xCAE], [0xCAE,
         0xC82, 0xC97, 0xCB3], [0xCAC, 0xCC1, 0xCA7], [0xC97, 0xCC1, 0xCB0, 0xCC1], [0xCB6, 0xCC1,
         0xC95, 0xCCD, 0xCB0], [0xCB6, 0xCA8, 0xCBF]],
     l_weekdays_min = [[0xCAD, 0xCBE], [0xCB8, 0xCC6, 0xCC2, 0xCD5], [0xCAE, 0xC82], [0xCAC, 0xCC1],
         [0xC97, 0xCC1], [0xCB6, 0xCC1], [0xCB6]],
     l_long_date_format = [(''LT'', js ''A h:mm''),
       (''LTS'', js ''A h:mm:ss''),
       (''L'', js ''DD/MM/YYYY''),
       (''LL'', js ''D MMMM YYYY''),
       (''LLL'', js ''D MMMM YYYY, A h:mm''),
       (''LLLL'', js ''dddd, D MMMM YYYY, A h:mm'')],
     l_calendar = [(''sameDay'', CalText ([0x5B, 0xC87, 0xC82, 0xCA6, 0xCC1] @ js ''] LT'')),
       (''nextDay'', CalText ([0x5B, 0xCA8, 0xCBE, 0xCB3, 0xCC6] @ js ''] LT'')),
       (''nextWeek'', CalText (js ''dddd, LT'')),
       (''lastDay'', CalText ([0x5B, 0xCA8, 0xCBF, 0xCA8, 0xCCD, 0xCA8, 0xCC6] @ js ''] LT'')),
       (''lastWeek'', CalText ([0x5B, 0xC95, 0xCC6, 0xCC2, 0xCA8, 0xCC6, 0xCAF] @ js
           ''] dddd, LT'')),
       (''sameElse'', CalText (js ''L''))],
     l_relative_time = [(''future'', RelText [0x25, 0x73, 0x20, 0xCA8, 0xC82, 0xCA4, 0xCB0]),
       (''past'', RelText [0x25, 0x73, 0x20, 0xCB9, 0xCBF, 0xC82, 0xCA6, 0xCC6]),
       (''s'', RelText [0xC95, 0xCC6, 0xCB2, 0xCB5, 0xCC1, 0x20, 0xC95, 0xCCD, 0xCB7, 0xCA3, 0xC97,
           0xCB3, 0xCC1]),
       (''ss'', RelText [0x25, 0x64, 0x20, 0xCB8, 0xCC6, 0xC95, 0xCC6, 0xC82, 0xCA1, 0xCC1, 0xC97,
           0xCB3, 0xCC1]),
       (''m'', RelText [0xC92, 0xC82, 0xCA6, 0xCC1, 0x20, 0xCA8, 0xCBF, 0xCAE, 0xCBF, 0xCB7]),
       (''mm'', RelText [0x25, 0x64, 0x20, 0xCA8, 0xCBF, 0xCAE, 0xCBF, 0xCB7]),
       (''h'', RelText [0xC92, 0xC82, 0xCA6, 0xCC1, 0x20, 0xC97, 0xC82, 0xC9F, 0xCC6]),
       (''hh'', RelText [0x25, 0x64, 0x20, 0xC97, 0xC82, 0xC9F, 0xCC6]),
       (''d'', RelText [0xC92, 0xC82, 0xCA6, 0xCC1, 0x20, 0xCA6, 0xCBF, 0xCA8]),
       (''dd'', RelText [0x25, 0x64, 0x20, 0xCA6, 0xCBF, 0xCA8]),
       (''M'', RelText [0xC92, 0xC82, 0xCA6, 0xCC1, 0x20, 0xCA4, 0xCBF, 0xC82, 0xC97, 0xCB3,
           0xCC1]),
       (''MM'', RelText [0x25, 0x64, 0x20, 0xCA4, 0xCBF, 0xC82, 0xC97, 0xCB3, 0xCC1]),
       (''y'', RelText [0xC92, 0xC82, 0xCA6, 0xCC1, 0x20, 0xCB5, 0xCB0, 0xCCD, 0xCB7]),
       (''yy'', RelText [0x25, 0x64, 0x20, 0xCB5, 0xCB0, 0xCCD, 0xCB7])],
     l_ordinal = Some (OrdFun kn_ordinal),
     l_meridiem = Some kn_meridiem,
     l_is_pm = None,
     l_meridiem_hour = Some kn_meridiemHour,
     l_preparse = Some kn_preparse,
     l_postformat = Some kn_postformat,
     l_week = Some (0, 6),
     l_meridiem_parse = Some (Regex False (Alt [Lit [0xCB0, 0xCBE, 0xCA4, 0xCCD, 0xCB0, 0xCBF], Lit
         [0xCAC, 0xCC6, 0xCB3, 0xCBF, 0xC97, 0xCCD, 0xC97, 0xCC6], Lit [0xCAE, 0xCA7, 0xCCD, 0xCAF,
         0xCBE, 0xCB9, 0xCCD, 0xCA8], Lit [0xCB8, 0xC82, 0xC9C, 0xCC6]])),
     l_ordinal_parse = Some (Regex False (Seq [digits_1_2, Lit [0xCA8, 0xCC6, 0xCD5]])),
     l_parse = [],
     l_months_parse_exact = True,
     l_weekdays_parse_exact = False,
     l_invalid_date = None,
     l_eras = [],
     l_era_year = None \<rparr>"

text \<open>\<^verbatim>\<open>ko\<close> (line 47).\<close>

definition ko_ordinal :: "nat \<Rightarrow> string \<Rightarrow> js option" where
  "ko_ordinal number period = Some (if period = ''d'' \<or> period = ''D'' \<or> period = ''DDD''
      then jnum number @ [0xC77C]
      else if period = ''M'' then jnum number @ [0xC6D4]
      else if period = ''w'' \<or> period = ''W'' then jnum number @ [0xC8FC]
      else jnum number)"

definition ko_meridiem :: "nat \<Rightarrow> nat \<Rightarrow> bool \<Rightarrow> js" where
  "ko_meridiem hour minute isLower = (if hour < 12 then [0xC624, 0xC804] else [0xC624, 0xD6C4])"

definition ko_isPM :: "js \<Rightarrow> bool" where
  "ko_isPM input \<longleftrightarrow> input = [0xC624, 0xD6C4]"

definition locale_ko :: moment_locale where
  "locale_ko = \<lparr>
     l_abbr = ''ko'',
     l_months = Names [[0x31, 0xC6D4], [0x32, 0xC6D4], [0x33, 0xC6D4], [0x34, 0xC6D4], [0x35,
         0xC6D4], [0x36, 0xC6D4], [0x37, 0xC6D4], [0x38, 0xC6D4], [0x39, 0xC6D4], [0x31, 0x30,
         0xC6D4], [0x31, 0x31, 0xC6D4], [0x31, 0x32, 0xC6D4]],
     l_months_short = Names [[0x31, 0xC6D4], [0x32, 0xC6D4], [0x33, 0xC6D4], [0x34, 0xC6D4], [0x35,
         0xC6D4], [0x36, 0xC6D4], [0x37, 0xC6D4], [0x38, 0xC6D4], [0x39, 0xC6D4], [0x31, 0x30,
         0xC6D4], [0x31, 0x31, 0xC6D4], [0x31, 0x32, 0xC6D4]],
     l_weekdays = Names [[0xC77C, 0xC694, 0xC77C], [0xC6D4, 0xC694, 0xC77C], [0xD654, 0xC694,
         0xC77C], [0xC218, 0xC694, 0xC77C], [0xBAA9, 0xC694, 0xC77C], [0xAE08, 0xC694, 0xC77C],
         [0xD1A0, 0xC694, 0xC77C]],
     l_weekdays_short = [[0xC77C], [0xC6D4], [0xD654], [0xC218], [0xBAA9], [0xAE08], [0xD1A0]],
     l_weekdays_min = [[0xC77C], [0xC6D4], [0xD654], [0xC218], [0xBAA9], [0xAE08], [0xD1A0]],
     l_long_date_format = [(''LT'', js ''A h:mm''),
       (''LTS'', js ''A h:mm:ss''),
       (''L'', js ''YYYY.MM.DD.''),
       (''LL'', js ''YYYY'' @ [0xB144] @ js '' MMMM D'' @ [0xC77C]),
       (''LLL'', js ''YYYY'' @ [0xB144] @ js '' MMMM D'' @ [0xC77C] @ js '' A h:mm''),
       (''LLLL'', js ''YYYY'' @ [0xB144] @ js '' MMMM D'' @ [0xC77C] @ js '' dddd A h:mm''),
       (''l'', js ''YYYY.MM.DD.''),
       (''ll'', js ''YYYY'' @ [0xB144] @ js '' MMMM D'' @ [0xC77C]),
       (''lll'', js ''YYYY'' @ [0xB144] @ js '' MMMM D'' @ [0xC77C] @ js '' A h:mm''),
       (''llll'', js ''YYYY'' @ [0xB144] @ js '' MMMM D'' @ [0xC77C] @ js '' dddd A h:mm'')],
     l_calendar = [(''sameDay'', CalText [0xC624, 0xB298, 0x20, 0x4C, 0x54]),
       (''nextDay'', CalText [0xB0B4, 0xC77C, 0x20, 0x4C, 0x54]),
       (''nextWeek'', CalText (js ''dddd LT'')),
       (''lastDay'', CalText [0xC5B4, 0xC81C, 0x20, 0x4C, 0x54]),
       (''lastWeek'', CalText ([0xC9C0, 0xB09C, 0xC8FC] @ js '' dddd LT'')),
       (''sameElse'', CalText (js ''L''))],
     l_relative_time = [(''future'', RelText [0x25, 0x73, 0x20, 0xD6C4]),
       (''past'', RelText [0x25, 0x73, 0x20, 0xC804]),
       (''s'', RelText [0xBA87, 0x20, 0xCD08]),
       (''ss'', RelText [0x25, 0x64, 0xCD08]),
       (''m'', RelText [0x31, 0xBD84]),
       (''mm'', RelText [0x25, 0x64, 0xBD84]),
       (''h'', RelText [0xD55C, 0x20, 0xC2DC, 0xAC04]),
       (''hh'', RelText [0x25, 0x64, 0xC2DC, 0xAC04]),
       (''d'', RelText [0xD558, 0xB8E8]),
       (''dd'', RelText [0x25, 0x64, 0xC77C]),
       (''M'', RelText [0xD55C, 0x20, 0xB2EC]),
       (''MM'', RelText [0x25, 0x64, 0xB2EC]),
       (''y'', RelText [0xC77C, 0x20, 0xB144]),
       (''yy'', RelText [0x25, 0x64, 0xB144])],
     l_ordinal = Some (OrdFun ko_ordinal),
     l_meridiem = Some ko_meridiem,
     l_is_pm = Some ko_isPM,
     l_meridiem_hour = None,
     l_preparse = None,
     l_postformat = None,
     l_week = None,
     l_meridiem_parse = Some (Regex False (Alt [Lit [0xC624, 0xC804], Lit [0xC624, 0xD6C4]])),
     l_ordinal_parse = Some (Regex False (Seq [digits_1_2, Alt [Lit [0xC77C], Lit [0xC6D4], Lit
         [0xC8FC]]])),
     l_parse = [],
     l_months_parse_exact = False,
     l_weekdays_parse_exact = False,
     l_invalid_date = None,
     l_eras = [],
     l_era_year = None \<rparr>"

text \<open>\<^verbatim>\<open>ku\<close> (line 55).\<close>

definition ku_meridiem :: "nat \<Rightarrow> nat \<Rightarrow> bool \<Rightarrow> js" where
  "ku_meridiem hour minute isLower = (if hour < 12 then [0x628, 0x647, 0x200C, 0x6CC, 0x627, 0x646,
      0x6CC]
      else [0x626, 0x6CE, 0x648, 0x627, 0x631, 0x647, 0x200C])"

definition ku_isPM :: "js \<Rightarrow> bool" where
  "ku_isPM input \<longleftrightarrow> js_contains [0x626, 0x6CE, 0x648, 0x627, 0x631, 0x647,
      0x200C] input"

definition ku_preparse :: "js \<Rightarrow> js" where
  "ku_preparse s = js_replace_unit 0x60C 0x2C (js_replace_units [(0x661, [0x31]), (0x662, [0x32]),
      (0x663, [0x33]), (0x664, [0x34]), (0x665, [0x35]), (0x666, [0x36]), (0x667, [0x37]), (0x668,
      [0x38]), (0x669, [0x39]), (0x660, [0x30])] s)"

definition ku_postformat :: "js \<Rightarrow> js" where
  "ku_postformat s = js_replace_unit 0x2C 0x60C (js_replace_units [(0x30, [0x660]), (0x31, [0x661]),
      (0x32, [0x662]), (0x33, [0x663]), (0x34, [0x664]), (0x35, [0x665]), (0x36, [0x666]), (0x37,
      [0x667]), (0x38, [0x668]), (0x39, [0x669])] s)"

definition locale_ku :: moment_locale where
  "locale_ku = \<lparr>
     l_abbr = ''ku'',
     l_months = Names [[0x6A9, 0x627, 0x646, 0x648, 0x646, 0x6CC, 0x20, 0x62F, 0x648, 0x648, 0x6D5,
         0x645], [0x634, 0x648, 0x628, 0x627, 0x62A], [0x626, 0x627, 0x632, 0x627, 0x631], [0x646,
         0x6CC, 0x633, 0x627, 0x646], [0x626, 0x627, 0x6CC, 0x627, 0x631], [0x62D, 0x648, 0x632,
         0x6D5, 0x6CC, 0x631, 0x627, 0x646], [0x62A, 0x6D5, 0x645, 0x645, 0x648, 0x632], [0x626,
         0x627, 0x628], [0x626, 0x6D5, 0x6CC, 0x644, 0x648, 0x648, 0x644], [0x62A, 0x634, 0x631,
         0x6CC, 0x646, 0x6CC, 0x20, 0x6CC, 0x6D5, 0x643, 0x6D5, 0x645], [0x62A, 0x634, 0x631, 0x6CC,
         0x646, 0x6CC, 0x20, 0x62F, 0x648, 0x648, 0x6D5, 0x645], [0x643, 0x627, 0x646, 0x648, 0x646,
         0x6CC, 0x20, 0x6CC, 0x6D5, 0x6A9, 0x6D5, 0x645]],
     l_months_short = Names [[0x6A9, 0x627, 0x646, 0x648, 0x646, 0x6CC, 0x20, 0x62F, 0x648, 0x648,
         0x6D5, 0x645], [0x634, 0x648, 0x628, 0x627, 0x62A], [0x626, 0x627, 0x632, 0x627, 0x631],
         [0x646, 0x6CC, 0x633, 0x627, 0x646], [0x626, 0x627, 0x6CC, 0x627, 0x631], [0x62D, 0x648,
         0x632, 0x6D5, 0x6CC, 0x631, 0x627, 0x646], [0x62A, 0x6D5, 0x645, 0x645, 0x648, 0x632],
         [0x626, 0x627, 0x628], [0x626, 0x6D5, 0x6CC, 0x644, 0x648, 0x648, 0x644], [0x62A, 0x634,
         0x631, 0x6CC, 0x646, 0x6CC, 0x20, 0x6CC, 0x6D5, 0x643, 0x6D5, 0x645], [0x62A, 0x634, 0x631,
         0x6CC, 0x646, 0x6CC, 0x20, 0x62F, 0x648, 0x648, 0x6D5, 0x645], [0x643, 0x627, 0x646, 0x648,
         0x646, 0x6CC, 0x20, 0x6CC, 0x6D5, 0x6A9, 0x6D5, 0x645]],
     l_weekdays = Names [[0x6CC, 0x647, 0x200C, 0x643, 0x634, 0x647, 0x200C, 0x645, 0x645, 0x647,
         0x200C], [0x62F, 0x648, 0x648, 0x634, 0x647, 0x200C, 0x645, 0x645, 0x647, 0x200C], [0x633,
         0x6CE, 0x634, 0x647, 0x200C, 0x645, 0x645, 0x647, 0x200C], [0x686, 0x648, 0x627, 0x631,
         0x634, 0x647, 0x200C, 0x645, 0x645, 0x647, 0x200C], [0x67E, 0x6CE, 0x646, 0x62C, 0x634,
         0x647, 0x200C, 0x645, 0x645, 0x647, 0x200C], [0x647, 0x647, 0x200C, 0x6CC, 0x646, 0x6CC],
         [0x634, 0x647, 0x200C, 0x645, 0x645, 0x647, 0x200C]],
     l_weekdays_short = [[0x6CC, 0x647, 0x200C, 0x643, 0x634, 0x647, 0x200C, 0x645], [0x62F, 0x648,
         0x648, 0x634, 0x647, 0x200C, 0x645], [0x633, 0x6CE, 0x634, 0x647, 0x200C, 0x645], [0x686,
         0x648, 0x627, 0x631, 0x634, 0x647, 0x200C, 0x645], [0x67E, 0x6CE, 0x646, 0x62C, 0x634,
         0x647, 0x200C, 0x645], [0x647, 0x647, 0x200C, 0x6CC, 0x646, 0x6CC], [0x634, 0x647, 0x200C,
         0x645, 0x645, 0x647, 0x200C]],
     l_weekdays_min = [[0x6CC], [0x62F], [0x633], [0x686], [0x67E], [0x647], [0x634]],
     l_long_date_format = [(''LT'', js ''HH:mm''),
       (''LTS'', js ''HH:mm:ss''),
       (''L'', js ''DD/MM/YYYY''),
       (''LL'', js ''D MMMM YYYY''),
       (''LLL'', js ''D MMMM YYYY HH:mm''),
       (''LLLL'', js ''dddd, D MMMM YYYY HH:mm'')],
     l_calendar = [(''sameDay'', CalText ([0x5B, 0x626, 0x647, 0x200C, 0x645, 0x631, 0x6C6, 0x20,
         0x643, 0x627, 0x62A, 0x698, 0x645, 0x6CE, 0x631] @ js ''] LT'')),
       (''nextDay'', CalText ([0x5B, 0x628, 0x647, 0x200C, 0x6CC, 0x627, 0x646, 0x6CC, 0x20, 0x643,
           0x627, 0x62A, 0x698, 0x645, 0x6CE, 0x631] @ js ''] LT'')),
       (''nextWeek'', CalText (js ''dddd ['' @ [0x643, 0x627, 0x62A, 0x698, 0x645, 0x6CE, 0x631] @
           js ''] LT'')),
       (''lastDay'', CalText ([0x5B, 0x62F, 0x648, 0x6CE, 0x646, 0x6CE, 0x20, 0x643, 0x627, 0x62A,
           0x698, 0x645, 0x6CE, 0x631] @ js ''] LT'')),
       (''lastWeek'', CalText (js ''dddd ['' @ [0x643, 0x627, 0x62A, 0x698, 0x645, 0x6CE, 0x631] @
           js ''] LT'')),
       (''sameElse'', CalText (js ''L''))],
     l_relative_time = [(''future'', RelText [0x644, 0x647, 0x200C, 0x20, 0x25, 0x73]),
       (''past'', RelText (js ''%s'')),
       (''s'', RelText [0x686, 0x647, 0x200C, 0x646, 0x62F, 0x20, 0x686, 0x631, 0x643, 0x647,
           0x200C, 0x6CC, 0x647, 0x200C, 0x643]),
       (''ss'', RelText [0x686, 0x631, 0x643, 0x647, 0x200C, 0x20, 0x25, 0x64]),
       (''m'', RelText [0x6CC, 0x647, 0x200C, 0x643, 0x20, 0x62E, 0x648, 0x644, 0x647, 0x200C,
           0x643]),
       (''mm'', RelText [0x25, 0x64, 0x20, 0x62E, 0x648, 0x644, 0x647, 0x200C, 0x643]),
       (''h'', RelText [0x6CC, 0x647, 0x200C, 0x643, 0x20, 0x643, 0x627, 0x62A, 0x698, 0x645, 0x6CE,
           0x631]),
       (''hh'', RelText [0x25, 0x64, 0x20, 0x643, 0x627, 0x62A, 0x698, 0x645, 0x6CE, 0x631]),
       (''d'', RelText [0x6CC, 0x647, 0x200C, 0x643, 0x20, 0x695, 0x6C6, 0x698]),
       (''dd'', RelText [0x25, 0x64, 0x20, 0x695, 0x6C6, 0x698]),
       (''M'', RelText [0x6CC, 0x647, 0x200C, 0x643, 0x20, 0x645, 0x627, 0x646, 0x6AF]),
       (''MM'', RelText [0x25, 0x64, 0x20, 0x645, 0x627, 0x646, 0x6AF]),
       (''y'', RelText [0x6CC, 0x647, 0x200C, 0x643, 0x20, 0x633, 0x627, 0x6B5]),
       (''yy'', RelText [0x25, 0x64, 0x20, 0x633, 0x627, 0x6B5])],
     l_ordinal = None,
     l_meridiem = Some ku_meridiem,
     l_is_pm = Some ku_isPM,
     l_meridiem_hour = None,
     l_preparse = Some ku_preparse,
     l_postformat = Some ku_postformat,
     l_week = Some (6, 12),
     l_meridiem_parse = Some (Regex False (Alt [Lit [0x626, 0x6CE, 0x648, 0x627, 0x631, 0x647,
         0x200C], Lit [0x628, 0x647, 0x200C, 0x6CC, 0x627, 0x646, 0x6CC]])),
     l_ordinal_parse = None,
     l_parse = [],
     l_months_parse_exact = False,
     l_weekdays_parse_exact = True,
     l_invalid_date = None,
     l_eras = [],
     l_era_year = None \<rparr>"

text \<open>\<^verbatim>\<open>ky\<close> (line 243).\<close>

definition ky_suffixes :: "nat \<Rightarrow> js option" where
  "ky_suffixes = map_of [(0, [0x2D, 0x447, 0x4AF]), (1, [0x2D, 0x447, 0x438]), (2, [0x2D, 0x447,
      0x438]), (3, [0x2D, 0x447, 0x4AF]), (4, [0x2D, 0x447, 0x4AF]), (5, [0x2D, 0x447, 0x438]), (6,
      [0x2D, 0x447, 0x44B]), (7, [0x2D, 0x447, 0x438]), (8, [0x2D, 0x447, 0x438]), (9, [0x2D, 0x447,
      0x443]), (10, [0x2D, 0x447, 0x443]), (20, [0x2D, 0x447, 0x44B]), (30, [0x2D, 0x447, 0x443]),
      (40, [0x2D, 0x447, 0x44B]), (50, [0x2D, 0x447, 0x4AF]), (60, [0x2D, 0x447, 0x44B]), (70,
      [0x2D, 0x447, 0x438]), (80, [0x2D, 0x447, 0x438]), (90, [0x2D, 0x447, 0x443]), (100, [0x2D,
      0x447, 0x4AF])]"

definition ky_ordinal :: "nat \<Rightarrow> string \<Rightarrow> js option" where
  "ky_ordinal number period = map_option (\<lambda>x. jnum number @ x) (js_or (js_or (ky_suffixes
      number) (ky_suffixes (number mod 10))) (Option.bind (if number \<ge> 100 then Some 100
      else None) ky_suffixes))"

definition locale_ky :: moment_locale where
  "locale_ky = \<lparr>
     l_abbr = ''ky'',
     l_months = Names [[0x44F, 0x43D, 0x432, 0x430, 0x440, 0x44C], [0x444, 0x435, 0x432, 0x440,
         0x430, 0x43B, 0x44C], [0x43C, 0x430, 0x440, 0x442], [0x430, 0x43F, 0x440, 0x435, 0x43B,
         0x44C], [0x43C, 0x430, 0x439], [0x438, 0x44E, 0x43D, 0x44C], [0x438, 0x44E, 0x43B, 0x44C],
         [0x430, 0x432, 0x433, 0x443, 0x441, 0x442], [0x441, 0x435, 0x43D, 0x442, 0x44F, 0x431,
         0x440, 0x44C], [0x43E, 0x43A, 0x442, 0x44F, 0x431, 0x440, 0x44C], [0x43D, 0x43E, 0x44F,
         0x431, 0x440, 0x44C], [0x434, 0x435, 0x43A, 0x430, 0x431, 0x440, 0x44C]],
     l_months_short = Names [[0x44F, 0x43D, 0x432], [0x444, 0x435, 0x432], [0x43C, 0x430, 0x440,
         0x442], [0x430, 0x43F, 0x440], [0x43C, 0x430, 0x439], [0x438, 0x44E, 0x43D, 0x44C], [0x438,
         0x44E, 0x43B, 0x44C], [0x430, 0x432, 0x433], [0x441, 0x435, 0x43D], [0x43E, 0x43A, 0x442],
         [0x43D, 0x43E, 0x44F], [0x434, 0x435, 0x43A]],
     l_weekdays = Names [[0x416, 0x435, 0x43A, 0x448, 0x435, 0x43C, 0x431, 0x438], [0x414, 0x4AF,
         0x439, 0x448, 0x4E9, 0x43C, 0x431, 0x4AF], [0x428, 0x435, 0x439, 0x448, 0x435, 0x43C,
         0x431, 0x438], [0x428, 0x430, 0x440, 0x448, 0x435, 0x43C, 0x431, 0x438], [0x411, 0x435,
         0x439, 0x448, 0x435, 0x43C, 0x431, 0x438], [0x416, 0x443, 0x43C, 0x430], [0x418, 0x448,
         0x435, 0x43C, 0x431, 0x438]],
     l_weekdays_short = [[0x416, 0x435, 0x43A], [0x414, 0x4AF, 0x439], [0x428, 0x435, 0x439],
         [0x428, 0x430, 0x440], [0x411, 0x435, 0x439], [0x416, 0x443, 0x43C], [0x418, 0x448,
         0x435]],
     l_weekdays_min = [[0x416, 0x43A], [0x414, 0x439], [0x428, 0x439], [0x428, 0x440], [0x411,
         0x439], [0x416, 0x43C], [0x418, 0x448]],
     l_long_date_format = [(''LT'', js ''HH:mm''),
       (''LTS'', js ''HH:mm:ss''),
       (''L'', js ''DD.MM.YYYY''),
       (''LL'', js ''D MMMM YYYY''),
       (''LLL'', js ''D MMMM YYYY HH:mm''),
       (''LLLL'', js ''dddd, D MMMM YYYY HH:mm'')],
     l_calendar = [(''sameDay'', CalText ([0x5B, 0x411, 0x4AF, 0x433, 0x4AF, 0x43D, 0x20, 0x441,
         0x430, 0x430, 0x442] @ js ''] LT'')),
       (''nextDay'', CalText ([0x5B, 0x42D, 0x440, 0x442, 0x435, 0x4A3, 0x20, 0x441, 0x430, 0x430,
           0x442] @ js ''] LT'')),
       (''nextWeek'', CalText (js ''dddd ['' @ [0x441, 0x430, 0x430, 0x442] @ js ''] LT'')),
       (''lastDay'', CalText ([0x5B, 0x41A, 0x435, 0x447, 0x44D, 0x44D, 0x20, 0x441, 0x430, 0x430,
           0x442] @ js ''] LT'')),
       (''lastWeek'', CalText ([0x5B, 0x4E8, 0x442, 0x43A, 0x4E9, 0x43D, 0x20, 0x430, 0x43F, 0x442,
           0x430, 0x43D, 0x44B, 0x43D] @ js ''] dddd ['' @ [0x43A, 0x4AF, 0x43D, 0x4AF, 0x5D, 0x20,
           0x5B, 0x441, 0x430, 0x430, 0x442] @ js ''] LT'')),
       (''sameElse'', CalText (js ''L''))],
     l_relative_time = [(''future'', RelText [0x25, 0x73, 0x20, 0x438, 0x447, 0x438, 0x43D, 0x434,
         0x435]),
       (''past'', RelText [0x25, 0x73, 0x20, 0x43C, 0x443, 0x440, 0x443, 0x43D]),
       (''s'', RelText [0x431, 0x438, 0x440, 0x43D, 0x435, 0x447, 0x435, 0x20, 0x441, 0x435, 0x43A,
           0x443, 0x43D, 0x434]),
       (''ss'', RelText [0x25, 0x64, 0x20, 0x441, 0x435, 0x43A, 0x443, 0x43D, 0x434]),
       (''m'', RelText [0x431, 0x438, 0x440, 0x20, 0x43C, 0x4AF, 0x43D, 0x4E9, 0x442]),
       (''mm'', RelText [0x25, 0x64, 0x20, 0x43C, 0x4AF, 0x43D, 0x4E9, 0x442]),
       (''h'', RelText [0x431, 0x438, 0x440, 0x20, 0x441, 0x430, 0x430, 0x442]),
       (''hh'', RelText [0x25, 0x64, 0x20, 0x441, 0x430, 0x430, 0x442]),
       (''d'', RelText [0x431, 0x438, 0x440, 0x20, 0x43A, 0x4AF, 0x43D]),
       (''dd'', RelText [0x25, 0x64, 0x20, 0x43A, 0x4AF, 0x43D]),
       (''M'', RelText [0x431, 0x438, 0x440, 0x20, 0x430, 0x439]),
       (''MM'', RelText [0x25, 0x64, 0x20, 0x430, 0x439]),
       (''y'', RelText [0x431, 0x438, 0x440, 0x20, 0x436, 0x44B, 0x43B]),
       (''yy'', RelText [0x25, 0x64, 0x20, 0x436, 0x44B, 0x43B])],
     l_ordinal = Some (OrdFun ky_ordinal),
     l_meridiem = None,
     l_is_pm = None,
     l_meridiem_hour = None,
     l_preparse = None,
     l_postformat = None,
     l_week = Some (1, 7),
     l_meridiem_parse = None,
     l_ordinal_parse = Some (Regex False (Seq [digits_1_2, Lit (js ''-''), Alt [Lit [0x447, 0x438],
         Lit [0x447, 0x44B], Lit [0x447, 0x4AF], Lit [0x447, 0x443]]])),
     l_parse = [],
     l_months_parse_exact = False,
     l_weekdays_parse_exact = False,
     l_invalid_date = None,
     l_eras = [],
     l_era_year = None \<rparr>"

text \<open>\<^verbatim>\<open>lb\<close> (line 114).\<close>

fun lb_lead :: "nat \<Rightarrow> nat" where
  "lb_lead n = (if n \<ge> 10 then lb_lead (n div 10) else n)"

declare lb_lead.simps [simp del]

fun lb_eifeler :: "nat \<Rightarrow> nat \<Rightarrow> bool" where
  "lb_eifeler 0 n = False"
| "lb_eifeler (Suc k) n =
     (if n < 10 then 4 \<le> n \<and> n \<le> 7
      else if n < 100 then lb_eifeler k (if n mod 10 = 0 then n div 10 else n mod 10)
      else if n < 10000 then lb_eifeler k (lb_lead n)
      else lb_eifeler k (n div 1000))"

definition lb_eifelerText :: "js \<Rightarrow> bool" where
  "lb_eifelerText s =
     (case s of
        [] \<Rightarrow> False
      | c # cs \<Rightarrow>
          if c = 0x2D then (case js_int_prefix cs of None \<Rightarrow> False | Some n \<Rightarrow>
              n \<noteq> 0)
         
      else (case js_int_prefix s of None \<Rightarrow> False | Some n \<Rightarrow> lb_eifeler (Suc
          n) n))"

definition lb_rel_n :: "js \<Rightarrow> js option" where
  "lb_rel_n s = Some ((if lb_eifelerText (js_before 0x20 s) then (js ''a '')
      else (js ''an '')) @ s)"

definition lb_rel_i :: "js \<Rightarrow> js option" where
  "lb_rel_i s = Some ((if lb_eifelerText (js_before 0x20 s) then (js ''viru '')
      else (js ''virun '')) @ s)"

definition lb_lastWeek :: "nat \<Rightarrow> nat \<Rightarrow> bool \<Rightarrow> js option" where
  "lb_lastWeek day hours sameWeek = Some (if day = 2 \<or> day = 4 then js
      ''[Leschten] dddd [um] LT''
      else js ''[Leschte] dddd [um] LT'')"

definition lb_rel_t :: "nat \<Rightarrow> bool \<Rightarrow> string \<Rightarrow> bool \<Rightarrow>
    js option" where
  "lb_rel_t number withoutSuffix key isFuture = (if withoutSuffix then Option.bind (map_of [(''m'',
      [js ''eng Minutt'', js ''enger Minutt'']), (''h'', [js ''eng Stonn'', js ''enger Stonn'']),
      (''d'', [js ''een Dag'', js ''engem Dag'']), (''M'', [js ''ee Mount'', js ''engem Mount'']),
      (''y'', [js ''ee Joer'', js ''engem Joer''])] key) (\<lambda>xs. js_nth xs 0)
      else Option.bind (map_of [(''m'', [js ''eng Minutt'', js ''enger Minutt'']), (''h'', [js
          ''eng Stonn'', js ''enger Stonn'']), (''d'', [js ''een Dag'', js ''engem Dag'']), (''M'',
          [js ''ee Mount'', js ''engem Mount'']), (''y'', [js ''ee Joer'', js ''engem Joer''])] key)
          (\<lambda>xs. js_nth xs 1))"

definition locale_lb :: moment_locale where
  "locale_lb = \<lparr>
     l_abbr = ''lb'',
     l_months = Names [js ''Januar'', js ''Februar'', [0x4D, 0xE4, 0x65, 0x72, 0x7A], [0x41, 0x62,
         0x72, 0xEB, 0x6C, 0x6C], js ''Mee'', js ''Juni'', js ''Juli'', js ''August'', js
         ''September'', js ''Oktober'', js ''November'', js ''Dezember''],
     l_months_short = Names [js ''Jan.'', js ''Febr.'', js ''Mrz.'', js ''Abr.'', js ''Mee'', js
         ''Jun.'', js ''Jul.'', js ''Aug.'', js ''Sept.'', js ''Okt.'', js ''Nov.'', js ''Dez.''],
     l_weekdays = Names [js ''Sonndeg'', [0x4D, 0xE9] @ js ''indeg'', [0x44, 0xEB] @ js ''nschdeg'',
         [0x4D, 0xEB] @ js ''ttwoch'', js ''Donneschdeg'', js ''Freideg'', js ''Samschdeg''],
     l_weekdays_short = [js ''So.'', [0x4D, 0xE9, 0x2E], [0x44, 0xEB, 0x2E], [0x4D, 0xEB, 0x2E], js
         ''Do.'', js ''Fr.'', js ''Sa.''],
     l_weekdays_min = [js ''So'', [0x4D, 0xE9], [0x44, 0xEB], [0x4D, 0xEB], js ''Do'', js ''Fr'', js
         ''Sa''],
     l_long_date_format = [(''LT'', js ''H:mm [Auer]''),
       (''LTS'', js ''H:mm:ss [Auer]''),
       (''L'', js ''DD.MM.YYYY''),
       (''LL'', js ''D. MMMM YYYY''),
       (''LLL'', js ''D. MMMM YYYY H:mm [Auer]''),
       (''LLLL'', js ''dddd, D. MMMM YYYY H:mm [Auer]'')],
     l_calendar = [(''sameDay'', CalText (js ''[Haut um] LT'')),
       (''sameElse'', CalText (js ''L'')),
       (''nextDay'', CalText (js ''[Muer um] LT'')),
       (''nextWeek'', CalText (js ''dddd [um] LT'')),
       (''lastDay'', CalText ([0x5B, 0x47, 0xEB] @ js ''schter um] LT'')),
       (''lastWeek'', CalFun lb_lastWeek)],
     l_relative_time = [(''future'', RelStr lb_rel_n),
       (''past'', RelStr lb_rel_i),
       (''s'', RelText (js ''e puer Sekonnen'')),
       (''ss'', RelText (js ''%d Sekonnen'')),
       (''m'', RelNum lb_rel_t),
       (''mm'', RelText (js ''%d Minutten'')),
       (''h'', RelNum lb_rel_t),
       (''hh'', RelText (js ''%d Stonnen'')),
       (''d'', RelNum lb_rel_t),
       (''dd'', RelText (js ''%d Deeg'')),
       (''M'', RelNum lb_rel_t),
       (''MM'', RelText (js ''%d M'' @ [0xE9, 0x69, 0x6E, 0x74])),
       (''y'', RelNum lb_rel_t),
       (''yy'', RelText (js ''%d Joer''))],
     l_ordinal = Some (OrdText (js ''%d.'')),
     l_meridiem = None,
     l_is_pm = None,
     l_meridiem_hour = None,
     l_preparse = None,
     l_postformat = None,
     l_week = Some (1, 4),
     l_meridiem_parse = None,
     l_ordinal_parse = Some (Regex False (Seq [digits_1_2, Lit (js ''.'')])),
     l_parse = [],
     l_months_parse_exact = True,
     l_weekdays_parse_exact = True,
     l_invalid_date = None,
     l_eras = [],
     l_era_year = None \<rparr>"

definition locales_h :: "moment_locale list" where
  "locales_h = [locale_hr, locale_hu, locale_hy_am, locale_id, locale_is, locale_it, locale_it_ch, locale_ja,
         locale_jv, locale_ka, locale_kk, locale_km, locale_kn, locale_ko, locale_ku, locale_ky,
         locale_lb]"

lemmas locales_h_defs = locales_h_def locale_hr_def locale_hu_def locale_hy_am_def locale_id_def locale_is_def
      locale_it_def locale_it_ch_def locale_ja_def locale_jv_def locale_ka_def locale_kk_def
      locale_km_def locale_kn_def locale_ko_def locale_ku_def locale_ky_def locale_lb_def

text \<open>The relative times of these languages.\<close>

lemma hr_rel_t_defined:
  assumes "1 \<le> number"
  shows "hr_rel_t number withoutSuffix ''ss'' isFuture \<noteq> None"
    and "hr_rel_t number withoutSuffix ''m'' isFuture \<noteq> None"
    and "hr_rel_t number withoutSuffix ''mm'' isFuture \<noteq> None"
    and "hr_rel_t number withoutSuffix ''h'' isFuture \<noteq> None"
    and "hr_rel_t number withoutSuffix ''hh'' isFuture \<noteq> None"
    and "hr_rel_t number withoutSuffix ''dd'' isFuture \<noteq> None"
    and "hr_rel_t number withoutSuffix ''MM'' isFuture \<noteq> None"
    and "hr_rel_t number withoutSuffix ''yy'' isFuture \<noteq> None"
  using assms
  by (auto simp: hr_rel_t_def js_nth_def Let_def split: if_splits)

lemma hu_rel_n_defined:
  assumes "1 \<le> number"
  shows "hu_rel_n number withoutSuffix ''s'' isFuture \<noteq> None"
    and "hu_rel_n number withoutSuffix ''ss'' isFuture \<noteq> None"
    and "hu_rel_n number withoutSuffix ''m'' isFuture \<noteq> None"
    and "hu_rel_n number withoutSuffix ''mm'' isFuture \<noteq> None"
    and "hu_rel_n number withoutSuffix ''h'' isFuture \<noteq> None"
    and "hu_rel_n number withoutSuffix ''hh'' isFuture \<noteq> None"
    and "hu_rel_n number withoutSuffix ''d'' isFuture \<noteq> None"
    and "hu_rel_n number withoutSuffix ''dd'' isFuture \<noteq> None"
    and "hu_rel_n number withoutSuffix ''M'' isFuture \<noteq> None"
    and "hu_rel_n number withoutSuffix ''MM'' isFuture \<noteq> None"
    and "hu_rel_n number withoutSuffix ''y'' isFuture \<noteq> None"
    and "hu_rel_n number withoutSuffix ''yy'' isFuture \<noteq> None"
  using assms
  by (auto simp: hu_rel_n_def js_nth_def Let_def split: if_splits)

lemma is_rel_n_defined:
  assumes "1 \<le> number"
  shows "is_rel_n number withoutSuffix ''s'' isFuture \<noteq> None"
    and "is_rel_n number withoutSuffix ''ss'' isFuture \<noteq> None"
    and "is_rel_n number withoutSuffix ''m'' isFuture \<noteq> None"
    and "is_rel_n number withoutSuffix ''mm'' isFuture \<noteq> None"
    and "is_rel_n number withoutSuffix ''hh'' isFuture \<noteq> None"
    and "is_rel_n number withoutSuffix ''d'' isFuture \<noteq> None"
    and "is_rel_n number withoutSuffix ''dd'' isFuture \<noteq> None"
    and "is_rel_n number withoutSuffix ''M'' isFuture \<noteq> None"
    and "is_rel_n number withoutSuffix ''MM'' isFuture \<noteq> None"
    and "is_rel_n number withoutSuffix ''y'' isFuture \<noteq> None"
    and "is_rel_n number withoutSuffix ''yy'' isFuture \<noteq> None"
  using assms
  by (auto simp: is_rel_n_def is_t_def js_nth_def Let_def split: if_splits)

lemma lb_rel_t_defined:
  assumes "1 \<le> number"
  shows "lb_rel_t number withoutSuffix ''m'' isFuture \<noteq> None"
    and "lb_rel_t number withoutSuffix ''h'' isFuture \<noteq> None"
    and "lb_rel_t number withoutSuffix ''d'' isFuture \<noteq> None"
    and "lb_rel_t number withoutSuffix ''M'' isFuture \<noteq> None"
    and "lb_rel_t number withoutSuffix ''y'' isFuture \<noteq> None"
  using assms
  by (auto simp: lb_rel_t_def js_nth_def Let_def split: if_splits)

lemma locales_h_relative:
  assumes "1 \<le> number"
  shows "list_all (\<lambda>c. rel_defined number withoutSuffix isFuture (l_relative_time c)) locales_h"
  unfolding locales_h_defs list.pred_inject moment_locale.select_convs rel_defined_def
  using assms by (simp add: hr_rel_t_defined hu_rel_n_defined is_rel_n_defined lb_rel_t_defined del: not_None_eq)

lemma locales_h_wrappers:
  "list_all (\<lambda>c. wrapper_defined s (l_relative_time c)) locales_h"
  unfolding locales_h_defs list.pred_inject moment_locale.select_convs wrapper_defined_def
  by (simp add: it_ch_rel_future_def ka_rel_future_def ka_rel_past_def lb_rel_n_def lb_rel_i_def)

lemma locales_h_unitwise:
  "list_all (\<lambda>c. unitwise (apply_option (l_preparse c)) \<and> unitwise (apply_option (l_postformat c))) locales_h"
  unfolding locales_h_defs list.pred_inject moment_locale.select_convs
  by (simp add: unitwise_def apply_option_def
      km_preparse_def km_postformat_def kn_preparse_def kn_postformat_def
      ku_preparse_def ku_postformat_def)

lemma locales_h_names:
  "list_all (\<lambda>c. names_length 12 (l_months c) \<and> names_length 12 (l_months_short c) \<and>
     names_length 7 (l_weekdays c) \<and> length (l_weekdays_short c) = 7 \<and> length (l_weekdays_min c) = 7) locales_h"
  unfolding locales_h_defs list.pred_inject moment_locale.select_convs
  by (simp add: names_length_def)

end
