(* ===== verification/LocalesL.thy ===== *)
theory LocalesL
  imports MomentCore
begin

text \<open>
  The language configurations lo to ne of the date library, as the bundle
  \<^verbatim>\<open>src/lagosta/js/app.js\<close> registers them, one per line.  Each configuration is the record
  \<^verbatim>\<open>locale_x\<close>; the functions inside it are the definitions before it, named after the language and
  the property (or the local function) that holds them.
\<close>

text \<open>\<^verbatim>\<open>lo\<close> (line 261).\<close>

definition lo_ordinal :: "nat \<Rightarrow> string \<Rightarrow> js option" where
  "lo_ordinal number period = Some ([0xE97, 0xEB5, 0xEC8] @ jnum number)"

definition lo_meridiem :: "nat \<Rightarrow> nat \<Rightarrow> bool \<Rightarrow> js" where
  "lo_meridiem hour minute isLower = (if hour < 12 then [0xE95, 0xEAD, 0xE99, 0xEC0, 0xE8A, 0xEBB,
      0xEC9, 0xEB2]
      else [0xE95, 0xEAD, 0xE99, 0xEC1, 0xEA5, 0xE87])"

definition lo_isPM :: "js \<Rightarrow> bool" where
  "lo_isPM input \<longleftrightarrow> input = [0xE95, 0xEAD, 0xE99, 0xEC1, 0xEA5, 0xE87]"

definition locale_lo :: moment_locale where
  "locale_lo = \<lparr>
     l_abbr = ''lo'',
     l_months = Names [[0xEA1, 0xEB1, 0xE87, 0xE81, 0xEAD, 0xE99], [0xE81, 0xEB8, 0xEA1, 0xE9E,
         0xEB2], [0xEA1, 0xEB5, 0xE99, 0xEB2], [0xEC0, 0xEA1, 0xEAA, 0xEB2], [0xE9E, 0xEB6, 0xE94,
         0xEAA, 0xEB0, 0xE9E, 0xEB2], [0xEA1, 0xEB4, 0xE96, 0xEB8, 0xE99, 0xEB2], [0xE81, 0xECD,
         0xEA5, 0xEB0, 0xE81, 0xEBB, 0xE94], [0xEAA, 0xEB4, 0xE87, 0xEAB, 0xEB2], [0xE81, 0xEB1,
         0xE99, 0xE8D, 0xEB2], [0xE95, 0xEB8, 0xEA5, 0xEB2], [0xE9E, 0xEB0, 0xE88, 0xEB4, 0xE81],
         [0xE97, 0xEB1, 0xE99, 0xEA7, 0xEB2]],
     l_months_short = Names [[0xEA1, 0xEB1, 0xE87, 0xE81, 0xEAD, 0xE99], [0xE81, 0xEB8, 0xEA1,
         0xE9E, 0xEB2], [0xEA1, 0xEB5, 0xE99, 0xEB2], [0xEC0, 0xEA1, 0xEAA, 0xEB2], [0xE9E, 0xEB6,
         0xE94, 0xEAA, 0xEB0, 0xE9E, 0xEB2], [0xEA1, 0xEB4, 0xE96, 0xEB8, 0xE99, 0xEB2], [0xE81,
         0xECD, 0xEA5, 0xEB0, 0xE81, 0xEBB, 0xE94], [0xEAA, 0xEB4, 0xE87, 0xEAB, 0xEB2], [0xE81,
         0xEB1, 0xE99, 0xE8D, 0xEB2], [0xE95, 0xEB8, 0xEA5, 0xEB2], [0xE9E, 0xEB0, 0xE88, 0xEB4,
         0xE81], [0xE97, 0xEB1, 0xE99, 0xEA7, 0xEB2]],
     l_weekdays = Names [[0xEAD, 0xEB2, 0xE97, 0xEB4, 0xE94], [0xE88, 0xEB1, 0xE99], [0xEAD, 0xEB1,
         0xE87, 0xE84, 0xEB2, 0xE99], [0xE9E, 0xEB8, 0xE94], [0xE9E, 0xEB0, 0xEAB, 0xEB1, 0xE94],
         [0xEAA, 0xEB8, 0xE81], [0xEC0, 0xEAA, 0xEBB, 0xEB2]],
     l_weekdays_short = [[0xE97, 0xEB4, 0xE94], [0xE88, 0xEB1, 0xE99], [0xEAD, 0xEB1, 0xE87, 0xE84,
         0xEB2, 0xE99], [0xE9E, 0xEB8, 0xE94], [0xE9E, 0xEB0, 0xEAB, 0xEB1, 0xE94], [0xEAA, 0xEB8,
         0xE81], [0xEC0, 0xEAA, 0xEBB, 0xEB2]],
     l_weekdays_min = [[0xE97], [0xE88], [0xEAD, 0xE84], [0xE9E], [0xE9E, 0xEAB], [0xEAA, 0xE81],
         [0xEAA]],
     l_long_date_format = [(''LT'', js ''HH:mm''),
       (''LTS'', js ''HH:mm:ss''),
       (''L'', js ''DD/MM/YYYY''),
       (''LL'', js ''D MMMM YYYY''),
       (''LLL'', js ''D MMMM YYYY HH:mm''),
       (''LLLL'', [0xEA7, 0xEB1, 0xE99] @ js ''dddd D MMMM YYYY HH:mm'')],
     l_calendar = [(''sameDay'', CalText ([0x5B, 0xEA1, 0xEB7, 0xEC9, 0xE99, 0xEB5, 0xEC9, 0xEC0,
         0xEA7, 0xEA5, 0xEB2] @ js ''] LT'')),
       (''nextDay'', CalText ([0x5B, 0xEA1, 0xEB7, 0xEC9, 0xEAD, 0xEB7, 0xEC8, 0xE99, 0xEC0, 0xEA7,
           0xEA5, 0xEB2] @ js ''] LT'')),
       (''nextWeek'', CalText ([0x5B, 0xEA7, 0xEB1, 0xE99] @ js '']dddd['' @ [0xEDC, 0xEC9, 0xEB2,
           0xEC0, 0xEA7, 0xEA5, 0xEB2] @ js ''] LT'')),
       (''lastDay'', CalText ([0x5B, 0xEA1, 0xEB7, 0xEC9, 0xEA7, 0xEB2, 0xE99, 0xE99, 0xEB5, 0xEC9,
           0xEC0, 0xEA7, 0xEA5, 0xEB2] @ js ''] LT'')),
       (''lastWeek'', CalText ([0x5B, 0xEA7, 0xEB1, 0xE99] @ js '']dddd['' @ [0xEC1, 0xEA5, 0xEC9,
           0xEA7, 0xE99, 0xEB5, 0xEC9, 0xEC0, 0xEA7, 0xEA5, 0xEB2] @ js ''] LT'')),
       (''sameElse'', CalText (js ''L''))],
     l_relative_time = [(''future'', RelText [0xEAD, 0xEB5, 0xE81, 0x20, 0x25, 0x73]),
       (''past'', RelText [0x25, 0x73, 0xE9C, 0xEC8, 0xEB2, 0xE99, 0xEA1, 0xEB2]),
       (''s'', RelText [0xE9A, 0xECD, 0xEC8, 0xEC0, 0xE97, 0xEBB, 0xEC8, 0xEB2, 0xEC3, 0xE94, 0xEA7,
           0xEB4, 0xE99, 0xEB2, 0xE97, 0xEB5]),
       (''ss'', RelText [0x25, 0x64, 0x20, 0xEA7, 0xEB4, 0xE99, 0xEB2, 0xE97, 0xEB5]),
       (''m'', RelText [0x31, 0x20, 0xE99, 0xEB2, 0xE97, 0xEB5]),
       (''mm'', RelText [0x25, 0x64, 0x20, 0xE99, 0xEB2, 0xE97, 0xEB5]),
       (''h'', RelText [0x31, 0x20, 0xE8A, 0xEBB, 0xEC8, 0xEA7, 0xEC2, 0xEA1, 0xE87]),
       (''hh'', RelText [0x25, 0x64, 0x20, 0xE8A, 0xEBB, 0xEC8, 0xEA7, 0xEC2, 0xEA1, 0xE87]),
       (''d'', RelText [0x31, 0x20, 0xEA1, 0xEB7, 0xEC9]),
       (''dd'', RelText [0x25, 0x64, 0x20, 0xEA1, 0xEB7, 0xEC9]),
       (''M'', RelText [0x31, 0x20, 0xEC0, 0xE94, 0xEB7, 0xEAD, 0xE99]),
       (''MM'', RelText [0x25, 0x64, 0x20, 0xEC0, 0xE94, 0xEB7, 0xEAD, 0xE99]),
       (''y'', RelText [0x31, 0x20, 0xE9B, 0xEB5]),
       (''yy'', RelText [0x25, 0x64, 0x20, 0xE9B, 0xEB5])],
     l_ordinal = Some (OrdFun lo_ordinal),
     l_meridiem = Some lo_meridiem,
     l_is_pm = Some lo_isPM,
     l_meridiem_hour = None,
     l_preparse = None,
     l_postformat = None,
     l_week = None,
     l_meridiem_parse = Some (Regex False (Alt [Lit [0xE95, 0xEAD, 0xE99, 0xEC0, 0xE8A, 0xEBB,
         0xEC9, 0xEB2], Lit [0xE95, 0xEAD, 0xE99, 0xEC1, 0xEA5, 0xE87]])),
     l_ordinal_parse = Some (Regex False (Seq [Lit [0xE97, 0xEB5, 0xEC8], digits_1_2])),
     l_parse = [],
     l_months_parse_exact = False,
     l_weekdays_parse_exact = True,
     l_invalid_date = None,
     l_eras = [],
     l_era_year = None \<rparr>"

text \<open>\<^verbatim>\<open>lt\<close> (line 59).\<close>

definition lt_r :: "nat \<Rightarrow> bool" where
  "lt_r number \<longleftrightarrow> number mod 10 = 0 \<or> (number > 10 \<and> number < 20)"

definition lt_a :: "string \<Rightarrow> js list option" where
  "lt_a key = map_option (js_split 0x5F) (map_of [(''ss'', js ''sekund'' @ [0x117] @ js ''_sekund''
      @ [0x17E, 0x69, 0x173] @ js ''_sekundes''), (''m'', js ''minut'' @ [0x117] @ js ''_minut'' @
      [0x117] @ js ''s_minut'' @ [0x119]), (''mm'', js ''minut'' @ [0x117] @ js ''s_minu'' @ [0x10D,
      0x69, 0x173] @ js ''_minutes''), (''h'', js ''valanda_valandos_valand'' @ [0x105]), (''hh'',
      js ''valandos_valand'' @ [0x173] @ js ''_valandas''), (''d'', js ''diena_dienos_dien'' @
      [0x105]), (''dd'', js ''dienos_dien'' @ [0x173] @ js ''_dienas''), (''M'', [0x6D, 0x117] @ js
      ''nuo_m'' @ [0x117] @ js ''nesio_m'' @ [0x117, 0x6E, 0x65, 0x73, 0x12F]), (''MM'', [0x6D,
      0x117] @ js ''nesiai_m'' @ [0x117] @ js ''nesi'' @ [0x173, 0x5F, 0x6D, 0x117] @ js
      ''nesius''), (''y'', js ''metai_met'' @ [0x173] @ js ''_metus''), (''yy'', js ''metai_met'' @
      [0x173] @ js ''_metus'')] key)"

definition lt_i :: "nat \<Rightarrow> bool \<Rightarrow> string \<Rightarrow> bool \<Rightarrow> js
    option" where
  "lt_i number withoutSuffix key isFuture = (if withoutSuffix then Option.bind (lt_a key)
      (\<lambda>xs. js_nth xs 0)
      else if isFuture then Option.bind (lt_a key) (\<lambda>xs. js_nth xs 1)
      else Option.bind (lt_a key) (\<lambda>xs. js_nth xs 2))"

definition lt_rel_n :: "nat \<Rightarrow> bool \<Rightarrow> string \<Rightarrow> bool \<Rightarrow>
    js option" where
  "lt_rel_n number withoutSuffix key isFuture = Some (if withoutSuffix then js ''kelios sekund'' @
      [0x117, 0x73]
      else if isFuture then js ''keli'' @ [0x173] @ js '' sekund'' @ [0x17E, 0x69, 0x173]
      else js ''kelias sekundes'')"

definition lt_rel_o :: "nat \<Rightarrow> bool \<Rightarrow> string \<Rightarrow> bool \<Rightarrow>
    js option" where
  "lt_rel_o number withoutSuffix key isFuture = (let s = jnum number @ js '' '' in (if number = 1
      then map_option (\<lambda>x. s @ x) (lt_i number withoutSuffix (take 1 key) isFuture)
      else if withoutSuffix then map_option (\<lambda>x. s @ x) (if lt_r number then Option.bind
          (lt_a key) (\<lambda>xs. js_nth xs 1)
      else Option.bind (lt_a key) (\<lambda>xs. js_nth xs 0))
      else if isFuture then map_option (\<lambda>x. s @ x) (Option.bind (lt_a key) (\<lambda>xs.
          js_nth xs 1))
      else map_option (\<lambda>x. s @ x) (if lt_r number then Option.bind (lt_a key) (\<lambda>xs.
          js_nth xs 1)
      else Option.bind (lt_a key) (\<lambda>xs. js_nth xs 2))))"

definition lt_ordinal :: "nat \<Rightarrow> string \<Rightarrow> js option" where
  "lt_ordinal number period = Some (jnum number @ js ''-oji'')"

definition locale_lt :: moment_locale where
  "locale_lt = \<lparr>
     l_abbr = ''lt'',
     l_months = NamesAlt [js ''sausis'', js ''vasaris'', js ''kovas'', js ''balandis'', js ''gegu''
         @ [0x17E, 0x117], [0x62, 0x69, 0x72, 0x17E] @ js ''elis'', js ''liepa'', js ''rugpj'' @
         [0x16B, 0x74, 0x69, 0x73], js ''rugs'' @ [0x117, 0x6A, 0x69, 0x73], js ''spalis'', js
         ''lapkritis'', js ''gruodis''] [js ''sausio'', js ''vasario'', js ''kovo'', js ''baland'' @
         [0x17E, 0x69, 0x6F], js ''gegu'' @ [0x17E, 0x117, 0x73], [0x62, 0x69, 0x72, 0x17E] @ js
         ''elio'', js ''liepos'', js ''rugpj'' @ [0x16B, 0x10D, 0x69, 0x6F], js ''rugs'' @ [0x117,
         0x6A, 0x6F], js ''spalio'', js ''lapkri'' @ [0x10D, 0x69, 0x6F], js ''gruod'' @ [0x17E,
         0x69, 0x6F]]
       (Some (Regex False (Alt [Seq [Lit (js ''D''), Opt (Cls [(0x6F, 0x6F), (0x44, 0x44)]), Plus
           (Alt [Seq [Lit (js ''[''), Opt (Plus (NotCls [(0x5B, 0x5B), (0x5D, 0x5D)])), Lit (js
           '']'')], Cls [(0x9, 0xD), (0x20, 0x20), (0xA0, 0xA0), (0x1680, 0x1680), (0x2000, 0x200A),
           (0x2028, 0x2029), (0x202F, 0x202F), (0x205F, 0x205F), (0x3000, 0x3000), (0xFEFF,
           0xFEFF)]]), Lit (js ''MMM''), Opt (Lit (js ''M''))], Seq [Lit (js ''MMM''), Opt (Lit (js
           ''M'')), Plus (Alt [Seq [Lit (js ''[''), Opt (Plus (NotCls [(0x5B, 0x5B), (0x5D,
           0x5D)])), Lit (js '']'')], Cls [(0x9, 0xD), (0x20, 0x20), (0xA0, 0xA0), (0x1680, 0x1680),
           (0x2000, 0x200A), (0x2028, 0x2029), (0x202F, 0x202F), (0x205F, 0x205F), (0x3000, 0x3000),
           (0xFEFF, 0xFEFF)]]), Lit (js ''D''), Opt (Cls [(0x6F, 0x6F), (0x44, 0x44)])]]))),
     l_months_short = Names [js ''sau'', js ''vas'', js ''kov'', js ''bal'', js ''geg'', js ''bir'',
         js ''lie'', js ''rgp'', js ''rgs'', js ''spa'', js ''lap'', js ''grd''],
     l_weekdays = NamesAlt [js ''sekmadienis'', js ''pirmadienis'', js ''antradienis'', [0x74, 0x72,
         0x65, 0x10D] @ js ''iadienis'', js ''ketvirtadienis'', js ''penktadienis'', [0x161, 0x65,
         0x161] @ js ''tadienis''] [js ''sekmadien'' @ [0x12F], js ''pirmadien'' @ [0x12F], js
         ''antradien'' @ [0x12F], [0x74, 0x72, 0x65, 0x10D] @ js ''iadien'' @ [0x12F], js
         ''ketvirtadien'' @ [0x12F], js ''penktadien'' @ [0x12F], [0x161, 0x65, 0x161] @ js
         ''tadien'' @ [0x12F]]
       (Some (Regex False (Lit (js ''dddd HH:mm'')))),
     l_weekdays_short = [js ''Sek'', js ''Pir'', js ''Ant'', js ''Tre'', js ''Ket'', js ''Pen'',
         [0x160, 0x65, 0x161]],
     l_weekdays_min = [js ''S'', js ''P'', js ''A'', js ''T'', js ''K'', js ''Pn'', [0x160]],
     l_long_date_format = [(''LT'', js ''HH:mm''),
       (''LTS'', js ''HH:mm:ss''),
       (''L'', js ''YYYY-MM-DD''),
       (''LL'', js ''YYYY [m.] MMMM D [d.]''),
       (''LLL'', js ''YYYY [m.] MMMM D [d.], HH:mm [val.]''),
       (''LLLL'', js ''YYYY [m.] MMMM D [d.], dddd, HH:mm [val.]''),
       (''l'', js ''YYYY-MM-DD''),
       (''ll'', js ''YYYY [m.] MMMM D [d.]''),
       (''lll'', js ''YYYY [m.] MMMM D [d.], HH:mm [val.]''),
       (''llll'', js ''YYYY [m.] MMMM D [d.], ddd, HH:mm [val.]'')],
     l_calendar = [(''sameDay'', CalText ([0x5B, 0x160] @ js ''iandien] LT'')),
       (''nextDay'', CalText (js ''[Rytoj] LT'')),
       (''nextWeek'', CalText (js ''dddd LT'')),
       (''lastDay'', CalText (js ''[Vakar] LT'')),
       (''lastWeek'', CalText (js ''[Pra'' @ [0x117, 0x6A, 0x75, 0x73, 0x12F] @ js ''] dddd LT'')),
       (''sameElse'', CalText (js ''L''))],
     l_relative_time = [(''future'', RelText (js ''po %s'')),
       (''past'', RelText (js ''prie'' @ [0x161, 0x20, 0x25, 0x73])),
       (''s'', RelNum lt_rel_n),
       (''ss'', RelNum lt_rel_o),
       (''m'', RelNum lt_i),
       (''mm'', RelNum lt_rel_o),
       (''h'', RelNum lt_i),
       (''hh'', RelNum lt_rel_o),
       (''d'', RelNum lt_i),
       (''dd'', RelNum lt_rel_o),
       (''M'', RelNum lt_i),
       (''MM'', RelNum lt_rel_o),
       (''y'', RelNum lt_i),
       (''yy'', RelNum lt_rel_o)],
     l_ordinal = Some (OrdFun lt_ordinal),
     l_meridiem = None,
     l_is_pm = None,
     l_meridiem_hour = None,
     l_preparse = None,
     l_postformat = None,
     l_week = Some (1, 4),
     l_meridiem_parse = None,
     l_ordinal_parse = Some (Regex False (Seq [digits_1_2, Lit (js ''-oji'')])),
     l_parse = [],
     l_months_parse_exact = False,
     l_weekdays_parse_exact = True,
     l_invalid_date = None,
     l_eras = [],
     l_era_year = None \<rparr>"

text \<open>\<^verbatim>\<open>lv\<close> (line 284).\<close>

definition lv_n :: "js list \<Rightarrow> nat \<Rightarrow> bool \<Rightarrow> js option" where
  "lv_n forms number withoutSuffix = (if withoutSuffix then (if number mod 10 = 1 \<and> number mod
      100 \<noteq> 11 then js_nth forms 2
      else js_nth forms 3)
      else if number mod 10 = 1 \<and> number mod 100 \<noteq> 11 then js_nth forms 0
      else js_nth forms 1)"

definition lv_rel_a :: "nat \<Rightarrow> bool \<Rightarrow> string \<Rightarrow> bool \<Rightarrow>
    js option" where
  "lv_rel_a number withoutSuffix key isFuture = Some (if withoutSuffix then [0x64, 0x61, 0x17E] @ js
      ''as sekundes''
      else [0x64, 0x61, 0x17E, 0x101] @ js ''m sekund'' @ [0x113, 0x6D])"

definition lv_rel_i :: "nat \<Rightarrow> bool \<Rightarrow> string \<Rightarrow> bool \<Rightarrow>
    js option" where
  "lv_rel_i number withoutSuffix key isFuture = map_option (\<lambda>x. jnum number @ js '' '' @ x)
      (Option.bind (map_of [(''ss'', [js ''sekundes'', js ''sekund'' @ [0x113, 0x6D], js
      ''sekunde'', js ''sekundes'']), (''m'', [[0x6D, 0x69, 0x6E, 0x16B, 0x74, 0x65, 0x73], [0x6D,
      0x69, 0x6E, 0x16B, 0x74, 0x113, 0x6D], [0x6D, 0x69, 0x6E, 0x16B, 0x74, 0x65], [0x6D, 0x69,
      0x6E, 0x16B, 0x74, 0x65, 0x73]]), (''mm'', [[0x6D, 0x69, 0x6E, 0x16B, 0x74, 0x65, 0x73],
      [0x6D, 0x69, 0x6E, 0x16B, 0x74, 0x113, 0x6D], [0x6D, 0x69, 0x6E, 0x16B, 0x74, 0x65], [0x6D,
      0x69, 0x6E, 0x16B, 0x74, 0x65, 0x73]]), (''h'', [js ''stundas'', js ''stund'' @ [0x101, 0x6D],
      js ''stunda'', js ''stundas'']), (''hh'', [js ''stundas'', js ''stund'' @ [0x101, 0x6D], js
      ''stunda'', js ''stundas'']), (''d'', [js ''dienas'', js ''dien'' @ [0x101, 0x6D], js
      ''diena'', js ''dienas'']), (''dd'', [js ''dienas'', js ''dien'' @ [0x101, 0x6D], js
      ''diena'', js ''dienas'']), (''M'', [[0x6D, 0x113, 0x6E, 0x65, 0x161, 0x61], [0x6D, 0x113,
      0x6E, 0x65, 0x161, 0x69, 0x65, 0x6D], [0x6D, 0x113] @ js ''nesis'', [0x6D, 0x113, 0x6E, 0x65,
      0x161, 0x69]]), (''MM'', [[0x6D, 0x113, 0x6E, 0x65, 0x161, 0x61], [0x6D, 0x113, 0x6E, 0x65,
      0x161, 0x69, 0x65, 0x6D], [0x6D, 0x113] @ js ''nesis'', [0x6D, 0x113, 0x6E, 0x65, 0x161,
      0x69]]), (''y'', [js ''gada'', js ''gadiem'', js ''gads'', js ''gadi'']), (''yy'', [js
      ''gada'', js ''gadiem'', js ''gads'', js ''gadi''])] key) (\<lambda>x. lv_n x number
      withoutSuffix))"

definition lv_rel_r :: "nat \<Rightarrow> bool \<Rightarrow> string \<Rightarrow> bool \<Rightarrow>
    js option" where
  "lv_rel_r number withoutSuffix key isFuture = Option.bind (map_of [(''ss'', [js ''sekundes'', js
      ''sekund'' @ [0x113, 0x6D], js ''sekunde'', js ''sekundes'']), (''m'', [[0x6D, 0x69, 0x6E,
      0x16B, 0x74, 0x65, 0x73], [0x6D, 0x69, 0x6E, 0x16B, 0x74, 0x113, 0x6D], [0x6D, 0x69, 0x6E,
      0x16B, 0x74, 0x65], [0x6D, 0x69, 0x6E, 0x16B, 0x74, 0x65, 0x73]]), (''mm'', [[0x6D, 0x69,
      0x6E, 0x16B, 0x74, 0x65, 0x73], [0x6D, 0x69, 0x6E, 0x16B, 0x74, 0x113, 0x6D], [0x6D, 0x69,
      0x6E, 0x16B, 0x74, 0x65], [0x6D, 0x69, 0x6E, 0x16B, 0x74, 0x65, 0x73]]), (''h'', [js
      ''stundas'', js ''stund'' @ [0x101, 0x6D], js ''stunda'', js ''stundas'']), (''hh'', [js
      ''stundas'', js ''stund'' @ [0x101, 0x6D], js ''stunda'', js ''stundas'']), (''d'', [js
      ''dienas'', js ''dien'' @ [0x101, 0x6D], js ''diena'', js ''dienas'']), (''dd'', [js
      ''dienas'', js ''dien'' @ [0x101, 0x6D], js ''diena'', js ''dienas'']), (''M'', [[0x6D, 0x113,
      0x6E, 0x65, 0x161, 0x61], [0x6D, 0x113, 0x6E, 0x65, 0x161, 0x69, 0x65, 0x6D], [0x6D, 0x113] @
      js ''nesis'', [0x6D, 0x113, 0x6E, 0x65, 0x161, 0x69]]), (''MM'', [[0x6D, 0x113, 0x6E, 0x65,
      0x161, 0x61], [0x6D, 0x113, 0x6E, 0x65, 0x161, 0x69, 0x65, 0x6D], [0x6D, 0x113] @ js
      ''nesis'', [0x6D, 0x113, 0x6E, 0x65, 0x161, 0x69]]), (''y'', [js ''gada'', js ''gadiem'', js
      ''gads'', js ''gadi'']), (''yy'', [js ''gada'', js ''gadiem'', js ''gads'', js ''gadi''])]
      key) (\<lambda>x. lv_n x number withoutSuffix)"

definition locale_lv :: moment_locale where
  "locale_lv = \<lparr>
     l_abbr = ''lv'',
     l_months = Names [js ''janv'' @ [0x101, 0x72, 0x69, 0x73], js ''febru'' @ [0x101, 0x72, 0x69,
         0x73], js ''marts'', [0x61, 0x70, 0x72, 0x12B, 0x6C, 0x69, 0x73], js ''maijs'', [0x6A,
         0x16B] @ js ''nijs'', [0x6A, 0x16B] @ js ''lijs'', js ''augusts'', js ''septembris'', js
         ''oktobris'', js ''novembris'', js ''decembris''],
     l_months_short = Names [js ''jan'', js ''feb'', js ''mar'', js ''apr'', js ''mai'', [0x6A,
         0x16B, 0x6E], [0x6A, 0x16B, 0x6C], js ''aug'', js ''sep'', js ''okt'', js ''nov'', js
         ''dec''],
     l_weekdays = Names [[0x73, 0x76, 0x113] @ js ''tdiena'', js ''pirmdiena'', js ''otrdiena'',
         [0x74, 0x72, 0x65, 0x161] @ js ''diena'', js ''ceturtdiena'', js ''piektdiena'', js
         ''sestdiena''],
     l_weekdays_short = [js ''Sv'', js ''P'', js ''O'', js ''T'', js ''C'', js ''Pk'', js ''S''],
     l_weekdays_min = [js ''Sv'', js ''P'', js ''O'', js ''T'', js ''C'', js ''Pk'', js ''S''],
     l_long_date_format = [(''LT'', js ''HH:mm''),
       (''LTS'', js ''HH:mm:ss''),
       (''L'', js ''DD.MM.YYYY.''),
       (''LL'', js ''YYYY. [gada] D. MMMM''),
       (''LLL'', js ''YYYY. [gada] D. MMMM, HH:mm''),
       (''LLLL'', js ''YYYY. [gada] D. MMMM, dddd, HH:mm'')],
     l_calendar = [(''sameDay'', CalText ([0x5B, 0x160] @ js ''odien pulksten] LT'')),
       (''nextDay'', CalText ([0x5B, 0x52, 0x12B] @ js ''t pulksten] LT'')),
       (''nextWeek'', CalText (js ''dddd [pulksten] LT'')),
       (''lastDay'', CalText (js ''[Vakar pulksten] LT'')),
       (''lastWeek'', CalText (js ''[Pag'' @ [0x101, 0x6A, 0x75, 0x161, 0x101] @ js
           ''] dddd [pulksten] LT'')),
       (''sameElse'', CalText (js ''L''))],
     l_relative_time = [(''future'', RelText ([0x70, 0x113] @ js ''c %s'')),
       (''past'', RelText (js ''pirms %s'')),
       (''s'', RelNum lv_rel_a),
       (''ss'', RelNum lv_rel_i),
       (''m'', RelNum lv_rel_r),
       (''mm'', RelNum lv_rel_i),
       (''h'', RelNum lv_rel_r),
       (''hh'', RelNum lv_rel_i),
       (''d'', RelNum lv_rel_r),
       (''dd'', RelNum lv_rel_i),
       (''M'', RelNum lv_rel_r),
       (''MM'', RelNum lv_rel_i),
       (''y'', RelNum lv_rel_r),
       (''yy'', RelNum lv_rel_i)],
     l_ordinal = Some (OrdText (js ''%d.'')),
     l_meridiem = None,
     l_is_pm = None,
     l_meridiem_hour = None,
     l_preparse = None,
     l_postformat = None,
     l_week = Some (1, 4),
     l_meridiem_parse = None,
     l_ordinal_parse = Some (Regex False (Seq [digits_1_2, Lit (js ''.'')])),
     l_parse = [],
     l_months_parse_exact = False,
     l_weekdays_parse_exact = True,
     l_invalid_date = None,
     l_eras = [],
     l_era_year = None \<rparr>"

text \<open>\<^verbatim>\<open>me\<close> (line 63).\<close>

definition me_words :: "(string \<times> js list) list" where
  "me_words = [(''ss'', [js ''sekund'', js ''sekunda'', js ''sekundi'']), (''m'', [js
      ''jedan minut'', js ''jednog minuta'']), (''mm'', [js ''minut'', js ''minuta'', js
      ''minuta'']), (''h'', [js ''jedan sat'', js ''jednog sata'']), (''hh'', [js ''sat'', js
      ''sata'', js ''sati'']), (''dd'', [js ''dan'', js ''dana'', js ''dana'']), (''MM'', [js
      ''mjesec'', js ''mjeseca'', js ''mjeseci'']), (''yy'', [js ''godina'', js ''godine'', js
      ''godina''])]"

definition me_correctGrammaticalCase :: "nat \<Rightarrow> js list \<Rightarrow> js option" where
  "me_correctGrammaticalCase number wordKey = (if number = 1 then js_nth wordKey 0
      else if number \<ge> 2 \<and> number \<le> 4 then js_nth wordKey 1
      else js_nth wordKey 2)"

definition me_translate :: "nat \<Rightarrow> bool \<Rightarrow> string \<Rightarrow> bool
    \<Rightarrow> js option" where
  "me_translate number withoutSuffix key isFuture = 
     Option.bind (map_of me_words key) (\<lambda>wordKey.
       if length key = 1 then js_nth wordKey (if withoutSuffix then 0 else 1)
      
      else map_option (\<lambda>x. jnum number @ [0x20] @ x) (me_correctGrammaticalCase number
          wordKey))"

definition me_nextWeek :: "nat \<Rightarrow> nat \<Rightarrow> bool \<Rightarrow> js option" where
  "me_nextWeek day hours sameWeek = (if day = 0 then Some (js ''[u] [nedjelju] [u] LT'')
      else if day = 3 then Some (js ''[u] [srijedu] [u] LT'')
      else if day = 6 then Some (js ''[u] [subotu] [u] LT'')
      else if day = 1 \<or> day = 2 \<or> day = 4 \<or> day = 5 then Some (js ''[u] dddd [u] LT'')
      else None)"

definition me_lastWeek :: "nat \<Rightarrow> nat \<Rightarrow> bool \<Rightarrow> js option" where
  "me_lastWeek day hours sameWeek = (let e = [js ''[pro'' @ [0x161] @ js ''le] [nedjelje] [u] LT'',
      js ''[pro'' @ [0x161] @ js ''log] [ponedjeljka] [u] LT'', js ''[pro'' @ [0x161] @ js
      ''log] [utorka] [u] LT'', js ''[pro'' @ [0x161] @ js ''le] [srijede] [u] LT'', js ''[pro'' @
      [0x161] @ js ''log] ['' @ [0x10D] @ js ''etvrtka] [u] LT'', js ''[pro'' @ [0x161] @ js
      ''log] [petka] [u] LT'', js ''[pro'' @ [0x161] @ js ''le] [subote] [u] LT''] in js_nth e day)"

definition locale_me :: moment_locale where
  "locale_me = \<lparr>
     l_abbr = ''me'',
     l_months = Names [js ''januar'', js ''februar'', js ''mart'', js ''april'', js ''maj'', js
         ''jun'', js ''jul'', js ''avgust'', js ''septembar'', js ''oktobar'', js ''novembar'', js
         ''decembar''],
     l_months_short = Names [js ''jan.'', js ''feb.'', js ''mar.'', js ''apr.'', js ''maj'', js
         ''jun'', js ''jul'', js ''avg.'', js ''sep.'', js ''okt.'', js ''nov.'', js ''dec.''],
     l_weekdays = Names [js ''nedjelja'', js ''ponedjeljak'', js ''utorak'', js ''srijeda'', [0x10D]
         @ js ''etvrtak'', js ''petak'', js ''subota''],
     l_weekdays_short = [js ''ned.'', js ''pon.'', js ''uto.'', js ''sri.'', [0x10D, 0x65, 0x74,
         0x2E], js ''pet.'', js ''sub.''],
     l_weekdays_min = [js ''ne'', js ''po'', js ''ut'', js ''sr'', [0x10D, 0x65], js ''pe'', js
         ''su''],
     l_long_date_format = [(''LT'', js ''H:mm''),
       (''LTS'', js ''H:mm:ss''),
       (''L'', js ''DD.MM.YYYY''),
       (''LL'', js ''D. MMMM YYYY''),
       (''LLL'', js ''D. MMMM YYYY H:mm''),
       (''LLLL'', js ''dddd, D. MMMM YYYY H:mm'')],
     l_calendar = [(''sameDay'', CalText (js ''[danas u] LT'')),
       (''nextDay'', CalText (js ''[sjutra u] LT'')),
       (''nextWeek'', CalFun me_nextWeek),
       (''lastDay'', CalText ([0x5B, 0x6A, 0x75, 0x10D] @ js ''e u] LT'')),
       (''lastWeek'', CalFun me_lastWeek),
       (''sameElse'', CalText (js ''L''))],
     l_relative_time = [(''future'', RelText (js ''za %s'')),
       (''past'', RelText (js ''prije %s'')),
       (''s'', RelText (js ''nekoliko sekundi'')),
       (''ss'', RelNum me_translate),
       (''m'', RelNum me_translate),
       (''mm'', RelNum me_translate),
       (''h'', RelNum me_translate),
       (''hh'', RelNum me_translate),
       (''d'', RelText (js ''dan'')),
       (''dd'', RelNum me_translate),
       (''M'', RelText (js ''mjesec'')),
       (''MM'', RelNum me_translate),
       (''y'', RelText (js ''godinu'')),
       (''yy'', RelNum me_translate)],
     l_ordinal = Some (OrdText (js ''%d.'')),
     l_meridiem = None,
     l_is_pm = None,
     l_meridiem_hour = None,
     l_preparse = None,
     l_postformat = None,
     l_week = Some (1, 7),
     l_meridiem_parse = None,
     l_ordinal_parse = Some (Regex False (Seq [digits_1_2, Lit (js ''.'')])),
     l_parse = [],
     l_months_parse_exact = True,
     l_weekdays_parse_exact = True,
     l_invalid_date = None,
     l_eras = [],
     l_era_year = None \<rparr>"

text \<open>\<^verbatim>\<open>mi\<close> (line 161).\<close>

definition locale_mi :: moment_locale where
  "locale_mi = \<lparr>
     l_abbr = ''mi'',
     l_months = Names [js ''Kohi-t'' @ [0x101, 0x74, 0x65], js ''Hui-tanguru'', js ''Pout'' @
         [0x16B] @ js ''-te-rangi'', js ''Paenga-wh'' @ [0x101, 0x77, 0x68, 0x101], js ''Haratua'',
         js ''Pipiri'', [0x48, 0x14D] @ js ''ngoingoi'', js ''Here-turi-k'' @ [0x14D, 0x6B, 0x101],
         js ''Mahuru'', js ''Whiringa-'' @ [0x101] @ js ''-nuku'', js ''Whiringa-'' @ [0x101] @ js
         ''-rangi'', js ''Hakihea''],
     l_months_short = Names [js ''Kohi'', js ''Hui'', js ''Pou'', js ''Pae'', js ''Hara'', js
         ''Pipi'', [0x48, 0x14D] @ js ''ngoi'', js ''Here'', js ''Mahu'', js ''Whi-nu'', js
         ''Whi-ra'', js ''Haki''],
     l_weekdays = Names [[0x52, 0x101] @ js ''tapu'', js ''Mane'', [0x54, 0x16B, 0x72, 0x65, 0x69],
         js ''Wenerei'', [0x54, 0x101, 0x69, 0x74, 0x65], js ''Paraire'', [0x48, 0x101] @ js
         ''tarei''],
     l_weekdays_short = [js ''Ta'', js ''Ma'', [0x54, 0x16B], js ''We'', [0x54, 0x101, 0x69], js
         ''Pa'', [0x48, 0x101]],
     l_weekdays_min = [js ''Ta'', js ''Ma'', [0x54, 0x16B], js ''We'', [0x54, 0x101, 0x69], js
         ''Pa'', [0x48, 0x101]],
     l_long_date_format = [(''LT'', js ''HH:mm''),
       (''LTS'', js ''HH:mm:ss''),
       (''L'', js ''DD/MM/YYYY''),
       (''LL'', js ''D MMMM YYYY''),
       (''LLL'', js ''D MMMM YYYY [i] HH:mm''),
       (''LLLL'', js ''dddd, D MMMM YYYY [i] HH:mm'')],
     l_calendar = [(''sameDay'', CalText (js ''[i teie mahana, i] LT'')),
       (''nextDay'', CalText (js ''[apopo i] LT'')),
       (''nextWeek'', CalText (js ''dddd [i] LT'')),
       (''lastDay'', CalText (js ''[inanahi i] LT'')),
       (''lastWeek'', CalText (js ''dddd [whakamutunga i] LT'')),
       (''sameElse'', CalText (js ''L''))],
     l_relative_time = [(''future'', RelText (js ''i roto i %s'')),
       (''past'', RelText (js ''%s i mua'')),
       (''s'', RelText (js ''te h'' @ [0x113] @ js ''kona ruarua'')),
       (''ss'', RelText (js ''%d h'' @ [0x113] @ js ''kona'')),
       (''m'', RelText (js ''he meneti'')),
       (''mm'', RelText (js ''%d meneti'')),
       (''h'', RelText (js ''te haora'')),
       (''hh'', RelText (js ''%d haora'')),
       (''d'', RelText (js ''he ra'')),
       (''dd'', RelText (js ''%d ra'')),
       (''M'', RelText (js ''he marama'')),
       (''MM'', RelText (js ''%d marama'')),
       (''y'', RelText (js ''he tau'')),
       (''yy'', RelText (js ''%d tau''))],
     l_ordinal = Some (OrdText [0x25, 0x64, 0xBA]),
     l_meridiem = None,
     l_is_pm = None,
     l_meridiem_hour = None,
     l_preparse = None,
     l_postformat = None,
     l_week = Some (1, 4),
     l_meridiem_parse = None,
     l_ordinal_parse = Some (Regex False (Seq [digits_1_2, Lit [0xBA]])),
     l_parse = [(''monthsRegex'', [Regex True (Seq [Seq [Plus (Cls [(0x27, 0x27), (0x61, 0x7A),
         (0x101, 0x101), (0x14D, 0x14D), (0x16B, 0x16B)]), Opt (Lit (js ''-''))], Opt (Seq [Seq
         [Plus (Cls [(0x27, 0x27), (0x61, 0x7A), (0x101, 0x101), (0x14D, 0x14D), (0x16B, 0x16B)]),
         Opt (Lit (js ''-''))], Opt (Seq [Plus (Cls [(0x27, 0x27), (0x61, 0x7A), (0x101, 0x101),
         (0x14D, 0x14D), (0x16B, 0x16B)]), Opt (Lit (js ''-''))])])])]), (''monthsShortRegex'',
         [Regex True (Seq [Seq [Plus (Cls [(0x27, 0x27), (0x61, 0x7A), (0x101, 0x101), (0x14D,
         0x14D), (0x16B, 0x16B)]), Opt (Lit (js ''-''))], Opt (Seq [Seq [Plus (Cls [(0x27, 0x27),
         (0x61, 0x7A), (0x101, 0x101), (0x14D, 0x14D), (0x16B, 0x16B)]), Opt (Lit (js ''-''))], Opt
         (Seq [Plus (Cls [(0x27, 0x27), (0x61, 0x7A), (0x101, 0x101), (0x14D, 0x14D), (0x16B,
         0x16B)]), Opt (Lit (js ''-''))])])])]), (''monthsStrictRegex'', [Regex True (Seq [Seq [Plus
         (Cls [(0x27, 0x27), (0x61, 0x7A), (0x101, 0x101), (0x14D, 0x14D), (0x16B, 0x16B)]), Opt
         (Lit (js ''-''))], Opt (Seq [Seq [Plus (Cls [(0x27, 0x27), (0x61, 0x7A), (0x101, 0x101),
         (0x14D, 0x14D), (0x16B, 0x16B)]), Opt (Lit (js ''-''))], Opt (Seq [Plus (Cls [(0x27, 0x27),
         (0x61, 0x7A), (0x101, 0x101), (0x14D, 0x14D), (0x16B, 0x16B)]), Opt (Lit (js
         ''-''))])])])]), (''monthsShortStrictRegex'', [Regex True (Seq [Seq [Plus (Cls [(0x27,
         0x27), (0x61, 0x7A), (0x101, 0x101), (0x14D, 0x14D), (0x16B, 0x16B)]), Opt (Lit (js
         ''-''))], Opt (Seq [Plus (Cls [(0x27, 0x27), (0x61, 0x7A), (0x101, 0x101), (0x14D, 0x14D),
         (0x16B, 0x16B)]), Opt (Lit (js ''-''))])])])],
     l_months_parse_exact = False,
     l_weekdays_parse_exact = False,
     l_invalid_date = None,
     l_eras = [],
     l_era_year = None \<rparr>"

text \<open>\<^verbatim>\<open>mk\<close> (line 163).\<close>

definition mk_lastWeek :: "nat \<Rightarrow> nat \<Rightarrow> bool \<Rightarrow> js option" where
  "mk_lastWeek day hours sameWeek = (if day = 0 \<or> day = 3 \<or> day = 6 then Some ([0x5B, 0x418,
      0x437, 0x43C, 0x438, 0x43D, 0x430, 0x442, 0x430, 0x442, 0x430] @ js ''] dddd ['' @ [0x432,
      0x43E] @ js ''] LT'')
      else if day = 1 \<or> day = 2 \<or> day = 4 \<or> day = 5 then Some ([0x5B, 0x418, 0x437,
          0x43C, 0x438, 0x43D, 0x430, 0x442, 0x438, 0x43E, 0x442] @ js ''] dddd ['' @ [0x432, 0x43E]
          @ js ''] LT'')
      else None)"

definition mk_ordinal :: "nat \<Rightarrow> string \<Rightarrow> js option" where
  "mk_ordinal number period = Some (if number = 0 then jnum number @ [0x2D, 0x435, 0x432]
      else if (number mod 100) = 0 then jnum number @ [0x2D, 0x435, 0x43D]
      else if (number mod 100) > 10 \<and> (number mod 100) < 20 then jnum number @ [0x2D, 0x442,
          0x438]
      else if (number mod 10) = 1 then jnum number @ [0x2D, 0x432, 0x438]
      else if (number mod 10) = 2 then jnum number @ [0x2D, 0x440, 0x438]
      else if (number mod 10) = 7 \<or> (number mod 10) = 8 then jnum number @ [0x2D, 0x43C, 0x438]
      else jnum number @ [0x2D, 0x442, 0x438])"

definition locale_mk :: moment_locale where
  "locale_mk = \<lparr>
     l_abbr = ''mk'',
     l_months = Names [[0x458, 0x430, 0x43D, 0x443, 0x430, 0x440, 0x438], [0x444, 0x435, 0x432,
         0x440, 0x443, 0x430, 0x440, 0x438], [0x43C, 0x430, 0x440, 0x442], [0x430, 0x43F, 0x440,
         0x438, 0x43B], [0x43C, 0x430, 0x458], [0x458, 0x443, 0x43D, 0x438], [0x458, 0x443, 0x43B,
         0x438], [0x430, 0x432, 0x433, 0x443, 0x441, 0x442], [0x441, 0x435, 0x43F, 0x442, 0x435,
         0x43C, 0x432, 0x440, 0x438], [0x43E, 0x43A, 0x442, 0x43E, 0x43C, 0x432, 0x440, 0x438],
         [0x43D, 0x43E, 0x435, 0x43C, 0x432, 0x440, 0x438], [0x434, 0x435, 0x43A, 0x435, 0x43C,
         0x432, 0x440, 0x438]],
     l_months_short = Names [[0x458, 0x430, 0x43D], [0x444, 0x435, 0x432], [0x43C, 0x430, 0x440],
         [0x430, 0x43F, 0x440], [0x43C, 0x430, 0x458], [0x458, 0x443, 0x43D], [0x458, 0x443, 0x43B],
         [0x430, 0x432, 0x433], [0x441, 0x435, 0x43F], [0x43E, 0x43A, 0x442], [0x43D, 0x43E, 0x435],
         [0x434, 0x435, 0x43A]],
     l_weekdays = Names [[0x43D, 0x435, 0x434, 0x435, 0x43B, 0x430], [0x43F, 0x43E, 0x43D, 0x435,
         0x434, 0x435, 0x43B, 0x43D, 0x438, 0x43A], [0x432, 0x442, 0x43E, 0x440, 0x43D, 0x438,
         0x43A], [0x441, 0x440, 0x435, 0x434, 0x430], [0x447, 0x435, 0x442, 0x432, 0x440, 0x442,
         0x43E, 0x43A], [0x43F, 0x435, 0x442, 0x43E, 0x43A], [0x441, 0x430, 0x431, 0x43E, 0x442,
         0x430]],
     l_weekdays_short = [[0x43D, 0x435, 0x434], [0x43F, 0x43E, 0x43D], [0x432, 0x442, 0x43E],
         [0x441, 0x440, 0x435], [0x447, 0x435, 0x442], [0x43F, 0x435, 0x442], [0x441, 0x430,
         0x431]],
     l_weekdays_min = [[0x43D, 0x65], [0x43F, 0x6F], [0x432, 0x442], [0x441, 0x440], [0x447, 0x435],
         [0x43F, 0x435], [0x441, 0x61]],
     l_long_date_format = [(''LT'', js ''H:mm''),
       (''LTS'', js ''H:mm:ss''),
       (''L'', js ''D.MM.YYYY''),
       (''LL'', js ''D MMMM YYYY''),
       (''LLL'', js ''D MMMM YYYY H:mm''),
       (''LLLL'', js ''dddd, D MMMM YYYY H:mm'')],
     l_calendar = [(''sameDay'', CalText ([0x5B, 0x414, 0x435, 0x43D, 0x435, 0x441, 0x20, 0x432,
         0x43E] @ js ''] LT'')),
       (''nextDay'', CalText ([0x5B, 0x423, 0x442, 0x440, 0x435, 0x20, 0x432, 0x43E] @ js
           ''] LT'')),
       (''nextWeek'', CalText ([0x5B, 0x412, 0x43E] @ js ''] dddd ['' @ [0x432, 0x43E] @ js
           ''] LT'')),
       (''lastDay'', CalText ([0x5B, 0x412, 0x447, 0x435, 0x440, 0x430, 0x20, 0x432, 0x43E] @ js
           ''] LT'')),
       (''lastWeek'', CalFun mk_lastWeek),
       (''sameElse'', CalText (js ''L''))],
     l_relative_time = [(''future'', RelText [0x437, 0x430, 0x20, 0x25, 0x73]),
       (''past'', RelText [0x43F, 0x440, 0x435, 0x434, 0x20, 0x25, 0x73]),
       (''s'', RelText [0x43D, 0x435, 0x43A, 0x43E, 0x43B, 0x43A, 0x443, 0x20, 0x441, 0x435, 0x43A,
           0x443, 0x43D, 0x434, 0x438]),
       (''ss'', RelText [0x25, 0x64, 0x20, 0x441, 0x435, 0x43A, 0x443, 0x43D, 0x434, 0x438]),
       (''m'', RelText [0x435, 0x434, 0x43D, 0x430, 0x20, 0x43C, 0x438, 0x43D, 0x443, 0x442,
           0x430]),
       (''mm'', RelText [0x25, 0x64, 0x20, 0x43C, 0x438, 0x43D, 0x443, 0x442, 0x438]),
       (''h'', RelText [0x435, 0x434, 0x435, 0x43D, 0x20, 0x447, 0x430, 0x441]),
       (''hh'', RelText [0x25, 0x64, 0x20, 0x447, 0x430, 0x441, 0x430]),
       (''d'', RelText [0x435, 0x434, 0x435, 0x43D, 0x20, 0x434, 0x435, 0x43D]),
       (''dd'', RelText [0x25, 0x64, 0x20, 0x434, 0x435, 0x43D, 0x430]),
       (''M'', RelText [0x435, 0x434, 0x435, 0x43D, 0x20, 0x43C, 0x435, 0x441, 0x435, 0x446]),
       (''MM'', RelText [0x25, 0x64, 0x20, 0x43C, 0x435, 0x441, 0x435, 0x446, 0x438]),
       (''y'', RelText [0x435, 0x434, 0x43D, 0x430, 0x20, 0x433, 0x43E, 0x434, 0x438, 0x43D,
           0x430]),
       (''yy'', RelText [0x25, 0x64, 0x20, 0x433, 0x43E, 0x434, 0x438, 0x43D, 0x438])],
     l_ordinal = Some (OrdFun mk_ordinal),
     l_meridiem = None,
     l_is_pm = None,
     l_meridiem_hour = None,
     l_preparse = None,
     l_postformat = None,
     l_week = Some (1, 7),
     l_meridiem_parse = None,
     l_ordinal_parse = Some (Regex False (Seq [digits_1_2, Lit (js ''-''), Alt [Lit [0x435, 0x432],
         Lit [0x435, 0x43D], Lit [0x442, 0x438], Lit [0x432, 0x438], Lit [0x440, 0x438], Lit [0x43C,
         0x438]]])),
     l_parse = [],
     l_months_parse_exact = False,
     l_weekdays_parse_exact = False,
     l_invalid_date = None,
     l_eras = [],
     l_era_year = None \<rparr>"

text \<open>\<^verbatim>\<open>ml\<close> (line 5).\<close>

definition ml_meridiem :: "nat \<Rightarrow> nat \<Rightarrow> bool \<Rightarrow> js" where
  "ml_meridiem hour minute isLower = (if hour < 4 then [0xD30, 0xD3E, 0xD24, 0xD4D, 0xD30, 0xD3F]
      else if hour < 12 then [0xD30, 0xD3E, 0xD35, 0xD3F, 0xD32, 0xD46]
      else if hour < 17 then [0xD09, 0xD1A, 0xD4D, 0xD1A, 0x20, 0xD15, 0xD34, 0xD3F, 0xD1E, 0xD4D,
          0xD1E, 0xD4D]
      else if hour < 20 then [0xD35, 0xD48, 0xD15, 0xD41, 0xD28, 0xD4D, 0xD28, 0xD47, 0xD30, 0xD02]
      else [0xD30, 0xD3E, 0xD24, 0xD4D, 0xD30, 0xD3F])"

definition ml_meridiemHour :: "nat \<Rightarrow> js \<Rightarrow> nat option" where
  "ml_meridiemHour hour meridiem = Some (let hour = (if hour = 12 then 0
      else hour) in (if ((meridiem = [0xD30, 0xD3E, 0xD24, 0xD4D, 0xD30, 0xD3F] \<and> hour \<ge> 4)
          \<or> meridiem = [0xD09, 0xD1A, 0xD4D, 0xD1A, 0x20, 0xD15, 0xD34, 0xD3F, 0xD1E, 0xD4D,
          0xD1E, 0xD4D]) \<or> meridiem = [0xD35, 0xD48, 0xD15, 0xD41, 0xD28, 0xD4D, 0xD28, 0xD47,
          0xD30, 0xD02] then hour + 12
      else hour))"

definition locale_ml :: moment_locale where
  "locale_ml = \<lparr>
     l_abbr = ''ml'',
     l_months = Names [[0xD1C, 0xD28, 0xD41, 0xD35, 0xD30, 0xD3F], [0xD2B, 0xD46, 0xD2C, 0xD4D,
         0xD30, 0xD41, 0xD35, 0xD30, 0xD3F], [0xD2E, 0xD3E, 0xD7C, 0xD1A, 0xD4D, 0xD1A, 0xD4D],
         [0xD0F, 0xD2A, 0xD4D, 0xD30, 0xD3F, 0xD7D], [0xD2E, 0xD47, 0xD2F, 0xD4D], [0xD1C, 0xD42,
         0xD7A], [0xD1C, 0xD42, 0xD32, 0xD48], [0xD13, 0xD17, 0xD38, 0xD4D, 0xD31, 0xD4D, 0xD31,
         0xD4D], [0xD38, 0xD46, 0xD2A, 0xD4D, 0xD31, 0xD4D, 0xD31, 0xD02, 0xD2C, 0xD7C], [0xD12,
         0xD15, 0xD4D, 0xD1F, 0xD4B, 0xD2C, 0xD7C], [0xD28, 0xD35, 0xD02, 0xD2C, 0xD7C], [0xD21,
         0xD3F, 0xD38, 0xD02, 0xD2C, 0xD7C]],
     l_months_short = Names [[0xD1C, 0xD28, 0xD41, 0x2E], [0xD2B, 0xD46, 0xD2C, 0xD4D, 0xD30, 0xD41,
         0x2E], [0xD2E, 0xD3E, 0xD7C, 0x2E], [0xD0F, 0xD2A, 0xD4D, 0xD30, 0xD3F, 0x2E], [0xD2E,
         0xD47, 0xD2F, 0xD4D], [0xD1C, 0xD42, 0xD7A], [0xD1C, 0xD42, 0xD32, 0xD48, 0x2E], [0xD13,
         0xD17, 0x2E], [0xD38, 0xD46, 0xD2A, 0xD4D, 0xD31, 0xD4D, 0xD31, 0x2E], [0xD12, 0xD15,
         0xD4D, 0xD1F, 0xD4B, 0x2E], [0xD28, 0xD35, 0xD02, 0x2E], [0xD21, 0xD3F, 0xD38, 0xD02,
         0x2E]],
     l_weekdays = Names [[0xD1E, 0xD3E, 0xD2F, 0xD31, 0xD3E, 0xD34, 0xD4D, 0xD1A], [0xD24, 0xD3F,
         0xD19, 0xD4D, 0xD15, 0xD33, 0xD3E, 0xD34, 0xD4D, 0xD1A], [0xD1A, 0xD4A, 0xD35, 0xD4D,
         0xD35, 0xD3E, 0xD34, 0xD4D, 0xD1A], [0xD2C, 0xD41, 0xD27, 0xD28, 0xD3E, 0xD34, 0xD4D,
         0xD1A], [0xD35, 0xD4D, 0xD2F, 0xD3E, 0xD34, 0xD3E, 0xD34, 0xD4D, 0xD1A], [0xD35, 0xD46,
         0xD33, 0xD4D, 0xD33, 0xD3F, 0xD2F, 0xD3E, 0xD34, 0xD4D, 0xD1A], [0xD36, 0xD28, 0xD3F,
         0xD2F, 0xD3E, 0xD34, 0xD4D, 0xD1A]],
     l_weekdays_short = [[0xD1E, 0xD3E, 0xD2F, 0xD7C], [0xD24, 0xD3F, 0xD19, 0xD4D, 0xD15, 0xD7E],
         [0xD1A, 0xD4A, 0xD35, 0xD4D, 0xD35], [0xD2C, 0xD41, 0xD27, 0xD7B], [0xD35, 0xD4D, 0xD2F,
         0xD3E, 0xD34, 0xD02], [0xD35, 0xD46, 0xD33, 0xD4D, 0xD33, 0xD3F], [0xD36, 0xD28, 0xD3F]],
     l_weekdays_min = [[0xD1E, 0xD3E], [0xD24, 0xD3F], [0xD1A, 0xD4A], [0xD2C, 0xD41], [0xD35,
         0xD4D, 0xD2F, 0xD3E], [0xD35, 0xD46], [0xD36]],
     l_long_date_format = [(''LT'', js ''A h:mm -'' @ [0xD28, 0xD41]),
       (''LTS'', js ''A h:mm:ss -'' @ [0xD28, 0xD41]),
       (''L'', js ''DD/MM/YYYY''),
       (''LL'', js ''D MMMM YYYY''),
       (''LLL'', js ''D MMMM YYYY, A h:mm -'' @ [0xD28, 0xD41]),
       (''LLLL'', js ''dddd, D MMMM YYYY, A h:mm -'' @ [0xD28, 0xD41])],
     l_calendar = [(''sameDay'', CalText ([0x5B, 0xD07, 0xD28, 0xD4D, 0xD28, 0xD4D] @ js ''] LT'')),
       (''nextDay'', CalText ([0x5B, 0xD28, 0xD3E, 0xD33, 0xD46] @ js ''] LT'')),
       (''nextWeek'', CalText (js ''dddd, LT'')),
       (''lastDay'', CalText ([0x5B, 0xD07, 0xD28, 0xD4D, 0xD28, 0xD32, 0xD46] @ js ''] LT'')),
       (''lastWeek'', CalText ([0x5B, 0xD15, 0xD34, 0xD3F, 0xD1E, 0xD4D, 0xD1E] @ js
           ''] dddd, LT'')),
       (''sameElse'', CalText (js ''L''))],
     l_relative_time = [(''future'', RelText [0x25, 0x73, 0x20, 0xD15, 0xD34, 0xD3F, 0xD1E, 0xD4D,
         0xD1E, 0xD4D]),
       (''past'', RelText [0x25, 0x73, 0x20, 0xD2E, 0xD41, 0xD7B, 0xD2A, 0xD4D]),
       (''s'', RelText [0xD05, 0xD7D, 0xD2A, 0x20, 0xD28, 0xD3F, 0xD2E, 0xD3F, 0xD37, 0xD19, 0xD4D,
           0xD19, 0xD7E]),
       (''ss'', RelText [0x25, 0x64, 0x20, 0xD38, 0xD46, 0xD15, 0xD4D, 0xD15, 0xD7B, 0xD21, 0xD4D]),
       (''m'', RelText [0xD12, 0xD30, 0xD41, 0x20, 0xD2E, 0xD3F, 0xD28, 0xD3F, 0xD31, 0xD4D, 0xD31,
           0xD4D]),
       (''mm'', RelText [0x25, 0x64, 0x20, 0xD2E, 0xD3F, 0xD28, 0xD3F, 0xD31, 0xD4D, 0xD31, 0xD4D]),
       (''h'', RelText [0xD12, 0xD30, 0xD41, 0x20, 0xD2E, 0xD23, 0xD3F, 0xD15, 0xD4D, 0xD15, 0xD42,
           0xD7C]),
       (''hh'', RelText [0x25, 0x64, 0x20, 0xD2E, 0xD23, 0xD3F, 0xD15, 0xD4D, 0xD15, 0xD42, 0xD7C]),
       (''d'', RelText [0xD12, 0xD30, 0xD41, 0x20, 0xD26, 0xD3F, 0xD35, 0xD38, 0xD02]),
       (''dd'', RelText [0x25, 0x64, 0x20, 0xD26, 0xD3F, 0xD35, 0xD38, 0xD02]),
       (''M'', RelText [0xD12, 0xD30, 0xD41, 0x20, 0xD2E, 0xD3E, 0xD38, 0xD02]),
       (''MM'', RelText [0x25, 0x64, 0x20, 0xD2E, 0xD3E, 0xD38, 0xD02]),
       (''y'', RelText [0xD12, 0xD30, 0xD41, 0x20, 0xD35, 0xD7C, 0xD37, 0xD02]),
       (''yy'', RelText [0x25, 0x64, 0x20, 0xD35, 0xD7C, 0xD37, 0xD02])],
     l_ordinal = None,
     l_meridiem = Some ml_meridiem,
     l_is_pm = None,
     l_meridiem_hour = Some ml_meridiemHour,
     l_preparse = None,
     l_postformat = None,
     l_week = None,
     l_meridiem_parse = Some (Regex True (Alt [Lit [0xD30, 0xD3E, 0xD24, 0xD4D, 0xD30, 0xD3F], Lit
         [0xD30, 0xD3E, 0xD35, 0xD3F, 0xD32, 0xD46], Lit [0xD09, 0xD1A, 0xD4D, 0xD1A, 0x20, 0xD15,
         0xD34, 0xD3F, 0xD1E, 0xD4D, 0xD1E, 0xD4D], Lit [0xD35, 0xD48, 0xD15, 0xD41, 0xD28, 0xD4D,
         0xD28, 0xD47, 0xD30, 0xD02], Lit [0xD30, 0xD3E, 0xD24, 0xD4D, 0xD30, 0xD3F]])),
     l_ordinal_parse = None,
     l_parse = [],
     l_months_parse_exact = True,
     l_weekdays_parse_exact = False,
     l_invalid_date = None,
     l_eras = [],
     l_era_year = None \<rparr>"

text \<open>\<^verbatim>\<open>mn\<close> (line 241).\<close>

definition mn_rel_t :: "nat \<Rightarrow> bool \<Rightarrow> string \<Rightarrow> bool \<Rightarrow>
    js option" where
  "mn_rel_t number withoutSuffix key isFuture = Some (if key = ''s'' then (if withoutSuffix then
      [0x445, 0x44D, 0x434, 0x445, 0x44D, 0x43D, 0x20, 0x441, 0x435, 0x43A, 0x443, 0x43D, 0x434]
      else [0x445, 0x44D, 0x434, 0x445, 0x44D, 0x43D, 0x20, 0x441, 0x435, 0x43A, 0x443, 0x43D,
          0x434, 0x44B, 0x43D])
      else if key = ''ss'' then jnum number @ (if withoutSuffix then [0x20, 0x441, 0x435, 0x43A,
          0x443, 0x43D, 0x434]
      else [0x20, 0x441, 0x435, 0x43A, 0x443, 0x43D, 0x434, 0x44B, 0x43D])
      else if key = ''m'' \<or> key = ''mm'' then jnum number @ (if withoutSuffix then [0x20, 0x43C,
          0x438, 0x43D, 0x443, 0x442]
      else [0x20, 0x43C, 0x438, 0x43D, 0x443, 0x442, 0x44B, 0x43D])
      else if key = ''h'' \<or> key = ''hh'' then jnum number @ (if withoutSuffix then [0x20, 0x446,
          0x430, 0x433]
      else [0x20, 0x446, 0x430, 0x433, 0x438, 0x439, 0x43D])
      else if key = ''d'' \<or> key = ''dd'' then jnum number @ (if withoutSuffix then [0x20, 0x4E9,
          0x434, 0x4E9, 0x440]
      else [0x20, 0x4E9, 0x434, 0x440, 0x438, 0x439, 0x43D])
      else if key = ''M'' \<or> key = ''MM'' then jnum number @ (if withoutSuffix then [0x20, 0x441,
          0x430, 0x440]
      else [0x20, 0x441, 0x430, 0x440, 0x44B, 0x43D])
      else if key = ''y'' \<or> key = ''yy'' then jnum number @ (if withoutSuffix then [0x20, 0x436,
          0x438, 0x43B]
      else [0x20, 0x436, 0x438, 0x43B, 0x438, 0x439, 0x43D])
      else jnum number)"

definition mn_ordinal :: "nat \<Rightarrow> string \<Rightarrow> js option" where
  "mn_ordinal number period = Some (if period = ''d'' \<or> period = ''D'' \<or> period = ''DDD''
      then jnum number @ [0x20, 0x4E9, 0x434, 0x4E9, 0x440]
      else jnum number)"

definition mn_meridiem :: "nat \<Rightarrow> nat \<Rightarrow> bool \<Rightarrow> js" where
  "mn_meridiem hour minute isLower = (if hour < 12 then [0x4AE, 0x4E8] else [0x4AE, 0x425])"

definition mn_isPM :: "js \<Rightarrow> bool" where
  "mn_isPM input \<longleftrightarrow> input = [0x4AE, 0x425]"

definition locale_mn :: moment_locale where
  "locale_mn = \<lparr>
     l_abbr = ''mn'',
     l_months = Names [[0x41D, 0x44D, 0x433, 0x434, 0x4AF, 0x433, 0x44D, 0x44D, 0x440, 0x20, 0x441,
         0x430, 0x440], [0x425, 0x43E, 0x451, 0x440, 0x434, 0x443, 0x433, 0x430, 0x430, 0x440, 0x20,
         0x441, 0x430, 0x440], [0x413, 0x443, 0x440, 0x430, 0x432, 0x434, 0x443, 0x433, 0x430,
         0x430, 0x440, 0x20, 0x441, 0x430, 0x440], [0x414, 0x4E9, 0x440, 0x4E9, 0x432, 0x434, 0x4AF,
         0x433, 0x44D, 0x44D, 0x440, 0x20, 0x441, 0x430, 0x440], [0x422, 0x430, 0x432, 0x434, 0x443,
         0x433, 0x430, 0x430, 0x440, 0x20, 0x441, 0x430, 0x440], [0x417, 0x443, 0x440, 0x433, 0x430,
         0x434, 0x443, 0x433, 0x430, 0x430, 0x440, 0x20, 0x441, 0x430, 0x440], [0x414, 0x43E, 0x43B,
         0x434, 0x443, 0x433, 0x430, 0x430, 0x440, 0x20, 0x441, 0x430, 0x440], [0x41D, 0x430, 0x439,
         0x43C, 0x434, 0x443, 0x433, 0x430, 0x430, 0x440, 0x20, 0x441, 0x430, 0x440], [0x415, 0x441,
         0x434, 0x4AF, 0x433, 0x44D, 0x44D, 0x440, 0x20, 0x441, 0x430, 0x440], [0x410, 0x440, 0x430,
         0x432, 0x434, 0x443, 0x433, 0x430, 0x430, 0x440, 0x20, 0x441, 0x430, 0x440], [0x410, 0x440,
         0x432, 0x430, 0x43D, 0x20, 0x43D, 0x44D, 0x433, 0x434, 0x4AF, 0x433, 0x44D, 0x44D, 0x440,
         0x20, 0x441, 0x430, 0x440], [0x410, 0x440, 0x432, 0x430, 0x43D, 0x20, 0x445, 0x43E, 0x451,
         0x440, 0x434, 0x443, 0x433, 0x430, 0x430, 0x440, 0x20, 0x441, 0x430, 0x440]],
     l_months_short = Names [[0x31, 0x20, 0x441, 0x430, 0x440], [0x32, 0x20, 0x441, 0x430, 0x440],
         [0x33, 0x20, 0x441, 0x430, 0x440], [0x34, 0x20, 0x441, 0x430, 0x440], [0x35, 0x20, 0x441,
         0x430, 0x440], [0x36, 0x20, 0x441, 0x430, 0x440], [0x37, 0x20, 0x441, 0x430, 0x440], [0x38,
         0x20, 0x441, 0x430, 0x440], [0x39, 0x20, 0x441, 0x430, 0x440], [0x31, 0x30, 0x20, 0x441,
         0x430, 0x440], [0x31, 0x31, 0x20, 0x441, 0x430, 0x440], [0x31, 0x32, 0x20, 0x441, 0x430,
         0x440]],
     l_weekdays = Names [[0x41D, 0x44F, 0x43C], [0x414, 0x430, 0x432, 0x430, 0x430], [0x41C, 0x44F,
         0x433, 0x43C, 0x430, 0x440], [0x41B, 0x445, 0x430, 0x433, 0x432, 0x430], [0x41F, 0x4AF,
         0x440, 0x44D, 0x432], [0x411, 0x430, 0x430, 0x441, 0x430, 0x43D], [0x411, 0x44F, 0x43C,
         0x431, 0x430]],
     l_weekdays_short = [[0x41D, 0x44F, 0x43C], [0x414, 0x430, 0x432], [0x41C, 0x44F, 0x433],
         [0x41B, 0x445, 0x430], [0x41F, 0x4AF, 0x440], [0x411, 0x430, 0x430], [0x411, 0x44F,
         0x43C]],
     l_weekdays_min = [[0x41D, 0x44F], [0x414, 0x430], [0x41C, 0x44F], [0x41B, 0x445], [0x41F,
         0x4AF], [0x411, 0x430], [0x411, 0x44F]],
     l_long_date_format = [(''LT'', js ''HH:mm''),
       (''LTS'', js ''HH:mm:ss''),
       (''L'', js ''YYYY-MM-DD''),
       (''LL'', js ''YYYY '' @ [0x43E, 0x43D, 0x44B] @ js '' MMMM'' @ [0x44B, 0x43D, 0x20, 0x44]),
       (''LLL'', js ''YYYY '' @ [0x43E, 0x43D, 0x44B] @ js '' MMMM'' @ [0x44B, 0x43D] @ js
           '' D HH:mm''),
       (''LLLL'', js ''dddd, YYYY '' @ [0x43E, 0x43D, 0x44B] @ js '' MMMM'' @ [0x44B, 0x43D] @ js
           '' D HH:mm'')],
     l_calendar = [(''sameDay'', CalText ([0x5B, 0x4E8, 0x43D, 0x4E9, 0x4E9, 0x434, 0x4E9, 0x440] @
         js ''] LT'')),
       (''nextDay'', CalText ([0x5B, 0x41C, 0x430, 0x440, 0x433, 0x430, 0x430, 0x448] @ js
           ''] LT'')),
       (''nextWeek'', CalText ([0x5B, 0x418, 0x440, 0x44D, 0x445] @ js ''] dddd LT'')),
       (''lastDay'', CalText ([0x5B, 0x4E8, 0x447, 0x438, 0x433, 0x434, 0x4E9, 0x440] @ js
           ''] LT'')),
       (''lastWeek'', CalText ([0x5B, 0x4E8, 0x43D, 0x433, 0x4E9, 0x440, 0x441, 0x4E9, 0x43D] @ js
           ''] dddd LT'')),
       (''sameElse'', CalText (js ''L''))],
     l_relative_time = [(''future'', RelText [0x25, 0x73, 0x20, 0x434, 0x430, 0x440, 0x430, 0x430]),
       (''past'', RelText [0x25, 0x73, 0x20, 0x4E9, 0x43C, 0x43D, 0x4E9]),
       (''s'', RelNum mn_rel_t),
       (''ss'', RelNum mn_rel_t),
       (''m'', RelNum mn_rel_t),
       (''mm'', RelNum mn_rel_t),
       (''h'', RelNum mn_rel_t),
       (''hh'', RelNum mn_rel_t),
       (''d'', RelNum mn_rel_t),
       (''dd'', RelNum mn_rel_t),
       (''M'', RelNum mn_rel_t),
       (''MM'', RelNum mn_rel_t),
       (''y'', RelNum mn_rel_t),
       (''yy'', RelNum mn_rel_t)],
     l_ordinal = Some (OrdFun mn_ordinal),
     l_meridiem = Some mn_meridiem,
     l_is_pm = Some mn_isPM,
     l_meridiem_hour = None,
     l_preparse = None,
     l_postformat = None,
     l_week = None,
     l_meridiem_parse = Some (Regex True (Alt [Lit [0x4AE, 0x4E8], Lit [0x4AE, 0x425]])),
     l_ordinal_parse = Some (Regex False (Seq [digits_1_2, Lit [0x20, 0x4E9, 0x434, 0x4E9,
         0x440]])),
     l_parse = [],
     l_months_parse_exact = True,
     l_weekdays_parse_exact = True,
     l_invalid_date = None,
     l_eras = [],
     l_era_year = None \<rparr>"

text \<open>\<^verbatim>\<open>mr\<close> (line 85).\<close>

definition mr_rel_i :: "nat \<Rightarrow> bool \<Rightarrow> string \<Rightarrow> bool \<Rightarrow>
    js option" where
  "mr_rel_i number withoutSuffix key isFuture = Some (if withoutSuffix then (if key = ''s'' then
      (let r = [0x915, 0x93E, 0x939, 0x940, 0x20, 0x938, 0x947, 0x915, 0x902, 0x926] in js_subst_num
      number r)
      else if key = ''ss'' then (let r = [0x25, 0x64, 0x20, 0x938, 0x947, 0x915, 0x902, 0x926] in
          js_subst_num number r)
      else if key = ''m'' then (let r = [0x90F, 0x915, 0x20, 0x92E, 0x93F, 0x928, 0x93F, 0x91F] in
          js_subst_num number r)
      else if key = ''mm'' then (let r = [0x25, 0x64, 0x20, 0x92E, 0x93F, 0x928, 0x93F, 0x91F,
          0x947] in js_subst_num number r)
      else if key = ''h'' then (let r = [0x90F, 0x915, 0x20, 0x924, 0x93E, 0x938] in js_subst_num
          number r)
      else if key = ''hh'' then (let r = [0x25, 0x64, 0x20, 0x924, 0x93E, 0x938] in js_subst_num
          number r)
      else if key = ''d'' then (let r = [0x90F, 0x915, 0x20, 0x926, 0x93F, 0x935, 0x938] in
          js_subst_num number r)
      else if key = ''dd'' then (let r = [0x25, 0x64, 0x20, 0x926, 0x93F, 0x935, 0x938] in
          js_subst_num number r)
      else if key = ''M'' then (let r = [0x90F, 0x915, 0x20, 0x92E, 0x939, 0x93F, 0x928, 0x93E] in
          js_subst_num number r)
      else if key = ''MM'' then (let r = [0x25, 0x64, 0x20, 0x92E, 0x939, 0x93F, 0x928, 0x947] in
          js_subst_num number r)
      else if key = ''y'' then (let r = [0x90F, 0x915, 0x20, 0x935, 0x930, 0x94D, 0x937] in
          js_subst_num number r)
      else if key = ''yy'' then (let r = [0x25, 0x64, 0x20, 0x935, 0x930, 0x94D, 0x937, 0x947] in
          js_subst_num number r)
      else js_subst_num number [])
      else if key = ''s'' then (let r = [0x915, 0x93E, 0x939, 0x940, 0x20, 0x938, 0x947, 0x915,
          0x902, 0x926, 0x93E, 0x902] in js_subst_num number r)
      else if key = ''ss'' then (let r = [0x25, 0x64, 0x20, 0x938, 0x947, 0x915, 0x902, 0x926,
          0x93E, 0x902] in js_subst_num number r)
      else if key = ''m'' then (let r = [0x90F, 0x915, 0x93E, 0x20, 0x92E, 0x93F, 0x928, 0x93F,
          0x91F, 0x93E] in js_subst_num number r)
      else if key = ''mm'' then (let r = [0x25, 0x64, 0x20, 0x92E, 0x93F, 0x928, 0x93F, 0x91F,
          0x93E, 0x902] in js_subst_num number r)
      else if key = ''h'' then (let r = [0x90F, 0x915, 0x93E, 0x20, 0x924, 0x93E, 0x938, 0x93E] in
          js_subst_num number r)
      else if key = ''hh'' then (let r = [0x25, 0x64, 0x20, 0x924, 0x93E, 0x938, 0x93E, 0x902] in
          js_subst_num number r)
      else if key = ''d'' then (let r = [0x90F, 0x915, 0x93E, 0x20, 0x926, 0x93F, 0x935, 0x938,
          0x93E] in js_subst_num number r)
      else if key = ''dd'' then (let r = [0x25, 0x64, 0x20, 0x926, 0x93F, 0x935, 0x938, 0x93E,
          0x902] in js_subst_num number r)
      else if key = ''M'' then (let r = [0x90F, 0x915, 0x93E, 0x20, 0x92E, 0x939, 0x93F, 0x928,
          0x94D, 0x92F, 0x93E] in js_subst_num number r)
      else if key = ''MM'' then (let r = [0x25, 0x64, 0x20, 0x92E, 0x939, 0x93F, 0x928, 0x94D,
          0x92F, 0x93E, 0x902] in js_subst_num number r)
      else if key = ''y'' then (let r = [0x90F, 0x915, 0x93E, 0x20, 0x935, 0x930, 0x94D, 0x937,
          0x93E] in js_subst_num number r)
      else if key = ''yy'' then (let r = [0x25, 0x64, 0x20, 0x935, 0x930, 0x94D, 0x937, 0x93E,
          0x902] in js_subst_num number r)
      else js_subst_num number [])"

definition mr_meridiem :: "nat \<Rightarrow> nat \<Rightarrow> bool \<Rightarrow> js" where
  "mr_meridiem hour minute isLower = (if hour \<ge> 0 \<and> hour < 6 then [0x92A, 0x939, 0x93E,
      0x91F, 0x947]
      else if hour < 12 then [0x938, 0x915, 0x93E, 0x933, 0x940]
      else if hour < 17 then [0x926, 0x941, 0x92A, 0x93E, 0x930, 0x940]
      else if hour < 20 then [0x938, 0x93E, 0x92F, 0x902, 0x915, 0x93E, 0x933, 0x940]
      else [0x930, 0x93E, 0x924, 0x94D, 0x930, 0x940])"

definition mr_meridiemHour :: "nat \<Rightarrow> js \<Rightarrow> nat option" where
  "mr_meridiemHour hour meridiem = (let hour = (if hour = 12 then 0
      else hour) in (if meridiem = [0x92A, 0x939, 0x93E, 0x91F, 0x947] \<or> meridiem = [0x938,
          0x915, 0x93E, 0x933, 0x940] then Some hour
      else if (meridiem = [0x926, 0x941, 0x92A, 0x93E, 0x930, 0x940] \<or> meridiem = [0x938, 0x93E,
          0x92F, 0x902, 0x915, 0x93E, 0x933, 0x940]) \<or> meridiem = [0x930, 0x93E, 0x924, 0x94D,
          0x930, 0x940] then Some (if hour \<ge> 12 then hour
      else hour + 12)
      else None))"

definition mr_preparse :: "js \<Rightarrow> js" where
  "mr_preparse s = js_replace_units [(0x967, [0x31]), (0x968, [0x32]), (0x969, [0x33]), (0x96A,
      [0x34]), (0x96B, [0x35]), (0x96C, [0x36]), (0x96D, [0x37]), (0x96E, [0x38]), (0x96F, [0x39]),
      (0x966, [0x30])] s"

definition mr_postformat :: "js \<Rightarrow> js" where
  "mr_postformat s = js_replace_units [(0x30, [0x966]), (0x31, [0x967]), (0x32, [0x968]), (0x33,
      [0x969]), (0x34, [0x96A]), (0x35, [0x96B]), (0x36, [0x96C]), (0x37, [0x96D]), (0x38, [0x96E]),
      (0x39, [0x96F])] s"

definition locale_mr :: moment_locale where
  "locale_mr = \<lparr>
     l_abbr = ''mr'',
     l_months = Names [[0x91C, 0x93E, 0x928, 0x947, 0x935, 0x93E, 0x930, 0x940], [0x92B, 0x947,
         0x92C, 0x94D, 0x930, 0x941, 0x935, 0x93E, 0x930, 0x940], [0x92E, 0x93E, 0x930, 0x94D,
         0x91A], [0x90F, 0x92A, 0x94D, 0x930, 0x93F, 0x932], [0x92E, 0x947], [0x91C, 0x942, 0x928],
         [0x91C, 0x941, 0x932, 0x948], [0x911, 0x917, 0x938, 0x94D, 0x91F], [0x938, 0x92A, 0x94D,
         0x91F, 0x947, 0x902, 0x92C, 0x930], [0x911, 0x915, 0x94D, 0x91F, 0x94B, 0x92C, 0x930],
         [0x928, 0x94B, 0x935, 0x94D, 0x939, 0x947, 0x902, 0x92C, 0x930], [0x921, 0x93F, 0x938,
         0x947, 0x902, 0x92C, 0x930]],
     l_months_short = Names [[0x91C, 0x93E, 0x928, 0x947, 0x2E], [0x92B, 0x947, 0x92C, 0x94D, 0x930,
         0x941, 0x2E], [0x92E, 0x93E, 0x930, 0x94D, 0x91A, 0x2E], [0x90F, 0x92A, 0x94D, 0x930,
         0x93F, 0x2E], [0x92E, 0x947, 0x2E], [0x91C, 0x942, 0x928, 0x2E], [0x91C, 0x941, 0x932,
         0x948, 0x2E], [0x911, 0x917, 0x2E], [0x938, 0x92A, 0x94D, 0x91F, 0x947, 0x902, 0x2E],
         [0x911, 0x915, 0x94D, 0x91F, 0x94B, 0x2E], [0x928, 0x94B, 0x935, 0x94D, 0x939, 0x947,
         0x902, 0x2E], [0x921, 0x93F, 0x938, 0x947, 0x902, 0x2E]],
     l_weekdays = Names [[0x930, 0x935, 0x93F, 0x935, 0x93E, 0x930], [0x938, 0x94B, 0x92E, 0x935,
         0x93E, 0x930], [0x92E, 0x902, 0x917, 0x933, 0x935, 0x93E, 0x930], [0x92C, 0x941, 0x927,
         0x935, 0x93E, 0x930], [0x917, 0x941, 0x930, 0x942, 0x935, 0x93E, 0x930], [0x936, 0x941,
         0x915, 0x94D, 0x930, 0x935, 0x93E, 0x930], [0x936, 0x928, 0x93F, 0x935, 0x93E, 0x930]],
     l_weekdays_short = [[0x930, 0x935, 0x93F], [0x938, 0x94B, 0x92E], [0x92E, 0x902, 0x917, 0x933],
         [0x92C, 0x941, 0x927], [0x917, 0x941, 0x930, 0x942], [0x936, 0x941, 0x915, 0x94D, 0x930],
         [0x936, 0x928, 0x93F]],
     l_weekdays_min = [[0x930], [0x938, 0x94B], [0x92E, 0x902], [0x92C, 0x941], [0x917, 0x941],
         [0x936, 0x941], [0x936]],
     l_long_date_format = [(''LT'', js ''A h:mm '' @ [0x935, 0x93E, 0x91C, 0x924, 0x93E]),
       (''LTS'', js ''A h:mm:ss '' @ [0x935, 0x93E, 0x91C, 0x924, 0x93E]),
       (''L'', js ''DD/MM/YYYY''),
       (''LL'', js ''D MMMM YYYY''),
       (''LLL'', js ''D MMMM YYYY, A h:mm '' @ [0x935, 0x93E, 0x91C, 0x924, 0x93E]),
       (''LLLL'', js ''dddd, D MMMM YYYY, A h:mm '' @ [0x935, 0x93E, 0x91C, 0x924, 0x93E])],
     l_calendar = [(''sameDay'', CalText ([0x5B, 0x906, 0x91C] @ js ''] LT'')),
       (''nextDay'', CalText ([0x5B, 0x909, 0x926, 0x94D, 0x92F, 0x93E] @ js ''] LT'')),
       (''nextWeek'', CalText (js ''dddd, LT'')),
       (''lastDay'', CalText ([0x5B, 0x915, 0x93E, 0x932] @ js ''] LT'')),
       (''lastWeek'', CalText ([0x5B, 0x92E, 0x93E, 0x917, 0x940, 0x932] @ js ''] dddd, LT'')),
       (''sameElse'', CalText (js ''L''))],
     l_relative_time = [(''future'', RelText [0x25, 0x73, 0x92E, 0x927, 0x94D, 0x92F, 0x947]),
       (''past'', RelText [0x25, 0x73, 0x92A, 0x942, 0x930, 0x94D, 0x935, 0x940]),
       (''s'', RelNum mr_rel_i),
       (''ss'', RelNum mr_rel_i),
       (''m'', RelNum mr_rel_i),
       (''mm'', RelNum mr_rel_i),
       (''h'', RelNum mr_rel_i),
       (''hh'', RelNum mr_rel_i),
       (''d'', RelNum mr_rel_i),
       (''dd'', RelNum mr_rel_i),
       (''M'', RelNum mr_rel_i),
       (''MM'', RelNum mr_rel_i),
       (''y'', RelNum mr_rel_i),
       (''yy'', RelNum mr_rel_i)],
     l_ordinal = None,
     l_meridiem = Some mr_meridiem,
     l_is_pm = None,
     l_meridiem_hour = Some mr_meridiemHour,
     l_preparse = Some mr_preparse,
     l_postformat = Some mr_postformat,
     l_week = Some (0, 6),
     l_meridiem_parse = Some (Regex False (Alt [Lit [0x92A, 0x939, 0x93E, 0x91F, 0x947], Lit [0x938,
         0x915, 0x93E, 0x933, 0x940], Lit [0x926, 0x941, 0x92A, 0x93E, 0x930, 0x940], Lit [0x938,
         0x93E, 0x92F, 0x902, 0x915, 0x93E, 0x933, 0x940], Lit [0x930, 0x93E, 0x924, 0x94D, 0x930,
         0x940]])),
     l_ordinal_parse = None,
     l_parse = [],
     l_months_parse_exact = True,
     l_weekdays_parse_exact = False,
     l_invalid_date = None,
     l_eras = [],
     l_era_year = None \<rparr>"

text \<open>\<^verbatim>\<open>ms\<close> (line 337).\<close>

definition ms_meridiem :: "nat \<Rightarrow> nat \<Rightarrow> bool \<Rightarrow> js" where
  "ms_meridiem hour minute isLower = (if hour < 11 then js ''pagi''
      else if hour < 15 then js ''tengahari''
      else if hour < 19 then js ''petang''
      else js ''malam'')"

definition ms_meridiemHour :: "nat \<Rightarrow> js \<Rightarrow> nat option" where
  "ms_meridiemHour hour meridiem = (let hour = (if hour = 12 then 0
      else hour) in (if meridiem = js ''pagi'' then Some hour
      else if meridiem = js ''tengahari'' then Some (if hour \<ge> 11 then hour
      else hour + 12)
      else if meridiem = js ''petang'' \<or> meridiem = js ''malam'' then Some (hour + 12)
      else None))"

definition locale_ms :: moment_locale where
  "locale_ms = \<lparr>
     l_abbr = ''ms'',
     l_months = Names [js ''Januari'', js ''Februari'', js ''Mac'', js ''April'', js ''Mei'', js
         ''Jun'', js ''Julai'', js ''Ogos'', js ''September'', js ''Oktober'', js ''November'', js
         ''Disember''],
     l_months_short = Names [js ''Jan'', js ''Feb'', js ''Mac'', js ''Apr'', js ''Mei'', js ''Jun'',
         js ''Jul'', js ''Ogs'', js ''Sep'', js ''Okt'', js ''Nov'', js ''Dis''],
     l_weekdays = Names [js ''Ahad'', js ''Isnin'', js ''Selasa'', js ''Rabu'', js ''Khamis'', js
         ''Jumaat'', js ''Sabtu''],
     l_weekdays_short = [js ''Ahd'', js ''Isn'', js ''Sel'', js ''Rab'', js ''Kha'', js ''Jum'', js
         ''Sab''],
     l_weekdays_min = [js ''Ah'', js ''Is'', js ''Sl'', js ''Rb'', js ''Km'', js ''Jm'', js ''Sb''],
     l_long_date_format = [(''LT'', js ''HH.mm''),
       (''LTS'', js ''HH.mm.ss''),
       (''L'', js ''DD/MM/YYYY''),
       (''LL'', js ''D MMMM YYYY''),
       (''LLL'', js ''D MMMM YYYY [pukul] HH.mm''),
       (''LLLL'', js ''dddd, D MMMM YYYY [pukul] HH.mm'')],
     l_calendar = [(''sameDay'', CalText (js ''[Hari ini pukul] LT'')),
       (''nextDay'', CalText (js ''[Esok pukul] LT'')),
       (''nextWeek'', CalText (js ''dddd [pukul] LT'')),
       (''lastDay'', CalText (js ''[Kelmarin pukul] LT'')),
       (''lastWeek'', CalText (js ''dddd [lepas pukul] LT'')),
       (''sameElse'', CalText (js ''L''))],
     l_relative_time = [(''future'', RelText (js ''dalam %s'')),
       (''past'', RelText (js ''%s yang lepas'')),
       (''s'', RelText (js ''beberapa saat'')),
       (''ss'', RelText (js ''%d saat'')),
       (''m'', RelText (js ''seminit'')),
       (''mm'', RelText (js ''%d minit'')),
       (''h'', RelText (js ''sejam'')),
       (''hh'', RelText (js ''%d jam'')),
       (''d'', RelText (js ''sehari'')),
       (''dd'', RelText (js ''%d hari'')),
       (''M'', RelText (js ''sebulan'')),
       (''MM'', RelText (js ''%d bulan'')),
       (''y'', RelText (js ''setahun'')),
       (''yy'', RelText (js ''%d tahun''))],
     l_ordinal = None,
     l_meridiem = Some ms_meridiem,
     l_is_pm = None,
     l_meridiem_hour = Some ms_meridiemHour,
     l_preparse = None,
     l_postformat = None,
     l_week = Some (1, 7),
     l_meridiem_parse = Some (Regex False (Alt [Lit (js ''pagi''), Lit (js ''tengahari''), Lit (js
         ''petang''), Lit (js ''malam'')])),
     l_ordinal_parse = None,
     l_parse = [],
     l_months_parse_exact = False,
     l_weekdays_parse_exact = False,
     l_invalid_date = None,
     l_eras = [],
     l_era_year = None \<rparr>"

text \<open>\<^verbatim>\<open>ms-my\<close> (line 153).\<close>

definition ms_my_meridiem :: "nat \<Rightarrow> nat \<Rightarrow> bool \<Rightarrow> js" where
  "ms_my_meridiem hour minute isLower = (if hour < 11 then js ''pagi''
      else if hour < 15 then js ''tengahari''
      else if hour < 19 then js ''petang''
      else js ''malam'')"

definition ms_my_meridiemHour :: "nat \<Rightarrow> js \<Rightarrow> nat option" where
  "ms_my_meridiemHour hour meridiem = (let hour = (if hour = 12 then 0
      else hour) in (if meridiem = js ''pagi'' then Some hour
      else if meridiem = js ''tengahari'' then Some (if hour \<ge> 11 then hour
      else hour + 12)
      else if meridiem = js ''petang'' \<or> meridiem = js ''malam'' then Some (hour + 12)
      else None))"

definition locale_ms_my :: moment_locale where
  "locale_ms_my = \<lparr>
     l_abbr = ''ms-my'',
     l_months = Names [js ''Januari'', js ''Februari'', js ''Mac'', js ''April'', js ''Mei'', js
         ''Jun'', js ''Julai'', js ''Ogos'', js ''September'', js ''Oktober'', js ''November'', js
         ''Disember''],
     l_months_short = Names [js ''Jan'', js ''Feb'', js ''Mac'', js ''Apr'', js ''Mei'', js ''Jun'',
         js ''Jul'', js ''Ogs'', js ''Sep'', js ''Okt'', js ''Nov'', js ''Dis''],
     l_weekdays = Names [js ''Ahad'', js ''Isnin'', js ''Selasa'', js ''Rabu'', js ''Khamis'', js
         ''Jumaat'', js ''Sabtu''],
     l_weekdays_short = [js ''Ahd'', js ''Isn'', js ''Sel'', js ''Rab'', js ''Kha'', js ''Jum'', js
         ''Sab''],
     l_weekdays_min = [js ''Ah'', js ''Is'', js ''Sl'', js ''Rb'', js ''Km'', js ''Jm'', js ''Sb''],
     l_long_date_format = [(''LT'', js ''HH.mm''),
       (''LTS'', js ''HH.mm.ss''),
       (''L'', js ''DD/MM/YYYY''),
       (''LL'', js ''D MMMM YYYY''),
       (''LLL'', js ''D MMMM YYYY [pukul] HH.mm''),
       (''LLLL'', js ''dddd, D MMMM YYYY [pukul] HH.mm'')],
     l_calendar = [(''sameDay'', CalText (js ''[Hari ini pukul] LT'')),
       (''nextDay'', CalText (js ''[Esok pukul] LT'')),
       (''nextWeek'', CalText (js ''dddd [pukul] LT'')),
       (''lastDay'', CalText (js ''[Kelmarin pukul] LT'')),
       (''lastWeek'', CalText (js ''dddd [lepas pukul] LT'')),
       (''sameElse'', CalText (js ''L''))],
     l_relative_time = [(''future'', RelText (js ''dalam %s'')),
       (''past'', RelText (js ''%s yang lepas'')),
       (''s'', RelText (js ''beberapa saat'')),
       (''ss'', RelText (js ''%d saat'')),
       (''m'', RelText (js ''seminit'')),
       (''mm'', RelText (js ''%d minit'')),
       (''h'', RelText (js ''sejam'')),
       (''hh'', RelText (js ''%d jam'')),
       (''d'', RelText (js ''sehari'')),
       (''dd'', RelText (js ''%d hari'')),
       (''M'', RelText (js ''sebulan'')),
       (''MM'', RelText (js ''%d bulan'')),
       (''y'', RelText (js ''setahun'')),
       (''yy'', RelText (js ''%d tahun''))],
     l_ordinal = None,
     l_meridiem = Some ms_my_meridiem,
     l_is_pm = None,
     l_meridiem_hour = Some ms_my_meridiemHour,
     l_preparse = None,
     l_postformat = None,
     l_week = Some (1, 7),
     l_meridiem_parse = Some (Regex False (Alt [Lit (js ''pagi''), Lit (js ''tengahari''), Lit (js
         ''petang''), Lit (js ''malam'')])),
     l_ordinal_parse = None,
     l_parse = [],
     l_months_parse_exact = False,
     l_weekdays_parse_exact = False,
     l_invalid_date = None,
     l_eras = [],
     l_era_year = None \<rparr>"

text \<open>\<^verbatim>\<open>mt\<close> (line 39).\<close>

definition locale_mt :: moment_locale where
  "locale_mt = \<lparr>
     l_abbr = ''mt'',
     l_months = Names [js ''Jannar'', js ''Frar'', js ''Marzu'', js ''April'', js ''Mejju'', [0x120]
         @ js ''unju'', js ''Lulju'', js ''Awwissu'', js ''Settembru'', js ''Ottubru'', js
         ''Novembru'', [0x44, 0x69, 0x10B] @ js ''embru''],
     l_months_short = Names [js ''Jan'', js ''Fra'', js ''Mar'', js ''Apr'', js ''Mej'', [0x120,
         0x75, 0x6E], js ''Lul'', js ''Aww'', js ''Set'', js ''Ott'', js ''Nov'', [0x44, 0x69,
         0x10B]],
     l_weekdays = Names [[0x49, 0x6C, 0x2D, 0x126, 0x61, 0x64, 0x64], js ''It-Tnejn'', js
         ''It-Tlieta'', js ''L-Erbg'' @ [0x127, 0x61], [0x49, 0x6C, 0x2D, 0x126] @ js ''amis'',
         [0x49, 0x6C, 0x2D, 0x120, 0x69, 0x6D, 0x67, 0x127, 0x61], js ''Is-Sibt''],
     l_weekdays_short = [[0x126, 0x61, 0x64], js ''Tne'', js ''Tli'', js ''Erb'', [0x126, 0x61,
         0x6D], [0x120, 0x69, 0x6D], js ''Sib''],
     l_weekdays_min = [[0x126, 0x61], js ''Tn'', js ''Tl'', js ''Er'', [0x126, 0x61], [0x120, 0x69],
         js ''Si''],
     l_long_date_format = [(''LT'', js ''HH:mm''),
       (''LTS'', js ''HH:mm:ss''),
       (''L'', js ''DD/MM/YYYY''),
       (''LL'', js ''D MMMM YYYY''),
       (''LLL'', js ''D MMMM YYYY HH:mm''),
       (''LLLL'', js ''dddd, D MMMM YYYY HH:mm'')],
     l_calendar = [(''sameDay'', CalText (js ''[Illum fil-]LT'')),
       (''nextDay'', CalText ([0x5B, 0x47, 0x127] @ js ''ada fil-]LT'')),
       (''nextWeek'', CalText (js ''dddd [fil-]LT'')),
       (''lastDay'', CalText (js ''[Il-biera'' @ [0x127] @ js '' fil-]LT'')),
       (''lastWeek'', CalText (js ''dddd [li g'' @ [0x127] @ js ''adda] [fil-]LT'')),
       (''sameElse'', CalText (js ''L''))],
     l_relative_time = [(''future'', RelText [0x66, 0x2019, 0x20, 0x25, 0x73]),
       (''past'', RelText (js ''%s ilu'')),
       (''s'', RelText (js ''ftit sekondi'')),
       (''ss'', RelText (js ''%d sekondi'')),
       (''m'', RelText (js ''minuta'')),
       (''mm'', RelText (js ''%d minuti'')),
       (''h'', RelText (js ''sieg'' @ [0x127, 0x61])),
       (''hh'', RelText (js ''%d sieg'' @ [0x127, 0x61, 0x74])),
       (''d'', RelText ([0x121] @ js ''urnata'')),
       (''dd'', RelText ([0x25, 0x64, 0x20, 0x121] @ js ''ranet'')),
       (''M'', RelText (js ''xahar'')),
       (''MM'', RelText (js ''%d xhur'')),
       (''y'', RelText (js ''sena'')),
       (''yy'', RelText (js ''%d sni''))],
     l_ordinal = Some (OrdText [0x25, 0x64, 0xBA]),
     l_meridiem = None,
     l_is_pm = None,
     l_meridiem_hour = None,
     l_preparse = None,
     l_postformat = None,
     l_week = Some (1, 4),
     l_meridiem_parse = None,
     l_ordinal_parse = Some (Regex False (Seq [digits_1_2, Lit [0xBA]])),
     l_parse = [],
     l_months_parse_exact = False,
     l_weekdays_parse_exact = False,
     l_invalid_date = None,
     l_eras = [],
     l_era_year = None \<rparr>"

text \<open>\<^verbatim>\<open>my\<close> (line 217).\<close>

definition my_preparse :: "js \<Rightarrow> js" where
  "my_preparse s = js_replace_units [(0x1041, [0x31]), (0x1042, [0x32]), (0x1043, [0x33]), (0x1044,
      [0x34]), (0x1045, [0x35]), (0x1046, [0x36]), (0x1047, [0x37]), (0x1048, [0x38]), (0x1049,
      [0x39]), (0x1040, [0x30])] s"

definition my_postformat :: "js \<Rightarrow> js" where
  "my_postformat s = js_replace_units [(0x30, [0x1040]), (0x31, [0x1041]), (0x32, [0x1042]), (0x33,
      [0x1043]), (0x34, [0x1044]), (0x35, [0x1045]), (0x36, [0x1046]), (0x37, [0x1047]), (0x38,
      [0x1048]), (0x39, [0x1049])] s"

definition locale_my :: moment_locale where
  "locale_my = \<lparr>
     l_abbr = ''my'',
     l_months = Names [[0x1007, 0x1014, 0x103A, 0x1014, 0x101D, 0x102B, 0x101B, 0x102E], [0x1016,
         0x1031, 0x1016, 0x1031, 0x102C, 0x103A, 0x101D, 0x102B, 0x101B, 0x102E], [0x1019, 0x1010,
         0x103A], [0x1027, 0x1015, 0x103C, 0x102E], [0x1019, 0x1031], [0x1007, 0x103D, 0x1014,
         0x103A], [0x1007, 0x1030, 0x101C, 0x102D, 0x102F, 0x1004, 0x103A], [0x101E, 0x103C, 0x1002,
         0x102F, 0x1010, 0x103A], [0x1005, 0x1000, 0x103A, 0x1010, 0x1004, 0x103A, 0x1018, 0x102C],
         [0x1021, 0x1031, 0x102C, 0x1000, 0x103A, 0x1010, 0x102D, 0x102F, 0x1018, 0x102C], [0x1014,
         0x102D, 0x102F, 0x101D, 0x1004, 0x103A, 0x1018, 0x102C], [0x1012, 0x102E, 0x1007, 0x1004,
         0x103A, 0x1018, 0x102C]],
     l_months_short = Names [[0x1007, 0x1014, 0x103A], [0x1016, 0x1031], [0x1019, 0x1010, 0x103A],
         [0x1015, 0x103C, 0x102E], [0x1019, 0x1031], [0x1007, 0x103D, 0x1014, 0x103A], [0x101C,
         0x102D, 0x102F, 0x1004, 0x103A], [0x101E, 0x103C], [0x1005, 0x1000, 0x103A], [0x1021,
         0x1031, 0x102C, 0x1000, 0x103A], [0x1014, 0x102D, 0x102F], [0x1012, 0x102E]],
     l_weekdays = Names [[0x1010, 0x1014, 0x1004, 0x103A, 0x1039, 0x1002, 0x1014, 0x103D, 0x1031],
         [0x1010, 0x1014, 0x1004, 0x103A, 0x1039, 0x101C, 0x102C], [0x1021, 0x1004, 0x103A, 0x1039,
         0x1002, 0x102B], [0x1017, 0x102F, 0x1012, 0x1039, 0x1013, 0x101F, 0x1030, 0x1038], [0x1000,
         0x103C, 0x102C, 0x101E, 0x1015, 0x1010, 0x1031, 0x1038], [0x101E, 0x1031, 0x102C, 0x1000,
         0x103C, 0x102C], [0x1005, 0x1014, 0x1031]],
     l_weekdays_short = [[0x1014, 0x103D, 0x1031], [0x101C, 0x102C], [0x1002, 0x102B], [0x101F,
         0x1030, 0x1038], [0x1000, 0x103C, 0x102C], [0x101E, 0x1031, 0x102C], [0x1014, 0x1031]],
     l_weekdays_min = [[0x1014, 0x103D, 0x1031], [0x101C, 0x102C], [0x1002, 0x102B], [0x101F,
         0x1030, 0x1038], [0x1000, 0x103C, 0x102C], [0x101E, 0x1031, 0x102C], [0x1014, 0x1031]],
     l_long_date_format = [(''LT'', js ''HH:mm''),
       (''LTS'', js ''HH:mm:ss''),
       (''L'', js ''DD/MM/YYYY''),
       (''LL'', js ''D MMMM YYYY''),
       (''LLL'', js ''D MMMM YYYY HH:mm''),
       (''LLLL'', js ''dddd D MMMM YYYY HH:mm'')],
     l_calendar = [(''sameDay'', CalText ([0x5B, 0x101A, 0x1014, 0x1031] @ js ''.] LT ['' @ [0x1019,
         0x103E, 0x102C, 0x5D])),
       (''nextDay'', CalText ([0x5B, 0x1019, 0x1014, 0x1000, 0x103A, 0x1016, 0x103C, 0x1014, 0x103A]
           @ js ''] LT ['' @ [0x1019, 0x103E, 0x102C, 0x5D])),
       (''nextWeek'', CalText (js ''dddd LT ['' @ [0x1019, 0x103E, 0x102C, 0x5D])),
       (''lastDay'', CalText ([0x5B, 0x1019, 0x1014, 0x1031, 0x2E, 0x1000] @ js ''] LT ['' @
           [0x1019, 0x103E, 0x102C, 0x5D])),
       (''lastWeek'', CalText ([0x5B, 0x1015, 0x103C, 0x102E, 0x1038, 0x1001, 0x1032, 0x1037,
           0x101E, 0x1031, 0x102C] @ js ''] dddd LT ['' @ [0x1019, 0x103E, 0x102C, 0x5D])),
       (''sameElse'', CalText (js ''L''))],
     l_relative_time = [(''future'', RelText ([0x101C, 0x102C, 0x1019, 0x100A, 0x103A, 0x1037] @ js
         '' %s '' @ [0x1019, 0x103E, 0x102C])),
       (''past'', RelText ([0x101C, 0x103D, 0x1014, 0x103A, 0x1001, 0x1032, 0x1037, 0x101E, 0x1031,
           0x102C] @ js '' %s '' @ [0x1000])),
       (''s'', RelText [0x1005, 0x1000, 0x1039, 0x1000, 0x1014, 0x103A, 0x2E, 0x1021, 0x1014,
           0x100A, 0x103A, 0x1038, 0x1004, 0x101A, 0x103A]),
       (''ss'', RelText [0x25, 0x64, 0x20, 0x1005, 0x1000, 0x1039, 0x1000, 0x1014, 0x1037, 0x103A]),
       (''m'', RelText [0x1010, 0x1005, 0x103A, 0x1019, 0x102D, 0x1014, 0x1005, 0x103A]),
       (''mm'', RelText [0x25, 0x64, 0x20, 0x1019, 0x102D, 0x1014, 0x1005, 0x103A]),
       (''h'', RelText [0x1010, 0x1005, 0x103A, 0x1014, 0x102C, 0x101B, 0x102E]),
       (''hh'', RelText [0x25, 0x64, 0x20, 0x1014, 0x102C, 0x101B, 0x102E]),
       (''d'', RelText [0x1010, 0x1005, 0x103A, 0x101B, 0x1000, 0x103A]),
       (''dd'', RelText [0x25, 0x64, 0x20, 0x101B, 0x1000, 0x103A]),
       (''M'', RelText [0x1010, 0x1005, 0x103A, 0x101C]),
       (''MM'', RelText [0x25, 0x64, 0x20, 0x101C]),
       (''y'', RelText [0x1010, 0x1005, 0x103A, 0x1014, 0x103E, 0x1005, 0x103A]),
       (''yy'', RelText [0x25, 0x64, 0x20, 0x1014, 0x103E, 0x1005, 0x103A])],
     l_ordinal = None,
     l_meridiem = None,
     l_is_pm = None,
     l_meridiem_hour = None,
     l_preparse = Some my_preparse,
     l_postformat = Some my_postformat,
     l_week = Some (1, 4),
     l_meridiem_parse = None,
     l_ordinal_parse = None,
     l_parse = [],
     l_months_parse_exact = False,
     l_weekdays_parse_exact = False,
     l_invalid_date = None,
     l_eras = [],
     l_era_year = None \<rparr>"

text \<open>\<^verbatim>\<open>nb\<close> (line 172).\<close>

definition locale_nb :: moment_locale where
  "locale_nb = \<lparr>
     l_abbr = ''nb'',
     l_months = Names [js ''januar'', js ''februar'', js ''mars'', js ''april'', js ''mai'', js
         ''juni'', js ''juli'', js ''august'', js ''september'', js ''oktober'', js ''november'', js
         ''desember''],
     l_months_short = Names [js ''jan.'', js ''feb.'', js ''mars'', js ''apr.'', js ''mai'', js
         ''juni'', js ''juli'', js ''aug.'', js ''sep.'', js ''okt.'', js ''nov.'', js ''des.''],
     l_weekdays = Names [[0x73, 0xF8] @ js ''ndag'', js ''mandag'', js ''tirsdag'', js ''onsdag'',
         js ''torsdag'', js ''fredag'', [0x6C, 0xF8] @ js ''rdag''],
     l_weekdays_short = [[0x73, 0xF8, 0x2E], js ''ma.'', js ''ti.'', js ''on.'', js ''to.'', js
         ''fr.'', [0x6C, 0xF8, 0x2E]],
     l_weekdays_min = [[0x73, 0xF8], js ''ma'', js ''ti'', js ''on'', js ''to'', js ''fr'', [0x6C,
         0xF8]],
     l_long_date_format = [(''LT'', js ''HH:mm''),
       (''LTS'', js ''HH:mm:ss''),
       (''L'', js ''DD.MM.YYYY''),
       (''LL'', js ''D. MMMM YYYY''),
       (''LLL'', js ''D. MMMM YYYY [kl.] HH:mm''),
       (''LLLL'', js ''dddd D. MMMM YYYY [kl.] HH:mm'')],
     l_calendar = [(''sameDay'', CalText (js ''[i dag kl.] LT'')),
       (''nextDay'', CalText (js ''[i morgen kl.] LT'')),
       (''nextWeek'', CalText (js ''dddd [kl.] LT'')),
       (''lastDay'', CalText (js ''[i g'' @ [0xE5] @ js ''r kl.] LT'')),
       (''lastWeek'', CalText (js ''[forrige] dddd [kl.] LT'')),
       (''sameElse'', CalText (js ''L''))],
     l_relative_time = [(''future'', RelText (js ''om %s'')),
       (''past'', RelText (js ''%s siden'')),
       (''s'', RelText (js ''noen sekunder'')),
       (''ss'', RelText (js ''%d sekunder'')),
       (''m'', RelText (js ''ett minutt'')),
       (''mm'', RelText (js ''%d minutter'')),
       (''h'', RelText (js ''en time'')),
       (''hh'', RelText (js ''%d timer'')),
       (''d'', RelText (js ''en dag'')),
       (''dd'', RelText (js ''%d dager'')),
       (''w'', RelText (js ''en uke'')),
       (''ww'', RelText (js ''%d uker'')),
       (''M'', RelText (js ''en m'' @ [0xE5, 0x6E, 0x65, 0x64])),
       (''MM'', RelText (js ''%d m'' @ [0xE5] @ js ''neder'')),
       (''y'', RelText (js ''ett '' @ [0xE5, 0x72])),
       (''yy'', RelText [0x25, 0x64, 0x20, 0xE5, 0x72])],
     l_ordinal = Some (OrdText (js ''%d.'')),
     l_meridiem = None,
     l_is_pm = None,
     l_meridiem_hour = None,
     l_preparse = None,
     l_postformat = None,
     l_week = Some (1, 4),
     l_meridiem_parse = None,
     l_ordinal_parse = Some (Regex False (Seq [digits_1_2, Lit (js ''.'')])),
     l_parse = [],
     l_months_parse_exact = True,
     l_weekdays_parse_exact = True,
     l_invalid_date = None,
     l_eras = [],
     l_era_year = None \<rparr>"

text \<open>\<^verbatim>\<open>ne\<close> (line 87).\<close>

definition ne_meridiem :: "nat \<Rightarrow> nat \<Rightarrow> bool \<Rightarrow> js" where
  "ne_meridiem hour minute isLower = (if hour < 3 then [0x930, 0x93E, 0x924, 0x93F]
      else if hour < 12 then [0x92C, 0x93F, 0x939, 0x93E, 0x928]
      else if hour < 16 then [0x926, 0x93F, 0x909, 0x901, 0x938, 0x94B]
      else if hour < 20 then [0x938, 0x93E, 0x901, 0x91D]
      else [0x930, 0x93E, 0x924, 0x93F])"

definition ne_meridiemHour :: "nat \<Rightarrow> js \<Rightarrow> nat option" where
  "ne_meridiemHour hour meridiem = (let hour = (if hour = 12 then 0
      else hour) in (if meridiem = [0x930, 0x93E, 0x924, 0x93F] then Some (if hour < 4 then hour
      else hour + 12)
      else if meridiem = [0x92C, 0x93F, 0x939, 0x93E, 0x928] then Some hour
      else if meridiem = [0x926, 0x93F, 0x909, 0x901, 0x938, 0x94B] then Some (if hour \<ge> 10 then
          hour
      else hour + 12)
      else if meridiem = [0x938, 0x93E, 0x901, 0x91D] then Some (hour + 12)
      else None))"

definition ne_preparse :: "js \<Rightarrow> js" where
  "ne_preparse s = js_replace_units [(0x967, [0x31]), (0x968, [0x32]), (0x969, [0x33]), (0x96A,
      [0x34]), (0x96B, [0x35]), (0x96C, [0x36]), (0x96D, [0x37]), (0x96E, [0x38]), (0x96F, [0x39]),
      (0x966, [0x30])] s"

definition ne_postformat :: "js \<Rightarrow> js" where
  "ne_postformat s = js_replace_units [(0x30, [0x966]), (0x31, [0x967]), (0x32, [0x968]), (0x33,
      [0x969]), (0x34, [0x96A]), (0x35, [0x96B]), (0x36, [0x96C]), (0x37, [0x96D]), (0x38, [0x96E]),
      (0x39, [0x96F])] s"

definition locale_ne :: moment_locale where
  "locale_ne = \<lparr>
     l_abbr = ''ne'',
     l_months = Names [[0x91C, 0x928, 0x935, 0x930, 0x940], [0x92B, 0x947, 0x92C, 0x94D, 0x930,
         0x941, 0x935, 0x930, 0x940], [0x92E, 0x93E, 0x930, 0x94D, 0x91A], [0x905, 0x92A, 0x94D,
         0x930, 0x93F, 0x932], [0x92E, 0x908], [0x91C, 0x941, 0x928], [0x91C, 0x941, 0x932, 0x93E,
         0x908], [0x905, 0x917, 0x937, 0x94D, 0x91F], [0x938, 0x947, 0x92A, 0x94D, 0x91F, 0x947,
         0x92E, 0x94D, 0x92C, 0x930], [0x905, 0x915, 0x94D, 0x91F, 0x94B, 0x92C, 0x930], [0x928,
         0x94B, 0x92D, 0x947, 0x92E, 0x94D, 0x92C, 0x930], [0x921, 0x93F, 0x938, 0x947, 0x92E,
         0x94D, 0x92C, 0x930]],
     l_months_short = Names [[0x91C, 0x928, 0x2E], [0x92B, 0x947, 0x92C, 0x94D, 0x930, 0x941, 0x2E],
         [0x92E, 0x93E, 0x930, 0x94D, 0x91A], [0x905, 0x92A, 0x94D, 0x930, 0x93F, 0x2E], [0x92E,
         0x908], [0x91C, 0x941, 0x928], [0x91C, 0x941, 0x932, 0x93E, 0x908, 0x2E], [0x905, 0x917,
         0x2E], [0x938, 0x947, 0x92A, 0x94D, 0x91F, 0x2E], [0x905, 0x915, 0x94D, 0x91F, 0x94B,
         0x2E], [0x928, 0x94B, 0x92D, 0x947, 0x2E], [0x921, 0x93F, 0x938, 0x947, 0x2E]],
     l_weekdays = Names [[0x906, 0x907, 0x924, 0x92C, 0x93E, 0x930], [0x938, 0x94B, 0x92E, 0x92C,
         0x93E, 0x930], [0x92E, 0x919, 0x94D, 0x917, 0x932, 0x92C, 0x93E, 0x930], [0x92C, 0x941,
         0x927, 0x92C, 0x93E, 0x930], [0x92C, 0x93F, 0x939, 0x93F, 0x92C, 0x93E, 0x930], [0x936,
         0x941, 0x915, 0x94D, 0x930, 0x92C, 0x93E, 0x930], [0x936, 0x928, 0x93F, 0x92C, 0x93E,
         0x930]],
     l_weekdays_short = [[0x906, 0x907, 0x924, 0x2E], [0x938, 0x94B, 0x92E, 0x2E], [0x92E, 0x919,
         0x94D, 0x917, 0x932, 0x2E], [0x92C, 0x941, 0x927, 0x2E], [0x92C, 0x93F, 0x939, 0x93F,
         0x2E], [0x936, 0x941, 0x915, 0x94D, 0x930, 0x2E], [0x936, 0x928, 0x93F, 0x2E]],
     l_weekdays_min = [[0x906, 0x2E], [0x938, 0x94B, 0x2E], [0x92E, 0x902, 0x2E], [0x92C, 0x941,
         0x2E], [0x92C, 0x93F, 0x2E], [0x936, 0x941, 0x2E], [0x936, 0x2E]],
     l_long_date_format = [(''LT'', [0x41, 0x915, 0x94B] @ js '' h:mm '' @ [0x92C, 0x91C, 0x947]),
       (''LTS'', [0x41, 0x915, 0x94B] @ js '' h:mm:ss '' @ [0x92C, 0x91C, 0x947]),
       (''L'', js ''DD/MM/YYYY''),
       (''LL'', js ''D MMMM YYYY''),
       (''LLL'', js ''D MMMM YYYY, A'' @ [0x915, 0x94B] @ js '' h:mm '' @ [0x92C, 0x91C, 0x947]),
       (''LLLL'', js ''dddd, D MMMM YYYY, A'' @ [0x915, 0x94B] @ js '' h:mm '' @ [0x92C, 0x91C,
           0x947])],
     l_calendar = [(''sameDay'', CalText ([0x5B, 0x906, 0x91C] @ js ''] LT'')),
       (''nextDay'', CalText ([0x5B, 0x92D, 0x94B, 0x932, 0x93F] @ js ''] LT'')),
       (''nextWeek'', CalText ([0x5B, 0x906, 0x909, 0x901, 0x926, 0x94B] @ js ''] dddd[,] LT'')),
       (''lastDay'', CalText ([0x5B, 0x939, 0x93F, 0x91C, 0x94B] @ js ''] LT'')),
       (''lastWeek'', CalText ([0x5B, 0x917, 0x90F, 0x915, 0x94B] @ js ''] dddd[,] LT'')),
       (''sameElse'', CalText (js ''L''))],
     l_relative_time = [(''future'', RelText [0x25, 0x73, 0x92E, 0x93E]),
       (''past'', RelText [0x25, 0x73, 0x20, 0x905, 0x917, 0x93E, 0x921, 0x93F]),
       (''s'', RelText [0x915, 0x947, 0x939, 0x940, 0x20, 0x915, 0x94D, 0x937, 0x923]),
       (''ss'', RelText [0x25, 0x64, 0x20, 0x938, 0x947, 0x915, 0x947, 0x923, 0x94D, 0x921]),
       (''m'', RelText [0x90F, 0x915, 0x20, 0x92E, 0x93F, 0x928, 0x947, 0x91F]),
       (''mm'', RelText [0x25, 0x64, 0x20, 0x92E, 0x93F, 0x928, 0x947, 0x91F]),
       (''h'', RelText [0x90F, 0x915, 0x20, 0x918, 0x923, 0x94D, 0x91F, 0x93E]),
       (''hh'', RelText [0x25, 0x64, 0x20, 0x918, 0x923, 0x94D, 0x91F, 0x93E]),
       (''d'', RelText [0x90F, 0x915, 0x20, 0x926, 0x93F, 0x928]),
       (''dd'', RelText [0x25, 0x64, 0x20, 0x926, 0x93F, 0x928]),
       (''M'', RelText [0x90F, 0x915, 0x20, 0x92E, 0x939, 0x93F, 0x928, 0x93E]),
       (''MM'', RelText [0x25, 0x64, 0x20, 0x92E, 0x939, 0x93F, 0x928, 0x93E]),
       (''y'', RelText [0x90F, 0x915, 0x20, 0x92C, 0x930, 0x94D, 0x937]),
       (''yy'', RelText [0x25, 0x64, 0x20, 0x92C, 0x930, 0x94D, 0x937])],
     l_ordinal = None,
     l_meridiem = Some ne_meridiem,
     l_is_pm = None,
     l_meridiem_hour = Some ne_meridiemHour,
     l_preparse = Some ne_preparse,
     l_postformat = Some ne_postformat,
     l_week = Some (0, 6),
     l_meridiem_parse = Some (Regex False (Alt [Lit [0x930, 0x93E, 0x924, 0x93F], Lit [0x92C, 0x93F,
         0x939, 0x93E, 0x928], Lit [0x926, 0x93F, 0x909, 0x901, 0x938, 0x94B], Lit [0x938, 0x93E,
         0x901, 0x91D]])),
     l_ordinal_parse = None,
     l_parse = [],
     l_months_parse_exact = True,
     l_weekdays_parse_exact = True,
     l_invalid_date = None,
     l_eras = [],
     l_era_year = None \<rparr>"

definition locales_l :: "moment_locale list" where
  "locales_l = [locale_lo, locale_lt, locale_lv, locale_me, locale_mi, locale_mk, locale_ml, locale_mn, locale_mr,
         locale_ms, locale_ms_my, locale_mt, locale_my, locale_nb, locale_ne]"

lemmas locales_l_defs = locales_l_def locale_lo_def locale_lt_def locale_lv_def locale_me_def locale_mi_def locale_mk_def
      locale_ml_def locale_mn_def locale_mr_def locale_ms_def locale_ms_my_def locale_mt_def
      locale_my_def locale_nb_def locale_ne_def

text \<open>The relative times of these languages.\<close>

lemma lt_a_length:
  "list_all (\<lambda>k. map_option length (lt_a k) = Some 3)
     [''ss'', ''m'', ''mm'', ''h'', ''hh'', ''d'', ''dd'', ''M'', ''MM'', ''y'', ''yy'']"
  by code_simp

lemma lt_a_nth:
  assumes "k \<in> set [''ss'', ''m'', ''mm'', ''h'', ''hh'', ''d'', ''dd'', ''M'', ''MM'', ''y'', ''yy'']" "i < 3"
  shows "Option.bind (lt_a k) (\<lambda>xs. js_nth xs i) \<noteq> None"
proof -
  have "map_option length (lt_a k) = Some 3"
    using lt_a_length assms(1) by (simp only: list_all_iff)
  then show ?thesis using assms(2) by (cases "lt_a k") (simp_all add: js_nth_def)
qed

lemma lt_i_defined:
  assumes "k \<in> set [''ss'', ''m'', ''mm'', ''h'', ''hh'', ''d'', ''dd'', ''M'', ''MM'', ''y'', ''yy'']"
  shows "lt_i number withoutSuffix k isFuture \<noteq> None"
  using lt_a_nth [OF assms] by (simp add: lt_i_def del: not_None_eq)

lemma lt_rel_n_defined:
  assumes "1 \<le> number"
  shows "lt_rel_n number withoutSuffix ''s'' isFuture \<noteq> None"
  using assms
  by (auto simp: lt_rel_n_def js_nth_def Let_def split: if_splits)

lemma lt_rel_o_defined:
  assumes "k = ''ss'' \<and> 2 \<le> number \<or> k \<in> set [''mm'', ''hh'', ''dd'', ''MM'', ''yy'']"
  shows "lt_rel_o number withoutSuffix k isFuture \<noteq> None"
proof -
  have one: "number = 1 \<Longrightarrow> lt_i number withoutSuffix (take 1 k) isFuture \<noteq> None"
    using assms by (simp del: not_None_eq) (elim disjE conjE; simp add: lt_i_defined del: not_None_eq)
  have "k \<in> set [''ss'', ''m'', ''mm'', ''h'', ''hh'', ''d'', ''dd'', ''M'', ''MM'', ''y'', ''yy'']"
    using assms by auto
  then have "i < 3 \<Longrightarrow> Option.bind (lt_a k) (\<lambda>xs. js_nth xs i) \<noteq> None" for i
    by (rule lt_a_nth)
  from one this [of 0] this [of 1] this [of 2] show ?thesis
    unfolding lt_rel_o_def Let_def by (cases "number = 1"; cases withoutSuffix; cases isFuture) simp_all
qed

lemma lv_rel_a_defined:
  assumes "1 \<le> number"
  shows "lv_rel_a number withoutSuffix ''s'' isFuture \<noteq> None"
  using assms
  by (auto simp: lv_rel_a_def js_nth_def Let_def split: if_splits)

lemma lv_rel_i_defined:
  assumes "1 \<le> number"
  shows "lv_rel_i number withoutSuffix ''ss'' isFuture \<noteq> None"
    and "lv_rel_i number withoutSuffix ''mm'' isFuture \<noteq> None"
    and "lv_rel_i number withoutSuffix ''hh'' isFuture \<noteq> None"
    and "lv_rel_i number withoutSuffix ''dd'' isFuture \<noteq> None"
    and "lv_rel_i number withoutSuffix ''MM'' isFuture \<noteq> None"
    and "lv_rel_i number withoutSuffix ''yy'' isFuture \<noteq> None"
  using assms
  by (auto simp: lv_rel_i_def lv_n_def js_nth_def Let_def split: if_splits)

lemma lv_rel_r_defined:
  assumes "1 \<le> number"
  shows "lv_rel_r number withoutSuffix ''m'' isFuture \<noteq> None"
    and "lv_rel_r number withoutSuffix ''h'' isFuture \<noteq> None"
    and "lv_rel_r number withoutSuffix ''d'' isFuture \<noteq> None"
    and "lv_rel_r number withoutSuffix ''M'' isFuture \<noteq> None"
    and "lv_rel_r number withoutSuffix ''y'' isFuture \<noteq> None"
  using assms
  by (auto simp: lv_rel_r_def lv_n_def js_nth_def Let_def split: if_splits)

lemma me_translate_defined:
  assumes "1 \<le> number"
  shows "me_translate number withoutSuffix ''ss'' isFuture \<noteq> None"
    and "me_translate number withoutSuffix ''m'' isFuture \<noteq> None"
    and "me_translate number withoutSuffix ''mm'' isFuture \<noteq> None"
    and "me_translate number withoutSuffix ''h'' isFuture \<noteq> None"
    and "me_translate number withoutSuffix ''hh'' isFuture \<noteq> None"
    and "me_translate number withoutSuffix ''dd'' isFuture \<noteq> None"
    and "me_translate number withoutSuffix ''MM'' isFuture \<noteq> None"
    and "me_translate number withoutSuffix ''yy'' isFuture \<noteq> None"
  using assms
  by (auto simp: me_translate_def me_words_def me_correctGrammaticalCase_def js_nth_def Let_def split: if_splits)

lemma mn_rel_t_defined:
  assumes "1 \<le> number"
  shows "mn_rel_t number withoutSuffix ''s'' isFuture \<noteq> None"
    and "mn_rel_t number withoutSuffix ''ss'' isFuture \<noteq> None"
    and "mn_rel_t number withoutSuffix ''m'' isFuture \<noteq> None"
    and "mn_rel_t number withoutSuffix ''mm'' isFuture \<noteq> None"
    and "mn_rel_t number withoutSuffix ''h'' isFuture \<noteq> None"
    and "mn_rel_t number withoutSuffix ''hh'' isFuture \<noteq> None"
    and "mn_rel_t number withoutSuffix ''d'' isFuture \<noteq> None"
    and "mn_rel_t number withoutSuffix ''dd'' isFuture \<noteq> None"
    and "mn_rel_t number withoutSuffix ''M'' isFuture \<noteq> None"
    and "mn_rel_t number withoutSuffix ''MM'' isFuture \<noteq> None"
    and "mn_rel_t number withoutSuffix ''y'' isFuture \<noteq> None"
    and "mn_rel_t number withoutSuffix ''yy'' isFuture \<noteq> None"
  using assms
  by (auto simp: mn_rel_t_def js_nth_def Let_def split: if_splits)

lemma mr_rel_i_defined:
  assumes "1 \<le> number"
  shows "mr_rel_i number withoutSuffix ''s'' isFuture \<noteq> None"
    and "mr_rel_i number withoutSuffix ''ss'' isFuture \<noteq> None"
    and "mr_rel_i number withoutSuffix ''m'' isFuture \<noteq> None"
    and "mr_rel_i number withoutSuffix ''mm'' isFuture \<noteq> None"
    and "mr_rel_i number withoutSuffix ''h'' isFuture \<noteq> None"
    and "mr_rel_i number withoutSuffix ''hh'' isFuture \<noteq> None"
    and "mr_rel_i number withoutSuffix ''d'' isFuture \<noteq> None"
    and "mr_rel_i number withoutSuffix ''dd'' isFuture \<noteq> None"
    and "mr_rel_i number withoutSuffix ''M'' isFuture \<noteq> None"
    and "mr_rel_i number withoutSuffix ''MM'' isFuture \<noteq> None"
    and "mr_rel_i number withoutSuffix ''y'' isFuture \<noteq> None"
    and "mr_rel_i number withoutSuffix ''yy'' isFuture \<noteq> None"
  using assms
  by (auto simp: mr_rel_i_def js_nth_def Let_def split: if_splits)


lemma locales_l_relative:
  assumes "1 \<le> number"
  shows "list_all (\<lambda>c. rel_defined number withoutSuffix isFuture (l_relative_time c)) locales_l"
  unfolding locales_l_defs list.pred_inject moment_locale.select_convs rel_defined_def
  using assms by (simp add: lt_i_defined lt_rel_n_defined lt_rel_o_defined lv_rel_a_defined lv_rel_i_defined lv_rel_r_defined me_translate_defined mn_rel_t_defined mr_rel_i_defined del: not_None_eq)

lemma locales_l_wrappers:
  "list_all (\<lambda>c. wrapper_defined s (l_relative_time c)) locales_l"
  unfolding locales_l_defs list.pred_inject moment_locale.select_convs wrapper_defined_def
  by (simp)

lemma locales_l_unitwise:
  "list_all (\<lambda>c. unitwise (apply_option (l_preparse c)) \<and> unitwise (apply_option (l_postformat c))) locales_l"
  unfolding locales_l_defs list.pred_inject moment_locale.select_convs
  by (simp add: unitwise_def apply_option_def
      mr_preparse_def mr_postformat_def my_preparse_def my_postformat_def
      ne_preparse_def ne_postformat_def)

lemma locales_l_names:
  "list_all (\<lambda>c. names_length 12 (l_months c) \<and> names_length 12 (l_months_short c) \<and>
     names_length 7 (l_weekdays c) \<and> length (l_weekdays_short c) = 7 \<and> length (l_weekdays_min c) = 7) locales_l"
  unfolding locales_l_defs list.pred_inject moment_locale.select_convs
  by (simp add: names_length_def)

end
