(* ===== verification/LocalesN.thy ===== *)
theory LocalesN
  imports MomentCore
begin

text \<open>
  The language configurations nl to sv of the date library, as the bundle
  \<^verbatim>\<open>src/lagosta/js/app.js\<close> registers them, one per line.  Each configuration is the record
  \<^verbatim>\<open>locale_x\<close>; the functions inside it are the definitions before it, named after the language and
  the property (or the local function) that holds them.
\<close>

text \<open>\<^verbatim>\<open>nl\<close> (line 362).\<close>

definition nl_ordinal :: "nat \<Rightarrow> string \<Rightarrow> js option" where
  "nl_ordinal number period = Some (jnum number @ (if (number = 1 \<or> number = 8) \<or> number
      \<ge> 20 then js ''ste''
      else js ''de''))"

definition nl_rx_r :: "regex list" where
  "nl_rx_r = [Regex True (Seq [Start, Alt [Lit (js ''januari''), Lit (js ''februari''), Lit (js
      ''maart''), Lit (js ''april''), Lit (js ''mei''), Seq [Lit (js ''ju''), Cls [(0x6E, 0x6E),
      (0x6C, 0x6C)], Lit (js ''i'')], Lit (js ''augustus''), Lit (js ''september''), Lit (js
      ''oktober''), Lit (js ''november''), Lit (js ''december''), Seq [Lit (js ''jan''), Opt (Lit
      (js ''.''))], Seq [Lit (js ''feb''), Opt (Lit (js ''.''))], Seq [Lit (js ''mrt''), Opt (Lit
      (js ''.''))], Seq [Lit (js ''apr''), Opt (Lit (js ''.''))], Seq [Lit (js ''ju''), Cls [(0x6E,
      0x6E), (0x6C, 0x6C)], Opt (Lit (js ''.''))], Seq [Lit (js ''aug''), Opt (Lit (js ''.''))], Seq
      [Lit (js ''sep''), Opt (Lit (js ''.''))], Seq [Lit (js ''okt''), Opt (Lit (js ''.''))], Seq
      [Lit (js ''nov''), Opt (Lit (js ''.''))], Seq [Lit (js ''dec''), Opt (Lit (js ''.''))]]])]"

definition nl_rx_i :: "regex list" where
  "nl_rx_i = [Regex True (Seq [Start, Lit (js ''jan'')]), Regex True (Seq [Start, Lit (js
      ''feb'')]), Regex True (Alt [Seq [Start, Lit (js ''maart'')], Seq [Lit (js ''mrt''), Opt
      (AnyUnit), End]]), Regex True (Seq [Start, Lit (js ''apr'')]), Regex True (Seq [Start, Lit (js
      ''mei''), End]), Regex True (Seq [Start, Lit (js ''jun''), Opt (Cls [(0x69, 0x69), (0x2E,
      0x2E)]), End]), Regex True (Seq [Start, Lit (js ''jul''), Opt (Cls [(0x69, 0x69), (0x2E,
      0x2E)]), End]), Regex True (Seq [Start, Lit (js ''aug'')]), Regex True (Seq [Start, Lit (js
      ''sep'')]), Regex True (Seq [Start, Lit (js ''okt'')]), Regex True (Seq [Start, Lit (js
      ''nov'')]), Regex True (Seq [Start, Lit (js ''dec'')])]"

definition locale_nl :: moment_locale where
  "locale_nl = \<lparr>
     l_abbr = ''nl'',
     l_months = Names [js ''januari'', js ''februari'', js ''maart'', js ''april'', js ''mei'', js
         ''juni'', js ''juli'', js ''augustus'', js ''september'', js ''oktober'', js ''november'',
         js ''december''],
     l_months_short = NamesAlt [js ''jan.'', js ''feb.'', js ''mrt.'', js ''apr.'', js ''mei'', js
         ''jun.'', js ''jul.'', js ''aug.'', js ''sep.'', js ''okt.'', js ''nov.'', js ''dec.''] [js
         ''jan'', js ''feb'', js ''mrt'', js ''apr'', js ''mei'', js ''jun'', js ''jul'', js
         ''aug'', js ''sep'', js ''okt'', js ''nov'', js ''dec'']
       (Some (Regex False (Lit (js ''-MMM-'')))),
     l_weekdays = Names [js ''zondag'', js ''maandag'', js ''dinsdag'', js ''woensdag'', js
         ''donderdag'', js ''vrijdag'', js ''zaterdag''],
     l_weekdays_short = [js ''zo.'', js ''ma.'', js ''di.'', js ''wo.'', js ''do.'', js ''vr.'', js
         ''za.''],
     l_weekdays_min = [js ''zo'', js ''ma'', js ''di'', js ''wo'', js ''do'', js ''vr'', js ''za''],
     l_long_date_format = [(''LT'', js ''HH:mm''),
       (''LTS'', js ''HH:mm:ss''),
       (''L'', js ''DD-MM-YYYY''),
       (''LL'', js ''D MMMM YYYY''),
       (''LLL'', js ''D MMMM YYYY HH:mm''),
       (''LLLL'', js ''dddd D MMMM YYYY HH:mm'')],
     l_calendar = [(''sameDay'', CalText (js ''[vandaag om] LT'')),
       (''nextDay'', CalText (js ''[morgen om] LT'')),
       (''nextWeek'', CalText (js ''dddd [om] LT'')),
       (''lastDay'', CalText (js ''[gisteren om] LT'')),
       (''lastWeek'', CalText (js ''[afgelopen] dddd [om] LT'')),
       (''sameElse'', CalText (js ''L''))],
     l_relative_time = [(''future'', RelText (js ''over %s'')),
       (''past'', RelText (js ''%s geleden'')),
       (''s'', RelText (js ''een paar seconden'')),
       (''ss'', RelText (js ''%d seconden'')),
       (''m'', RelText ([0xE9, 0xE9] @ js ''n minuut'')),
       (''mm'', RelText (js ''%d minuten'')),
       (''h'', RelText ([0xE9, 0xE9] @ js ''n uur'')),
       (''hh'', RelText (js ''%d uur'')),
       (''d'', RelText ([0xE9, 0xE9] @ js ''n dag'')),
       (''dd'', RelText (js ''%d dagen'')),
       (''w'', RelText ([0xE9, 0xE9] @ js ''n week'')),
       (''ww'', RelText (js ''%d weken'')),
       (''M'', RelText ([0xE9, 0xE9] @ js ''n maand'')),
       (''MM'', RelText (js ''%d maanden'')),
       (''y'', RelText ([0xE9, 0xE9] @ js ''n jaar'')),
       (''yy'', RelText (js ''%d jaar''))],
     l_ordinal = Some (OrdFun nl_ordinal),
     l_meridiem = None,
     l_is_pm = None,
     l_meridiem_hour = None,
     l_preparse = None,
     l_postformat = None,
     l_week = Some (1, 4),
     l_meridiem_parse = None,
     l_ordinal_parse = Some (Regex False (Seq [digits_1_2, Alt [Lit (js ''ste''), Lit (js
         ''de'')]])),
     l_parse = [(''monthsRegex'', nl_rx_r), (''monthsShortRegex'', nl_rx_r), (''monthsStrictRegex'',
         [Regex True (Seq [Start, Alt [Lit (js ''januari''), Lit (js ''februari''), Lit (js
         ''maart''), Lit (js ''april''), Lit (js ''mei''), Seq [Lit (js ''ju''), Cls [(0x6E, 0x6E),
         (0x6C, 0x6C)], Lit (js ''i'')], Lit (js ''augustus''), Lit (js ''september''), Lit (js
         ''oktober''), Lit (js ''november''), Lit (js ''december'')]])]),
         (''monthsShortStrictRegex'', [Regex True (Seq [Start, Alt [Seq [Lit (js ''jan''), Opt (Lit
         (js ''.''))], Seq [Lit (js ''feb''), Opt (Lit (js ''.''))], Seq [Lit (js ''mrt''), Opt (Lit
         (js ''.''))], Seq [Lit (js ''apr''), Opt (Lit (js ''.''))], Lit (js ''mei''), Seq [Lit (js
         ''ju''), Cls [(0x6E, 0x6E), (0x6C, 0x6C)], Opt (Lit (js ''.''))], Seq [Lit (js ''aug''),
         Opt (Lit (js ''.''))], Seq [Lit (js ''sep''), Opt (Lit (js ''.''))], Seq [Lit (js ''okt''),
         Opt (Lit (js ''.''))], Seq [Lit (js ''nov''), Opt (Lit (js ''.''))], Seq [Lit (js ''dec''),
         Opt (Lit (js ''.''))]]])]), (''monthsParse'', nl_rx_i), (''longMonthsParse'', nl_rx_i),
         (''shortMonthsParse'', nl_rx_i)],
     l_months_parse_exact = False,
     l_weekdays_parse_exact = True,
     l_invalid_date = None,
     l_eras = [],
     l_era_year = None \<rparr>"

text \<open>\<^verbatim>\<open>nl-be\<close> (line 327).\<close>

definition nl_be_ordinal :: "nat \<Rightarrow> string \<Rightarrow> js option" where
  "nl_be_ordinal number period = Some (jnum number @ (if (number = 1 \<or> number = 8) \<or> number
      \<ge> 20 then js ''ste''
      else js ''de''))"

definition nl_be_rx_r :: "regex list" where
  "nl_be_rx_r = [Regex True (Seq [Start, Alt [Lit (js ''januari''), Lit (js ''februari''), Lit (js
      ''maart''), Lit (js ''april''), Lit (js ''mei''), Seq [Lit (js ''ju''), Cls [(0x6E, 0x6E),
      (0x6C, 0x6C)], Lit (js ''i'')], Lit (js ''augustus''), Lit (js ''september''), Lit (js
      ''oktober''), Lit (js ''november''), Lit (js ''december''), Seq [Lit (js ''jan''), Opt (Lit
      (js ''.''))], Seq [Lit (js ''feb''), Opt (Lit (js ''.''))], Seq [Lit (js ''mrt''), Opt (Lit
      (js ''.''))], Seq [Lit (js ''apr''), Opt (Lit (js ''.''))], Seq [Lit (js ''ju''), Cls [(0x6E,
      0x6E), (0x6C, 0x6C)], Opt (Lit (js ''.''))], Seq [Lit (js ''aug''), Opt (Lit (js ''.''))], Seq
      [Lit (js ''sep''), Opt (Lit (js ''.''))], Seq [Lit (js ''okt''), Opt (Lit (js ''.''))], Seq
      [Lit (js ''nov''), Opt (Lit (js ''.''))], Seq [Lit (js ''dec''), Opt (Lit (js ''.''))]]])]"

definition nl_be_rx_i :: "regex list" where
  "nl_be_rx_i = [Regex True (Seq [Start, Lit (js ''jan'')]), Regex True (Seq [Start, Lit (js
      ''feb'')]), Regex True (Alt [Seq [Start, Lit (js ''maart'')], Seq [Lit (js ''mrt''), Opt
      (AnyUnit), End]]), Regex True (Seq [Start, Lit (js ''apr'')]), Regex True (Seq [Start, Lit (js
      ''mei''), End]), Regex True (Seq [Start, Lit (js ''jun''), Opt (Cls [(0x69, 0x69), (0x2E,
      0x2E)]), End]), Regex True (Seq [Start, Lit (js ''jul''), Opt (Cls [(0x69, 0x69), (0x2E,
      0x2E)]), End]), Regex True (Seq [Start, Lit (js ''aug'')]), Regex True (Seq [Start, Lit (js
      ''sep'')]), Regex True (Seq [Start, Lit (js ''okt'')]), Regex True (Seq [Start, Lit (js
      ''nov'')]), Regex True (Seq [Start, Lit (js ''dec'')])]"

definition locale_nl_be :: moment_locale where
  "locale_nl_be = \<lparr>
     l_abbr = ''nl-be'',
     l_months = Names [js ''januari'', js ''februari'', js ''maart'', js ''april'', js ''mei'', js
         ''juni'', js ''juli'', js ''augustus'', js ''september'', js ''oktober'', js ''november'',
         js ''december''],
     l_months_short = NamesAlt [js ''jan.'', js ''feb.'', js ''mrt.'', js ''apr.'', js ''mei'', js
         ''jun.'', js ''jul.'', js ''aug.'', js ''sep.'', js ''okt.'', js ''nov.'', js ''dec.''] [js
         ''jan'', js ''feb'', js ''mrt'', js ''apr'', js ''mei'', js ''jun'', js ''jul'', js
         ''aug'', js ''sep'', js ''okt'', js ''nov'', js ''dec'']
       (Some (Regex False (Lit (js ''-MMM-'')))),
     l_weekdays = Names [js ''zondag'', js ''maandag'', js ''dinsdag'', js ''woensdag'', js
         ''donderdag'', js ''vrijdag'', js ''zaterdag''],
     l_weekdays_short = [js ''zo.'', js ''ma.'', js ''di.'', js ''wo.'', js ''do.'', js ''vr.'', js
         ''za.''],
     l_weekdays_min = [js ''zo'', js ''ma'', js ''di'', js ''wo'', js ''do'', js ''vr'', js ''za''],
     l_long_date_format = [(''LT'', js ''HH:mm''),
       (''LTS'', js ''HH:mm:ss''),
       (''L'', js ''DD/MM/YYYY''),
       (''LL'', js ''D MMMM YYYY''),
       (''LLL'', js ''D MMMM YYYY HH:mm''),
       (''LLLL'', js ''dddd D MMMM YYYY HH:mm'')],
     l_calendar = [(''sameDay'', CalText (js ''[vandaag om] LT'')),
       (''nextDay'', CalText (js ''[morgen om] LT'')),
       (''nextWeek'', CalText (js ''dddd [om] LT'')),
       (''lastDay'', CalText (js ''[gisteren om] LT'')),
       (''lastWeek'', CalText (js ''[afgelopen] dddd [om] LT'')),
       (''sameElse'', CalText (js ''L''))],
     l_relative_time = [(''future'', RelText (js ''over %s'')),
       (''past'', RelText (js ''%s geleden'')),
       (''s'', RelText (js ''een paar seconden'')),
       (''ss'', RelText (js ''%d seconden'')),
       (''m'', RelText ([0xE9, 0xE9] @ js ''n minuut'')),
       (''mm'', RelText (js ''%d minuten'')),
       (''h'', RelText ([0xE9, 0xE9] @ js ''n uur'')),
       (''hh'', RelText (js ''%d uur'')),
       (''d'', RelText ([0xE9, 0xE9] @ js ''n dag'')),
       (''dd'', RelText (js ''%d dagen'')),
       (''M'', RelText ([0xE9, 0xE9] @ js ''n maand'')),
       (''MM'', RelText (js ''%d maanden'')),
       (''y'', RelText ([0xE9, 0xE9] @ js ''n jaar'')),
       (''yy'', RelText (js ''%d jaar''))],
     l_ordinal = Some (OrdFun nl_be_ordinal),
     l_meridiem = None,
     l_is_pm = None,
     l_meridiem_hour = None,
     l_preparse = None,
     l_postformat = None,
     l_week = Some (1, 4),
     l_meridiem_parse = None,
     l_ordinal_parse = Some (Regex False (Seq [digits_1_2, Alt [Lit (js ''ste''), Lit (js
         ''de'')]])),
     l_parse = [(''monthsRegex'', nl_be_rx_r), (''monthsShortRegex'', nl_be_rx_r),
         (''monthsStrictRegex'', [Regex True (Seq [Start, Alt [Lit (js ''januari''), Lit (js
         ''februari''), Lit (js ''maart''), Lit (js ''april''), Lit (js ''mei''), Seq [Lit (js
         ''ju''), Cls [(0x6E, 0x6E), (0x6C, 0x6C)], Lit (js ''i'')], Lit (js ''augustus''), Lit (js
         ''september''), Lit (js ''oktober''), Lit (js ''november''), Lit (js ''december'')]])]),
         (''monthsShortStrictRegex'', [Regex True (Seq [Start, Alt [Seq [Lit (js ''jan''), Opt (Lit
         (js ''.''))], Seq [Lit (js ''feb''), Opt (Lit (js ''.''))], Seq [Lit (js ''mrt''), Opt (Lit
         (js ''.''))], Seq [Lit (js ''apr''), Opt (Lit (js ''.''))], Lit (js ''mei''), Seq [Lit (js
         ''ju''), Cls [(0x6E, 0x6E), (0x6C, 0x6C)], Opt (Lit (js ''.''))], Seq [Lit (js ''aug''),
         Opt (Lit (js ''.''))], Seq [Lit (js ''sep''), Opt (Lit (js ''.''))], Seq [Lit (js ''okt''),
         Opt (Lit (js ''.''))], Seq [Lit (js ''nov''), Opt (Lit (js ''.''))], Seq [Lit (js ''dec''),
         Opt (Lit (js ''.''))]]])]), (''monthsParse'', nl_be_rx_i), (''longMonthsParse'',
         nl_be_rx_i), (''shortMonthsParse'', nl_be_rx_i)],
     l_months_parse_exact = False,
     l_weekdays_parse_exact = True,
     l_invalid_date = None,
     l_eras = [],
     l_era_year = None \<rparr>"

text \<open>\<^verbatim>\<open>nn\<close> (line 282).\<close>

definition locale_nn :: moment_locale where
  "locale_nn = \<lparr>
     l_abbr = ''nn'',
     l_months = Names [js ''januar'', js ''februar'', js ''mars'', js ''april'', js ''mai'', js
         ''juni'', js ''juli'', js ''august'', js ''september'', js ''oktober'', js ''november'', js
         ''desember''],
     l_months_short = Names [js ''jan.'', js ''feb.'', js ''mars'', js ''apr.'', js ''mai'', js
         ''juni'', js ''juli'', js ''aug.'', js ''sep.'', js ''okt.'', js ''nov.'', js ''des.''],
     l_weekdays = Names [js ''sundag'', [0x6D, 0xE5] @ js ''ndag'', js ''tysdag'', js ''onsdag'', js
         ''torsdag'', js ''fredag'', js ''laurdag''],
     l_weekdays_short = [js ''su.'', [0x6D, 0xE5, 0x2E], js ''ty.'', js ''on.'', js ''to.'', js
         ''fr.'', js ''lau.''],
     l_weekdays_min = [js ''su'', [0x6D, 0xE5], js ''ty'', js ''on'', js ''to'', js ''fr'', js
         ''la''],
     l_long_date_format = [(''LT'', js ''HH:mm''),
       (''LTS'', js ''HH:mm:ss''),
       (''L'', js ''DD.MM.YYYY''),
       (''LL'', js ''D. MMMM YYYY''),
       (''LLL'', js ''D. MMMM YYYY [kl.] H:mm''),
       (''LLLL'', js ''dddd D. MMMM YYYY [kl.] HH:mm'')],
     l_calendar = [(''sameDay'', CalText (js ''[I dag klokka] LT'')),
       (''nextDay'', CalText (js ''[I morgon klokka] LT'')),
       (''nextWeek'', CalText (js ''dddd [klokka] LT'')),
       (''lastDay'', CalText (js ''[I g'' @ [0xE5] @ js ''r klokka] LT'')),
       (''lastWeek'', CalText ([0x5B, 0x46, 0xF8, 0x72, 0x65, 0x67, 0xE5] @ js
           ''ande] dddd [klokka] LT'')),
       (''sameElse'', CalText (js ''L''))],
     l_relative_time = [(''future'', RelText (js ''om %s'')),
       (''past'', RelText (js ''%s sidan'')),
       (''s'', RelText (js ''nokre sekund'')),
       (''ss'', RelText (js ''%d sekund'')),
       (''m'', RelText (js ''eit minutt'')),
       (''mm'', RelText (js ''%d minutt'')),
       (''h'', RelText (js ''ein time'')),
       (''hh'', RelText (js ''%d timar'')),
       (''d'', RelText (js ''ein dag'')),
       (''dd'', RelText (js ''%d dagar'')),
       (''w'', RelText (js ''ei veke'')),
       (''ww'', RelText (js ''%d veker'')),
       (''M'', RelText (js ''ein m'' @ [0xE5, 0x6E, 0x61, 0x64])),
       (''MM'', RelText (js ''%d m'' @ [0xE5] @ js ''nader'')),
       (''y'', RelText (js ''eit '' @ [0xE5, 0x72])),
       (''yy'', RelText [0x25, 0x64, 0x20, 0xE5, 0x72])],
     l_ordinal = Some (OrdText (js ''%d.'')),
     l_meridiem = None,
     l_is_pm = None,
     l_meridiem_hour = None,
     l_preparse = None,
     l_postformat = None,
     l_week = Some (1, 4),
     l_meridiem_parse = None,
     l_ordinal_parse = Some (Regex False (Seq [digits_1_2, Lit (js ''.'')])),
     l_parse = [],
     l_months_parse_exact = True,
     l_weekdays_parse_exact = True,
     l_invalid_date = None,
     l_eras = [],
     l_era_year = None \<rparr>"

text \<open>\<^verbatim>\<open>oc-lnc\<close> (line 37).\<close>

definition oc_lnc_ordinal :: "nat \<Rightarrow> string \<Rightarrow> js option" where
  "oc_lnc_ordinal number period = Some (let n = (if number = 1 then js ''r''
      else if number = 2 then js ''n''
      else if number = 3 then js ''r''
      else if number = 4 then js ''t''
      else [0xE8]) in (let n = (if period \<noteq> ''w'' \<and> period \<noteq> ''W'' then n
      else js ''a'') in jnum number @ n))"

definition locale_oc_lnc :: moment_locale where
  "locale_oc_lnc = \<lparr>
     l_abbr = ''oc-lnc'',
     l_months = NamesAlt [js ''geni'' @ [0xE8, 0x72], js ''febri'' @ [0xE8, 0x72], [0x6D, 0x61,
         0x72, 0xE7], js ''abril'', js ''mai'', js ''junh'', js ''julhet'', js ''agost'', js
         ''setembre'', [0x6F, 0x63, 0x74, 0xF2, 0x62, 0x72, 0x65], js ''novembre'', js ''decembre'']
         [js ''de geni'' @ [0xE8, 0x72], js ''de febri'' @ [0xE8, 0x72], js ''de mar'' @ [0xE7],
         [0x64, 0x27] @ js ''abril'', js ''de mai'', js ''de junh'', js ''de julhet'', [0x64, 0x27]
         @ js ''agost'', js ''de setembre'', [0x64, 0x27, 0x6F, 0x63, 0x74, 0xF2, 0x62, 0x72, 0x65],
         js ''de novembre'', js ''de decembre'']
       (Some (Regex False (Seq [Lit (js ''D''), Opt (Cls [(0x6F, 0x6F), (0x44, 0x44)]), Plus (Cls
           [(0x9, 0xD), (0x20, 0x20), (0xA0, 0xA0), (0x1680, 0x1680), (0x2000, 0x200A), (0x2028,
           0x2029), (0x202F, 0x202F), (0x205F, 0x205F), (0x3000, 0x3000), (0xFEFF, 0xFEFF)]), Lit
           (js ''MMMM'')]))),
     l_months_short = Names [js ''gen.'', js ''febr.'', [0x6D, 0x61, 0x72, 0xE7], js ''abr.'', js
         ''mai'', js ''junh'', js ''julh.'', js ''ago.'', js ''set.'', js ''oct.'', js ''nov.'', js
         ''dec.''],
     l_weekdays = Names [js ''dimenge'', js ''diluns'', js ''dimars'', [0x64, 0x69, 0x6D, 0xE8] @ js
         ''cres'', [0x64, 0x69, 0x6A, 0xF2, 0x75, 0x73], js ''divendres'', js ''dissabte''],
     l_weekdays_short = [js ''dg.'', js ''dl.'', js ''dm.'', js ''dc.'', js ''dj.'', js ''dv.'', js
         ''ds.''],
     l_weekdays_min = [js ''dg'', js ''dl'', js ''dm'', js ''dc'', js ''dj'', js ''dv'', js ''ds''],
     l_long_date_format = [(''LT'', js ''H:mm''),
       (''LTS'', js ''H:mm:ss''),
       (''L'', js ''DD/MM/YYYY''),
       (''LL'', js ''D MMMM [de] YYYY''),
       (''ll'', js ''D MMM YYYY''),
       (''LLL'', js ''D MMMM [de] YYYY [a] H:mm''),
       (''lll'', js ''D MMM YYYY, H:mm''),
       (''LLLL'', js ''dddd D MMMM [de] YYYY [a] H:mm''),
       (''llll'', js ''ddd D MMM YYYY, H:mm'')],
     l_calendar = [(''sameDay'', CalText ([0x5B, 0x75, 0xE8] @ js ''i a] LT'')),
       (''nextDay'', CalText (js ''[deman a] LT'')),
       (''nextWeek'', CalText (js ''dddd [a] LT'')),
       (''lastDay'', CalText ([0x5B, 0x69, 0xE8] @ js ''r a] LT'')),
       (''lastWeek'', CalText (js ''dddd [passat a] LT'')),
       (''sameElse'', CalText (js ''L''))],
     l_relative_time = [(''future'', RelText [0x64, 0x27, 0x61, 0x71, 0x75, 0xED, 0x20, 0x25,
         0x73]),
       (''past'', RelText (js ''fa %s'')),
       (''s'', RelText (js ''unas segondas'')),
       (''ss'', RelText (js ''%d segondas'')),
       (''m'', RelText (js ''una minuta'')),
       (''mm'', RelText (js ''%d minutas'')),
       (''h'', RelText (js ''una ora'')),
       (''hh'', RelText (js ''%d oras'')),
       (''d'', RelText (js ''un jorn'')),
       (''dd'', RelText (js ''%d jorns'')),
       (''M'', RelText (js ''un mes'')),
       (''MM'', RelText (js ''%d meses'')),
       (''y'', RelText (js ''un an'')),
       (''yy'', RelText (js ''%d ans''))],
     l_ordinal = Some (OrdFun oc_lnc_ordinal),
     l_meridiem = None,
     l_is_pm = None,
     l_meridiem_hour = None,
     l_preparse = None,
     l_postformat = None,
     l_week = Some (1, 4),
     l_meridiem_parse = None,
     l_ordinal_parse = Some (Regex False (Seq [digits_1_2, Alt [Lit (js ''r''), Lit (js ''n''), Lit
         (js ''t''), Lit [0xE8], Lit (js ''a'')]])),
     l_parse = [],
     l_months_parse_exact = True,
     l_weekdays_parse_exact = True,
     l_invalid_date = None,
     l_eras = [],
     l_era_year = None \<rparr>"

text \<open>\<^verbatim>\<open>pa-in\<close> (line 352).\<close>

definition pa_in_meridiem :: "nat \<Rightarrow> nat \<Rightarrow> bool \<Rightarrow> js" where
  "pa_in_meridiem hour minute isLower = (if hour < 4 then [0xA30, 0xA3E, 0xA24]
      else if hour < 10 then [0xA38, 0xA35, 0xA47, 0xA30]
      else if hour < 17 then [0xA26, 0xA41, 0xA2A, 0xA39, 0xA3F, 0xA30]
      else if hour < 20 then [0xA38, 0xA3C, 0xA3E, 0xA2E]
      else [0xA30, 0xA3E, 0xA24])"

definition pa_in_meridiemHour :: "nat \<Rightarrow> js \<Rightarrow> nat option" where
  "pa_in_meridiemHour hour meridiem = (let hour = (if hour = 12 then 0
      else hour) in (if meridiem = [0xA30, 0xA3E, 0xA24] then Some (if hour < 4 then hour
      else hour + 12)
      else if meridiem = [0xA38, 0xA35, 0xA47, 0xA30] then Some hour
      else if meridiem = [0xA26, 0xA41, 0xA2A, 0xA39, 0xA3F, 0xA30] then Some (if hour \<ge> 10 then
          hour
      else hour + 12)
      else if meridiem = [0xA38, 0xA3C, 0xA3E, 0xA2E] then Some (hour + 12)
      else None))"

definition pa_in_preparse :: "js \<Rightarrow> js" where
  "pa_in_preparse s = js_replace_units [(0xA67, [0x31]), (0xA68, [0x32]), (0xA69, [0x33]), (0xA6A,
      [0x34]), (0xA6B, [0x35]), (0xA6C, [0x36]), (0xA6D, [0x37]), (0xA6E, [0x38]), (0xA6F, [0x39]),
      (0xA66, [0x30])] s"

definition pa_in_postformat :: "js \<Rightarrow> js" where
  "pa_in_postformat s = js_replace_units [(0x30, [0xA66]), (0x31, [0xA67]), (0x32, [0xA68]), (0x33,
      [0xA69]), (0x34, [0xA6A]), (0x35, [0xA6B]), (0x36, [0xA6C]), (0x37, [0xA6D]), (0x38, [0xA6E]),
      (0x39, [0xA6F])] s"

definition locale_pa_in :: moment_locale where
  "locale_pa_in = \<lparr>
     l_abbr = ''pa-in'',
     l_months = Names [[0xA1C, 0xA28, 0xA35, 0xA30, 0xA40], [0xA2B, 0xA3C, 0xA30, 0xA35, 0xA30,
         0xA40], [0xA2E, 0xA3E, 0xA30, 0xA1A], [0xA05, 0xA2A, 0xA4D, 0xA30, 0xA48, 0xA32], [0xA2E,
         0xA08], [0xA1C, 0xA42, 0xA28], [0xA1C, 0xA41, 0xA32, 0xA3E, 0xA08], [0xA05, 0xA17, 0xA38,
         0xA24], [0xA38, 0xA24, 0xA70, 0xA2C, 0xA30], [0xA05, 0xA15, 0xA24, 0xA42, 0xA2C, 0xA30],
         [0xA28, 0xA35, 0xA70, 0xA2C, 0xA30], [0xA26, 0xA38, 0xA70, 0xA2C, 0xA30]],
     l_months_short = Names [[0xA1C, 0xA28, 0xA35, 0xA30, 0xA40], [0xA2B, 0xA3C, 0xA30, 0xA35,
         0xA30, 0xA40], [0xA2E, 0xA3E, 0xA30, 0xA1A], [0xA05, 0xA2A, 0xA4D, 0xA30, 0xA48, 0xA32],
         [0xA2E, 0xA08], [0xA1C, 0xA42, 0xA28], [0xA1C, 0xA41, 0xA32, 0xA3E, 0xA08], [0xA05, 0xA17,
         0xA38, 0xA24], [0xA38, 0xA24, 0xA70, 0xA2C, 0xA30], [0xA05, 0xA15, 0xA24, 0xA42, 0xA2C,
         0xA30], [0xA28, 0xA35, 0xA70, 0xA2C, 0xA30], [0xA26, 0xA38, 0xA70, 0xA2C, 0xA30]],
     l_weekdays = Names [[0xA10, 0xA24, 0xA35, 0xA3E, 0xA30], [0xA38, 0xA4B, 0xA2E, 0xA35, 0xA3E,
         0xA30], [0xA2E, 0xA70, 0xA17, 0xA32, 0xA35, 0xA3E, 0xA30], [0xA2C, 0xA41, 0xA27, 0xA35,
         0xA3E, 0xA30], [0xA35, 0xA40, 0xA30, 0xA35, 0xA3E, 0xA30], [0xA38, 0xA3C, 0xA41, 0xA71,
         0xA15, 0xA30, 0xA35, 0xA3E, 0xA30], [0xA38, 0xA3C, 0xA28, 0xA40, 0xA1A, 0xA30, 0xA35,
         0xA3E, 0xA30]],
     l_weekdays_short = [[0xA10, 0xA24], [0xA38, 0xA4B, 0xA2E], [0xA2E, 0xA70, 0xA17, 0xA32],
         [0xA2C, 0xA41, 0xA27], [0xA35, 0xA40, 0xA30], [0xA38, 0xA3C, 0xA41, 0xA15, 0xA30], [0xA38,
         0xA3C, 0xA28, 0xA40]],
     l_weekdays_min = [[0xA10, 0xA24], [0xA38, 0xA4B, 0xA2E], [0xA2E, 0xA70, 0xA17, 0xA32], [0xA2C,
         0xA41, 0xA27], [0xA35, 0xA40, 0xA30], [0xA38, 0xA3C, 0xA41, 0xA15, 0xA30], [0xA38, 0xA3C,
         0xA28, 0xA40]],
     l_long_date_format = [(''LT'', js ''A h:mm '' @ [0xA35, 0xA1C, 0xA47]),
       (''LTS'', js ''A h:mm:ss '' @ [0xA35, 0xA1C, 0xA47]),
       (''L'', js ''DD/MM/YYYY''),
       (''LL'', js ''D MMMM YYYY''),
       (''LLL'', js ''D MMMM YYYY, A h:mm '' @ [0xA35, 0xA1C, 0xA47]),
       (''LLLL'', js ''dddd, D MMMM YYYY, A h:mm '' @ [0xA35, 0xA1C, 0xA47])],
     l_calendar = [(''sameDay'', CalText ([0x5B, 0xA05, 0xA1C] @ js ''] LT'')),
       (''nextDay'', CalText ([0x5B, 0xA15, 0xA32] @ js ''] LT'')),
       (''nextWeek'', CalText ([0x5B, 0xA05, 0xA17, 0xA32, 0xA3E] @ js ''] dddd, LT'')),
       (''lastDay'', CalText ([0x5B, 0xA15, 0xA32] @ js ''] LT'')),
       (''lastWeek'', CalText ([0x5B, 0xA2A, 0xA3F, 0xA1B, 0xA32, 0xA47] @ js ''] dddd, LT'')),
       (''sameElse'', CalText (js ''L''))],
     l_relative_time = [(''future'', RelText [0x25, 0x73, 0x20, 0xA35, 0xA3F, 0xA71, 0xA1A]),
       (''past'', RelText [0x25, 0x73, 0x20, 0xA2A, 0xA3F, 0xA1B, 0xA32, 0xA47]),
       (''s'', RelText [0xA15, 0xA41, 0xA1D, 0x20, 0xA38, 0xA15, 0xA3F, 0xA70, 0xA1F]),
       (''ss'', RelText [0x25, 0x64, 0x20, 0xA38, 0xA15, 0xA3F, 0xA70, 0xA1F]),
       (''m'', RelText [0xA07, 0xA15, 0x20, 0xA2E, 0xA3F, 0xA70, 0xA1F]),
       (''mm'', RelText [0x25, 0x64, 0x20, 0xA2E, 0xA3F, 0xA70, 0xA1F]),
       (''h'', RelText [0xA07, 0xA71, 0xA15, 0x20, 0xA18, 0xA70, 0xA1F, 0xA3E]),
       (''hh'', RelText [0x25, 0x64, 0x20, 0xA18, 0xA70, 0xA1F, 0xA47]),
       (''d'', RelText [0xA07, 0xA71, 0xA15, 0x20, 0xA26, 0xA3F, 0xA28]),
       (''dd'', RelText [0x25, 0x64, 0x20, 0xA26, 0xA3F, 0xA28]),
       (''M'', RelText [0xA07, 0xA71, 0xA15, 0x20, 0xA2E, 0xA39, 0xA40, 0xA28, 0xA3E]),
       (''MM'', RelText [0x25, 0x64, 0x20, 0xA2E, 0xA39, 0xA40, 0xA28, 0xA47]),
       (''y'', RelText [0xA07, 0xA71, 0xA15, 0x20, 0xA38, 0xA3E, 0xA32]),
       (''yy'', RelText [0x25, 0x64, 0x20, 0xA38, 0xA3E, 0xA32])],
     l_ordinal = None,
     l_meridiem = Some pa_in_meridiem,
     l_is_pm = None,
     l_meridiem_hour = Some pa_in_meridiemHour,
     l_preparse = Some pa_in_preparse,
     l_postformat = Some pa_in_postformat,
     l_week = Some (0, 6),
     l_meridiem_parse = Some (Regex False (Alt [Lit [0xA30, 0xA3E, 0xA24], Lit [0xA38, 0xA35, 0xA47,
         0xA30], Lit [0xA26, 0xA41, 0xA2A, 0xA39, 0xA3F, 0xA30], Lit [0xA38, 0xA3C, 0xA3E,
         0xA2E]])),
     l_ordinal_parse = None,
     l_parse = [],
     l_months_parse_exact = False,
     l_weekdays_parse_exact = False,
     l_invalid_date = None,
     l_eras = [],
     l_era_year = None \<rparr>"

text \<open>\<^verbatim>\<open>pl\<close> (line 227).\<close>

definition pl_r :: "nat \<Rightarrow> bool" where
  "pl_r number \<longleftrightarrow> (number mod 10 < 5 \<and> number mod 10 > 1) \<and> ((number)
      div 10) mod 10 \<noteq> 1"

definition pl_nextWeek :: "nat \<Rightarrow> nat \<Rightarrow> bool \<Rightarrow> js option" where
  "pl_nextWeek day hours sameWeek = Some (if day = 0 then js ''[W niedziel'' @ [0x119] @ js
      '' o] LT''
      else if day = 2 then js ''[We wtorek o] LT''
      else if day = 3 then [0x5B, 0x57, 0x20, 0x15B, 0x72, 0x6F, 0x64, 0x119] @ js '' o] LT''
      else if day = 6 then js ''[W sobot'' @ [0x119] @ js '' o] LT''
      else js ''[W] dddd [o] LT'')"

definition pl_lastWeek :: "nat \<Rightarrow> nat \<Rightarrow> bool \<Rightarrow> js option" where
  "pl_lastWeek day hours sameWeek = Some (if day = 0 then js ''[W zesz'' @ [0x142, 0x105] @ js
      '' niedziel'' @ [0x119] @ js '' o] LT''
      else if day = 3 then js ''[W zesz'' @ [0x142, 0x105, 0x20, 0x15B, 0x72, 0x6F, 0x64, 0x119] @
          js '' o] LT''
      else if day = 6 then js ''[W zesz'' @ [0x142, 0x105] @ js '' sobot'' @ [0x119] @ js '' o] LT''
      else js ''[W zesz'' @ [0x142] @ js ''y] dddd [o] LT'')"

definition pl_rel_a :: "nat \<Rightarrow> bool \<Rightarrow> string \<Rightarrow> bool \<Rightarrow>
    js option" where
  "pl_rel_a number withoutSuffix key isFuture = (let i = jnum number @ js '' '' in (if key = ''ss''
      then Some (i @ (if pl_r number then js ''sekundy''
      else js ''sekund''))
      else if key = ''m'' then Some (if withoutSuffix then js ''minuta''
      else js ''minut'' @ [0x119])
      else if key = ''mm'' then Some (i @ (if pl_r number then js ''minuty''
      else js ''minut''))
      else if key = ''h'' then Some (if withoutSuffix then js ''godzina''
      else js ''godzin'' @ [0x119])
      else if key = ''hh'' then Some (i @ (if pl_r number then js ''godziny''
      else js ''godzin''))
      else if key = ''ww'' then Some (i @ (if pl_r number then js ''tygodnie''
      else js ''tygodni''))
      else if key = ''MM'' then Some (i @ (if pl_r number then js ''miesi'' @ [0x105, 0x63, 0x65]
      else js ''miesi'' @ [0x119, 0x63, 0x79]))
      else if key = ''yy'' then Some (i @ (if pl_r number then js ''lata''
      else js ''lat''))
      else None))"

definition pl_rx_i :: "regex list" where
  "pl_rx_i = [Regex True (Seq [Start, Lit (js ''sty'')]), Regex True (Seq [Start, Lit (js
      ''lut'')]), Regex True (Seq [Start, Lit (js ''mar'')]), Regex True (Seq [Start, Lit (js
      ''kwi'')]), Regex True (Seq [Start, Lit (js ''maj'')]), Regex True (Seq [Start, Lit (js
      ''cze'')]), Regex True (Seq [Start, Lit (js ''lip'')]), Regex True (Seq [Start, Lit (js
      ''sie'')]), Regex True (Seq [Start, Lit (js ''wrz'')]), Regex True (Seq [Start, Lit [0x70,
      0x61, 0x17A]]), Regex True (Seq [Start, Lit (js ''lis'')]), Regex True (Seq [Start, Lit (js
      ''gru'')])]"

definition locale_pl :: moment_locale where
  "locale_pl = \<lparr>
     l_abbr = ''pl'',
     l_months = NamesAlt [js ''stycze'' @ [0x144], js ''luty'', js ''marzec'', js ''kwiecie'' @
         [0x144], js ''maj'', js ''czerwiec'', js ''lipiec'', js ''sierpie'' @ [0x144], js
         ''wrzesie'' @ [0x144], [0x70, 0x61, 0x17A] @ js ''dziernik'', js ''listopad'', js
         ''grudzie'' @ [0x144]] [js ''stycznia'', js ''lutego'', js ''marca'', js ''kwietnia'', js
         ''maja'', js ''czerwca'', js ''lipca'', js ''sierpnia'', js ''wrze'' @ [0x15B, 0x6E, 0x69,
         0x61], [0x70, 0x61, 0x17A] @ js ''dziernika'', js ''listopada'', js ''grudnia'']
       (Some (Regex False (Lit (js ''D MMMM'')))),
     l_months_short = Names [js ''sty'', js ''lut'', js ''mar'', js ''kwi'', js ''maj'', js ''cze'',
         js ''lip'', js ''sie'', js ''wrz'', [0x70, 0x61, 0x17A], js ''lis'', js ''gru''],
     l_weekdays = Names [js ''niedziela'', js ''poniedzia'' @ [0x142, 0x65, 0x6B], js ''wtorek'',
         [0x15B] @ js ''roda'', js ''czwartek'', [0x70, 0x69, 0x105, 0x74, 0x65, 0x6B], js
         ''sobota''],
     l_weekdays_short = [js ''ndz'', js ''pon'', js ''wt'', [0x15B, 0x72], js ''czw'', js ''pt'', js
         ''sob''],
     l_weekdays_min = [js ''Nd'', js ''Pn'', js ''Wt'', [0x15A, 0x72], js ''Cz'', js ''Pt'', js
         ''So''],
     l_long_date_format = [(''LT'', js ''HH:mm''),
       (''LTS'', js ''HH:mm:ss''),
       (''L'', js ''DD.MM.YYYY''),
       (''LL'', js ''D MMMM YYYY''),
       (''LLL'', js ''D MMMM YYYY HH:mm''),
       (''LLLL'', js ''dddd, D MMMM YYYY HH:mm'')],
     l_calendar = [(''sameDay'', CalText (js ''[Dzi'' @ [0x15B] @ js '' o] LT'')),
       (''nextDay'', CalText (js ''[Jutro o] LT'')),
       (''nextWeek'', CalFun pl_nextWeek),
       (''lastDay'', CalText (js ''[Wczoraj o] LT'')),
       (''lastWeek'', CalFun pl_lastWeek),
       (''sameElse'', CalText (js ''L''))],
     l_relative_time = [(''future'', RelText (js ''za %s'')),
       (''past'', RelText (js ''%s temu'')),
       (''s'', RelText (js ''kilka sekund'')),
       (''ss'', RelNum pl_rel_a),
       (''m'', RelNum pl_rel_a),
       (''mm'', RelNum pl_rel_a),
       (''h'', RelNum pl_rel_a),
       (''hh'', RelNum pl_rel_a),
       (''d'', RelText (js ''1 dzie'' @ [0x144])),
       (''dd'', RelText (js ''%d dni'')),
       (''w'', RelText (js ''tydzie'' @ [0x144])),
       (''ww'', RelNum pl_rel_a),
       (''M'', RelText (js ''miesi'' @ [0x105, 0x63])),
       (''MM'', RelNum pl_rel_a),
       (''y'', RelText (js ''rok'')),
       (''yy'', RelNum pl_rel_a)],
     l_ordinal = Some (OrdText (js ''%d.'')),
     l_meridiem = None,
     l_is_pm = None,
     l_meridiem_hour = None,
     l_preparse = None,
     l_postformat = None,
     l_week = Some (1, 4),
     l_meridiem_parse = None,
     l_ordinal_parse = Some (Regex False (Seq [digits_1_2, Lit (js ''.'')])),
     l_parse = [(''monthsParse'', pl_rx_i), (''longMonthsParse'', pl_rx_i), (''shortMonthsParse'',
         pl_rx_i)],
     l_months_parse_exact = False,
     l_weekdays_parse_exact = False,
     l_invalid_date = None,
     l_eras = [],
     l_era_year = None \<rparr>"

text \<open>\<^verbatim>\<open>pt\<close> (line 350).\<close>

definition pt_lastWeek :: "nat \<Rightarrow> nat \<Rightarrow> bool \<Rightarrow> js option" where
  "pt_lastWeek day hours sameWeek = Some (if day = 0 \<or> day = 6 then [0x5B, 0xDA] @ js
      ''ltimo] dddd ['' @ [0xE0] @ js ''s] LT''
      else [0x5B, 0xDA] @ js ''ltima] dddd ['' @ [0xE0] @ js ''s] LT'')"

definition locale_pt :: moment_locale where
  "locale_pt = \<lparr>
     l_abbr = ''pt'',
     l_months = Names [js ''janeiro'', js ''fevereiro'', [0x6D, 0x61, 0x72, 0xE7, 0x6F], js
         ''abril'', js ''maio'', js ''junho'', js ''julho'', js ''agosto'', js ''setembro'', js
         ''outubro'', js ''novembro'', js ''dezembro''],
     l_months_short = Names [js ''jan'', js ''fev'', js ''mar'', js ''abr'', js ''mai'', js ''jun'',
         js ''jul'', js ''ago'', js ''set'', js ''out'', js ''nov'', js ''dez''],
     l_weekdays = Names [js ''Domingo'', js ''Segunda-feira'', [0x54, 0x65, 0x72, 0xE7] @ js
         ''a-feira'', js ''Quarta-feira'', js ''Quinta-feira'', js ''Sexta-feira'', [0x53, 0xE1] @
         js ''bado''],
     l_weekdays_short = [js ''Dom'', js ''Seg'', js ''Ter'', js ''Qua'', js ''Qui'', js ''Sex'',
         [0x53, 0xE1, 0x62]],
     l_weekdays_min = [js ''Do'', [0x32, 0xAA], [0x33, 0xAA], [0x34, 0xAA], [0x35, 0xAA], [0x36,
         0xAA], [0x53, 0xE1]],
     l_long_date_format = [(''LT'', js ''HH:mm''),
       (''LTS'', js ''HH:mm:ss''),
       (''L'', js ''DD/MM/YYYY''),
       (''LL'', js ''D [de] MMMM [de] YYYY''),
       (''LLL'', js ''D [de] MMMM [de] YYYY HH:mm''),
       (''LLLL'', js ''dddd, D [de] MMMM [de] YYYY HH:mm'')],
     l_calendar = [(''sameDay'', CalText (js ''[Hoje '' @ [0xE0] @ js ''s] LT'')),
       (''nextDay'', CalText (js ''[Amanh'' @ [0xE3, 0x20, 0xE0] @ js ''s] LT'')),
       (''nextWeek'', CalText (js ''dddd ['' @ [0xE0] @ js ''s] LT'')),
       (''lastDay'', CalText (js ''[Ontem '' @ [0xE0] @ js ''s] LT'')),
       (''lastWeek'', CalFun pt_lastWeek),
       (''sameElse'', CalText (js ''L''))],
     l_relative_time = [(''future'', RelText (js ''em %s'')),
       (''past'', RelText [0x68, 0xE1, 0x20, 0x25, 0x73]),
       (''s'', RelText (js ''segundos'')),
       (''ss'', RelText (js ''%d segundos'')),
       (''m'', RelText (js ''um minuto'')),
       (''mm'', RelText (js ''%d minutos'')),
       (''h'', RelText (js ''uma hora'')),
       (''hh'', RelText (js ''%d horas'')),
       (''d'', RelText (js ''um dia'')),
       (''dd'', RelText (js ''%d dias'')),
       (''w'', RelText (js ''uma semana'')),
       (''ww'', RelText (js ''%d semanas'')),
       (''M'', RelText (js ''um m'' @ [0xEA, 0x73])),
       (''MM'', RelText (js ''%d meses'')),
       (''y'', RelText (js ''um ano'')),
       (''yy'', RelText (js ''%d anos''))],
     l_ordinal = Some (OrdText [0x25, 0x64, 0xBA]),
     l_meridiem = None,
     l_is_pm = None,
     l_meridiem_hour = None,
     l_preparse = None,
     l_postformat = None,
     l_week = Some (1, 4),
     l_meridiem_parse = None,
     l_ordinal_parse = Some (Regex False (Seq [digits_1_2, Lit [0xBA]])),
     l_parse = [],
     l_months_parse_exact = False,
     l_weekdays_parse_exact = True,
     l_invalid_date = None,
     l_eras = [],
     l_era_year = None \<rparr>"

text \<open>\<^verbatim>\<open>pt-br\<close> (line 317).\<close>

definition pt_br_lastWeek :: "nat \<Rightarrow> nat \<Rightarrow> bool \<Rightarrow> js option"
    where
  "pt_br_lastWeek day hours sameWeek = Some (if day = 0 \<or> day = 6 then [0x5B, 0xDA] @ js
      ''ltimo] dddd ['' @ [0xE0] @ js ''s] LT''
      else [0x5B, 0xDA] @ js ''ltima] dddd ['' @ [0xE0] @ js ''s] LT'')"

definition locale_pt_br :: moment_locale where
  "locale_pt_br = \<lparr>
     l_abbr = ''pt-br'',
     l_months = Names [js ''janeiro'', js ''fevereiro'', [0x6D, 0x61, 0x72, 0xE7, 0x6F], js
         ''abril'', js ''maio'', js ''junho'', js ''julho'', js ''agosto'', js ''setembro'', js
         ''outubro'', js ''novembro'', js ''dezembro''],
     l_months_short = Names [js ''jan'', js ''fev'', js ''mar'', js ''abr'', js ''mai'', js ''jun'',
         js ''jul'', js ''ago'', js ''set'', js ''out'', js ''nov'', js ''dez''],
     l_weekdays = Names [js ''domingo'', js ''segunda-feira'', [0x74, 0x65, 0x72, 0xE7] @ js
         ''a-feira'', js ''quarta-feira'', js ''quinta-feira'', js ''sexta-feira'', [0x73, 0xE1] @
         js ''bado''],
     l_weekdays_short = [js ''dom'', js ''seg'', js ''ter'', js ''qua'', js ''qui'', js ''sex'',
         [0x73, 0xE1, 0x62]],
     l_weekdays_min = [js ''do'', [0x32, 0xAA], [0x33, 0xAA], [0x34, 0xAA], [0x35, 0xAA], [0x36,
         0xAA], [0x73, 0xE1]],
     l_long_date_format = [(''LT'', js ''HH:mm''),
       (''LTS'', js ''HH:mm:ss''),
       (''L'', js ''DD/MM/YYYY''),
       (''LL'', js ''D [de] MMMM [de] YYYY''),
       (''LLL'', js ''D [de] MMMM [de] YYYY ['' @ [0xE0] @ js ''s] HH:mm''),
       (''LLLL'', js ''dddd, D [de] MMMM [de] YYYY ['' @ [0xE0] @ js ''s] HH:mm'')],
     l_calendar = [(''sameDay'', CalText (js ''[Hoje '' @ [0xE0] @ js ''s] LT'')),
       (''nextDay'', CalText (js ''[Amanh'' @ [0xE3, 0x20, 0xE0] @ js ''s] LT'')),
       (''nextWeek'', CalText (js ''dddd ['' @ [0xE0] @ js ''s] LT'')),
       (''lastDay'', CalText (js ''[Ontem '' @ [0xE0] @ js ''s] LT'')),
       (''lastWeek'', CalFun pt_br_lastWeek),
       (''sameElse'', CalText (js ''L''))],
     l_relative_time = [(''future'', RelText (js ''em %s'')),
       (''past'', RelText [0x68, 0xE1, 0x20, 0x25, 0x73]),
       (''s'', RelText (js ''poucos segundos'')),
       (''ss'', RelText (js ''%d segundos'')),
       (''m'', RelText (js ''um minuto'')),
       (''mm'', RelText (js ''%d minutos'')),
       (''h'', RelText (js ''uma hora'')),
       (''hh'', RelText (js ''%d horas'')),
       (''d'', RelText (js ''um dia'')),
       (''dd'', RelText (js ''%d dias'')),
       (''M'', RelText (js ''um m'' @ [0xEA, 0x73])),
       (''MM'', RelText (js ''%d meses'')),
       (''y'', RelText (js ''um ano'')),
       (''yy'', RelText (js ''%d anos''))],
     l_ordinal = Some (OrdText [0x25, 0x64, 0xBA]),
     l_meridiem = None,
     l_is_pm = None,
     l_meridiem_hour = None,
     l_preparse = None,
     l_postformat = None,
     l_week = None,
     l_meridiem_parse = None,
     l_ordinal_parse = Some (Regex False (Seq [digits_1_2, Lit [0xBA]])),
     l_parse = [],
     l_months_parse_exact = False,
     l_weekdays_parse_exact = True,
     l_invalid_date = Some (js ''Data inv'' @ [0xE1] @ js ''lida''),
     l_eras = [],
     l_era_year = None \<rparr>"

text \<open>\<^verbatim>\<open>ro\<close> (line 247).\<close>

definition ro_rel_t :: "nat \<Rightarrow> bool \<Rightarrow> string \<Rightarrow> bool \<Rightarrow>
    js option" where
  "ro_rel_t number withoutSuffix key isFuture = (let r1 = (if number mod 100 \<ge> 20 \<or> (number
      \<ge> 100 \<and> number mod 100 = 0) then js '' de ''
      else (js '' '')) in map_option (\<lambda>x. jnum number @ r1 @ x) (map_of [(''ss'', js
          ''secunde''), (''mm'', js ''minute''), (''hh'', js ''ore''), (''dd'', js ''zile''),
          (''ww'', [0x73, 0x103, 0x70, 0x74, 0x103, 0x6D, 0xE2, 0x6E, 0x69]), (''MM'', js ''luni''),
          (''yy'', js ''ani'')] key))"

definition locale_ro :: moment_locale where
  "locale_ro = \<lparr>
     l_abbr = ''ro'',
     l_months = Names [js ''ianuarie'', js ''februarie'', js ''martie'', js ''aprilie'', js ''mai'',
         js ''iunie'', js ''iulie'', js ''august'', js ''septembrie'', js ''octombrie'', js
         ''noiembrie'', js ''decembrie''],
     l_months_short = Names [js ''ian.'', js ''feb.'', js ''mart.'', js ''apr.'', js ''mai'', js
         ''iun.'', js ''iul.'', js ''aug.'', js ''sept.'', js ''oct.'', js ''nov.'', js ''dec.''],
     l_weekdays = Names [js ''duminic'' @ [0x103], js ''luni'', [0x6D, 0x61, 0x72, 0x21B, 0x69], js
         ''miercuri'', js ''joi'', js ''vineri'', [0x73, 0xE2, 0x6D, 0x62, 0x103, 0x74, 0x103]],
     l_weekdays_short = [js ''Dum'', js ''Lun'', js ''Mar'', js ''Mie'', js ''Joi'', js ''Vin'',
         [0x53, 0xE2, 0x6D]],
     l_weekdays_min = [js ''Du'', js ''Lu'', js ''Ma'', js ''Mi'', js ''Jo'', js ''Vi'', [0x53,
         0xE2]],
     l_long_date_format = [(''LT'', js ''H:mm''),
       (''LTS'', js ''H:mm:ss''),
       (''L'', js ''DD.MM.YYYY''),
       (''LL'', js ''D MMMM YYYY''),
       (''LLL'', js ''D MMMM YYYY H:mm''),
       (''LLLL'', js ''dddd, D MMMM YYYY H:mm'')],
     l_calendar = [(''sameDay'', CalText (js ''[azi la] LT'')),
       (''nextDay'', CalText ([0x5B, 0x6D, 0xE2] @ js ''ine la] LT'')),
       (''nextWeek'', CalText (js ''dddd [la] LT'')),
       (''lastDay'', CalText (js ''[ieri la] LT'')),
       (''lastWeek'', CalText (js ''[fosta] dddd [la] LT'')),
       (''sameElse'', CalText (js ''L''))],
     l_relative_time = [(''future'', RelText (js ''peste %s'')),
       (''past'', RelText ([0x25, 0x73, 0x20, 0xEE] @ js ''n urm'' @ [0x103])),
       (''s'', RelText ([0x63, 0xE2] @ js ''teva secunde'')),
       (''ss'', RelNum ro_rel_t),
       (''m'', RelText (js ''un minut'')),
       (''mm'', RelNum ro_rel_t),
       (''h'', RelText (js ''o or'' @ [0x103])),
       (''hh'', RelNum ro_rel_t),
       (''d'', RelText (js ''o zi'')),
       (''dd'', RelNum ro_rel_t),
       (''w'', RelText [0x6F, 0x20, 0x73, 0x103, 0x70, 0x74, 0x103, 0x6D, 0xE2, 0x6E, 0x103]),
       (''ww'', RelNum ro_rel_t),
       (''M'', RelText (js ''o lun'' @ [0x103])),
       (''MM'', RelNum ro_rel_t),
       (''y'', RelText (js ''un an'')),
       (''yy'', RelNum ro_rel_t)],
     l_ordinal = None,
     l_meridiem = None,
     l_is_pm = None,
     l_meridiem_hour = None,
     l_preparse = None,
     l_postformat = None,
     l_week = Some (1, 7),
     l_meridiem_parse = None,
     l_ordinal_parse = None,
     l_parse = [],
     l_months_parse_exact = True,
     l_weekdays_parse_exact = False,
     l_invalid_date = None,
     l_eras = [],
     l_era_year = None \<rparr>"

text \<open>\<^verbatim>\<open>ru\<close> (line 239).\<close>

definition ru_t :: "js \<Rightarrow> nat \<Rightarrow> js option" where
  "ru_t word num = (let n = js_split 0x5F word in (if num mod 10 = 1 \<and> num mod 100 \<noteq> 11
      then js_nth n 0
      else if (num mod 10 \<ge> 2 \<and> num mod 10 \<le> 4) \<and> (num mod 100 < 10 \<or> num mod
          100 \<ge> 20) then js_nth n 1
      else js_nth n 2))"

definition ru_nextWeek :: "nat \<Rightarrow> nat \<Rightarrow> bool \<Rightarrow> js option" where
  "ru_nextWeek day hours sameWeek = (if sameWeek then Some (if day = 2 then [0x5B, 0x412, 0x43E] @
      js ''] dddd, ['' @ [0x432] @ js ''] LT''
      else [0x5B, 0x412] @ js ''] dddd, ['' @ [0x432] @ js ''] LT'')
      else if day = 0 then Some ([0x5B, 0x412, 0x20, 0x441, 0x43B, 0x435, 0x434, 0x443, 0x44E,
          0x449, 0x435, 0x435] @ js ''] dddd, ['' @ [0x432] @ js ''] LT'')
      else if day = 1 \<or> day = 2 \<or> day = 4 then Some ([0x5B, 0x412, 0x20, 0x441, 0x43B,
          0x435, 0x434, 0x443, 0x44E, 0x449, 0x438, 0x439] @ js ''] dddd, ['' @ [0x432] @ js
          ''] LT'')
      else if day = 3 \<or> day = 5 \<or> day = 6 then Some ([0x5B, 0x412, 0x20, 0x441, 0x43B,
          0x435, 0x434, 0x443, 0x44E, 0x449, 0x443, 0x44E] @ js ''] dddd, ['' @ [0x432] @ js
          ''] LT'')
      else None)"

definition ru_lastWeek :: "nat \<Rightarrow> nat \<Rightarrow> bool \<Rightarrow> js option" where
  "ru_lastWeek day hours sameWeek = (if sameWeek then Some (if day = 2 then [0x5B, 0x412, 0x43E] @
      js ''] dddd, ['' @ [0x432] @ js ''] LT''
      else [0x5B, 0x412] @ js ''] dddd, ['' @ [0x432] @ js ''] LT'')
      else if day = 0 then Some ([0x5B, 0x412, 0x20, 0x43F, 0x440, 0x43E, 0x448, 0x43B, 0x43E,
          0x435] @ js ''] dddd, ['' @ [0x432] @ js ''] LT'')
      else if day = 1 \<or> day = 2 \<or> day = 4 then Some ([0x5B, 0x412, 0x20, 0x43F, 0x440,
          0x43E, 0x448, 0x43B, 0x44B, 0x439] @ js ''] dddd, ['' @ [0x432] @ js ''] LT'')
      else if day = 3 \<or> day = 5 \<or> day = 6 then Some ([0x5B, 0x412, 0x20, 0x43F, 0x440,
          0x43E, 0x448, 0x43B, 0x443, 0x44E] @ js ''] dddd, ['' @ [0x432] @ js ''] LT'')
      else None)"

definition ru_rel_n :: "nat \<Rightarrow> bool \<Rightarrow> string \<Rightarrow> bool \<Rightarrow>
    js option" where
  "ru_rel_n number withoutSuffix key isFuture = (if key = ''m'' then Some (if withoutSuffix then
      [0x43C, 0x438, 0x43D, 0x443, 0x442, 0x430]
      else [0x43C, 0x438, 0x43D, 0x443, 0x442, 0x443])
      else map_option (\<lambda>x. jnum number @ js '' '' @ x) (Option.bind (map_of [(''ss'', (if
          withoutSuffix then [0x441, 0x435, 0x43A, 0x443, 0x43D, 0x434, 0x430, 0x5F, 0x441, 0x435,
          0x43A, 0x443, 0x43D, 0x434, 0x44B, 0x5F, 0x441, 0x435, 0x43A, 0x443, 0x43D, 0x434]
      else [0x441, 0x435, 0x43A, 0x443, 0x43D, 0x434, 0x443, 0x5F, 0x441, 0x435, 0x43A, 0x443,
          0x43D, 0x434, 0x44B, 0x5F, 0x441, 0x435, 0x43A, 0x443, 0x43D, 0x434])), (''mm'', (if
          withoutSuffix then [0x43C, 0x438, 0x43D, 0x443, 0x442, 0x430, 0x5F, 0x43C, 0x438, 0x43D,
          0x443, 0x442, 0x44B, 0x5F, 0x43C, 0x438, 0x43D, 0x443, 0x442]
      else [0x43C, 0x438, 0x43D, 0x443, 0x442, 0x443, 0x5F, 0x43C, 0x438, 0x43D, 0x443, 0x442,
          0x44B, 0x5F, 0x43C, 0x438, 0x43D, 0x443, 0x442])), (''hh'', [0x447, 0x430, 0x441, 0x5F,
          0x447, 0x430, 0x441, 0x430, 0x5F, 0x447, 0x430, 0x441, 0x43E, 0x432]), (''dd'', [0x434,
          0x435, 0x43D, 0x44C, 0x5F, 0x434, 0x43D, 0x44F, 0x5F, 0x434, 0x43D, 0x435, 0x439]),
          (''ww'', [0x43D, 0x435, 0x434, 0x435, 0x43B, 0x44F, 0x5F, 0x43D, 0x435, 0x434, 0x435,
          0x43B, 0x438, 0x5F, 0x43D, 0x435, 0x434, 0x435, 0x43B, 0x44C]), (''MM'', [0x43C, 0x435,
          0x441, 0x44F, 0x446, 0x5F, 0x43C, 0x435, 0x441, 0x44F, 0x446, 0x430, 0x5F, 0x43C, 0x435,
          0x441, 0x44F, 0x446, 0x435, 0x432]), (''yy'', [0x433, 0x43E, 0x434, 0x5F, 0x433, 0x43E,
          0x434, 0x430, 0x5F, 0x43B, 0x435, 0x442])] key) (\<lambda>x. ru_t x number)))"

definition ru_ordinal :: "nat \<Rightarrow> string \<Rightarrow> js option" where
  "ru_ordinal number period = Some (if period = ''M'' \<or> period = ''d'' \<or> period = ''DDD''
      then jnum number @ [0x2D, 0x439]
      else if period = ''D'' then jnum number @ [0x2D, 0x433, 0x43E]
      else if period = ''w'' \<or> period = ''W'' then jnum number @ [0x2D, 0x44F]
      else jnum number)"

definition ru_meridiem :: "nat \<Rightarrow> nat \<Rightarrow> bool \<Rightarrow> js" where
  "ru_meridiem hour minute isLower = (if hour < 4 then [0x43D, 0x43E, 0x447, 0x438]
      else if hour < 12 then [0x443, 0x442, 0x440, 0x430]
      else if hour < 17 then [0x434, 0x43D, 0x44F]
      else [0x432, 0x435, 0x447, 0x435, 0x440, 0x430])"

definition ru_isPM :: "js \<Rightarrow> bool" where
  "ru_isPM input \<longleftrightarrow> input \<in> set [[0x434, 0x43D, 0x44F], [0x432, 0x435, 0x447,
      0x435, 0x440, 0x430]]"

definition ru_rx_i :: "regex list" where
  "ru_rx_i = [Regex True (Seq [Start, Lit [0x44F, 0x43D, 0x432]]), Regex True (Seq [Start, Lit
      [0x444, 0x435, 0x432]]), Regex True (Seq [Start, Lit [0x43C, 0x430, 0x440]]), Regex True (Seq
      [Start, Lit [0x430, 0x43F, 0x440]]), Regex True (Seq [Start, Lit [0x43C, 0x430], Cls [(0x439,
      0x439), (0x44F, 0x44F)]]), Regex True (Seq [Start, Lit [0x438, 0x44E, 0x43D]]), Regex True
      (Seq [Start, Lit [0x438, 0x44E, 0x43B]]), Regex True (Seq [Start, Lit [0x430, 0x432, 0x433]]),
      Regex True (Seq [Start, Lit [0x441, 0x435, 0x43D]]), Regex True (Seq [Start, Lit [0x43E,
      0x43A, 0x442]]), Regex True (Seq [Start, Lit [0x43D, 0x43E, 0x44F]]), Regex True (Seq [Start,
      Lit [0x434, 0x435, 0x43A]])]"

definition locale_ru :: moment_locale where
  "locale_ru = \<lparr>
     l_abbr = ''ru'',
     l_months = NamesAlt [[0x44F, 0x43D, 0x432, 0x430, 0x440, 0x44C], [0x444, 0x435, 0x432, 0x440,
         0x430, 0x43B, 0x44C], [0x43C, 0x430, 0x440, 0x442], [0x430, 0x43F, 0x440, 0x435, 0x43B,
         0x44C], [0x43C, 0x430, 0x439], [0x438, 0x44E, 0x43D, 0x44C], [0x438, 0x44E, 0x43B, 0x44C],
         [0x430, 0x432, 0x433, 0x443, 0x441, 0x442], [0x441, 0x435, 0x43D, 0x442, 0x44F, 0x431,
         0x440, 0x44C], [0x43E, 0x43A, 0x442, 0x44F, 0x431, 0x440, 0x44C], [0x43D, 0x43E, 0x44F,
         0x431, 0x440, 0x44C], [0x434, 0x435, 0x43A, 0x430, 0x431, 0x440, 0x44C]] [[0x44F, 0x43D,
         0x432, 0x430, 0x440, 0x44F], [0x444, 0x435, 0x432, 0x440, 0x430, 0x43B, 0x44F], [0x43C,
         0x430, 0x440, 0x442, 0x430], [0x430, 0x43F, 0x440, 0x435, 0x43B, 0x44F], [0x43C, 0x430,
         0x44F], [0x438, 0x44E, 0x43D, 0x44F], [0x438, 0x44E, 0x43B, 0x44F], [0x430, 0x432, 0x433,
         0x443, 0x441, 0x442, 0x430], [0x441, 0x435, 0x43D, 0x442, 0x44F, 0x431, 0x440, 0x44F],
         [0x43E, 0x43A, 0x442, 0x44F, 0x431, 0x440, 0x44F], [0x43D, 0x43E, 0x44F, 0x431, 0x440,
         0x44F], [0x434, 0x435, 0x43A, 0x430, 0x431, 0x440, 0x44F]] None,
     l_months_short = NamesAlt [[0x44F, 0x43D, 0x432, 0x2E], [0x444, 0x435, 0x432, 0x440, 0x2E],
         [0x43C, 0x430, 0x440, 0x442], [0x430, 0x43F, 0x440, 0x2E], [0x43C, 0x430, 0x439], [0x438,
         0x44E, 0x43D, 0x44C], [0x438, 0x44E, 0x43B, 0x44C], [0x430, 0x432, 0x433, 0x2E], [0x441,
         0x435, 0x43D, 0x442, 0x2E], [0x43E, 0x43A, 0x442, 0x2E], [0x43D, 0x43E, 0x44F, 0x431,
         0x2E], [0x434, 0x435, 0x43A, 0x2E]] [[0x44F, 0x43D, 0x432, 0x2E], [0x444, 0x435, 0x432,
         0x440, 0x2E], [0x43C, 0x430, 0x440, 0x2E], [0x430, 0x43F, 0x440, 0x2E], [0x43C, 0x430,
         0x44F], [0x438, 0x44E, 0x43D, 0x44F], [0x438, 0x44E, 0x43B, 0x44F], [0x430, 0x432, 0x433,
         0x2E], [0x441, 0x435, 0x43D, 0x442, 0x2E], [0x43E, 0x43A, 0x442, 0x2E], [0x43D, 0x43E,
         0x44F, 0x431, 0x2E], [0x434, 0x435, 0x43A, 0x2E]] None,
     l_weekdays = NamesAlt [[0x432, 0x43E, 0x441, 0x43A, 0x440, 0x435, 0x441, 0x435, 0x43D, 0x44C,
         0x435], [0x43F, 0x43E, 0x43D, 0x435, 0x434, 0x435, 0x43B, 0x44C, 0x43D, 0x438, 0x43A],
         [0x432, 0x442, 0x43E, 0x440, 0x43D, 0x438, 0x43A], [0x441, 0x440, 0x435, 0x434, 0x430],
         [0x447, 0x435, 0x442, 0x432, 0x435, 0x440, 0x433], [0x43F, 0x44F, 0x442, 0x43D, 0x438,
         0x446, 0x430], [0x441, 0x443, 0x431, 0x431, 0x43E, 0x442, 0x430]] [[0x432, 0x43E, 0x441,
         0x43A, 0x440, 0x435, 0x441, 0x435, 0x43D, 0x44C, 0x435], [0x43F, 0x43E, 0x43D, 0x435,
         0x434, 0x435, 0x43B, 0x44C, 0x43D, 0x438, 0x43A], [0x432, 0x442, 0x43E, 0x440, 0x43D,
         0x438, 0x43A], [0x441, 0x440, 0x435, 0x434, 0x443], [0x447, 0x435, 0x442, 0x432, 0x435,
         0x440, 0x433], [0x43F, 0x44F, 0x442, 0x43D, 0x438, 0x446, 0x443], [0x441, 0x443, 0x431,
         0x431, 0x43E, 0x442, 0x443]]
       (Some (Regex False (Seq [Lit (js ''[''), Opt (Lit (js '' '')), Cls [(0x412, 0x412), (0x432,
           0x432)], Opt (Lit (js '' '')), Opt (Alt [Lit [0x43F, 0x440, 0x43E, 0x448, 0x43B, 0x443,
           0x44E], Lit [0x441, 0x43B, 0x435, 0x434, 0x443, 0x44E, 0x449, 0x443, 0x44E], Lit [0x44D,
           0x442, 0x443]]), Opt (Lit (js '' '')), Lit (js '']''), Opt (Lit (js '' '')), Lit (js
           ''dddd'')]))),
     l_weekdays_short = [[0x432, 0x441], [0x43F, 0x43D], [0x432, 0x442], [0x441, 0x440], [0x447,
         0x442], [0x43F, 0x442], [0x441, 0x431]],
     l_weekdays_min = [[0x432, 0x441], [0x43F, 0x43D], [0x432, 0x442], [0x441, 0x440], [0x447,
         0x442], [0x43F, 0x442], [0x441, 0x431]],
     l_long_date_format = [(''LT'', js ''H:mm''),
       (''LTS'', js ''H:mm:ss''),
       (''L'', js ''DD.MM.YYYY''),
       (''LL'', js ''D MMMM YYYY '' @ [0x433, 0x2E]),
       (''LLL'', js ''D MMMM YYYY '' @ [0x433] @ js ''., H:mm''),
       (''LLLL'', js ''dddd, D MMMM YYYY '' @ [0x433] @ js ''., H:mm'')],
     l_calendar = [(''sameDay'', CalText ([0x5B, 0x421, 0x435, 0x433, 0x43E, 0x434, 0x43D, 0x44F,
         0x2C, 0x20, 0x432] @ js ''] LT'')),
       (''nextDay'', CalText ([0x5B, 0x417, 0x430, 0x432, 0x442, 0x440, 0x430, 0x2C, 0x20, 0x432] @
           js ''] LT'')),
       (''lastDay'', CalText ([0x5B, 0x412, 0x447, 0x435, 0x440, 0x430, 0x2C, 0x20, 0x432] @ js
           ''] LT'')),
       (''nextWeek'', CalFun ru_nextWeek),
       (''lastWeek'', CalFun ru_lastWeek),
       (''sameElse'', CalText (js ''L''))],
     l_relative_time = [(''future'', RelText [0x447, 0x435, 0x440, 0x435, 0x437, 0x20, 0x25, 0x73]),
       (''past'', RelText [0x25, 0x73, 0x20, 0x43D, 0x430, 0x437, 0x430, 0x434]),
       (''s'', RelText [0x43D, 0x435, 0x441, 0x43A, 0x43E, 0x43B, 0x44C, 0x43A, 0x43E, 0x20, 0x441,
           0x435, 0x43A, 0x443, 0x43D, 0x434]),
       (''ss'', RelNum ru_rel_n),
       (''m'', RelNum ru_rel_n),
       (''mm'', RelNum ru_rel_n),
       (''h'', RelText [0x447, 0x430, 0x441]),
       (''hh'', RelNum ru_rel_n),
       (''d'', RelText [0x434, 0x435, 0x43D, 0x44C]),
       (''dd'', RelNum ru_rel_n),
       (''w'', RelText [0x43D, 0x435, 0x434, 0x435, 0x43B, 0x44F]),
       (''ww'', RelNum ru_rel_n),
       (''M'', RelText [0x43C, 0x435, 0x441, 0x44F, 0x446]),
       (''MM'', RelNum ru_rel_n),
       (''y'', RelText [0x433, 0x43E, 0x434]),
       (''yy'', RelNum ru_rel_n)],
     l_ordinal = Some (OrdFun ru_ordinal),
     l_meridiem = Some ru_meridiem,
     l_is_pm = Some ru_isPM,
     l_meridiem_hour = None,
     l_preparse = None,
     l_postformat = None,
     l_week = Some (1, 4),
     l_meridiem_parse = Some (Regex True (Alt [Lit [0x43D, 0x43E, 0x447, 0x438], Lit [0x443, 0x442,
         0x440, 0x430], Lit [0x434, 0x43D, 0x44F], Lit [0x432, 0x435, 0x447, 0x435, 0x440,
         0x430]])),
     l_ordinal_parse = Some (Regex False (Seq [digits_1_2, Lit (js ''-''), Alt [Lit [0x439], Lit
         [0x433, 0x43E], Lit [0x44F]]])),
     l_parse = [(''monthsRegex'', [Regex True (Seq [Start, Alt [Seq [Lit [0x44F, 0x43D, 0x432,
         0x430, 0x440], Cls [(0x44C, 0x44C), (0x44F, 0x44F)]], Seq [Lit [0x44F, 0x43D, 0x432], Opt
         (Lit (js ''.''))], Seq [Lit [0x444, 0x435, 0x432, 0x440, 0x430, 0x43B], Cls [(0x44C,
         0x44C), (0x44F, 0x44F)]], Seq [Lit [0x444, 0x435, 0x432], Opt (Lit [0x440]), Opt (Lit (js
         ''.''))], Seq [Lit [0x43C, 0x430, 0x440, 0x442], Opt (Lit [0x430])], Seq [Lit [0x43C,
         0x430, 0x440], Opt (Lit (js ''.''))], Seq [Lit [0x430, 0x43F, 0x440, 0x435, 0x43B], Cls
         [(0x44C, 0x44C), (0x44F, 0x44F)]], Seq [Lit [0x430, 0x43F, 0x440], Opt (Lit (js ''.''))],
         Seq [Lit [0x43C, 0x430], Cls [(0x439, 0x439), (0x44F, 0x44F)]], Seq [Lit [0x438, 0x44E,
         0x43D], Cls [(0x44C, 0x44C), (0x44F, 0x44F)]], Seq [Lit [0x438, 0x44E, 0x43D], Opt (Lit (js
         ''.''))], Seq [Lit [0x438, 0x44E, 0x43B], Cls [(0x44C, 0x44C), (0x44F, 0x44F)]], Seq [Lit
         [0x438, 0x44E, 0x43B], Opt (Lit (js ''.''))], Seq [Lit [0x430, 0x432, 0x433, 0x443, 0x441,
         0x442], Opt (Lit [0x430])], Seq [Lit [0x430, 0x432, 0x433], Opt (Lit (js ''.''))], Seq [Lit
         [0x441, 0x435, 0x43D, 0x442, 0x44F, 0x431, 0x440], Cls [(0x44C, 0x44C), (0x44F, 0x44F)]],
         Seq [Lit [0x441, 0x435, 0x43D], Opt (Lit [0x442]), Opt (Lit (js ''.''))], Seq [Lit [0x43E,
         0x43A, 0x442, 0x44F, 0x431, 0x440], Cls [(0x44C, 0x44C), (0x44F, 0x44F)]], Seq [Lit [0x43E,
         0x43A, 0x442], Opt (Lit (js ''.''))], Seq [Lit [0x43D, 0x43E, 0x44F, 0x431, 0x440], Cls
         [(0x44C, 0x44C), (0x44F, 0x44F)]], Seq [Lit [0x43D, 0x43E, 0x44F], Opt (Lit [0x431]), Opt
         (Lit (js ''.''))], Seq [Lit [0x434, 0x435, 0x43A, 0x430, 0x431, 0x440], Cls [(0x44C,
         0x44C), (0x44F, 0x44F)]], Seq [Lit [0x434, 0x435, 0x43A], Opt (Lit (js ''.''))]]])]),
         (''monthsShortRegex'', [Regex True (Seq [Start, Alt [Seq [Lit [0x44F, 0x43D, 0x432, 0x430,
         0x440], Cls [(0x44C, 0x44C), (0x44F, 0x44F)]], Seq [Lit [0x44F, 0x43D, 0x432], Opt (Lit (js
         ''.''))], Seq [Lit [0x444, 0x435, 0x432, 0x440, 0x430, 0x43B], Cls [(0x44C, 0x44C), (0x44F,
         0x44F)]], Seq [Lit [0x444, 0x435, 0x432], Opt (Lit [0x440]), Opt (Lit (js ''.''))], Seq
         [Lit [0x43C, 0x430, 0x440, 0x442], Opt (Lit [0x430])], Seq [Lit [0x43C, 0x430, 0x440], Opt
         (Lit (js ''.''))], Seq [Lit [0x430, 0x43F, 0x440, 0x435, 0x43B], Cls [(0x44C, 0x44C),
         (0x44F, 0x44F)]], Seq [Lit [0x430, 0x43F, 0x440], Opt (Lit (js ''.''))], Seq [Lit [0x43C,
         0x430], Cls [(0x439, 0x439), (0x44F, 0x44F)]], Seq [Lit [0x438, 0x44E, 0x43D], Cls [(0x44C,
         0x44C), (0x44F, 0x44F)]], Seq [Lit [0x438, 0x44E, 0x43D], Opt (Lit (js ''.''))], Seq [Lit
         [0x438, 0x44E, 0x43B], Cls [(0x44C, 0x44C), (0x44F, 0x44F)]], Seq [Lit [0x438, 0x44E,
         0x43B], Opt (Lit (js ''.''))], Seq [Lit [0x430, 0x432, 0x433, 0x443, 0x441, 0x442], Opt
         (Lit [0x430])], Seq [Lit [0x430, 0x432, 0x433], Opt (Lit (js ''.''))], Seq [Lit [0x441,
         0x435, 0x43D, 0x442, 0x44F, 0x431, 0x440], Cls [(0x44C, 0x44C), (0x44F, 0x44F)]], Seq [Lit
         [0x441, 0x435, 0x43D], Opt (Lit [0x442]), Opt (Lit (js ''.''))], Seq [Lit [0x43E, 0x43A,
         0x442, 0x44F, 0x431, 0x440], Cls [(0x44C, 0x44C), (0x44F, 0x44F)]], Seq [Lit [0x43E, 0x43A,
         0x442], Opt (Lit (js ''.''))], Seq [Lit [0x43D, 0x43E, 0x44F, 0x431, 0x440], Cls [(0x44C,
         0x44C), (0x44F, 0x44F)]], Seq [Lit [0x43D, 0x43E, 0x44F], Opt (Lit [0x431]), Opt (Lit (js
         ''.''))], Seq [Lit [0x434, 0x435, 0x43A, 0x430, 0x431, 0x440], Cls [(0x44C, 0x44C), (0x44F,
         0x44F)]], Seq [Lit [0x434, 0x435, 0x43A], Opt (Lit (js ''.''))]]])]),
         (''monthsStrictRegex'', [Regex True (Seq [Start, Alt [Seq [Lit [0x44F, 0x43D, 0x432, 0x430,
         0x440], Cls [(0x44F, 0x44F), (0x44C, 0x44C)]], Seq [Lit [0x444, 0x435, 0x432, 0x440, 0x430,
         0x43B], Cls [(0x44F, 0x44F), (0x44C, 0x44C)]], Seq [Lit [0x43C, 0x430, 0x440, 0x442], Opt
         (Lit [0x430])], Seq [Lit [0x430, 0x43F, 0x440, 0x435, 0x43B], Cls [(0x44F, 0x44F), (0x44C,
         0x44C)]], Seq [Lit [0x43C, 0x430], Cls [(0x44F, 0x44F), (0x439, 0x439)]], Seq [Lit [0x438,
         0x44E, 0x43D], Cls [(0x44F, 0x44F), (0x44C, 0x44C)]], Seq [Lit [0x438, 0x44E, 0x43B], Cls
         [(0x44F, 0x44F), (0x44C, 0x44C)]], Seq [Lit [0x430, 0x432, 0x433, 0x443, 0x441, 0x442], Opt
         (Lit [0x430])], Seq [Lit [0x441, 0x435, 0x43D, 0x442, 0x44F, 0x431, 0x440], Cls [(0x44F,
         0x44F), (0x44C, 0x44C)]], Seq [Lit [0x43E, 0x43A, 0x442, 0x44F, 0x431, 0x440], Cls [(0x44F,
         0x44F), (0x44C, 0x44C)]], Seq [Lit [0x43D, 0x43E, 0x44F, 0x431, 0x440], Cls [(0x44F,
         0x44F), (0x44C, 0x44C)]], Seq [Lit [0x434, 0x435, 0x43A, 0x430, 0x431, 0x440], Cls [(0x44F,
         0x44F), (0x44C, 0x44C)]]]])]), (''monthsShortStrictRegex'', [Regex True (Seq [Start, Alt
         [Lit [0x44F, 0x43D, 0x432, 0x2E], Seq [Lit [0x444, 0x435, 0x432], Opt (Lit [0x440]), Lit
         (js ''.'')], Seq [Lit [0x43C, 0x430, 0x440], Cls [(0x442, 0x442), (0x2E, 0x2E)]], Lit
         [0x430, 0x43F, 0x440, 0x2E], Seq [Lit [0x43C, 0x430], Cls [(0x44F, 0x44F), (0x439,
         0x439)]], Seq [Lit [0x438, 0x44E, 0x43D], Cls [(0x44C, 0x44C), (0x44F, 0x44F), (0x2E,
         0x2E)]], Seq [Lit [0x438, 0x44E, 0x43B], Cls [(0x44C, 0x44C), (0x44F, 0x44F), (0x2E,
         0x2E)]], Lit [0x430, 0x432, 0x433, 0x2E], Seq [Lit [0x441, 0x435, 0x43D], Opt (Lit
         [0x442]), Lit (js ''.'')], Lit [0x43E, 0x43A, 0x442, 0x2E], Seq [Lit [0x43D, 0x43E, 0x44F],
         Opt (Lit [0x431]), Lit (js ''.'')], Lit [0x434, 0x435, 0x43A, 0x2E]]])]), (''monthsParse'',
         ru_rx_i), (''longMonthsParse'', ru_rx_i), (''shortMonthsParse'', ru_rx_i)],
     l_months_parse_exact = False,
     l_weekdays_parse_exact = False,
     l_invalid_date = None,
     l_eras = [],
     l_era_year = None \<rparr>"

text \<open>\<^verbatim>\<open>sd\<close> (line 157).\<close>

definition sd_meridiem :: "nat \<Rightarrow> nat \<Rightarrow> bool \<Rightarrow> js" where
  "sd_meridiem hour minute isLower = (if hour < 12 then [0x635, 0x628, 0x62D]
      else [0x634, 0x627, 0x645])"

definition sd_isPM :: "js \<Rightarrow> bool" where
  "sd_isPM input \<longleftrightarrow> input = [0x634, 0x627, 0x645]"

definition sd_preparse :: "js \<Rightarrow> js" where
  "sd_preparse s = js_replace_unit 0x60C 0x2C s"

definition sd_postformat :: "js \<Rightarrow> js" where
  "sd_postformat s = js_replace_unit 0x2C 0x60C s"

definition locale_sd :: moment_locale where
  "locale_sd = \<lparr>
     l_abbr = ''sd'',
     l_months = Names [[0x62C, 0x646, 0x648, 0x631, 0x64A], [0x641, 0x64A, 0x628, 0x631, 0x648,
         0x631, 0x64A], [0x645, 0x627, 0x631, 0x686], [0x627, 0x67E, 0x631, 0x64A, 0x644], [0x645,
         0x626, 0x64A], [0x62C, 0x648, 0x646], [0x62C, 0x648, 0x644, 0x627, 0x621, 0x650], [0x622,
         0x6AF, 0x633, 0x67D], [0x633, 0x64A, 0x67E, 0x67D, 0x645, 0x628, 0x631], [0x622, 0x6AA,
         0x67D, 0x648, 0x628, 0x631], [0x646, 0x648, 0x645, 0x628, 0x631], [0x68A, 0x633, 0x645,
         0x628, 0x631]],
     l_months_short = Names [[0x62C, 0x646, 0x648, 0x631, 0x64A], [0x641, 0x64A, 0x628, 0x631,
         0x648, 0x631, 0x64A], [0x645, 0x627, 0x631, 0x686], [0x627, 0x67E, 0x631, 0x64A, 0x644],
         [0x645, 0x626, 0x64A], [0x62C, 0x648, 0x646], [0x62C, 0x648, 0x644, 0x627, 0x621, 0x650],
         [0x622, 0x6AF, 0x633, 0x67D], [0x633, 0x64A, 0x67E, 0x67D, 0x645, 0x628, 0x631], [0x622,
         0x6AA, 0x67D, 0x648, 0x628, 0x631], [0x646, 0x648, 0x645, 0x628, 0x631], [0x68A, 0x633,
         0x645, 0x628, 0x631]],
     l_weekdays = Names [[0x622, 0x686, 0x631], [0x633, 0x648, 0x645, 0x631], [0x627, 0x6B1, 0x627,
         0x631, 0x648], [0x627, 0x631, 0x628, 0x639], [0x62E, 0x645, 0x64A, 0x633], [0x62C, 0x645,
         0x639], [0x687, 0x646, 0x687, 0x631]],
     l_weekdays_short = [[0x622, 0x686, 0x631], [0x633, 0x648, 0x645, 0x631], [0x627, 0x6B1, 0x627,
         0x631, 0x648], [0x627, 0x631, 0x628, 0x639], [0x62E, 0x645, 0x64A, 0x633], [0x62C, 0x645,
         0x639], [0x687, 0x646, 0x687, 0x631]],
     l_weekdays_min = [[0x622, 0x686, 0x631], [0x633, 0x648, 0x645, 0x631], [0x627, 0x6B1, 0x627,
         0x631, 0x648], [0x627, 0x631, 0x628, 0x639], [0x62E, 0x645, 0x64A, 0x633], [0x62C, 0x645,
         0x639], [0x687, 0x646, 0x687, 0x631]],
     l_long_date_format = [(''LT'', js ''HH:mm''),
       (''LTS'', js ''HH:mm:ss''),
       (''L'', js ''DD/MM/YYYY''),
       (''LL'', js ''D MMMM YYYY''),
       (''LLL'', js ''D MMMM YYYY HH:mm''),
       (''LLLL'', js ''dddd'' @ [0x60C] @ js '' D MMMM YYYY HH:mm'')],
     l_calendar = [(''sameDay'', CalText ([0x5B, 0x627, 0x684] @ js ''] LT'')),
       (''nextDay'', CalText ([0x5B, 0x633, 0x680, 0x627, 0x6BB, 0x64A] @ js ''] LT'')),
       (''nextWeek'', CalText (js ''dddd ['' @ [0x627, 0x6B3, 0x64A, 0x646, 0x20, 0x647, 0x641,
           0x62A, 0x64A, 0x20, 0x62A, 0x64A] @ js ''] LT'')),
       (''lastDay'', CalText ([0x5B, 0x6AA, 0x627, 0x644, 0x647, 0x647] @ js ''] LT'')),
       (''lastWeek'', CalText ([0x5B, 0x6AF, 0x632, 0x631, 0x64A, 0x644, 0x20, 0x647, 0x641, 0x62A,
           0x64A] @ js ''] dddd ['' @ [0x62A, 0x64A] @ js ''] LT'')),
       (''sameElse'', CalText (js ''L''))],
     l_relative_time = [(''future'', RelText [0x25, 0x73, 0x20, 0x67E, 0x648, 0x621]),
       (''past'', RelText [0x25, 0x73, 0x20, 0x627, 0x6B3]),
       (''s'', RelText [0x686, 0x646, 0x62F, 0x20, 0x633, 0x64A, 0x6AA, 0x646, 0x68A]),
       (''ss'', RelText [0x25, 0x64, 0x20, 0x633, 0x64A, 0x6AA, 0x646, 0x68A]),
       (''m'', RelText [0x647, 0x6AA, 0x20, 0x645, 0x646, 0x67D]),
       (''mm'', RelText [0x25, 0x64, 0x20, 0x645, 0x646, 0x67D]),
       (''h'', RelText [0x647, 0x6AA, 0x20, 0x6AA, 0x644, 0x627, 0x6AA]),
       (''hh'', RelText [0x25, 0x64, 0x20, 0x6AA, 0x644, 0x627, 0x6AA]),
       (''d'', RelText [0x647, 0x6AA, 0x20, 0x68F, 0x64A, 0x646, 0x647, 0x646]),
       (''dd'', RelText [0x25, 0x64, 0x20, 0x68F, 0x64A, 0x646, 0x647, 0x646]),
       (''M'', RelText [0x647, 0x6AA, 0x20, 0x645, 0x647, 0x64A, 0x646, 0x648]),
       (''MM'', RelText [0x25, 0x64, 0x20, 0x645, 0x647, 0x64A, 0x646, 0x627]),
       (''y'', RelText [0x647, 0x6AA, 0x20, 0x633, 0x627, 0x644]),
       (''yy'', RelText [0x25, 0x64, 0x20, 0x633, 0x627, 0x644])],
     l_ordinal = None,
     l_meridiem = Some sd_meridiem,
     l_is_pm = Some sd_isPM,
     l_meridiem_hour = None,
     l_preparse = Some sd_preparse,
     l_postformat = Some sd_postformat,
     l_week = Some (1, 4),
     l_meridiem_parse = Some (Regex False (Alt [Lit [0x635, 0x628, 0x62D], Lit [0x634, 0x627,
         0x645]])),
     l_ordinal_parse = None,
     l_parse = [],
     l_months_parse_exact = False,
     l_weekdays_parse_exact = False,
     l_invalid_date = None,
     l_eras = [],
     l_era_year = None \<rparr>"

text \<open>\<^verbatim>\<open>se\<close> (line 366).\<close>

definition locale_se :: moment_locale where
  "locale_se = \<lparr>
     l_abbr = ''se'',
     l_months = Names [[0x6F, 0x111, 0x111] @ js ''ajagem'' @ [0xE1, 0x6E, 0x6E, 0x75], js
         ''guovvam'' @ [0xE1, 0x6E, 0x6E, 0x75], js ''njuk'' @ [0x10D, 0x61, 0x6D, 0xE1, 0x6E, 0x6E,
         0x75], [0x63, 0x75, 0x6F, 0x14B, 0x6F, 0x6D, 0xE1, 0x6E, 0x6E, 0x75], js ''miessem'' @
         [0xE1, 0x6E, 0x6E, 0x75], js ''geassem'' @ [0xE1, 0x6E, 0x6E, 0x75], js ''suoidnem'' @
         [0xE1, 0x6E, 0x6E, 0x75], js ''borgem'' @ [0xE1, 0x6E, 0x6E, 0x75], [0x10D, 0x61, 0x6B,
         0x10D, 0x61, 0x6D, 0xE1, 0x6E, 0x6E, 0x75], js ''golggotm'' @ [0xE1, 0x6E, 0x6E, 0x75],
         [0x73, 0x6B, 0xE1] @ js ''bmam'' @ [0xE1, 0x6E, 0x6E, 0x75], js ''juovlam'' @ [0xE1, 0x6E,
         0x6E, 0x75]],
     l_months_short = Names [[0x6F, 0x111, 0x111, 0x6A], js ''guov'', js ''njuk'', js ''cuo'', js
         ''mies'', js ''geas'', js ''suoi'', js ''borg'', [0x10D, 0x61, 0x6B, 0x10D], js ''golg'',
         [0x73, 0x6B, 0xE1, 0x62], js ''juov''],
     l_weekdays = Names [js ''sotnabeaivi'', js ''vuoss'' @ [0xE1, 0x72, 0x67, 0x61], [0x6D, 0x61,
         0x14B, 0x14B, 0x65, 0x62, 0xE1, 0x72, 0x67, 0x61], js ''gaskavahkku'', js ''duorastat'', js
         ''bearjadat'', [0x6C, 0xE1] @ js ''vvardat''],
     l_weekdays_short = [js ''sotn'', js ''vuos'', [0x6D, 0x61, 0x14B], js ''gask'', js ''duor'', js
         ''bear'', [0x6C, 0xE1, 0x76]],
     l_weekdays_min = [js ''s'', js ''v'', js ''m'', js ''g'', js ''d'', js ''b'', js ''L''],
     l_long_date_format = [(''LT'', js ''HH:mm''),
       (''LTS'', js ''HH:mm:ss''),
       (''L'', js ''DD.MM.YYYY''),
       (''LL'', js ''MMMM D. [b.] YYYY''),
       (''LLL'', js ''MMMM D. [b.] YYYY [ti.] HH:mm''),
       (''LLLL'', js ''dddd, MMMM D. [b.] YYYY [ti.] HH:mm'')],
     l_calendar = [(''sameDay'', CalText (js ''[otne ti] LT'')),
       (''nextDay'', CalText (js ''[ihttin ti] LT'')),
       (''nextWeek'', CalText (js ''dddd [ti] LT'')),
       (''lastDay'', CalText (js ''[ikte ti] LT'')),
       (''lastWeek'', CalText (js ''[ovddit] dddd [ti] LT'')),
       (''sameElse'', CalText (js ''L''))],
     l_relative_time = [(''future'', RelText (js ''%s gea'' @ [0x17E, 0x65, 0x73])),
       (''past'', RelText ([0x6D, 0x61, 0x14B] @ js ''it %s'')),
       (''s'', RelText (js ''moadde sekunddat'')),
       (''ss'', RelText (js ''%d sekunddat'')),
       (''m'', RelText (js ''okta minuhta'')),
       (''mm'', RelText (js ''%d minuhtat'')),
       (''h'', RelText (js ''okta diimmu'')),
       (''hh'', RelText (js ''%d diimmut'')),
       (''d'', RelText (js ''okta beaivi'')),
       (''dd'', RelText (js ''%d beaivvit'')),
       (''M'', RelText (js ''okta m'' @ [0xE1, 0x6E, 0x6E, 0x75])),
       (''MM'', RelText (js ''%d m'' @ [0xE1, 0x6E, 0x75, 0x74])),
       (''y'', RelText (js ''okta jahki'')),
       (''yy'', RelText (js ''%d jagit''))],
     l_ordinal = Some (OrdText (js ''%d.'')),
     l_meridiem = None,
     l_is_pm = None,
     l_meridiem_hour = None,
     l_preparse = None,
     l_postformat = None,
     l_week = Some (1, 4),
     l_meridiem_parse = None,
     l_ordinal_parse = Some (Regex False (Seq [digits_1_2, Lit (js ''.'')])),
     l_parse = [],
     l_months_parse_exact = False,
     l_weekdays_parse_exact = False,
     l_invalid_date = None,
     l_eras = [],
     l_era_year = None \<rparr>"

text \<open>\<^verbatim>\<open>si\<close> (line 348).\<close>

definition si_ordinal :: "nat \<Rightarrow> string \<Rightarrow> js option" where
  "si_ordinal number period = Some (jnum number @ [0x20, 0xDC0, 0xDD0, 0xDB1, 0xDD2])"

definition si_meridiem :: "nat \<Rightarrow> nat \<Rightarrow> bool \<Rightarrow> js" where
  "si_meridiem hour minute isLower = (if hour > 11 then (if isLower then [0xDB4, 0x2E, 0xDC0, 0x2E]
      else [0xDB4, 0xDC3, 0xDCA, 0x20, 0xDC0, 0xDBB, 0xDD4])
      else if isLower then [0xDB4, 0xDD9, 0x2E, 0xDC0, 0x2E]
      else [0xDB4, 0xDD9, 0xDBB, 0x20, 0xDC0, 0xDBB, 0xDD4])"

definition si_isPM :: "js \<Rightarrow> bool" where
  "si_isPM input \<longleftrightarrow> input = [0xDB4, 0x2E, 0xDC0, 0x2E] \<or> input = [0xDB4,
      0xDC3, 0xDCA, 0x20, 0xDC0, 0xDBB, 0xDD4]"

definition locale_si :: moment_locale where
  "locale_si = \<lparr>
     l_abbr = ''si'',
     l_months = Names [[0xDA2, 0xDB1, 0xDC0, 0xDCF, 0xDBB, 0xDD2], [0xDB4, 0xDD9, 0xDB6, 0xDBB,
         0xDC0, 0xDCF, 0xDBB, 0xDD2], [0xDB8, 0xDCF, 0xDBB, 0xDCA, 0xDAD, 0xDD4], [0xD85, 0xDB4,
         0xDCA, 0x200D, 0xDBB, 0xDDA, 0xDBD, 0xDCA], [0xDB8, 0xDD0, 0xDBA, 0xDD2], [0xDA2, 0xDD6,
         0xDB1, 0xDD2], [0xDA2, 0xDD6, 0xDBD, 0xDD2], [0xD85, 0xD9C, 0xDDD, 0xDC3, 0xDCA, 0xDAD,
         0xDD4], [0xDC3, 0xDD0, 0xDB4, 0xDCA, 0xDAD, 0xDD0, 0xDB8, 0xDCA, 0xDB6, 0xDBB, 0xDCA],
         [0xD94, 0xD9A, 0xDCA, 0xDAD, 0xDDD, 0xDB6, 0xDBB, 0xDCA], [0xDB1, 0xDDC, 0xDC0, 0xDD0,
         0xDB8, 0xDCA, 0xDB6, 0xDBB, 0xDCA], [0xDAF, 0xDD9, 0xDC3, 0xDD0, 0xDB8, 0xDCA, 0xDB6,
         0xDBB, 0xDCA]],
     l_months_short = Names [[0xDA2, 0xDB1], [0xDB4, 0xDD9, 0xDB6], [0xDB8, 0xDCF, 0xDBB, 0xDCA],
         [0xD85, 0xDB4, 0xDCA], [0xDB8, 0xDD0, 0xDBA, 0xDD2], [0xDA2, 0xDD6, 0xDB1, 0xDD2], [0xDA2,
         0xDD6, 0xDBD, 0xDD2], [0xD85, 0xD9C, 0xDDD], [0xDC3, 0xDD0, 0xDB4, 0xDCA], [0xD94, 0xD9A,
         0xDCA], [0xDB1, 0xDDC, 0xDC0, 0xDD0], [0xDAF, 0xDD9, 0xDC3, 0xDD0]],
     l_weekdays = Names [[0xD89, 0xDBB, 0xDD2, 0xDAF, 0xDCF], [0xDC3, 0xDB3, 0xDD4, 0xDAF, 0xDCF],
         [0xD85, 0xD9F, 0xDC4, 0xDBB, 0xDD4, 0xDC0, 0xDCF, 0xDAF, 0xDCF], [0xDB6, 0xDAF, 0xDCF,
         0xDAF, 0xDCF], [0xDB6, 0xDCA, 0x200D, 0xDBB, 0xDC4, 0xDC3, 0xDCA, 0xDB4, 0xDAD, 0xDD2,
         0xDB1, 0xDCA, 0xDAF, 0xDCF], [0xDC3, 0xDD2, 0xD9A, 0xDD4, 0xDBB, 0xDCF, 0xDAF, 0xDCF],
         [0xDC3, 0xDD9, 0xDB1, 0xDC3, 0xDD4, 0xDBB, 0xDCF, 0xDAF, 0xDCF]],
     l_weekdays_short = [[0xD89, 0xDBB, 0xDD2], [0xDC3, 0xDB3, 0xDD4], [0xD85, 0xD9F], [0xDB6,
         0xDAF, 0xDCF], [0xDB6, 0xDCA, 0x200D, 0xDBB, 0xDC4], [0xDC3, 0xDD2, 0xD9A, 0xDD4], [0xDC3,
         0xDD9, 0xDB1]],
     l_weekdays_min = [[0xD89], [0xDC3], [0xD85], [0xDB6], [0xDB6, 0xDCA, 0x200D, 0xDBB], [0xDC3,
         0xDD2], [0xDC3, 0xDD9]],
     l_long_date_format = [(''LT'', js ''a h:mm''),
       (''LTS'', js ''a h:mm:ss''),
       (''L'', js ''YYYY/MM/DD''),
       (''LL'', js ''YYYY MMMM D''),
       (''LLL'', js ''YYYY MMMM D, a h:mm''),
       (''LLLL'', js ''YYYY MMMM D ['' @ [0xDC0, 0xDD0, 0xDB1, 0xDD2] @ js ''] dddd, a h:mm:ss'')],
     l_calendar = [(''sameDay'', CalText ([0x5B, 0xD85, 0xDAF] @ js ''] LT['' @ [0xDA7, 0x5D])),
       (''nextDay'', CalText ([0x5B, 0xDC4, 0xDD9, 0xDA7] @ js ''] LT['' @ [0xDA7, 0x5D])),
       (''nextWeek'', CalText (js ''dddd LT['' @ [0xDA7, 0x5D])),
       (''lastDay'', CalText ([0x5B, 0xD8A, 0xDBA, 0xDDA] @ js ''] LT['' @ [0xDA7, 0x5D])),
       (''lastWeek'', CalText ([0x5B, 0xDB4, 0xDC3, 0xDD4, 0xD9C, 0xDD2, 0xDBA] @ js ''] dddd LT[''
           @ [0xDA7, 0x5D])),
       (''sameElse'', CalText (js ''L''))],
     l_relative_time = [(''future'', RelText [0x25, 0x73, 0xD9A, 0xDD2, 0xDB1, 0xDCA]),
       (''past'', RelText [0x25, 0x73, 0xD9A, 0xDA7, 0x20, 0xDB4, 0xDD9, 0xDBB]),
       (''s'', RelText [0xDAD, 0xDAD, 0xDCA, 0xDB4, 0xDBB, 0x20, 0xD9A, 0xDD2, 0xDC4, 0xDD2, 0xDB4,
           0xDBA]),
       (''ss'', RelText [0xDAD, 0xDAD, 0xDCA, 0xDB4, 0xDBB, 0x20, 0x25, 0x64]),
       (''m'', RelText [0xDB8, 0xDD2, 0xDB1, 0xDD2, 0xDAD, 0xDCA, 0xDAD, 0xDD4, 0xDC0]),
       (''mm'', RelText [0xDB8, 0xDD2, 0xDB1, 0xDD2, 0xDAD, 0xDCA, 0xDAD, 0xDD4, 0x20, 0x25, 0x64]),
       (''h'', RelText [0xDB4, 0xDD0, 0xDBA]),
       (''hh'', RelText [0xDB4, 0xDD0, 0xDBA, 0x20, 0x25, 0x64]),
       (''d'', RelText [0xDAF, 0xDD2, 0xDB1, 0xDBA]),
       (''dd'', RelText [0xDAF, 0xDD2, 0xDB1, 0x20, 0x25, 0x64]),
       (''M'', RelText [0xDB8, 0xDCF, 0xDC3, 0xDBA]),
       (''MM'', RelText [0xDB8, 0xDCF, 0xDC3, 0x20, 0x25, 0x64]),
       (''y'', RelText [0xDC0, 0xDC3, 0xDBB]),
       (''yy'', RelText [0xDC0, 0xDC3, 0xDBB, 0x20, 0x25, 0x64])],
     l_ordinal = Some (OrdFun si_ordinal),
     l_meridiem = Some si_meridiem,
     l_is_pm = Some si_isPM,
     l_meridiem_hour = None,
     l_preparse = None,
     l_postformat = None,
     l_week = None,
     l_meridiem_parse = Some (Regex False (Alt [Lit [0xDB4, 0xDD9, 0xDBB, 0x20, 0xDC0, 0xDBB,
         0xDD4], Lit [0xDB4, 0xDC3, 0xDCA, 0x20, 0xDC0, 0xDBB, 0xDD4], Seq [Lit [0xDB4, 0xDD9],
         AnyUnit, Lit [0xDC0]], Seq [Lit [0xDB4], AnyUnit, Lit [0xDC0], AnyUnit]])),
     l_ordinal_parse = Some (Regex False (Seq [digits_1_2, Lit [0x20, 0xDC0, 0xDD0, 0xDB1,
         0xDD2]])),
     l_parse = [],
     l_months_parse_exact = False,
     l_weekdays_parse_exact = True,
     l_invalid_date = None,
     l_eras = [],
     l_era_year = None \<rparr>"

text \<open>\<^verbatim>\<open>sk\<close> (line 205).\<close>

definition sk_i :: "nat \<Rightarrow> bool" where
  "sk_i number \<longleftrightarrow> number > 1 \<and> number < 5"

definition sk_nextWeek :: "nat \<Rightarrow> nat \<Rightarrow> bool \<Rightarrow> js option" where
  "sk_nextWeek day hours sameWeek = (if day = 0 then Some (js ''[v nede'' @ [0x13E] @ js
      ''u o] LT'')
      else if day = 1 \<or> day = 2 then Some (js ''[v] dddd [o] LT'')
      else if day = 3 then Some (js ''[v stredu o] LT'')
      else if day = 4 then Some (js ''[vo '' @ [0x161] @ js ''tvrtok o] LT'')
      else if day = 5 then Some (js ''[v piatok o] LT'')
      else if day = 6 then Some (js ''[v sobotu o] LT'')
      else None)"

definition sk_lastWeek :: "nat \<Rightarrow> nat \<Rightarrow> bool \<Rightarrow> js option" where
  "sk_lastWeek day hours sameWeek = (if day = 0 then Some (js ''[minul'' @ [0xFA] @ js '' nede'' @
      [0x13E] @ js ''u o] LT'')
      else if day = 1 \<or> day = 2 then Some (js ''[minul'' @ [0xFD] @ js ''] dddd [o] LT'')
      else if day = 3 then Some (js ''[minul'' @ [0xFA] @ js '' stredu o] LT'')
      else if day = 4 \<or> day = 5 then Some (js ''[minul'' @ [0xFD] @ js ''] dddd [o] LT'')
      else if day = 6 then Some (js ''[minul'' @ [0xFA] @ js '' sobotu o] LT'')
      else None)"

definition sk_rel_r :: "nat \<Rightarrow> bool \<Rightarrow> string \<Rightarrow> bool \<Rightarrow>
    js option" where
  "sk_rel_r number withoutSuffix key isFuture = (let a = jnum number @ js '' '' in (if key = ''s''
      then Some (if withoutSuffix \<or> isFuture then [0x70, 0xE1] @ js ''r sek'' @ [0xFA, 0x6E,
      0x64]
      else [0x70, 0xE1] @ js ''r sekundami'')
      else if key = ''ss'' then Some (if withoutSuffix \<or> isFuture then a @ (if sk_i number then
          js ''sekundy''
      else [0x73, 0x65, 0x6B, 0xFA, 0x6E, 0x64])
      else a @ js ''sekundami'')
      else if key = ''m'' then Some (if withoutSuffix then [0x6D, 0x69, 0x6E, 0xFA, 0x74, 0x61]
      else if isFuture then [0x6D, 0x69, 0x6E, 0xFA, 0x74, 0x75]
      else [0x6D, 0x69, 0x6E, 0xFA, 0x74, 0x6F, 0x75])
      else if key = ''mm'' then Some (if withoutSuffix \<or> isFuture then a @ (if sk_i number then
          [0x6D, 0x69, 0x6E, 0xFA, 0x74, 0x79]
      else [0x6D, 0x69, 0x6E, 0xFA, 0x74])
      else a @ [0x6D, 0x69, 0x6E, 0xFA] @ js ''tami'')
      else if key = ''h'' then Some (if withoutSuffix then js ''hodina''
      else if isFuture then js ''hodinu''
      else js ''hodinou'')
      else if key = ''hh'' then Some (if withoutSuffix \<or> isFuture then a @ (if sk_i number then
          js ''hodiny''
      else [0x68, 0x6F, 0x64, 0xED, 0x6E])
      else a @ js ''hodinami'')
      else if key = ''d'' then Some (if withoutSuffix \<or> isFuture then [0x64, 0x65, 0x148]
      else [0x64, 0x148, 0x6F, 0x6D])
      else if key = ''dd'' then Some (if withoutSuffix \<or> isFuture then a @ (if sk_i number then
          js ''dni''
      else [0x64, 0x6E, 0xED])
      else a @ [0x64, 0x148, 0x61, 0x6D, 0x69])
      else if key = ''M'' then Some (if withoutSuffix \<or> isFuture then js ''mesiac''
      else js ''mesiacom'')
      else if key = ''MM'' then Some (if withoutSuffix \<or> isFuture then a @ (if sk_i number then
          js ''mesiace''
      else js ''mesiacov'')
      else a @ js ''mesiacmi'')
      else if key = ''y'' then Some (if withoutSuffix \<or> isFuture then js ''rok''
      else js ''rokom'')
      else if key = ''yy'' then Some (if withoutSuffix \<or> isFuture then a @ (if sk_i number then
          js ''roky''
      else js ''rokov'')
      else a @ js ''rokmi'')
      else None))"

definition locale_sk :: moment_locale where
  "locale_sk = \<lparr>
     l_abbr = ''sk'',
     l_months = Names [js ''janu'' @ [0xE1, 0x72], js ''febru'' @ [0xE1, 0x72], js ''marec'', [0x61,
         0x70, 0x72, 0xED, 0x6C], [0x6D, 0xE1, 0x6A], [0x6A, 0xFA, 0x6E], [0x6A, 0xFA, 0x6C], js
         ''august'', js ''september'', [0x6F, 0x6B, 0x74, 0xF3, 0x62, 0x65, 0x72], js ''november'',
         js ''december''],
     l_months_short = Names [js ''jan'', js ''feb'', js ''mar'', js ''apr'', [0x6D, 0xE1, 0x6A],
         [0x6A, 0xFA, 0x6E], [0x6A, 0xFA, 0x6C], js ''aug'', js ''sep'', js ''okt'', js ''nov'', js
         ''dec''],
     l_weekdays = Names [js ''nede'' @ [0x13E, 0x61], js ''pondelok'', js ''utorok'', js ''streda'',
         [0x161] @ js ''tvrtok'', js ''piatok'', js ''sobota''],
     l_weekdays_short = [js ''ne'', js ''po'', js ''ut'', js ''st'', [0x161, 0x74], js ''pi'', js
         ''so''],
     l_weekdays_min = [js ''ne'', js ''po'', js ''ut'', js ''st'', [0x161, 0x74], js ''pi'', js
         ''so''],
     l_long_date_format = [(''LT'', js ''H:mm''),
       (''LTS'', js ''H:mm:ss''),
       (''L'', js ''DD.MM.YYYY''),
       (''LL'', js ''D. MMMM YYYY''),
       (''LLL'', js ''D. MMMM YYYY H:mm''),
       (''LLLL'', js ''dddd D. MMMM YYYY H:mm'')],
     l_calendar = [(''sameDay'', CalText (js ''[dnes o] LT'')),
       (''nextDay'', CalText (js ''[zajtra o] LT'')),
       (''nextWeek'', CalFun sk_nextWeek),
       (''lastDay'', CalText ([0x5B, 0x76, 0x10D] @ js ''era o] LT'')),
       (''lastWeek'', CalFun sk_lastWeek),
       (''sameElse'', CalText (js ''L''))],
     l_relative_time = [(''future'', RelText (js ''za %s'')),
       (''past'', RelText (js ''pred %s'')),
       (''s'', RelNum sk_rel_r),
       (''ss'', RelNum sk_rel_r),
       (''m'', RelNum sk_rel_r),
       (''mm'', RelNum sk_rel_r),
       (''h'', RelNum sk_rel_r),
       (''hh'', RelNum sk_rel_r),
       (''d'', RelNum sk_rel_r),
       (''dd'', RelNum sk_rel_r),
       (''M'', RelNum sk_rel_r),
       (''MM'', RelNum sk_rel_r),
       (''y'', RelNum sk_rel_r),
       (''yy'', RelNum sk_rel_r)],
     l_ordinal = Some (OrdText (js ''%d.'')),
     l_meridiem = None,
     l_is_pm = None,
     l_meridiem_hour = None,
     l_preparse = None,
     l_postformat = None,
     l_week = Some (1, 4),
     l_meridiem_parse = None,
     l_ordinal_parse = Some (Regex False (Seq [digits_1_2, Lit (js ''.'')])),
     l_parse = [],
     l_months_parse_exact = False,
     l_weekdays_parse_exact = False,
     l_invalid_date = None,
     l_eras = [],
     l_era_year = None \<rparr>"

text \<open>\<^verbatim>\<open>sl\<close> (line 209).\<close>

definition sl_nextWeek :: "nat \<Rightarrow> nat \<Rightarrow> bool \<Rightarrow> js option" where
  "sl_nextWeek day hours sameWeek = (if day = 0 then Some (js ''[v] [nedeljo] [ob] LT'')
      else if day = 3 then Some (js ''[v] [sredo] [ob] LT'')
      else if day = 6 then Some (js ''[v] [soboto] [ob] LT'')
      else if day = 1 \<or> day = 2 \<or> day = 4 \<or> day = 5 then Some (js ''[v] dddd [ob] LT'')
      else None)"

definition sl_lastWeek :: "nat \<Rightarrow> nat \<Rightarrow> bool \<Rightarrow> js option" where
  "sl_lastWeek day hours sameWeek = (if day = 0 then Some (js ''[prej'' @ [0x161] @ js
      ''njo] [nedeljo] [ob] LT'')
      else if day = 3 then Some (js ''[prej'' @ [0x161] @ js ''njo] [sredo] [ob] LT'')
      else if day = 6 then Some (js ''[prej'' @ [0x161] @ js ''njo] [soboto] [ob] LT'')
      else if day = 1 \<or> day = 2 \<or> day = 4 \<or> day = 5 then Some (js ''[prej'' @ [0x161] @
          js ''nji] dddd [ob] LT'')
      else None)"

definition sl_rel_t :: "nat \<Rightarrow> bool \<Rightarrow> string \<Rightarrow> bool \<Rightarrow>
    js option" where
  "sl_rel_t number withoutSuffix key isFuture = (let r = jnum number @ js '' '' in (if key = ''s''
      then Some (if withoutSuffix \<or> isFuture then js ''nekaj sekund''
      else js ''nekaj sekundami'')
      else if key = ''ss'' then Some (let r = r @ (if number = 1 then (if withoutSuffix then js
          ''sekundo''
      else js ''sekundi'')
      else if number = 2 then (if withoutSuffix \<or> isFuture then js ''sekundi''
      else js ''sekundah'')
      else if number < 5 then (if withoutSuffix \<or> isFuture then js ''sekunde''
      else js ''sekundah'')
      else js ''sekund'') in r)
      else if key = ''m'' then Some (if withoutSuffix then js ''ena minuta''
      else js ''eno minuto'')
      else if key = ''mm'' then Some (let r = r @ (if number = 1 then (if withoutSuffix then js
          ''minuta''
      else js ''minuto'')
      else if number = 2 then (if withoutSuffix \<or> isFuture then js ''minuti''
      else js ''minutama'')
      else if number < 5 then (if withoutSuffix \<or> isFuture then js ''minute''
      else js ''minutami'')
      else if withoutSuffix \<or> isFuture then js ''minut''
      else js ''minutami'') in r)
      else if key = ''h'' then Some (if withoutSuffix then js ''ena ura''
      else js ''eno uro'')
      else if key = ''hh'' then Some (let r = r @ (if number = 1 then (if withoutSuffix then js
          ''ura''
      else js ''uro'')
      else if number = 2 then (if withoutSuffix \<or> isFuture then js ''uri''
      else js ''urama'')
      else if number < 5 then (if withoutSuffix \<or> isFuture then js ''ure''
      else js ''urami'')
      else if withoutSuffix \<or> isFuture then js ''ur''
      else js ''urami'') in r)
      else if key = ''d'' then Some (if withoutSuffix \<or> isFuture then js ''en dan''
      else js ''enim dnem'')
      else if key = ''dd'' then Some (let r = r @ (if number = 1 then (if withoutSuffix \<or>
          isFuture then js ''dan''
      else js ''dnem'')
      else if number = 2 then (if withoutSuffix \<or> isFuture then js ''dni''
      else js ''dnevoma'')
      else if withoutSuffix \<or> isFuture then js ''dni''
      else js ''dnevi'') in r)
      else if key = ''M'' then Some (if withoutSuffix \<or> isFuture then js ''en mesec''
      else js ''enim mesecem'')
      else if key = ''MM'' then Some (let r = r @ (if number = 1 then (if withoutSuffix \<or>
          isFuture then js ''mesec''
      else js ''mesecem'')
      else if number = 2 then (if withoutSuffix \<or> isFuture then js ''meseca''
      else js ''mesecema'')
      else if number < 5 then (if withoutSuffix \<or> isFuture then js ''mesece''
      else js ''meseci'')
      else if withoutSuffix \<or> isFuture then js ''mesecev''
      else js ''meseci'') in r)
      else if key = ''y'' then Some (if withoutSuffix \<or> isFuture then js ''eno leto''
      else js ''enim letom'')
      else if key = ''yy'' then Some (let r = r @ (if number = 1 then (if withoutSuffix \<or>
          isFuture then js ''leto''
      else js ''letom'')
      else if number = 2 then (if withoutSuffix \<or> isFuture then js ''leti''
      else js ''letoma'')
      else if number < 5 then (if withoutSuffix \<or> isFuture then js ''leta''
      else js ''leti'')
      else if withoutSuffix \<or> isFuture then js ''let''
      else js ''leti'') in r)
      else None))"

definition locale_sl :: moment_locale where
  "locale_sl = \<lparr>
     l_abbr = ''sl'',
     l_months = Names [js ''januar'', js ''februar'', js ''marec'', js ''april'', js ''maj'', js
         ''junij'', js ''julij'', js ''avgust'', js ''september'', js ''oktober'', js ''november'',
         js ''december''],
     l_months_short = Names [js ''jan.'', js ''feb.'', js ''mar.'', js ''apr.'', js ''maj.'', js
         ''jun.'', js ''jul.'', js ''avg.'', js ''sep.'', js ''okt.'', js ''nov.'', js ''dec.''],
     l_weekdays = Names [js ''nedelja'', js ''ponedeljek'', js ''torek'', js ''sreda'', [0x10D] @ js
         ''etrtek'', js ''petek'', js ''sobota''],
     l_weekdays_short = [js ''ned.'', js ''pon.'', js ''tor.'', js ''sre.'', [0x10D, 0x65, 0x74,
         0x2E], js ''pet.'', js ''sob.''],
     l_weekdays_min = [js ''ne'', js ''po'', js ''to'', js ''sr'', [0x10D, 0x65], js ''pe'', js
         ''so''],
     l_long_date_format = [(''LT'', js ''H:mm''),
       (''LTS'', js ''H:mm:ss''),
       (''L'', js ''DD. MM. YYYY''),
       (''LL'', js ''D. MMMM YYYY''),
       (''LLL'', js ''D. MMMM YYYY H:mm''),
       (''LLLL'', js ''dddd, D. MMMM YYYY H:mm'')],
     l_calendar = [(''sameDay'', CalText (js ''[danes ob] LT'')),
       (''nextDay'', CalText (js ''[jutri ob] LT'')),
       (''nextWeek'', CalFun sl_nextWeek),
       (''lastDay'', CalText ([0x5B, 0x76, 0x10D] @ js ''eraj ob] LT'')),
       (''lastWeek'', CalFun sl_lastWeek),
       (''sameElse'', CalText (js ''L''))],
     l_relative_time = [(''future'', RelText ([0x10D] @ js ''ez %s'')),
       (''past'', RelText (js ''pred %s'')),
       (''s'', RelNum sl_rel_t),
       (''ss'', RelNum sl_rel_t),
       (''m'', RelNum sl_rel_t),
       (''mm'', RelNum sl_rel_t),
       (''h'', RelNum sl_rel_t),
       (''hh'', RelNum sl_rel_t),
       (''d'', RelNum sl_rel_t),
       (''dd'', RelNum sl_rel_t),
       (''M'', RelNum sl_rel_t),
       (''MM'', RelNum sl_rel_t),
       (''y'', RelNum sl_rel_t),
       (''yy'', RelNum sl_rel_t)],
     l_ordinal = Some (OrdText (js ''%d.'')),
     l_meridiem = None,
     l_is_pm = None,
     l_meridiem_hour = None,
     l_preparse = None,
     l_postformat = None,
     l_week = Some (1, 7),
     l_meridiem_parse = None,
     l_ordinal_parse = Some (Regex False (Seq [digits_1_2, Lit (js ''.'')])),
     l_parse = [],
     l_months_parse_exact = True,
     l_weekdays_parse_exact = True,
     l_invalid_date = None,
     l_eras = [],
     l_era_year = None \<rparr>"

text \<open>\<^verbatim>\<open>sq\<close> (line 307).\<close>

definition sq_meridiem :: "nat \<Rightarrow> nat \<Rightarrow> bool \<Rightarrow> js" where
  "sq_meridiem hour minute isLower = (if hour < 12 then js ''PD'' else js ''MD'')"

definition sq_isPM :: "js \<Rightarrow> bool" where
  "sq_isPM input \<longleftrightarrow> js_char_at input 0 = js ''M''"

definition locale_sq :: moment_locale where
  "locale_sq = \<lparr>
     l_abbr = ''sq'',
     l_months = Names [js ''Janar'', js ''Shkurt'', js ''Mars'', js ''Prill'', js ''Maj'', js
         ''Qershor'', js ''Korrik'', js ''Gusht'', js ''Shtator'', js ''Tetor'', [0x4E, 0xEB] @ js
         ''ntor'', js ''Dhjetor''],
     l_months_short = Names [js ''Jan'', js ''Shk'', js ''Mar'', js ''Pri'', js ''Maj'', js ''Qer'',
         js ''Kor'', js ''Gus'', js ''Sht'', js ''Tet'', [0x4E, 0xEB, 0x6E], js ''Dhj''],
     l_weekdays = Names [js ''E Diel'', [0x45, 0x20, 0x48, 0xEB, 0x6E, 0xEB], js ''E Mart'' @
         [0xEB], [0x45, 0x20, 0x4D, 0xEB] @ js ''rkur'' @ [0xEB], js ''E Enjte'', js ''E Premte'',
         js ''E Shtun'' @ [0xEB]],
     l_weekdays_short = [js ''Die'', [0x48, 0xEB, 0x6E], js ''Mar'', [0x4D, 0xEB, 0x72], js ''Enj'',
         js ''Pre'', js ''Sht''],
     l_weekdays_min = [js ''D'', js ''H'', js ''Ma'', [0x4D, 0xEB], js ''E'', js ''P'', js ''Sh''],
     l_long_date_format = [(''LT'', js ''HH:mm''),
       (''LTS'', js ''HH:mm:ss''),
       (''L'', js ''DD/MM/YYYY''),
       (''LL'', js ''D MMMM YYYY''),
       (''LLL'', js ''D MMMM YYYY HH:mm''),
       (''LLLL'', js ''dddd, D MMMM YYYY HH:mm'')],
     l_calendar = [(''sameDay'', CalText (js ''[Sot n'' @ [0xEB] @ js ''] LT'')),
       (''nextDay'', CalText (js ''[Nes'' @ [0xEB, 0x72, 0x20, 0x6E, 0xEB] @ js ''] LT'')),
       (''nextWeek'', CalText (js ''dddd [n'' @ [0xEB] @ js ''] LT'')),
       (''lastDay'', CalText (js ''[Dje n'' @ [0xEB] @ js ''] LT'')),
       (''lastWeek'', CalText (js ''dddd [e kaluar n'' @ [0xEB] @ js ''] LT'')),
       (''sameElse'', CalText (js ''L''))],
     l_relative_time = [(''future'', RelText [0x6E, 0xEB, 0x20, 0x25, 0x73]),
       (''past'', RelText (js ''%s m'' @ [0xEB] @ js '' par'' @ [0xEB])),
       (''s'', RelText (js ''disa sekonda'')),
       (''ss'', RelText (js ''%d sekonda'')),
       (''m'', RelText ([0x6E, 0x6A, 0xEB] @ js '' minut'' @ [0xEB])),
       (''mm'', RelText (js ''%d minuta'')),
       (''h'', RelText [0x6E, 0x6A, 0xEB, 0x20, 0x6F, 0x72, 0xEB]),
       (''hh'', RelText (js ''%d or'' @ [0xEB])),
       (''d'', RelText ([0x6E, 0x6A, 0xEB] @ js '' dit'' @ [0xEB])),
       (''dd'', RelText (js ''%d dit'' @ [0xEB])),
       (''M'', RelText ([0x6E, 0x6A, 0xEB] @ js '' muaj'')),
       (''MM'', RelText (js ''%d muaj'')),
       (''y'', RelText ([0x6E, 0x6A, 0xEB] @ js '' vit'')),
       (''yy'', RelText (js ''%d vite''))],
     l_ordinal = Some (OrdText (js ''%d.'')),
     l_meridiem = Some sq_meridiem,
     l_is_pm = Some sq_isPM,
     l_meridiem_hour = None,
     l_preparse = None,
     l_postformat = None,
     l_week = Some (1, 4),
     l_meridiem_parse = Some (Regex False (Alt [Lit (js ''PD''), Lit (js ''MD'')])),
     l_ordinal_parse = Some (Regex False (Seq [digits_1_2, Lit (js ''.'')])),
     l_parse = [],
     l_months_parse_exact = False,
     l_weekdays_parse_exact = True,
     l_invalid_date = None,
     l_eras = [],
     l_era_year = None \<rparr>"

text \<open>\<^verbatim>\<open>sr\<close> (line 309).\<close>

definition sr_words :: "(string \<times> js list) list" where
  "sr_words = [(''ss'', [js ''sekunda'', js ''sekunde'', js ''sekundi'']), (''m'', [js
      ''jedan minut'', js ''jedne minute'']), (''mm'', [js ''minut'', js ''minute'', js
      ''minuta'']), (''h'', [js ''jedan sat'', js ''jednog sata'']), (''hh'', [js ''sat'', js
      ''sata'', js ''sati'']), (''dd'', [js ''dan'', js ''dana'', js ''dana'']), (''MM'', [js
      ''mesec'', js ''meseca'', js ''meseci'']), (''yy'', [js ''godina'', js ''godine'', js
      ''godina''])]"

definition sr_correctGrammaticalCase :: "nat \<Rightarrow> js list \<Rightarrow> js option" where
  "sr_correctGrammaticalCase number wordKey = (if number = 1 then js_nth wordKey 0
      else if number \<ge> 2 \<and> number \<le> 4 then js_nth wordKey 1
      else js_nth wordKey 2)"

definition sr_translate :: "nat \<Rightarrow> bool \<Rightarrow> string \<Rightarrow> bool
    \<Rightarrow> js option" where
  "sr_translate number withoutSuffix key isFuture = 
     Option.bind (map_of sr_words key) (\<lambda>wordKey.
       if length key = 1 then js_nth wordKey (if withoutSuffix then 0 else 1)
      
      else map_option (\<lambda>x. jnum number @ [0x20] @ x) (sr_correctGrammaticalCase number
          wordKey))"

definition sr_nextWeek :: "nat \<Rightarrow> nat \<Rightarrow> bool \<Rightarrow> js option" where
  "sr_nextWeek day hours sameWeek = (if day = 0 then Some (js ''[u] [nedelju] [u] LT'')
      else if day = 3 then Some (js ''[u] [sredu] [u] LT'')
      else if day = 6 then Some (js ''[u] [subotu] [u] LT'')
      else if day = 1 \<or> day = 2 \<or> day = 4 \<or> day = 5 then Some (js ''[u] dddd [u] LT'')
      else None)"

definition sr_lastWeek :: "nat \<Rightarrow> nat \<Rightarrow> bool \<Rightarrow> js option" where
  "sr_lastWeek day hours sameWeek = (let e = [js ''[pro'' @ [0x161] @ js ''le] [nedelje] [u] LT'',
      js ''[pro'' @ [0x161] @ js ''log] [ponedeljka] [u] LT'', js ''[pro'' @ [0x161] @ js
      ''log] [utorka] [u] LT'', js ''[pro'' @ [0x161] @ js ''le] [srede] [u] LT'', js ''[pro'' @
      [0x161] @ js ''log] ['' @ [0x10D] @ js ''etvrtka] [u] LT'', js ''[pro'' @ [0x161] @ js
      ''log] [petka] [u] LT'', js ''[pro'' @ [0x161] @ js ''le] [subote] [u] LT''] in js_nth e day)"

definition locale_sr :: moment_locale where
  "locale_sr = \<lparr>
     l_abbr = ''sr'',
     l_months = Names [js ''januar'', js ''februar'', js ''mart'', js ''april'', js ''maj'', js
         ''jun'', js ''jul'', js ''avgust'', js ''septembar'', js ''oktobar'', js ''novembar'', js
         ''decembar''],
     l_months_short = Names [js ''jan.'', js ''feb.'', js ''mar.'', js ''apr.'', js ''maj'', js
         ''jun'', js ''jul'', js ''avg.'', js ''sep.'', js ''okt.'', js ''nov.'', js ''dec.''],
     l_weekdays = Names [js ''nedelja'', js ''ponedeljak'', js ''utorak'', js ''sreda'', [0x10D] @
         js ''etvrtak'', js ''petak'', js ''subota''],
     l_weekdays_short = [js ''ned.'', js ''pon.'', js ''uto.'', js ''sre.'', [0x10D, 0x65, 0x74,
         0x2E], js ''pet.'', js ''sub.''],
     l_weekdays_min = [js ''ne'', js ''po'', js ''ut'', js ''sr'', [0x10D, 0x65], js ''pe'', js
         ''su''],
     l_long_date_format = [(''LT'', js ''H:mm''),
       (''LTS'', js ''H:mm:ss''),
       (''L'', js ''D. M. YYYY.''),
       (''LL'', js ''D. MMMM YYYY.''),
       (''LLL'', js ''D. MMMM YYYY. H:mm''),
       (''LLLL'', js ''dddd, D. MMMM YYYY. H:mm'')],
     l_calendar = [(''sameDay'', CalText (js ''[danas u] LT'')),
       (''nextDay'', CalText (js ''[sutra u] LT'')),
       (''nextWeek'', CalFun sr_nextWeek),
       (''lastDay'', CalText ([0x5B, 0x6A, 0x75, 0x10D] @ js ''e u] LT'')),
       (''lastWeek'', CalFun sr_lastWeek),
       (''sameElse'', CalText (js ''L''))],
     l_relative_time = [(''future'', RelText (js ''za %s'')),
       (''past'', RelText (js ''pre %s'')),
       (''s'', RelText (js ''nekoliko sekundi'')),
       (''ss'', RelNum sr_translate),
       (''m'', RelNum sr_translate),
       (''mm'', RelNum sr_translate),
       (''h'', RelNum sr_translate),
       (''hh'', RelNum sr_translate),
       (''d'', RelText (js ''dan'')),
       (''dd'', RelNum sr_translate),
       (''M'', RelText (js ''mesec'')),
       (''MM'', RelNum sr_translate),
       (''y'', RelText (js ''godinu'')),
       (''yy'', RelNum sr_translate)],
     l_ordinal = Some (OrdText (js ''%d.'')),
     l_meridiem = None,
     l_is_pm = None,
     l_meridiem_hour = None,
     l_preparse = None,
     l_postformat = None,
     l_week = Some (1, 7),
     l_meridiem_parse = None,
     l_ordinal_parse = Some (Regex False (Seq [digits_1_2, Lit (js ''.'')])),
     l_parse = [],
     l_months_parse_exact = True,
     l_weekdays_parse_exact = True,
     l_invalid_date = None,
     l_eras = [],
     l_era_year = None \<rparr>"

text \<open>\<^verbatim>\<open>sr-cyrl\<close> (line 35).\<close>

definition sr_cyrl_words :: "(string \<times> js list) list" where
  "sr_cyrl_words = [(''ss'', [[0x441, 0x435, 0x43A, 0x443, 0x43D, 0x434, 0x430], [0x441, 0x435,
      0x43A, 0x443, 0x43D, 0x434, 0x435], [0x441, 0x435, 0x43A, 0x443, 0x43D, 0x434, 0x438]]),
      (''m'', [[0x458, 0x435, 0x434, 0x430, 0x43D, 0x20, 0x43C, 0x438, 0x43D, 0x443, 0x442], [0x458,
      0x435, 0x434, 0x43D, 0x435, 0x20, 0x43C, 0x438, 0x43D, 0x443, 0x442, 0x435]]), (''mm'',
      [[0x43C, 0x438, 0x43D, 0x443, 0x442], [0x43C, 0x438, 0x43D, 0x443, 0x442, 0x435], [0x43C,
      0x438, 0x43D, 0x443, 0x442, 0x430]]), (''h'', [[0x458, 0x435, 0x434, 0x430, 0x43D, 0x20,
      0x441, 0x430, 0x442], [0x458, 0x435, 0x434, 0x43D, 0x43E, 0x433, 0x20, 0x441, 0x430, 0x442,
      0x430]]), (''hh'', [[0x441, 0x430, 0x442], [0x441, 0x430, 0x442, 0x430], [0x441, 0x430, 0x442,
      0x438]]), (''dd'', [[0x434, 0x430, 0x43D], [0x434, 0x430, 0x43D, 0x430], [0x434, 0x430, 0x43D,
      0x430]]), (''MM'', [[0x43C, 0x435, 0x441, 0x435, 0x446], [0x43C, 0x435, 0x441, 0x435, 0x446,
      0x430], [0x43C, 0x435, 0x441, 0x435, 0x446, 0x438]]), (''yy'', [[0x433, 0x43E, 0x434, 0x438,
      0x43D, 0x430], [0x433, 0x43E, 0x434, 0x438, 0x43D, 0x435], [0x433, 0x43E, 0x434, 0x438, 0x43D,
      0x430]])]"

definition sr_cyrl_correctGrammaticalCase :: "nat \<Rightarrow> js list \<Rightarrow> js option"
    where
  "sr_cyrl_correctGrammaticalCase number wordKey = (if number = 1 then js_nth wordKey 0
      else if number \<ge> 2 \<and> number \<le> 4 then js_nth wordKey 1
      else js_nth wordKey 2)"

definition sr_cyrl_translate :: "nat \<Rightarrow> bool \<Rightarrow> string \<Rightarrow> bool
    \<Rightarrow> js option" where
  "sr_cyrl_translate number withoutSuffix key isFuture = 
     Option.bind (map_of sr_cyrl_words key) (\<lambda>wordKey.
       if length key = 1 then js_nth wordKey (if withoutSuffix then 0 else 1)
      
      else map_option (\<lambda>x. jnum number @ [0x20] @ x) (sr_cyrl_correctGrammaticalCase number
          wordKey))"

definition sr_cyrl_nextWeek :: "nat \<Rightarrow> nat \<Rightarrow> bool \<Rightarrow> js option"
    where
  "sr_cyrl_nextWeek day hours sameWeek = (if day = 0 then Some ([0x5B, 0x443, 0x5D, 0x20, 0x5B,
      0x43D, 0x435, 0x434, 0x435, 0x459, 0x443, 0x5D, 0x20, 0x5B, 0x443] @ js ''] LT'')
      else if day = 3 then Some ([0x5B, 0x443, 0x5D, 0x20, 0x5B, 0x441, 0x440, 0x435, 0x434, 0x443,
          0x5D, 0x20, 0x5B, 0x443] @ js ''] LT'')
      else if day = 6 then Some ([0x5B, 0x443, 0x5D, 0x20, 0x5B, 0x441, 0x443, 0x431, 0x43E, 0x442,
          0x443, 0x5D, 0x20, 0x5B, 0x443] @ js ''] LT'')
      else if day = 1 \<or> day = 2 \<or> day = 4 \<or> day = 5 then Some ([0x5B, 0x443] @ js
          ''] dddd ['' @ [0x443] @ js ''] LT'')
      else None)"

definition sr_cyrl_lastWeek :: "nat \<Rightarrow> nat \<Rightarrow> bool \<Rightarrow> js option"
    where
  "sr_cyrl_lastWeek day hours sameWeek = (let e = [[0x5B, 0x43F, 0x440, 0x43E, 0x448, 0x43B, 0x435,
      0x5D, 0x20, 0x5B, 0x43D, 0x435, 0x434, 0x435, 0x459, 0x435, 0x5D, 0x20, 0x5B, 0x443] @ js
      ''] LT'', [0x5B, 0x43F, 0x440, 0x43E, 0x448, 0x43B, 0x43E, 0x433, 0x5D, 0x20, 0x5B, 0x43F,
      0x43E, 0x43D, 0x435, 0x434, 0x435, 0x459, 0x43A, 0x430, 0x5D, 0x20, 0x5B, 0x443] @ js
      ''] LT'', [0x5B, 0x43F, 0x440, 0x43E, 0x448, 0x43B, 0x43E, 0x433, 0x5D, 0x20, 0x5B, 0x443,
      0x442, 0x43E, 0x440, 0x43A, 0x430, 0x5D, 0x20, 0x5B, 0x443] @ js ''] LT'', [0x5B, 0x43F,
      0x440, 0x43E, 0x448, 0x43B, 0x435, 0x5D, 0x20, 0x5B, 0x441, 0x440, 0x435, 0x434, 0x435, 0x5D,
      0x20, 0x5B, 0x443] @ js ''] LT'', [0x5B, 0x43F, 0x440, 0x43E, 0x448, 0x43B, 0x43E, 0x433,
      0x5D, 0x20, 0x5B, 0x447, 0x435, 0x442, 0x432, 0x440, 0x442, 0x43A, 0x430, 0x5D, 0x20, 0x5B,
      0x443] @ js ''] LT'', [0x5B, 0x43F, 0x440, 0x43E, 0x448, 0x43B, 0x43E, 0x433, 0x5D, 0x20,
      0x5B, 0x43F, 0x435, 0x442, 0x43A, 0x430, 0x5D, 0x20, 0x5B, 0x443] @ js ''] LT'', [0x5B, 0x43F,
      0x440, 0x43E, 0x448, 0x43B, 0x435, 0x5D, 0x20, 0x5B, 0x441, 0x443, 0x431, 0x43E, 0x442, 0x435,
      0x5D, 0x20, 0x5B, 0x443] @ js ''] LT''] in js_nth e day)"

definition locale_sr_cyrl :: moment_locale where
  "locale_sr_cyrl = \<lparr>
     l_abbr = ''sr-cyrl'',
     l_months = Names [[0x458, 0x430, 0x43D, 0x443, 0x430, 0x440], [0x444, 0x435, 0x431, 0x440,
         0x443, 0x430, 0x440], [0x43C, 0x430, 0x440, 0x442], [0x430, 0x43F, 0x440, 0x438, 0x43B],
         [0x43C, 0x430, 0x458], [0x458, 0x443, 0x43D], [0x458, 0x443, 0x43B], [0x430, 0x432, 0x433,
         0x443, 0x441, 0x442], [0x441, 0x435, 0x43F, 0x442, 0x435, 0x43C, 0x431, 0x430, 0x440],
         [0x43E, 0x43A, 0x442, 0x43E, 0x431, 0x430, 0x440], [0x43D, 0x43E, 0x432, 0x435, 0x43C,
         0x431, 0x430, 0x440], [0x434, 0x435, 0x446, 0x435, 0x43C, 0x431, 0x430, 0x440]],
     l_months_short = Names [[0x458, 0x430, 0x43D, 0x2E], [0x444, 0x435, 0x431, 0x2E], [0x43C,
         0x430, 0x440, 0x2E], [0x430, 0x43F, 0x440, 0x2E], [0x43C, 0x430, 0x458], [0x458, 0x443,
         0x43D], [0x458, 0x443, 0x43B], [0x430, 0x432, 0x433, 0x2E], [0x441, 0x435, 0x43F, 0x2E],
         [0x43E, 0x43A, 0x442, 0x2E], [0x43D, 0x43E, 0x432, 0x2E], [0x434, 0x435, 0x446, 0x2E]],
     l_weekdays = Names [[0x43D, 0x435, 0x434, 0x435, 0x459, 0x430], [0x43F, 0x43E, 0x43D, 0x435,
         0x434, 0x435, 0x459, 0x430, 0x43A], [0x443, 0x442, 0x43E, 0x440, 0x430, 0x43A], [0x441,
         0x440, 0x435, 0x434, 0x430], [0x447, 0x435, 0x442, 0x432, 0x440, 0x442, 0x430, 0x43A],
         [0x43F, 0x435, 0x442, 0x430, 0x43A], [0x441, 0x443, 0x431, 0x43E, 0x442, 0x430]],
     l_weekdays_short = [[0x43D, 0x435, 0x434, 0x2E], [0x43F, 0x43E, 0x43D, 0x2E], [0x443, 0x442,
         0x43E, 0x2E], [0x441, 0x440, 0x435, 0x2E], [0x447, 0x435, 0x442, 0x2E], [0x43F, 0x435,
         0x442, 0x2E], [0x441, 0x443, 0x431, 0x2E]],
     l_weekdays_min = [[0x43D, 0x435], [0x43F, 0x43E], [0x443, 0x442], [0x441, 0x440], [0x447,
         0x435], [0x43F, 0x435], [0x441, 0x443]],
     l_long_date_format = [(''LT'', js ''H:mm''),
       (''LTS'', js ''H:mm:ss''),
       (''L'', js ''D. M. YYYY.''),
       (''LL'', js ''D. MMMM YYYY.''),
       (''LLL'', js ''D. MMMM YYYY. H:mm''),
       (''LLLL'', js ''dddd, D. MMMM YYYY. H:mm'')],
     l_calendar = [(''sameDay'', CalText ([0x5B, 0x434, 0x430, 0x43D, 0x430, 0x441, 0x20, 0x443] @
         js ''] LT'')),
       (''nextDay'', CalText ([0x5B, 0x441, 0x443, 0x442, 0x440, 0x430, 0x20, 0x443] @ js
           ''] LT'')),
       (''nextWeek'', CalFun sr_cyrl_nextWeek),
       (''lastDay'', CalText ([0x5B, 0x458, 0x443, 0x447, 0x435, 0x20, 0x443] @ js ''] LT'')),
       (''lastWeek'', CalFun sr_cyrl_lastWeek),
       (''sameElse'', CalText (js ''L''))],
     l_relative_time = [(''future'', RelText [0x437, 0x430, 0x20, 0x25, 0x73]),
       (''past'', RelText [0x43F, 0x440, 0x435, 0x20, 0x25, 0x73]),
       (''s'', RelText [0x43D, 0x435, 0x43A, 0x43E, 0x43B, 0x438, 0x43A, 0x43E, 0x20, 0x441, 0x435,
           0x43A, 0x443, 0x43D, 0x434, 0x438]),
       (''ss'', RelNum sr_cyrl_translate),
       (''m'', RelNum sr_cyrl_translate),
       (''mm'', RelNum sr_cyrl_translate),
       (''h'', RelNum sr_cyrl_translate),
       (''hh'', RelNum sr_cyrl_translate),
       (''d'', RelText [0x434, 0x430, 0x43D]),
       (''dd'', RelNum sr_cyrl_translate),
       (''M'', RelText [0x43C, 0x435, 0x441, 0x435, 0x446]),
       (''MM'', RelNum sr_cyrl_translate),
       (''y'', RelText [0x433, 0x43E, 0x434, 0x438, 0x43D, 0x443]),
       (''yy'', RelNum sr_cyrl_translate)],
     l_ordinal = Some (OrdText (js ''%d.'')),
     l_meridiem = None,
     l_is_pm = None,
     l_meridiem_hour = None,
     l_preparse = None,
     l_postformat = None,
     l_week = Some (1, 7),
     l_meridiem_parse = None,
     l_ordinal_parse = Some (Regex False (Seq [digits_1_2, Lit (js ''.'')])),
     l_parse = [],
     l_months_parse_exact = True,
     l_weekdays_parse_exact = True,
     l_invalid_date = None,
     l_eras = [],
     l_era_year = None \<rparr>"

text \<open>\<^verbatim>\<open>ss\<close> (line 128).\<close>

definition ss_meridiem :: "nat \<Rightarrow> nat \<Rightarrow> bool \<Rightarrow> js" where
  "ss_meridiem hour minute isLower = (if hour < 11 then js ''ekuseni''
      else if hour < 15 then js ''emini''
      else if hour < 19 then js ''entsambama''
      else js ''ebusuku'')"

definition ss_meridiemHour :: "nat \<Rightarrow> js \<Rightarrow> nat option" where
  "ss_meridiemHour hour meridiem = (let hour = (if hour = 12 then 0
      else hour) in (if meridiem = js ''ekuseni'' then Some hour
      else if meridiem = js ''emini'' then Some (if hour \<ge> 11 then hour
      else hour + 12)
      else if meridiem = js ''entsambama'' \<or> meridiem = js ''ebusuku'' then Some (if hour = 0
          then 0
      else hour + 12)
      else None))"

definition locale_ss :: moment_locale where
  "locale_ss = \<lparr>
     l_abbr = ''ss'',
     l_months = Names [js ''Bhimbidvwane'', js ''Indlovana'', js ''Indlov'' @ [0x27] @ js
         ''lenkhulu'', js ''Mabasa'', js ''Inkhwekhweti'', js ''Inhlaba'', js ''Kholwane'', js
         ''Ingci'', js ''Inyoni'', js ''Imphala'', js ''Lweti'', js ''Ingongoni''],
     l_months_short = Names [js ''Bhi'', js ''Ina'', js ''Inu'', js ''Mab'', js ''Ink'', js ''Inh'',
         js ''Kho'', js ''Igc'', js ''Iny'', js ''Imp'', js ''Lwe'', js ''Igo''],
     l_weekdays = Names [js ''Lisontfo'', js ''Umsombuluko'', js ''Lesibili'', js ''Lesitsatfu'', js
         ''Lesine'', js ''Lesihlanu'', js ''Umgcibelo''],
     l_weekdays_short = [js ''Lis'', js ''Umb'', js ''Lsb'', js ''Les'', js ''Lsi'', js ''Lsh'', js
         ''Umg''],
     l_weekdays_min = [js ''Li'', js ''Us'', js ''Lb'', js ''Lt'', js ''Ls'', js ''Lh'', js ''Ug''],
     l_long_date_format = [(''LT'', js ''h:mm A''),
       (''LTS'', js ''h:mm:ss A''),
       (''L'', js ''DD/MM/YYYY''),
       (''LL'', js ''D MMMM YYYY''),
       (''LLL'', js ''D MMMM YYYY h:mm A''),
       (''LLLL'', js ''dddd, D MMMM YYYY h:mm A'')],
     l_calendar = [(''sameDay'', CalText (js ''[Namuhla nga] LT'')),
       (''nextDay'', CalText (js ''[Kusasa nga] LT'')),
       (''nextWeek'', CalText (js ''dddd [nga] LT'')),
       (''lastDay'', CalText (js ''[Itolo nga] LT'')),
       (''lastWeek'', CalText (js ''dddd [leliphelile] [nga] LT'')),
       (''sameElse'', CalText (js ''L''))],
     l_relative_time = [(''future'', RelText (js ''nga %s'')),
       (''past'', RelText (js ''wenteka nga %s'')),
       (''s'', RelText (js ''emizuzwana lomcane'')),
       (''ss'', RelText (js ''%d mzuzwana'')),
       (''m'', RelText (js ''umzuzu'')),
       (''mm'', RelText (js ''%d emizuzu'')),
       (''h'', RelText (js ''lihora'')),
       (''hh'', RelText (js ''%d emahora'')),
       (''d'', RelText (js ''lilanga'')),
       (''dd'', RelText (js ''%d emalanga'')),
       (''M'', RelText (js ''inyanga'')),
       (''MM'', RelText (js ''%d tinyanga'')),
       (''y'', RelText (js ''umnyaka'')),
       (''yy'', RelText (js ''%d iminyaka''))],
     l_ordinal = Some (OrdText (js ''%d'')),
     l_meridiem = Some ss_meridiem,
     l_is_pm = None,
     l_meridiem_hour = Some ss_meridiemHour,
     l_preparse = None,
     l_postformat = None,
     l_week = Some (1, 4),
     l_meridiem_parse = Some (Regex False (Alt [Lit (js ''ekuseni''), Lit (js ''emini''), Lit (js
         ''entsambama''), Lit (js ''ebusuku'')])),
     l_ordinal_parse = Some (Regex False (digits_1_2)),
     l_parse = [],
     l_months_parse_exact = False,
     l_weekdays_parse_exact = True,
     l_invalid_date = None,
     l_eras = [],
     l_era_year = None \<rparr>"

text \<open>\<^verbatim>\<open>sv\<close> (line 149).\<close>

definition sv_ordinal :: "nat \<Rightarrow> string \<Rightarrow> js option" where
  "sv_ordinal number period = Some (let n = (if (number mod 100) div 10 = 1 then js '':e''
      else if (number mod 10) = 1 \<or> (number mod 10) = 2 then js '':a''
      else js '':e'') in jnum number @ n)"

definition locale_sv :: moment_locale where
  "locale_sv = \<lparr>
     l_abbr = ''sv'',
     l_months = Names [js ''januari'', js ''februari'', js ''mars'', js ''april'', js ''maj'', js
         ''juni'', js ''juli'', js ''augusti'', js ''september'', js ''oktober'', js ''november'',
         js ''december''],
     l_months_short = Names [js ''jan'', js ''feb'', js ''mar'', js ''apr'', js ''maj'', js ''jun'',
         js ''jul'', js ''aug'', js ''sep'', js ''okt'', js ''nov'', js ''dec''],
     l_weekdays = Names [[0x73, 0xF6] @ js ''ndag'', [0x6D, 0xE5] @ js ''ndag'', js ''tisdag'', js
         ''onsdag'', js ''torsdag'', js ''fredag'', [0x6C, 0xF6] @ js ''rdag''],
     l_weekdays_short = [[0x73, 0xF6, 0x6E], [0x6D, 0xE5, 0x6E], js ''tis'', js ''ons'', js ''tor'',
         js ''fre'', [0x6C, 0xF6, 0x72]],
     l_weekdays_min = [[0x73, 0xF6], [0x6D, 0xE5], js ''ti'', js ''on'', js ''to'', js ''fr'',
         [0x6C, 0xF6]],
     l_long_date_format = [(''LT'', js ''HH:mm''),
       (''LTS'', js ''HH:mm:ss''),
       (''L'', js ''YYYY-MM-DD''),
       (''LL'', js ''D MMMM YYYY''),
       (''LLL'', js ''D MMMM YYYY [kl.] HH:mm''),
       (''LLLL'', js ''dddd D MMMM YYYY [kl.] HH:mm''),
       (''lll'', js ''D MMM YYYY HH:mm''),
       (''llll'', js ''ddd D MMM YYYY HH:mm'')],
     l_calendar = [(''sameDay'', CalText (js ''[Idag] LT'')),
       (''nextDay'', CalText (js ''[Imorgon] LT'')),
       (''lastDay'', CalText ([0x5B, 0x49, 0x67, 0xE5] @ js ''r] LT'')),
       (''nextWeek'', CalText ([0x5B, 0x50, 0xE5] @ js ''] dddd LT'')),
       (''lastWeek'', CalText (js ''[I] dddd[s] LT'')),
       (''sameElse'', CalText (js ''L''))],
     l_relative_time = [(''future'', RelText (js ''om %s'')),
       (''past'', RelText ([0x66, 0xF6] @ js ''r %s sedan'')),
       (''s'', RelText ([0x6E, 0xE5] @ js ''gra sekunder'')),
       (''ss'', RelText (js ''%d sekunder'')),
       (''m'', RelText (js ''en minut'')),
       (''mm'', RelText (js ''%d minuter'')),
       (''h'', RelText (js ''en timme'')),
       (''hh'', RelText (js ''%d timmar'')),
       (''d'', RelText (js ''en dag'')),
       (''dd'', RelText (js ''%d dagar'')),
       (''M'', RelText (js ''en m'' @ [0xE5, 0x6E, 0x61, 0x64])),
       (''MM'', RelText (js ''%d m'' @ [0xE5] @ js ''nader'')),
       (''y'', RelText (js ''ett '' @ [0xE5, 0x72])),
       (''yy'', RelText [0x25, 0x64, 0x20, 0xE5, 0x72])],
     l_ordinal = Some (OrdFun sv_ordinal),
     l_meridiem = None,
     l_is_pm = None,
     l_meridiem_hour = None,
     l_preparse = None,
     l_postformat = None,
     l_week = Some (1, 4),
     l_meridiem_parse = None,
     l_ordinal_parse = Some (Regex False (Seq [digits_1_2, Alt [Lit (js '':e''), Lit (js
         '':a'')]])),
     l_parse = [],
     l_months_parse_exact = False,
     l_weekdays_parse_exact = False,
     l_invalid_date = None,
     l_eras = [],
     l_era_year = None \<rparr>"

definition locales_n :: "moment_locale list" where
  "locales_n = [locale_nl, locale_nl_be, locale_nn, locale_oc_lnc, locale_pa_in, locale_pl, locale_pt, locale_pt_br,
         locale_ro, locale_ru, locale_sd, locale_se, locale_si, locale_sk, locale_sl, locale_sq,
         locale_sr, locale_sr_cyrl, locale_ss, locale_sv]"

lemmas locales_n_defs = locales_n_def locale_nl_def locale_nl_be_def locale_nn_def locale_oc_lnc_def locale_pa_in_def
      locale_pl_def locale_pt_def locale_pt_br_def locale_ro_def locale_ru_def locale_sd_def
      locale_se_def locale_si_def locale_sk_def locale_sl_def locale_sq_def locale_sr_def
      locale_sr_cyrl_def locale_ss_def locale_sv_def

text \<open>The relative times of these languages.\<close>

lemma pl_rel_a_defined:
  assumes "1 \<le> number"
  shows "pl_rel_a number withoutSuffix ''ss'' isFuture \<noteq> None"
    and "pl_rel_a number withoutSuffix ''m'' isFuture \<noteq> None"
    and "pl_rel_a number withoutSuffix ''mm'' isFuture \<noteq> None"
    and "pl_rel_a number withoutSuffix ''h'' isFuture \<noteq> None"
    and "pl_rel_a number withoutSuffix ''hh'' isFuture \<noteq> None"
    and "pl_rel_a number withoutSuffix ''ww'' isFuture \<noteq> None"
    and "pl_rel_a number withoutSuffix ''MM'' isFuture \<noteq> None"
    and "pl_rel_a number withoutSuffix ''yy'' isFuture \<noteq> None"
  using assms
  by (auto simp: pl_rel_a_def pl_r_def js_nth_def Let_def split: if_splits)

lemma ro_rel_t_defined:
  assumes "1 \<le> number"
  shows "ro_rel_t number withoutSuffix ''ss'' isFuture \<noteq> None"
    and "ro_rel_t number withoutSuffix ''mm'' isFuture \<noteq> None"
    and "ro_rel_t number withoutSuffix ''hh'' isFuture \<noteq> None"
    and "ro_rel_t number withoutSuffix ''dd'' isFuture \<noteq> None"
    and "ro_rel_t number withoutSuffix ''ww'' isFuture \<noteq> None"
    and "ro_rel_t number withoutSuffix ''MM'' isFuture \<noteq> None"
    and "ro_rel_t number withoutSuffix ''yy'' isFuture \<noteq> None"
  using assms
  by (auto simp: ro_rel_t_def js_nth_def Let_def split: if_splits)

lemma ru_rel_n_defined:
  assumes "1 \<le> number"
  shows "ru_rel_n number withoutSuffix ''ss'' isFuture \<noteq> None"
    and "ru_rel_n number withoutSuffix ''m'' isFuture \<noteq> None"
    and "ru_rel_n number withoutSuffix ''mm'' isFuture \<noteq> None"
    and "ru_rel_n number withoutSuffix ''hh'' isFuture \<noteq> None"
    and "ru_rel_n number withoutSuffix ''dd'' isFuture \<noteq> None"
    and "ru_rel_n number withoutSuffix ''ww'' isFuture \<noteq> None"
    and "ru_rel_n number withoutSuffix ''MM'' isFuture \<noteq> None"
    and "ru_rel_n number withoutSuffix ''yy'' isFuture \<noteq> None"
  using assms
  by (auto simp: ru_rel_n_def ru_t_def js_nth_def Let_def split: if_splits)

lemma sk_rel_r_defined:
  assumes "1 \<le> number"
  shows "sk_rel_r number withoutSuffix ''s'' isFuture \<noteq> None"
    and "sk_rel_r number withoutSuffix ''ss'' isFuture \<noteq> None"
    and "sk_rel_r number withoutSuffix ''m'' isFuture \<noteq> None"
    and "sk_rel_r number withoutSuffix ''mm'' isFuture \<noteq> None"
    and "sk_rel_r number withoutSuffix ''h'' isFuture \<noteq> None"
    and "sk_rel_r number withoutSuffix ''hh'' isFuture \<noteq> None"
    and "sk_rel_r number withoutSuffix ''d'' isFuture \<noteq> None"
    and "sk_rel_r number withoutSuffix ''dd'' isFuture \<noteq> None"
    and "sk_rel_r number withoutSuffix ''M'' isFuture \<noteq> None"
    and "sk_rel_r number withoutSuffix ''MM'' isFuture \<noteq> None"
    and "sk_rel_r number withoutSuffix ''y'' isFuture \<noteq> None"
    and "sk_rel_r number withoutSuffix ''yy'' isFuture \<noteq> None"
  using assms
  by (auto simp: sk_rel_r_def sk_i_def js_nth_def Let_def split: if_splits)

lemma sl_rel_t_defined:
  assumes "1 \<le> number"
  shows "sl_rel_t number withoutSuffix ''s'' isFuture \<noteq> None"
    and "sl_rel_t number withoutSuffix ''ss'' isFuture \<noteq> None"
    and "sl_rel_t number withoutSuffix ''m'' isFuture \<noteq> None"
    and "sl_rel_t number withoutSuffix ''mm'' isFuture \<noteq> None"
    and "sl_rel_t number withoutSuffix ''h'' isFuture \<noteq> None"
    and "sl_rel_t number withoutSuffix ''hh'' isFuture \<noteq> None"
    and "sl_rel_t number withoutSuffix ''d'' isFuture \<noteq> None"
    and "sl_rel_t number withoutSuffix ''dd'' isFuture \<noteq> None"
    and "sl_rel_t number withoutSuffix ''M'' isFuture \<noteq> None"
    and "sl_rel_t number withoutSuffix ''MM'' isFuture \<noteq> None"
    and "sl_rel_t number withoutSuffix ''y'' isFuture \<noteq> None"
    and "sl_rel_t number withoutSuffix ''yy'' isFuture \<noteq> None"
  using assms
  by (auto simp: sl_rel_t_def js_nth_def Let_def split: if_splits)

lemma sr_translate_defined:
  assumes "1 \<le> number"
  shows "sr_translate number withoutSuffix ''ss'' isFuture \<noteq> None"
    and "sr_translate number withoutSuffix ''m'' isFuture \<noteq> None"
    and "sr_translate number withoutSuffix ''mm'' isFuture \<noteq> None"
    and "sr_translate number withoutSuffix ''h'' isFuture \<noteq> None"
    and "sr_translate number withoutSuffix ''hh'' isFuture \<noteq> None"
    and "sr_translate number withoutSuffix ''dd'' isFuture \<noteq> None"
    and "sr_translate number withoutSuffix ''MM'' isFuture \<noteq> None"
    and "sr_translate number withoutSuffix ''yy'' isFuture \<noteq> None"
  using assms
  by (auto simp: sr_translate_def sr_words_def sr_correctGrammaticalCase_def js_nth_def Let_def split: if_splits)

lemma sr_cyrl_translate_defined:
  assumes "1 \<le> number"
  shows "sr_cyrl_translate number withoutSuffix ''ss'' isFuture \<noteq> None"
    and "sr_cyrl_translate number withoutSuffix ''m'' isFuture \<noteq> None"
    and "sr_cyrl_translate number withoutSuffix ''mm'' isFuture \<noteq> None"
    and "sr_cyrl_translate number withoutSuffix ''h'' isFuture \<noteq> None"
    and "sr_cyrl_translate number withoutSuffix ''hh'' isFuture \<noteq> None"
    and "sr_cyrl_translate number withoutSuffix ''dd'' isFuture \<noteq> None"
    and "sr_cyrl_translate number withoutSuffix ''MM'' isFuture \<noteq> None"
    and "sr_cyrl_translate number withoutSuffix ''yy'' isFuture \<noteq> None"
  using assms
  by (auto simp: sr_cyrl_translate_def sr_cyrl_words_def sr_cyrl_correctGrammaticalCase_def js_nth_def Let_def split: if_splits)

lemma locales_n_relative:
  assumes "1 \<le> number"
  shows "list_all (\<lambda>c. rel_defined number withoutSuffix isFuture (l_relative_time c)) locales_n"
  unfolding locales_n_defs list.pred_inject moment_locale.select_convs rel_defined_def
  using assms by (simp add: pl_rel_a_defined ro_rel_t_defined ru_rel_n_defined sk_rel_r_defined sl_rel_t_defined sr_translate_defined sr_cyrl_translate_defined del: not_None_eq)

lemma locales_n_wrappers:
  "list_all (\<lambda>c. wrapper_defined s (l_relative_time c)) locales_n"
  unfolding locales_n_defs list.pred_inject moment_locale.select_convs wrapper_defined_def
  by (simp)

lemma locales_n_unitwise:
  "list_all (\<lambda>c. unitwise (apply_option (l_preparse c)) \<and> unitwise (apply_option (l_postformat c))) locales_n"
  unfolding locales_n_defs list.pred_inject moment_locale.select_convs
  by (simp add: unitwise_def apply_option_def
      pa_in_preparse_def pa_in_postformat_def sd_preparse_def sd_postformat_def)

lemma locales_n_names:
  "list_all (\<lambda>c. names_length 12 (l_months c) \<and> names_length 12 (l_months_short c) \<and>
     names_length 7 (l_weekdays c) \<and> length (l_weekdays_short c) = 7 \<and> length (l_weekdays_min c) = 7) locales_n"
  unfolding locales_n_defs list.pred_inject moment_locale.select_convs
  by (simp add: names_length_def)

end
