(* ===== verification/LocalesS.thy ===== *)
theory LocalesS
  imports MomentCore
begin

text \<open>
  The language configurations sw to yo of the date library, as the bundle
  \<^verbatim>\<open>src/lagosta/js/app.js\<close> registers them, one per line.  Each configuration is the record
  \<^verbatim>\<open>locale_x\<close>; the functions inside it are the definitions before it, named after the language and
  the property (or the local function) that holds them.
\<close>

text \<open>\<^verbatim>\<open>sw\<close> (line 188).\<close>

definition locale_sw :: moment_locale where
  "locale_sw = \<lparr>
     l_abbr = ''sw'',
     l_months = Names [js ''Januari'', js ''Februari'', js ''Machi'', js ''Aprili'', js ''Mei'', js
         ''Juni'', js ''Julai'', js ''Agosti'', js ''Septemba'', js ''Oktoba'', js ''Novemba'', js
         ''Desemba''],
     l_months_short = Names [js ''Jan'', js ''Feb'', js ''Mac'', js ''Apr'', js ''Mei'', js ''Jun'',
         js ''Jul'', js ''Ago'', js ''Sep'', js ''Okt'', js ''Nov'', js ''Des''],
     l_weekdays = Names [js ''Jumapili'', js ''Jumatatu'', js ''Jumanne'', js ''Jumatano'', js
         ''Alhamisi'', js ''Ijumaa'', js ''Jumamosi''],
     l_weekdays_short = [js ''Jpl'', js ''Jtat'', js ''Jnne'', js ''Jtan'', js ''Alh'', js ''Ijm'',
         js ''Jmos''],
     l_weekdays_min = [js ''J2'', js ''J3'', js ''J4'', js ''J5'', js ''Al'', js ''Ij'', js ''J1''],
     l_long_date_format = [(''LT'', js ''hh:mm A''),
       (''LTS'', js ''HH:mm:ss''),
       (''L'', js ''DD.MM.YYYY''),
       (''LL'', js ''D MMMM YYYY''),
       (''LLL'', js ''D MMMM YYYY HH:mm''),
       (''LLLL'', js ''dddd, D MMMM YYYY HH:mm'')],
     l_calendar = [(''sameDay'', CalText (js ''[leo saa] LT'')),
       (''nextDay'', CalText (js ''[kesho saa] LT'')),
       (''nextWeek'', CalText (js ''[wiki ijayo] dddd [saat] LT'')),
       (''lastDay'', CalText (js ''[jana] LT'')),
       (''lastWeek'', CalText (js ''[wiki iliyopita] dddd [saat] LT'')),
       (''sameElse'', CalText (js ''L''))],
     l_relative_time = [(''future'', RelText (js ''%s baadaye'')),
       (''past'', RelText (js ''tokea %s'')),
       (''s'', RelText (js ''hivi punde'')),
       (''ss'', RelText (js ''sekunde %d'')),
       (''m'', RelText (js ''dakika moja'')),
       (''mm'', RelText (js ''dakika %d'')),
       (''h'', RelText (js ''saa limoja'')),
       (''hh'', RelText (js ''masaa %d'')),
       (''d'', RelText (js ''siku moja'')),
       (''dd'', RelText (js ''siku %d'')),
       (''M'', RelText (js ''mwezi mmoja'')),
       (''MM'', RelText (js ''miezi %d'')),
       (''y'', RelText (js ''mwaka mmoja'')),
       (''yy'', RelText (js ''miaka %d''))],
     l_ordinal = None,
     l_meridiem = None,
     l_is_pm = None,
     l_meridiem_hour = None,
     l_preparse = None,
     l_postformat = None,
     l_week = Some (1, 7),
     l_meridiem_parse = None,
     l_ordinal_parse = None,
     l_parse = [],
     l_months_parse_exact = False,
     l_weekdays_parse_exact = True,
     l_invalid_date = None,
     l_eras = [],
     l_era_year = None \<rparr>"

text \<open>\<^verbatim>\<open>ta\<close> (line 95).\<close>

definition ta_ordinal :: "nat \<Rightarrow> string \<Rightarrow> js option" where
  "ta_ordinal number period = Some (jnum number @ [0xBB5, 0xBA4, 0xBC1])"

definition ta_meridiem :: "nat \<Rightarrow> nat \<Rightarrow> bool \<Rightarrow> js" where
  "ta_meridiem hour minute isLower = (if hour < 2 then [0x20, 0xBAF, 0xBBE, 0xBAE, 0xBAE, 0xBCD]
      else if hour < 6 then [0x20, 0xBB5, 0xBC8, 0xB95, 0xBB1, 0xBC8]
      else if hour < 10 then [0x20, 0xB95, 0xBBE, 0xBB2, 0xBC8]
      else if hour < 14 then [0x20, 0xBA8, 0xBA3, 0xBCD, 0xBAA, 0xB95, 0xBB2, 0xBCD]
      else if hour < 18 then [0x20, 0xB8E, 0xBB1, 0xBCD, 0xBAA, 0xBBE, 0xB9F, 0xBC1]
      else if hour < 22 then [0x20, 0xBAE, 0xBBE, 0xBB2, 0xBC8]
      else [0x20, 0xBAF, 0xBBE, 0xBAE, 0xBAE, 0xBCD])"

definition ta_meridiemHour :: "nat \<Rightarrow> js \<Rightarrow> nat option" where
  "ta_meridiemHour hour meridiem = Some (let hour = (if hour = 12 then 0
      else hour) in (if meridiem = [0xBAF, 0xBBE, 0xBAE, 0xBAE, 0xBCD] then (if hour < 2 then hour
      else hour + 12)
      else if (meridiem = [0xBB5, 0xBC8, 0xB95, 0xBB1, 0xBC8] \<or> meridiem = [0xB95, 0xBBE, 0xBB2,
          0xBC8]) \<or> (meridiem = [0xBA8, 0xBA3, 0xBCD, 0xBAA, 0xB95, 0xBB2, 0xBCD] \<and> hour
          \<ge> 10) then hour
      else hour + 12))"

definition ta_preparse :: "js \<Rightarrow> js" where
  "ta_preparse s = js_replace_units [(0xBE7, [0x31]), (0xBE8, [0x32]), (0xBE9, [0x33]), (0xBEA,
      [0x34]), (0xBEB, [0x35]), (0xBEC, [0x36]), (0xBED, [0x37]), (0xBEE, [0x38]), (0xBEF, [0x39]),
      (0xBE6, [0x30])] s"

definition ta_postformat :: "js \<Rightarrow> js" where
  "ta_postformat s = js_replace_units [(0x30, [0xBE6]), (0x31, [0xBE7]), (0x32, [0xBE8]), (0x33,
      [0xBE9]), (0x34, [0xBEA]), (0x35, [0xBEB]), (0x36, [0xBEC]), (0x37, [0xBED]), (0x38, [0xBEE]),
      (0x39, [0xBEF])] s"

definition locale_ta :: moment_locale where
  "locale_ta = \<lparr>
     l_abbr = ''ta'',
     l_months = Names [[0xB9C, 0xBA9, 0xBB5, 0xBB0, 0xBBF], [0xBAA, 0xBBF, 0xBAA, 0xBCD, 0xBB0,
         0xBB5, 0xBB0, 0xBBF], [0xBAE, 0xBBE, 0xBB0, 0xBCD, 0xB9A, 0xBCD], [0xB8F, 0xBAA, 0xBCD,
         0xBB0, 0xBB2, 0xBCD], [0xBAE, 0xBC7], [0xB9C, 0xBC2, 0xBA9, 0xBCD], [0xB9C, 0xBC2, 0xBB2,
         0xBC8], [0xB86, 0xB95, 0xBB8, 0xBCD, 0xB9F, 0xBCD], [0xB9A, 0xBC6, 0xBAA, 0xBCD, 0xB9F,
         0xBC6, 0xBAE, 0xBCD, 0xBAA, 0xBB0, 0xBCD], [0xB85, 0xB95, 0xBCD, 0xB9F, 0xBC7, 0xBBE,
         0xBAA, 0xBB0, 0xBCD], [0xBA8, 0xBB5, 0xBAE, 0xBCD, 0xBAA, 0xBB0, 0xBCD], [0xB9F, 0xBBF,
         0xB9A, 0xBAE, 0xBCD, 0xBAA, 0xBB0, 0xBCD]],
     l_months_short = Names [[0xB9C, 0xBA9, 0xBB5, 0xBB0, 0xBBF], [0xBAA, 0xBBF, 0xBAA, 0xBCD,
         0xBB0, 0xBB5, 0xBB0, 0xBBF], [0xBAE, 0xBBE, 0xBB0, 0xBCD, 0xB9A, 0xBCD], [0xB8F, 0xBAA,
         0xBCD, 0xBB0, 0xBB2, 0xBCD], [0xBAE, 0xBC7], [0xB9C, 0xBC2, 0xBA9, 0xBCD], [0xB9C, 0xBC2,
         0xBB2, 0xBC8], [0xB86, 0xB95, 0xBB8, 0xBCD, 0xB9F, 0xBCD], [0xB9A, 0xBC6, 0xBAA, 0xBCD,
         0xB9F, 0xBC6, 0xBAE, 0xBCD, 0xBAA, 0xBB0, 0xBCD], [0xB85, 0xB95, 0xBCD, 0xB9F, 0xBC7,
         0xBBE, 0xBAA, 0xBB0, 0xBCD], [0xBA8, 0xBB5, 0xBAE, 0xBCD, 0xBAA, 0xBB0, 0xBCD], [0xB9F,
         0xBBF, 0xB9A, 0xBAE, 0xBCD, 0xBAA, 0xBB0, 0xBCD]],
     l_weekdays = Names [[0xB9E, 0xBBE, 0xBAF, 0xBBF, 0xBB1, 0xBCD, 0xBB1, 0xBC1, 0xB95, 0xBCD,
         0xB95, 0xBBF, 0xBB4, 0xBAE, 0xBC8], [0xBA4, 0xBBF, 0xB99, 0xBCD, 0xB95, 0xB9F, 0xBCD,
         0xB95, 0xBBF, 0xBB4, 0xBAE, 0xBC8], [0xB9A, 0xBC6, 0xBB5, 0xBCD, 0xBB5, 0xBBE, 0xBAF,
         0xBCD, 0xB95, 0xBBF, 0xBB4, 0xBAE, 0xBC8], [0xBAA, 0xBC1, 0xBA4, 0xBA9, 0xBCD, 0xB95,
         0xBBF, 0xBB4, 0xBAE, 0xBC8], [0xBB5, 0xBBF, 0xBAF, 0xBBE, 0xBB4, 0xB95, 0xBCD, 0xB95,
         0xBBF, 0xBB4, 0xBAE, 0xBC8], [0xBB5, 0xBC6, 0xBB3, 0xBCD, 0xBB3, 0xBBF, 0xB95, 0xBCD,
         0xB95, 0xBBF, 0xBB4, 0xBAE, 0xBC8], [0xB9A, 0xBA9, 0xBBF, 0xB95, 0xBCD, 0xB95, 0xBBF,
         0xBB4, 0xBAE, 0xBC8]],
     l_weekdays_short = [[0xB9E, 0xBBE, 0xBAF, 0xBBF, 0xBB1, 0xBC1], [0xBA4, 0xBBF, 0xB99, 0xBCD,
         0xB95, 0xBB3, 0xBCD], [0xB9A, 0xBC6, 0xBB5, 0xBCD, 0xBB5, 0xBBE, 0xBAF, 0xBCD], [0xBAA,
         0xBC1, 0xBA4, 0xBA9, 0xBCD], [0xBB5, 0xBBF, 0xBAF, 0xBBE, 0xBB4, 0xBA9, 0xBCD], [0xBB5,
         0xBC6, 0xBB3, 0xBCD, 0xBB3, 0xBBF], [0xB9A, 0xBA9, 0xBBF]],
     l_weekdays_min = [[0xB9E, 0xBBE], [0xBA4, 0xBBF], [0xB9A, 0xBC6], [0xBAA, 0xBC1], [0xBB5,
         0xBBF], [0xBB5, 0xBC6], [0xB9A]],
     l_long_date_format = [(''LT'', js ''HH:mm''),
       (''LTS'', js ''HH:mm:ss''),
       (''L'', js ''DD/MM/YYYY''),
       (''LL'', js ''D MMMM YYYY''),
       (''LLL'', js ''D MMMM YYYY, HH:mm''),
       (''LLLL'', js ''dddd, D MMMM YYYY, HH:mm'')],
     l_calendar = [(''sameDay'', CalText ([0x5B, 0xB87, 0xBA9, 0xBCD, 0xBB1, 0xBC1] @ js ''] LT'')),
       (''nextDay'', CalText ([0x5B, 0xBA8, 0xBBE, 0xBB3, 0xBC8] @ js ''] LT'')),
       (''nextWeek'', CalText (js ''dddd, LT'')),
       (''lastDay'', CalText ([0x5B, 0xBA8, 0xBC7, 0xBB1, 0xBCD, 0xBB1, 0xBC1] @ js ''] LT'')),
       (''lastWeek'', CalText ([0x5B, 0xB95, 0xB9F, 0xBA8, 0xBCD, 0xBA4, 0x20, 0xBB5, 0xBBE, 0xBB0,
           0xBAE, 0xBCD] @ js ''] dddd, LT'')),
       (''sameElse'', CalText (js ''L''))],
     l_relative_time = [(''future'', RelText [0x25, 0x73, 0x20, 0xB87, 0xBB2, 0xBCD]),
       (''past'', RelText [0x25, 0x73, 0x20, 0xBAE, 0xBC1, 0xBA9, 0xBCD]),
       (''s'', RelText [0xB92, 0xBB0, 0xBC1, 0x20, 0xB9A, 0xBBF, 0xBB2, 0x20, 0xBB5, 0xBBF, 0xBA8,
           0xBBE, 0xB9F, 0xBBF, 0xB95, 0xBB3, 0xBCD]),
       (''ss'', RelText [0x25, 0x64, 0x20, 0xBB5, 0xBBF, 0xBA8, 0xBBE, 0xB9F, 0xBBF, 0xB95, 0xBB3,
           0xBCD]),
       (''m'', RelText [0xB92, 0xBB0, 0xBC1, 0x20, 0xBA8, 0xBBF, 0xBAE, 0xBBF, 0xB9F, 0xBAE,
           0xBCD]),
       (''mm'', RelText [0x25, 0x64, 0x20, 0xBA8, 0xBBF, 0xBAE, 0xBBF, 0xB9F, 0xB99, 0xBCD, 0xB95,
           0xBB3, 0xBCD]),
       (''h'', RelText [0xB92, 0xBB0, 0xBC1, 0x20, 0xBAE, 0xBA3, 0xBBF, 0x20, 0xBA8, 0xBC7, 0xBB0,
           0xBAE, 0xBCD]),
       (''hh'', RelText [0x25, 0x64, 0x20, 0xBAE, 0xBA3, 0xBBF, 0x20, 0xBA8, 0xBC7, 0xBB0, 0xBAE,
           0xBCD]),
       (''d'', RelText [0xB92, 0xBB0, 0xBC1, 0x20, 0xBA8, 0xBBE, 0xBB3, 0xBCD]),
       (''dd'', RelText [0x25, 0x64, 0x20, 0xBA8, 0xBBE, 0xB9F, 0xBCD, 0xB95, 0xBB3, 0xBCD]),
       (''M'', RelText [0xB92, 0xBB0, 0xBC1, 0x20, 0xBAE, 0xBBE, 0xBA4, 0xBAE, 0xBCD]),
       (''MM'', RelText [0x25, 0x64, 0x20, 0xBAE, 0xBBE, 0xBA4, 0xB99, 0xBCD, 0xB95, 0xBB3, 0xBCD]),
       (''y'', RelText [0xB92, 0xBB0, 0xBC1, 0x20, 0xBB5, 0xBB0, 0xBC1, 0xB9F, 0xBAE, 0xBCD]),
       (''yy'', RelText [0x25, 0x64, 0x20, 0xB86, 0xBA3, 0xBCD, 0xB9F, 0xBC1, 0xB95, 0xBB3,
           0xBCD])],
     l_ordinal = Some (OrdFun ta_ordinal),
     l_meridiem = Some ta_meridiem,
     l_is_pm = None,
     l_meridiem_hour = Some ta_meridiemHour,
     l_preparse = Some ta_preparse,
     l_postformat = Some ta_postformat,
     l_week = Some (0, 6),
     l_meridiem_parse = Some (Regex False (Alt [Lit [0xBAF, 0xBBE, 0xBAE, 0xBAE, 0xBCD], Lit [0xBB5,
         0xBC8, 0xB95, 0xBB1, 0xBC8], Lit [0xB95, 0xBBE, 0xBB2, 0xBC8], Lit [0xBA8, 0xBA3, 0xBCD,
         0xBAA, 0xB95, 0xBB2, 0xBCD], Lit [0xB8E, 0xBB1, 0xBCD, 0xBAA, 0xBBE, 0xB9F, 0xBC1], Lit
         [0xBAE, 0xBBE, 0xBB2, 0xBC8]])),
     l_ordinal_parse = Some (Regex False (Seq [digits_1_2, Lit [0xBB5, 0xBA4, 0xBC1]])),
     l_parse = [],
     l_months_parse_exact = False,
     l_weekdays_parse_exact = False,
     l_invalid_date = None,
     l_eras = [],
     l_era_year = None \<rparr>"

text \<open>\<^verbatim>\<open>te\<close> (line 147).\<close>

definition te_meridiem :: "nat \<Rightarrow> nat \<Rightarrow> bool \<Rightarrow> js" where
  "te_meridiem hour minute isLower = (if hour < 4 then [0xC30, 0xC3E, 0xC24, 0xC4D, 0xC30, 0xC3F]
      else if hour < 10 then [0xC09, 0xC26, 0xC2F, 0xC02]
      else if hour < 17 then [0xC2E, 0xC27, 0xC4D, 0xC2F, 0xC3E, 0xC39, 0xC4D, 0xC28, 0xC02]
      else if hour < 20 then [0xC38, 0xC3E, 0xC2F, 0xC02, 0xC24, 0xC4D, 0xC30, 0xC02]
      else [0xC30, 0xC3E, 0xC24, 0xC4D, 0xC30, 0xC3F])"

definition te_meridiemHour :: "nat \<Rightarrow> js \<Rightarrow> nat option" where
  "te_meridiemHour hour meridiem = (let hour = (if hour = 12 then 0
      else hour) in (if meridiem = [0xC30, 0xC3E, 0xC24, 0xC4D, 0xC30, 0xC3F] then Some (if hour < 4
          then hour
      else hour + 12)
      else if meridiem = [0xC09, 0xC26, 0xC2F, 0xC02] then Some hour
      else if meridiem = [0xC2E, 0xC27, 0xC4D, 0xC2F, 0xC3E, 0xC39, 0xC4D, 0xC28, 0xC02] then Some
          (if hour \<ge> 10 then hour
      else hour + 12)
      else if meridiem = [0xC38, 0xC3E, 0xC2F, 0xC02, 0xC24, 0xC4D, 0xC30, 0xC02] then Some (hour +
          12)
      else None))"

definition locale_te :: moment_locale where
  "locale_te = \<lparr>
     l_abbr = ''te'',
     l_months = Names [[0xC1C, 0xC28, 0xC35, 0xC30, 0xC3F], [0xC2B, 0xC3F, 0xC2C, 0xC4D, 0xC30,
         0xC35, 0xC30, 0xC3F], [0xC2E, 0xC3E, 0xC30, 0xC4D, 0xC1A, 0xC3F], [0xC0F, 0xC2A, 0xC4D,
         0xC30, 0xC3F, 0xC32, 0xC4D], [0xC2E, 0xC47], [0xC1C, 0xC42, 0xC28, 0xC4D], [0xC1C, 0xC41,
         0xC32, 0xC48], [0xC06, 0xC17, 0xC38, 0xC4D, 0xC1F, 0xC41], [0xC38, 0xC46, 0xC2A, 0xC4D,
         0xC1F, 0xC46, 0xC02, 0xC2C, 0xC30, 0xC4D], [0xC05, 0xC15, 0xC4D, 0xC1F, 0xC4B, 0xC2C,
         0xC30, 0xC4D], [0xC28, 0xC35, 0xC02, 0xC2C, 0xC30, 0xC4D], [0xC21, 0xC3F, 0xC38, 0xC46,
         0xC02, 0xC2C, 0xC30, 0xC4D]],
     l_months_short = Names [[0xC1C, 0xC28, 0x2E], [0xC2B, 0xC3F, 0xC2C, 0xC4D, 0xC30, 0x2E],
         [0xC2E, 0xC3E, 0xC30, 0xC4D, 0xC1A, 0xC3F], [0xC0F, 0xC2A, 0xC4D, 0xC30, 0xC3F, 0x2E],
         [0xC2E, 0xC47], [0xC1C, 0xC42, 0xC28, 0xC4D], [0xC1C, 0xC41, 0xC32, 0xC48], [0xC06, 0xC17,
         0x2E], [0xC38, 0xC46, 0xC2A, 0xC4D, 0x2E], [0xC05, 0xC15, 0xC4D, 0xC1F, 0xC4B, 0x2E],
         [0xC28, 0xC35, 0x2E], [0xC21, 0xC3F, 0xC38, 0xC46, 0x2E]],
     l_weekdays = Names [[0xC06, 0xC26, 0xC3F, 0xC35, 0xC3E, 0xC30, 0xC02], [0xC38, 0xC4B, 0xC2E,
         0xC35, 0xC3E, 0xC30, 0xC02], [0xC2E, 0xC02, 0xC17, 0xC33, 0xC35, 0xC3E, 0xC30, 0xC02],
         [0xC2C, 0xC41, 0xC27, 0xC35, 0xC3E, 0xC30, 0xC02], [0xC17, 0xC41, 0xC30, 0xC41, 0xC35,
         0xC3E, 0xC30, 0xC02], [0xC36, 0xC41, 0xC15, 0xC4D, 0xC30, 0xC35, 0xC3E, 0xC30, 0xC02],
         [0xC36, 0xC28, 0xC3F, 0xC35, 0xC3E, 0xC30, 0xC02]],
     l_weekdays_short = [[0xC06, 0xC26, 0xC3F], [0xC38, 0xC4B, 0xC2E], [0xC2E, 0xC02, 0xC17, 0xC33],
         [0xC2C, 0xC41, 0xC27], [0xC17, 0xC41, 0xC30, 0xC41], [0xC36, 0xC41, 0xC15, 0xC4D, 0xC30],
         [0xC36, 0xC28, 0xC3F]],
     l_weekdays_min = [[0xC06], [0xC38, 0xC4B], [0xC2E, 0xC02], [0xC2C, 0xC41], [0xC17, 0xC41],
         [0xC36, 0xC41], [0xC36]],
     l_long_date_format = [(''LT'', js ''A h:mm''),
       (''LTS'', js ''A h:mm:ss''),
       (''L'', js ''DD/MM/YYYY''),
       (''LL'', js ''D MMMM YYYY''),
       (''LLL'', js ''D MMMM YYYY, A h:mm''),
       (''LLLL'', js ''dddd, D MMMM YYYY, A h:mm'')],
     l_calendar = [(''sameDay'', CalText ([0x5B, 0xC28, 0xC47, 0xC21, 0xC41] @ js ''] LT'')),
       (''nextDay'', CalText ([0x5B, 0xC30, 0xC47, 0xC2A, 0xC41] @ js ''] LT'')),
       (''nextWeek'', CalText (js ''dddd, LT'')),
       (''lastDay'', CalText ([0x5B, 0xC28, 0xC3F, 0xC28, 0xC4D, 0xC28] @ js ''] LT'')),
       (''lastWeek'', CalText ([0x5B, 0xC17, 0xC24] @ js ''] dddd, LT'')),
       (''sameElse'', CalText (js ''L''))],
     l_relative_time = [(''future'', RelText [0x25, 0x73, 0x20, 0xC32, 0xC4B]),
       (''past'', RelText [0x25, 0x73, 0x20, 0xC15, 0xC4D, 0xC30, 0xC3F, 0xC24, 0xC02]),
       (''s'', RelText [0xC15, 0xC4A, 0xC28, 0xC4D, 0xC28, 0xC3F, 0x20, 0xC15, 0xC4D, 0xC37, 0xC23,
           0xC3E, 0xC32, 0xC41]),
       (''ss'', RelText [0x25, 0x64, 0x20, 0xC38, 0xC46, 0xC15, 0xC28, 0xC4D, 0xC32, 0xC41]),
       (''m'', RelText [0xC12, 0xC15, 0x20, 0xC28, 0xC3F, 0xC2E, 0xC3F, 0xC37, 0xC02]),
       (''mm'', RelText [0x25, 0x64, 0x20, 0xC28, 0xC3F, 0xC2E, 0xC3F, 0xC37, 0xC3E, 0xC32, 0xC41]),
       (''h'', RelText [0xC12, 0xC15, 0x20, 0xC17, 0xC02, 0xC1F]),
       (''hh'', RelText [0x25, 0x64, 0x20, 0xC17, 0xC02, 0xC1F, 0xC32, 0xC41]),
       (''d'', RelText [0xC12, 0xC15, 0x20, 0xC30, 0xC4B, 0xC1C, 0xC41]),
       (''dd'', RelText [0x25, 0x64, 0x20, 0xC30, 0xC4B, 0xC1C, 0xC41, 0xC32, 0xC41]),
       (''M'', RelText [0xC12, 0xC15, 0x20, 0xC28, 0xC46, 0xC32]),
       (''MM'', RelText [0x25, 0x64, 0x20, 0xC28, 0xC46, 0xC32, 0xC32, 0xC41]),
       (''y'', RelText [0xC12, 0xC15, 0x20, 0xC38, 0xC02, 0xC35, 0xC24, 0xC4D, 0xC38, 0xC30,
           0xC02]),
       (''yy'', RelText [0x25, 0x64, 0x20, 0xC38, 0xC02, 0xC35, 0xC24, 0xC4D, 0xC38, 0xC30, 0xC3E,
           0xC32, 0xC41])],
     l_ordinal = Some (OrdText [0x25, 0x64, 0xC35]),
     l_meridiem = Some te_meridiem,
     l_is_pm = None,
     l_meridiem_hour = Some te_meridiemHour,
     l_preparse = None,
     l_postformat = None,
     l_week = Some (0, 6),
     l_meridiem_parse = Some (Regex False (Alt [Lit [0xC30, 0xC3E, 0xC24, 0xC4D, 0xC30, 0xC3F], Lit
         [0xC09, 0xC26, 0xC2F, 0xC02], Lit [0xC2E, 0xC27, 0xC4D, 0xC2F, 0xC3E, 0xC39, 0xC4D, 0xC28,
         0xC02], Lit [0xC38, 0xC3E, 0xC2F, 0xC02, 0xC24, 0xC4D, 0xC30, 0xC02]])),
     l_ordinal_parse = Some (Regex False (Seq [digits_1_2, Lit [0xC35]])),
     l_parse = [],
     l_months_parse_exact = True,
     l_weekdays_parse_exact = False,
     l_invalid_date = None,
     l_eras = [],
     l_era_year = None \<rparr>"

text \<open>\<^verbatim>\<open>tet\<close> (line 137).\<close>

definition tet_ordinal :: "nat \<Rightarrow> string \<Rightarrow> js option" where
  "tet_ordinal number period = Some (let n = (if (number mod 100) div 10 = 1 then js ''th''
      else if (number mod 10) = 1 then js ''st''
      else if (number mod 10) = 2 then js ''nd''
      else if (number mod 10) = 3 then js ''rd''
      else js ''th'') in jnum number @ n)"

definition locale_tet :: moment_locale where
  "locale_tet = \<lparr>
     l_abbr = ''tet'',
     l_months = Names [js ''Janeiru'', js ''Fevereiru'', js ''Marsu'', js ''Abril'', js ''Maiu'',
         [0x4A, 0x75, 0xF1, 0x75], js ''Jullu'', js ''Agustu'', js ''Setembru'', js ''Outubru'', js
         ''Novembru'', js ''Dezembru''],
     l_months_short = Names [js ''Jan'', js ''Fev'', js ''Mar'', js ''Abr'', js ''Mai'', js ''Jun'',
         js ''Jul'', js ''Ago'', js ''Set'', js ''Out'', js ''Nov'', js ''Dez''],
     l_weekdays = Names [js ''Domingu'', js ''Segunda'', js ''Tersa'', js ''Kuarta'', js ''Kinta'',
         js ''Sesta'', js ''Sabadu''],
     l_weekdays_short = [js ''Dom'', js ''Seg'', js ''Ters'', js ''Kua'', js ''Kint'', js ''Sest'',
         js ''Sab''],
     l_weekdays_min = [js ''Do'', js ''Seg'', js ''Te'', js ''Ku'', js ''Ki'', js ''Ses'', js
         ''Sa''],
     l_long_date_format = [(''LT'', js ''HH:mm''),
       (''LTS'', js ''HH:mm:ss''),
       (''L'', js ''DD/MM/YYYY''),
       (''LL'', js ''D MMMM YYYY''),
       (''LLL'', js ''D MMMM YYYY HH:mm''),
       (''LLLL'', js ''dddd, D MMMM YYYY HH:mm'')],
     l_calendar = [(''sameDay'', CalText (js ''[Ohin iha] LT'')),
       (''nextDay'', CalText (js ''[Aban iha] LT'')),
       (''nextWeek'', CalText (js ''dddd [iha] LT'')),
       (''lastDay'', CalText (js ''[Horiseik iha] LT'')),
       (''lastWeek'', CalText (js ''dddd [semana kotuk] [iha] LT'')),
       (''sameElse'', CalText (js ''L''))],
     l_relative_time = [(''future'', RelText (js ''iha %s'')),
       (''past'', RelText (js ''%s liuba'')),
       (''s'', RelText (js ''segundu balun'')),
       (''ss'', RelText (js ''segundu %d'')),
       (''m'', RelText (js ''minutu ida'')),
       (''mm'', RelText (js ''minutu %d'')),
       (''h'', RelText (js ''oras ida'')),
       (''hh'', RelText (js ''oras %d'')),
       (''d'', RelText (js ''loron ida'')),
       (''dd'', RelText (js ''loron %d'')),
       (''M'', RelText (js ''fulan ida'')),
       (''MM'', RelText (js ''fulan %d'')),
       (''y'', RelText (js ''tinan ida'')),
       (''yy'', RelText (js ''tinan %d''))],
     l_ordinal = Some (OrdFun tet_ordinal),
     l_meridiem = None,
     l_is_pm = None,
     l_meridiem_hour = None,
     l_preparse = None,
     l_postformat = None,
     l_week = Some (1, 4),
     l_meridiem_parse = None,
     l_ordinal_parse = Some (Regex False (Seq [digits_1_2, Alt [Lit (js ''st''), Lit (js ''nd''),
         Lit (js ''rd''), Lit (js ''th'')]])),
     l_parse = [],
     l_months_parse_exact = False,
     l_weekdays_parse_exact = False,
     l_invalid_date = None,
     l_eras = [],
     l_era_year = None \<rparr>"

text \<open>\<^verbatim>\<open>tg\<close> (line 91).\<close>

definition tg_suffixes :: "nat \<Rightarrow> js option" where
  "tg_suffixes = map_of [(0, [0x2D, 0x443, 0x43C]), (1, [0x2D, 0x443, 0x43C]), (2, [0x2D, 0x44E,
      0x43C]), (3, [0x2D, 0x44E, 0x43C]), (4, [0x2D, 0x443, 0x43C]), (5, [0x2D, 0x443, 0x43C]), (6,
      [0x2D, 0x443, 0x43C]), (7, [0x2D, 0x443, 0x43C]), (8, [0x2D, 0x443, 0x43C]), (9, [0x2D, 0x443,
      0x43C]), (10, [0x2D, 0x443, 0x43C]), (12, [0x2D, 0x443, 0x43C]), (13, [0x2D, 0x443, 0x43C]),
      (20, [0x2D, 0x443, 0x43C]), (30, [0x2D, 0x44E, 0x43C]), (40, [0x2D, 0x443, 0x43C]), (50,
      [0x2D, 0x443, 0x43C]), (60, [0x2D, 0x443, 0x43C]), (70, [0x2D, 0x443, 0x43C]), (80, [0x2D,
      0x443, 0x43C]), (90, [0x2D, 0x443, 0x43C]), (100, [0x2D, 0x443, 0x43C])]"

definition tg_ordinal :: "nat \<Rightarrow> string \<Rightarrow> js option" where
  "tg_ordinal number period = map_option (\<lambda>x. jnum number @ x) (js_or (js_or (tg_suffixes
      number) (tg_suffixes (number mod 10))) (Option.bind (if number \<ge> 100 then Some 100
      else None) tg_suffixes))"

definition tg_meridiem :: "nat \<Rightarrow> nat \<Rightarrow> bool \<Rightarrow> js" where
  "tg_meridiem hour minute isLower = (if hour < 4 then [0x448, 0x430, 0x431]
      else if hour < 11 then [0x441, 0x443, 0x431, 0x4B3]
      else if hour < 16 then [0x440, 0x4EF, 0x437]
      else if hour < 19 then [0x431, 0x435, 0x433, 0x43E, 0x4B3]
      else [0x448, 0x430, 0x431])"

definition tg_meridiemHour :: "nat \<Rightarrow> js \<Rightarrow> nat option" where
  "tg_meridiemHour hour meridiem = (let hour = (if hour = 12 then 0
      else hour) in (if meridiem = [0x448, 0x430, 0x431] then Some (if hour < 4 then hour
      else hour + 12)
      else if meridiem = [0x441, 0x443, 0x431, 0x4B3] then Some hour
      else if meridiem = [0x440, 0x4EF, 0x437] then Some (if hour \<ge> 11 then hour
      else hour + 12)
      else if meridiem = [0x431, 0x435, 0x433, 0x43E, 0x4B3] then Some (hour + 12)
      else None))"

definition locale_tg :: moment_locale where
  "locale_tg = \<lparr>
     l_abbr = ''tg'',
     l_months = NamesAlt [[0x44F, 0x43D, 0x432, 0x430, 0x440], [0x444, 0x435, 0x432, 0x440, 0x430,
         0x43B], [0x43C, 0x430, 0x440, 0x442], [0x430, 0x43F, 0x440, 0x435, 0x43B], [0x43C, 0x430,
         0x439], [0x438, 0x44E, 0x43D], [0x438, 0x44E, 0x43B], [0x430, 0x432, 0x433, 0x443, 0x441,
         0x442], [0x441, 0x435, 0x43D, 0x442, 0x44F, 0x431, 0x440], [0x43E, 0x43A, 0x442, 0x44F,
         0x431, 0x440], [0x43D, 0x43E, 0x44F, 0x431, 0x440], [0x434, 0x435, 0x43A, 0x430, 0x431,
         0x440]] [[0x44F, 0x43D, 0x432, 0x430, 0x440, 0x438], [0x444, 0x435, 0x432, 0x440, 0x430,
         0x43B, 0x438], [0x43C, 0x430, 0x440, 0x442, 0x438], [0x430, 0x43F, 0x440, 0x435, 0x43B,
         0x438], [0x43C, 0x430, 0x439, 0x438], [0x438, 0x44E, 0x43D, 0x438], [0x438, 0x44E, 0x43B,
         0x438], [0x430, 0x432, 0x433, 0x443, 0x441, 0x442, 0x438], [0x441, 0x435, 0x43D, 0x442,
         0x44F, 0x431, 0x440, 0x438], [0x43E, 0x43A, 0x442, 0x44F, 0x431, 0x440, 0x438], [0x43D,
         0x43E, 0x44F, 0x431, 0x440, 0x438], [0x434, 0x435, 0x43A, 0x430, 0x431, 0x440, 0x438]]
         None,
     l_months_short = Names [[0x44F, 0x43D, 0x432], [0x444, 0x435, 0x432], [0x43C, 0x430, 0x440],
         [0x430, 0x43F, 0x440], [0x43C, 0x430, 0x439], [0x438, 0x44E, 0x43D], [0x438, 0x44E, 0x43B],
         [0x430, 0x432, 0x433], [0x441, 0x435, 0x43D], [0x43E, 0x43A, 0x442], [0x43D, 0x43E, 0x44F],
         [0x434, 0x435, 0x43A]],
     l_weekdays = Names [[0x44F, 0x43A, 0x448, 0x430, 0x43D, 0x431, 0x435], [0x434, 0x443, 0x448,
         0x430, 0x43D, 0x431, 0x435], [0x441, 0x435, 0x448, 0x430, 0x43D, 0x431, 0x435], [0x447,
         0x43E, 0x440, 0x448, 0x430, 0x43D, 0x431, 0x435], [0x43F, 0x430, 0x43D, 0x4B7, 0x448,
         0x430, 0x43D, 0x431, 0x435], [0x4B7, 0x443, 0x43C, 0x44A, 0x430], [0x448, 0x430, 0x43D,
         0x431, 0x435]],
     l_weekdays_short = [[0x44F, 0x448, 0x431], [0x434, 0x448, 0x431], [0x441, 0x448, 0x431],
         [0x447, 0x448, 0x431], [0x43F, 0x448, 0x431], [0x4B7, 0x443, 0x43C], [0x448, 0x43D,
         0x431]],
     l_weekdays_min = [[0x44F, 0x448], [0x434, 0x448], [0x441, 0x448], [0x447, 0x448], [0x43F,
         0x448], [0x4B7, 0x43C], [0x448, 0x431]],
     l_long_date_format = [(''LT'', js ''HH:mm''),
       (''LTS'', js ''HH:mm:ss''),
       (''L'', js ''DD.MM.YYYY''),
       (''LL'', js ''D MMMM YYYY''),
       (''LLL'', js ''D MMMM YYYY HH:mm''),
       (''LLLL'', js ''dddd, D MMMM YYYY HH:mm'')],
     l_calendar = [(''sameDay'', CalText ([0x5B, 0x418, 0x43C, 0x440, 0x4EF, 0x437, 0x20, 0x441,
         0x43E, 0x430, 0x442, 0x438] @ js ''] LT'')),
       (''nextDay'', CalText ([0x5B, 0x424, 0x430, 0x440, 0x434, 0x43E, 0x20, 0x441, 0x43E, 0x430,
           0x442, 0x438] @ js ''] LT'')),
       (''lastDay'', CalText ([0x5B, 0x414, 0x438, 0x440, 0x4EF, 0x437, 0x20, 0x441, 0x43E, 0x430,
           0x442, 0x438] @ js ''] LT'')),
       (''nextWeek'', CalText (js ''dddd['' @ [0x438, 0x5D, 0x20, 0x5B, 0x4B3, 0x430, 0x444, 0x442,
           0x430, 0x438, 0x20, 0x43E, 0x44F, 0x43D, 0x434, 0x430, 0x20, 0x441, 0x43E, 0x430, 0x442,
           0x438] @ js ''] LT'')),
       (''lastWeek'', CalText (js ''dddd['' @ [0x438, 0x5D, 0x20, 0x5B, 0x4B3, 0x430, 0x444, 0x442,
           0x430, 0x438, 0x20, 0x433, 0x443, 0x437, 0x430, 0x448, 0x442, 0x430, 0x20, 0x441, 0x43E,
           0x430, 0x442, 0x438] @ js ''] LT'')),
       (''sameElse'', CalText (js ''L''))],
     l_relative_time = [(''future'', RelText [0x431, 0x430, 0x44A, 0x434, 0x438, 0x20, 0x25, 0x73]),
       (''past'', RelText [0x25, 0x73, 0x20, 0x43F, 0x435, 0x448]),
       (''s'', RelText [0x44F, 0x43A, 0x447, 0x430, 0x43D, 0x434, 0x20, 0x441, 0x43E, 0x43D, 0x438,
           0x44F]),
       (''m'', RelText [0x44F, 0x43A, 0x20, 0x434, 0x430, 0x49B, 0x438, 0x49B, 0x430]),
       (''mm'', RelText [0x25, 0x64, 0x20, 0x434, 0x430, 0x49B, 0x438, 0x49B, 0x430]),
       (''h'', RelText [0x44F, 0x43A, 0x20, 0x441, 0x43E, 0x430, 0x442]),
       (''hh'', RelText [0x25, 0x64, 0x20, 0x441, 0x43E, 0x430, 0x442]),
       (''d'', RelText [0x44F, 0x43A, 0x20, 0x440, 0x4EF, 0x437]),
       (''dd'', RelText [0x25, 0x64, 0x20, 0x440, 0x4EF, 0x437]),
       (''M'', RelText [0x44F, 0x43A, 0x20, 0x43C, 0x43E, 0x4B3]),
       (''MM'', RelText [0x25, 0x64, 0x20, 0x43C, 0x43E, 0x4B3]),
       (''y'', RelText [0x44F, 0x43A, 0x20, 0x441, 0x43E, 0x43B]),
       (''yy'', RelText [0x25, 0x64, 0x20, 0x441, 0x43E, 0x43B])],
     l_ordinal = Some (OrdFun tg_ordinal),
     l_meridiem = Some tg_meridiem,
     l_is_pm = None,
     l_meridiem_hour = Some tg_meridiemHour,
     l_preparse = None,
     l_postformat = None,
     l_week = Some (1, 7),
     l_meridiem_parse = Some (Regex False (Alt [Lit [0x448, 0x430, 0x431], Lit [0x441, 0x443, 0x431,
         0x4B3], Lit [0x440, 0x4EF, 0x437], Lit [0x431, 0x435, 0x433, 0x43E, 0x4B3]])),
     l_ordinal_parse = Some (Regex False (Seq [digits_1_2, Lit (js ''-''), Alt [Lit [0x443, 0x43C],
         Lit [0x44E, 0x43C]]])),
     l_parse = [],
     l_months_parse_exact = False,
     l_weekdays_parse_exact = False,
     l_invalid_date = None,
     l_eras = [],
     l_era_year = None \<rparr>"

text \<open>\<^verbatim>\<open>th\<close> (line 33).\<close>

definition th_meridiem :: "nat \<Rightarrow> nat \<Rightarrow> bool \<Rightarrow> js" where
  "th_meridiem hour minute isLower = (if hour < 12 then [0xE01, 0xE48, 0xE2D, 0xE19, 0xE40, 0xE17,
      0xE35, 0xE48, 0xE22, 0xE07]
      else [0xE2B, 0xE25, 0xE31, 0xE07, 0xE40, 0xE17, 0xE35, 0xE48, 0xE22, 0xE07])"

definition th_isPM :: "js \<Rightarrow> bool" where
  "th_isPM input \<longleftrightarrow> input = [0xE2B, 0xE25, 0xE31, 0xE07, 0xE40, 0xE17, 0xE35,
      0xE48, 0xE22, 0xE07]"

definition locale_th :: moment_locale where
  "locale_th = \<lparr>
     l_abbr = ''th'',
     l_months = Names [[0xE21, 0xE01, 0xE23, 0xE32, 0xE04, 0xE21], [0xE01, 0xE38, 0xE21, 0xE20,
         0xE32, 0xE1E, 0xE31, 0xE19, 0xE18, 0xE4C], [0xE21, 0xE35, 0xE19, 0xE32, 0xE04, 0xE21],
         [0xE40, 0xE21, 0xE29, 0xE32, 0xE22, 0xE19], [0xE1E, 0xE24, 0xE29, 0xE20, 0xE32, 0xE04,
         0xE21], [0xE21, 0xE34, 0xE16, 0xE38, 0xE19, 0xE32, 0xE22, 0xE19], [0xE01, 0xE23, 0xE01,
         0xE0E, 0xE32, 0xE04, 0xE21], [0xE2A, 0xE34, 0xE07, 0xE2B, 0xE32, 0xE04, 0xE21], [0xE01,
         0xE31, 0xE19, 0xE22, 0xE32, 0xE22, 0xE19], [0xE15, 0xE38, 0xE25, 0xE32, 0xE04, 0xE21],
         [0xE1E, 0xE24, 0xE28, 0xE08, 0xE34, 0xE01, 0xE32, 0xE22, 0xE19], [0xE18, 0xE31, 0xE19,
         0xE27, 0xE32, 0xE04, 0xE21]],
     l_months_short = Names [[0xE21, 0x2E, 0xE04, 0x2E], [0xE01, 0x2E, 0xE1E, 0x2E], [0xE21, 0xE35,
         0x2E, 0xE04, 0x2E], [0xE40, 0xE21, 0x2E, 0xE22, 0x2E], [0xE1E, 0x2E, 0xE04, 0x2E], [0xE21,
         0xE34, 0x2E, 0xE22, 0x2E], [0xE01, 0x2E, 0xE04, 0x2E], [0xE2A, 0x2E, 0xE04, 0x2E], [0xE01,
         0x2E, 0xE22, 0x2E], [0xE15, 0x2E, 0xE04, 0x2E], [0xE1E, 0x2E, 0xE22, 0x2E], [0xE18, 0x2E,
         0xE04, 0x2E]],
     l_weekdays = Names [[0xE2D, 0xE32, 0xE17, 0xE34, 0xE15, 0xE22, 0xE4C], [0xE08, 0xE31, 0xE19,
         0xE17, 0xE23, 0xE4C], [0xE2D, 0xE31, 0xE07, 0xE04, 0xE32, 0xE23], [0xE1E, 0xE38, 0xE18],
         [0xE1E, 0xE24, 0xE2B, 0xE31, 0xE2A, 0xE1A, 0xE14, 0xE35], [0xE28, 0xE38, 0xE01, 0xE23,
         0xE4C], [0xE40, 0xE2A, 0xE32, 0xE23, 0xE4C]],
     l_weekdays_short = [[0xE2D, 0xE32, 0xE17, 0xE34, 0xE15, 0xE22, 0xE4C], [0xE08, 0xE31, 0xE19,
         0xE17, 0xE23, 0xE4C], [0xE2D, 0xE31, 0xE07, 0xE04, 0xE32, 0xE23], [0xE1E, 0xE38, 0xE18],
         [0xE1E, 0xE24, 0xE2B, 0xE31, 0xE2A], [0xE28, 0xE38, 0xE01, 0xE23, 0xE4C], [0xE40, 0xE2A,
         0xE32, 0xE23, 0xE4C]],
     l_weekdays_min = [[0xE2D, 0xE32, 0x2E], [0xE08, 0x2E], [0xE2D, 0x2E], [0xE1E, 0x2E], [0xE1E,
         0xE24, 0x2E], [0xE28, 0x2E], [0xE2A, 0x2E]],
     l_long_date_format = [(''LT'', js ''H:mm''),
       (''LTS'', js ''H:mm:ss''),
       (''L'', js ''DD/MM/YYYY''),
       (''LL'', js ''D MMMM YYYY''),
       (''LLL'', js ''D MMMM YYYY '' @ [0xE40, 0xE27, 0xE25, 0xE32] @ js '' H:mm''),
       (''LLLL'', [0xE27, 0xE31, 0xE19] @ js ''dddd'' @ [0xE17, 0xE35, 0xE48] @ js '' D MMMM YYYY ''
           @ [0xE40, 0xE27, 0xE25, 0xE32] @ js '' H:mm'')],
     l_calendar = [(''sameDay'', CalText ([0x5B, 0xE27, 0xE31, 0xE19, 0xE19, 0xE35, 0xE49, 0x20,
         0xE40, 0xE27, 0xE25, 0xE32] @ js ''] LT'')),
       (''nextDay'', CalText ([0x5B, 0xE1E, 0xE23, 0xE38, 0xE48, 0xE07, 0xE19, 0xE35, 0xE49, 0x20,
           0xE40, 0xE27, 0xE25, 0xE32] @ js ''] LT'')),
       (''nextWeek'', CalText (js ''dddd['' @ [0xE2B, 0xE19, 0xE49, 0xE32, 0x20, 0xE40, 0xE27,
           0xE25, 0xE32] @ js ''] LT'')),
       (''lastDay'', CalText ([0x5B, 0xE40, 0xE21, 0xE37, 0xE48, 0xE2D, 0xE27, 0xE32, 0xE19, 0xE19,
           0xE35, 0xE49, 0x20, 0xE40, 0xE27, 0xE25, 0xE32] @ js ''] LT'')),
       (''lastWeek'', CalText ([0x5B, 0xE27, 0xE31, 0xE19] @ js '']dddd['' @ [0xE17, 0xE35, 0xE48,
           0xE41, 0xE25, 0xE49, 0xE27, 0x20, 0xE40, 0xE27, 0xE25, 0xE32] @ js ''] LT'')),
       (''sameElse'', CalText (js ''L''))],
     l_relative_time = [(''future'', RelText [0xE2D, 0xE35, 0xE01, 0x20, 0x25, 0x73]),
       (''past'', RelText [0x25, 0x73, 0xE17, 0xE35, 0xE48, 0xE41, 0xE25, 0xE49, 0xE27]),
       (''s'', RelText [0xE44, 0xE21, 0xE48, 0xE01, 0xE35, 0xE48, 0xE27, 0xE34, 0xE19, 0xE32, 0xE17,
           0xE35]),
       (''ss'', RelText [0x25, 0x64, 0x20, 0xE27, 0xE34, 0xE19, 0xE32, 0xE17, 0xE35]),
       (''m'', RelText [0x31, 0x20, 0xE19, 0xE32, 0xE17, 0xE35]),
       (''mm'', RelText [0x25, 0x64, 0x20, 0xE19, 0xE32, 0xE17, 0xE35]),
       (''h'', RelText [0x31, 0x20, 0xE0A, 0xE31, 0xE48, 0xE27, 0xE42, 0xE21, 0xE07]),
       (''hh'', RelText [0x25, 0x64, 0x20, 0xE0A, 0xE31, 0xE48, 0xE27, 0xE42, 0xE21, 0xE07]),
       (''d'', RelText [0x31, 0x20, 0xE27, 0xE31, 0xE19]),
       (''dd'', RelText [0x25, 0x64, 0x20, 0xE27, 0xE31, 0xE19]),
       (''w'', RelText [0x31, 0x20, 0xE2A, 0xE31, 0xE1B, 0xE14, 0xE32, 0xE2B, 0xE4C]),
       (''ww'', RelText [0x25, 0x64, 0x20, 0xE2A, 0xE31, 0xE1B, 0xE14, 0xE32, 0xE2B, 0xE4C]),
       (''M'', RelText [0x31, 0x20, 0xE40, 0xE14, 0xE37, 0xE2D, 0xE19]),
       (''MM'', RelText [0x25, 0x64, 0x20, 0xE40, 0xE14, 0xE37, 0xE2D, 0xE19]),
       (''y'', RelText [0x31, 0x20, 0xE1B, 0xE35]),
       (''yy'', RelText [0x25, 0x64, 0x20, 0xE1B, 0xE35])],
     l_ordinal = None,
     l_meridiem = Some th_meridiem,
     l_is_pm = Some th_isPM,
     l_meridiem_hour = None,
     l_preparse = None,
     l_postformat = None,
     l_week = None,
     l_meridiem_parse = Some (Regex False (Alt [Lit [0xE01, 0xE48, 0xE2D, 0xE19, 0xE40, 0xE17,
         0xE35, 0xE48, 0xE22, 0xE07], Lit [0xE2B, 0xE25, 0xE31, 0xE07, 0xE40, 0xE17, 0xE35, 0xE48,
         0xE22, 0xE07]])),
     l_ordinal_parse = None,
     l_parse = [],
     l_months_parse_exact = True,
     l_weekdays_parse_exact = True,
     l_invalid_date = None,
     l_eras = [],
     l_era_year = None \<rparr>"

text \<open>\<^verbatim>\<open>tk\<close> (line 141).\<close>

definition tk_suffixes :: "nat \<Rightarrow> js option" where
  "tk_suffixes = map_of [(1, [0x27] @ js ''inji''), (5, [0x27] @ js ''inji''), (8, [0x27] @ js
      ''inji''), (70, [0x27] @ js ''inji''), (80, [0x27] @ js ''inji''), (2, [0x27, 0x6E, 0x6A,
      0x69]), (7, [0x27, 0x6E, 0x6A, 0x69]), (20, [0x27, 0x6E, 0x6A, 0x69]), (50, [0x27, 0x6E, 0x6A,
      0x69]), (3, [0x27, 0xFC, 0x6E, 0x6A, 0x69]), (4, [0x27, 0xFC, 0x6E, 0x6A, 0x69]), (100, [0x27,
      0xFC, 0x6E, 0x6A, 0x69]), (6, [0x27, 0x6E, 0x6A, 0x79]), (9, [0x27] @ js ''unjy''), (10,
      [0x27] @ js ''unjy''), (30, [0x27] @ js ''unjy''), (60, [0x27] @ js ''ynjy''), (90, [0x27] @
      js ''ynjy'')]"

definition tk_ordinal :: "nat \<Rightarrow> string \<Rightarrow> js option" where
  "tk_ordinal number period = (if period = ''d'' \<or> period = ''D'' \<or> period = ''Do'' \<or>
      period = ''DD'' then Some (jnum number)
      else if number = 0 then Some (jnum number @ [0x27] @ js ''unjy'')
      else map_option (\<lambda>x. jnum number @ x) (js_or (js_or (tk_suffixes (number mod 10))
          (tk_suffixes ((number mod 100) - (number mod 10)))) (Option.bind (if number \<ge> 100 then
          Some 100
      else None) tk_suffixes)))"

definition locale_tk :: moment_locale where
  "locale_tk = \<lparr>
     l_abbr = ''tk'',
     l_months = Names [[0xDD] @ js ''anwar'', js ''Fewral'', js ''Mart'', js ''Aprel'', [0x4D, 0x61,
         0xFD], [0x49, 0xFD, 0x75, 0x6E], [0x49, 0xFD, 0x75, 0x6C], js ''Awgust'', js ''Sent'' @
         [0xFD, 0x61, 0x62, 0x72], [0x4F, 0x6B, 0x74, 0xFD, 0x61, 0x62, 0x72], [0x4E, 0x6F, 0xFD,
         0x61, 0x62, 0x72], js ''Dekabr''],
     l_months_short = Names [[0xDD, 0x61, 0x6E], js ''Few'', js ''Mar'', js ''Apr'', [0x4D, 0x61,
         0xFD], [0x49, 0xFD, 0x6E], [0x49, 0xFD, 0x6C], js ''Awg'', js ''Sen'', js ''Okt'', [0x4E,
         0x6F, 0xFD], js ''Dek''],
     l_weekdays = Names [[0xDD, 0x65, 0x6B, 0x15F] @ js ''enbe'', [0x44, 0x75, 0x15F] @ js ''enbe'',
         [0x53, 0x69, 0x15F] @ js ''enbe'', [0xC7, 0x61, 0x72, 0x15F] @ js ''enbe'', [0x50, 0x65,
         0x6E, 0x15F] @ js ''enbe'', js ''Anna'', [0x15E] @ js ''enbe''],
     l_weekdays_short = [[0xDD, 0x65, 0x6B], [0x44, 0x75, 0x15F], [0x53, 0x69, 0x15F], [0xC7, 0x61,
         0x72], js ''Pen'', js ''Ann'', [0x15E, 0x65, 0x6E]],
     l_weekdays_min = [[0xDD, 0x6B], [0x44, 0x15F], [0x53, 0x15F], [0xC7, 0x72], js ''Pn'', js
         ''An'', [0x15E, 0x6E]],
     l_long_date_format = [(''LT'', js ''HH:mm''),
       (''LTS'', js ''HH:mm:ss''),
       (''L'', js ''DD.MM.YYYY''),
       (''LL'', js ''D MMMM YYYY''),
       (''LLL'', js ''D MMMM YYYY HH:mm''),
       (''LLLL'', js ''dddd, D MMMM YYYY HH:mm'')],
     l_calendar = [(''sameDay'', CalText (js ''[bug'' @ [0xFC] @ js ''n sagat] LT'')),
       (''nextDay'', CalText (js ''[ertir sagat] LT'')),
       (''nextWeek'', CalText (js ''[indiki] dddd [sagat] LT'')),
       (''lastDay'', CalText ([0x5B, 0x64, 0xFC, 0xFD] @ js ''n] LT'')),
       (''lastWeek'', CalText ([0x5B, 0x67, 0x65, 0xE7] @ js ''en] dddd [sagat] LT'')),
       (''sameElse'', CalText (js ''L''))],
     l_relative_time = [(''future'', RelText (js ''%s so'' @ [0x148])),
       (''past'', RelText [0x25, 0x73, 0x20, 0xF6, 0x148]),
       (''s'', RelText (js ''birn'' @ [0xE4, 0xE7] @ js ''e sekunt'')),
       (''m'', RelText (js ''bir minut'')),
       (''mm'', RelText (js ''%d minut'')),
       (''h'', RelText (js ''bir sagat'')),
       (''hh'', RelText (js ''%d sagat'')),
       (''d'', RelText (js ''bir g'' @ [0xFC, 0x6E])),
       (''dd'', RelText (js ''%d g'' @ [0xFC, 0x6E])),
       (''M'', RelText (js ''bir a'' @ [0xFD])),
       (''MM'', RelText (js ''%d a'' @ [0xFD])),
       (''y'', RelText (js ''bir '' @ [0xFD, 0x79, 0x6C])),
       (''yy'', RelText [0x25, 0x64, 0x20, 0xFD, 0x79, 0x6C])],
     l_ordinal = Some (OrdFun tk_ordinal),
     l_meridiem = None,
     l_is_pm = None,
     l_meridiem_hour = None,
     l_preparse = None,
     l_postformat = None,
     l_week = Some (1, 7),
     l_meridiem_parse = None,
     l_ordinal_parse = None,
     l_parse = [],
     l_months_parse_exact = False,
     l_weekdays_parse_exact = False,
     l_invalid_date = None,
     l_eras = [],
     l_era_year = None \<rparr>"

text \<open>\<^verbatim>\<open>tl-ph\<close> (line 29).\<close>

definition tl_ph_ordinal :: "nat \<Rightarrow> string \<Rightarrow> js option" where
  "tl_ph_ordinal number period = Some (jnum number)"

definition locale_tl_ph :: moment_locale where
  "locale_tl_ph = \<lparr>
     l_abbr = ''tl-ph'',
     l_months = Names [js ''Enero'', js ''Pebrero'', js ''Marso'', js ''Abril'', js ''Mayo'', js
         ''Hunyo'', js ''Hulyo'', js ''Agosto'', js ''Setyembre'', js ''Oktubre'', js ''Nobyembre'',
         js ''Disyembre''],
     l_months_short = Names [js ''Ene'', js ''Peb'', js ''Mar'', js ''Abr'', js ''May'', js ''Hun'',
         js ''Hul'', js ''Ago'', js ''Set'', js ''Okt'', js ''Nob'', js ''Dis''],
     l_weekdays = Names [js ''Linggo'', js ''Lunes'', js ''Martes'', js ''Miyerkules'', js
         ''Huwebes'', js ''Biyernes'', js ''Sabado''],
     l_weekdays_short = [js ''Lin'', js ''Lun'', js ''Mar'', js ''Miy'', js ''Huw'', js ''Biy'', js
         ''Sab''],
     l_weekdays_min = [js ''Li'', js ''Lu'', js ''Ma'', js ''Mi'', js ''Hu'', js ''Bi'', js
         ''Sab''],
     l_long_date_format = [(''LT'', js ''HH:mm''),
       (''LTS'', js ''HH:mm:ss''),
       (''L'', js ''MM/D/YYYY''),
       (''LL'', js ''MMMM D, YYYY''),
       (''LLL'', js ''MMMM D, YYYY HH:mm''),
       (''LLLL'', js ''dddd, MMMM DD, YYYY HH:mm'')],
     l_calendar = [(''sameDay'', CalText (js ''LT [ngayong araw]'')),
       (''nextDay'', CalText (js ''[Bukas ng] LT'')),
       (''nextWeek'', CalText (js ''LT [sa susunod na] dddd'')),
       (''lastDay'', CalText (js ''LT [kahapon]'')),
       (''lastWeek'', CalText (js ''LT [noong nakaraang] dddd'')),
       (''sameElse'', CalText (js ''L''))],
     l_relative_time = [(''future'', RelText (js ''sa loob ng %s'')),
       (''past'', RelText (js ''%s ang nakalipas'')),
       (''s'', RelText (js ''ilang segundo'')),
       (''ss'', RelText (js ''%d segundo'')),
       (''m'', RelText (js ''isang minuto'')),
       (''mm'', RelText (js ''%d minuto'')),
       (''h'', RelText (js ''isang oras'')),
       (''hh'', RelText (js ''%d oras'')),
       (''d'', RelText (js ''isang araw'')),
       (''dd'', RelText (js ''%d araw'')),
       (''M'', RelText (js ''isang buwan'')),
       (''MM'', RelText (js ''%d buwan'')),
       (''y'', RelText (js ''isang taon'')),
       (''yy'', RelText (js ''%d taon''))],
     l_ordinal = Some (OrdFun tl_ph_ordinal),
     l_meridiem = None,
     l_is_pm = None,
     l_meridiem_hour = None,
     l_preparse = None,
     l_postformat = None,
     l_week = Some (1, 4),
     l_meridiem_parse = None,
     l_ordinal_parse = Some (Regex False (digits_1_2)),
     l_parse = [],
     l_months_parse_exact = False,
     l_weekdays_parse_exact = False,
     l_invalid_date = None,
     l_eras = [],
     l_era_year = None \<rparr>"

text \<open>\<^verbatim>\<open>tlh\<close> (line 313).\<close>

definition tlh_time :: "js \<Rightarrow> js \<Rightarrow> js \<Rightarrow> js \<Rightarrow> js
    \<Rightarrow> js" where
  "tlh_time day month year other s = 
     (if js_contains (js ''jaj'') s then take (length s - 3) s @ day
      else if js_contains (js ''jar'') s then take (length s - 3) s @ month
      else if js_contains (js ''DIS'') s then take (length s - 3) s @ year
      else s @ other)"

definition tlh_rel_n :: "js \<Rightarrow> js option" where
  "tlh_rel_n s = Some (tlh_time (js ''leS'') (js ''waQ'') (js ''nem'') (js '' pIq'') s)"

definition tlh_rel_i :: "js \<Rightarrow> js option" where
  "tlh_rel_i s = Some (tlh_time [0x48, 0x75, 0x2019] (js ''wen'') (js ''ben'') (js '' ret'') s)"

definition tlh_digits :: "js list" where
  "tlh_digits = [js ''pagh'', [0x77, 0x61, 0x2019], [0x63, 0x68, 0x61, 0x2019], js ''wej'', js
      ''loS'', js ''vagh'', js ''jav'', js ''Soch'', js ''chorgh'', js ''Hut'']"

definition tlh_number :: "nat \<Rightarrow> js option" where
  "tlh_number n = 
     (let hundred = n mod 1000 div 100; ten = n mod 100 div 10; one = n mod 10 in
      Option.bind (if hundred > 0 then map_option (\<lambda>x. x @ (js ''vatlh'')) (js_nth
          tlh_digits hundred)
      else Some []) (\<lambda>a.
      Option.bind (if ten > 0 then map_option (\<lambda>x. a @ (if a \<noteq> [] then [0x20]
      else []) @ x @ (js ''maH'')) (js_nth tlh_digits ten)
      else Some a) (\<lambda>b.
      Option.bind (if one > 0 then map_option (\<lambda>x. b @ (if b \<noteq> [] then [0x20]
      else []) @ x) (js_nth tlh_digits one)
      else Some b) (\<lambda>c.
      Some (if c = [] then (js ''pagh'') else c)))))"

definition tlh_rel_r :: "nat \<Rightarrow> bool \<Rightarrow> string \<Rightarrow> bool
    \<Rightarrow> js option" where
  "tlh_rel_r number withoutSuffix key isFuture = 
     Option.bind (tlh_number number) (\<lambda>x. map_option (\<lambda>y. x @ y)
       (map_of [(''ss'', (js '' lup'')), (''mm'', (js '' tup'')), (''hh'', (js '' rep'')), (''dd'',
           (js '' jaj'')), (''MM'', (js '' jar'')), (''yy'', (js '' DIS''))] key))"

definition locale_tlh :: moment_locale where
  "locale_tlh = \<lparr>
     l_abbr = ''tlh'',
     l_months = Names [js ''tera'' @ [0x2019] @ js '' jar wa'' @ [0x2019], js ''tera'' @ [0x2019] @
         js '' jar cha'' @ [0x2019], js ''tera'' @ [0x2019] @ js '' jar wej'', js ''tera'' @
         [0x2019] @ js '' jar loS'', js ''tera'' @ [0x2019] @ js '' jar vagh'', js ''tera'' @
         [0x2019] @ js '' jar jav'', js ''tera'' @ [0x2019] @ js '' jar Soch'', js ''tera'' @
         [0x2019] @ js '' jar chorgh'', js ''tera'' @ [0x2019] @ js '' jar Hut'', js ''tera'' @
         [0x2019] @ js '' jar wa'' @ [0x2019, 0x6D, 0x61, 0x48], js ''tera'' @ [0x2019] @ js
         '' jar wa'' @ [0x2019] @ js ''maH wa'' @ [0x2019], js ''tera'' @ [0x2019] @ js '' jar wa''
         @ [0x2019] @ js ''maH cha'' @ [0x2019]],
     l_months_short = Names [js ''jar wa'' @ [0x2019], js ''jar cha'' @ [0x2019], js ''jar wej'', js
         ''jar loS'', js ''jar vagh'', js ''jar jav'', js ''jar Soch'', js ''jar chorgh'', js
         ''jar Hut'', js ''jar wa'' @ [0x2019, 0x6D, 0x61, 0x48], js ''jar wa'' @ [0x2019] @ js
         ''maH wa'' @ [0x2019], js ''jar wa'' @ [0x2019] @ js ''maH cha'' @ [0x2019]],
     l_weekdays = Names [js ''lojmItjaj'', js ''DaSjaj'', js ''povjaj'', js ''ghItlhjaj'', js
         ''loghjaj'', js ''buqjaj'', js ''ghInjaj''],
     l_weekdays_short = [js ''lojmItjaj'', js ''DaSjaj'', js ''povjaj'', js ''ghItlhjaj'', js
         ''loghjaj'', js ''buqjaj'', js ''ghInjaj''],
     l_weekdays_min = [js ''lojmItjaj'', js ''DaSjaj'', js ''povjaj'', js ''ghItlhjaj'', js
         ''loghjaj'', js ''buqjaj'', js ''ghInjaj''],
     l_long_date_format = [(''LT'', js ''HH:mm''),
       (''LTS'', js ''HH:mm:ss''),
       (''L'', js ''DD.MM.YYYY''),
       (''LL'', js ''D MMMM YYYY''),
       (''LLL'', js ''D MMMM YYYY HH:mm''),
       (''LLLL'', js ''dddd, D MMMM YYYY HH:mm'')],
     l_calendar = [(''sameDay'', CalText (js ''[DaHjaj] LT'')),
       (''nextDay'', CalText ([0x5B, 0x77, 0x61, 0x2019] @ js ''leS] LT'')),
       (''nextWeek'', CalText (js ''LLL'')),
       (''lastDay'', CalText ([0x5B, 0x77, 0x61, 0x2019, 0x48, 0x75, 0x2019] @ js ''] LT'')),
       (''lastWeek'', CalText (js ''LLL'')),
       (''sameElse'', CalText (js ''L''))],
     l_relative_time = [(''future'', RelStr tlh_rel_n),
       (''past'', RelStr tlh_rel_i),
       (''s'', RelText (js ''puS lup'')),
       (''ss'', RelNum tlh_rel_r),
       (''m'', RelText ([0x77, 0x61, 0x2019] @ js '' tup'')),
       (''mm'', RelNum tlh_rel_r),
       (''h'', RelText ([0x77, 0x61, 0x2019] @ js '' rep'')),
       (''hh'', RelNum tlh_rel_r),
       (''d'', RelText ([0x77, 0x61, 0x2019] @ js '' jaj'')),
       (''dd'', RelNum tlh_rel_r),
       (''M'', RelText ([0x77, 0x61, 0x2019] @ js '' jar'')),
       (''MM'', RelNum tlh_rel_r),
       (''y'', RelText ([0x77, 0x61, 0x2019] @ js '' DIS'')),
       (''yy'', RelNum tlh_rel_r)],
     l_ordinal = Some (OrdText (js ''%d.'')),
     l_meridiem = None,
     l_is_pm = None,
     l_meridiem_hour = None,
     l_preparse = None,
     l_postformat = None,
     l_week = Some (1, 4),
     l_meridiem_parse = None,
     l_ordinal_parse = Some (Regex False (Seq [digits_1_2, Lit (js ''.'')])),
     l_parse = [],
     l_months_parse_exact = True,
     l_weekdays_parse_exact = False,
     l_invalid_date = None,
     l_eras = [],
     l_era_year = None \<rparr>"

text \<open>\<^verbatim>\<open>tr\<close> (line 25).\<close>

definition tr_suffixes :: "nat \<Rightarrow> js option" where
  "tr_suffixes = map_of [(1, [0x27] @ js ''inci''), (5, [0x27] @ js ''inci''), (8, [0x27] @ js
      ''inci''), (70, [0x27] @ js ''inci''), (80, [0x27] @ js ''inci''), (2, [0x27, 0x6E, 0x63,
      0x69]), (7, [0x27, 0x6E, 0x63, 0x69]), (20, [0x27, 0x6E, 0x63, 0x69]), (50, [0x27, 0x6E, 0x63,
      0x69]), (3, [0x27, 0xFC, 0x6E, 0x63, 0xFC]), (4, [0x27, 0xFC, 0x6E, 0x63, 0xFC]), (100, [0x27,
      0xFC, 0x6E, 0x63, 0xFC]), (6, [0x27, 0x6E, 0x63, 0x131]), (9, [0x27] @ js ''uncu''), (10,
      [0x27] @ js ''uncu''), (30, [0x27] @ js ''uncu''), (60, [0x27, 0x131, 0x6E, 0x63, 0x131]),
      (90, [0x27, 0x131, 0x6E, 0x63, 0x131])]"

definition tr_ordinal :: "nat \<Rightarrow> string \<Rightarrow> js option" where
  "tr_ordinal number period = (if period = ''d'' \<or> period = ''D'' \<or> period = ''Do'' \<or>
      period = ''DD'' then Some (jnum number)
      else if number = 0 then Some (jnum number @ [0x27, 0x131, 0x6E, 0x63, 0x131])
      else map_option (\<lambda>x. jnum number @ x) (js_or (js_or (tr_suffixes (number mod 10))
          (tr_suffixes ((number mod 100) - (number mod 10)))) (Option.bind (if number \<ge> 100 then
          Some 100
      else None) tr_suffixes)))"

definition tr_meridiem :: "nat \<Rightarrow> nat \<Rightarrow> bool \<Rightarrow> js" where
  "tr_meridiem hour minute isLower = (if hour < 12 then (if isLower then [0xF6, 0xF6]
      else [0xD6, 0xD6])
      else if isLower then [0xF6, 0x73]
      else [0xD6, 0x53])"

definition tr_isPM :: "js \<Rightarrow> bool" where
  "tr_isPM input \<longleftrightarrow> input = [0xF6, 0x73] \<or> input = [0xD6, 0x53]"

definition locale_tr :: moment_locale where
  "locale_tr = \<lparr>
     l_abbr = ''tr'',
     l_months = Names [js ''Ocak'', [0x15E] @ js ''ubat'', js ''Mart'', js ''Nisan'', [0x4D, 0x61,
         0x79, 0x131, 0x73], js ''Haziran'', js ''Temmuz'', [0x41, 0x11F] @ js ''ustos'', [0x45,
         0x79, 0x6C, 0xFC, 0x6C], js ''Ekim'', [0x4B, 0x61, 0x73, 0x131, 0x6D], js ''Aral'' @
         [0x131, 0x6B]],
     l_months_short = Names [js ''Oca'', [0x15E, 0x75, 0x62], js ''Mar'', js ''Nis'', js ''May'', js
         ''Haz'', js ''Tem'', [0x41, 0x11F, 0x75], js ''Eyl'', js ''Eki'', js ''Kas'', js ''Ara''],
     l_weekdays = Names [js ''Pazar'', js ''Pazartesi'', [0x53, 0x61, 0x6C, 0x131], [0xC7, 0x61,
         0x72, 0x15F] @ js ''amba'', [0x50, 0x65, 0x72, 0x15F] @ js ''embe'', js ''Cuma'', js
         ''Cumartesi''],
     l_weekdays_short = [js ''Paz'', js ''Pts'', js ''Sal'', [0xC7, 0x61, 0x72], js ''Per'', js
         ''Cum'', js ''Cts''],
     l_weekdays_min = [js ''Pz'', js ''Pt'', js ''Sa'', [0xC7, 0x61], js ''Pe'', js ''Cu'', js
         ''Ct''],
     l_long_date_format = [(''LT'', js ''HH:mm''),
       (''LTS'', js ''HH:mm:ss''),
       (''L'', js ''DD.MM.YYYY''),
       (''LL'', js ''D MMMM YYYY''),
       (''LLL'', js ''D MMMM YYYY HH:mm''),
       (''LLLL'', js ''dddd, D MMMM YYYY HH:mm'')],
     l_calendar = [(''sameDay'', CalText (js ''[bug'' @ [0xFC] @ js ''n saat] LT'')),
       (''nextDay'', CalText (js ''[yar'' @ [0x131] @ js ''n saat] LT'')),
       (''nextWeek'', CalText (js ''[gelecek] dddd [saat] LT'')),
       (''lastDay'', CalText ([0x5B, 0x64, 0xFC] @ js ''n] LT'')),
       (''lastWeek'', CalText ([0x5B, 0x67, 0x65, 0xE7] @ js ''en] dddd [saat] LT'')),
       (''sameElse'', CalText (js ''L''))],
     l_relative_time = [(''future'', RelText (js ''%s sonra'')),
       (''past'', RelText [0x25, 0x73, 0x20, 0xF6, 0x6E, 0x63, 0x65]),
       (''s'', RelText (js ''birka'' @ [0xE7] @ js '' saniye'')),
       (''ss'', RelText (js ''%d saniye'')),
       (''m'', RelText (js ''bir dakika'')),
       (''mm'', RelText (js ''%d dakika'')),
       (''h'', RelText (js ''bir saat'')),
       (''hh'', RelText (js ''%d saat'')),
       (''d'', RelText (js ''bir g'' @ [0xFC, 0x6E])),
       (''dd'', RelText (js ''%d g'' @ [0xFC, 0x6E])),
       (''w'', RelText (js ''bir hafta'')),
       (''ww'', RelText (js ''%d hafta'')),
       (''M'', RelText (js ''bir ay'')),
       (''MM'', RelText (js ''%d ay'')),
       (''y'', RelText (js ''bir y'' @ [0x131, 0x6C])),
       (''yy'', RelText (js ''%d y'' @ [0x131, 0x6C]))],
     l_ordinal = Some (OrdFun tr_ordinal),
     l_meridiem = Some tr_meridiem,
     l_is_pm = Some tr_isPM,
     l_meridiem_hour = None,
     l_preparse = None,
     l_postformat = None,
     l_week = Some (1, 7),
     l_meridiem_parse = Some (Regex False (Alt [Lit [0xF6, 0xF6], Lit [0xD6, 0xD6], Lit [0xF6,
         0x73], Lit [0xD6, 0x53]])),
     l_ordinal_parse = None,
     l_parse = [],
     l_months_parse_exact = False,
     l_weekdays_parse_exact = False,
     l_invalid_date = None,
     l_eras = [],
     l_era_year = None \<rparr>"

text \<open>\<^verbatim>\<open>tzl\<close> (line 311).\<close>

definition tzl_rel_n :: "nat \<Rightarrow> bool \<Rightarrow> string \<Rightarrow> bool
    \<Rightarrow> js option" where
  "tzl_rel_n number withoutSuffix key isFuture = (if isFuture \<or> withoutSuffix then Option.bind
      (map_of [(''s'', [js ''viensas secunds'', [0x27] @ js ''iensas secunds'']), (''ss'', [jnum
      number @ js '' secunds'', jnum number @ js '' secunds'']), (''m'', [[0x27, 0x6E, 0x20, 0x6D,
      0xED, 0x75, 0x74], [0x27] @ js ''iens m'' @ [0xED, 0x75, 0x74]]), (''mm'', [jnum number @
      [0x20, 0x6D, 0xED, 0x75, 0x74, 0x73], jnum number @ [0x20, 0x6D, 0xED, 0x75, 0x74, 0x73]]),
      (''h'', [[0x27, 0x6E, 0x20, 0xFE, 0x6F, 0x72, 0x61], [0x27] @ js ''iensa '' @ [0xFE, 0x6F,
      0x72, 0x61]]), (''hh'', [jnum number @ [0x20, 0xFE] @ js ''oras'', jnum number @ [0x20, 0xFE]
      @ js ''oras'']), (''d'', [[0x27] @ js ''n ziua'', [0x27] @ js ''iensa ziua'']), (''dd'', [jnum
      number @ js '' ziuas'', jnum number @ js '' ziuas'']), (''M'', [[0x27] @ js ''n mes'', [0x27]
      @ js ''iens mes'']), (''MM'', [jnum number @ js '' mesen'', jnum number @ js '' mesen'']),
      (''y'', [[0x27] @ js ''n ar'', [0x27] @ js ''iens ar'']), (''yy'', [jnum number @ js '' ars'',
      jnum number @ js '' ars''])] key) (\<lambda>xs. js_nth xs 0)
      else Option.bind (map_of [(''s'', [js ''viensas secunds'', [0x27] @ js ''iensas secunds'']),
          (''ss'', [jnum number @ js '' secunds'', jnum number @ js '' secunds'']), (''m'', [[0x27,
          0x6E, 0x20, 0x6D, 0xED, 0x75, 0x74], [0x27] @ js ''iens m'' @ [0xED, 0x75, 0x74]]),
          (''mm'', [jnum number @ [0x20, 0x6D, 0xED, 0x75, 0x74, 0x73], jnum number @ [0x20, 0x6D,
          0xED, 0x75, 0x74, 0x73]]), (''h'', [[0x27, 0x6E, 0x20, 0xFE, 0x6F, 0x72, 0x61], [0x27] @
          js ''iensa '' @ [0xFE, 0x6F, 0x72, 0x61]]), (''hh'', [jnum number @ [0x20, 0xFE] @ js
          ''oras'', jnum number @ [0x20, 0xFE] @ js ''oras'']), (''d'', [[0x27] @ js ''n ziua'',
          [0x27] @ js ''iensa ziua'']), (''dd'', [jnum number @ js '' ziuas'', jnum number @ js
          '' ziuas'']), (''M'', [[0x27] @ js ''n mes'', [0x27] @ js ''iens mes'']), (''MM'', [jnum
          number @ js '' mesen'', jnum number @ js '' mesen'']), (''y'', [[0x27] @ js ''n ar'',
          [0x27] @ js ''iens ar'']), (''yy'', [jnum number @ js '' ars'', jnum number @ js
          '' ars''])] key) (\<lambda>xs. js_nth xs 1))"

definition tzl_meridiem :: "nat \<Rightarrow> nat \<Rightarrow> bool \<Rightarrow> js" where
  "tzl_meridiem hour minute isLower = (if hour > 11 then (if isLower then [0x64, 0x27, 0x6F]
      else [0x44, 0x27, 0x4F])
      else if isLower then [0x64, 0x27, 0x61]
      else [0x44, 0x27, 0x41])"

definition tzl_isPM :: "js \<Rightarrow> bool" where
  "tzl_isPM input \<longleftrightarrow> js_lower input = [0x64, 0x27, 0x6F]"

definition locale_tzl :: moment_locale where
  "locale_tzl = \<lparr>
     l_abbr = ''tzl'',
     l_months = Names [js ''Januar'', js ''Fevraglh'', [0x4D, 0x61, 0x72, 0xE7], [0x41, 0x76, 0x72,
         0xEF, 0x75], js ''Mai'', [0x47, 0xFC, 0x6E], js ''Julia'', js ''Guscht'', js ''Setemvar'',
         js ''Listop'' @ [0xE4, 0x74, 0x73], js ''Noemvar'', js ''Zecemvar''],
     l_months_short = Names [js ''Jan'', js ''Fev'', js ''Mar'', js ''Avr'', js ''Mai'', [0x47,
         0xFC, 0x6E], js ''Jul'', js ''Gus'', js ''Set'', js ''Lis'', js ''Noe'', js ''Zec''],
     l_weekdays = Names [[0x53, 0xFA] @ js ''ladi'', [0x4C, 0xFA, 0x6E, 0x65, 0xE7, 0x69], js
         ''Maitzi'', [0x4D, 0xE1] @ js ''rcuri'', [0x58, 0x68, 0xFA, 0x61, 0x64, 0x69], [0x56, 0x69,
         0xE9, 0x6E, 0x65, 0x72, 0xE7, 0x69], [0x53, 0xE1] @ js ''turi''],
     l_weekdays_short = [[0x53, 0xFA, 0x6C], [0x4C, 0xFA, 0x6E], js ''Mai'', [0x4D, 0xE1, 0x72],
         [0x58, 0x68, 0xFA], [0x56, 0x69, 0xE9], [0x53, 0xE1, 0x74]],
     l_weekdays_min = [[0x53, 0xFA], [0x4C, 0xFA], js ''Ma'', [0x4D, 0xE1], js ''Xh'', js ''Vi'',
         [0x53, 0xE1]],
     l_long_date_format = [(''LT'', js ''HH.mm''),
       (''LTS'', js ''HH.mm.ss''),
       (''L'', js ''DD.MM.YYYY''),
       (''LL'', js ''D. MMMM [dallas] YYYY''),
       (''LLL'', js ''D. MMMM [dallas] YYYY HH.mm''),
       (''LLLL'', js ''dddd, [li] D. MMMM [dallas] YYYY HH.mm'')],
     l_calendar = [(''sameDay'', CalText (js ''[oxhi '' @ [0xE0] @ js ''] LT'')),
       (''nextDay'', CalText (js ''[dem'' @ [0xE0, 0x20, 0xE0] @ js ''] LT'')),
       (''nextWeek'', CalText (js ''dddd ['' @ [0xE0] @ js ''] LT'')),
       (''lastDay'', CalText (js ''[ieiri '' @ [0xE0] @ js ''] LT'')),
       (''lastWeek'', CalText ([0x5B, 0x73, 0xFC] @ js ''r el] dddd [lasteu '' @ [0xE0] @ js
           ''] LT'')),
       (''sameElse'', CalText (js ''L''))],
     l_relative_time = [(''future'', RelText (js ''osprei %s'')),
       (''past'', RelText (js ''ja%s'')),
       (''s'', RelNum tzl_rel_n),
       (''ss'', RelNum tzl_rel_n),
       (''m'', RelNum tzl_rel_n),
       (''mm'', RelNum tzl_rel_n),
       (''h'', RelNum tzl_rel_n),
       (''hh'', RelNum tzl_rel_n),
       (''d'', RelNum tzl_rel_n),
       (''dd'', RelNum tzl_rel_n),
       (''M'', RelNum tzl_rel_n),
       (''MM'', RelNum tzl_rel_n),
       (''y'', RelNum tzl_rel_n),
       (''yy'', RelNum tzl_rel_n)],
     l_ordinal = Some (OrdText (js ''%d.'')),
     l_meridiem = Some tzl_meridiem,
     l_is_pm = Some tzl_isPM,
     l_meridiem_hour = None,
     l_preparse = None,
     l_postformat = None,
     l_week = Some (1, 4),
     l_meridiem_parse = Some (Regex True (Alt [Lit [0x64, 0x27, 0x6F], Lit [0x64, 0x27, 0x61]])),
     l_ordinal_parse = Some (Regex False (Seq [digits_1_2, Lit (js ''.'')])),
     l_parse = [],
     l_months_parse_exact = False,
     l_weekdays_parse_exact = False,
     l_invalid_date = None,
     l_eras = [],
     l_era_year = None \<rparr>"

text \<open>\<^verbatim>\<open>tzm\<close> (line 288).\<close>

definition locale_tzm :: moment_locale where
  "locale_tzm = \<lparr>
     l_abbr = ''tzm'',
     l_months = Names [[0x2D49, 0x2D4F, 0x2D4F, 0x2D30, 0x2D62, 0x2D54], [0x2D31, 0x2D55, 0x2D30,
         0x2D62, 0x2D55], [0x2D4E, 0x2D30, 0x2D55, 0x2D5A], [0x2D49, 0x2D31, 0x2D54, 0x2D49,
         0x2D54], [0x2D4E, 0x2D30, 0x2D62, 0x2D62, 0x2D53], [0x2D62, 0x2D53, 0x2D4F, 0x2D62,
         0x2D53], [0x2D62, 0x2D53, 0x2D4D, 0x2D62, 0x2D53, 0x2D63], [0x2D56, 0x2D53, 0x2D5B,
         0x2D5C], [0x2D5B, 0x2D53, 0x2D5C, 0x2D30, 0x2D4F, 0x2D31, 0x2D49, 0x2D54], [0x2D3D, 0x2D5F,
         0x2D53, 0x2D31, 0x2D55], [0x2D4F, 0x2D53, 0x2D61, 0x2D30, 0x2D4F, 0x2D31, 0x2D49, 0x2D54],
         [0x2D37, 0x2D53, 0x2D4A, 0x2D4F, 0x2D31, 0x2D49, 0x2D54]],
     l_months_short = Names [[0x2D49, 0x2D4F, 0x2D4F, 0x2D30, 0x2D62, 0x2D54], [0x2D31, 0x2D55,
         0x2D30, 0x2D62, 0x2D55], [0x2D4E, 0x2D30, 0x2D55, 0x2D5A], [0x2D49, 0x2D31, 0x2D54, 0x2D49,
         0x2D54], [0x2D4E, 0x2D30, 0x2D62, 0x2D62, 0x2D53], [0x2D62, 0x2D53, 0x2D4F, 0x2D62,
         0x2D53], [0x2D62, 0x2D53, 0x2D4D, 0x2D62, 0x2D53, 0x2D63], [0x2D56, 0x2D53, 0x2D5B,
         0x2D5C], [0x2D5B, 0x2D53, 0x2D5C, 0x2D30, 0x2D4F, 0x2D31, 0x2D49, 0x2D54], [0x2D3D, 0x2D5F,
         0x2D53, 0x2D31, 0x2D55], [0x2D4F, 0x2D53, 0x2D61, 0x2D30, 0x2D4F, 0x2D31, 0x2D49, 0x2D54],
         [0x2D37, 0x2D53, 0x2D4A, 0x2D4F, 0x2D31, 0x2D49, 0x2D54]],
     l_weekdays = Names [[0x2D30, 0x2D59, 0x2D30, 0x2D4E, 0x2D30, 0x2D59], [0x2D30, 0x2D62, 0x2D4F,
         0x2D30, 0x2D59], [0x2D30, 0x2D59, 0x2D49, 0x2D4F, 0x2D30, 0x2D59], [0x2D30, 0x2D3D, 0x2D54,
         0x2D30, 0x2D59], [0x2D30, 0x2D3D, 0x2D61, 0x2D30, 0x2D59], [0x2D30, 0x2D59, 0x2D49, 0x2D4E,
         0x2D61, 0x2D30, 0x2D59], [0x2D30, 0x2D59, 0x2D49, 0x2D39, 0x2D62, 0x2D30, 0x2D59]],
     l_weekdays_short = [[0x2D30, 0x2D59, 0x2D30, 0x2D4E, 0x2D30, 0x2D59], [0x2D30, 0x2D62, 0x2D4F,
         0x2D30, 0x2D59], [0x2D30, 0x2D59, 0x2D49, 0x2D4F, 0x2D30, 0x2D59], [0x2D30, 0x2D3D, 0x2D54,
         0x2D30, 0x2D59], [0x2D30, 0x2D3D, 0x2D61, 0x2D30, 0x2D59], [0x2D30, 0x2D59, 0x2D49, 0x2D4E,
         0x2D61, 0x2D30, 0x2D59], [0x2D30, 0x2D59, 0x2D49, 0x2D39, 0x2D62, 0x2D30, 0x2D59]],
     l_weekdays_min = [[0x2D30, 0x2D59, 0x2D30, 0x2D4E, 0x2D30, 0x2D59], [0x2D30, 0x2D62, 0x2D4F,
         0x2D30, 0x2D59], [0x2D30, 0x2D59, 0x2D49, 0x2D4F, 0x2D30, 0x2D59], [0x2D30, 0x2D3D, 0x2D54,
         0x2D30, 0x2D59], [0x2D30, 0x2D3D, 0x2D61, 0x2D30, 0x2D59], [0x2D30, 0x2D59, 0x2D49, 0x2D4E,
         0x2D61, 0x2D30, 0x2D59], [0x2D30, 0x2D59, 0x2D49, 0x2D39, 0x2D62, 0x2D30, 0x2D59]],
     l_long_date_format = [(''LT'', js ''HH:mm''),
       (''LTS'', js ''HH:mm:ss''),
       (''L'', js ''DD/MM/YYYY''),
       (''LL'', js ''D MMMM YYYY''),
       (''LLL'', js ''D MMMM YYYY HH:mm''),
       (''LLLL'', js ''dddd D MMMM YYYY HH:mm'')],
     l_calendar = [(''sameDay'', CalText ([0x5B, 0x2D30, 0x2D59, 0x2D37, 0x2D45, 0x20, 0x2D34] @ js
         ''] LT'')),
       (''nextDay'', CalText ([0x5B, 0x2D30, 0x2D59, 0x2D3D, 0x2D30, 0x20, 0x2D34] @ js ''] LT'')),
       (''nextWeek'', CalText (js ''dddd ['' @ [0x2D34] @ js ''] LT'')),
       (''lastDay'', CalText ([0x5B, 0x2D30, 0x2D5A, 0x2D30, 0x2D4F, 0x2D5C, 0x20, 0x2D34] @ js
           ''] LT'')),
       (''lastWeek'', CalText (js ''dddd ['' @ [0x2D34] @ js ''] LT'')),
       (''sameElse'', CalText (js ''L''))],
     l_relative_time = [(''future'', RelText [0x2D37, 0x2D30, 0x2D37, 0x2D45, 0x20, 0x2D59, 0x20,
         0x2D62, 0x2D30, 0x2D4F, 0x20, 0x25, 0x73]),
       (''past'', RelText [0x2D62, 0x2D30, 0x2D4F, 0x20, 0x25, 0x73]),
       (''s'', RelText [0x2D49, 0x2D4E, 0x2D49, 0x2D3D]),
       (''ss'', RelText [0x25, 0x64, 0x20, 0x2D49, 0x2D4E, 0x2D49, 0x2D3D]),
       (''m'', RelText [0x2D4E, 0x2D49, 0x2D4F, 0x2D53, 0x2D3A]),
       (''mm'', RelText [0x25, 0x64, 0x20, 0x2D4E, 0x2D49, 0x2D4F, 0x2D53, 0x2D3A]),
       (''h'', RelText [0x2D59, 0x2D30, 0x2D44, 0x2D30]),
       (''hh'', RelText [0x25, 0x64, 0x20, 0x2D5C, 0x2D30, 0x2D59, 0x2D59, 0x2D30, 0x2D44, 0x2D49,
           0x2D4F]),
       (''d'', RelText [0x2D30, 0x2D59, 0x2D59]),
       (''dd'', RelText (js ''%d o'' @ [0x2D59, 0x2D59, 0x2D30, 0x2D4F])),
       (''M'', RelText [0x2D30, 0x2D62, 0x6F, 0x2D53, 0x2D54]),
       (''MM'', RelText [0x25, 0x64, 0x20, 0x2D49, 0x2D62, 0x2D62, 0x2D49, 0x2D54, 0x2D4F]),
       (''y'', RelText [0x2D30, 0x2D59, 0x2D33, 0x2D30, 0x2D59]),
       (''yy'', RelText [0x25, 0x64, 0x20, 0x2D49, 0x2D59, 0x2D33, 0x2D30, 0x2D59, 0x2D4F])],
     l_ordinal = None,
     l_meridiem = None,
     l_is_pm = None,
     l_meridiem_hour = None,
     l_preparse = None,
     l_postformat = None,
     l_week = Some (6, 12),
     l_meridiem_parse = None,
     l_ordinal_parse = None,
     l_parse = [],
     l_months_parse_exact = False,
     l_weekdays_parse_exact = False,
     l_invalid_date = None,
     l_eras = [],
     l_era_year = None \<rparr>"

text \<open>\<^verbatim>\<open>tzm-latn\<close> (line 267).\<close>

definition locale_tzm_latn :: moment_locale where
  "locale_tzm_latn = \<lparr>
     l_abbr = ''tzm-latn'',
     l_months = Names [js ''innayr'', [0x62, 0x72, 0x2E4, 0x61, 0x79, 0x72, 0x2E4], [0x6D, 0x61,
         0x72, 0x2E4, 0x73, 0x2E4], js ''ibrir'', js ''mayyw'', js ''ywnyw'', js ''ywlywz'', [0x263,
         0x77, 0x161, 0x74], [0x161] @ js ''wtanbir'', [0x6B, 0x74, 0x2E4, 0x77, 0x62, 0x72, 0x2E4],
         js ''nwwanbir'', js ''dwjnbir''],
     l_months_short = Names [js ''innayr'', [0x62, 0x72, 0x2E4, 0x61, 0x79, 0x72, 0x2E4], [0x6D,
         0x61, 0x72, 0x2E4, 0x73, 0x2E4], js ''ibrir'', js ''mayyw'', js ''ywnyw'', js ''ywlywz'',
         [0x263, 0x77, 0x161, 0x74], [0x161] @ js ''wtanbir'', [0x6B, 0x74, 0x2E4, 0x77, 0x62, 0x72,
         0x2E4], js ''nwwanbir'', js ''dwjnbir''],
     l_weekdays = Names [js ''asamas'', js ''aynas'', js ''asinas'', js ''akras'', js ''akwas'', js
         ''asimwas'', [0x61, 0x73, 0x69, 0x1E0D, 0x79, 0x61, 0x73]],
     l_weekdays_short = [js ''asamas'', js ''aynas'', js ''asinas'', js ''akras'', js ''akwas'', js
         ''asimwas'', [0x61, 0x73, 0x69, 0x1E0D, 0x79, 0x61, 0x73]],
     l_weekdays_min = [js ''asamas'', js ''aynas'', js ''asinas'', js ''akras'', js ''akwas'', js
         ''asimwas'', [0x61, 0x73, 0x69, 0x1E0D, 0x79, 0x61, 0x73]],
     l_long_date_format = [(''LT'', js ''HH:mm''),
       (''LTS'', js ''HH:mm:ss''),
       (''L'', js ''DD/MM/YYYY''),
       (''LL'', js ''D MMMM YYYY''),
       (''LLL'', js ''D MMMM YYYY HH:mm''),
       (''LLLL'', js ''dddd D MMMM YYYY HH:mm'')],
     l_calendar = [(''sameDay'', CalText (js ''[asdkh g] LT'')),
       (''nextDay'', CalText (js ''[aska g] LT'')),
       (''nextWeek'', CalText (js ''dddd [g] LT'')),
       (''lastDay'', CalText (js ''[assant g] LT'')),
       (''lastWeek'', CalText (js ''dddd [g] LT'')),
       (''sameElse'', CalText (js ''L''))],
     l_relative_time = [(''future'', RelText (js ''dadkh s yan %s'')),
       (''past'', RelText (js ''yan %s'')),
       (''s'', RelText (js ''imik'')),
       (''ss'', RelText (js ''%d imik'')),
       (''m'', RelText (js ''minu'' @ [0x1E0D])),
       (''mm'', RelText (js ''%d minu'' @ [0x1E0D])),
       (''h'', RelText [0x73, 0x61, 0x25B, 0x61]),
       (''hh'', RelText (js ''%d tassa'' @ [0x25B, 0x69, 0x6E])),
       (''d'', RelText (js ''ass'')),
       (''dd'', RelText (js ''%d ossan'')),
       (''M'', RelText (js ''ayowr'')),
       (''MM'', RelText (js ''%d iyyirn'')),
       (''y'', RelText (js ''asgas'')),
       (''yy'', RelText (js ''%d isgasn''))],
     l_ordinal = None,
     l_meridiem = None,
     l_is_pm = None,
     l_meridiem_hour = None,
     l_preparse = None,
     l_postformat = None,
     l_week = Some (6, 12),
     l_meridiem_parse = None,
     l_ordinal_parse = None,
     l_parse = [],
     l_months_parse_exact = False,
     l_weekdays_parse_exact = False,
     l_invalid_date = None,
     l_eras = [],
     l_era_year = None \<rparr>"

text \<open>\<^verbatim>\<open>uk\<close> (line 259).\<close>

definition uk_t :: "js \<Rightarrow> nat \<Rightarrow> js option" where
  "uk_t word num = (let n = js_split 0x5F word in (if num mod 10 = 1 \<and> num mod 100 \<noteq> 11
      then js_nth n 0
      else if (num mod 10 \<ge> 2 \<and> num mod 10 \<le> 4) \<and> (num mod 100 < 10 \<or> num mod
          100 \<ge> 20) then js_nth n 1
      else js_nth n 2))"

definition uk_r :: "js \<Rightarrow> nat \<Rightarrow> nat \<Rightarrow> bool \<Rightarrow> js
    option" where
  "uk_r str day hours sameWeek = Some (str @ [0x43E] @ (if hours = 11 then [0x431]
      else []) @ (js ''] LT''))"

definition uk_lastWeek :: "nat \<Rightarrow> nat \<Rightarrow> bool \<Rightarrow> js option" where
  "uk_lastWeek day hours sameWeek = 
     (if day \<in> set [0, 3, 5, 6] then uk_r ([0x5B, 0x41C, 0x438, 0x43D, 0x443, 0x43B, 0x43E,
         0x457] @ js ''] dddd ['') day hours sameWeek
     
      else if day \<in> set [1, 2, 4] then uk_r ([0x5B, 0x41C, 0x438, 0x43D, 0x443, 0x43B, 0x43E,
          0x433, 0x43E] @ js ''] dddd ['') day hours sameWeek
      else None)"

definition uk_weekdays_nominative :: "js list" where
  "uk_weekdays_nominative = [[0x43D, 0x435, 0x434, 0x456, 0x43B, 0x44F], [0x43F, 0x43E, 0x43D,
      0x435, 0x434, 0x456, 0x43B, 0x43E, 0x43A], [0x432, 0x456, 0x432, 0x442, 0x43E, 0x440, 0x43E,
      0x43A], [0x441, 0x435, 0x440, 0x435, 0x434, 0x430], [0x447, 0x435, 0x442, 0x432, 0x435,
      0x440], [0x43F, 0x2019, 0x44F, 0x442, 0x43D, 0x438, 0x446, 0x44F], [0x441, 0x443, 0x431,
      0x43E, 0x442, 0x430]]"

definition uk_weekdays_accusative :: "js list" where
  "uk_weekdays_accusative = [[0x43D, 0x435, 0x434, 0x456, 0x43B, 0x44E], [0x43F, 0x43E, 0x43D,
      0x435, 0x434, 0x456, 0x43B, 0x43E, 0x43A], [0x432, 0x456, 0x432, 0x442, 0x43E, 0x440, 0x43E,
      0x43A], [0x441, 0x435, 0x440, 0x435, 0x434, 0x443], [0x447, 0x435, 0x442, 0x432, 0x435,
      0x440], [0x43F, 0x2019, 0x44F, 0x442, 0x43D, 0x438, 0x446, 0x44E], [0x441, 0x443, 0x431,
      0x43E, 0x442, 0x443]]"

definition uk_weekdays_genitive :: "js list" where
  "uk_weekdays_genitive = [[0x43D, 0x435, 0x434, 0x456, 0x43B, 0x456], [0x43F, 0x43E, 0x43D, 0x435,
      0x434, 0x456, 0x43B, 0x43A, 0x430], [0x432, 0x456, 0x432, 0x442, 0x43E, 0x440, 0x43A, 0x430],
      [0x441, 0x435, 0x440, 0x435, 0x434, 0x438], [0x447, 0x435, 0x442, 0x432, 0x435, 0x440, 0x433,
      0x430], [0x43F, 0x2019, 0x44F, 0x442, 0x43D, 0x438, 0x446, 0x456], [0x441, 0x443, 0x431,
      0x43E, 0x442, 0x438]]"

definition uk_weekdays :: "js \<Rightarrow> js list" where
  "uk_weekdays format =
     (if rx_test (Regex False (Seq [Seq [Lit (js ''[''), Cls [(0x412, 0x412), (0x432, 0x432),
         (0x423, 0x423), (0x443, 0x443)], Lit (js '']'')], Opt (Lit (js '' '')), Lit (js
         ''dddd'')])) format then uk_weekdays_accusative
     
      else if rx_test (Regex False (Seq [Opt (Lit (js ''['')), Opt (Alt [Lit [0x43C, 0x438, 0x43D,
          0x443, 0x43B, 0x43E, 0x457], Lit [0x43D, 0x430, 0x441, 0x442, 0x443, 0x43F, 0x43D, 0x43E,
          0x457]]), Opt (Lit (js '' '')), Lit (js '']''), Opt (Lit (js '' '')), Lit (js ''dddd'')]))
          format then uk_weekdays_genitive
      else uk_weekdays_nominative)"

definition uk_rel_n :: "nat \<Rightarrow> bool \<Rightarrow> string \<Rightarrow> bool \<Rightarrow>
    js option" where
  "uk_rel_n number withoutSuffix key isFuture = (if key = ''m'' then Some (if withoutSuffix then
      [0x445, 0x432, 0x438, 0x43B, 0x438, 0x43D, 0x430]
      else [0x445, 0x432, 0x438, 0x43B, 0x438, 0x43D, 0x443])
      else if key = ''h'' then Some (if withoutSuffix then [0x433, 0x43E, 0x434, 0x438, 0x43D,
          0x430]
      else [0x433, 0x43E, 0x434, 0x438, 0x43D, 0x443])
      else map_option (\<lambda>x. jnum number @ js '' '' @ x) (Option.bind (map_of [(''ss'', (if
          withoutSuffix then [0x441, 0x435, 0x43A, 0x443, 0x43D, 0x434, 0x430, 0x5F, 0x441, 0x435,
          0x43A, 0x443, 0x43D, 0x434, 0x438, 0x5F, 0x441, 0x435, 0x43A, 0x443, 0x43D, 0x434]
      else [0x441, 0x435, 0x43A, 0x443, 0x43D, 0x434, 0x443, 0x5F, 0x441, 0x435, 0x43A, 0x443,
          0x43D, 0x434, 0x438, 0x5F, 0x441, 0x435, 0x43A, 0x443, 0x43D, 0x434])), (''mm'', (if
          withoutSuffix then [0x445, 0x432, 0x438, 0x43B, 0x438, 0x43D, 0x430, 0x5F, 0x445, 0x432,
          0x438, 0x43B, 0x438, 0x43D, 0x438, 0x5F, 0x445, 0x432, 0x438, 0x43B, 0x438, 0x43D]
      else [0x445, 0x432, 0x438, 0x43B, 0x438, 0x43D, 0x443, 0x5F, 0x445, 0x432, 0x438, 0x43B,
          0x438, 0x43D, 0x438, 0x5F, 0x445, 0x432, 0x438, 0x43B, 0x438, 0x43D])), (''hh'', (if
          withoutSuffix then [0x433, 0x43E, 0x434, 0x438, 0x43D, 0x430, 0x5F, 0x433, 0x43E, 0x434,
          0x438, 0x43D, 0x438, 0x5F, 0x433, 0x43E, 0x434, 0x438, 0x43D]
      else [0x433, 0x43E, 0x434, 0x438, 0x43D, 0x443, 0x5F, 0x433, 0x43E, 0x434, 0x438, 0x43D,
          0x438, 0x5F, 0x433, 0x43E, 0x434, 0x438, 0x43D])), (''dd'', [0x434, 0x435, 0x43D, 0x44C,
          0x5F, 0x434, 0x43D, 0x456, 0x5F, 0x434, 0x43D, 0x456, 0x432]), (''MM'', [0x43C, 0x456,
          0x441, 0x44F, 0x446, 0x44C, 0x5F, 0x43C, 0x456, 0x441, 0x44F, 0x446, 0x456, 0x5F, 0x43C,
          0x456, 0x441, 0x44F, 0x446, 0x456, 0x432]), (''yy'', [0x440, 0x456, 0x43A, 0x5F, 0x440,
          0x43E, 0x43A, 0x438, 0x5F, 0x440, 0x43E, 0x43A, 0x456, 0x432])] key) (\<lambda>x. uk_t x
          number)))"

definition uk_ordinal :: "nat \<Rightarrow> string \<Rightarrow> js option" where
  "uk_ordinal number period = Some (if period = ''M'' \<or> period = ''d'' \<or> period = ''DDD''
      \<or> period = ''w'' \<or> period = ''W'' then jnum number @ [0x2D, 0x439]
      else if period = ''D'' then jnum number @ [0x2D, 0x433, 0x43E]
      else jnum number)"

definition uk_meridiem :: "nat \<Rightarrow> nat \<Rightarrow> bool \<Rightarrow> js" where
  "uk_meridiem hour minute isLower = (if hour < 4 then [0x43D, 0x43E, 0x447, 0x456]
      else if hour < 12 then [0x440, 0x430, 0x43D, 0x43A, 0x443]
      else if hour < 17 then [0x434, 0x43D, 0x44F]
      else [0x432, 0x435, 0x447, 0x43E, 0x440, 0x430])"

definition uk_isPM :: "js \<Rightarrow> bool" where
  "uk_isPM input \<longleftrightarrow> input \<in> set [[0x434, 0x43D, 0x44F], [0x432, 0x435, 0x447,
      0x43E, 0x440, 0x430]]"

definition locale_uk :: moment_locale where
  "locale_uk = \<lparr>
     l_abbr = ''uk'',
     l_months = NamesAlt [[0x441, 0x456, 0x447, 0x435, 0x43D, 0x44C], [0x43B, 0x44E, 0x442, 0x438,
         0x439], [0x431, 0x435, 0x440, 0x435, 0x437, 0x435, 0x43D, 0x44C], [0x43A, 0x432, 0x456,
         0x442, 0x435, 0x43D, 0x44C], [0x442, 0x440, 0x430, 0x432, 0x435, 0x43D, 0x44C], [0x447,
         0x435, 0x440, 0x432, 0x435, 0x43D, 0x44C], [0x43B, 0x438, 0x43F, 0x435, 0x43D, 0x44C],
         [0x441, 0x435, 0x440, 0x43F, 0x435, 0x43D, 0x44C], [0x432, 0x435, 0x440, 0x435, 0x441,
         0x435, 0x43D, 0x44C], [0x436, 0x43E, 0x432, 0x442, 0x435, 0x43D, 0x44C], [0x43B, 0x438,
         0x441, 0x442, 0x43E, 0x43F, 0x430, 0x434], [0x433, 0x440, 0x443, 0x434, 0x435, 0x43D,
         0x44C]] [[0x441, 0x456, 0x447, 0x43D, 0x44F], [0x43B, 0x44E, 0x442, 0x43E, 0x433, 0x43E],
         [0x431, 0x435, 0x440, 0x435, 0x437, 0x43D, 0x44F], [0x43A, 0x432, 0x456, 0x442, 0x43D,
         0x44F], [0x442, 0x440, 0x430, 0x432, 0x43D, 0x44F], [0x447, 0x435, 0x440, 0x432, 0x43D,
         0x44F], [0x43B, 0x438, 0x43F, 0x43D, 0x44F], [0x441, 0x435, 0x440, 0x43F, 0x43D, 0x44F],
         [0x432, 0x435, 0x440, 0x435, 0x441, 0x43D, 0x44F], [0x436, 0x43E, 0x432, 0x442, 0x43D,
         0x44F], [0x43B, 0x438, 0x441, 0x442, 0x43E, 0x43F, 0x430, 0x434, 0x430], [0x433, 0x440,
         0x443, 0x434, 0x43D, 0x44F]] None,
     l_months_short = Names [[0x441, 0x456, 0x447], [0x43B, 0x44E, 0x442], [0x431, 0x435, 0x440],
         [0x43A, 0x432, 0x456, 0x442], [0x442, 0x440, 0x430, 0x432], [0x447, 0x435, 0x440, 0x432],
         [0x43B, 0x438, 0x43F], [0x441, 0x435, 0x440, 0x43F], [0x432, 0x435, 0x440], [0x436, 0x43E,
         0x432, 0x442], [0x43B, 0x438, 0x441, 0x442], [0x433, 0x440, 0x443, 0x434]],
     l_weekdays = NamesFun uk_weekdays_nominative uk_weekdays,
     l_weekdays_short = [[0x43D, 0x434], [0x43F, 0x43D], [0x432, 0x442], [0x441, 0x440], [0x447,
         0x442], [0x43F, 0x442], [0x441, 0x431]],
     l_weekdays_min = [[0x43D, 0x434], [0x43F, 0x43D], [0x432, 0x442], [0x441, 0x440], [0x447,
         0x442], [0x43F, 0x442], [0x441, 0x431]],
     l_long_date_format = [(''LT'', js ''HH:mm''),
       (''LTS'', js ''HH:mm:ss''),
       (''L'', js ''DD.MM.YYYY''),
       (''LL'', js ''D MMMM YYYY '' @ [0x440, 0x2E]),
       (''LLL'', js ''D MMMM YYYY '' @ [0x440] @ js ''., HH:mm''),
       (''LLLL'', js ''dddd, D MMMM YYYY '' @ [0x440] @ js ''., HH:mm'')],
     l_calendar = [(''sameDay'', CalFun (uk_r [0x5B, 0x421, 0x44C, 0x43E, 0x433, 0x43E, 0x434,
         0x43D, 0x456, 0x20])),
       (''nextDay'', CalFun (uk_r [0x5B, 0x417, 0x430, 0x432, 0x442, 0x440, 0x430, 0x20])),
       (''lastDay'', CalFun (uk_r [0x5B, 0x412, 0x447, 0x43E, 0x440, 0x430, 0x20])),
       (''nextWeek'', CalFun (uk_r ([0x5B, 0x423] @ js ''] dddd [''))),
       (''lastWeek'', CalFun uk_lastWeek),
       (''sameElse'', CalText (js ''L''))],
     l_relative_time = [(''future'', RelText [0x437, 0x430, 0x20, 0x25, 0x73]),
       (''past'', RelText [0x25, 0x73, 0x20, 0x442, 0x43E, 0x43C, 0x443]),
       (''s'', RelText [0x434, 0x435, 0x43A, 0x456, 0x43B, 0x44C, 0x43A, 0x430, 0x20, 0x441, 0x435,
           0x43A, 0x443, 0x43D, 0x434]),
       (''ss'', RelNum uk_rel_n),
       (''m'', RelNum uk_rel_n),
       (''mm'', RelNum uk_rel_n),
       (''h'', RelText [0x433, 0x43E, 0x434, 0x438, 0x43D, 0x443]),
       (''hh'', RelNum uk_rel_n),
       (''d'', RelText [0x434, 0x435, 0x43D, 0x44C]),
       (''dd'', RelNum uk_rel_n),
       (''M'', RelText [0x43C, 0x456, 0x441, 0x44F, 0x446, 0x44C]),
       (''MM'', RelNum uk_rel_n),
       (''y'', RelText [0x440, 0x456, 0x43A]),
       (''yy'', RelNum uk_rel_n)],
     l_ordinal = Some (OrdFun uk_ordinal),
     l_meridiem = Some uk_meridiem,
     l_is_pm = Some uk_isPM,
     l_meridiem_hour = None,
     l_preparse = None,
     l_postformat = None,
     l_week = Some (1, 7),
     l_meridiem_parse = Some (Regex False (Alt [Lit [0x43D, 0x43E, 0x447, 0x456], Lit [0x440, 0x430,
         0x43D, 0x43A, 0x443], Lit [0x434, 0x43D, 0x44F], Lit [0x432, 0x435, 0x447, 0x43E, 0x440,
         0x430]])),
     l_ordinal_parse = Some (Regex False (Seq [digits_1_2, Lit (js ''-''), Alt [Lit [0x439], Lit
         [0x433, 0x43E]]])),
     l_parse = [],
     l_months_parse_exact = False,
     l_weekdays_parse_exact = False,
     l_invalid_date = None,
     l_eras = [],
     l_era_year = None \<rparr>"

text \<open>\<^verbatim>\<open>ur\<close> (line 126).\<close>

definition ur_meridiem :: "nat \<Rightarrow> nat \<Rightarrow> bool \<Rightarrow> js" where
  "ur_meridiem hour minute isLower = (if hour < 12 then [0x635, 0x628, 0x62D]
      else [0x634, 0x627, 0x645])"

definition ur_isPM :: "js \<Rightarrow> bool" where
  "ur_isPM input \<longleftrightarrow> input = [0x634, 0x627, 0x645]"

definition ur_preparse :: "js \<Rightarrow> js" where
  "ur_preparse s = js_replace_unit 0x60C 0x2C s"

definition ur_postformat :: "js \<Rightarrow> js" where
  "ur_postformat s = js_replace_unit 0x2C 0x60C s"

definition locale_ur :: moment_locale where
  "locale_ur = \<lparr>
     l_abbr = ''ur'',
     l_months = Names [[0x62C, 0x646, 0x648, 0x631, 0x6CC], [0x641, 0x631, 0x648, 0x631, 0x6CC],
         [0x645, 0x627, 0x631, 0x686], [0x627, 0x67E, 0x631, 0x6CC, 0x644], [0x645, 0x626, 0x6CC],
         [0x62C, 0x648, 0x646], [0x62C, 0x648, 0x644, 0x627, 0x626, 0x6CC], [0x627, 0x6AF, 0x633,
         0x62A], [0x633, 0x62A, 0x645, 0x628, 0x631], [0x627, 0x6A9, 0x62A, 0x648, 0x628, 0x631],
         [0x646, 0x648, 0x645, 0x628, 0x631], [0x62F, 0x633, 0x645, 0x628, 0x631]],
     l_months_short = Names [[0x62C, 0x646, 0x648, 0x631, 0x6CC], [0x641, 0x631, 0x648, 0x631,
         0x6CC], [0x645, 0x627, 0x631, 0x686], [0x627, 0x67E, 0x631, 0x6CC, 0x644], [0x645, 0x626,
         0x6CC], [0x62C, 0x648, 0x646], [0x62C, 0x648, 0x644, 0x627, 0x626, 0x6CC], [0x627, 0x6AF,
         0x633, 0x62A], [0x633, 0x62A, 0x645, 0x628, 0x631], [0x627, 0x6A9, 0x62A, 0x648, 0x628,
         0x631], [0x646, 0x648, 0x645, 0x628, 0x631], [0x62F, 0x633, 0x645, 0x628, 0x631]],
     l_weekdays = Names [[0x627, 0x62A, 0x648, 0x627, 0x631], [0x67E, 0x6CC, 0x631], [0x645, 0x646,
         0x6AF, 0x644], [0x628, 0x62F, 0x6BE], [0x62C, 0x645, 0x639, 0x631, 0x627, 0x62A], [0x62C,
         0x645, 0x639, 0x6C1], [0x6C1, 0x641, 0x62A, 0x6C1]],
     l_weekdays_short = [[0x627, 0x62A, 0x648, 0x627, 0x631], [0x67E, 0x6CC, 0x631], [0x645, 0x646,
         0x6AF, 0x644], [0x628, 0x62F, 0x6BE], [0x62C, 0x645, 0x639, 0x631, 0x627, 0x62A], [0x62C,
         0x645, 0x639, 0x6C1], [0x6C1, 0x641, 0x62A, 0x6C1]],
     l_weekdays_min = [[0x627, 0x62A, 0x648, 0x627, 0x631], [0x67E, 0x6CC, 0x631], [0x645, 0x646,
         0x6AF, 0x644], [0x628, 0x62F, 0x6BE], [0x62C, 0x645, 0x639, 0x631, 0x627, 0x62A], [0x62C,
         0x645, 0x639, 0x6C1], [0x6C1, 0x641, 0x62A, 0x6C1]],
     l_long_date_format = [(''LT'', js ''HH:mm''),
       (''LTS'', js ''HH:mm:ss''),
       (''L'', js ''DD/MM/YYYY''),
       (''LL'', js ''D MMMM YYYY''),
       (''LLL'', js ''D MMMM YYYY HH:mm''),
       (''LLLL'', js ''dddd'' @ [0x60C] @ js '' D MMMM YYYY HH:mm'')],
     l_calendar = [(''sameDay'', CalText ([0x5B, 0x622, 0x62C, 0x20, 0x628, 0x648, 0x642, 0x62A] @
         js ''] LT'')),
       (''nextDay'', CalText ([0x5B, 0x6A9, 0x644, 0x20, 0x628, 0x648, 0x642, 0x62A] @ js
           ''] LT'')),
       (''nextWeek'', CalText (js ''dddd ['' @ [0x628, 0x648, 0x642, 0x62A] @ js ''] LT'')),
       (''lastDay'', CalText ([0x5B, 0x6AF, 0x630, 0x634, 0x62A, 0x6C1, 0x20, 0x631, 0x648, 0x632,
           0x20, 0x628, 0x648, 0x642, 0x62A] @ js ''] LT'')),
       (''lastWeek'', CalText ([0x5B, 0x6AF, 0x630, 0x634, 0x62A, 0x6C1] @ js ''] dddd ['' @ [0x628,
           0x648, 0x642, 0x62A] @ js ''] LT'')),
       (''sameElse'', CalText (js ''L''))],
     l_relative_time = [(''future'', RelText [0x25, 0x73, 0x20, 0x628, 0x639, 0x62F]),
       (''past'', RelText [0x25, 0x73, 0x20, 0x642, 0x628, 0x644]),
       (''s'', RelText [0x686, 0x646, 0x62F, 0x20, 0x633, 0x6CC, 0x6A9, 0x646, 0x688]),
       (''ss'', RelText [0x25, 0x64, 0x20, 0x633, 0x6CC, 0x6A9, 0x646, 0x688]),
       (''m'', RelText [0x627, 0x6CC, 0x6A9, 0x20, 0x645, 0x646, 0x679]),
       (''mm'', RelText [0x25, 0x64, 0x20, 0x645, 0x646, 0x679]),
       (''h'', RelText [0x627, 0x6CC, 0x6A9, 0x20, 0x6AF, 0x6BE, 0x646, 0x679, 0x6C1]),
       (''hh'', RelText [0x25, 0x64, 0x20, 0x6AF, 0x6BE, 0x646, 0x679, 0x6D2]),
       (''d'', RelText [0x627, 0x6CC, 0x6A9, 0x20, 0x62F, 0x646]),
       (''dd'', RelText [0x25, 0x64, 0x20, 0x62F, 0x646]),
       (''M'', RelText [0x627, 0x6CC, 0x6A9, 0x20, 0x645, 0x627, 0x6C1]),
       (''MM'', RelText [0x25, 0x64, 0x20, 0x645, 0x627, 0x6C1]),
       (''y'', RelText [0x627, 0x6CC, 0x6A9, 0x20, 0x633, 0x627, 0x644]),
       (''yy'', RelText [0x25, 0x64, 0x20, 0x633, 0x627, 0x644])],
     l_ordinal = None,
     l_meridiem = Some ur_meridiem,
     l_is_pm = Some ur_isPM,
     l_meridiem_hour = None,
     l_preparse = Some ur_preparse,
     l_postformat = Some ur_postformat,
     l_week = Some (1, 4),
     l_meridiem_parse = Some (Regex False (Alt [Lit [0x635, 0x628, 0x62D], Lit [0x634, 0x627,
         0x645]])),
     l_ordinal_parse = None,
     l_parse = [],
     l_months_parse_exact = False,
     l_weekdays_parse_exact = False,
     l_invalid_date = None,
     l_eras = [],
     l_era_year = None \<rparr>"

text \<open>\<^verbatim>\<open>uz\<close> (line 73).\<close>

definition locale_uz :: moment_locale where
  "locale_uz = \<lparr>
     l_abbr = ''uz'',
     l_months = Names [[0x44F, 0x43D, 0x432, 0x430, 0x440], [0x444, 0x435, 0x432, 0x440, 0x430,
         0x43B], [0x43C, 0x430, 0x440, 0x442], [0x430, 0x43F, 0x440, 0x435, 0x43B], [0x43C, 0x430,
         0x439], [0x438, 0x44E, 0x43D], [0x438, 0x44E, 0x43B], [0x430, 0x432, 0x433, 0x443, 0x441,
         0x442], [0x441, 0x435, 0x43D, 0x442, 0x44F, 0x431, 0x440], [0x43E, 0x43A, 0x442, 0x44F,
         0x431, 0x440], [0x43D, 0x43E, 0x44F, 0x431, 0x440], [0x434, 0x435, 0x43A, 0x430, 0x431,
         0x440]],
     l_months_short = Names [[0x44F, 0x43D, 0x432], [0x444, 0x435, 0x432], [0x43C, 0x430, 0x440],
         [0x430, 0x43F, 0x440], [0x43C, 0x430, 0x439], [0x438, 0x44E, 0x43D], [0x438, 0x44E, 0x43B],
         [0x430, 0x432, 0x433], [0x441, 0x435, 0x43D], [0x43E, 0x43A, 0x442], [0x43D, 0x43E, 0x44F],
         [0x434, 0x435, 0x43A]],
     l_weekdays = Names [[0x42F, 0x43A, 0x448, 0x430, 0x43D, 0x431, 0x430], [0x414, 0x443, 0x448,
         0x430, 0x43D, 0x431, 0x430], [0x421, 0x435, 0x448, 0x430, 0x43D, 0x431, 0x430], [0x427,
         0x43E, 0x440, 0x448, 0x430, 0x43D, 0x431, 0x430], [0x41F, 0x430, 0x439, 0x448, 0x430,
         0x43D, 0x431, 0x430], [0x416, 0x443, 0x43C, 0x430], [0x428, 0x430, 0x43D, 0x431, 0x430]],
     l_weekdays_short = [[0x42F, 0x43A, 0x448], [0x414, 0x443, 0x448], [0x421, 0x435, 0x448],
         [0x427, 0x43E, 0x440], [0x41F, 0x430, 0x439], [0x416, 0x443, 0x43C], [0x428, 0x430,
         0x43D]],
     l_weekdays_min = [[0x42F, 0x43A], [0x414, 0x443], [0x421, 0x435], [0x427, 0x43E], [0x41F,
         0x430], [0x416, 0x443], [0x428, 0x430]],
     l_long_date_format = [(''LT'', js ''HH:mm''),
       (''LTS'', js ''HH:mm:ss''),
       (''L'', js ''DD/MM/YYYY''),
       (''LL'', js ''D MMMM YYYY''),
       (''LLL'', js ''D MMMM YYYY HH:mm''),
       (''LLLL'', js ''D MMMM YYYY, dddd HH:mm'')],
     l_calendar = [(''sameDay'', CalText ([0x5B, 0x411, 0x443, 0x433, 0x443, 0x43D, 0x20, 0x441,
         0x43E, 0x430, 0x442] @ js ''] LT ['' @ [0x434, 0x430, 0x5D])),
       (''nextDay'', CalText ([0x5B, 0x42D, 0x440, 0x442, 0x430, 0x433, 0x430] @ js ''] LT ['' @
           [0x434, 0x430, 0x5D])),
       (''nextWeek'', CalText (js ''dddd ['' @ [0x43A, 0x443, 0x43D, 0x438, 0x20, 0x441, 0x43E,
           0x430, 0x442] @ js ''] LT ['' @ [0x434, 0x430, 0x5D])),
       (''lastDay'', CalText ([0x5B, 0x41A, 0x435, 0x447, 0x430, 0x20, 0x441, 0x43E, 0x430, 0x442] @
           js ''] LT ['' @ [0x434, 0x430, 0x5D])),
       (''lastWeek'', CalText ([0x5B, 0x423, 0x442, 0x433, 0x430, 0x43D] @ js ''] dddd ['' @ [0x43A,
           0x443, 0x43D, 0x438, 0x20, 0x441, 0x43E, 0x430, 0x442] @ js ''] LT ['' @ [0x434, 0x430,
           0x5D])),
       (''sameElse'', CalText (js ''L''))],
     l_relative_time = [(''future'', RelText ([0x42F, 0x43A, 0x438, 0x43D] @ js '' %s '' @ [0x438,
         0x447, 0x438, 0x434, 0x430])),
       (''past'', RelText ([0x411, 0x438, 0x440, 0x20, 0x43D, 0x435, 0x447, 0x430] @ js '' %s '' @
           [0x43E, 0x43B, 0x434, 0x438, 0x43D])),
       (''s'', RelText [0x444, 0x443, 0x440, 0x441, 0x430, 0x442]),
       (''ss'', RelText [0x25, 0x64, 0x20, 0x444, 0x443, 0x440, 0x441, 0x430, 0x442]),
       (''m'', RelText [0x431, 0x438, 0x440, 0x20, 0x434, 0x430, 0x43A, 0x438, 0x43A, 0x430]),
       (''mm'', RelText [0x25, 0x64, 0x20, 0x434, 0x430, 0x43A, 0x438, 0x43A, 0x430]),
       (''h'', RelText [0x431, 0x438, 0x440, 0x20, 0x441, 0x43E, 0x430, 0x442]),
       (''hh'', RelText [0x25, 0x64, 0x20, 0x441, 0x43E, 0x430, 0x442]),
       (''d'', RelText [0x431, 0x438, 0x440, 0x20, 0x43A, 0x443, 0x43D]),
       (''dd'', RelText [0x25, 0x64, 0x20, 0x43A, 0x443, 0x43D]),
       (''M'', RelText [0x431, 0x438, 0x440, 0x20, 0x43E, 0x439]),
       (''MM'', RelText [0x25, 0x64, 0x20, 0x43E, 0x439]),
       (''y'', RelText [0x431, 0x438, 0x440, 0x20, 0x439, 0x438, 0x43B]),
       (''yy'', RelText [0x25, 0x64, 0x20, 0x439, 0x438, 0x43B])],
     l_ordinal = None,
     l_meridiem = None,
     l_is_pm = None,
     l_meridiem_hour = None,
     l_preparse = None,
     l_postformat = None,
     l_week = Some (1, 7),
     l_meridiem_parse = None,
     l_ordinal_parse = None,
     l_parse = [],
     l_months_parse_exact = False,
     l_weekdays_parse_exact = False,
     l_invalid_date = None,
     l_eras = [],
     l_era_year = None \<rparr>"

text \<open>\<^verbatim>\<open>uz-latn\<close> (line 3).\<close>

definition locale_uz_latn :: moment_locale where
  "locale_uz_latn = \<lparr>
     l_abbr = ''uz-latn'',
     l_months = Names [js ''Yanvar'', js ''Fevral'', js ''Mart'', js ''Aprel'', js ''May'', js
         ''Iyun'', js ''Iyul'', js ''Avgust'', js ''Sentabr'', js ''Oktabr'', js ''Noyabr'', js
         ''Dekabr''],
     l_months_short = Names [js ''Yan'', js ''Fev'', js ''Mar'', js ''Apr'', js ''May'', js
         ''Iyun'', js ''Iyul'', js ''Avg'', js ''Sen'', js ''Okt'', js ''Noy'', js ''Dek''],
     l_weekdays = Names [js ''Yakshanba'', js ''Dushanba'', js ''Seshanba'', js ''Chorshanba'', js
         ''Payshanba'', js ''Juma'', js ''Shanba''],
     l_weekdays_short = [js ''Yak'', js ''Dush'', js ''Sesh'', js ''Chor'', js ''Pay'', js ''Jum'',
         js ''Shan''],
     l_weekdays_min = [js ''Ya'', js ''Du'', js ''Se'', js ''Cho'', js ''Pa'', js ''Ju'', js
         ''Sha''],
     l_long_date_format = [(''LT'', js ''HH:mm''),
       (''LTS'', js ''HH:mm:ss''),
       (''L'', js ''DD/MM/YYYY''),
       (''LL'', js ''D MMMM YYYY''),
       (''LLL'', js ''D MMMM YYYY HH:mm''),
       (''LLLL'', js ''D MMMM YYYY, dddd HH:mm'')],
     l_calendar = [(''sameDay'', CalText (js ''[Bugun soat] LT [da]'')),
       (''nextDay'', CalText (js ''[Ertaga] LT [da]'')),
       (''nextWeek'', CalText (js ''dddd [kuni soat] LT [da]'')),
       (''lastDay'', CalText (js ''[Kecha soat] LT [da]'')),
       (''lastWeek'', CalText ([0x5B, 0x4F, 0x27] @ js ''tgan] dddd [kuni soat] LT [da]'')),
       (''sameElse'', CalText (js ''L''))],
     l_relative_time = [(''future'', RelText (js ''Yaqin %s ichida'')),
       (''past'', RelText (js ''Bir necha %s oldin'')),
       (''s'', RelText (js ''soniya'')),
       (''ss'', RelText (js ''%d soniya'')),
       (''m'', RelText (js ''bir daqiqa'')),
       (''mm'', RelText (js ''%d daqiqa'')),
       (''h'', RelText (js ''bir soat'')),
       (''hh'', RelText (js ''%d soat'')),
       (''d'', RelText (js ''bir kun'')),
       (''dd'', RelText (js ''%d kun'')),
       (''M'', RelText (js ''bir oy'')),
       (''MM'', RelText (js ''%d oy'')),
       (''y'', RelText (js ''bir yil'')),
       (''yy'', RelText (js ''%d yil''))],
     l_ordinal = None,
     l_meridiem = None,
     l_is_pm = None,
     l_meridiem_hour = None,
     l_preparse = None,
     l_postformat = None,
     l_week = Some (1, 7),
     l_meridiem_parse = None,
     l_ordinal_parse = None,
     l_parse = [],
     l_months_parse_exact = False,
     l_weekdays_parse_exact = False,
     l_invalid_date = None,
     l_eras = [],
     l_era_year = None \<rparr>"

text \<open>\<^verbatim>\<open>vi\<close> (line 61).\<close>

definition vi_ordinal :: "nat \<Rightarrow> string \<Rightarrow> js option" where
  "vi_ordinal number period = Some (jnum number)"

definition vi_meridiem :: "nat \<Rightarrow> nat \<Rightarrow> bool \<Rightarrow> js" where
  "vi_meridiem hour minute isLower = (if hour < 12 then (if isLower then js ''sa''
      else js ''SA'')
      else if isLower then js ''ch''
      else js ''CH'')"

definition vi_isPM :: "js \<Rightarrow> bool" where
  "vi_isPM input \<longleftrightarrow> js_lower input \<in> set [js ''ch'']"

definition locale_vi :: moment_locale where
  "locale_vi = \<lparr>
     l_abbr = ''vi'',
     l_months = Names [[0x74, 0x68, 0xE1] @ js ''ng 1'', [0x74, 0x68, 0xE1] @ js ''ng 2'', [0x74,
         0x68, 0xE1] @ js ''ng 3'', [0x74, 0x68, 0xE1] @ js ''ng 4'', [0x74, 0x68, 0xE1] @ js
         ''ng 5'', [0x74, 0x68, 0xE1] @ js ''ng 6'', [0x74, 0x68, 0xE1] @ js ''ng 7'', [0x74, 0x68,
         0xE1] @ js ''ng 8'', [0x74, 0x68, 0xE1] @ js ''ng 9'', [0x74, 0x68, 0xE1] @ js ''ng 10'',
         [0x74, 0x68, 0xE1] @ js ''ng 11'', [0x74, 0x68, 0xE1] @ js ''ng 12''],
     l_months_short = Names [js ''Thg 01'', js ''Thg 02'', js ''Thg 03'', js ''Thg 04'', js
         ''Thg 05'', js ''Thg 06'', js ''Thg 07'', js ''Thg 08'', js ''Thg 09'', js ''Thg 10'', js
         ''Thg 11'', js ''Thg 12''],
     l_weekdays = Names [[0x63, 0x68, 0x1EE7, 0x20, 0x6E, 0x68, 0x1EAD, 0x74], [0x74, 0x68, 0x1EE9]
         @ js '' hai'', [0x74, 0x68, 0x1EE9, 0x20, 0x62, 0x61], [0x74, 0x68, 0x1EE9, 0x20, 0x74,
         0x1B0], [0x74, 0x68, 0x1EE9, 0x20, 0x6E, 0x103, 0x6D], [0x74, 0x68, 0x1EE9, 0x20, 0x73,
         0xE1, 0x75], [0x74, 0x68, 0x1EE9, 0x20, 0x62, 0x1EA3, 0x79]],
     l_weekdays_short = [js ''CN'', js ''T2'', js ''T3'', js ''T4'', js ''T5'', js ''T6'', js
         ''T7''],
     l_weekdays_min = [js ''CN'', js ''T2'', js ''T3'', js ''T4'', js ''T5'', js ''T6'', js ''T7''],
     l_long_date_format = [(''LT'', js ''HH:mm''),
       (''LTS'', js ''HH:mm:ss''),
       (''L'', js ''DD/MM/YYYY''),
       (''LL'', js ''D MMMM [n'' @ [0x103] @ js ''m] YYYY''),
       (''LLL'', js ''D MMMM [n'' @ [0x103] @ js ''m] YYYY HH:mm''),
       (''LLLL'', js ''dddd, D MMMM [n'' @ [0x103] @ js ''m] YYYY HH:mm''),
       (''l'', js ''DD/M/YYYY''),
       (''ll'', js ''D MMM YYYY''),
       (''lll'', js ''D MMM YYYY HH:mm''),
       (''llll'', js ''ddd, D MMM YYYY HH:mm'')],
     l_calendar = [(''sameDay'', CalText ([0x5B, 0x48, 0xF4] @ js ''m nay l'' @ [0xFA] @ js
         ''c] LT'')),
       (''nextDay'', CalText ([0x5B, 0x4E, 0x67, 0xE0] @ js ''y mai l'' @ [0xFA] @ js ''c] LT'')),
       (''nextWeek'', CalText (js ''dddd [tu'' @ [0x1EA7, 0x6E, 0x20, 0x74, 0x1EDB, 0x69, 0x20,
           0x6C, 0xFA] @ js ''c] LT'')),
       (''lastDay'', CalText ([0x5B, 0x48, 0xF4] @ js ''m qua l'' @ [0xFA] @ js ''c] LT'')),
       (''lastWeek'', CalText (js ''dddd [tu'' @ [0x1EA7] @ js ''n tr'' @ [0x1B0, 0x1EDB, 0x63,
           0x20, 0x6C, 0xFA] @ js ''c] LT'')),
       (''sameElse'', CalText (js ''L''))],
     l_relative_time = [(''future'', RelText (js ''%s t'' @ [0x1EDB, 0x69])),
       (''past'', RelText (js ''%s tr'' @ [0x1B0, 0x1EDB, 0x63])),
       (''s'', RelText ([0x76, 0xE0] @ js ''i gi'' @ [0xE2, 0x79])),
       (''ss'', RelText (js ''%d gi'' @ [0xE2, 0x79])),
       (''m'', RelText ([0x6D, 0x1ED9] @ js ''t ph'' @ [0xFA, 0x74])),
       (''mm'', RelText (js ''%d ph'' @ [0xFA, 0x74])),
       (''h'', RelText ([0x6D, 0x1ED9] @ js ''t gi'' @ [0x1EDD])),
       (''hh'', RelText (js ''%d gi'' @ [0x1EDD])),
       (''d'', RelText ([0x6D, 0x1ED9] @ js ''t ng'' @ [0xE0, 0x79])),
       (''dd'', RelText (js ''%d ng'' @ [0xE0, 0x79])),
       (''w'', RelText ([0x6D, 0x1ED9] @ js ''t tu'' @ [0x1EA7, 0x6E])),
       (''ww'', RelText (js ''%d tu'' @ [0x1EA7, 0x6E])),
       (''M'', RelText ([0x6D, 0x1ED9] @ js ''t th'' @ [0xE1, 0x6E, 0x67])),
       (''MM'', RelText (js ''%d th'' @ [0xE1, 0x6E, 0x67])),
       (''y'', RelText [0x6D, 0x1ED9, 0x74, 0x20, 0x6E, 0x103, 0x6D]),
       (''yy'', RelText (js ''%d n'' @ [0x103, 0x6D]))],
     l_ordinal = Some (OrdFun vi_ordinal),
     l_meridiem = Some vi_meridiem,
     l_is_pm = Some vi_isPM,
     l_meridiem_hour = None,
     l_preparse = None,
     l_postformat = None,
     l_week = Some (1, 4),
     l_meridiem_parse = Some (Regex True (Alt [Lit (js ''sa''), Lit (js ''ch'')])),
     l_ordinal_parse = Some (Regex False (digits_1_2)),
     l_parse = [],
     l_months_parse_exact = True,
     l_weekdays_parse_exact = True,
     l_invalid_date = None,
     l_eras = [],
     l_era_year = None \<rparr>"

text \<open>\<^verbatim>\<open>x-pseudo\<close> (line 364).\<close>

definition x_pseudo_ordinal :: "nat \<Rightarrow> string \<Rightarrow> js option" where
  "x_pseudo_ordinal number period = Some (let n = (if (number mod 100) div 10 = 1 then js ''th''
      else if (number mod 10) = 1 then js ''st''
      else if (number mod 10) = 2 then js ''nd''
      else if (number mod 10) = 3 then js ''rd''
      else js ''th'') in jnum number @ n)"

definition locale_x_pseudo :: moment_locale where
  "locale_x_pseudo = \<lparr>
     l_abbr = ''x-pseudo'',
     l_months = Names [[0x4A, 0x7E, 0xE1, 0xF1, 0xFA, 0xE1, 0x7E, 0x72, 0xFD], [0x46, 0x7E, 0xE9,
         0x62, 0x72, 0xFA, 0x7E, 0xE1, 0x72, 0xFD], [0x7E, 0x4D, 0xE1] @ js ''rc~h'', [0xC1, 0x70,
         0x7E, 0x72, 0xED, 0x6C], [0x7E, 0x4D, 0xE1, 0xFD], [0x7E, 0x4A, 0xFA, 0xF1, 0xE9, 0x7E],
         [0x4A, 0xFA, 0x6C, 0x7E, 0xFD], [0xC1, 0xFA, 0x7E, 0x67, 0xFA, 0x73, 0x74, 0x7E], [0x53,
         0xE9, 0x70, 0x7E, 0x74, 0xE9, 0x6D, 0x62, 0x7E, 0xE9, 0x72], [0xD3, 0x7E, 0x63, 0x74, 0xF3,
         0x62, 0x7E, 0xE9, 0x72], [0xD1, 0x7E, 0xF3, 0x76, 0xE9, 0x6D, 0x7E, 0x62, 0xE9, 0x72],
         [0x7E, 0x44, 0xE9, 0x63, 0xE9, 0x7E, 0x6D, 0x62, 0xE9, 0x72]],
     l_months_short = Names [[0x4A, 0x7E, 0xE1, 0xF1], [0x7E, 0x46, 0xE9, 0x62], [0x7E, 0x4D, 0xE1,
         0x72], [0x7E, 0xC1, 0x70, 0x72], [0x7E, 0x4D, 0xE1, 0xFD], [0x7E, 0x4A, 0xFA, 0xF1], [0x7E,
         0x4A, 0xFA, 0x6C], [0x7E, 0xC1, 0xFA, 0x67], [0x7E, 0x53, 0xE9, 0x70], [0x7E, 0xD3, 0x63,
         0x74], [0x7E, 0xD1, 0xF3, 0x76], [0x7E, 0x44, 0xE9, 0x63]],
     l_weekdays = Names [[0x53, 0x7E, 0xFA, 0xF1, 0x64, 0xE1, 0x7E, 0xFD], [0x4D, 0xF3, 0x7E, 0xF1,
         0x64, 0xE1, 0xFD, 0x7E], [0x54, 0xFA, 0xE9, 0x7E, 0x73, 0x64, 0xE1, 0xFD, 0x7E], [0x57,
         0xE9, 0x64, 0x7E, 0xF1, 0xE9, 0x73, 0x64, 0x7E, 0xE1, 0xFD], [0x54, 0x7E, 0x68, 0xFA] @ js
         ''rs~d'' @ [0xE1, 0xFD], [0x7E, 0x46, 0x72, 0xED, 0x64, 0x7E, 0xE1, 0xFD], [0x53, 0x7E,
         0xE1, 0x74, 0xFA, 0x72, 0x7E, 0x64, 0xE1, 0xFD]],
     l_weekdays_short = [[0x53, 0x7E, 0xFA, 0xF1], [0x7E, 0x4D, 0xF3, 0xF1], [0x7E, 0x54, 0xFA,
         0xE9], [0x7E, 0x57, 0xE9, 0x64], [0x7E, 0x54, 0x68, 0xFA], [0x7E, 0x46, 0x72, 0xED], [0x7E,
         0x53, 0xE1, 0x74]],
     l_weekdays_min = [[0x53, 0x7E, 0xFA], [0x4D, 0xF3, 0x7E], [0x54, 0xFA], [0x7E, 0x57, 0xE9], js
         ''T~h'', js ''Fr~'', [0x53, 0xE1]],
     l_long_date_format = [(''LT'', js ''HH:mm''),
       (''L'', js ''DD/MM/YYYY''),
       (''LL'', js ''D MMMM YYYY''),
       (''LLL'', js ''D MMMM YYYY HH:mm''),
       (''LLLL'', js ''dddd, D MMMM YYYY HH:mm'')],
     l_calendar = [(''sameDay'', CalText ([0x5B, 0x54, 0x7E, 0xF3, 0x64, 0xE1, 0x7E, 0xFD, 0x20,
         0xE1] @ js ''t] LT'')),
       (''nextDay'', CalText ([0x5B, 0x54, 0x7E, 0xF3, 0x6D, 0xF3, 0x7E, 0x72, 0x72, 0xF3, 0x7E,
           0x77, 0x20, 0xE1] @ js ''t] LT'')),
       (''nextWeek'', CalText (js ''dddd ['' @ [0xE1] @ js ''t] LT'')),
       (''lastDay'', CalText ([0x5B, 0xDD, 0x7E, 0xE9, 0x73, 0x74, 0x7E, 0xE9, 0x72, 0x64, 0xE1,
           0x7E, 0xFD, 0x20, 0xE1] @ js ''t] LT'')),
       (''lastWeek'', CalText ([0x5B, 0x4C, 0x7E, 0xE1] @ js ''st] dddd ['' @ [0xE1] @ js
           ''t] LT'')),
       (''sameElse'', CalText (js ''L''))],
     l_relative_time = [(''future'', RelText [0xED, 0x7E, 0xF1, 0x20, 0x25, 0x73]),
       (''past'', RelText [0x25, 0x73, 0x20, 0xE1, 0x7E, 0x67, 0xF3]),
       (''s'', RelText ([0xE1, 0x20, 0x7E, 0x66, 0xE9] @ js ''w ~s'' @ [0xE9, 0x63, 0xF3, 0x7E,
           0xF1, 0x64, 0x73])),
       (''ss'', RelText (js ''%d s~'' @ [0xE9, 0x63, 0xF3, 0xF1, 0x7E, 0x64, 0x73])),
       (''m'', RelText [0xE1, 0x20, 0x7E, 0x6D, 0xED, 0xF1, 0x7E, 0xFA, 0x74, 0xE9]),
       (''mm'', RelText (js ''%d m~'' @ [0xED, 0xF1, 0xFA, 0x7E, 0x74, 0xE9, 0x73])),
       (''h'', RelText [0xE1, 0x7E, 0xF1, 0x20, 0x68, 0xF3, 0x7E, 0xFA, 0x72]),
       (''hh'', RelText (js ''%d h~'' @ [0xF3, 0xFA, 0x72, 0x73])),
       (''d'', RelText [0xE1, 0x20, 0x7E, 0x64, 0xE1, 0xFD]),
       (''dd'', RelText (js ''%d d~'' @ [0xE1, 0xFD, 0x73])),
       (''M'', RelText [0xE1, 0x20, 0x7E, 0x6D, 0xF3, 0xF1, 0x7E, 0x74, 0x68]),
       (''MM'', RelText (js ''%d m~'' @ [0xF3, 0xF1] @ js ''t~hs'')),
       (''y'', RelText [0xE1, 0x20, 0x7E, 0xFD, 0xE9, 0xE1, 0x72]),
       (''yy'', RelText [0x25, 0x64, 0x20, 0xFD, 0x7E, 0xE9, 0xE1, 0x72, 0x73])],
     l_ordinal = Some (OrdFun x_pseudo_ordinal),
     l_meridiem = None,
     l_is_pm = None,
     l_meridiem_hour = None,
     l_preparse = None,
     l_postformat = None,
     l_week = Some (1, 4),
     l_meridiem_parse = None,
     l_ordinal_parse = Some (Regex False (Seq [digits_1_2, Alt [Lit (js ''th''), Lit (js ''st''),
         Lit (js ''nd''), Lit (js ''rd'')]])),
     l_parse = [],
     l_months_parse_exact = True,
     l_weekdays_parse_exact = True,
     l_invalid_date = None,
     l_eras = [],
     l_era_year = None \<rparr>"

text \<open>\<^verbatim>\<open>yo\<close> (line 207).\<close>

definition locale_yo :: moment_locale where
  "locale_yo = \<lparr>
     l_abbr = ''yo'',
     l_months = Names [[0x53, 0x1EB9, 0x301, 0x72, 0x1EB9, 0x301], [0x45, 0x300, 0x72, 0x65, 0x300,
         0x6C, 0x65, 0x300], [0x1EB8, 0x72, 0x1EB9, 0x300, 0x6E, 0x61, 0x300], [0x49, 0x300, 0x67,
         0x62, 0x65, 0x301], [0x45, 0x300] @ js ''bibi'', [0x4F, 0x300, 0x6B, 0x75, 0x300, 0x64,
         0x75], [0x41, 0x67, 0x1EB9, 0x6D, 0x6F], [0x4F, 0x300, 0x67, 0x75, 0x301, 0x6E], js
         ''Owewe'', [0x1ECC, 0x300, 0x77, 0x61, 0x300, 0x72, 0x61, 0x300], [0x42, 0x65, 0x301, 0x6C,
         0x75, 0x301], [0x1ECC, 0x300, 0x70, 0x1EB9, 0x300, 0x300]],
     l_months_short = Names [[0x53, 0x1EB9, 0x301, 0x72], [0x45, 0x300, 0x72, 0x6C], [0x1EB8, 0x72,
         0x6E], [0x49, 0x300, 0x67, 0x62], [0x45, 0x300, 0x62, 0x69], [0x4F, 0x300, 0x6B, 0x75,
         0x300], [0x41, 0x67, 0x1EB9], [0x4F, 0x300, 0x67, 0x75, 0x301], js ''Owe'', [0x1ECC, 0x300,
         0x77, 0x61, 0x300], [0x42, 0x65, 0x301, 0x6C], [0x1ECC, 0x300, 0x70, 0x1EB9, 0x300,
         0x300]],
     l_weekdays = Names [[0x41, 0x300, 0x69, 0x300, 0x6B, 0x75, 0x301], [0x41, 0x6A, 0x65, 0x301],
         [0x49, 0x300, 0x73, 0x1EB9, 0x301, 0x67, 0x75, 0x6E], [0x1ECC, 0x6A, 0x1ECD, 0x301, 0x72,
         0x75, 0x301], [0x1ECC, 0x6A, 0x1ECD, 0x301, 0x62, 0x1ECD], [0x1EB8, 0x74, 0x69, 0x300],
         [0x41, 0x300, 0x62, 0x61, 0x301, 0x6D, 0x1EB9, 0x301, 0x74, 0x61]],
     l_weekdays_short = [[0x41, 0x300, 0x69, 0x300, 0x6B], [0x41, 0x6A, 0x65, 0x301], [0x49, 0x300,
         0x73, 0x1EB9, 0x301], [0x1ECC, 0x6A, 0x72], [0x1ECC, 0x6A, 0x62], [0x1EB8, 0x74, 0x69,
         0x300], [0x41, 0x300, 0x62, 0x61, 0x301]],
     l_weekdays_min = [[0x41, 0x300, 0x69, 0x300], js ''Aj'', [0x49, 0x300, 0x73], [0x1ECC, 0x72],
         [0x1ECC, 0x62], [0x1EB8, 0x74], [0x41, 0x300, 0x62]],
     l_long_date_format = [(''LT'', js ''h:mm A''),
       (''LTS'', js ''h:mm:ss A''),
       (''L'', js ''DD/MM/YYYY''),
       (''LL'', js ''D MMMM YYYY''),
       (''LLL'', js ''D MMMM YYYY h:mm A''),
       (''LLLL'', js ''dddd, D MMMM YYYY h:mm A'')],
     l_calendar = [(''sameDay'', CalText ([0x5B, 0x4F, 0x300, 0x6E, 0x69, 0x300] @ js '' ni] LT'')),
       (''nextDay'', CalText ([0x5B, 0x1ECC, 0x300] @ js ''la ni] LT'')),
       (''nextWeek'', CalText (js ''dddd ['' @ [0x1ECC, 0x73, 0x1EB9, 0x300, 0x20, 0x74, 0x6F,
           0x301, 0x6E, 0x27, 0x62, 0x1ECD] @ js ''] [ni] LT'')),
       (''lastDay'', CalText ([0x5B, 0x41, 0x300] @ js ''na ni] LT'')),
       (''lastWeek'', CalText (js ''dddd ['' @ [0x1ECC, 0x73, 0x1EB9, 0x300, 0x20, 0x74, 0x6F,
           0x301, 0x6C, 0x1ECD, 0x301] @ js ''] [ni] LT'')),
       (''sameElse'', CalText (js ''L''))],
     l_relative_time = [(''future'', RelText [0x6E, 0x69, 0x301, 0x20, 0x25, 0x73]),
       (''past'', RelText (js ''%s k'' @ [0x1ECD, 0x6A, 0x61, 0x301])),
       (''s'', RelText ([0x69, 0x300, 0x73, 0x1EB9, 0x6A, 0x75, 0x301] @ js '' aaya'' @ [0x301] @ js
           '' die'')),
       (''ss'', RelText (js ''aaya'' @ [0x301, 0x20, 0x25, 0x64])),
       (''m'', RelText ([0x69, 0x300, 0x73, 0x1EB9, 0x6A, 0x75, 0x301] @ js '' kan'')),
       (''mm'', RelText [0x69, 0x300, 0x73, 0x1EB9, 0x6A, 0x75, 0x301, 0x20, 0x25, 0x64]),
       (''h'', RelText ([0x77, 0x61, 0x301] @ js ''kati kan'')),
       (''hh'', RelText ([0x77, 0x61, 0x301] @ js ''kati %d'')),
       (''d'', RelText ([0x1ECD, 0x6A, 0x1ECD, 0x301] @ js '' kan'')),
       (''dd'', RelText [0x1ECD, 0x6A, 0x1ECD, 0x301, 0x20, 0x25, 0x64]),
       (''M'', RelText ([0x6F, 0x73, 0x75, 0x300] @ js '' kan'')),
       (''MM'', RelText [0x6F, 0x73, 0x75, 0x300, 0x20, 0x25, 0x64]),
       (''y'', RelText ([0x1ECD, 0x64, 0x75, 0x301] @ js ''n kan'')),
       (''yy'', RelText ([0x1ECD, 0x64, 0x75, 0x301] @ js ''n %d''))],
     l_ordinal = Some (OrdText [0x1ECD, 0x6A, 0x1ECD, 0x301, 0x20, 0x25, 0x64]),
     l_meridiem = None,
     l_is_pm = None,
     l_meridiem_hour = None,
     l_preparse = None,
     l_postformat = None,
     l_week = Some (1, 4),
     l_meridiem_parse = None,
     l_ordinal_parse = Some (Regex False (Seq [Lit [0x1ECD, 0x6A, 0x1ECD, 0x301], Cls [(0x9, 0xD),
         (0x20, 0x20), (0xA0, 0xA0), (0x1680, 0x1680), (0x2000, 0x200A), (0x2028, 0x2029), (0x202F,
         0x202F), (0x205F, 0x205F), (0x3000, 0x3000), (0xFEFF, 0xFEFF)], digits_1_2])),
     l_parse = [],
     l_months_parse_exact = False,
     l_weekdays_parse_exact = False,
     l_invalid_date = None,
     l_eras = [],
     l_era_year = None \<rparr>"

definition locales_s :: "moment_locale list" where
  "locales_s = [locale_sw, locale_ta, locale_te, locale_tet, locale_tg, locale_th, locale_tk, locale_tl_ph,
         locale_tlh, locale_tr, locale_tzl, locale_tzm, locale_tzm_latn, locale_uk, locale_ur, locale_uz,
         locale_uz_latn, locale_vi, locale_x_pseudo, locale_yo]"

lemmas locales_s_defs = locales_s_def locale_sw_def locale_ta_def locale_te_def locale_tet_def locale_tg_def locale_th_def
      locale_tk_def locale_tl_ph_def locale_tlh_def locale_tr_def locale_tzl_def locale_tzm_def
      locale_tzm_latn_def locale_uk_def locale_ur_def locale_uz_def locale_uz_latn_def locale_vi_def
      locale_x_pseudo_def locale_yo_def

text \<open>The relative times of these languages.\<close>

lemma tlh_digits_nth: "i < 10 \<Longrightarrow> js_nth tlh_digits i = Some (tlh_digits ! i)"
  by (simp add: js_nth_def tlh_digits_def)

lemma tlh_number_defined: "\<exists>t. tlh_number n = Some t"
proof -
  have "n mod 1000 div 100 < 10" "n mod 100 div 10 < 10" "n mod 10 < 10"
    by (simp_all add: div_less_iff_less_mult)
  then show ?thesis by (simp add: tlh_number_def Let_def tlh_digits_nth)
qed

lemma tlh_rel_r_defined:
  assumes "k \<in> set [''ss'', ''mm'', ''hh'', ''dd'', ''MM'', ''yy'']"
  shows "tlh_rel_r number withoutSuffix k isFuture \<noteq> None"
proof -
  obtain t where "tlh_number number = Some t" using tlh_number_defined by blast
  then show ?thesis using assms by (auto simp: tlh_rel_r_def)
qed

lemma tzl_rel_n_defined:
  assumes "1 \<le> number"
  shows "tzl_rel_n number withoutSuffix ''s'' isFuture \<noteq> None"
    and "tzl_rel_n number withoutSuffix ''ss'' isFuture \<noteq> None"
    and "tzl_rel_n number withoutSuffix ''m'' isFuture \<noteq> None"
    and "tzl_rel_n number withoutSuffix ''mm'' isFuture \<noteq> None"
    and "tzl_rel_n number withoutSuffix ''h'' isFuture \<noteq> None"
    and "tzl_rel_n number withoutSuffix ''hh'' isFuture \<noteq> None"
    and "tzl_rel_n number withoutSuffix ''d'' isFuture \<noteq> None"
    and "tzl_rel_n number withoutSuffix ''dd'' isFuture \<noteq> None"
    and "tzl_rel_n number withoutSuffix ''M'' isFuture \<noteq> None"
    and "tzl_rel_n number withoutSuffix ''MM'' isFuture \<noteq> None"
    and "tzl_rel_n number withoutSuffix ''y'' isFuture \<noteq> None"
    and "tzl_rel_n number withoutSuffix ''yy'' isFuture \<noteq> None"
  using assms
  by (auto simp: tzl_rel_n_def js_nth_def Let_def split: if_splits)

lemma uk_rel_n_defined:
  assumes "1 \<le> number"
  shows "uk_rel_n number withoutSuffix ''ss'' isFuture \<noteq> None"
    and "uk_rel_n number withoutSuffix ''m'' isFuture \<noteq> None"
    and "uk_rel_n number withoutSuffix ''mm'' isFuture \<noteq> None"
    and "uk_rel_n number withoutSuffix ''hh'' isFuture \<noteq> None"
    and "uk_rel_n number withoutSuffix ''dd'' isFuture \<noteq> None"
    and "uk_rel_n number withoutSuffix ''MM'' isFuture \<noteq> None"
    and "uk_rel_n number withoutSuffix ''yy'' isFuture \<noteq> None"
  using assms
  by (auto simp: uk_rel_n_def uk_t_def js_nth_def Let_def split: if_splits)

lemma locales_s_relative:
  assumes "1 \<le> number"
  shows "list_all (\<lambda>c. rel_defined number withoutSuffix isFuture (l_relative_time c)) locales_s"
  unfolding locales_s_defs list.pred_inject moment_locale.select_convs rel_defined_def
  using assms by (simp add: tlh_rel_r_defined tzl_rel_n_defined uk_rel_n_defined del: not_None_eq)

lemma locales_s_wrappers:
  "list_all (\<lambda>c. wrapper_defined s (l_relative_time c)) locales_s"
  unfolding locales_s_defs list.pred_inject moment_locale.select_convs wrapper_defined_def
  by (simp add: tlh_rel_n_def tlh_rel_i_def)

lemma locales_s_unitwise:
  "list_all (\<lambda>c. unitwise (apply_option (l_preparse c)) \<and> unitwise (apply_option (l_postformat c))) locales_s"
  unfolding locales_s_defs list.pred_inject moment_locale.select_convs
  by (simp add: unitwise_def apply_option_def
      ta_preparse_def ta_postformat_def ur_preparse_def ur_postformat_def)

lemma locales_s_names:
  "list_all (\<lambda>c. names_length 12 (l_months c) \<and> names_length 12 (l_months_short c) \<and>
     names_length 7 (l_weekdays c) \<and> length (l_weekdays_short c) = 7 \<and> length (l_weekdays_min c) = 7) locales_s"
  unfolding locales_s_defs list.pred_inject moment_locale.select_convs
  by (simp add: names_length_def uk_weekdays_nominative_def uk_weekdays_accusative_def uk_weekdays_genitive_def uk_weekdays_def)

end
