(* ===== verification/LocalesZ.thy ===== *)
theory LocalesZ
  imports MomentCore
begin

text \<open>
  The language configurations ug-cn to zh-tw of the date library, as the bundle
  \<^verbatim>\<open>src/lagosta/js/app.js\<close> registers them, one per line.  Each configuration is the record
  \<^verbatim>\<open>locale_x\<close>; the functions inside it are the definitions before it, named after the language and
  the property (or the local function) that holds them.
\<close>

text \<open>\<^verbatim>\<open>ug-cn\<close> (line 151).\<close>

definition ug_cn_ordinal :: "nat \<Rightarrow> string \<Rightarrow> js option" where
  "ug_cn_ordinal number period = Some (if period = ''d'' \<or> period = ''D'' \<or> period = ''DDD''
      then jnum number @ [0x2D, 0x643, 0x6C8, 0x646, 0x649]
      else if period = ''w'' \<or> period = ''W'' then jnum number @ [0x2D, 0x6BE, 0x6D5, 0x67E,
          0x62A, 0x6D5]
      else jnum number)"

definition ug_cn_meridiem :: "nat \<Rightarrow> nat \<Rightarrow> bool \<Rightarrow> js" where
  "ug_cn_meridiem hour minute isLower = (if (100 * hour + minute) < 600 then [0x64A, 0x6D0, 0x631,
      0x649, 0x645, 0x20, 0x643, 0x6D0, 0x686, 0x6D5]
      else if (100 * hour + minute) < 900 then [0x633, 0x6D5, 0x6BE, 0x6D5, 0x631]
      else if (100 * hour + minute) < 1130 then [0x686, 0x6C8, 0x634, 0x62A, 0x649, 0x646, 0x20,
          0x628, 0x6C7, 0x631, 0x6C7, 0x646]
      else if (100 * hour + minute) < 1230 then [0x686, 0x6C8, 0x634]
      else if (100 * hour + minute) < 1800 then [0x686, 0x6C8, 0x634, 0x62A, 0x649, 0x646, 0x20,
          0x643, 0x6D0, 0x64A, 0x649, 0x646]
      else [0x643, 0x6D5, 0x686])"

definition ug_cn_meridiemHour :: "nat \<Rightarrow> js \<Rightarrow> nat option" where
  "ug_cn_meridiemHour hour meridiem = Some (let hour = (if hour = 12 then 0
      else hour) in (if (meridiem = [0x64A, 0x6D0, 0x631, 0x649, 0x645, 0x20, 0x643, 0x6D0, 0x686,
          0x6D5] \<or> meridiem = [0x633, 0x6D5, 0x6BE, 0x6D5, 0x631]) \<or> meridiem = [0x686,
          0x6C8, 0x634, 0x62A, 0x649, 0x646, 0x20, 0x628, 0x6C7, 0x631, 0x6C7, 0x646] then hour
      else if meridiem = [0x686, 0x6C8, 0x634, 0x62A, 0x649, 0x646, 0x20, 0x643, 0x6D0, 0x64A,
          0x649, 0x646] \<or> meridiem = [0x643, 0x6D5, 0x686] then hour + 12
      else if hour \<ge> 11 then hour
      else hour + 12))"

definition ug_cn_preparse :: "js \<Rightarrow> js" where
  "ug_cn_preparse s = js_replace_unit 0x60C 0x2C s"

definition ug_cn_postformat :: "js \<Rightarrow> js" where
  "ug_cn_postformat s = js_replace_unit 0x2C 0x60C s"

definition locale_ug_cn :: moment_locale where
  "locale_ug_cn = \<lparr>
     l_abbr = ''ug-cn'',
     l_months = Names [[0x64A, 0x627, 0x646, 0x6CB, 0x627, 0x631], [0x641, 0x6D0, 0x6CB, 0x631,
         0x627, 0x644], [0x645, 0x627, 0x631, 0x62A], [0x626, 0x627, 0x67E, 0x631, 0x6D0, 0x644],
         [0x645, 0x627, 0x64A], [0x626, 0x649, 0x64A, 0x6C7, 0x646], [0x626, 0x649, 0x64A, 0x6C7,
         0x644], [0x626, 0x627, 0x6CB, 0x63A, 0x6C7, 0x633, 0x62A], [0x633, 0x6D0, 0x646, 0x62A,
         0x6D5, 0x628, 0x649, 0x631], [0x626, 0x6C6, 0x643, 0x62A, 0x6D5, 0x628, 0x649, 0x631],
         [0x646, 0x648, 0x64A, 0x627, 0x628, 0x649, 0x631], [0x62F, 0x6D0, 0x643, 0x627, 0x628,
         0x649, 0x631]],
     l_months_short = Names [[0x64A, 0x627, 0x646, 0x6CB, 0x627, 0x631], [0x641, 0x6D0, 0x6CB,
         0x631, 0x627, 0x644], [0x645, 0x627, 0x631, 0x62A], [0x626, 0x627, 0x67E, 0x631, 0x6D0,
         0x644], [0x645, 0x627, 0x64A], [0x626, 0x649, 0x64A, 0x6C7, 0x646], [0x626, 0x649, 0x64A,
         0x6C7, 0x644], [0x626, 0x627, 0x6CB, 0x63A, 0x6C7, 0x633, 0x62A], [0x633, 0x6D0, 0x646,
         0x62A, 0x6D5, 0x628, 0x649, 0x631], [0x626, 0x6C6, 0x643, 0x62A, 0x6D5, 0x628, 0x649,
         0x631], [0x646, 0x648, 0x64A, 0x627, 0x628, 0x649, 0x631], [0x62F, 0x6D0, 0x643, 0x627,
         0x628, 0x649, 0x631]],
     l_weekdays = Names [[0x64A, 0x6D5, 0x643, 0x634, 0x6D5, 0x646, 0x628, 0x6D5], [0x62F, 0x6C8,
         0x634, 0x6D5, 0x646, 0x628, 0x6D5], [0x633, 0x6D5, 0x64A, 0x634, 0x6D5, 0x646, 0x628,
         0x6D5], [0x686, 0x627, 0x631, 0x634, 0x6D5, 0x646, 0x628, 0x6D5], [0x67E, 0x6D5, 0x64A,
         0x634, 0x6D5, 0x646, 0x628, 0x6D5], [0x62C, 0x6C8, 0x645, 0x6D5], [0x634, 0x6D5, 0x646,
         0x628, 0x6D5]],
     l_weekdays_short = [[0x64A, 0x6D5], [0x62F, 0x6C8], [0x633, 0x6D5], [0x686, 0x627], [0x67E,
         0x6D5], [0x62C, 0x6C8], [0x634, 0x6D5]],
     l_weekdays_min = [[0x64A, 0x6D5], [0x62F, 0x6C8], [0x633, 0x6D5], [0x686, 0x627], [0x67E,
         0x6D5], [0x62C, 0x6C8], [0x634, 0x6D5]],
     l_long_date_format = [(''LT'', js ''HH:mm''),
       (''LTS'', js ''HH:mm:ss''),
       (''L'', js ''YYYY-MM-DD''),
       (''LL'', js ''YYYY-'' @ [0x64A, 0x649, 0x644, 0x649, 0x4D, 0x2D, 0x626, 0x627, 0x64A, 0x646,
           0x649, 0x6AD, 0x44, 0x2D, 0x643, 0x6C8, 0x646, 0x649]),
       (''LLL'', js ''YYYY-'' @ [0x64A, 0x649, 0x644, 0x649, 0x4D, 0x2D, 0x626, 0x627, 0x64A, 0x646,
           0x649, 0x6AD, 0x44, 0x2D, 0x643, 0x6C8, 0x646, 0x649, 0x60C] @ js '' HH:mm''),
       (''LLLL'', js ''dddd'' @ [0x60C] @ js '' YYYY-'' @ [0x64A, 0x649, 0x644, 0x649, 0x4D, 0x2D,
           0x626, 0x627, 0x64A, 0x646, 0x649, 0x6AD, 0x44, 0x2D, 0x643, 0x6C8, 0x646, 0x649, 0x60C]
           @ js '' HH:mm'')],
     l_calendar = [(''sameDay'', CalText ([0x5B, 0x628, 0x6C8, 0x6AF, 0x6C8, 0x646, 0x20, 0x633,
         0x627, 0x626, 0x6D5, 0x62A] @ js ''] LT'')),
       (''nextDay'', CalText ([0x5B, 0x626, 0x6D5, 0x62A, 0x6D5, 0x20, 0x633, 0x627, 0x626, 0x6D5,
           0x62A] @ js ''] LT'')),
       (''nextWeek'', CalText ([0x5B, 0x643, 0x6D0, 0x644, 0x6D5, 0x631, 0x643, 0x649] @ js
           ''] dddd ['' @ [0x633, 0x627, 0x626, 0x6D5, 0x62A] @ js ''] LT'')),
       (''lastDay'', CalText ([0x5B, 0x62A, 0x6C6, 0x646, 0x6C8, 0x6AF, 0x6C8, 0x646] @ js
           ''] LT'')),
       (''lastWeek'', CalText ([0x5B, 0x626, 0x627, 0x644, 0x62F, 0x649, 0x646, 0x642, 0x649] @ js
           ''] dddd ['' @ [0x633, 0x627, 0x626, 0x6D5, 0x62A] @ js ''] LT'')),
       (''sameElse'', CalText (js ''L''))],
     l_relative_time = [(''future'', RelText [0x25, 0x73, 0x20, 0x643, 0x6D0, 0x64A, 0x649, 0x646]),
       (''past'', RelText [0x25, 0x73, 0x20, 0x628, 0x6C7, 0x631, 0x6C7, 0x646]),
       (''s'', RelText [0x646, 0x6D5, 0x686, 0x686, 0x6D5, 0x20, 0x633, 0x6D0, 0x643, 0x648, 0x646,
           0x62A]),
       (''ss'', RelText [0x25, 0x64, 0x20, 0x633, 0x6D0, 0x643, 0x648, 0x646, 0x62A]),
       (''m'', RelText [0x628, 0x649, 0x631, 0x20, 0x645, 0x649, 0x646, 0x6C7, 0x62A]),
       (''mm'', RelText [0x25, 0x64, 0x20, 0x645, 0x649, 0x646, 0x6C7, 0x62A]),
       (''h'', RelText [0x628, 0x649, 0x631, 0x20, 0x633, 0x627, 0x626, 0x6D5, 0x62A]),
       (''hh'', RelText [0x25, 0x64, 0x20, 0x633, 0x627, 0x626, 0x6D5, 0x62A]),
       (''d'', RelText [0x628, 0x649, 0x631, 0x20, 0x643, 0x6C8, 0x646]),
       (''dd'', RelText [0x25, 0x64, 0x20, 0x643, 0x6C8, 0x646]),
       (''M'', RelText [0x628, 0x649, 0x631, 0x20, 0x626, 0x627, 0x64A]),
       (''MM'', RelText [0x25, 0x64, 0x20, 0x626, 0x627, 0x64A]),
       (''y'', RelText [0x628, 0x649, 0x631, 0x20, 0x64A, 0x649, 0x644]),
       (''yy'', RelText [0x25, 0x64, 0x20, 0x64A, 0x649, 0x644])],
     l_ordinal = Some (OrdFun ug_cn_ordinal),
     l_meridiem = Some ug_cn_meridiem,
     l_is_pm = None,
     l_meridiem_hour = Some ug_cn_meridiemHour,
     l_preparse = Some ug_cn_preparse,
     l_postformat = Some ug_cn_postformat,
     l_week = Some (1, 7),
     l_meridiem_parse = Some (Regex False (Alt [Lit [0x64A, 0x6D0, 0x631, 0x649, 0x645, 0x20, 0x643,
         0x6D0, 0x686, 0x6D5], Lit [0x633, 0x6D5, 0x6BE, 0x6D5, 0x631], Lit [0x686, 0x6C8, 0x634,
         0x62A, 0x649, 0x646, 0x20, 0x628, 0x6C7, 0x631, 0x6C7, 0x646], Lit [0x686, 0x6C8, 0x634],
         Lit [0x686, 0x6C8, 0x634, 0x62A, 0x649, 0x646, 0x20, 0x643, 0x6D0, 0x64A, 0x649, 0x646],
         Lit [0x643, 0x6D5, 0x686]])),
     l_ordinal_parse = Some (Regex False (Seq [digits_1_2, Alt [Lit [0x2D, 0x643, 0x6C8, 0x646,
         0x649], Lit [0x2D, 0x626, 0x627, 0x64A], Lit [0x2D, 0x6BE, 0x6D5, 0x67E, 0x62A, 0x6D5]]])),
     l_parse = [],
     l_months_parse_exact = False,
     l_weekdays_parse_exact = False,
     l_invalid_date = None,
     l_eras = [],
     l_era_year = None \<rparr>"

text \<open>\<^verbatim>\<open>zh-cn\<close> (line 145).\<close>

definition zh_cn_nextWeek :: "nat \<Rightarrow> nat \<Rightarrow> bool \<Rightarrow> js option"
    where
  "zh_cn_nextWeek day hours sameWeek = Some (if \<not> sameWeek then [0x5B, 0x4E0B] @ js '']dddLT''
      else [0x5B, 0x672C] @ js '']dddLT'')"

definition zh_cn_lastWeek :: "nat \<Rightarrow> nat \<Rightarrow> bool \<Rightarrow> js option"
    where
  "zh_cn_lastWeek day hours sameWeek = Some (if \<not> sameWeek then [0x5B, 0x4E0A] @ js '']dddLT''
      else [0x5B, 0x672C] @ js '']dddLT'')"

definition zh_cn_ordinal :: "nat \<Rightarrow> string \<Rightarrow> js option" where
  "zh_cn_ordinal number period = Some (if period = ''d'' \<or> period = ''D'' \<or> period = ''DDD''
      then jnum number @ [0x65E5]
      else if period = ''M'' then jnum number @ [0x6708]
      else if period = ''w'' \<or> period = ''W'' then jnum number @ [0x5468]
      else jnum number)"

definition zh_cn_meridiem :: "nat \<Rightarrow> nat \<Rightarrow> bool \<Rightarrow> js" where
  "zh_cn_meridiem hour minute isLower = (if (100 * hour + minute) < 600 then [0x51CC, 0x6668]
      else if (100 * hour + minute) < 900 then [0x65E9, 0x4E0A]
      else if (100 * hour + minute) < 1130 then [0x4E0A, 0x5348]
      else if (100 * hour + minute) < 1230 then [0x4E2D, 0x5348]
      else if (100 * hour + minute) < 1800 then [0x4E0B, 0x5348]
      else [0x665A, 0x4E0A])"

definition zh_cn_meridiemHour :: "nat \<Rightarrow> js \<Rightarrow> nat option" where
  "zh_cn_meridiemHour hour meridiem = Some (let hour = (if hour = 12 then 0
      else hour) in (if (meridiem = [0x51CC, 0x6668] \<or> meridiem = [0x65E9, 0x4E0A]) \<or>
          meridiem = [0x4E0A, 0x5348] then hour
      else if meridiem = [0x4E0B, 0x5348] \<or> meridiem = [0x665A, 0x4E0A] then hour + 12
      else if hour \<ge> 11 then hour
      else hour + 12))"

definition locale_zh_cn :: moment_locale where
  "locale_zh_cn = \<lparr>
     l_abbr = ''zh-cn'',
     l_months = Names [[0x4E00, 0x6708], [0x4E8C, 0x6708], [0x4E09, 0x6708], [0x56DB, 0x6708],
         [0x4E94, 0x6708], [0x516D, 0x6708], [0x4E03, 0x6708], [0x516B, 0x6708], [0x4E5D, 0x6708],
         [0x5341, 0x6708], [0x5341, 0x4E00, 0x6708], [0x5341, 0x4E8C, 0x6708]],
     l_months_short = Names [[0x31, 0x6708], [0x32, 0x6708], [0x33, 0x6708], [0x34, 0x6708], [0x35,
         0x6708], [0x36, 0x6708], [0x37, 0x6708], [0x38, 0x6708], [0x39, 0x6708], [0x31, 0x30,
         0x6708], [0x31, 0x31, 0x6708], [0x31, 0x32, 0x6708]],
     l_weekdays = Names [[0x661F, 0x671F, 0x65E5], [0x661F, 0x671F, 0x4E00], [0x661F, 0x671F,
         0x4E8C], [0x661F, 0x671F, 0x4E09], [0x661F, 0x671F, 0x56DB], [0x661F, 0x671F, 0x4E94],
         [0x661F, 0x671F, 0x516D]],
     l_weekdays_short = [[0x5468, 0x65E5], [0x5468, 0x4E00], [0x5468, 0x4E8C], [0x5468, 0x4E09],
         [0x5468, 0x56DB], [0x5468, 0x4E94], [0x5468, 0x516D]],
     l_weekdays_min = [[0x65E5], [0x4E00], [0x4E8C], [0x4E09], [0x56DB], [0x4E94], [0x516D]],
     l_long_date_format = [(''LT'', js ''HH:mm''),
       (''LTS'', js ''HH:mm:ss''),
       (''L'', js ''YYYY/MM/DD''),
       (''LL'', js ''YYYY'' @ [0x5E74, 0x4D, 0x6708, 0x44, 0x65E5]),
       (''LLL'', js ''YYYY'' @ [0x5E74, 0x4D, 0x6708, 0x44, 0x65E5, 0x41, 0x68, 0x70B9, 0x6D, 0x6D,
           0x5206]),
       (''LLLL'', js ''YYYY'' @ [0x5E74, 0x4D, 0x6708, 0x44, 0x65E5] @ js ''ddddAh'' @ [0x70B9,
           0x6D, 0x6D, 0x5206]),
       (''l'', js ''YYYY/M/D''),
       (''ll'', js ''YYYY'' @ [0x5E74, 0x4D, 0x6708, 0x44, 0x65E5]),
       (''lll'', js ''YYYY'' @ [0x5E74, 0x4D, 0x6708, 0x44, 0x65E5] @ js '' HH:mm''),
       (''llll'', js ''YYYY'' @ [0x5E74, 0x4D, 0x6708, 0x44, 0x65E5] @ js ''dddd HH:mm'')],
     l_calendar = [(''sameDay'', CalText [0x5B, 0x4ECA, 0x5929, 0x5D, 0x4C, 0x54]),
       (''nextDay'', CalText [0x5B, 0x660E, 0x5929, 0x5D, 0x4C, 0x54]),
       (''nextWeek'', CalFun zh_cn_nextWeek),
       (''lastDay'', CalText [0x5B, 0x6628, 0x5929, 0x5D, 0x4C, 0x54]),
       (''lastWeek'', CalFun zh_cn_lastWeek),
       (''sameElse'', CalText (js ''L''))],
     l_relative_time = [(''future'', RelText [0x25, 0x73, 0x540E]),
       (''past'', RelText [0x25, 0x73, 0x524D]),
       (''s'', RelText [0x51E0, 0x79D2]),
       (''ss'', RelText [0x25, 0x64, 0x20, 0x79D2]),
       (''m'', RelText [0x31, 0x20, 0x5206, 0x949F]),
       (''mm'', RelText [0x25, 0x64, 0x20, 0x5206, 0x949F]),
       (''h'', RelText [0x31, 0x20, 0x5C0F, 0x65F6]),
       (''hh'', RelText [0x25, 0x64, 0x20, 0x5C0F, 0x65F6]),
       (''d'', RelText [0x31, 0x20, 0x5929]),
       (''dd'', RelText [0x25, 0x64, 0x20, 0x5929]),
       (''w'', RelText [0x31, 0x20, 0x5468]),
       (''ww'', RelText [0x25, 0x64, 0x20, 0x5468]),
       (''M'', RelText [0x31, 0x20, 0x4E2A, 0x6708]),
       (''MM'', RelText [0x25, 0x64, 0x20, 0x4E2A, 0x6708]),
       (''y'', RelText [0x31, 0x20, 0x5E74]),
       (''yy'', RelText [0x25, 0x64, 0x20, 0x5E74])],
     l_ordinal = Some (OrdFun zh_cn_ordinal),
     l_meridiem = Some zh_cn_meridiem,
     l_is_pm = None,
     l_meridiem_hour = Some zh_cn_meridiemHour,
     l_preparse = None,
     l_postformat = None,
     l_week = Some (1, 4),
     l_meridiem_parse = Some (Regex False (Alt [Lit [0x51CC, 0x6668], Lit [0x65E9, 0x4E0A], Lit
         [0x4E0A, 0x5348], Lit [0x4E2D, 0x5348], Lit [0x4E0B, 0x5348], Lit [0x665A, 0x4E0A]])),
     l_ordinal_parse = Some (Regex False (Seq [digits_1_2, Alt [Lit [0x65E5], Lit [0x6708], Lit
         [0x5468]]])),
     l_parse = [],
     l_months_parse_exact = False,
     l_weekdays_parse_exact = False,
     l_invalid_date = None,
     l_eras = [],
     l_era_year = None \<rparr>"

text \<open>\<^verbatim>\<open>zh-hk\<close> (line 118).\<close>

definition zh_hk_ordinal :: "nat \<Rightarrow> string \<Rightarrow> js option" where
  "zh_hk_ordinal number period = Some (if period = ''d'' \<or> period = ''D'' \<or> period = ''DDD''
      then jnum number @ [0x65E5]
      else if period = ''M'' then jnum number @ [0x6708]
      else if period = ''w'' \<or> period = ''W'' then jnum number @ [0x9031]
      else jnum number)"

definition zh_hk_meridiem :: "nat \<Rightarrow> nat \<Rightarrow> bool \<Rightarrow> js" where
  "zh_hk_meridiem hour minute isLower = (if (100 * hour + minute) < 600 then [0x51CC, 0x6668]
      else if (100 * hour + minute) < 900 then [0x65E9, 0x4E0A]
      else if (100 * hour + minute) < 1200 then [0x4E0A, 0x5348]
      else if (100 * hour + minute) = 1200 then [0x4E2D, 0x5348]
      else if (100 * hour + minute) < 1800 then [0x4E0B, 0x5348]
      else [0x665A, 0x4E0A])"

definition zh_hk_meridiemHour :: "nat \<Rightarrow> js \<Rightarrow> nat option" where
  "zh_hk_meridiemHour hour meridiem = (let hour = (if hour = 12 then 0
      else hour) in (if (meridiem = [0x51CC, 0x6668] \<or> meridiem = [0x65E9, 0x4E0A]) \<or>
          meridiem = [0x4E0A, 0x5348] then Some hour
      else if meridiem = [0x4E2D, 0x5348] then Some (if hour \<ge> 11 then hour
      else hour + 12)
      else if meridiem = [0x4E0B, 0x5348] \<or> meridiem = [0x665A, 0x4E0A] then Some (hour + 12)
      else None))"

definition locale_zh_hk :: moment_locale where
  "locale_zh_hk = \<lparr>
     l_abbr = ''zh-hk'',
     l_months = Names [[0x4E00, 0x6708], [0x4E8C, 0x6708], [0x4E09, 0x6708], [0x56DB, 0x6708],
         [0x4E94, 0x6708], [0x516D, 0x6708], [0x4E03, 0x6708], [0x516B, 0x6708], [0x4E5D, 0x6708],
         [0x5341, 0x6708], [0x5341, 0x4E00, 0x6708], [0x5341, 0x4E8C, 0x6708]],
     l_months_short = Names [[0x31, 0x6708], [0x32, 0x6708], [0x33, 0x6708], [0x34, 0x6708], [0x35,
         0x6708], [0x36, 0x6708], [0x37, 0x6708], [0x38, 0x6708], [0x39, 0x6708], [0x31, 0x30,
         0x6708], [0x31, 0x31, 0x6708], [0x31, 0x32, 0x6708]],
     l_weekdays = Names [[0x661F, 0x671F, 0x65E5], [0x661F, 0x671F, 0x4E00], [0x661F, 0x671F,
         0x4E8C], [0x661F, 0x671F, 0x4E09], [0x661F, 0x671F, 0x56DB], [0x661F, 0x671F, 0x4E94],
         [0x661F, 0x671F, 0x516D]],
     l_weekdays_short = [[0x9031, 0x65E5], [0x9031, 0x4E00], [0x9031, 0x4E8C], [0x9031, 0x4E09],
         [0x9031, 0x56DB], [0x9031, 0x4E94], [0x9031, 0x516D]],
     l_weekdays_min = [[0x65E5], [0x4E00], [0x4E8C], [0x4E09], [0x56DB], [0x4E94], [0x516D]],
     l_long_date_format = [(''LT'', js ''HH:mm''),
       (''LTS'', js ''HH:mm:ss''),
       (''L'', js ''YYYY/MM/DD''),
       (''LL'', js ''YYYY'' @ [0x5E74, 0x4D, 0x6708, 0x44, 0x65E5]),
       (''LLL'', js ''YYYY'' @ [0x5E74, 0x4D, 0x6708, 0x44, 0x65E5] @ js '' HH:mm''),
       (''LLLL'', js ''YYYY'' @ [0x5E74, 0x4D, 0x6708, 0x44, 0x65E5] @ js ''dddd HH:mm''),
       (''l'', js ''YYYY/M/D''),
       (''ll'', js ''YYYY'' @ [0x5E74, 0x4D, 0x6708, 0x44, 0x65E5]),
       (''lll'', js ''YYYY'' @ [0x5E74, 0x4D, 0x6708, 0x44, 0x65E5] @ js '' HH:mm''),
       (''llll'', js ''YYYY'' @ [0x5E74, 0x4D, 0x6708, 0x44, 0x65E5] @ js ''dddd HH:mm'')],
     l_calendar = [(''sameDay'', CalText [0x5B, 0x4ECA, 0x5929, 0x5D, 0x4C, 0x54]),
       (''nextDay'', CalText [0x5B, 0x660E, 0x5929, 0x5D, 0x4C, 0x54]),
       (''nextWeek'', CalText ([0x5B, 0x4E0B] @ js '']ddddLT'')),
       (''lastDay'', CalText [0x5B, 0x6628, 0x5929, 0x5D, 0x4C, 0x54]),
       (''lastWeek'', CalText ([0x5B, 0x4E0A] @ js '']ddddLT'')),
       (''sameElse'', CalText (js ''L''))],
     l_relative_time = [(''future'', RelText [0x25, 0x73, 0x5F8C]),
       (''past'', RelText [0x25, 0x73, 0x524D]),
       (''s'', RelText [0x5E7E, 0x79D2]),
       (''ss'', RelText [0x25, 0x64, 0x20, 0x79D2]),
       (''m'', RelText [0x31, 0x20, 0x5206, 0x9418]),
       (''mm'', RelText [0x25, 0x64, 0x20, 0x5206, 0x9418]),
       (''h'', RelText [0x31, 0x20, 0x5C0F, 0x6642]),
       (''hh'', RelText [0x25, 0x64, 0x20, 0x5C0F, 0x6642]),
       (''d'', RelText [0x31, 0x20, 0x5929]),
       (''dd'', RelText [0x25, 0x64, 0x20, 0x5929]),
       (''M'', RelText [0x31, 0x20, 0x500B, 0x6708]),
       (''MM'', RelText [0x25, 0x64, 0x20, 0x500B, 0x6708]),
       (''y'', RelText [0x31, 0x20, 0x5E74]),
       (''yy'', RelText [0x25, 0x64, 0x20, 0x5E74])],
     l_ordinal = Some (OrdFun zh_hk_ordinal),
     l_meridiem = Some zh_hk_meridiem,
     l_is_pm = None,
     l_meridiem_hour = Some zh_hk_meridiemHour,
     l_preparse = None,
     l_postformat = None,
     l_week = None,
     l_meridiem_parse = Some (Regex False (Alt [Lit [0x51CC, 0x6668], Lit [0x65E9, 0x4E0A], Lit
         [0x4E0A, 0x5348], Lit [0x4E2D, 0x5348], Lit [0x4E0B, 0x5348], Lit [0x665A, 0x4E0A]])),
     l_ordinal_parse = Some (Regex False (Seq [digits_1_2, Alt [Lit [0x65E5], Lit [0x6708], Lit
         [0x9031]]])),
     l_parse = [],
     l_months_parse_exact = False,
     l_weekdays_parse_exact = False,
     l_invalid_date = None,
     l_eras = [],
     l_era_year = None \<rparr>"

text \<open>\<^verbatim>\<open>zh-mo\<close> (line 89).\<close>

definition zh_mo_ordinal :: "nat \<Rightarrow> string \<Rightarrow> js option" where
  "zh_mo_ordinal number period = Some (if period = ''d'' \<or> period = ''D'' \<or> period = ''DDD''
      then jnum number @ [0x65E5]
      else if period = ''M'' then jnum number @ [0x6708]
      else if period = ''w'' \<or> period = ''W'' then jnum number @ [0x9031]
      else jnum number)"

definition zh_mo_meridiem :: "nat \<Rightarrow> nat \<Rightarrow> bool \<Rightarrow> js" where
  "zh_mo_meridiem hour minute isLower = (if (100 * hour + minute) < 600 then [0x51CC, 0x6668]
      else if (100 * hour + minute) < 900 then [0x65E9, 0x4E0A]
      else if (100 * hour + minute) < 1130 then [0x4E0A, 0x5348]
      else if (100 * hour + minute) < 1230 then [0x4E2D, 0x5348]
      else if (100 * hour + minute) < 1800 then [0x4E0B, 0x5348]
      else [0x665A, 0x4E0A])"

definition zh_mo_meridiemHour :: "nat \<Rightarrow> js \<Rightarrow> nat option" where
  "zh_mo_meridiemHour hour meridiem = (let hour = (if hour = 12 then 0
      else hour) in (if (meridiem = [0x51CC, 0x6668] \<or> meridiem = [0x65E9, 0x4E0A]) \<or>
          meridiem = [0x4E0A, 0x5348] then Some hour
      else if meridiem = [0x4E2D, 0x5348] then Some (if hour \<ge> 11 then hour
      else hour + 12)
      else if meridiem = [0x4E0B, 0x5348] \<or> meridiem = [0x665A, 0x4E0A] then Some (hour + 12)
      else None))"

definition locale_zh_mo :: moment_locale where
  "locale_zh_mo = \<lparr>
     l_abbr = ''zh-mo'',
     l_months = Names [[0x4E00, 0x6708], [0x4E8C, 0x6708], [0x4E09, 0x6708], [0x56DB, 0x6708],
         [0x4E94, 0x6708], [0x516D, 0x6708], [0x4E03, 0x6708], [0x516B, 0x6708], [0x4E5D, 0x6708],
         [0x5341, 0x6708], [0x5341, 0x4E00, 0x6708], [0x5341, 0x4E8C, 0x6708]],
     l_months_short = Names [[0x31, 0x6708], [0x32, 0x6708], [0x33, 0x6708], [0x34, 0x6708], [0x35,
         0x6708], [0x36, 0x6708], [0x37, 0x6708], [0x38, 0x6708], [0x39, 0x6708], [0x31, 0x30,
         0x6708], [0x31, 0x31, 0x6708], [0x31, 0x32, 0x6708]],
     l_weekdays = Names [[0x661F, 0x671F, 0x65E5], [0x661F, 0x671F, 0x4E00], [0x661F, 0x671F,
         0x4E8C], [0x661F, 0x671F, 0x4E09], [0x661F, 0x671F, 0x56DB], [0x661F, 0x671F, 0x4E94],
         [0x661F, 0x671F, 0x516D]],
     l_weekdays_short = [[0x9031, 0x65E5], [0x9031, 0x4E00], [0x9031, 0x4E8C], [0x9031, 0x4E09],
         [0x9031, 0x56DB], [0x9031, 0x4E94], [0x9031, 0x516D]],
     l_weekdays_min = [[0x65E5], [0x4E00], [0x4E8C], [0x4E09], [0x56DB], [0x4E94], [0x516D]],
     l_long_date_format = [(''LT'', js ''HH:mm''),
       (''LTS'', js ''HH:mm:ss''),
       (''L'', js ''DD/MM/YYYY''),
       (''LL'', js ''YYYY'' @ [0x5E74, 0x4D, 0x6708, 0x44, 0x65E5]),
       (''LLL'', js ''YYYY'' @ [0x5E74, 0x4D, 0x6708, 0x44, 0x65E5] @ js '' HH:mm''),
       (''LLLL'', js ''YYYY'' @ [0x5E74, 0x4D, 0x6708, 0x44, 0x65E5] @ js ''dddd HH:mm''),
       (''l'', js ''D/M/YYYY''),
       (''ll'', js ''YYYY'' @ [0x5E74, 0x4D, 0x6708, 0x44, 0x65E5]),
       (''lll'', js ''YYYY'' @ [0x5E74, 0x4D, 0x6708, 0x44, 0x65E5] @ js '' HH:mm''),
       (''llll'', js ''YYYY'' @ [0x5E74, 0x4D, 0x6708, 0x44, 0x65E5] @ js ''dddd HH:mm'')],
     l_calendar = [(''sameDay'', CalText ([0x5B, 0x4ECA, 0x5929] @ js ''] LT'')),
       (''nextDay'', CalText ([0x5B, 0x660E, 0x5929] @ js ''] LT'')),
       (''nextWeek'', CalText ([0x5B, 0x4E0B] @ js '']dddd LT'')),
       (''lastDay'', CalText ([0x5B, 0x6628, 0x5929] @ js ''] LT'')),
       (''lastWeek'', CalText ([0x5B, 0x4E0A] @ js '']dddd LT'')),
       (''sameElse'', CalText (js ''L''))],
     l_relative_time = [(''future'', RelText [0x25, 0x73, 0x5167]),
       (''past'', RelText [0x25, 0x73, 0x524D]),
       (''s'', RelText [0x5E7E, 0x79D2]),
       (''ss'', RelText [0x25, 0x64, 0x20, 0x79D2]),
       (''m'', RelText [0x31, 0x20, 0x5206, 0x9418]),
       (''mm'', RelText [0x25, 0x64, 0x20, 0x5206, 0x9418]),
       (''h'', RelText [0x31, 0x20, 0x5C0F, 0x6642]),
       (''hh'', RelText [0x25, 0x64, 0x20, 0x5C0F, 0x6642]),
       (''d'', RelText [0x31, 0x20, 0x5929]),
       (''dd'', RelText [0x25, 0x64, 0x20, 0x5929]),
       (''M'', RelText [0x31, 0x20, 0x500B, 0x6708]),
       (''MM'', RelText [0x25, 0x64, 0x20, 0x500B, 0x6708]),
       (''y'', RelText [0x31, 0x20, 0x5E74]),
       (''yy'', RelText [0x25, 0x64, 0x20, 0x5E74])],
     l_ordinal = Some (OrdFun zh_mo_ordinal),
     l_meridiem = Some zh_mo_meridiem,
     l_is_pm = None,
     l_meridiem_hour = Some zh_mo_meridiemHour,
     l_preparse = None,
     l_postformat = None,
     l_week = None,
     l_meridiem_parse = Some (Regex False (Alt [Lit [0x51CC, 0x6668], Lit [0x65E9, 0x4E0A], Lit
         [0x4E0A, 0x5348], Lit [0x4E2D, 0x5348], Lit [0x4E0B, 0x5348], Lit [0x665A, 0x4E0A]])),
     l_ordinal_parse = Some (Regex False (Seq [digits_1_2, Alt [Lit [0x65E5], Lit [0x6708], Lit
         [0x9031]]])),
     l_parse = [],
     l_months_parse_exact = False,
     l_weekdays_parse_exact = False,
     l_invalid_date = None,
     l_eras = [],
     l_era_year = None \<rparr>"

text \<open>\<^verbatim>\<open>zh-tw\<close> (line 235).\<close>

definition zh_tw_ordinal :: "nat \<Rightarrow> string \<Rightarrow> js option" where
  "zh_tw_ordinal number period = Some (if period = ''d'' \<or> period = ''D'' \<or> period = ''DDD''
      then jnum number @ [0x65E5]
      else if period = ''M'' then jnum number @ [0x6708]
      else if period = ''w'' \<or> period = ''W'' then jnum number @ [0x9031]
      else jnum number)"

definition zh_tw_meridiem :: "nat \<Rightarrow> nat \<Rightarrow> bool \<Rightarrow> js" where
  "zh_tw_meridiem hour minute isLower = (if (100 * hour + minute) < 600 then [0x51CC, 0x6668]
      else if (100 * hour + minute) < 900 then [0x65E9, 0x4E0A]
      else if (100 * hour + minute) < 1130 then [0x4E0A, 0x5348]
      else if (100 * hour + minute) < 1230 then [0x4E2D, 0x5348]
      else if (100 * hour + minute) < 1800 then [0x4E0B, 0x5348]
      else [0x665A, 0x4E0A])"

definition zh_tw_meridiemHour :: "nat \<Rightarrow> js \<Rightarrow> nat option" where
  "zh_tw_meridiemHour hour meridiem = (let hour = (if hour = 12 then 0
      else hour) in (if (meridiem = [0x51CC, 0x6668] \<or> meridiem = [0x65E9, 0x4E0A]) \<or>
          meridiem = [0x4E0A, 0x5348] then Some hour
      else if meridiem = [0x4E2D, 0x5348] then Some (if hour \<ge> 11 then hour
      else hour + 12)
      else if meridiem = [0x4E0B, 0x5348] \<or> meridiem = [0x665A, 0x4E0A] then Some (hour + 12)
      else None))"

definition locale_zh_tw :: moment_locale where
  "locale_zh_tw = \<lparr>
     l_abbr = ''zh-tw'',
     l_months = Names [[0x4E00, 0x6708], [0x4E8C, 0x6708], [0x4E09, 0x6708], [0x56DB, 0x6708],
         [0x4E94, 0x6708], [0x516D, 0x6708], [0x4E03, 0x6708], [0x516B, 0x6708], [0x4E5D, 0x6708],
         [0x5341, 0x6708], [0x5341, 0x4E00, 0x6708], [0x5341, 0x4E8C, 0x6708]],
     l_months_short = Names [[0x31, 0x6708], [0x32, 0x6708], [0x33, 0x6708], [0x34, 0x6708], [0x35,
         0x6708], [0x36, 0x6708], [0x37, 0x6708], [0x38, 0x6708], [0x39, 0x6708], [0x31, 0x30,
         0x6708], [0x31, 0x31, 0x6708], [0x31, 0x32, 0x6708]],
     l_weekdays = Names [[0x661F, 0x671F, 0x65E5], [0x661F, 0x671F, 0x4E00], [0x661F, 0x671F,
         0x4E8C], [0x661F, 0x671F, 0x4E09], [0x661F, 0x671F, 0x56DB], [0x661F, 0x671F, 0x4E94],
         [0x661F, 0x671F, 0x516D]],
     l_weekdays_short = [[0x9031, 0x65E5], [0x9031, 0x4E00], [0x9031, 0x4E8C], [0x9031, 0x4E09],
         [0x9031, 0x56DB], [0x9031, 0x4E94], [0x9031, 0x516D]],
     l_weekdays_min = [[0x65E5], [0x4E00], [0x4E8C], [0x4E09], [0x56DB], [0x4E94], [0x516D]],
     l_long_date_format = [(''LT'', js ''HH:mm''),
       (''LTS'', js ''HH:mm:ss''),
       (''L'', js ''YYYY/MM/DD''),
       (''LL'', js ''YYYY'' @ [0x5E74, 0x4D, 0x6708, 0x44, 0x65E5]),
       (''LLL'', js ''YYYY'' @ [0x5E74, 0x4D, 0x6708, 0x44, 0x65E5] @ js '' HH:mm''),
       (''LLLL'', js ''YYYY'' @ [0x5E74, 0x4D, 0x6708, 0x44, 0x65E5] @ js ''dddd HH:mm''),
       (''l'', js ''YYYY/M/D''),
       (''ll'', js ''YYYY'' @ [0x5E74, 0x4D, 0x6708, 0x44, 0x65E5]),
       (''lll'', js ''YYYY'' @ [0x5E74, 0x4D, 0x6708, 0x44, 0x65E5] @ js '' HH:mm''),
       (''llll'', js ''YYYY'' @ [0x5E74, 0x4D, 0x6708, 0x44, 0x65E5] @ js ''dddd HH:mm'')],
     l_calendar = [(''sameDay'', CalText ([0x5B, 0x4ECA, 0x5929] @ js ''] LT'')),
       (''nextDay'', CalText ([0x5B, 0x660E, 0x5929] @ js ''] LT'')),
       (''nextWeek'', CalText ([0x5B, 0x4E0B] @ js '']dddd LT'')),
       (''lastDay'', CalText ([0x5B, 0x6628, 0x5929] @ js ''] LT'')),
       (''lastWeek'', CalText ([0x5B, 0x4E0A] @ js '']dddd LT'')),
       (''sameElse'', CalText (js ''L''))],
     l_relative_time = [(''future'', RelText [0x25, 0x73, 0x5F8C]),
       (''past'', RelText [0x25, 0x73, 0x524D]),
       (''s'', RelText [0x5E7E, 0x79D2]),
       (''ss'', RelText [0x25, 0x64, 0x20, 0x79D2]),
       (''m'', RelText [0x31, 0x20, 0x5206, 0x9418]),
       (''mm'', RelText [0x25, 0x64, 0x20, 0x5206, 0x9418]),
       (''h'', RelText [0x31, 0x20, 0x5C0F, 0x6642]),
       (''hh'', RelText [0x25, 0x64, 0x20, 0x5C0F, 0x6642]),
       (''d'', RelText [0x31, 0x20, 0x5929]),
       (''dd'', RelText [0x25, 0x64, 0x20, 0x5929]),
       (''M'', RelText [0x31, 0x20, 0x500B, 0x6708]),
       (''MM'', RelText [0x25, 0x64, 0x20, 0x500B, 0x6708]),
       (''y'', RelText [0x31, 0x20, 0x5E74]),
       (''yy'', RelText [0x25, 0x64, 0x20, 0x5E74])],
     l_ordinal = Some (OrdFun zh_tw_ordinal),
     l_meridiem = Some zh_tw_meridiem,
     l_is_pm = None,
     l_meridiem_hour = Some zh_tw_meridiemHour,
     l_preparse = None,
     l_postformat = None,
     l_week = None,
     l_meridiem_parse = Some (Regex False (Alt [Lit [0x51CC, 0x6668], Lit [0x65E9, 0x4E0A], Lit
         [0x4E0A, 0x5348], Lit [0x4E2D, 0x5348], Lit [0x4E0B, 0x5348], Lit [0x665A, 0x4E0A]])),
     l_ordinal_parse = Some (Regex False (Seq [digits_1_2, Alt [Lit [0x65E5], Lit [0x6708], Lit
         [0x9031]]])),
     l_parse = [],
     l_months_parse_exact = False,
     l_weekdays_parse_exact = False,
     l_invalid_date = None,
     l_eras = [],
     l_era_year = None \<rparr>"

definition locales_z :: "moment_locale list" where
  "locales_z = [locale_ug_cn, locale_zh_cn, locale_zh_hk, locale_zh_mo, locale_zh_tw]"

lemmas locales_z_defs = locales_z_def locale_ug_cn_def locale_zh_cn_def locale_zh_hk_def locale_zh_mo_def locale_zh_tw_def

text \<open>The relative times of these languages.\<close>

lemma locales_z_relative:
  assumes "1 \<le> number"
  shows "list_all (\<lambda>c. rel_defined number withoutSuffix isFuture (l_relative_time c)) locales_z"
  unfolding locales_z_defs list.pred_inject moment_locale.select_convs rel_defined_def
  using assms by (simp del: not_None_eq)

lemma locales_z_wrappers:
  "list_all (\<lambda>c. wrapper_defined s (l_relative_time c)) locales_z"
  unfolding locales_z_defs list.pred_inject moment_locale.select_convs wrapper_defined_def
  by (simp)

lemma locales_z_unitwise:
  "list_all (\<lambda>c. unitwise (apply_option (l_preparse c)) \<and> unitwise (apply_option (l_postformat c))) locales_z"
  unfolding locales_z_defs list.pred_inject moment_locale.select_convs
  by (simp add: unitwise_def apply_option_def
      ug_cn_preparse_def ug_cn_postformat_def)

lemma locales_z_names:
  "list_all (\<lambda>c. names_length 12 (l_months c) \<and> names_length 12 (l_months_short c) \<and>
     names_length 7 (l_weekdays c) \<and> length (l_weekdays_short c) = 7 \<and> length (l_weekdays_min c) = 7) locales_z"
  unfolding locales_z_defs list.pred_inject moment_locale.select_convs
  by (simp add: names_length_def)

end
