(* ===== verification/Moment.thy ===== *)
theory Moment
  imports MomentWeeks LocalesA LocalesB LocalesE LocalesH LocalesL LocalesN LocalesS LocalesZ
begin

text \<open>
  The languages that the bundle registers, all together, and what holds for every one of them.
  The proofs project the fields a statement is about out of each configuration (the bundle
  \<^verbatim>\<open>bundled_defs\<close>) and evaluate on what is left; numbers, minutes and texts stay variables.
\<close>

definition bundled_configs :: "moment_locale list" where
  "bundled_configs =
     locale_en # locales_a @ locales_b @ locales_e @ locales_h @ locales_l @ locales_n @ locales_s
     @ locales_z"

definition bundled_locales :: "moment_locale list" where
  "bundled_locales = map define_locale bundled_configs"

text \<open>The rules for weeks that occur.\<close>

definition week_rules :: "(nat \<times> nat) option list" where
  "week_rules = [None, Some (1, 4), Some (1, 7), Some (0, 6), Some (6, 12), Some (0, 4), Some (0, 3),
     Some (0, 12), Some (7, 12)]"

text \<open>What a twelve-hour time goes through, in the fields that take part in it.\<close>

definition text_trip ::
    "regex option \<Rightarrow> (js \<Rightarrow> bool) option \<Rightarrow> (nat \<Rightarrow> js \<Rightarrow> nat option) option \<Rightarrow>
     (js \<Rightarrow> js) option \<Rightarrow> (js \<Rightarrow> js) option \<Rightarrow> js \<Rightarrow> nat \<Rightarrow> bool" where
  "text_trip r pm mh pre post text hours \<longleftrightarrow>
     Option.bind (or_default r (Some default_meridiem_parse)) (\<lambda>r.
     Option.bind (rx_match r (apply_option pre (apply_option post text))) (\<lambda>t.
     (case mh of
        Some f \<Rightarrow> f (hFormat hours) t
      | None \<Rightarrow>
          (let isPm = (case pm of None \<Rightarrow> localeIsPM | Some f \<Rightarrow> f) t; hour = hFormat hours;
               hour1 = (if isPm \<and> hour < 12 then hour + 12 else hour)
           in Some (if \<not> isPm \<and> hour1 = 12 then 0 else hour1))))) = Some hours"

definition meridiem_trip ::
    "regex option \<Rightarrow> (nat \<Rightarrow> nat \<Rightarrow> bool \<Rightarrow> js) option \<Rightarrow> (js \<Rightarrow> bool) option \<Rightarrow>
     (nat \<Rightarrow> js \<Rightarrow> nat option) option \<Rightarrow> (js \<Rightarrow> js) option \<Rightarrow> (js \<Rightarrow> js) option \<Rightarrow>
     nat \<Rightarrow> bool \<Rightarrow> nat \<Rightarrow> bool" where
  "meridiem_trip r mer pm mh pre post minutes lowercase hours \<longleftrightarrow>
     text_trip r pm mh pre post
       ((case mer of None \<Rightarrow> localeMeridiem | Some f \<Rightarrow> f) hours minutes lowercase) hours"

abbreviation "meridiem_trips c minutes lowercase \<equiv>
  list_all (meridiem_trip (l_meridiem_parse c) (l_meridiem c) (l_is_pm c) (l_meridiem_hour c)
    (l_preparse c) (l_postformat c) minutes lowercase) [0..<24]"

text \<open>In five languages the text also depends on the minutes, but only on whether they are 0, below 30,
  or more.\<close>

definition minute_class :: "nat \<Rightarrow> nat" where
  "minute_class m = (if m = 0 then 0 else if m < 30 then 1 else 30)"

text \<open>An ordinal through the pattern of the language.\<close>

definition ordinal_trip :: "ord option \<Rightarrow> regex option \<Rightarrow> bool \<Rightarrow> nat \<Rightarrow> bool" where
  "ordinal_trip ord r strict n \<longleftrightarrow>
     Option.bind (or_default ord (Some (OrdText (js ''%d'')))) (\<lambda>ord.
     Option.bind (case ord of OrdText s \<Rightarrow> Some (js_replace_pair [0x25] [0x64] (jnum n) s) | OrdFun f \<Rightarrow> f n ''D'')
       (\<lambda>t. Option.bind (or_default r (Some (Regex False digits_1_2))) (\<lambda>r.
     Option.bind (rx_match (if strict then r else Regex False (Alt [rx_pattern r, digits_1_2])) t) (\<lambda>u.
     map_option js_digits_value (rx_match (Regex False digits_1_2) u))))) = Some n"

text \<open>The conversion of digits and punctuation, one unit at a time; one language does not convert
  the comma back.\<close>

definition unit_trip :: "string \<Rightarrow> (js \<Rightarrow> js) option \<Rightarrow> (js \<Rightarrow> js) option \<Rightarrow> int \<Rightarrow> bool" where
  "unit_trip name pre post c \<longleftrightarrow>
     name = ''ar-dz'' \<and> c = 0x2C \<or> apply_option pre (apply_option post [c]) = [c]"

section \<open>From the files to all languages\<close>

lemmas bundled_defs = locale_en_def base_config_def locales_a_defs locales_b_defs locales_e_defs
  locales_h_defs locales_l_defs locales_n_defs locales_s_defs locales_z_defs

lemmas project_defs = bundled_defs list.pred_inject moment_locale.select_convs moment_locale.update_convs

lemma bundled_configs_all:
  assumes "P locale_en" "list_all P locales_a" "list_all P locales_b" "list_all P locales_e"
    "list_all P locales_h" "list_all P locales_l" "list_all P locales_n" "list_all P locales_s"
    "list_all P locales_z"
  shows "list_all P bundled_configs"
  using assms by (simp add: bundled_configs_def)

lemma bundled_localeE:
  assumes "l \<in> set bundled_locales"
  obtains c where "c \<in> set bundled_configs" "l = define_locale c"
  using assms by (auto simp: bundled_locales_def)

lemma bundledI:
  assumes "list_all P bundled_configs" "c \<in> set bundled_configs"
  shows "P c"
  using assms by (simp add: list_all_iff)

section \<open>Weeks\<close>

lemma bundled_weeks: "list_all (\<lambda>c. l_week c \<in> set week_rules) bundled_configs"
  by (rule bundled_configs_all; simp only: project_defs; simp add: week_rules_def)

lemma bundled_week_rule:
  assumes "l \<in> set bundled_locales"
  shows "\<exists>dow doy. l_week l = Some (dow, doy) \<and> week_rule (int dow) (int doy)"
proof -
  obtain c where c: "c \<in> set bundled_configs" and l: "l = define_locale c"
    using assms by (rule bundled_localeE)
  have "l_week c \<in> set week_rules" using bundledI [OF bundled_weeks c] .
  moreover have "l_week l = or_default (l_week c) (Some (0, 6))"
    by (simp add: l)
  ultimately show ?thesis
    using iso.week_rule_axioms monday_first.week_rule_axioms sunday_first.week_rule_axioms
      saturday_first.week_rule_axioms sunday_fourth.week_rule_axioms sunday_iso.week_rule_axioms
      sunday_december.week_rule_axioms seventh_day.week_rule_axioms
    by (auto simp: week_rules_def or_default_def)
qed

section \<open>Twelve-hour times\<close>

lemma meridiem_trip_iff:
  "parse_twelve_hour (define_locale c) (hFormat hours) (format_meridiem (define_locale c) hours minutes lowercase)
     = Some hours \<longleftrightarrow>
   meridiem_trip (l_meridiem_parse c) (l_meridiem c) (l_is_pm c) (l_meridiem_hour c) (l_preparse c)
     (l_postformat c) minutes lowercase hours"
  unfolding meridiem_trip_def text_trip_def parse_twelve_hour_def format_meridiem_def locale_meridiem_def
    meridiemFixWrap_def locale_is_pm_def locale_preparse_def locale_postformat_def apply_option_def
    define_locale_sel Let_def option.case ..

lemma minute_class_less:
  assumes "m < 60" "b = 0 \<or> b = 30"
  shows "100 * h + m < 100 * k + b \<longleftrightarrow> 100 * h + minute_class m < 100 * k + b"
  using assms by (cases h k rule: linorder_cases) (auto simp: minute_class_def)

lemma minute_class_eq: "m < 60 \<Longrightarrow> 100 * h + m = 100 * k \<longleftrightarrow> 100 * h + minute_class m = 100 * k"
  by (cases h k rule: linorder_cases) (auto simp: minute_class_def)

lemmas minute_bounds = minute_class_less [where k = 6 and b = 0, simplified]
  minute_class_less [where k = 9 and b = 0, simplified]
  minute_class_less [where k = 11 and b = 30, simplified]
  minute_class_less [where k = 12 and b = 0, simplified]
  minute_class_less [where k = 12 and b = 30, simplified]
  minute_class_less [where k = 18 and b = 0, simplified]
  minute_class_eq [where k = 12, simplified]

lemma minute_class_texts:
  assumes "m < 60"
  shows "zh_cn_meridiem h m low = zh_cn_meridiem h (minute_class m) low"
    and "zh_hk_meridiem h m low = zh_hk_meridiem h (minute_class m) low"
    and "zh_mo_meridiem h m low = zh_mo_meridiem h (minute_class m) low"
    and "zh_tw_meridiem h m low = zh_tw_meridiem h (minute_class m) low"
    and "ug_cn_meridiem h m low = ug_cn_meridiem h (minute_class m) low"
  unfolding zh_cn_meridiem_def zh_hk_meridiem_def zh_mo_meridiem_def zh_tw_meridiem_def
    ug_cn_meridiem_def
  using minute_bounds [OF assms, of h] by (simp_all only:)

lemma meridiem_trips_class:
  assumes "\<And>h. f h m low = f h (minute_class m) low"
    and "list_all (\<lambda>(t, h). text_trip r pm mh pre post t h)
      (remdups (concat (map (\<lambda>k. map (\<lambda>h. (f h k low, h)) [0..<24]) [0, 1, 30])))"
  shows "list_all (meridiem_trip r (Some f) pm mh pre post m low) [0..<24]"
proof -
  have "minute_class m \<in> set [0, 1, 30]" by (simp add: minute_class_def)
  then have "text_trip r pm mh pre post (f h (minute_class m) low) h" if "h \<in> set [0..<24]" for h
    using assms(2) that unfolding list_all_iff by auto
  then show ?thesis
    unfolding list_all_iff meridiem_trip_def option.case assms(1) by blast
qed

lemma hours_of_day: "[0..<24] =
  [0, 1, 2, 3, 4, 5, 6, 7, 8, 9, 10, 11, 12, 13, 14, 15, 16, 17, 18, 19, 20, 21, 22, 23]"
  by code_simp

lemma locales_z_meridiem:
  assumes "minutes < 60"
  shows "list_all (\<lambda>c. meridiem_trips c minutes lowercase) locales_z"
  by (simp only: locales_z_defs list.pred_inject moment_locale.select_convs simp_thms; intro conjI;
      rule meridiem_trips_class [OF minute_class_texts(1) [OF assms]]
        meridiem_trips_class [OF minute_class_texts(2) [OF assms]]
        meridiem_trips_class [OF minute_class_texts(3) [OF assms]]
        meridiem_trips_class [OF minute_class_texts(4) [OF assms]]
        meridiem_trips_class [OF minute_class_texts(5) [OF assms]];
      simp add: hours_of_day zh_cn_meridiem_def zh_hk_meridiem_def zh_mo_meridiem_def zh_tw_meridiem_def
        ug_cn_meridiem_def del: list.pred_inject; code_simp)

lemma bundled_meridiem:
  assumes "minutes < 60"
  shows "list_all (\<lambda>c. meridiem_trips c minutes lowercase) bundled_configs"
  by (rule bundled_configs_all; (rule locales_z_meridiem [OF assms])?; cases lowercase;
      simp only: project_defs; code_simp)

section \<open>Ordinals\<close>

lemma ordinal_trip_iff:
  "Option.bind (locale_ordinal (define_locale c) n ''D'') (parse_day_of_month (define_locale c) strict) = Some n \<longleftrightarrow>
   ordinal_trip (l_ordinal c) (l_ordinal_parse c) strict n"
  by (cases "l_ordinal c"; cases "l_ordinal_parse c")
    (auto simp: locale_ordinal_def ordinal_parse_def parse_day_of_month_def [abs_def]
      ordinal_trip_def or_default_def split: ord.splits)

lemma bundled_ordinals:
  "list_all (\<lambda>c. list_all (ordinal_trip (l_ordinal c) (l_ordinal_parse c) strict) [1..<32]) bundled_configs"
  by (rule bundled_configs_all; cases strict; simp only: project_defs; code_simp)

section \<open>Calendar entries\<close>

lemma cal_defined_lookup:
  assumes "cal_defined hours sameWeek day cs" "map_of cs ''sameElse'' \<noteq> None"
  shows "calendar_of cs key day hours sameWeek \<noteq> None"
proof -
  have entry: "map_of cs k = Some (CalFun f) \<Longrightarrow> f day hours sameWeek \<noteq> None" for k f
    using assms(1) by (auto simp: cal_defined_def list_all_iff dest!: map_of_SomeD)
  obtain e where "map_of cs ''sameElse'' = Some e" using assms(2) by auto
  then show ?thesis
    using entry [of "''sameElse''"] entry [of key]
    by (auto simp: calendar_of_def split: option.splits cal.splits list.splits simp del: not_None_eq)
qed

lemma bundled_calendars:
  "list_all (\<lambda>c. list_all (\<lambda>day. cal_defined hours sameWeek day (l_calendar c)) [0..<7]) bundled_configs"
  by (rule bundled_configs_all; cases sameWeek; simp only: project_defs; code_simp)

section \<open>Digits and punctuation\<close>

lemma unit_trips:
  assumes "unitwise (apply_option pre)" "unitwise (apply_option post)"
    and "\<And>c. c \<in> set s \<Longrightarrow> apply_option pre (apply_option post [c]) = [c]"
  shows "apply_option pre (apply_option post s) = s"
  using assms(3)
proof (induction s)
  case Nil
  then show ?case using assms(1, 2) by (simp add: unitwise_def)
next
  case (Cons c s)
  have "apply_option pre (apply_option post ([c] @ s))
      = apply_option pre (apply_option post [c]) @ apply_option pre (apply_option post s)"
    using assms(1, 2) by (simp only: unitwise_def)
  then show ?case using Cons by simp
qed

lemma bundled_units:
  "list_all (\<lambda>c. list_all (unit_trip (l_abbr c) (l_preparse c) (l_postformat c)) [0x20..0x7E]) bundled_configs"
  by (rule bundled_configs_all; simp only: project_defs; code_simp)

lemma bundled_unitwise:
  "list_all (\<lambda>c. unitwise (apply_option (l_preparse c)) \<and> unitwise (apply_option (l_postformat c)))
     bundled_configs"
  by (intro bundled_configs_all locales_a_unitwise locales_b_unitwise locales_e_unitwise
      locales_h_unitwise locales_l_unitwise locales_n_unitwise locales_s_unitwise locales_z_unitwise)
    (simp add: locale_en_def base_config_def unitwise_def apply_option_def)

section \<open>Names\<close>

lemma bundled_names:
  "list_all (\<lambda>c. names_length 12 (l_months c) \<and> names_length 12 (l_months_short c) \<and>
     names_length 7 (l_weekdays c) \<and> length (l_weekdays_short c) = 7 \<and> length (l_weekdays_min c) = 7)
     bundled_configs"
  by (intro bundled_configs_all locales_a_names locales_b_names locales_e_names
      locales_h_names locales_l_names locales_n_names locales_s_names locales_z_names)
    (simp add: locale_en_def base_config_def names_length_def default_months_def default_months_short_def
      default_weekdays_def)

lemma bundled_months:
  "list_all (\<lambda>c. distinct (months_table (l_months c)) \<and> distinct (months_table (l_months_short c)))
     bundled_configs"
  by (rule bundled_configs_all; simp only: project_defs; code_simp)

lemma index_of_nth: "distinct xs \<Longrightarrow> i < length xs \<Longrightarrow> index_of (xs ! i) xs = Some i"
proof (induction xs arbitrary: i)
  case (Cons x xs)
  then show ?case by (cases i) (auto simp: in_set_conv_nth)
qed simp

section \<open>Relative times\<close>

lemma bundled_relative:
  assumes "1 \<le> number"
  shows "list_all (\<lambda>c. rel_defined number withoutSuffix isFuture (l_relative_time c)) bundled_configs"
  by (intro bundled_configs_all locales_a_relative locales_b_relative locales_e_relative
      locales_h_relative locales_l_relative locales_n_relative locales_s_relative locales_z_relative assms)
    (simp add: locale_en_def base_config_def rel_defined_def default_relative_time_def)

lemma bundled_wrappers: "list_all (\<lambda>c. wrapper_defined s (l_relative_time c)) bundled_configs"
  by (intro bundled_configs_all locales_a_wrappers locales_b_wrappers locales_e_wrappers
      locales_h_wrappers locales_l_wrappers locales_n_wrappers locales_s_wrappers locales_z_wrappers)
    (simp add: locale_en_def base_config_def wrapper_defined_def default_relative_time_def)

end
