(* ===== verification/MomentProps.thy ===== *)
theory MomentProps
  imports Moment
begin

text \<open>
  What the date library promises to the interface, for every language of the bundle: week numbers
  and twelve-hour times can be read back, names and formats are complete, a duration always has a
  text, and the number in that text is the rounded duration.
\<close>

definition unit_keys :: "string list" where
  "unit_keys = [''s'', ''ss'', ''m'', ''mm'', ''h'', ''hh'', ''d'', ''dd'', ''w'', ''ww'', ''M'', ''MM'', ''y'', ''yy'']"

text \<open>The length of a duration in milliseconds, as \<^verbatim>\<open>as\<close> counts it for the units up to weeks, and the
  milliseconds of a unit.\<close>

definition duration_total :: "duration \<Rightarrow> int" where
  "duration_total d = (d_days d + js_round (146097 * d_months d) 4800) * 86400000 + d_milliseconds d"

definition unit_milliseconds :: "(string \<times> int) list" where
  "unit_milliseconds =
     [(''s'', 1000), (''ss'', 1000), (''mm'', 60000), (''hh'', 3600000), (''dd'', 86400000), (''ww'', 604800000)]"

definition duration_nonneg :: "duration \<Rightarrow> bool" where
  "duration_nonneg d \<longleftrightarrow> 0 \<le> d_milliseconds d \<and> 0 \<le> d_days d \<and> 0 \<le> d_months d"

section \<open>Rounding\<close>

lemma js_round_error:
  assumes "0 < q"
  shows "2 * \<bar>js_round p q * q - p\<bar> \<le> q"
proof -
  define m where "m = (2 * p + q) mod (2 * q)"
  define x where "x = js_round p q * q"
  have m: "0 \<le> m" "m < 2 * q" using assms by (simp_all add: m_def)
  have "2 * q * js_round p q + m = 2 * p + q" unfolding js_round_def m_def by simp
  then have "2 * x + m = 2 * p + q" by (simp add: x_def ac_simps)
  then have "2 * x - 2 * p \<le> q" "2 * p - 2 * x \<le> q" using m by simp_all
  then show ?thesis unfolding x_def [symmetric] by (simp add: abs_if)
qed

lemma js_round_nonneg: "0 \<le> p \<Longrightarrow> 0 < q \<Longrightarrow> 0 \<le> js_round p q"
  by (simp add: js_round_def pos_imp_zdiv_nonneg_iff)

lemma rounded_as_total:
  "rounded_as d ''second'' = js_round (duration_total d) 1000"
  "rounded_as d ''minute'' = js_round (duration_total d) 60000"
  "rounded_as d ''hour'' = js_round (duration_total d) 3600000"
  "rounded_as d ''day'' = js_round (duration_total d) 86400000"
  "rounded_as d ''week'' = js_round (duration_total d) 604800000"
  by (simp_all add: rounded_as_def duration_as_def Let_def duration_total_def)

lemma duration_total_nonneg: "duration_nonneg d \<Longrightarrow> 0 \<le> duration_total d"
  by (simp add: duration_nonneg_def duration_total_def js_round_nonneg)

lemma duration_abs_nonneg: "duration_nonneg (duration_abs d)"
  by (simp add: duration_nonneg_def duration_abs_def)

text \<open>The unit that is chosen: one of the keys, and a number that is 0 for the singular ones.\<close>

lemma choose_unit_cases:
  assumes "duration_nonneg d" "choose_unit th d = (key, number)"
  shows "key = ''s'' \<and> number = rounded_as d ''second'' \<and> 0 \<le> number \<and> number \<le> t_ss th \<or>
    key = ''ss'' \<and> number = rounded_as d ''second'' \<and> t_ss th < number \<and> number < t_s th \<or>
    key = ''mm'' \<and> number = rounded_as d ''minute'' \<and> 1 < number \<and> number < t_m th \<or>
    key = ''hh'' \<and> number = rounded_as d ''hour'' \<and> 1 < number \<and> number < t_h th \<or>
    key = ''dd'' \<and> number = rounded_as d ''day'' \<and> 1 < number \<and> number < t_d th \<or>
    key = ''ww'' \<and> number = rounded_as d ''week'' \<and> 1 < number \<and> t_w th \<noteq> None \<and> number < the (t_w th) \<or>
    key = ''MM'' \<and> number = rounded_as d ''month'' \<and> 1 < number \<and> number < t_M th \<or>
    key = ''yy'' \<and> number = rounded_as d ''year'' \<and> 1 < number \<or>
    key \<in> set [''m'', ''h'', ''d'', ''w'', ''M'', ''y''] \<and> number = 0"
proof -
  have "0 \<le> rounded_as d ''second''"
    using duration_total_nonneg [OF assms(1)] by (simp add: rounded_as_total js_round_nonneg)
  then show ?thesis
    using assms(2) unfolding choose_unit_def Let_def
    by (auto split: if_splits option.splits)
qed

section \<open>Texts of durations\<close>

lemma rel_defined_lookup:
  assumes "rel_defined number withoutSuffix isFuture (l_relative_time l)"
    and "map_of (l_relative_time l) key = Some r"
    and "key = ''ss'' \<Longrightarrow> 2 \<le> number" "key \<noteq> ''past''" "key \<noteq> ''future''"
  shows "relative_time l number withoutSuffix key isFuture \<noteq> None"
proof -
  have "(key, r) \<in> set (l_relative_time l)" using assms(2) by (rule map_of_SomeD)
  then have "case r of RelText s \<Rightarrow> True | RelStr f \<Rightarrow> key = ''past'' \<or> key = ''future''
      | RelNum f \<Rightarrow> (key = ''ss'' \<longrightarrow> 2 \<le> number) \<longrightarrow> f number withoutSuffix key isFuture \<noteq> None"
    using assms(1) unfolding rel_defined_def list_all_iff by blast
  then show ?thesis
    using assms(2-) by (cases r) (simp_all add: relative_time_def del: not_None_eq)
qed

lemma relative_time_defined:
  assumes "l \<in> set bundled_locales" "key \<in> set unit_keys" "1 \<le> number" "key = ''ss'' \<Longrightarrow> 2 \<le> number"
  shows "relative_time l number withoutSuffix key isFuture \<noteq> None"
proof -
  obtain c where c: "c \<in> set bundled_configs" and l: "l = define_locale c"
    using assms(1) by (rule bundled_localeE)
  have rs: "l_relative_time l = l_relative_time c @ default_relative_time" by (simp add: l)
  have "rel_defined number withoutSuffix isFuture (l_relative_time c)"
    using bundledI [OF bundled_relative [OF assms(3)] c] .
  then have ok: "rel_defined number withoutSuffix isFuture (l_relative_time l)"
    unfolding rs by (simp add: rel_defined_def default_relative_time_def)
  have "map_of default_relative_time key \<noteq> None"
    using assms(2) by (auto simp: unit_keys_def default_relative_time_def)
  then obtain r where r: "map_of (l_relative_time l) key = Some r"
    unfolding rs by (cases "map_of (l_relative_time c) key") (auto simp: map_add_def)
  have "key \<noteq> ''past''" "key \<noteq> ''future''" using assms(2) by (auto simp: unit_keys_def)
  then show ?thesis
    using rel_defined_lookup [OF ok r assms(4)] by blast
qed

lemma pastFuture_defined:
  assumes "l \<in> set bundled_locales"
  shows "pastFuture l diff output \<noteq> None"
proof -
  obtain c where c: "c \<in> set bundled_configs" and l: "l = define_locale c"
    using assms by (rule bundled_localeE)
  have "wrapper_defined output (l_relative_time c)" using bundledI [OF bundled_wrappers c] .
  then show ?thesis
    by (auto simp: l pastFuture_def wrapper_defined_def map_add_def simp del: not_None_eq
        split: option.splits rel.splits)
qed

section \<open>Some languages\<close>

lemma fr_bundled: "define_locale locale_fr \<in> set bundled_locales"
  by (simp add: bundled_locales_def bundled_configs_def locales_e_def)

lemma hi_bundled: "define_locale locale_hi \<in> set bundled_locales"
  by (simp add: bundled_locales_def bundled_configs_def locales_e_def)

lemma hr_bundled: "define_locale locale_hr \<in> set bundled_locales"
  by (simp add: bundled_locales_def bundled_configs_def locales_h_def)

lemma lt_bundled: "define_locale locale_lt \<in> set bundled_locales"
  by (simp add: bundled_locales_def bundled_configs_def locales_l_def)


text \<open>The rule of Kuwaiti Arabic puts the first of January into the second week of most years.\<close>

lemma ar_kw_first_of_january:
  "l_week (define_locale locale_ar_kw) = Some (0, 12)"
  "weekOfYear 2021 1 0 12 = (2, 2021)" "weekOfYear 2022 1 0 12 = (1, 2022)"
  by (simp add: locale_ar_kw_def, code_simp+)

section \<open>Properties\<close>





text \<open>
  C3: Twelve-hour times can be read back.  For every language of the bundle, every hour, minute and
  letter case: the hour on the twelve-hour clock and the text for the part of the day, formatted and
  parsed by the patterns of the language, give the hour back.\<close>

theorem twelve_hour_round_trip:
  assumes "l \<in> set bundled_locales" "hours < 24" "minutes < 60"
  shows "parse_twelve_hour l (hFormat hours) (format_meridiem l hours minutes lowercase) = Some hours"
proof -
  obtain c where c: "c \<in> set bundled_configs" and l: "l = define_locale c"
    using assms(1) by (rule bundled_localeE)
  have "meridiem_trips c minutes lowercase" using bundledI [OF bundled_meridiem [OF assms(3)] c] .
  then show ?thesis using assms(2) by (simp add: l meridiem_trip_iff list_all_iff)
qed

theorem twelve_hour_round_trip_witness:
  "hFormat 17 = 5 \<and>
   parse_twelve_hour (define_locale locale_hi) (hFormat 17) (format_meridiem (define_locale locale_hi) 17 45 True) = Some 17"
  using twelve_hour_round_trip [OF hi_bundled, of 17 45 True] by (simp add: hFormat_def)

text \<open>
  C4: Ordinals can be read back.  For every language of the bundle, the ordinal text of a day of the
  month matches the pattern of the language, strictly and leniently, and gives the day back.\<close>

theorem day_ordinal_round_trip:
  assumes "l \<in> set bundled_locales" "1 \<le> n" "n \<le> 31"
  shows "Option.bind (locale_ordinal l n ''D'') (parse_day_of_month l strict) = Some n"
proof -
  obtain c where c: "c \<in> set bundled_configs" and l: "l = define_locale c"
    using assms(1) by (rule bundled_localeE)
  have "list_all (ordinal_trip (l_ordinal c) (l_ordinal_parse c) strict) [1..<32]"
    using bundledI [OF bundled_ordinals c] .
  then have "ordinal_trip (l_ordinal c) (l_ordinal_parse c) strict n"
    using assms(2, 3) by (simp add: list_all_iff)
  then show ?thesis unfolding l ordinal_trip_iff .
qed

theorem day_ordinal_round_trip_witness:
  "Option.bind (locale_ordinal (define_locale locale_fr) 1 ''D'')
     (parse_day_of_month (define_locale locale_fr) True) = Some 1"
  using day_ordinal_round_trip [OF fr_bundled, of 1 True] by simp

text \<open>
  C5: A duration always has a text.  In every language of the bundle and for every duration, with or
  without \<^verbatim>\<open>ago\<close>, \<^verbatim>\<open>humanize\<close> gives a text (it neither stops with an error nor shows \<^verbatim>\<open>undefined\<close>), for all
  thresholds that show a single second as \<^verbatim>\<open>a few seconds\<close>.\<close>

theorem humanize_defined:
  assumes "l \<in> set bundled_locales" "1 \<le> t_ss th"
  shows "\<exists>t. humanize l withSuffix th d = Some t"
proof -
  obtain key number where ch: "choose_unit th (duration_abs d) = (key, number)" by fastforce
  have key: "key \<in> set unit_keys" "1 \<le> nat (if number = 0 then 1 else number)"
      "key = ''ss'' \<Longrightarrow> 2 \<le> nat (if number = 0 then 1 else number)"
    using choose_unit_cases [OF duration_abs_nonneg ch] assms(2) by (auto simp: unit_keys_def)
  obtain t where "duration_relative_time l th (\<not> withSuffix) d = Some t"
    using relative_time_defined [OF assms(1) key] by (auto simp: duration_relative_time_def ch substituteTimeAgo_def)
  moreover obtain u where "pastFuture l (duration_value d) t = Some u"
    using pastFuture_defined [OF assms(1)] by blast
  ultimately show ?thesis by (cases withSuffix) (simp_all add: humanize_def)
qed

theorem humanize_defined_witness:
  "\<exists>t. humanize (define_locale locale_lt) True default_thresholds
     \<lparr>d_milliseconds = - 90000, d_days = 0, d_months = 0\<rparr> = Some t"
  using humanize_defined [OF lt_bundled, of default_thresholds] by (simp add: default_thresholds_def)

text \<open>
  C6: The number in the text of a duration is the duration, rounded.  For a duration that is shown in
  seconds, minutes, hours, days or weeks the number times the unit differs from the duration by at
  most half a unit.\<close>

theorem humanize_accuracy:
  assumes "duration_nonneg d" "choose_unit th d = (key, number)" "map_of unit_milliseconds key = Some u"
  shows "2 * \<bar>number * u - duration_total d\<bar> \<le> u"
  using choose_unit_cases [OF assms(1, 2)] assms(3)
  by (elim disjE) (auto simp: unit_milliseconds_def rounded_as_total js_round_error)

theorem humanize_accuracy_witness:
  "choose_unit default_thresholds \<lparr>d_milliseconds = 200000, d_days = 0, d_months = 0\<rparr> = (''mm'', 3) \<and>
   2 * \<bar>3 * 60000 - duration_total \<lparr>d_milliseconds = 200000, d_days = 0, d_months = 0\<rparr>\<bar> \<le> 60000"
proof -
  have c: "choose_unit default_thresholds \<lparr>d_milliseconds = 200000, d_days = 0, d_months = 0\<rparr> = (''mm'', 3)"
    by code_simp
  show ?thesis
    using humanize_accuracy [OF _ c, of 60000] c
    by (simp add: duration_nonneg_def unit_milliseconds_def)
qed

text \<open>
  C7: Calendar texts are complete.  In every language of the bundle \<^verbatim>\<open>calendar\<close> gives a format for every
  key, weekday, hour and position relative to the current week.\<close>

theorem calendar_defined:
  assumes "l \<in> set bundled_locales" "day < 7"
  shows "\<exists>t. locale_calendar l key day hours sameWeek = Some t"
proof -
  obtain c where c: "c \<in> set bundled_configs" and l: "l = define_locale c"
    using assms(1) by (rule bundled_localeE)
  have "list_all (\<lambda>day. cal_defined hours sameWeek day (l_calendar c)) [0..<7]"
    using bundledI [OF bundled_calendars c] .
  then have "cal_defined hours sameWeek day (l_calendar c)"
    using assms(2) by (simp add: list_all_iff)
  then have ok: "cal_defined hours sameWeek day (l_calendar l)"
    by (simp add: l cal_defined_def default_calendar_def)
  have "map_of (l_calendar l) ''sameElse'' \<noteq> None"
    by (auto simp: l default_calendar_def map_add_def split: option.splits)
  then show ?thesis using cal_defined_lookup [OF ok] by (auto simp: locale_calendar_def)
qed

theorem calendar_defined_witness:
  "\<exists>t. locale_calendar (define_locale locale_hi) ''nextWeek'' 3 11 False = Some t"
  using calendar_defined [OF hi_bundled, of 3 "''nextWeek''" 11 False] by simp

text \<open>Names are complete.  Every language of the bundle has a name for each of the twelve months, long
  and short, and for each of the seven weekdays, whatever the format the name is used in; it has the
  short weekday names and a rule for weeks.\<close>

lemma names_complete:
  assumes "l \<in> set bundled_locales" "month < 12" "day < 7"
  shows "locale_months l month format \<noteq> None \<and> locale_months_short l month format \<noteq> None \<and>
    locale_weekdays l day format \<noteq> None \<and> js_nth (l_weekdays_short l) day \<noteq> None \<and>
    js_nth (l_weekdays_min l) day \<noteq> None \<and> l_week l \<noteq> None"
proof -
  obtain c where c: "c \<in> set bundled_configs" and l: "l = define_locale c"
    using assms(1) by (rule bundled_localeE)
  have "names_length 12 (l_months c) \<and> names_length 12 (l_months_short c) \<and>
     names_length 7 (l_weekdays c) \<and> length (l_weekdays_short c) = 7 \<and> length (l_weekdays_min c) = 7"
    using bundledI [OF bundled_names c] .
  then show ?thesis
    using assms(2, 3) bundled_week_rule [OF assms(1)]
    by (auto simp: l locale_months_def locale_months_short_def locale_weekdays_def js_nth_def names_length_for)
qed

text \<open>
  C8: Month names can be read back.  In every language of the bundle that asks for exact parsing,
  the long and the short name of a month, as they stand alone, are recognised as that month, strictly
  or not.\<close>

theorem month_names_round_trip:
  assumes "l \<in> set bundled_locales" "l_months_parse_exact l" "month < 12"
  shows "Option.bind (locale_months l month []) (\<lambda>name. handleStrictParse l name False strict) = Some month \<and>
    Option.bind (locale_months_short l month []) (\<lambda>name. handleStrictParse l name True strict) = Some month"
proof -
  obtain c where c: "c \<in> set bundled_configs" and l: "l = define_locale c"
    using assms(1) by (rule bundled_localeE)
  have len: "length (names_for months_in_format (l_months c) []) = 12"
    "length (names_for months_in_format (l_months_short c) []) = 12"
    using bundledI [OF bundled_names c] by (simp_all add: names_length_for)
  have dist: "distinct (months_table (l_months c))" "distinct (months_table (l_months_short c))"
    using bundledI [OF bundled_months c] by simp_all
  have "index_of (js_lower (names_for months_in_format (l_months c) [] ! month)) (months_table (l_months c)) = Some month"
    "index_of (js_lower (names_for months_in_format (l_months_short c) [] ! month)) (months_table (l_months_short c)) = Some month"
    using index_of_nth [OF dist(1), of month] index_of_nth [OF dist(2), of month] len assms(3)
    by (simp_all add: months_table_def)
  then show ?thesis
    using len assms(3)
    by (simp add: l locale_months_def locale_months_short_def js_nth_def handleStrictParse_def Let_def)
qed

theorem month_names_round_trip_witness:
  "Option.bind (locale_months (define_locale locale_hr) 4 [])
     (\<lambda>name. handleStrictParse (define_locale locale_hr) name False True) = Some 4"
  using month_names_round_trip [OF hr_bundled, of 4 True] by (simp add: locale_hr_def)



text \<open>Hungarian drops the number of seconds: the text for a number of seconds is the bare word for
  every number.\<close>

lemma hu_seconds_without_number:
  "relative_time (define_locale locale_hu) (Suc number) withoutSuffix ''ss'' isFuture
     = Some ([0x20, 0x6D, 0xE1] @ js ''sodperc'')"
  by (simp add: relative_time_def locale_hu_def hu_rel_n_def map_add_def)

text \<open>In Lithuanian a single second has no text: when the thresholds ask for exact seconds from 1 on,
  \<^verbatim>\<open>humanize\<close> of one second stops on the missing entry of the table of units.\<close>

lemma lt_one_second_undefined:
  "humanize (define_locale locale_lt) withSuffix (default_thresholds\<lparr>t_ss := 0\<rparr>)
     \<lparr>d_milliseconds = 1000, d_days = 0, d_months = 0\<rparr> = None"
proof -
  have "choose_unit (default_thresholds\<lparr>t_ss := 0\<rparr>)
      (duration_abs \<lparr>d_milliseconds = 1000, d_days = 0, d_months = 0\<rparr>) = (''ss'', 1)"
    by code_simp
  then show ?thesis
    by (simp add: humanize_def duration_relative_time_def substituteTimeAgo_def relative_time_def
        locale_lt_def lt_rel_o_def lt_i_def lt_a_def map_add_def Let_def)
qed

end
