(* ===== verification/JsNumber.thy ===== *)
theory JsNumber
  imports JsText
begin

text \<open>
  The numbers of JavaScript as far as the forms of the user interface use them: the conversion
  of a text to a number (\<^verbatim>\<open>1 * s\<close>, comparison of a text with a number), \<^verbatim>\<open>parseInt\<close>, and the
  rounding of a decimal literal to the nearest double.

  A finite double is \<^term>\<open>Fin m e\<close>, the number \<open>m * 2 ^ e\<close>; the sign of a zero, which no
  translated code looks at, is left out.  \<^const>\<open>jnum\<close> prints the integers.
\<close>

datatype jsnum = NaN | Infinite bool | Fin int int

section \<open>Rounding to a double\<close>

fun bit_length :: "nat \<Rightarrow> nat" where
  "bit_length n = (if n = 0 then 0 else Suc (bit_length (n div 2)))"

declare bit_length.simps [simp del]

definition round_half_even :: "nat \<Rightarrow> nat \<Rightarrow> nat" where
  "round_half_even p q =
     (let f = p div q; r = p mod q
      in if 2 * r < q \<or> 2 * r = q \<and> even f then f else f + 1)"

text \<open>The numerator and denominator of \<open>(p / q) / 2 ^ e\<close>.\<close>

definition scaled :: "nat \<Rightarrow> nat \<Rightarrow> int \<Rightarrow> nat \<times> nat" where
  "scaled p q e = (if 0 \<le> e then (p, q * 2 ^ nat e) else (p * 2 ^ nat (- e), q))"

text \<open>The exponent is the one that gives the quotient 53 significant bits, and at least -1074.\<close>

definition double_exponent :: "nat \<Rightarrow> nat \<Rightarrow> int" where
  "double_exponent p q =
     (let e = int (bit_length p) - int (bit_length q) - 53;
          (p', q') = scaled p q e
      in max (- 1074) (if 2 ^ 53 * q' \<le> p' then e + 1 else e))"

definition to_double :: "nat \<Rightarrow> nat \<Rightarrow> jsnum" where
  "to_double p q =
     (if p = 0 then Fin 0 0
      else
        let e = double_exponent p q;
            (p', q') = scaled p q e;
            m = round_half_even p' q'
        in if 0 \<le> e \<and> 2 ^ 1024 \<le> m * 2 ^ nat e then Infinite False else Fin (int m) e)"

fun num_neg :: "jsnum \<Rightarrow> jsnum" where
  "num_neg NaN = NaN"
| "num_neg (Infinite n) = Infinite (\<not> n)"
| "num_neg (Fin m e) = Fin (- m) e"

text \<open>Comparison with an integer; every comparison with \<^verbatim>\<open>NaN\<close> is false.\<close>

fun num_ge :: "jsnum \<Rightarrow> int \<Rightarrow> bool" where
  "num_ge NaN k \<longleftrightarrow> False"
| "num_ge (Infinite n) k \<longleftrightarrow> \<not> n"
| "num_ge (Fin m e) k \<longleftrightarrow> (if 0 \<le> e then k \<le> m * 2 ^ nat e else k * 2 ^ nat (- e) \<le> m)"

fun num_le :: "jsnum \<Rightarrow> int \<Rightarrow> bool" where
  "num_le NaN k \<longleftrightarrow> False"
| "num_le (Infinite n) k \<longleftrightarrow> n"
| "num_le (Fin m e) k \<longleftrightarrow> (if 0 \<le> e then m * 2 ^ nat e \<le> k else m \<le> k * 2 ^ nat (- e))"

definition num_is :: "jsnum \<Rightarrow> int \<Rightarrow> bool" where
  "num_is x k \<longleftrightarrow> num_ge x k \<and> num_le x k"

section \<open>Texts as numbers\<close>

definition unit_digit :: "int \<Rightarrow> nat" where
  "unit_digit c =
     nat (if 0x30 \<le> c \<and> c \<le> 0x39 then c - 0x30
          else if 0x41 \<le> c \<and> c \<le> 0x5A then c - 0x37
          else if 0x61 \<le> c \<and> c \<le> 0x7A then c - 0x57
          else 36)"

definition digits_value :: "nat \<Rightarrow> js \<Rightarrow> nat" where
  "digits_value r s = foldl (\<lambda>v c. r * v + unit_digit c) 0 s"

definition radix_of :: "int \<Rightarrow> nat option" where
  "radix_of c =
     (if c = 0x78 \<or> c = 0x58 then Some 16
      else if c = 0x6F \<or> c = 0x4F then Some 8
      else if c = 0x62 \<or> c = 0x42 then Some 2
      else None)"

text \<open>The exponent part of a decimal literal: empty, or \<^verbatim>\<open>e\<close>, an optional sign and digits.\<close>

definition exponent_digits :: "js \<Rightarrow> nat option" where
  "exponent_digits s = (if s \<noteq> [] \<and> list_all js_digit s then Some (digits_value 10 s) else None)"

fun exponent_part :: "js \<Rightarrow> int option" where
  "exponent_part [] = Some 0"
| "exponent_part (c # s) =
     (if c = 0x65 \<or> c = 0x45 then
        (case s of
           [] \<Rightarrow> None
         | d # t \<Rightarrow>
             if d = 0x2B then map_option int (exponent_digits t)
             else if d = 0x2D then map_option (\<lambda>n. - int n) (exponent_digits t)
             else map_option int (exponent_digits s))
      else None)"

definition unsigned_decimal :: "js \<Rightarrow> jsnum" where
  "unsigned_decimal s =
     (if s = js ''Infinity'' then Infinite False
      else
        let whole = takeWhile js_digit s; r = dropWhile js_digit s;
            point = (case r of [] \<Rightarrow> False | c # _ \<Rightarrow> c = 0x2E);
            part = (if point then takeWhile js_digit (tl r) else []);
            r' = (if point then dropWhile js_digit (tl r) else r)
        in if whole = [] \<and> part = [] then NaN
           else case exponent_part r' of
             None \<Rightarrow> NaN
           | Some x \<Rightarrow>
               let n = digits_value 10 (whole @ part); k = x - int (length part)
               in if 0 \<le> k then to_double (n * 10 ^ nat k) 1 else to_double n (10 ^ nat (- k)))"

text \<open>The conversion of a text to a number.\<close>

definition js_number :: "js \<Rightarrow> jsnum" where
  "js_number s =
     (case js_trim s of
        [] \<Rightarrow> Fin 0 0
      | c # t \<Rightarrow>
          (case (if c = 0x30 \<and> t \<noteq> [] then radix_of (hd t) else None) of
             Some r \<Rightarrow>
               if tl t \<noteq> [] \<and> list_all (\<lambda>d. unit_digit d < r) (tl t)
               then to_double (digits_value r (tl t)) 1 else NaN
           | None \<Rightarrow>
               if c = 0x2B then unsigned_decimal t
               else if c = 0x2D then num_neg (unsigned_decimal t)
               else unsigned_decimal (c # t)))"

text \<open>\<^verbatim>\<open>parseInt(s)\<close> without a radix.\<close>

definition parse_digits :: "nat \<Rightarrow> js \<Rightarrow> jsnum" where
  "parse_digits r s =
     (let ds = takeWhile (\<lambda>d. unit_digit d < r) s
      in if ds = [] then NaN else to_double (digits_value r ds) 1)"

definition parse_unsigned :: "js \<Rightarrow> jsnum" where
  "parse_unsigned s =
     (case s of
        c # d # t \<Rightarrow> if c = 0x30 \<and> (d = 0x78 \<or> d = 0x58) then parse_digits 16 t else parse_digits 10 s
      | _ \<Rightarrow> parse_digits 10 s)"

definition parse_int :: "js \<Rightarrow> jsnum" where
  "parse_int s =
     (case dropWhile js_blank s of
        [] \<Rightarrow> NaN
      | c # t \<Rightarrow>
          if c = 0x2B then parse_unsigned t
          else if c = 0x2D then num_neg (parse_unsigned t)
          else parse_unsigned (c # t))"

section \<open>Integers are exact up to \<open>2 ^ 53\<close>\<close>

lemma bit_length_one [simp]: "bit_length (Suc 0) = 1"
  by (subst bit_length.simps, subst bit_length.simps) simp

lemma bit_length_bounds:
  assumes "0 < n"
  shows "2 ^ (bit_length n - 1) \<le> n \<and> n < 2 ^ bit_length n \<and> 0 < bit_length n"
  using assms
proof (induction n rule: bit_length.induct)
  case (1 n)
  show ?case
  proof (cases "n div 2 = 0")
    case True
    then have "n = 1" using 1(2) by linarith
    then show ?thesis by simp
  next
    case False
    let ?l = "bit_length (n div 2)"
    have ih: "2 ^ (?l - 1) \<le> n div 2" "n div 2 < 2 ^ ?l" "0 < ?l" using 1 False by auto
    have l: "bit_length n = Suc ?l" using 1(2) by (simp add: bit_length.simps [of n])
    have a: "(2::nat) ^ ?l = 2 * 2 ^ (?l - 1)"
      using ih(3) by (cases ?l) auto
    have "2 * (n div 2) \<le> n" "n < 2 * (n div 2) + 2" by linarith+
    then have "2 ^ ?l \<le> n" "n < 2 * 2 ^ ?l" using ih a by linarith+
    then show ?thesis by (simp add: l)
  qed
qed

lemma bit_length_le: "n < 2 ^ k \<Longrightarrow> bit_length n \<le> k"
proof (cases "n = 0")
  case False
  assume "n < 2 ^ k"
  then have "2 ^ (bit_length n - 1) < (2::nat) ^ k" using bit_length_bounds [of n] False by linarith
  then have "bit_length n - 1 < k" by simp
  then show ?thesis by simp
qed (simp add: bit_length.simps [of 0])

lemma double_exponent_int:
  assumes "0 < n"
  shows "double_exponent n 1 = int (bit_length n) - 53"
proof -
  let ?b = "bit_length n"
  have b: "2 ^ (?b - 1) \<le> n" "0 < ?b" using bit_length_bounds [OF assms] by auto
  have "2 ^ 53 * snd (scaled n 1 (int ?b - 54)) \<le> fst (scaled n 1 (int ?b - 54))"
  proof (cases "54 \<le> ?b")
    case True
    have "53 + nat (int ?b - 54) = ?b - 1" using True by simp
    then have "(2::nat) ^ 53 * 2 ^ nat (int ?b - 54) = 2 ^ (?b - 1)" by (simp only: power_add [symmetric])
    then show ?thesis using b True by (simp add: scaled_def)
  next
    case False
    have "(?b - 1) + nat (54 - int ?b) = 53" using False b(2) by simp
    then have "(2::nat) ^ (?b - 1) * 2 ^ nat (54 - int ?b) = 2 ^ 53" by (simp only: power_add [symmetric])
    then show ?thesis using b mult_le_mono1 [OF b(1), of "2 ^ nat (54 - int ?b)"] False
      by (simp add: scaled_def)
  qed
  then show ?thesis using b(2)
    by (simp add: double_exponent_def Let_def case_prod_beta algebra_simps)
qed

lemma round_half_even_one [simp]: "round_half_even p 1 = p" "round_half_even p (Suc 0) = p"
  by (simp_all add: round_half_even_def)

lemma to_double_exact:
  assumes "0 < n" "n < 2 ^ 53"
  shows "to_double n 1 = Fin (int n * 2 ^ (53 - bit_length n)) (int (bit_length n) - 53)"
proof -
  let ?b = "bit_length n"
  have b: "?b \<le> 53" by (rule bit_length_le [OF assms(2)])
  show ?thesis
  proof (cases "?b = 53")
    case True
    then show ?thesis using assms
      by (simp add: to_double_def double_exponent_int [OF assms(1)] scaled_def del: One_nat_def)
  next
    case False
    have "nat (53 - int ?b) = 53 - ?b" using b by linarith
    then show ?thesis using assms b False
      by (simp add: to_double_def double_exponent_int [OF assms(1)] scaled_def del: One_nat_def)
  qed
qed

lemma to_double_large:
  assumes "2 ^ 53 \<le> n"
  shows "to_double n 1 = Infinite False \<or>
    (\<exists>m e. to_double n 1 = Fin m e \<and> 0 \<le> e \<and> 2 ^ 53 \<le> m * 2 ^ nat e)"
proof -
  let ?b = "bit_length n"
  let ?q = "2 ^ (?b - 53)"
  have n: "0 < n" using assms by (auto intro: gr0I)
  have b: "2 ^ (?b - 1) \<le> n" "n < 2 ^ ?b" using bit_length_bounds [OF n] by auto
  have "(2::nat) ^ 53 < 2 ^ ?b" using assms b(2) by linarith
  then have c: "53 < ?b" by (rule power_less_imp_less_exp [rotated]) simp
  let ?m = "round_half_even n ?q"
  have m: "n div ?q \<le> ?m" by (simp add: round_half_even_def Let_def)
  have "52 + (?b - 53) = ?b - 1" using c by simp
  then have "2 ^ 52 * ?q = (2::nat) ^ (?b - 1)" by (simp only: power_add [symmetric])
  then have "2 ^ 52 \<le> n div ?q" using b(1) by (simp add: less_eq_div_iff_mult_less_eq)
  then have "2 ^ 52 \<le> ?m" using m by linarith
  moreover have "(2::nat) \<le> ?q" using c by (simp add: self_le_power)
  ultimately have "2 ^ 52 * 2 \<le> ?m * ?q" by (rule mult_le_mono)
  then have g: "2 ^ 53 \<le> ?m * ?q" by simp
  then have "int (2 ^ 53) \<le> int (?m * ?q)" by (simp only: of_nat_le_iff)
  moreover have "nat (int ?b - 53) = ?b - 53" using c by linarith
  ultimately show ?thesis using n c
    by (simp add: to_double_def double_exponent_int [OF n] scaled_def Let_def del: One_nat_def)
qed

lemma num_is_to_double: "n < 2 ^ 53 \<Longrightarrow> num_is (to_double n 1) (int n)"
proof (cases "n = 0")
  case False
  assume a: "n < 2 ^ 53"
  then have "bit_length n \<le> 53" by (rule bit_length_le)
  then show ?thesis using False a
    by (cases "bit_length n = 53")
       (simp_all add: num_is_def to_double_exact nat_diff_distrib del: One_nat_def)
qed (simp add: num_is_def to_double_def)

lemma num_le_to_double: "k < 2 ^ 53 \<Longrightarrow> num_le (to_double n 1) (int k) \<longleftrightarrow> n \<le> k"
proof (cases "n = 0")
  case False
  assume k: "k < 2 ^ 53"
  show ?thesis
  proof (cases "n < 2 ^ 53")
    case True
    then have "bit_length n \<le> 53" by (rule bit_length_le)
    then show ?thesis using False True
      by (cases "bit_length n = 53")
         (simp_all add: to_double_exact nat_diff_distrib del: One_nat_def)
  next
    case n: False
    then have "2 ^ 53 \<le> n" by simp
    note to_double_large [OF this]
    moreover have "int k < 2 ^ 53" using k by simp
    ultimately show ?thesis using n k by auto
  qed
qed (simp add: to_double_def)

lemma num_ge_to_double: "num_ge (to_double n 1) 0"
  by (auto simp: to_double_def Let_def split: prod.splits)

section \<open>Printed integers are read back\<close>

lemma unit_digit_digit: "n < 10 \<Longrightarrow> unit_digit (0x30 + int n) = n"
  by (simp add: unit_digit_def)

lemma jnum_nonempty [simp]: "jnum n \<noteq> []"
  by (subst jnum_digits) simp

lemma jnum_all_digits: "\<forall>c \<in> set (jnum n). js_digit c"
proof (induction n rule: less_induct)
  case (less n)
  show ?case
    using less.IH [of "n div 10"] by (subst jnum_digits) (auto simp: js_digit_def)
qed

lemma digits_value_append: "digits_value r (s @ [c]) = r * digits_value r s + unit_digit c"
  by (simp add: digits_value_def)

lemma digits_value_jnum [simp]: "digits_value 10 (jnum n) = n"
proof (induction n rule: less_induct)
  case (less n)
  show ?case
  proof (cases "n < 10")
    case True
    then show ?thesis by (subst jnum_digits) (simp add: digits_value_def unit_digit_digit)
  next
    case False
    then have "digits_value 10 (jnum (n div 10)) = n div 10" by (intro less.IH) simp
    then show ?thesis using False
      by (subst jnum_digits) (simp add: digits_value_append unit_digit_digit)
  qed
qed

lemma digit_not_blank: "js_digit c \<Longrightarrow> \<not> js_blank c"
  by (auto simp: js_digit_def js_blank_def)

lemma js_trim_digits:
  assumes "s \<noteq> []" "\<forall>c \<in> set s. \<not> js_blank c"
  shows "js_trim s = s"
proof -
  have "dropWhile js_blank t = t" if "set t = set s" for t
    using assms that by (cases t) auto
  then show ?thesis by (simp add: js_trim_def)
qed

lemma takeWhile_jnum [simp]: "takeWhile js_digit (jnum n) = jnum n" "dropWhile js_digit (jnum n) = []"
  using jnum_all_digits [of n] by (simp_all add: takeWhile_eq_all_conv dropWhile_eq_Nil_conv)

lemma jnum_not_infinity: "jnum n \<noteq> js ''Infinity''"
proof
  assume "jnum n = js ''Infinity''"
  then have "js_digit (hd (jnum n)) = js_digit (hd (js ''Infinity''))" by simp
  moreover have "js_digit (hd (jnum n))" using jnum_all_digits [of n] by (simp add: hd_in_set)
  ultimately show False by (simp add: js_def js_digit_def)
qed

lemma unsigned_decimal_jnum [simp]: "unsigned_decimal (jnum n) = to_double n 1"
  by (simp add: unsigned_decimal_def jnum_not_infinity del: One_nat_def)

lemma radix_of_digit: "js_digit c \<Longrightarrow> radix_of c = None"
  by (auto simp: radix_of_def js_digit_def)

lemma js_number_jnum [simp]: "js_number (jnum n) = to_double n 1"
proof -
  have all: "\<forall>c \<in> set (jnum n). js_digit c" by (rule jnum_all_digits)
  then have t: "js_trim (jnum n) = jnum n"
    by (intro js_trim_digits) (auto dest: digit_not_blank)
  obtain c u where cu: "jnum n = c # u" by (cases "jnum n") auto
  have c: "js_digit c" using all cu by simp
  have h: "js_digit (hd u)" if "u \<noteq> []" using all cu that by (cases u) auto
  have "c \<noteq> 0x2B" "c \<noteq> 0x2D" using c by (auto simp: js_digit_def)
  moreover have "(if c = 0x30 \<and> u \<noteq> [] then radix_of (hd u) else None) = None"
    using h by (auto simp: radix_of_digit)
  moreover have "unsigned_decimal (c # u) = to_double n 1" using unsigned_decimal_jnum [of n] cu by simp
  moreover have "js_trim (jnum n) = c # u" using t cu by simp
  ultimately show ?thesis by (simp add: js_number_def)
qed

lemma unit_digit_js_digit: "js_digit c \<Longrightarrow> unit_digit c < 10"
  by (auto simp: js_digit_def unit_digit_def nat_less_iff)

lemma parse_int_jnum [simp]: "parse_int (jnum n) = to_double n 1"
proof -
  have all: "\<forall>c \<in> set (jnum n). js_digit c" by (rule jnum_all_digits)
  obtain c u where cu: "jnum n = c # u" by (cases "jnum n") auto
  have c: "js_digit c" using all cu by simp
  then have d: "dropWhile js_blank (jnum n) = c # u" using cu by (simp add: digit_not_blank)
  have "takeWhile (\<lambda>d. unit_digit d < 10) (jnum n) = jnum n"
    using all by (auto simp: takeWhile_eq_all_conv unit_digit_js_digit)
  then have p: "parse_digits 10 (c # u) = to_double n 1"
    by (simp only: parse_digits_def cu [symmetric] Let_def jnum_nonempty digits_value_jnum if_False)
  moreover have "hd u \<noteq> 0x78" "hd u \<noteq> 0x58" if "u \<noteq> []"
    using all cu that by (cases u; auto simp: js_digit_def)+
  ultimately have "parse_unsigned (c # u) = to_double n 1"
    by (auto simp: parse_unsigned_def split: list.splits)
  moreover have "c \<noteq> 0x2B" "c \<noteq> 0x2D" using c by (auto simp: js_digit_def)
  ultimately show ?thesis by (simp add: parse_int_def d)
qed

end
