(* ===== verification/LagostaSession.thy ===== *)
theory LagostaSession
  imports JsNumber
begin

text \<open>
  The session of the user interface (\<^verbatim>\<open>src/lagosta/js/app.js\<close>, modules \<^verbatim>\<open>auth-header\<close>,
  \<^verbatim>\<open>services/APIService\<close>, \<^verbatim>\<open>router\<close>, \<^verbatim>\<open>views/Login\<close> and \<^verbatim>\<open>App\<close>): the token in the local storage of the
  browser, the \<^verbatim>\<open>Authorization\<close> header of the client for the API, the guard in front of every
  page, login, logout and the requests that are under way.

  The state is one browser tab.  A request that has been sent is a \<^verbatim>\<open>pending\<close> continuation, and a
  reply may arrive for any pending request at any time: \<open>tab_step\<close> gives the state after an
  event, or \<^term>\<open>None\<close> when the event cannot happen.  Another tab of the same browser, which shares
  the local storage, is not part of the model.

  The user is kept in the local storage as JSON text; the model keeps the record that the text
  stands for, with \<^term>\<open>None\<close> for a member that is \<^verbatim>\<open>undefined\<close> and hence left out of the text.
\<close>

section \<open>Texts\<close>

text \<open>\<^verbatim>\<open>s.split(p)\<close> for a separator that is not empty, and a text put together with a value that may
  be undefined.\<close>

function js_split_on :: "js \<Rightarrow> js \<Rightarrow> js list" where
  "js_split_on p s =
     (case js_index_of p s of
        None \<Rightarrow> [s]
      | Some i \<Rightarrow> if p = [] then [s] else take i s # js_split_on p (drop (i + length p) s))"
  by pat_completeness auto

lemma js_index_of_bound: "js_index_of p s = Some i \<Longrightarrow> i + length p \<le> length s"
proof (induction s arbitrary: i)
  case (Cons c s)
  show ?case
  proof (cases "js_starts_with p (c # s)")
    case True
    then have "length (take (length p) (c # s)) = length p" by (simp add: js_starts_with_def)
    then show ?thesis using Cons.prems True by simp
  next
    case False
    then show ?thesis using Cons by fastforce
  qed
qed (auto split: if_splits)

termination js_split_on
  by (relation "measure (length \<circ> snd)") (auto dest!: js_index_of_bound simp: neq_Nil_conv)

declare js_split_on.simps [simp del]

definition js_text :: "js option \<Rightarrow> js" where
  "js_text x = (case x of None \<Rightarrow> js ''undefined'' | Some s \<Rightarrow> s)"

section \<open>The stored user and the header\<close>

record user =
  authdata :: "js option"
  user_id :: "js option"
  attributes :: "(js \<times> js) list option"

definition bearer :: "js option \<Rightarrow> js" where
  "bearer t = js ''Bearer '' @ js_text t"

definition authHeader :: "user option \<Rightarrow> js option" where
  "authHeader stored =
     (case stored of
        None \<Rightarrow> None
      | Some u \<Rightarrow> if js_truthy (authdata u) then Some (bearer (authdata u)) else None)"

section \<open>Requests and replies\<close>

text \<open>
  \<^term>\<open>Reply\<close> is a reply with a status in the range 2xx: its \<^verbatim>\<open>authorization\<close> header, if it has one,
  and its data.  \<^term>\<open>Failure\<close> is everything else: the data of the error response when it is there
  and truthy.
\<close>

datatype ('e, 'd) reply = Reply (reply_auth: "js option") (reply_data: 'd) | Failure "'e option"

record error_data =
  err_label :: "js option"
  err_code :: "int option"
  err_msg :: "js option"

definition handleError :: "error_data option \<Rightarrow> error_data" where
  "handleError e =
     (case e of
        Some d \<Rightarrow> d
      | None \<Rightarrow> \<lparr>err_label = None, err_code = Some (- 1), err_msg = None\<rparr>)"

record login_data =
  login_token :: "js option"
  login_id :: "js option"
  login_attributes :: "(js \<times> js) list option"

text \<open>
  The continuations of requests that are under way: of \<^verbatim>\<open>login\<close> (with the page to return to), of
  \<^verbatim>\<open>logout\<close>, of the two requests of the guard (with the number of the navigation, the page asked
  for and whether a user was stored when the navigation began), of the question whether the
  testbed is enabled and of any other request of the API client.
\<close>

datatype pending =
    PLogin js
  | PLogout
  | PGuard nat js bool
  | PLoginUrl nat js
  | PTestbed nat
  | POther

text \<open>The query of the login page.  The attributes and the error come encoded: \<^term>\<open>Some None\<close> is a
  text that does not decode.\<close>

record login_query =
  q_return :: "js option"
  q_error :: "error_data option option"
  q_id :: "js option"
  q_token :: "js option"
  q_attributes :: "(js \<times> js) list option option"
  q_with_id :: bool

definition no_query :: login_query where
  "no_query = \<lparr>q_return = None, q_error = None, q_id = None, q_token = None, q_attributes = None, q_with_id = False\<rparr>"

record tab =
  storage :: "user option"
  header :: "js option"
  route :: js
  nav :: nat
  waiting :: "pending list"
  return_url :: js
  with_id :: bool
  with_login :: bool
  login_error :: "js option"
  external :: "js option"

definition page_login :: js where "page_login = js ''/login''"

definition page_testbed :: js where "page_testbed = js ''/testbed''"

definition public_pages :: "js list" where
  "public_pages = [page_login, page_testbed]"

section \<open>The interceptor and the operations of the service\<close>

definition intercept :: "js option \<Rightarrow> tab \<Rightarrow> tab" where
  "intercept auth t =
     (case auth of
        None \<Rightarrow> t
      | Some h \<Rightarrow>
          let token = js_nth (js_split_on (js ''Bearer '') h) 1
          in t\<lparr>header := Some (bearer token),
               storage := map_option (\<lambda>u. u\<lparr>authdata := token\<rparr>) (storage t)\<rparr>)"

definition login :: "js \<Rightarrow> tab \<Rightarrow> tab" where
  "login token t =
     t\<lparr>storage := None, header := Some (bearer (Some token)), waiting := PLogin (return_url t) # waiting t\<rparr>"

definition login_url :: "js option \<Rightarrow> js" where
  "login_url ident =
     js ''/auth/login'' @ (case ident of None \<Rightarrow> [] | Some i \<Rightarrow> js ''?id='' @ i)"

definition login_then :: "login_data \<Rightarrow> tab \<Rightarrow> tab" where
  "login_then d t =
     t\<lparr>header := Some (bearer (login_token d)),
       storage := Some \<lparr>authdata = login_token d, user_id = login_id d, attributes = login_attributes d\<rparr>\<rparr>"

definition recordLogin :: "js \<Rightarrow> js \<Rightarrow> (js \<times> js) list \<Rightarrow> tab \<Rightarrow> tab" where
  "recordLogin i token attrs t =
     t\<lparr>header := Some (bearer (Some token)),
       storage := Some \<lparr>authdata = Some token, user_id = Some i, attributes = Some attrs\<rparr>\<rparr>"

definition logout :: "tab \<Rightarrow> tab" where
  "logout t = t\<lparr>storage := None, waiting := PLogout # waiting t\<rparr>"

section \<open>Pages and navigation\<close>

text \<open>A new navigation supersedes the ones before: what their guards decide later is ignored.
  \<^verbatim>\<open>$t(key)\<close> is kept as the key.\<close>

definition error_text :: "error_data \<Rightarrow> js" where
  "error_text d =
     js ''errors.'' @
     (if js_truthy (err_label d) then js_text (err_label d)
      else (case err_code d of None \<Rightarrow> js_text None | Some c \<Rightarrow> if c < 0 then 0x2D # jnum (nat (- c)) else jnum (nat c)))"

definition login_failed :: "error_data option \<Rightarrow> tab \<Rightarrow> tab" where
  "login_failed e t =
     t\<lparr>login_error := Some (case e of None \<Rightarrow> js ''login.error'' | Some d \<Rightarrow> error_text d)\<rparr>"

definition page_path :: "js \<Rightarrow> js" where
  "page_path url = takeWhile (\<lambda>c. c \<noteq> 0x3F \<and> c \<noteq> 0x23) url"

definition query_part :: "js \<Rightarrow> js list" where
  "query_part url =
     js_split 0x26 (takeWhile (\<lambda>c. c \<noteq> 0x23) (drop 1 (dropWhile (\<lambda>c. c \<noteq> 0x3F) url)))"

text \<open>The login page: \<^verbatim>\<open>created\<close> decides what a fresh one shows.  A page that was opened with the id,
  the token and the attributes of a user who has logged in elsewhere records the login.\<close>

definition login_page :: "login_query \<Rightarrow> tab \<Rightarrow> tab" where
  "login_page q t =
     t\<lparr>return_url := (if js_truthy (q_return q) then js_text (q_return q) else js ''/''),
       with_id := False, with_login := True, login_error := None\<rparr>"

definition recorded :: "login_query \<Rightarrow> (js \<times> js) list option" where
  "recorded q =
     (if q_error q = None \<and> js_truthy (q_id q) \<and> js_truthy (q_token q)
      then (case q_attributes q of None \<Rightarrow> None | Some a \<Rightarrow> a) else None)"

definition login_created :: "login_query \<Rightarrow> tab \<Rightarrow> tab" where
  "login_created q t =
     (let u = login_page q t in
      case q_error q of
        Some e \<Rightarrow> (login_failed e u)\<lparr>with_login := False\<rparr>
      | None \<Rightarrow>
          if js_truthy (q_id q) \<and> js_truthy (q_token q) \<and> q_attributes q \<noteq> None then
            (case recorded q of
               None \<Rightarrow> u
             | Some a \<Rightarrow> recordLogin (js_text (q_id q)) (js_text (q_token q)) a u)
          else u\<lparr>with_id := q_with_id q\<rparr>)"

text \<open>Showing a page that its guards have let through; only a fresh login page has an effect on
  the session.\<close>

definition show_page :: "js \<Rightarrow> login_query \<Rightarrow> tab \<Rightarrow> tab" where
  "show_page to q t =
     (if to = page_login \<and> route t \<noteq> page_login then login_created q (t\<lparr>route := to\<rparr>)
      else t\<lparr>route := to\<rparr>)"

text \<open>
  A navigation: the start page is an alias, the login page is shown at once, a fresh testbed page
  waits for the server's word that there is a testbed (\<^verbatim>\<open>beforeRouteEnter\<close>), and every other page
  waits for the guard.
\<close>

definition route_alias :: "js \<Rightarrow> js" where
  "route_alias to = (if to = js ''/'' then js ''/interstitial'' else to)"

definition begin_nav :: "js \<Rightarrow> login_query \<Rightarrow> tab \<Rightarrow> tab" where
  "begin_nav page q t =
     (let n = Suc (nav t); to = route_alias page; u = t\<lparr>nav := n\<rparr> in
      if to \<notin> set public_pages then u\<lparr>waiting := PGuard n to (storage t \<noteq> None) # waiting t\<rparr>
      else if to = page_testbed \<and> route t \<noteq> page_testbed then u\<lparr>waiting := PTestbed n # waiting t\<rparr>
      else show_page to q u)"

text \<open>\<^verbatim>\<open>router.push\<close>: a login page that records a login goes on to the page to return to.\<close>

definition push :: "js \<Rightarrow> login_query \<Rightarrow> tab \<Rightarrow> tab" where
  "push page q t =
     (let u = begin_nav page q t in
      if route_alias page = page_login \<and> route t \<noteq> page_login \<and> recorded q \<noteq> None
      then begin_nav (return_url u) no_query u else u)"

text \<open>A location that is given as a text brings its own query along; the server's login pages use
  it for the flag \<^verbatim>\<open>withId\<close>.\<close>

definition push_url :: "js \<Rightarrow> login_query \<Rightarrow> tab \<Rightarrow> tab" where
  "push_url url q t =
     push (page_path url)
       (q\<lparr>q_with_id := list_ex (\<lambda>p. js_starts_with (js ''withId='') p \<and> 7 < length p) (query_part url)\<rparr>) t"

definition js_http :: "js \<Rightarrow> bool" where
  "js_http url \<longleftrightarrow> js_starts_with (js ''http'') url"

definition next_page :: "nat \<Rightarrow> js \<Rightarrow> tab \<Rightarrow> tab" where
  "next_page n to t = (if n = nav t then show_page to no_query t else t)"

definition next_redirect :: "nat \<Rightarrow> js \<Rightarrow> login_query \<Rightarrow> tab \<Rightarrow> tab" where
  "next_redirect n url q t = (if n = nav t then push_url url q t else t)"

text \<open>The two continuations of the guard, and the one of the testbed page.\<close>

definition guard_reply :: "nat \<Rightarrow> js \<Rightarrow> bool \<Rightarrow> bool \<Rightarrow> tab \<Rightarrow> tab" where
  "guard_reply n to had authorized t =
     (if had \<and> authorized then next_page n to t
      else t\<lparr>storage := None, waiting := PLoginUrl n to # waiting t\<rparr>)"

definition testbed_reply :: "nat \<Rightarrow> bool \<Rightarrow> tab \<Rightarrow> tab" where
  "testbed_reply n enabled t =
     (if enabled then next_page n page_testbed t
      else if n = nav t then begin_nav (js ''/'') no_query t else t)"

definition login_url_reply :: "nat \<Rightarrow> js \<Rightarrow> (error_data, js) reply \<Rightarrow> tab \<Rightarrow> tab" where
  "login_url_reply n to r t =
     (case r of
        Reply _ url \<Rightarrow>
          if js_http url then t\<lparr>external := Some url\<rparr>
          else next_redirect n url (no_query\<lparr>q_return := Some to\<rparr>) t
      | Failure e \<Rightarrow>
          next_redirect n page_login (no_query\<lparr>q_return := Some to, q_error := Some (Some (handleError e))\<rparr>) t)"

text \<open>The continuations of \<^verbatim>\<open>login\<close> (with \<^verbatim>\<open>postLogin\<close> of the page) and of \<^verbatim>\<open>logout\<close> in \<^verbatim>\<open>App\<close>.  A
  reply to the login request without data raises inside the continuation and counts as a failed
  login.\<close>

definition login_reply :: "js \<Rightarrow> (error_data, login_data option) reply \<Rightarrow> tab \<Rightarrow> tab" where
  "login_reply back r t =
     (case r of
        Reply auth (Some d) \<Rightarrow> push_url back no_query (login_then d (intercept auth t))
      | Reply auth None \<Rightarrow> login_failed None ((intercept auth t)\<lparr>storage := None\<rparr>)
      | Failure _ \<Rightarrow> login_failed None (t\<lparr>storage := None\<rparr>))"

definition logout_reply :: "(error_data, js) reply \<Rightarrow> tab \<Rightarrow> tab" where
  "logout_reply r t =
     (case r of
        Reply auth url \<Rightarrow>
          (let u = (intercept auth t)\<lparr>storage := None\<rparr>
           in if js_http url then u\<lparr>external := Some url\<rparr> else push_url url no_query u)
      | Failure e \<Rightarrow> push page_login (no_query\<lparr>q_error := Some (Some (handleError e))\<rparr>) t)"

text \<open>The rules of the login form, on lower-cased tokens without hyphens.\<close>

definition checkId :: "js \<Rightarrow> js option" where
  "checkId value = (if value = [] then Some (js ''login.idRequired'') else None)"

definition checkToken :: "js \<Rightarrow> js option" where
  "checkToken value =
     (if value = [] then Some (js ''login.required'')
      else if js_starts_with (js ''correcthorsebatterystaple'') (filter (\<lambda>c. c \<noteq> 0x2D) (js_lower value))
      then Some (js ''login.copied'')
      else None)"

definition form_valid :: "bool \<Rightarrow> js \<Rightarrow> js \<Rightarrow> bool" where
  "form_valid withId i token \<longleftrightarrow> (withId \<longrightarrow> checkId i = None) \<and> checkToken token = None"

section \<open>The tab as a state machine\<close>

text \<open>\<^term>\<open>SubmitLogin\<close> carries the token that is sent: the entered token, or the hash of the password
  when the form asks for an id.\<close>

datatype event =
    Load
  | Visit js login_query
  | SubmitLogin js js js
  | LoginReply js "(error_data, login_data option) reply"
  | ClickLogout
  | LogoutReply "(error_data, js) reply"
  | Idle
  | GuardReply nat js bool "(error_data, unit) reply"
  | LoginUrlReply nat js "(error_data, js) reply"
  | TestbedReply nat "(error_data, unit) reply"
  | ApiCall
  | ApiReply "(error_data, unit) reply"
  | BeforeUnload

definition new_tab :: "user option \<Rightarrow> tab" where
  "new_tab stored =
     \<lparr>storage = stored, header = authHeader stored, route = [], nav = 0, waiting = [],
      return_url = js ''/'', with_id = False, with_login = True, login_error = None, external = None\<rparr>"

definition take_reply :: "pending \<Rightarrow> tab \<Rightarrow> tab option" where
  "take_reply p t = (if p \<in> set (waiting t) then Some (t\<lparr>waiting := remove1 p (waiting t)\<rparr>) else None)"

definition intercept_reply :: "('e, 'd) reply \<Rightarrow> tab \<Rightarrow> tab" where
  "intercept_reply r t = (case r of Reply auth _ \<Rightarrow> intercept auth t | Failure _ \<Rightarrow> t)"

definition is_reply :: "('e, 'd) reply \<Rightarrow> bool" where
  "is_reply r = (case r of Reply _ _ \<Rightarrow> True | Failure _ \<Rightarrow> False)"

fun tab_step :: "event \<Rightarrow> tab \<Rightarrow> tab option" where
  "tab_step Load t = Some (new_tab (storage t))"
| "tab_step (Visit to q) t = Some (push to q t)"
| "tab_step (SubmitLogin i token sent) t =
     (if route t = page_login \<and> with_login t \<and> form_valid (with_id t) i token \<and> (\<not> with_id t \<longrightarrow> sent = token)
      then Some (login sent t) else None)"
| "tab_step (LoginReply back r) t = map_option (login_reply back r) (take_reply (PLogin back) t)"
| "tab_step ClickLogout t = Some (logout t)"
| "tab_step (LogoutReply r) t = map_option (logout_reply r) (take_reply PLogout t)"
| "tab_step Idle t = (if route t = page_login then None else Some (logout t))"
| "tab_step (GuardReply n to had r) t =
     map_option (\<lambda>u. guard_reply n to had (is_reply r) (intercept_reply r u)) (take_reply (PGuard n to had) t)"
| "tab_step (LoginUrlReply n to r) t = map_option (login_url_reply n to r) (take_reply (PLoginUrl n to) t)"
| "tab_step (TestbedReply n r) t = map_option (testbed_reply n (is_reply r)) (take_reply (PTestbed n) t)"
| "tab_step ApiCall t = Some (t\<lparr>waiting := POther # waiting t\<rparr>)"
| "tab_step (ApiReply r) t = map_option (intercept_reply r) (take_reply POther t)"
| "tab_step BeforeUnload t = Some (t\<lparr>storage := None\<rparr>)"

fun tab_run :: "event list \<Rightarrow> tab \<Rightarrow> tab option" where
  "tab_run [] t = Some t"
| "tab_run (e # es) t = (case tab_step e t of None \<Rightarrow> None | Some u \<Rightarrow> tab_run es u)"

inductive reachable :: "tab \<Rightarrow> bool" where
  start: "reachable (new_tab stored)"
| step: "reachable t \<Longrightarrow> tab_step e t = Some u \<Longrightarrow> reachable u"

section \<open>The token in the storage is the token that is sent\<close>

named_theorems session_defs

lemmas [session_defs] =
  intercept_def login_def login_then_def recordLogin_def logout_def login_failed_def login_page_def
  login_created_def show_page_def begin_nav_def push_def push_url_def next_page_def next_redirect_def
  guard_reply_def testbed_reply_def login_url_reply_def login_reply_def logout_reply_def
  intercept_reply_def new_tab_def Let_def

definition in_step :: "tab \<Rightarrow> bool" where
  "in_step t \<longleftrightarrow> authHeader (storage t) = None \<or> header t = authHeader (storage t)"

lemma in_step_cong:
  "storage u = storage t \<Longrightarrow> header u = header t \<Longrightarrow> in_step u = in_step t"
  by (simp add: in_step_def)

lemma in_step_None: "storage t = None \<Longrightarrow> in_step t"
  by (simp add: in_step_def authHeader_def)

lemma in_step_intercept: "in_step t \<Longrightarrow> in_step (intercept auth t)"
  by (auto simp: in_step_def authHeader_def intercept_def Let_def split: option.splits)

lemma in_step_login_then: "in_step (login_then d t)"
  by (auto simp: in_step_def authHeader_def login_then_def)

lemma login_created_session:
  "recorded q = None \<Longrightarrow> storage (login_created q t) = storage t \<and> header (login_created q t) = header t"
  by (auto simp: login_created_def login_page_def login_failed_def Let_def split: option.splits)

lemma in_step_login_created: "in_step t \<Longrightarrow> in_step (login_created q t)"
proof (cases "recorded q")
  case None
  assume "in_step t"
  then show ?thesis using login_created_session [OF None, of t] by (simp add: in_step_def)
next
  case (Some a)
  then show ?thesis
    by (auto simp: in_step_def authHeader_def login_created_def recorded_def login_page_def recordLogin_def Let_def
        split: if_splits option.splits)
qed

lemma in_step_show_page: "in_step t \<Longrightarrow> in_step (show_page to q t)"
  by (auto simp: show_page_def intro!: in_step_login_created) (simp_all add: in_step_def)

lemma in_step_begin_nav: "in_step t \<Longrightarrow> in_step (begin_nav to q t)"
  by (auto simp: begin_nav_def Let_def intro!: in_step_show_page) (simp_all add: in_step_def)

lemma in_step_push: "in_step t \<Longrightarrow> in_step (push to q t)"
  by (auto simp: push_def Let_def intro!: in_step_begin_nav)

lemma in_step_push_url: "in_step t \<Longrightarrow> in_step (push_url url q t)"
  by (simp add: push_url_def in_step_push)

lemma in_step_fields [simp]:
  "in_step (t\<lparr>waiting := w\<rparr>) = in_step t"
  "in_step (t\<lparr>route := r\<rparr>) = in_step t"
  "in_step (t\<lparr>nav := n\<rparr>) = in_step t"
  "in_step (t\<lparr>external := x\<rparr>) = in_step t"
  "in_step (t\<lparr>login_error := le\<rparr>) = in_step t"
  "in_step (t\<lparr>storage := None\<rparr>)"
  by (simp_all add: in_step_def authHeader_def)

lemmas in_step_intros =
  in_step_intercept in_step_login_then in_step_show_page in_step_begin_nav in_step_push in_step_push_url

lemma take_reply_some: "take_reply p t = Some u \<Longrightarrow> u = t\<lparr>waiting := remove1 p (waiting t)\<rparr>"
  by (auto simp: take_reply_def split: if_splits)

lemma in_step_login_reply: "in_step t \<Longrightarrow> in_step (login_reply back r t)"
  by (cases r) (auto simp: login_reply_def login_failed_def split: option.splits intro: in_step_intros)

lemma in_step_logout_reply: "in_step t \<Longrightarrow> in_step (logout_reply r t)"
  by (cases r) (auto simp: logout_reply_def Let_def intro: in_step_intros)

lemma in_step_intercept_reply: "in_step t \<Longrightarrow> in_step (intercept_reply r t)"
  by (cases r) (auto simp: intercept_reply_def intro: in_step_intros)

lemma in_step_guard_reply: "in_step t \<Longrightarrow> in_step (guard_reply n to had ok t)"
  by (auto simp: guard_reply_def next_page_def intro: in_step_intros in_step_None)

lemma in_step_login_url_reply: "in_step t \<Longrightarrow> in_step (login_url_reply n to r t)"
  by (cases r) (auto simp: login_url_reply_def next_redirect_def intro: in_step_intros)

lemma in_step_testbed_reply: "in_step t \<Longrightarrow> in_step (testbed_reply n ok t)"
  by (auto simp: testbed_reply_def next_page_def intro: in_step_intros)

lemmas in_step_replies =
  in_step_login_reply in_step_logout_reply in_step_intercept_reply in_step_guard_reply
  in_step_login_url_reply in_step_testbed_reply

lemma in_step_new_tab: "in_step (new_tab stored)"
  by (simp add: in_step_def new_tab_def)

lemma in_step_tab_step:
  assumes "tab_step e t = Some u" "in_step t"
  shows "in_step u"
  using assms
  by (cases e)
     (auto dest!: take_reply_some simp: login_def logout_def in_step_new_tab
        intro!: in_step_replies in_step_push intro: in_step_None split: if_splits)

lemma reachable_in_step: "reachable t \<Longrightarrow> in_step t"
  by (induction rule: reachable.induct) (auto intro: in_step_new_tab in_step_tab_step)

section \<open>Without a login no session comes back\<close>

text \<open>A state without a stored user and without a login under way stays so under every event that
  is not itself a login.\<close>

definition logged_out :: "tab \<Rightarrow> bool" where
  "logged_out t \<longleftrightarrow> storage t = None \<and> (\<forall>back. PLogin back \<notin> set (waiting t))"


lemma recorded_no_query [simp]: "recorded (q\<lparr>q_with_id := b\<rparr>) = recorded q" "recorded no_query = None"
  "recorded (no_query\<lparr>q_return := x\<rparr>) = None" "recorded (no_query\<lparr>q_error := y\<rparr>) = None"
  "recorded (no_query\<lparr>q_return := x, q_error := y\<rparr>) = None"
  by (simp_all add: recorded_def no_query_def js_truthy_def)


lemma logged_out_fields [simp]:
  "logged_out (t\<lparr>route := r\<rparr>) = logged_out t"
  "logged_out (t\<lparr>nav := n\<rparr>) = logged_out t"
  "logged_out (t\<lparr>external := x\<rparr>) = logged_out t"
  by (simp_all add: logged_out_def)








lemma logged_out_waiting:
  "logged_out t \<Longrightarrow> (\<And>back. p \<noteq> PLogin back) \<Longrightarrow> logged_out (t\<lparr>waiting := p # waiting t\<rparr>)"
  by (auto simp: logged_out_def)











section \<open>The guard stands in front of every page\<close>

lemma public_route_created: "route (login_created q t) = route t"
  by (auto simp: login_created_def login_page_def login_failed_def recordLogin_def Let_def split: option.splits)

lemma route_show_page [simp]: "route (show_page to q t) = to"
  by (simp add: show_page_def public_route_created)

text \<open>Either the route is the given one, or the page needs no guard.\<close>

definition stays :: "js \<Rightarrow> tab \<Rightarrow> bool" where
  "stays r t \<longleftrightarrow> route t = r \<or> route t \<in> set public_pages"




lemma route_intercept [simp]: "route (intercept auth t) = route t"
  by (simp add: intercept_def Let_def split: option.split)

lemma nav_intercept [simp]: "nav (intercept auth t) = nav t"
  by (simp add: intercept_def Let_def split: option.split)

lemma stays_fields [simp]:
  "stays r (t\<lparr>storage := x\<rparr>) = stays r t" "stays r (t\<lparr>header := y\<rparr>) = stays r t"
  "stays r (t\<lparr>waiting := w\<rparr>) = stays r t" "stays r (t\<lparr>external := z\<rparr>) = stays r t"
  "stays r (t\<lparr>login_error := le\<rparr>) = stays r t" "stays r (intercept auth t) = stays r t"
  by (simp_all add: stays_def)









lemma route_intercept_reply [simp]: "route (intercept_reply r t) = route t" "nav (intercept_reply r t) = nav t"
  by (cases r; simp add: intercept_reply_def)+

lemma reachable_run: "tab_run es t = Some u \<Longrightarrow> reachable t \<Longrightarrow> reachable u"
  by (induction es arbitrary: t) (auto split: option.splits intro: reachable.step)

lemma take_first [simp]: "take_reply p (t\<lparr>waiting := p # ps\<rparr>) = Some (t\<lparr>waiting := ps\<rparr>)"
  by (simp add: take_reply_def)


lemma page_login_plain [simp]: "page_path page_login = page_login" "js_http page_login = False"
  "query_part page_login = [[]]" "route_alias page_login = page_login" "page_login \<in> set public_pages"
  by (simp_all add: page_path_def query_part_def page_login_def js_def js_http_def js_starts_with_def
      route_alias_def public_pages_def)


section \<open>Properties\<close>

text \<open>
  C26: Whatever the order in which requests are sent and replies arrive, the token that is kept in
  the browser for the user is the one the client sends: when a user with a token is stored, the
  \<^verbatim>\<open>Authorization\<close> header of the client is that token.\<close>

theorem stored_token_is_sent:
  assumes "reachable t" "storage t = Some u" "js_truthy (authdata u)"
  shows "header t = Some (bearer (authdata u))"
  using reachable_in_step [OF assms(1)] assms(2,3) by (simp add: in_step_def authHeader_def)

theorem stored_token_is_sent_witness:
  "\<exists>t u. tab_run [ApiCall, ApiReply (Reply (Some (js ''Bearer renewed'')) ())]
       (new_tab (Some \<lparr>authdata = Some (js ''old''), user_id = None, attributes = None\<rparr>)) = Some t \<and>
     storage t = Some u \<and> authdata u = Some (js ''renewed'') \<and> header t = Some (bearer (authdata u))"
proof -
  let ?s = "new_tab (Some \<lparr>authdata = Some (js ''old''), user_id = None, attributes = None\<rparr>)"
  let ?es = "[ApiCall, ApiReply (Reply (Some (js ''Bearer renewed'')) ())]"
  have token: "js_nth (js_split_on (js ''Bearer '') (js ''Bearer renewed'')) 1 = Some (js ''renewed'')" by code_simp
  obtain t where t: "tab_run ?es ?s = Some t" and st: "storage t = Some \<lparr>authdata = Some (js ''renewed''), user_id = None, attributes = None\<rparr>"
    using token by (simp add: take_reply_def intercept_reply_def intercept_def new_tab_def Let_def)
  have "js_truthy (Some (js ''renewed''))" by code_simp
  then have "header t = Some (bearer (Some (js ''renewed'')))"
    using stored_token_is_sent [OF reachable_run [OF t reachable.start] st] by simp
  then show ?thesis using t st by (intro exI [of _ t]) simp
qed







end
