(* ===== verification/LagostaRoas.thy ===== *)
theory LagostaRoas
  imports LagostaSession
begin

text \<open>
  The part of the user interface that configures ROAs (\<^verbatim>\<open>src/lagosta/js/app.js\<close>, view \<^verbatim>\<open>CADetails\<close>,
  components \<^verbatim>\<open>AnnouncementsROAs\<close> and \<^verbatim>\<open>StateVisualizer\<close>, packages \<^verbatim>\<open>ip-regex\<close> and \<^verbatim>\<open>cidr-regex\<close>): the
  form that adds a ROA, the suggestions of the server as a delta of additions and removals, the
  two carts of selected rows, and the table of announcements with its filter, order and pages.

  The server's side of the same data is taken from \<^verbatim>\<open>src/src/commons/bgp/report.rs\<close> and
  \<^verbatim>\<open>src/src/commons/api/roas.rs\<close>: the states of an analysis entry and the updates that follow
  from a suggestion.

  A field of a form is a text, or \<^term>\<open>None\<close> for \<^verbatim>\<open>null\<close>, which is what the fields hold after the form
  was reset.
\<close>

section \<open>Patterns for prefixes\<close>

definition digit_rx :: rx where "digit_rx = Cls [(0x30, 0x39)]"

definition octet_rx :: rx where
  "octet_rx = Alt
     [Seq [Lit [0x32, 0x35], Cls [(0x30, 0x35)]],
      Seq [Lit [0x32], Cls [(0x30, 0x34)], digit_rx],
      Seq [Lit [0x31], digit_rx, digit_rx],
      Seq [Cls [(0x31, 0x39)], digit_rx],
      digit_rx]"

definition v4_rx :: rx where
  "v4_rx = Seq [octet_rx, Lit [0x2E], octet_rx, Lit [0x2E], octet_rx, Lit [0x2E], octet_rx]"

definition group_rx :: rx where
  "group_rx = (let h = Cls [(0x30, 0x39), (0x61, 0x66), (0x41, 0x46)] in Seq [h, Opt (Seq [h, Opt (Seq [h, Opt h])])])"

text \<open>\<^verbatim>\<open>(r){0,n}\<close> and \<^verbatim>\<open>(r){1,n}\<close>.\<close>

fun up_to :: "nat \<Rightarrow> rx \<Rightarrow> rx" where
  "up_to 0 r = Seq []"
| "up_to (Suc n) r = Opt (Seq [r, up_to n r])"

definition one_up_to :: "nat \<Rightarrow> rx \<Rightarrow> rx" where
  "one_up_to n r = Seq [r, up_to (n - 1) r]"

definition groups_rx :: "nat \<Rightarrow> rx" where
  "groups_rx n = Seq (replicate n (Seq [group_rx, Lit [0x3A]]))"

definition v6_rx :: rx where
  "v6_rx =
     (let cg = Seq [Lit [0x3A], group_rx]; cv4 = Seq [Lit [0x3A], v4_rx]
      in Seq
        [Alt
          [Seq [groups_rx 7, Alt [group_rx, Lit [0x3A]]],
           Seq [groups_rx 6, Alt [v4_rx, cg, Lit [0x3A]]],
           Seq [groups_rx 5, Alt [cv4, one_up_to 2 cg, Lit [0x3A]]],
           Seq [groups_rx 4, Alt [Seq [up_to 1 cg, cv4], one_up_to 3 cg, Lit [0x3A]]],
           Seq [groups_rx 3, Alt [Seq [up_to 2 cg, cv4], one_up_to 4 cg, Lit [0x3A]]],
           Seq [groups_rx 2, Alt [Seq [up_to 3 cg, cv4], one_up_to 5 cg, Lit [0x3A]]],
           Seq [groups_rx 1, Alt [Seq [up_to 4 cg, cv4], one_up_to 6 cg, Lit [0x3A]]],
           Seq [Lit [0x3A], Alt [Seq [up_to 5 cg, cv4], one_up_to 7 cg, Lit [0x3A]]]],
         Opt (Seq [Lit [0x25], Plus (Cls [(0x30, 0x39), (0x61, 0x7A), (0x41, 0x5A)])])])"

definition v4_len_rx :: rx where
  "v4_len_rx = Alt [Seq [Lit [0x33], Cls [(0x30, 0x32)]], Seq [Opt (Cls [(0x31, 0x31), (0x32, 0x32)]), digit_rx]]"

definition v6_len_rx :: rx where
  "v6_len_rx = Alt
     [Seq [Lit [0x31, 0x32], Cls [(0x30, 0x38)]],
      Seq [Lit [0x31], Cls [(0x30, 0x30), (0x31, 0x31)], digit_rx],
      Seq [Opt (Cls [(0x31, 0x39)]), digit_rx]]"

definition cidr_re :: regex where
  "cidr_re = Regex False (Alt
     [Seq [Start, v4_rx, Lit [0x2F], v4_len_rx, End],
      Seq [Start, v6_rx, Lit [0x2F], v6_len_rx, End]])"

section \<open>The form that adds a ROA\<close>

record roa_form =
  f_asn :: "js option"
  f_prefix :: "js option"
  f_maxLength :: js

definition asn_value :: "js option \<Rightarrow> jsnum" where
  "asn_value v =
     (case v of
        None \<Rightarrow> Fin 0 0
      | Some s \<Rightarrow> js_number (if js_starts_with (js ''as'') (js_lower s) then drop 2 s else s))"

definition checkASN :: "js option \<Rightarrow> js option" where
  "checkASN v =
     (if v = Some [] then Some (js ''caDetails.addROAForm.required'')
      else if num_ge (asn_value v) 0 \<and> num_le (asn_value v) 4294967295 then None
      else Some (js ''caDetails.addROAForm.asn_format''))"

definition checkPrefix :: "js option \<Rightarrow> js option" where
  "checkPrefix v =
     (case v of
        None \<Rightarrow> None
      | Some s \<Rightarrow>
          if s = [] then Some (js ''caDetails.addROAForm.required'')
          else if rx_test cidr_re s then None
          else Some (js ''caDetails.addROAForm.prefix_format''))"

definition updateMaxLength :: "js option \<Rightarrow> roa_form \<Rightarrow> roa_form" where
  "updateMaxLength v f =
     (case v of
        None \<Rightarrow> f
      | Some s \<Rightarrow> if 0x2F \<in> set s then f\<lparr>f_maxLength := js_split 0x2F s ! 1\<rparr> else f)"

text \<open>Typing a prefix and leaving the field of the AS number; \<^verbatim>\<open>null\<close> has no \<^verbatim>\<open>toLowerCase\<close>.\<close>

definition input_prefix :: "js \<Rightarrow> roa_form \<Rightarrow> roa_form" where
  "input_prefix s f = updateMaxLength (Some s) (f\<lparr>f_prefix := Some s\<rparr>)"

definition removeAS :: "roa_form \<Rightarrow> roa_form option" where
  "removeAS f =
     (case f_asn f of
        None \<Rightarrow> None
      | Some s \<Rightarrow>
          let t = (if js_starts_with (js ''as'') (js_lower s) then drop 2 s else s);
              g = f\<lparr>f_asn := Some t\<rparr>
          in Some (if t = js ''0'' then updateMaxLength (f_prefix g) g else g))"

definition resetAddRoaForm :: "roa_form \<Rightarrow> roa_form" where
  "resetAddRoaForm f = \<lparr>f_asn = None, f_prefix = None, f_maxLength = []\<rparr>"

definition triggerAddROA :: "nat \<Rightarrow> js \<Rightarrow> roa_form \<Rightarrow> roa_form" where
  "triggerAddROA asn prefix f =
     updateMaxLength (Some prefix) (f\<lparr>f_asn := Some (jnum asn), f_prefix := Some prefix\<rparr>)"

text \<open>What \<^verbatim>\<open>addROA\<close> sends; \<^verbatim>\<open>parseInt\<close> turns \<^verbatim>\<open>null\<close> into the text of that name, and JSON writes a number that
  is not finite as \<^verbatim>\<open>null\<close>.\<close>

record roa_request =
  r_asn :: jsnum
  r_prefix :: "js option"
  r_max_length :: jsnum

definition parse_field :: "js option \<Rightarrow> jsnum" where
  "parse_field v = parse_int (case v of None \<Rightarrow> js ''null'' | Some s \<Rightarrow> s)"

definition num_or_zero :: "jsnum \<Rightarrow> jsnum" where
  "num_or_zero x = (if x = NaN then Fin 0 0 else x)"

definition addROA :: "roa_form \<Rightarrow> roa_request" where
  "addROA f =
     \<lparr>r_asn = parse_field (f_asn f), r_prefix = f_prefix f,
      r_max_length = num_or_zero (parse_int (f_maxLength f))\<rparr>"

definition submitROA :: "roa_form \<Rightarrow> roa_request option" where
  "submitROA f = (if checkASN (f_asn f) = None \<and> checkPrefix (f_prefix f) = None then Some (addROA f) else None)"

section \<open>The server's suggestions\<close>

text \<open>A ROA configuration or an announcement: the AS number, the address and length of the prefix,
  and the maximum length, if it is given.  \<^verbatim>\<open>into_explicit_max_length\<close> fills it in.\<close>

record payload =
  p_asn :: nat
  p_addr :: js
  p_len :: nat
  p_max :: "nat option"

definition prefix_text :: "payload \<Rightarrow> js" where
  "prefix_text p = p_addr p @ 0x2F # jnum (p_len p)"

definition into_explicit_max_length :: "payload \<Rightarrow> payload" where
  "into_explicit_max_length p = p\<lparr>p_max := Some (case p_max p of None \<Rightarrow> p_len p | Some m \<Rightarrow> m)\<rparr>"

record replacement =
  current :: payload
  new :: "payload list"

record suggestion =
  stale :: "payload list"
  not_found :: "payload list"
  invalid_asn :: "payload list"
  invalid_length :: "payload list"
  too_permissive :: "replacement list"
  disallowing :: "payload list"
  redundant :: "payload list"
  not_held :: "payload list"
  as0_redundant :: "payload list"
  keep :: "payload list"
  keep_disallowing :: "payload list"

text \<open>\<^verbatim>\<open>impl From<BgpAnalysisSuggestion> for RoaConfigurationUpdates\<close>: additions and removals.  The
  announcements become payloads without a maximum length.\<close>

definition announcement :: "payload \<Rightarrow> payload" where
  "announcement p = p\<lparr>p_max := None\<rparr>"

definition suggested_updates :: "suggestion \<Rightarrow> payload list \<times> payload list" where
  "suggested_updates s =
     (map announcement (not_found s @ invalid_asn s @ invalid_length s) @ concat (map new (too_permissive s)),
      stale s @ map current (too_permissive s) @ as0_redundant s @ redundant s)"

section \<open>The suggestions in the interface\<close>

datatype action = Add | Remove

record delta_row =
  d_action :: action
  d_reason :: js
  d_asn :: nat
  d_prefix :: js
  d_max_length :: jsnum

definition prefix_length :: "js \<Rightarrow> jsnum" where
  "prefix_length s = (case js_nth (js_split 0x2F s) 1 of None \<Rightarrow> NaN | Some l \<Rightarrow> js_number l)"

definition plain_row :: "action \<Rightarrow> js \<Rightarrow> payload \<Rightarrow> delta_row" where
  "plain_row a reason p =
     \<lparr>d_action = a, d_reason = reason, d_asn = p_asn p, d_prefix = prefix_text p,
      d_max_length = prefix_length (prefix_text p)\<rparr>"

definition addToDelta :: "js \<Rightarrow> bool \<Rightarrow> payload list \<Rightarrow> delta_row list" where
  "addToDelta category isAdd ps = map (plain_row (if isAdd then Add else Remove) category) ps"

definition too_permissive_rows :: "replacement \<Rightarrow> delta_row list" where
  "too_permissive_rows r =
     \<lparr>d_action = Remove, d_reason = js ''too_permissive'', d_asn = p_asn (current r), d_prefix = prefix_text (current r),
      d_max_length = (case p_max (current r) of None \<Rightarrow> NaN | Some m \<Rightarrow> to_double m 1)\<rparr> #
     map (plain_row Add (js ''specific'')) (new r)"

definition deltaSuggestions :: "suggestion \<Rightarrow> delta_row list" where
  "deltaSuggestions s =
     addToDelta (js ''not_found'') True (not_found s) @
     addToDelta (js ''invalid_asn'') True (invalid_asn s) @
     addToDelta (js ''invalid_length'') True (invalid_length s) @
     addToDelta (js ''stale'') False (stale s) @
     addToDelta (js ''as0_redundant'') False (as0_redundant s) @
     addToDelta (js ''not_held'') False (not_held s) @
     addToDelta (js ''redundant'') False (redundant s) @
     concat (map too_permissive_rows (too_permissive s)) @
     addToDelta (js ''disallowing'') False (disallowing s)"

text \<open>The row of the ROA that is being added, and of the one that is being removed; the latter reads
  a member \<^verbatim>\<open>maxLength\<close> that the rows of the table do not have.\<close>

record mine_row =
  m_action :: action
  m_asn :: jsnum
  m_prefix :: "js option"
  m_max_length :: jsnum

definition mine_add :: "roa_form \<Rightarrow> mine_row" where
  "mine_add f =
     \<lparr>m_action = Add, m_asn = (case f_asn f of None \<Rightarrow> Fin 0 0 | Some s \<Rightarrow> js_number s), m_prefix = f_prefix f,
      m_max_length = js_number (f_maxLength f)\<rparr>"

definition mine_remove :: "nat \<Rightarrow> js \<Rightarrow> nat option \<Rightarrow> mine_row" where
  "mine_remove asn prefix max_length =
     \<lparr>m_action = Remove, m_asn = to_double asn 1, m_prefix = Some prefix, m_max_length = NaN\<rparr>"

section \<open>The two carts\<close>

text \<open>
  Two tables of rows, each with its selection, and the carts made of them.  Clearing a selection
  that is not empty makes its table report the change at once, inside the handler of the other
  table.
\<close>

record 'r carts =
  mine_selection :: "'r list"
  suggestion_selection :: "'r list"
  mine_cart :: "'r list \<times> 'r list"
  suggestion_cart :: "'r list \<times> 'r list"
  last_table :: "js option"

definition new_carts :: "'r carts" where
  "new_carts = \<lparr>mine_selection = [], suggestion_selection = [], mine_cart = ([], []), suggestion_cart = ([], []),
     last_table = None\<rparr>"

definition cart_of :: "('r \<Rightarrow> action) \<Rightarrow> 'r list \<Rightarrow> 'r list \<times> 'r list" where
  "cart_of act val = (filter (\<lambda>r. act r = Add) val, filter (\<lambda>r. act r = Remove) val)"

definition mine_table :: js where "mine_table = js ''mine''"

definition suggestions_table :: js where "suggestions_table = js ''suggestions''"

definition mine_changed :: "('r \<Rightarrow> action) \<Rightarrow> 'r list \<Rightarrow> 'r carts \<Rightarrow> 'r carts" where
  "mine_changed act val c = c\<lparr>mine_selection := val, mine_cart := cart_of act val\<rparr>"

definition suggestion_changed :: "('r \<Rightarrow> action) \<Rightarrow> 'r list \<Rightarrow> 'r carts \<Rightarrow> 'r carts" where
  "suggestion_changed act val c = c\<lparr>suggestion_selection := val, suggestion_cart := cart_of act val\<rparr>"

function handleMineSelectionChange :: "('r \<Rightarrow> action) \<Rightarrow> 'r list \<Rightarrow> 'r carts \<Rightarrow> 'r carts"
  and handleSuggestionSelectionChange :: "('r \<Rightarrow> action) \<Rightarrow> 'r list \<Rightarrow> 'r carts \<Rightarrow> 'r carts" where
  "handleMineSelectionChange act val c =
     (if last_table c \<noteq> Some mine_table \<and> suggestion_selection c \<noteq> []
      then handleSuggestionSelectionChange act [] (mine_changed act val c)
      else mine_changed act val c)\<lparr>last_table := Some mine_table\<rparr>"
| "handleSuggestionSelectionChange act val c =
     (if last_table c \<noteq> Some suggestions_table \<and> mine_selection c \<noteq> []
      then handleMineSelectionChange act [] (suggestion_changed act val c)
      else suggestion_changed act val c)\<lparr>last_table := Some suggestions_table\<rparr>"
  by pat_completeness auto

text \<open>Each call inside a handler has cleared one more selection.\<close>

termination handleMineSelectionChange
  by (relation "measure (case_sum
        (\<lambda>(act, val, c). of_bool (val \<noteq> []) + of_bool (suggestion_selection c \<noteq> []))
        (\<lambda>(act, val, c). of_bool (val \<noteq> []) + of_bool (mine_selection c \<noteq> [])))")
     (auto simp: mine_changed_def suggestion_changed_def)

declare handleMineSelectionChange.simps [simp del] handleSuggestionSelectionChange.simps [simp del]

datatype 'r selection = SelectMine "'r list" | SelectSuggestion "'r list" | ResetCarts

definition deltaCart :: "'r carts \<Rightarrow> 'r list \<times> 'r list" where
  "deltaCart c =
     (fst (mine_cart c) @ fst (suggestion_cart c), snd (mine_cart c) @ snd (suggestion_cart c))"

definition resetDeltaCarts :: "'r carts \<Rightarrow> 'r carts" where
  "resetDeltaCarts c = c\<lparr>mine_cart := ([], []), suggestion_cart := ([], [])\<rparr>"

fun cart_step :: "('r \<Rightarrow> action) \<Rightarrow> 'r selection \<Rightarrow> 'r carts \<Rightarrow> 'r carts" where
  "cart_step act (SelectMine val) c = handleMineSelectionChange act val c"
| "cart_step act (SelectSuggestion val) c = handleSuggestionSelectionChange act val c"
| "cart_step act ResetCarts c = resetDeltaCarts c"

definition cart_run :: "('r \<Rightarrow> action) \<Rightarrow> 'r selection list \<Rightarrow> 'r carts" where
  "cart_run act es = fold (cart_step act) es new_carts"

section \<open>Prefixes that the patterns accept\<close>

lemma jnum_1: "n < 10 \<Longrightarrow> jnum n = [0x30 + int n]"
  by (subst jnum_digits) simp

lemma jnum_2: "0 < a \<Longrightarrow> a < 10 \<Longrightarrow> b < 10 \<Longrightarrow> jnum (10 * a + b) = [0x30 + int a, 0x30 + int b]"
  by (subst jnum_digits) (simp add: jnum_1)

lemma jnum_3:
  "0 < a \<Longrightarrow> a < 10 \<Longrightarrow> b < 10 \<Longrightarrow> c < 10 \<Longrightarrow>
   jnum (100 * a + 10 * b + c) = [0x30 + int a, 0x30 + int b, 0x30 + int c]"
proof -
  assume a: "0 < a" "a < 10" "b < 10" "c < 10"
  have "100 * a + 10 * b + c = c + 10 * (10 * a + b)" by simp
  then have d: "(100 * a + 10 * b + c) div 10 = 10 * a + b" "(100 * a + 10 * b + c) mod 10 = c"
    using a by (simp_all only: div_mult_self2 mod_mult_self2) simp_all
  show ?thesis using a jnum_2 [of a b] by (subst jnum_digits) (simp add: d)
qed

text \<open>The digits of a unit.\<close>

lemma digit_unit: "0x30 + int a = c \<longleftrightarrow> c = 0x30 + int a"
  by auto

lemma unit_cases:
  assumes "0x30 \<le> c" "c \<le> 0x39"
  obtains a where "a < 10" "c = 0x30 + int a"
proof
  show "nat (c - 0x30) < 10" "c = 0x30 + int (nat (c - 0x30))" using assms by linarith+
qed

lemma run_lit1: "(b', t) \<in> set (rx_run False (Lit [u]) (b, s)) \<longleftrightarrow> \<not> b' \<and> s = u # t"
  by (cases s) (auto simp: unit_matches_def)

lemma run_cls1:
  "(b', t) \<in> set (rx_run False (Cls rs) (b, s)) \<longleftrightarrow>
   \<not> b' \<and> (\<exists>c. s = c # t \<and> list_ex (\<lambda>(l, h). l \<le> c \<and> c \<le> h) rs)"
  by (cases s) (auto simp: in_class_def)

lemma run_digit:
  "(b', t) \<in> set (rx_run False digit_rx (b, s)) \<longleftrightarrow> \<not> b' \<and> (\<exists>a < 10. s = (0x30 + int a) # t)"
  unfolding digit_rx_def run_cls1 by (auto elim: unit_cases)

lemma run_range:
  assumes "0x30 \<le> l" "h \<le> 0x39"
  shows "(b', t) \<in> set (rx_run False (Cls [(l, h)]) (b, s)) \<longleftrightarrow>
    \<not> b' \<and> (\<exists>a < 10. s = (0x30 + int a) # t \<and> l \<le> 0x30 + int a \<and> 0x30 + int a \<le> h)"
proof -
  have "\<exists>a < 10. c = 0x30 + int a \<and> l \<le> 0x30 + int a \<and> 0x30 + int a \<le> h" if "l \<le> c" "c \<le> h" for c
    using that assms by (intro exI [of _ "nat (c - 0x30)"]) auto
  then show ?thesis unfolding run_cls1 by auto
qed

lemma run_seq:
  "(b', t) \<in> set (rx_run i (Seq []) (b, s)) \<longleftrightarrow> b' = b \<and> t = s"
  "(b', t) \<in> set (rx_run i (Seq (r # rs)) (b, s)) \<longleftrightarrow>
   (\<exists>b1 s1. (b1, s1) \<in> set (rx_run i r (b, s)) \<and> (b', t) \<in> set (rx_run i (Seq rs) (b1, s1)))"
  by auto

lemma run_alt:
  "(b', t) \<in> set (rx_run i (Alt []) (b, s)) \<longleftrightarrow> False"
  "(b', t) \<in> set (rx_run i (Alt (r # rs)) (b, s)) \<longleftrightarrow>
   (b', t) \<in> set (rx_run i r (b, s)) \<or> (b', t) \<in> set (rx_run i (Alt rs) (b, s))"
  by auto

lemma run_opt:
  "(b', t) \<in> set (rx_run i (Opt r) (b, s)) \<longleftrightarrow> (b', t) \<in> set (rx_run i r (b, s)) \<or> b' = b \<and> t = s"
  by auto

lemma run_lit2: "(b', t) \<in> set (rx_run False (Lit [u, v]) (b, s)) \<longleftrightarrow> \<not> b' \<and> s = u # v # t"
  by (cases s; cases "tl s") (auto simp: unit_matches_def)

text \<open>Numbers of two and three digits, by their digits.\<close>

lemma two_digits:
  assumes "10 \<le> n" "n < 100"
  shows "\<exists>a b. 0 < a \<and> a < 10 \<and> b < 10 \<and> n = 10 * a + b \<and> jnum n = [0x30 + int a, 0x30 + int b]"
proof -
  have d: "0 < n div 10" "n div 10 < 10" "n mod 10 < 10" "n = 10 * (n div 10) + n mod 10"
    using assms by (simp_all add: less_mult_imp_div_less div_greater_zero_iff)
  have "jnum n = [0x30 + int (n div 10), 0x30 + int (n mod 10)]"
    using jnum_2 [OF d(1-3)] d(4) by simp
  then show ?thesis using d by blast
qed

lemma three_digits:
  assumes "100 * a \<le> n" "n < 100 * a + 100" "0 < a" "a < 10"
  shows "\<exists>b c. b < 10 \<and> c < 10 \<and> n = 100 * a + 10 * b + c \<and> jnum n = [0x30 + int a, 0x30 + int b, 0x30 + int c]"
proof -
  let ?m = "n - 100 * a"
  have d: "?m div 10 < 10" "?m mod 10 < 10" using assms by (simp_all add: less_mult_imp_div_less)
  have e: "n = 100 * a + 10 * (?m div 10) + ?m mod 10" using assms by simp
  have "jnum n = [0x30 + int a, 0x30 + int (?m div 10), 0x30 + int (?m mod 10)]"
    using jnum_3 [OF assms(3,4) d] e by simp
  then show ?thesis using d e by blast
qed

lemma run_one_two:
  "(b', t) \<in> set (rx_run False (Cls [(0x31, 0x31), (0x32, 0x32)]) (b, s)) \<longleftrightarrow>
   \<not> b' \<and> (\<exists>a. (a = 1 \<or> a = 2) \<and> s = (0x30 + int a) # t)"
  unfolding run_cls1 by auto

lemma run_octet:
  "(b', t) \<in> set (rx_run False octet_rx (b, s)) \<longleftrightarrow> \<not> b' \<and> (\<exists>n < 256. s = jnum n @ t)" (is "?l \<longleftrightarrow> ?r")
proof
  assume ?l
  then consider
      a where "\<not> b'" "a < 6" "s = 0x32 # 0x35 # (0x30 + int a) # t"
    | a c where "\<not> b'" "a < 5" "c < 10" "s = 0x32 # (0x30 + int a) # (0x30 + int c) # t"
    | a c where "\<not> b'" "a < 10" "c < 10" "s = 0x31 # (0x30 + int a) # (0x30 + int c) # t"
    | a c where "\<not> b'" "0 < a" "a < 10" "c < 10" "s = (0x30 + int a) # (0x30 + int c) # t"
    | a where "\<not> b'" "a < 10" "s = (0x30 + int a) # t"
    unfolding octet_rx_def
    by (auto simp: run_seq run_alt run_lit1 run_lit2 run_digit run_range simp del: rx_run.simps)
  then show ?r
  proof cases
    case (1 a)
    then show ?thesis using jnum_3 [of 2 5 a] by (intro conjI exI [of _ "250 + a"]) auto
  next
    case (2 a c)
    then show ?thesis using jnum_3 [of 2 a c] by (intro conjI exI [of _ "200 + 10 * a + c"]) auto
  next
    case (3 a c)
    then show ?thesis using jnum_3 [of 1 a c] by (intro conjI exI [of _ "100 + 10 * a + c"]) auto
  next
    case (4 a c)
    then show ?thesis using jnum_2 [of a c] by (intro conjI exI [of _ "10 * a + c"]) auto
  next
    case (5 a)
    then show ?thesis using jnum_1 [of a] by (intro conjI exI [of _ a]) auto
  qed
next
  assume ?r
  then obtain n where n: "n < 256" "s = jnum n @ t" "\<not> b'" by blast
  consider "n < 10" | "10 \<le> n" "n < 100" | "100 \<le> n" "n < 200" | "200 \<le> n" by linarith
  then show ?l
  proof cases
    case 1
    then show ?thesis using n jnum_1 [of n]
      unfolding octet_rx_def by (auto simp: run_seq run_alt run_digit simp del: rx_run.simps)
  next
    case 2
    obtain a c where "0 < a" "a < 10" "c < 10" "jnum n = [0x30 + int a, 0x30 + int c]" using two_digits [OF 2] by blast
    then show ?thesis using n
      unfolding octet_rx_def by (auto simp: run_seq run_alt run_digit run_range simp del: rx_run.simps)
  next
    case 3
    have "\<exists>a c. a < 10 \<and> c < 10 \<and> n = 100 * 1 + 10 * a + c \<and> jnum n = [0x30 + int 1, 0x30 + int a, 0x30 + int c]"
      by (rule three_digits) (use 3 in simp_all)
    then obtain a c where "a < 10" "c < 10" "jnum n = [0x30 + int 1, 0x30 + int a, 0x30 + int c]" by blast
    then show ?thesis using n
      unfolding octet_rx_def by (auto simp: run_seq run_alt run_lit1 run_digit simp del: rx_run.simps)
  next
    case 4
    have "\<exists>a c. a < 10 \<and> c < 10 \<and> n = 100 * 2 + 10 * a + c \<and> jnum n = [0x30 + int 2, 0x30 + int a, 0x30 + int c]"
      by (rule three_digits) (use 4 n(1) in simp_all)
    then obtain a c where d: "a < 10" "c < 10" "n = 100 * 2 + 10 * a + c" "jnum n = [0x30 + int 2, 0x30 + int a, 0x30 + int c]"
      by blast
    have "a < 5 \<or> a = 5 \<and> c < 6" using d(1-3) n(1) by linarith
    then have "(b', t) \<in> set (rx_run False (Seq [Lit [0x32], Cls [(0x30, 0x34)], digit_rx]) (b, s)) \<or>
      (b', t) \<in> set (rx_run False (Seq [Lit [0x32, 0x35], Cls [(0x30, 0x35)]]) (b, s))"
    proof
      assume "a < 5"
      then show ?thesis using n d
        by (intro disjI1) (auto simp: run_seq run_lit1 run_digit run_range simp del: rx_run.simps)
    next
      assume "a = 5 \<and> c < 6"
      then show ?thesis using n d
        by (intro disjI2) (auto simp: run_seq run_lit2 run_range simp del: rx_run.simps)
    qed
    then show ?thesis by (auto simp only: octet_rx_def run_alt)
  qed
qed

lemma run_v4_len:
  "(b', t) \<in> set (rx_run False v4_len_rx (b, s)) \<longleftrightarrow> \<not> b' \<and> (\<exists>n \<le> 32. s = jnum n @ t)" (is "?l \<longleftrightarrow> ?r")
proof
  assume ?l
  then consider
      a where "\<not> b'" "a < 3" "s = 0x33 # (0x30 + int a) # t"
    | a c where "\<not> b'" "a = 1 \<or> a = 2" "c < 10" "s = (0x30 + int a) # (0x30 + int c) # t"
    | a where "\<not> b'" "a < 10" "s = (0x30 + int a) # t"
    unfolding v4_len_rx_def
    by (auto simp: run_seq run_alt run_opt run_lit1 run_one_two run_digit run_range simp del: rx_run.simps)
  then show ?r
  proof cases
    case (1 a)
    then show ?thesis using jnum_2 [of 3 a] by (intro conjI exI [of _ "30 + a"]) auto
  next
    case (2 a c)
    then show ?thesis using jnum_2 [of a c] by (intro conjI exI [of _ "10 * a + c"]) auto
  next
    case (3 a)
    then show ?thesis using jnum_1 [of a] by (intro conjI exI [of _ a]) auto
  qed
next
  assume ?r
  then obtain n where n: "n \<le> 32" "s = jnum n @ t" "\<not> b'" by blast
  show ?l
  proof (cases "n < 10")
    case True
    have "(b', t) \<in> set (rx_run False (Seq [Opt (Cls [(0x31, 0x31), (0x32, 0x32)]), digit_rx]) (b, s))"
      using n jnum_1 [OF True] True by (auto simp: run_seq run_opt run_digit run_one_two simp del: rx_run.simps)
    then show ?thesis by (auto simp only: v4_len_rx_def run_alt)
  next
    case False
    obtain a c where d: "0 < a" "a < 10" "c < 10" "n = 10 * a + c" "jnum n = [0x30 + int a, 0x30 + int c]"
      using two_digits [of n] False n(1) by (auto simp: not_less)
    have "a = 1 \<or> a = 2 \<or> a = 3 \<and> c < 3" using d(1-4) n(1) by linarith
    then consider "a = 3" "c < 3" | "a = 1 \<or> a = 2" by blast
    then have "(b', t) \<in> set (rx_run False (Seq [Lit [0x33], Cls [(0x30, 0x32)]]) (b, s)) \<or>
      (b', t) \<in> set (rx_run False (Seq [Opt (Cls [(0x31, 0x31), (0x32, 0x32)]), digit_rx]) (b, s))"
    proof cases
      case 1
      then show ?thesis using n d
        by (intro disjI1) (auto simp: run_seq run_lit1 run_range simp del: rx_run.simps)
    next
      case 2
      then have "(False, (0x30 + int c) # t) \<in> set (rx_run False (Opt (Cls [(0x31, 0x31), (0x32, 0x32)])) (b, s))"
        using n d by (auto simp: run_opt run_one_two simp del: rx_run.simps)
      moreover have "(False, t) \<in> set (rx_run False digit_rx (False, (0x30 + int c) # t))"
        using d(3) by (auto simp: run_digit)
      ultimately show ?thesis using n(3) unfolding run_seq by blast
    qed
    then show ?thesis by (auto simp only: v4_len_rx_def run_alt)
  qed
qed

definition ipv4_text :: "nat \<Rightarrow> nat \<Rightarrow> nat \<Rightarrow> nat \<Rightarrow> nat \<Rightarrow> js" where
  "ipv4_text a b c d l = jnum a @ 0x2E # jnum b @ 0x2E # jnum c @ 0x2E # jnum d @ 0x2F # jnum l"

text \<open>Sequences, part by part.\<close>

lemma run_seq_step:
  assumes "\<And>b1 s1. (b1, s1) \<in> set (rx_run i r (b, s)) \<longleftrightarrow> \<not> b1 \<and> P s1"
  shows "(b', t) \<in> set (rx_run i (Seq (r # rs)) (b, s)) \<longleftrightarrow>
    (\<exists>s1. P s1 \<and> (b', t) \<in> set (rx_run i (Seq rs) (False, s1)))"
  unfolding run_seq assms by (metis (full_types))

lemma run_seq_octet:
  "(b', t) \<in> set (rx_run False (Seq (octet_rx # rs)) (b, s)) \<longleftrightarrow>
   (\<exists>n < 256. \<exists>u. s = jnum n @ u \<and> (b', t) \<in> set (rx_run False (Seq rs) (False, u)))"
  unfolding run_seq_step [OF run_octet] by blast

lemma run_seq_lit:
  "(b', t) \<in> set (rx_run False (Seq (Lit [c] # rs)) (b, s)) \<longleftrightarrow>
   (\<exists>u. s = c # u \<and> (b', t) \<in> set (rx_run False (Seq rs) (False, u)))"
  unfolding run_seq_step [OF run_lit1] by blast

lemma run_seq_v4_len:
  "(b', t) \<in> set (rx_run False (Seq (v4_len_rx # rs)) (b, s)) \<longleftrightarrow>
   (\<exists>n \<le> 32. \<exists>u. s = jnum n @ u \<and> (b', t) \<in> set (rx_run False (Seq rs) (False, u)))"
  unfolding run_seq_step [OF run_v4_len] by blast

lemma run_seq_start:
  "(b', t) \<in> set (rx_run i (Seq (Start # rs)) (b, s)) \<longleftrightarrow> b \<and> (b', t) \<in> set (rx_run i (Seq rs) (b, s))"
  by auto

lemma run_seq_end: "(b', t) \<in> set (rx_run i (Seq [End]) (b, s)) \<longleftrightarrow> s = [] \<and> t = [] \<and> b' = b"
  by auto

lemma rx_seq_append: "rx_seq i (xs @ ys) x = concat (map (rx_seq i ys) (rx_seq i xs x))"
proof (induction xs arbitrary: x)
  case (Cons r xs)
  have *: "concat (map f (concat (map g l))) = concat (map (\<lambda>y. concat (map f (g y))) l)"
    for f :: "bool \<times> js \<Rightarrow> (bool \<times> js) list" and g and l :: "(bool \<times> js) list"
    by (induction l) auto
  have "rx_seq i (xs @ ys) = (\<lambda>x. concat (map (rx_seq i ys) (rx_seq i xs x)))" using Cons by blast
  then show ?case by (simp add: *)
qed simp

lemma run_seq_seq: "rx_run i (Seq (Seq xs # rs)) x = rx_run i (Seq (xs @ rs)) x"
  by (cases x) (simp add: rx_seq_append)

lemma run_v4:
  "(b', t) \<in> set (rx_run False (Seq [Start, v4_rx, Lit [0x2F], v4_len_rx, End]) (b, s)) \<longleftrightarrow>
   b \<and> \<not> b' \<and> t = [] \<and>
   (\<exists>a1 < 256. \<exists>a2 < 256. \<exists>a3 < 256. \<exists>a4 < 256. \<exists>l \<le> 32. s = ipv4_text a1 a2 a3 a4 l)"
  (is "?l \<longleftrightarrow> ?r")
proof
  note rules = run_seq_start v4_rx_def run_seq_seq append_Cons append_Nil run_seq_octet run_seq_lit run_seq_v4_len run_seq_end
  assume ?l
  then obtain a1 a2 a3 a4 l where "a1 < 256" "a2 < 256" "a3 < 256" "a4 < 256" "l \<le> 32" "b" "\<not> b'" "t = []"
    "s = jnum a1 @ 0x2E # jnum a2 @ 0x2E # jnum a3 @ 0x2E # jnum a4 @ 0x2F # jnum l"
    unfolding rules by (elim conjE exE) simp
  then show ?r unfolding ipv4_text_def by blast
next
  have octet: "(b', t) \<in> set (rx_run False (Seq (octet_rx # rs)) (b, jnum n @ u))"
    if "n < 256" "(b', t) \<in> set (rx_run False (Seq rs) (False, u))" for n b u rs b' t
    using that unfolding run_seq_octet by blast
  have lit: "(b', t) \<in> set (rx_run False (Seq (Lit [c] # rs)) (b, c # u))"
    if "(b', t) \<in> set (rx_run False (Seq rs) (False, u))" for c b u rs b' t
    using that unfolding run_seq_lit by blast
  have len: "(b', t) \<in> set (rx_run False (Seq [v4_len_rx, End]) (b, jnum n))"
    if "n \<le> 32" "\<not> b'" "t = []" for n b b' t
    using that unfolding run_seq_v4_len run_seq_end by (intro exI [of _ n]) simp
  assume ?r
  then obtain a1 a2 a3 a4 l where "a1 < 256" "a2 < 256" "a3 < 256" "a4 < 256" "l \<le> 32" "b" "\<not> b'" "t = []"
    "s = ipv4_text a1 a2 a3 a4 l" by blast
  then show ?l unfolding run_seq_start v4_rx_def run_seq_seq append_Cons append_Nil ipv4_text_def
    by (simp only: simp_thms) (intro octet lit len TrueI, simp_all)
qed

text \<open>A pattern that needs a unit matches no text without it.\<close>

fun needs :: "int \<Rightarrow> rx \<Rightarrow> bool" where
  "needs u (Lit p) = (u \<in> set p)"
| "needs u (Plus r) = needs u r"
| "needs u (Seq rs) = list_ex (needs u) rs"
| "needs u (Alt rs) = list_all (needs u) rs"
| "needs u _ = False"

lemma lit_run_needs: "lit_run i p s = Some t \<Longrightarrow> \<not> i \<Longrightarrow> u \<in> set p \<Longrightarrow> u \<in> set s"
  by (induction i p s arbitrary: t rule: lit_run.induct) (auto simp: unit_matches_def split: if_splits)

lemma plus_run_first: "y \<in> set (plus_run f n x) \<Longrightarrow> \<exists>z. z \<in> set (f x)"
proof (rule ccontr)
  assume a: "y \<in> set (plus_run f n x)" and "\<nexists>z. z \<in> set (f x)"
  then have "f x = []" by (cases "f x") auto
  then show False using a by (cases n) simp_all
qed

lemma run_subset: "(b', t) \<in> set (rx_run i r (b, s)) \<Longrightarrow> set t \<subseteq> set s"
  using rx_run_suffix(1) by fastforce

lemma run_needs:
  shows "(b', t) \<in> set (rx_run i r (b, s)) \<Longrightarrow> \<not> i \<Longrightarrow> needs u r \<Longrightarrow> u \<in> set s"
    and "(b', t) \<in> set (rx_seq i rs (b, s)) \<Longrightarrow> \<not> i \<Longrightarrow> list_ex (needs u) rs \<Longrightarrow> u \<in> set s"
    and "(b', t) \<in> set (rx_alt i rs (b, s)) \<Longrightarrow> \<not> i \<Longrightarrow> list_all (needs u) rs \<Longrightarrow> u \<in> set s"
proof (induction i r "(b, s)" and i rs "(b, s)" and i rs "(b, s)" arbitrary: b s b' t and b s b' t and b s b' t
    rule: rx_run_rx_seq_rx_alt.induct)
  case (1 i p b s)
  then show ?case by (cases "lit_run i p s") (auto intro: lit_run_needs)
next
  case (8 i r b s)
  have "(b', t) \<in> set (plus_run (rx_run i r) (Suc (length s)) (b, s))" using 8(2) by simp
  from plus_run_first [OF this] obtain b1 t1 where "(b1, t1) \<in> set (rx_run i r (b, s))" by auto
  then show ?case using 8(1) 8(3,4) by simp
next
  case (12 i r rs b s)
  then obtain b1 s1 where m: "(b1, s1) \<in> set (rx_run i r (b, s))" "(b', t) \<in> set (rx_seq i rs (b1, s1))" by auto
  show ?case
  proof (cases "needs u r")
    case True
    then show ?thesis using 12(1) [OF m(1) 12(4)] by blast
  next
    case False
    then have "u \<in> set s1" using 12(2) [OF m 12(4)] 12(5) by simp
    then show ?thesis using run_subset [OF m(1)] by blast
  qed
next
  case (14 i r rs b s)
  then show ?case by auto
qed auto

lemma v6_needs_colon: "needs 0x3A (Seq [Start, v6_rx, Lit [0x2F], v6_len_rx, End])"
  by (simp add: v6_rx_def groups_rx_def Let_def eval_nat_numeral)

lemma rx_test_anchored:
  assumes "\<And>s. rx_run (rx_ignore_case r) (rx_pattern r) (False, s) = []"
  shows "rx_test r s \<longleftrightarrow> rx_run (rx_ignore_case r) (rx_pattern r) (True, s) \<noteq> []"
proof -
  have none: "rx_search (rx_ignore_case r) (rx_pattern r) False s = None" for s
    by (induction s) (simp_all add: assms)
  show ?thesis by (cases s) (auto simp: rx_test_def rx_match_def none split: list.splits)
qed

lemma nonempty_pair: "xs \<noteq> [] \<longleftrightarrow> (\<exists>a b. (a, b) \<in> set xs)"
  by (cases xs) auto

text \<open>A text without a colon is accepted exactly when it is an IPv4 prefix in the usual notation.\<close>

lemma cidr_ipv4:
  assumes "0x3A \<notin> set s"
  shows "rx_test cidr_re s \<longleftrightarrow>
    (\<exists>a < 256. \<exists>b < 256. \<exists>c < 256. \<exists>d < 256. \<exists>l \<le> 32. s = ipv4_text a b c d l)"
proof -
  let ?v4 = "Seq [Start, v4_rx, Lit [0x2F], v4_len_rx, End]"
  let ?v6 = "Seq [Start, v6_rx, Lit [0x2F], v6_len_rx, End]"
  have "rx_run False (Alt [?v4, ?v6]) (False, s) = []" for s by simp
  then have "rx_test cidr_re s \<longleftrightarrow> rx_run False (Alt [?v4, ?v6]) (True, s) \<noteq> []"
    using rx_test_anchored [of cidr_re s] by (simp add: cidr_re_def del: rx_run.simps rx_alt.simps)
  also have "\<dots> \<longleftrightarrow> (\<exists>b' t. (b', t) \<in> set (rx_run False (Alt [?v4, ?v6]) (True, s)))"
    by (rule nonempty_pair)
  also have "\<dots> \<longleftrightarrow> (\<exists>b' t. (b', t) \<in> set (rx_run False ?v4 (True, s)))"
  proof -
    have "(b', t) \<notin> set (rx_run False ?v6 (True, s))" for b' t
      using run_needs(1) [OF _ _ v6_needs_colon] assms by blast
    then show ?thesis unfolding run_alt by simp
  qed
  also have "\<dots> \<longleftrightarrow> (\<exists>a < 256. \<exists>b < 256. \<exists>c < 256. \<exists>d < 256. \<exists>l \<le> 32. s = ipv4_text a b c d l)"
  proof -
    have "(\<exists>b' t. True \<and> \<not> b' \<and> t = [] \<and> P) = P" for P and t :: js by auto
    then show ?thesis unfolding run_v4 .
  qed
  finally show ?thesis .
qed

section \<open>Fields\<close>

lemma js_split_absent: "u \<notin> set s \<Longrightarrow> js_split u s = [s]"
  by (induction s) auto

lemma js_split_append: "u \<notin> set s \<Longrightarrow> js_split u (s @ u # t) = s # js_split u t"
  by (induction s) auto

lemma jnum_no: "\<not> js_digit c \<Longrightarrow> c \<notin> set (jnum n)"
  using jnum_all_digits by blast

lemma jnum_no_sep [simp]: "0x2F \<notin> set (jnum n)" "0x2E \<notin> set (jnum n)" "0x3A \<notin> set (jnum n)"
  by (rule jnum_no; simp add: js_digit_def)+

lemma split_prefix: "0x2F \<notin> set a \<Longrightarrow> js_split 0x2F (a @ 0x2F # jnum l) = [a, jnum l]"
  by (simp add: js_split_append js_split_absent)

lemma ipv4_text_split: "\<exists>a. 0x2F \<notin> set a \<and> ipv4_text a1 a2 a3 a4 l = a @ 0x2F # jnum l"
  by (rule exI [of _ "jnum a1 @ 0x2E # jnum a2 @ 0x2E # jnum a3 @ 0x2E # jnum a4"]) (simp add: ipv4_text_def)

lemma ipv4_text_props: "ipv4_text a b c d l \<noteq> []" "0x3A \<notin> set (ipv4_text a b c d l)" "0x2F \<in> set (ipv4_text a b c d l)"
  by (simp_all add: ipv4_text_def)

lemma to_double_not_nan [simp]: "to_double p q \<noteq> NaN"
  by (simp add: to_double_def Let_def split: prod.split)

lemma as_prefix_digits: "\<not> js_starts_with (js ''as'') (js_lower (jnum n))"
proof -
  obtain c u where cu: "jnum n = c # u" by (cases "jnum n") auto
  then have "js_digit c" using jnum_all_digits [of n] by simp
  then have "unit_lower c \<noteq> 0x61" by (auto simp: js_digit_def unit_lower_def)
  then show ?thesis using cu by (simp add: js_starts_with_def js_lower_def js_def)
qed

text \<open>The ways to write an AS number: with or without \<^verbatim>\<open>AS\<close> in any case of its letters.\<close>

definition asn_texts :: "nat \<Rightarrow> js list" where
  "asn_texts n = map (\<lambda>p. p @ jnum n) [[], js ''AS'', js ''as'', js ''As'', js ''aS'']"

lemma asn_text_number:
  assumes "s \<in> set (asn_texts n)"
  shows "(if js_starts_with (js ''as'') (js_lower s) then drop 2 s else s) = jnum n" "s \<noteq> []"
  using assms as_prefix_digits [of n] jnum_nonempty [of n, symmetric]
  by (auto simp: asn_texts_def js_starts_with_def js_lower_def js_def unit_lower_def)

lemma checkASN_text:
  assumes "s \<in> set (asn_texts n)"
  shows "checkASN (Some s) = None \<longleftrightarrow> n < 2 ^ 32"
proof -
  have "asn_value (Some s) = to_double n 1" using asn_text_number(1) [OF assms] by (simp add: asn_value_def)
  moreover have "num_le (to_double n 1) 4294967295 \<longleftrightarrow> n \<le> 4294967295"
    using num_le_to_double [of 4294967295 n] by simp
  ultimately show ?thesis using asn_text_number(2) [OF assms] by (auto simp: checkASN_def num_ge_to_double simp del: One_nat_def)
qed

lemma jnum_in_texts: "jnum n \<in> set (asn_texts n)"
  by (simp add: asn_texts_def)

lemma num_is_unique: "num_is x j \<Longrightarrow> num_is x k \<Longrightarrow> j = k"
  by (cases x) (auto simp: num_is_def split: if_splits)

section \<open>Carts\<close>

text \<open>Only the table that was used last has a selection, and a cart holds its table's selection or
  nothing.\<close>

definition carts_ok :: "('r \<Rightarrow> action) \<Rightarrow> 'r carts \<Rightarrow> bool" where
  "carts_ok act c \<longleftrightarrow>
     (mine_selection c \<noteq> [] \<longrightarrow> last_table c = Some mine_table) \<and>
     (suggestion_selection c \<noteq> [] \<longrightarrow> last_table c = Some suggestions_table) \<and>
     (mine_cart c = cart_of act (mine_selection c) \<or> mine_cart c = ([], [])) \<and>
     (suggestion_cart c = cart_of act (suggestion_selection c) \<or> suggestion_cart c = ([], []))"

lemma tables_differ [simp]: "mine_table \<noteq> suggestions_table" "suggestions_table \<noteq> mine_table"
  by (simp_all add: mine_table_def suggestions_table_def js_def)

lemma carts_ok_mine: "carts_ok act c \<Longrightarrow> carts_ok act (handleMineSelectionChange act val c)"
  by (auto simp: handleMineSelectionChange.simps [of act val] handleSuggestionSelectionChange.simps [of act "[]"]
      carts_ok_def mine_changed_def suggestion_changed_def)

lemma carts_ok_suggestion: "carts_ok act c \<Longrightarrow> carts_ok act (handleSuggestionSelectionChange act val c)"
  by (auto simp: handleSuggestionSelectionChange.simps [of act val] handleMineSelectionChange.simps [of act "[]"]
      carts_ok_def mine_changed_def suggestion_changed_def)

lemma carts_ok_reset: "carts_ok act c \<Longrightarrow> carts_ok act (resetDeltaCarts c)"
  by (simp add: resetDeltaCarts_def carts_ok_def)

lemma carts_ok_step: "carts_ok act c \<Longrightarrow> carts_ok act (cart_step act e c)"
  by (cases e) (simp_all add: carts_ok_mine carts_ok_suggestion carts_ok_reset)

lemma carts_ok_run: "carts_ok act (cart_run act es)"
proof -
  have "carts_ok act (fold (cart_step act) es c)" if "carts_ok act c" for c
    using that by (induction es arbitrary: c) (auto intro: carts_ok_step)
  moreover have "carts_ok act new_carts" by (simp add: carts_ok_def new_carts_def)
  ultimately show ?thesis by (simp add: cart_run_def)
qed

section \<open>Suggestions\<close>

definition slash_free :: "payload \<Rightarrow> bool" where
  "slash_free p \<longleftrightarrow> 0x2F \<notin> set (p_addr p)"

lemma prefix_length_text: "slash_free p \<Longrightarrow> prefix_length (prefix_text p) = to_double (p_len p) 1"
  by (simp add: prefix_length_def prefix_text_def split_prefix slash_free_def js_nth_def del: One_nat_def)

definition row_key :: "delta_row \<Rightarrow> nat \<times> js \<times> jsnum" where
  "row_key r = (d_asn r, d_prefix r, d_max_length r)"

definition payload_key :: "payload \<Rightarrow> nat \<times> js \<times> jsnum" where
  "payload_key p = (p_asn p, prefix_text p, to_double (the (p_max (into_explicit_max_length p))) 1)"

lemma plain_row_key:
  "slash_free p \<Longrightarrow> p_max p = None \<Longrightarrow> row_key (plain_row a reason p) = payload_key p"
  by (simp add: row_key_def plain_row_def payload_key_def into_explicit_max_length_def prefix_length_text)

lemma announcement_fields [simp]: "prefix_text (announcement p) = prefix_text p" "p_asn (announcement p) = p_asn p"
  "p_len (announcement p) = p_len p" "p_max (announcement p) = None"
  by (simp_all add: announcement_def prefix_text_def)

lemma announcement_key: "slash_free p \<Longrightarrow> row_key (plain_row a reason p) = payload_key (announcement p)"
  by (simp add: row_key_def plain_row_def payload_key_def into_explicit_max_length_def prefix_length_text)

definition additions :: "delta_row list \<Rightarrow> delta_row list" where
  "additions rows = filter (\<lambda>r. d_action r = Add) rows"

lemma additions_append [simp]: "additions (xs @ ys) = additions xs @ additions ys"
  by (simp add: additions_def)

lemma additions_addToDelta [simp]:
  "additions (addToDelta c b ps) = (if b then addToDelta c b ps else [])"
  by (induction ps) (auto simp: additions_def addToDelta_def plain_row_def)

lemma additions_replacement: "additions (too_permissive_rows r) = map (plain_row Add (js ''specific'')) (new r)"
proof -
  have "filter (\<lambda>r. d_action r = Add) (map (plain_row Add x) ps) = map (plain_row Add x) ps" for x ps
    by (induction ps) (auto simp: plain_row_def)
  then show ?thesis by (simp add: additions_def too_permissive_rows_def)
qed

lemma additions_replacements:
  assumes "\<forall>r \<in> set rs. \<forall>p \<in> set (new r). slash_free p \<and> p_max p = None"
  shows "map row_key (additions (concat (map too_permissive_rows rs))) = map payload_key (concat (map new rs))"
  using assms
proof (induction rs)
  case (Cons r rs)
  then show ?case by (simp add: additions_replacement plain_row_key)
qed (simp add: additions_def)

section \<open>Properties\<close>

text \<open>
  C34: A ROA that is entered in the form is the ROA that is sent: for every AS number below \<open>2 ^ 32\<close>,
  written with or without \<^verbatim>\<open>AS\<close>, and every IPv4 prefix, the form is valid and the request carries
  the number, the prefix and the length of the prefix as maximum length.\<close>

theorem roa_entry_is_sent:
  assumes asn: "n < 2 ^ 32" "s \<in> set (asn_texts n)"
    and prefix: "a < 256" "b < 256" "c < 256" "d < 256" "l \<le> 32"
  shows "\<exists>g r. removeAS (f\<lparr>f_asn := Some s\<rparr>) = Some g \<and>
    submitROA (input_prefix (ipv4_text a b c d l) g) = Some r \<and>
    num_is (r_asn r) (int n) \<and> r_prefix r = Some (ipv4_text a b c d l) \<and> num_is (r_max_length r) (int l)"
proof -
  let ?p = "ipv4_text a b c d l"
  obtain g where g: "removeAS (f\<lparr>f_asn := Some s\<rparr>) = Some g" "f_asn g = Some (jnum n)"
    using asn_text_number(1) [OF asn(2)] by (auto simp: removeAS_def Let_def updateMaxLength_def split: option.splits)
  obtain x where x: "0x2F \<notin> set x" "?p = x @ 0x2F # jnum l" using ipv4_text_split by blast
  have i: "input_prefix ?p g = g\<lparr>f_prefix := Some ?p, f_maxLength := jnum l\<rparr>"
    using split_prefix [OF x(1), of l] x(2) ipv4_text_props(3) [of a b c d l]
    by (simp add: input_prefix_def updateMaxLength_def)
  have "rx_test cidr_re ?p" using cidr_ipv4 [OF ipv4_text_props(2)] prefix by blast
  then have "checkPrefix (Some ?p) = None" by (simp add: checkPrefix_def ipv4_text_props)
  moreover have "checkASN (Some (jnum n)) = None" using checkASN_text [OF jnum_in_texts] asn(1) by simp
  ultimately have "submitROA (input_prefix ?p g) = Some (addROA (input_prefix ?p g))"
    using i g(2) by (simp add: submitROA_def)
  moreover have "n < 2 ^ 53" using asn(1) by simp
  moreover have "l < 2 ^ 53" using prefix(5) by simp
  ultimately show ?thesis using g i num_is_to_double [of n] num_is_to_double [of l]
    by (simp add: addROA_def parse_field_def num_or_zero_def del: One_nat_def)
qed

theorem roa_entry_is_sent_witness:
  "\<exists>g r. removeAS \<lparr>f_asn = Some (js ''AS'' @ jnum 64496), f_prefix = None, f_maxLength = []\<rparr> = Some g \<and>
    submitROA (input_prefix (ipv4_text 10 0 0 0 8) g) = Some r \<and>
    num_is (r_asn r) 64496 \<and> num_is (r_max_length r) 8"
proof -
  have "js ''AS'' @ jnum 64496 \<in> set (asn_texts 64496)" by (simp add: asn_texts_def)
  from roa_entry_is_sent [OF _ this, of 10 0 0 0 8 "\<lparr>f_asn = None, f_prefix = None, f_maxLength = []\<rparr>"]
  show ?thesis by auto
qed

text \<open>
  C35: The field of the prefix accepts a text without a colon exactly when it is an IPv4 prefix: four
  numbers below 256 without leading zeros and a length of at most 32.\<close>

theorem prefix_field_ipv4:
  assumes "s \<noteq> []" "0x3A \<notin> set s"
  shows "checkPrefix (Some s) = None \<longleftrightarrow>
    (\<exists>a < 256. \<exists>b < 256. \<exists>c < 256. \<exists>d < 256. \<exists>l \<le> 32. s = ipv4_text a b c d l)"
  using cidr_ipv4 [OF assms(2)] assms(1) by (simp add: checkPrefix_def)

theorem prefix_field_ipv4_witness: "checkPrefix (Some (ipv4_text 192 168 0 0 16)) = None"
proof -
  have "ipv4_text 192 168 0 0 16 \<noteq> []" "0x3A \<notin> set (ipv4_text 192 168 0 0 16)" by (simp_all add: ipv4_text_def)
  moreover have "192 < (256 :: nat)" "168 < (256 :: nat)" "0 < (256 :: nat)" "16 \<le> (32 :: nat)" by simp_all
  ultimately show ?thesis using prefix_field_ipv4 [of "ipv4_text 192 168 0 0 16"] by blast
qed

text \<open>A form that was reset is accepted as it is, and the request that it sends has no AS number and
  no prefix.\<close>

lemma reset_form_is_accepted:
  "\<exists>r. submitROA (resetAddRoaForm f) = Some r \<and> r_asn r = NaN \<and> r_prefix r = None"
proof -
  have "parse_int (js ''null'') = NaN" by code_simp
  then show ?thesis
    by (simp add: submitROA_def resetAddRoaForm_def checkASN_def checkPrefix_def asn_value_def addROA_def parse_field_def)
qed

text \<open>
  C36: The additions that the interface proposes are the ones the server derives from the same
  suggestion, in the same order and with the maximum length made explicit.\<close>

theorem proposed_additions:
  assumes "\<forall>p \<in> set (not_found s @ invalid_asn s @ invalid_length s). slash_free p"
    and "\<forall>r \<in> set (too_permissive s). \<forall>p \<in> set (new r). slash_free p \<and> p_max p = None"
  shows "map row_key (additions (deltaSuggestions s)) = map payload_key (fst (suggested_updates s))"
proof -
  have "map row_key (addToDelta reason True ps) = map payload_key (map announcement ps)"
    if "\<forall>p \<in> set ps. slash_free p" for reason ps
    using that by (simp add: addToDelta_def announcement_key)
  then show ?thesis
    using assms additions_replacements [OF assms(2)] by (simp add: deltaSuggestions_def suggested_updates_def)
qed

theorem proposed_additions_witness:
  "map row_key (additions (deltaSuggestions
      \<lparr>stale = [], not_found = [\<lparr>p_asn = 64496, p_addr = js ''10.0.0.0'', p_len = 8, p_max = None\<rparr>], invalid_asn = [],
       invalid_length = [], too_permissive = [], disallowing = [], redundant = [], not_held = [], as0_redundant = [],
       keep = [], keep_disallowing = []\<rparr>)) = [(64496, js ''10.0.0.0'' @ 0x2F # jnum 8, to_double 8 1)]"
proof -
  have "slash_free \<lparr>p_asn = 64496, p_addr = js ''10.0.0.0'', p_len = 8, p_max = None\<rparr>"
    by (simp add: slash_free_def js_def)
  then show ?thesis
    by (subst proposed_additions)
       (simp_all add: suggested_updates_def payload_key_def announcement_def into_explicit_max_length_def prefix_text_def)
qed

text \<open>
  C37: A suggested removal of a stale, redundant, not held or disallowing ROA does not name the ROA:
  when its maximum length is not the length of its prefix, the row that is sent for it carries
  another maximum length than the ROA has.\<close>

theorem removal_misses_roa:
  assumes "(reason, p) \<in> set (map (Pair (js ''stale'')) (stale s) @ map (Pair (js ''redundant'')) (redundant s) @
      map (Pair (js ''not_held'')) (not_held s) @ map (Pair (js ''disallowing'')) (disallowing s))"
    and "slash_free p" "p_max p = Some m" "m \<noteq> p_len p" "p_len p \<le> 128"
  shows "\<exists>r \<in> set (deltaSuggestions s). d_action r = Remove \<and> d_reason r = reason \<and>
    d_asn r = p_asn p \<and> d_prefix r = prefix_text p \<and> \<not> num_is (d_max_length r) (int m)"
proof -
  let ?r = "plain_row Remove reason p"
  have "?r \<in> set (deltaSuggestions s)"
    using assms(1) by (auto simp: deltaSuggestions_def addToDelta_def)
  moreover have "num_is (to_double (p_len p) 1) (int (p_len p))" using assms(5) by (intro num_is_to_double) simp
  then have "\<not> num_is (to_double (p_len p) 1) (int m)"
    using assms(4) num_is_unique by fastforce
  ultimately show ?thesis using assms(2)
    by (intro bexI [of _ ?r]) (simp_all add: plain_row_def prefix_length_text del: One_nat_def)
qed

theorem removal_misses_roa_witness:
  "\<exists>r \<in> set (deltaSuggestions
      \<lparr>stale = [\<lparr>p_asn = 64496, p_addr = js ''10.0.0.0'', p_len = 8, p_max = Some 24\<rparr>], not_found = [], invalid_asn = [],
       invalid_length = [], too_permissive = [], disallowing = [], redundant = [], not_held = [], as0_redundant = [],
       keep = [], keep_disallowing = []\<rparr>).
    d_action r = Remove \<and> d_asn r = 64496 \<and> \<not> num_is (d_max_length r) 24"
proof -
  let ?p = "\<lparr>p_asn = 64496, p_addr = js ''10.0.0.0'', p_len = 8, p_max = Some 24\<rparr>"
  let ?s = "\<lparr>stale = [?p], not_found = [], invalid_asn = [], invalid_length = [], too_permissive = [], disallowing = [],
    redundant = [], not_held = [], as0_redundant = [], keep = [], keep_disallowing = []\<rparr>"
  have "slash_free ?p" by (simp add: slash_free_def js_def)
  then show ?thesis using removal_misses_roa [of "js ''stale''" ?p ?s 24] by auto
qed

text \<open>The changes that are previewed and sent come from one table only: whatever is selected in the
  two tables, one of the two carts is empty.\<close>

lemma one_cart_is_empty:
  "mine_cart (cart_run act es) = ([], []) \<or> suggestion_cart (cart_run act es) = ([], [])"
proof -
  have "mine_selection (cart_run act es) = [] \<or> suggestion_selection (cart_run act es) = []"
    using carts_ok_run [of act es] by (auto simp: carts_ok_def)
  moreover have "cart_of act [] = ([], [])" by (simp add: cart_of_def)
  ultimately show ?thesis using carts_ok_run [of act es] by (auto simp: carts_ok_def)
qed

end
