(* ===== verification/Ip6Addr.thy ===== *)
theory Ip6Addr
  imports LagostaRoas
begin

text \<open>
  Addresses and networks as the user interface orders them (\<^verbatim>\<open>src/lagosta/js/app.js\<close>, package
  \<^verbatim>\<open>ip6addr\<close> with \<^verbatim>\<open>parseInteger\<close> of \<^verbatim>\<open>jsprim\<close>): the reader of addresses in colon and dotted notation,
  networks with their masks, and the comparison of two networks by which the table of
  announcements is sorted.  An error that is raised is a value of type \<open>ip_error\<close>.
\<close>

unbundle bit_operations_syntax

datatype ip_error =
    InputTooLong
  | MultipleDelimiters
  | IllegalDelimiter
  | EndsWithDelimiter
  | TooManyFields
  | TooFewFields
  | Ipv4Fields
  | InvalidField
  | InvalidQuad
  | NotACidr
  | InvalidPrefixLength

record addr =
  addr_fields :: "nat list"
  ipv4Bare :: bool
  ipv4Mapped :: bool

text \<open>\<^verbatim>\<open>parseInteger\<close> with a base, no sign, no prefix and no trailing text; the largest safe integer is
  the bound.\<close>

definition parseInteger :: "nat \<Rightarrow> js \<Rightarrow> nat option" where
  "parseInteger base s =
     (if s \<noteq> [] \<and> list_all (\<lambda>c. unit_digit c < base) s \<and> digits_value base s \<le> 9007199254740991
      then Some (digits_value base s) else None)"

text \<open>The loop over the text: the fields so far, the dotted fields, the place of \<^verbatim>\<open>::\<close> and the field that
  is being read.\<close>

record scan =
  s_fields :: "js list"
  s_quads :: "js list"
  s_gap :: "nat option"
  s_field :: js

fun scan_text :: "js \<Rightarrow> scan \<Rightarrow> ip_error + scan" where
  "scan_text [] st = Inr st"
| "scan_text (c # cs) st =
     (if c = 0x3A then
        (case cs of
           d # ds \<Rightarrow>
             if d = 0x3A then
               if s_gap st \<noteq> None then Inl MultipleDelimiters
               else
                 let fs = (if s_field st \<noteq> [] then s_fields st @ [s_field st] else s_fields st)
                 in scan_text ds (st\<lparr>s_fields := fs, s_gap := Some (length fs), s_field := []\<rparr>)
             else if s_field st = [] then Inl IllegalDelimiter
             else scan_text cs (st\<lparr>s_fields := s_fields st @ [s_field st], s_field := []\<rparr>)
         | [] \<Rightarrow>
             if s_field st = [] then Inl IllegalDelimiter
             else scan_text cs (st\<lparr>s_fields := s_fields st @ [s_field st], s_field := []\<rparr>))
      else if c = 0x2E then scan_text cs (st\<lparr>s_quads := s_quads st @ [s_field st], s_field := []\<rparr>)
      else scan_text cs (st\<lparr>s_field := s_field st @ [c]\<rparr>))"

text \<open>After the loop: the last field, the number of fields, and the form of a bare IPv4 address.\<close>

definition close_field :: "scan \<Rightarrow> ip_error + scan" where
  "close_field st =
     (if s_field st \<noteq> [] then
        Inr (if s_quads st \<noteq> [] then st\<lparr>s_quads := s_quads st @ [s_field st], s_field := []\<rparr>
             else st\<lparr>s_fields := s_fields st @ [s_field st], s_field := []\<rparr>)
      else if s_gap st \<noteq> Some (length (s_fields st)) \<or> s_quads st \<noteq> [] then Inl EndsWithDelimiter
      else Inr st)"

definition count_fields :: "scan \<Rightarrow> ip_error + (scan \<times> bool)" where
  "count_fields st =
     (if s_quads st = [] then
        if length (s_fields st) > 8 then Inl TooManyFields
        else if length (s_fields st) < 8 \<and> s_gap st = None then Inl TooFewFields
        else Inr (st, False)
      else if length (s_quads st) \<noteq> 4 then Inl Ipv4Fields
      else
        let bare = (s_fields st = [] \<and> s_gap st = None);
            u = (if bare then st\<lparr>s_fields := [js ''ffff''], s_gap := Some 0\<rparr> else st)
        in if length (s_fields u) > 6 then Inl TooManyFields
           else if length (s_fields u) < 6 \<and> s_gap u = None then Inl TooFewFields
           else Inr (u, bare))"

fun parse_fields :: "nat \<Rightarrow> nat \<Rightarrow> js list \<Rightarrow> ip_error + nat list" where
  "parse_fields base limit [] = Inr []"
| "parse_fields base limit (f # fs) =
     (case parseInteger base f of
        None \<Rightarrow> Inl InvalidField
      | Some v \<Rightarrow>
          if v > limit then Inl InvalidField
          else rbind (parse_fields base limit fs) (\<lambda>vs. Inr (v # vs)))"

definition fill_gap :: "nat option \<Rightarrow> nat list \<Rightarrow> nat list" where
  "fill_gap gap vs =
     (case gap of
        Some d \<Rightarrow> if length vs < 8 then take d vs @ replicate (8 - length vs) 0 @ drop d vs else vs
      | None \<Rightarrow> vs)"

definition mapped :: "nat list \<Rightarrow> bool" where
  "mapped vs \<longleftrightarrow> take 6 vs = [0, 0, 0, 0, 0, 65535]"

definition parseString :: "js \<Rightarrow> ip_error + addr" where
  "parseString text =
     (let s = js_lower text in
      if length s > 40 then Inl InputTooLong
      else rbind (scan_text s \<lparr>s_fields = [], s_quads = [], s_gap = None, s_field = []\<rparr>) (\<lambda>st.
        rbind (close_field st) (\<lambda>st.
        rbind (count_fields st) (\<lambda>(st, bare).
        rbind (parse_fields 16 65535 (s_fields st)) (\<lambda>us.
        rbind (parse_fields 10 255 (s_quads st)) (\<lambda>qs.
          let ws = (if qs \<noteq> [] then us @ [256 * qs ! 0 + qs ! 1, 256 * qs ! 2 + qs ! 3] else us);
              vs = fill_gap (s_gap st) ws
          in if qs \<noteq> [] \<and> \<not> mapped vs then Inl InvalidQuad
             else Inr \<lparr>addr_fields = vs, ipv4Bare = bare, ipv4Mapped = qs \<noteq> []\<rparr>))))))"

section \<open>Networks\<close>

record cidr =
  c_addr :: "nat list"
  c_prefix :: nat

text \<open>The mask of a prefix length, field by field, and its application.\<close>

definition mask_field :: "nat \<Rightarrow> nat \<Rightarrow> nat" where
  "mask_field len i =
     (if 16 * (i + 1) < len then 65535
      else if 16 * i < len then 65535 - (2 ^ (16 - (len - 16 * i)) - 1)
      else 0)"

definition apply_mask :: "nat \<Rightarrow> nat list \<Rightarrow> nat list" where
  "apply_mask len vs = map2 (\<lambda>v i. v AND mask_field len i) vs [0..<8]"

text \<open>\<^verbatim>\<open>t | 0\<close> on a natural number: the value as a signed 32 bit integer.\<close>

definition to_int32 :: "nat \<Rightarrow> int" where
  "to_int32 n = (let m = int n mod 2 ^ 32 in if m < 2 ^ 31 then m else m - 2 ^ 32)"

definition cidr_chars :: "int \<Rightarrow> bool" where
  "cidr_chars c \<longleftrightarrow>
     (0x61 \<le> c \<and> c \<le> 0x66) \<or> (0x41 \<le> c \<and> c \<le> 0x46) \<or> (0x30 \<le> c \<and> c \<le> 0x39) \<or> c = 0x3A \<or> c = 0x2E"

definition createCIDR :: "js \<Rightarrow> ip_error + cidr" where
  "createCIDR text =
     (case js_split 0x2F text of
        [a, l] \<Rightarrow>
          if a \<noteq> [] \<and> list_all cidr_chars a \<and> l \<noteq> [] \<and> list_all js_digit l then
            rbind (parseString a) (\<lambda>x.
              let t = to_int32 (digits_value 10 l) + (if ipv4Bare x then 96 else 0)
              in if t < 0 \<or> t > 128 then Inl InvalidPrefixLength
                 else Inr \<lparr>c_addr = apply_mask (nat t) (addr_fields x), c_prefix = nat t\<rparr>)
          else Inl NotACidr
      | _ \<Rightarrow> Inl NotACidr)"

fun compare_fields :: "nat list \<Rightarrow> nat list \<Rightarrow> int" where
  "compare_fields (x # xs) (y # ys) = (if x < y then - 1 else if y < x then 1 else compare_fields xs ys)"
| "compare_fields _ _ = 0"

definition compare_cidr :: "cidr \<Rightarrow> cidr \<Rightarrow> int" where
  "compare_cidr e t =
     (let n = compare_fields (c_addr e) (c_addr t)
      in if n = 0 then int (c_prefix t) - int (c_prefix e) else n)"

definition compareCIDR :: "js \<Rightarrow> js \<Rightarrow> ip_error + int" where
  "compareCIDR a b = rbind (createCIDR a) (\<lambda>x. rbind (createCIDR b) (\<lambda>y. Inr (compare_cidr x y)))"

section \<open>The comparison\<close>

lemma compare_fields_refl [simp]: "compare_fields xs xs = 0"
  by (induction xs) auto

lemma compare_fields_sym: "compare_fields ys xs = - compare_fields xs ys"
  by (induction xs ys rule: compare_fields.induct) auto

lemma compare_fields_range: "compare_fields xs ys \<in> {- 1, 0, 1}"
  by (induction xs ys rule: compare_fields.induct) auto

lemma compare_fields_zero: "length xs = length ys \<Longrightarrow> compare_fields xs ys = 0 \<longleftrightarrow> xs = ys"
  by (induction xs ys rule: list_induct2) auto

lemma compare_fields_trans:
  assumes "length xs = length ys" "length ys = length zs" "compare_fields xs ys \<le> 0" "compare_fields ys zs \<le> 0"
  shows "compare_fields xs zs \<le> 0 \<and> (compare_fields xs zs = 0 \<longrightarrow> compare_fields xs ys = 0 \<and> compare_fields ys zs = 0)"
  using assms by (induction xs ys zs rule: list_induct3) (auto split: if_splits)

lemma compare_cidr_sym: "compare_cidr t e = - compare_cidr e t"
  by (simp add: compare_cidr_def Let_def compare_fields_sym [of "c_addr e"])

lemma compare_cidr_zero:
  "length (c_addr e) = length (c_addr t) \<Longrightarrow> compare_cidr e t = 0 \<longleftrightarrow> c_addr e = c_addr t \<and> c_prefix e = c_prefix t"
  by (auto simp: compare_cidr_def Let_def compare_fields_zero)

lemma compare_cidr_trans:
  assumes "length (c_addr x) = length (c_addr y)" "length (c_addr y) = length (c_addr z)"
    and "compare_cidr x y \<le> 0" "compare_cidr y z \<le> 0"
  shows "compare_cidr x z \<le> 0"
proof -
  have "compare_fields (c_addr x) (c_addr y) \<le> 0" "compare_fields (c_addr y) (c_addr z) \<le> 0"
    using assms(3,4) by (auto simp: compare_cidr_def Let_def split: if_splits)
  from compare_fields_trans [OF assms(1,2) this] assms(3,4) show ?thesis
    by (auto simp: compare_cidr_def Let_def split: if_splits)
qed

lemma length_apply_mask [simp]: "length (apply_mask len vs) = min (length vs) 8"
  by (simp add: apply_mask_def)

section \<open>Addresses have eight fields\<close>

lemma parse_fields_length: "parse_fields base limit fs = Inr vs \<Longrightarrow> length vs = length fs"
  by (induction base limit fs arbitrary: vs rule: parse_fields.induct)
     (auto simp: rbind_def split: option.splits if_splits sum.splits)

lemma fill_gap_length:
  "length vs \<le> 8 \<Longrightarrow> length vs < 8 \<Longrightarrow> gap \<noteq> None \<Longrightarrow> length (fill_gap gap vs) = 8"
  "length vs = 8 \<Longrightarrow> length (fill_gap gap vs) = 8"
  by (auto simp: fill_gap_def split: option.splits)

lemma count_fields_shape:
  assumes "count_fields st = Inr (u, bare)"
  shows "s_quads u = [] \<and> length (s_fields u) \<le> 8 \<and> (length (s_fields u) < 8 \<longrightarrow> s_gap u \<noteq> None) \<or>
    length (s_quads u) = 4 \<and> length (s_fields u) \<le> 6 \<and> (length (s_fields u) < 6 \<longrightarrow> s_gap u \<noteq> None)"
  using assms by (auto simp: count_fields_def Let_def split: if_splits)

lemma rbind_InrE:
  assumes "rbind r f = Inr y"
  obtains x where "r = Inr x" "f x = Inr y"
  using assms by (auto simp: rbind_def split: sum.splits)

lemma parseString_length:
  assumes "parseString s = Inr x"
  shows "length (addr_fields x) = 8"
proof -
  obtain st u bare us qs where
    u: "count_fields st = Inr (u, bare)"
    and us: "parse_fields 16 65535 (s_fields u) = Inr us" and qs: "parse_fields 10 255 (s_quads u) = Inr qs"
    and x: "addr_fields x = fill_gap (s_gap u) (if qs \<noteq> [] then us @ [256 * qs ! 0 + qs ! 1, 256 * qs ! 2 + qs ! 3] else us)"
    using assms by (auto simp: parseString_def Let_def elim!: rbind_InrE split: if_splits)
  have l: "length us = length (s_fields u)" "length qs = length (s_quads u)"
    using parse_fields_length us qs by blast+
  from count_fields_shape [OF u] show ?thesis
  proof (elim disjE conjE)
    assume *: "s_quads u = []" "length (s_fields u) \<le> 8" "length (s_fields u) < 8 \<longrightarrow> s_gap u \<noteq> None"
    then show ?thesis using l x fill_gap_length [of us "s_gap u"] by (cases "length us = 8") auto
  next
    let ?w = "us @ [256 * qs ! 0 + qs ! 1, 256 * qs ! 2 + qs ! 3]"
    assume *: "length (s_quads u) = 4" "length (s_fields u) \<le> 6" "length (s_fields u) < 6 \<longrightarrow> s_gap u \<noteq> None"
    then have "qs \<noteq> []" using l by auto
    then show ?thesis using * l x fill_gap_length [of ?w "s_gap u"] by (cases "length us = 6") auto
  qed
qed

lemma createCIDR_length: "createCIDR s = Inr x \<Longrightarrow> length (c_addr x) = 8"
  by (auto simp: createCIDR_def Let_def parseString_length elim!: rbind_InrE split: list.splits if_splits)

lemma createCIDR_prefix: "createCIDR s = Inr x \<Longrightarrow> c_prefix x \<le> 128"
  by (auto simp: createCIDR_def Let_def elim!: rbind_InrE split: list.splits if_splits)

lemma compareCIDR_eq: "createCIDR a = Inr x \<Longrightarrow> createCIDR b = Inr y \<Longrightarrow> compareCIDR a b = Inr (compare_cidr x y)"
  by (simp add: compareCIDR_def rbind_def)

section \<open>IPv4 prefixes\<close>

lemma unit_lower_small: "c < 0x41 \<Longrightarrow> unit_lower c = c"
  by (simp add: unit_lower_def)

lemma js_lower_digits: "\<forall>c \<in> set s. js_digit c \<or> c = 0x2E \<Longrightarrow> js_lower s = s"
  unfolding js_lower_def by (rule map_idI) (auto simp: js_digit_def intro!: unit_lower_small)

lemma digit_not_delimiter: "js_digit c \<Longrightarrow> c \<noteq> 0x3A \<and> c \<noteq> 0x2E"
  by (auto simp: js_digit_def)

lemma scan_digits:
  "\<forall>c \<in> set ds. js_digit c \<Longrightarrow> scan_text (ds @ s) st = scan_text s (st\<lparr>s_field := s_field st @ ds\<rparr>)"
  by (induction ds arbitrary: st) (auto dest: digit_not_delimiter)

lemma scan_jnum: "scan_text (jnum n @ s) st = scan_text s (st\<lparr>s_field := s_field st @ jnum n\<rparr>)"
  by (rule scan_digits) (rule jnum_all_digits)

lemma scan_jnum_end: "scan_text (jnum n) st = Inr (st\<lparr>s_field := s_field st @ jnum n\<rparr>)"
  using scan_jnum [of n "[]"] by simp

lemma parseInteger_jnum: "n \<le> 255 \<Longrightarrow> parseInteger 10 (jnum n) = Some n"
  using jnum_all_digits [of n] by (auto simp: parseInteger_def list_all_iff unit_digit_js_digit)

lemma parseInteger_ffff: "parseInteger 16 (js ''ffff'') = Some 65535"
  by (simp add: parseInteger_def js_def unit_digit_def digits_value_def)

definition quad_text :: "nat \<Rightarrow> nat \<Rightarrow> nat \<Rightarrow> nat \<Rightarrow> js" where
  "quad_text a b c d = jnum a @ 0x2E # jnum b @ 0x2E # jnum c @ 0x2E # jnum d"

lemma jnum_short: "n < 256 \<Longrightarrow> length (jnum n) \<le> 3"
proof -
  assume n: "n < 256"
  consider "n < 10" | "10 \<le> n" "n < 100" | "100 \<le> n" by linarith
  then show ?thesis
  proof cases
    case 1
    then show ?thesis by (simp add: jnum_1)
  next
    case 2
    then show ?thesis using two_digits [of n] by force
  next
    case 3
    then have "n div 10 div 10 < 10" "10 \<le> n" "10 \<le> n div 10" using n by (simp_all add: less_mult_imp_div_less)
    then show ?thesis by (subst jnum_digits, subst jnum_digits, subst jnum_digits) simp
  qed
qed

lemma parse_quad:
  assumes "a < 256" "b < 256" "c < 256" "d < 256"
  shows "parseString (quad_text a b c d) =
    Inr \<lparr>addr_fields = [0, 0, 0, 0, 0, 65535, 256 * a + b, 256 * c + d], ipv4Bare = True, ipv4Mapped = True\<rparr>"
proof -
  have low: "js_lower (quad_text a b c d) = quad_text a b c d"
    using jnum_all_digits by (intro js_lower_digits) (auto simp: quad_text_def)
  have len: "length (quad_text a b c d) \<le> 40"
    using jnum_short [OF assms(1)] jnum_short [OF assms(2)] jnum_short [OF assms(3)] jnum_short [OF assms(4)]
    by (simp add: quad_text_def)
  have scan: "scan_text (quad_text a b c d) \<lparr>s_fields = [], s_quads = [], s_gap = None, s_field = []\<rparr> =
      Inr \<lparr>s_fields = [], s_quads = [jnum a, jnum b, jnum c], s_gap = None, s_field = jnum d\<rparr>"
    by (simp add: quad_text_def scan_jnum scan_jnum_end)
  have rep: "replicate 5 (0 :: nat) = [0, 0, 0, 0, 0]" by (simp add: eval_nat_numeral)
  have fields: "parse_fields 16 65535 [js ''ffff''] = Inr [65535]"
    by (simp add: parseInteger_ffff rbind_def)
  have quads: "parse_fields 10 255 [jnum a, jnum b, jnum c, jnum d] = Inr [a, b, c, d]"
    using assms by (simp add: parseInteger_jnum rbind_def)
  show ?thesis using len
    by (simp add: parseString_def low scan rbind_def close_field_def count_fields_def Let_def fields quads fill_gap_def
        mapped_def rep del: parse_fields.simps)
qed

text \<open>The texts of IPv4 prefixes that the form accepts are networks.\<close>

lemma ipv4_text_quad: "ipv4_text a b c d l = quad_text a b c d @ 0x2F # jnum l"
  by (simp add: ipv4_text_def quad_text_def)

lemma createCIDR_ipv4:
  assumes "a < 256" "b < 256" "c < 256" "d < 256" "l \<le> 32"
  shows "createCIDR (ipv4_text a b c d l) =
    Inr \<lparr>c_addr = apply_mask (96 + l) [0, 0, 0, 0, 0, 65535, 256 * a + b, 256 * c + d], c_prefix = 96 + l\<rparr>"
proof -
  have q: "0x2F \<notin> set (quad_text a b c d)" "quad_text a b c d \<noteq> []" "list_all cidr_chars (quad_text a b c d)"
    using jnum_all_digits by (auto simp: quad_text_def list_all_iff cidr_chars_def js_digit_def)
  have l: "to_int32 l = int l"
    using assms(5) by (simp add: to_int32_def Let_def)
  show ?thesis
    using assms q jnum_all_digits [of l]
    by (simp add: createCIDR_def ipv4_text_quad split_prefix parse_quad rbind_def l Let_def list_all_iff nat_add_distrib add.commute)
qed

end
