(* ===== verification/JsSort.thy ===== *)
theory JsSort
  imports Ip6Addr "HOL-Library.Multiset"
begin

text \<open>
  \<^verbatim>\<open>Array.prototype.sort\<close> with a comparison function.  The language fixes the result when the
  comparison is consistent: a stable sorted permutation.  The locale \<open>comparison\<close> is the contract
  that a comparison has to meet, on the values that it is called with; it is interpreted on the
  comparisons that the table of announcements uses.
\<close>

fun js_insert :: "('a \<Rightarrow> 'a \<Rightarrow> int) \<Rightarrow> 'a \<Rightarrow> 'a list \<Rightarrow> 'a list" where
  "js_insert cmp x [] = [x]"
| "js_insert cmp x (y # ys) = (if cmp x y \<le> 0 then x # y # ys else y # js_insert cmp x ys)"

definition js_sort :: "('a \<Rightarrow> 'a \<Rightarrow> int) \<Rightarrow> 'a list \<Rightarrow> 'a list" where
  "js_sort cmp xs = foldr (js_insert cmp) xs []"

text \<open>Texts are compared unit by unit.\<close>

fun js_compare :: "js \<Rightarrow> js \<Rightarrow> int" where
  "js_compare [] [] = 0"
| "js_compare [] (y # ys) = - 1"
| "js_compare (x # xs) [] = 1"
| "js_compare (x # xs) (y # ys) = (if x < y then - 1 else if y < x then 1 else js_compare xs ys)"

definition nat_compare :: "nat \<Rightarrow> nat \<Rightarrow> int" where
  "nat_compare m n = (if m < n then - 1 else if n < m then 1 else 0)"

lemma mset_js_insert [simp]: "mset (js_insert cmp x xs) = {#x#} + mset xs"
  by (induction xs) auto

lemma mset_js_sort [simp]: "mset (js_sort cmp xs) = mset xs"
  by (induction xs) (auto simp: js_sort_def)

lemma set_js_insert [simp]: "set (js_insert cmp x xs) = {x} \<union> set xs"
  by (induction xs) auto

lemma set_js_sort [simp]: "set (js_sort cmp xs) = set xs"
  by (induction xs) (auto simp: js_sort_def)

lemma js_sort_Cons: "js_sort cmp (x # xs) = js_insert cmp x (js_sort cmp xs)"
  by (simp add: js_sort_def)

lemma length_js_sort [simp]: "length (js_sort cmp xs) = length xs"
proof -
  have "size (mset (js_sort cmp xs)) = size (mset xs)" by simp
  then show ?thesis by (simp only: size_mset)
qed

definition in_order :: "('a \<Rightarrow> 'a \<Rightarrow> int) \<Rightarrow> 'a list \<Rightarrow> bool" where
  "in_order cmp xs \<longleftrightarrow> sorted_wrt (\<lambda>x y. cmp x y \<le> 0) xs"

section \<open>The contract of a comparison\<close>

locale comparison =
  fixes cmp :: "'a \<Rightarrow> 'a \<Rightarrow> int" and ok :: "'a \<Rightarrow> bool"
  assumes cmp_opposite: "ok x \<Longrightarrow> ok y \<Longrightarrow> cmp y x = - cmp x y"
    and cmp_trans: "ok x \<Longrightarrow> ok y \<Longrightarrow> ok z \<Longrightarrow> cmp x y \<le> 0 \<Longrightarrow> cmp y z \<le> 0 \<Longrightarrow> cmp x z \<le> 0"
begin

lemma in_order_insert: "ok x \<Longrightarrow> list_all ok xs \<Longrightarrow> in_order cmp xs \<Longrightarrow> in_order cmp (js_insert cmp x xs)"
proof (induction xs)
  case (Cons y ys)
  show ?case
  proof (cases "cmp x y \<le> 0")
    case True
    have "cmp x z \<le> 0" if "z \<in> set ys" for z
      using that True Cons.prems cmp_trans [of x y z] by (auto simp: in_order_def list_all_iff)
    then show ?thesis using True Cons.prems by (simp add: in_order_def)
  next
    case False
    then have "cmp y x \<le> 0" using cmp_opposite [of x y] Cons.prems by simp
    then show ?thesis using Cons False by (simp add: in_order_def)
  qed
qed (simp add: in_order_def)

lemma in_order_sort: "list_all ok xs \<Longrightarrow> in_order cmp (js_sort cmp xs)"
proof (induction xs)
  case (Cons x xs)
  then show ?case by (simp add: js_sort_Cons in_order_insert list_all_iff)
qed (simp add: js_sort_def in_order_def)

text \<open>The comparison turned round keeps the laws.\<close>

lemma directed_opposite: "ok x \<Longrightarrow> ok y \<Longrightarrow> cmp y x * d = - (cmp x y * d)"
  by (subst cmp_opposite) simp_all

lemma directed_trans:
  assumes ok: "ok x" "ok y" "ok z" and d: "d = 1 \<or> d = - 1"
    and le: "cmp x y * d \<le> 0" "cmp y z * d \<le> 0"
  shows "cmp x z * d \<le> 0"
  using d
proof
  assume "d = 1"
  then show ?thesis using le cmp_trans [OF ok] by simp
next
  assume "d = - 1"
  then have "cmp y x \<le> 0" "cmp z y \<le> 0"
    using le cmp_opposite [OF ok(1,2)] cmp_opposite [OF ok(2,3)] by simp_all
  then have "cmp z x \<le> 0" using cmp_trans [OF ok(3,2,1)] by simp
  then show ?thesis using \<open>d = - 1\<close> cmp_opposite [OF ok(1,3)] by simp
qed

text \<open>Equal elements keep their order.\<close>

lemma stable_insert:
  assumes "ok a" "ok x" "list_all ok xs" "in_order cmp xs"
  shows "filter (\<lambda>y. cmp a y = 0) (js_insert cmp x xs) = filter (\<lambda>y. cmp a y = 0) (x # xs)"
  using assms
proof (induction xs)
  case (Cons y ys)
  show ?case
  proof (cases "cmp x y \<le> 0")
    case False
    have "\<not> (cmp a x = 0 \<and> cmp a y = 0)"
    proof
      assume z: "cmp a x = 0 \<and> cmp a y = 0"
      then have "cmp x a \<le> 0" using cmp_opposite [of a x] Cons.prems by simp
      then have "cmp x y \<le> 0" using cmp_trans [of x a y] z Cons.prems by simp
      then show False using False by simp
    qed
    then show ?thesis using Cons False by (auto simp: in_order_def)
  qed simp
qed simp

lemma stable_sort:
  "ok a \<Longrightarrow> list_all ok xs \<Longrightarrow> filter (\<lambda>y. cmp a y = 0) (js_sort cmp xs) = filter (\<lambda>y. cmp a y = 0) xs"
proof (induction xs)
  case (Cons x xs)
  then show ?case
    using stable_insert [of a x "js_sort cmp xs"] in_order_sort [of xs] by (simp add: js_sort_Cons list_all_iff)
qed (simp add: js_sort_def)

end

section \<open>Comparisons of numbers, texts and networks\<close>

lemma js_compare_opposite: "js_compare y x = - js_compare x y"
  by (induction x y rule: js_compare.induct) auto

lemma js_compare_trans: "js_compare x y \<le> 0 \<Longrightarrow> js_compare y z \<le> 0 \<Longrightarrow> js_compare x z \<le> 0"
proof (induction x y arbitrary: z rule: js_compare.induct)
  case (2 y ys)
  then show ?case by (cases z) auto
next
  case (4 x xs y ys)
  show ?case
  proof (cases z)
    case Nil
    then show ?thesis using 4 by simp
  next
    case (Cons w ws)
    have xy: "x < y \<or> x = y \<and> js_compare xs ys \<le> 0" using 4(2) by (simp split: if_splits)
    have yw: "y < w \<or> y = w \<and> js_compare ys ws \<le> 0" using 4(3) Cons by (simp split: if_splits)
    have "x = y \<Longrightarrow> js_compare xs ys \<le> 0 \<Longrightarrow> js_compare ys ws \<le> 0 \<Longrightarrow> js_compare xs ws \<le> 0"
      using 4(1) [of ws] by simp
    then have "x < w \<or> x = w \<and> js_compare xs ws \<le> 0" using xy yw by linarith
    then show ?thesis using Cons by auto
  qed
qed auto

lemma js_compare_zero: "js_compare x y = 0 \<longleftrightarrow> x = y"
  by (induction x y rule: js_compare.induct) auto

interpretation texts: comparison js_compare "\<lambda>_. True"
  by unfold_locales (rule js_compare_opposite, rule js_compare_trans)

interpretation numbers: comparison nat_compare "\<lambda>_. True"
  by unfold_locales (auto simp: nat_compare_def split: if_splits)

interpretation networks: comparison compare_cidr "\<lambda>x. length (c_addr x) = 8"
  by unfold_locales (rule compare_cidr_sym, rule compare_cidr_trans, simp_all)

end
