(* ===== verification/LagostaTable.thy ===== *)
theory LagostaTable
  imports JsSort
begin

text \<open>
  The table of announcements and ROAs (\<^verbatim>\<open>src/lagosta/js/app.js\<close>, components \<^verbatim>\<open>AnnouncementsROAs\<close>
  and \<^verbatim>\<open>StateVisualizer\<close>): which entries of the server's analysis are kept, the order, the search
  and the pages of the table, and the tags that show the state of an entry.  The states themselves
  are the server's (\<^verbatim>\<open>src/src/commons/bgp/report.rs\<close>).

  The timers that delay the filter are left out: the filter runs on the state that the table has
  when the last timer fires.  The translated labels of the states are a parameter.
\<close>

section \<open>The states of an entry\<close>

datatype bgp_state =
    RoaSeen
  | RoaRedundant
  | RoaUnseen
  | RoaDisallowing
  | RoaTooPermissive
  | RoaAs0
  | RoaAs0Redundant
  | RoaNotHeld
  | AnnouncementValid
  | AnnouncementInvalidLength
  | AnnouncementInvalidAsn
  | AnnouncementDisallowed
  | AnnouncementNotFound
  | RoaNoAnnouncementInfo

fun state_text :: "bgp_state \<Rightarrow> js" where
  "state_text RoaSeen = js ''roa_seen''"
| "state_text RoaRedundant = js ''roa_redundant''"
| "state_text RoaUnseen = js ''roa_unseen''"
| "state_text RoaDisallowing = js ''roa_disallowing''"
| "state_text RoaTooPermissive = js ''roa_too_permissive''"
| "state_text RoaAs0 = js ''roa_as0''"
| "state_text RoaAs0Redundant = js ''roa_as0_redundant''"
| "state_text RoaNotHeld = js ''roa_not_held''"
| "state_text AnnouncementValid = js ''announcement_valid''"
| "state_text AnnouncementInvalidLength = js ''announcement_invalid_length''"
| "state_text AnnouncementInvalidAsn = js ''announcement_invalid_asn''"
| "state_text AnnouncementDisallowed = js ''announcement_disallowed''"
| "state_text AnnouncementNotFound = js ''announcement_not_found''"
| "state_text RoaNoAnnouncementInfo = js ''roa_no_announcement_info''"

definition all_states :: "bgp_state list" where
  "all_states = [RoaSeen, RoaRedundant, RoaUnseen, RoaDisallowing, RoaTooPermissive, RoaAs0, RoaAs0Redundant, RoaNotHeld,
     AnnouncementValid, AnnouncementInvalidLength, AnnouncementInvalidAsn, AnnouncementDisallowed, AnnouncementNotFound,
     RoaNoAnnouncementInfo]"

text \<open>The states of an announcement; the entries of all others carry a configured ROA with its
  maximum length.\<close>

definition is_announcement :: "bgp_state \<Rightarrow> bool" where
  "is_announcement s \<longleftrightarrow>
     s \<in> {AnnouncementValid, AnnouncementInvalidLength, AnnouncementInvalidAsn, AnnouncementDisallowed, AnnouncementNotFound}"

section \<open>Entries\<close>

record entry =
  e_asn :: nat
  e_prefix :: js
  e_max_length :: "nat option"
  e_state :: js
  e_authorizes :: "(nat \<times> js) list option"
  e_disallows :: "(nat \<times> js) list option"

text \<open>The filter of \<^verbatim>\<open>loadAnnouncements\<close>.\<close>

definition load_keeps :: "entry \<Rightarrow> bool" where
  "load_keeps a \<longleftrightarrow>
     e_max_length a \<noteq> None \<or> e_state a = js ''announcement_not_found'' \<or> js_contains (js ''invalid_'') (e_state a)"

text \<open>The tags of \<^verbatim>\<open>StateVisualizer\<close>: one for the state, and the numbers of announcements that the ROA
  authorises and disallows.\<close>

datatype tag = StateTag js js | CountTag js nat

definition state_tag :: "js \<Rightarrow> js \<Rightarrow> js \<Rightarrow> tag list" where
  "state_tag state name kind = (if state = name then [StateTag kind name] else [])"

definition count_tag :: "js \<Rightarrow> (nat \<times> js) list option \<Rightarrow> tag list" where
  "count_tag kind as =
     (case as of None \<Rightarrow> [] | Some l \<Rightarrow> if l = [] then [] else [CountTag kind (length l)])"

definition state_tags :: "entry \<Rightarrow> tag list" where
  "state_tags a =
     (let s = e_state a; success = js ''success''; warning = js ''warning''; danger = js ''danger''; info = js ''info''
      in state_tag s (js ''roa_seen'') success @
         state_tag s (js ''roa_too_permissive'') warning @
         state_tag s (js ''roa_disallowing'') warning @
         state_tag s (js ''roa_as0'') warning @
         state_tag s (js ''roa_as0_redundant'') warning @
         state_tag s (js ''roa_redundant'') warning @
         state_tag s (js ''roa_not_held'') danger @
         count_tag success (e_authorizes a) @
         count_tag warning (e_disallows a) @
         state_tag s (js ''announcement_not_found'') info @
         state_tag s (js ''roa_unseen'') warning @
         state_tag s (js ''announcement_invalid_length'') danger @
         state_tag s (js ''announcement_invalid_asn'') danger @
         state_tag s (js ''roa_no_announcement_info'') danger)"

text \<open>A maximum length of zero counts as none.\<close>

definition has_max_length :: "entry \<Rightarrow> bool" where
  "has_max_length a \<longleftrightarrow> (case e_max_length a of None \<Rightarrow> False | Some m \<Rightarrow> m \<noteq> 0)"

definition getRowClass :: "entry \<Rightarrow> js" where
  "getRowClass a =
     (if has_max_length a then
        if e_state a = js ''roa_as0'' \<and> e_authorizes a = None \<and> e_disallows a = None then js ''row-as0''
        else if e_state a = js ''roa_no_announcement_info'' then js ''row-no-announcement''
        else if e_state a = js ''roa_unseen'' then js ''row-unseen''
        else if e_state a = js ''roa_not_held'' then js ''row-not-held''
        else js ''row-dark''
      else js ''row-announcement'')"

definition add_button :: "entry \<Rightarrow> bool" where
  "add_button a \<longleftrightarrow>
     e_state a \<in> set [js ''announcement_not_found'', js ''announcement_invalid_asn'', js ''announcement_invalid_length'']"

definition delete_button :: "entry \<Rightarrow> bool" where
  "delete_button a \<longleftrightarrow> e_state a \<noteq> js ''announcement_not_found'' \<and> has_max_length a"

section \<open>Order\<close>

text \<open>The column that was clicked: the one of the AS number, the one of the state, the one of the prefix when it
  names its property, or a column without a property, whose values are all undefined.\<close>

datatype sort_prop = ByAsn | ByState | ByPrefix | ByNothing

record sorting =
  ascending :: bool
  sort_by :: sort_prop

definition direction :: "sorting \<Rightarrow> int" where
  "direction srt = (if ascending srt then 1 else - 1)"

definition entry_network :: "entry \<Rightarrow> ip_error + cidr" where
  "entry_network a = createCIDR (hd (js_split 0x2D (e_prefix a)))"

definition entry_compare :: "sorting \<Rightarrow> entry \<Rightarrow> entry \<Rightarrow> int" where
  "entry_compare srt a b =
     (case sort_by srt of
        ByAsn \<Rightarrow> nat_compare (e_asn a) (e_asn b) * direction srt
      | ByState \<Rightarrow> js_compare (e_state a) (e_state b) * direction srt
      | ByPrefix \<Rightarrow> (case (entry_network a, entry_network b) of
            (Inr x, Inr y) \<Rightarrow> compare_cidr x y * direction srt
          | _ \<Rightarrow> 0)
      | ByNothing \<Rightarrow> 0)"

definition sortable :: "sorting \<Rightarrow> entry \<Rightarrow> bool" where
  "sortable srt a \<longleftrightarrow> sort_by srt = ByPrefix \<longrightarrow> \<not> isl (entry_network a)"

text \<open>Sorting compares every entry when there are two or more, and raises when one has a prefix that
  cannot be read.\<close>

definition sort_entries :: "sorting \<Rightarrow> entry list \<Rightarrow> entry list option" where
  "sort_entries srt as =
     (if length as \<le> 1 \<or> list_all (sortable srt) as
      then Some (js_sort (entry_compare srt) as) else None)"

section \<open>Search and pages\<close>

definition search_class :: "(int \<times> int) list" where
  "search_class = [(0x30, 0x39), (0x61, 0x7A), (0x386, 0x3C9), (0x391, 0x3CE), (0x2E, 0x2E), (0x2F, 0x2F), (0x2D, 0x2D)]"

definition strip :: "js \<Rightarrow> js" where
  "strip s = filter (in_class True search_class) s"

text \<open>\<^verbatim>\<open>JSON.stringify\<close> of a list of announcements.\<close>

definition announcement_json :: "nat \<times> js \<Rightarrow> js" where
  "announcement_json a =
     [0x7B, 0x22] @ js ''asn'' @ [0x22, 0x3A] @ jnum (fst a) @ [0x2C, 0x22] @ js ''prefix'' @ [0x22, 0x3A, 0x22] @ snd a @
     [0x22, 0x7D]"

fun join_json :: "js list \<Rightarrow> js" where
  "join_json [] = []"
| "join_json [x] = x"
| "join_json (x # xs) = x @ 0x2C # join_json xs"

definition announcements_json :: "(nat \<times> js) list \<Rightarrow> js" where
  "announcements_json as = 0x5B # join_json (map announcement_json as) @ [0x5D]"

definition in_announcements :: "js \<Rightarrow> (nat \<times> js) list option \<Rightarrow> bool" where
  "in_announcements src as =
     (case as of None \<Rightarrow> False | Some l \<Rightarrow> js_contains src (strip (announcements_json l)))"

definition found :: "(js \<Rightarrow> js option) \<Rightarrow> js \<Rightarrow> entry \<Rightarrow> bool" where
  "found label src a \<longleftrightarrow>
     (js_contains src (strip (js_lower (jnum (e_asn a)))) \<or>
      js_contains src (strip (js_lower (e_prefix a))) \<or>
      js_contains src (strip (js_lower (e_state a))) \<or>
      (case label (e_state a) of None \<Rightarrow> False | Some l \<Rightarrow> l \<noteq> [] \<and> js_contains src (strip (js_lower l))) \<or>
      in_announcements src (e_authorizes a) \<or>
      in_announcements src (e_disallows a)) \<and>
     e_state a \<noteq> js ''announcement_valid''"

record table =
  announcements :: "entry list"
  filtered :: "entry list"
  search :: js
  currentPage :: nat
  pageSize :: nat
  totalRecords :: nat
  currentSort :: sorting

definition js_slice :: "nat \<Rightarrow> nat \<Rightarrow> 'a list \<Rightarrow> 'a list" where
  "js_slice i j xs = drop i (take j xs)"

definition filterAnnouncements :: "(js \<Rightarrow> js option) \<Rightarrow> table \<Rightarrow> table option" where
  "filterAnnouncements label t =
     map_option (\<lambda>sorted.
       let src = strip (js_lower (search t)); hits = filter (found label src) sorted
       in t\<lparr>announcements := sorted, totalRecords := length hits,
            filtered := js_slice ((currentPage t - 1) * pageSize t)
              (min (length sorted) (currentPage t * pageSize t)) hits\<rparr>)
     (sort_entries (currentSort t) (announcements t))"

definition loadAnnouncements :: "(js \<Rightarrow> js option) \<Rightarrow> entry list \<Rightarrow> table \<Rightarrow> table option" where
  "loadAnnouncements label data t =
     filterAnnouncements label (t\<lparr>currentPage := 1, announcements := filter load_keeps data\<rparr>)"

definition searchChanged :: "(js \<Rightarrow> js option) \<Rightarrow> js \<Rightarrow> table \<Rightarrow> table option" where
  "searchChanged label s t = filterAnnouncements label (t\<lparr>search := s, currentPage := 1\<rparr>)"

definition sortChange :: "(js \<Rightarrow> js option) \<Rightarrow> sorting \<Rightarrow> table \<Rightarrow> table option" where
  "sortChange label srt t = filterAnnouncements label (t\<lparr>currentSort := srt\<rparr>)"

definition pageChanged :: "(js \<Rightarrow> js option) \<Rightarrow> nat \<Rightarrow> table \<Rightarrow> table option" where
  "pageChanged label n t = filterAnnouncements label (t\<lparr>currentPage := n\<rparr>)"

section \<open>The order of the table\<close>

lemma sortable_prefix: "sort_by srt = ByPrefix \<Longrightarrow> sortable srt a \<Longrightarrow> \<exists>x. entry_network a = Inr x"
  by (cases "entry_network a") (auto simp: sortable_def)

lemma entry_network_length: "entry_network a = Inr x \<Longrightarrow> length (c_addr x) = 8"
  unfolding entry_network_def by (rule createCIDR_length)

lemma direction_cases: "direction srt = 1 \<or> direction srt = - 1"
  by (simp add: direction_def)

lemma entry_compare_prefix:
  "sort_by srt = ByPrefix \<Longrightarrow> entry_network a = Inr x \<Longrightarrow> entry_network b = Inr y \<Longrightarrow>
   entry_compare srt a b = compare_cidr x y * direction srt"
  by (simp add: entry_compare_def)

lemma entry_compare_opposite:
  assumes "sortable srt a" "sortable srt b"
  shows "entry_compare srt b a = - entry_compare srt a b"
proof (cases "sort_by srt")
  case ByPrefix
  obtain x where x: "entry_network a = Inr x" using sortable_prefix [OF ByPrefix assms(1)] by blast
  obtain y where y: "entry_network b = Inr y" using sortable_prefix [OF ByPrefix assms(2)] by blast
  show ?thesis
    using networks.directed_opposite [OF entry_network_length [OF x] entry_network_length [OF y]] ByPrefix x y
    by (simp add: entry_compare_prefix)
qed (simp_all add: entry_compare_def numbers.directed_opposite [of "e_asn a"] texts.directed_opposite [of "e_state a"])

lemma entry_compare_trans:
  assumes ok: "sortable srt a" "sortable srt b" "sortable srt c"
    and le: "entry_compare srt a b \<le> 0" "entry_compare srt b c \<le> 0"
  shows "entry_compare srt a c \<le> 0"
proof (cases "sort_by srt")
  case ByPrefix
  obtain x where x: "entry_network a = Inr x" using sortable_prefix [OF ByPrefix ok(1)] by blast
  obtain y where y: "entry_network b = Inr y" using sortable_prefix [OF ByPrefix ok(2)] by blast
  obtain z where z: "entry_network c = Inr z" using sortable_prefix [OF ByPrefix ok(3)] by blast
  show ?thesis
    using networks.directed_trans [OF entry_network_length [OF x] entry_network_length [OF y]
        entry_network_length [OF z] direction_cases [of srt]] le ByPrefix x y z
    by (simp add: entry_compare_prefix)
next
  case ByAsn
  then show ?thesis
    using numbers.directed_trans [OF _ _ _ direction_cases [of srt], of "e_asn a" "e_asn b" "e_asn c"] le
    by (simp add: entry_compare_def)
next
  case ByState
  then show ?thesis
    using texts.directed_trans [OF _ _ _ direction_cases [of srt], of "e_state a" "e_state b" "e_state c"] le
    by (simp add: entry_compare_def)
qed (simp add: entry_compare_def)

interpretation rows: comparison "entry_compare srt" "sortable srt" for srt
  by unfold_locales (rule entry_compare_opposite, assumption+, rule entry_compare_trans)

lemma sort_entries_some:
  assumes "sort_entries srt as = Some bs"
  shows "mset bs = mset as" "in_order (entry_compare srt) bs" "length bs = length as"
proof -
  have b: "bs = js_sort (entry_compare srt) as" using assms by (simp add: sort_entries_def split: if_splits)
  then show "mset bs = mset as" "length bs = length as" by simp_all
  show "in_order (entry_compare srt) bs"
  proof (cases "list_all (sortable srt) as")
    case True
    then show ?thesis using rows.in_order_sort b by blast
  next
    case False
    then have "length as \<le> 1" using assms by (simp add: sort_entries_def split: if_splits)
    then show ?thesis using b by (cases as) (auto simp: js_sort_def in_order_def)
  qed
qed

section \<open>Pages\<close>

lemma slice_page:
  assumes "length hits \<le> n"
  shows "js_slice (k * sz) (min n (Suc k * sz)) hits = take sz (drop (k * sz) hits)"
proof -
  have "take (min n (Suc k * sz)) hits = take (Suc k * sz) hits"
    using assms by (cases "n \<le> Suc k * sz") (simp_all add: min_def)
  then show ?thesis by (simp add: js_slice_def drop_take)
qed

lemma concat_pages: "concat (map (\<lambda>k. take sz (drop (k * sz) xs)) [0..<n]) = take (n * sz) xs"
proof (induction n)
  case (Suc n)
  have "take (n * sz) xs @ take sz (drop (n * sz) xs) = take (n * sz + sz) xs" by (simp add: take_add)
  then show ?case using Suc by (simp add: add.commute)
qed simp

definition hits :: "(js \<Rightarrow> js option) \<Rightarrow> table \<Rightarrow> entry list" where
  "hits label t = filter (found label (strip (js_lower (search t)))) (announcements t)"

lemma filterAnnouncements_page:
  assumes "filterAnnouncements label t = Some u" "currentPage t = Suc k"
  shows "filtered u = take (pageSize t) (drop (k * pageSize t) (hits label u))" "totalRecords u = length (hits label u)"
    and "sort_entries (currentSort t) (announcements t) = Some (announcements u)" "search u = search t"
proof -
  obtain bs where bs: "sort_entries (currentSort t) (announcements t) = Some bs"
    and u: "u = t\<lparr>announcements := bs, totalRecords := length (filter (found label (strip (js_lower (search t)))) bs),
      filtered := js_slice (k * pageSize t) (min (length bs) (Suc k * pageSize t))
        (filter (found label (strip (js_lower (search t)))) bs)\<rparr>"
    using assms by (auto simp: filterAnnouncements_def Let_def)
  show "filtered u = take (pageSize t) (drop (k * pageSize t) (hits label u))"
    using slice_page [of "filter (found label (strip (js_lower (search t)))) bs" "length bs" k "pageSize t"] u
    by (simp add: hits_def)
qed (use assms in \<open>auto simp: filterAnnouncements_def Let_def hits_def\<close>)

section \<open>Search\<close>

lemma js_starts_with_self: "js_starts_with s (s @ t)"
  by (simp add: js_starts_with_def)

lemma js_contains_empty [simp]: "js_contains [] s"
  by (cases s) (simp_all add: js_starts_with_def)

lemma js_contains_self [simp]: "js_contains s s"
  by (cases s) (simp_all add: js_starts_with_def)

section \<open>Properties\<close>


definition two_entries :: table where
  "two_entries =
     \<lparr>announcements =
        [\<lparr>e_asn = 2, e_prefix = js ''10.0.0.0/8'', e_max_length = None, e_state = js ''announcement_not_found'', e_authorizes = None, e_disallows = None\<rparr>,
         \<lparr>e_asn = 1, e_prefix = js ''11.0.0.0/8'', e_max_length = None, e_state = js ''announcement_not_found'', e_authorizes = None, e_disallows = None\<rparr>],
      filtered = [], search = [], currentPage = 1, pageSize = 1, totalRecords = 0,
      currentSort = \<lparr>ascending = True, sort_by = ByAsn\<rparr>\<rparr>"

lemma two_entries_page: "\<exists>u. pageChanged label n two_entries = Some u"
  by (simp add: pageChanged_def filterAnnouncements_def sort_entries_def sortable_def two_entries_def)

lemma two_entries_total:
  "pageChanged (\<lambda>_. None) 1 two_entries = Some u \<Longrightarrow> totalRecords u \<le> 2 \<and> announcements u = rev (announcements two_entries)"
  by (auto simp: pageChanged_def filterAnnouncements_def sort_entries_def sortable_def two_entries_def Let_def js_sort_def
      entry_compare_def nat_compare_def direction_def)


text \<open>
  C39: The pages of the table are the search result: put one after the other they give every entry that
  was found exactly once and in order, and no page is longer than the page size.\<close>

theorem pages_cover_hits:
  assumes u: "\<And>k. k < n \<Longrightarrow> pageChanged label (Suc k) t = Some (u k)" and n: "0 < n"
    and big: "totalRecords (u 0) \<le> n * pageSize t"
  shows "concat (map (\<lambda>k. filtered (u k)) [0..<n]) = hits label (u 0) \<and>
    (\<forall>k < n. length (filtered (u k)) \<le> pageSize t)"
proof -
  have p: "filtered (u k) = take (pageSize t) (drop (k * pageSize t) (hits label (u k)))"
    "totalRecords (u k) = length (hits label (u k))"
    "sort_entries (currentSort t) (announcements t) = Some (announcements (u k))" "search (u k) = search t"
    if "k < n" for k
    using filterAnnouncements_page [of label "t\<lparr>currentPage := Suc k\<rparr>" "u k" k] u [OF that]
    by (simp_all add: pageChanged_def)
  have same: "hits label (u k) = hits label (u 0)" if "k < n" for k
    using p(3,4) [OF that] p(3,4) [OF n] by (simp add: hits_def)
  have "map (\<lambda>k. filtered (u k)) [0..<n] = map (\<lambda>k. take (pageSize t) (drop (k * pageSize t) (hits label (u 0)))) [0..<n]"
  proof (rule map_cong [OF refl])
    fix k assume "k \<in> set [0..<n]"
    then have "k < n" by simp
    then show "filtered (u k) = take (pageSize t) (drop (k * pageSize t) (hits label (u 0)))"
      using p(1) [of k] same [of k] by simp
  qed
  then have "concat (map (\<lambda>k. filtered (u k)) [0..<n]) = take (n * pageSize t) (hits label (u 0))"
    by (simp only: concat_pages)
  then show ?thesis using big p(1,2) n by simp
qed

theorem pages_cover_hits_witness:
  "\<exists>u. (\<forall>k < 2. pageChanged (\<lambda>_. None) (Suc k) two_entries = Some (u k)) \<and>
     concat (map (\<lambda>k. filtered (u k)) [0..<2]) = hits (\<lambda>_. None) (u 0)"
proof -
  define u where "u k = the (pageChanged (\<lambda>_. None) (Suc k) two_entries)" for k
  have u: "pageChanged (\<lambda>_. None) (Suc k) two_entries = Some (u k)" for k
    using two_entries_page [of "\<lambda>_. None" "Suc k"] by (auto simp: u_def)
  have "totalRecords (u 0) \<le> 2 * pageSize two_entries"
    using two_entries_total [of "u 0"] u [of 0] by (simp add: two_entries_def)
  then have "concat (map (\<lambda>k. filtered (u k)) [0..<2]) = hits (\<lambda>_. None) (u 0)"
    using pages_cover_hits [OF u, of 2] by simp
  then show ?thesis using u by blast
qed

text \<open>A search finds what it names: an entry that is not a valid announcement is found by its prefix,
  by its AS number and by its state as they are written in the table, and an empty search finds it.\<close>

lemma search_finds_entry:
  assumes "e_state a \<noteq> js ''announcement_valid''" "s \<in> {[], e_prefix a, jnum (e_asn a), e_state a}"
  shows "found label (strip (js_lower s)) a"
  using assms by (auto simp: found_def strip_def js_lower_def)

text \<open>Every entry that the table shows has exactly one tag for its state: each state of the server but
  a valid and a disallowed announcement has one, and only one, tag.\<close>

lemma one_tag_per_state:
  assumes "e_state a = state_text s" "s \<noteq> AnnouncementValid" "s \<noteq> AnnouncementDisallowed"
  shows "\<exists>kind. filter (\<lambda>t. case t of StateTag _ _ \<Rightarrow> True | CountTag _ _ \<Rightarrow> False) (state_tags a) = [StateTag kind (state_text s)]"
proof -
  have count: "filter (\<lambda>t. case t of StateTag _ _ \<Rightarrow> True | CountTag _ _ \<Rightarrow> False) (count_tag k as) = []" for k as
    by (simp add: count_tag_def split: option.split)
  show ?thesis using assms
    by (cases s) (simp_all add: state_tags_def Let_def count state_tag_def js_def)
qed

text \<open>An announcement that is disallowed by a ROA never reaches the table: the filter that loads the
  analysis drops its entry, so that it is neither listed nor counted, whatever is searched for.\<close>

lemma disallowed_announcements_hidden:
  assumes "loadAnnouncements label data t = Some u" "a \<in> set (announcements u)" "e_max_length a = None"
  shows "e_state a \<noteq> state_text AnnouncementDisallowed"
proof
  assume s: "e_state a = state_text AnnouncementDisallowed"
  have "sort_entries (currentSort t) (filter load_keeps data) = Some (announcements u)"
    using assms(1) by (auto simp: loadAnnouncements_def filterAnnouncements_def Let_def)
  then have "set (announcements u) = set (filter load_keeps data)"
    using sort_entries_some(1) mset_eq_setD by blast
  then have "load_keeps a" using assms(2) by auto
  moreover have "\<not> js_contains (js ''invalid_'') (state_text AnnouncementDisallowed)"
    "state_text AnnouncementDisallowed \<noteq> js ''announcement_not_found''" by code_simp+
  ultimately show False using s assms(3) by (simp add: load_keeps_def)
qed

end
