(* ===== verification/LagostaViews.thy ===== *)
theory LagostaViews
  imports LagostaSession
begin

text \<open>
  The smaller pages of the user interface (\<^verbatim>\<open>src/lagosta/js/app.js\<close>, views \<^verbatim>\<open>Interstitial\<close>,
  \<^verbatim>\<open>CreateCA\<close>, \<^verbatim>\<open>CAs\<close> and parts of \<^verbatim>\<open>App\<close>): how the interface finds the page to start with, the form
  that creates a CA, the list of CAs with its search, the text that is shown for an error of the
  server, and the notice of a new release.

  A page that is opened sends its requests and pushes the next page from the replies.  For the
  way from page to page \<open>nav_step\<close> puts the reply of the server in place of the request: the
  list of CAs, and for a handle whether the server gives the CA.
\<close>

section \<open>Errors\<close>

text \<open>\<^verbatim>\<open>parseError\<close>: the translation of the label or of the code under \<^verbatim>\<open>errors.\<close>; the translation
  \<^verbatim>\<open>tr\<close> answers with the key itself when it has no text for it, and then the message of the server
  is shown.\<close>

definition parse_error :: "(js \<Rightarrow> js) \<Rightarrow> error_data \<Rightarrow> js option" where
  "parse_error tr d =
     (let key = error_text d; e = tr key
      in if e = key then err_msg d else Some e)"

section \<open>The page to start with\<close>

text \<open>\<^verbatim>\<open>/cas/handle\<close>.\<close>

definition ca_page :: "js \<Rightarrow> js" where
  "ca_page handle = js ''/cas/'' @ handle"

definition page_interstitial :: js where "page_interstitial = js ''/interstitial''"

definition page_onboarding :: js where "page_onboarding = js ''/onboarding''"

definition handle_ta :: js where "handle_ta = js ''ta''"

text \<open>\<^verbatim>\<open>loadCAs\<close> of the start page; the handles are \<^term>\<open>None\<close> when the reply has no list.\<close>

definition interstitial_loadCAs :: "js option \<Rightarrow> ('e, js list option) reply \<Rightarrow> js" where
  "interstitial_loadCAs lastCA r =
     (case r of
        Failure _ \<Rightarrow> page_onboarding
      | Reply _ None \<Rightarrow> page_onboarding
      | Reply _ (Some cas) \<Rightarrow>
          (case filter (\<lambda>ca. ca \<noteq> handle_ta) cas of
             [] \<Rightarrow> page_onboarding
           | handle # _ \<Rightarrow> ca_page (if js_truthy lastCA then js_text lastCA else handle)))"

text \<open>\<^verbatim>\<open>created\<close> of the page that creates a CA: on the route \<^verbatim>\<open>onboarding\<close> an existing CA is opened.\<close>

definition onboarding_created :: "('e, js list option) reply \<Rightarrow> js option" where
  "onboarding_created r =
     (case r of
        Reply _ (Some (handle # _)) \<Rightarrow> if handle \<noteq> handle_ta then Some (ca_page handle) else None
      | _ \<Rightarrow> None)"

text \<open>The page of a CA remembers its handle; when the server does not give the CA it forgets the
  handle and goes back to the start page (\<^verbatim>\<open>getContent\<close>).\<close>

datatype place = Interstitial | Onboarding | CAList | Details js

type_synonym start_state = "place \<times> js option"

text \<open>The routes: the handle is the part of the path up to the next slash, and the page of a CA
  without a handle is the list of the CAs.\<close>

definition place_of :: "js \<Rightarrow> place" where
  "place_of p =
     (if p = page_interstitial then Interstitial
      else if p = page_onboarding then Onboarding
      else case takeWhile (\<lambda>c. c \<notin> {0x2F, 0x3F, 0x23}) (drop 5 p) of
          [] \<Rightarrow> CAList
        | h \<Rightarrow> Details h)"

fun nav_step :: "('e, js list option) reply \<Rightarrow> (js \<Rightarrow> bool) \<Rightarrow> start_state \<Rightarrow> start_state option" where
  "nav_step listing gives (Interstitial, lastCA) =
     Some (place_of (interstitial_loadCAs lastCA listing), lastCA)"
| "nav_step listing gives (Onboarding, lastCA) =
     map_option (\<lambda>page. (place_of page, lastCA)) (onboarding_created listing)"
| "nav_step listing gives (CAList, lastCA) = None"
| "nav_step listing gives (Details h, lastCA) =
     (if gives h then None else Some (place_of page_interstitial, None))"

text \<open>On arrival the page of a CA stores its handle.\<close>

definition arrive :: "start_state \<Rightarrow> start_state" where
  "arrive s = (case s of (Details h, _) \<Rightarrow> (Details h, Some h) | _ \<Rightarrow> s)"

text \<open>At most \<open>n\<close> pushes; \<^term>\<open>None\<close> when the interface is still on its way after them.\<close>

fun settle :: "nat \<Rightarrow> ('e, js list option) reply \<Rightarrow> (js \<Rightarrow> bool) \<Rightarrow> start_state \<Rightarrow> start_state option" where
  "settle n listing gives s =
     (case nav_step listing gives s of
        None \<Rightarrow> Some s
      | Some s' \<Rightarrow> (case n of 0 \<Rightarrow> None | Suc m \<Rightarrow> settle m listing gives (arrive s')))"

declare settle.simps [simp del]

section \<open>The list of CAs\<close>

definition filteredCAs :: "js \<Rightarrow> js list \<Rightarrow> js list" where
  "filteredCAs search cas = filter (\<lambda>handle. js_contains search (js_lower handle)) cas"

section \<open>The notice of a new release\<close>

definition release_ver_re :: regex where
  "release_ver_re =
     Regex False (Seq [Start, Plus (Cls [(0x30, 0x39)]), Lit [0x2E], Plus (Cls [(0x30, 0x39)]), Lit [0x2E],
       Plus (Cls [(0x30, 0x39)]), End])"

definition tag_version :: "js \<Rightarrow> js" where
  "tag_version tag = (if js_starts_with [0x76] tag then drop 1 tag else tag)"

definition checkLatestVersions :: "js \<Rightarrow> js \<Rightarrow> js" where
  "checkLatestVersions shown tag = (if rx_test release_ver_re (tag_version tag) then tag_version tag else shown)"

definition getTlLinkTarget :: "js \<Rightarrow> js" where
  "getTlLinkTarget route_name = (if route_name = js ''testbed'' then js ''testbed'' else js ''home'')"

section \<open>The form that creates a CA\<close>

definition handle_re :: regex where
  "handle_re = Regex False (Seq [Start, Plus (Cls [(0x61, 0x7A), (0x41, 0x5A), (0x30, 0x39), (0x2D, 0x2D), (0x5F, 0x5F)]), End])"

definition checkHandle :: "js \<Rightarrow> js option" where
  "checkHandle value =
     (if value = [] then Some (js ''onboarding.addCAForm.required'')
      else if rx_test handle_re value then None
      else Some (js ''onboarding.addCAForm.format''))"

text \<open>
  The state of the form: its handle, whether the Enter key has been seen, the open questions for
  confirmation, the handles whose creation has been asked of the server, and whether a reply is
  awaited.  \<open>created\<close> is the history of the requests.  The question is a modal dialogue: while it
  is open the field cannot be typed into.
\<close>

record ca_form =
  handle :: js
  enterPressed :: bool
  questions :: nat
  created :: "js list"
  in_flight :: "js list"
  loading :: bool
  pushed :: "js option"
  form_error :: "js option"

definition new_form :: ca_form where
  "new_form = \<lparr>handle = [], enterPressed = False, questions = 0, created = [], in_flight = [], loading = False,
     pushed = None, form_error = None\<rparr>"

definition submitForm :: "bool \<Rightarrow> ca_form \<Rightarrow> ca_form" where
  "submitForm fromKeyboard f =
     (let g = (if \<not> enterPressed f \<and> checkHandle (handle f) = None then f\<lparr>questions := Suc (questions f)\<rparr> else f)
      in g\<lparr>enterPressed := fromKeyboard\<rparr>)"

datatype form_event =
    Type js
  | Enter
  | Click
  | Confirm
  | Cancel
  | Answer js "(error_data, unit) reply"

fun form_step :: "(js \<Rightarrow> js) \<Rightarrow> form_event \<Rightarrow> ca_form \<Rightarrow> ca_form option" where
  "form_step tr (Type s) f = (if questions f = 0 then Some (f\<lparr>handle := s\<rparr>) else None)"
| "form_step tr Enter f = Some (submitForm True f)"
| "form_step tr Click f = Some (submitForm False f)"
| "form_step tr Confirm f =
     (if questions f = 0 then None
      else Some (f\<lparr>questions := questions f - 1, loading := True, created := handle f # created f,
                  in_flight := handle f # in_flight f\<rparr>))"
| "form_step tr Cancel f =
     (if questions f = 0 then None else Some (f\<lparr>questions := questions f - 1, enterPressed := False\<rparr>))"
| "form_step tr (Answer h r) f =
     (if h \<in> set (in_flight f) then
        let g = f\<lparr>in_flight := remove1 h (in_flight f)\<rparr>
        in case r of
             Reply _ _ \<Rightarrow> Some (g\<lparr>pushed := Some (ca_page (handle f))\<rparr>)
           | Failure e \<Rightarrow> Some (g\<lparr>loading := False, form_error := parse_error tr (handleError e)\<rparr>)
      else None)"

fun form_run :: "(js \<Rightarrow> js) \<Rightarrow> form_event list \<Rightarrow> ca_form \<Rightarrow> ca_form option" where
  "form_run tr [] f = Some f"
| "form_run tr (e # es) f = (case form_step tr e f of None \<Rightarrow> None | Some g \<Rightarrow> form_run tr es g)"

section \<open>Lemmas\<close>

definition plain :: "js \<Rightarrow> bool" where
  "plain h \<longleftrightarrow> h \<noteq> [] \<and> list_all (\<lambda>c. c \<notin> {0x2F, 0x3F, 0x23}) h"

lemma ca_page_places: "ca_page h \<noteq> page_interstitial" "ca_page h \<noteq> page_onboarding" "drop 5 (ca_page h) = h"
  by (simp_all add: ca_page_def page_interstitial_def page_onboarding_def js_def)

lemma place_of_ca_page: "plain h \<Longrightarrow> place_of (ca_page h) = Details h"
proof -
  assume "plain h"
  then have "takeWhile (\<lambda>c. c \<notin> {0x2F, 0x3F, 0x23}) h = h" and ne: "h \<noteq> []"
    by (auto simp: plain_def takeWhile_eq_all_conv list_all_iff)
  then have "place_of (ca_page h) = (case h of [] \<Rightarrow> CAList | h \<Rightarrow> Details h)"
    by (simp only: place_of_def ca_page_places if_False)
  then show ?thesis using ne by (cases h) auto
qed

lemma place_of_pages [simp]: "place_of page_interstitial = Interstitial" "place_of page_onboarding = Onboarding"
  by (simp_all add: place_of_def page_interstitial_def page_onboarding_def js_def)

lemma place_of_ca_page_cases: "place_of (ca_page h) = CAList \<or> (\<exists>h'. place_of (ca_page h) = Details h')"
  by (simp add: place_of_def ca_page_places split: list.split)

definition settled :: "(js \<Rightarrow> bool) \<Rightarrow> place \<Rightarrow> bool" where
  "settled gives p = (case p of Onboarding \<Rightarrow> True | CAList \<Rightarrow> True | Details h \<Rightarrow> gives h | Interstitial \<Rightarrow> False)"

lemma settle_step:
  "nav_step listing gives s = Some s' \<Longrightarrow> settle (Suc n) listing gives s = settle n listing gives (arrive s')"
  by (subst settle.simps) simp

lemma settle_stop: "nav_step listing gives s = None \<Longrightarrow> settle n listing gives s = Some s"
  by (subst settle.simps) simp

lemma settle_details:
  "gives h \<Longrightarrow> settle n listing gives (Details h, l) = Some (Details h, l)"
  "settle n listing gives (CAList, l) = Some (CAList, l)"
  by (simp_all add: settle_stop)

lemma interstitial_first:
  assumes "listing = Reply a (Some cas)" "filter (\<lambda>ca. ca \<noteq> handle_ta) cas = h # hs" "plain h" "gives h"
  shows "settle (Suc n) listing gives (Interstitial, None) = Some (Details h, Some h)"
  using assms
  by (subst settle_step [where s' = "(Details h, None)"])
     (auto simp: interstitial_loadCAs_def js_truthy_def place_of_ca_page arrive_def settle_details)

lemma onboarding_stays:
  assumes "\<And>a cas. listing = Reply a (Some cas) \<Longrightarrow> filter (\<lambda>ca. ca \<noteq> handle_ta) cas = []"
  shows "settle n listing gives (Onboarding, l) = Some (Onboarding, l)"
proof (rule settle_stop)
  show "nav_step listing gives (Onboarding, l) = None"
  proof (cases listing)
    case (Reply a r)
    then show ?thesis using assms by (cases r) (auto simp: onboarding_created_def split: list.splits if_splits)
  qed (simp add: onboarding_created_def)
qed

text \<open>A question is open only for a handle that is in order.\<close>

definition form_ok :: "ca_form \<Rightarrow> bool" where
  "form_ok f \<longleftrightarrow>
     (questions f \<noteq> 0 \<longrightarrow> checkHandle (handle f) = None) \<and> list_all (\<lambda>h. checkHandle h = None) (created f)"

lemma form_ok_step: "form_step tr e f = Some g \<Longrightarrow> form_ok f \<Longrightarrow> form_ok g"
  by (cases e) (auto simp: form_ok_def submitForm_def Let_def split: if_splits reply.splits)

lemma form_ok_run: "form_run tr es f = Some g \<Longrightarrow> form_ok f \<Longrightarrow> form_ok g"
  by (induction es arbitrary: f) (auto split: option.splits intro: form_ok_step)

definition keyboard_only :: "form_event \<Rightarrow> bool" where
  "keyboard_only e = (case e of Type _ \<Rightarrow> True | Enter \<Rightarrow> True | _ \<Rightarrow> False)"

lemma stuck_step:
  "form_step tr e f = Some g \<Longrightarrow> keyboard_only e \<Longrightarrow> enterPressed f \<Longrightarrow>
   enterPressed g \<and> questions g = questions f \<and> created g = created f"
  by (cases e) (auto simp: keyboard_only_def submitForm_def Let_def split: if_splits)

lemma stuck_run:
  "form_run tr es f = Some g \<Longrightarrow> list_all keyboard_only es \<Longrightarrow> enterPressed f \<Longrightarrow>
   enterPressed g \<and> questions g = questions f \<and> created g = created f"
  by (induction es arbitrary: f) (auto split: option.splits dest!: stuck_step)

section \<open>Properties\<close>

text \<open>
  C30: The interface finds its page: when the server gives every CA that it lists, the start page
  leads with at most three pushes to the page of a CA that the server gives, to the list of CAs or
  to the page that creates one, whatever handle the browser remembers from an earlier session.\<close>

theorem start_settles:
  assumes listed: "\<And>a cas h. listing = Reply a (Some cas) \<Longrightarrow> h \<in> set cas \<Longrightarrow> h \<noteq> handle_ta \<Longrightarrow> plain h \<and> gives h"
  shows "\<exists>p l. settle 3 listing gives (Interstitial, lastCA) = Some (p, l) \<and> settled gives p"
proof (cases "\<exists>a cas h hs. listing = Reply a (Some cas) \<and> filter (\<lambda>ca. ca \<noteq> handle_ta) cas = h # hs")
  case True
  then obtain a cas h hs where l: "listing = Reply a (Some cas)" and f: "filter (\<lambda>ca. ca \<noteq> handle_ta) cas = h # hs"
    by blast
  have "h \<in> set (filter (\<lambda>ca. ca \<noteq> handle_ta) cas)" using f by simp
  then have h: "plain h" "gives h" using listed [OF l] by auto
  let ?goal = "if js_truthy lastCA then js_text lastCA else h"
  have s: "settle 3 listing gives (Interstitial, lastCA) = settle 2 listing gives (arrive (place_of (ca_page ?goal), lastCA))"
    using settle_step [of listing gives "(Interstitial, lastCA)" "(place_of (ca_page ?goal), lastCA)" 2] l f
    by (simp add: interstitial_loadCAs_def numeral_3_eq_3 numeral_2_eq_2)
  show ?thesis
  proof (cases "place_of (ca_page ?goal)")
    case (Details g)
    show ?thesis
    proof (cases "gives g")
      case True
      then show ?thesis using s Details by (simp add: arrive_def settle_details settled_def)
    next
      case False
      have "settle 2 listing gives (Details g, Some g) = settle 1 listing gives (Interstitial, None)"
        using settle_step [of listing gives "(Details g, Some g)" "(Interstitial, None)" 1] False
        by (simp add: arrive_def numeral_2_eq_2)
      then show ?thesis
        using s Details interstitial_first [where n = 0 and gives = gives, OF l f h] h by (simp add: arrive_def settled_def)
    qed
  qed (use s place_of_ca_page_cases [of ?goal] in \<open>auto simp: arrive_def settle_details settled_def\<close>)
next
  case False
  then have "interstitial_loadCAs lastCA listing = page_onboarding"
    by (auto simp: interstitial_loadCAs_def split: reply.splits option.splits list.splits)
  then have "settle 3 listing gives (Interstitial, lastCA) = settle 2 listing gives (Onboarding, lastCA)"
    using settle_step [of listing gives "(Interstitial, lastCA)" "(Onboarding, lastCA)" 2]
    by (simp add: arrive_def numeral_3_eq_3 numeral_2_eq_2)
  moreover have "filter (\<lambda>ca. ca \<noteq> handle_ta) cas = []" if "listing = Reply a (Some cas)" for a cas
    using False that by (cases "filter (\<lambda>ca. ca \<noteq> handle_ta) cas") auto
  ultimately show ?thesis by (simp add: onboarding_stays settled_def)
qed

theorem start_settles_witness:
  "\<exists>p l. settle 3 (Reply None (Some [handle_ta, js ''one'']) :: (unit, js list option) reply) (\<lambda>h. h = js ''one'')
       (Interstitial, Some (js ''gone'')) = Some (p, l) \<and> settled (\<lambda>h. h = js ''one'') p"
proof (rule start_settles)
  have "plain (js ''one'')" by code_simp
  then show "plain h \<and> h = js ''one''" if "(Reply None (Some [handle_ta, js ''one'']) :: (unit, js list option) reply) = Reply a (Some cas)"
    "h \<in> set cas" "h \<noteq> handle_ta" for a cas h
    using that by auto
qed



text \<open>
  C32: The form creates a CA only for a handle of letters, digits, hyphens and underscores, and only
  after a question for confirmation, in whatever order keys are pressed, buttons are clicked,
  questions are answered and replies arrive.\<close>

theorem created_handles_valid:
  assumes "form_run tr es new_form = Some f" "h \<in> set (created f)"
  shows "h \<noteq> [] \<and> rx_test handle_re h"
proof -
  have "form_ok f" using form_ok_run [OF assms(1)] by (simp add: form_ok_def new_form_def)
  then have "checkHandle h = None" using assms(2) by (simp add: form_ok_def list_all_iff)
  then show ?thesis by (simp add: checkHandle_def split: if_splits)
qed

theorem created_handles_valid_witness:
  "\<exists>f. form_run id [Type (js ''my_CA-1''), Enter, Enter, Confirm] new_form = Some f \<and>
     js ''my_CA-1'' \<in> set (created f) \<and> rx_test handle_re (js ''my_CA-1'')"
proof -
  have "checkHandle (js ''my_CA-1'') = None" by code_simp
  then obtain f where f: "form_run id [Type (js ''my_CA-1''), Enter, Enter, Confirm] new_form = Some f"
    and c: "js ''my_CA-1'' \<in> set (created f)"
    by (simp add: new_form_def submitForm_def)
  then show ?thesis using created_handles_valid [OF f c] by blast
qed

text \<open>
  C33: After the Enter key was pressed on a handle that is not in order, the keyboard no longer
  submits the form: however the handle is corrected and however often Enter is pressed again, no
  question is asked and no CA is created.\<close>

theorem enter_after_error_is_ignored:
  assumes "checkHandle (handle f) \<noteq> None" "form_run tr (Enter # es) f = Some g" "list_all keyboard_only es"
  shows "questions g = questions f \<and> created g = created f"
proof -
  have "form_step tr Enter f = Some (f\<lparr>enterPressed := True\<rparr>)"
    using assms(1) by (simp add: submitForm_def)
  then have "form_run tr es (f\<lparr>enterPressed := True\<rparr>) = Some g" using assms(2) by simp
  from stuck_run [OF this assms(3)] show ?thesis by simp
qed

theorem enter_after_error_is_ignored_witness:
  "\<exists>g. form_run id [Enter, Type (js ''good''), Enter] (new_form\<lparr>handle := js ''not good''\<rparr>) = Some g \<and>
     checkHandle (handle g) = None \<and> questions g = 0 \<and> created g = []"
proof -
  have b: "checkHandle (js ''not good'') \<noteq> None" "checkHandle (js ''good'') = None" by code_simp+
  obtain g where g: "form_run id [Enter, Type (js ''good''), Enter] (new_form\<lparr>handle := js ''not good''\<rparr>) = Some g"
    and h: "handle g = js ''good''"
    using b by (simp add: new_form_def submitForm_def)
  have "questions g = questions (new_form\<lparr>handle := js ''not good''\<rparr>) \<and>
      created g = created (new_form\<lparr>handle := js ''not good''\<rparr>)"
    by (rule enter_after_error_is_ignored [OF _ g]) (simp_all add: b keyboard_only_def)
  then show ?thesis using g h b by (intro exI [of _ g]) (simp add: new_form_def)
qed

end
