(* ===== verification/LagostaDetails.thy ===== *)
theory LagostaDetails
  imports LagostaViews
begin

text \<open>
  The page of a CA (\<^verbatim>\<open>src/lagosta/js/app.js\<close>, view \<^verbatim>\<open>CADetails\<close>): \<^verbatim>\<open>getContent\<close> asks the server for the
  CA, for its repository and for the list of CAs, and the continuations of these requests decide
  which tab is open and which forms are shown.  The replies arrive in any order, also after the
  page has been switched to another CA; \<open>details_step\<close> delivers one of them.

  The data of a CA is kept with the handle that it was asked for and its number of parents.
\<close>

definition tab_roas :: js where "tab_roas = js ''roas''"

definition tab_parents :: js where "tab_parents = js ''parents''"

definition tab_repo :: js where "tab_repo = js ''repo''"

text \<open>The requests that are under way; those about a CA with the handle in their address.\<close>

datatype details_request =
    GetCA js | GetRepo js | GetCAs
  | GetParents js | GetRepoStatus js | GetChildXML js | GetRepoXML js
  | SyncParents | SyncRepo | AddParent js | AddRepo js

record details =
  d_handle :: js
  route_tab :: "js option"
  activeTab :: "js option"
  d_loading :: bool
  loadingRepo :: bool
  loadingCAs :: bool
  initializeParent :: bool
  initializeRepo :: bool
  showAddParent :: bool
  ca :: "(js \<times> nat) option"
  repo :: "js option"
  d_parents :: "js option"
  repoStatus :: "js option"
  parent_xml :: js
  parent_response :: js
  repo_xml :: js
  ca_list :: "js list"
  asked :: "details_request list"
  lagostaLastCA :: "js option"
  d_error :: "js option"
  goes_to :: "js option"

definition or_default :: "js option \<Rightarrow> js option" where
  "or_default t = (if js_truthy t then t else Some tab_roas)"

definition ask :: "details_request \<Rightarrow> details \<Rightarrow> details" where
  "ask q d = d\<lparr>asked := q # asked d\<rparr>"

definition getContent :: "details \<Rightarrow> details" where
  "getContent d =
     (let e = d\<lparr>activeTab := or_default (route_tab d), d_loading := True, loadingRepo := True,
                initializeParent := False, initializeRepo := False, showAddParent := False, ca_list := [],
                ca := None, repo := None, lagostaLastCA := Some (d_handle d)\<rparr>
      in ask GetCAs (ask (GetRepo (d_handle e)) (ask (GetCA (d_handle e)) e)))"

definition details_created :: "js \<Rightarrow> js option \<Rightarrow> js option \<Rightarrow> details" where
  "details_created h tab stored =
     getContent \<lparr>d_handle = h, route_tab = tab, activeTab = or_default tab, d_loading = False,
       loadingRepo = False, loadingCAs = False, initializeParent = False, initializeRepo = False,
       showAddParent = False, ca = None, repo = None, d_parents = None, repoStatus = None, parent_xml = [],
       parent_response = [], repo_xml = [], ca_list = [], asked = [], lagostaLastCA = stored, d_error = None,
       goes_to = None\<rparr>"

text \<open>\<^verbatim>\<open>beforeRouteUpdate\<close> runs before the route of the page is the new one: \<^verbatim>\<open>getContent\<close> still reads the
  tab of the old route.\<close>

definition beforeRouteUpdate :: "js \<Rightarrow> js option \<Rightarrow> details \<Rightarrow> details" where
  "beforeRouteUpdate h tab d = (getContent (d\<lparr>d_handle := h, activeTab := tab\<rparr>))\<lparr>route_tab := tab\<rparr>"

definition addAdditionalParent :: "details \<Rightarrow> details" where
  "addAdditionalParent d =
     (ask (GetChildXML (d_handle d)) (d\<lparr>parent_xml := [], parent_response := []\<rparr>))\<lparr>showAddParent := True\<rparr>"

section \<open>Replies\<close>

definition show_error :: "(js \<Rightarrow> js) \<Rightarrow> error_data option \<Rightarrow> details \<Rightarrow> details" where
  "show_error tr e d = d\<lparr>d_error := parse_error tr (handleError e)\<rparr>"

text \<open>The reply to the request for a CA carries its number of parents; zero also stands for a reply
  without a list of parents.\<close>

definition ca_reply :: "(js \<Rightarrow> js) \<Rightarrow> js \<Rightarrow> (error_data, nat) reply \<Rightarrow> details \<Rightarrow> details" where
  "ca_reply tr h r d =
     (case r of
        Reply _ parents \<Rightarrow>
          let e = d\<lparr>d_loading := False, ca := Some (h, parents)\<rparr>
          in if parents \<noteq> 0 then ask (GetParents (d_handle e)) e
             else ask (GetChildXML (d_handle e))
               (e\<lparr>initializeParent := True,
                  activeTab := (if activeTab e = Some tab_roas then Some tab_parents else activeTab e)\<rparr>)
      | Failure x \<Rightarrow> (show_error tr x d)\<lparr>lagostaLastCA := None, goes_to := Some page_interstitial\<rparr>)"

definition repo_reply :: "js \<Rightarrow> (error_data, unit) reply \<Rightarrow> details \<Rightarrow> details" where
  "repo_reply h r d =
     (case r of
        Reply _ _ \<Rightarrow>
          (ask (GetRepoStatus (d_handle d)) d)
            \<lparr>loadingRepo := False, activeTab := (if initializeParent d then Some tab_parents else activeTab d),
             repo := Some h\<rparr>
      | Failure _ \<Rightarrow>
          ask (GetRepoXML (d_handle d)) (d\<lparr>initializeRepo := True, activeTab := Some tab_repo\<rparr>))"

definition cas_reply :: "(js \<Rightarrow> js) \<Rightarrow> (error_data, js list) reply \<Rightarrow> details \<Rightarrow> details" where
  "cas_reply tr r d =
     (case r of Reply _ cas \<Rightarrow> d\<lparr>loadingCAs := False, ca_list := cas\<rparr> | Failure x \<Rightarrow> show_error tr x d)"

text \<open>The other requests all show the error of a failure; \<^verbatim>\<open>addParent\<close> and \<^verbatim>\<open>addRepo\<close> load the page again.\<close>

definition other_done :: "details_request \<Rightarrow> js \<Rightarrow> details \<Rightarrow> details" where
  "other_done q x d =
     (case q of
        GetParents _ \<Rightarrow> d\<lparr>d_parents := Some x\<rparr>
      | GetRepoStatus _ \<Rightarrow> d\<lparr>repoStatus := Some x\<rparr>
      | GetChildXML _ \<Rightarrow> d\<lparr>parent_xml := x\<rparr>
      | GetRepoXML _ \<Rightarrow> d\<lparr>repo_xml := x\<rparr>
      | SyncParents \<Rightarrow> ask (GetParents (d_handle d)) d
      | SyncRepo \<Rightarrow> ask (GetRepoStatus (d_handle d)) d
      | AddParent _ \<Rightarrow> getContent d
      | AddRepo _ \<Rightarrow> getContent d
      | _ \<Rightarrow> d)"

definition other_reply :: "(js \<Rightarrow> js) \<Rightarrow> details_request \<Rightarrow> (error_data, js) reply \<Rightarrow> details \<Rightarrow> details" where
  "other_reply tr q r d = (case r of Reply _ x \<Rightarrow> other_done q x d | Failure e \<Rightarrow> show_error tr e d)"

definition is_other :: "details_request \<Rightarrow> bool" where
  "is_other q \<longleftrightarrow> (case q of GetCA _ \<Rightarrow> False | GetRepo _ \<Rightarrow> False | GetCAs \<Rightarrow> False | _ \<Rightarrow> True)"

datatype details_event =
    CaReply js "(error_data, nat) reply"
  | RepoReply js "(error_data, unit) reply"
  | CasReply "(error_data, js list) reply"
  | OtherReply details_request "(error_data, js) reply"
  | Switch js "js option"
  | ClickTab js
  | ClickSyncParents
  | ClickSyncRepo
  | ClickAdditional
  | ClickAddParent
  | ClickAddRepo

definition take_request :: "details_request \<Rightarrow> details \<Rightarrow> details option" where
  "take_request q d = (if q \<in> set (asked d) then Some (d\<lparr>asked := remove1 q (asked d)\<rparr>) else None)"

fun details_step :: "(js \<Rightarrow> js) \<Rightarrow> details_event \<Rightarrow> details \<Rightarrow> details option" where
  "details_step tr (CaReply h r) d = map_option (ca_reply tr h r) (take_request (GetCA h) d)"
| "details_step tr (RepoReply h r) d = map_option (repo_reply h r) (take_request (GetRepo h) d)"
| "details_step tr (CasReply r) d = map_option (cas_reply tr r) (take_request GetCAs d)"
| "details_step tr (OtherReply q r) d =
     (if is_other q then map_option (other_reply tr q r) (take_request q d) else None)"
| "details_step tr (Switch h tab) d = Some (beforeRouteUpdate h tab d)"
| "details_step tr (ClickTab t) d = Some (d\<lparr>activeTab := Some t\<rparr>)"
| "details_step tr ClickSyncParents d = Some (ask SyncParents d)"
| "details_step tr ClickSyncRepo d = Some (ask SyncRepo d)"
| "details_step tr ClickAdditional d = Some (addAdditionalParent d)"
| "details_step tr ClickAddParent d = Some (ask (AddParent (d_handle d)) d)"
| "details_step tr ClickAddRepo d = Some (ask (AddRepo (d_handle d)) d)"

fun details_run :: "(js \<Rightarrow> js) \<Rightarrow> details_event list \<Rightarrow> details \<Rightarrow> details option" where
  "details_run tr [] d = Some d"
| "details_run tr (e # es) d = (case details_step tr e d of None \<Rightarrow> None | Some f \<Rightarrow> details_run tr es f)"

section \<open>Lemmas\<close>

lemmas details_defs = getContent_def ask_def details_created_def beforeRouteUpdate_def ca_reply_def repo_reply_def
  show_error_def take_request_def or_default_def Let_def

text \<open>What the page shows of its state: the tab and the forms.\<close>

definition shown :: "details \<Rightarrow> js option \<times> bool \<times> bool" where
  "shown d = (activeTab d, initializeParent d, initializeRepo d)"

lemma tabs_differ [simp]: "tab_roas \<noteq> tab_parents" "tab_roas \<noteq> tab_repo" "tab_parents \<noteq> tab_roas"
  "tab_parents \<noteq> tab_repo" "tab_repo \<noteq> tab_roas" "tab_repo \<noteq> tab_parents"
  by (simp_all add: tab_roas_def tab_parents_def tab_repo_def js_def)

section \<open>Properties\<close>

text \<open>
  C40: On the start tab the order of the replies does not matter: the tab that is opened and the forms
  that are shown are the same whether the CA or its repository arrives first, for every pair of
  replies, and both orders are possible.\<close>

theorem start_tab_order_independent:
  "\<exists>v. map_option shown (details_run tr [CaReply h c, RepoReply h r] (details_created h None l)) = Some v \<and>
     map_option shown (details_run tr [RepoReply h r, CaReply h c] (details_created h None l)) = Some v"
  by (cases c; cases r) (auto simp: details_defs shown_def js_truthy_def)

text \<open>On another tab the order decides: for a CA without parents whose repository is configured the
  page opens the tab of the parents when the CA arrives first, and stays on the tab of its address
  when the repository arrives first.\<close>

lemma other_tab_depends_on_order:
  assumes "tab \<noteq> []" "tab \<noteq> tab_roas"
  shows "map_option activeTab (details_run tr [CaReply h (Reply a 0), RepoReply h (Reply b ())] (details_created h (Some tab) l)) =
      Some (Some tab_parents) \<and>
    map_option activeTab (details_run tr [RepoReply h (Reply b ()), CaReply h (Reply a 0)] (details_created h (Some tab) l)) =
      Some (Some tab)"
  using assms by (auto simp: details_defs js_truthy_def)

text \<open>A late reply is taken for the CA on display: after a switch from one CA to another the page has
  the data of the first CA under the handle of the second when the reply about the first comes
  last.\<close>

lemma late_reply_shows_other_ca:
  assumes "h \<noteq> g"
  shows "\<exists>d. details_run tr [Switch g tab, CaReply g (Reply a m), CaReply h (Reply b n)] (details_created h tab0 l) = Some d \<and>
    d_handle d = g \<and> ca d = Some (h, n)"
  using assms by (auto simp: details_defs)

text \<open>A switch to another CA opens the tab of the address that is left: the tab of the new address is
  overwritten before it is used.\<close>

lemma switch_keeps_old_tab:
  "\<exists>e. details_step tr (Switch h tab) d = Some e \<and> activeTab e = or_default (route_tab d) \<and> route_tab e = tab"
  by (simp add: details_defs)

end
